(* ===== verification/Prelude.thy ===== *)
theory Prelude
  imports Main "HOL-Library.Word"
begin

unbundle bit_operations_syntax

text \<open>
  What every component of the model shares: the types that stand for the Rust types of the
  client, the big-endian integer layout of the wire format, the result type of fallible code
  with its bind, the operations of the Rust standard library on strings that the source uses,
  and the lemmas about them. Text is a \<open>string\<close> whose characters are the bytes of the UTF-8
  form, as a Rust \<open>String\<close> is; durations are natural numbers of nanoseconds; \<open>u8\<close>, \<open>u16\<close>,
  \<open>u32\<close>, \<open>u64\<close> are words; an \<open>i32\<close> or \<open>i64\<close> is an integer, its conversions written out.
\<close>

section \<open>Types\<close>

type_synonym byte = "8 word"
type_synonym u16 = "16 word"
type_synonym u32 = "32 word"
type_synonym u64 = "64 word"
type_synonym i32 = int
type_synonym i64 = int
type_synonym duration = nat
type_synonym ('e, 'a) result = "'e + 'a"

named_theorems wire_simps \<open>layout of integers and frames\<close>
named_theorems str_simps \<open>string operations of the standard library\<close>

section \<open>Fallible code\<close>

text \<open>The question mark operator: the first error ends the computation.\<close>

fun rbind :: "'e + 'a \<Rightarrow> ('a \<Rightarrow> 'e + 'b) \<Rightarrow> 'e + 'b" where
  "rbind (Inl e) f = Inl e"
| "rbind (Inr x) f = f x"

fun rmap :: "('a \<Rightarrow> 'b) \<Rightarrow> 'e + 'a \<Rightarrow> 'e + 'b" where
  "rmap f (Inl e) = Inl e"
| "rmap f (Inr x) = Inr (f x)"

fun map_err :: "('e \<Rightarrow> 'f) \<Rightarrow> 'e + 'a \<Rightarrow> 'f + 'a" where
  "map_err f (Inl e) = Inl (f e)"
| "map_err f (Inr x) = Inr x"

fun is_ok :: "'e + 'a \<Rightarrow> bool" where
  "is_ok (Inl e) = False"
| "is_ok (Inr x) = True"

lemma rbind_Inr_iff: "rbind r f = Inr y \<longleftrightarrow> (\<exists>x. r = Inr x \<and> f x = Inr y)"
  by (cases r) auto

lemma rbind_Inl_iff: "rbind r f = Inl e \<longleftrightarrow> r = Inl e \<or> (\<exists>x. r = Inr x \<and> f x = Inl e)"
  by (cases r) auto

lemma rmap_Inr_iff: "rmap f r = Inr y \<longleftrightarrow> (\<exists>x. r = Inr x \<and> y = f x)"
  by (cases r) auto

lemma map_err_Inr_iff: "map_err f r = Inr y \<longleftrightarrow> r = Inr y"
  by (cases r) auto

lemma is_ok_iff: "is_ok r \<longleftrightarrow> (\<exists>x. r = Inr x)"
  by (cases r) auto

text \<open>
  \<open>try_join_all\<close> over independent computations that have all been given their answers: the
  values in order, or the error of the first one, in list order, that failed.
\<close>

fun try_join_all :: "('e + 'a) list \<Rightarrow> 'e + 'a list" where
  "try_join_all [] = Inr []"
| "try_join_all (r # rs) =
     (case r of Inl e \<Rightarrow> Inl e
      | Inr x \<Rightarrow> (case try_join_all rs of Inl e \<Rightarrow> Inl e | Inr xs \<Rightarrow> Inr (x # xs)))"

lemma try_join_all_Inr_iff: "try_join_all rs = Inr xs \<longleftrightarrow> rs = map Inr xs"
proof (induction rs arbitrary: xs)
  case Nil
  then show ?case by auto
next
  case (Cons r rs)
  show ?case
  proof (cases "try_join_all rs")
    case (Inl e)
    with Cons.IH have "\<And>ys. rs \<noteq> map Inr ys" by auto
    then show ?thesis using Inl by (auto split: sum.splits)
  next
    case (Inr ys)
    with Cons.IH have "rs = map Inr ys" by auto
    then show ?thesis using Inr by (cases xs) (auto split: sum.splits dest: map_injective)
  qed
qed

lemma try_join_all_map_Inr [simp]: "try_join_all (map Inr xs) = Inr xs"
  by (simp add: try_join_all_Inr_iff)

lemma try_join_all_Inl: "try_join_all rs = Inl e \<Longrightarrow> Inl e \<in> set rs"
  by (induction rs) (auto split: sum.splits)

section \<open>Big-endian integers\<close>

definition be16 :: "u16 \<Rightarrow> byte list" where
  "be16 w = [ucast (drop_bit 8 w), ucast w]"

definition be32 :: "u32 \<Rightarrow> byte list" where
  "be32 w = [ucast (drop_bit 24 w), ucast (drop_bit 16 w), ucast (drop_bit 8 w), ucast w]"

definition of_be16 :: "byte \<Rightarrow> byte \<Rightarrow> u16" where
  "of_be16 a b = push_bit 8 (ucast a) OR ucast b"

definition of_be32 :: "byte \<Rightarrow> byte \<Rightarrow> byte \<Rightarrow> byte \<Rightarrow> u32" where
  "of_be32 a b c d =
     push_bit 24 (ucast a) OR push_bit 16 (ucast b) OR push_bit 8 (ucast c) OR ucast d"

lemma length_be16 [simp, wire_simps]: "length (be16 w) = 2"
  by (simp add: be16_def)

lemma length_be32 [simp, wire_simps]: "length (be32 w) = 4"
  by (simp add: be32_def)

lemma of_be16_be16 [wire_simps]: "of_be16 (ucast (drop_bit 8 w)) (ucast w) = w"
  by (rule bit_word_eqI)
     (auto simp: of_be16_def bit_or_iff bit_push_bit_iff bit_ucast_iff bit_drop_bit_eq)

lemma of_be32_be32 [wire_simps]:
  "of_be32 (ucast (drop_bit 24 w)) (ucast (drop_bit 16 w)) (ucast (drop_bit 8 w)) (ucast w) = w"
proof (rule bit_word_eqI)
  fix n :: nat
  assume n: "n < LENGTH(32)"
  consider "n < 8" | k where "n = 8 + k" "k < 8" | k where "n = 16 + k" "k < 8"
    | k where "n = 24 + k" "k < 8"
  proof -
    have n32: "n < 32" using n by simp
    show ?thesis
    proof (cases "n < 8")
      case False
      note ge8 = this
      show ?thesis
      proof (cases "n < 16")
        case True
        with ge8 show ?thesis by (intro that(2) [of "n - 8"]) auto
      next
        case False
        with n32 show ?thesis
          by (cases "n < 24") (auto intro: that(3) [of "n - 16"] that(4) [of "n - 24"])
      qed
    qed (rule that(1))
  qed
  then show "bit (of_be32 (ucast (drop_bit 24 w)) (ucast (drop_bit 16 w))
      (ucast (drop_bit 8 w)) (ucast w)) n = bit w n"
    by cases (auto simp: of_be32_def bit_or_iff bit_push_bit_iff bit_ucast_iff bit_drop_bit_eq)
qed

text \<open>
  The \<open>as u32\<close> of a length, and the way back: a length below \<open>2 ^ 32\<close> survives.
\<close>

definition u32_of_usize :: "nat \<Rightarrow> u32" where
  "u32_of_usize n = of_nat n"

lemma unat_u32_of_usize: "n < 2 ^ 32 \<Longrightarrow> unat (u32_of_usize n) = n"
  by (simp add: u32_of_usize_def unat_of_nat take_bit_nat_eq_self)

text \<open>The \<open>as i32\<close> of an unsigned 32-bit value or of a length keeps the low 32 bits.\<close>

definition i32_of_u32 :: "u32 \<Rightarrow> i32" where
  "i32_of_u32 w = sint w"

definition i32_of_usize :: "nat \<Rightarrow> i32" where
  "i32_of_usize n = sint (of_nat n :: u32)"

lemma sint_of_nat_small: "n < 2 ^ 31 \<Longrightarrow> sint (of_nat n :: u32) = int n"
  by (simp add: signed_of_nat signed_take_bit_int_eq_self)

lemma i32_of_usize_small: "n < 2 ^ 31 \<Longrightarrow> i32_of_usize n = int n"
  by (simp add: i32_of_usize_def sint_of_nat_small)

end
