(* ===== verification/Errors.thy ===== *)
theory Errors
  imports Prelude
begin

text \<open>
  The error values of the client (\<open>src/src/error.rs\<close>): the broker's error codes and their
  decoding from the wire, the error enumerations of each layer and the conversions the
  question mark operator applies between them, the two classifications that decide whether a
  failure is retried, and the error slot a connection shares with its users.
\<close>

section \<open>Broker error codes\<close>

datatype server_err =
    UnknownError | MetadataError | PersistenceError | AuthenticationError | AuthorizationError
  | ConsumerBusy | ServiceNotReady | ProducerBlockedQuotaExceededError
  | ProducerBlockedQuotaExceededException | ChecksumError | UnsupportedVersionError
  | TopicNotFound | SubscriptionNotFound | ConsumerNotFound | TooManyRequests
  | TopicTerminatedError | ProducerBusy | InvalidTopicName | IncompatibleSchema
  | ConsumerAssignError | TransactionCoordinatorNotFound | InvalidTxnStatus | NotAllowedError
  | TransactionConflict | TransactionNotFound | ProducerFenced

text \<open>The number the protocol definition gives each code.\<close>

fun server_err_code :: "server_err \<Rightarrow> i32" where
  "server_err_code UnknownError = 0"
| "server_err_code MetadataError = 1"
| "server_err_code PersistenceError = 2"
| "server_err_code AuthenticationError = 3"
| "server_err_code AuthorizationError = 4"
| "server_err_code ConsumerBusy = 5"
| "server_err_code ServiceNotReady = 6"
| "server_err_code ProducerBlockedQuotaExceededError = 7"
| "server_err_code ProducerBlockedQuotaExceededException = 8"
| "server_err_code ChecksumError = 9"
| "server_err_code UnsupportedVersionError = 10"
| "server_err_code TopicNotFound = 11"
| "server_err_code SubscriptionNotFound = 12"
| "server_err_code ConsumerNotFound = 13"
| "server_err_code TooManyRequests = 14"
| "server_err_code TopicTerminatedError = 15"
| "server_err_code ProducerBusy = 16"
| "server_err_code InvalidTopicName = 17"
| "server_err_code IncompatibleSchema = 18"
| "server_err_code ConsumerAssignError = 19"
| "server_err_code TransactionCoordinatorNotFound = 20"
| "server_err_code InvalidTxnStatus = 21"
| "server_err_code NotAllowedError = 22"
| "server_err_code TransactionConflict = 23"
| "server_err_code TransactionNotFound = 24"
| "server_err_code ProducerFenced = 25"

definition server_error :: "i32 \<Rightarrow> server_err option" where
  "server_error i =
     (if i = 0 then Some UnknownError
      else if i = 1 then Some MetadataError
      else if i = 2 then Some PersistenceError
      else if i = 3 then Some AuthenticationError
      else if i = 4 then Some AuthorizationError
      else if i = 5 then Some ConsumerBusy
      else if i = 6 then Some ServiceNotReady
      else if i = 7 then Some ProducerBlockedQuotaExceededError
      else if i = 8 then Some ProducerBlockedQuotaExceededException
      else if i = 9 then Some ChecksumError
      else if i = 10 then Some UnsupportedVersionError
      else if i = 11 then Some TopicNotFound
      else if i = 12 then Some SubscriptionNotFound
      else if i = 13 then Some ConsumerNotFound
      else if i = 14 then Some TooManyRequests
      else if i = 15 then Some TopicTerminatedError
      else if i = 16 then Some ProducerBusy
      else if i = 17 then Some InvalidTopicName
      else if i = 18 then Some IncompatibleSchema
      else if i = 19 then Some ConsumerAssignError
      else if i = 20 then Some TransactionCoordinatorNotFound
      else if i = 21 then Some InvalidTxnStatus
      else if i = 22 then Some NotAllowedError
      else if i = 23 then Some TransactionConflict
      else if i = 24 then Some TransactionNotFound
      else if i = 25 then Some ProducerFenced
      else None)"

lemma server_error_code [simp]: "server_error (server_err_code e) = Some e"
  by (cases e) (simp_all add: server_error_def)

lemma server_error_SomeD: "server_error i = Some e \<Longrightarrow> i = server_err_code e"
  by (auto simp: server_error_def split: if_splits)

lemma server_error_None_iff: "server_error i = None \<longleftrightarrow> i < 0 \<or> 25 < i"
proof
  assume "server_error i = None"
  then show "i < 0 \<or> 25 < i"
    unfolding server_error_def by (simp split: if_splits) presburger
next
  assume "i < 0 \<or> 25 < i"
  then show "server_error i = None" by (auto simp: server_error_def)
qed

section \<open>The error enumerations\<close>

text \<open>
  The kinds of \<open>std::io::Error\<close> the source tells apart; every other kind is \<open>OtherIo\<close>.
  Payloads that only reach a log or a \<open>Display\<close> text are kept as strings.
\<close>

datatype io_kind =
    ConnectionRefused | ConnectionReset | ConnectionAborted | NotConnected | BrokenPipe
  | TimedOut | Interrupted | UnexpectedEof | OtherIo

datatype authentication_error = Custom_auth string | Retriable string

datatype connection_error =
    Io io_kind string
  | SlowDown
  | Disconnected
  | PulsarError "server_err option" "string option"
  | Unexpected string
  | NotSupported string
  | Decoding string
  | Encoding string
  | SocketAddr string
  | UnexpectedResponse string
  | Tls string
  | DnsName string
  | Authentication_conn authentication_error
  | NotFound_conn
  | Canceled_conn
  | Shutdown_conn

datatype consumer_error =
    Connection_consumer connection_error
  | MissingPayload string
  | Io_consumer io_kind string
  | ChannelFull
  | Closed_consumer
  | BuildError
  | UnsupportedChunkedMessage "string option" i32

datatype service_discovery_error =
    Connection_sd connection_error
  | Query "server_err option" "string option"
  | NotFound_sd
  | DnsLookupError
  | Canceled_sd
  | Shutdown_sd
  | Dummy

text \<open>
  A failed HTTP request says whether it timed out, whether it failed to connect, and a text.
\<close>

datatype request_error = RequestError (is_timeout: bool) (is_connect: bool) (request_text: string)

datatype admin_error =
    Request_adm request_error
  | NotFound_adm string
  | Conflict string
  | BadRequest string
  | NotAuthorized string
  | PreconditionFailed string
  | NotAllowed string
  | NotSupported_adm string
  | ServerUnavailable string
  | Http nat string
  | Decode string
  | SchemaDecode string
  | InvalidSchemaType string
  | InvalidTopic string
  | TlsConfig string

text \<open>
  A producer's error can hold errors of the client, whose type is a parameter here. A send future
  inside a partial-send report is the number of its receipt channel.
\<close>

datatype 'e producer_error =
    Connection_producer connection_error
  | Custom_producer string
  | Io_producer io_kind string
  | PartialSend "('e + nat) list"
  | Batch 'e
  | Fenced
  | Closed_producer

datatype error =
    Connection connection_error
  | Consumer consumer_error
  | Producer "error producer_error"
  | ServiceDiscovery service_discovery_error
  | Authentication authentication_error
  | Custom string
  | Executor
  | Admin admin_error

section \<open>Retry classification of connection errors\<close>

fun establish_retryable :: "connection_error \<Rightarrow> bool" where
  "establish_retryable (Io k m) = (k = ConnectionRefused \<or> k = TimedOut)"
| "establish_retryable (Authentication_conn (Retriable m)) = True"
| "establish_retryable _ = False"

text \<open>How a refused channel send is reported.\<close>

datatype try_send_error = Full | Closed_chan

fun from_try_send_error :: "try_send_error \<Rightarrow> connection_error" where
  "from_try_send_error Full = SlowDown"
| "from_try_send_error Closed_chan = Disconnected"

fun from_mpsc_send_error :: "try_send_error \<Rightarrow> consumer_error" where
  "from_mpsc_send_error e = (if e = Full then ChannelFull else Closed_consumer)"

section \<open>The shared error slot of a connection\<close>

record shared_error =
  error_set :: bool
  slot :: "connection_error option"

definition shared_error_new :: shared_error where
  "shared_error_new = \<lparr>error_set = False, slot = None\<rparr>"

definition is_set :: "shared_error \<Rightarrow> bool" where
  "is_set s = error_set s"

definition shared_error_remove :: "shared_error \<Rightarrow> connection_error option \<times> shared_error" where
  "shared_error_remove s = (slot s, s\<lparr>slot := None, error_set := False\<rparr>)"

definition shared_error_set :: "connection_error \<Rightarrow> shared_error \<Rightarrow> shared_error" where
  "shared_error_set e s = s\<lparr>slot := Some e, error_set := True\<rparr>"

definition shared_error_inv :: "shared_error \<Rightarrow> bool" where
  "shared_error_inv s \<longleftrightarrow> (error_set s \<longleftrightarrow> slot s \<noteq> None)"

lemma shared_error_inv_new: "shared_error_inv shared_error_new"
  by (simp add: shared_error_inv_def shared_error_new_def)

lemma shared_error_inv_set: "shared_error_inv (shared_error_set e s)"
  by (simp add: shared_error_inv_def shared_error_set_def)

lemma shared_error_inv_remove: "shared_error_inv (snd (shared_error_remove s))"
  by (simp add: shared_error_inv_def shared_error_remove_def)

lemma is_set_set [simp]: "is_set (shared_error_set e s)"
  by (simp add: is_set_def shared_error_set_def)

lemma is_set_new [simp]: "\<not> is_set shared_error_new"
  by (simp add: is_set_def shared_error_new_def)

lemma is_set_remove [simp]: "\<not> is_set (snd (shared_error_remove s))"
  by (simp add: is_set_def shared_error_remove_def)

section \<open>Properties\<close>

text \<open>
  Decoding a broker error code is the exact inverse of the protocol's numbering: a number
  decodes to a code precisely when it is that code's number, and to nothing precisely when
  it lies outside 0 to 25.
\<close>

theorem server_error_exact:
  "(server_error i = Some e \<longleftrightarrow> i = server_err_code e)
   \<and> (server_error i = None \<longleftrightarrow> i < 0 \<or> 25 < i)"
  using server_error_SomeD server_error_None_iff by auto

end
