(* ===== verification/Names.thy ===== *)
theory Names
  imports Prelude "HOL-Library.Sublist"
begin

text \<open>
  Strings and topic names: the UTF-8 and UTF-16 views of a Rust string, decimal numbers,
  \<open>rsplit_once\<close> and \<open>str::parse\<close>, and the two functions that read a partition number off a
  topic name (\<open>partition_index\<close> of \<open>producer.rs\<close>, \<open>is_topic_partition_name\<close> of
  \<open>service_discovery.rs\<close>) with the names the lookup generates.
\<close>

section \<open>Bytes, code points and UTF-16 units of a string\<close>

definition as_bytes :: "string \<Rightarrow> byte list" where
  "as_bytes s = map of_char s"

definition from_bytes :: "byte list \<Rightarrow> string" where
  "from_bytes bs = map (\<lambda>b. char_of (unat b)) bs"

lemma from_bytes_as_bytes [simp]: "from_bytes (as_bytes s) = s"
proof -
  have "char_of (unat (of_char c :: byte)) = c" for c
  proof -
    have "(of_char c :: byte) = of_nat (of_char c)" by (simp only: of_nat_of_char)
    then have "unat (of_char c :: byte) = (of_char c :: nat) mod 2 ^ 8"
      by (simp add: unat_of_nat take_bit_eq_mod)
    then show ?thesis by simp
  qed
  then show ?thesis by (simp add: from_bytes_def as_bytes_def map_idI)
qed

lemma as_bytes_from_bytes [simp]: "as_bytes (from_bytes bs) = bs"
proof -
  have "(of_char (char_of (unat b) :: char) :: byte) = b" for b :: byte
  proof -
    have "(of_char (char_of (unat b) :: char) :: byte) = of_nat (of_char (char_of (unat b) :: char))"
      by (simp only: of_nat_of_char)
    moreover have "unat b < 256" using unsigned_less [of b] by simp
    ultimately show ?thesis by simp
  qed
  then show ?thesis by (simp add: from_bytes_def as_bytes_def map_idI)
qed

lemma as_bytes_inject [simp]: "as_bytes s = as_bytes t \<longleftrightarrow> s = t"
  by (metis from_bytes_as_bytes)

lemma length_as_bytes [simp]: "length (as_bytes s) = length s"
  by (simp add: as_bytes_def)

text \<open>
  The Unicode scalar values of well-formed UTF-8 text. A Rust string is always well-formed;
  a truncated sequence, which cannot occur in one, ends the list.
\<close>

fun utf8_scalars :: "nat list \<Rightarrow> nat list" where
  "utf8_scalars [] = []"
| "utf8_scalars (a # bs) =
     (if a < 128 then a # utf8_scalars bs
      else if a < 224 then
        (case bs of b # r \<Rightarrow> ((a mod 32) * 64 + b mod 64) # utf8_scalars r | _ \<Rightarrow> [])
      else if a < 240 then
        (case bs of b # c # r \<Rightarrow>
           ((a mod 16) * 4096 + (b mod 64) * 64 + c mod 64) # utf8_scalars r | _ \<Rightarrow> [])
      else
        (case bs of b # c # d # r \<Rightarrow>
           ((a mod 8) * 262144 + (b mod 64) * 4096 + (c mod 64) * 64 + d mod 64)
             # utf8_scalars r | _ \<Rightarrow> []))"

definition chars :: "string \<Rightarrow> nat list" where
  "chars s = utf8_scalars (map of_char s)"

definition encode_utf16 :: "string \<Rightarrow> u16 list" where
  "encode_utf16 s = concat (map (\<lambda>c.
     if c < 65536 then [of_nat c]
     else [of_nat (55296 + (c - 65536) div 1024), of_nat (56320 + (c - 65536) mod 1024)])
     (chars s))"

section \<open>Decimal numbers\<close>

fun show_nat :: "nat \<Rightarrow> string" where
  "show_nat n = (if n < 10 then [char_of (48 + n)]
                 else show_nat (n div 10) @ [char_of (48 + n mod 10)])"

declare show_nat.simps [simp del]

definition show_int :: "int \<Rightarrow> string" where
  "show_int i = (if i < 0 then ''-'' @ show_nat (nat (- i)) else show_nat (nat i))"

definition is_ascii_digit :: "char \<Rightarrow> bool" where
  "is_ascii_digit c \<longleftrightarrow> 48 \<le> (of_char c :: nat) \<and> (of_char c :: nat) \<le> 57"

definition digits_value :: "string \<Rightarrow> nat" where
  "digits_value ds = foldl (\<lambda>v c. v * 10 + (of_char c - 48)) 0 ds"

text \<open>
  \<open>str::parse::<usize>\<close>: an optional leading plus sign, then at least one digit, and a value
  that fits 64 bits.
\<close>

definition parse_usize :: "string \<Rightarrow> nat option" where
  "parse_usize s =
     (let ds = (case s of c # r \<Rightarrow> (if c = CHR ''+'' then r else s) | [] \<Rightarrow> s)
      in if ds \<noteq> [] \<and> list_all is_ascii_digit ds \<and> digits_value ds < 2 ^ 64
         then Some (digits_value ds) else None)"

lemma show_nat_nonempty [simp]: "show_nat n \<noteq> []"
  by (subst show_nat.simps) simp

lemma of_char_digit: "n < 10 \<Longrightarrow> (of_char (char_of (48 + n) :: char) :: nat) = 48 + n"
  by (simp add: of_char_of)

lemma is_ascii_digit_char_of: "(n :: nat) < 10 \<Longrightarrow> is_ascii_digit (char_of (48 + n))"
  by (simp add: is_ascii_digit_def of_char_digit)

lemma show_nat_digits: "list_all is_ascii_digit (show_nat n)"
proof (induction n rule: show_nat.induct)
  case (1 n)
  then show ?case
    by (subst show_nat.simps) (simp add: is_ascii_digit_char_of)
qed

lemma digits_value_snoc: "digits_value (ds @ [c]) = digits_value ds * 10 + (of_char c - 48)"
  by (simp add: digits_value_def)

lemma digits_value_show_nat [simp]: "digits_value (show_nat n) = n"
proof (induction n rule: show_nat.induct)
  case (1 n)
  then show ?case
    by (subst show_nat.simps)
       (auto simp: digits_value_snoc of_char_digit digits_value_def [of "[_]"])
qed

lemma show_nat_inject [simp]: "show_nat m = show_nat n \<longleftrightarrow> m = n"
  by (metis digits_value_show_nat)

lemma show_nat_no_char: "\<not> is_ascii_digit c \<Longrightarrow> c \<notin> set (show_nat n)"
  using show_nat_digits [of n] by (auto simp: list_all_iff)

lemma parse_usize_show_nat: "n < 2 ^ 64 \<Longrightarrow> parse_usize (show_nat n) = Some n"
proof -
  assume n: "n < 2 ^ 64"
  obtain c r where s: "show_nat n = c # r" by (cases "show_nat n") auto
  have "CHR ''+'' \<notin> set (show_nat n)"
    by (rule show_nat_no_char) (simp add: is_ascii_digit_def)
  with s have "c \<noteq> CHR ''+''" by auto
  then show ?thesis
    using n s show_nat_digits [of n] digits_value_show_nat [of n] by (simp add: parse_usize_def)
qed

section \<open>Splitting at the last separator\<close>

fun rsplit_once :: "string \<Rightarrow> string \<Rightarrow> (string \<times> string) option" where
  "rsplit_once sep [] = (if sep = [] then Some ([], []) else None)"
| "rsplit_once sep (c # cs) =
     (case rsplit_once sep cs of
        Some (p, q) \<Rightarrow> Some (c # p, q)
      | None \<Rightarrow> (if take (length sep) (c # cs) = sep then Some ([], drop (length sep) (c # cs))
                else None))"

lemma rsplit_once_Some: "rsplit_once sep s = Some (p, q) \<Longrightarrow> s = p @ sep @ q"
proof (induction s arbitrary: p)
  case Nil
  then show ?case by (auto split: if_splits)
next
  case (Cons c cs)
  then show ?case
    by (auto split: option.splits if_splits) (metis append_take_drop_id)
qed

lemma rsplit_once_None_iff: "rsplit_once sep s = None \<longleftrightarrow> (\<forall>i \<le> length s. take (length sep) (drop i s) \<noteq> sep)"
proof (induction s)
  case Nil
  then show ?case by auto
next
  case (Cons c cs)
  have "(\<forall>i \<le> Suc n. P i) \<longleftrightarrow> P 0 \<and> (\<forall>i \<le> n. P (Suc i))" for n and P :: "nat \<Rightarrow> bool"
    by (metis Suc_le_mono not0_implies_Suc zero_le)
  from this [of "length cs" "\<lambda>i. take (length sep) (drop i (c # cs)) \<noteq> sep"]
  have "(\<forall>i \<le> length (c # cs). take (length sep) (drop i (c # cs)) \<noteq> sep) \<longleftrightarrow>
    take (length sep) (c # cs) \<noteq> sep \<and> (\<forall>i \<le> length cs. take (length sep) (drop i cs) \<noteq> sep)"
    by (simp only: list.size drop_Suc_Cons drop0 add_0_right add_Suc_right One_nat_def)
  then show ?case
    unfolding rsplit_once.simps Cons.IH [symmetric] by (simp split: option.split)
qed

lemma rsplit_once_last:
  assumes "rsplit_once sep (tl (sep @ q)) = None" and "sep \<noteq> []"
  shows "rsplit_once sep (p @ sep @ q) = Some (p, q)"
proof (induction p)
  case Nil
  obtain c cs where eq: "sep @ q = c # cs"
    using assms(2) by (cases "sep @ q") auto
  then have none: "rsplit_once sep cs = None"
    using assms(1) by simp
  have "take (length sep) (c # cs) = sep" "drop (length sep) (c # cs) = q"
    by (simp_all flip: eq)
  then have "rsplit_once sep (c # cs) = Some ([], q)"
    by (simp only: rsplit_once.simps none) simp
  then show ?case by (simp add: eq)
next
  case (Cons c p)
  then show ?case by simp
qed

section \<open>Partition names\<close>

abbreviation partition_sep :: string where
  "partition_sep \<equiv> ''-partition-''"

text \<open>The names \<open>lookup_partitioned_topic\<close> builds with \<open>format!\<close>.\<close>

definition partition_name :: "string \<Rightarrow> nat \<Rightarrow> string" where
  "partition_name topic n = topic @ partition_sep @ show_nat n"

definition partition_index :: "string \<Rightarrow> nat option" where
  "partition_index topic =
     (case rsplit_once partition_sep topic of
        None \<Rightarrow> None
      | Some (pre, index) \<Rightarrow> if pre = [] then None else parse_usize index)"

definition is_topic_partition_name :: "string \<Rightarrow> bool" where
  "is_topic_partition_name topic =
     (case rsplit_once partition_sep topic of
        Some (pre, index) \<Rightarrow> pre \<noteq> [] \<and> index \<noteq> [] \<and> list_all is_ascii_digit index
      | None \<Rightarrow> False)"

text \<open>
  The separator has its only \<open>p\<close> in second place, so it cannot start again inside itself, and
  digits cannot continue it.
\<close>

lemma no_sep_after_sep:
  assumes "list_all is_ascii_digit ds"
  shows "rsplit_once partition_sep (tl (partition_sep @ ds)) = None"
proof -
  have nop: "CHR ''p'' \<notin> set ds"
    using assms by (auto simp: list_all_iff is_ascii_digit_def)
  let ?s = "tl (partition_sep @ ds)"
  have "CHR ''p'' \<in> set (tl u)" if "u = partition_sep" for u
    using that by simp
  moreover have "CHR ''p'' \<notin> set (tl (drop i ?s))" for i
    using nop set_drop_subset [of "i" "''artition-'' @ ds"]
    by (cases i) (auto simp: tl_drop simp flip: drop_Suc dest: in_set_dropD)
  ultimately have "take (length partition_sep) (drop i ?s) \<noteq> partition_sep" for i
    by (metis tl_take in_set_takeD)
  then show ?thesis by (simp only: rsplit_once_None_iff) simp
qed

lemma rsplit_partition_name:
  "rsplit_once partition_sep (partition_name t n) = Some (t, show_nat n)"
  unfolding partition_name_def
  by (rule rsplit_once_last [OF no_sep_after_sep [OF show_nat_digits]]) simp

lemma partition_index_name: "t \<noteq> [] \<Longrightarrow> n < 2 ^ 64 \<Longrightarrow> partition_index (partition_name t n) = Some n"
  by (simp add: partition_index_def rsplit_partition_name parse_usize_show_nat)

lemma is_topic_partition_name_name: "t \<noteq> [] \<Longrightarrow> is_topic_partition_name (partition_name t n)"
  by (simp add: is_topic_partition_name_def rsplit_partition_name show_nat_digits)

lemma partition_name_inject [simp]: "partition_name t m = partition_name t n \<longleftrightarrow> m = n"
  by (simp add: partition_name_def)

lemma partition_name_neq [simp]: "partition_name t n \<noteq> t"
  by (simp add: partition_name_def)

text \<open>The two readers of a name agree on every name the lookup's test accepts.\<close>

lemma is_topic_partition_name_index:
  assumes "is_topic_partition_name s"
  shows "\<exists>t ds. s = t @ partition_sep @ ds \<and> t \<noteq> [] \<and>
    partition_index s = (if digits_value ds < 2 ^ 64 then Some (digits_value ds) else None)"
proof -
  obtain t ds where r: "rsplit_once partition_sep s = Some (t, ds)"
    and "t \<noteq> []" "ds \<noteq> []" and ds: "list_all is_ascii_digit ds"
    using assms by (auto simp: is_topic_partition_name_def split: option.splits)
  obtain c r' where "ds = c # r'" using \<open>ds \<noteq> []\<close> by (cases ds) auto
  then have "c \<noteq> CHR ''+''" using ds by (auto simp: is_ascii_digit_def)
  then have "partition_index s = (if digits_value ds < 2 ^ 64 then Some (digits_value ds) else None)"
    using r \<open>t \<noteq> []\<close> ds \<open>ds = c # r'\<close> by (simp add: partition_index_def parse_usize_def)
  then show ?thesis using rsplit_once_Some [OF r] \<open>t \<noteq> []\<close> by blast
qed

end
