(* ===== verification/Proto.thy ===== *)
theory Proto
  imports Errors
begin

text \<open>
  The protocol messages of \<open>src/PulsarApi.proto\<close> that the client builds or reads, one record
  per message with the fields in the order of the file: required fields as they are, optional
  ones as options, repeated ones as lists, enumerations as the \<open>i32\<close> the generated structs
  hold. A \<open>double\<close> (statistics only) is its 64-bit pattern. Of \<open>CommandSubscribe\<close> and
  \<open>CommandAck\<close> the nested messages \<open>keySharedMeta\<close> and \<open>properties\<close>, which the client never
  sets nor reads, are left out, as are the commands of the transaction protocol.
\<close>

section \<open>Message identifiers\<close>

text \<open>The identifier of a chunked message contains the identifier of its first chunk.\<close>

datatype message_id_data = MessageIdData
  (ledger_id: u64) (entry_id: u64) (id_partition: "i32 option") (id_batch_index: "i32 option")
  (id_ack_set: "i64 list") (id_batch_size: "i32 option")
  (first_chunk_message_id: "message_id_data option")

fun with_batch :: "i32 option \<Rightarrow> i32 option \<Rightarrow> message_id_data \<Rightarrow> message_id_data" where
  "with_batch bi bs (MessageIdData l e p bi' a bs' fc) = MessageIdData l e p bi a bs fc"

lemma with_batch_simps [simp]:
  "ledger_id (with_batch bi bs m) = ledger_id m" "entry_id (with_batch bi bs m) = entry_id m"
  "id_partition (with_batch bi bs m) = id_partition m" "id_ack_set (with_batch bi bs m) = id_ack_set m"
  "id_batch_index (with_batch bi bs m) = bi" "id_batch_size (with_batch bi bs m) = bs"
  "first_chunk_message_id (with_batch bi bs m) = first_chunk_message_id m"
  by (cases m; simp)+

section \<open>Messages\<close>

record key_value =
  kv_key :: string
  kv_value :: string

record schema =
  sch_name :: string
  sch_schema_data :: "byte list"
  sch_type :: i32
  sch_properties :: "key_value list"

record encryption_keys =
  ek_key :: string
  ek_value :: "byte list"
  ek_metadata :: "key_value list"

record metadata =
  md_producer_name :: string
  md_sequence_id :: u64
  md_publish_time :: u64
  md_properties :: "key_value list"
  md_replicated_from :: "string option"
  md_partition_key :: "string option"
  md_replicate_to :: "string list"
  md_compression :: "i32 option"
  md_uncompressed_size :: "u32 option"
  md_num_messages_in_batch :: "i32 option"
  md_event_time :: "u64 option"
  md_encryption_keys :: "encryption_keys list"
  md_encryption_algo :: "string option"
  md_encryption_param :: "(byte list) option"
  md_schema_version :: "(byte list) option"
  md_partition_key_b64_encoded :: "bool option"
  md_ordering_key :: "(byte list) option"
  md_deliver_at_time :: "i64 option"
  md_marker_type :: "i32 option"
  md_txnid_least_bits :: "u64 option"
  md_txnid_most_bits :: "u64 option"
  md_highest_sequence_id :: "u64 option"
  md_null_value :: "bool option"
  md_uuid :: "string option"
  md_num_chunks_from_msg :: "i32 option"
  md_total_chunk_msg_size :: "i32 option"
  md_chunk_id :: "i32 option"
  md_null_partition_key :: "bool option"
  md_compacted_batch_indexes :: "i32 list"
  md_schema_id :: "(byte list) option"
  md_entry_hash_min :: "u32 option"
  md_entry_hash_max :: "u32 option"

record single_metadata =
  sm_properties :: "key_value list"
  sm_partition_key :: "string option"
  sm_payload_size :: i32
  sm_compacted_out :: "bool option"
  sm_event_time :: "u64 option"
  sm_partition_key_b64_encoded :: "bool option"
  sm_ordering_key :: "(byte list) option"
  sm_sequence_id :: "u64 option"
  sm_null_value :: "bool option"
  sm_null_partition_key :: "bool option"

record feature_flags =
  ff_supports_auth_refresh :: "bool option"
  ff_supports_broker_entry_metadata :: "bool option"
  ff_supports_partial_producer :: "bool option"
  ff_supports_topic_watchers :: "bool option"
  ff_supports_get_partitioned_metadata_without_auto_creation :: "bool option"
  ff_supports_repl_dedup_by_lid_and_eid :: "bool option"
  ff_supports_topic_watcher_reconcile :: "bool option"
  ff_supports_scalable_topics :: "bool option"
  ff_supports_tc_metadata_discovery :: "bool option"

record auth_data_msg =
  ad_auth_method_name :: "string option"
  ad_auth_data :: "(byte list) option"

record command_connect =
  cn_client_version :: string
  cn_auth_method :: "i32 option"
  cn_auth_method_name :: "string option"
  cn_auth_data :: "(byte list) option"
  cn_protocol_version :: "i32 option"
  cn_proxy_to_broker_url :: "string option"
  cn_original_principal :: "string option"
  cn_original_auth_data :: "string option"
  cn_original_auth_method :: "string option"
  cn_feature_flags :: "feature_flags option"
  cn_proxy_version :: "string option"

record command_connected =
  cd_server_version :: string
  cd_protocol_version :: "i32 option"
  cd_max_message_size :: "i32 option"
  cd_feature_flags :: "feature_flags option"

record command_auth_response =
  ar_client_version :: "string option"
  ar_response :: "auth_data_msg option"
  ar_protocol_version :: "i32 option"

record command_auth_challenge =
  ac_server_version :: "string option"
  ac_challenge :: "auth_data_msg option"
  ac_protocol_version :: "i32 option"

record command_subscribe =
  sub_topic :: string
  sub_subscription :: string
  sub_sub_type :: i32
  sub_consumer_id :: u64
  sub_request_id :: u64
  sub_consumer_name :: "string option"
  sub_priority_level :: "i32 option"
  sub_durable :: "bool option"
  sub_start_message_id :: "message_id_data option"
  sub_metadata :: "key_value list"
  sub_read_compacted :: "bool option"
  sub_schema :: "schema option"
  sub_initial_position :: "i32 option"
  sub_replicate_subscription_state :: "bool option"
  sub_force_topic_creation :: "bool option"
  sub_start_message_rollback_duration_sec :: "u64 option"
  sub_subscription_properties :: "key_value list"
  sub_consumer_epoch :: "u64 option"

record command_partitioned_metadata =
  ptm_topic :: string
  ptm_request_id :: u64
  ptm_original_principal :: "string option"
  ptm_original_auth_data :: "string option"
  ptm_original_auth_method :: "string option"
  ptm_metadata_auto_creation_enabled :: "bool option"

record command_partitioned_metadata_response =
  ptr_partitions :: "u32 option"
  ptr_request_id :: u64
  ptr_response :: "i32 option"
  ptr_error :: "i32 option"
  ptr_message :: "string option"

record command_lookup_topic =
  lt_topic :: string
  lt_request_id :: u64
  lt_authoritative :: "bool option"
  lt_original_principal :: "string option"
  lt_original_auth_data :: "string option"
  lt_original_auth_method :: "string option"
  lt_advertised_listener_name :: "string option"

record command_lookup_topic_response =
  lr_broker_service_url :: "string option"
  lr_broker_service_url_tls :: "string option"
  lr_response :: "i32 option"
  lr_request_id :: u64
  lr_authoritative :: "bool option"
  lr_error :: "i32 option"
  lr_message :: "string option"
  lr_proxy_through_service_url :: "bool option"

record command_producer =
  cp_topic :: string
  cp_producer_id :: u64
  cp_request_id :: u64
  cp_producer_name :: "string option"
  cp_encrypted :: "bool option"
  cp_metadata :: "key_value list"
  cp_schema :: "schema option"
  cp_epoch :: "u64 option"
  cp_user_provided_producer_name :: "bool option"
  cp_producer_access_mode :: "i32 option"
  cp_topic_epoch :: "u64 option"
  cp_txn_enabled :: "bool option"
  cp_initial_subscription_name :: "string option"

record command_send =
  cs_producer_id :: u64
  cs_sequence_id :: u64
  cs_num_messages :: "i32 option"
  cs_txnid_least_bits :: "u64 option"
  cs_txnid_most_bits :: "u64 option"
  cs_highest_sequence_id :: "u64 option"
  cs_is_chunk :: "bool option"
  cs_marker :: "bool option"
  cs_message_id :: "message_id_data option"

record command_send_receipt =
  sr_producer_id :: u64
  sr_sequence_id :: u64
  sr_message_id :: "message_id_data option"
  sr_highest_sequence_id :: "u64 option"

record command_send_error =
  se_producer_id :: u64
  se_sequence_id :: u64
  se_error :: i32
  se_message :: string

record command_message =
  cm_consumer_id :: u64
  cm_message_id :: message_id_data
  cm_redelivery_count :: "u32 option"
  cm_ack_set :: "i64 list"
  cm_consumer_epoch :: "u64 option"

record command_ack =
  ak_consumer_id :: u64
  ak_ack_type :: i32
  ak_message_id :: "message_id_data list"
  ak_validation_error :: "i32 option"
  ak_txnid_least_bits :: "u64 option"
  ak_txnid_most_bits :: "u64 option"
  ak_request_id :: "u64 option"

record command_active_consumer_change =
  acc_consumer_id :: u64
  acc_is_active :: "bool option"

record command_flow =
  fl_consumer_id :: u64
  fl_message_permits :: u32

record command_unsubscribe =
  us_consumer_id :: u64
  us_request_id :: u64

record command_seek =
  sk_consumer_id :: u64
  sk_request_id :: u64
  sk_message_id :: "message_id_data option"
  sk_message_publish_time :: "u64 option"

record command_reached_end_of_topic =
  eot_consumer_id :: u64

record command_close_producer =
  clp_producer_id :: u64
  clp_request_id :: u64
  clp_assigned_broker_service_url :: "string option"
  clp_assigned_broker_service_url_tls :: "string option"

record command_close_consumer =
  clc_consumer_id :: u64
  clc_request_id :: u64
  clc_assigned_broker_service_url :: "string option"
  clc_assigned_broker_service_url_tls :: "string option"

record command_redeliver =
  rd_consumer_id :: u64
  rd_message_ids :: "message_id_data list"
  rd_consumer_epoch :: "u64 option"

record command_success =
  suc_request_id :: u64
  suc_schema :: "schema option"

record command_producer_success =
  ps_request_id :: u64
  ps_producer_name :: string
  ps_last_sequence_id :: "i64 option"
  ps_schema_version :: "(byte list) option"
  ps_topic_epoch :: "u64 option"
  ps_producer_ready :: "bool option"

record command_error =
  er_request_id :: u64
  er_error :: i32
  er_message :: string

record command_consumer_stats =
  cst_request_id :: u64
  cst_consumer_id :: u64

record command_consumer_stats_response =
  csr_request_id :: u64
  csr_error_code :: "i32 option"
  csr_error_message :: "string option"
  csr_msg_rate_out :: "u64 option"
  csr_msg_throughput_out :: "u64 option"
  csr_msg_rate_redeliver :: "u64 option"
  csr_consumer_name :: "string option"
  csr_available_permits :: "u64 option"
  csr_unacked_messages :: "u64 option"
  csr_blocked_consumer_on_unacked_msgs :: "bool option"
  csr_address :: "string option"
  csr_connected_since :: "string option"
  csr_type :: "string option"
  csr_msg_rate_expired :: "u64 option"
  csr_msg_backlog :: "u64 option"
  csr_message_ack_rate :: "u64 option"

record command_get_last_message_id =
  gl_consumer_id :: u64
  gl_request_id :: u64

record command_get_last_message_id_response =
  glr_last_message_id :: message_id_data
  glr_request_id :: u64
  glr_consumer_mark_delete_position :: "message_id_data option"

record command_get_topics_of_namespace =
  gt_request_id :: u64
  gt_namespace :: string
  gt_mode :: "i32 option"
  gt_topics_pattern :: "string option"
  gt_topics_hash :: "string option"
  gt_properties :: "key_value list"

record command_get_topics_of_namespace_response =
  gtr_request_id :: u64
  gtr_topics :: "string list"
  gtr_filtered :: "bool option"
  gtr_topics_hash :: "string option"
  gtr_changed :: "bool option"

record command_get_schema =
  gs_request_id :: u64
  gs_topic :: string
  gs_schema_version :: "(byte list) option"

record command_get_schema_response =
  gsr_request_id :: u64
  gsr_error_code :: "i32 option"
  gsr_error_message :: "string option"
  gsr_schema :: "schema option"
  gsr_schema_version :: "(byte list) option"


text \<open>The envelope: a type number and at most one command set in well-formed traffic.\<close>

record base_command =
  cmd_type :: i32
  connect :: "command_connect option"
  connected :: "command_connected option"
  subscribe :: "command_subscribe option"
  producer :: "command_producer option"
  send :: "command_send option"
  send_receipt :: "command_send_receipt option"
  send_error :: "command_send_error option"
  message :: "command_message option"
  ack :: "command_ack option"
  flow :: "command_flow option"
  unsubscribe :: "command_unsubscribe option"
  success :: "command_success option"
  error_cmd :: "command_error option"
  close_producer :: "command_close_producer option"
  close_consumer :: "command_close_consumer option"
  producer_success :: "command_producer_success option"
  ping :: "unit option"
  pong :: "unit option"
  redeliver :: "command_redeliver option"
  partition_metadata :: "command_partitioned_metadata option"
  partition_metadata_response :: "command_partitioned_metadata_response option"
  lookup_topic :: "command_lookup_topic option"
  lookup_topic_response :: "command_lookup_topic_response option"
  consumer_stats :: "command_consumer_stats option"
  consumer_stats_response :: "command_consumer_stats_response option"
  reached_end_of_topic :: "command_reached_end_of_topic option"
  seek :: "command_seek option"
  get_last_message_id :: "command_get_last_message_id option"
  get_last_message_id_response :: "command_get_last_message_id_response option"
  active_consumer_change :: "command_active_consumer_change option"
  get_topics_of_namespace :: "command_get_topics_of_namespace option"
  get_topics_of_namespace_response :: "command_get_topics_of_namespace_response option"
  get_schema :: "command_get_schema option"
  get_schema_response :: "command_get_schema_response option"
  auth_challenge :: "command_auth_challenge option"
  auth_response :: "command_auth_response option"

section \<open>Defaults of the generated structs\<close>

definition metadata_default :: metadata where
  "metadata_default =
    \<lparr>md_producer_name = [],
     md_sequence_id = 0,
     md_publish_time = 0,
     md_properties = [],
     md_replicated_from = None,
     md_partition_key = None,
     md_replicate_to = [],
     md_compression = None,
     md_uncompressed_size = None,
     md_num_messages_in_batch = None,
     md_event_time = None,
     md_encryption_keys = [],
     md_encryption_algo = None,
     md_encryption_param = None,
     md_schema_version = None,
     md_partition_key_b64_encoded = None,
     md_ordering_key = None,
     md_deliver_at_time = None,
     md_marker_type = None,
     md_txnid_least_bits = None,
     md_txnid_most_bits = None,
     md_highest_sequence_id = None,
     md_null_value = None,
     md_uuid = None,
     md_num_chunks_from_msg = None,
     md_total_chunk_msg_size = None,
     md_chunk_id = None,
     md_null_partition_key = None,
     md_compacted_batch_indexes = [],
     md_schema_id = None,
     md_entry_hash_min = None,
     md_entry_hash_max = None\<rparr>"

definition single_metadata_default :: single_metadata where
  "single_metadata_default =
    \<lparr>sm_properties = [],
     sm_partition_key = None,
     sm_payload_size = 0,
     sm_compacted_out = None,
     sm_event_time = None,
     sm_partition_key_b64_encoded = None,
     sm_ordering_key = None,
     sm_sequence_id = None,
     sm_null_value = None,
     sm_null_partition_key = None\<rparr>"

definition feature_flags_default :: feature_flags where
  "feature_flags_default =
    \<lparr>ff_supports_auth_refresh = None,
     ff_supports_broker_entry_metadata = None,
     ff_supports_partial_producer = None,
     ff_supports_topic_watchers = None,
     ff_supports_get_partitioned_metadata_without_auto_creation = None,
     ff_supports_repl_dedup_by_lid_and_eid = None,
     ff_supports_topic_watcher_reconcile = None,
     ff_supports_scalable_topics = None,
     ff_supports_tc_metadata_discovery = None\<rparr>"

definition command_connect_default :: command_connect where
  "command_connect_default =
    \<lparr>cn_client_version = [],
     cn_auth_method = None,
     cn_auth_method_name = None,
     cn_auth_data = None,
     cn_protocol_version = None,
     cn_proxy_to_broker_url = None,
     cn_original_principal = None,
     cn_original_auth_data = None,
     cn_original_auth_method = None,
     cn_feature_flags = None,
     cn_proxy_version = None\<rparr>"

definition command_auth_response_default :: command_auth_response where
  "command_auth_response_default =
    \<lparr>ar_client_version = None,
     ar_response = None,
     ar_protocol_version = None\<rparr>"

definition command_subscribe_default :: command_subscribe where
  "command_subscribe_default =
    \<lparr>sub_topic = [],
     sub_subscription = [],
     sub_sub_type = 0,
     sub_consumer_id = 0,
     sub_request_id = 0,
     sub_consumer_name = None,
     sub_priority_level = None,
     sub_durable = None,
     sub_start_message_id = None,
     sub_metadata = [],
     sub_read_compacted = None,
     sub_schema = None,
     sub_initial_position = None,
     sub_replicate_subscription_state = None,
     sub_force_topic_creation = None,
     sub_start_message_rollback_duration_sec = None,
     sub_subscription_properties = [],
     sub_consumer_epoch = None\<rparr>"

definition command_partitioned_metadata_default :: command_partitioned_metadata where
  "command_partitioned_metadata_default =
    \<lparr>ptm_topic = [],
     ptm_request_id = 0,
     ptm_original_principal = None,
     ptm_original_auth_data = None,
     ptm_original_auth_method = None,
     ptm_metadata_auto_creation_enabled = None\<rparr>"

definition command_lookup_topic_default :: command_lookup_topic where
  "command_lookup_topic_default =
    \<lparr>lt_topic = [],
     lt_request_id = 0,
     lt_authoritative = None,
     lt_original_principal = None,
     lt_original_auth_data = None,
     lt_original_auth_method = None,
     lt_advertised_listener_name = None\<rparr>"

definition command_producer_default :: command_producer where
  "command_producer_default =
    \<lparr>cp_topic = [],
     cp_producer_id = 0,
     cp_request_id = 0,
     cp_producer_name = None,
     cp_encrypted = None,
     cp_metadata = [],
     cp_schema = None,
     cp_epoch = None,
     cp_user_provided_producer_name = None,
     cp_producer_access_mode = None,
     cp_topic_epoch = None,
     cp_txn_enabled = None,
     cp_initial_subscription_name = None\<rparr>"

definition command_send_default :: command_send where
  "command_send_default =
    \<lparr>cs_producer_id = 0,
     cs_sequence_id = 0,
     cs_num_messages = None,
     cs_txnid_least_bits = None,
     cs_txnid_most_bits = None,
     cs_highest_sequence_id = None,
     cs_is_chunk = None,
     cs_marker = None,
     cs_message_id = None\<rparr>"

definition command_ack_default :: command_ack where
  "command_ack_default =
    \<lparr>ak_consumer_id = 0,
     ak_ack_type = 0,
     ak_message_id = [],
     ak_validation_error = None,
     ak_txnid_least_bits = None,
     ak_txnid_most_bits = None,
     ak_request_id = None\<rparr>"

definition command_redeliver_default :: command_redeliver where
  "command_redeliver_default =
    \<lparr>rd_consumer_id = 0,
     rd_message_ids = [],
     rd_consumer_epoch = None\<rparr>"

definition command_close_producer_default :: command_close_producer where
  "command_close_producer_default =
    \<lparr>clp_producer_id = 0,
     clp_request_id = 0,
     clp_assigned_broker_service_url = None,
     clp_assigned_broker_service_url_tls = None\<rparr>"

definition command_close_consumer_default :: command_close_consumer where
  "command_close_consumer_default =
    \<lparr>clc_consumer_id = 0,
     clc_request_id = 0,
     clc_assigned_broker_service_url = None,
     clc_assigned_broker_service_url_tls = None\<rparr>"

definition command_get_topics_of_namespace_default :: command_get_topics_of_namespace where
  "command_get_topics_of_namespace_default =
    \<lparr>gt_request_id = 0,
     gt_namespace = [],
     gt_mode = None,
     gt_topics_pattern = None,
     gt_topics_hash = None,
     gt_properties = []\<rparr>"


definition base_command_default :: base_command where
  "base_command_default =
    \<lparr>cmd_type = 0,
     connect = None,
     connected = None,
     subscribe = None,
     producer = None,
     send = None,
     send_receipt = None,
     send_error = None,
     message = None,
     ack = None,
     flow = None,
     unsubscribe = None,
     success = None,
     error_cmd = None,
     close_producer = None,
     close_consumer = None,
     producer_success = None,
     ping = None,
     pong = None,
     redeliver = None,
     partition_metadata = None,
     partition_metadata_response = None,
     lookup_topic = None,
     lookup_topic_response = None,
     consumer_stats = None,
     consumer_stats_response = None,
     reached_end_of_topic = None,
     seek = None,
     get_last_message_id = None,
     get_last_message_id_response = None,
     active_consumer_change = None,
     get_topics_of_namespace = None,
     get_topics_of_namespace_response = None,
     get_schema = None,
     get_schema_response = None,
     auth_challenge = None,
     auth_response = None\<rparr>"

section \<open>Enumerations\<close>

datatype sub_type = Exclusive | Shared | Failover | KeyShared

fun sub_type_code :: "sub_type \<Rightarrow> i32" where
  "sub_type_code Exclusive = 0"
| "sub_type_code Shared = 1"
| "sub_type_code Failover = 2"
| "sub_type_code KeyShared = 3"

datatype compression_type = NoCompression | Lz4 | Zlib | Zstd | Snappy

fun compression_type_code :: "compression_type \<Rightarrow> i32" where
  "compression_type_code NoCompression = 0"
| "compression_type_code Lz4 = 1"
| "compression_type_code Zlib = 2"
| "compression_type_code Zstd = 3"
| "compression_type_code Snappy = 4"

definition compression_type_try_from :: "i32 \<Rightarrow> compression_type option" where
  "compression_type_try_from i =
     (if i = 0 then Some NoCompression else if i = 1 then Some Lz4 else if i = 2 then Some Zlib
      else if i = 3 then Some Zstd else if i = 4 then Some Snappy else None)"

lemma compression_type_try_from_code [simp]:
  "compression_type_try_from (compression_type_code c) = Some c"
  by (cases c) (simp_all add: compression_type_try_from_def)

datatype topics_mode = PersistentMode | NonPersistentMode | AllMode

fun topics_mode_code :: "topics_mode \<Rightarrow> i32" where
  "topics_mode_code PersistentMode = 0"
| "topics_mode_code NonPersistentMode = 1"
| "topics_mode_code AllMode = 2"

section \<open>Payloads and messages\<close>

text \<open>
  A \<open>Payload\<close> is the metadata and data of a published message, a \<open>Message\<close> of
  \<open>message.rs\<close> a command with the payload that follows it.
\<close>

record payload =
  pl_metadata :: metadata
  pl_data :: "byte list"

record raw_message =
  command :: base_command
  msg_payload :: "payload option"

end
