(* ===== verification/Options.thy ===== *)
theory Options
  imports Proto Names
begin

text \<open>
  The values applications hand to the client and the configuration of its parts: partition keys
  and messages as producers take them (\<open>producer.rs\<close>), their conversion to the internal form
  whose fields go on the wire and back, the producer options, and the consumer options and
  configuration (\<open>consumer/options.rs\<close>, \<open>consumer/config.rs\<close>, \<open>consumer/data.rs\<close>,
  \<open>consumer/initial_position.rs\<close>, \<open>compression.rs\<close>). A \<open>HashMap\<close> or \<open>BTreeMap\<close> of
  strings is the list of its entries in iteration order. The Base64 codec is a third-party
  crate: its encoder and decoder are parameters of what uses them.
\<close>

section \<open>Partition keys\<close>

datatype partition_key = Text string | Bytes "byte list" | NullKey

text \<open>The text the routers hash: a binary key in its Base64 form, nothing for a null key.\<close>

fun routing_key :: "(byte list \<Rightarrow> string) \<Rightarrow> partition_key \<Rightarrow> string option" where
  "routing_key b64e (Text key) = Some key"
| "routing_key b64e (Bytes key) = Some (b64e key)"
| "routing_key b64e NullKey = None"

text \<open>Rebuilding a key from the metadata of a received message.\<close>

fun from_metadata :: "(byte list \<Rightarrow> (byte list) option) \<Rightarrow> string option \<Rightarrow> bool option \<Rightarrow>
    bool option \<Rightarrow> partition_key option" where
  "from_metadata b64d (Some key) (Some True) null_key =
     Some (case b64d (as_bytes key) of Some bs \<Rightarrow> Bytes bs | None \<Rightarrow> Text key)"
| "from_metadata b64d (Some key) _ null_key = Some (Text key)"
| "from_metadata b64d None _ null_key =
     (if null_key = Some True then Some NullKey else None)"

text \<open>What Base64 guarantees: the decoder recovers what the encoder was given.\<close>

definition b64_inverse :: "(byte list \<Rightarrow> string) \<Rightarrow> (byte list \<Rightarrow> (byte list) option) \<Rightarrow> bool" where
  "b64_inverse b64e b64d \<longleftrightarrow> (\<forall>bs. b64d (as_bytes (b64e bs)) = Some bs)"

section \<open>Messages\<close>

record message_in =
  m_payload :: "(byte list) option"
  m_properties :: "(string \<times> string) list"
  m_partition_key :: "partition_key option"
  m_ordering_key :: "(byte list) option"
  m_replicate_to :: "string list"
  m_event_time :: "u64 option"
  m_schema_version :: "(byte list) option"
  m_deliver_at_time :: "i64 option"

definition message_default :: message_in where
  "message_default =
     \<lparr>m_payload = None, m_properties = [], m_partition_key = None, m_ordering_key = None,
      m_replicate_to = [], m_event_time = None, m_schema_version = None,
      m_deliver_at_time = None\<rparr>"

record producer_message =
  pm_payload :: "byte list"
  pm_null_value :: "bool option"
  pm_partition_key_b64_encoded :: "bool option"
  pm_null_partition_key :: "bool option"
  pm_properties :: "(string \<times> string) list"
  pm_partition_key :: "string option"
  pm_ordering_key :: "(byte list) option"
  pm_replicate_to :: "string list"
  pm_compression :: "i32 option"
  pm_uncompressed_size :: "u32 option"
  pm_num_messages_in_batch :: "i32 option"
  pm_event_time :: "u64 option"
  pm_encryption_keys :: "encryption_keys list"
  pm_encryption_algo :: "string option"
  pm_encryption_param :: "(byte list) option"
  pm_schema_version :: "(byte list) option"
  pm_deliver_at_time :: "i64 option"

definition producer_message_default :: producer_message where
  "producer_message_default =
     \<lparr>pm_payload = [], pm_null_value = None, pm_partition_key_b64_encoded = None,
      pm_null_partition_key = None, pm_properties = [], pm_partition_key = None,
      pm_ordering_key = None, pm_replicate_to = [], pm_compression = None,
      pm_uncompressed_size = None, pm_num_messages_in_batch = None, pm_event_time = None,
      pm_encryption_keys = [], pm_encryption_algo = None, pm_encryption_param = None,
      pm_schema_version = None, pm_deliver_at_time = None\<rparr>"

fun key_fields :: "(byte list \<Rightarrow> string) \<Rightarrow> partition_key option \<Rightarrow>
    string option \<times> bool option \<times> bool option" where
  "key_fields b64e (Some (Text key)) = (Some key, None, None)"
| "key_fields b64e (Some (Bytes key)) = (Some (b64e key), Some True, None)"
| "key_fields b64e (Some NullKey) = (None, None, Some True)"
| "key_fields b64e None = (None, None, None)"

definition producer_message_from :: "(byte list \<Rightarrow> string) \<Rightarrow> message_in \<Rightarrow> producer_message" where
  "producer_message_from b64e m =
     (let null_value = (if m_payload m = None then Some True else None);
          (key, b64_encoded, null_key) = key_fields b64e (m_partition_key m)
      in producer_message_default
           \<lparr>pm_payload := (case m_payload m of Some p \<Rightarrow> p | None \<Rightarrow> []),
            pm_null_value := null_value,
            pm_partition_key := key,
            pm_partition_key_b64_encoded := b64_encoded,
            pm_null_partition_key := null_key,
            pm_properties := m_properties m,
            pm_ordering_key := m_ordering_key m,
            pm_replicate_to := m_replicate_to m,
            pm_event_time := m_event_time m,
            pm_schema_version := m_schema_version m,
            pm_deliver_at_time := m_deliver_at_time m\<rparr>)"

text \<open>The key survives the trip through the wire fields.\<close>

lemma from_metadata_key_fields:
  "b64_inverse b64e b64d \<Longrightarrow> key_fields b64e k = (key, enc, nul) \<Longrightarrow> from_metadata b64d key enc nul = k"
  by (cases "(b64e, k)" rule: key_fields.cases) (auto simp: b64_inverse_def)

text \<open>The routing key is the text that travels as the wire key.\<close>

lemma routing_key_key_fields:
  "Option.bind k (routing_key b64e) = fst (key_fields b64e k)"
  by (cases "(b64e, k)" rule: key_fields.cases) auto

section \<open>Producer options\<close>

datatype hashing_scheme = JavaStringHash | Murmur3_32Hash

definition hashing_scheme_default :: hashing_scheme where
  "hashing_scheme_default = JavaStringHash"

datatype routing_policy = RoundRobin | Single | Custom_policy "message_in \<Rightarrow> nat \<Rightarrow> nat"

text \<open>The algorithm parameters are opaque numbers handed to the compression libraries.\<close>

datatype compression = CNone | CLz4 int | CZlib int | CZstd int | CSnappy

record producer_options =
  po_encrypted :: "bool option"
  po_metadata :: "(string \<times> string) list"
  po_schema :: "schema option"
  po_batch_size :: "u32 option"
  po_batch_byte_size :: "nat option"
  po_batch_timeout :: "duration option"
  po_compression :: "compression option"
  po_access_mode :: "i32 option"
  po_block_queue_if_full :: bool
  po_routing_policy :: "routing_policy option"
  po_hashing_scheme :: hashing_scheme

definition producer_options_default :: producer_options where
  "producer_options_default =
     \<lparr>po_encrypted = None, po_metadata = [], po_schema = None, po_batch_size = None,
      po_batch_byte_size = None, po_batch_timeout = None, po_compression = None,
      po_access_mode = None, po_block_queue_if_full = False, po_routing_policy = None,
      po_hashing_scheme = hashing_scheme_default\<rparr>"

definition enabled_batching :: "producer_options \<Rightarrow> bool" where
  "enabled_batching o1 =
     (case po_batch_size o1 of
        Some batch_size \<Rightarrow> 1 < batch_size
      | None \<Rightarrow> po_batch_byte_size o1 \<noteq> None \<or> po_batch_timeout o1 \<noteq> None)"

section \<open>Consumer options\<close>

datatype initial_position = Earliest | Latest

fun initial_position_code :: "initial_position \<Rightarrow> i32" where
  "initial_position_code Earliest = 1"
| "initial_position_code Latest = 0"

record consumer_options =
  co_priority_level :: "i32 option"
  co_durable :: "bool option"
  co_start_message_id :: "message_id_data option"
  co_start_message_id_inclusive :: bool
  co_metadata :: "(string \<times> string) list"
  co_read_compacted :: "bool option"
  co_schema :: "schema option"
  co_receiver_queue_size :: "u32 option"
  co_initial_position :: initial_position

definition consumer_options_default :: consumer_options where
  "consumer_options_default =
     \<lparr>co_priority_level = None, co_durable = None, co_start_message_id = None,
      co_start_message_id_inclusive = False, co_metadata = [], co_read_compacted = None,
      co_schema = None, co_receiver_queue_size = None, co_initial_position = Latest\<rparr>"

definition with_receiver_queue_size :: "u32 \<Rightarrow> consumer_options \<Rightarrow> consumer_options" where
  "with_receiver_queue_size size1 c =
     c\<lparr>co_receiver_queue_size := Some (if size1 = 0 then 1000 else size1)\<rparr>"

definition starting_on_message :: "message_id_data \<Rightarrow> consumer_options \<Rightarrow> consumer_options" where
  "starting_on_message m c = c\<lparr>co_start_message_id := Some m\<rparr>"

record dead_letter_policy =
  max_redeliver_count :: nat
  dead_letter_topic :: string

record consumer_config =
  cc_subscription :: string
  cc_sub_type :: sub_type
  cc_batch_size :: "u32 option"
  cc_consumer_name :: "string option"
  cc_consumer_id :: "u64 option"
  cc_unacked_message_redelivery_delay :: "duration option"
  cc_options :: consumer_options
  cc_dead_letter_policy :: "dead_letter_policy option"

section \<open>Properties\<close>

text \<open>
  A key set on a message is recovered by a consumer that re-publishes it: the wire fields
  the producer writes for any key, text, binary, null or absent, are read back as that key,
  and the text they carry is exactly the text the routers hash.
\<close>

theorem partition_key_roundtrip:
  assumes "b64_inverse b64e b64d"
  shows "from_metadata b64d (pm_partition_key (producer_message_from b64e m))
      (pm_partition_key_b64_encoded (producer_message_from b64e m))
      (pm_null_partition_key (producer_message_from b64e m)) = m_partition_key m
    \<and> pm_partition_key (producer_message_from b64e m)
        = Option.bind (m_partition_key m) (routing_key b64e)"
proof -
  obtain key enc nul where kf: "key_fields b64e (m_partition_key m) = (key, enc, nul)"
    by (cases "key_fields b64e (m_partition_key m)") auto
  with assms have "from_metadata b64d key enc nul = m_partition_key m"
    by (rule from_metadata_key_fields)
  with kf show ?thesis
    by (simp add: producer_message_from_def producer_message_default_def routing_key_key_fields)
qed

theorem partition_key_roundtrip_witness:
  "from_metadata (\<lambda>bs. Some bs)
     (pm_partition_key (producer_message_from from_bytes
        (message_default\<lparr>m_partition_key := Some (Bytes [104, 105])\<rparr>)))
     (Some True) None = Some (Bytes [104, 105])"
proof -
  have "b64_inverse from_bytes (\<lambda>bs. Some bs)"
    by (simp add: b64_inverse_def as_bytes_from_bytes)
  then show ?thesis
    using partition_key_roundtrip [of from_bytes "\<lambda>bs. Some bs"
        "message_default\<lparr>m_partition_key := Some (Bytes [104, 105])\<rparr>"]
    by (simp add: producer_message_from_def producer_message_default_def message_default_def)
qed

end
