(* ===== verification/Routing.thy ===== *)
theory Routing
  imports Options "HOL-Library.Multiset"
begin

text \<open>
  Partition routing: the key hashes and the mapping of a hash to a partition
  (\<open>routing_policy.rs\<close>), and the \<open>PartitionedProducer\<close> of \<open>producer.rs\<close> that picks the
  partition of each message and follows the topic as partitions are added. The murmur3 hash is
  a third-party crate: the function \<open>m3\<close> from bytes and seed to 32 bits is a parameter. The
  producers of the partitions are elements of a type \<open>'p\<close> of which this component only uses
  the topic, given by \<open>topic_of\<close>.
\<close>

section \<open>Key hashes\<close>

definition i32_max :: u32 where
  "i32_max = 2147483647"

definition java_string_hash :: "string \<Rightarrow> u32" where
  "java_string_hash key =
     foldl (\<lambda>h unit. h * 31 + ucast unit) 0 (encode_utf16 key) AND i32_max"

definition murmur3_32_hash :: "(byte list \<Rightarrow> u32 \<Rightarrow> u32) \<Rightarrow> byte list \<Rightarrow> u32" where
  "murmur3_32_hash m3 bs = m3 bs 0 AND i32_max"

fun make_hash :: "(byte list \<Rightarrow> u32 \<Rightarrow> u32) \<Rightarrow> hashing_scheme \<Rightarrow> string \<Rightarrow> u32" where
  "make_hash m3 JavaStringHash key = java_string_hash key"
| "make_hash m3 Murmur3_32Hash key = murmur3_32_hash m3 (as_bytes key)"

text \<open>The partition count is a \<open>NonZeroUsize\<close>: the hypotheses below say \<open>0 < n\<close>.\<close>

definition sign_safe_mod :: "u32 \<Rightarrow> nat \<Rightarrow> nat" where
  "sign_safe_mod h n = unat h mod n"

definition compute_partition_index_for_key ::
    "(byte list \<Rightarrow> u32 \<Rightarrow> u32) \<Rightarrow> string \<Rightarrow> nat \<Rightarrow> hashing_scheme \<Rightarrow> nat" where
  "compute_partition_index_for_key m3 key n scheme = sign_safe_mod (make_hash m3 scheme key) n"

text \<open>
  The interface between hashes and the router: 31-bit values. A value of that size is the same
  number as a signed and as an unsigned 32-bit integer, so the sign-corrected modulo of the
  Java client is the plain one.
\<close>

locale key_hash =
  fixes hash :: "string \<Rightarrow> u32"
  assumes hash_31_bits: "unat (hash key) < 2 ^ 31"
begin

lemma hash_nonneg: "sint (hash key) = int (unat (hash key))"
proof -
  have "sint (hash key) = sint (of_nat (unat (hash key)) :: u32)" by simp
  also have "\<dots> = int (unat (hash key))" by (rule sint_of_nat_small [OF hash_31_bits])
  finally show ?thesis .
qed

lemma index_in_range: "0 < n \<Longrightarrow> sign_safe_mod (hash key) n < n"
  by (simp add: sign_safe_mod_def)

lemma index_is_signed_mod: "int (sign_safe_mod (hash key) n) = sint (hash key) mod int n"
  by (simp add: sign_safe_mod_def hash_nonneg zmod_int)

end

lemma and_i32_max: "x AND i32_max = take_bit 31 x"
  by (simp add: i32_max_def take_bit_eq_mask mask_eq_exp_minus_1)

lemma unat_and_i32_max: "unat (x AND i32_max) = unat x mod 2 ^ 31"
  by (simp only: and_i32_max unsigned_take_bit_eq) (simp add: take_bit_eq_mod)

lemma make_hash_31_bits: "unat (make_hash m3 scheme key) < 2 ^ 31"
  by (cases scheme) (simp_all add: java_string_hash_def murmur3_32_hash_def unat_and_i32_max)

interpretation scheme_hash: key_hash "make_hash m3 scheme" for m3 scheme
  by unfold_locales (rule make_hash_31_bits)

text \<open>Java's \<open>hashCode\<close> as a polynomial of the UTF-16 units.\<close>

definition java_polynomial :: "nat list \<Rightarrow> nat" where
  "java_polynomial us = (\<Sum>i < length us. us ! i * 31 ^ (length us - 1 - i))"

lemma java_polynomial_snoc: "java_polynomial (us @ [u]) = 31 * java_polynomial us + u"
proof -
  have "(\<Sum>i < length us. (us @ [u]) ! i * 31 ^ (length us - i))
      = (\<Sum>i < length us. 31 * (us ! i * 31 ^ (length us - 1 - i)))"
  proof (rule sum.cong [OF refl])
    fix i assume "i \<in> {..<length us}"
    then have "length us - i = Suc (length us - 1 - i)" by auto
    then show "(us @ [u]) ! i * 31 ^ (length us - i)
        = 31 * (us ! i * 31 ^ (length us - 1 - i))"
      using \<open>i \<in> {..<length us}\<close> by (simp add: nth_append)
  qed
  then show ?thesis by (simp add: java_polynomial_def sum_distrib_left)
qed

lemma unat_java_fold:
  "unat (foldl (\<lambda>h unit. h * 31 + ucast unit) (0 :: u32) us)
     = java_polynomial (map unat us) mod 2 ^ 32" for us :: "u16 list"
proof (induction us rule: rev_induct)
  case Nil
  show ?case by (simp add: java_polynomial_def)
next
  case (snoc u us)
  let ?h = "foldl (\<lambda>h unit. h * 31 + ucast unit) (0 :: u32) us"
  have "unat (ucast u :: u32) = unat u"
    using unsigned_less [of u, where 'a = nat]
    by (simp add: unsigned_ucast_eq take_bit_nat_eq_self)
  then have "unat (?h * 31 + ucast u) = (unat ?h * 31 + unat u) mod 2 ^ 32"
    by (simp add: unat_word_ariths mod_simps)
  also have "\<dots> = (java_polynomial (map unat us) * 31 + unat u) mod 2 ^ 32"
    unfolding snoc.IH by (metis mod_add_left_eq mod_mult_left_eq)
  finally show ?case by (simp add: java_polynomial_snoc mult.commute)
qed

section \<open>The partitioned producer\<close>

record 'p partitioned_producer =
  pp_producers :: "'p list"
  pp_last_used :: nat
  pp_topic :: string
  pp_options :: producer_options
  pp_refresh :: "duration option"
  pp_last_check :: nat

definition usize_max :: nat where
  "usize_max = 2 ^ 64 - 1"

definition partition_order :: "('p \<Rightarrow> string) \<Rightarrow> 'p \<Rightarrow> nat" where
  "partition_order topic_of p =
     (case partition_index (topic_of p) of Some i \<Rightarrow> i | None \<Rightarrow> usize_max)"

text \<open>
  \<open>now\<close> is the instant of the call, \<open>lookup\<close> the answer of \<open>lookup_partitioned_topic\<close> for a
  topic and \<open>create\<close> that of \<open>TopicProducer::new\<close> for a partition name and address.
\<close>

definition refresh_partitions :: "('p \<Rightarrow> string) \<Rightarrow> nat \<Rightarrow> (string \<Rightarrow> 'e + (string \<times> 'a) list) \<Rightarrow>
    (string \<times> 'a \<Rightarrow> 'f + 'p) \<Rightarrow> 'p partitioned_producer \<Rightarrow> 'p partitioned_producer" where
  "refresh_partitions topic_of now lookup create p =
     (case pp_refresh p of
        None \<Rightarrow> p
      | Some interval \<Rightarrow>
          if now - pp_last_check p < interval then p
          else
            let p = p\<lparr>pp_last_check := now\<rparr>
            in case lookup (pp_topic p) of
                 Inl e \<Rightarrow> p
               | Inr found \<Rightarrow>
                   let known = map topic_of (pp_producers p);
                       added = filter (\<lambda>(topic, _). topic \<notin> set known) found
                   in if added = [] then p
                      else case try_join_all (map create added) of
                          Inl e \<Rightarrow> p
                        | Inr created \<Rightarrow>
                            p\<lparr>pp_producers :=
                                sort_key (partition_order topic_of) (pp_producers p @ created)\<rparr>)"

text \<open>
  The routing functions return the index of the chosen producer, \<open>None\<close> where the source
  panics, and the producer's new state.
\<close>

definition get_mut :: "'p list \<Rightarrow> nat \<Rightarrow> nat option" where
  "get_mut ps i = (if i < length ps then Some i else None)"

definition get_next_round_robin_producer ::
    "'p partitioned_producer \<Rightarrow> nat option \<times> 'p partitioned_producer" where
  "get_next_round_robin_producer p =
     (let amount = length (pp_producers p);
          next = pp_last_used p + 1;
          i = (if next \<ge> amount then 0 else next)
      in (get_mut (pp_producers p) i, p\<lparr>pp_last_used := i\<rparr>))"

definition route_by_key :: "(byte list \<Rightarrow> u32 \<Rightarrow> u32) \<Rightarrow> string \<Rightarrow> 'p partitioned_producer \<Rightarrow>
    nat option" where
  "route_by_key m3 key p =
     (if pp_producers p = [] then None
      else get_mut (pp_producers p)
             (compute_partition_index_for_key m3 key (length (pp_producers p))
                (po_hashing_scheme (pp_options p))))"

definition choose_partition :: "(byte list \<Rightarrow> u32 \<Rightarrow> u32) \<Rightarrow> (byte list \<Rightarrow> string) \<Rightarrow> message_in \<Rightarrow>
    'p partitioned_producer \<Rightarrow> nat option \<times> 'p partitioned_producer" where
  "choose_partition m3 b64e m p =
     (let hash_routed_key =
            (case po_routing_policy (pp_options p) of
               Some (Custom_policy route) \<Rightarrow> None
             | _ \<Rightarrow> Option.bind (m_partition_key m) (routing_key b64e))
      in case hash_routed_key of
           Some key \<Rightarrow> (route_by_key m3 key p, p)
         | None \<Rightarrow>
             (case po_routing_policy (pp_options p) of
                Some Single \<Rightarrow> (get_mut (pp_producers p) (pp_last_used p), p)
              | Some (Custom_policy route) \<Rightarrow>
                  (get_mut (pp_producers p) (route m (length (pp_producers p))), p)
              | _ \<Rightarrow> get_next_round_robin_producer p))"

text \<open>Sending a list of messages: each one is routed in the state the previous one left.\<close>

fun choose_partitions :: "(byte list \<Rightarrow> u32 \<Rightarrow> u32) \<Rightarrow> (byte list \<Rightarrow> string) \<Rightarrow> message_in list \<Rightarrow>
    'p partitioned_producer \<Rightarrow> nat option list \<times> 'p partitioned_producer" where
  "choose_partitions m3 b64e [] p = ([], p)"
| "choose_partitions m3 b64e (m # ms) p =
     (let (i, p1) = choose_partition m3 b64e m p; (is, p2) = choose_partitions m3 b64e ms p1
      in (i # is, p2))"

text \<open>
  What construction and refresh guarantee: the producers of partitions \<open>0, \<dots>, n - 1\<close> in that
  order, and a last-used index among them.
\<close>

definition partitions_ok :: "('p \<Rightarrow> string) \<Rightarrow> 'p partitioned_producer \<Rightarrow> bool" where
  "partitions_ok topic_of p \<longleftrightarrow>
     pp_producers p \<noteq> [] \<and> pp_last_used p < length (pp_producers p) \<and>
     map topic_of (pp_producers p)
       = map (partition_name (pp_topic p)) [0..<length (pp_producers p)]"

lemma partition_order_name:
  "topic_of p = partition_name t i \<Longrightarrow> t \<noteq> [] \<Longrightarrow> i < 2 ^ 64 \<Longrightarrow> partition_order topic_of p = i"
  by (simp add: partition_order_def partition_index_name)

text \<open>
  Sorting by partition number puts any set of producers that covers the partitions exactly
  once into partition order, whatever order they were created in.
\<close>

lemma map_sort_key: "(\<And>x. x \<in> set xs \<Longrightarrow> g (f x) = k x) \<Longrightarrow> map f (sort_key k xs) = sort_key g (map f xs)"
proof -
  assume eq: "\<And>x. x \<in> set xs \<Longrightarrow> g (f x) = k x"
  have ins: "map f (insort_key k x ys) = insort_key g (f x) (map f ys)"
    if "g (f x) = k x" "\<And>y. y \<in> set ys \<Longrightarrow> g (f y) = k y" for x ys
    using that by (induction ys) auto
  from eq show ?thesis
  proof (induction xs)
    case (Cons a xs)
    have "map f (insort_key k a (sort_key k xs)) = insort_key g (f a) (map f (sort_key k xs))"
      by (rule ins) (simp_all add: Cons.prems)
    with Cons show ?case by simp
  qed simp
qed

lemma sort_partitions:
  assumes "mset (map topic_of ps) = mset (map (partition_name t) [0..<n])"
    and "t \<noteq> []" and "n \<le> 2 ^ 64"
  shows "map topic_of (sort_key (partition_order topic_of) ps) = map (partition_name t) [0..<n]"
proof -
  let ?k = "\<lambda>s. case partition_index s of Some i \<Rightarrow> i | None \<Rightarrow> usize_max"
  have "map topic_of (sort_key (partition_order topic_of) ps) = sort_key ?k (map topic_of ps)"
    by (rule map_sort_key) (simp add: partition_order_def)
  also have "\<dots> = sort_key ?k (map (partition_name t) [0..<n])"
  proof (rule properties_for_sort_key)
    have names: "set (map topic_of ps) = partition_name t ` {0..<n}"
      using assms(1) by (metis image_set mset_eq_setD set_upt)
    have inj: "inj_on ?k (set (map topic_of ps))"
      unfolding names using assms(2,3) by (auto simp: inj_on_def partition_index_name)
    show "mset (sort_key ?k (map (partition_name t) [0..<n])) = mset (map topic_of ps)"
      using assms(1) by simp
    show "sorted (map ?k (sort_key ?k (map (partition_name t) [0..<n])))" by simp
    show "filter (\<lambda>y. ?k x = ?k y) (sort_key ?k (map (partition_name t) [0..<n]))
        = filter (\<lambda>y. ?k x = ?k y) (map topic_of ps)"
      if "x \<in> set (sort_key ?k (map (partition_name t) [0..<n]))" for x
    proof -
      have d: "distinct (map topic_of ps)"
        using assms(1) by (metis distinct_map distinct_upt inj_onI mset_eq_imp_distinct_iff
            partition_name_inject)
      have x: "x \<in> set (map topic_of ps)"
        using that assms(1) by (metis mset_eq_setD mset_sort set_sort)
      have "filter (\<lambda>y. ?k x = ?k y) ys = filter (\<lambda>y. y = x) ys"
        if "set ys \<subseteq> set (map topic_of ps)" for ys
        using that x inj by (intro filter_cong) (auto dest: inj_onD)
      moreover have "filter (\<lambda>y. y = x) ys = [x]" if "distinct ys" "x \<in> set ys" for ys
        using that by (induction ys) (auto simp: filter_empty_conv)
      ultimately show ?thesis
        using d x assms(1) by (metis (no_types, lifting) distinct_sort mset_eq_imp_distinct_iff
            mset_eq_setD order_refl set_sort)
    qed
  qed
  also have "\<dots> = map (partition_name t) [0..<n]"
  proof (rule sort_key_id_if_sorted)
    have "map ?k (map (partition_name t) [0..<n]) = [0..<n]"
      using assms(2,3) by (auto simp: partition_index_name intro!: map_idI)
    then show "sorted (map ?k (map (partition_name t) [0..<n]))" by simp
  qed
  finally show ?thesis .
qed

section \<open>Refresh\<close>

lemma refresh_partitions_frame:
  "pp_topic (refresh_partitions topic_of now lookup create p) = pp_topic p"
  "pp_last_used (refresh_partitions topic_of now lookup create p) = pp_last_used p"
  "pp_options (refresh_partitions topic_of now lookup create p) = pp_options p"
  by (simp_all add: refresh_partitions_def Let_def split: option.splits sum.splits)

lemma refresh_partitions_cases:
  obtains (same) "pp_producers (refresh_partitions topic_of now lookup create p) = pp_producers p"
  | (grown) found created where "lookup (pp_topic p) = Inr found"
      "map create (filter (\<lambda>(topic, _). topic \<notin> set (map topic_of (pp_producers p))) found)
         = map Inr created"
      "pp_producers (refresh_partitions topic_of now lookup create p)
         = sort_key (partition_order topic_of) (pp_producers p @ created)"
proof (cases "pp_producers (refresh_partitions topic_of now lookup create p) = pp_producers p")
  case False
  then show ?thesis
    by (auto simp: refresh_partitions_def Let_def try_join_all_Inr_iff
        split: option.splits if_splits sum.splits intro: grown)
qed (rule same)

lemma filter_new_partitions:
  assumes "map fst found = map (partition_name t) [0..<n']" and "n \<le> n'"
  shows "map fst (filter (\<lambda>(topic, _). topic \<notin> partition_name t ` {0..<n}) found)
    = map (partition_name t) [n..<n']"
proof -
  have "map fst (filter (\<lambda>(topic, _). topic \<notin> partition_name t ` {0..<n}) found)
      = filter (\<lambda>topic. topic \<notin> partition_name t ` {0..<n}) (map fst found)"
    by (simp add: filter_map o_def case_prod_unfold)
  also have "\<dots> = map (partition_name t) (filter (\<lambda>i. \<not> i < n) [0..<n'])"
    unfolding assms(1) by (simp add: filter_map o_def image_iff Ball_def)
       (rule arg_cong [where f = "map (partition_name t)"], rule filter_cong, auto)
  also have "filter (\<lambda>i. \<not> i < n) [0..<n'] = [n..<n']"
  proof -
    have "[0..<n'] = [0..<n] @ [n..<n']"
      using assms(2) by (metis le_add_diff_inverse upt_add_eq_append zero_le)
    then show ?thesis by (simp add: filter_empty_conv filter_id_conv)
  qed
  finally show ?thesis .
qed

lemma refresh_partitions_ok:
  assumes ok: "partitions_ok topic_of p" and t: "pp_topic p \<noteq> []"
    and found: "\<And>found. lookup (pp_topic p) = Inr found \<Longrightarrow>
      map fst found = map (partition_name (pp_topic p)) [0..<n']"
    and n': "length (pp_producers p) \<le> n'" "n' \<le> 2 ^ 64"
    and create: "\<And>x y. create x = Inr y \<Longrightarrow> topic_of y = fst x"
  shows "partitions_ok topic_of (refresh_partitions topic_of now lookup create p)
    \<and> set (pp_producers p) \<subseteq> set (pp_producers (refresh_partitions topic_of now lookup create p))"
proof (cases rule: refresh_partitions_cases [of topic_of now lookup create p])
  case same
  then show ?thesis using ok by (simp add: partitions_ok_def refresh_partitions_frame)
next
  case (grown fd created)
  let ?n = "length (pp_producers p)" and ?t = "pp_topic p"
  let ?added = "filter (\<lambda>(topic, _). topic \<notin> partition_name ?t ` {0..<?n}) fd"
  have names: "map topic_of (pp_producers p) = map (partition_name ?t) [0..<?n]"
    using ok by (simp add: partitions_ok_def)
  then have "set (map topic_of (pp_producers p)) = partition_name ?t ` {0..<?n}"
    by (metis image_set set_upt)
  then have created: "map create ?added = map Inr created" using grown(2) by simp
  have "map topic_of created = map fst ?added"
  proof (rule nth_equalityI)
    show len: "length (map topic_of created) = length (map fst ?added)"
      using created by (metis length_map)
    show "map topic_of created ! i = map fst ?added ! i" if "i < length (map topic_of created)" for i
      using that len create arg_cong [OF created, of "\<lambda>xs. xs ! i"] by simp
  qed
  then have "map topic_of created = map (partition_name ?t) [?n..<n']"
    using filter_new_partitions [OF found [OF grown(1)] n'(1)] by simp
  with names have all: "map topic_of (pp_producers p @ created) = map (partition_name ?t) [0..<n']"
    using n'(1) by (metis le_add_diff_inverse map_append upt_add_eq_append zero_le)
  then have len: "length (pp_producers p @ created) = n'" by (metis length_map diff_zero length_upt)
  have "map topic_of (sort_key (partition_order topic_of) (pp_producers p @ created))
      = map (partition_name ?t) [0..<n']"
    using all t n' by (intro sort_partitions) simp_all
  moreover have "length (sort_key (partition_order topic_of) (pp_producers p @ created)) = n'"
    using len by simp
  moreover have "0 < ?n" "pp_last_used p < ?n" using ok by (auto simp: partitions_ok_def)
  ultimately show ?thesis
    using n'(1) unfolding partitions_ok_def refresh_partitions_frame grown(3)
    by (metis (no_types, lifting) Un_upper1 length_greater_0_conv order_less_le_trans set_append set_sort)
qed

lemma partition_name_examples:
  "partition_name ''t'' 0 = ''t-partition-0''" "partition_name ''t'' (Suc 0) = ''t-partition-1''"
  by code_simp+

lemma choose_partition_keyed:
  assumes "partitions_ok topic_of p"
    and "\<forall>route. po_routing_policy (pp_options p) \<noteq> Some (Custom_policy route)"
    and "Option.bind (m_partition_key m) (routing_key b64e) = Some key"
  shows "\<exists>i. choose_partition m3 b64e m p = (Some i, p)
    \<and> topic_of (pp_producers p ! i) = partition_name (pp_topic p)
        (unat (make_hash m3 (po_hashing_scheme (pp_options p)) key) mod length (pp_producers p))"
proof -
  let ?n = "length (pp_producers p)"
  let ?i = "compute_partition_index_for_key m3 key ?n (po_hashing_scheme (pp_options p))"
  have n: "0 < ?n" and names: "map topic_of (pp_producers p) = map (partition_name (pp_topic p)) [0..<?n]"
    using assms(1) by (auto simp: partitions_ok_def)
  have i: "?i < ?n"
    unfolding compute_partition_index_for_key_def by (rule scheme_hash.index_in_range [OF n])
  have "choose_partition m3 b64e m p = (route_by_key m3 key p, p)"
    using assms(2,3) by (auto simp: choose_partition_def split: option.splits routing_policy.splits)
  moreover have "route_by_key m3 key p = Some ?i"
    using n i by (auto simp: route_by_key_def get_mut_def)
  moreover have "topic_of (pp_producers p ! ?i) = partition_name (pp_topic p) ?i"
    using i arg_cong [OF names, of "\<lambda>xs. xs ! ?i"] by simp
  ultimately show ?thesis
    by (simp add: compute_partition_index_for_key_def sign_safe_mod_def)
qed

section \<open>Properties\<close>

text \<open>
  C40. \<open>java_string_hash\<close> is Java's \<open>String.hashCode\<close> with the sign bit cleared: the polynomial
  in 31 over the UTF-16 units of the key, reduced modulo \<open>2 ^ 31\<close>.
\<close>

theorem java_string_hash_is_hashCode:
  "unat (java_string_hash key) = java_polynomial (map unat (encode_utf16 key)) mod 2 ^ 31"
proof -
  have "unat (java_string_hash key) = java_polynomial (map unat (encode_utf16 key)) mod 2 ^ 32 mod 2 ^ 31"
    by (simp only: java_string_hash_def unat_and_i32_max unat_java_fold)
  also have "\<dots> = java_polynomial (map unat (encode_utf16 key)) mod 2 ^ 31"
    by (rule mod_mod_cancel) (simp add: le_imp_power_dvd)
  finally show ?thesis .
qed

text \<open>
  Under either hashing scheme, and whatever the murmur3 crate computes, the partition of a
  key is one of the topic's partitions and equals the sign-safe modulo of the hash read as the
  signed 32-bit integer the Java client uses.
\<close>

theorem partition_index_in_range:
  assumes "0 < n"
  shows "compute_partition_index_for_key m3 key n scheme < n
    \<and> int (compute_partition_index_for_key m3 key n scheme)
        = sint (make_hash m3 scheme key) mod int n"
  unfolding compute_partition_index_for_key_def
  using scheme_hash.index_in_range [OF assms] scheme_hash.index_is_signed_mod by blast

theorem partition_index_in_range_witness:
  "compute_partition_index_for_key (\<lambda>bs seed. 4294967295) ''orders'' 12 Murmur3_32Hash < 12"
  using partition_index_in_range [of 12 "\<lambda>bs seed. 4294967295" "''orders''" Murmur3_32Hash]
  by simp

text \<open>
  A message with a key reaches the partition its key hashes to: with the producers of the
  partitions in partition order, and unless the application supplied its own router, the
  producer chosen is the one whose topic is the partition numbered by the hash of the wire
  key modulo the partition count, and the round-robin position does not move.
\<close>

theorem keyed_message_reaches_its_partition:
  assumes "partitions_ok topic_of p"
    and "\<forall>route. po_routing_policy (pp_options p) \<noteq> Some (Custom_policy route)"
    and "Option.bind (m_partition_key m) (routing_key b64e) = Some key"
  shows "\<exists>i. choose_partition m3 b64e m p = (Some i, p)
    \<and> topic_of (pp_producers p ! i) = partition_name (pp_topic p)
        (unat (make_hash m3 (po_hashing_scheme (pp_options p)) key) mod length (pp_producers p))"
  using assms by (rule choose_partition_keyed)

theorem keyed_message_reaches_its_partition_witness:
  "\<exists>i. choose_partition (\<lambda>bs seed. 0) from_bytes
      (message_default\<lparr>m_partition_key := Some (Text ''ab'')\<rparr>)
      \<lparr>pp_producers = [''t-partition-0'', ''t-partition-1''], pp_last_used = 0, pp_topic = ''t'',
       pp_options = producer_options_default, pp_refresh = None, pp_last_check = 0\<rparr>
    = (Some i, \<lparr>pp_producers = [''t-partition-0'', ''t-partition-1''], pp_last_used = 0,
       pp_topic = ''t'', pp_options = producer_options_default, pp_refresh = None,
       pp_last_check = 0\<rparr>)"
proof -
  let ?p = "\<lparr>pp_producers = [''t-partition-0'', ''t-partition-1''], pp_last_used = 0,
    pp_topic = ''t'', pp_options = producer_options_default, pp_refresh = None, pp_last_check = 0\<rparr>"
  have "partitions_ok id ?p"
    by (simp add: partitions_ok_def partition_name_examples numeral_2_eq_2)
  then show ?thesis
    using keyed_message_reaches_its_partition [of id ?p
        "message_default\<lparr>m_partition_key := Some (Text ''ab'')\<rparr>" from_bytes "''ab''" "\<lambda>bs seed. 0"]
    by (auto simp: producer_options_default_def)
qed

text \<open>
  Messages without a key under round robin (the default policy too) go to consecutive
  partitions, wrapping around: the \<open>j\<close>-th of them goes to index \<open>last_used + 1 + j\<close> modulo the
  number of partitions, so any run of that length visits every partition once.
\<close>

theorem round_robin_is_cyclic:
  assumes "pp_last_used p < length (pp_producers p)"
    and "po_routing_policy (pp_options p) \<in> {None, Some RoundRobin}"
    and "\<forall>m \<in> set ms. Option.bind (m_partition_key m) (routing_key b64e) = None"
  shows "choose_partitions m3 b64e ms p =
    (map (\<lambda>j. Some ((pp_last_used p + 1 + j) mod length (pp_producers p))) [0..<length ms],
     p\<lparr>pp_last_used := (pp_last_used p + length ms) mod length (pp_producers p)\<rparr>)"
  using assms
proof (induction ms arbitrary: p)
  case Nil
  then show ?case by simp
next
  case (Cons m ms)
  let ?n = "length (pp_producers p)"
  let ?i = "(pp_last_used p + 1) mod ?n"
  let ?p1 = "p\<lparr>pp_last_used := ?i\<rparr>"
  have n: "0 < ?n" using Cons.prems(1) by linarith
  have i: "(if ?n \<le> pp_last_used p + 1 then 0 else pp_last_used p + 1) = ?i"
    using Cons.prems(1) by (cases "pp_last_used p + 1 = ?n") simp_all
  have step: "choose_partition m3 b64e m p = (Some ?i, ?p1)"
    using Cons.prems n i
    by (auto simp: choose_partition_def get_next_round_robin_producer_def get_mut_def Let_def
        split: option.splits)
  have "choose_partitions m3 b64e ms ?p1 =
    (map (\<lambda>j. Some ((?i + 1 + j) mod ?n)) [0..<length ms],
     ?p1\<lparr>pp_last_used := (?i + length ms) mod ?n\<rparr>)"
    using Cons.IH [of ?p1] Cons.prems n by simp
  moreover have "(?i + 1 + j) mod ?n = (pp_last_used p + 1 + Suc j) mod ?n" for j
    by (metis (no_types, lifting) add.assoc add_Suc_right mod_add_left_eq plus_1_eq_Suc)
  moreover have "(?i + length ms) mod ?n = (pp_last_used p + length (m # ms)) mod ?n"
    by (simp add: mod_add_left_eq)
  ultimately show ?case
    by (simp add: step map_upt_Suc del: upt_Suc)
qed

theorem round_robin_is_cyclic_witness:
  "choose_partitions (\<lambda>bs seed. 0) from_bytes [message_default, message_default, message_default]
      \<lparr>pp_producers = [''t-partition-0'', ''t-partition-1''], pp_last_used = 0, pp_topic = ''t'',
       pp_options = producer_options_default, pp_refresh = None, pp_last_check = 0\<rparr>
   = ([Some 1, Some 0, Some 1],
      \<lparr>pp_producers = [''t-partition-0'', ''t-partition-1''], pp_last_used = 1, pp_topic = ''t'',
       pp_options = producer_options_default, pp_refresh = None, pp_last_check = 0\<rparr>)"
  by (subst round_robin_is_cyclic)
     (simp_all add: producer_options_default_def message_default_def upt_rec mod_Suc)

text \<open>
  A refresh keeps the producers in partition order and drops none: for a topic that now has
  \<open>n'\<close> partitions, whether the check was due, the lookup failed, a new producer could not be
  started or all were, the producers afterwards are those of consecutive partitions in
  partition order, every earlier one among them.
\<close>

theorem refresh_preserves_partition_order:
  assumes "partitions_ok topic_of p" and "pp_topic p \<noteq> []"
    and "\<forall>found. lookup (pp_topic p) = Inr found \<longrightarrow>
      map fst found = map (partition_name (pp_topic p)) [0..<n']"
    and "length (pp_producers p) \<le> n'" and "n' \<le> 2 ^ 64"
    and "\<forall>x y. create x = Inr y \<longrightarrow> topic_of y = fst x"
  shows "partitions_ok topic_of (refresh_partitions topic_of now lookup create p)
    \<and> set (pp_producers p) \<subseteq> set (pp_producers (refresh_partitions topic_of now lookup create p))"
  using assms by (intro refresh_partitions_ok) auto

theorem refresh_preserves_partition_order_witness:
  "partitions_ok id (refresh_partitions id 90
      (\<lambda>t. Inr [(''t-partition-0'', ()), (''t-partition-1'', ())] :: unit + (string \<times> unit) list)
      (\<lambda>x. Inr (fst x) :: unit + string)
      \<lparr>pp_producers = [''t-partition-0''], pp_last_used = 0, pp_topic = ''t'',
       pp_options = producer_options_default, pp_refresh = Some 60, pp_last_check = 0\<rparr>)"
  by (rule conjunct1 [OF refresh_preserves_partition_order [where n' = 2]])
     (simp_all add: partitions_ok_def partition_name_examples upt_rec)

end
