(* ===== verification/Commands.thy ===== *)
theory Commands
  imports Options "HOL-Library.Product_Lexorder"
begin

text \<open>
  The commands the client sends (\<open>mod messages\<close> of \<open>connection.rs\<close>), the key under which a
  request waits for its answer and a received command finds it (\<open>RequestKey\<close>,
  \<open>Message::request_key\<close>), what the broker says it can do (\<open>BrokerFeatures\<close>), and the reading
  of an answer (\<open>extract_message\<close>). The version text and the clock are parameters.
\<close>

section \<open>Request keys\<close>

datatype req_key =
    RequestId u64
  | ProducerSend u64 u64
  | ConsumerKey u64
  | CloseConsumerKey u64 u64
  | AuthChallengeKey

text \<open>The derived order: the variant first, its fields in order next.\<close>

fun key_rank :: "req_key \<Rightarrow> nat \<times> nat \<times> nat" where
  "key_rank (RequestId r) = (0, unat r, 0)"
| "key_rank (ProducerSend p s) = (1, unat p, unat s)"
| "key_rank (ConsumerKey c) = (2, unat c, 0)"
| "key_rank (CloseConsumerKey c r) = (3, unat c, unat r)"
| "key_rank AuthChallengeKey = (4, 0, 0)"

lemma key_rank_inject [simp]: "key_rank k = key_rank k' \<longleftrightarrow> k = k'"
  by (cases k; cases k') (simp_all add: word_unat_eq_iff)

instantiation req_key :: linorder
begin

definition less_eq_req_key :: "req_key \<Rightarrow> req_key \<Rightarrow> bool" where
  "k \<le> k' \<longleftrightarrow> key_rank k \<le> key_rank k'"

definition less_req_key :: "req_key \<Rightarrow> req_key \<Rightarrow> bool" where
  "k < k' \<longleftrightarrow> key_rank k < key_rank k'"

instance
  by standard (auto simp: less_eq_req_key_def less_req_key_def dest: antisym)

end

text \<open>The first pattern of an alternative that matches.\<close>

fun first_some :: "'a option list \<Rightarrow> 'a option" where
  "first_some [] = None"
| "first_some (Some x # xs) = Some x"
| "first_some (None # xs) = first_some xs"

definition request_key :: "raw_message \<Rightarrow> req_key option" where
  "request_key m =
     (let c = command m in
      case first_some
        [map_option sub_request_id (subscribe c),
         map_option ptm_request_id (partition_metadata c),
         map_option ptr_request_id (partition_metadata_response c),
         map_option lt_request_id (lookup_topic c),
         map_option lr_request_id (lookup_topic_response c),
         map_option cp_request_id (producer c),
         map_option ps_request_id (producer_success c),
         map_option us_request_id (unsubscribe c),
         map_option sk_request_id (seek c),
         map_option clp_request_id (close_producer c),
         map_option suc_request_id (success c),
         map_option er_request_id (error_cmd c),
         map_option cst_request_id (consumer_stats c),
         map_option csr_request_id (consumer_stats_response c),
         map_option gl_request_id (get_last_message_id c),
         map_option glr_request_id (get_last_message_id_response c),
         map_option gt_request_id (get_topics_of_namespace c),
         map_option gtr_request_id (get_topics_of_namespace_response c),
         map_option gs_request_id (get_schema c),
         map_option gsr_request_id (get_schema_response c)]
      of Some request_id \<Rightarrow> Some (RequestId request_id)
       | None \<Rightarrow>
      case first_some
        [map_option (\<lambda>s. (cs_producer_id s, cs_sequence_id s)) (send c),
         map_option (\<lambda>s. (se_producer_id s, se_sequence_id s)) (send_error c),
         map_option (\<lambda>s. (sr_producer_id s, sr_sequence_id s)) (send_receipt c)]
      of Some (producer_id, sequence_id) \<Rightarrow> Some (ProducerSend producer_id sequence_id)
       | None \<Rightarrow>
      case first_some
        [map_option acc_consumer_id (active_consumer_change c),
         map_option cm_consumer_id (message c),
         map_option fl_consumer_id (flow c),
         map_option rd_consumer_id (redeliver c),
         map_option eot_consumer_id (reached_end_of_topic c),
         map_option ak_consumer_id (ack c)]
      of Some consumer_id \<Rightarrow> Some (ConsumerKey consumer_id)
       | None \<Rightarrow>
      case close_consumer c of
         Some cc \<Rightarrow> Some (CloseConsumerKey (clc_consumer_id cc) (clc_request_id cc))
       | None \<Rightarrow> if auth_challenge c \<noteq> None then Some AuthChallengeKey else None)"

section \<open>Building commands\<close>

record auth_params =
  au_name :: string
  au_data :: "byte list"

definition just :: "base_command \<Rightarrow> raw_message" where
  "just c = \<lparr>command = c, msg_payload = None\<rparr>"

definition client_version :: "string \<Rightarrow> string" where
  "client_version pkg_version = ''pulsar-rs'' @ ''-v'' @ pkg_version"

definition client_feature_flags :: feature_flags where
  "client_feature_flags = feature_flags_default
     \<lparr>ff_supports_auth_refresh := Some True,
      ff_supports_partial_producer := Some True,
      ff_supports_get_partitioned_metadata_without_auto_creation := Some True\<rparr>"

definition msg_connect :: "string \<Rightarrow> auth_params option \<Rightarrow> string option \<Rightarrow> raw_message" where
  "msg_connect pkg_version auth proxy_to_broker_url =
     (let (auth_method_name, auth_data) =
        (case auth of Some a \<Rightarrow> (Some (au_name a), Some (au_data a)) | None \<Rightarrow> (None, None))
      in just (base_command_default
           \<lparr>cmd_type := 2,
            connect := Some (command_connect_default
              \<lparr>cn_auth_method_name := auth_method_name,
               cn_auth_data := auth_data,
               cn_proxy_to_broker_url := proxy_to_broker_url,
               cn_client_version := client_version pkg_version,
               cn_protocol_version := Some 12,
               cn_feature_flags := Some client_feature_flags\<rparr>)\<rparr>))"

definition msg_ping :: raw_message where
  "msg_ping = just (base_command_default\<lparr>cmd_type := 18, ping := Some ()\<rparr>)"

definition msg_pong :: raw_message where
  "msg_pong = just (base_command_default\<lparr>cmd_type := 19, pong := Some ()\<rparr>)"

definition key_values :: "(string \<times> string) list \<Rightarrow> key_value list" where
  "key_values = map (\<lambda>(k, v). \<lparr>kv_key = k, kv_value = v\<rparr>)"

definition msg_create_producer ::
  "string \<Rightarrow> string option \<Rightarrow> u64 \<Rightarrow> u64 \<Rightarrow> producer_options \<Rightarrow> raw_message" where
  "msg_create_producer topic producer_name producer_id request_id options =
     just (base_command_default
       \<lparr>cmd_type := 5,
        producer := Some (command_producer_default
          \<lparr>cp_topic := topic,
           cp_producer_id := producer_id,
           cp_request_id := request_id,
           cp_producer_name := producer_name,
           cp_encrypted := po_encrypted options,
           cp_metadata := key_values (po_metadata options),
           cp_schema := po_schema options,
           cp_producer_access_mode := po_access_mode options\<rparr>)\<rparr>)"

definition msg_get_topics_of_namespace :: "u64 \<Rightarrow> string \<Rightarrow> topics_mode \<Rightarrow> raw_message" where
  "msg_get_topics_of_namespace request_id namespace mode =
     just (base_command_default
       \<lparr>cmd_type := 32,
        get_topics_of_namespace := Some (command_get_topics_of_namespace_default
          \<lparr>gt_request_id := request_id,
           gt_namespace := namespace,
           gt_mode := Some (topics_mode_code mode)\<rparr>)\<rparr>)"

definition msg_get_schema :: "u64 \<Rightarrow> string \<Rightarrow> (byte list) option \<Rightarrow> raw_message" where
  "msg_get_schema request_id topic version =
     just (base_command_default
       \<lparr>cmd_type := 34,
        get_schema := Some
          \<lparr>gs_request_id = request_id, gs_topic = topic, gs_schema_version = version\<rparr>\<rparr>)"

definition msg_send :: "u64 \<Rightarrow> u64 \<Rightarrow> string \<Rightarrow> u64 \<Rightarrow> producer_message \<Rightarrow> raw_message" where
  "msg_send publish_time producer_id producer_name sequence_id m =
     \<lparr>command = base_command_default
        \<lparr>cmd_type := 6,
         send := Some (command_send_default
           \<lparr>cs_producer_id := producer_id,
            cs_sequence_id := sequence_id,
            cs_num_messages := pm_num_messages_in_batch m\<rparr>)\<rparr>,
      msg_payload = Some
        \<lparr>pl_metadata = metadata_default
           \<lparr>md_producer_name := producer_name,
            md_sequence_id := sequence_id,
            md_properties := key_values (pm_properties m),
            md_publish_time := publish_time,
            md_replicated_from := None,
            md_partition_key := pm_partition_key m,
            md_partition_key_b64_encoded := pm_partition_key_b64_encoded m,
            md_null_partition_key := pm_null_partition_key m,
            md_null_value := pm_null_value m,
            md_ordering_key := pm_ordering_key m,
            md_replicate_to := pm_replicate_to m,
            md_compression := pm_compression m,
            md_uncompressed_size := pm_uncompressed_size m,
            md_num_messages_in_batch := pm_num_messages_in_batch m,
            md_event_time := pm_event_time m,
            md_encryption_keys := pm_encryption_keys m,
            md_encryption_algo := pm_encryption_algo m,
            md_encryption_param := pm_encryption_param m,
            md_schema_version := pm_schema_version m,
            md_deliver_at_time := pm_deliver_at_time m\<rparr>,
         pl_data = pm_payload m\<rparr>\<rparr>"

definition msg_lookup_topic :: "string \<Rightarrow> bool \<Rightarrow> u64 \<Rightarrow> string option \<Rightarrow> raw_message" where
  "msg_lookup_topic topic authoritative request_id listener_name =
     just (base_command_default
       \<lparr>cmd_type := 23,
        lookup_topic := Some (command_lookup_topic_default
          \<lparr>lt_topic := topic,
           lt_request_id := request_id,
           lt_authoritative := Some authoritative,
           lt_advertised_listener_name := listener_name\<rparr>)\<rparr>)"

definition msg_lookup_partitioned_topic :: "string \<Rightarrow> u64 \<Rightarrow> bool \<Rightarrow> raw_message" where
  "msg_lookup_partitioned_topic topic request_id metadata_auto_creation_enabled =
     just (base_command_default
       \<lparr>cmd_type := 21,
        partition_metadata := Some (command_partitioned_metadata_default
          \<lparr>ptm_topic := topic,
           ptm_request_id := request_id,
           ptm_metadata_auto_creation_enabled := Some metadata_auto_creation_enabled\<rparr>)\<rparr>)"

definition msg_consumer_stats :: "u64 \<Rightarrow> u64 \<Rightarrow> raw_message" where
  "msg_consumer_stats request_id consumer_id =
     just (base_command_default
       \<lparr>cmd_type := 25,
        consumer_stats := Some \<lparr>cst_request_id = request_id, cst_consumer_id = consumer_id\<rparr>\<rparr>)"

definition msg_get_last_message_id :: "u64 \<Rightarrow> u64 \<Rightarrow> raw_message" where
  "msg_get_last_message_id consumer_id request_id =
     just (base_command_default
       \<lparr>cmd_type := 29,
        get_last_message_id := Some \<lparr>gl_consumer_id = consumer_id, gl_request_id = request_id\<rparr>\<rparr>)"

definition msg_close_producer :: "u64 \<Rightarrow> u64 \<Rightarrow> raw_message" where
  "msg_close_producer producer_id request_id =
     just (base_command_default
       \<lparr>cmd_type := 15,
        close_producer := Some (command_close_producer_default
          \<lparr>clp_producer_id := producer_id, clp_request_id := request_id\<rparr>)\<rparr>)"

definition msg_subscribe :: "string \<Rightarrow> string \<Rightarrow> sub_type \<Rightarrow> u64 \<Rightarrow> u64 \<Rightarrow> string option \<Rightarrow>
    consumer_options \<Rightarrow> raw_message" where
  "msg_subscribe topic subscription sub_typ consumer_id request_id consumer_name options =
     just (base_command_default
       \<lparr>cmd_type := 4,
        subscribe := Some (command_subscribe_default
          \<lparr>sub_topic := topic,
           sub_subscription := subscription,
           sub_sub_type := sub_type_code sub_typ,
           sub_consumer_id := consumer_id,
           sub_request_id := request_id,
           sub_consumer_name := consumer_name,
           sub_priority_level := co_priority_level options,
           sub_durable := co_durable options,
           sub_metadata := key_values (co_metadata options),
           sub_read_compacted := Some (case co_read_compacted options of Some b \<Rightarrow> b | None \<Rightarrow> False),
           sub_initial_position := Some (initial_position_code (co_initial_position options)),
           sub_schema := co_schema options,
           sub_start_message_id := co_start_message_id options\<rparr>)\<rparr>)"

definition msg_flow :: "u64 \<Rightarrow> u32 \<Rightarrow> raw_message" where
  "msg_flow consumer_id message_permits =
     just (base_command_default
       \<lparr>cmd_type := 11,
        flow := Some \<lparr>fl_consumer_id = consumer_id, fl_message_permits = message_permits\<rparr>\<rparr>)"

definition msg_ack :: "u64 \<Rightarrow> message_id_data list \<Rightarrow> bool \<Rightarrow> raw_message" where
  "msg_ack consumer_id message_id cumulative =
     just (base_command_default
       \<lparr>cmd_type := 10,
        ack := Some (command_ack_default
          \<lparr>ak_consumer_id := consumer_id,
           ak_ack_type := (if cumulative then 1 else 0),
           ak_message_id := message_id,
           ak_validation_error := None\<rparr>)\<rparr>)"

definition msg_redeliver :: "u64 \<Rightarrow> message_id_data list \<Rightarrow> raw_message" where
  "msg_redeliver consumer_id message_ids =
     just (base_command_default
       \<lparr>cmd_type := 20,
        redeliver := Some (command_redeliver_default
          \<lparr>rd_consumer_id := consumer_id, rd_message_ids := message_ids\<rparr>)\<rparr>)"

definition msg_close_consumer :: "u64 \<Rightarrow> u64 \<Rightarrow> raw_message" where
  "msg_close_consumer consumer_id request_id =
     just (base_command_default
       \<lparr>cmd_type := 16,
        close_consumer := Some (command_close_consumer_default
          \<lparr>clc_consumer_id := consumer_id, clc_request_id := request_id\<rparr>)\<rparr>)"

definition msg_seek :: "u64 \<Rightarrow> u64 \<Rightarrow> message_id_data option \<Rightarrow> u64 option \<Rightarrow> raw_message" where
  "msg_seek consumer_id request_id message_id message_publish_time =
     just (base_command_default
       \<lparr>cmd_type := 28,
        seek := Some \<lparr>sk_consumer_id = consumer_id, sk_request_id = request_id,
          sk_message_id = message_id, sk_message_publish_time = message_publish_time\<rparr>\<rparr>)"

definition msg_unsubscribe :: "u64 \<Rightarrow> u64 \<Rightarrow> raw_message" where
  "msg_unsubscribe consumer_id request_id =
     just (base_command_default
       \<lparr>cmd_type := 12,
        unsubscribe := Some \<lparr>us_consumer_id = consumer_id, us_request_id = request_id\<rparr>\<rparr>)"

definition msg_auth_challenge :: "auth_params \<Rightarrow> raw_message" where
  "msg_auth_challenge auth =
     just (base_command_default
       \<lparr>cmd_type := 37,
        auth_response := Some (command_auth_response_default
          \<lparr>ar_response := Some
             \<lparr>ad_auth_method_name = Some (au_name auth), ad_auth_data = Some (au_data auth)\<rparr>\<rparr>)\<rparr>)"

section \<open>Broker features\<close>

record broker_features =
  supports_topic_watchers :: bool
  supports_get_partitioned_metadata_without_auto_creation :: bool
  supports_repl_dedup_by_lid_and_eid :: bool
  supports_topic_watcher_reconcile :: bool
  supports_scalable_topics :: bool
  supports_tc_metadata_discovery :: bool

definition unwrap_or_false :: "bool option \<Rightarrow> bool" where
  "unwrap_or_false b \<longleftrightarrow> b = Some True"

definition broker_features_from :: "feature_flags option \<Rightarrow> broker_features" where
  "broker_features_from flags =
     (case flags of
        None \<Rightarrow> \<lparr>supports_topic_watchers = False,
          supports_get_partitioned_metadata_without_auto_creation = False,
          supports_repl_dedup_by_lid_and_eid = False, supports_topic_watcher_reconcile = False,
          supports_scalable_topics = False, supports_tc_metadata_discovery = False\<rparr>
      | Some f \<Rightarrow>
        \<lparr>supports_topic_watchers = unwrap_or_false (ff_supports_topic_watchers f),
         supports_get_partitioned_metadata_without_auto_creation =
           unwrap_or_false (ff_supports_get_partitioned_metadata_without_auto_creation f),
         supports_repl_dedup_by_lid_and_eid =
           unwrap_or_false (ff_supports_repl_dedup_by_lid_and_eid f),
         supports_topic_watcher_reconcile =
           unwrap_or_false (ff_supports_topic_watcher_reconcile f),
         supports_scalable_topics = unwrap_or_false (ff_supports_scalable_topics f),
         supports_tc_metadata_discovery =
           unwrap_or_false (ff_supports_tc_metadata_discovery f)\<rparr>)"

section \<open>Reading an answer\<close>

text \<open>The text of an unexpected answer is its \<open>Debug\<close> form, which only a log reads.\<close>

definition extract_message ::
  "raw_message \<Rightarrow> (raw_message \<Rightarrow> 'a option) \<Rightarrow> (connection_error, 'a) result" where
  "extract_message m extract =
     (case error_cmd (command m) of
        Some e \<Rightarrow> Inl (PulsarError (server_error (er_error e)) (Some (er_message e)))
      | None \<Rightarrow> (case extract m of
           Some extracted \<Rightarrow> Inr extracted
         | None \<Rightarrow> Inl (UnexpectedResponse ''cmd'')))"

lemma first_some_None_iff: "first_some xs = None \<longleftrightarrow> (\<forall>x \<in> set xs. x = None)"
  by (induction xs rule: first_some.induct) auto

lemmas builder_defs = just_def msg_connect_def msg_ping_def msg_pong_def msg_create_producer_def
  msg_get_topics_of_namespace_def msg_get_schema_def msg_send_def msg_lookup_topic_def
  msg_lookup_partitioned_topic_def msg_consumer_stats_def msg_get_last_message_id_def
  msg_close_producer_def msg_subscribe_def msg_flow_def msg_ack_def msg_redeliver_def
  msg_close_consumer_def msg_seek_def msg_unsubscribe_def msg_auth_challenge_def

lemmas builder_record_defs = base_command_default_def command_producer_default_def
  command_get_topics_of_namespace_default_def command_send_default_def
  command_lookup_topic_default_def command_partitioned_metadata_default_def
  command_close_producer_default_def command_subscribe_default_def command_ack_default_def
  command_redeliver_default_def command_close_consumer_default_def

text \<open>The key of each command the client builds.\<close>

lemma request_key_builders [simp]:
  fixes n :: u32 and b :: bool
  shows
  "request_key (msg_create_producer t pn p r po) = Some (RequestId r)"
  "request_key (msg_get_topics_of_namespace r ns md) = Some (RequestId r)"
  "request_key (msg_get_schema r t v) = Some (RequestId r)"
  "request_key (msg_send now p name s m) = Some (ProducerSend p s)"
  "request_key (msg_lookup_topic t a r l) = Some (RequestId r)"
  "request_key (msg_lookup_partitioned_topic t r b) = Some (RequestId r)"
  "request_key (msg_consumer_stats r c) = Some (RequestId r)"
  "request_key (msg_get_last_message_id c r) = Some (RequestId r)"
  "request_key (msg_close_producer p r) = Some (RequestId r)"
  "request_key (msg_subscribe t sb st c r cn co) = Some (RequestId r)"
  "request_key (msg_flow c n) = Some (ConsumerKey c)"
  "request_key (msg_ack c ids b) = Some (ConsumerKey c)"
  "request_key (msg_redeliver c ids) = Some (ConsumerKey c)"
  "request_key (msg_close_consumer c r) = Some (CloseConsumerKey c r)"
  "request_key (msg_seek c r mid ts) = Some (RequestId r)"
  "request_key (msg_unsubscribe c r) = Some (RequestId r)"
  "request_key (msg_auth_challenge au) = None"
  "request_key (msg_connect pkg auo px) = None"
  "request_key msg_ping = None" "request_key msg_pong = None"
  by (simp_all add: request_key_def builder_defs builder_record_defs Let_def split: prod.split)

end
