(* ===== verification/Frame.thy ===== *)
theory Frame
  imports Commands
begin

text \<open>
  The wire format (\<open>message.rs\<close>): the frames of \<open>Codec\<close>, which carry a command and perhaps a
  payload with a checksum, in both copies of the codec (tokio and async-std), and the layout of
  the messages inside a batch. Protocol buffers (the prost crate) and the CRC-32C are
  parameters, gathered in a \<open>wire\<close> record; their encoders cannot fail on a growing vector.
  The text of a decoding error is kept without the debug form of the parser error it quotes.
  A second group reads a byte stream: the frames of a connection arrive cut into arbitrary
  chunks, and the messages read do not depend on the cuts.
\<close>

record wire =
  enc_command :: "base_command \<Rightarrow> byte list"
  dec_command :: "byte list \<Rightarrow> (string, base_command) result"
  enc_metadata :: "metadata \<Rightarrow> byte list"
  dec_metadata :: "byte list \<Rightarrow> (string, metadata) result"
  enc_single :: "single_metadata \<Rightarrow> byte list"
  dec_single :: "byte list \<Rightarrow> (string, single_metadata) result"
  crc32c :: "byte list \<Rightarrow> u32"

section \<open>Streaming parsers\<close>

text \<open>What the parsers of the nom crate that the source uses do.\<close>

datatype nom_err = Incomplete | Nom_error

type_synonym 'a parsed = "(nom_err, byte list \<times> 'a) result"

fun be_u16 :: "byte list \<Rightarrow> u16 parsed" where
  "be_u16 (a # b # i) = Inr (i, of_be16 a b)"
| "be_u16 _ = Inl Incomplete"

fun be_u32 :: "byte list \<Rightarrow> u32 parsed" where
  "be_u32 (a # b # c # d # i) = Inr (i, of_be32 a b c d)"
| "be_u32 _ = Inl Incomplete"

definition take_bytes :: "nat \<Rightarrow> byte list \<Rightarrow> (byte list) parsed" where
  "take_bytes n i = (if length i < n then Inl Incomplete else Inr (drop n i, take n i))"

fun nom_count :: "(byte list \<Rightarrow> 'a parsed) \<Rightarrow> nat \<Rightarrow> byte list \<Rightarrow> ('a list) parsed" where
  "nom_count p 0 i = Inr (i, [])"
| "nom_count p (Suc n) i =
     rbind (p i) (\<lambda>(i', x). rbind (nom_count p n i') (\<lambda>(i'', xs). Inr (i'', x # xs)))"

lemma be_u16_be16 [simp]: "be_u16 (be16 w @ i) = Inr (i, w)"
  by (simp add: be16_def of_be16_be16)

lemma be_u32_be32 [simp]: "be_u32 (be32 w @ i) = Inr (i, w)"
  by (simp add: be32_def of_be32_be32)

lemma take_bytes_append [simp]: "take_bytes (length xs) (xs @ i) = Inr (i, xs)"
  by (simp add: take_bytes_def)

section \<open>Frames\<close>

record command_frame =
  cf_total_size :: u32
  cf_command_size :: u32
  cf_command :: "byte list"

definition parse_command_frame :: "byte list \<Rightarrow> command_frame parsed" where
  "parse_command_frame i =
     rbind (be_u32 i) (\<lambda>(i, total_size).
     rbind (be_u32 i) (\<lambda>(i, command_size).
     rbind (take_bytes (unat command_size) i) (\<lambda>(i, cmd).
       Inr (i, \<lparr>cf_total_size = total_size, cf_command_size = command_size, cf_command = cmd\<rparr>))))"

record payload_frame =
  pf_magic_number :: u16
  pf_checksum :: u32
  pf_metadata_size :: u32
  pf_metadata :: "byte list"

definition parse_payload_frame :: "byte list \<Rightarrow> payload_frame parsed" where
  "parse_payload_frame i =
     rbind (be_u16 i) (\<lambda>(i, magic_number).
     rbind (be_u32 i) (\<lambda>(i, checksum).
     rbind (be_u32 i) (\<lambda>(i, metadata_size).
     rbind (take_bytes (unat metadata_size) i) (\<lambda>(i, md).
       Inr (i, \<lparr>pf_magic_number = magic_number, pf_checksum = checksum,
               pf_metadata_size = metadata_size, pf_metadata = md\<rparr>)))))"

text \<open>The tokio codec.\<close>

definition encode :: "wire \<Rightarrow> raw_message \<Rightarrow> byte list \<Rightarrow> byte list" where
  "encode w item dst =
     (let command_size = length (enc_command w (command item));
          metadata_size = (case msg_payload item of
             Some p \<Rightarrow> length (enc_metadata w (pl_metadata p)) | None \<Rightarrow> 0);
          payload_size = (case msg_payload item of Some p \<Rightarrow> length (pl_data p) | None \<Rightarrow> 0);
          header_size = (if msg_payload item \<noteq> None then 18 else 8);
          total_size = command_size + metadata_size + payload_size + header_size - 4;
          buf = be32 (u32_of_usize total_size) @ be32 (u32_of_usize command_size)
                @ enc_command w (command item)
      in case msg_payload item of
           None \<Rightarrow> dst @ buf
         | Some p \<Rightarrow>
             (let body = be32 (u32_of_usize metadata_size) @ enc_metadata w (pl_metadata p)
                         @ pl_data p
              in dst @ buf @ be16 0x0e01 @ be32 (crc32c w body) @ body))"

definition decode_frame :: "wire \<Rightarrow> byte list \<Rightarrow> (connection_error, raw_message) result" where
  "decode_frame w frame =
     rbind (map_err (\<lambda>_. Decoding ''Error decoding command frame'') (parse_command_frame frame))
       (\<lambda>(buf, cf).
     rbind (map_err Decoding (dec_command w (cf_command cf))) (\<lambda>cmd.
     rbind (if buf = [] then Inr None
            else rbind (map_err (\<lambda>_. Decoding ''Error decoding payload frame'')
                          (parse_payload_frame buf)) (\<lambda>(buf, pf).
                 rbind (map_err Decoding (dec_metadata w (pf_metadata pf))) (\<lambda>md.
                 let reconstructed_crc_data = be32 (pf_metadata_size pf) @ pf_metadata pf @ buf;
                     computed_crc_32 = crc32c w reconstructed_crc_data
                 in if pf_checksum pf = computed_crc_32
                    then Inr (Some \<lparr>pl_metadata = md, pl_data = buf\<rparr>)
                    else Inl (Decoding ''Checksum mismatch, invalid payload''))))
       (\<lambda>pl. Inr \<lparr>command = cmd, msg_payload = pl\<rparr>)))"

definition decode ::
  "wire \<Rightarrow> byte list \<Rightarrow> (connection_error, (raw_message \<times> byte list) option) result" where
  "decode w src =
     (case be_u32 src of
        Inl _ \<Rightarrow> Inr None
      | Inr (_, total_size) \<Rightarrow>
        (let message_size = unat total_size + 4 in
         if message_size \<le> length src
         then rmap (\<lambda>msg. Some (msg, drop message_size src)) (decode_frame w (take message_size src))
         else Inr None))"

text \<open>The async-std codec.\<close>

definition encode_async_std :: "wire \<Rightarrow> raw_message \<Rightarrow> byte list \<Rightarrow> byte list" where
  "encode_async_std w item dst =
     (let command_size = length (enc_command w (command item));
          metadata_size = (case msg_payload item of
             Some p \<Rightarrow> length (enc_metadata w (pl_metadata p)) | None \<Rightarrow> 0);
          payload_size = (case msg_payload item of Some p \<Rightarrow> length (pl_data p) | None \<Rightarrow> 0);
          header_size = (if msg_payload item \<noteq> None then 18 else 8);
          total_size = command_size + metadata_size + payload_size + header_size - 4;
          buf = be32 (u32_of_usize total_size) @ be32 (u32_of_usize command_size)
                @ enc_command w (command item)
      in case msg_payload item of
           None \<Rightarrow> dst @ buf
         | Some p \<Rightarrow>
             (let body = be32 (u32_of_usize metadata_size) @ enc_metadata w (pl_metadata p)
                         @ pl_data p
              in dst @ buf @ be16 0x0e01 @ be32 (crc32c w body) @ body))"

definition decode_frame_async_std :: "wire \<Rightarrow> byte list \<Rightarrow> (connection_error, raw_message) result" where
  "decode_frame_async_std w frame =
     rbind (map_err (\<lambda>_. Decoding ''Error decoding command frame'') (parse_command_frame frame))
       (\<lambda>(buf, cf).
     rbind (map_err Decoding (dec_command w (cf_command cf))) (\<lambda>cmd.
     rbind (if buf = [] then Inr None
            else rbind (map_err (\<lambda>_. Decoding ''Error decoding payload frame'')
                          (parse_payload_frame buf)) (\<lambda>(buf, pf).
                 rbind (map_err Decoding (dec_metadata w (pf_metadata pf))) (\<lambda>md.
                 let reconstructed_crc_data = be32 (pf_metadata_size pf) @ pf_metadata pf @ buf;
                     computed_crc_32 = crc32c w reconstructed_crc_data
                 in if pf_checksum pf = computed_crc_32
                    then Inr (Some \<lparr>pl_metadata = md, pl_data = buf\<rparr>)
                    else Inl (Decoding ''Checksum mismatch, invalid payload''))))
       (\<lambda>pl. Inr \<lparr>command = cmd, msg_payload = pl\<rparr>)))"

definition decode_async_std ::
  "wire \<Rightarrow> byte list \<Rightarrow> (connection_error, (raw_message \<times> byte list) option) result" where
  "decode_async_std w src =
     (case be_u32 src of
        Inl _ \<Rightarrow> Inr None
      | Inr (_, total_size) \<Rightarrow>
        (let message_size = unat total_size + 4 in
         if message_size \<le> length src
         then rmap (\<lambda>msg. Some (msg, drop message_size src)) (decode_frame_async_std w (take message_size src))
         else Inr None))"

section \<open>Messages inside a batch\<close>

record batched_message =
  bm_metadata :: single_metadata
  bm_payload :: "byte list"

definition parse_single_metadata :: "wire \<Rightarrow> nat \<Rightarrow> byte list \<Rightarrow> single_metadata parsed" where
  "parse_single_metadata w metadata_size i =
     rbind (take_bytes metadata_size i) (\<lambda>(i, bytes).
     rbind (map_err (\<lambda>_. Nom_error) (dec_single w bytes)) (\<lambda>md.
       if 0 \<le> sm_payload_size md then Inr (i, md) else Inl Nom_error))"

definition parse_batched :: "wire \<Rightarrow> byte list \<Rightarrow> batched_message parsed" where
  "parse_batched w i =
     rbind (be_u32 i) (\<lambda>(i, metadata_size).
     rbind (parse_single_metadata w (unat metadata_size) i) (\<lambda>(i, md).
     rbind (take_bytes (nat (sm_payload_size md)) i) (\<lambda>(i, pl).
       Inr (i, \<lparr>bm_metadata = md, bm_payload = pl\<rparr>))))"

definition parse_batched_message ::
  "wire \<Rightarrow> u32 \<Rightarrow> byte list \<Rightarrow> (connection_error, batched_message list) result" where
  "parse_batched_message w count pl =
     rmap snd (map_err (\<lambda>_. Decoding ''Error decoding batched messages'')
       (nom_count (parse_batched w) (unat count) pl))"

definition serialize :: "wire \<Rightarrow> batched_message \<Rightarrow> byte list \<Rightarrow> byte list" where
  "serialize w b buf =
     buf @ be32 (u32_of_usize (length (enc_single w (bm_metadata b))))
         @ enc_single w (bm_metadata b) @ bm_payload b"

section \<open>Encoding and decoding one frame\<close>

text \<open>
  What the protocol buffer codec guarantees of a message, and the size the length field
  can express.
\<close>

definition wire_ok :: "wire \<Rightarrow> raw_message \<Rightarrow> bool" where
  "wire_ok w m \<longleftrightarrow>
     dec_command w (enc_command w (command m)) = Inr (command m) \<and>
     (case msg_payload m of None \<Rightarrow> True
      | Some p \<Rightarrow> dec_metadata w (enc_metadata w (pl_metadata p)) = Inr (pl_metadata p)) \<and>
     length (encode w m []) < 2 ^ 32"

lemma encode_append: "encode w m dst = dst @ encode w m []"
  by (simp add: encode_def Let_def split: option.split)

lemma record_eta [simp]:
  "msg_payload m = pl \<Longrightarrow> \<lparr>command = command m, msg_payload = pl\<rparr> = m"
  "\<lparr>pl_metadata = pl_metadata p, pl_data = pl_data p\<rparr> = p"
  by auto

lemma be_not_Nil [simp]: "be16 x \<noteq> []" "be32 y \<noteq> []"
  by (simp_all add: be16_def be32_def)

lemma async_std_codec [simp]: "encode_async_std = encode" "decode_async_std = decode"
proof -
  have frame: "decode_frame_async_std = decode_frame"
    by (intro ext) (simp only: decode_frame_async_std_def decode_frame_def)
  show "encode_async_std = encode"
    by (intro ext) (simp only: encode_async_std_def encode_def)
  show "decode_async_std = decode"
    by (intro ext) (simp only: decode_async_std_def decode_def frame)
qed

lemma decode_complete:
  "unat tot = length body \<Longrightarrow> decode w (be32 tot @ body @ rest)
     = rmap (\<lambda>msg. Some (msg, rest)) (decode_frame w (be32 tot @ body))"
  by (simp add: decode_def Let_def)

text \<open>What follows the command in a frame.\<close>

definition frame_tail :: "wire \<Rightarrow> raw_message \<Rightarrow> byte list" where
  "frame_tail w m =
     (case msg_payload m of None \<Rightarrow> []
      | Some p \<Rightarrow>
        (let body = be32 (u32_of_usize (length (enc_metadata w (pl_metadata p))))
                    @ enc_metadata w (pl_metadata p) @ pl_data p
         in be16 0x0e01 @ be32 (crc32c w body) @ body))"

lemma encode_layout:
  assumes "length (encode w m []) < 2 ^ 32"
  obtains total body where "encode w m [] = be32 total @ body" "unat total = length body"
    "parse_command_frame (be32 total @ body) = Inr (frame_tail w m,
       \<lparr>cf_total_size = total,
        cf_command_size = u32_of_usize (length (enc_command w (command m))),
        cf_command = enc_command w (command m)\<rparr>)"
proof -
  let ?c = "enc_command w (command m)"
  let ?body = "be32 (u32_of_usize (length ?c)) @ ?c @ frame_tail w m"
  let ?total = "u32_of_usize (length ?body)"
  have enc: "encode w m [] = be32 ?total @ ?body"
    by (simp add: encode_def frame_tail_def Let_def add.assoc split: option.split)
  then have len: "length ?body < 2 ^ 32" "length ?c < 2 ^ 32" using assms by simp_all
  show thesis
  proof (rule that [OF enc])
    show "unat ?total = length ?body" using len(1) by (rule unat_u32_of_usize)
    show "parse_command_frame (be32 ?total @ ?body) = Inr (frame_tail w m,
        \<lparr>cf_total_size = ?total, cf_command_size = u32_of_usize (length ?c), cf_command = ?c\<rparr>)"
      using len(2) by (simp add: parse_command_frame_def unat_u32_of_usize)
  qed
qed

lemma decode_encode:
  assumes "wire_ok w m"
  shows "decode w (encode w m [] @ rest) = Inr (Some (m, rest))"
proof -
  have len: "length (encode w m []) < 2 ^ 32" using assms by (simp add: wire_ok_def)
  then obtain total body where enc: "encode w m [] = be32 total @ body" "unat total = length body"
    and frame: "parse_command_frame (be32 total @ body) = Inr (frame_tail w m,
       \<lparr>cf_total_size = total,
        cf_command_size = u32_of_usize (length (enc_command w (command m))),
        cf_command = enc_command w (command m)\<rparr>)"
    by (rule encode_layout)
  have "decode_frame w (be32 total @ body) = Inr m"
  proof (cases "msg_payload m")
    case None
    then show ?thesis
      using assms by (simp add: decode_frame_def frame wire_ok_def frame_tail_def)
  next
    case (Some p)
    let ?md = "enc_metadata w (pl_metadata p)"
    have "length ?md < 2 ^ 32" using len Some by (simp add: encode_def Let_def)
    then have "parse_payload_frame
        (be16 0x0e01 @ be32 x @ be32 (u32_of_usize (length ?md)) @ ?md @ pl_data p)
      = Inr (pl_data p, \<lparr>pf_magic_number = 0x0e01, pf_checksum = x,
          pf_metadata_size = u32_of_usize (length ?md), pf_metadata = ?md\<rparr>)" for x
      by (simp add: parse_payload_frame_def unat_u32_of_usize)
    moreover have "frame_tail w m \<noteq> []" using Some by (simp add: frame_tail_def Let_def be16_def)
    ultimately show ?thesis
      using assms Some by (simp add: decode_frame_def frame wire_ok_def frame_tail_def Let_def)
  qed
  then show ?thesis by (simp add: enc decode_complete)
qed

lemma decode_incomplete:
  assumes "length (encode w m []) < 2 ^ 32" and "encode w m [] = xs @ ys" and "ys \<noteq> []"
  shows "decode w xs = Inr None"
proof -
  obtain total body where enc: "encode w m [] = be32 total @ body" "unat total = length body"
    using assms(1) by (rule encode_layout)
  show ?thesis
  proof (cases "length xs < 4")
    case True
    then have "be_u32 xs = Inl Incomplete"
      by (cases xs rule: be_u32.cases) auto
    then show ?thesis by (simp add: decode_def)
  next
    case False
    then have "take 4 xs = be32 total" 
      using arg_cong [OF assms(2), of "take 4"] enc(1) by simp
    then have "xs = be32 total @ drop 4 xs" by (metis append_take_drop_id)
    then have "be_u32 xs = Inr (drop 4 xs, total)" by (metis be_u32_be32)
    moreover have "length xs < unat total + 4"
      using arg_cong [OF assms(2), of length] enc assms(3) by (cases ys) auto
    ultimately show ?thesis by (simp add: decode_def Let_def)
  qed
qed

section \<open>Reading a byte stream\<close>

lemma be_u32_extend: "be_u32 src = Inr (i, w) \<Longrightarrow> be_u32 (src @ suf) = Inr (i @ suf, w)"
  by (cases src rule: be_u32.cases) auto

lemma decode_cases:
  obtains (short) "decode w src = Inr None"
  | (complete) i tot where "be_u32 src = Inr (i, tot)" "unat tot + 4 \<le> length src"
      "decode w src = rmap (\<lambda>msg. Some (msg, drop (unat tot + 4) src))
         (decode_frame w (take (unat tot + 4) src))"
proof (cases "be_u32 src")
  case (Inl e)
  then show ?thesis by (intro short) (simp add: decode_def)
next
  case (Inr q)
  then obtain i tot where q: "be_u32 src = Inr (i, tot)" by (cases q) auto
  show ?thesis
  proof (cases "unat tot + 4 \<le> length src")
    case True
    with q show ?thesis by (intro complete) (simp_all add: decode_def Let_def)
  next
    case False
    with q show ?thesis by (intro short) (simp add: decode_def Let_def)
  qed
qed

lemma decode_shrinks: "decode w src = Inr (Some (m, rest)) \<Longrightarrow> length rest < length src"
  by (cases rule: decode_cases [of w src]) (auto simp: rmap_Inr_iff)

lemma decode_extend:
  "decode w src = Inr (Some (m, rest)) \<Longrightarrow> decode w (src @ suf) = Inr (Some (m, rest @ suf))"
proof (cases rule: decode_cases [of w src])
  case (complete i tot)
  assume "decode w src = Inr (Some (m, rest))"
  then show ?thesis
    using complete be_u32_extend [OF complete(1), of suf]
    by (cases "decode_frame w (take (unat tot + 4) src)") (auto simp: decode_def Let_def)
qed simp

lemma decode_error_extend: "decode w src = Inl e \<Longrightarrow> decode w (src @ suf) = Inl e"
proof (cases rule: decode_cases [of w src])
  case (complete i tot)
  assume "decode w src = Inl e"
  then show ?thesis
    using complete be_u32_extend [OF complete(1), of suf]
    by (cases "decode_frame w (take (unat tot + 4) src)") (auto simp: decode_def Let_def)
qed simp

text \<open>
  What the framed streams of both runtimes do with the decoder: take messages off the buffer
  until it holds no complete frame; the outcome is what is left, or the error that ends the
  stream.
\<close>

function drain ::
  "wire \<Rightarrow> byte list \<Rightarrow> raw_message list \<times> (connection_error, byte list) result" where
  "drain w src =
     (case decode w src of
        Inl e \<Rightarrow> ([], Inl e)
      | Inr None \<Rightarrow> ([], Inr src)
      | Inr (Some (m, rest)) \<Rightarrow> (let (ms, out) = drain w rest in (m # ms, out)))"
  by pat_completeness auto
termination
  by (relation "measure (\<lambda>(w, src). length src)") (auto simp: decode_shrinks)

function drain_async_std ::
  "wire \<Rightarrow> byte list \<Rightarrow> raw_message list \<times> (connection_error, byte list) result" where
  "drain_async_std w src =
     (case decode_async_std w src of
        Inl e \<Rightarrow> ([], Inl e)
      | Inr None \<Rightarrow> ([], Inr src)
      | Inr (Some (m, rest)) \<Rightarrow> (let (ms, out) = drain_async_std w rest in (m # ms, out)))"
  by pat_completeness auto
termination
  by (relation "measure (\<lambda>(w, src). length src)") (auto simp: decode_shrinks)

declare drain.simps [simp del] drain_async_std.simps [simp del]

text \<open>Reading chunk after chunk from the socket.\<close>

fun feed :: "(byte list \<Rightarrow> 'm list \<times> ('e, byte list) result) \<Rightarrow> byte list \<Rightarrow> byte list list \<Rightarrow>
    'm list \<times> ('e, byte list) result" where
  "feed run buf [] = run buf"
| "feed run buf (c # cs) =
     (case run buf of
        (ms, Inl e) \<Rightarrow> (ms, Inl e)
      | (ms, Inr rest) \<Rightarrow> (let (ms', out) = feed run (rest @ c) cs in (ms @ ms', out)))"

text \<open>
  What a stream reader relies on: reading is repeated decoding, a decoded frame is decoded
  the same whatever bytes follow it, and every frame takes bytes off the buffer.
\<close>

locale framed_stream =
  fixes dec :: "byte list \<Rightarrow> ('e, ('m \<times> byte list) option) result"
    and run :: "byte list \<Rightarrow> 'm list \<times> ('e, byte list) result"
  assumes run_unfold: "run src =
      (case dec src of Inl e \<Rightarrow> ([], Inl e) | Inr None \<Rightarrow> ([], Inr src)
       | Inr (Some (m, rest)) \<Rightarrow> (let (ms, out) = run rest in (m # ms, out)))"
    and dec_shrinks: "dec src = Inr (Some (m, rest)) \<Longrightarrow> length rest < length src"
    and dec_extend: "dec src = Inr (Some (m, rest)) \<Longrightarrow> dec (src @ suf) = Inr (Some (m, rest @ suf))"
    and dec_error_extend: "dec src = Inl e \<Longrightarrow> dec (src @ suf) = Inl e"
begin

lemma run_append:
  "run (src @ suf) =
    (case run src of (ms, Inl e) \<Rightarrow> (ms, Inl e)
     | (ms, Inr rest) \<Rightarrow> (let (ms', out) = run (rest @ suf) in (ms @ ms', out)))"
proof (induction "length src" arbitrary: src rule: less_induct)
  case less
  show ?case
  proof (cases "dec src")
    case (Inl e)
    then show ?thesis
      by (simp add: run_unfold [of src] run_unfold [of "src @ suf"] dec_error_extend)
  next
    case (Inr o1)
    show ?thesis
    proof (cases o1)
      case None
      with Inr show ?thesis by (simp add: run_unfold [of src])
    next
      case (Some p)
      then obtain m rest where d: "dec src = Inr (Some (m, rest))" using Inr by (cases p) auto
      show ?thesis
        using less [OF dec_shrinks [OF d]]
        by (simp add: run_unfold [of src] run_unfold [of "src @ suf"] d dec_extend [OF d]
            split: prod.splits sum.splits)
    qed
  qed
qed

lemma feed_concat: "feed run buf cs = run (buf @ concat cs)"
proof (induction cs arbitrary: buf)
  case (Cons c cs)
  then show ?case
    using run_append [of buf "c @ concat cs"] by (simp split: prod.splits sum.splits)
qed simp

lemma run_frames:
  assumes "list_all2 (\<lambda>m bs. \<forall>rest. dec (bs @ rest) = Inr (Some (m, rest))) ms frames"
  shows "run (concat frames @ rest) = (let (ms', out) = run rest in (ms @ ms', out))"
  using assms
proof (induction rule: list_all2_induct)
  case (Cons m ms bs frames)
  then have "dec (bs @ concat frames @ rest) = Inr (Some (m, concat frames @ rest))" by simp
  then show ?case
    using Cons.IH run_unfold [of "bs @ concat frames @ rest"] by (simp split: prod.splits)
qed simp

end

interpretation tokio: framed_stream "decode w" "drain w" for w
  by unfold_locales
     (rule drain.simps, erule decode_shrinks, erule decode_extend, erule decode_error_extend)

interpretation async_std: framed_stream "decode_async_std w" "drain_async_std w" for w
proof unfold_locales
  show "drain_async_std w src = (case decode_async_std w src of Inl e \<Rightarrow> ([], Inl e)
     | Inr None \<Rightarrow> ([], Inr src)
     | Inr (Some (m, rest)) \<Rightarrow> (let (ms, out) = drain_async_std w rest in (m # ms, out)))" for src
    by (rule drain_async_std.simps)
qed (simp_all add: decode_shrinks decode_extend decode_error_extend)

section \<open>Batches\<close>

text \<open>What a batched message needs to be read back: its recorded size is its size.\<close>

definition single_ok :: "wire \<Rightarrow> batched_message \<Rightarrow> bool" where
  "single_ok w b \<longleftrightarrow>
     dec_single w (enc_single w (bm_metadata b)) = Inr (bm_metadata b) \<and>
     length (enc_single w (bm_metadata b)) < 2 ^ 32 \<and>
     sm_payload_size (bm_metadata b) = int (length (bm_payload b))"

lemma serialize_append: "serialize w b buf = buf @ serialize w b []"
  by (simp add: serialize_def)

lemma fold_serialize: "fold (serialize w) bs buf = buf @ concat (map (\<lambda>b. serialize w b []) bs)"
proof (induction bs arbitrary: buf)
  case (Cons b bs)
  then show ?case by (simp add: serialize_append [of w b buf])
qed simp

lemma parse_batched_serialize:
  "single_ok w b \<Longrightarrow> parse_batched w (serialize w b [] @ rest) = Inr (rest, b)"
  by (simp add: single_ok_def parse_batched_def parse_single_metadata_def serialize_def
      unat_u32_of_usize)

lemma nom_count_serialize:
  "\<forall>b \<in> set bs. single_ok w b \<Longrightarrow>
    nom_count (parse_batched w) (length bs) (concat (map (\<lambda>b. serialize w b []) bs) @ rest)
      = Inr (rest, bs)"
  by (induction bs) (simp_all add: parse_batched_serialize)

lemma parse_batched_message_serialize:
  assumes "\<forall>b \<in> set bs. single_ok w b" and "unat count = length bs"
  shows "parse_batched_message w count (fold (serialize w) bs []) = Inr bs"
  using nom_count_serialize [OF assms(1), of "[]"]
  by (simp add: parse_batched_message_def fold_serialize assms(2))

section \<open>What the decoder accepts\<close>

lemma bit_byte_high: "8 \<le> n \<Longrightarrow> \<not> bit (b :: byte) n"
  using bit_imp_le_length [of b n] by auto

lemma be32_of_be32: "be32 (of_be32 a b c d) = [a, b, c, d]"
  unfolding be32_def of_be32_def
  by (auto intro!: bit_word_eqI
      simp: bit_or_iff bit_push_bit_iff bit_ucast_iff bit_drop_bit_eq bit_byte_high)

lemma be16_of_be16: "be16 (of_be16 a b) = [a, b]"
  unfolding be16_def of_be16_def
  by (auto intro!: bit_word_eqI
      simp: bit_or_iff bit_push_bit_iff bit_ucast_iff bit_drop_bit_eq bit_byte_high)

lemma be_u32_InrD: "be_u32 i = Inr (i', w) \<Longrightarrow> i = be32 w @ i'"
  by (cases i rule: be_u32.cases) (auto simp: be32_of_be32)

lemma be_u16_InrD: "be_u16 i = Inr (i', w) \<Longrightarrow> i = be16 w @ i'"
  by (cases i rule: be_u16.cases) (auto simp: be16_of_be16)

lemma take_bytes_InrD: "take_bytes n i = Inr (i', xs) \<Longrightarrow> i = xs @ i' \<and> length xs = n"
  by (auto simp: take_bytes_def split: if_splits)

lemma parse_command_frame_InrD:
  assumes "parse_command_frame i = Inr (i', cf)"
  shows "i = be32 (cf_total_size cf) @ be32 (cf_command_size cf) @ cf_command cf @ i'
    \<and> unat (cf_command_size cf) = length (cf_command cf)"
  using assms
  by (auto simp: parse_command_frame_def rbind_Inr_iff dest!: be_u32_InrD take_bytes_InrD)

lemma parse_payload_frame_InrD:
  assumes "parse_payload_frame i = Inr (i', pf)"
  shows "i = be16 (pf_magic_number pf) @ be32 (pf_checksum pf) @ be32 (pf_metadata_size pf)
      @ pf_metadata pf @ i'
    \<and> unat (pf_metadata_size pf) = length (pf_metadata pf)"
  using assms
  by (auto simp: parse_payload_frame_def rbind_Inr_iff
      dest!: be_u16_InrD be_u32_InrD take_bytes_InrD)

lemma decode_frame_payload:
  assumes "decode_frame w frame = Inr m" and "msg_payload m = Some p"
  shows "\<exists>tot cs cmd magic ms md. frame = be32 tot @ be32 cs @ cmd @ be16 magic
      @ be32 (crc32c w (be32 ms @ md @ pl_data p)) @ be32 ms @ md @ pl_data p
    \<and> unat cs = length cmd \<and> unat ms = length md
    \<and> dec_command w cmd = Inr (command m) \<and> dec_metadata w md = Inr (pl_metadata p)"
proof -
  obtain buf cf where cf: "parse_command_frame frame = Inr (buf, cf)"
    and cmd: "dec_command w (cf_command cf) = Inr (command m)"
    and pl: "(if buf = [] then Inr None
            else rbind (map_err (\<lambda>_. Decoding ''Error decoding payload frame'')
                          (parse_payload_frame buf)) (\<lambda>(buf, pf).
                 rbind (map_err Decoding (dec_metadata w (pf_metadata pf))) (\<lambda>md.
                 if pf_checksum pf = crc32c w (be32 (pf_metadata_size pf) @ pf_metadata pf @ buf)
                 then Inr (Some \<lparr>pl_metadata = md, pl_data = buf\<rparr>)
                 else Inl (Decoding ''Checksum mismatch, invalid payload'')))) = Inr (Some p)"
    using assms unfolding decode_frame_def Let_def
    by (cases "parse_command_frame frame") (auto simp: rbind_Inr_iff map_err_Inr_iff)
  from pl obtain data pf where pf: "parse_payload_frame buf = Inr (data, pf)"
    and md: "dec_metadata w (pf_metadata pf) = Inr (pl_metadata p)"
    and crc: "pf_checksum pf = crc32c w (be32 (pf_metadata_size pf) @ pf_metadata pf @ pl_data p)"
    and data: "data = pl_data p"
    by (cases "parse_payload_frame buf")
       (auto simp: rbind_Inr_iff map_err_Inr_iff split: if_splits)
  show ?thesis
    using parse_command_frame_InrD [OF cf] parse_payload_frame_InrD [OF pf] cmd md crc data
    by (intro exI [of _ "cf_total_size cf"] exI [of _ "cf_command_size cf"] exI [of _ "cf_command cf"]
        exI [of _ "pf_magic_number pf"] exI [of _ "pf_metadata_size pf"] exI [of _ "pf_metadata pf"])
       simp
qed

section \<open>Properties\<close>

text \<open>
  C3. A byte stream that carries the frames of messages, cut into chunks at any points and
  ending inside a further frame, is read as exactly those messages in order, by the tokio
  codec and by the async-std codec, with the bytes of the unfinished frame kept for the next
  read and no error.
\<close>

theorem stream_of_frames_is_read_back:
  assumes "\<forall>m \<in> set ms. wire_ok w m"
    and "concat chunks = concat (map (\<lambda>m. encode w m []) ms) @ part"
    and "encode w m' [] = part @ missing" and "missing \<noteq> []"
    and "length (encode w m' []) < 2 ^ 32"
  shows "feed (drain w) [] chunks = (ms, Inr part)
    \<and> feed (drain_async_std w) [] chunks = (ms, Inr part)"
proof -
  have part: "decode w part = Inr None"
    using assms(3-5) by (intro decode_incomplete [of w m' part missing]) simp_all
  have all: "list_all2 (\<lambda>m bs. \<forall>rest. decode w (bs @ rest) = Inr (Some (m, rest))) ms
      (map (\<lambda>m. encode w m []) ms)"
    using assms(1) by (auto simp: list_all2_map2 list_all2_same decode_encode)
  have "drain w part = ([], Inr part)" "drain_async_std w part = ([], Inr part)"
    using part by (simp_all add: drain.simps [of w part] drain_async_std.simps [of w part])
  then show ?thesis
    using tokio.run_frames [OF all, of part] async_std.run_frames [of w ms _ part] all assms(2)
    by (simp add: tokio.feed_concat async_std.feed_concat)
qed

theorem stream_of_frames_is_read_back_witness:
  "\<exists>w. feed (drain w) [] [[0, 0, 0], [5, 0, 0, 0, 1, 1, 0], [0, 0, 5, 0, 0, 0, 1], [2, 0]]
    = ([msg_ping, msg_pong], Inr [0])"
proof -
  let ?w = "\<lparr>enc_command = (\<lambda>c. if ping c = None then [2] else [1]),
    dec_command = (\<lambda>bs. if bs = [1] then Inr (command msg_ping) else Inr (command msg_pong)),
    enc_metadata = (\<lambda>md. []), dec_metadata = (\<lambda>bs. Inr metadata_default),
    enc_single = (\<lambda>md. []), dec_single = (\<lambda>bs. Inr single_metadata_default),
    crc32c = (\<lambda>bs. 0)\<rparr>"
  have be5: "be32 (u32_of_usize 5) = [0, 0, 0, 5]" and be1: "be32 (u32_of_usize 1) = [0, 0, 0, 1]"
    by code_simp+
  have enc: "encode ?w msg_ping [] = [0, 0, 0, 5, 0, 0, 0, 1, 1]"
    "encode ?w msg_pong [] = [0, 0, 0, 5, 0, 0, 0, 1, 2]"
    using be5 be1
    by (simp_all add: encode_def msg_ping_def msg_pong_def just_def base_command_default_def Let_def
        eval_nat_numeral)
  then have ok: "\<forall>m \<in> set [msg_ping, msg_pong]. wire_ok ?w m"
    by (simp add: wire_ok_def) (simp add: msg_ping_def msg_pong_def just_def base_command_default_def)
  show ?thesis
    using enc
    by (intro exI [of _ ?w] conjunct1 [OF stream_of_frames_is_read_back [OF ok,
          of _ "[0]" msg_ping "[0, 0, 5, 0, 0, 0, 1, 1]"]])
       simp_all
qed

text \<open>
  C4. A payload is handed on only behind a checksum that matches it: whenever the decoder
  returns a message with a payload, the bytes it took are the length, the command, the
  magic number, the CRC of the metadata size, the metadata and the data, and these three in
  that order, and what it leaves is the rest of the input.
\<close>

theorem accepted_payload_is_checksummed:
  assumes "decode w src = Inr (Some (m, rest))" and "msg_payload m = Some p"
  shows "\<exists>tot cs cmd magic ms md. src = be32 tot @ be32 cs @ cmd @ be16 magic
      @ be32 (crc32c w (be32 ms @ md @ pl_data p)) @ be32 ms @ md @ pl_data p @ rest
    \<and> unat cs = length cmd \<and> unat ms = length md
    \<and> dec_command w cmd = Inr (command m) \<and> dec_metadata w md = Inr (pl_metadata p)"
proof (cases rule: decode_cases [of w src])
  case short
  with assms show ?thesis by simp
next
  case (complete i tot)
  then have frame: "decode_frame w (take (unat tot + 4) src) = Inr m"
    and rest: "rest = drop (unat tot + 4) src"
    using assms by (auto simp: rmap_Inr_iff dest: sym)
  have "src = take (unat tot + 4) src @ rest" by (simp add: rest)
  with decode_frame_payload [OF frame assms(2)] show ?thesis
    by (metis (no_types, lifting) append.assoc)
qed

theorem accepted_payload_is_checksummed_witness:
  "\<exists>(w :: wire) tot cs cmd magic ms md.
    [0, 0, 0, 17, 0, 0, 0, 1, 1, 14, 1, 0, 0, 0, 9, 0, 0, 0, 1, 7, 8]
      = be32 tot @ be32 cs @ cmd @ be16 magic @ be32 (crc32c w (be32 ms @ md @ [8])) @ be32 ms @ md @ [8]
    \<and> unat cs = length cmd \<and> unat ms = length md"
proof -
  let ?w = "\<lparr>enc_command = (\<lambda>c. []), dec_command = (\<lambda>bs. Inr base_command_default),
    enc_metadata = (\<lambda>md. []), dec_metadata = (\<lambda>bs. Inr metadata_default),
    enc_single = (\<lambda>md. []), dec_single = (\<lambda>bs. Inr single_metadata_default),
    crc32c = (\<lambda>bs. 9)\<rparr>"
  let ?src = "[0, 0, 0, 17, 0, 0, 0, 1, 1, 14, 1, 0, 0, 0, 9, 0, 0, 0, 1, 7, 8]"
  let ?p = "\<lparr>pl_metadata = metadata_default, pl_data = [8]\<rparr>"
  have nums: "of_be32 0 0 0 17 = 17" "of_be32 0 0 0 1 = 1" "of_be32 0 0 0 9 = 9"
    by code_simp+
  have d: "decode ?w ?src = Inr (Some (\<lparr>command = base_command_default, msg_payload = Some ?p\<rparr>, []))"
    by (simp add: decode_def decode_frame_def parse_command_frame_def parse_payload_frame_def
        take_bytes_def nums Let_def)
  have "msg_payload \<lparr>command = base_command_default, msg_payload = Some ?p\<rparr> = Some ?p" by simp
  from accepted_payload_is_checksummed [OF d this] obtain tot cs cmd magic ms md where
    "?src = be32 tot @ be32 cs @ cmd @ be16 magic @ be32 (crc32c ?w (be32 ms @ md @ pl_data ?p))
       @ be32 ms @ md @ pl_data ?p @ []" "unat cs = length cmd" "unat ms = length md"
    by (elim exE conjE) blast
  then show ?thesis
    by (intro exI [of _ ?w] exI [of _ tot] exI [of _ cs] exI [of _ cmd] exI [of _ magic]
        exI [of _ ms] exI [of _ md]) simp
qed

text \<open>
  The messages serialized into a batch are read back from it, in order and complete, when
  the count the metadata declares is their number.
\<close>

theorem batch_payload_roundtrip:
  assumes "\<forall>b \<in> set bs. single_ok w b" and "unat count = length bs"
  shows "parse_batched_message w count (fold (serialize w) bs []) = Inr bs"
  using assms by (rule parse_batched_message_serialize)

theorem batch_payload_roundtrip_witness:
  "\<exists>w. parse_batched_message w 2
     (fold (serialize w) [\<lparr>bm_metadata = single_metadata_default, bm_payload = []\<rparr>,
        \<lparr>bm_metadata = single_metadata_default, bm_payload = []\<rparr>] [])
   = Inr [\<lparr>bm_metadata = single_metadata_default, bm_payload = []\<rparr>,
        \<lparr>bm_metadata = single_metadata_default, bm_payload = []\<rparr>]"
proof -
  let ?w = "\<lparr>enc_command = (\<lambda>c. []), dec_command = (\<lambda>bs. Inr base_command_default),
    enc_metadata = (\<lambda>md. []), dec_metadata = (\<lambda>bs. Inr metadata_default),
    enc_single = (\<lambda>md. [24, 0]), dec_single = (\<lambda>bs. Inr single_metadata_default),
    crc32c = (\<lambda>bs. 0)\<rparr>"
  show ?thesis
    by (rule exI [of _ ?w], rule batch_payload_roundtrip)
       (simp_all add: single_ok_def single_metadata_default_def)
qed

end
