(* ===== verification/Batch.thy ===== *)
theory Batch
  imports Frame
begin

text \<open>
  Batching, from the producer's two tasks to the consumer's iterator. \<open>BatchStorage\<close> and
  \<open>batch_process_loop\<close> (\<open>producer.rs\<close>) collect messages until a limit, a timer or a flush
  sends them on; \<open>message_send_loop\<close> turns each batch into one message and its one receipt
  into the receipts of its messages; \<open>BatchedMessageIterator\<close>
  (\<open>consumer/batched_message_iterator.rs\<close>) takes a received batch apart. The one-shot channel
  a caller waits on is a number. The loop is a step function over its events: an item read
  from the channel, the end of the channel, the timer firing.
\<close>

section \<open>The batch storage\<close>

datatype batch_item =
    SingleMessage nat batched_message
  | Flush nat

record batch_storage =
  max_size :: "u32 option"
  max_byte_size :: "nat option"
  batch_timeout :: "duration option"
  st_size :: u64
  storage :: "batch_item list"

fun item_size :: "batch_item \<Rightarrow> u64" where
  "item_size (SingleMessage tx b) = word_of_int (sm_payload_size (bm_metadata b))"
| "item_size (Flush tx) = 0"

fun is_flush :: "batch_item \<Rightarrow> bool" where
  "is_flush (SingleMessage tx b) = False"
| "is_flush (Flush tx) = True"

definition push_back :: "batch_item \<Rightarrow> batch_storage \<Rightarrow> batch_storage" where
  "push_back item s = s\<lparr>st_size := st_size s + item_size item, storage := storage s @ [item]\<rparr>"

definition get_messages :: "batch_storage \<Rightarrow> batch_item list \<times> batch_storage" where
  "get_messages s = (storage s, s\<lparr>st_size := 0, storage := []\<rparr>)"

definition ready_to_flush :: "batch_storage \<Rightarrow> bool" where
  "ready_to_flush s \<longleftrightarrow>
     (case max_size s of Some n \<Rightarrow> unat n \<le> length (storage s) | None \<Rightarrow> False) \<or>
     (case max_byte_size s of Some n \<Rightarrow> n \<le> unat (st_size s) | None \<Rightarrow> False) \<or>
     (storage s \<noteq> [] \<and> is_flush (last (storage s)))"

section \<open>The batching task\<close>

datatype batch_event = Item batch_item | Channel_closed | Timer_fired

text \<open>
  The state of the task: the storage, the delay of the timer that is armed, the batches sent
  on, the messages whose callers were told that the producer is closed, and whether the task
  still runs.
\<close>

record batch_loop =
  bl_storage :: batch_storage
  bl_timer :: "duration option"
  bl_sent :: "batch_item list list"
  bl_failed :: "nat list"
  bl_running :: bool

definition new_batch_storage :: "producer_options \<Rightarrow> batch_storage" where
  "new_batch_storage options =
     \<lparr>max_size = po_batch_size options, max_byte_size = po_batch_byte_size options,
      batch_timeout = po_batch_timeout options, st_size = 0, storage = []\<rparr>"

definition batch_loop_start :: "batch_storage \<Rightarrow> batch_loop" where
  "batch_loop_start s =
     \<lparr>bl_storage = s, bl_timer = None, bl_sent = [], bl_failed = [], bl_running = True\<rparr>"

definition flush_storage :: "batch_loop \<Rightarrow> batch_loop" where
  "flush_storage l =
     (let (messages, s) = get_messages (bl_storage l)
      in l\<lparr>bl_storage := s, bl_sent := (if messages \<noteq> [] then bl_sent l @ [messages] else bl_sent l)\<rparr>)"

fun item_sender :: "batch_item \<Rightarrow> nat option" where
  "item_sender (SingleMessage tx b) = Some tx"
| "item_sender (Flush tx) = None"

fun batch_step :: "batch_event \<Rightarrow> batch_loop \<Rightarrow> batch_loop" where
  "batch_step (Item item) l =
     (let l1 = l\<lparr>bl_storage := push_back item (bl_storage l)\<rparr> in
      if ready_to_flush (bl_storage l1) then (flush_storage l1)\<lparr>bl_timer := None\<rparr>
      else l1\<lparr>bl_timer := (if batch_timeout (bl_storage l1) \<noteq> None \<and> length (storage (bl_storage l1)) = 1
                           then batch_timeout (bl_storage l1) else bl_timer l)\<rparr>)"
| "batch_step Channel_closed l =
     (let (items, s) = (if 0 < length (storage (bl_storage l)) then get_messages (bl_storage l)
                        else ([], bl_storage l))
      in l\<lparr>bl_storage := s, bl_failed := bl_failed l @ List.map_filter item_sender items,
           bl_running := False\<rparr>)"
| "batch_step Timer_fired l =
     (let l1 = (if batch_timeout (bl_storage l) \<noteq> None then flush_storage l else l)
      in l1\<lparr>bl_timer := None\<rparr>)"

text \<open>
  A run: the task handles events while it runs, and its timer can only fire when it is armed,
  the future it waits on otherwise being one that never completes.
\<close>

fun batch_run :: "batch_event list \<Rightarrow> batch_loop \<Rightarrow> batch_loop" where
  "batch_run [] l = l"
| "batch_run (e # es) l =
     (if bl_running l \<and> (e = Timer_fired \<longrightarrow> bl_timer l \<noteq> None)
      then batch_run es (batch_step e l) else batch_run es l)"

section \<open>From a batch to a message and from a receipt to receipts\<close>

text \<open>The part of a message that travels inside a batch (\<open>TopicProducer::send_raw\<close>).\<close>

definition batched_of :: "producer_message \<Rightarrow> batched_message" where
  "batched_of m =
     \<lparr>bm_metadata = single_metadata_default
        \<lparr>sm_properties := key_values (pm_properties m),
         sm_partition_key := pm_partition_key m,
         sm_partition_key_b64_encoded := pm_partition_key_b64_encoded m,
         sm_null_partition_key := pm_null_partition_key m,
         sm_null_value := pm_null_value m,
         sm_ordering_key := pm_ordering_key m,
         sm_payload_size := i32_of_usize (length (pm_payload m)),
         sm_event_time := pm_event_time m\<rparr>,
      bm_payload = pm_payload m\<rparr>"

record send_outcome =
  so_message :: "producer_message option"
  so_resolved :: "(nat \<times> (error, command_send_receipt) result) list"
  so_flushed :: "nat list"

definition batch_receipt :: "nat \<Rightarrow> nat \<Rightarrow> command_send_receipt \<Rightarrow> command_send_receipt" where
  "batch_receipt counter batch_index receipt =
     (case sr_message_id receipt of
        None \<Rightarrow> receipt
      | Some id1 \<Rightarrow> receipt\<lparr>sr_message_id :=
          Some (with_batch (Some (i32_of_usize batch_index)) (Some (i32_of_usize counter)) id1)\<rparr>)"

text \<open>
  One turn of \<open>message_send_loop\<close>; \<open>answer\<close> is what compressing, sending and awaiting the
  receipt of the message comes to.
\<close>

definition message_send_step :: "wire \<Rightarrow> (producer_message \<Rightarrow> (error, command_send_receipt) result) \<Rightarrow>
    (byte list) option \<Rightarrow> batch_item list \<Rightarrow> send_outcome" where
  "message_send_step w answer schema_version items =
     (if items = [] then \<lparr>so_message = None, so_resolved = [], so_flushed = []\<rparr>
      else
        (let (batch_items, flush_tx) =
               (case last items of Flush tx \<Rightarrow> (butlast items, [tx]) | SingleMessage _ _ \<Rightarrow> (items, []));
             counter = length batch_items;
             receipts = List.map_filter item_sender batch_items;
             pl = fold (\<lambda>item pl. case item of SingleMessage _ b \<Rightarrow> serialize w b pl | Flush _ \<Rightarrow> pl)
                    batch_items []
         in if counter = 0 then \<lparr>so_message = None, so_resolved = [], so_flushed = flush_tx\<rparr>
            else
              (let m = producer_message_default
                     \<lparr>pm_payload := pl,
                      pm_num_messages_in_batch := Some (i32_of_usize counter),
                      pm_schema_version := schema_version\<rparr>
               in case answer m of
                    Inr receipt \<Rightarrow>
                      \<lparr>so_message = Some m,
                       so_resolved = map (\<lambda>(i, tx). (tx, Inr (batch_receipt counter i receipt)))
                         (enumerate 0 receipts),
                       so_flushed = flush_tx\<rparr>
                  | Inl e \<Rightarrow>
                      \<lparr>so_message = Some m,
                       so_resolved = map (\<lambda>tx. (tx, Inl (Producer (Batch e)))) receipts,
                       so_flushed = []\<rparr>)))"

section \<open>Taking a batch apart\<close>

record batch_iterator =
  it_messages :: "batched_message list"
  it_message_id :: message_id_data
  it_metadata :: metadata
  it_total_messages :: u32
  it_current_index :: u32

text \<open>\<open>None\<close> is the panic on a payload that declares no number of messages.\<close>

definition batch_iterator_new ::
  "wire \<Rightarrow> message_id_data \<Rightarrow> payload \<Rightarrow> ((connection_error, batch_iterator) result) option" where
  "batch_iterator_new w message_id pl =
     map_option (\<lambda>n.
       let total_messages = (word_of_int n :: u32) in
       rmap (\<lambda>messages. \<lparr>it_messages = messages, it_message_id = message_id,
               it_metadata = pl_metadata pl, it_total_messages = total_messages,
               it_current_index = 0\<rparr>)
         (parse_batched_message w total_messages (pl_data pl)))
       (md_num_messages_in_batch (pl_metadata pl))"

definition item_metadata :: "metadata \<Rightarrow> batched_message \<Rightarrow> metadata" where
  "item_metadata md b = md
     \<lparr>md_properties := sm_properties (bm_metadata b),
      md_partition_key := sm_partition_key (bm_metadata b),
      md_partition_key_b64_encoded := sm_partition_key_b64_encoded (bm_metadata b),
      md_null_partition_key := sm_null_partition_key (bm_metadata b),
      md_null_value := sm_null_value (bm_metadata b),
      md_ordering_key := sm_ordering_key (bm_metadata b),
      md_event_time := sm_event_time (bm_metadata b)\<rparr>"

definition batch_iterator_next ::
  "batch_iterator \<Rightarrow> (message_id_data \<times> payload) option \<times> batch_iterator" where
  "batch_iterator_next it =
     (let remaining = it_total_messages it - it_current_index it in
      if remaining = 0 then (None, it)
      else
        (let index = it_current_index it;
             it1 = it\<lparr>it_current_index := it_current_index it + 1\<rparr>
         in case it_messages it of
              [] \<Rightarrow> (None, it1)
            | b # bs \<Rightarrow>
                (Some (with_batch (Some (i32_of_u32 index)) (Some (i32_of_u32 (it_total_messages it)))
                         (it_message_id it),
                       \<lparr>pl_metadata = item_metadata (it_metadata it) b, pl_data = bm_payload b\<rparr>),
                 it1\<lparr>it_messages := bs\<rparr>)))"

lemma batch_iterator_next_shrinks:
  "batch_iterator_next it = (Some x, it') \<Longrightarrow> length (it_messages it') < length (it_messages it)"
  by (auto simp: batch_iterator_next_def Let_def split: if_splits list.splits)

text \<open>What a \<open>for\<close> loop over the iterator sees.\<close>

function batch_iterator_collect :: "batch_iterator \<Rightarrow> (message_id_data \<times> payload) list" where
  "batch_iterator_collect it =
     (case batch_iterator_next it of
        (None, _) \<Rightarrow> []
      | (Some x, it') \<Rightarrow> x # batch_iterator_collect it')"
  by pat_completeness auto
termination
  by (relation "measure (\<lambda>it. length (it_messages it))")
     (simp_all add: batch_iterator_next_shrinks [OF sym])

declare batch_iterator_collect.simps [simp del]

section \<open>Invariant of the batching task\<close>

text \<open>
  What every batch sent on satisfies: it is not empty, a flush can only be its last item, it
  has at most \<open>max_size\<close> items, and without its last item it is below the byte limit.
\<close>

definition batch_ok :: "u32 option \<Rightarrow> nat option \<Rightarrow> batch_item list \<Rightarrow> bool" where
  "batch_ok mx mb b \<longleftrightarrow>
     b \<noteq> [] \<and> (\<forall>x \<in> set (butlast b). \<not> is_flush x) \<and>
     (\<forall>n. mx = Some n \<longrightarrow> length b \<le> max 1 (unat n)) \<and>
     (\<forall>n. mb = Some n \<longrightarrow> butlast b \<noteq> [] \<longrightarrow> unat (sum_list (map item_size (butlast b))) < n)"

definition batch_loop_inv :: "batch_loop \<Rightarrow> bool" where
  "batch_loop_inv l \<longleftrightarrow>
     (let s = bl_storage l in
      (\<forall>x \<in> set (storage s). \<not> is_flush x) \<and>
      (storage s \<noteq> [] \<longrightarrow> \<not> ready_to_flush s \<and> batch_ok (max_size s) (max_byte_size s) (storage s)) \<and>
      st_size s = sum_list (map item_size (storage s)) \<and>
      (bl_running l \<longrightarrow> bl_timer l = (if storage s = [] then None else batch_timeout s)) \<and>
      (\<forall>b \<in> set (bl_sent l). batch_ok (max_size s) (max_byte_size s) b))"

lemma batch_loop_inv_start:
  "batch_loop_inv (batch_loop_start (new_batch_storage options))"
  by (simp add: batch_loop_inv_def batch_loop_start_def new_batch_storage_def Let_def)

lemma flush_storage_simps [simp]:
  "bl_storage (flush_storage l) = (bl_storage l)\<lparr>st_size := 0, storage := []\<rparr>"
  "bl_failed (flush_storage l) = bl_failed l" "bl_running (flush_storage l) = bl_running l"
  "bl_sent (flush_storage l) = (if storage (bl_storage l) = [] then bl_sent l
     else bl_sent l @ [storage (bl_storage l)])"
  "concat (bl_sent (flush_storage l)) = concat (bl_sent l) @ storage (bl_storage l)"
  by (simp_all add: flush_storage_def get_messages_def Let_def)

lemma push_back_simps [simp]:
  "storage (push_back i s) = storage s @ [i]" "st_size (push_back i s) = st_size s + item_size i"
  "max_size (push_back i s) = max_size s" "max_byte_size (push_back i s) = max_byte_size s"
  "batch_timeout (push_back i s) = batch_timeout s"
  by (simp_all add: push_back_def)

lemma batch_ok_push:
  assumes "\<forall>x \<in> set (storage s). \<not> is_flush x" and "storage s \<noteq> [] \<longrightarrow> \<not> ready_to_flush s"
    and "st_size s = sum_list (map item_size (storage s))"
  shows "batch_ok (max_size s) (max_byte_size s) (storage s @ [i])"
  using assms by (auto simp: batch_ok_def ready_to_flush_def split: option.splits)

lemma not_ready_push: "\<not> ready_to_flush (push_back i s) \<Longrightarrow> \<not> is_flush i"
  by (simp add: ready_to_flush_def)

lemma batch_step_Item_inv:
  assumes inv: "batch_loop_inv l" and running: "bl_running l"
  shows "batch_loop_inv (batch_step (Item i) l)"
proof -
  let ?s = "bl_storage l"
  have ok: "batch_ok (max_size ?s) (max_byte_size ?s) (storage ?s @ [i])"
    using inv by (intro batch_ok_push) (simp_all add: batch_loop_inv_def Let_def)
  show ?thesis
  proof (cases "ready_to_flush (push_back i ?s)")
    case True
    then show ?thesis using inv ok by (simp add: batch_loop_inv_def Let_def)
  next
    case False
    then show ?thesis
      using inv running ok not_ready_push [OF False] by (auto simp: batch_loop_inv_def Let_def)
  qed
qed

lemma batch_step_Timer_inv:
  assumes "batch_loop_inv l" and "bl_running l" and "bl_timer l \<noteq> None"
  shows "batch_loop_inv (batch_step Timer_fired l)"
proof -
  have "storage (bl_storage l) \<noteq> []" "batch_timeout (bl_storage l) \<noteq> None"
    using assms by (auto simp: batch_loop_inv_def Let_def split: if_splits)
  then show ?thesis using assms by (simp add: batch_loop_inv_def Let_def)
qed

lemma batch_step_closed_inv: "batch_loop_inv l \<Longrightarrow> batch_loop_inv (batch_step Channel_closed l)"
  by (auto simp: batch_loop_inv_def Let_def get_messages_def)

lemma batch_step_inv:
  assumes "batch_loop_inv l" and "bl_running l" and "e = Timer_fired \<longrightarrow> bl_timer l \<noteq> None"
  shows "batch_loop_inv (batch_step e l)"
  using assms
  by (cases e)
     (auto simp del: batch_step.simps
       intro: batch_step_Item_inv batch_step_closed_inv batch_step_Timer_inv)

lemma batch_run_inv: "batch_loop_inv l \<Longrightarrow> batch_loop_inv (batch_run es l)"
  by (induction es l rule: batch_run.induct) (auto simp del: batch_step.simps intro: batch_step_inv)

lemma batch_step_limits [simp]:
  "max_size (bl_storage (batch_step e l)) = max_size (bl_storage l)"
  "max_byte_size (bl_storage (batch_step e l)) = max_byte_size (bl_storage l)"
  "batch_timeout (bl_storage (batch_step e l)) = batch_timeout (bl_storage l)"
  by (cases e; simp add: Let_def get_messages_def)+

lemma batch_run_limits [simp]:
  "max_size (bl_storage (batch_run es l)) = max_size (bl_storage l)"
  "max_byte_size (bl_storage (batch_run es l)) = max_byte_size (bl_storage l)"
  "batch_timeout (bl_storage (batch_run es l)) = batch_timeout (bl_storage l)"
  by (induction es l rule: batch_run.induct) (auto simp del: batch_step.simps)

text \<open>The items the task took from its channel before the channel ended.\<close>

fun received :: "batch_event list \<Rightarrow> batch_item list" where
  "received [] = []"
| "received (Item i # es) = i # received es"
| "received (Timer_fired # es) = received es"
| "received (Channel_closed # es) = []"

lemma batch_run_stopped: "\<not> bl_running l \<Longrightarrow> batch_run es l = l"
  by (induction es) simp_all

lemma batch_step_accounting:
  assumes "e \<noteq> Channel_closed"
  shows "concat (bl_sent (batch_step e l)) @ storage (bl_storage (batch_step e l))
      = concat (bl_sent l) @ storage (bl_storage l) @ received [e]"
    and "bl_failed (batch_step e l) = bl_failed l" and "bl_running (batch_step e l) = bl_running l"
  using assms by (cases e; simp add: Let_def)+

lemma received_Cons: "e \<noteq> Channel_closed \<Longrightarrow> received (e # es) = received [e] @ received es"
  by (cases e) simp_all

lemma batch_run_accounting:
  assumes "bl_running l"
  shows "\<exists>lost. concat (bl_sent (batch_run es l)) @ storage (bl_storage (batch_run es l)) @ lost
      = concat (bl_sent l) @ storage (bl_storage l) @ received es
    \<and> bl_failed (batch_run es l) = bl_failed l @ List.map_filter item_sender lost
    \<and> (if Channel_closed \<in> set es then storage (bl_storage (batch_run es l)) = [] else lost = [])"
  using assms
proof (induction es arbitrary: l)
  case Nil
  then show ?case by (simp add: List.map_filter_simps)
next
  case (Cons e es)
  consider "e = Channel_closed" | "e = Timer_fired" "bl_timer l = None"
    | "e \<noteq> Channel_closed" "e = Timer_fired \<longrightarrow> bl_timer l \<noteq> None" by auto
  then show ?case
  proof cases
    case 1
    then show ?thesis
      using Cons.prems
      by (intro exI [of _ "storage (bl_storage l)"])
         (auto simp: batch_run_stopped Let_def get_messages_def List.map_filter_simps)
  next
    case 2
    then show ?thesis using Cons.IH [of l] Cons.prems by (simp cong: if_cong split: if_splits)
  next
    case 3
    have run: "batch_run (e # es) l = batch_run es (batch_step e l)" using 3 Cons.prems by simp
    have "bl_running (batch_step e l)" using Cons.prems by (simp only: batch_step_accounting(3) [OF 3(1)])
    from Cons.IH [OF this] show ?thesis
      using 3 batch_step_accounting [OF 3(1), of l] received_Cons [OF 3(1), of es]
      by (simp only: run append.assoc [symmetric]) (auto simp del: batch_step.simps)
  qed
qed

section \<open>One batch, from its messages to its receipts and back\<close>

lemma batch_iterator_collect_enumerate:
  assumes "unat (it_current_index it) + length (it_messages it) = unat (it_total_messages it)"
    and "unat (it_total_messages it) < 2 ^ 31"
  shows "batch_iterator_collect it =
    map (\<lambda>(i, b). (with_batch (Some (int i)) (Some (int (unat (it_total_messages it)))) (it_message_id it),
                   \<lparr>pl_metadata = item_metadata (it_metadata it) b, pl_data = bm_payload b\<rparr>))
      (enumerate (unat (it_current_index it)) (it_messages it))"
  using assms
proof (induction "it_messages it" arbitrary: it)
  case Nil
  then have "it_current_index it = it_total_messages it" by (simp add: word_unat_eq_iff)
  then show ?case
    using Nil by (simp add: batch_iterator_collect.simps [of it] batch_iterator_next_def)
next
  case (Cons b bs)
  let ?c = "it_current_index it" and ?n = "it_total_messages it"
  let ?it' = "it\<lparr>it_current_index := ?c + 1, it_messages := bs\<rparr>"
  have msgs: "it_messages it = b # bs" using Cons.hyps(2) by simp
  have lt: "unat ?c < unat ?n" "unat ?c < 2 ^ 31"
    using Cons.prems arg_cong [OF Cons.hyps(2), of length] by simp_all
  then have ne: "?n - ?c \<noteq> 0" by auto
  have suc: "unat (?c + 1) = Suc (unat ?c)"
    using lt by (subst unat_add_lem [THEN iffD1]) simp_all
  have i32: "i32_of_u32 ?c = int (unat ?c)" "i32_of_u32 ?n = int (unat ?n)"
    using lt Cons.prems(2) sint_of_nat_small [of "unat ?c"] sint_of_nat_small [of "unat ?n"]
    by (simp_all add: i32_of_u32_def)
  have "batch_iterator_next it = (Some (with_batch (Some (int (unat ?c))) (Some (int (unat ?n)))
      (it_message_id it), \<lparr>pl_metadata = item_metadata (it_metadata it) b, pl_data = bm_payload b\<rparr>), ?it')"
    using ne msgs by (simp add: batch_iterator_next_def Let_def i32)
  moreover have "batch_iterator_collect ?it' =
    map (\<lambda>(i, b). (with_batch (Some (int i)) (Some (int (unat ?n))) (it_message_id it),
                   \<lparr>pl_metadata = item_metadata (it_metadata it) b, pl_data = bm_payload b\<rparr>))
      (enumerate (Suc (unat ?c)) bs)"
    using Cons.hyps(1) [of ?it'] Cons.prems suc msgs by simp
  ultimately show ?case
    by (simp add: batch_iterator_collect.simps [of it] msgs)
qed

definition single_items :: "nat list \<Rightarrow> producer_message list \<Rightarrow> batch_item list" where
  "single_items txs ms = map (\<lambda>(tx, m). SingleMessage tx (batched_of m)) (zip txs ms)"

lemma single_items_simps:
  assumes "length txs = length ms"
  shows "length (single_items txs ms) = length ms"
    "List.map_filter item_sender (single_items txs ms) = txs"
    "fold (\<lambda>item pl. case item of SingleMessage _ b \<Rightarrow> serialize w b pl | Flush _ \<Rightarrow> pl)
       (single_items txs ms) pl0 = fold (serialize w) (map batched_of ms) pl0"
    "x \<in> set (single_items txs ms) \<Longrightarrow> \<not> is_flush x"
  using assms
  by (induction txs ms arbitrary: pl0 rule: list_induct2)
     (auto simp: single_items_def List.map_filter_simps)

definition batch_message :: "wire \<Rightarrow> (byte list) option \<Rightarrow> producer_message list \<Rightarrow> producer_message" where
  "batch_message w schema_version ms = producer_message_default
     \<lparr>pm_payload := fold (serialize w) (map batched_of ms) [],
      pm_num_messages_in_batch := Some (i32_of_usize (length ms)),
      pm_schema_version := schema_version\<rparr>"

lemma message_send_step_batch:
  assumes "length txs = length ms" and "ms \<noteq> []" and "flush = [] \<or> flush = [Flush f]"
  shows "message_send_step w answer sv (single_items txs ms @ flush) =
    (case answer (batch_message w sv ms) of
       Inr receipt \<Rightarrow> \<lparr>so_message = Some (batch_message w sv ms),
         so_resolved = map (\<lambda>(i, tx). (tx, Inr (batch_receipt (length ms) i receipt))) (enumerate 0 txs),
         so_flushed = (if flush = [] then [] else [f])\<rparr>
     | Inl e \<Rightarrow> \<lparr>so_message = Some (batch_message w sv ms),
         so_resolved = map (\<lambda>tx. (tx, Inl (Producer (Batch e)))) txs, so_flushed = []\<rparr>)"
proof -
  have ne: "single_items txs ms \<noteq> []" using assms single_items_simps(1) [OF assms(1)] by auto
  show ?thesis
  proof (cases "flush = []")
    case True
    have "\<not> is_flush (last (single_items txs ms))"
      using ne single_items_simps(4) [OF assms(1)] last_in_set by blast
    then show ?thesis
      using True ne assms
      by (cases "last (single_items txs ms)")
         (simp_all add: message_send_step_def single_items_simps [OF assms(1)] batch_message_def Let_def
           split: sum.split)
  next
    case False
    then show ?thesis
      using ne assms
      by (simp add: message_send_step_def single_items_simps [OF assms(1)] batch_message_def Let_def
          split: sum.split)
  qed
qed

lemma batch_iterator_new_batch_message:
  assumes "\<forall>m \<in> set ms. single_ok w (batched_of m)" and "length ms < 2 ^ 31"
    and "md_num_messages_in_batch md = Some (i32_of_usize (length ms))"
  shows "batch_iterator_new w mid \<lparr>pl_metadata = md, pl_data = fold (serialize w) (map batched_of ms) []\<rparr>
    = Some (Inr \<lparr>it_messages = map batched_of ms, it_message_id = mid, it_metadata = md,
        it_total_messages = of_nat (length ms), it_current_index = 0\<rparr>)"
proof -
  have n: "(word_of_int (i32_of_usize (length ms)) :: u32) = of_nat (length ms)"
    using assms(2) by (simp add: i32_of_usize_small)
  have "parse_batched_message w (of_nat (length ms)) (fold (serialize w) (map batched_of ms) [])
      = Inr (map batched_of ms)"
    using assms(1,2)
    by (intro parse_batched_message_serialize) (auto simp: unat_of_nat take_bit_nat_eq_self)
  then show ?thesis by (simp add: batch_iterator_new_def assms(3) n Let_def)
qed

section \<open>Properties\<close>

text \<open>
  The batching task neither loses nor reorders: after any sequence of events, the batches it
  sent on, in order, followed by what it still holds and then by what it gave up, are exactly
  the items it took from its channel; it gives items up only when the channel ends, and then
  tells the caller of each, in order, that the producer is closed.
\<close>

theorem batching_keeps_every_message_in_order:
  "\<exists>lost. concat (bl_sent (batch_run es (batch_loop_start (new_batch_storage options))))
        @ storage (bl_storage (batch_run es (batch_loop_start (new_batch_storage options)))) @ lost
      = received es
    \<and> bl_failed (batch_run es (batch_loop_start (new_batch_storage options)))
        = List.map_filter item_sender lost
    \<and> (if Channel_closed \<in> set es
       then storage (bl_storage (batch_run es (batch_loop_start (new_batch_storage options)))) = []
       else lost = [])"
  using batch_run_accounting [of "batch_loop_start (new_batch_storage options)" es]
  by (simp add: batch_loop_start_def new_batch_storage_def)

text \<open>
  C9. Limits and timeliness of batching: every batch sent on holds at most \<open>batch_size\<close> items and
  stays below \<open>batch_byte_size\<close> without its last message, a flush request ends its batch, what
  the task holds back is below both limits with no flush in it, and whenever it holds something
  back and a timeout is configured, the timer is armed and its firing sends everything on.
\<close>

theorem batches_respect_limits_and_timer:
  assumes "l = batch_run es (batch_loop_start (new_batch_storage options))"
  shows "(\<forall>b \<in> set (bl_sent l). batch_ok (po_batch_size options) (po_batch_byte_size options) b)
    \<and> (storage (bl_storage l) \<noteq> [] \<longrightarrow> \<not> ready_to_flush (bl_storage l))
    \<and> (bl_running l \<and> storage (bl_storage l) \<noteq> [] \<and> po_batch_timeout options \<noteq> None \<longrightarrow>
         bl_timer l = po_batch_timeout options
         \<and> bl_sent (batch_step Timer_fired l) = bl_sent l @ [storage (bl_storage l)]
         \<and> storage (bl_storage (batch_step Timer_fired l)) = [])"
proof -
  have "batch_loop_inv l"
    unfolding assms by (intro batch_run_inv batch_loop_inv_start)
  moreover have "max_size (bl_storage l) = po_batch_size options"
    "max_byte_size (bl_storage l) = po_batch_byte_size options"
    "batch_timeout (bl_storage l) = po_batch_timeout options"
    by (simp_all add: assms batch_loop_start_def new_batch_storage_def)
  ultimately show ?thesis by (auto simp: batch_loop_inv_def Let_def)
qed

theorem batches_respect_limits_and_timer_witness:
  "list_all (\<lambda>b. length b \<le> 2) (bl_sent (batch_run
      [Item (SingleMessage 1 (batched_of producer_message_default)),
       Item (SingleMessage 2 (batched_of producer_message_default)), Item (Flush 3)]
      (batch_loop_start (new_batch_storage (producer_options_default\<lparr>po_batch_size := Some 2\<rparr>)))))"
proof -
  let ?o = "producer_options_default\<lparr>po_batch_size := Some 2\<rparr>"
  let ?es = "[Item (SingleMessage 1 (batched_of producer_message_default)),
       Item (SingleMessage 2 (batched_of producer_message_default)), Item (Flush 3)]"
  have "\<forall>b \<in> set (bl_sent (batch_run ?es (batch_loop_start (new_batch_storage ?o)))).
      batch_ok (po_batch_size ?o) (po_batch_byte_size ?o) b"
    by (rule conjunct1 [OF batches_respect_limits_and_timer [OF refl]])
  then show ?thesis by (auto simp: batch_ok_def list_all_iff simp del: batch_run.simps)
qed

text \<open>
  A batch survives the trip from producer to consumer. Sent as the batching tasks send it,
  the messages come out of the consumer's iterator in order, each with its own payload and
  per-message metadata and with an identifier that carries its index and the batch's size;
  and each caller's receipt names exactly the identifier under which its message is consumed.
\<close>

theorem batch_end_to_end:
  assumes "\<forall>m \<in> set ms. single_ok w (batched_of m)" and "ms \<noteq> []" and "length ms < 2 ^ 31"
    and "length txs = length ms" and "flush = [] \<or> flush = [Flush f]"
    and "answer (batch_message w sv ms) = Inr receipt" and "sr_message_id receipt = Some mid"
    and "msg_payload (msg_send now pid name sid (batch_message w sv ms)) = Some pl"
    and "out = message_send_step w answer sv (single_items txs ms @ flush)"
  shows "so_message out = Some (batch_message w sv ms)
    \<and> (\<exists>it. batch_iterator_new w mid pl = Some (Inr it)
        \<and> map snd (batch_iterator_collect it)
            = map (\<lambda>m. \<lparr>pl_metadata = item_metadata (pl_metadata pl) (batched_of m),
                        pl_data = pm_payload m\<rparr>) ms
        \<and> map fst (batch_iterator_collect it)
            = map (\<lambda>i. with_batch (Some (int i)) (Some (int (length ms))) mid) [0..<length ms]
        \<and> so_resolved out = zip txs
            (map (\<lambda>(id1, _). Inr (receipt\<lparr>sr_message_id := Some id1\<rparr>)) (batch_iterator_collect it)))"
proof -
  let ?it = "\<lparr>it_messages = map batched_of ms, it_message_id = mid, it_metadata = pl_metadata pl,
    it_total_messages = of_nat (length ms), it_current_index = 0\<rparr>"
  have pl: "pl = \<lparr>pl_metadata = pl_metadata pl, pl_data = fold (serialize w) (map batched_of ms) []\<rparr>"
    "md_num_messages_in_batch (pl_metadata pl) = Some (i32_of_usize (length ms))"
    using assms(8) by (auto simp: msg_send_def batch_message_def)
  have new: "batch_iterator_new w mid pl = Some (Inr ?it)"
    using batch_iterator_new_batch_message [OF assms(1,3) pl(2), of mid] pl(1) by simp
  have n: "unat (of_nat (length ms) :: u32) = length ms"
    using assms(3) by (simp add: unat_of_nat take_bit_nat_eq_self)
  have coll: "batch_iterator_collect ?it = map (\<lambda>(i, b).
      (with_batch (Some (int i)) (Some (int (length ms))) mid,
       \<lparr>pl_metadata = item_metadata (pl_metadata pl) b, pl_data = bm_payload b\<rparr>))
      (enumerate 0 (map batched_of ms))"
    using batch_iterator_collect_enumerate [of ?it] assms(3) n by simp
  have out: "so_message out = Some (batch_message w sv ms)"
    "so_resolved out = map (\<lambda>(i, tx). (tx, Inr (batch_receipt (length ms) i receipt))) (enumerate 0 txs)"
    using message_send_step_batch [OF assms(4,2,5), of w answer sv] assms(6,9) by simp_all
  have ids: "map fst (batch_iterator_collect ?it)
      = map (\<lambda>i. with_batch (Some (int i)) (Some (int (length ms))) mid) [0..<length ms]"
    by (rule nth_equalityI) (simp_all add: coll nth_enumerate_eq)
  have "so_resolved out = zip txs
      (map (\<lambda>(id1, _). Inr (receipt\<lparr>sr_message_id := Some id1\<rparr>)) (batch_iterator_collect ?it))"
  proof (rule nth_equalityI)
    fix i assume i: "i < length (so_resolved out)"
    then have "i < length ms" using assms(4) by (simp add: out)
    moreover from this assms(3) have "i < 2 ^ 31" by simp
    ultimately show "so_resolved out ! i = zip txs (map (\<lambda>(id1, _).
        Inr (receipt\<lparr>sr_message_id := Some id1\<rparr>)) (batch_iterator_collect ?it)) ! i"
      using assms(3,4,7)
      by (simp add: out coll nth_enumerate_eq batch_receipt_def i32_of_usize_small)
  qed (simp add: out coll assms(4))
  moreover have "map snd (batch_iterator_collect ?it)
      = map (\<lambda>m. \<lparr>pl_metadata = item_metadata (pl_metadata pl) (batched_of m), pl_data = pm_payload m\<rparr>) ms"
    by (rule nth_equalityI) (simp_all add: coll nth_enumerate_eq batched_of_def)
  ultimately show ?thesis using new out(1) ids by blast
qed

theorem batch_end_to_end_witness:
  "\<exists>it. map fst (batch_iterator_collect it)
     = [with_batch (Some 0) (Some 1) (MessageIdData 7 8 None None [] None None)]"
proof -
  let ?m = "producer_message_default"
  let ?w = "\<lparr>enc_command = (\<lambda>c. []), dec_command = (\<lambda>bs. Inr base_command_default),
    enc_metadata = (\<lambda>md. []), dec_metadata = (\<lambda>bs. Inr metadata_default),
    enc_single = (\<lambda>md. []), dec_single = (\<lambda>bs. Inr (bm_metadata (batched_of ?m))),
    crc32c = (\<lambda>bs. 0)\<rparr>"
  let ?mid = "MessageIdData 7 8 None None [] None None"
  let ?receipt = "\<lparr>sr_producer_id = 1, sr_sequence_id = 0, sr_message_id = Some ?mid,
    sr_highest_sequence_id = None\<rparr>"
  have ok: "\<forall>m \<in> set [?m]. single_ok ?w (batched_of m)"
    by (simp add: single_ok_def batched_of_def single_metadata_default_def
        producer_message_default_def i32_of_usize_def)
  obtain pl where pl: "msg_payload (msg_send 0 1 ''p'' 0 (batch_message ?w None [?m])) = Some pl"
    by (simp add: msg_send_def)
  have "\<exists>it. batch_iterator_new ?w ?mid pl = Some (Inr it)
      \<and> map fst (batch_iterator_collect it)
        = map (\<lambda>i. with_batch (Some (int i)) (Some (int (length [?m]))) ?mid) [0..<length [?m]]"
    using batch_end_to_end [OF ok, of "[4]" "[]" 0 "\<lambda>m. Inr ?receipt" None ?receipt ?mid
        0 1 "''p''" 0 pl] pl by auto
  then obtain it where "map fst (batch_iterator_collect it)
        = map (\<lambda>i. with_batch (Some (int i)) (Some (int (length [?m]))) ?mid) [0..<length [?m]]"
    by blast
  then show ?thesis by (intro exI [of _ it]) simp
qed

end
