(* ===== verification/Receiver.thy ===== *)
theory Receiver
  imports Commands
begin

text \<open>
  The receiving task of a connection (\<open>Receiver\<close> in \<open>connection.rs\<close>): it matches the answers
  of the broker with the requests that wait for them and hands consumers their messages. A
  channel (the one-shot channel of a request, the queue of a consumer) is a number, and what
  the task sends on channels is recorded in the state in sending order. One call of \<open>poll\<close>
  sees the registrations and the messages that are ready, each list with what follows it.
\<close>

section \<open>State\<close>

datatype register =
    Reg_request req_key nat
  | Reg_consumer u64 nat
  | Reg_remove_consumer u64
  | Reg_ping nat

record receiver =
  rc_error :: shared_error
  pending_requests :: "req_key \<rightharpoonup> nat"
  consumers :: "u64 \<rightharpoonup> nat"
  received_messages :: "req_key \<rightharpoonup> raw_message"
  rc_ping :: "nat option"
  rc_resolved :: "(nat \<times> raw_message) list"
  rc_delivered :: "(nat \<times> raw_message) list"
  rc_pings_resolved :: "nat list"
  rc_control :: "raw_message list"
  rc_auth_challenges :: nat

definition receiver_new :: "shared_error \<Rightarrow> receiver" where
  "receiver_new err =
     \<lparr>rc_error = err, pending_requests = Map.empty, consumers = Map.empty,
      received_messages = Map.empty, rc_ping = None, rc_resolved = [], rc_delivered = [],
      rc_pings_resolved = [], rc_control = [], rc_auth_challenges = 0\<rparr>"

section \<open>Handlers\<close>

fun on_register :: "register \<Rightarrow> receiver \<Rightarrow> receiver" where
  "on_register (Reg_request key resolver) r =
     (case received_messages r key of
        Some msg \<Rightarrow> r\<lparr>received_messages := (received_messages r)(key := None),
                      rc_resolved := rc_resolved r @ [(resolver, msg)]\<rparr>
      | None \<Rightarrow> r\<lparr>pending_requests := (pending_requests r)(key \<mapsto> resolver)\<rparr>)"
| "on_register (Reg_consumer consumer_id resolver) r =
     r\<lparr>consumers := (consumers r)(consumer_id \<mapsto> resolver)\<rparr>"
| "on_register (Reg_remove_consumer consumer_id) r =
     r\<lparr>consumers := (consumers r)(consumer_id := None)\<rparr>"
| "on_register (Reg_ping resolver) r = r\<lparr>rc_ping := Some resolver\<rparr>"

definition deliver_to_consumer :: "u64 \<Rightarrow> raw_message \<Rightarrow> receiver \<Rightarrow> receiver" where
  "deliver_to_consumer consumer_id msg r =
     (case consumers r consumer_id of
        Some ch \<Rightarrow> r\<lparr>rc_delivered := rc_delivered r @ [(ch, msg)]\<rparr>
      | None \<Rightarrow> r)"

definition resolve_or_keep :: "req_key \<Rightarrow> raw_message \<Rightarrow> receiver \<Rightarrow> receiver" where
  "resolve_or_keep key msg r =
     (case pending_requests r key of
        Some resolver \<Rightarrow> r\<lparr>pending_requests := (pending_requests r)(key := None),
                           rc_resolved := rc_resolved r @ [(resolver, msg)]\<rparr>
      | None \<Rightarrow> r\<lparr>received_messages := (received_messages r)(key \<mapsto> msg)\<rparr>)"

fun on_keyed_message :: "req_key option \<Rightarrow> raw_message \<Rightarrow> receiver \<Rightarrow> receiver" where
  "on_keyed_message (Some (RequestId i)) msg r = resolve_or_keep (RequestId i) msg r"
| "on_keyed_message (Some (ProducerSend p s)) msg r = resolve_or_keep (ProducerSend p s) msg r"
| "on_keyed_message (Some (ConsumerKey consumer_id)) msg r = deliver_to_consumer consumer_id msg r"
| "on_keyed_message (Some (CloseConsumerKey consumer_id request_id)) msg r =
     (case pending_requests r (RequestId request_id) of
        Some resolver \<Rightarrow> r\<lparr>pending_requests := (pending_requests r)(RequestId request_id := None),
                           rc_resolved := rc_resolved r @ [(resolver, msg)]\<rparr>
      | None \<Rightarrow> deliver_to_consumer consumer_id msg r)"
| "on_keyed_message (Some AuthChallengeKey) msg r =
     r\<lparr>rc_auth_challenges := Suc (rc_auth_challenges r)\<rparr>"
| "on_keyed_message None msg r = r"

text \<open>The control channel is unbounded: sending on it fails only when the sink task is gone.\<close>

definition on_message :: "bool \<Rightarrow> raw_message \<Rightarrow> receiver \<Rightarrow> receiver" where
  "on_message control_open msg r =
     (if ping (command msg) \<noteq> None then
        (if control_open then r\<lparr>rc_control := rc_control r @ [msg_pong]\<rparr>
         else r\<lparr>rc_error := shared_error_set Disconnected (rc_error r)\<rparr>)
      else if pong (command msg) \<noteq> None then
        (case rc_ping r of
           Some sender \<Rightarrow> r\<lparr>rc_ping := None, rc_pings_resolved := rc_pings_resolved r @ [sender]\<rparr>
         | None \<Rightarrow> r)
      else on_keyed_message (request_key msg) msg r)"

section \<open>Polling\<close>

datatype stream_end = Not_ready | Ended | Failed connection_error

datatype poll = Poll_pending | Poll_done

fun poll_inbound :: "bool \<Rightarrow> raw_message list \<Rightarrow> stream_end \<Rightarrow> receiver \<Rightarrow> poll \<times> receiver" where
  "poll_inbound control_open (msg # msgs) end_of_stream r =
     poll_inbound control_open msgs end_of_stream (on_message control_open msg r)"
| "poll_inbound control_open [] Not_ready r = (Poll_pending, r)"
| "poll_inbound control_open [] Ended r =
     (Poll_done, r\<lparr>rc_error := shared_error_set Disconnected (rc_error r)\<rparr>)"
| "poll_inbound control_open [] (Failed e) r =
     (Poll_done, r\<lparr>rc_error := shared_error_set e (rc_error r)\<rparr>)"

definition receiver_poll :: "bool \<Rightarrow> bool \<Rightarrow> register list \<Rightarrow> bool \<Rightarrow> raw_message list \<Rightarrow> stream_end \<Rightarrow>
    receiver \<Rightarrow> poll \<times> receiver" where
  "receiver_poll shutdown control_open regs regs_closed inbound end_of_stream r =
     (if shutdown then (Poll_done, r)
      else
        (let r1 = fold on_register regs r in
         if regs_closed then (Poll_done, r1\<lparr>rc_error := shared_error_set Disconnected (rc_error r1)\<rparr>)
         else poll_inbound control_open inbound end_of_stream r1))"

text \<open>The same as a sequence of steps, whatever polls they fall into.\<close>

datatype receiver_event = Registration register | Inbound raw_message

fun receiver_step :: "bool \<Rightarrow> receiver_event \<Rightarrow> receiver \<Rightarrow> receiver" where
  "receiver_step control_open (Registration reg) r = on_register reg r"
| "receiver_step control_open (Inbound msg) r = on_message control_open msg r"

definition receiver_run :: "bool \<Rightarrow> receiver_event list \<Rightarrow> receiver \<Rightarrow> receiver" where
  "receiver_run control_open es r = fold (receiver_step control_open) es r"

lemma receiver_run_simps [simp]:
  "receiver_run c [] r = r" "receiver_run c (e # es) r = receiver_run c es (receiver_step c e r)"
  "receiver_run c (es @ es') r = receiver_run c es' (receiver_run c es r)"
  by (simp_all add: receiver_run_def)

lemma receiver_run_map:
  "receiver_run c (map Registration regs) r = fold on_register regs r"
  "receiver_run c (map Inbound msgs) r = fold (on_message c) msgs r"
  by (induction regs arbitrary: r, simp_all) (induction msgs arbitrary: r, simp_all)

lemma poll_inbound_fold:
  "poll_inbound c msgs Not_ready r = (Poll_pending, fold (on_message c) msgs r)"
  by (induction msgs arbitrary: r) simp_all

lemma receiver_poll_run:
  "receiver_poll False c regs False msgs Not_ready r
    = (Poll_pending, receiver_run c (map Registration regs @ map Inbound msgs) r)"
  by (simp add: receiver_poll_def poll_inbound_fold receiver_run_map Let_def)

section \<open>Answers\<close>

text \<open>The key of the request a message can answer.\<close>

definition answers_key :: "raw_message \<Rightarrow> req_key option" where
  "answers_key msg =
     (if ping (command msg) \<noteq> None \<or> pong (command msg) \<noteq> None then None
      else case request_key msg of
         Some (RequestId i) \<Rightarrow> Some (RequestId i)
       | Some (ProducerSend p s) \<Rightarrow> Some (ProducerSend p s)
       | Some (CloseConsumerKey c i) \<Rightarrow> Some (RequestId i)
       | _ \<Rightarrow> None)"

text \<open>The consumer a message is for, when its key is a consumer's.\<close>

definition consumer_of :: "raw_message \<Rightarrow> u64 option" where
  "consumer_of msg =
     (if ping (command msg) \<noteq> None \<or> pong (command msg) \<noteq> None then None
      else case request_key msg of Some (ConsumerKey c) \<Rightarrow> Some c | _ \<Rightarrow> None)"

definition is_request_key :: "req_key \<Rightarrow> bool" where
  "is_request_key k \<longleftrightarrow> (\<exists>i. k = RequestId i) \<or> (\<exists>p s. k = ProducerSend p s)"

lemma on_message_cases:
  obtains (resolved) k ch where "answers_key msg = Some k" "pending_requests r k = Some ch"
      "on_message c msg r = r\<lparr>pending_requests := (pending_requests r)(k := None),
         rc_resolved := rc_resolved r @ [(ch, msg)]\<rparr>"
  | (kept) k where "answers_key msg = Some k" "request_key msg = Some k" "pending_requests r k = None"
      "on_message c msg r = r\<lparr>received_messages := (received_messages r)(k \<mapsto> msg)\<rparr>"
  | (other) "pending_requests (on_message c msg r) = pending_requests r"
      "received_messages (on_message c msg r) = received_messages r"
      "rc_resolved (on_message c msg r) = rc_resolved r"
proof (cases "ping (command msg) = None \<and> pong (command msg) = None")
  case False
  then show ?thesis by (intro other) (auto simp: on_message_def split: option.splits)
next
  case True
  note simple = True
  show ?thesis
  proof (cases "request_key msg")
    case None
    with simple show ?thesis by (intro other) (simp_all add: on_message_def)
  next
    case (Some key)
    show ?thesis
    proof (cases key)
      case (RequestId i)
      with simple Some show ?thesis
        by (cases "pending_requests r (RequestId i)")
           (auto simp: on_message_def answers_key_def resolve_or_keep_def intro: resolved kept)
    next
      case (ProducerSend p s)
      with simple Some show ?thesis
        by (cases "pending_requests r (ProducerSend p s)")
           (auto simp: on_message_def answers_key_def resolve_or_keep_def intro: resolved kept)
    next
      case (ConsumerKey x)
      with simple Some show ?thesis
        by (intro other) (auto simp: on_message_def deliver_to_consumer_def split: option.splits)
    next
      case (CloseConsumerKey x i)
      with simple Some show ?thesis
        by (cases "pending_requests r (RequestId i)"; cases "consumers r x")
           (auto simp: on_message_def answers_key_def deliver_to_consumer_def intro: resolved other)
    next
      case AuthChallengeKey
      with simple Some show ?thesis by (intro other) (simp_all add: on_message_def)
    qed
  qed
qed

section \<open>Invariant\<close>

text \<open>
  Over the events so far: no request is pending and answered at the same time; every channel
  is pending under one key at most and never after it was resolved; and what is pending,
  kept or resolved comes from a registration and a message that match.
\<close>

definition request_channels :: "receiver_event list \<Rightarrow> nat list" where
  "request_channels es = List.map_filter
     (\<lambda>e. case e of Registration (Reg_request k ch) \<Rightarrow> Some ch | _ \<Rightarrow> None) es"

definition receiver_inv :: "receiver_event list \<Rightarrow> receiver \<Rightarrow> bool" where
  "receiver_inv es r \<longleftrightarrow>
     dom (pending_requests r) \<inter> dom (received_messages r) = {} \<and>
     (\<forall>k msg. received_messages r k = Some msg \<longrightarrow> Inbound msg \<in> set es \<and> answers_key msg = Some k) \<and>
     (\<forall>k ch. pending_requests r k = Some ch \<longrightarrow> Registration (Reg_request k ch) \<in> set es) \<and>
     (\<forall>(ch, msg) \<in> set (rc_resolved r). \<exists>k. Registration (Reg_request k ch) \<in> set es
        \<and> Inbound msg \<in> set es \<and> answers_key msg = Some k) \<and>
     distinct (map fst (rc_resolved r)) \<and>
     (\<forall>k ch. pending_requests r k = Some ch \<longrightarrow> ch \<notin> fst ` set (rc_resolved r)) \<and>
     inj_on (pending_requests r) (dom (pending_requests r))"

lemma receiver_inv_new: "receiver_inv [] (receiver_new err)"
  by (simp add: receiver_inv_def receiver_new_def)

lemma request_channels_snoc [simp]:
  "request_channels (es @ [Registration (Reg_request k ch)]) = request_channels es @ [ch]"
  "request_channels (es @ [Inbound msg]) = request_channels es"
  "request_channels [] = []"
  by (simp_all add: request_channels_def List.map_filter_def)

lemma channel_in_request_channels:
  "Registration (Reg_request k ch) \<in> set es \<Longrightarrow> ch \<in> set (request_channels es)"
  by (force simp: request_channels_def List.map_filter_def)

lemma receiver_inv_register:
  assumes inv: "receiver_inv es r"
    and fresh: "distinct (request_channels (es @ [Registration reg]))"
  shows "receiver_inv (es @ [Registration reg]) (on_register reg r)"
proof (cases reg)
  case (Reg_request k ch)
  have new: "ch \<notin> set (request_channels es)" using fresh Reg_request by simp
  then have unused: "ch \<notin> fst ` set (rc_resolved r)" "pending_requests r k' \<noteq> Some ch" for k'
    using inv channel_in_request_channels by (fastforce simp: receiver_inv_def)+
  show ?thesis
  proof (cases "received_messages r k")
    case None
    have "inj_on ((pending_requests r)(k \<mapsto> ch)) (dom ((pending_requests r)(k \<mapsto> ch)))"
      using inv unused(2) by (auto simp: receiver_inv_def inj_on_def)
    then show ?thesis
      using inv unused None Reg_request by (auto simp: receiver_inv_def)
  next
    case (Some msg)
    have "pending_requests r k = None" using inv Some by (auto simp: receiver_inv_def)
    then show ?thesis
      using inv unused Some Reg_request by (fastforce simp: receiver_inv_def)
  qed
qed (use inv in \<open>fastforce simp: receiver_inv_def\<close>)+

lemma receiver_inv_message:
  assumes inv: "receiver_inv es r"
  shows "receiver_inv (es @ [Inbound msg]) (on_message c msg r)"
proof (cases rule: on_message_cases [of msg r c])
  case (resolved k ch)
  have other: "pending_requests r k' \<noteq> Some ch" if "k' \<noteq> k" for k'
    using inv resolved(2) that by (auto simp: receiver_inv_def inj_on_def dom_def)
  have "inj_on ((pending_requests r)(k := None)) (dom ((pending_requests r)(k := None)))"
    using inv by (auto simp: receiver_inv_def inj_on_def)
  then show ?thesis
    using inv resolved other by (auto simp: receiver_inv_def) 
next
  case (kept k)
  then show ?thesis using inv by (auto simp: receiver_inv_def)
next
  case other
  then show ?thesis using inv by (fastforce simp: receiver_inv_def)
qed

lemma receiver_inv_run:
  "distinct (request_channels es) \<Longrightarrow> receiver_inv es (receiver_run c es (receiver_new err))"
proof (induction es rule: rev_induct)
  case Nil
  then show ?case by (simp add: receiver_inv_new)
next
  case (snoc e es)
  have "distinct (request_channels es)"
    using snoc.prems by (simp add: request_channels_def List.map_filter_def)
  with snoc show ?case
    by (cases e) (simp_all add: receiver_inv_register receiver_inv_message)
qed

section \<open>Events that do not concern a key\<close>

fun concerns :: "req_key \<Rightarrow> receiver_event \<Rightarrow> bool" where
  "concerns k (Registration (Reg_request k' ch)) = (k' = k)"
| "concerns k (Registration _) = False"
| "concerns k (Inbound msg) = (answers_key msg = Some k)"

lemma receiver_step_frame:
  assumes "\<not> concerns k e"
  shows "pending_requests (receiver_step c e r) k = pending_requests r k
    \<and> received_messages (receiver_step c e r) k = received_messages r k"
proof (cases e)
  case (Registration reg)
  with assms show ?thesis by (cases reg) (auto split: option.split)
next
  case (Inbound msg)
  with assms show ?thesis by (cases rule: on_message_cases [of msg r c]) auto
qed

lemma receiver_run_frame:
  "\<forall>e \<in> set es. \<not> concerns k e \<Longrightarrow>
    pending_requests (receiver_run c es r) k = pending_requests r k
    \<and> received_messages (receiver_run c es r) k = received_messages r k"
  by (induction es arbitrary: r) (simp_all add: receiver_step_frame)

lemma receiver_step_resolved_grows: "set (rc_resolved r) \<subseteq> set (rc_resolved (receiver_step c e r))"
proof (cases e)
  case (Registration reg)
  then show ?thesis by (cases reg) (auto split: option.split)
next
  case (Inbound msg)
  then show ?thesis by (cases rule: on_message_cases [of msg r c]) auto
qed

lemma receiver_run_resolved_grows: "set (rc_resolved r) \<subseteq> set (rc_resolved (receiver_run c es r))"
proof (induction es arbitrary: r)
  case (Cons e es)
  then show ?case
    using receiver_step_resolved_grows [of r c e] by (metis receiver_run_simps(2) subset_trans)
qed simp

lemma on_message_request:
  assumes "answers_key msg = Some k" and "request_key msg = Some k"
  shows "on_message c msg r = resolve_or_keep k msg r"
  using assms by (cases k) (simp_all add: on_message_def answers_key_def split: if_splits)

lemma on_message_pending:
  assumes "answers_key msg = Some k" and "pending_requests r k = Some ch"
  shows "rc_resolved (on_message c msg r) = rc_resolved r @ [(ch, msg)]"
proof (cases "request_key msg = Some k")
  case True
  with assms show ?thesis by (simp add: on_message_request resolve_or_keep_def)
next
  case False
  then obtain x i where "request_key msg = Some (CloseConsumerKey x i)" "k = RequestId i"
    using assms(1) by (auto simp: answers_key_def split: if_splits option.splits req_key.splits)
  with assms show ?thesis by (simp add: on_message_def answers_key_def split: if_splits)
qed

lemma receiver_run_register_then_answer:
  assumes "pending_requests r k = None" "received_messages r k = None"
    and "\<forall>e \<in> set es. \<not> concerns k e" and "answers_key msg = Some k"
  shows "(ch, msg) \<in> set (rc_resolved
    (receiver_run c (Registration (Reg_request k ch) # es @ Inbound msg # es') r))"
proof -
  let ?r = "receiver_run c es (on_register (Reg_request k ch) r)"
  have "pending_requests ?r k = Some ch"
    using receiver_run_frame [OF assms(3), of c "on_register (Reg_request k ch) r"] assms(1,2) by simp
  then have "(ch, msg) \<in> set (rc_resolved (on_message c msg ?r))"
    using assms(4) by (simp add: on_message_pending)
  then show ?thesis using receiver_run_resolved_grows [of "on_message c msg ?r" c es'] by auto
qed

lemma receiver_run_answer_then_register:
  assumes "pending_requests r k = None" "received_messages r k = None"
    and "\<forall>e \<in> set es. \<not> concerns k e" and "answers_key msg = Some k" and "request_key msg = Some k"
  shows "(ch, msg) \<in> set (rc_resolved
    (receiver_run c (Inbound msg # es @ Registration (Reg_request k ch) # es') r))"
proof -
  let ?r = "receiver_run c es (on_message c msg r)"
  have "received_messages (on_message c msg r) k = Some msg"
    using assms by (simp add: on_message_request resolve_or_keep_def)
  then have "received_messages ?r k = Some msg"
    using receiver_run_frame [OF assms(3), of c "on_message c msg r"] by simp
  then have "(ch, msg) \<in> set (rc_resolved (on_register (Reg_request k ch) ?r))" by simp
  then show ?thesis
    using receiver_run_resolved_grows [of "on_register (Reg_request k ch) ?r" c es'] by auto
qed

lemma two_filtered:
  assumes "filter P es = [x, y]"
  obtains a b d where "es = a @ x # b @ y # d" "\<forall>e \<in> set a. \<not> P e" "\<forall>e \<in> set b. \<not> P e"
proof -
  from iffD1 [OF filter_eq_Cons_iff assms] obtain a b' where
    a: "es = a @ x # b'" "\<forall>e \<in> set a. \<not> P e" "[y] = filter P b'" by blast
  from iffD1 [OF filter_eq_Cons_iff a(3) [symmetric]] obtain b d where
    "b' = b @ y # d" "\<forall>e \<in> set b. \<not> P e" by blast
  with a that show thesis by blast
qed

section \<open>Consumers\<close>

fun touches_consumer :: "u64 \<Rightarrow> receiver_event \<Rightarrow> bool" where
  "touches_consumer c (Registration (Reg_consumer c' ch)) = (c' = c)"
| "touches_consumer c (Registration (Reg_remove_consumer c')) = (c' = c)"
| "touches_consumer c _ = False"

definition inbound_for :: "u64 \<Rightarrow> receiver_event list \<Rightarrow> raw_message list" where
  "inbound_for c es = List.map_filter
     (\<lambda>e. case e of Inbound msg \<Rightarrow> if consumer_of msg = Some c then Some msg else None | _ \<Rightarrow> None) es"

lemma on_message_delivered_both:
  "consumers (on_message o1 msg r) = consumers r \<and>
    filter (\<lambda>(ch', m). consumer_of m = Some c) (rc_delivered (on_message o1 msg r))
    = filter (\<lambda>(ch', m). consumer_of m = Some c) (rc_delivered r)
      @ (if consumer_of msg = Some c then (case consumers r c of Some ch \<Rightarrow> [(ch, msg)] | None \<Rightarrow> []) else [])"
proof (cases "ping (command msg) = None \<and> pong (command msg) = None")
  case True
  show ?thesis
  proof (cases "request_key msg")
    case None
    with True show ?thesis by (simp add: on_message_def consumer_of_def)
  next
    case (Some key)
    with True show ?thesis
      by (cases key) (auto simp: on_message_def consumer_of_def resolve_or_keep_def
          deliver_to_consumer_def split: option.splits)
  qed
qed (auto simp: on_message_def consumer_of_def split: option.splits)

lemmas on_message_delivered = on_message_delivered_both [THEN conjunct1] on_message_delivered_both [THEN conjunct2]

lemma on_register_delivered: "rc_delivered (on_register reg r) = rc_delivered r"
  by (cases reg) (simp_all split: option.split)

lemma consumer_run:
  assumes "consumers r c = Some ch" and "\<forall>e \<in> set es. \<not> touches_consumer c e"
  shows "filter (\<lambda>(ch', m). consumer_of m = Some c) (rc_delivered (receiver_run o1 es r))
    = filter (\<lambda>(ch', m). consumer_of m = Some c) (rc_delivered r) @ map (\<lambda>m. (ch, m)) (inbound_for c es)"
  using assms
proof (induction es arbitrary: r)
  case Nil
  then show ?case by (simp add: inbound_for_def List.map_filter_simps)
next
  case (Cons e es)
  show ?case
  proof (cases e)
    case (Registration reg)
    then have "consumers (on_register reg r) c = Some ch"
      using Cons.prems by (cases reg) (auto split: option.split)
    with Registration Cons.IH [of "on_register reg r"] Cons.prems show ?thesis
      by (simp add: inbound_for_def List.map_filter_simps on_register_delivered)
  next
    case (Inbound msg)
    with Cons.IH [of "on_message o1 msg r"] Cons.prems show ?thesis
      by (simp add: inbound_for_def List.map_filter_simps on_message_delivered)
  qed
qed

section \<open>Properties\<close>

text \<open>
  C6. No request is answered twice or with another's answer: over any interleaving of
  registrations, each on a channel of its own, with messages from the broker, the channels
  resolved are distinct, and each was resolved with a message received from the broker that
  carries the very key the request was registered under.
\<close>

theorem requests_resolved_once_by_their_answer:
  assumes "distinct (request_channels es)"
  shows "distinct (map fst (rc_resolved (receiver_run control_open es (receiver_new err))))
    \<and> (\<forall>(ch, msg) \<in> set (rc_resolved (receiver_run control_open es (receiver_new err))).
        \<exists>k. Registration (Reg_request k ch) \<in> set es \<and> Inbound msg \<in> set es
          \<and> answers_key msg = Some k)"
  using receiver_inv_run [OF assms, of control_open err] by (simp add: receiver_inv_def)

theorem requests_resolved_once_by_their_answer_witness:
  "distinct (map fst (rc_resolved (receiver_run True
     [Registration (Reg_request (RequestId 1) 10), Registration (Reg_request (RequestId 2) 11),
      Inbound (msg_seek 5 2 None None)] (receiver_new shared_error_new))))"
  by (rule conjunct1 [OF requests_resolved_once_by_their_answer])
     (simp add: request_channels_def List.map_filter_def)

text \<open>
  C5. An answer reaches its request whichever comes first: if, among arbitrary other traffic, a
  key is registered once and one message carries it, the request's channel receives that
  message, even when the answer overtakes the registration.
\<close>

theorem answer_reaches_its_request:
  assumes "filter (concerns k) es = [Registration (Reg_request k ch), Inbound msg]
      \<or> filter (concerns k) es = [Inbound msg, Registration (Reg_request k ch)]"
    and "request_key msg = Some k"
  shows "(ch, msg) \<in> set (rc_resolved (receiver_run control_open es (receiver_new err)))"
proof -
  have "Inbound msg \<in> set (filter (concerns k) es)"
    using assms(1) by (elim disjE) (simp_all only: list.set insert_iff simp_thms)
  then have ans: "answers_key msg = Some k" by simp
  obtain x y where xy: "filter (concerns k) es = [x, y]"
    and or: "x = Registration (Reg_request k ch) \<and> y = Inbound msg
      \<or> x = Inbound msg \<and> y = Registration (Reg_request k ch)"
    using assms(1) by blast
  from xy obtain a b d where es: "es = a @ x # b @ y # d"
    and a: "\<forall>e \<in> set a. \<not> concerns k e" and b: "\<forall>e \<in> set b. \<not> concerns k e"
    by (rule two_filtered)
  have fresh: "pending_requests (receiver_run control_open a (receiver_new err)) k = None"
    "received_messages (receiver_run control_open a (receiver_new err)) k = None"
    using receiver_run_frame [OF a, of control_open "receiver_new err"]
    by (simp_all add: receiver_new_def)
  from or show ?thesis
    using receiver_run_register_then_answer [OF fresh b ans]
      receiver_run_answer_then_register [OF fresh b ans assms(2)]
    unfolding es by (auto simp del: receiver_run_simps(2))
qed

theorem answer_reaches_its_request_witness:
  "(10, msg_seek 5 1 None None) \<in> set (rc_resolved (receiver_run True
     [Inbound msg_ping, Inbound (msg_seek 5 1 None None), Registration (Reg_ping 3),
      Registration (Reg_request (RequestId 1) 10)] (receiver_new shared_error_new)))"
proof (rule answer_reaches_its_request [of "RequestId 1"])
  show "filter (concerns (RequestId 1)) [Inbound msg_ping, Inbound (msg_seek 5 1 None None),
      Registration (Reg_ping 3), Registration (Reg_request (RequestId 1) 10)]
    = [Registration (Reg_request (RequestId 1) 10), Inbound (msg_seek 5 1 None None)] \<or>
    filter (concerns (RequestId 1)) [Inbound msg_ping, Inbound (msg_seek 5 1 None None),
      Registration (Reg_ping 3), Registration (Reg_request (RequestId 1) 10)]
    = [Inbound (msg_seek 5 1 None None), Registration (Reg_request (RequestId 1) 10)]"
    by (simp add: answers_key_def) (simp add: msg_ping_def msg_seek_def just_def base_command_default_def)
qed simp

text \<open>
  C37. A registered consumer receives every message addressed to it, in the order the broker
  sent them and nothing in between lost or duplicated, whatever else the connection carries,
  for as long as it is neither replaced nor removed.
\<close>

theorem consumer_receives_its_messages_in_order:
  assumes "\<forall>e \<in> set es. \<not> touches_consumer c e"
  shows "filter (\<lambda>(ch', m). consumer_of m = Some c)
      (rc_delivered (receiver_run control_open (Registration (Reg_consumer c ch) # es) r))
    = filter (\<lambda>(ch', m). consumer_of m = Some c) (rc_delivered r)
      @ map (\<lambda>m. (ch, m)) (inbound_for c es)"
  using consumer_run [of "on_register (Reg_consumer c ch) r" c ch es control_open] assms by simp

theorem consumer_receives_its_messages_in_order_witness:
  "filter (\<lambda>(ch', m). consumer_of m = Some 5) (rc_delivered (receiver_run True
     (Registration (Reg_consumer 5 9) # [Inbound (msg_flow 5 1), Inbound msg_ping, Inbound (msg_flow 6 1)])
     (receiver_new shared_error_new)))
   = [(9, msg_flow 5 1)]"
  by (subst consumer_receives_its_messages_in_order)
     (simp_all add: receiver_new_def inbound_for_def List.map_filter_def consumer_of_def,
      simp add: msg_ping_def msg_flow_def just_def base_command_default_def)

section \<open>A close from the broker that nobody is told of\<close>

text \<open>
  A \<open>CloseProducer\<close> that the broker sends on its own carries no pending request, so the message
  is kept as if it were an early answer and no channel learns of it.
\<close>

theorem unsolicited_close_producer_is_parked:
  assumes "command msg = (command (msg_close_producer p i))" and "pending_requests r (RequestId i) = None"
  shows "rc_resolved (on_message control_open msg r) = rc_resolved r
    \<and> rc_delivered (on_message control_open msg r) = rc_delivered r
    \<and> received_messages (on_message control_open msg r) (RequestId i) = Some msg"
proof -
  have "request_key msg = Some (RequestId i)"
    using assms(1) request_key_builders(9) [of p i] by (simp add: request_key_def)
  moreover have "ping (command msg) = None" "pong (command msg) = None"
    using assms(1) by (simp_all add: msg_close_producer_def just_def base_command_default_def)
  ultimately show ?thesis using assms(2) by (simp add: on_message_def resolve_or_keep_def)
qed

end
