(* ===== verification/Connection.thy ===== *)
theory Connection
  imports Receiver
begin

text \<open>
  The sending side of a connection (\<open>ConnectionSender\<close>, \<open>SerialId\<close>, \<open>SendChannel\<close> in
  \<open>connection.rs\<close>), the task that writes both outbound channels to the socket, the task that
  answers authentication challenges, the handshake and the choice of an address. A request
  takes the number of its one-shot channel and what awaiting that channel comes to: an answer,
  a channel that was dropped, or the operation timeout. Sockets and name lookup are
  third-party code: their outcomes are arguments, as is the opened stream (\<open>Transport\<close>).
\<close>

section \<open>State\<close>

datatype send_channel = Control | DataBlocking | DataTrySend

datatype 'a answer = Answered 'a | Canceled | Timed_out

record conn =
  sn_next_id :: u64
  sn_error :: shared_error
  sn_features :: broker_features
  sn_registrations :: "register list"
  sn_receiver_open :: bool
  sn_control :: "raw_message list"
  sn_data :: "raw_message list"
  sn_data_capacity :: nat
  sn_sink_open :: bool
  sn_written :: "raw_message list"

definition serial_get :: "conn \<Rightarrow> u64 \<times> conn" where
  "serial_get c = (sn_next_id c, c\<lparr>sn_next_id := sn_next_id c + 1\<rparr>)"

definition conn_new :: "nat \<Rightarrow> broker_features \<Rightarrow> conn" where
  "conn_new outbound_channel_size features =
     \<lparr>sn_next_id = 0, sn_error = shared_error_new, sn_features = features, sn_registrations = [],
      sn_receiver_open = True, sn_control = [], sn_data = [],
      sn_data_capacity = outbound_channel_size, sn_sink_open = True, sn_written = []\<rparr>"

definition set_error :: "connection_error \<Rightarrow> conn \<Rightarrow> conn" where
  "set_error e c = c\<lparr>sn_error := shared_error_set e (sn_error c)\<rparr>"

definition conn_is_valid :: "conn \<Rightarrow> bool" where
  "conn_is_valid c \<longleftrightarrow> \<not> is_set (sn_error c)"

definition conn_take_error :: "conn \<Rightarrow> connection_error option \<times> conn" where
  "conn_take_error c = (let (e, s) = shared_error_remove (sn_error c) in (e, c\<lparr>sn_error := s\<rparr>))"

section \<open>Sending and awaiting\<close>

definition register_with :: "register \<Rightarrow> conn \<Rightarrow> (connection_error, conn) result" where
  "register_with reg c =
     (if sn_receiver_open c then Inr (c\<lparr>sn_registrations := sn_registrations c @ [reg]\<rparr>)
      else Inl Disconnected)"

text \<open>
  The data channel is bounded: a blocking send on a full channel is \<open>Waiting\<close>, with nothing
  queued yet; a send on the control channel never is.
\<close>

datatype queued = Queued | Refused connection_error | Waiting

fun enqueue :: "send_channel \<Rightarrow> raw_message \<Rightarrow> conn \<Rightarrow> queued \<times> conn" where
  "enqueue Control msg c =
     (if sn_sink_open c then (Queued, c\<lparr>sn_control := sn_control c @ [msg]\<rparr>)
      else (Refused Disconnected, c))"
| "enqueue DataBlocking msg c =
     (if \<not> sn_sink_open c then (Refused Disconnected, c)
      else if sn_data_capacity c \<le> length (sn_data c) then (Waiting, c)
      else (Queued, c\<lparr>sn_data := sn_data c @ [msg]\<rparr>))"
| "enqueue DataTrySend msg c =
     (if \<not> sn_sink_open c then (Refused Disconnected, c)
      else if sn_data_capacity c \<le> length (sn_data c) then (Refused SlowDown, c)
      else (Queued, c\<lparr>sn_data := sn_data c @ [msg]\<rparr>))"

definition send_message_non_blocking ::
  "raw_message \<Rightarrow> req_key \<Rightarrow> send_channel \<Rightarrow> nat \<Rightarrow> conn \<Rightarrow> queued \<times> conn" where
  "send_message_non_blocking msg key via resolver c =
     (case register_with (Reg_request key resolver) c of
        Inl e \<Rightarrow> (Refused e, c)
      | Inr c1 \<Rightarrow> enqueue via msg c1)"

text \<open>A command without an answer, on the control channel.\<close>

definition send_control :: "raw_message \<Rightarrow> conn \<Rightarrow> (connection_error, unit) result \<times> conn" where
  "send_control msg c =
     (case enqueue Control msg c of
        (Refused e, c1) \<Rightarrow> (Inl e, c1)
      | (_, c1) \<Rightarrow> (Inr (), c1))"

definition request_timeout :: connection_error where
  "request_timeout = Io TimedOut ''timedout sending message to the Pulsar server''"

definition await_answer :: "raw_message answer \<Rightarrow> (raw_message \<Rightarrow> 'a option) \<Rightarrow> conn \<Rightarrow>
    (connection_error, 'a) result \<times> conn" where
  "await_answer ans extract c =
     (case ans of
        Answered m \<Rightarrow> (extract_message m extract, c)
      | Canceled \<Rightarrow> (Inl Disconnected, set_error Disconnected c)
      | Timed_out \<Rightarrow> (Inl request_timeout, set_error request_timeout c))"

definition send_message :: "raw_message \<Rightarrow> req_key \<Rightarrow> (raw_message \<Rightarrow> 'a option) \<Rightarrow>
    nat \<Rightarrow> raw_message answer \<Rightarrow> conn \<Rightarrow> (connection_error, 'a) result \<times> conn" where
  "send_message msg key extract resolver ans c =
     (case send_message_non_blocking msg key Control resolver c of
        (Refused e, c1) \<Rightarrow> (Inl e, c1)
      | (_, c1) \<Rightarrow> await_answer ans extract c1)"

text \<open>Waiting for exclusive access has no timeout: a wait that never ends is \<open>None\<close>.\<close>

definition wait_exclusive_access :: "req_key \<Rightarrow> (raw_message \<Rightarrow> 'a option) \<Rightarrow> nat \<Rightarrow>
    raw_message answer \<Rightarrow> conn \<Rightarrow> ((connection_error, 'a) result \<times> conn) option" where
  "wait_exclusive_access key extract resolver ans c =
     (case register_with (Reg_request key resolver) c of
        Inl e \<Rightarrow> Some (Inl Disconnected, c)
      | Inr c1 \<Rightarrow> (case ans of
           Answered m \<Rightarrow> Some (extract_message m extract, c1)
         | Canceled \<Rightarrow> Some (Inl Disconnected, set_error Disconnected c1)
         | Timed_out \<Rightarrow> None))"

section \<open>Requests\<close>

text \<open>A publish returns once the message is queued; its receipt is awaited separately.\<close>

definition conn_send :: "u64 \<Rightarrow> u64 \<Rightarrow> string \<Rightarrow> u64 \<Rightarrow> producer_message \<Rightarrow> bool \<Rightarrow> nat \<Rightarrow> conn \<Rightarrow>
    queued \<times> conn" where
  "conn_send publish_time producer_id producer_name sequence_id m block_if_queue_full resolver c =
     send_message_non_blocking (msg_send publish_time producer_id producer_name sequence_id m)
       (ProducerSend producer_id sequence_id)
       (if block_if_queue_full then DataBlocking else DataTrySend) resolver c"

definition ping_timeout :: connection_error where
  "ping_timeout = Io TimedOut ''timeout when sending ping to the Pulsar server''"

definition conn_send_ping :: "nat \<Rightarrow> unit answer \<Rightarrow> conn \<Rightarrow> (connection_error, unit) result \<times> conn" where
  "conn_send_ping resolver ans c =
     (let registered = register_with (Reg_ping resolver) c;
          c1 = (case registered of Inl _ \<Rightarrow> c | Inr c1 \<Rightarrow> c1)
      in case send_control msg_ping c1 of
           (Inl e, c2) \<Rightarrow> (Inl e, c2)
         | (Inr _, c2) \<Rightarrow>
             (if is_ok registered then
                (case ans of
                   Answered _ \<Rightarrow> (Inr (), c2)
                 | Canceled \<Rightarrow> (Inl Disconnected, set_error Disconnected c2)
                 | Timed_out \<Rightarrow> (Inl ping_timeout, set_error ping_timeout c2))
              else (Inl Disconnected, c2)))"

definition conn_lookup_topic where
  "conn_lookup_topic topic authoritative listener_name resolver ans c =
     (let (request_id, c1) = serial_get c
      in send_message (msg_lookup_topic topic authoritative request_id listener_name)
           (RequestId request_id) (\<lambda>resp. lookup_topic_response (command resp)) resolver ans c1)"

definition conn_lookup_partitioned_topic where
  "conn_lookup_partitioned_topic topic metadata_auto_creation_enabled resolver ans c =
     (if \<not> metadata_auto_creation_enabled
         \<and> \<not> supports_get_partitioned_metadata_without_auto_creation (sn_features c)
      then (Inl (NotSupported ''PIP-344''), c)
      else
        (let (request_id, c1) = serial_get c
         in send_message (msg_lookup_partitioned_topic topic request_id metadata_auto_creation_enabled)
              (RequestId request_id) (\<lambda>resp. partition_metadata_response (command resp)) resolver ans c1))"

definition conn_get_consumer_stats where
  "conn_get_consumer_stats consumer_id resolver ans c =
     (let (request_id, c1) = serial_get c
      in send_message (msg_consumer_stats request_id consumer_id) (RequestId request_id)
           (\<lambda>resp. consumer_stats_response (command resp)) resolver ans c1)"

definition conn_get_last_message_id where
  "conn_get_last_message_id consumer_id resolver ans c =
     (let (request_id, c1) = serial_get c
      in send_message (msg_get_last_message_id consumer_id request_id) (RequestId request_id)
           (\<lambda>resp. get_last_message_id_response (command resp)) resolver ans c1)"

definition conn_create_producer where
  "conn_create_producer topic producer_id producer_name options resolver ans c =
     (let (request_id, c1) = serial_get c
      in send_message (msg_create_producer topic producer_name producer_id request_id options)
           (RequestId request_id) (\<lambda>resp. producer_success (command resp)) resolver ans c1)"

definition conn_wait_for_exclusive_access where
  "conn_wait_for_exclusive_access request_id resolver ans c =
     wait_exclusive_access (RequestId request_id) (\<lambda>resp. producer_success (command resp)) resolver ans c"

definition conn_get_topics_of_namespace where
  "conn_get_topics_of_namespace namespace mode resolver ans c =
     (let (request_id, c1) = serial_get c
      in send_message (msg_get_topics_of_namespace request_id namespace mode) (RequestId request_id)
           (\<lambda>resp. get_topics_of_namespace_response (command resp)) resolver ans c1)"

definition conn_close_producer where
  "conn_close_producer producer_id resolver ans c =
     (let (request_id, c1) = serial_get c
      in send_message (msg_close_producer producer_id request_id) (RequestId request_id)
           (\<lambda>resp. success (command resp)) resolver ans c1)"

definition conn_subscribe where
  "conn_subscribe consumer_channel topic subscription sub_typ consumer_id consumer_name options
       resolver ans c =
     (let (request_id, c1) = serial_get c;
          msg = msg_subscribe topic subscription sub_typ consumer_id request_id consumer_name options
      in case register_with (Reg_consumer consumer_id consumer_channel) c1 of
           Inl _ \<Rightarrow> (Inl Disconnected, set_error Disconnected c1)
         | Inr c2 \<Rightarrow> send_message msg (RequestId request_id) (\<lambda>resp. success (command resp)) resolver ans c2)"

definition conn_send_flow where
  "conn_send_flow consumer_id message_permits c = send_control (msg_flow consumer_id message_permits) c"

definition conn_send_ack where
  "conn_send_ack consumer_id message_ids cumulative c =
     send_control (msg_ack consumer_id message_ids cumulative) c"

definition conn_send_redeliver where
  "conn_send_redeliver consumer_id message_ids c =
     send_control (msg_redeliver consumer_id message_ids) c"

definition conn_close_consumer where
  "conn_close_consumer consumer_id resolver ans c =
     (let (request_id, c1) = serial_get c;
          msg = msg_close_consumer consumer_id request_id
      in case register_with (Reg_remove_consumer consumer_id) c1 of
           Inl _ \<Rightarrow> (Inl Disconnected, set_error Disconnected c1)
         | Inr c2 \<Rightarrow> send_message msg (RequestId request_id) (\<lambda>resp. success (command resp)) resolver ans c2)"

definition conn_seek where
  "conn_seek consumer_id message_id timestamp resolver ans c =
     (let (request_id, c1) = serial_get c
      in send_message (msg_seek consumer_id request_id message_id timestamp) (RequestId request_id)
           (\<lambda>resp. success (command resp)) resolver ans c1)"

definition conn_unsubscribe where
  "conn_unsubscribe consumer_id resolver ans c =
     (let (request_id, c1) = serial_get c
      in send_message (msg_unsubscribe consumer_id request_id) (RequestId request_id)
           (\<lambda>resp. success (command resp)) resolver ans c1)"

definition conn_auth_challenge where
  "conn_auth_challenge auth_data resolver ans c =
     send_message (msg_auth_challenge auth_data) AuthChallengeKey (\<lambda>resp. success (command resp))
       resolver ans c"

definition conn_get_schema where
  "conn_get_schema topic version resolver ans c =
     (let (request_id, c1) = serial_get c
      in send_message (msg_get_schema request_id topic version) (RequestId request_id)
           (\<lambda>resp. get_schema_response (command resp)) resolver ans c1)"

section \<open>The writing task\<close>

text \<open>
  One turn: the next message, from the control channel while it holds one, is written; a
  failed write sets the error and ends the task, which closes both channels.
\<close>

definition sink_step :: "(connection_error, unit) result \<Rightarrow> conn \<Rightarrow> conn" where
  "sink_step write_result c =
     (if \<not> sn_sink_open c then c
      else case (sn_control c, sn_data c) of
        ([], []) \<Rightarrow> c
      | (msg # rest, _) \<Rightarrow>
          (case write_result of
             Inr _ \<Rightarrow> c\<lparr>sn_control := rest, sn_written := sn_written c @ [msg]\<rparr>
           | Inl e \<Rightarrow> set_error e (c\<lparr>sn_control := rest, sn_sink_open := False\<rparr>))
      | ([], msg # rest) \<Rightarrow>
          (case write_result of
             Inr _ \<Rightarrow> c\<lparr>sn_data := rest, sn_written := sn_written c @ [msg]\<rparr>
           | Inl e \<Rightarrow> set_error e (c\<lparr>sn_data := rest, sn_sink_open := False\<rparr>)))"

text \<open>The task that answers challenges: whether it goes on, and the connection.\<close>

definition on_auth_challenge :: "(connection_error, auth_params option) result \<Rightarrow> conn \<Rightarrow> bool \<times> conn" where
  "on_auth_challenge auth_data c =
     (case auth_data of
        Inr (Some a) \<Rightarrow> (True, snd (send_control (msg_auth_challenge a) c))
      | Inr None \<Rightarrow> (True, c)
      | Inl e \<Rightarrow> (False, set_error e c))"

section \<open>Establishing a connection\<close>

text \<open>The name and the data an authentication provider returns, or its failure.\<close>

definition prepare_auth_data :: "(string \<times> (authentication_error, byte list) result) option \<Rightarrow>
    (connection_error, auth_params option) result" where
  "prepare_auth_data auth =
     (case auth of
        Some (name, data) \<Rightarrow> rmap (\<lambda>d. Some \<lparr>au_name = name, au_data = d\<rparr>) (map_err Authentication_conn data)
      | None \<Rightarrow> Inr None)"

text \<open>
  The handshake on an open stream: the message sent first, if the credentials were available,
  and the connection or the error. The spawn arguments say whether the executor accepted the
  receiver, the writer and the challenge task.
\<close>

definition conn_connect :: "string \<Rightarrow> (string \<times> (authentication_error, byte list) result) option \<Rightarrow>
    string option \<Rightarrow> nat \<Rightarrow> (connection_error, unit) result \<Rightarrow>
    (connection_error, raw_message) result option \<Rightarrow> bool \<Rightarrow> bool \<Rightarrow> bool \<Rightarrow>
    raw_message option \<times> (connection_error, conn) result" where
  "conn_connect pkg_version auth proxy_to_broker_url outbound_channel_size sent reply
       spawn_receiver spawn_sink spawn_auth =
     (case prepare_auth_data auth of
        Inl e \<Rightarrow> (None, Inl e)
      | Inr auth_data \<Rightarrow>
          (Some (msg_connect pkg_version auth_data proxy_to_broker_url),
           case sent of
             Inl e \<Rightarrow> Inl e
           | Inr _ \<Rightarrow>
             (case reply of
                None \<Rightarrow> Inl Disconnected
              | Some (Inl e) \<Rightarrow> Inl e
              | Some (Inr msg) \<Rightarrow>
                (case error_cmd (command msg) of
                   Some err \<Rightarrow> Inl (PulsarError (server_error (er_error err)) (Some (er_message err)))
                 | None \<Rightarrow>
                   (case connected (command msg) of
                      None \<Rightarrow> Inl (Unexpected ''Unexpected message from pulsar'')
                    | Some c \<Rightarrow>
                      if \<not> spawn_receiver then Inl Shutdown_conn
                      else if \<not> spawn_sink then Inl Shutdown_conn
                      else if auth \<noteq> None \<and> \<not> spawn_auth then Inl Shutdown_conn
                      else Inr (conn_new outbound_channel_size
                             (broker_features_from (cd_feature_flags c))))))))"

text \<open>A client certificate without a provider authenticates with the method \<open>tls\<close>.\<close>

definition effective_auth :: "auth_params option \<Rightarrow> bool \<Rightarrow> auth_params option" where
  "effective_auth auth_data has_identity =
     (case (auth_data, has_identity) of
        (None, True) \<Rightarrow> Some \<lparr>au_name = ''tls'', au_data = []\<rparr>
      | _ \<Rightarrow> auth_data)"

definition connect_timeout :: connection_error where
  "connect_timeout = Io TimedOut ''timeout connecting to the Pulsar server''"

text \<open>Trying the addresses in order; \<open>None\<close> is the connection timeout.\<close>

fun try_addresses :: "(connection_error, 's) result option list \<Rightarrow> connection_error list \<Rightarrow>
    (connection_error list, 's) result" where
  "try_addresses [] errors = Inl errors"
| "try_addresses (Some (Inr sender) # rest) errors = Inr sender"
| "try_addresses (Some (Inl err) # rest) errors = try_addresses rest (errors @ [err])"
| "try_addresses (None # rest) errors = try_addresses rest (errors @ [connect_timeout])"

definition fatal_connect_error :: connection_error where
  "fatal_connect_error = Io OtherIo ''fatal error when connecting to the Pulsar server''"

definition connection_new :: "string \<Rightarrow> 'a list option \<Rightarrow>
    (bool \<Rightarrow> 'a \<Rightarrow> (connection_error, 's) result option) \<Rightarrow> (connection_error, 's) result" where
  "connection_new scheme addresses prepare_stream =
     (if scheme \<noteq> ''pulsar'' \<and> scheme \<noteq> ''pulsar+ssl'' then Inl NotFound_conn
      else
        (let tls = (scheme = ''pulsar+ssl'') in
         case addresses of
           None \<Rightarrow> Inl NotFound_conn
         | Some addrs \<Rightarrow>
             if addrs = [] then Inl NotFound_conn
             else
               (case try_addresses (map (prepare_stream tls) addrs) [] of
                  Inr sender \<Rightarrow> Inr sender
                | Inl errors \<Rightarrow>
                    (case filter establish_retryable errors of
                       [] \<Rightarrow> Inl fatal_connect_error
                     | e # _ \<Rightarrow> Inl e))))"

section \<open>What the operations leave alone\<close>

lemma set_error_simps [simp]:
  "sn_registrations (set_error e c) = sn_registrations c" "sn_control (set_error e c) = sn_control c"
  "sn_data (set_error e c) = sn_data c" "sn_next_id (set_error e c) = sn_next_id c"
  "sn_receiver_open (set_error e c) = sn_receiver_open c" "sn_sink_open (set_error e c) = sn_sink_open c"
  "sn_features (set_error e c) = sn_features c" "sn_written (set_error e c) = sn_written c"
  "sn_data_capacity (set_error e c) = sn_data_capacity c" "\<not> conn_is_valid (set_error e c)"
  by (simp_all add: set_error_def conn_is_valid_def)

lemma await_answer_simps [simp]:
  "sn_registrations (snd (await_answer ans f c)) = sn_registrations c"
  "sn_control (snd (await_answer ans f c)) = sn_control c"
  "sn_data (snd (await_answer ans f c)) = sn_data c"
  "sn_next_id (snd (await_answer ans f c)) = sn_next_id c"
  "sn_receiver_open (snd (await_answer ans f c)) = sn_receiver_open c"
  "sn_sink_open (snd (await_answer ans f c)) = sn_sink_open c"
  "sn_features (snd (await_answer ans f c)) = sn_features c"
  by (simp_all add: await_answer_def split: answer.split)

lemma send_message_open:
  assumes "sn_receiver_open c" and "sn_sink_open c"
  shows "send_message msg key f ch ans c = await_answer ans f
    (c\<lparr>sn_registrations := sn_registrations c @ [Reg_request key ch], sn_control := sn_control c @ [msg]\<rparr>)"
  using assms by (simp add: send_message_def send_message_non_blocking_def register_with_def)

lemmas conn_op_defs = conn_lookup_topic_def conn_lookup_partitioned_topic_def
  conn_get_consumer_stats_def conn_get_last_message_id_def conn_create_producer_def
  conn_get_topics_of_namespace_def conn_close_producer_def conn_subscribe_def
  conn_close_consumer_def conn_seek_def conn_unsubscribe_def conn_get_schema_def

section \<open>Sequences of requests\<close>

text \<open>The requests that wait for an answer under a number of their own.\<close>

datatype rpc =
    Rpc_lookup_topic string bool "string option"
  | Rpc_lookup_partitioned_topic string bool
  | Rpc_consumer_stats u64
  | Rpc_last_message_id u64
  | Rpc_create_producer string u64 "string option" producer_options
  | Rpc_topics_of_namespace string topics_mode
  | Rpc_close_producer u64
  | Rpc_subscribe nat string string sub_type u64 "string option" consumer_options
  | Rpc_close_consumer u64
  | Rpc_seek u64 "message_id_data option" "u64 option"
  | Rpc_unsubscribe u64
  | Rpc_get_schema string "(byte list) option"

fun rpc_call :: "rpc \<Rightarrow> nat \<Rightarrow> raw_message answer \<Rightarrow> conn \<Rightarrow> conn" where
  "rpc_call (Rpc_lookup_topic t a l) ch ans c = snd (conn_lookup_topic t a l ch ans c)"
| "rpc_call (Rpc_lookup_partitioned_topic t b) ch ans c = snd (conn_lookup_partitioned_topic t b ch ans c)"
| "rpc_call (Rpc_consumer_stats i) ch ans c = snd (conn_get_consumer_stats i ch ans c)"
| "rpc_call (Rpc_last_message_id i) ch ans c = snd (conn_get_last_message_id i ch ans c)"
| "rpc_call (Rpc_create_producer t p n po) ch ans c = snd (conn_create_producer t p n po ch ans c)"
| "rpc_call (Rpc_topics_of_namespace n m) ch ans c = snd (conn_get_topics_of_namespace n m ch ans c)"
| "rpc_call (Rpc_close_producer p) ch ans c = snd (conn_close_producer p ch ans c)"
| "rpc_call (Rpc_subscribe q t s ty i n co) ch ans c = snd (conn_subscribe q t s ty i n co ch ans c)"
| "rpc_call (Rpc_close_consumer i) ch ans c = snd (conn_close_consumer i ch ans c)"
| "rpc_call (Rpc_seek i m ts) ch ans c = snd (conn_seek i m ts ch ans c)"
| "rpc_call (Rpc_unsubscribe i) ch ans c = snd (conn_unsubscribe i ch ans c)"
| "rpc_call (Rpc_get_schema t v) ch ans c = snd (conn_get_schema t v ch ans c)"

fun rpc_allowed :: "broker_features \<Rightarrow> rpc \<Rightarrow> bool" where
  "rpc_allowed f (Rpc_lookup_partitioned_topic t b) =
     (b \<or> supports_get_partitioned_metadata_without_auto_creation f)"
| "rpc_allowed f _ = True"

fun rpc_run :: "(rpc \<times> nat \<times> raw_message answer) list \<Rightarrow> conn \<Rightarrow> conn" where
  "rpc_run [] c = c"
| "rpc_run ((r, ch, ans) # calls) c = rpc_run calls (rpc_call r ch ans c)"

fun is_request :: "register \<Rightarrow> bool" where
  "is_request (Reg_request k ch) = True"
| "is_request _ = False"

lemma answers_key_builders:
  fixes b :: bool
  shows
  "answers_key (msg_lookup_topic t b i l) = Some (RequestId i)"
  "answers_key (msg_lookup_partitioned_topic t i b) = Some (RequestId i)"
  "answers_key (msg_consumer_stats i x) = Some (RequestId i)"
  "answers_key (msg_get_last_message_id x i) = Some (RequestId i)"
  "answers_key (msg_create_producer t pn p i po) = Some (RequestId i)"
  "answers_key (msg_get_topics_of_namespace i ns md) = Some (RequestId i)"
  "answers_key (msg_close_producer p i) = Some (RequestId i)"
  "answers_key (msg_subscribe t sb st x i cn co) = Some (RequestId i)"
  "answers_key (msg_close_consumer x i) = Some (RequestId i)"
  "answers_key (msg_seek x i mid ts) = Some (RequestId i)"
  "answers_key (msg_unsubscribe x i) = Some (RequestId i)"
  "answers_key (msg_get_schema i t v) = Some (RequestId i)"
  by (simp_all add: answers_key_def, simp_all add: builder_defs base_command_default_def)

lemma rpc_call_effect:
  assumes "sn_receiver_open c" and "sn_sink_open c" and "rpc_allowed (sn_features c) r"
  shows "\<exists>msg. sn_control (rpc_call r ch ans c) = sn_control c @ [msg]
      \<and> answers_key msg = Some (RequestId (sn_next_id c))
    \<and> filter is_request (sn_registrations (rpc_call r ch ans c))
        = filter is_request (sn_registrations c) @ [Reg_request (RequestId (sn_next_id c)) ch]
    \<and> sn_next_id (rpc_call r ch ans c) = sn_next_id c + 1
    \<and> sn_receiver_open (rpc_call r ch ans c) \<and> sn_sink_open (rpc_call r ch ans c)
    \<and> sn_features (rpc_call r ch ans c) = sn_features c"
  using assms
  by (cases r)
     (auto simp: conn_op_defs serial_get_def Let_def send_message_open answers_key_builders register_with_def)

lemma rpc_run_effect:
  assumes "sn_receiver_open c" and "sn_sink_open c"
    and "\<forall>(r, ch, ans) \<in> set calls. rpc_allowed (sn_features c) r"
  shows "(\<exists>msgs. sn_control (rpc_run calls c) = sn_control c @ msgs
      \<and> map answers_key msgs = map (\<lambda>j. Some (RequestId (sn_next_id c + of_nat j))) [0..<length calls])
    \<and> filter is_request (sn_registrations (rpc_run calls c)) = filter is_request (sn_registrations c)
        @ map (\<lambda>(j, _, ch, _). Reg_request (RequestId (sn_next_id c + of_nat j)) ch) (enumerate 0 calls)"
  using assms
proof (induction calls arbitrary: c)
  case Nil
  then show ?case by simp
next
  case (Cons call calls)
  obtain r ch ans where call: "call = (r, ch, ans)" by (cases call)
  let ?c1 = "rpc_call r ch ans c"
  from Cons.prems call rpc_call_effect [of c r ch ans] obtain msg where
    msg: "sn_control ?c1 = sn_control c @ [msg]" "answers_key msg = Some (RequestId (sn_next_id c))"
    and regs: "filter is_request (sn_registrations ?c1)
        = filter is_request (sn_registrations c) @ [Reg_request (RequestId (sn_next_id c)) ch]"
    and next1: "sn_next_id ?c1 = sn_next_id c + 1"
    and stay: "sn_receiver_open ?c1" "sn_sink_open ?c1" "sn_features ?c1 = sn_features c"
    by auto
  have "\<forall>(r, ch, ans) \<in> set calls. rpc_allowed (sn_features ?c1) r"
    using Cons.prems(3) stay(3) by auto
  from Cons.IH [OF stay(1,2) this] obtain msgs where
    ctl: "sn_control (rpc_run calls ?c1) = sn_control ?c1 @ msgs"
    and keys: "map answers_key msgs = map (\<lambda>j. Some (RequestId (sn_next_id ?c1 + of_nat j))) [0..<length calls]"
    and regs1: "filter is_request (sn_registrations (rpc_run calls ?c1)) = filter is_request (sn_registrations ?c1)
        @ map (\<lambda>(j, _, ch, _). Reg_request (RequestId (sn_next_id ?c1 + of_nat j)) ch) (enumerate 0 calls)"
    by auto
  have "map answers_key (msg # msgs)
      = map (\<lambda>j. Some (RequestId (sn_next_id c + of_nat j))) [0..<length (call # calls)]"
    using keys msg(2) by (simp add: next1 map_upt_Suc add.assoc del: upt_Suc)
  moreover have "map (\<lambda>(j, _, ch, _). Reg_request (RequestId (sn_next_id c + of_nat j)) ch) (enumerate 0 (call # calls))
      = Reg_request (RequestId (sn_next_id c)) ch
        # map (\<lambda>(j, _, ch, _). Reg_request (RequestId (sn_next_id ?c1 + of_nat j)) ch) (enumerate 0 calls)"
    by (rule nth_equalityI) (auto simp: call next1 nth_Cons' nth_enumerate_eq add.assoc split: prod.splits)
  ultimately show ?case
    using ctl msg(1) regs regs1 by (auto simp: call intro!: exI [of _ "msg # msgs"])
qed

section \<open>Properties\<close>



text \<open>
  A topic the caller asked not to create is not created (PIP-344): a metadata lookup with
  automatic creation off sends nothing and changes nothing unless the broker advertised that
  it honours the flag, and then the one command it queues carries the flag as off.
\<close>

theorem no_silent_topic_creation:
  "(if unwrap_or_false (Option.bind flags ff_supports_get_partitioned_metadata_without_auto_creation)
    then map (\<lambda>m. map_option ptm_metadata_auto_creation_enabled (partition_metadata (command m)))
        (sn_control (snd (conn_lookup_partitioned_topic topic False ch ans
           (conn_new size1 (broker_features_from flags))))) = [Some (Some False)]
    else conn_lookup_partitioned_topic topic False ch ans (conn_new size1 (broker_features_from flags))
      = (Inl (NotSupported ''PIP-344''), conn_new size1 (broker_features_from flags)))"
proof (cases flags)
  case None
  then show ?thesis
    by (simp add: conn_lookup_partitioned_topic_def conn_new_def broker_features_from_def unwrap_or_false_def)
next
  case (Some f)
  then show ?thesis
    by (auto simp: conn_lookup_partitioned_topic_def conn_new_def broker_features_from_def
        unwrap_or_false_def serial_get_def Let_def send_message_open msg_lookup_partitioned_topic_def just_def)
qed

text \<open>
  Keepalives and other commands are never throttled by publishing: with the writer
  running, however many messages are waiting on the data channel, the next writes are the
  queued commands in order and only then the queued messages, in order; nothing is
  dropped or duplicated.
\<close>

theorem control_plane_goes_first:
  assumes "sn_sink_open c" and "n \<le> length (sn_control c) + length (sn_data c)"
  shows "sn_written ((sink_step (Inr ()) ^^ n) c)
      = sn_written c @ take n (sn_control c @ sn_data c)
    \<and> sn_control ((sink_step (Inr ()) ^^ n) c) @ sn_data ((sink_step (Inr ()) ^^ n) c)
      = drop n (sn_control c @ sn_data c)"
  using assms
proof (induction n arbitrary: c)
  case 0
  then show ?case by simp
next
  case (Suc n)
  let ?c1 = "sink_step (Inr ()) c"
  obtain m rest where q: "sn_control c @ sn_data c = m # rest"
    using Suc.prems(2) by (cases "sn_control c @ sn_data c") auto
  have step: "sn_sink_open ?c1" "sn_written ?c1 = sn_written c @ [m]"
    "sn_control ?c1 @ sn_data ?c1 = rest"
    using q Suc.prems(1) by (cases "sn_control c"; auto simp: sink_step_def split: list.splits)+
  have "n \<le> length (sn_control ?c1) + length (sn_data ?c1)"
    using Suc.prems(2) q step(3) by (metis Suc_le_mono length_Cons length_append)
  from Suc.IH [OF step(1) this] show ?case
    by (simp add: funpow_Suc_right q step del: funpow.simps)
qed

theorem control_plane_goes_first_witness:
  "sn_written ((sink_step (Inr ()) ^^ 2) ((conn_new 10 (broker_features_from None))
     \<lparr>sn_control := [msg_pong], sn_data := [msg_ping, msg_ping]\<rparr>)) = [msg_pong, msg_ping]"
  using control_plane_goes_first [of "(conn_new 10 (broker_features_from None))
     \<lparr>sn_control := [msg_pong], sn_data := [msg_ping, msg_ping]\<rparr>" 2]
  by (simp add: conn_new_def)

text \<open>What an address that gave no connection counts as.\<close>

fun address_error :: "(connection_error, 's) result option \<Rightarrow> connection_error option" where
  "address_error (Some (Inr s)) = None"
| "address_error (Some (Inl e)) = Some e"
| "address_error None = Some connect_timeout"

lemma try_addresses_spec:
  "try_addresses outcomes errors =
    (case filter (\<lambda>out. address_error out = None) outcomes of
       Some (Inr s) # _ \<Rightarrow> Inr s
     | _ \<Rightarrow> Inl (errors @ List.map_filter address_error outcomes))"
  by (induction outcomes errors rule: try_addresses.induct)
     (simp_all add: List.map_filter_simps split: list.splits option.splits sum.splits)

text \<open>
  When no address gives a connection, the error tells the caller whether to retry: it is
  retryable precisely when some address timed out or failed in a retryable way; and when
  some address does, the connection is the one to the first that did, whatever the others
  failed with.
\<close>

theorem connect_error_says_whether_to_retry:
  assumes "scheme = ''pulsar'' \<or> scheme = ''pulsar+ssl''" and "addrs \<noteq> []"
  shows "case filter (\<lambda>out. address_error out = None)
        (map (prepare_stream (scheme = ''pulsar+ssl'')) addrs) of
      Some (Inr s) # _ \<Rightarrow> connection_new scheme (Some addrs) prepare_stream = Inr s
    | _ \<Rightarrow> \<exists>e. connection_new scheme (Some addrs) prepare_stream = Inl e
        \<and> establish_retryable e = (\<exists>a \<in> set addrs. \<exists>e'.
            address_error (prepare_stream (scheme = ''pulsar+ssl'') a) = Some e' \<and> establish_retryable e')"
proof -
  let ?outs = "map (prepare_stream (scheme = ''pulsar+ssl'')) addrs"
  let ?ok = "filter (\<lambda>out. address_error out = None) ?outs"
  have run: "connection_new scheme (Some addrs) prepare_stream =
    (case try_addresses ?outs [] of Inr s \<Rightarrow> Inr s
     | Inl errors \<Rightarrow> (case filter establish_retryable errors of [] \<Rightarrow> Inl fatal_connect_error | e # _ \<Rightarrow> Inl e))"
    using assms by (auto simp: connection_new_def Let_def)
  show ?thesis
  proof (cases ?ok)
    case (Cons out rest)
    then have "out \<in> set ?ok" by (simp only: list.set_intros)
    then have "address_error out = None" by (simp only: set_filter mem_Collect_eq)
    then obtain s where "out = Some (Inr s)" by (cases out rule: address_error.cases) auto
    with Cons show ?thesis by (simp add: run try_addresses_spec)
  next
    case Nil
    let ?errs = "List.map_filter address_error ?outs"
    have set: "set ?errs = {e. \<exists>a \<in> set addrs. address_error (prepare_stream (scheme = ''pulsar+ssl'') a) = Some e}"
      by (auto simp: List.map_filter_def image_iff) (metis option.sel option.distinct(1))
    have res: "connection_new scheme (Some addrs) prepare_stream =
        (case filter establish_retryable ?errs of [] \<Rightarrow> Inl fatal_connect_error | e # _ \<Rightarrow> Inl e)"
      by (simp add: run try_addresses_spec Nil)
    show ?thesis
    proof (cases "filter establish_retryable ?errs")
      case Nil': Nil
      then have "\<forall>e \<in> set ?errs. \<not> establish_retryable e" by (simp only: filter_empty_conv not_False_eq_True)
      then have "\<not> (\<exists>a \<in> set addrs. \<exists>e'. address_error (prepare_stream (scheme = ''pulsar+ssl'') a) = Some e'
          \<and> establish_retryable e')"
        unfolding set by blast
      moreover have "connection_new scheme (Some addrs) prepare_stream = Inl fatal_connect_error"
        by (simp only: res Nil' list.case)
      moreover have "\<not> establish_retryable fatal_connect_error" by (simp add: fatal_connect_error_def)
      ultimately show ?thesis by (simp only: Nil list.case) blast
    next
      case (Cons e rest)
      then have "e \<in> set (filter establish_retryable ?errs)" by simp
      then have "e \<in> set ?errs" "establish_retryable e" by (simp_all only: set_filter mem_Collect_eq)
      then have "\<exists>a \<in> set addrs. \<exists>e'. address_error (prepare_stream (scheme = ''pulsar+ssl'') a) = Some e'
          \<and> establish_retryable e'"
        unfolding set by blast
      moreover have "connection_new scheme (Some addrs) prepare_stream = Inl e"
        by (simp only: res Cons list.case)
      ultimately show ?thesis using \<open>establish_retryable e\<close> by (simp only: Nil list.case) blast
    qed
  qed
qed

theorem connect_error_says_whether_to_retry_witness:
  "\<exists>e. connection_new ''pulsar'' (Some [1 :: nat, 2])
       (\<lambda>tls a. if a = 1 then Some (Inl Disconnected) else (None :: (connection_error, unit) result option)) = Inl e
     \<and> establish_retryable e"
  using connect_error_says_whether_to_retry [of "''pulsar''" "[1 :: nat, 2]"
      "\<lambda>tls a. if a = 1 then Some (Inl Disconnected) else (None :: (connection_error, unit) result option)"]
  by (simp add: connect_timeout_def)

text \<open>
  The handshake trusts only a \<open>Connected\<close> answer: a connection results precisely when the
  credentials were there, the connect command carrying them was sent, the tasks could be
  started and the broker answered \<open>Connected\<close> and no error; the connection then starts with
  no request numbers used, no error, and exactly the features the broker advertised as set.
\<close>

theorem handshake_succeeds_iff_connected:
  "conn_connect pkg auth proxy size1 sent reply spawn1 spawn2 spawn3 = (m, Inr c) \<longleftrightarrow>
    (\<exists>creds msg cd. prepare_auth_data auth = Inr creds
      \<and> m = Some (msg_connect pkg creds proxy) \<and> sent = Inr () \<and> reply = Some (Inr msg)
      \<and> error_cmd (command msg) = None \<and> connected (command msg) = Some cd
      \<and> spawn1 \<and> spawn2 \<and> (auth = None \<or> spawn3)
      \<and> c = conn_new size1 (broker_features_from (cd_feature_flags cd)))"
  by (cases auth) (auto simp: conn_connect_def split: sum.splits option.splits)

section \<open>Backpressure leaves a registration behind\<close>

text \<open>
  A publish that is refused because the data channel is full has already registered its key:
  the entry stays with the receiver, though no message will ever be answered for it.
\<close>

theorem slow_down_leaves_registration:
  assumes "sn_receiver_open c" and "sn_sink_open c" and "sn_data_capacity c \<le> length (sn_data c)"
  shows "fst (conn_send now p name s m False ch c) = Refused SlowDown
    \<and> sn_registrations (snd (conn_send now p name s m False ch c))
        = sn_registrations c @ [Reg_request (ProducerSend p s) ch]
    \<and> sn_data (snd (conn_send now p name s m False ch c)) = sn_data c"
  using assms by (simp add: conn_send_def send_message_non_blocking_def register_with_def)

end
