(* ===== verification/Conn_Manager.thy ===== *)
theory Conn_Manager
  imports Connection
begin

text \<open>
  The connection manager (\<open>connection_manager.rs\<close>): broker addresses, the retry options, the
  loop that establishes a connection with exponential backoff, and the table of connections
  shared by all tasks. Each section of the code that holds the table's lock is one step; a
  task is between two such sections in one of a few phases, and the steps of different tasks
  interleave freely. A connection is a number, so is the one-shot channel a task waits on.
\<close>

section \<open>Addresses and options\<close>

text \<open>What the client reads of a URL (the url crate).\<close>

record url =
  u_text :: string
  u_scheme :: string
  u_host :: "string option"
  u_port :: "nat option"

record broker_address =
  ba_url :: url
  ba_broker_url :: string
  ba_proxy :: bool

record connection_retry_options =
  min_backoff :: duration
  max_backoff :: duration
  cr_max_retries :: nat
  connection_timeout :: duration
  keep_alive :: duration
  connection_max_idle :: duration

definition nanos_of_millis :: "nat \<Rightarrow> duration" where
  "nanos_of_millis n = n * 1000000"

definition nanos_of_secs :: "nat \<Rightarrow> duration" where
  "nanos_of_secs n = n * 1000000000"

definition connection_retry_options_default :: connection_retry_options where
  "connection_retry_options_default =
     \<lparr>min_backoff = nanos_of_millis 10, max_backoff = nanos_of_secs 30, cr_max_retries = 12,
      connection_timeout = nanos_of_secs 10, keep_alive = nanos_of_secs 60,
      connection_max_idle = nanos_of_secs 120\<rparr>"

record operation_retry_options =
  operation_timeout :: duration
  retry_delay :: duration
  op_max_retries :: "nat option"

definition operation_retry_options_default :: operation_retry_options where
  "operation_retry_options_default =
     \<lparr>operation_timeout = nanos_of_secs 30, retry_delay = nanos_of_secs 5, op_max_retries = None\<rparr>"

definition allow_retry :: "operation_retry_options \<Rightarrow> nat \<Rightarrow> bool" where
  "allow_retry o1 current \<longleftrightarrow> op_max_retries o1 = None \<or> current < the (op_max_retries o1)"

definition host_port :: "string \<Rightarrow> nat \<Rightarrow> string" where
  "host_port host port = host @ '':'' @ show_nat port"

text \<open>\<open>None\<close> is the panic on a URL without a host, which \<open>new\<close> rules out.\<close>

definition get_base_address :: "url \<Rightarrow> broker_address option" where
  "get_base_address u =
     map_option (\<lambda>host. \<lparr>ba_url = u,
         ba_broker_url = host_port host (case u_port u of Some p \<Rightarrow> p | None \<Rightarrow> 6650),
         ba_proxy = False\<rparr>) (u_host u)"

section \<open>Backoff\<close>

definition saturating_pow2 :: "nat \<Rightarrow> nat" where
  "saturating_pow2 k = min (2 ^ k) (2 ^ 32 - 1)"

definition current_backoff :: "connection_retry_options \<Rightarrow> nat \<Rightarrow> nat \<Rightarrow> duration" where
  "current_backoff o1 current_retries jitter =
     min (min_backoff o1 * saturating_pow2 current_retries) (max_backoff o1) + min_backoff o1 * jitter"

text \<open>
  One attempt: what \<open>Connection::new\<close> came to, and the jitter drawn from 0 to 9 if it is to be
  retried. The loop over the attempts gives the result and the delays slept before each
  further attempt; \<open>None\<close> means that more attempts are still to come.
\<close>

definition attempt_outcome :: "connection_retry_options \<Rightarrow> nat \<Rightarrow> (connection_error, 's) result \<times> nat \<Rightarrow>
    (connection_error, 's) result option" where
  "attempt_outcome o1 current_retries a =
     (case fst a of
        Inr c \<Rightarrow> Some (Inr c)
      | Inl e \<Rightarrow>
          if establish_retryable e
          then (if cr_max_retries o1 \<le> current_retries then Some (Inl e) else None)
          else Some (Inl e))"

fun establish :: "connection_retry_options \<Rightarrow> nat \<Rightarrow> ((connection_error, 's) result \<times> nat) list \<Rightarrow>
    duration list \<times> (connection_error, 's) result option" where
  "establish o1 current_retries [] = ([], None)"
| "establish o1 current_retries (a # attempts) =
     (case attempt_outcome o1 current_retries a of
        Some r \<Rightarrow> ([], Some r)
      | None \<Rightarrow>
          (let (delays, r) = establish o1 (Suc current_retries) attempts
           in (current_backoff o1 current_retries (snd a) # delays, r)))"

section \<open>Bounded retries\<close>

text \<open>
  The contract of every retry loop of the client: attempts are made in order until one
  decides, and from a limit on every attempt decides.
\<close>

locale bounded_retry =
  fixes run :: "nat \<Rightarrow> 'e list \<Rightarrow> 'r option"
    and decide :: "nat \<Rightarrow> 'e \<Rightarrow> 'r option"
    and limit :: nat
  assumes run_Nil: "run k [] = None"
    and run_Cons: "run k (e # es) = (case decide k e of Some r \<Rightarrow> Some r | None \<Rightarrow> run (Suc k) es)"
    and decide_limit: "limit \<le> k \<Longrightarrow> decide k e \<noteq> None"
begin

lemma run_Some_iff:
  "run k es = Some r \<longleftrightarrow>
    (\<exists>i < length es. decide (k + i) (es ! i) = Some r \<and> (\<forall>j < i. decide (k + j) (es ! j) = None))"
proof (induction es arbitrary: k)
  case Nil
  then show ?case by (simp add: run_Nil)
next
  case (Cons e es)
  have shift: "(\<exists>i < length (e # es). decide (k + i) ((e # es) ! i) = Some r
        \<and> (\<forall>j < i. decide (k + j) ((e # es) ! j) = None)) \<longleftrightarrow>
      decide k e = Some r \<or> decide k e = None \<and> (\<exists>i < length es. decide (Suc k + i) (es ! i) = Some r
        \<and> (\<forall>j < i. decide (Suc k + j) (es ! j) = None))"
    by (simp add: Ex_less_Suc2 All_less_Suc2) blast
  show ?case
    unfolding shift by (cases "decide k e") (simp_all add: run_Cons Cons.IH)
qed

lemma run_decides: "es \<noteq> [] \<Longrightarrow> limit < k + length es \<Longrightarrow> run k es \<noteq> None"
proof (induction es arbitrary: k)
  case (Cons e es)
  show ?case
  proof (cases "decide k e")
    case None
    then have "k < limit" using decide_limit [of k e] by (metis not_less)
    with None Cons show ?thesis
      by (cases es) (auto simp: run_Cons)
  qed (simp add: run_Cons)
qed simp

lemma at_most:
  assumes "run 0 es = Some r"
  shows "\<exists>i < length es. i \<le> limit \<and> decide i (es ! i) = Some r \<and> (\<forall>j < i. decide j (es ! j) = None)"
proof -
  obtain i where i: "i < length es" "decide i (es ! i) = Some r" "\<forall>j < i. decide j (es ! j) = None"
    using assms by (auto simp: run_Some_iff)
  have "i \<le> limit"
  proof (rule ccontr)
    assume "\<not> i \<le> limit"
    then have "limit < i" by simp
    then show False using i(3) decide_limit [of limit "es ! limit"] by auto
  qed
  with i show ?thesis by blast
qed

end

interpretation establish: bounded_retry "\<lambda>k es. snd (establish o1 k es)" "attempt_outcome o1"
    "cr_max_retries o1" for o1
  by unfold_locales
     (auto simp: attempt_outcome_def Let_def split: option.split prod.split sum.split)

section \<open>The table of connections\<close>

datatype conn_status = Connected nat nat | Connecting "nat list"

text \<open>
  Where a task is in \<open>get_connection\<close>: before its locked section, before the locked section of
  \<open>connect_inner\<close>, waiting on a channel, in the loop that establishes a connection, or back
  at its caller.
\<close>

datatype phase =
    Idle
  | Entering broker_address
  | Deciding broker_address
  | Awaiting broker_address nat
  | Establishing broker_address
  | Returned broker_address "(connection_error, nat) result"

text \<open>
  The shared table, the phase of each task, what was sent on the channels, the next fresh
  channel, which connections have no error set, and the address each was made for.
\<close>

record manager =
  table :: "broker_address \<rightharpoonup> conn_status"
  phase_of :: "nat \<Rightarrow> phase"
  notified :: "nat \<rightharpoonup> (connection_error, nat) result"
  next_channel :: nat
  valid :: "nat \<Rightarrow> bool"
  conn_addr :: "nat \<rightharpoonup> broker_address"

definition manager_init :: manager where
  "manager_init = \<lparr>table = Map.empty, phase_of = (\<lambda>t. Idle), notified = Map.empty,
     next_channel = 0, valid = (\<lambda>c. False), conn_addr = Map.empty\<rparr>"

definition goto :: "nat \<Rightarrow> phase \<Rightarrow> manager \<Rightarrow> manager" where
  "goto t p m = m\<lparr>phase_of := (phase_of m)(t := p)\<rparr>"

text \<open>A waiter joins the list of an address: a fresh channel, and the task waits on it.\<close>

definition join_waiters :: "nat \<Rightarrow> broker_address \<Rightarrow> nat list \<Rightarrow> manager \<Rightarrow> manager" where
  "join_waiters t a v m =
     (let ch = next_channel m in
      goto t (Awaiting a ch)
        (m\<lparr>next_channel := Suc ch, table := (table m)(a \<mapsto> Connecting (v @ [ch]))\<rparr>))"

definition enter_section :: "nat \<Rightarrow> nat \<Rightarrow> broker_address \<Rightarrow> manager \<Rightarrow> manager" where
  "enter_section now t a m =
     (case table m a of
        None \<Rightarrow> goto t (Deciding a) m
      | Some (Connected c last_used) \<Rightarrow>
          (if valid m c
           then goto t (Returned a (Inr c)) (m\<lparr>table := (table m)(a \<mapsto> Connected c now)\<rparr>)
           else goto t (Deciding a) m)
      | Some (Connecting v) \<Rightarrow> join_waiters t a v m)"

definition decide_section :: "nat \<Rightarrow> broker_address \<Rightarrow> manager \<Rightarrow> manager" where
  "decide_section t a m =
     (let m1 = (case table m a of None \<Rightarrow> m\<lparr>table := (table m)(a \<mapsto> Connecting [])\<rparr> | Some _ \<Rightarrow> m) in
      case table m1 a of
        Some (Connecting v) \<Rightarrow> (if v = [] then goto t (Establishing a) m1 else join_waiters t a v m1)
      | _ \<Rightarrow> goto t (Establishing a) m1)"

definition notify :: "nat list \<Rightarrow> (connection_error, nat) result \<Rightarrow> manager \<Rightarrow> manager" where
  "notify v r m = m\<lparr>notified := (\<lambda>ch. if ch \<in> set v then Some r else notified m ch)\<rparr>"

definition waiters :: "conn_status option \<Rightarrow> nat list" where
  "waiters s = (case s of Some (Connecting v) \<Rightarrow> v | _ \<Rightarrow> [])"

definition failed_section :: "connection_error \<Rightarrow> nat \<Rightarrow> broker_address \<Rightarrow> manager \<Rightarrow> manager" where
  "failed_section e t a m =
     goto t (Returned a (Inl e))
       (notify (waiters (table m a)) (Inl Canceled_conn) (m\<lparr>table := (table m)(a := None)\<rparr>))"

definition connected_section :: "nat \<Rightarrow> nat \<Rightarrow> nat \<Rightarrow> broker_address \<Rightarrow> manager \<Rightarrow> manager" where
  "connected_section c now t a m =
     goto t (Returned a (Inr c))
       (notify (waiters (table m a)) (Inr c)
          (m\<lparr>table := (table m)(a \<mapsto> Connected c now), conn_addr := (conn_addr m)(c \<mapsto> a),
             valid := (valid m)(c := True)\<rparr>))"

text \<open>
  The executor could not start the keepalive task: the error is returned before the table is
  touched.
\<close>

definition spawn_failed_section :: "nat \<Rightarrow> broker_address \<Rightarrow> manager \<Rightarrow> manager" where
  "spawn_failed_section t a m = goto t (Returned a (Inl Shutdown_conn)) m"

text \<open>\<open>held\<close> tells which connections somebody else holds, \<open>now\<close> is the time.\<close>

definition check_connections :: "nat \<Rightarrow> (nat \<Rightarrow> bool) \<Rightarrow> duration \<Rightarrow> manager \<Rightarrow> manager" where
  "check_connections now held max_idle m =
     m\<lparr>table := (\<lambda>a. case table m a of
         Some (Connected c last_used) \<Rightarrow>
           (let recently_used = now - last_used < max_idle;
                should_retain = valid m c \<and> (held c \<or> recently_used)
            in if should_retain then table m a else None)
       | s \<Rightarrow> s)\<rparr>"

inductive mgr_step :: "manager \<Rightarrow> manager \<Rightarrow> bool" where
  call: "phase_of m t = Idle \<or> phase_of m t = Returned a' r \<Longrightarrow> mgr_step m (goto t (Entering a) m)"
| enter: "phase_of m t = Entering a \<Longrightarrow> mgr_step m (enter_section now t a m)"
| decide: "phase_of m t = Deciding a \<Longrightarrow> mgr_step m (decide_section t a m)"
| failed: "phase_of m t = Establishing a \<Longrightarrow> mgr_step m (failed_section e t a m)"
| connected: "phase_of m t = Establishing a \<Longrightarrow> conn_addr m c = None \<Longrightarrow>
    mgr_step m (connected_section c now t a m)"
| wake: "phase_of m t = Awaiting a ch \<Longrightarrow> notified m ch = Some r \<Longrightarrow>
    mgr_step m (goto t (Returned a r) m)"
| check: "mgr_step m (check_connections now held max_idle m)"
| invalidate: "mgr_step m (m\<lparr>valid := (valid m)(c := False)\<rparr>)"

inductive mgr_reachable :: "manager \<Rightarrow> bool" where
  init: "mgr_reachable manager_init"
| step: "mgr_reachable m \<Longrightarrow> mgr_step m m' \<Longrightarrow> mgr_reachable m'"

inductive_cases mgr_stepE: "mgr_step m m'"

section \<open>Invariant of the table\<close>

definition inv_fresh :: "manager \<Rightarrow> bool" where
  "inv_fresh m \<longleftrightarrow>
     (\<forall>t a ch. phase_of m t = Awaiting a ch \<longrightarrow> ch < next_channel m) \<and>
     (\<forall>a. \<forall>ch \<in> set (waiters (table m a)). ch < next_channel m) \<and>
     (\<forall>ch. next_channel m \<le> ch \<longrightarrow> notified m ch = None)"

definition inv_waiters :: "manager \<Rightarrow> bool" where
  "inv_waiters m \<longleftrightarrow>
     (\<forall>t a ch. phase_of m t = Awaiting a ch \<longrightarrow>
        (notified m ch \<noteq> None \<or> ch \<in> set (waiters (table m a))) \<and>
        (\<forall>a'. ch \<in> set (waiters (table m a')) \<longrightarrow> a' = a))"

definition inv_establishing :: "manager \<Rightarrow> bool" where
  "inv_establishing m \<longleftrightarrow>
     (\<forall>a v. table m a = Some (Connecting v) \<longrightarrow> (\<exists>t. phase_of m t = Establishing a))"

definition inv_addresses :: "manager \<Rightarrow> bool" where
  "inv_addresses m \<longleftrightarrow>
     (\<forall>a c n. table m a = Some (Connected c n) \<longrightarrow> conn_addr m c = Some a) \<and>
     (\<forall>t a ch c. phase_of m t = Awaiting a ch \<longrightarrow> notified m ch = Some (Inr c) \<longrightarrow> conn_addr m c = Some a) \<and>
     (\<forall>t a c. phase_of m t = Returned a (Inr c) \<longrightarrow> conn_addr m c = Some a)"

definition mgr_inv :: "manager \<Rightarrow> bool" where
  "mgr_inv m \<longleftrightarrow> inv_fresh m \<and> inv_waiters m \<and> inv_establishing m \<and> inv_addresses m"

lemmas inv_defs = inv_fresh_def inv_waiters_def inv_establishing_def inv_addresses_def

lemma goto_simps [simp]:
  "table (goto t p m) = table m" "phase_of (goto t p m) = (phase_of m)(t := p)"
  "notified (goto t p m) = notified m" "next_channel (goto t p m) = next_channel m"
  "valid (goto t p m) = valid m" "conn_addr (goto t p m) = conn_addr m"
  by (simp_all add: goto_def)

lemma waiters_simps [simp]:
  "waiters None = []" "waiters (Some (Connected c n)) = []" "waiters (Some (Connecting v)) = v"
  by (simp_all add: waiters_def)

lemma notify_simps [simp]:
  "table (notify v r m) = table m" "phase_of (notify v r m) = phase_of m"
  "notified (notify v r m) ch = (if ch \<in> set v then Some r else notified m ch)"
  "next_channel (notify v r m) = next_channel m" "valid (notify v r m) = valid m"
  "conn_addr (notify v r m) = conn_addr m"
  by (simp_all add: notify_def)

lemma mgr_inv_establishing:
  "mgr_inv m \<Longrightarrow> table m a = Some (Connecting v) \<Longrightarrow> \<exists>t. phase_of m t = Establishing a"
  by (auto simp: mgr_inv_def inv_establishing_def)

lemma mgr_inv_waiting:
  "mgr_inv m \<Longrightarrow> phase_of m t = Awaiting a ch \<Longrightarrow>
    notified m ch \<noteq> None \<or> ch \<in> set (waiters (table m a))"
  by (auto simp: mgr_inv_def inv_waiters_def)

lemma mgr_inv_live: "mgr_inv m \<Longrightarrow> table m a = Some (Connected c n) \<Longrightarrow> conn_addr m c = Some a"
  by (auto simp: mgr_inv_def inv_addresses_def)

lemma mgr_inv_fresh_waiter:
  assumes "mgr_inv m" "table m a = Some (Connecting v)" "ch \<in> set v"
  shows "ch < next_channel m"
proof -
  have "ch \<in> set (waiters (table m a))" using assms(2,3) by simp
  then show ?thesis using assms(1) unfolding mgr_inv_def inv_fresh_def by blast
qed

text \<open>A section that changes the table and notifies waiters, but moves no task.\<close>

lemma mgr_inv_update:
  assumes inv: "mgr_inv m" and same: "phase_of m' = phase_of m" "next_channel m' = next_channel m"
    and fewer: "\<And>a ch. ch \<in> set (waiters (table m' a)) \<Longrightarrow> ch \<in> set (waiters (table m a))"
    and told: "\<And>a ch. ch \<in> set (waiters (table m a)) \<Longrightarrow>
      ch \<in> set (waiters (table m' a)) \<or> notified m' ch \<noteq> None"
    and keep: "\<And>ch. notified m ch \<noteq> None \<Longrightarrow> notified m' ch \<noteq> None"
    and news: "\<And>ch r. notified m' ch = Some r \<Longrightarrow> notified m ch = Some r
      \<or> (\<exists>a. ch \<in> set (waiters (table m a)) \<and> (\<forall>c. r = Inr c \<longrightarrow> conn_addr m' c = Some a))"
    and pending: "\<And>a v. table m' a = Some (Connecting v) \<Longrightarrow> \<exists>w. table m a = Some (Connecting w)"
    and live: "\<And>a c n. table m' a = Some (Connected c n) \<Longrightarrow> conn_addr m' c = Some a"
    and addr: "\<And>c a. conn_addr m c = Some a \<Longrightarrow> conn_addr m' c = Some a"
  shows "mgr_inv m'"
proof -
  have "notified m' ch = None" if fresh: "next_channel m \<le> ch" for ch
  proof (rule ccontr)
    assume "notified m' ch \<noteq> None"
    then obtain r where "notified m' ch = Some r" by blast
    from news [OF this] show False
      using inv fresh by (auto simp: mgr_inv_def inv_fresh_def dest: leD)
  qed
  then have "inv_fresh m'"
    using inv fewer unfolding mgr_inv_def inv_fresh_def same by blast
  moreover have "inv_waiters m'"
    using inv fewer told keep unfolding mgr_inv_def inv_waiters_def same by blast
  moreover have "inv_establishing m'"
    using inv pending unfolding mgr_inv_def inv_establishing_def same by blast
  moreover have "inv_addresses m'"
    unfolding inv_addresses_def same
  proof (intro conjI allI impI)
    fix t a ch c assume wait: "phase_of m t = Awaiting a ch" and note1: "notified m' ch = Some (Inr c)"
    from news [OF note1] show "conn_addr m' c = Some a"
    proof
      assume "notified m ch = Some (Inr c)"
      with wait inv have "conn_addr m c = Some a" by (simp add: mgr_inv_def inv_addresses_def)
      then show ?thesis by (rule addr)
    next
      assume "\<exists>b. ch \<in> set (waiters (table m b)) \<and> (\<forall>d. Inr c = Inr d \<longrightarrow> conn_addr m' d = Some b)"
      then obtain b where "ch \<in> set (waiters (table m b))" "conn_addr m' c = Some b" by blast
      moreover from this wait inv have "b = a" by (simp add: mgr_inv_def inv_waiters_def)
      ultimately show ?thesis by simp
    qed
  next
    fix t a c assume "phase_of m t = Returned a (Inr c)"
    with inv have "conn_addr m c = Some a" by (simp add: mgr_inv_def inv_addresses_def)
    then show "conn_addr m' c = Some a" by (rule addr)
  qed (rule live)
  ultimately show ?thesis by (simp add: mgr_inv_def)
qed

lemma mgr_inv_init: "mgr_inv manager_init"
  by (simp add: mgr_inv_def inv_defs manager_init_def)

text \<open>
  A task that moves to a phase in which it neither waits nor has a connection; it may only
  leave \<open>Establishing\<close> when nobody relies on it.
\<close>

lemma mgr_inv_goto:
  assumes "mgr_inv m" and "\<And>a ch. p \<noteq> Awaiting a ch"
    and "\<And>a c. p = Returned a (Inr c) \<Longrightarrow> conn_addr m c = Some a"
    and "\<And>a. phase_of m t = Establishing a \<Longrightarrow> p = Establishing a \<or> waiters (table m a) = []
      \<and> (\<forall>v. table m a \<noteq> Some (Connecting v))"
  shows "mgr_inv (goto t p m)"
proof -
  have "inv_establishing (goto t p m)"
    unfolding inv_establishing_def
  proof (intro allI impI)
    fix a v assume "table (goto t p m) a = Some (Connecting v)"
    then have tab: "table m a = Some (Connecting v)" by simp
    then obtain t' where "phase_of m t' = Establishing a"
      using assms(1) by (auto simp: mgr_inv_def inv_establishing_def)
    then show "\<exists>t'. phase_of (goto t p m) t' = Establishing a"
      using assms(4) tab by (cases "t' = t") auto
  qed
  then show ?thesis
    using assms(1-3) by (auto simp: mgr_inv_def inv_fresh_def inv_waiters_def inv_addresses_def)
qed

lemma mgr_inv_join:
  assumes "mgr_inv m" and "table m a = Some (Connecting v)"
    and "phase_of m t = Entering a \<or> phase_of m t = Deciding a"
  shows "mgr_inv (join_waiters t a v m)"
proof -
  have est: "\<exists>t'. t' \<noteq> t \<and> phase_of m t' = Establishing b"
    if tab: "table m b = Some (Connecting w)" for b w
  proof -
    obtain t' where "phase_of m t' = Establishing b"
      using mgr_inv_establishing [OF assms(1) tab] by blast
    moreover from this assms(3) have "t' \<noteq> t" by auto
    ultimately show ?thesis by blast
  qed
  have "inv_fresh (join_waiters t a v m)"
    using assms mgr_inv_fresh_waiter [OF assms(1,2)]
    by (auto simp: mgr_inv_def inv_fresh_def join_waiters_def Let_def less_Suc_eq)
  moreover have "inv_waiters (join_waiters t a v m)"
    unfolding inv_waiters_def
  proof (intro allI impI)
    fix t' b ch assume w: "phase_of (join_waiters t a v m) t' = Awaiting b ch"
    show "(notified (join_waiters t a v m) ch \<noteq> None
          \<or> ch \<in> set (waiters (table (join_waiters t a v m) b)))
        \<and> (\<forall>a'. ch \<in> set (waiters (table (join_waiters t a v m) a')) \<longrightarrow> a' = b)"
    proof (cases "t' = t")
      case True
      then have "b = a" "ch = next_channel m"
        using w by (simp_all add: join_waiters_def Let_def)
      then show ?thesis
        using assms(1) by (auto simp: join_waiters_def Let_def mgr_inv_def inv_fresh_def)
    next
      case False
      then have wait: "phase_of m t' = Awaiting b ch"
        using w by (simp add: join_waiters_def Let_def)
      then have "ch < next_channel m" using assms(1) by (simp add: mgr_inv_def inv_fresh_def)
      moreover have only: "\<forall>a'. ch \<in> set (waiters (table m a')) \<longrightarrow> a' = b"
        using assms(1) wait by (simp add: mgr_inv_def inv_waiters_def)
      moreover have "ch \<in> set v \<longrightarrow> a = b" using spec [OF only, of a] assms(2) by simp
      moreover have "notified m ch \<noteq> None \<or> ch \<in> set (waiters (table m b))"
        by (rule mgr_inv_waiting [OF assms(1) wait])
      ultimately show ?thesis
        using assms(2) by (cases "b = a") (simp_all add: join_waiters_def Let_def)
    qed
  qed
  moreover have "inv_establishing (join_waiters t a v m)"
    using est assms(2) by (auto simp: inv_establishing_def join_waiters_def Let_def)
  moreover have "inv_addresses (join_waiters t a v m)"
    using assms by (auto simp: mgr_inv_def inv_addresses_def inv_fresh_def join_waiters_def Let_def)
  ultimately show ?thesis by (simp add: mgr_inv_def)
qed

lemma mgr_inv_enter:
  assumes "mgr_inv m" and "phase_of m t = Entering a"
  shows "mgr_inv (enter_section now t a m)"
proof (cases "table m a")
  case None
  with assms show ?thesis by (auto simp: enter_section_def intro: mgr_inv_goto)
next
  case (Some s)
  show ?thesis
  proof (cases s)
    case (Connected c n)
    have "conn_addr m c = Some a"
      using assms(1) Some Connected by (auto simp: mgr_inv_def inv_addresses_def)
    moreover have "mgr_inv (m\<lparr>table := (table m)(a \<mapsto> Connected c now)\<rparr>)"
      using calculation Some Connected mgr_inv_live [OF assms(1)]
      by (intro mgr_inv_update [OF assms(1)]) (auto split: if_splits)
    ultimately show ?thesis
      using assms Some Connected by (auto simp: enter_section_def intro!: mgr_inv_goto)
  next
    case (Connecting v)
    with assms Some show ?thesis by (simp add: enter_section_def mgr_inv_join)
  qed
qed

lemma mgr_inv_decide:
  assumes "mgr_inv m" and "phase_of m t = Deciding a"
  shows "mgr_inv (decide_section t a m)"
proof (cases "table m a")
  case None
  let ?m1 = "goto t (Establishing a) (m\<lparr>table := (table m)(a \<mapsto> Connecting [])\<rparr>)"
  have "inv_establishing ?m1"
    unfolding inv_establishing_def
  proof (intro allI impI)
    fix b v assume "table ?m1 b = Some (Connecting v)"
    show "\<exists>t'. phase_of ?m1 t' = Establishing b"
    proof (cases "b = a")
      case False
      then have "table m b = Some (Connecting v)" using \<open>table ?m1 b = _\<close> by simp
      then obtain t' where "phase_of m t' = Establishing b"
        using mgr_inv_establishing [OF assms(1)] by blast
      moreover from this assms(2) have "t' \<noteq> t" by auto
      ultimately show ?thesis by (intro exI [of _ t']) simp
    qed (auto intro: exI [of _ t])
  qed
  moreover have "inv_waiters ?m1"
    unfolding inv_waiters_def
  proof (intro allI impI)
    fix t' b ch assume "phase_of ?m1 t' = Awaiting b ch"
    then have wait: "phase_of m t' = Awaiting b ch" by (simp split: if_splits)
    have "b \<noteq> a \<or> notified m ch \<noteq> None"
      using mgr_inv_waiting [OF assms(1) wait] None by auto
    with mgr_inv_waiting [OF assms(1) wait] wait assms(1)
    show "(notified ?m1 ch \<noteq> None \<or> ch \<in> set (waiters (table ?m1 b)))
        \<and> (\<forall>a'. ch \<in> set (waiters (table ?m1 a')) \<longrightarrow> a' = b)"
      by (auto simp: mgr_inv_def inv_waiters_def)
  qed
  moreover have "inv_fresh ?m1" "inv_addresses ?m1"
    using assms by (auto simp: mgr_inv_def inv_fresh_def inv_addresses_def)
  ultimately show ?thesis using None by (simp add: decide_section_def mgr_inv_def)
next
  case (Some s)
  then show ?thesis
    using assms mgr_inv_join [OF assms(1), of a _ t]
    by (cases s) (auto simp: decide_section_def intro!: mgr_inv_goto)
qed

lemma mgr_inv_failed:
  assumes "mgr_inv m" and "phase_of m t = Establishing a"
  shows "mgr_inv (failed_section e t a m)"
proof -
  let ?m1 = "notify (waiters (table m a)) (Inl Canceled_conn) (m\<lparr>table := (table m)(a := None)\<rparr>)"
  have "mgr_inv ?m1"
    using mgr_inv_live [OF assms(1)]
    by (intro mgr_inv_update [OF assms(1)]) (auto split: if_splits)
  then show ?thesis
    unfolding failed_section_def
    by (rule mgr_inv_goto) (use assms in auto)
qed

lemma mgr_inv_connected:
  assumes "mgr_inv m" and "phase_of m t = Establishing a" and "conn_addr m c = None"
  shows "mgr_inv (connected_section c now t a m)"
proof -
  let ?m1 = "notify (waiters (table m a)) (Inr c) (m\<lparr>table := (table m)(a \<mapsto> Connected c now),
      conn_addr := (conn_addr m)(c \<mapsto> a), valid := (valid m)(c := True)\<rparr>)"
  have "mgr_inv ?m1"
    using mgr_inv_live [OF assms(1)] assms(3)
    by (intro mgr_inv_update [OF assms(1)]) (auto split: if_splits)
  then show ?thesis
    unfolding connected_section_def
    by (rule mgr_inv_goto) (use assms in auto)
qed

lemma mgr_inv_step: "mgr_step m m' \<Longrightarrow> mgr_inv m \<Longrightarrow> mgr_inv m'"
proof (induction rule: mgr_step.induct)
  case (call m t a' r a)
  then show ?case by (auto intro!: mgr_inv_goto)
next
  case (wake m t a ch r)
  then have "\<And>c. r = Inr c \<Longrightarrow> conn_addr m c = Some a"
    by (auto simp: mgr_inv_def inv_addresses_def)
  with wake show ?case by (auto intro!: mgr_inv_goto)
next
  case (check m now held max_idle)
  have same: "waiters (table (check_connections now held max_idle m) a) = waiters (table m a)" for a
    by (auto simp: check_connections_def Let_def waiters_def split: option.splits conn_status.splits)
  show ?case
    by (rule mgr_inv_update [OF check])
       (auto simp: same, auto simp: check_connections_def Let_def mgr_inv_live [OF check]
         split: option.splits conn_status.splits if_splits)
next
  case (invalidate m c)
  then show ?case by (simp add: mgr_inv_def inv_defs)
qed (simp_all add: mgr_inv_enter mgr_inv_decide mgr_inv_failed mgr_inv_connected)

lemma mgr_reachable_inv: "mgr_reachable m \<Longrightarrow> mgr_inv m"
  by (induction rule: mgr_reachable.induct) (simp_all add: mgr_inv_init mgr_inv_step)

section \<open>Delays\<close>

lemma establish_delays:
  assumes "snd (establish o1 k attempts) = Some r"
  shows "\<exists>i < length attempts. attempt_outcome o1 (k + i) (attempts ! i) = Some r
    \<and> (\<forall>j < i. attempt_outcome o1 (k + j) (attempts ! j) = None)
    \<and> fst (establish o1 k attempts)
        = map (\<lambda>j. current_backoff o1 (k + j) (snd (attempts ! j))) [0..<i]"
  using assms
proof (induction o1 k attempts rule: establish.induct)
  case (2 o1 k a attempts)
  show ?case
  proof (cases "attempt_outcome o1 k a")
    case None
    from None "2.prems" have "snd (establish o1 (Suc k) attempts) = Some r"
      by (simp add: Let_def split: prod.splits)
    from "2.IH" [OF None this] obtain i where i: "i < length attempts"
      "attempt_outcome o1 (Suc k + i) (attempts ! i) = Some r"
      "\<forall>j < i. attempt_outcome o1 (Suc k + j) (attempts ! j) = None"
      "fst (establish o1 (Suc k) attempts)
        = map (\<lambda>j. current_backoff o1 (Suc k + j) (snd (attempts ! j))) [0..<i]"
      by blast
    then show ?thesis
      using None by (intro exI [of _ "Suc i"])
        (simp add: All_less_Suc2 map_upt_Suc Let_def case_prod_unfold del: upt_Suc)
  next
    case (Some r')
    then show ?thesis using "2.prems" by (intro exI [of _ 0]) simp
  qed
qed simp

lemma current_backoff_bound: "j < 10 \<Longrightarrow> current_backoff o1 k j \<le> max_backoff o1 + 9 * min_backoff o1"
proof -
  assume "j < 10"
  then have "min_backoff o1 * j \<le> min_backoff o1 * 9" by (intro mult_le_mono) auto
  then show ?thesis by (simp add: current_backoff_def min.coboundedI2 add_mono)
qed

section \<open>Properties\<close>

text \<open>
  Establishing a connection ends: after at most \<open>max_retries + 1\<close> attempts there is a
  result, the one of the first attempt that succeeded, failed for good or exhausted the
  retries, all earlier ones having failed in a retryable way; the sleeps before the
  attempts are the capped exponential backoffs plus jitter, none longer than \<open>max_backoff\<close>
  plus nine times \<open>min_backoff\<close>.
\<close>

theorem connecting_is_bounded:
  assumes "cr_max_retries o1 < length attempts" and "\<forall>a \<in> set attempts. snd a < 10"
  shows "\<exists>r i. snd (establish o1 0 attempts) = Some r \<and> i \<le> cr_max_retries o1
    \<and> fst (attempts ! i) = r
    \<and> (\<forall>j < i. \<exists>e. fst (attempts ! j) = Inl e \<and> establish_retryable e)
    \<and> fst (establish o1 0 attempts) = map (\<lambda>j. current_backoff o1 j (snd (attempts ! j))) [0..<i]
    \<and> (\<forall>d \<in> set (fst (establish o1 0 attempts)). d \<le> max_backoff o1 + 9 * min_backoff o1)"
proof -
  have "snd (establish o1 0 attempts) \<noteq> None"
    using assms(1) by (intro establish.run_decides) auto
  then obtain r where r: "snd (establish o1 0 attempts) = Some r" by blast
  from establish_delays [OF r] obtain i where i: "i < length attempts"
    "attempt_outcome o1 i (attempts ! i) = Some r"
    "\<forall>j < i. attempt_outcome o1 j (attempts ! j) = None"
    "fst (establish o1 0 attempts) = map (\<lambda>j. current_backoff o1 j (snd (attempts ! j))) [0..<i]"
    by auto
  have "i \<le> cr_max_retries o1"
  proof (rule ccontr)
    assume "\<not> ?thesis"
    then have "attempt_outcome o1 (cr_max_retries o1) (attempts ! cr_max_retries o1) = None"
      using i(3) by simp
    then show False using establish.decide_limit [of o1 "cr_max_retries o1"] by blast
  qed
  moreover have "fst (attempts ! i) = r"
    using i(2) by (auto simp: attempt_outcome_def split: sum.splits if_splits)
  moreover have "\<exists>e. fst (attempts ! j) = Inl e \<and> establish_retryable e" if "j < i" for j
  proof -
    have "attempt_outcome o1 j (attempts ! j) = None" using i(3) that by blast
    then show ?thesis by (cases "fst (attempts ! j)") (auto simp: attempt_outcome_def split: if_splits)
  qed
  moreover have "d \<le> max_backoff o1 + 9 * min_backoff o1" if "d \<in> set (fst (establish o1 0 attempts))" for d
    using that i(1) assms(2) unfolding i(4) by (auto intro!: current_backoff_bound)
  ultimately show ?thesis using r i(4) by blast
qed

theorem connecting_is_bounded_witness:
  "\<exists>r. snd (establish (connection_retry_options_default\<lparr>cr_max_retries := 1\<rparr>) 0
      [(Inl (Io TimedOut []), 3), (Inr (7 :: nat), 0)]) = Some r"
  using connecting_is_bounded [of "connection_retry_options_default\<lparr>cr_max_retries := 1\<rparr>"
      "[(Inl (Io TimedOut []), 3), (Inr (7 :: nat), 0)]"]
  by (auto simp: connection_retry_options_default_def simp del: establish.simps)


definition example_address :: broker_address where
  "example_address = \<lparr>ba_url = \<lparr>u_text = ''pulsar://h:6650'', u_scheme = ''pulsar'', u_host = Some ''h'',
     u_port = Some 6650\<rparr>, ba_broker_url = ''h:6650'', ba_proxy = False\<rparr>"

text \<open>Task 0 establishes a connection, task 1 waits for it.\<close>

definition example_manager :: manager where
  "example_manager = enter_section 5 1 example_address (goto 1 (Entering example_address)
     (decide_section 0 example_address (enter_section 4 0 example_address
       (goto 0 (Entering example_address) manager_init))))"

lemma example_manager_reachable: "mgr_reachable example_manager"
  unfolding example_manager_def
  by (intro mgr_reachable.step [OF _ mgr_step.enter] mgr_reachable.step [OF _ mgr_step.decide]
      mgr_reachable.step [OF _ mgr_step.call] mgr_reachable.init)
     (simp_all add: manager_init_def enter_section_def decide_section_def Let_def)

lemma example_manager_phases:
  "phase_of example_manager 0 = Establishing example_address"
  "phase_of example_manager 1 = Awaiting example_address 0" "notified example_manager 0 = None"
  by (simp_all add: example_manager_def manager_init_def enter_section_def decide_section_def
      join_waiters_def Let_def)




section \<open>Races of concurrent callers\<close>

text \<open>
  Two callers that both find no connection both establish one: the list of the first is still
  empty when the second looks at it, which is how \<open>connect_inner\<close> recognises the first caller.
\<close>

theorem concurrent_callers_both_connect:
  "\<exists>m. mgr_reachable m \<and> phase_of m 0 = Establishing example_address
    \<and> phase_of m 1 = Establishing example_address"
proof -
  let ?a = example_address
  let ?m = "decide_section 1 ?a (decide_section 0 ?a (enter_section 0 1 ?a (enter_section 0 0 ?a
    (goto 1 (Entering ?a) (goto 0 (Entering ?a) manager_init)))))"
  have "mgr_reachable ?m"
    by (intro mgr_reachable.step [OF _ mgr_step.enter] mgr_reachable.step [OF _ mgr_step.decide]
        mgr_reachable.step [OF _ mgr_step.call] mgr_reachable.init)
       (simp_all add: manager_init_def enter_section_def decide_section_def Let_def)
  then show ?thesis
    by (intro exI [of _ ?m])
       (simp add: manager_init_def enter_section_def decide_section_def Let_def)
qed

text \<open>When the keepalive task cannot be started, the entry stays and its waiters are not told.\<close>

theorem spawn_failure_strands_waiters:
  "table (spawn_failed_section 0 example_address example_manager) example_address = Some (Connecting [0])
    \<and> notified (spawn_failed_section 0 example_address example_manager) 0 = None
    \<and> phase_of (spawn_failed_section 0 example_address example_manager) t \<noteq> Establishing example_address"
  by (simp add: spawn_failed_section_def example_manager_def manager_init_def enter_section_def
      decide_section_def join_waiters_def Let_def)

end
