(* ===== verification/Retry.thy ===== *)
theory Retry
  imports Conn_Manager
begin

text \<open>
  Retrying the two operations that attach the client to a topic (\<open>retry_op.rs\<close>): subscribing
  a consumer and creating a producer. An attempt is what the broker answered and, should it
  be retried, what looking the topic up again and connecting to the broker found then came
  to. The loops also record on which connection each attempt was made. An attempt list that
  ends before the loop does gives \<open>None\<close>: the loop goes on.
\<close>

section \<open>Which errors are retried\<close>

fun transient :: "connection_error \<Rightarrow> bool" where
  "transient (PulsarError (Some kind) text1) =
     (kind \<in> {ServiceNotReady, ConsumerBusy, ProducerBusy, ProducerBlockedQuotaExceededError,
              ProducerBlockedQuotaExceededException})"
| "transient (Io kind text1) =
     (kind \<in> {ConnectionReset, ConnectionAborted, NotConnected, BrokenPipe, TimedOut, Interrupted,
              UnexpectedEof})"
| "transient _ = False"

definition handle_retry_error :: "operation_retry_options \<Rightarrow> nat \<Rightarrow> connection_error \<Rightarrow>
    (error, broker_address) result \<Rightarrow> (connection_error, nat) result \<Rightarrow>
    (error, broker_address \<times> nat) result" where
  "handle_retry_error o1 current_retries err lookup connect1 =
     (if \<not> transient err then Inl (Connection err)
      else if \<not> allow_retry o1 current_retries then Inl (Connection err)
      else rbind lookup (\<lambda>addr.
           rbind (map_err Connection connect1) (\<lambda>c. Inr (addr, c))))"

record 'a attempt =
  at_result :: "(connection_error, 'a) result"
  at_lookup :: "(error, broker_address) result"
  at_connect :: "(connection_error, nat) result"

section \<open>Subscribing\<close>

definition subscribe_decide :: "operation_retry_options \<Rightarrow> nat \<Rightarrow> command_success attempt \<Rightarrow>
    (error, unit) result option" where
  "subscribe_decide o1 current_retries a =
     (case at_result a of
        Inr _ \<Rightarrow> Some (Inr ())
      | Inl err \<Rightarrow>
          (case handle_retry_error o1 current_retries err (at_lookup a) (at_connect a) of
             Inl e \<Rightarrow> Some (Inl e)
           | Inr _ \<Rightarrow> None))"

text \<open>The connection of the next attempt, when there is one.\<close>

definition next_conn :: "operation_retry_options \<Rightarrow> nat \<Rightarrow> 'a attempt \<Rightarrow> nat \<Rightarrow> nat" where
  "next_conn o1 current_retries a c =
     (case at_result a of
        Inr _ \<Rightarrow> c
      | Inl err \<Rightarrow>
          (case handle_retry_error o1 current_retries err (at_lookup a) (at_connect a) of
             Inl _ \<Rightarrow> c | Inr (_, c') \<Rightarrow> c'))"

fun subscribe_loop :: "operation_retry_options \<Rightarrow> nat \<Rightarrow> nat \<Rightarrow> command_success attempt list \<Rightarrow>
    nat list \<times> (error, unit) result option" where
  "subscribe_loop o1 c current_retries [] = ([], None)"
| "subscribe_loop o1 c current_retries (a # attempts) =
     (case subscribe_decide o1 current_retries a of
        Some r \<Rightarrow> ([c], Some r)
      | None \<Rightarrow>
          (let (cs, r) = subscribe_loop o1 (next_conn o1 current_retries a c) (Suc current_retries) attempts
           in (c # cs, r)))"

text \<open>
  The whole operation: connect to the address given, subscribe, then grant the first permits
  on the connection the subscription was made on. The first component is that connection.
\<close>

definition retry_subscribe_consumer :: "operation_retry_options \<Rightarrow> (connection_error, nat) result \<Rightarrow>
    command_success attempt list \<Rightarrow> (nat \<Rightarrow> (connection_error, unit) result) \<Rightarrow>
    (error, nat) result option" where
  "retry_subscribe_consumer o1 connect1 attempts send_flow =
     (case connect1 of
        Inl e \<Rightarrow> Some (Inl (Connection e))
      | Inr c \<Rightarrow>
          (case subscribe_loop o1 c 0 attempts of
             (cs, Some (Inr _)) \<Rightarrow>
               Some (rmap (\<lambda>_. last cs)
                 (map_err (\<lambda>e. Consumer (Connection_consumer e)) (send_flow (last cs))))
           | (_, Some (Inl e)) \<Rightarrow> Some (Inl e)
           | (_, None) \<Rightarrow> None))"

section \<open>Creating a producer\<close>

text \<open>
  What a \<open>ProducerSuccess\<close> comes to: when it says the producer is not ready yet, the outcome of
  waiting for exclusive access decides; a wait that does not end is \<open>None\<close>.
\<close>

definition producer_outcome :: "command_producer_success \<Rightarrow>
    (connection_error, command_producer_success) result option \<Rightarrow>
    (error, string \<times> (byte list) option) result option" where
  "producer_outcome partial_success wait =
     (let schema_version = ps_schema_version partial_success in
      if ps_producer_ready partial_success = Some False
      then (case wait of
              None \<Rightarrow> None
            | Some (Inl e) \<Rightarrow> Some (Inl (Connection e))
            | Some (Inr success1) \<Rightarrow>
                (let schema_version' =
                   (case ps_schema_version success1 of
                      Some new_sv \<Rightarrow> (if schema_version \<noteq> Some new_sv then Some new_sv else schema_version)
                    | None \<Rightarrow> schema_version)
                 in Some (Inr (ps_producer_name partial_success, schema_version'))))
      else Some (Inr (ps_producer_name partial_success, schema_version)))"

type_synonym producer_attempt =
  "(command_producer_success \<times> (connection_error, command_producer_success) result option) attempt"

text \<open>\<open>Some None\<close> is an attempt that waits for ever.\<close>

definition create_decide :: "operation_retry_options \<Rightarrow> nat \<Rightarrow> producer_attempt \<Rightarrow>
    (error, string \<times> (byte list) option) result option option" where
  "create_decide o1 current_retries a =
     (case at_result a of
        Inr (partial_success, wait) \<Rightarrow> Some (producer_outcome partial_success wait)
      | Inl err \<Rightarrow>
          (case handle_retry_error o1 current_retries err (at_lookup a) (at_connect a) of
             Inl e \<Rightarrow> Some (Some (Inl e))
           | Inr _ \<Rightarrow> None))"

fun create_loop :: "operation_retry_options \<Rightarrow> nat \<Rightarrow> nat \<Rightarrow> producer_attempt list \<Rightarrow>
    nat list \<times> (error, string \<times> (byte list) option) result option option" where
  "create_loop o1 c current_retries [] = ([], None)"
| "create_loop o1 c current_retries (a # attempts) =
     (case create_decide o1 current_retries a of
        Some r \<Rightarrow> ([c], Some r)
      | None \<Rightarrow>
          (let (cs, r) = create_loop o1 (next_conn o1 current_retries a c) (Suc current_retries) attempts
           in (c # cs, r)))"

definition retry_create_producer :: "operation_retry_options \<Rightarrow> (connection_error, nat) result \<Rightarrow>
    producer_attempt list \<Rightarrow>
    nat list \<times> (error, string \<times> (byte list) option) result option option" where
  "retry_create_producer o1 connect1 attempts =
     (case connect1 of
        Inl e \<Rightarrow> ([], Some (Some (Inl (Connection e))))
      | Inr c \<Rightarrow> create_loop o1 c 0 attempts)"

section \<open>The loops are bounded retries\<close>

lemma handle_retry_error_limit:
  "op_max_retries o1 = Some m \<Longrightarrow> m \<le> k \<Longrightarrow> handle_retry_error o1 k err l c = Inl (Connection err)"
  by (simp add: handle_retry_error_def allow_retry_def)

lemma snd_subscribe_loop_conn: "snd (subscribe_loop o1 c k as) = snd (subscribe_loop o1 c' k as)"
  by (induction as arbitrary: c c' k) (auto simp: Let_def split: option.split prod.splits, metis snd_conv)

lemma snd_create_loop_conn: "snd (create_loop o1 c k as) = snd (create_loop o1 c' k as)"
  by (induction as arbitrary: c c' k) (auto simp: Let_def split: option.split prod.splits, metis snd_conv)

interpretation subscribing: bounded_retry
    "\<lambda>k as. snd (subscribe_loop (o1\<lparr>op_max_retries := Some m\<rparr>) 0 k as)"
    "subscribe_decide (o1\<lparr>op_max_retries := Some m\<rparr>)" m for o1 m
proof unfold_locales
  let ?o = "o1\<lparr>op_max_retries := Some m\<rparr>"
  show "snd (subscribe_loop ?o 0 k (a # as)) = (case subscribe_decide ?o k a of
      Some r \<Rightarrow> Some r | None \<Rightarrow> snd (subscribe_loop ?o 0 (Suc k) as))" for k a as
    using snd_subscribe_loop_conn [of ?o "next_conn ?o k a 0" "Suc k" as 0]
    by (simp add: Let_def case_prod_unfold split: option.split)
  show "subscribe_decide ?o k a \<noteq> None" if "m \<le> k" for k a
    using that handle_retry_error_limit [of ?o m k]
    by (auto simp: subscribe_decide_def split: sum.split)
qed simp

interpretation creating: bounded_retry
    "\<lambda>k as. snd (create_loop (o1\<lparr>op_max_retries := Some m\<rparr>) 0 k as)"
    "create_decide (o1\<lparr>op_max_retries := Some m\<rparr>)" m for o1 m
proof unfold_locales
  let ?o = "o1\<lparr>op_max_retries := Some m\<rparr>"
  show "snd (create_loop ?o 0 k (a # as)) = (case create_decide ?o k a of
      Some r \<Rightarrow> Some r | None \<Rightarrow> snd (create_loop ?o 0 (Suc k) as))" for k a as
    using snd_create_loop_conn [of ?o "next_conn ?o k a 0" "Suc k" as 0]
    by (simp add: Let_def case_prod_unfold split: option.split)
  show "create_decide ?o k a \<noteq> None" if "m \<le> k" for k a
    using that handle_retry_error_limit [of ?o m k]
    by (auto simp: create_decide_def split: sum.split)
qed simp

lemma create_decide_None:
  "create_decide o1 k a = None \<Longrightarrow>
    \<exists>err addr c. at_result a = Inl err \<and> transient err \<and> at_lookup a = Inr addr \<and> at_connect a = Inr c"
  by (auto simp: create_decide_def handle_retry_error_def rbind_Inl_iff rbind_Inr_iff map_err_Inr_iff
      split: sum.splits if_splits)

lemma create_loop_connections:
  "create_loop o1 c k as = (cs, Some r) \<Longrightarrow>
    \<exists>i < length as. cs = c # map (\<lambda>j. projr (at_connect (as ! j))) [0..<i]
      \<and> (\<forall>j < i. create_decide o1 (k + j) (as ! j) = None)
      \<and> create_decide o1 (k + i) (as ! i) = Some r"
proof (induction as arbitrary: c k cs)
  case (Cons a as)
  show ?case
  proof (cases "create_decide o1 k a")
    case None
    obtain cs' where cs: "create_loop o1 (next_conn o1 k a c) (Suc k) as = (cs', Some r)" "cs = c # cs'"
      using Cons.prems None by (auto simp: Let_def split: prod.splits)
    from create_decide_None [OF None] obtain err addr c' where
      a: "at_result a = Inl err" "transient err" "at_lookup a = Inr addr" "at_connect a = Inr c'" by blast
    have "next_conn o1 k a c = c'"
      using None a by (auto simp: next_conn_def create_decide_def handle_retry_error_def split: if_splits)
    moreover from Cons.IH [OF cs(1)] obtain i where "i < length as"
      "cs' = next_conn o1 k a c # map (\<lambda>j. projr (at_connect (as ! j))) [0..<i]"
      "\<forall>j < i. create_decide o1 (Suc k + j) (as ! j) = None"
      "create_decide o1 (Suc k + i) (as ! i) = Some r" by blast
    ultimately show ?thesis
      using None cs(2) a(4)
      by (intro exI [of _ "Suc i"]) (simp add: All_less_Suc2 map_upt_Suc del: upt_Suc)
  next
    case (Some r')
    then show ?thesis using Cons.prems by (intro exI [of _ 0]) simp
  qed
qed simp

section \<open>Properties\<close>

text \<open>
  Creating a producer retries only what can heal and only so often: with a retry limit it
  comes to a decision within \<open>max_retries + 1\<close> attempts; every attempt but the last failed with
  a transient error and found the topic's broker again, every attempt after the first was
  made on the connection to the broker found just before it; and the decision is the one of
  the last attempt.
\<close>

theorem creating_a_producer_is_bounded:
  assumes "op_max_retries o1 = Some m" and "m < length attempts"
  shows "\<exists>r i. retry_create_producer o1 (Inr c) attempts
        = (c # map (\<lambda>j. projr (at_connect (attempts ! j))) [0..<i], Some r)
    \<and> i \<le> m \<and> create_decide o1 i (attempts ! i) = Some r
    \<and> (\<forall>j < i. \<exists>err addr c'. at_result (attempts ! j) = Inl err \<and> transient err
        \<and> at_lookup (attempts ! j) = Inr addr \<and> at_connect (attempts ! j) = Inr c')"
proof -
  have o1: "o1\<lparr>op_max_retries := Some m\<rparr> = o1" using assms(1) by simp
  have "snd (create_loop o1 0 0 attempts) \<noteq> None"
    using creating.run_decides [of attempts m 0 o1] assms(2) o1 by (cases attempts) auto
  then obtain r where "snd (create_loop o1 c 0 attempts) = Some r"
    using snd_create_loop_conn [of o1 0 0 attempts c] by auto
  then have loop: "create_loop o1 c 0 attempts = (fst (create_loop o1 c 0 attempts), Some r)"
    by (metis prod.collapse)
  from create_loop_connections [OF this] obtain i where i: "i < length attempts"
    "fst (create_loop o1 c 0 attempts) = c # map (\<lambda>j. projr (at_connect (attempts ! j))) [0..<i]"
    "\<forall>j < i. create_decide o1 j (attempts ! j) = None" "create_decide o1 i (attempts ! i) = Some r"
    by auto
  have "i \<le> m"
  proof (rule ccontr)
    assume "\<not> i \<le> m"
    then have "create_decide o1 m (attempts ! m) = None" using i(3) by simp
    then show False using creating.decide_limit [of m m o1 "attempts ! m"] o1 by simp
  qed
  moreover have "\<exists>err addr c'. at_result (attempts ! j) = Inl err \<and> transient err
      \<and> at_lookup (attempts ! j) = Inr addr \<and> at_connect (attempts ! j) = Inr c'" if "j < i" for j
    using i(3) that by (intro create_decide_None) blast
  ultimately show ?thesis
    using loop i(2,4) by (intro exI [of _ r] exI [of _ i]) (simp add: retry_create_producer_def)
qed

theorem creating_a_producer_is_bounded_witness:
  "fst (retry_create_producer (operation_retry_options_default\<lparr>op_max_retries := Some 1\<rparr>) (Inr 4)
     [\<lparr>at_result = Inl (Io TimedOut []), at_lookup = Inr example_address, at_connect = Inr 5\<rparr>,
      \<lparr>at_result = Inl Disconnected, at_lookup = Inr example_address, at_connect = Inr 6\<rparr>]) = [4, 5]"
proof -
  let ?o = "operation_retry_options_default\<lparr>op_max_retries := Some 1\<rparr>"
  let ?as = "[\<lparr>at_result = Inl (Io TimedOut []), at_lookup = Inr example_address, at_connect = Inr 5\<rparr>,
      \<lparr>at_result = Inl Disconnected, at_lookup = Inr example_address, at_connect = Inr 6\<rparr>] :: producer_attempt list"
  have "op_max_retries ?o = Some 1" "1 < length ?as" by simp_all
  from creating_a_producer_is_bounded [OF this, of 4] obtain r i where
    i: "retry_create_producer ?o (Inr 4) ?as = (4 # map (\<lambda>j. projr (at_connect (?as ! j))) [0..<i], Some r)"
      "i \<le> 1" "create_decide ?o i (?as ! i) = Some r"
    by blast
  have "create_decide ?o 0 (?as ! 0) = None"
    by (simp add: create_decide_def handle_retry_error_def allow_retry_def)
  with i(2,3) have "i = 1" by (cases i) auto
  with i(1) show ?thesis by simp
qed

text \<open>
  No producer the broker has not admitted: the result is a producer only if the broker
  answered that it is ready (or said nothing of readiness, as older brokers do), or, when
  the producer was queued, the later answer admitting it arrived; a rejection while queued
  is the caller's error, and the schema version is the latest the broker gave.
\<close>

theorem producer_only_when_admitted:
  "(producer_outcome ps1 wait = Some (Inr (name, sv)) \<longleftrightarrow>
      name = ps_producer_name ps1
      \<and> (ps_producer_ready ps1 \<noteq> Some False \<and> sv = ps_schema_version ps1
         \<or> (\<exists>s. ps_producer_ready ps1 = Some False \<and> wait = Some (Inr s)
              \<and> sv = (if ps_schema_version s = None then ps_schema_version ps1 else ps_schema_version s))))
   \<and> (producer_outcome ps1 wait = Some (Inl err) \<longleftrightarrow>
      (\<exists>e. ps_producer_ready ps1 = Some False \<and> wait = Some (Inl e) \<and> err = Connection e))
   \<and> (producer_outcome ps1 wait = None \<longleftrightarrow> ps_producer_ready ps1 = Some False \<and> wait = None)"
  by (auto simp: producer_outcome_def Let_def split: option.splits sum.splits)

end
