(* ===== verification/Discovery.thy ===== *)
theory Discovery
  imports Conn_Manager
begin

text \<open>
  Service discovery (\<open>service_discovery.rs\<close>): finding the broker of a topic by following the
  broker's redirects, counting the partitions of a topic, and finding the brokers of all of
  them. A turn of a lookup loop is what the environment answers in it: the response or error
  of the query, of the reconnection and second query after a closed connection, the time
  elapsed since the start, and the connection to the broker found. Parsing a URL is the url
  crate's: a parameter. A turn list that ends before the loop does gives \<open>None\<close>.
\<close>

section \<open>Lookup responses\<close>

record lookup_response =
  lkr_broker_url :: "url option"
  lkr_broker_url_tls :: "url option"
  lkr_proxy :: bool
  lkr_redirect :: bool
  lkr_authoritative :: bool

definition parse_optional :: "(string \<Rightarrow> url option) \<Rightarrow> string option \<Rightarrow>
    (service_discovery_error, url option) result" where
  "parse_optional parse_url s =
     (case s of
        None \<Rightarrow> Inr None
      | Some t \<Rightarrow> (case parse_url t of Some u \<Rightarrow> Inr (Some u) | None \<Rightarrow> Inl NotFound_sd))"

definition convert_lookup_response :: "(string \<Rightarrow> url option) \<Rightarrow> command_lookup_topic_response \<Rightarrow>
    (service_discovery_error, lookup_response) result" where
  "convert_lookup_response parse_url response =
     rbind (parse_optional parse_url (lr_broker_service_url response)) (\<lambda>broker_url.
     rbind (parse_optional parse_url (lr_broker_service_url_tls response)) (\<lambda>broker_url_tls.
       Inr \<lparr>lkr_broker_url = broker_url, lkr_broker_url_tls = broker_url_tls,
           lkr_proxy = unwrap_or_false (lr_proxy_through_service_url response),
           lkr_redirect = (lr_response response = Some 0),
           lkr_authoritative = unwrap_or_false (lr_authoritative response)\<rparr>))"

section \<open>Finding the broker of a topic\<close>

record lookup_config =
  lc_base_url :: url
  lc_options :: operation_retry_options
  lc_parse_url :: "string \<Rightarrow> url option"

record lookup_state =
  ls_proxied :: bool
  ls_authoritative :: bool
  ls_retries :: nat

record lookup_turn =
  lk_answer :: "(connection_error, command_lookup_topic_response) result"
  lk_reconnect :: "(connection_error, (connection_error, command_lookup_topic_response) result) result"
  lk_elapsed :: duration
  lk_connect :: "(connection_error, nat) result"

text \<open>The outcome of a turn; the panic is on a broker URL without a host.\<close>

datatype lookup_outcome =
    Looked_up "(service_discovery_error, broker_address) result"
  | Look_again lookup_state
  | Lookup_panic

definition turn_response :: "lookup_turn \<Rightarrow> (connection_error, command_lookup_topic_response) result" where
  "turn_response t =
     (case lk_answer t of
        Inr res \<Rightarrow> Inr res
      | Inl e \<Rightarrow>
          (if e = Disconnected
           then (case lk_reconnect t of Inl e' \<Rightarrow> Inl e' | Inr res \<Rightarrow> res)
           else Inl e))"

definition lookup_failed :: "command_lookup_topic_response \<Rightarrow> bool" where
  "lookup_failed response \<longleftrightarrow> lr_response response = None \<or> lr_response response = Some 2"

definition select_broker :: "url \<Rightarrow> lookup_response \<Rightarrow> (service_discovery_error, url \<times> nat) result" where
  "select_broker base_url r =
     (let (broker_url_maybe_none, broker_port) =
        (if u_scheme base_url = ''pulsar+ssl'' then (Some (lkr_broker_url_tls r), 6651)
         else if u_scheme base_url = ''pulsar'' then (Some (lkr_broker_url r), 6650)
         else (None, 0))
      in case broker_url_maybe_none of
           None \<Rightarrow> Inl NotFound_sd
         | Some None \<Rightarrow> Inl NotFound_sd
         | Some (Some u) \<Rightarrow> Inr (u, broker_port))"

definition lookup_step :: "lookup_config \<Rightarrow> lookup_state \<Rightarrow> lookup_turn \<Rightarrow> lookup_outcome" where
  "lookup_step cfg st t =
     (case turn_response t of
        Inl e \<Rightarrow> Looked_up (Inl (Connection_sd e))
      | Inr response \<Rightarrow>
        if lookup_failed response then
          (let err = Option.bind (lr_error response) server_error;
               within_deadline = lk_elapsed t < operation_timeout (lc_options cfg);
               within_retry_budget = (case op_max_retries (lc_options cfg) of
                 None \<Rightarrow> True | Some max1 \<Rightarrow> ls_retries st < max1)
           in if err \<in> {Some ServiceNotReady, Some MetadataError} \<and> within_retry_budget \<and> within_deadline
              then Look_again (st\<lparr>ls_retries := ls_retries st + 1\<rparr>)
              else Looked_up (Inl (Query err (lr_message response))))
        else
          (case convert_lookup_response (lc_parse_url cfg) response of
             Inl e \<Rightarrow> Looked_up (Inl e)
           | Inr r \<Rightarrow>
             (case select_broker (lc_base_url cfg) r of
                Inl e \<Rightarrow> Looked_up (Inl e)
              | Inr (connection_url, broker_port) \<Rightarrow>
                (case u_host connection_url of
                   None \<Rightarrow> Lookup_panic
                 | Some host \<Rightarrow>
                   (let broker_url = host_port host
                          (case u_port connection_url of Some p \<Rightarrow> p | None \<Rightarrow> broker_port);
                        proxy = (ls_proxied st \<or> lkr_proxy r);
                        addr = \<lparr>ba_url = (if proxy then lc_base_url cfg else connection_url),
                                ba_broker_url = broker_url, ba_proxy = proxy\<rparr>
                    in case lk_connect t of
                         Inl e \<Rightarrow> Looked_up (Inl (Connection_sd e))
                       | Inr _ \<Rightarrow>
                         if lkr_redirect r
                         then Look_again (st\<lparr>ls_proxied := proxy, ls_authoritative := lkr_authoritative r\<rparr>)
                         else Looked_up (Inr addr))))))"

fun lookup_run :: "lookup_config \<Rightarrow> lookup_state \<Rightarrow> lookup_turn list \<Rightarrow> lookup_outcome option" where
  "lookup_run cfg st [] = None"
| "lookup_run cfg st (t # ts) =
     (case lookup_step cfg st t of
        Look_again st' \<Rightarrow> lookup_run cfg st' ts
      | out \<Rightarrow> Some out)"

definition lookup_start :: lookup_state where
  "lookup_start = \<lparr>ls_proxied = False, ls_authoritative = False, ls_retries = 0\<rparr>"

text \<open>The whole lookup, after the connection to the base address.\<close>

definition lookup_topic_broker :: "lookup_config \<Rightarrow> (connection_error, nat) result \<Rightarrow> lookup_turn list \<Rightarrow>
    lookup_outcome option" where
  "lookup_topic_broker cfg base_connection ts =
     (case base_connection of
        Inl e \<Rightarrow> Some (Looked_up (Inl (Connection_sd e)))
      | Inr _ \<Rightarrow> lookup_run cfg lookup_start ts)"

text \<open>The query a turn sends.\<close>

definition lookup_query :: "string \<Rightarrow> string option \<Rightarrow> lookup_state \<Rightarrow> u64 \<Rightarrow> raw_message" where
  "lookup_query topic listener_name st request_id =
     msg_lookup_topic topic (ls_authoritative st) request_id listener_name"

section \<open>Counting partitions\<close>

record partition_turn =
  pt_answer :: "(connection_error, command_partitioned_metadata_response) result"
  pt_reconnect :: "(connection_error, (connection_error, command_partitioned_metadata_response) result) result"
  pt_elapsed :: duration

definition partition_response :: "partition_turn \<Rightarrow>
    (connection_error, command_partitioned_metadata_response) result" where
  "partition_response t =
     (case pt_answer t of
        Inr res \<Rightarrow> Inr res
      | Inl e \<Rightarrow>
          (if e = Disconnected
           then (case pt_reconnect t of Inl e' \<Rightarrow> Inl e' | Inr res \<Rightarrow> res)
           else Inl e))"

definition partition_decide :: "operation_retry_options \<Rightarrow> nat \<Rightarrow> partition_turn \<Rightarrow>
    (service_discovery_error, u32) result option" where
  "partition_decide o1 current_retries t =
     (case partition_response t of
        Inl e \<Rightarrow> Some (Inl (Connection_sd e))
      | Inr response \<Rightarrow>
        (let err = Option.bind (ptr_error response) server_error;
             query_error = Inl (Query err (ptr_message response))
         in if ptr_response response = None \<or> ptr_response response = Some 1 then
              (if err = Some ServiceNotReady
                  \<and> (op_max_retries o1 = None \<or> current_retries < the (op_max_retries o1))
               then None
               else Some query_error)
            else (case ptr_partitions response of
                    Some partitions \<Rightarrow> Some (Inr partitions)
                  | None \<Rightarrow> Some query_error)))"

fun partition_run :: "operation_retry_options \<Rightarrow> nat \<Rightarrow> partition_turn list \<Rightarrow>
    (service_discovery_error, u32) result option" where
  "partition_run o1 current_retries [] = None"
| "partition_run o1 current_retries (t # ts) =
     (case partition_decide o1 current_retries t of
        Some r \<Rightarrow> Some r
      | None \<Rightarrow> partition_run o1 (Suc current_retries) ts)"

definition lookup_partitioned_topic_number_with_options :: "operation_retry_options \<Rightarrow> string \<Rightarrow> bool \<Rightarrow>
    (connection_error, nat) result \<Rightarrow> partition_turn list \<Rightarrow>
    (service_discovery_error, u32) result option" where
  "lookup_partitioned_topic_number_with_options o1 topic metadata_auto_creation_enabled base_connection ts =
     (if metadata_auto_creation_enabled \<and> is_topic_partition_name topic then Some (Inr 0)
      else case base_connection of
        Inl e \<Rightarrow> Some (Inl (Connection_sd e))
      | Inr _ \<Rightarrow> partition_run o1 0 ts)"

definition lookup_partitioned_topic_number where
  "lookup_partitioned_topic_number o1 topic base_connection ts =
     lookup_partitioned_topic_number_with_options o1 topic True base_connection ts"

text \<open>The partitions of a topic with their brokers; \<open>lookup\<close> is what looking up each name gives.\<close>

definition partition_topics :: "string \<Rightarrow> u32 \<Rightarrow> string list" where
  "partition_topics topic partitions =
     (if partitions = 0 then [topic] else map (partition_name topic) [0..<unat partitions])"

definition lookup_partitioned_topic :: "(service_discovery_error, u32) result \<Rightarrow>
    (string \<Rightarrow> (service_discovery_error, broker_address) result) \<Rightarrow> string \<Rightarrow>
    (service_discovery_error, (string \<times> broker_address) list) result" where
  "lookup_partitioned_topic number lookup topic =
     rbind number (\<lambda>partitions.
       try_join_all (map (\<lambda>t. rmap (\<lambda>address. (t, address)) (lookup t)) (partition_topics topic partitions)))"

interpretation partition_lookup: bounded_retry "partition_run (o1\<lparr>op_max_retries := Some m\<rparr>)"
    "partition_decide (o1\<lparr>op_max_retries := Some m\<rparr>)" m for o1 m
  by unfold_locales
     (auto simp: partition_decide_def Let_def split: sum.split option.split)

section \<open>Steps of a lookup\<close>

lemma lookup_run_last:
  "lookup_run cfg st ts = Some out \<Longrightarrow> \<exists>t \<in> set ts. \<exists>st'. lookup_step cfg st' t = out"
proof (induction ts arbitrary: st)
  case (Cons t ts)
  show ?case
  proof (cases "lookup_step cfg st t")
    case (Look_again st')
    with Cons show ?thesis by auto
  qed (use Cons.prems in auto)
qed simp

lemma convert_lookup_response_Inr:
  "convert_lookup_response parse_url response = Inr r \<Longrightarrow>
    lkr_broker_url r = Option.bind (lr_broker_service_url response) parse_url
    \<and> lkr_broker_url_tls r = Option.bind (lr_broker_service_url_tls response) parse_url
    \<and> lkr_proxy r = unwrap_or_false (lr_proxy_through_service_url response)
    \<and> lkr_redirect r = (lr_response response = Some 0)"
  by (auto simp: convert_lookup_response_def parse_optional_def rbind_Inr_iff split: option.splits)

lemma lookup_step_found:
  assumes "lookup_step cfg st t = Looked_up (Inr addr)"
  shows "\<exists>response u host c. turn_response t = Inr response \<and> lr_response response \<notin> {None, Some 0, Some 2}
    \<and> Option.bind (if u_scheme (lc_base_url cfg) = ''pulsar+ssl'' then lr_broker_service_url_tls response
         else lr_broker_service_url response) (lc_parse_url cfg) = Some u
    \<and> u_host u = Some host
    \<and> ba_broker_url addr = host_port host (case u_port u of Some p \<Rightarrow> p
        | None \<Rightarrow> if u_scheme (lc_base_url cfg) = ''pulsar+ssl'' then 6651 else 6650)
    \<and> ba_url addr = (if ba_proxy addr then lc_base_url cfg else u)
    \<and> ba_proxy addr = (ls_proxied st \<or> unwrap_or_false (lr_proxy_through_service_url response))
    \<and> lk_connect t = Inr c"
proof -
  obtain response where r: "turn_response t = Inr response" "\<not> lookup_failed response"
    using assms by (auto simp: lookup_step_def Let_def split: sum.splits if_splits)
  then obtain lr where lr: "convert_lookup_response (lc_parse_url cfg) response = Inr lr"
    using assms by (auto simp: lookup_step_def split: sum.splits)
  then obtain u p where u: "select_broker (lc_base_url cfg) lr = Inr (u, p)"
    using assms r by (auto simp: lookup_step_def split: sum.splits)
  with r lr assms obtain host where host: "u_host u = Some host"
    by (auto simp: lookup_step_def split: option.splits)
  then obtain c where c: "lk_connect t = Inr c" "\<not> lkr_redirect lr"
    and addr: "addr = \<lparr>ba_url = (if ls_proxied st \<or> lkr_proxy lr then lc_base_url cfg else u),
        ba_broker_url = host_port host (case u_port u of Some p \<Rightarrow> p | None \<Rightarrow> p),
        ba_proxy = (ls_proxied st \<or> lkr_proxy lr)\<rparr>"
    using assms r lr u by (auto simp: lookup_step_def Let_def split: sum.splits if_splits)
  note conv = convert_lookup_response_Inr [OF lr]
  show ?thesis
  proof (cases "u_scheme (lc_base_url cfg) = ''pulsar+ssl''")
    case True
    then have "lkr_broker_url_tls lr = Some u" "p = 6651"
      using u by (auto simp: select_broker_def split: option.splits)
    then show ?thesis using True r c host conv addr by (auto simp: lookup_failed_def)
  next
    case False
    then have "lkr_broker_url lr = Some u" "p = 6650"
      using u by (auto simp: select_broker_def split: option.splits if_splits)
    then show ?thesis using False r c host conv addr by (auto simp: lookup_failed_def)
  qed
qed

lemma lookup_run_gives_up:
  assumes "\<forall>t \<in> set ts. \<exists>response e. turn_response t = Inr response \<and> lookup_failed response
      \<and> lr_error response = Some e \<and> server_error e \<in> {Some ServiceNotReady, Some MetadataError}"
    and "(\<exists>t \<in> set ts. operation_timeout (lc_options cfg) \<le> lk_elapsed t)
      \<or> (\<exists>m. op_max_retries (lc_options cfg) = Some m \<and> ls_retries st \<le> m \<and> m < ls_retries st + length ts)"
  shows "\<exists>e msg. lookup_run cfg st ts = Some (Looked_up (Inl (Query e msg)))"
  using assms
proof (induction ts arbitrary: st)
  case Nil
  then show ?case by auto
next
  case (Cons t ts)
  obtain response e where r: "turn_response t = Inr response" "lookup_failed response"
    "lr_error response = Some e" "server_error e \<in> {Some ServiceNotReady, Some MetadataError}"
    using Cons.prems(1) by auto
  let ?budget = "case op_max_retries (lc_options cfg) of None \<Rightarrow> True | Some max1 \<Rightarrow> ls_retries st < max1"
  let ?deadline = "lk_elapsed t < operation_timeout (lc_options cfg)"
  show ?case
  proof (cases "?budget \<and> ?deadline")
    case True
    then have step: "lookup_step cfg st t = Look_again (st\<lparr>ls_retries := ls_retries st + 1\<rparr>)"
      using r by (auto simp: lookup_step_def Let_def)
    have "\<exists>e msg. lookup_run cfg (st\<lparr>ls_retries := ls_retries st + 1\<rparr>) ts = Some (Looked_up (Inl (Query e msg)))"
      using Cons.prems True by (intro Cons.IH) auto
    then show ?thesis by (simp add: step)
  next
    case False
    then have "lookup_step cfg st t = Looked_up (Inl (Query (server_error e) (lr_message response)))"
      using r by (auto simp: lookup_step_def Let_def)
    then show ?thesis by simp
  qed
qed

lemma lookup_partitioned_topic_found:
  "lookup_partitioned_topic (Inr n) lookup topic = Inr found \<longleftrightarrow>
    map fst found = (if n = 0 then [topic] else map (partition_name topic) [0..<unat n])
    \<and> map (\<lambda>(t, a). lookup t) found = map (\<lambda>(t, a). Inr a) found"
proof -
  let ?ts = "if n = 0 then [topic] else map (partition_name topic) [0..<unat n]"
  have "map (\<lambda>t. rmap (\<lambda>address. (t, address)) (lookup t)) ts = map Inr found \<longleftrightarrow>
      map fst found = ts \<and> map (\<lambda>(t, a). lookup t) found = map (\<lambda>(t, a). Inr a) found" for ts
  proof (induction ts arbitrary: found)
    case (Cons t ts)
    show ?case
      by (cases found) (auto simp: Cons.IH rmap_Inr_iff)
  qed auto
  then show ?thesis
    by (simp add: lookup_partitioned_topic_def partition_topics_def try_join_all_Inr_iff)
qed

section \<open>Properties\<close>


definition example_response :: command_lookup_topic_response where
  "example_response = \<lparr>lr_broker_service_url = Some ''pulsar://b'', lr_broker_service_url_tls = None,
     lr_response = Some 1, lr_request_id = 0, lr_authoritative = Some True, lr_error = None,
     lr_message = None, lr_proxy_through_service_url = None\<rparr>"

definition example_config :: lookup_config where
  "example_config = \<lparr>lc_base_url = ba_url example_address, lc_options = operation_retry_options_default,
     lc_parse_url = (\<lambda>s. Some \<lparr>u_text = s, u_scheme = ''pulsar'', u_host = Some ''b'', u_port = None\<rparr>)\<rparr>"

definition example_turn :: lookup_turn where
  "example_turn = \<lparr>lk_answer = Inr example_response, lk_reconnect = Inl Disconnected, lk_elapsed = 0,
     lk_connect = Inr 3\<rparr>"


text \<open>
  C39. A lookup the broker cannot serve comes to an end: when every turn reports a condition that
  is retried, the lookup fails with the broker's error as soon as a turn lies past the
  operation timeout, whatever \<open>max_retries\<close> says, or the retries are used up.
\<close>

theorem failing_lookup_gives_up:
  assumes "\<forall>t \<in> set ts. \<exists>response e. turn_response t = Inr response \<and> lookup_failed response
      \<and> lr_error response = Some e \<and> server_error e \<in> {Some ServiceNotReady, Some MetadataError}"
    and "(\<exists>t \<in> set ts. operation_timeout (lc_options cfg) \<le> lk_elapsed t)
      \<or> (\<exists>m. op_max_retries (lc_options cfg) = Some m \<and> m < length ts)"
  shows "\<exists>e msg. lookup_topic_broker cfg (Inr base) ts = Some (Looked_up (Inl (Query e msg)))"
  using lookup_run_gives_up [OF assms(1), of cfg lookup_start] assms(2)
  by (simp add: lookup_topic_broker_def lookup_start_def)

theorem failing_lookup_gives_up_witness:
  "\<exists>e msg. lookup_topic_broker example_config (Inr 0)
      [example_turn\<lparr>lk_answer := Inr (example_response\<lparr>lr_response := Some 2, lr_error := Some 6\<rparr>),
         lk_elapsed := 40000000000\<rparr>]
    = Some (Looked_up (Inl (Query e msg)))"
  by (rule failing_lookup_gives_up)
     (simp_all add: example_turn_def example_response_def turn_response_def lookup_failed_def
       server_error_def example_config_def operation_retry_options_default_def nanos_of_secs_def)

text \<open>
  Looking up a topic with its partitions names each partition once and in order: for a count
  of zero the answer is the topic itself, for a count \<open>n\<close> the \<open>n\<close> partition names in partition
  order, each with the address its own lookup gave; and one failed lookup fails the whole.
\<close>

theorem partitioned_lookup_is_complete:
  "lookup_partitioned_topic (Inr n) lookup topic = Inr found \<longleftrightarrow>
    map fst found = (if n = 0 then [topic] else map (partition_name topic) [0..<unat n])
    \<and> map (\<lambda>(t, a). lookup t) found = map (\<lambda>(t, a). Inr a) found"
  by (rule lookup_partitioned_topic_found)

text \<open>
  Without a retry limit, which is the default, counting the partitions of a topic whose broker
  keeps answering \<open>ServiceNotReady\<close> never ends, however far past the operation timeout.
\<close>

theorem partition_count_has_no_deadline:
  assumes "op_max_retries o1 = None"
    and "\<forall>t \<in> set ts. \<exists>response. partition_response t = Inr response \<and> ptr_response response = Some 1
      \<and> ptr_error response = Some 6"
  shows "partition_run o1 k ts = None"
  using assms(2)
proof (induction ts arbitrary: k)
  case (Cons t ts)
  then have "partition_decide o1 k t = None"
    using assms(1) by (auto simp: partition_decide_def server_error_def Let_def)
  with Cons show ?case by simp
qed simp

end
