(* ===== verification/Compress.thy ===== *)
theory Compress
  imports Batch
begin

text \<open>
  Compression of a message before it is sent (\<open>compress_message\<close> of \<open>producer.rs\<close>) and of a
  payload when it is received (the first half of \<open>process_payload\<close> in \<open>consumer/engine.rs\<close>),
  with every compression feature of the crate enabled. The compression libraries are
  third-party code: a record of functions. Their failure is an I/O error.
\<close>

record codecs =
  lz4_compress :: "int \<Rightarrow> byte list \<Rightarrow> (io_kind \<times> string, byte list) result"
  zlib_compress :: "int \<Rightarrow> byte list \<Rightarrow> (io_kind \<times> string, byte list) result"
  zstd_compress :: "int \<Rightarrow> byte list \<Rightarrow> (io_kind \<times> string, byte list) result"
  snappy_compress :: "byte list \<Rightarrow> (io_kind \<times> string, byte list) result"
  lz4_decompress :: "byte list \<Rightarrow> i32 option \<Rightarrow> (io_kind \<times> string, byte list) result"
  zlib_decompress :: "byte list \<Rightarrow> (io_kind \<times> string, byte list) result"
  zstd_decompress :: "byte list \<Rightarrow> (io_kind \<times> string, byte list) result"
  snappy_decompress :: "byte list \<Rightarrow> (io_kind \<times> string, byte list) result"

definition producer_io :: "io_kind \<times> string \<Rightarrow> error" where
  "producer_io e = Producer (Io_producer (fst e) (snd e))"

definition consumer_io :: "io_kind \<times> string \<Rightarrow> error" where
  "consumer_io e = Consumer (Io_consumer (fst e) (snd e))"

definition with_compressed :: "compression_type \<Rightarrow> producer_message \<Rightarrow> byte list \<Rightarrow> producer_message" where
  "with_compressed ty m compressed_payload = m
     \<lparr>pm_uncompressed_size := Some (u32_of_usize (length (pm_payload m))),
      pm_payload := compressed_payload,
      pm_compression := Some (compression_type_code ty)\<rparr>"

fun compress_message :: "codecs \<Rightarrow> producer_message \<Rightarrow> compression option \<Rightarrow> (error, producer_message) result" where
  "compress_message cd m None = Inr m"
| "compress_message cd m (Some CNone) = Inr m"
| "compress_message cd m (Some (CLz4 mode)) =
     rmap (with_compressed Lz4 m) (map_err producer_io (lz4_compress cd mode (pm_payload m)))"
| "compress_message cd m (Some (CZlib level)) =
     rmap (with_compressed Zlib m) (map_err producer_io (zlib_compress cd level (pm_payload m)))"
| "compress_message cd m (Some (CZstd level)) =
     rmap (with_compressed Zstd m) (map_err producer_io (zstd_compress cd level (pm_payload m)))"
| "compress_message cd m (Some CSnappy) =
     rmap (with_compressed Snappy m) (map_err producer_io (snappy_compress cd (pm_payload m)))"

definition decompress_payload :: "codecs \<Rightarrow> payload \<Rightarrow> (error, payload) result" where
  "decompress_payload cd pl =
     rbind (case md_compression (pl_metadata pl) of
              None \<Rightarrow> Inr NoCompression
            | Some c \<Rightarrow> (case compression_type_try_from c of
                Some ty \<Rightarrow> Inr ty
              | None \<Rightarrow> Inl (consumer_io (OtherIo, ''unknown compression type'')))) (\<lambda>ty.
     case ty of
       NoCompression \<Rightarrow> Inr pl
     | Lz4 \<Rightarrow> rmap (\<lambda>d. pl\<lparr>pl_data := d\<rparr>) (map_err consumer_io
         (lz4_decompress cd (pl_data pl) (map_option i32_of_u32 (md_uncompressed_size (pl_metadata pl)))))
     | Zlib \<Rightarrow> rmap (\<lambda>d. pl\<lparr>pl_data := d\<rparr>) (map_err consumer_io (zlib_decompress cd (pl_data pl)))
     | Zstd \<Rightarrow> rmap (\<lambda>d. pl\<lparr>pl_data := d\<rparr>) (map_err consumer_io (zstd_decompress cd (pl_data pl)))
     | Snappy \<Rightarrow> rmap (\<lambda>d. pl\<lparr>pl_data := d\<rparr>) (map_err consumer_io (snappy_decompress cd (pl_data pl))))"

section \<open>Round trip\<close>

text \<open>What the libraries guarantee of one payload: decompressing gives back what was compressed.\<close>

definition codecs_invert :: "codecs \<Rightarrow> byte list \<Rightarrow> bool" where
  "codecs_invert cd bs \<longleftrightarrow>
     (\<forall>mode c. lz4_compress cd mode bs = Inr c \<longrightarrow> lz4_decompress cd c (Some (int (length bs))) = Inr bs) \<and>
     (\<forall>level c. zlib_compress cd level bs = Inr c \<longrightarrow> zlib_decompress cd c = Inr bs) \<and>
     (\<forall>level c. zstd_compress cd level bs = Inr c \<longrightarrow> zstd_decompress cd c = Inr bs) \<and>
     (\<forall>c. snappy_compress cd bs = Inr c \<longrightarrow> snappy_decompress cd c = Inr bs)"

lemma i32_of_u32_size: "n < 2 ^ 31 \<Longrightarrow> i32_of_u32 (u32_of_usize n) = int n"
  by (simp add: i32_of_u32_def u32_of_usize_def sint_of_nat_small)

text \<open>The payload bytes \<open>bs\<close> decompress to \<open>d\<close> with the library of the given algorithm.\<close>

fun decodes_as :: "codecs \<Rightarrow> compression_type \<Rightarrow> byte list \<Rightarrow> byte list \<Rightarrow> bool" where
  "decodes_as cd NoCompression bs d \<longleftrightarrow> bs = d"
| "decodes_as cd Lz4 bs d \<longleftrightarrow> lz4_decompress cd bs (Some (int (length d))) = Inr d"
| "decodes_as cd Zlib bs d \<longleftrightarrow> zlib_decompress cd bs = Inr d"
| "decodes_as cd Zstd bs d \<longleftrightarrow> zstd_decompress cd bs = Inr d"
| "decodes_as cd Snappy bs d \<longleftrightarrow> snappy_decompress cd bs = Inr d"

lemma compress_message_decodes:
  assumes "codecs_invert cd (pm_payload m)" and "compress_message cd m c = Inr m'"
  shows "m' = m \<or> (\<exists>ty bs. m' = with_compressed ty m bs \<and> ty \<noteq> NoCompression
    \<and> decodes_as cd ty bs (pm_payload m))"
proof (cases "m' = m")
  case False
  have one: ?thesis if "rmap (with_compressed ty m) (map_err f r) = Inr m'" "ty \<noteq> NoCompression"
    "\<And>bs. r = Inr bs \<Longrightarrow> decodes_as cd ty bs (pm_payload m)" for ty f r
    using that by (auto simp: rmap_Inr_iff map_err_Inr_iff)
  show ?thesis
  proof (cases c)
    case (Some comp)
    note inv = assms(1) [unfolded codecs_invert_def]
    show ?thesis
    proof (cases comp)
      case (CLz4 mode)
      show ?thesis by (rule one [of Lz4]) (use assms(2) Some CLz4 inv in auto)
    next
      case (CZlib level)
      show ?thesis by (rule one [of Zlib]) (use assms(2) Some CZlib inv in auto)
    next
      case (CZstd level)
      show ?thesis by (rule one [of Zstd]) (use assms(2) Some CZstd inv in auto)
    next
      case CSnappy
      show ?thesis by (rule one [of Snappy]) (use assms(2) Some CSnappy inv in auto)
    qed (use False assms(2) Some in simp)
  qed (use False assms(2) in simp)
qed simp

lemma decompress_compressed:
  assumes "codecs_invert cd (pm_payload m)" and "length (pm_payload m) < 2 ^ 31"
    and "pm_compression m = None" and "compress_message cd m c = Inr m'"
    and "msg_payload (msg_send now pid name sid m') = Some pl"
  shows "decompress_payload cd pl = Inr (pl\<lparr>pl_data := pm_payload m\<rparr>)"
proof -
  have pl: "md_compression (pl_metadata pl) = pm_compression m'" "pl_data pl = pm_payload m'"
    "md_uncompressed_size (pl_metadata pl) = pm_uncompressed_size m'"
    using assms(5) by (auto simp: msg_send_def metadata_default_def)
  from compress_message_decodes [OF assms(1,4)] show ?thesis
  proof
    assume "m' = m"
    then show ?thesis using pl assms(3) by (simp add: decompress_payload_def)
  next
    assume "\<exists>ty bs. m' = with_compressed ty m bs \<and> ty \<noteq> NoCompression
      \<and> decodes_as cd ty bs (pm_payload m)"
    then obtain ty bs where "m' = with_compressed ty m bs" "ty \<noteq> NoCompression"
      "decodes_as cd ty bs (pm_payload m)" by blast
    then show ?thesis
      using pl assms(2)
      by (cases ty) (simp_all add: decompress_payload_def with_compressed_def i32_of_u32_size
          del: compression_type_code.simps)
  qed
qed

lemma compress_message_keeps:
  "compress_message cd m c = Inr m' \<Longrightarrow> pm_num_messages_in_batch m' = pm_num_messages_in_batch m"
  by (cases "(cd, m, c)" rule: compress_message.cases)
     (auto simp: rmap_Inr_iff with_compressed_def)

text \<open>
  Compression is transparent: a message sent with any of the algorithms configured arrives,
  through the metadata the client publishes with it, as the payload it was given, under the
  same metadata; and decompression reports no error.
\<close>

theorem compression_roundtrip:
  assumes "codecs_invert cd (pm_payload m)" and "length (pm_payload m) < 2 ^ 31"
    and "pm_compression m = None" and "compress_message cd m c = Inr m'"
    and "msg_payload (msg_send now pid name sid m') = Some pl"
  shows "decompress_payload cd pl = Inr (pl\<lparr>pl_data := pm_payload m\<rparr>)"
  by (rule decompress_compressed [OF assms])

theorem compression_roundtrip_witness:
  "\<exists>cd pl pl'. msg_payload (msg_send 0 1 ''p'' 0 (with_compressed Zstd
       (producer_message_default\<lparr>pm_payload := [1, 2]\<rparr>) [2, 1])) = Some pl
     \<and> decompress_payload cd pl = Inr pl' \<and> pl_data pl' = [1, 2]"
proof -
  let ?cd = "\<lparr>lz4_compress = (\<lambda>l bs. Inr (rev bs)), zlib_compress = (\<lambda>l bs. Inr (rev bs)),
    zstd_compress = (\<lambda>l bs. Inr (rev bs)), snappy_compress = (\<lambda>bs. Inr (rev bs)),
    lz4_decompress = (\<lambda>bs n. Inr (rev bs)), zlib_decompress = (\<lambda>bs. Inr (rev bs)),
    zstd_decompress = (\<lambda>bs. Inr (rev bs)), snappy_decompress = (\<lambda>bs. Inr (rev bs))\<rparr>"
  let ?m = "producer_message_default\<lparr>pm_payload := [1, 2]\<rparr>"
  have ok: "codecs_invert ?cd (pm_payload ?m)" by (simp add: codecs_invert_def)
  have comp: "compress_message ?cd ?m (Some (CZstd 3)) = Inr (with_compressed Zstd ?m [2, 1])" by simp
  obtain pl where pl: "msg_payload (msg_send 0 1 ''p'' 0 (with_compressed Zstd ?m [2, 1])) = Some pl"
    by (simp add: msg_send_def)
  have "length (pm_payload ?m) < 2 ^ 31" "pm_compression ?m = None"
    by (simp_all add: producer_message_default_def)
  from compression_roundtrip [OF ok this comp pl] pl show ?thesis
    by (intro exI [of _ ?cd] exI [of _ pl] exI [of _ "pl\<lparr>pl_data := pm_payload ?m\<rparr>"]) simp
qed

end
