(* ===== verification/Engine.thy ===== *)
theory Engine
  imports Compress Retry "HOL-Library.AList"
begin

text \<open>
  The consumer engine (\<open>ConsumerEngine\<close> of \<open>consumer/engine.rs\<close>): the task that owns a
  subscription. It keeps the broker supplied with flow permits, unpacks and filters what the
  broker sends, hands messages to the consumer's channel or to the dead letter topic, sends
  acknowledgements and redelivery requests, and subscribes again when its connection is lost.
  The connection is shared: between two turns of the engine its other users change it, which a
  turn takes as a function. The list \<open>eg_out\<close> is what was put on the channel to the consumer,
  \<open>eg_dlq\<close> what was handed to the client for the dead letter topic.
\<close>

section \<open>State\<close>

record engine =
  eg_conn :: conn
  eg_topic :: string
  eg_id :: u64
  eg_tx_open :: bool
  eg_messages_rx :: bool
  eg_engine_rx :: bool
  eg_batch_size :: u32
  eg_remaining :: i64
  eg_redelivery_delay :: "duration option"
  eg_unacked :: "(message_id_data \<times> nat) list"
  eg_dead_letter :: "dead_letter_policy option"
  eg_options :: consumer_options
  eg_out :: "(error, message_id_data \<times> payload) result list"
  eg_dlq :: "(string \<times> message_in) list"

datatype engine_message =
    Ack_message message_id_data bool
  | Nack_message message_id_data
  | Unacked_redelivery
  | Get_connection

datatype engine_event =
    Message_event "raw_message option"
  | Engine_message_event "engine_message option"
  | Event_timeout
  | Events_terminated

definition engine_new :: "conn \<Rightarrow> string \<Rightarrow> u64 \<Rightarrow> u32 \<Rightarrow> duration option \<Rightarrow> dead_letter_policy option \<Rightarrow>
    consumer_options \<Rightarrow> engine" where
  "engine_new c topic i batch_size delay dead_letter options =
     \<lparr>eg_conn = c, eg_topic = topic, eg_id = i, eg_tx_open = True, eg_messages_rx = True,
      eg_engine_rx = True, eg_batch_size = batch_size, eg_remaining = uint batch_size,
      eg_redelivery_delay = delay, eg_unacked = [], eg_dead_letter = dead_letter,
      eg_options = options, eg_out = [], eg_dlq = []\<rparr>"

text \<open>The libraries the engine calls, and what its surroundings answer during one turn.\<close>

record engine_libs =
  lb_wire :: wire
  lb_codecs :: codecs
  lb_b64_decode :: "byte list \<Rightarrow> (byte list) option"

record resubscribe_env =
  rs_close_resolver :: nat
  rs_close_answer :: "raw_message answer"
  rs_lookup :: "(error, broker_address) result"
  rs_options :: operation_retry_options
  rs_connect :: "(connection_error, nat) result"
  rs_attempts :: "command_success attempt list"
  rs_flow :: "nat \<Rightarrow> (connection_error, unit) result"
  rs_connections :: "nat \<Rightarrow> conn"

record turn_env =
  tv_conn :: "conn \<Rightarrow> conn"
  tv_spawn :: bool
  tv_event :: engine_event
  tv_clock :: "nat \<Rightarrow> nat"
  tv_dlq :: "nat \<Rightarrow> (error, (error, command_send_receipt) result) result"
  tv_resubscribe :: resubscribe_env

section \<open>The start-message filter\<close>

definition starts_with :: "string \<Rightarrow> string \<Rightarrow> bool" where
  "starts_with p s \<longleftrightarrow> take (length p) s = p"

definition is_persistent_topic :: "string \<Rightarrow> bool" where
  "is_persistent_topic topic \<longleftrightarrow> \<not> starts_with ''non-persistent://'' topic"

definition is_before_start_message :: "engine \<Rightarrow> message_id_data \<Rightarrow> bool" where
  "is_before_start_message e message_id =
     (if \<not> is_persistent_topic (eg_topic e) then False
      else case co_start_message_id (eg_options e) of
        None \<Rightarrow> False
      | Some start \<Rightarrow>
          if ledger_id message_id \<noteq> ledger_id start \<or> entry_id message_id \<noteq> entry_id start then False
          else
            (let inclusive = co_start_message_id_inclusive (eg_options e) in
             case (id_batch_index message_id, id_batch_index start) of
               (Some index, Some start_index) \<Rightarrow>
                 if inclusive then index < start_index else index \<le> start_index
             | _ \<Rightarrow> \<not> inclusive))"

definition reject_chunked_message :: "metadata \<Rightarrow> (error, unit) result" where
  "reject_chunked_message md =
     (case md_num_chunks_from_msg md of
        Some num_chunks \<Rightarrow>
          if num_chunks > 1 then Inl (Consumer (UnsupportedChunkedMessage (md_uuid md) num_chunks))
          else Inr ()
      | None \<Rightarrow> Inr ())"

section \<open>Acknowledgement and redelivery\<close>

definition engine_ack :: "message_id_data \<Rightarrow> bool \<Rightarrow> engine \<Rightarrow> engine" where
  "engine_ack message_id cumulative e =
     e\<lparr>eg_unacked := AList.delete message_id (eg_unacked e),
       eg_conn := snd (conn_send_ack (eg_id e) [message_id] cumulative (eg_conn e))\<rparr>"

text \<open>The identifiers whose redelivery delay has passed.\<close>

definition expired :: "nat \<Rightarrow> engine \<Rightarrow> message_id_data list" where
  "expired now e = map fst (filter (\<lambda>(i, t). t < now) (eg_unacked e))"

definition request_redelivery :: "nat \<Rightarrow> engine \<Rightarrow> engine" where
  "request_redelivery now e =
     (let ids = expired now e in
      if ids = [] then e
      else case conn_send_redeliver (eg_id e) ids (eg_conn e) of
        (Inl _, c) \<Rightarrow> e\<lparr>eg_conn := c\<rparr>
      | (Inr _, c) \<Rightarrow> e\<lparr>eg_conn := c, eg_unacked := fold AList.delete ids (eg_unacked e)\<rparr>)"

fun handle_ack_opt :: "nat \<Rightarrow> engine_message option \<Rightarrow> engine \<Rightarrow> bool \<times> engine" where
  "handle_ack_opt now None e = (False, e)"
| "handle_ack_opt now (Some (Ack_message message_id cumulative)) e =
     (True, engine_ack message_id cumulative e)"
| "handle_ack_opt now (Some (Nack_message message_id)) e =
     (True, e\<lparr>eg_conn := snd (conn_send_redeliver (eg_id e) [message_id] (eg_conn e))\<rparr>)"
| "handle_ack_opt now (Some Unacked_redelivery) e = (True, request_redelivery now e)"
| "handle_ack_opt now (Some Get_connection) e = (True, e)"

section \<open>Delivering a payload\<close>

definition send_to_consumer :: "turn_env \<Rightarrow> message_id_data \<Rightarrow> payload \<Rightarrow> engine \<Rightarrow>
    (error, unit) result \<times> engine" where
  "send_to_consumer env message_id pl e =
     (let now = tv_clock env (length (eg_out e)) in
      if \<not> eg_tx_open e then (Inl (Custom ''tx closed''), e)
      else
        (let e1 = e\<lparr>eg_out := eg_out e @ [Inr (message_id, pl)]\<rparr> in
         case eg_redelivery_delay e of
           Some d \<Rightarrow> (Inr (), e1\<lparr>eg_unacked := AList.update message_id (now + d) (eg_unacked e1)\<rparr>)
         | None \<Rightarrow> (Inr (), e1)))"

definition origin_message_id :: "message_id_data \<Rightarrow> string" where
  "origin_message_id i =
     show_nat (unat (ledger_id i)) @ '':'' @ show_nat (unat (entry_id i)) @ '':'' @
     show_int (case id_partition i of Some p \<Rightarrow> p | None \<Rightarrow> -1) @
     (case id_batch_index i of Some batch_index \<Rightarrow> '':'' @ show_int batch_index | None \<Rightarrow> [])"

text \<open>\<open>HashMap::entry(k).or_insert(v)\<close> and collecting pairs into a \<open>HashMap\<close>.\<close>

definition or_insert :: "string \<Rightarrow> string \<Rightarrow> (string \<times> string) list \<Rightarrow> (string \<times> string) list" where
  "or_insert k v ps = (if map_of ps k = None then ps @ [(k, v)] else ps)"

definition collect_properties :: "key_value list \<Rightarrow> (string \<times> string) list" where
  "collect_properties kvs = foldl (\<lambda>ps p. AList.update (kv_key p) (kv_value p) ps) [] kvs"

definition dead_letter_properties :: "string \<Rightarrow> message_id_data \<Rightarrow> key_value list \<Rightarrow> (string \<times> string) list" where
  "dead_letter_properties topic message_id kvs =
     or_insert ''ORIGIN_MESSAGE_ID'' (origin_message_id message_id)
       (or_insert ''REAL_TOPIC'' topic (collect_properties kvs))"

definition dead_letter_message :: "(byte list \<Rightarrow> (byte list) option) \<Rightarrow> string \<Rightarrow> message_id_data \<Rightarrow>
    payload \<Rightarrow> message_in" where
  "dead_letter_message b64d topic message_id pl =
     (let md = pl_metadata pl in
      message_default
        \<lparr>m_payload := (if md_null_value md = Some True then None else Some (pl_data pl)),
         m_properties := dead_letter_properties topic message_id (md_properties md),
         m_partition_key := from_metadata b64d (md_partition_key md)
           (md_partition_key_b64_encoded md) (md_null_partition_key md),
         m_ordering_key := md_ordering_key md,
         m_event_time := md_event_time md\<rparr>)"

definition send_to_dead_letter :: "engine_libs \<Rightarrow> turn_env \<Rightarrow> string \<Rightarrow> message_id_data \<Rightarrow> payload \<Rightarrow>
    engine \<Rightarrow> (error, unit) result \<times> engine" where
  "send_to_dead_letter lb env dl_topic message_id pl e =
     (let m = dead_letter_message (lb_b64_decode lb) (eg_topic e) message_id pl;
          e1 = e\<lparr>eg_dlq := eg_dlq e @ [(dl_topic, m)]\<rparr>
      in case tv_dlq env (length (eg_dlq e)) of
           Inl err \<Rightarrow> (Inl err, e1)
         | Inr (Inl _) \<Rightarrow> (Inl (Custom ''DLQ send error''), e1)
         | Inr (Inr _) \<Rightarrow> (Inr (), engine_ack message_id False e1))"

text \<open>Whether the dead letter policy takes over a message with this redelivery count.\<close>

definition exhausted :: "dead_letter_policy option \<Rightarrow> u32 option \<Rightarrow> string option" where
  "exhausted policy redelivery_count =
     (case (redelivery_count, policy) of
        (Some n, Some p) \<Rightarrow> if unat n \<ge> max_redeliver_count p then Some (dead_letter_topic p) else None
      | _ \<Rightarrow> None)"

definition deliver_one :: "engine_libs \<Rightarrow> turn_env \<Rightarrow> u32 option \<Rightarrow> message_id_data \<times> payload \<Rightarrow> engine \<Rightarrow>
    (error, unit) result \<times> engine" where
  "deliver_one lb env redelivery_count x e =
     (if is_before_start_message e (fst x) then (Inr (), e)
      else case exhausted (eg_dead_letter e) redelivery_count of
        Some dl_topic \<Rightarrow> send_to_dead_letter lb env dl_topic (fst x) (snd x) e
      | None \<Rightarrow> send_to_consumer env (fst x) (snd x) e)"

fun deliver_all :: "engine_libs \<Rightarrow> turn_env \<Rightarrow> u32 option \<Rightarrow> (message_id_data \<times> payload) list \<Rightarrow> engine \<Rightarrow>
    (error, unit) result \<times> engine" where
  "deliver_all lb env n [] e = (Inr (), e)"
| "deliver_all lb env n (x # xs) e =
     (case deliver_one lb env n x e of
        (Inl err, e1) \<Rightarrow> (Inl err, e1)
      | (Inr _, e1) \<Rightarrow> deliver_all lb env n xs e1)"

text \<open>
  The messages of a payload: what a batch unpacks to, or the payload itself. The last case of
  the inner selection is the iterator's panic, which the guard excludes.
\<close>

definition unpack :: "wire \<Rightarrow> message_id_data \<Rightarrow> payload \<Rightarrow>
    (error, (message_id_data \<times> payload) list) result" where
  "unpack w message_id pl =
     (if md_num_messages_in_batch (pl_metadata pl) \<noteq> None
      then (case batch_iterator_new w message_id pl of
              Some (Inr it) \<Rightarrow> Inr (batch_iterator_collect it)
            | Some (Inl err) \<Rightarrow> Inl (Connection err)
            | None \<Rightarrow> Inr [])
      else Inr [(message_id, pl)])"

definition process_payload :: "engine_libs \<Rightarrow> turn_env \<Rightarrow> command_message \<Rightarrow> payload \<Rightarrow> engine \<Rightarrow>
    (error, unit) result \<times> engine" where
  "process_payload lb env msg pl e =
     (case rbind (reject_chunked_message (pl_metadata pl)) (\<lambda>_.
             rbind (decompress_payload (lb_codecs lb) pl) (\<lambda>pl1.
               unpack (lb_wire lb) (cm_message_id msg) pl1)) of
        Inl err \<Rightarrow> (Inl err, e)
      | Inr xs \<Rightarrow> deliver_all lb env (cm_redelivery_count msg) xs e)"

section \<open>What delivering does\<close>

lemma deliver_one_frame:
  "eg_topic (snd (deliver_one lb env n x e)) = eg_topic e"
  "eg_options (snd (deliver_one lb env n x e)) = eg_options e"
  "eg_dead_letter (snd (deliver_one lb env n x e)) = eg_dead_letter e"
  "eg_tx_open (snd (deliver_one lb env n x e)) = eg_tx_open e"
  "eg_remaining (snd (deliver_one lb env n x e)) = eg_remaining e"
  "eg_batch_size (snd (deliver_one lb env n x e)) = eg_batch_size e"
  "eg_redelivery_delay (snd (deliver_one lb env n x e)) = eg_redelivery_delay e"
  "eg_id (snd (deliver_one lb env n x e)) = eg_id e"
  by (simp_all add: deliver_one_def send_to_dead_letter_def send_to_consumer_def engine_ack_def Let_def
      split: option.split sum.split)

lemma deliver_all_keeps:
  assumes "\<And>x e. f (snd (deliver_one lb env n x e)) = f e"
  shows "f (snd (deliver_all lb env n xs e)) = f e"
proof (induction xs arbitrary: e)
  case (Cons x xs)
  obtain r e1 where d: "deliver_one lb env n x e = (r, e1)" by fastforce
  then have "f e1 = f e" using assms [of x e] by simp
  then show ?case using Cons.IH [of e1] d by (cases r) simp_all
qed simp

lemmas deliver_all_frame = deliver_one_frame [THEN deliver_all_keeps]

lemma is_before_start_message_cong:
  "eg_topic e' = eg_topic e \<Longrightarrow> eg_options e' = eg_options e \<Longrightarrow>
   is_before_start_message e' i = is_before_start_message e i"
  by (simp only: is_before_start_message_def)

text \<open>Without a dead letter policy in force, everything past the start message is delivered.\<close>

lemma deliver_all_out:
  assumes "eg_tx_open e" and "exhausted (eg_dead_letter e) n = None"
  shows "fst (deliver_all lb env n xs e) = Inr ()"
    "eg_out (snd (deliver_all lb env n xs e)) =
       eg_out e @ map Inr (filter (\<lambda>x. \<not> is_before_start_message e (fst x)) xs)"
    "eg_dlq (snd (deliver_all lb env n xs e)) = eg_dlq e"
proof -
  have "fst (deliver_all lb env n xs e) = Inr () \<and>
    eg_out (snd (deliver_all lb env n xs e)) =
       eg_out e @ map Inr (filter (\<lambda>x. \<not> is_before_start_message e (fst x)) xs) \<and>
    eg_dlq (snd (deliver_all lb env n xs e)) = eg_dlq e"
    using assms
  proof (induction xs arbitrary: e)
    case (Cons x xs)
    define e1 where "e1 = snd (deliver_one lb env n x e)"
    have d: "deliver_one lb env n x e = (Inr (), e1)"
      and out: "eg_out e1 = eg_out e @ (if is_before_start_message e (fst x) then [] else [Inr x])"
        "eg_dlq e1 = eg_dlq e"
      using Cons.prems
      by (simp_all add: e1_def deliver_one_def send_to_consumer_def Let_def split: option.split)
    have "eg_topic e1 = eg_topic e" "eg_options e1 = eg_options e"
      and kept: "eg_tx_open e1 = eg_tx_open e" "eg_dead_letter e1 = eg_dead_letter e"
      using deliver_one_frame [of lb env n x e] d by simp_all
    then have "is_before_start_message e1 = is_before_start_message e"
      by (intro ext is_before_start_message_cong)
    then show ?case using Cons.IH [of e1] Cons.prems d out kept by simp
  qed simp
  then show "fst (deliver_all lb env n xs e) = Inr ()"
    "eg_out (snd (deliver_all lb env n xs e)) =
       eg_out e @ map Inr (filter (\<lambda>x. \<not> is_before_start_message e (fst x)) xs)"
    "eg_dlq (snd (deliver_all lb env n xs e)) = eg_dlq e"
    by blast+
qed

text \<open>The identifier and the payload of the \<open>i\<close>-th message of a batch as a consumer sees them.\<close>

definition batch_entry :: "message_id_data \<Rightarrow> metadata \<Rightarrow> producer_message list \<Rightarrow> nat \<Rightarrow>
    message_id_data \<times> payload" where
  "batch_entry mid md ms i =
     (with_batch (Some (int i)) (Some (int (length ms))) mid,
      \<lparr>pl_metadata = item_metadata md (batched_of (ms ! i)), pl_data = pm_payload (ms ! i)\<rparr>)"

lemma unpack_batch_message:
  assumes "\<forall>m \<in> set ms. single_ok w (batched_of m)" and "length ms < 2 ^ 31"
    and "md_num_messages_in_batch md = Some (i32_of_usize (length ms))"
  shows "unpack w mid \<lparr>pl_metadata = md, pl_data = fold (serialize w) (map batched_of ms) []\<rparr>
    = Inr (map (batch_entry mid md ms) [0..<length ms])"
proof -
  let ?it = "\<lparr>it_messages = map batched_of ms, it_message_id = mid, it_metadata = md,
    it_total_messages = of_nat (length ms), it_current_index = 0\<rparr>"
  have n: "unat (of_nat (length ms) :: u32) = length ms"
    using assms(2) by (simp add: unat_of_nat take_bit_nat_eq_self)
  have "batch_iterator_collect ?it = map (batch_entry mid md ms) [0..<length ms]"
    using batch_iterator_collect_enumerate [of ?it] assms(2) n
    by (intro nth_equalityI) (simp_all add: nth_enumerate_eq batch_entry_def batched_of_def)
  then show ?thesis
    using batch_iterator_new_batch_message [OF assms, of mid] assms(3) by (simp add: unpack_def)
qed

text \<open>A batch, compressed, published and received, before filtering.\<close>

lemma payload_of_sent_batch:
  assumes "\<forall>m \<in> set ms. single_ok w (batched_of m)" and "length ms < 2 ^ 31"
    and "codecs_invert cd (pm_payload (batch_message w sv ms))"
    and "length (pm_payload (batch_message w sv ms)) < 2 ^ 31"
    and "compress_message cd (batch_message w sv ms) c = Inr m'"
    and "msg_payload (msg_send now pid name sid m') = Some pl"
  shows "reject_chunked_message (pl_metadata pl) = Inr ()"
    "rbind (decompress_payload cd pl) (unpack w mid)
       = Inr (map (batch_entry mid (pl_metadata pl) ms) [0..<length ms])"
proof -
  show "reject_chunked_message (pl_metadata pl) = Inr ()"
    using assms(6) by (auto simp: reject_chunked_message_def msg_send_def metadata_default_def)
  have "pm_compression (batch_message w sv ms) = None"
    by (simp add: batch_message_def producer_message_default_def)
  from decompress_compressed [OF assms(3,4) this assms(5,6)]
  have "decompress_payload cd pl = Inr (pl\<lparr>pl_data := pm_payload (batch_message w sv ms)\<rparr>)" .
  moreover have "pl\<lparr>pl_data := pm_payload (batch_message w sv ms)\<rparr>
      = \<lparr>pl_metadata = pl_metadata pl, pl_data = fold (serialize w) (map batched_of ms) []\<rparr>"
    by (cases pl) (simp add: batch_message_def)
  moreover have "md_num_messages_in_batch (pl_metadata pl) = Some (i32_of_usize (length ms))"
    using assms(6) compress_message_keeps [OF assms(5)]
    by (auto simp: msg_send_def batch_message_def)
  ultimately show "rbind (decompress_payload cd pl) (unpack w mid)
       = Inr (map (batch_entry mid (pl_metadata pl) ms) [0..<length ms])"
    using unpack_batch_message [OF assms(1,2)] by simp
qed

lemma process_sent_batch:
  assumes "\<forall>m \<in> set ms. single_ok (lb_wire lb) (batched_of m)" and "length ms < 2 ^ 31"
    and "codecs_invert (lb_codecs lb) (pm_payload (batch_message (lb_wire lb) sv ms))"
    and "length (pm_payload (batch_message (lb_wire lb) sv ms)) < 2 ^ 31"
    and "compress_message (lb_codecs lb) (batch_message (lb_wire lb) sv ms) c = Inr m'"
    and "msg_payload (msg_send now pid name sid m') = Some pl"
    and "eg_tx_open e" and "exhausted (eg_dead_letter e) (cm_redelivery_count msg) = None"
  shows "fst (process_payload lb env msg pl e) = Inr ()"
    "eg_out (snd (process_payload lb env msg pl e)) = eg_out e @ map Inr (filter
       (\<lambda>x. \<not> is_before_start_message e (fst x))
       (map (batch_entry (cm_message_id msg) (pl_metadata pl) ms) [0..<length ms]))"
  using payload_of_sent_batch [OF assms(1-6)] deliver_all_out [OF assms(7,8)]
  by (simp_all add: process_payload_def)

lemma map_of_collect_properties:
  "map_of (collect_properties kvs) = map_of (rev (map (\<lambda>p. (kv_key p, kv_value p)) kvs))"
proof -
  have "map_of (foldl (\<lambda>ps p. AList.update (kv_key p) (kv_value p) ps) ps kvs)
      = map_of ps ++ map_of (rev (map (\<lambda>p. (kv_key p, kv_value p)) kvs))" for ps
    by (induction kvs arbitrary: ps) (simp_all add: AList.update_conv' map_add_assoc)
  then show ?thesis by (simp add: collect_properties_def)
qed

lemma map_of_or_insert:
  "map_of (or_insert k v ps) k' =
     (if k' = k \<and> map_of ps k = None then Some v else map_of ps k')"
  by (simp add: or_insert_def map_add_def split: option.split)

section \<open>Properties\<close>

text \<open>The libraries and the state of an engine for the witnesses.\<close>

definition example_libs :: engine_libs where
  "example_libs =
     \<lparr>lb_wire = \<lparr>enc_command = (\<lambda>c. []), dec_command = (\<lambda>bs. Inr base_command_default),
        enc_metadata = (\<lambda>md. []), dec_metadata = (\<lambda>bs. Inr metadata_default),
        enc_single = (\<lambda>md. []), dec_single = (\<lambda>bs. Inr (bm_metadata (batched_of producer_message_default))),
        crc32c = (\<lambda>bs. 0)\<rparr>,
      lb_codecs = \<lparr>lz4_compress = (\<lambda>l bs. Inr (rev bs)), zlib_compress = (\<lambda>l bs. Inr (rev bs)),
        zstd_compress = (\<lambda>l bs. Inr (rev bs)), snappy_compress = (\<lambda>bs. Inr (rev bs)),
        lz4_decompress = (\<lambda>bs n. Inr (rev bs)), zlib_decompress = (\<lambda>bs. Inr (rev bs)),
        zstd_decompress = (\<lambda>bs. Inr (rev bs)), snappy_decompress = (\<lambda>bs. Inr (rev bs))\<rparr>,
      lb_b64_decode = (\<lambda>bs. Some bs)\<rparr>"

definition example_engine :: engine where
  "example_engine = engine_new (conn_new 10 (broker_features_from None)) ''orders'' 3 1000 (Some 5)
     (Some \<lparr>max_redeliver_count = 2, dead_letter_topic = ''dlq''\<rparr>)
     (starting_on_message (MessageIdData 7 8 None (Some 0) [] None None) consumer_options_default)"

definition example_turn_env :: turn_env where
  "example_turn_env =
     \<lparr>tv_conn = (\<lambda>c. c), tv_spawn = True, tv_event = Event_timeout, tv_clock = (\<lambda>i. 100),
      tv_dlq = (\<lambda>i. Inr (Inr \<lparr>sr_producer_id = 1, sr_sequence_id = 0, sr_message_id = None,
        sr_highest_sequence_id = None\<rparr>)),
      tv_resubscribe = \<lparr>rs_close_resolver = 0, rs_close_answer = Timed_out, rs_lookup = Inl Executor,
        rs_options = operation_retry_options_default, rs_connect = Inl Disconnected, rs_attempts = [],
        rs_flow = (\<lambda>i. Inr ()), rs_connections = (\<lambda>i. conn_new 10 (broker_features_from None))\<rparr>\<rparr>"

definition example_batch :: "producer_message list" where
  "example_batch = [producer_message_default, producer_message_default]"

lemma example_batch_ok:
  "\<forall>m \<in> set example_batch. single_ok (lb_wire example_libs) (batched_of m)"
  "codecs_invert (lb_codecs example_libs) bs" "length example_batch = 2"
  by (simp_all add: example_batch_def single_ok_def example_libs_def batched_of_def
      single_metadata_default_def producer_message_default_def i32_of_usize_def codecs_invert_def)

lemma example_batch_payload:
  "pm_payload (batch_message (lb_wire example_libs) None example_batch) = [0, 0, 0, 0, 0, 0, 0, 0]"
  by (simp add: batch_message_def example_batch_def example_libs_def serialize_def be32_def
      batched_of_def producer_message_default_def u32_of_usize_def)



text \<open>
  C2. Resuming skips what was processed and nothing else. A reader of a persistent topic that
  starts from the identifier of message \<open>k\<close> of a batch is handed, of that batch, exactly the
  messages after the \<open>k\<close>-th, or from the \<open>k\<close>-th on when the start is inclusive, in order, and
  reports no error.
\<close>

theorem resume_skips_exactly_the_processed:
  assumes "\<forall>m \<in> set ms. single_ok (lb_wire lb) (batched_of m)" and "length ms < 2 ^ 31"
    and "codecs_invert (lb_codecs lb) (pm_payload (batch_message (lb_wire lb) sv ms))"
    and "length (pm_payload (batch_message (lb_wire lb) sv ms)) < 2 ^ 31"
    and "compress_message (lb_codecs lb) (batch_message (lb_wire lb) sv ms) c = Inr m'"
    and "msg_payload (msg_send now pid name sid m') = Some pl"
    and "eg_tx_open e" and "exhausted (eg_dead_letter e) (cm_redelivery_count msg) = None"
    and "is_persistent_topic (eg_topic e)" and "k < length ms"
    and "co_start_message_id (eg_options e)
      = Some (fst (batch_entry (cm_message_id msg) (pl_metadata pl) ms k))"
    and "process_payload lb env msg pl e = (r, e')"
  shows "r = Inr () \<and> eg_out e' = eg_out e @
    map (\<lambda>i. Inr (batch_entry (cm_message_id msg) (pl_metadata pl) ms i))
      [(if co_start_message_id_inclusive (eg_options e) then k else Suc k)..<length ms]"
proof -
  let ?j = "if co_start_message_id_inclusive (eg_options e) then k else Suc k"
  have "\<not> is_before_start_message e (fst (batch_entry (cm_message_id msg) (pl_metadata pl) ms i)) \<longleftrightarrow> ?j \<le> i"
    for i using assms(9,11) by (auto simp: is_before_start_message_def batch_entry_def)
  moreover have "filter (\<lambda>i. ?j \<le> i) [0..<length ms] = [?j..<length ms]"
  proof -
    have "[0..<length ms] = [0..<?j] @ [?j..<length ms]"
      using upt_add_eq_append [of 0 ?j "length ms - ?j"] assms(10) by auto
    then show ?thesis by (simp add: filter_empty_conv)
  qed
  ultimately show ?thesis
    using process_sent_batch [OF assms(1-8), of env] assms(12) by (simp add: filter_map o_def)
qed

theorem resume_skips_exactly_the_processed_witness:
  "\<exists>pl x. eg_out (snd (process_payload example_libs example_turn_env
       \<lparr>cm_consumer_id = 3, cm_message_id = MessageIdData 7 8 None None [] None None,
        cm_redelivery_count = None, cm_ack_set = [], cm_consumer_epoch = None\<rparr> pl
       (example_engine\<lparr>eg_options := starting_on_message
         (MessageIdData 7 8 None (Some 0) [] (Some 2) None) consumer_options_default\<rparr>)))
     = [Inr (with_batch (Some 1) (Some 2) (MessageIdData 7 8 None None [] None None), x)]"
proof -
  let ?m = "batch_message (lb_wire example_libs) None example_batch"
  let ?e = "example_engine\<lparr>eg_options := starting_on_message
         (MessageIdData 7 8 None (Some 0) [] (Some 2) None) consumer_options_default\<rparr>"
  let ?msg = "\<lparr>cm_consumer_id = 3, cm_message_id = MessageIdData 7 8 None None [] None None,
        cm_redelivery_count = None, cm_ack_set = [], cm_consumer_epoch = None\<rparr> :: command_message"
  have comp: "compress_message (lb_codecs example_libs) ?m None = Inr ?m" by simp
  obtain pl where pl: "msg_payload (msg_send 0 1 ''p'' 0 ?m) = Some pl" by (simp add: msg_send_def)
  obtain r e' where pp: "process_payload example_libs example_turn_env ?msg pl ?e = (r, e')"
    by fastforce
  have "r = Inr () \<and> eg_out e' = eg_out ?e @
      map (\<lambda>i. Inr (batch_entry (cm_message_id ?msg) (pl_metadata pl) example_batch i))
        [(if co_start_message_id_inclusive (eg_options ?e) then 0 else Suc 0)..<length example_batch]"
  proof (rule resume_skips_exactly_the_processed
      [OF example_batch_ok(1) _ example_batch_ok(2) _ comp pl _ _ _ _ _ pp])
    show "length example_batch < 2 ^ 31" "length (pm_payload ?m) < 2 ^ 31"
      by (simp_all add: example_batch_ok(3) example_batch_payload)
  qed (simp_all add: example_engine_def engine_new_def exhausted_def starting_on_message_def
      is_persistent_topic_def starts_with_def batch_entry_def example_batch_ok(3))
  then show ?thesis
    using pp by - (rule exI [of _ pl], rule exI [of _ "snd (batch_entry (cm_message_id ?msg)
        (pl_metadata pl) example_batch 1)"],
      simp add: example_batch_ok(3) example_engine_def engine_new_def starting_on_message_def
        consumer_options_default_def batch_entry_def upt_rec [of "Suc 0" 2])
qed

text \<open>
  C28. A message that was redelivered as often as the policy allows goes to the dead letter topic
  and not to the application. The re-published message carries the payload, the null marker,
  the key, the ordering key, the event time and every property of the original, and names the
  topic and the identifier it came from unless the original already did. The original is
  acknowledged if and only if the dead letter topic confirmed its copy: otherwise nothing is
  acknowledged and an error is reported, so the message is not lost.
\<close>

theorem dead_letter_takes_over:
  assumes "eg_dead_letter e = Some p" and "max_redeliver_count p \<le> unat n"
    and "\<not> is_before_start_message e mid"
    and "deliver_one lb env (Some n) (mid, pl) e = (r, e')"
    and "original = map_of (rev (map (\<lambda>p. (kv_key p, kv_value p)) (md_properties (pl_metadata pl))))"
    and "confirmed \<longleftrightarrow> (\<exists>receipt. tv_dlq env (length (eg_dlq e)) = Inr (Inr receipt))"
  shows "eg_out e' = eg_out e
    \<and> (\<exists>m. eg_dlq e' = eg_dlq e @ [(dead_letter_topic p, m)]
      \<and> m_payload m = (if md_null_value (pl_metadata pl) = Some True then None else Some (pl_data pl))
      \<and> m_partition_key m = from_metadata (lb_b64_decode lb) (md_partition_key (pl_metadata pl))
          (md_partition_key_b64_encoded (pl_metadata pl)) (md_null_partition_key (pl_metadata pl))
      \<and> m_ordering_key m = md_ordering_key (pl_metadata pl)
      \<and> m_event_time m = md_event_time (pl_metadata pl)
      \<and> map_of (m_properties m) =
          [''ORIGIN_MESSAGE_ID'' \<mapsto> origin_message_id mid, ''REAL_TOPIC'' \<mapsto> eg_topic e] ++ original)
    \<and> (r = Inr () \<longleftrightarrow> confirmed)
    \<and> eg_unacked e' = (if confirmed then AList.delete mid (eg_unacked e) else eg_unacked e)
    \<and> sn_control (eg_conn e') = sn_control (eg_conn e) @
        (if confirmed \<and> sn_sink_open (eg_conn e) then [msg_ack (eg_id e) [mid] False] else [])"
proof -
  let ?m = "dead_letter_message (lb_b64_decode lb) (eg_topic e) mid pl"
  have step: "deliver_one lb env (Some n) (mid, pl) e
      = send_to_dead_letter lb env (dead_letter_topic p) mid pl e"
    using assms(1-3) by (simp add: deliver_one_def exhausted_def)
  have props: "map_of (m_properties ?m) =
      [''ORIGIN_MESSAGE_ID'' \<mapsto> origin_message_id mid, ''REAL_TOPIC'' \<mapsto> eg_topic e] ++ original"
    by (rule ext) (auto simp: dead_letter_message_def dead_letter_properties_def map_of_or_insert
        map_of_collect_properties assms(5) map_add_def message_default_def Let_def split: option.split)
  have rest: "eg_out e' = eg_out e" "eg_dlq e' = eg_dlq e @ [(dead_letter_topic p, ?m)]"
    "r = Inr () \<longleftrightarrow> confirmed"
    "eg_unacked e' = (if confirmed then AList.delete mid (eg_unacked e) else eg_unacked e)"
    "sn_control (eg_conn e') = sn_control (eg_conn e) @
        (if confirmed \<and> sn_sink_open (eg_conn e) then [msg_ack (eg_id e) [mid] False] else [])"
    using assms(4,6) unfolding step
    by (auto simp: send_to_dead_letter_def engine_ack_def conn_send_ack_def send_control_def Let_def
        split: sum.splits)
  show ?thesis
    using rest props by (simp add: dead_letter_message_def message_default_def Let_def)
qed

theorem dead_letter_takes_over_witness:
  "\<exists>m. eg_dlq (snd (deliver_one example_libs example_turn_env (Some 2)
        (MessageIdData 7 9 None None [] None None, \<lparr>pl_metadata = metadata_default, pl_data = [5]\<rparr>)
        example_engine)) = [(''dlq'', m)]
     \<and> m_payload m = Some [5] \<and> map_of (m_properties m) ''REAL_TOPIC'' = Some ''orders''
     \<and> map_of (m_properties m) ''ORIGIN_MESSAGE_ID'' = Some ''7:9:-1''"
proof -
  let ?mid = "MessageIdData 7 9 None None [] None None"
  let ?pl = "\<lparr>pl_metadata = metadata_default, pl_data = [5]\<rparr>"
  obtain r e' where d: "deliver_one example_libs example_turn_env (Some 2) (?mid, ?pl) example_engine = (r, e')"
    by fastforce
  have pol: "eg_dead_letter example_engine = Some \<lparr>max_redeliver_count = 2, dead_letter_topic = ''dlq''\<rparr>"
    "\<not> is_before_start_message example_engine ?mid" "eg_dlq example_engine = []"
    "eg_topic example_engine = ''orders''"
    by (simp_all add: example_engine_def engine_new_def is_before_start_message_def starting_on_message_def)
  have "max_redeliver_count \<lparr>max_redeliver_count = 2, dead_letter_topic = ''dlq''\<rparr> \<le> unat (2 :: u32)"
    by simp
  note res = dead_letter_takes_over [OF pol(1) this pol(2) d refl refl]
  have "md_properties metadata_default = []" "md_null_value metadata_default = None"
    by (simp_all add: metadata_default_def)
  moreover have "origin_message_id ?mid = ''7:9:-1''"
    by code_simp
  ultimately show ?thesis
    using res pol d by auto
qed

text \<open>
  A cumulative acknowledgement forgets the redelivery deadline of the named message only: the
  messages before it, which the broker now holds for acknowledged, keep theirs, and their
  redelivery is requested when it passes.
\<close>

theorem cumulative_ack_leaves_earlier_ids:
  "expired 6 (engine_ack (MessageIdData 7 9 None None [] None None) True
     (example_engine\<lparr>eg_unacked := [(MessageIdData 7 8 None None [] None None, 5),
        (MessageIdData 7 9 None None [] None None, 5)]\<rparr>))
   = [MessageIdData 7 8 None None [] None None]"
  by (simp add: expired_def engine_ack_def)

text \<open>
  A dead letter topic that does not take a message ends the handling of the whole entry: the
  later messages of its batch are neither delivered nor offered to the dead letter topic.
\<close>

theorem dead_letter_failure_skips_rest_of_batch:
  assumes "exhausted (eg_dead_letter e) n = Some dl_topic" and "\<not> is_before_start_message e mid"
    and "tv_dlq env (length (eg_dlq e)) = Inl err"
  shows "\<exists>e'. deliver_all lb env n ((mid, pl) # xs) e = (Inl err, e') \<and> eg_out e' = eg_out e
    \<and> length (eg_dlq e') = Suc (length (eg_dlq e))"
  using assms by (simp add: deliver_one_def send_to_dead_letter_def Let_def)

end
