(* ===== verification/Engine_Loop.thy ===== *)
theory Engine_Loop
  imports Engine
begin

text \<open>
  The loop of the consumer engine (\<open>ConsumerEngine::engine\<close> and what it calls in
  \<open>consumer/engine.rs\<close>): one turn checks the connection, registers new message sources, grants
  flow permits, waits for an event and handles it. A run is a list of turns, each with what the
  engine's surroundings did and answered.
\<close>

section \<open>Reconnecting\<close>

text \<open>\<open>None\<close>: the attempts to subscribe given have all failed and the next one is awaited.\<close>

definition reconnect :: "resubscribe_env \<Rightarrow> engine \<Rightarrow> (error, unit) result option \<times> engine" where
  "reconnect rs e =
     (let e1 = e\<lparr>eg_conn := snd (conn_close_consumer (eg_id e) (rs_close_resolver rs)
            (rs_close_answer rs) (eg_conn e))\<rparr>
      in case rs_lookup rs of
           Inl err \<Rightarrow> (Some (Inl err), e1)
         | Inr _ \<Rightarrow>
             (case retry_subscribe_consumer (rs_options rs) (rs_connect rs) (rs_attempts rs) (rs_flow rs) of
                None \<Rightarrow> (None, e1)
              | Some (Inl err) \<Rightarrow> (Some (Inl err), e1)
              | Some (Inr c) \<Rightarrow>
                  (Some (Inr ()), e1\<lparr>eg_conn := rs_connections rs c,
                     eg_remaining := uint (eg_batch_size e), eg_messages_rx := True\<rparr>)))"

section \<open>Handling what the broker sends\<close>

definition process_message :: "engine_libs \<Rightarrow> turn_env \<Rightarrow> raw_message \<Rightarrow> engine \<Rightarrow>
    (error, bool) result option \<times> engine" where
  "process_message lb env msg e =
     (let c = command msg in
      if reached_end_of_topic c \<noteq> None then (Some (Inr False), e)
      else if active_consumer_change c \<noteq> None then (Some (Inr True), e)
      else case (message c, msg_payload msg) of
        (Some m, Some pl) \<Rightarrow>
          (let (r, e1) = process_payload lb env m pl e in (Some (rmap (\<lambda>_. True) r), e1))
      | (Some m, None) \<Rightarrow> (Some (Inr True), e)
      | (None, _) \<Rightarrow>
          (if close_consumer c \<noteq> None
           then (let (r, e1) = reconnect (tv_resubscribe env) e
                 in (map_option (rmap (\<lambda>_. True)) r, e1))
           else (Some (Inr True), e)))"

text \<open>How many of the permitted messages a message uses up.\<close>

definition message_weight :: "raw_message \<Rightarrow> int" where
  "message_weight msg =
     (case Option.bind (msg_payload msg) (\<lambda>pl. md_num_messages_in_batch (pl_metadata pl)) of
        Some n \<Rightarrow> n | None \<Rightarrow> 1)"

datatype progress = Continue | Return_engine "(error, unit) result" | Pending_engine

definition handle_message_opt :: "engine_libs \<Rightarrow> turn_env \<Rightarrow> raw_message option \<Rightarrow> engine \<Rightarrow>
    progress \<times> engine" where
  "handle_message_opt lb env message_opt e =
     (case message_opt of
        None \<Rightarrow> (Continue, e)
      | Some msg \<Rightarrow>
          (case process_message lb env msg (e\<lparr>eg_remaining := eg_remaining e - message_weight msg\<rparr>) of
             (None, e1) \<Rightarrow> (Pending_engine, e1)
           | (Some (Inr True), e1) \<Rightarrow> (Continue, e1)
           | (Some (Inr False), e1) \<Rightarrow> (Return_engine (Inr ()), e1)
           | (Some (Inl err), e1) \<Rightarrow>
               (if eg_tx_open e1 then (Continue, e1\<lparr>eg_out := eg_out e1 @ [Inl err]\<rparr>)
                else (Return_engine (Inl (Consumer Closed_consumer)), e1))))"

section \<open>A turn\<close>

definition check_connection :: "turn_env \<Rightarrow> engine \<Rightarrow> (error, unit) result option \<times> engine" where
  "check_connection env e =
     (if conn_is_valid (eg_conn e) then (Some (Inr ()), e)
      else case conn_take_error (eg_conn e) of
        (Some err, c) \<Rightarrow> reconnect (tv_resubscribe env) (e\<lparr>eg_conn := c\<rparr>)
      | (None, c) \<Rightarrow> (Some (Inr ()), e\<lparr>eg_conn := c\<rparr>))"

definition register_sources :: "turn_env \<Rightarrow> engine \<Rightarrow> (error, unit) result \<times> engine" where
  "register_sources env e =
     (if eg_messages_rx e \<and> \<not> tv_spawn env
      then (Inl (Custom ''Error registering messages_rx source''), e\<lparr>eg_messages_rx := False\<rparr>)
      else if eg_engine_rx e \<and> \<not> tv_spawn env
      then (Inl (Custom ''Error registering engine_rx source''), e\<lparr>eg_engine_rx := False\<rparr>)
      else (Inr (), e\<lparr>eg_messages_rx := False, eg_engine_rx := False\<rparr>))"

definition half_queue :: "u32 \<Rightarrow> int" where
  "half_queue n = (uint n + 1) div 2"

definition needs_flow :: "engine \<Rightarrow> bool" where
  "needs_flow e \<longleftrightarrow> eg_remaining e < half_queue (eg_batch_size e)"

definition flow_permits :: "engine \<Rightarrow> u32" where
  "flow_permits e = word_of_int (uint (eg_batch_size e) - eg_remaining e)"

datatype flow_outcome = Flow_ok | Flow_again | Flow_failed connection_error

definition grant_flow :: "engine \<Rightarrow> flow_outcome \<times> engine" where
  "grant_flow e =
     (if needs_flow e then
        (case conn_send_flow (eg_id e) (flow_permits e) (eg_conn e) of
           (Inr _, c) \<Rightarrow> (Flow_ok, e\<lparr>eg_conn := c, eg_remaining := uint (eg_batch_size e)\<rparr>)
         | (Inl err, c) \<Rightarrow>
             (if err = Disconnected then (Flow_again, e\<lparr>eg_conn := c\<rparr>)
              else (Flow_failed err, e\<lparr>eg_conn := c\<rparr>)))
      else (Flow_ok, e))"

definition handle_event :: "engine_libs \<Rightarrow> turn_env \<Rightarrow> engine \<Rightarrow> progress \<times> engine" where
  "handle_event lb env e =
     (case tv_event env of
        Event_timeout \<Rightarrow> (Continue, e)
      | Message_event msg \<Rightarrow> handle_message_opt lb env msg e
      | Engine_message_event msg \<Rightarrow>
          (let (continue_loop, e1) = handle_ack_opt (tv_clock env (length (eg_out e))) msg e
           in (if continue_loop then Continue else Return_engine (Inr ()), e1))
      | Events_terminated \<Rightarrow> (Return_engine (Inr ()), e))"

text \<open>What happens before the engine waits for an event; \<open>None\<close> lets the turn go on to it.\<close>

definition before_event :: "turn_env \<Rightarrow> engine \<Rightarrow> progress option \<times> engine" where
  "before_event env e =
     (case check_connection env (e\<lparr>eg_conn := tv_conn env (eg_conn e)\<rparr>) of
        (None, e1) \<Rightarrow> (Some Pending_engine, e1)
      | (Some (Inl err), e1) \<Rightarrow> (Some (Return_engine (Inl err)), e1)
      | (Some (Inr _), e1) \<Rightarrow>
          (case register_sources env e1 of
             (Inl err, e2) \<Rightarrow> (Some (Return_engine (Inl err)), e2)
           | (Inr _, e2) \<Rightarrow>
               (case grant_flow e2 of
                  (Flow_ok, e3) \<Rightarrow> (None, e3)
                | (Flow_again, e3) \<Rightarrow> (Some Continue, e3)
                | (Flow_failed err, e3) \<Rightarrow> (Some (Return_engine (Inl (Connection err))), e3))))"

definition engine_turn :: "engine_libs \<Rightarrow> turn_env \<Rightarrow> engine \<Rightarrow> progress \<times> engine" where
  "engine_turn lb env e =
     (case before_event env e of
        (Some p, e1) \<Rightarrow> (p, e1)
      | (None, e1) \<Rightarrow> handle_event lb env e1)"

fun engine_run :: "engine_libs \<Rightarrow> turn_env list \<Rightarrow> engine \<Rightarrow> progress \<times> engine" where
  "engine_run lb [] e = (Continue, e)"
| "engine_run lb (env # envs) e =
     (case engine_turn lb env e of
        (Continue, e1) \<Rightarrow> engine_run lb envs e1
      | (p, e1) \<Rightarrow> (p, e1))"

text \<open>\<open>Drop\<close>: the subscription is closed when the engine goes away.\<close>

definition engine_drop :: "nat \<Rightarrow> raw_message answer \<Rightarrow> engine \<Rightarrow> conn" where
  "engine_drop resolver ans e = snd (conn_close_consumer (eg_id e) resolver ans (eg_conn e))"

section \<open>What no operation of the engine changes\<close>

text \<open>The configuration of an engine and the openness of its channel to the consumer.\<close>

definition config_of where
  "config_of e = (eg_topic e, eg_id e, eg_tx_open e, eg_batch_size e, eg_redelivery_delay e,
     eg_dead_letter e, eg_options e)"

lemma config_of_deliver_all [simp]: "config_of (snd (deliver_all lb env n xs e)) = config_of e"
  by (simp add: config_of_def deliver_all_frame)

lemma config_of_process_payload [simp]: "config_of (snd (process_payload lb env m pl e)) = config_of e"
  by (simp add: process_payload_def split: sum.split)

lemma config_of_reconnect [simp]: "config_of (snd (reconnect rs e)) = config_of e"
  by (simp add: reconnect_def config_of_def Let_def split: sum.split option.split)

lemma config_of_process_message [simp]: "config_of (snd (process_message lb env msg e)) = config_of e"
  by (simp add: process_message_def Let_def case_prod_beta split: option.split)

lemma config_of_handle_message_opt [simp]:
  "config_of (snd (handle_message_opt lb env msg e)) = config_of e"
proof (cases msg)
  case (Some m)
  obtain r e1 where p: "process_message lb env m (e\<lparr>eg_remaining := eg_remaining e - message_weight m\<rparr>) = (r, e1)"
    by fastforce
  then have "config_of e1 = config_of e"
    using config_of_process_message [of lb env m "e\<lparr>eg_remaining := eg_remaining e - message_weight m\<rparr>"]
    by (simp add: config_of_def)
  then show ?thesis
    using Some p by (simp add: handle_message_opt_def config_of_def split: option.split sum.split bool.split)
qed (simp add: handle_message_opt_def)

lemma config_of_handle_ack_opt [simp]: "config_of (snd (handle_ack_opt now msg e)) = config_of e"
  by (cases "(now, msg, e)" rule: handle_ack_opt.cases)
     (simp_all add: config_of_def engine_ack_def request_redelivery_def Let_def split: prod.split sum.split)

lemma config_of_handle_event [simp]: "config_of (snd (handle_event lb env e)) = config_of e"
  by (simp add: handle_event_def case_prod_beta split: engine_event.split)

lemma config_of_check_connection [simp]: "config_of (snd (check_connection env e)) = config_of e"
  by (simp add: check_connection_def split: option.split prod.split) (simp add: config_of_def)

lemma config_of_register_sources [simp]: "config_of (snd (register_sources env e)) = config_of e"
  by (simp add: register_sources_def config_of_def)

lemma config_of_grant_flow [simp]: "config_of (snd (grant_flow e)) = config_of e"
  by (simp add: grant_flow_def config_of_def split: prod.split sum.split)

lemma config_of_before_event [simp]: "config_of (snd (before_event env e)) = config_of e"
proof -
  obtain r e1 where c: "check_connection env (e\<lparr>eg_conn := tv_conn env (eg_conn e)\<rparr>) = (r, e1)" by fastforce
  obtain r2 e2 where s: "register_sources env e1 = (r2, e2)" by fastforce
  obtain r3 e3 where g: "grant_flow e2 = (r3, e3)" by fastforce
  have "config_of e1 = config_of e" "config_of e2 = config_of e1" "config_of e3 = config_of e2"
    using config_of_check_connection [of env "e\<lparr>eg_conn := tv_conn env (eg_conn e)\<rparr>"]
      config_of_register_sources [of env e1] config_of_grant_flow [of e2] c s g
    by (simp_all add: config_of_def)
  then show ?thesis
    by (simp add: before_event_def c s g split: option.split sum.split flow_outcome.split)
qed

lemma config_of_engine_turn [simp]: "config_of (snd (engine_turn lb env e)) = config_of e"
  using config_of_before_event [of env e]
  by (simp add: engine_turn_def case_prod_beta split: option.split del: config_of_before_event)

lemma config_ofD: "config_of e' = config_of e \<Longrightarrow> eg_batch_size e' = eg_batch_size e"
  "config_of e' = config_of e \<Longrightarrow> eg_redelivery_delay e' = eg_redelivery_delay e"
  "config_of e' = config_of e \<Longrightarrow> eg_tx_open e' = eg_tx_open e"
  "config_of e' = config_of e \<Longrightarrow> eg_id e' = eg_id e"
  by (simp_all add: config_of_def)

section \<open>Accounting for flow permits\<close>

text \<open>
  The engine beside the account the broker keeps of it: the permits granted since the current
  subscription and the messages it has sent against them. A subscription, new while its message
  source is not registered yet, starts with a full queue of permits.
\<close>

fun event_weight :: "engine_event \<Rightarrow> int" where
  "event_weight (Message_event (Some msg)) = message_weight msg"
| "event_weight _ = 0"

definition ledger_turn :: "engine_libs \<Rightarrow> turn_env \<Rightarrow> engine \<times> int \<times> int \<Rightarrow> engine \<times> int \<times> int" where
  "ledger_turn lb env l =
     (case l of (e, granted, used) \<Rightarrow>
       (let e1 = snd (check_connection env (e\<lparr>eg_conn := tv_conn env (eg_conn e)\<rparr>));
            waits = (fst (before_event env e) = None);
            (granted1, used1) = (if eg_messages_rx e1 then (uint (eg_batch_size e), 0) else (granted, used));
            granted2 = (if waits \<and> needs_flow e1 then granted1 + uint (flow_permits e1) else granted1);
            used2 = (if waits then used1 + event_weight (tv_event env) else used1)
        in (snd (engine_turn lb env e), granted2, used2)))"

definition ledger_ok :: "engine \<times> int \<times> int \<Rightarrow> bool" where
  "ledger_ok l \<longleftrightarrow>
     (case l of (e, granted, used) \<Rightarrow>
       (if eg_messages_rx e then eg_remaining e = uint (eg_batch_size e)
        else eg_remaining e = granted - used) \<and>
       half_queue (eg_batch_size e) - 2 ^ 31 \<le> eg_remaining e)"

lemma half_queue_bounds: "0 \<le> half_queue n" "half_queue n \<le> uint n" "uint n - half_queue n < 2 ^ 31"
proof -
  define u where "u = uint n"
  then have "u < 2 ^ 32" "0 \<le> u" using uint_lt2p [of n] by simp_all
  then have "0 \<le> (u + 1) div 2 \<and> (u + 1) div 2 \<le> u \<and> u - (u + 1) div 2 < 2 ^ 31" by simp presburger
  then show "0 \<le> half_queue n" "half_queue n \<le> uint n" "uint n - half_queue n < 2 ^ 31"
    by (simp_all add: half_queue_def u_def)
qed

lemma uint_flow_permits:
  assumes "needs_flow e" and "half_queue (eg_batch_size e) - 2 ^ 31 \<le> eg_remaining e"
  shows "uint (flow_permits e) = uint (eg_batch_size e) - eg_remaining e"
proof -
  have "0 \<le> uint (eg_batch_size e) - eg_remaining e" "uint (eg_batch_size e) - eg_remaining e < 2 ^ 32"
    using assms half_queue_bounds [of "eg_batch_size e"] by (simp_all add: needs_flow_def)
  then show ?thesis unfolding flow_permits_def by (simp only: uint_word_of_int) simp
qed

lemma reconnect_remaining:
  assumes "reconnect rs e = (r, e')"
  shows "eg_remaining e' = eg_remaining e \<and> eg_messages_rx e' = eg_messages_rx e
    \<or> eg_remaining e' = uint (eg_batch_size e) \<and> eg_messages_rx e'"
  using assms by (auto simp: reconnect_def Let_def split: sum.splits option.splits)

lemma check_connection_remaining:
  assumes "check_connection env e = (r, e')"
  shows "eg_remaining e' = eg_remaining e \<and> eg_messages_rx e' = eg_messages_rx e
    \<or> eg_remaining e' = uint (eg_batch_size e) \<and> eg_messages_rx e'"
  using assms
  by (auto simp: check_connection_def split: if_splits option.splits prod.splits dest!: reconnect_remaining)

lemma register_sources_remaining:
  assumes "register_sources env e = (r, e')"
  shows "eg_remaining e' = eg_remaining e" "eg_conn e' = eg_conn e"
    "r = Inr () \<Longrightarrow> \<not> eg_messages_rx e'" "eg_messages_rx e' \<Longrightarrow> eg_messages_rx e"
  using assms by (auto simp: register_sources_def split: if_splits)

lemma handle_message_opt_remaining:
  assumes "handle_message_opt lb env msg e = (p, e')"
  shows "eg_remaining e' = eg_remaining e - event_weight (Message_event msg)
      \<and> eg_messages_rx e' = eg_messages_rx e
    \<or> eg_remaining e' = uint (eg_batch_size e) \<and> eg_messages_rx e'"
proof (cases msg)
  case (Some m)
  let ?e = "e\<lparr>eg_remaining := eg_remaining e - message_weight m\<rparr>"
  obtain r e1 where pm: "process_message lb env m ?e = (r, e1)" by fastforce
  have rx: "eg_messages_rx (snd (deliver_one lb env n x e)) = eg_messages_rx e" for n x e
    by (simp add: deliver_one_def send_to_dead_letter_def send_to_consumer_def engine_ack_def Let_def
        split: option.split sum.split)
  have pp: "eg_messages_rx (snd (process_payload lb env c pl e)) = eg_messages_rx e"
    "eg_remaining (snd (process_payload lb env c pl e)) = eg_remaining e" for c pl e
    by (simp_all add: process_payload_def deliver_all_frame rx [THEN deliver_all_keeps] split: sum.split)
  have "eg_remaining e1 = eg_remaining ?e \<and> eg_messages_rx e1 = eg_messages_rx ?e
    \<or> eg_remaining e1 = uint (eg_batch_size ?e) \<and> eg_messages_rx e1"
    using pm pp reconnect_remaining [of "tv_resubscribe env" ?e, OF surjective_pairing]
    by (auto simp: process_message_def Let_def case_prod_beta split: if_splits option.splits)
  then show ?thesis
    using assms Some pm
    by (auto simp: handle_message_opt_def split: option.splits sum.splits bool.splits if_splits)
qed (use assms in \<open>simp add: handle_message_opt_def\<close>)

lemma handle_event_remaining:
  assumes "handle_event lb env e = (p, e')"
  shows "eg_remaining e' = eg_remaining e - event_weight (tv_event env)
      \<and> eg_messages_rx e' = eg_messages_rx e
    \<or> eg_remaining e' = uint (eg_batch_size e) \<and> eg_messages_rx e'"
proof (cases "tv_event env")
  case (Engine_message_event msg)
  have "eg_remaining (snd (handle_ack_opt now msg e)) = eg_remaining e
      \<and> eg_messages_rx (snd (handle_ack_opt now msg e)) = eg_messages_rx e" for now
    by (cases "(now, msg, e)" rule: handle_ack_opt.cases)
       (auto simp: engine_ack_def request_redelivery_def Let_def split: prod.split sum.split)
  then show ?thesis
    using assms Engine_message_event by (auto simp: handle_event_def case_prod_beta)
qed (use assms handle_message_opt_remaining in \<open>auto simp: handle_event_def\<close>)

text \<open>What a turn that goes on to wait for an event has done before it waits.\<close>

lemma before_event_waits:
  assumes "before_event env e = (None, e3)"
  obtains e1 e2 where "check_connection env (e\<lparr>eg_conn := tv_conn env (eg_conn e)\<rparr>) = (Some (Inr ()), e1)"
    "register_sources env e1 = (Inr (), e2)" "grant_flow e2 = (Flow_ok, e3)"
    "eg_remaining e2 = eg_remaining e1" "\<not> eg_messages_rx e2" "eg_batch_size e2 = eg_batch_size e"
    "eg_conn e2 = eg_conn e1" "eg_id e2 = eg_id e"
proof -
  let ?e = "e\<lparr>eg_conn := tv_conn env (eg_conn e)\<rparr>"
  obtain r e1 where c: "check_connection env ?e = (r, e1)" by fastforce
  obtain r2 e2 where s: "register_sources env e1 = (r2, e2)" by fastforce
  obtain r3 e3' where g: "grant_flow e2 = (r3, e3')" by fastforce
  have "r = Some (Inr ())" "r2 = Inr ()" "r3 = Flow_ok" "e3' = e3"
    using assms by (auto simp: before_event_def c s g split: option.splits sum.splits flow_outcome.splits)
  moreover have "config_of e2 = config_of ?e"
    using config_of_register_sources [of env e1] config_of_check_connection [of env ?e] c s by simp
  then have "eg_batch_size e2 = eg_batch_size e" "eg_id e2 = eg_id e" by (simp_all add: config_of_def)
  ultimately show ?thesis
    using that c s g register_sources_remaining [OF s] by simp
qed

lemma grant_flow_ok:
  assumes "grant_flow e = (Flow_ok, e')"
  shows "eg_remaining e' = (if needs_flow e then uint (eg_batch_size e) else eg_remaining e)"
    "half_queue (eg_batch_size e) \<le> eg_remaining e'" "eg_messages_rx e' = eg_messages_rx e"
    "sn_control (eg_conn e') = sn_control (eg_conn e) @
       (if needs_flow e then [msg_flow (eg_id e) (flow_permits e)] else [])"
  using assms half_queue_bounds(2) [of "eg_batch_size e"]
  by (auto simp: grant_flow_def needs_flow_def conn_send_flow_def send_control_def
      split: if_splits prod.splits sum.splits)

lemma before_event_stops:
  assumes "before_event env e = (Some p, e3)"
  shows "eg_remaining e3 = eg_remaining (snd (check_connection env (e\<lparr>eg_conn := tv_conn env (eg_conn e)\<rparr>)))"
    "eg_messages_rx e3 \<Longrightarrow> eg_messages_rx (snd (check_connection env (e\<lparr>eg_conn := tv_conn env (eg_conn e)\<rparr>)))"
proof -
  let ?e = "e\<lparr>eg_conn := tv_conn env (eg_conn e)\<rparr>"
  obtain r e1 where c: "check_connection env ?e = (r, e1)" by fastforce
  obtain r2 e2 where s: "register_sources env e1 = (r2, e2)" by fastforce
  obtain r3 e3' where g: "grant_flow e2 = (r3, e3')" by fastforce
  have "r3 = Flow_ok \<or> eg_remaining e3' = eg_remaining e2 \<and> eg_messages_rx e3' = eg_messages_rx e2"
    using g by (auto simp: grant_flow_def split: if_splits prod.splits sum.splits)
  then show "eg_remaining e3 = eg_remaining (snd (check_connection env ?e))"
    "eg_messages_rx e3 \<Longrightarrow> eg_messages_rx (snd (check_connection env ?e))"
    using assms c register_sources_remaining [OF s]
    by (auto simp: before_event_def s g split: option.splits sum.splits flow_outcome.splits)
qed

text \<open>The account of a turn that waits, before the event it waits for is handled.\<close>

lemma ledger_wait:
  assumes "ledger_ok (e, granted, used)" and "before_event env e = (None, e3)"
    and "ledger_turn lb env (e, granted, used) = (e', granted', used')"
  shows "eg_remaining e3 = granted' - (used' - event_weight (tv_event env))"
    "half_queue (eg_batch_size e) \<le> eg_remaining e3" "\<not> eg_messages_rx e3"
    "eg_batch_size e3 = eg_batch_size e" "e' = snd (handle_event lb env e3)"
proof -
  let ?e = "e\<lparr>eg_conn := tv_conn env (eg_conn e)\<rparr>"
  obtain e1 e2 where c: "check_connection env ?e = (Some (Inr ()), e1)"
    and s: "register_sources env e1 = (Inr (), e2)" and g: "grant_flow e2 = (Flow_ok, e3)"
    and e2: "eg_remaining e2 = eg_remaining e1" "\<not> eg_messages_rx e2" "eg_batch_size e2 = eg_batch_size e"
    by (rule before_event_waits [OF assms(2)])
  have bs1: "eg_batch_size e1 = eg_batch_size e"
    using config_of_check_connection [of env ?e] c by (simp add: config_of_def)
  have e1: "eg_remaining e1 = eg_remaining e \<and> eg_messages_rx e1 = eg_messages_rx e
      \<or> eg_remaining e1 = uint (eg_batch_size e) \<and> eg_messages_rx e1"
    using check_connection_remaining [OF c] by simp
  define g1 u1 where "g1 = (if eg_messages_rx e1 then uint (eg_batch_size e) else granted)"
    and "u1 = (if eg_messages_rx e1 then 0 else used)"
  have acc: "eg_remaining e1 = g1 - u1" "half_queue (eg_batch_size e) - 2 ^ 31 \<le> eg_remaining e1"
    using assms(1) e1 half_queue_bounds [of "eg_batch_size e"]
    by (auto simp: ledger_ok_def g1_def u1_def split: if_splits)
  have turn: "granted' = (if needs_flow e1 then g1 + uint (flow_permits e1) else g1)"
    "used' = u1 + event_weight (tv_event env)" and e': "e' = snd (engine_turn lb env e)"
    using assms(2,3) by (auto simp: ledger_turn_def c g1_def u1_def Let_def split: prod.splits if_splits)
  have nf: "needs_flow e2 = needs_flow e1" by (simp add: needs_flow_def e2 bs1)
  have e3: "eg_remaining e3 = (if needs_flow e1 then uint (eg_batch_size e) else eg_remaining e1)"
    using grant_flow_ok(1) [OF g] e2 nf by simp
  then show "eg_remaining e3 = granted' - (used' - event_weight (tv_event env))"
    using turn acc uint_flow_permits [of e1] bs1 by simp
  show "half_queue (eg_batch_size e) \<le> eg_remaining e3" "\<not> eg_messages_rx e3"
    using grant_flow_ok(2,3) [OF g] e2 by simp_all
  show "eg_batch_size e3 = eg_batch_size e"
    using config_of_before_event [of env e] assms(2) by (simp add: config_of_def)
  show "e' = snd (handle_event lb env e3)" using assms(2) e' by (simp add: engine_turn_def)
qed

lemma ledger_ok_turn:
  assumes "ledger_ok l" and "event_weight (tv_event env) < 2 ^ 31"
  shows "ledger_ok (ledger_turn lb env l)"
proof -
  obtain e granted used where l: "l = (e, granted, used)" by (cases l)
  obtain e' granted' used' where t: "ledger_turn lb env (e, granted, used) = (e', granted', used')"
    by (cases "ledger_turn lb env (e, granted, used)")
  have e': "e' = snd (engine_turn lb env e)" using t by (auto simp: ledger_turn_def Let_def split: prod.splits)
  have bs: "eg_batch_size e' = eg_batch_size e" unfolding e' by (rule config_ofD) simp
  obtain p e3 where b: "before_event env e = (p, e3)" by fastforce
  show ?thesis
  proof (cases p)
    case None
    note w = ledger_wait [OF assms(1) [unfolded l] b [unfolded None] t]
    have "eg_remaining e' = eg_remaining e3 - event_weight (tv_event env) \<and> \<not> eg_messages_rx e'
      \<or> eg_remaining e' = uint (eg_batch_size e) \<and> eg_messages_rx e'"
      using handle_event_remaining [of lb env e3, OF surjective_pairing] w by auto
    then show ?thesis
      using t l bs w assms(2) half_queue_bounds [of "eg_batch_size e"] by (auto simp: ledger_ok_def)
  next
    case (Some q)
    let ?e = "e\<lparr>eg_conn := tv_conn env (eg_conn e)\<rparr>"
    obtain r e1 where c: "check_connection env ?e = (r, e1)" by fastforce
    have e1: "eg_remaining e1 = eg_remaining e \<and> eg_messages_rx e1 = eg_messages_rx e
        \<or> eg_remaining e1 = uint (eg_batch_size e) \<and> eg_messages_rx e1"
      using check_connection_remaining [OF c] by simp
    have e3: "e' = e3" "eg_remaining e3 = eg_remaining e1" "eg_messages_rx e3 \<Longrightarrow> eg_messages_rx e1"
      using before_event_stops [OF b [unfolded Some]] c b Some e' by (simp_all add: engine_turn_def)
    have "granted' = (if eg_messages_rx e1 then uint (eg_batch_size e) else granted)"
      "used' = (if eg_messages_rx e1 then 0 else used)"
      using t by (auto simp: ledger_turn_def c b Some Let_def)
    then show ?thesis
      using assms(1) e1 e3 t l bs half_queue_bounds [of "eg_batch_size e"]
      by (auto simp: ledger_ok_def split: if_splits)
  qed
qed

lemma ledger_ok_run:
  assumes "ledger_ok l" and "\<forall>env \<in> set envs. event_weight (tv_event env) < 2 ^ 31"
  shows "ledger_ok (fold (ledger_turn lb) envs l)"
  using assms by (induction envs arbitrary: l) (simp_all add: ledger_ok_turn)

lemma ledger_ok_new: "ledger_ok (engine_new c topic i n delay policy options, granted, used)"
  using half_queue_bounds [of n] by (simp add: ledger_ok_def engine_new_def)

lemma ledger_run_batch_size:
  "eg_batch_size (fst (fold (ledger_turn lb) envs l)) = eg_batch_size (fst l)"
proof (induction envs arbitrary: l)
  case (Cons env envs)
  have "eg_batch_size (snd (engine_turn lb env e)) = eg_batch_size e" for e
    by (rule config_ofD) simp
  then have "eg_batch_size (fst (ledger_turn lb env l)) = eg_batch_size (fst l)"
    by (simp add: ledger_turn_def Let_def split: prod.split)
  then show ?case using Cons.IH [of "ledger_turn lb env l"] by simp
qed simp

section \<open>Redelivery deadlines\<close>

text \<open>Only messages that were delivered have a deadline, one each, and none without a delay.\<close>

definition delivered_ids :: "engine \<Rightarrow> message_id_data set" where
  "delivered_ids e = {i. \<exists>pl. Inr (i, pl) \<in> set (eg_out e)}"

definition tracked_ok :: "engine \<Rightarrow> bool" where
  "tracked_ok e \<longleftrightarrow>
     distinct (map fst (eg_unacked e)) \<and>
     fst ` set (eg_unacked e) \<subseteq> delivered_ids e \<and>
     (eg_redelivery_delay e = None \<longrightarrow> eg_unacked e = [])"

lemma tracked_ok_cong:
  "eg_unacked e' = eg_unacked e \<Longrightarrow> set (eg_out e) \<subseteq> set (eg_out e') \<Longrightarrow>
   eg_redelivery_delay e' = eg_redelivery_delay e \<Longrightarrow> tracked_ok e \<Longrightarrow> tracked_ok e'"
  unfolding tracked_ok_def delivered_ids_def by (simp, blast)

lemma tracked_ok_delete:
  assumes "tracked_ok e"
  shows "tracked_ok (e\<lparr>eg_unacked := fold AList.delete ids (eg_unacked e), eg_conn := c\<rparr>)"
proof -
  have "fst ` set (fold AList.delete ids ps) \<subseteq> fst ` set ps
      \<and> (distinct (map fst ps) \<longrightarrow> distinct (map fst (fold AList.delete ids ps)))
      \<and> (ps = [] \<longrightarrow> fold AList.delete ids ps = [])" for ps :: "(message_id_data \<times> nat) list"
  proof (induction ids arbitrary: ps)
    case (Cons i ids)
    have sub: "fst ` set (AList.delete i ps) \<subseteq> fst ` set ps" by (auto simp: AList.delete_eq)
    have dist: "distinct (map fst ps) \<Longrightarrow> distinct (map fst (AList.delete i ps))"
      by (rule distinct_delete)
    from Cons.IH [of "AList.delete i ps"] sub dist show ?case by (simp; metis subset_trans)
  qed simp
  from this [of "eg_unacked e"] show ?thesis using assms
    unfolding tracked_ok_def delivered_ids_def by auto
qed

lemma tracked_ok_ack: "tracked_ok e \<Longrightarrow> tracked_ok (engine_ack i cumulative e)"
  using tracked_ok_delete [where ids = "[i]"] by (simp add: engine_ack_def)

lemma tracked_ok_deliver_one: "tracked_ok e \<Longrightarrow> tracked_ok (snd (deliver_one lb env n x e))"
proof -
  assume ok: "tracked_ok e"
  have consumer: "tracked_ok (snd (send_to_consumer env i pl e))" for i pl
    using ok by (auto simp: send_to_consumer_def Let_def tracked_ok_def delivered_ids_def
        distinct_update dom_update split: option.split)
  have dead: "tracked_ok (snd (send_to_dead_letter lb env dl i pl e))" for dl i pl
  proof -
    have "tracked_ok (e\<lparr>eg_dlq := x\<rparr>)" for x using ok by (simp add: tracked_ok_def delivered_ids_def)
    then show ?thesis
      by (auto simp: send_to_dead_letter_def Let_def tracked_ok_ack split: sum.split)
  qed
  show ?thesis using ok consumer dead by (simp add: deliver_one_def split: option.split)
qed

lemma tracked_ok_deliver_all: "tracked_ok e \<Longrightarrow> tracked_ok (snd (deliver_all lb env n xs e))"
proof (induction xs arbitrary: e)
  case (Cons x xs)
  obtain r e1 where d: "deliver_one lb env n x e = (r, e1)" by fastforce
  then have "tracked_ok e1" using tracked_ok_deliver_one [OF Cons.prems, of lb env n x] by simp
  then show ?case using Cons.IH [of e1] d by (cases r) simp_all
qed simp

lemma tracked_ok_reconnect: "tracked_ok e \<Longrightarrow> tracked_ok (snd (reconnect rs e))"
  by (rule tracked_ok_cong [of _ e])
     (simp_all add: reconnect_def Let_def split: sum.split option.split)

lemma tracked_ok_handle_message_opt:
  assumes "tracked_ok e"
  shows "tracked_ok (snd (handle_message_opt lb env msg e))"
proof (cases msg)
  case (Some m)
  let ?e = "e\<lparr>eg_remaining := eg_remaining e - message_weight m\<rparr>"
  obtain r e1 where pm: "process_message lb env m ?e = (r, e1)" by fastforce
  have "tracked_ok ?e" using assms by (simp add: tracked_ok_def delivered_ids_def)
  then have "tracked_ok (snd (process_message lb env m ?e))"
    by (simp add: process_message_def process_payload_def Let_def case_prod_beta
        tracked_ok_deliver_all tracked_ok_reconnect split: option.split sum.split)
  then have e1: "tracked_ok e1" using pm by simp
  then have "tracked_ok (e1\<lparr>eg_out := eg_out e1 @ [Inl err]\<rparr>)" for err
    by (rule tracked_ok_cong [rotated 3]) auto
  with e1 show ?thesis
    using Some pm by (simp add: handle_message_opt_def split: option.split sum.split bool.split)
qed (use assms in \<open>simp add: handle_message_opt_def\<close>)

lemma tracked_ok_handle_ack_opt:
  assumes "tracked_ok e"
  shows "tracked_ok (snd (handle_ack_opt now msg e))"
proof -
  have conn: "tracked_ok (e\<lparr>eg_conn := c\<rparr>)" for c
    using assms by (simp add: tracked_ok_def delivered_ids_def)
  have "tracked_ok (e\<lparr>eg_conn := c, eg_unacked := fold AList.delete ids (eg_unacked e)\<rparr>)" for ids c
    using tracked_ok_delete [OF assms, where ids = ids and c = c]
    by (simp add: tracked_ok_def delivered_ids_def)
  then show ?thesis
    using assms conn by (cases "(now, msg, e)" rule: handle_ack_opt.cases)
      (simp_all add: tracked_ok_ack request_redelivery_def Let_def split: prod.split sum.split)
qed

lemma tracked_ok_engine_turn:
  assumes "tracked_ok e"
  shows "tracked_ok (snd (engine_turn lb env e))"
proof -
  have conn: "tracked_ok (e\<lparr>eg_conn := c\<rparr>)" if "tracked_ok e" for e c
    using that by (simp add: tracked_ok_def delivered_ids_def)
  have check: "tracked_ok (snd (check_connection env e))" if "tracked_ok e" for e
    using that conn tracked_ok_reconnect by (simp add: check_connection_def split: prod.split option.split)
  have regs: "tracked_ok (snd (register_sources env e))" if "tracked_ok e" for e
    using that by (simp add: register_sources_def tracked_ok_def delivered_ids_def)
  have flow: "tracked_ok (snd (grant_flow e))" if "tracked_ok e" for e
    using that by (simp add: grant_flow_def tracked_ok_def delivered_ids_def split: prod.split sum.split)
  obtain r e1 where c: "check_connection env (e\<lparr>eg_conn := tv_conn env (eg_conn e)\<rparr>) = (r, e1)" by fastforce
  obtain r2 e2 where s: "register_sources env e1 = (r2, e2)" by fastforce
  obtain r3 e3 where g: "grant_flow e2 = (r3, e3)" by fastforce
  have "tracked_ok e1" "tracked_ok e2" "tracked_ok e3"
    using check [OF conn [OF assms], of "tv_conn env (eg_conn e)"] regs [of e1] flow [of e2] c s g
    by simp_all
  then have "tracked_ok (snd (before_event env e))"
    by (simp add: before_event_def c s g split: option.split sum.split flow_outcome.split)
  moreover have "tracked_ok (snd (handle_event lb env e))" if "tracked_ok e" for e
    using that by (simp add: handle_event_def case_prod_beta tracked_ok_handle_message_opt
        tracked_ok_handle_ack_opt split: engine_event.split)
  ultimately show ?thesis
    by (cases "before_event env e") (simp add: engine_turn_def split: option.split)
qed

lemma tracked_ok_run: "tracked_ok e \<Longrightarrow> tracked_ok (snd (engine_run lb envs e))"
proof (induction envs arbitrary: e)
  case (Cons env envs)
  obtain p e1 where t: "engine_turn lb env e = (p, e1)" by fastforce
  then have "tracked_ok e1" using tracked_ok_engine_turn [OF Cons.prems, of lb env] by simp
  then show ?case using Cons.IH [of e1] t by (cases p) simp_all
qed simp

lemma tracked_ok_new: "tracked_ok (engine_new c topic i n delay policy options)"
  by (simp add: tracked_ok_def engine_new_def)

lemma fold_delete: "fold AList.delete ids ps = filter (\<lambda>(i, t). i \<notin> set ids) ps"
  by (induction ids arbitrary: ps) (auto simp: AList.delete_eq case_prod_beta intro: filter_cong)

lemma delete_expired:
  assumes "distinct (map fst ps)"
  shows "fold AList.delete (map fst (filter (\<lambda>(i, t). t < now) ps)) ps = filter (\<lambda>(i, t). \<not> t < now) ps"
  unfolding fold_delete
proof (rule filter_cong [OF refl], clarify)
  fix i t assume it: "(i, t) \<in> set ps"
  have uniq: "t' = t" if "(i, t') \<in> set ps" for t'
    using eq_key_imp_eq_value [OF assms that it] .
  have "i \<in> set (map fst (filter (\<lambda>(i, t). t < now) ps)) \<longleftrightarrow> (\<exists>t'. (i, t') \<in> set ps \<and> t' < now)"
    by (auto simp: image_iff)
  then show "(i \<notin> set (map fst (filter (\<lambda>(i, t). t < now) ps))) = (\<not> t < now)"
    using it uniq by blast
qed

section \<open>Why an engine stops\<close>

lemma send_control_error: "send_control msg c = (Inl err, c') \<Longrightarrow> err = Disconnected"
  by (auto simp: send_control_def split: prod.splits queued.splits if_splits)

lemma grant_flow_not_failed: "grant_flow e \<noteq> (Flow_failed err, e')"
  by (auto simp: grant_flow_def conn_send_flow_def split: prod.splits sum.splits dest: send_control_error)

lemma before_event_returns:
  assumes "before_event env e = (Some (Return_engine r), e')"
  shows "\<not> tv_spawn env \<or> \<not> conn_is_valid (tv_conn env (eg_conn e)) \<and>
    (\<exists>err. r = Inl err \<and> fst (reconnect (tv_resubscribe env)
       (e\<lparr>eg_conn := snd (conn_take_error (tv_conn env (eg_conn e)))\<rparr>)) = Some (Inl err))"
proof (cases "tv_spawn env")
  case True
  let ?e = "e\<lparr>eg_conn := tv_conn env (eg_conn e)\<rparr>"
  obtain q e1 where c: "check_connection env ?e = (q, e1)" by fastforce
  have s: "fst (register_sources env e1) = Inr ()" using True by (simp add: register_sources_def)
  have "\<exists>err. q = Some (Inl err) \<and> r = Inl err"
    using assms s grant_flow_not_failed
    by (auto simp: before_event_def c split: option.splits sum.splits prod.splits flow_outcome.splits)
  then show ?thesis
    using c by (auto simp: check_connection_def split: if_splits option.splits prod.splits)
qed simp

section \<open>Properties\<close>



text \<open>
  C29. The engine asks for redelivery of overdue messages and of no others. After any run, a
  redelivery tick asks the broker once, for exactly the tracked messages whose deadline has
  passed, each of which was handed to the application; it forgets these deadlines if and only if
  the request was queued, and keeps every other one.
\<close>

theorem redelivery_asks_for_overdue_only:
  "let e = snd (engine_run lb envs (engine_new c topic i n delay policy options));
       (continues, e') = handle_ack_opt now (Some Unacked_redelivery) e
   in continues \<and> set (expired now e) \<subseteq> delivered_ids e \<and> distinct (expired now e)
      \<and> sn_control (eg_conn e') = sn_control (eg_conn e) @
          (if expired now e \<noteq> [] \<and> sn_sink_open (eg_conn e)
           then [msg_redeliver (eg_id e) (expired now e)] else [])
      \<and> eg_unacked e' = (if sn_sink_open (eg_conn e)
          then filter (\<lambda>(i, t). \<not> t < now) (eg_unacked e) else eg_unacked e)
      \<and> eg_out e' = eg_out e"
proof -
  define e where "e = snd (engine_run lb envs (engine_new c topic i n delay policy options))"
  have ok: "tracked_ok e" unfolding e_def by (rule tracked_ok_run [OF tracked_ok_new])
  then have "distinct (map fst (eg_unacked e))" by (simp add: tracked_ok_def)
  note del = delete_expired [OF this, of now]
  have "distinct (expired now e)"
    using ok by (simp add: tracked_ok_def expired_def distinct_map_filter)
  moreover have "set (expired now e) \<subseteq> delivered_ids e"
    using ok by (auto simp: tracked_ok_def expired_def)
  moreover have "filter (\<lambda>(i, t). \<not> t < now) (eg_unacked e) = eg_unacked e" if "expired now e = []"
    using that by (auto simp: expired_def filter_empty_conv intro!: filter_True)
  moreover have "fold AList.delete (expired now e) (eg_unacked e) = filter (\<lambda>(i, t). \<not> t < now) (eg_unacked e)"
    unfolding expired_def by (rule del)
  ultimately show ?thesis
    by (simp flip: e_def add: Let_def request_redelivery_def conn_send_redeliver_def send_control_def)
qed

text \<open>
  C30. Nothing a broker sends stops a consumer except the end of its topic: a turn ends the
  engine only when the topic has ended, its event sources or the consumer are gone, the runtime
  no longer spawns tasks, or the lost connection could not be replaced, which is the error it
  ends with.
\<close>

theorem engine_stops_only_for_cause:
  assumes "engine_turn lb env e = (Return_engine r, e')" and "tv_spawn env"
  shows "r = Inr () \<and> (tv_event env = Events_terminated \<or> tv_event env = Engine_message_event None
        \<or> (\<exists>msg. tv_event env = Message_event (Some msg) \<and> reached_end_of_topic (command msg) \<noteq> None))
    \<or> r = Inl (Consumer Closed_consumer) \<and> \<not> eg_tx_open e
    \<or> \<not> conn_is_valid (tv_conn env (eg_conn e)) \<and> (\<exists>err. r = Inl err \<and>
        fst (reconnect (tv_resubscribe env)
          (e\<lparr>eg_conn := snd (conn_take_error (tv_conn env (eg_conn e)))\<rparr>)) = Some (Inl err))"
proof (cases "before_event env e")
  case (Pair p e1)
  show ?thesis
  proof (cases p)
    case (Some q)
    then have "q = Return_engine r" using assms(1) Pair by (simp add: engine_turn_def)
    then show ?thesis using before_event_returns [of env e r e1] Pair Some assms(2) by simp
  next
    case None
    then have h: "handle_event lb env e1 = (Return_engine r, e')"
      using assms(1) Pair by (simp add: engine_turn_def)
    have tx: "eg_tx_open e1 = eg_tx_open e"
      using config_of_before_event [of env e] Pair by (simp add: config_of_def)
    have by_message: "r = Inr () \<and> reached_end_of_topic (command msg) \<noteq> None
        \<or> r = Inl (Consumer Closed_consumer) \<and> \<not> eg_tx_open e"
      if m: "handle_message_opt lb env (Some msg) e1 = (Return_engine r, e')" for msg
    proof -
      let ?e = "e1\<lparr>eg_remaining := eg_remaining e1 - message_weight msg\<rparr>"
      obtain q e2 where pm: "process_message lb env msg ?e = (q, e2)" by fastforce
      have "eg_tx_open e2 = eg_tx_open ?e"
        using config_of_process_message [of lb env msg ?e] pm by (simp add: config_of_def)
      moreover have "reached_end_of_topic (command msg) \<noteq> None" if "q = Some (Inr False)"
        using pm that
        by (auto simp: process_message_def Let_def case_prod_beta rmap_Inr_iff split: if_splits option.splits)
      ultimately show ?thesis
        using m pm tx by (auto simp: handle_message_opt_def split: option.splits sum.splits bool.splits if_splits)
    qed
    show ?thesis
    proof (cases "tv_event env")
      case (Message_event msg)
      then show ?thesis
        using h by_message
        by (cases msg) (auto simp: handle_event_def handle_message_opt_def)
    next
      case (Engine_message_event msg)
      have "fst (handle_ack_opt now (Some x) e1)" for now x by (cases x) simp_all
      then show ?thesis
        using h Engine_message_event by (cases msg) (auto simp: handle_event_def case_prod_beta)
    qed (use h in \<open>auto simp: handle_event_def\<close>)
  qed
qed

theorem engine_stops_only_for_cause_witness:
  "\<exists>e'. engine_turn example_libs (example_turn_env\<lparr>tv_event := Events_terminated\<rparr>) example_engine
       = (Return_engine (Inr ()), e')
     \<and> tv_event (example_turn_env\<lparr>tv_event := Events_terminated\<rparr>) = Events_terminated"
proof -
  let ?env = "example_turn_env\<lparr>tv_event := Events_terminated\<rparr>"
  have "fst (engine_turn example_libs ?env example_engine) = Return_engine (Inr ())"
    by (simp add: engine_turn_def before_event_def check_connection_def register_sources_def grant_flow_def
        needs_flow_def half_queue_def example_turn_env_def example_engine_def engine_new_def
        conn_is_valid_def conn_new_def handle_event_def)
  then obtain e' where t: "engine_turn example_libs ?env example_engine = (Return_engine (Inr ()), e')"
    by (cases "engine_turn example_libs ?env example_engine") simp
  have "tv_spawn ?env" by (simp add: example_turn_env_def)
  from engine_stops_only_for_cause [OF t this] t show ?thesis by auto
qed

text \<open>
  A chunk of a chunked message is never passed off as a message: it is reported to the
  application as the error that names the message and its number of chunks, uses up one permit,
  changes nothing else, and the engine goes on.
\<close>

theorem chunk_is_reported_not_delivered:
  assumes "tv_event env = Message_event (Some \<lparr>command = c, msg_payload = Some pl\<rparr>)"
    and "reached_end_of_topic c = None" and "active_consumer_change c = None"
    and "message c = Some m" and "md_num_chunks_from_msg (pl_metadata pl) = Some chunks" and "1 < chunks"
    and "eg_tx_open e"
  shows "handle_event lb env e = (Continue, e
    \<lparr>eg_remaining := eg_remaining e - message_weight \<lparr>command = c, msg_payload = Some pl\<rparr>,
     eg_out := eg_out e @ [Inl (Consumer (UnsupportedChunkedMessage (md_uuid (pl_metadata pl)) chunks))]\<rparr>)"
  using assms
  by (simp add: handle_event_def handle_message_opt_def process_message_def process_payload_def
      reject_chunked_message_def Let_def)

theorem chunk_is_reported_not_delivered_witness:
  "\<exists>e'. handle_event example_libs (example_turn_env\<lparr>tv_event := Message_event (Some
       \<lparr>command = base_command_default\<lparr>message := Some
          \<lparr>cm_consumer_id = 3, cm_message_id = MessageIdData 7 9 None None [] None None,
           cm_redelivery_count = None, cm_ack_set = [], cm_consumer_epoch = None\<rparr>\<rparr>,
        msg_payload = Some \<lparr>pl_metadata = metadata_default\<lparr>md_num_chunks_from_msg := Some 4\<rparr>,
          pl_data = [1]\<rparr>\<rparr>)\<rparr>) example_engine = (Continue, e')
     \<and> eg_out e' = [Inl (Consumer (UnsupportedChunkedMessage None 4))]"
  using chunk_is_reported_not_delivered [of "example_turn_env\<lparr>tv_event := Message_event (Some
       \<lparr>command = base_command_default\<lparr>message := Some
          \<lparr>cm_consumer_id = 3, cm_message_id = MessageIdData 7 9 None None [] None None,
           cm_redelivery_count = None, cm_ack_set = [], cm_consumer_epoch = None\<rparr>\<rparr>,
        msg_payload = Some \<lparr>pl_metadata = metadata_default\<lparr>md_num_chunks_from_msg := Some 4\<rparr>,
          pl_data = [1]\<rparr>\<rparr>)\<rparr>"
     "base_command_default\<lparr>message := Some
          \<lparr>cm_consumer_id = 3, cm_message_id = MessageIdData 7 9 None None [] None None,
           cm_redelivery_count = None, cm_ack_set = [], cm_consumer_epoch = None\<rparr>\<rparr>"
     "\<lparr>pl_metadata = metadata_default\<lparr>md_num_chunks_from_msg := Some 4\<rparr>, pl_data = [1]\<rparr>"
     _ 4 example_engine example_libs]
  by (simp add: base_command_default_def metadata_default_def example_engine_def engine_new_def)

section \<open>Where the engine falls short\<close>

text \<open>
  When the broker closes the consumer and subscribing again fails, the error is reported and the
  engine goes on without a subscription: its message source is not replaced, and as its
  connection is valid no later turn subscribes again.
\<close>

theorem failed_resubscription_leaves_idle_engine:
  assumes "close_consumer c \<noteq> None" and "reached_end_of_topic c = None"
    and "active_consumer_change c = None" and "message c = None"
    and "tv_event env = Message_event (Some \<lparr>command = c, msg_payload = None\<rparr>)"
    and "rs_lookup (tv_resubscribe env) = Inl err" and "eg_tx_open e" and "\<not> eg_messages_rx e"
  shows "\<exists>e'. handle_event lb env e = (Continue, e') \<and> eg_out e' = eg_out e @ [Inl err]
    \<and> \<not> eg_messages_rx e'"
  using assms
  by (simp add: handle_event_def handle_message_opt_def process_message_def reconnect_def Let_def)

text \<open>
  An engine whose connection refuses messages while its error flag is clear (another engine that
  shares it has taken the error) and that owes the broker permits repeats its turn without ever
  waiting.
\<close>

theorem taken_error_makes_engine_spin:
  assumes "conn_is_valid (eg_conn e)" and "\<not> sn_sink_open (eg_conn e)" and "needs_flow e"
    and "\<not> eg_messages_rx e" and "\<not> eg_engine_rx e" and "tv_conn env (eg_conn e) = eg_conn e"
  shows "engine_turn lb env e = (Continue, e)"
proof -
  have same: "e\<lparr>eg_conn := eg_conn e\<rparr> = e" "e\<lparr>eg_messages_rx := False, eg_engine_rx := False\<rparr> = e"
    using assms(4,5) by (cases e; simp)+
  have "register_sources env e = (Inr (), e)" using assms(4,5) same by (simp add: register_sources_def)
  moreover have "check_connection env e = (Some (Inr ()), e)" using assms(1) by (simp add: check_connection_def)
  moreover have "grant_flow e = (Flow_again, e)"
    using assms(2,3) same by (simp add: grant_flow_def conn_send_flow_def send_control_def)
  ultimately show ?thesis using assms(6) same by (simp add: engine_turn_def before_event_def)
qed

end
