(* ===== verification/Sender.thy ===== *)
theory Sender
  imports Retry Compress
begin

text \<open>
  Publishing one message (\<open>send_message\<close> of \<open>producer.rs\<close>) and the task that publishes the
  batches of a batching producer (\<open>message_send_loop\<close>). A send that finds its connection
  invalid, or loses it, attaches the producer to a new one and tries again. Connections are
  shared: they live in a store, a function from connection numbers, and a producer holds the
  number of the one it uses. Every turn says what the other users of the store did before it
  and what the calls of the turn come to; a list of turns that ends before the loop does
  gives \<open>None\<close>.
\<close>

section \<open>State\<close>

type_synonym net = "nat \<Rightarrow> conn"

text \<open>What a producer keeps for good.\<close>

record publisher =
  pb_id :: u64
  pb_name :: string
  pb_topic :: string
  pb_options :: producer_options
  pb_retry :: operation_retry_options

text \<open>
  What sending changes. \<open>ss_attempts\<close> records, for the statements only, every attempt to queue
  a message: the connection, the sequence number and what became of it.
\<close>

record send_state =
  ss_conn :: nat
  ss_sequence :: u64
  ss_schema_version :: "(byte list) option"
  ss_attempts :: "(nat \<times> u64 \<times> queued) list"

definition send_state_new :: "nat \<Rightarrow> (byte list) option \<Rightarrow> send_state" where
  "send_state_new c schema_version =
     \<lparr>ss_conn = c, ss_sequence = 0, ss_schema_version = schema_version, ss_attempts = []\<rparr>"

section \<open>One turn of the sending loop\<close>

text \<open>
  \<open>tn_room\<close> is what happened to a full data channel while a blocking send waited for room;
  \<open>None\<close> when nothing ever did.
\<close>

record send_turn =
  tn_others :: "net \<Rightarrow> net"
  tn_publish_time :: u64
  tn_resolver :: nat
  tn_room :: "(conn \<Rightarrow> conn) option"
  tn_close_resolver :: nat
  tn_close_answer :: "raw_message answer"
  tn_lookup :: "(error, broker_address) result"
  tn_connect :: "(connection_error, nat) result"
  tn_attempts :: "producer_attempt list"

definition attempt_send :: "publisher \<Rightarrow> producer_message \<Rightarrow> send_turn \<Rightarrow> send_state \<Rightarrow> net \<Rightarrow>
    queued \<times> send_state \<times> net" where
  "attempt_send p m t s net =
     (let seq = ss_sequence s;
          block = po_block_queue_if_full (pb_options p);
          (q, c1) = conn_send (tn_publish_time t) (pb_id p) (pb_name p) seq m block (tn_resolver t)
                      (net (ss_conn s));
          (q', c2) = (case (q, tn_room t) of
              (Waiting, Some f) \<Rightarrow>
                enqueue DataBlocking (msg_send (tn_publish_time t) (pb_id p) (pb_name p) seq m) (f c1)
            | _ \<Rightarrow> (q, c1))
      in (q', s\<lparr>ss_sequence := seq + 1, ss_attempts := ss_attempts s @ [(ss_conn s, seq, q')]\<rparr>,
          net(ss_conn s := c2)))"

fun reconnects_on :: "connection_error \<Rightarrow> bool" where
  "reconnects_on Disconnected = True"
| "reconnects_on (Io k text1) = (k = TimedOut)"
| "reconnects_on _ = False"

datatype send_result = Accepted nat | Rejected error | Endless

text \<open>
  Attaching the producer to the topic's broker again, after asking the old broker to close it;
  \<open>None\<close> when it succeeded and the loop goes round.
\<close>

definition reconnect_producer :: "publisher \<Rightarrow> send_turn \<Rightarrow> send_state \<Rightarrow> net \<Rightarrow>
    send_result option \<times> send_state \<times> net" where
  "reconnect_producer p t s net =
     (let (_, c1) = conn_close_producer (pb_id p) (tn_close_resolver t) (tn_close_answer t)
                      (net (ss_conn s));
          net1 = net(ss_conn s := c1)
      in case tn_lookup t of
           Inl e \<Rightarrow> (Some (Rejected e), s, net1)
         | Inr _ \<Rightarrow>
             (let (cs, r) = retry_create_producer (pb_retry p) (tn_connect t) (tn_attempts t);
                  s1 = s\<lparr>ss_conn := (if cs = [] then ss_conn s else last cs)\<rparr>
              in case r of
                   Some (Some (Inr (_, new_schema_version))) \<Rightarrow>
                     (None, s1\<lparr>ss_schema_version := new_schema_version\<rparr>, net1)
                 | Some (Some (Inl e)) \<Rightarrow> (Some (Rejected e), s1, net1)
                 | _ \<Rightarrow> (Some Endless, s1, net1)))"

definition send_turn_step :: "publisher \<Rightarrow> producer_message \<Rightarrow> send_turn \<Rightarrow> send_state \<Rightarrow> net \<Rightarrow>
    send_result option \<times> send_state \<times> net" where
  "send_turn_step p m t s net0 =
     (let net = tn_others t net0 in
      if \<not> conn_is_valid (net (ss_conn s)) then reconnect_producer p t s net
      else case attempt_send p m t s net of
          (Queued, s1, net1) \<Rightarrow> (Some (Accepted (tn_resolver t)), s1, net1)
        | (Waiting, s1, net1) \<Rightarrow> (Some Endless, s1, net1)
        | (Refused e, s1, net1) \<Rightarrow>
            (if reconnects_on e then reconnect_producer p t s1 net1
             else (Some (Rejected (Producer (Connection_producer e))), s1, net1)))"

fun producer_send_message :: "publisher \<Rightarrow> producer_message \<Rightarrow> send_turn list \<Rightarrow> send_state \<Rightarrow> net \<Rightarrow>
    send_result option \<times> send_state \<times> net" where
  "producer_send_message p m [] s net = (None, s, net)"
| "producer_send_message p m (t # ts) s net =
     (case send_turn_step p m t s net of
        (None, s1, net1) \<Rightarrow> producer_send_message p m ts s1 net1
      | (Some r, s1, net1) \<Rightarrow> (Some r, s1, net1))"

text \<open>Awaiting the receipt of an accepted message, on the connection that accepted it.\<close>

definition await_receipt :: "raw_message answer \<Rightarrow> nat \<Rightarrow> net \<Rightarrow>
    (error, command_send_receipt) result \<times> net" where
  "await_receipt ans c net =
     (let (r, c1) = await_answer ans (\<lambda>resp. send_receipt (command resp)) (net c)
      in (map_err (\<lambda>e. Producer (Connection_producer e)) r, net(c := c1)))"
section \<open>Attempts\<close>

fun accepted :: "send_result option \<Rightarrow> bool" where
  "accepted (Some (Accepted ch)) = True"
| "accepted _ = False"

lemma attempt_send_state:
  "attempt_send p m t s net = (q, s1, net1) \<Longrightarrow>
    s1 = s\<lparr>ss_sequence := ss_sequence s + 1, ss_attempts := ss_attempts s @ [(ss_conn s, ss_sequence s, q)]\<rparr>"
  by (auto simp: attempt_send_def Let_def split: prod.splits)

lemma enqueue_Queued_data:
  "enqueue (if b then DataBlocking else DataTrySend) msg c = (Queued, c') \<Longrightarrow> sn_data c' = sn_data c @ [msg]"
  by (cases b) (auto split: if_splits)

lemma attempt_send_queues:
  assumes "attempt_send p m t s net = (Queued, s1, net1)"
  shows "\<exists>q. sn_data (net1 (ss_conn s)) =
    q @ [msg_send (tn_publish_time t) (pb_id p) (pb_name p) (ss_sequence s) m]"
proof -
  let ?b = "po_block_queue_if_full (pb_options p)"
  obtain q c1 where sent: "conn_send (tn_publish_time t) (pb_id p) (pb_name p) (ss_sequence s) m ?b
      (tn_resolver t) (net (ss_conn s)) = (q, c1)" by fastforce
  show ?thesis
  proof (cases q)
    case Queued
    with sent obtain c0 where "enqueue (if ?b then DataBlocking else DataTrySend)
        (msg_send (tn_publish_time t) (pb_id p) (pb_name p) (ss_sequence s) m) c0 = (Queued, c1)"
      by (auto simp: conn_send_def send_message_non_blocking_def split: sum.splits)
    from enqueue_Queued_data [OF this] show ?thesis
      using assms sent Queued by (auto simp: attempt_send_def Let_def)
  next
    case Waiting
    then show ?thesis
      using assms sent
      by (auto simp: attempt_send_def Let_def split: option.splits prod.splits if_splits)
  qed (use assms sent in \<open>auto simp: attempt_send_def Let_def\<close>)
qed

lemma reconnect_producer_state:
  "reconnect_producer p t s net = (r, s1, net1) \<Longrightarrow>
    ss_sequence s1 = ss_sequence s \<and> ss_attempts s1 = ss_attempts s \<and> \<not> accepted r"
  by (auto simp: reconnect_producer_def Let_def split: prod.splits sum.splits option.splits)

lemma send_turn_step_attempts:
  assumes "send_turn_step p m t s net = (r, s1, net1)"
  shows "ss_attempts s1 = ss_attempts s \<and> ss_sequence s1 = ss_sequence s \<and> \<not> accepted r
    \<or> (\<exists>q. ss_attempts s1 = ss_attempts s @ [(ss_conn s, ss_sequence s, q)]
        \<and> ss_sequence s1 = ss_sequence s + 1 \<and> (accepted r \<longleftrightarrow> q = Queued))"
proof (cases "conn_is_valid (tn_others t net (ss_conn s))")
  case True
  obtain q s2 net2 where a: "attempt_send p m t s (tn_others t net) = (q, s2, net2)"
    using prod_cases3 by blast
  from attempt_send_state [OF this] show ?thesis
    using assms True a reconnect_producer_state [of p t s2 net2 r s1 net1]
    by (cases q) (auto simp: send_turn_step_def Let_def split: if_splits)
next
  case False
  then show ?thesis
    using assms reconnect_producer_state [of p t s "tn_others t net" r s1 net1]
    by (simp add: send_turn_step_def)
qed

lemma send_turn_step_accepted:
  assumes "send_turn_step p m t s net = (Some (Accepted ch), s1, net1)"
  shows "ch = tn_resolver t \<and> ss_conn s1 = ss_conn s \<and> ss_schema_version s1 = ss_schema_version s
    \<and> ss_sequence s1 = ss_sequence s + 1
    \<and> (\<exists>q. sn_data (net1 (ss_conn s1)) =
        q @ [msg_send (tn_publish_time t) (pb_id p) (pb_name p) (ss_sequence s) m])"
proof -
  have valid: "conn_is_valid (tn_others t net (ss_conn s))"
    using assms reconnect_producer_state [of p t s "tn_others t net" "Some (Accepted ch)" s1 net1]
    by (auto simp: send_turn_step_def Let_def split: if_splits)
  obtain q s2 net2 where a: "attempt_send p m t s (tn_others t net) = (q, s2, net2)"
    using prod_cases3 by blast
  have "q = Queued \<and> s2 = s1 \<and> net2 = net1 \<and> ch = tn_resolver t"
    using assms valid a reconnect_producer_state [of p t s2 net2 "Some (Accepted ch)" s1 net1]
    by (cases q) (auto simp: send_turn_step_def Let_def split: if_splits)
  then show ?thesis using a attempt_send_state [OF a] attempt_send_queues [of p m t s "tn_others t net"]
    by auto
qed

text \<open>What a whole send adds to the attempts: consecutive numbers, and only the last one queued.\<close>

fun attempts_ok :: "bool \<Rightarrow> u64 \<Rightarrow> (nat \<times> u64 \<times> queued) list \<Rightarrow> bool" where
  "attempts_ok ok seq [] = (\<not> ok)"
| "attempts_ok ok seq [(c, i, q)] = (i = seq \<and> (ok \<longleftrightarrow> q = Queued))"
| "attempts_ok ok seq ((c, i, q) # as) = (i = seq \<and> q \<noteq> Queued \<and> attempts_ok ok (seq + 1) as)"

lemma attempts_ok_Cons:
  "attempts_ok ok (seq + 1) as \<Longrightarrow> q \<noteq> Queued \<Longrightarrow> attempts_ok ok seq ((c, seq, q) # as)"
  by (cases as) auto

lemma producer_send_message_attempts:
  "producer_send_message p m ts s net = (r, s1, net1) \<Longrightarrow>
    \<exists>new. ss_attempts s1 = ss_attempts s @ new
      \<and> ss_sequence s1 = ss_sequence s + of_nat (length new) \<and> attempts_ok (accepted r) (ss_sequence s) new"
proof (induction ts arbitrary: s net)
  case (Cons t ts)
  obtain o1 s2 net2 where st: "send_turn_step p m t s net = (o1, s2, net2)" using prod_cases3 by blast
  show ?case
  proof (cases o1)
    case None
    with Cons.prems st have "producer_send_message p m ts s2 net2 = (r, s1, net1)" by simp
    from Cons.IH [OF this] obtain new where new: "ss_attempts s1 = ss_attempts s2 @ new"
      "ss_sequence s1 = ss_sequence s2 + of_nat (length new)" "attempts_ok (accepted r) (ss_sequence s2) new"
      by blast
    from send_turn_step_attempts [OF st] None show ?thesis
    proof (elim disjE exE conjE)
      fix q
      assume "ss_attempts s2 = ss_attempts s @ [(ss_conn s, ss_sequence s, q)]"
        "ss_sequence s2 = ss_sequence s + 1" "accepted o1 \<longleftrightarrow> q = Queued"
      with new None show ?thesis
        by (intro exI [of _ "(ss_conn s, ss_sequence s, q) # new"]) (auto intro: attempts_ok_Cons)
    qed (use new in auto)
  next
    case (Some r1)
    with Cons.prems st have "r = o1" "s1 = s2" by auto
    with send_turn_step_attempts [OF st] show ?thesis
      by (elim disjE exE conjE) (auto intro: exI [of _ "[]"])
  qed
qed simp

lemma producer_send_message_accepted:
  "producer_send_message p m ts s net = (Some (Accepted ch), s1, net1) \<Longrightarrow>
    \<exists>t \<in> set ts. ch = tn_resolver t \<and> (\<exists>q. sn_data (net1 (ss_conn s1)) =
        q @ [msg_send (tn_publish_time t) (pb_id p) (pb_name p) (ss_sequence s1 - 1) m])"
proof (induction ts arbitrary: s net)
  case (Cons t ts)
  obtain o1 s2 net2 where st: "send_turn_step p m t s net = (o1, s2, net2)" using prod_cases3 by blast
  show ?case
  proof (cases o1)
    case None
    with Cons.prems st have "producer_send_message p m ts s2 net2 = (Some (Accepted ch), s1, net1)" by simp
    from Cons.IH [OF this] show ?thesis by auto
  next
    case (Some r1)
    with Cons.prems st have eq: "r1 = Accepted ch" "s1 = s2" "net1 = net2" by auto
    from st Some eq(1) have st': "send_turn_step p m t s net = (Some (Accepted ch), s2, net2)" by simp
    show ?thesis using send_turn_step_accepted [OF st'] eq by auto
  qed
qed simp

section \<open>How a send ends\<close>

definition recreated :: "operation_retry_options \<Rightarrow> send_turn \<Rightarrow> bool" where
  "recreated o1 t \<longleftrightarrow> is_ok (tn_lookup t) \<and>
     (case snd (retry_create_producer o1 (tn_connect t) (tn_attempts t)) of
        Some (Some r) \<Rightarrow> is_ok r | _ \<Rightarrow> False)"

text \<open>The outcome of a send explained by the turn that decided it.\<close>

fun explains :: "publisher \<Rightarrow> send_turn \<Rightarrow> send_result \<Rightarrow> bool" where
  "explains p t (Accepted ch) \<longleftrightarrow> ch = tn_resolver t"
| "explains p t (Rejected e) \<longleftrightarrow> tn_lookup t = Inl e
     \<or> snd (retry_create_producer (pb_retry p) (tn_connect t) (tn_attempts t)) = Some (Some (Inl e))
     \<or> (\<exists>ce. e = Producer (Connection_producer ce) \<and> \<not> reconnects_on ce)"
| "explains p t Endless \<longleftrightarrow> po_block_queue_if_full (pb_options p)
     \<or> snd (retry_create_producer (pb_retry p) (tn_connect t) (tn_attempts t)) \<in> {None, Some None}"

lemma reconnect_producer_explains:
  assumes "reconnect_producer p t s net = (r, s1, net1)"
  shows "(case r of None \<Rightarrow> recreated (pb_retry p) t | Some out \<Rightarrow> explains p t out)"
proof -
  obtain cs d where rc: "retry_create_producer (pb_retry p) (tn_connect t) (tn_attempts t) = (cs, d)"
    by fastforce
  show ?thesis
    using assms rc
    by (auto simp: reconnect_producer_def Let_def recreated_def is_ok_iff
        split: prod.splits sum.splits option.splits)
qed

lemma attempt_send_Waiting:
  assumes "attempt_send p m t s net = (Waiting, s1, net1)"
  shows "po_block_queue_if_full (pb_options p)"
proof (rule ccontr)
  assume "\<not> po_block_queue_if_full (pb_options p)"
  then have "fst (conn_send a b n q m (po_block_queue_if_full (pb_options p)) ch c) \<noteq> Waiting" for a b n q ch c
    by (simp add: conn_send_def send_message_non_blocking_def split: sum.split)
  then show False
    using assms by (auto simp: attempt_send_def Let_def split: prod.splits option.splits queued.splits)
       (metis fst_conv)+
qed

lemma send_turn_step_explains:
  assumes "send_turn_step p m t s net = (r, s1, net1)"
  shows "(case r of None \<Rightarrow> recreated (pb_retry p) t | Some out \<Rightarrow> explains p t out)"
proof (cases "conn_is_valid (tn_others t net (ss_conn s))")
  case True
  obtain q s2 net2 where a: "attempt_send p m t s (tn_others t net) = (q, s2, net2)"
    using prod_cases3 by blast
  show ?thesis
  proof (cases q)
    case (Refused e)
    show ?thesis
    proof (cases "reconnects_on e")
      case True
      with assms \<open>conn_is_valid _\<close> a Refused have "reconnect_producer p t s2 net2 = (r, s1, net1)"
        by (simp add: send_turn_step_def Let_def)
      then show ?thesis by (rule reconnect_producer_explains)
    qed (use assms True a Refused in \<open>auto simp: send_turn_step_def Let_def\<close>)
  next
    case Waiting
    with a attempt_send_Waiting show ?thesis
      using assms True by (auto simp: send_turn_step_def Let_def)
  qed (use assms True a in \<open>auto simp: send_turn_step_def Let_def\<close>)
next
  case False
  with assms have "reconnect_producer p t s (tn_others t net) = (r, s1, net1)"
    by (simp add: send_turn_step_def)
  then show ?thesis by (rule reconnect_producer_explains)
qed

lemma producer_send_message_explained:
  "producer_send_message p m ts s net = (Some out, s1, net1) \<Longrightarrow>
    \<exists>before t after. ts = before @ t # after \<and> list_all (recreated (pb_retry p)) before \<and> explains p t out"
proof (induction ts arbitrary: s net)
  case (Cons t ts)
  obtain r s2 net2 where st: "send_turn_step p m t s net = (r, s2, net2)" using prod_cases3 by blast
  note why = send_turn_step_explains [OF st]
  show ?case
  proof (cases r)
    case None
    with Cons.prems st have "producer_send_message p m ts s2 net2 = (Some out, s1, net1)" by simp
    from Cons.IH [OF this] obtain before t' after where
      "ts = before @ t' # after" "list_all (recreated (pb_retry p)) before" "explains p t' out" by blast
    with why None show ?thesis
      by (intro exI [of _ "t # before"] exI [of _ t'] exI [of _ after]) simp
  next
    case (Some out')
    with Cons.prems st have "out' = out" by simp
    with why Some show ?thesis by (intro exI [of _ "[]"] exI [of _ t] exI [of _ ts]) simp
  qed
qed simp

text \<open>A connection that takes the next message, and a turn at which every connection does.\<close>

definition healthy :: "conn \<Rightarrow> bool" where
  "healthy c \<longleftrightarrow> conn_is_valid c \<and> sn_receiver_open c \<and> sn_sink_open c
     \<and> length (sn_data c) < sn_data_capacity c"

definition healthy_turn :: "send_turn \<Rightarrow> bool" where
  "healthy_turn t \<longleftrightarrow> (\<forall>net c. healthy (tn_others t net c))"

lemma send_turn_step_healthy:
  assumes "healthy_turn t"
  shows "\<exists>s1 net1. send_turn_step p m t s net = (Some (Accepted (tn_resolver t)), s1, net1)"
proof -
  let ?c = "tn_others t net (ss_conn s)"
  have "healthy ?c" using assms by (simp add: healthy_turn_def)
  then show ?thesis
    by (simp add: send_turn_step_def attempt_send_def Let_def healthy_def conn_send_def
        send_message_non_blocking_def register_with_def)
qed

lemma producer_send_message_returns:
  "t \<in> set ts \<Longrightarrow> healthy_turn t \<Longrightarrow> \<exists>out s1 net1. producer_send_message p m ts s net = (Some out, s1, net1)"
proof (induction ts arbitrary: s net)
  case (Cons a ts)
  obtain r s2 net2 where st: "send_turn_step p m a s net = (r, s2, net2)" using prod_cases3 by blast
  show ?case
  proof (cases r)
    case None
    with st send_turn_step_healthy [of t p m s net] Cons.prems have "t \<in> set ts" by auto
    from Cons.IH [OF this Cons.prems(2), of s2 net2] st None show ?thesis by simp
  qed (use st in simp)
qed simp

section \<open>A sequence of sends\<close>

text \<open>The messages one producer publishes one after the other.\<close>

fun producer_sends :: "publisher \<Rightarrow> (producer_message \<times> send_turn list) list \<Rightarrow> send_state \<Rightarrow> net \<Rightarrow>
    send_result option list \<times> send_state \<times> net" where
  "producer_sends p [] s net = ([], s, net)"
| "producer_sends p ((m, ts) # jobs) s net =
     (let (r, s1, net1) = producer_send_message p m ts s net;
          (rs, s2, net2) = producer_sends p jobs s1 net1
      in (r # rs, s2, net2))"

definition queued_ids :: "send_state \<Rightarrow> u64 list" where
  "queued_ids s = map (\<lambda>(c, i, q). i) (filter (\<lambda>(c, i, q). q = Queued) (ss_attempts s))"

lemma consecutive_Suc:
  "map (\<lambda>k. (seq :: u64) + of_nat k) [0..<Suc n] = seq # map (\<lambda>k. seq + 1 + of_nat k) [0..<n]"
  by (simp add: map_upt_Suc ac_simps del: upt_Suc)

lemma attempts_ok_ids:
  "attempts_ok ok seq new \<Longrightarrow>
    map (\<lambda>(c, i, q). i) new = map (\<lambda>k. seq + of_nat k) [0..<length new]
    \<and> length (filter (\<lambda>(c, i, q). q = Queued) new) = (if ok then 1 else 0)"
proof (induction ok seq new rule: attempts_ok.induct)
  case (3 ok seq c i q v va)
  then show ?case by (simp add: consecutive_Suc del: upt_Suc)
qed auto

lemma producer_sends_ids:
  "producer_sends p jobs s net = (rs, s1, net1) \<Longrightarrow>
    \<exists>new. ss_attempts s1 = ss_attempts s @ new \<and> ss_sequence s1 = ss_sequence s + of_nat (length new)
      \<and> map (\<lambda>(c, i, q). i) new = map (\<lambda>k. ss_sequence s + of_nat k) [0..<length new]
      \<and> length (filter (\<lambda>(c, i, q). q = Queued) new) = length (filter accepted rs)"
proof (induction jobs arbitrary: s net rs s1 net1)
  case (Cons job jobs)
  obtain m ts where job: "job = (m, ts)" by fastforce
  obtain r s2 net2 where one: "producer_send_message p m ts s net = (r, s2, net2)" using prod_cases3 by blast
  obtain rs' s3 net3 where rest: "producer_sends p jobs s2 net2 = (rs', s3, net3)" using prod_cases3 by blast
  have eq: "s3 = s1" "rs = r # rs'" using Cons.prems job one rest by auto
  from producer_send_message_attempts [OF one] obtain new1 where new1:
    "ss_attempts s2 = ss_attempts s @ new1" "ss_sequence s2 = ss_sequence s + of_nat (length new1)"
    "attempts_ok (accepted r) (ss_sequence s) new1" by blast
  from Cons.IH [OF rest] eq obtain new2 where new2:
    "ss_attempts s1 = ss_attempts s2 @ new2" "ss_sequence s1 = ss_sequence s2 + of_nat (length new2)"
    "map (\<lambda>(c, i, q). i) new2 = map (\<lambda>k. ss_sequence s2 + of_nat k) [0..<length new2]"
    "length (filter (\<lambda>(c, i, q). q = Queued) new2) = length (filter accepted rs')" by blast
  have "map (\<lambda>k. ss_sequence s2 + of_nat k) [0..<length new2]
      = map (\<lambda>k. ss_sequence s + of_nat k) [length new1..<length new1 + length new2]"
    by (rule nth_equalityI) (simp_all add: new1(2) ac_simps)
  with new2(3) attempts_ok_ids [OF new1(3)] have
    "map (\<lambda>(c, i, q). i) (new1 @ new2) = map (\<lambda>k. ss_sequence s + of_nat k) [0..<length (new1 @ new2)]"
    by (simp add: upt_add_eq_append [of 0 "length new1" "length new2"])
  with new1 new2 eq attempts_ok_ids [OF new1(3)] show ?case
    by (intro exI [of _ "new1 @ new2"]) simp
qed simp

section \<open>The task that publishes batches\<close>

text \<open>Compressing, sending and awaiting one message.\<close>

definition publish_and_wait :: "codecs \<Rightarrow> publisher \<Rightarrow> producer_message \<Rightarrow> send_turn list \<Rightarrow>
    raw_message answer \<Rightarrow> send_state \<Rightarrow> net \<Rightarrow>
    (error, command_send_receipt) result option \<times> send_state \<times> net" where
  "publish_and_wait cd p m ts ans s net =
     (case compress_message cd m (po_compression (pb_options p)) of
        Inl e \<Rightarrow> (Some (Inl e), s, net)
      | Inr compressed_message \<Rightarrow>
          (case producer_send_message p compressed_message ts s net of
             (Some (Accepted ch), s1, net1) \<Rightarrow>
               (let (r, net2) = await_receipt ans (ss_conn s1) net1 in (Some r, s1, net2))
           | (Some (Rejected e), s1, net1) \<Rightarrow> (Some (Inl e), s1, net1)
           | (_, s1, net1) \<Rightarrow> (None, s1, net1)))"

datatype send_loop_event =
    Batch_received "batch_item list" "send_turn list" "raw_message answer"
  | Batches_closed nat "raw_message answer"

text \<open>
  The state of the task: what its producer would have, what its callers were told, whether it
  still runs, and what closing came to. A task that waits for ever takes no further event.
\<close>

record send_loop =
  sl_state :: send_state
  sl_resolved :: "(nat \<times> (error, command_send_receipt) result) list"
  sl_flushed :: "nat list"
  sl_closed :: "(connection_error, command_success) result option"
  sl_running :: bool

definition send_loop_start :: "nat \<Rightarrow> (byte list) option \<Rightarrow> send_loop" where
  "send_loop_start c schema_version =
     \<lparr>sl_state = send_state_new c schema_version, sl_resolved = [], sl_flushed = [],
      sl_closed = None, sl_running = True\<rparr>"

fun message_send_loop_step :: "wire \<Rightarrow> codecs \<Rightarrow> publisher \<Rightarrow> send_loop_event \<Rightarrow> send_loop \<Rightarrow> net \<Rightarrow>
    send_loop \<times> net" where
  "message_send_loop_step w cd p (Batch_received items ts ans) l net =
     (let sending = (\<lambda>m. publish_and_wait cd p m ts ans (sl_state l) net);
          out = message_send_step w
                  (\<lambda>m. case sending m of (Some r, _) \<Rightarrow> r | (None, _) \<Rightarrow> Inl Executor)
                  (ss_schema_version (sl_state l)) items
      in case so_message out of
           None \<Rightarrow> (l\<lparr>sl_flushed := sl_flushed l @ so_flushed out\<rparr>, net)
         | Some m \<Rightarrow>
             (case sending m of
                (Some _, s1, net1) \<Rightarrow>
                  (l\<lparr>sl_state := s1, sl_resolved := sl_resolved l @ so_resolved out,
                     sl_flushed := sl_flushed l @ so_flushed out\<rparr>, net1)
              | (None, s1, net1) \<Rightarrow> (l\<lparr>sl_state := s1, sl_running := False\<rparr>, net1)))"
| "message_send_loop_step w cd p (Batches_closed ch ans) l net =
     (let c = ss_conn (sl_state l);
          (r, c1) = conn_close_producer (pb_id p) ch ans (net c)
      in (l\<lparr>sl_closed := Some r, sl_running := False\<rparr>, net(c := c1)))"

fun message_send_loop :: "wire \<Rightarrow> codecs \<Rightarrow> publisher \<Rightarrow> send_loop_event list \<Rightarrow> send_loop \<Rightarrow> net \<Rightarrow>
    send_loop \<times> net" where
  "message_send_loop w cd p [] l net = (l, net)"
| "message_send_loop w cd p (e # es) l net =
     (if sl_running l
      then (case message_send_loop_step w cd p e l net of (l1, net1) \<Rightarrow> message_send_loop w cd p es l1 net1)
      else (l, net))"

lemma map_fst_enumerate: "map fst (map (\<lambda>(i, tx). (tx, f i)) (enumerate n xs)) = xs"
  by (simp add: comp_def case_prod_unfold)

lemma map_fst_enumerate' [simp]: "map (fst \<circ> (\<lambda>(i, tx). (tx, f i))) (enumerate n xs) = xs"
  using map_fst_enumerate by simp

lemma map_fst_pair [simp]: "map (fst \<circ> (\<lambda>tx. (tx, f tx))) xs = xs"
  by (simp add: comp_def)

lemma butlast_senders: "is_flush (last items) \<Longrightarrow> items \<noteq> [] \<Longrightarrow>
    List.map_filter item_sender (butlast items) = List.map_filter item_sender items"
  by (induction items)
     (auto simp: List.map_filter_simps split: option.split if_splits elim!: is_flush.elims)

text \<open>Every caller of a batch is told something, and nobody else.\<close>

lemma message_send_step_senders:
  "map fst (so_resolved (message_send_step w answer sv items)) = List.map_filter item_sender items"
proof (cases "items = []")
  case False
  show ?thesis
  proof (cases "last items")
    case (Flush tx)
    with False butlast_senders [of items] show ?thesis
      by (auto simp: message_send_step_def Let_def List.map_filter_simps split: sum.split)
  qed (use False in \<open>auto simp: message_send_step_def Let_def split: sum.split\<close>)
qed (simp add: message_send_step_def List.map_filter_simps)

lemma message_send_step_message:
  "so_message (message_send_step w answer sv items) = so_message (message_send_step w answer' sv items)"
  by (auto simp: message_send_step_def Let_def split: sum.splits batch_item.splits)

lemma message_send_step_quiet:
  "so_message (message_send_step w answer sv items) = None \<Longrightarrow>
    so_resolved (message_send_step w answer sv items) = []"
  by (auto simp: message_send_step_def Let_def split: sum.splits batch_item.splits if_splits)

lemma map_filter_append: "List.map_filter f (xs @ ys) = List.map_filter f xs @ List.map_filter f ys"
  by (simp add: List.map_filter_def)

fun batch_senders :: "send_loop_event list \<Rightarrow> nat list" where
  "batch_senders [] = []"
| "batch_senders (Batch_received items ts ans # es) = List.map_filter item_sender items @ batch_senders es"
| "batch_senders (Batches_closed ch ans # es) = []"

lemma message_send_loop_stopped: "\<not> sl_running l \<Longrightarrow> message_send_loop w cd p es l net = (l, net)"
  by (cases es) simp_all

lemma message_send_loop_answers:
  "message_send_loop w cd p es l net = (l1, net1) \<Longrightarrow> sl_running l \<Longrightarrow> sl_closed l = None \<Longrightarrow>
    sl_running l1 \<or> sl_closed l1 \<noteq> None \<Longrightarrow>
    map fst (sl_resolved l1) = map fst (sl_resolved l) @ batch_senders es"
proof (induction es arbitrary: l net)
  case (Cons e es)
  obtain l2 net2 where st: "message_send_loop_step w cd p e l net = (l2, net2)" by fastforce
  with Cons.prems have rest: "message_send_loop w cd p es l2 net2 = (l1, net1)" by simp
  show ?case
  proof (cases e)
    case (Batch_received items ts ans)
    show ?thesis
    proof (cases "sl_running l2")
      case True
      have "sl_closed l2 = None" "map fst (sl_resolved l2)
          = map fst (sl_resolved l) @ List.map_filter item_sender items"
        using st True Batch_received Cons.prems message_send_step_senders [of w _ _ items]
          message_send_step_quiet [of w _ _ items]
        by (auto simp: Let_def split: option.splits prod.splits) (metis list.simps(8))+
      with Cons.IH [OF rest True] Cons.prems Batch_received show ?thesis by simp
    next
      case False
      then have "l1 = l2" using rest by (simp add: message_send_loop_stopped)
      moreover have "sl_closed l2 = None"
        using st Batch_received Cons.prems by (auto simp: Let_def split: option.splits prod.splits)
      ultimately show ?thesis using Cons.prems False by simp
    qed
  next
    case (Batches_closed ch ans)
    then have "\<not> sl_running l2 \<and> sl_resolved l2 = sl_resolved l"
      using st by (auto simp: Let_def split: prod.splits)
    then show ?thesis using rest Batches_closed by (auto simp: message_send_loop_stopped)
  qed
qed simp

lemma sorted_consecutive_ids:
  assumes "n \<le> 2 ^ 64"
  shows "sorted_wrt (<) (map (\<lambda>k. (of_nat k :: u64)) [0..<n])"
proof (rule sorted_wrt_map [THEN iffD2], rule sorted_wrt_mono_rel [OF _ sorted_wrt_upt])
  fix i j
  assume "i \<in> set [0..<n]" "j \<in> set [0..<n]" "i < j"
  then show "(of_nat i :: u64) < of_nat j"
    using assms by (simp add: word_less_nat_alt unat_of_nat take_bit_nat_eq_self)
qed

section \<open>Properties\<close>


definition example_publisher :: publisher where
  "example_publisher = \<lparr>pb_id = 4, pb_name = ''p'', pb_topic = ''t'',
     pb_options = producer_options_default, pb_retry = operation_retry_options_default\<rparr>"

text \<open>A turn in which nobody interferes.\<close>

definition example_send_turn :: send_turn where
  "example_send_turn = \<lparr>tn_others = id, tn_publish_time = 9, tn_resolver = 3, tn_room = None,
     tn_close_resolver = 5, tn_close_answer = Canceled,
     tn_lookup = Inr example_address, tn_connect = Inr 1,
     tn_attempts = [\<lparr>at_result = Inr (\<lparr>ps_request_id = 0, ps_producer_name = ''p'',
         ps_last_sequence_id = None, ps_schema_version = Some [7], ps_topic_epoch = None,
         ps_producer_ready = None\<rparr>, None),
       at_lookup = Inl Executor, at_connect = Inl Disconnected\<rparr>]\<rparr>"

definition example_net :: net where
  "example_net = (\<lambda>c. conn_new 1 (broker_features_from None))"

definition example_jobs :: "(producer_message \<times> send_turn list) list" where
  "example_jobs =
     [(producer_message_default,
       [example_send_turn\<lparr>tn_others := \<lambda>net. net(0 := set_error Disconnected (net 0))\<rparr>, example_send_turn]),
      (producer_message_default, [example_send_turn]),
      (producer_message_default,
       [example_send_turn\<lparr>tn_others := \<lambda>net. net(1 := sink_step (Inr ()) (net 1))\<rparr>])]"

lemmas example_send_defs = example_jobs_def example_net_def example_send_turn_def
  example_publisher_def send_state_new_def producer_options_default_def

lemmas send_eval = send_turn_step_def attempt_send_def reconnect_producer_def conn_send_def
  send_message_non_blocking_def register_with_def conn_new_def conn_is_valid_def set_error_def
  conn_close_producer_def serial_get_def send_message_def await_answer_def sink_step_def
  retry_create_producer_def create_decide_def producer_outcome_def

lemma example_jobs_run:
  "fst (producer_sends example_publisher example_jobs (send_state_new 0 None) example_net)
     = [Some (Accepted 3), Some (Rejected (Producer (Connection_producer SlowDown))), Some (Accepted 3)]"
  "ss_attempts (fst (snd (producer_sends example_publisher example_jobs (send_state_new 0 None) example_net)))
     = [(1, 0, Queued), (1, 1, Refused SlowDown), (1, 2, Queued)]"
  by (simp_all add: example_send_defs send_eval)


text \<open>
  A send that is accepted has put its own message on the connection it ended on: that
  message, under the producer's name and number and the sequence number just drawn, is the last
  one of the connection's data channel, and the receipt channel returned is the one it was
  registered with.
\<close>

theorem accepted_message_is_queued:
  assumes "producer_send_message p m ts s net = (Some (Accepted ch), s', net')"
  shows "\<exists>t \<in> set ts. ch = tn_resolver t \<and> (\<exists>q. sn_data (net' (ss_conn s')) =
    q @ [msg_send (tn_publish_time t) (pb_id p) (pb_name p) (ss_sequence s' - 1) m])"
  using assms by (rule producer_send_message_accepted)

text \<open>
  C16. What ends a send: in every turn before the one that decides, the topic's broker was found
  again and the producer created anew; an error is the failure of finding the broker, that of
  creating the producer, or one of the connection that does not count as losing it; and a
  send waits for ever only for room in a full channel, when it was told to block, or for the
  creation of its producer.
\<close>

theorem send_outcome_is_explained:
  assumes "producer_send_message p m ts s net = (Some out, s', net')"
  shows "\<exists>before t after. ts = before @ t # after \<and> list_all (recreated (pb_retry p)) before
    \<and> explains p t out"
  using assms by (rule producer_send_message_explained)

theorem send_outcome_is_explained_witness:
  "\<exists>before t after. snd (hd example_jobs) = before @ t # after
    \<and> list_all (recreated operation_retry_options_default) before \<and> tn_resolver t = 3"
proof -
  obtain s' net' where run: "producer_send_message example_publisher producer_message_default
      (snd (hd example_jobs)) (send_state_new 0 None) example_net = (Some (Accepted 3), s', net')"
  proof -
    have "fst (producer_send_message example_publisher producer_message_default
      (snd (hd example_jobs)) (send_state_new 0 None) example_net) = Some (Accepted 3)"
      by (simp add: example_send_defs send_eval)
    then show ?thesis using that by (cases "producer_send_message example_publisher producer_message_default
      (snd (hd example_jobs)) (send_state_new 0 None) example_net") auto
  qed
  from send_outcome_is_explained [OF run] obtain before t after where
    "snd (hd example_jobs) = before @ t # after" "list_all (recreated (pb_retry example_publisher)) before"
    "explains example_publisher t (Accepted 3)" by blast
  then show ?thesis
    by (intro exI [of _ before] exI [of _ t] exI [of _ after]) (simp add: example_publisher_def)
qed

text \<open>
  A send comes to an end as soon as the network allows: if in some turn every connection is
  valid, open and has room, the send has returned by then, however many connections were lost
  before.
\<close>

theorem send_returns_once_healthy:
  assumes "t \<in> set ts" and "healthy_turn t"
  shows "\<exists>out s' net'. producer_send_message p m ts s net = (Some out, s', net')"
  using assms by (rule producer_send_message_returns)

theorem send_returns_once_healthy_witness:
  "\<exists>out s' net'. producer_send_message example_publisher producer_message_default
    [example_send_turn\<lparr>tn_others := \<lambda>net c. set_error Disconnected (net c)\<rparr>,
     example_send_turn\<lparr>tn_others := \<lambda>net c. conn_new 1 (broker_features_from None)\<rparr>]
    (send_state_new 0 None) example_net = (Some out, s', net')"
proof (rule send_returns_once_healthy)
  show "healthy_turn (example_send_turn\<lparr>tn_others := \<lambda>net c. conn_new 1 (broker_features_from None)\<rparr>)"
    by (simp add: healthy_turn_def healthy_def conn_new_def conn_is_valid_def)
qed simp

text \<open>
  C12. Nobody who hands a message to a batching producer is forgotten: when the batches the first
  task sent on go through the second and both have ended, every message taken from the
  producer's channel has had its caller told once, in the order of the messages: by the second
  task, with a receipt or an error, or by the first, that the producer is closed.
\<close>

theorem every_batched_message_is_answered:
  assumes "bl = batch_run es (batch_loop_start (new_batch_storage options))"
    and "Channel_closed \<in> set es"
    and "map fst bs = bl_sent bl"
    and "message_send_loop w cd p (map (\<lambda>(items, ts, a). Batch_received items ts a) bs
           @ [Batches_closed ch ans]) (send_loop_start c schema_version) net = (sl, net')"
    and "sl_closed sl \<noteq> None"
  shows "map fst (sl_resolved sl) @ bl_failed bl = List.map_filter item_sender (received es)"
proof -
  have senders: "batch_senders (map (\<lambda>(items, ts, a). Batch_received items ts a) bs
      @ [Batches_closed ch ans]) = List.map_filter item_sender (concat (map fst bs))"
    by (induction bs) (auto simp: List.map_filter_simps map_filter_append)
  have "map fst (sl_resolved sl) = List.map_filter item_sender (concat (bl_sent bl))"
    using message_send_loop_answers [OF assms(4)] assms(3,5) senders
    by (simp add: send_loop_start_def)
  moreover obtain lost where "concat (bl_sent bl) @ lost = received es"
    "bl_failed bl = List.map_filter item_sender lost"
    using batch_run_accounting [of "batch_loop_start (new_batch_storage options)" es] assms(1,2)
    by (auto simp: batch_loop_start_def new_batch_storage_def)
  ultimately show ?thesis by (metis map_filter_append)
qed

definition example_wire :: wire where
  "example_wire = \<lparr>enc_command = (\<lambda>c. []), dec_command = (\<lambda>bs. Inl []), enc_metadata = (\<lambda>md. []),
     dec_metadata = (\<lambda>bs. Inl []), enc_single = (\<lambda>md. []), dec_single = (\<lambda>bs. Inl []),
     crc32c = (\<lambda>bs. 0)\<rparr>"

definition example_codecs :: codecs where
  "example_codecs = \<lparr>lz4_compress = (\<lambda>l bs. Inr bs), zlib_compress = (\<lambda>l bs. Inr bs),
     zstd_compress = (\<lambda>l bs. Inr bs), snappy_compress = Inr, lz4_decompress = (\<lambda>bs n. Inr bs),
     zlib_decompress = Inr, zstd_decompress = Inr, snappy_decompress = Inr\<rparr>"

definition example_item :: "nat \<Rightarrow> batch_item" where
  "example_item tx = SingleMessage tx (batched_of producer_message_default)"

lemma item_sender_example [simp]: "item_sender (example_item tx) = Some tx" "\<not> is_flush (example_item tx)"
  by (simp_all add: example_item_def)

theorem every_batched_message_is_answered_witness:
  "\<exists>sl net'. message_send_loop example_wire example_codecs example_publisher
      [Batch_received [example_item 10, example_item 11] [example_send_turn] Canceled,
       Batches_closed 8 Canceled] (send_loop_start 0 None) example_net = (sl, net')
    \<and> map fst (sl_resolved sl) = [10, 11]"
proof -
  let ?es = "[Item (example_item 10), Item (example_item 11), Item (example_item 12), Channel_closed]"
  let ?options = "producer_options_default\<lparr>po_batch_size := Some 2\<rparr>"
  let ?bl = "batch_run ?es (batch_loop_start (new_batch_storage ?options))"
  let ?bs = "[([example_item 10, example_item 11], [example_send_turn], Canceled :: raw_message answer)]"
  have bl: "bl_sent ?bl = [[example_item 10, example_item 11]]" "bl_failed ?bl = [12]"
    by (simp_all add: batch_loop_start_def new_batch_storage_def producer_options_default_def
        ready_to_flush_def flush_storage_def get_messages_def push_back_def example_item_def
        single_metadata_default_def List.map_filter_simps)
  obtain sl net' where run: "message_send_loop example_wire example_codecs example_publisher
      (map (\<lambda>(items, ts, a). Batch_received items ts a) ?bs @ [Batches_closed 8 Canceled])
      (send_loop_start 0 None) example_net = (sl, net')" by fastforce
  have "sl_closed (fst (message_send_loop example_wire example_codecs example_publisher
      (map (\<lambda>(items, ts, a). Batch_received items ts a) ?bs @ [Batches_closed 8 Canceled])
      (send_loop_start 0 None) example_net)) \<noteq> None"
    by (simp add: example_send_defs send_eval send_loop_start_def message_send_step_def
        publish_and_wait_def await_receipt_def example_item_def List.map_filter_simps)
  then have "sl_closed sl \<noteq> None" unfolding run by simp
  from every_batched_message_is_answered [OF refl _ _ run this, of ?es ?options] bl
  have "map fst (sl_resolved sl) @ [12] = List.map_filter item_sender (received ?es)" by simp
  then show ?thesis
    using run by (simp add: example_item_def List.map_filter_simps)
qed

end
