(* ===== verification/Producer.thy ===== *)
theory Producer
  imports Sender Routing Discovery "HOL-Library.AList"
begin

text \<open>
  The producers an application holds (\<open>producer.rs\<close>): the \<open>TopicProducer\<close> of one topic or
  partition, with its life cycle; the \<open>Producer\<close> that routes over the partitions of a topic and
  the \<open>ProducerBuilder\<close> that makes it; \<open>MultiTopicProducer\<close>, which makes producers as topics are
  named; \<open>MessageBuilder\<close>. A result \<open>None\<close> is a call that does not return: it waits for ever,
  or panics. The two tasks of a batching producer are those of \<open>Batch\<close> and \<open>Sender\<close>; the
  producer sees of them whether they still read the channel.
\<close>

section \<open>The producer of one topic\<close>

record topic_batch =
  tb_items :: "batch_item list"
  tb_receiver :: bool

record topic_producer =
  tp_publisher :: publisher
  tp_state :: send_state
  tp_batch :: "topic_batch option"

definition tp_topic :: "topic_producer \<Rightarrow> string" where
  "tp_topic p = pb_topic (tp_publisher p)"

definition tp_options :: "topic_producer \<Rightarrow> producer_options" where
  "tp_options p = pb_options (tp_publisher p)"

text \<open>
  What the calls of \<open>TopicProducer::new\<close> come to: the connection to the broker, again when the
  producer is created, the attempts to create it, and whether the executor took the tasks of
  a batching producer. The generator of producer numbers is global; the number is an argument.
\<close>

record new_env =
  nw_connect :: "(connection_error, nat) result"
  nw_reconnect :: "(connection_error, nat) result"
  nw_attempts :: "producer_attempt list"
  nw_spawned :: bool

definition topic_producer_new :: "operation_retry_options \<Rightarrow> u64 \<Rightarrow> new_env \<Rightarrow> string \<Rightarrow>
    producer_options \<Rightarrow> (error, topic_producer) result option" where
  "topic_producer_new o1 producer_id env topic options =
     (case nw_connect env of
        Inl e \<Rightarrow> Some (Inl (Connection e))
      | Inr _ \<Rightarrow>
          (case retry_create_producer o1 (nw_reconnect env) (nw_attempts env) of
             (cs, Some (Some (Inr (producer_name, schema_version)))) \<Rightarrow>
               Some (Inr
                 \<lparr>tp_publisher = \<lparr>pb_id = producer_id, pb_name = producer_name, pb_topic = topic,
                    pb_options = options, pb_retry = o1\<rparr>,
                  tp_state = send_state_new (last cs) schema_version,
                  tp_batch = (if \<not> enabled_batching options then None
                              else Some \<lparr>tb_items = [], tb_receiver = nw_spawned env\<rparr>)\<rparr>)
           | (_, Some (Some (Inl e))) \<Rightarrow> Some (Inl e)
           | _ \<Rightarrow> None))"

definition topic_check_connection :: "nat \<Rightarrow> unit answer \<Rightarrow> topic_producer \<Rightarrow> net \<Rightarrow>
    (error, unit) result \<times> net" where
  "topic_check_connection ch ans p net =
     (let c = ss_conn (tp_state p); (r, c1) = conn_send_ping ch ans (net c)
      in (map_err Connection r, net(c := c1)))"

text \<open>
  What a send meets: the channel of the future it returns, the turns of the sending loop, whether
  the executor takes the task that forwards the receipt, whether a full channel to the
  batching task finds room, and how the channel library words its error.
\<close>

record raw_env =
  rw_resolver :: nat
  rw_turns :: "send_turn list"
  rw_executor :: bool
  rw_room :: bool
  rw_gone :: string

definition send_raw :: "codecs \<Rightarrow> raw_env \<Rightarrow> producer_message \<Rightarrow> topic_producer \<Rightarrow> net \<Rightarrow>
    (error, nat) result option \<times> topic_producer \<times> net" where
  "send_raw cd env m p net =
     (case tp_batch p of
        Some b \<Rightarrow>
          (if \<not> tb_receiver b then
             (Some (Inl (Producer (Custom_producer
                (''failed to send message to batch_process_loop: '' @ rw_gone env)))), p, net)
           else if \<not> rw_room env then (None, p, net)
           else (Some (Inr (rw_resolver env)),
                 p\<lparr>tp_batch := Some (b\<lparr>tb_items := tb_items b
                      @ [SingleMessage (rw_resolver env) (batched_of m)]\<rparr>)\<rparr>, net))
      | None \<Rightarrow>
          (if enabled_batching (tp_options p) then (Some (Inl (Producer Closed_producer)), p, net)
           else
             (let m1 = (if pm_schema_version m = None
                        then m\<lparr>pm_schema_version := ss_schema_version (tp_state p)\<rparr> else m)
              in case compress_message cd m1 (po_compression (tp_options p)) of
                   Inl e \<Rightarrow> (Some (Inl e), p, net)
                 | Inr compressed_message \<Rightarrow>
                     (case producer_send_message (tp_publisher p) compressed_message (rw_turns env)
                             (tp_state p) net of
                        (Some (Accepted _), s1, net1) \<Rightarrow>
                          (Some (if rw_executor env then Inr (rw_resolver env) else Inl Executor),
                           p\<lparr>tp_state := s1\<rparr>, net1)
                      | (Some (Rejected e), s1, net1) \<Rightarrow> (Some (Inl e), p\<lparr>tp_state := s1\<rparr>, net1)
                      | (_, s1, net1) \<Rightarrow> (None, p\<lparr>tp_state := s1\<rparr>, net1)))))"

definition topic_send :: "(byte list \<Rightarrow> string) \<Rightarrow> codecs \<Rightarrow> raw_env \<Rightarrow> message_in \<Rightarrow> topic_producer \<Rightarrow>
    net \<Rightarrow> (error, nat) result option \<times> topic_producer \<times> net" where
  "topic_send b64e cd env m p net = send_raw cd env (producer_message_from b64e m) p net"

text \<open>
  Flushing the batch: the request joins the channel when the batching task reads it, and the call
  returns once the request was answered or dropped, which is \<open>answered\<close>.
\<close>

definition topic_send_batch :: "nat \<Rightarrow> bool \<Rightarrow> topic_producer \<Rightarrow>
    (error, unit) result option \<times> topic_producer" where
  "topic_send_batch tx answered p =
     (case tp_batch p of
        Some b \<Rightarrow>
          (if answered then Some (Inr ()) else None,
           if tb_receiver b then p\<lparr>tp_batch := Some (b\<lparr>tb_items := tb_items b @ [Flush tx]\<rparr>)\<rparr> else p)
      | None \<Rightarrow>
          (Some (Inl (Producer (if enabled_batching (tp_options p) then Closed_producer
                                else Custom_producer ''not a batching producer''))), p))"

text \<open>
  Closing: \<open>closed\<close> is what the publishing task reports (\<open>Some None\<close> when it ended without a
  report, \<open>None\<close> when it never does).
\<close>

definition topic_close :: "nat \<Rightarrow> raw_message answer \<Rightarrow>
    (connection_error, command_success) result option option \<Rightarrow> topic_producer \<Rightarrow> net \<Rightarrow>
    (error, unit) result option \<times> topic_producer \<times> net" where
  "topic_close ch ans closed p net =
     (case tp_batch p of
        None \<Rightarrow>
          (let c = ss_conn (tp_state p);
               (r, c1) = conn_close_producer (pb_id (tp_publisher p)) ch ans (net c)
           in (Some (map_err Connection (rmap (\<lambda>_. ()) r)), p, net(c := c1)))
      | Some b \<Rightarrow>
          (if enabled_batching (tp_options p)
           then (case closed of
                   None \<Rightarrow> None
                 | Some None \<Rightarrow> Some (Inl (Producer Closed_producer))
                 | Some (Some r) \<Rightarrow>
                     Some (map_err (\<lambda>e. Producer (Connection_producer e)) (rmap (\<lambda>_. ()) r)))
           else Some (Inr ()),
           p\<lparr>tp_batch := None\<rparr>, net))"

text \<open>Dropping a producer asks the broker to close it, in the background.\<close>

definition topic_drop :: "bool \<Rightarrow> nat \<Rightarrow> raw_message answer \<Rightarrow> topic_producer \<Rightarrow> net \<Rightarrow> net" where
  "topic_drop spawned ch ans p net =
     (if spawned
      then (let c = ss_conn (tp_state p)
            in net(c := snd (conn_close_producer (pb_id (tp_publisher p)) ch ans (net c))))
      else net)"

section \<open>Making a producer\<close>

text \<open>
  \<open>try_join_all\<close> over futures some of which may never finish: the first failure, or all the
  values in order.
\<close>

fun try_join_opt :: "('e + 'a) option list \<Rightarrow> ('e + 'a list) option" where
  "try_join_opt [] = Some (Inr [])"
| "try_join_opt (r # rs) =
     (case (r, try_join_opt rs) of
        (Some (Inl e), _) \<Rightarrow> Some (Inl e)
      | (_, Some (Inl e)) \<Rightarrow> Some (Inl e)
      | (Some (Inr x), Some (Inr xs)) \<Rightarrow> Some (Inr (x # xs))
      | _ \<Rightarrow> None)"

datatype topic_sender =
    Single_producer topic_producer
  | Partitioned_producer "topic_producer partitioned_producer"

record producer_builder =
  bd_topic :: "string option"
  bd_producer_options :: "producer_options option"
  bd_partition_refresh :: "duration option"

definition default_partition_refresh :: duration where
  "default_partition_refresh = nanos_of_secs 60"

definition producer_builder_new :: producer_builder where
  "producer_builder_new =
     \<lparr>bd_topic = None, bd_producer_options = None,
      bd_partition_refresh = Some default_partition_refresh\<rparr>"

text \<open>
  What building a producer meets: the answers of service discovery, what creating the producer
  of each partition meets, the random number below its argument, the instant. \<open>gen\<close> is the
  generator of producer numbers; the second component is the generator afterwards.
\<close>

record build_env =
  be_retry :: operation_retry_options
  be_number :: "(service_discovery_error, u32) result"
  be_lookup :: "string \<Rightarrow> (service_discovery_error, broker_address) result"
  be_news :: "string \<times> broker_address \<Rightarrow> new_env"
  be_pick :: "nat \<Rightarrow> nat"
  be_now :: nat

definition producer_build :: "build_env \<Rightarrow> u64 \<Rightarrow> producer_builder \<Rightarrow>
    (error, topic_sender) result option \<times> u64" where
  "producer_build be gen bd =
     (case bd_topic bd of
        None \<Rightarrow> (Some (Inl (Custom ''topic not set'')), gen)
      | Some topic \<Rightarrow>
          (let options = (case bd_producer_options bd of
                            Some options \<Rightarrow> options | None \<Rightarrow> producer_options_default)
           in case map_err ServiceDiscovery (lookup_partitioned_topic (be_number be) (be_lookup be) topic) of
                Inl e \<Rightarrow> (Some (Inl e), gen)
              | Inr partitions \<Rightarrow>
                  (let is_partitioned = (case partitions of [] \<Rightarrow> False | (first, _) # _ \<Rightarrow> first \<noteq> topic);
                       created = try_join_opt (map (\<lambda>(i, t, addr).
                         topic_producer_new (be_retry be) (gen + of_nat i) (be_news be (t, addr)) t options)
                         (enumerate 0 partitions))
                   in (case created of
                         None \<Rightarrow> None
                       | Some (Inl e) \<Rightarrow> Some (Inl e)
                       | Some (Inr unsorted) \<Rightarrow>
                           (let producers = sort_key (partition_order tp_topic) unsorted
                            in if producers = [] then
                                 Some (Inl (Custom
                                   (''Unexpected error: Partition lookup returned no topics for '' @ topic)))
                               else if is_partitioned then
                                 Some (Inr (Partitioned_producer
                                   \<lparr>pp_producers = producers, pp_last_used = be_pick be (length producers),
                                    pp_topic = topic, pp_options = options,
                                    pp_refresh = bd_partition_refresh bd, pp_last_check = be_now be\<rparr>))
                               else Some (Inr (Single_producer (hd producers)))),
                       gen + of_nat (length partitions)))))"

section \<open>Publishing through it\<close>

definition sender_topic :: "topic_sender \<Rightarrow> string" where
  "sender_topic p =
     (case p of Single_producer tp \<Rightarrow> tp_topic tp | Partitioned_producer pp \<Rightarrow> pp_topic pp)"

definition sender_partitions :: "topic_sender \<Rightarrow> string list option" where
  "sender_partitions p =
     (case p of
        Single_producer tp \<Rightarrow> None
      | Partitioned_producer pp \<Rightarrow> Some (map tp_topic (pp_producers pp)))"

text \<open>
  What a send meets around the producer it ends on: the instant, the answer of looking the
  partitions up and of creating producers for new ones.
\<close>

record refresh_env =
  rf_now :: nat
  rf_lookup :: "string \<Rightarrow> (error, (string \<times> broker_address) list) result"
  rf_create :: "string \<times> broker_address \<Rightarrow> (error, topic_producer) result"

definition refreshed :: "refresh_env \<Rightarrow> topic_sender \<Rightarrow> topic_sender" where
  "refreshed rf p =
     (case p of
        Single_producer tp \<Rightarrow> p
      | Partitioned_producer pp \<Rightarrow>
          Partitioned_producer
            (refresh_partitions tp_topic (rf_now rf) (rf_lookup rf) (rf_create rf) pp))"

record route_env =
  re_murmur :: "byte list \<Rightarrow> u32 \<Rightarrow> u32"
  re_b64e :: "byte list \<Rightarrow> string"
  re_codecs :: codecs

text \<open>Choosing the producer of a serialized message and sending it there.\<close>

definition sender_send :: "route_env \<Rightarrow> raw_env \<Rightarrow> message_in \<Rightarrow> topic_sender \<Rightarrow> net \<Rightarrow>
    (error, nat) result option \<times> topic_sender \<times> net" where
  "sender_send re env m p net =
     (case p of
        Single_producer tp \<Rightarrow>
          (let (r, tp1, net1) = topic_send (re_b64e re) (re_codecs re) env m tp net
           in (r, Single_producer tp1, net1))
      | Partitioned_producer pp \<Rightarrow>
          (case choose_partition (re_murmur re) (re_b64e re) m pp of
             (None, pp1) \<Rightarrow> (None, Partitioned_producer pp1, net)
           | (Some i, pp1) \<Rightarrow>
               (let (r, tp1, net1) =
                      topic_send (re_b64e re) (re_codecs re) env m (pp_producers pp1 ! i) net
                in (r, Partitioned_producer (pp1\<lparr>pp_producers := (pp_producers pp1)[i := tp1]\<rparr>), net1))))"

definition send_non_blocking :: "route_env \<Rightarrow> refresh_env \<Rightarrow> raw_env \<Rightarrow> (error, message_in) result \<Rightarrow>
    topic_sender \<Rightarrow> net \<Rightarrow> (error, nat) result option \<times> topic_sender \<times> net" where
  "send_non_blocking re rf env serialized p net =
     (case serialized of
        Inl e \<Rightarrow> (Some (Inl e), p, net)
      | Inr m \<Rightarrow> sender_send re env m (refreshed rf p) net)"

text \<open>
  A list of messages, each with what its serialization gives and what its send meets. The sends
  made before a message that fails to serialize stay made.
\<close>

fun sends_of :: "route_env \<Rightarrow> ((error, message_in) result \<times> raw_env) list \<Rightarrow> topic_sender \<Rightarrow> net \<Rightarrow>
    (error, (error + nat) list) result option \<times> topic_sender \<times> net" where
  "sends_of re [] p net = (Some (Inr []), p, net)"
| "sends_of re ((Inl e, env) # ms) p net = (Some (Inl e), p, net)"
| "sends_of re ((Inr m, env) # ms) p net =
     (case sender_send re env m p net of
        (None, p1, net1) \<Rightarrow> (None, p1, net1)
      | (Some r, p1, net1) \<Rightarrow>
          (case sends_of re ms p1 net1 of
             (rest, p2, net2) \<Rightarrow> (map_option (rmap (\<lambda>rs. r # rs)) rest, p2, net2)))"

definition collect_sends :: "(error + nat) list \<Rightarrow> (error, nat list) result" where
  "collect_sends sends =
     (if list_all is_ok sends then Inr (map projr sends) else Inl (Producer (PartialSend sends)))"

definition send_all :: "route_env \<Rightarrow> refresh_env \<Rightarrow> ((error, message_in) result \<times> raw_env) list \<Rightarrow>
    topic_sender \<Rightarrow> net \<Rightarrow> (error, nat list) result option \<times> topic_sender \<times> net" where
  "send_all re rf ms p net =
     (case sends_of re ms (refreshed rf p) net of
        (r, p1, net1) \<Rightarrow> (map_option (\<lambda>sends. rbind sends collect_sends) r, p1, net1))"

section \<open>The future a send returns\<close>

text \<open>What polling it gives, from the state of its channel: empty, closed, or holding the outcome.\<close>

fun send_future_poll :: "(error, command_send_receipt) result answer option \<Rightarrow>
    (error, command_send_receipt) result option" where
  "send_future_poll (Some (Answered r)) = Some r"
| "send_future_poll (Some Canceled) =
     Some (Inl (Producer (Custom_producer ''producer unexpectedly disconnected'')))"
| "send_future_poll (Some Timed_out) = None"
| "send_future_poll None = None"

section \<open>Producers made on demand\<close>

record multi_topic_producer =
  mp_producers :: "(string \<times> topic_sender) list"
  mp_options :: producer_options

definition build_multi_topic :: "producer_builder \<Rightarrow> multi_topic_producer" where
  "build_multi_topic bd =
     \<lparr>mp_producers = [],
      mp_options = (case bd_producer_options bd of
                      Some options \<Rightarrow> options | None \<Rightarrow> producer_options_default)\<rparr>"

definition multi_send_with :: "route_env \<Rightarrow> refresh_env \<Rightarrow> raw_env \<Rightarrow> string \<Rightarrow> message_in \<Rightarrow>
    topic_sender \<Rightarrow> multi_topic_producer \<Rightarrow> net \<Rightarrow>
    (error, nat) result option \<times> multi_topic_producer \<times> net" where
  "multi_send_with re rf env topic m p mp net =
     (let (r, p1, net1) = send_non_blocking re rf env (Inr m) p net
      in (r, mp\<lparr>mp_producers := AList.update topic p1 (mp_producers mp)\<rparr>, net1))"

definition multi_send_non_blocking :: "route_env \<Rightarrow> refresh_env \<Rightarrow> build_env \<Rightarrow> raw_env \<Rightarrow> string \<Rightarrow>
    (error, message_in) result \<Rightarrow> multi_topic_producer \<Rightarrow> u64 \<Rightarrow> net \<Rightarrow>
    (error, nat) result option \<times> multi_topic_producer \<times> u64 \<times> net" where
  "multi_send_non_blocking re rf be env topic serialized mp gen net =
     (case serialized of
        Inl e \<Rightarrow> (Some (Inl e), mp, gen, net)
      | Inr m \<Rightarrow>
          (case map_of (mp_producers mp) topic of
             Some p \<Rightarrow>
               (let (r, mp1, net1) = multi_send_with re rf env topic m p mp net in (r, mp1, gen, net1))
           | None \<Rightarrow>
               (case producer_build be gen (producer_builder_new
                        \<lparr>bd_topic := Some topic, bd_producer_options := Some (mp_options mp)\<rparr>) of
                  (Some (Inr p), gen1) \<Rightarrow>
                    (let (r, mp1, net1) = multi_send_with re rf env topic m p mp net
                     in (r, mp1, gen1, net1))
                | (Some (Inl e), gen1) \<Rightarrow> (Some (Inl e), mp, gen1, net)
                | (None, gen1) \<Rightarrow> (None, mp, gen1, net))))"

definition multi_close_producer :: "(error, (string \<times> broker_address) list) result \<Rightarrow>
    multi_topic_producer \<Rightarrow> (error, unit) result \<times> multi_topic_producer" where
  "multi_close_producer found mp =
     (case found of
        Inl e \<Rightarrow> (Inl e, mp)
      | Inr partitions \<Rightarrow>
          (Inr (), mp\<lparr>mp_producers :=
             fold (\<lambda>(t, addr) ps. AList.delete t ps) partitions (mp_producers mp)\<rparr>))"

section \<open>Building a message\<close>

record message_builder =
  mb_properties :: "(string \<times> string) list"
  mb_partition_key :: "partition_key option"
  mb_ordering_key :: "(byte list) option"
  mb_deliver_at_time :: "i64 option"
  mb_event_time :: "u64 option"

definition message_builder_new :: message_builder where
  "message_builder_new = \<lparr>mb_properties = [], mb_partition_key = None, mb_ordering_key = None,
     mb_deliver_at_time = None, mb_event_time = None\<rparr>"

definition with_property :: "string \<Rightarrow> string \<Rightarrow> message_builder \<Rightarrow> message_builder" where
  "with_property key val mb = mb\<lparr>mb_properties := AList.update key val (mb_properties mb)\<rparr>"

text \<open>An instant counts nanoseconds from the Unix epoch; milliseconds are cut to 64 bits.\<close>

definition i64_of_millis :: "int \<Rightarrow> i64" where
  "i64_of_millis nanos = sint (word_of_int (nanos div 1000000) :: u64)"

definition deliver_at :: "int \<Rightarrow> message_builder \<Rightarrow> message_builder option" where
  "deliver_at date mb =
     (if date < 0 then None else Some (mb\<lparr>mb_deliver_at_time := Some (i64_of_millis date)\<rparr>))"

definition delay :: "int \<Rightarrow> duration \<Rightarrow> message_builder \<Rightarrow> message_builder option" where
  "delay now d mb = deliver_at (now + int d) mb"

definition built_message :: "message_builder \<Rightarrow> message_in \<Rightarrow> message_in" where
  "built_message mb m = m
     \<lparr>m_properties := mb_properties mb, m_partition_key := mb_partition_key mb,
      m_ordering_key := mb_ordering_key mb, m_event_time := mb_event_time mb,
      m_deliver_at_time := mb_deliver_at_time mb\<rparr>"

definition message_builder_send :: "route_env \<Rightarrow> refresh_env \<Rightarrow> raw_env \<Rightarrow> (error, message_in) result \<Rightarrow>
    message_builder \<Rightarrow> topic_sender \<Rightarrow> net \<Rightarrow> (error, nat) result option \<times> topic_sender \<times> net" where
  "message_builder_send re rf env serialized mb p net =
     send_non_blocking re rf env (rmap (built_message mb) serialized) p net"

section \<open>What the operations keep\<close>

text \<open>A producer has a batching task only when its options enable batching.\<close>

definition tp_ok :: "topic_producer \<Rightarrow> bool" where
  "tp_ok p \<longleftrightarrow> (tp_batch p \<noteq> None \<longrightarrow> enabled_batching (tp_options p))"

definition sender_ok :: "topic_sender \<Rightarrow> bool" where
  "sender_ok p \<longleftrightarrow>
     (case p of
        Single_producer tp \<Rightarrow> tp_ok tp
      | Partitioned_producer pp \<Rightarrow> partitions_ok tp_topic pp \<and> list_all tp_ok (pp_producers pp)
          \<and> list_all (\<lambda>tp. tp_options tp = pp_options pp) (pp_producers pp))"

lemma topic_producer_new_Inr:
  "topic_producer_new o1 gen env topic options = Some (Inr tp) \<Longrightarrow>
    tp_topic tp = topic \<and> tp_options tp = options \<and> tp_ok tp \<and> pb_id (tp_publisher tp) = gen"
  by (auto simp: topic_producer_new_def tp_topic_def tp_options_def tp_ok_def
      split: sum.splits option.splits prod.splits if_splits)

lemma send_raw_frame:
  "send_raw cd env m p net = (r, p1, net1) \<Longrightarrow>
    tp_publisher p1 = tp_publisher p \<and> (tp_batch p1 = None \<longleftrightarrow> tp_batch p = None)"
  by (auto simp: send_raw_def Let_def split: option.splits sum.splits prod.splits send_result.splits if_splits)

lemma topic_send_frame:
  "topic_send b64e cd env m p net = (r, p1, net1) \<Longrightarrow>
    tp_topic p1 = tp_topic p \<and> tp_options p1 = tp_options p \<and> (tp_ok p1 \<longleftrightarrow> tp_ok p)
    \<and> tp_publisher p1 = tp_publisher p"
  using send_raw_frame [of cd env "producer_message_from b64e m" p net r p1 net1]
  by (auto simp: topic_send_def tp_topic_def tp_options_def tp_ok_def)

lemma topic_send_batch_frame:
  "topic_send_batch tx a p = (r, p1) \<Longrightarrow>
    tp_publisher p1 = tp_publisher p \<and> (tp_ok p1 \<longleftrightarrow> tp_ok p)"
  by (auto simp: topic_send_batch_def tp_ok_def tp_options_def split: option.splits if_splits)

lemma topic_close_frame:
  "topic_close ch ans closed p net = (r, p1, net1) \<Longrightarrow>
    tp_publisher p1 = tp_publisher p \<and> tp_ok p1"
  by (auto simp: topic_close_def tp_ok_def tp_options_def Let_def split: option.splits if_splits prod.splits)

lemma choose_partition_frame:
  assumes "choose_partition m3 b64e m p = (io, p1)"
  shows "pp_producers p1 = pp_producers p \<and> pp_topic p1 = pp_topic p \<and> pp_options p1 = pp_options p"
    and "pp_producers p \<noteq> [] \<Longrightarrow> pp_last_used p1 = pp_last_used p \<or> pp_last_used p1 < length (pp_producers p)"
    and "io = Some i \<Longrightarrow> i < length (pp_producers p)"
  using assms
  by (auto simp: choose_partition_def route_by_key_def get_next_round_robin_producer_def get_mut_def Let_def
      split: option.splits routing_policy.splits if_splits)

lemma partitions_ok_update:
  assumes "partitions_ok tp_topic pp" and "i < length (pp_producers pp)"
    and "tp_topic tp = tp_topic (pp_producers pp ! i)"
  shows "partitions_ok tp_topic (pp\<lparr>pp_producers := (pp_producers pp)[i := tp]\<rparr>)"
proof -
  have "map tp_topic ((pp_producers pp)[i := tp]) = map tp_topic (pp_producers pp)"
    using assms(2,3) by (simp add: map_update list_update_same_conv)
  then show ?thesis using assms(1) by (simp add: partitions_ok_def)
qed

lemma list_all_update: "list_all P xs \<Longrightarrow> P x \<Longrightarrow> list_all P (xs[i := x])"
  by (auto simp: list_all_iff dest: set_update_subset_insert [THEN subsetD])

lemma sender_ok_update:
  assumes "sender_ok (Partitioned_producer pp)" and "i < length (pp_producers pp)"
    and "tp_topic tp = tp_topic (pp_producers pp ! i)" "tp_options tp = tp_options (pp_producers pp ! i)"
    and "tp_ok tp"
  shows "sender_ok (Partitioned_producer (pp\<lparr>pp_producers := (pp_producers pp)[i := tp]\<rparr>))"
  using assms partitions_ok_update [of pp i tp]
  by (simp add: sender_ok_def list_all_update) (simp add: list_all_length nth_list_update)

lemma sender_send_ok:
  assumes "sender_ok p" and "sender_send re env m p net = (r, p1, net1)"
  shows "sender_ok p1"
proof (cases p)
  case (Single_producer tp)
  then show ?thesis
    using assms topic_send_frame [of "re_b64e re" "re_codecs re" env m tp net]
    by (auto simp: sender_send_def sender_ok_def split: prod.splits)
next
  case (Partitioned_producer pp)
  obtain io pp1 where choice: "choose_partition (re_murmur re) (re_b64e re) m pp = (io, pp1)" by fastforce
  note frame = choose_partition_frame [OF choice]
  have ok: "sender_ok (Partitioned_producer pp1)"
    using assms(1) frame(1,2) Partitioned_producer by (auto simp: sender_ok_def partitions_ok_def)
  show ?thesis
  proof (cases io)
    case None
    then show ?thesis using assms(2) choice ok Partitioned_producer by (auto simp: sender_send_def)
  next
    case (Some i)
    obtain r' tp net' where send: "topic_send (re_b64e re) (re_codecs re) env m (pp_producers pp1 ! i) net
      = (r', tp, net')" using prod_cases3 by blast
    have i: "i < length (pp_producers pp1)" using frame(1) frame(3) [OF Some] by simp
    have "tp_ok (pp_producers pp1 ! i)" using ok i by (simp add: sender_ok_def list_all_length)
    then have "sender_ok (Partitioned_producer (pp1\<lparr>pp_producers := (pp_producers pp1)[i := tp]\<rparr>))"
      using topic_send_frame [OF send] by (intro sender_ok_update [OF ok i]) simp_all
    then show ?thesis using assms(2) choice Some send Partitioned_producer by (auto simp: sender_send_def)
  qed
qed

text \<open>What a refresh relies on: lookups name all partitions, and the topic only ever grows.\<close>

definition refresh_ok :: "refresh_env \<Rightarrow> topic_sender \<Rightarrow> bool" where
  "refresh_ok rf p \<longleftrightarrow>
     (case p of
        Single_producer tp \<Rightarrow> True
      | Partitioned_producer pp \<Rightarrow>
          pp_topic pp \<noteq> []
          \<and> (\<forall>found. rf_lookup rf (pp_topic pp) = Inr found \<longrightarrow>
               (\<exists>n'. length (pp_producers pp) \<le> n' \<and> n' \<le> 2 ^ 64
                 \<and> map fst found = map (partition_name (pp_topic pp)) [0..<n']))
          \<and> (\<forall>x tp. rf_create rf x = Inr tp \<longrightarrow>
               tp_topic tp = fst x \<and> tp_ok tp \<and> tp_options tp = pp_options pp))"

lemma refreshed_ok:
  assumes "sender_ok p" and "refresh_ok rf p"
  shows "sender_ok (refreshed rf p)"
proof (cases p)
  case (Partitioned_producer pp)
  note ok = assms(1) [unfolded sender_ok_def Partitioned_producer topic_sender.case]
  note ref = assms(2) [unfolded refresh_ok_def Partitioned_producer topic_sender.case]
  let ?pp = "refresh_partitions tp_topic (rf_now rf) (rf_lookup rf) (rf_create rf) pp"
  have "partitions_ok tp_topic ?pp"
  proof (cases "rf_lookup rf (pp_topic pp)")
    case (Inl e)
    then show ?thesis
      using ok by (auto simp: refresh_partitions_def partitions_ok_def Let_def split: option.splits)
  next
    case (Inr found)
    then obtain n' where n': "length (pp_producers pp) \<le> n'" "n' \<le> 2 ^ 64"
      "map fst found = map (partition_name (pp_topic pp)) [0..<n']" using ref by blast
    show ?thesis
      by (rule refresh_partitions_ok [where n' = n', THEN conjunct1]) (use ok ref Inr n' in auto)
  qed
  moreover have "list_all (\<lambda>tp. tp_ok tp \<and> tp_options tp = pp_options pp) (pp_producers ?pp)"
  proof (cases rule: refresh_partitions_cases [of tp_topic "rf_now rf" "rf_lookup rf" "rf_create rf" pp])
    case same
    then show ?thesis using ok by (simp add: list_all_iff)
  next
    case (grown found created)
    have "tp_ok tp \<and> tp_options tp = pp_options pp" if "tp \<in> set created" for tp
    proof -
      from arg_cong [OF grown(2), of set] that obtain x where "Inr tp = rf_create rf x"
        unfolding set_map by (metis imageE imageI)
      then show ?thesis using ref by metis
    qed
    then show ?thesis using ok ref grown(3) by (auto simp: list_all_iff)
  qed
  ultimately show ?thesis
    by (simp add: refreshed_def sender_ok_def Partitioned_producer refresh_partitions_frame list_all_iff)
qed (use assms in \<open>simp add: refreshed_def\<close>)

lemma try_join_opt_Inr_iff: "try_join_opt rs = Some (Inr xs) \<longleftrightarrow> rs = map (\<lambda>x. Some (Inr x)) xs"
proof (induction rs arbitrary: xs)
  case (Cons r rs)
  show ?case
  proof (cases "\<exists>ys. try_join_opt rs = Some (Inr ys)")
    case True
    then obtain ys where ys: "try_join_opt rs = Some (Inr ys)" "rs = map (\<lambda>x. Some (Inr x)) ys"
      using Cons.IH by blast
    have inj: "map (\<lambda>x. Some (Inr x)) ys = map (\<lambda>x. Some (Inr x)) zs \<longleftrightarrow> ys = zs" for zs
      by (rule inj_map_eq_map) (simp add: inj_def)
    show ?thesis
      using ys inj by (cases xs) (auto split: option.splits sum.splits)
  next
    case False
    with Cons.IH have "rs \<noteq> map (\<lambda>x. Some (Inr x)) ys" for ys by blast
    then show ?thesis using False by (cases xs) (auto split: option.splits sum.splits)
  qed
qed auto

text \<open>The producers of a build, in the order of the lookup.\<close>

lemma build_created:
  assumes "try_join_opt (map (\<lambda>(i, t, addr). topic_producer_new o1 (gen + of_nat i) (news (t, addr)) t options)
      (enumerate 0 partitions)) = Some (Inr tps)"
  shows "map tp_topic tps = map fst partitions"
    and "map (\<lambda>tp. pb_id (tp_publisher tp)) tps = map (\<lambda>i. gen + of_nat i) [0..<length partitions]"
    and "list_all (\<lambda>tp. tp_ok tp \<and> tp_options tp = options) tps"
proof -
  have eq: "map (\<lambda>(i, t, addr). topic_producer_new o1 (gen + of_nat i) (news (t, addr)) t options)
      (enumerate 0 partitions) = map (\<lambda>x. Some (Inr x)) tps"
    using assms by (simp only: try_join_opt_Inr_iff)
  from arg_cong [OF eq, of length] have len: "length tps = length partitions" by simp
  have one: "tp_topic (tps ! i) = fst (partitions ! i) \<and> tp_options (tps ! i) = options \<and> tp_ok (tps ! i)
      \<and> pb_id (tp_publisher (tps ! i)) = gen + of_nat i" if "i < length partitions" for i
  proof (rule topic_producer_new_Inr)
    show "topic_producer_new o1 (gen + of_nat i) (news (partitions ! i)) (fst (partitions ! i)) options
        = Some (Inr (tps ! i))"
      using arg_cong [OF eq, of "\<lambda>xs. xs ! i"] that len
      by (simp add: nth_enumerate_eq case_prod_unfold)
  qed
  show "map tp_topic tps = map fst partitions"
    "map (\<lambda>tp. pb_id (tp_publisher tp)) tps = map (\<lambda>i. gen + of_nat i) [0..<length partitions]"
    using one len by (auto intro: nth_equalityI)
  show "list_all (\<lambda>tp. tp_ok tp \<and> tp_options tp = options) tps"
    using one len by (simp add: list_all_length)
qed

lemma map_sort_mset: "mset (map f (sort_key k xs)) = mset (map f xs)"
  by simp

lemma distinct_ids: "n \<le> 2 ^ 64 \<Longrightarrow> distinct (map (\<lambda>i. (gen :: u64) + of_nat i) [0..<n])"
proof -
  assume "n \<le> 2 ^ 64"
  then have "i = j" if "i < n" "j < n" "gen + of_nat i = gen + of_nat j" for i j
  proof -
    from that have "(of_nat i :: u64) = of_nat j" by simp
    moreover have "unat (of_nat k :: u64) = k" if "k < n" for k
      using that \<open>n \<le> _\<close> by (simp add: unat_of_nat take_bit_nat_eq_self)
    ultimately show ?thesis using that by metis
  qed
  then show ?thesis by (auto simp: distinct_map inj_on_def)
qed

lemma first_partition_name: "partition_name topic n \<noteq> topic"
  by (simp add: partition_name_def)

lemma producer_build_Inr:
  assumes build: "producer_build be gen bd = (Some (Inr p), gen')"
    and topic: "bd_topic bd = Some topic" "topic \<noteq> []" and pick: "\<forall>n > 0. be_pick be n < n"
    and number: "be_number be = Inr n"
  shows "sender_ok p \<and> (n = 0 \<longrightarrow> (\<exists>tp. p = Single_producer tp \<and> tp_topic tp = topic))
    \<and> (n \<noteq> 0 \<longrightarrow> (\<exists>pp. p = Partitioned_producer pp \<and> pp_topic pp = topic
        \<and> map tp_topic (pp_producers pp) = map (partition_name topic) [0..<unat n]
        \<and> distinct (map (\<lambda>tp. pb_id (tp_publisher tp)) (pp_producers pp))))"
proof -
  let ?options = "case bd_producer_options bd of Some options \<Rightarrow> options | None \<Rightarrow> producer_options_default"
  obtain found where found: "lookup_partitioned_topic (Inr n) (be_lookup be) topic = Inr found"
    using build topic number
    by (cases "lookup_partitioned_topic (Inr n) (be_lookup be) topic") (auto simp: producer_build_def)
  define created where "created = try_join_opt (map (\<lambda>(i, t, addr).
      topic_producer_new (be_retry be) (gen + of_nat i) (be_news be (t, addr)) t ?options)
      (enumerate 0 found))"
  obtain tps where tps: "created = Some (Inr tps)"
    using build topic number found
    by (auto simp: producer_build_def Let_def created_def [symmetric] split: option.splits sum.splits)
  note made = build_created [OF tps [unfolded created_def]]
  let ?tps = "sort_key (partition_order tp_topic) tps"
  from found have names: "map fst found = (if n = 0 then [topic] else map (partition_name topic) [0..<unat n])"
    by (simp add: lookup_partitioned_topic_found)
  show ?thesis
  proof (cases "n = 0")
    case True
    with names obtain a where "found = [(topic, a)]" by (cases found) auto
    with made tps obtain tp where "tps = [tp]" "tp_topic tp = topic" "tp_ok tp" by (cases tps) auto
    then show ?thesis
      using build topic number found True tps \<open>found = _\<close>
      by (auto simp: producer_build_def Let_def created_def sender_ok_def split: option.splits)
  next
    case False
    then have "0 < unat n" by (simp add: unat_gt_0)
    with names False have "map fst found = partition_name topic 0 # map (partition_name topic) [1..<unat n]"
      by (simp add: upt_conv_Cons)
    then obtain a rest where f: "found = (partition_name topic 0, a) # rest" by (cases found) auto
    have n: "unat n \<le> 2 ^ 64" using unsigned_less [of n, where 'a = nat] by simp
    have "length tps = unat n" "0 < length tps"
      using made(1) names False \<open>0 < unat n\<close> by (metis length_map diff_zero length_upt)+
    then have ne: "?tps \<noteq> []" by (metis length_greater_0_conv length_sort)
    have sorted: "map tp_topic ?tps = map (partition_name topic) [0..<unat n]"
      using made(1) names False topic n by (intro sort_partitions) simp_all
    have "mset (map (\<lambda>tp. pb_id (tp_publisher tp)) ?tps) = mset (map (\<lambda>tp. pb_id (tp_publisher tp)) tps)"
      by simp
    moreover have "distinct (map (\<lambda>tp. pb_id (tp_publisher tp)) tps)"
      unfolding made(2) using n \<open>length tps = unat n\<close> made(1)
      by (intro distinct_ids) (metis length_map)
    ultimately have ids: "distinct (map (\<lambda>tp. pb_id (tp_publisher tp)) ?tps)"
      by (metis mset_eq_imp_distinct_iff)
    let ?pp = "\<lparr>pp_producers = ?tps, pp_last_used = be_pick be (length ?tps), pp_topic = topic,
      pp_options = ?options, pp_refresh = bd_partition_refresh bd, pp_last_check = be_now be\<rparr>"
    have p: "p = Partitioned_producer ?pp"
      using build ne first_partition_name [of topic]
      unfolding producer_build_def topic(1) option.case number found Let_def map_err.simps sum.case
        created_def [symmetric] tps
      by (simp add: f)
    have "partitions_ok tp_topic ?pp"
      using sorted pick ne \<open>length tps = unat n\<close> \<open>0 < length tps\<close> by (simp add: partitions_ok_def)
    moreover have "list_all tp_ok ?tps" "list_all (\<lambda>tp. tp_options tp = ?options) ?tps"
      using made(3) by (auto simp: list_all_iff)
    ultimately show ?thesis using p sorted ids False by (auto simp: sender_ok_def)
  qed
qed

section \<open>Producers in use\<close>

text \<open>
  The producers an application can hold: built on a topic with partitions or without, then used
  in any order. Flushing and closing a partitioned producer runs over its partitions
  concurrently, so each partition makes its own step.
\<close>

inductive in_use :: "topic_sender \<Rightarrow> bool" where
  built: "producer_build be gen bd = (Some (Inr p), gen') \<Longrightarrow> bd_topic bd = Some topic \<Longrightarrow>
    topic \<noteq> [] \<Longrightarrow> \<forall>n > 0. be_pick be n < n \<Longrightarrow> be_number be = Inr n \<Longrightarrow> in_use p"
| sent: "in_use p \<Longrightarrow> refresh_ok rf p \<Longrightarrow>
    send_non_blocking re rf env serialized p net = (r, p1, net1) \<Longrightarrow> in_use p1"
| sent_all: "in_use p \<Longrightarrow> refresh_ok rf p \<Longrightarrow> send_all re rf ms p net = (r, p1, net1) \<Longrightarrow> in_use p1"
| flushed: "in_use (Single_producer tp) \<Longrightarrow> topic_send_batch tx a tp = (r, tp1) \<Longrightarrow>
    in_use (Single_producer tp1)"
| closed: "in_use (Single_producer tp) \<Longrightarrow> topic_close ch ans cl tp net = (r, tp1, net1) \<Longrightarrow>
    in_use (Single_producer tp1)"
| flushed_part: "in_use (Partitioned_producer pp) \<Longrightarrow> i < length (pp_producers pp) \<Longrightarrow>
    topic_send_batch tx a (pp_producers pp ! i) = (r, tp1) \<Longrightarrow>
    in_use (Partitioned_producer (pp\<lparr>pp_producers := (pp_producers pp)[i := tp1]\<rparr>))"
| closed_part: "in_use (Partitioned_producer pp) \<Longrightarrow> i < length (pp_producers pp) \<Longrightarrow>
    topic_close ch ans cl (pp_producers pp ! i) net = (r, tp1, net1) \<Longrightarrow>
    in_use (Partitioned_producer (pp\<lparr>pp_producers := (pp_producers pp)[i := tp1]\<rparr>))"

lemma sends_of_ok: "sender_ok p \<Longrightarrow> sends_of re ms p net = (r, p1, net1) \<Longrightarrow> sender_ok p1"
proof (induction ms arbitrary: p net r p1 net1)
  case (Cons job ms)
  obtain ser env where job: "job = (ser, env)" by fastforce
  show ?case
  proof (cases ser)
    case (Inr m)
    obtain o1 p2 net2 where one: "sender_send re env m p net = (o1, p2, net2)" using prod_cases3 by blast
    obtain o2 p3 net3 where rest: "sends_of re ms p2 net2 = (o2, p3, net3)" using prod_cases3 by blast
    note ok = sender_send_ok [OF Cons.prems(1) one]
    from Cons.IH [OF ok rest] ok show ?thesis
      using Cons.prems(2) job Inr one rest by (cases o1) auto
  qed (use Cons.prems job in auto)
qed simp

lemma same_frame_ok:
  assumes "tp_publisher tp1 = tp_publisher tp" and "tp_ok tp1"
  shows "sender_ok (Single_producer tp) \<Longrightarrow> sender_ok (Single_producer tp1)"
    and "sender_ok (Partitioned_producer pp) \<Longrightarrow> i < length (pp_producers pp) \<Longrightarrow>
      tp = pp_producers pp ! i \<Longrightarrow>
      sender_ok (Partitioned_producer (pp\<lparr>pp_producers := (pp_producers pp)[i := tp1]\<rparr>))"
proof -
  have eq: "tp_topic tp1 = tp_topic tp" "tp_options tp1 = tp_options tp"
    using assms by (simp_all add: tp_topic_def tp_options_def)
  show "sender_ok (Single_producer tp1)" if "sender_ok (Single_producer tp)"
    using assms by (simp add: sender_ok_def)
  show "sender_ok (Partitioned_producer (pp\<lparr>pp_producers := (pp_producers pp)[i := tp1]\<rparr>))"
    if "sender_ok (Partitioned_producer pp)" "i < length (pp_producers pp)" "tp = pp_producers pp ! i"
    using that eq assms(2) by (intro sender_ok_update) simp_all
qed

lemma in_use_ok: "in_use p \<Longrightarrow> sender_ok p"
proof (induction rule: in_use.induct)
  case (built be gen bd p gen' topic n)
  from producer_build_Inr [OF this] show ?case by (rule conjunct1)
next
  case (sent p rf re env serialized net r p1 net1)
  show ?case
  proof (cases serialized)
    case (Inr m)
    with sent(3) have "sender_send re env m (refreshed rf p) net = (r, p1, net1)"
      by (simp add: send_non_blocking_def)
    with refreshed_ok [OF sent(4,2)] show ?thesis by (rule sender_send_ok)
  qed (use sent(3,4) in \<open>simp add: send_non_blocking_def\<close>)
next
  case (sent_all p rf re ms net r p1 net1)
  obtain r' p2 net2 where sends: "sends_of re ms (refreshed rf p) net = (r', p2, net2)"
    using prod_cases3 by blast
  with sends_of_ok [OF refreshed_ok [OF sent_all(4,2)] this] sent_all(3) show ?case
    by (simp add: send_all_def)
next
  case (flushed tp tx a r tp1)
  then show ?case using topic_send_batch_frame [of tx a tp r tp1]
    by (intro same_frame_ok(1) [of tp1 tp]) (auto simp: sender_ok_def)
next
  case (closed tp ch ans cl net r tp1 net1)
  then show ?case using topic_close_frame [of ch ans cl tp net r tp1 net1]
    by (intro same_frame_ok(1) [of tp1 tp]) auto
next
  case (flushed_part pp i tx a r tp1)
  then have "tp_ok (pp_producers pp ! i)" by (simp add: sender_ok_def list_all_length)
  then show ?case using flushed_part topic_send_batch_frame [of tx a "pp_producers pp ! i" r tp1]
    by (intro same_frame_ok(2) [of tp1 "pp_producers pp ! i"]) auto
next
  case (closed_part pp i ch ans cl net r tp1 net1)
  then show ?case using topic_close_frame [of ch ans cl "pp_producers pp ! i" net r tp1 net1]
    by (intro same_frame_ok(2) [of tp1 "pp_producers pp ! i"]) auto
qed

section \<open>Properties\<close>

text \<open>
  C14. Every producer an application can hold is well formed: whatever sends, flushes and closes
  happened since it was built, a partitioned producer holds the producers of partitions 0 to
  \<open>n - 1\<close> in that order, with its options, and a producer has a batching task only when its
  options enable batching. So routing by key finds the right partition at any time, and the
  branch of \<open>close\<close> that warns of a second call is never taken.
\<close>

theorem producers_are_well_formed:
  assumes "in_use p"
  shows "(case p of
      Single_producer tp \<Rightarrow> tp_batch tp = None \<or> enabled_batching (tp_options tp)
    | Partitioned_producer pp \<Rightarrow> partitions_ok tp_topic pp
        \<and> list_all (\<lambda>tp. tp_options tp = pp_options pp
            \<and> (tp_batch tp = None \<or> enabled_batching (tp_options tp))) (pp_producers pp))"
  using in_use_ok [OF assms] by (cases p) (auto simp: sender_ok_def tp_ok_def list_all_iff)


definition example_new_env :: new_env where
  "example_new_env = \<lparr>nw_connect = Inr 0, nw_reconnect = Inr 0,
     nw_attempts = tn_attempts example_send_turn, nw_spawned = True\<rparr>"

definition example_build_env :: build_env where
  "example_build_env = \<lparr>be_retry = operation_retry_options_default, be_number = Inr 2,
     be_lookup = \<lambda>t. Inr example_address, be_news = \<lambda>x. example_new_env, be_pick = \<lambda>n. n - 1,
     be_now = 0\<rparr>"

definition example_builder :: producer_builder where
  "example_builder = producer_builder_new\<lparr>bd_topic := Some ''t''\<rparr>"

definition example_topic_producer :: "nat \<Rightarrow> topic_producer" where
  "example_topic_producer i =
     \<lparr>tp_publisher = \<lparr>pb_id = of_nat i, pb_name = ''p'', pb_topic = partition_name ''t'' i,
        pb_options = producer_options_default, pb_retry = operation_retry_options_default\<rparr>,
      tp_state = send_state_new 0 (Some [7]), tp_batch = None\<rparr>"

definition example_partitioned :: "topic_producer partitioned_producer" where
  "example_partitioned =
     \<lparr>pp_producers = map example_topic_producer [0, 1], pp_last_used = 1, pp_topic = ''t'',
      pp_options = producer_options_default, pp_refresh = Some default_partition_refresh,
      pp_last_check = 0\<rparr>"

lemma example_new: "topic_producer_new operation_retry_options_default (of_nat i) example_new_env
    (partition_name ''t'' i) producer_options_default = Some (Inr (example_topic_producer i))"
  by (simp add: topic_producer_new_def example_new_env_def example_send_turn_def
      retry_create_producer_def create_decide_def producer_outcome_def example_topic_producer_def
      enabled_batching_def producer_options_default_def)

lemma example_order: "partition_order tp_topic (example_topic_producer i) = i" if "i < 2 ^ 64"
  using that by (intro partition_order_name [of tp_topic _ "''t''"])
    (simp_all add: example_topic_producer_def tp_topic_def)

lemma example_upt: "[0..<2] = [0, Suc 0]"
  by code_simp

lemma example_build: "producer_build example_build_env 0 example_builder
    = (Some (Inr (Partitioned_producer example_partitioned)), 2)"
proof -
  have "lookup_partitioned_topic (Inr 2) (\<lambda>t. Inr example_address) ''t''
      = Inr [(partition_name ''t'' 0, example_address), (partition_name ''t'' 1, example_address)]"
    by (simp add: lookup_partitioned_topic_def partition_topics_def example_upt)
  moreover have "sort_key (partition_order tp_topic) (map example_topic_producer [0, 1])
      = map example_topic_producer [0, 1]"
    using example_order [of 0] example_order [of 1] by simp
  moreover have "enumerate 0 [x, y] = [(0, x), (1, y)]" for x y :: "string \<times> broker_address" by simp
  ultimately show ?thesis
    using example_new [of 0] example_new [of 1] first_partition_name [of "''t''" 0]
    by (simp add: producer_build_def example_build_env_def example_builder_def
        producer_builder_new_def example_partitioned_def default_partition_refresh_def)
qed

lemma example_in_use: "in_use (Partitioned_producer example_partitioned)"
  by (rule in_use.built [OF example_build, where topic = "''t''" and n = 2])
     (simp_all add: example_builder_def producer_builder_new_def example_build_env_def)

theorem producers_are_well_formed_witness:
  "partitions_ok tp_topic example_partitioned"
  using producers_are_well_formed [OF example_in_use] by simp



definition example_route_env :: route_env where
  "example_route_env = \<lparr>re_murmur = \<lambda>bs seed. 0, re_b64e = \<lambda>bs. [], re_codecs = example_codecs\<rparr>"

definition example_raw_env :: raw_env where
  "example_raw_env = \<lparr>rw_resolver = 6, rw_turns = [example_send_turn], rw_executor = True,
     rw_room = True, rw_gone = []\<rparr>"

definition example_refresh_env :: refresh_env where
  "example_refresh_env = \<lparr>rf_now = 0, rf_lookup = \<lambda>t. Inl Executor, rf_create = \<lambda>x. Inl Executor\<rparr>"

lemma example_refresh: "refreshed example_refresh_env (Partitioned_producer example_partitioned)
    = Partitioned_producer example_partitioned"
  by (simp add: refreshed_def example_refresh_env_def refresh_partitions_def example_partitioned_def
      default_partition_refresh_def nanos_of_secs_def)


text \<open>
  A closed producer that batches takes nothing more: closing puts nothing on a connection
  itself, reports what the publishing task reports, and from then on every message and every
  flush is refused with \<open>Closed\<close>, without any effect.
\<close>

theorem closed_batching_producer_refuses:
  assumes "tp_batch tp \<noteq> None" and "enabled_batching (tp_options tp)"
    and "topic_close ch ans cl tp net = (r, tp1, net1)"
  shows "net1 = net
    \<and> send_raw cd env m tp1 net2 = (Some (Inl (Producer Closed_producer)), tp1, net2)
    \<and> topic_send_batch tx a tp1 = (Some (Inl (Producer Closed_producer)), tp1)
    \<and> (r = Some (Inr ()) \<longleftrightarrow> (\<exists>s. cl = Some (Some (Inr s))))"
  using assms
  by (auto simp: topic_close_def send_raw_def topic_send_batch_def tp_options_def rmap_Inr_iff map_err_Inr_iff
      split: option.splits)

theorem closed_batching_producer_refuses_witness:
  "\<exists>tp1. topic_close 0 Canceled None ((example_topic_producer 0)
       \<lparr>tp_publisher := example_publisher\<lparr>pb_options := producer_options_default\<lparr>po_batch_size := Some 5\<rparr>\<rparr>,
        tp_batch := Some \<lparr>tb_items = [], tb_receiver = True\<rparr>\<rparr>) example_net = (None, tp1, example_net)
     \<and> topic_send_batch 1 True tp1 = (Some (Inl (Producer Closed_producer)), tp1)"
proof -
  let ?tp = "(example_topic_producer 0)
       \<lparr>tp_publisher := example_publisher\<lparr>pb_options := producer_options_default\<lparr>po_batch_size := Some 5\<rparr>\<rparr>,
        tp_batch := Some \<lparr>tb_items = [], tb_receiver = True\<rparr>\<rparr>"
  have on: "enabled_batching (tp_options ?tp)"
    by (simp add: tp_options_def enabled_batching_def)
  then have close: "topic_close 0 Canceled None ?tp example_net = (None, ?tp\<lparr>tp_batch := None\<rparr>, example_net)"
    by (simp add: topic_close_def tp_options_def)
  show ?thesis
    using closed_batching_producer_refuses [OF _ on close, of example_codecs example_raw_env
        producer_message_default example_net 1 True] close by auto
qed

text \<open>
  A producer that does not batch has no closed state: after \<open>close\<close> a healthy connection still
  takes its messages, though the broker was asked to close the producer, and closing it again
  asks the broker again.
\<close>

theorem closed_unbatched_producer_still_sends:
  assumes "tp_batch tp = None" and "\<not> enabled_batching (tp_options tp)"
    and "topic_close ch ans cl tp net = (r, tp1, net1)" and "po_compression (tp_options tp) = None"
    and "rw_turns env = [t]" "healthy_turn t" "rw_executor env"
  shows "tp1 = tp \<and> fst (send_raw cd env m tp1 net2) = Some (Inr (rw_resolver env))"
proof -
  have tp1: "tp1 = tp" using assms(1,3) by (auto simp: topic_close_def Let_def split: prod.splits)
  let ?m = "if pm_schema_version m = None then m\<lparr>pm_schema_version := ss_schema_version (tp_state tp)\<rparr> else m"
  obtain s1 net3 where "producer_send_message (tp_publisher tp) ?m [t] (tp_state tp) net2
      = (Some (Accepted (tn_resolver t)), s1, net3)"
    using send_turn_step_healthy [OF assms(6), of "tp_publisher tp" ?m "tp_state tp" net2] by auto
  then show ?thesis
    using assms tp1 by (simp add: send_raw_def Let_def tp_options_def)
qed

text \<open>
  Closing a topic of a multi-topic producer drops the producers of the names the lookup gives,
  which are partition names when the topic has partitions; the producer is kept under the
  topic's own name and stays.
\<close>

theorem multi_close_misses_partitioned_topics:
  assumes "map_of (mp_producers mp) topic = Some p"
    and "map fst found = map (partition_name topic) [0..<n]"
  shows "map_of (mp_producers (snd (multi_close_producer (Inr found) mp))) topic = Some p"
proof -
  have "map_of (fold (\<lambda>(t, addr). AList.delete t) found ps) topic = map_of ps topic"
    if "topic \<notin> set (map fst found)" for ps :: "(string \<times> topic_sender) list"
    using that by (induction found arbitrary: ps) (auto simp: delete_conv')
  moreover have "topic \<notin> set (map fst found)"
    unfolding assms(2) using first_partition_name by (metis (no_types, lifting) ex_map_conv)
  ultimately show ?thesis using assms(1) by (simp add: multi_close_producer_def)
qed

text \<open>A message given to the message builder as its content loses its key and its properties.\<close>

theorem message_builder_drops_the_key_of_its_content:
  "m_partition_key (built_message message_builder_new m) = None
   \<and> m_properties (built_message message_builder_new m) = []"
  by (simp add: built_message_def message_builder_new_def)

text \<open>
  A message that fails to serialize ends \<open>send_all\<close> with that error alone, though the messages
  before it were sent and accepted.
\<close>

theorem send_all_forgets_what_it_sent:
  assumes "sender_send re env m (refreshed rf p) net = (Some (Inr ch), p1, net1)"
  shows "send_all re rf [(Inr m, env), (Inl e, env')] p net = (Some (Inl e), p1, net1)"
  using assms by (simp add: send_all_def)

text \<open>
  A producer that batches checks the connection it was made with: publishing does not change the
  connection \<open>check_connection\<close> pings, though the task that publishes may have lost it and
  moved to another, as in the turn shown.
\<close>

theorem batching_producer_checks_its_first_connection:
  assumes "tp_batch tp \<noteq> None" and "send_raw cd env m tp net = (r, tp1, net1)"
  shows "tp_state tp1 = tp_state tp
    \<and> ss_conn (sl_state (fst (message_send_loop_step example_wire example_codecs example_publisher
        (Batch_received [example_item 1]
          [example_send_turn\<lparr>tn_others := \<lambda>net. net(0 := set_error Disconnected (net 0))\<rparr>,
           example_send_turn] Canceled) (send_loop_start 0 None) example_net))) = 1"
  using assms
  by (auto simp: send_raw_def example_send_defs send_eval send_loop_start_def message_send_step_def
      publish_and_wait_def await_receipt_def example_item_def List.map_filter_simps
      split: option.splits if_splits)

end
