(* ===== verification/Request_Spec.thy ===== *)
theory Request_Spec
  imports Receiver
begin

text \<open>
  What the receiving task of a connection promises each request, without its tables: every
  request key is a cell of its own, in which a request and its answer meet, whichever comes
  first. The task with its two maps refines the product of these cells.
\<close>

section \<open>The specification\<close>

datatype cell = Idle | Waiting_for nat | Answer_first raw_message

text \<open>
  A cell and what it has handed out. A second request under a waiting key takes the place of the
  first, a second early answer that of the first; the answer to a close request no one waits
  for is not kept, since it may be a message of the broker's own for the consumer.
\<close>

fun cell_step :: "req_key \<Rightarrow> receiver_event \<Rightarrow> cell \<times> (nat \<times> raw_message) list \<Rightarrow>
    cell \<times> (nat \<times> raw_message) list" where
  "cell_step k (Registration (Reg_request k' ch)) (s, out) =
     (if k' \<noteq> k then (s, out)
      else case s of
        Answer_first msg \<Rightarrow> (Idle, out @ [(ch, msg)])
      | _ \<Rightarrow> (Waiting_for ch, out))"
| "cell_step k (Registration reg) (s, out) = (s, out)"
| "cell_step k (Inbound msg) (s, out) =
     (if answers_key msg \<noteq> Some k then (s, out)
      else case s of
        Waiting_for ch \<Rightarrow> (Idle, out @ [(ch, msg)])
      | _ \<Rightarrow> (if request_key msg = Some k then (Answer_first msg, out) else (s, out)))"

section \<open>The refinement\<close>

definition cell_of :: "req_key \<Rightarrow> receiver \<Rightarrow> cell" where
  "cell_of k r =
     (case pending_requests r k of
        Some ch \<Rightarrow> Waiting_for ch
      | None \<Rightarrow> (case received_messages r k of Some msg \<Rightarrow> Answer_first msg | None \<Rightarrow> Idle))"

definition abs_request :: "req_key \<Rightarrow> receiver \<Rightarrow> cell \<times> (nat \<times> raw_message) list" where
  "abs_request k r = (cell_of k r, filter (\<lambda>(ch, msg). answers_key msg = Some k) (rc_resolved r))"

text \<open>What the abstraction needs: no key waits and has an answer, and an answer is kept under its key.\<close>

definition tables_ok :: "receiver \<Rightarrow> bool" where
  "tables_ok r \<longleftrightarrow> dom (pending_requests r) \<inter> dom (received_messages r) = {}
     \<and> (\<forall>k msg. received_messages r k = Some msg \<longrightarrow> answers_key msg = Some k)"

lemma tables_okD: "tables_ok r \<Longrightarrow> received_messages r k = Some msg \<Longrightarrow>
    pending_requests r k = None \<and> answers_key msg = Some k"
  by (auto simp: tables_ok_def)

lemma tables_ok_step: "tables_ok r \<Longrightarrow> tables_ok (receiver_step c e r)"
proof (cases e)
  case (Registration reg)
  assume "tables_ok r"
  with Registration show ?thesis by (cases reg) (auto simp: tables_ok_def split: option.splits)
next
  case (Inbound msg)
  assume "tables_ok r"
  with Inbound show ?thesis by (cases rule: on_message_cases [of msg r c]) (auto simp: tables_ok_def)
qed

text \<open>A message that answers a key no one waits under is kept, unless it answers a close request.\<close>

lemma unanswered_message:
  assumes "answers_key msg = Some k" and "pending_requests r k = None"
  shows "pending_requests (on_message c msg r) = pending_requests r
    \<and> rc_resolved (on_message c msg r) = rc_resolved r
    \<and> received_messages (on_message c msg r) =
        (if request_key msg = Some k then (received_messages r)(k \<mapsto> msg) else received_messages r)"
proof -
  have "ping (command msg) = None \<and> pong (command msg) = None"
  proof (rule ccontr)
    assume "\<not> ?thesis"
    then have "answers_key msg = None" by (auto simp: answers_key_def)
    with assms(1) show False by simp
  qed
  then have plain: "ping (command msg) = None" "pong (command msg) = None" by simp_all
  show ?thesis
  proof (cases "request_key msg")
    case None
    then show ?thesis using assms(1) plain by (simp add: answers_key_def)
  next
    case (Some key)
    then show ?thesis
      using assms plain
      by (cases key)
         (auto simp: answers_key_def on_message_def resolve_or_keep_def deliver_to_consumer_def
            split: option.splits)
  qed
qed

lemma pending_message:
  assumes "answers_key msg = Some k" and "pending_requests r k = Some ch"
  shows "pending_requests (on_message c msg r) = (pending_requests r)(k := None)
    \<and> received_messages (on_message c msg r) = received_messages r
    \<and> rc_resolved (on_message c msg r) = rc_resolved r @ [(ch, msg)]"
proof (cases rule: on_message_cases [of msg r c])
  case other
  with on_message_pending [OF assms, of c] show ?thesis by simp
qed (use assms in auto)

lemma receiver_step_refines:
  assumes "tables_ok r"
  shows "abs_request k (receiver_step c e r) = cell_step k e (abs_request k r)"
proof (cases e)
  case (Registration reg)
  show ?thesis
  proof (cases reg)
    case (Reg_request k' ch)
    show ?thesis
    proof (cases "received_messages r k'")
      case None
      then show ?thesis
        using Registration Reg_request
        by (auto simp: abs_request_def cell_of_def split: option.splits)
    next
      case (Some msg)
      from tables_okD [OF assms Some] have "pending_requests r k' = None" "answers_key msg = Some k'"
        by simp_all
      with Some show ?thesis
        using Registration Reg_request
        by (auto simp: abs_request_def cell_of_def split: option.splits)
    qed
  qed (simp_all add: Registration abs_request_def cell_of_def split: option.split)
next
  case (Inbound msg)
  show ?thesis
  proof (cases "answers_key msg")
    case None
    then show ?thesis
      using Inbound
      by (cases rule: on_message_cases [of msg r c])
         (auto simp: abs_request_def cell_of_def split: option.split)
  next
    case (Some k')
    show ?thesis
    proof (cases "pending_requests r k'")
      case None
      with unanswered_message [OF Some] tables_okD [OF assms] show ?thesis
        using Inbound Some
        by (auto simp: abs_request_def cell_of_def split: option.splits)
    next
      case (Some ch)
      note pending = this
      have "received_messages r k' = None"
        using assms pending by (auto simp: tables_ok_def)
      moreover have "pending_requests (on_message c msg r) = (pending_requests r)(k' := None)"
        "received_messages (on_message c msg r) = received_messages r"
        "rc_resolved (on_message c msg r) = rc_resolved r @ [(ch, msg)]"
        using pending_message [OF \<open>answers_key msg = Some k'\<close> pending] by blast+
      ultimately show ?thesis
        using Inbound \<open>answers_key msg = Some k'\<close> pending
        by (auto simp: abs_request_def cell_of_def split: option.split)
    qed
  qed
qed

lemma tables_ok_new: "tables_ok (receiver_new err)"
  by (simp add: tables_ok_def receiver_new_def)

section \<open>Properties\<close>

text \<open>
  C18. The receiving task refines the request cells: after any sequence of registrations and
  messages, in any order, what it holds for a request key and all it has handed out for that
  key are exactly what the cell of the key holds and has handed out after the same events. So
  requests do not influence each other, an answer is handed out once, and to the request
  registered last.
\<close>

theorem receiver_refines_request_cells:
  "abs_request k (receiver_run c es (receiver_new err)) = fold (cell_step k) es (Idle, [])"
proof -
  have "abs_request k (receiver_run c es r) = fold (cell_step k) es (abs_request k r)"
    if "tables_ok r" for r
    using that by (induction es arbitrary: r) (simp_all add: receiver_step_refines tables_ok_step)
  moreover have "abs_request k (receiver_new err) = (Idle, [])"
    by (simp add: abs_request_def cell_of_def receiver_new_def)
  ultimately show ?thesis using tables_ok_new by metis
qed

end
