(* ===== verification/Consumer.thy ===== *)
theory Consumer
  imports Sender Engine Discovery
begin

text \<open>
  The handles applications read one topic from: \<open>TopicConsumer\<close> (\<open>consumer/topic.rs\<close>), the reading
  side of one engine, and \<open>Reader\<close> (\<open>reader.rs\<close>), which acknowledges what it returns. A consumer
  holds what its engine has put on the channel and has not been read yet, and records what it
  sent the engine.
\<close>

section \<open>The consumer of one topic\<close>

record consumer_message =
  cm_topic :: string
  cm_id :: message_id_data
  cm_batch_size :: "i32 option"
  cm_payload :: payload

record topic_consumer =
  tc_id :: u64
  tc_config :: consumer_config
  tc_topic :: string
  tc_messages :: "(error, message_id_data \<times> payload) result list"
  tc_messages_open :: bool
  tc_engine_open :: bool
  tc_engine_tx :: "engine_message list"
  tc_last_received :: "nat option"
  tc_received :: u64
  tc_last_dequeued :: "message_id_data option"

record subscribe_env =
  se_connect :: "(connection_error, nat) result"
  se_reconnect :: "(connection_error, nat) result"
  se_attempts :: "command_success attempt list"
  se_flow :: "nat \<Rightarrow> (connection_error, unit) result"
  se_ticker_spawned :: bool
  se_engine_spawned :: bool

definition unwrap_or :: "'a \<Rightarrow> 'a option \<Rightarrow> 'a" where
  "unwrap_or d x = (case x of Some y \<Rightarrow> y | None \<Rightarrow> d)"

text \<open>
  Subscribing: the consumer and the engine that serves it. The number comes from the
  configuration or, when it names none, from the global generator \<open>gen\<close>; the second component is
  the generator afterwards.
\<close>

definition topic_consumer_new :: "operation_retry_options \<Rightarrow> subscribe_env \<Rightarrow> net \<Rightarrow> u64 \<Rightarrow> string \<Rightarrow>
    consumer_config \<Rightarrow> (error, topic_consumer \<times> engine) result option \<times> u64" where
  "topic_consumer_new o1 env net gen topic config =
     (let consumer_id = unwrap_or gen (cc_consumer_id config);
          gen' = (if cc_consumer_id config = None then gen + 1 else gen);
          batch_size = unwrap_or 1000 (cc_batch_size config);
          delay = cc_unacked_message_redelivery_delay config
      in (case se_connect env of
            Inl e \<Rightarrow> Some (Inl (Connection e))
          | Inr _ \<Rightarrow>
              (case retry_subscribe_consumer o1 (se_reconnect env) (se_attempts env) (se_flow env) of
                 None \<Rightarrow> None
               | Some (Inl e) \<Rightarrow> Some (Inl e)
               | Some (Inr c) \<Rightarrow>
                   (if delay \<noteq> None \<and> \<not> se_ticker_spawned env then Some (Inl Executor)
                    else if \<not> se_engine_spawned env then Some (Inl Executor)
                    else Some (Inr
                      (\<lparr>tc_id = consumer_id, tc_config = config, tc_topic = topic, tc_messages = [],
                        tc_messages_open = True, tc_engine_open = True, tc_engine_tx = [],
                        tc_last_received = None, tc_received = 0, tc_last_dequeued = None\<rparr>,
                       engine_new (net c) topic consumer_id batch_size delay
                         (cc_dead_letter_policy config) (cc_options config))))),
          gen'))"

definition send_engine :: "engine_message \<Rightarrow> topic_consumer \<Rightarrow>
    (consumer_error, unit) result \<times> topic_consumer" where
  "send_engine m c =
     (if tc_engine_open c then (Inr (), c\<lparr>tc_engine_tx := tc_engine_tx c @ [m]\<rparr>)
      else (Inl (from_mpsc_send_error Closed_chan), c))"

definition tc_ack_with_id :: "message_id_data \<Rightarrow> topic_consumer \<Rightarrow>
    (consumer_error, unit) result \<times> topic_consumer" where
  "tc_ack_with_id i c = send_engine (Ack_message i False) c"

definition tc_ack :: "consumer_message \<Rightarrow> topic_consumer \<Rightarrow>
    (consumer_error, unit) result \<times> topic_consumer" where
  "tc_ack m c = send_engine (Ack_message (cm_id m) False) c"

definition tc_cumulative_ack_with_id :: "message_id_data \<Rightarrow> topic_consumer \<Rightarrow>
    (consumer_error, unit) result \<times> topic_consumer" where
  "tc_cumulative_ack_with_id i c = send_engine (Ack_message i True) c"

definition tc_cumulative_ack :: "consumer_message \<Rightarrow> topic_consumer \<Rightarrow>
    (consumer_error, unit) result \<times> topic_consumer" where
  "tc_cumulative_ack m c = send_engine (Ack_message (cm_id m) True) c"

definition tc_nack_with_id :: "message_id_data \<Rightarrow> topic_consumer \<Rightarrow>
    (consumer_error, unit) result \<times> topic_consumer" where
  "tc_nack_with_id i c = send_engine (Nack_message i) c"

definition tc_nack :: "consumer_message \<Rightarrow> topic_consumer \<Rightarrow>
    (consumer_error, unit) result \<times> topic_consumer" where
  "tc_nack m c = send_engine (Nack_message (cm_id m)) c"

text \<open>Asking the engine for its connection; \<open>response\<close> is \<open>None\<close> when it drops the request.\<close>

definition tc_connection :: "nat option \<Rightarrow> topic_consumer \<Rightarrow> (error, nat) result \<times> topic_consumer" where
  "tc_connection response c =
     (case send_engine Get_connection c of
        (Inl _, c1) \<Rightarrow> (Inl (Consumer (Connection_consumer Disconnected)), c1)
      | (Inr _, c1) \<Rightarrow>
          (case response of
             Some conn \<Rightarrow> (Inr conn, c1)
           | None \<Rightarrow> (Inl (Connection Disconnected), c1)))"

text \<open>A request over that connection.\<close>

definition tc_request :: "nat option \<Rightarrow> (conn \<Rightarrow> (connection_error, 'a) result \<times> conn) \<Rightarrow>
    topic_consumer \<Rightarrow> net \<Rightarrow> (error, 'a) result \<times> topic_consumer \<times> net" where
  "tc_request response call c net =
     (case tc_connection response c of
        (Inl e, c1) \<Rightarrow> (Inl e, c1, net)
      | (Inr n, c1) \<Rightarrow>
          (let (r, conn1) = call (net n) in (map_err Connection r, c1, net(n := conn1))))"

definition tc_get_stats where
  "tc_get_stats response resolver ans c net =
     tc_request response (conn_get_consumer_stats (tc_id c) resolver ans) c net"

definition tc_check_connection where
  "tc_check_connection response resolver ans c net =
     tc_request response (conn_send_ping resolver ans) c net"

definition tc_seek where
  "tc_seek message_id timestamp response resolver ans c net =
     tc_request response (\<lambda>conn. case conn_seek (tc_id c) message_id timestamp resolver ans conn of
       (r, conn1) \<Rightarrow> (rmap (\<lambda>_. ()) r, conn1)) c net"

definition tc_unsubscribe where
  "tc_unsubscribe response resolver ans c net =
     tc_request response (\<lambda>conn. case conn_unsubscribe (tc_id c) resolver ans conn of
       (r, conn1) \<Rightarrow> (rmap (\<lambda>_. ()) r, conn1)) c net"

definition tc_close where
  "tc_close response resolver ans c net =
     tc_request response (\<lambda>conn. case conn_close_consumer (tc_id c) resolver ans conn of
       (r, conn1) \<Rightarrow> (rmap (\<lambda>_. ()) r, conn1)) c net"

definition tc_get_last_message_id where
  "tc_get_last_message_id response resolver ans c net =
     (case tc_request response (conn_get_last_message_id (tc_id c) resolver ans) c net of
        (r, c1, net1) \<Rightarrow> (rmap glr_last_message_id r, c1, net1))"

definition tc_get_schema where
  "tc_get_schema version response resolver ans c net =
     (case tc_request response (conn_get_schema (tc_topic c) version resolver ans) c net of
        (r, c1, net1) \<Rightarrow> (rmap gsr_schema r, c1, net1))"

text \<open>Positions are compared by ledger and entry.\<close>

definition position_less :: "message_id_data \<Rightarrow> message_id_data \<Rightarrow> bool" where
  "position_less a b \<longleftrightarrow> ledger_id a < ledger_id b \<or> ledger_id a = ledger_id b \<and> entry_id a < entry_id b"

text \<open>Whether the last message returned came from a batch with more to come.\<close>

definition inside_batch :: "topic_consumer \<Rightarrow> bool" where
  "inside_batch c =
     (case tc_last_dequeued c of
        Some dequeued \<Rightarrow>
          (case (id_batch_index dequeued, id_batch_size dequeued) of
             (Some index, Some size1) \<Rightarrow> index + 1 < size1
           | _ \<Rightarrow> False)
      | None \<Rightarrow> False)"

text \<open>What the broker's last message id says; an empty topic reports entry \<open>-1\<close>.\<close>

definition available_after :: "message_id_data \<Rightarrow> topic_consumer \<Rightarrow> bool" where
  "available_after last_id c =
     (if sint (entry_id last_id) < 0 then False
      else
        (let (position, inclusive) =
           (case tc_last_dequeued c of
              Some dequeued \<Rightarrow> (Some dequeued, False)
            | None \<Rightarrow> (co_start_message_id (cc_options (tc_config c)),
                       co_start_message_id_inclusive (cc_options (tc_config c))))
         in case position of
              None \<Rightarrow> True
            | Some p \<Rightarrow>
                (if position_less p last_id then True
                 else if position_less last_id p then False else inclusive)))"

definition tc_has_message_available where
  "tc_has_message_available response resolver ans c net =
     (if inside_batch c then (Inr True, c, net)
      else case tc_get_last_message_id response resolver ans c net of
        (Inl e, c1, net1) \<Rightarrow> (Inl e, c1, net1)
      | (Inr last_id, c1, net1) \<Rightarrow> (Inr (available_after last_id c1), c1, net1))"

definition create_message :: "topic_consumer \<Rightarrow> message_id_data \<Rightarrow> payload \<Rightarrow> consumer_message" where
  "create_message c i pl =
     \<lparr>cm_topic = tc_topic c, cm_id = i, cm_batch_size = md_num_messages_in_batch (pl_metadata pl),
      cm_payload = pl\<rparr>"

datatype 'a poll_next = Stream_pending | Stream_ended | Stream_item 'a

definition tc_poll_next :: "nat \<Rightarrow> topic_consumer \<Rightarrow>
    (error, consumer_message) result poll_next \<times> topic_consumer" where
  "tc_poll_next now c =
     (case tc_messages c of
        [] \<Rightarrow> (if tc_messages_open c then Stream_pending else Stream_ended, c)
      | Inr (i, pl) # rest \<Rightarrow>
          (Stream_item (Inr (create_message c i pl)),
           c\<lparr>tc_messages := rest, tc_last_received := Some now, tc_received := tc_received c + 1,
             tc_last_dequeued := Some i\<rparr>)
      | Inl e # rest \<Rightarrow> (Stream_item (Inl e), c\<lparr>tc_messages := rest\<rparr>))"

section \<open>The reader\<close>

datatype reader_state = Polling_consumer | Polling_ack consumer_message

record reader =
  rd_consumer :: topic_consumer
  rd_state :: reader_state

text \<open>
  One poll. The channel to the engine is unbounded, so the future that sends the
  acknowledgement is ready when it is first polled.
\<close>

definition reader_poll_ack :: "consumer_message \<Rightarrow> reader \<Rightarrow>
    (error, consumer_message) result poll_next \<times> reader" where
  "reader_poll_ack m rd =
     (case send_engine (Ack_message (cm_id m) False) (rd_consumer rd) of
        (r, c) \<Rightarrow> (Stream_item (rmap (\<lambda>_. m) (map_err Consumer r)),
                   \<lparr>rd_consumer = c, rd_state = Polling_consumer\<rparr>))"

definition reader_poll_next :: "nat \<Rightarrow> reader \<Rightarrow>
    (error, consumer_message) result poll_next \<times> reader" where
  "reader_poll_next now rd =
     (case rd_state rd of
        Polling_ack m \<Rightarrow> reader_poll_ack m rd
      | Polling_consumer \<Rightarrow>
          (case tc_poll_next now (rd_consumer rd) of
             (Stream_item (Inr m), c) \<Rightarrow>
               reader_poll_ack m (rd\<lparr>rd_consumer := c, rd_state := Polling_ack m\<rparr>)
           | (item, c) \<Rightarrow> (item, rd\<lparr>rd_consumer := c\<rparr>)))"

text \<open>The reader's other operations are those of its consumer.\<close>

definition on_reader :: "(topic_consumer \<Rightarrow> net \<Rightarrow> 'r \<times> topic_consumer \<times> net) \<Rightarrow> reader \<Rightarrow> net \<Rightarrow>
    'r \<times> reader \<times> net" where
  "on_reader call rd net =
     (case call (rd_consumer rd) net of (r, c, net1) \<Rightarrow> (r, rd\<lparr>rd_consumer := c\<rparr>, net1))"

definition reader_check_connection where
  "reader_check_connection response resolver ans = on_reader (tc_check_connection response resolver ans)"

definition reader_seek where
  "reader_seek message_id timestamp response resolver ans =
     on_reader (tc_seek message_id timestamp response resolver ans)"

definition reader_has_message_available where
  "reader_has_message_available response resolver ans =
     on_reader (tc_has_message_available response resolver ans)"

definition reader_get_last_message_id where
  "reader_get_last_message_id response resolver ans =
     on_reader (tc_get_last_message_id response resolver ans)"

definition reader_messages_received :: "reader \<Rightarrow> u64" where
  "reader_messages_received rd = tc_received (rd_consumer rd)"

definition reader_last_message_received :: "reader \<Rightarrow> nat option" where
  "reader_last_message_received rd = tc_last_received (rd_consumer rd)"

section \<open>Properties\<close>

subsection \<open>Reading and acknowledging\<close>

text \<open>The engine puts messages and errors on the consumer's channel between its polls.\<close>

type_synonym arrivals = "(error, message_id_data \<times> payload) result list"

definition arriving :: "arrivals \<Rightarrow> topic_consumer \<Rightarrow> topic_consumer" where
  "arriving items c = c\<lparr>tc_messages := tc_messages c @ items\<rparr>"

fun reader_turn :: "arrivals \<times> nat \<Rightarrow> reader \<Rightarrow> (error, consumer_message) result poll_next \<times> reader" where
  "reader_turn (items, now) rd =
     reader_poll_next now (rd\<lparr>rd_consumer := arriving items (rd_consumer rd)\<rparr>)"

text \<open>Polling a number of times: what each poll returned, in order.\<close>

fun polls :: "('env \<Rightarrow> 's \<Rightarrow> 'i \<times> 's) \<Rightarrow> 'env list \<Rightarrow> 's \<Rightarrow> 'i list \<times> 's" where
  "polls poll [] s = ([], s)"
| "polls poll (env # envs) s =
     (case poll env s of
        (item, s1) \<Rightarrow> (case polls poll envs s1 of (items, s2) \<Rightarrow> (item # items, s2)))"

fun delivered :: "('e, 'm) result poll_next list \<Rightarrow> 'm list" where
  "delivered [] = []"
| "delivered (Stream_item (Inr m) # items) = m # delivered items"
| "delivered (_ # items) = delivered items"

lemma delivered_Cons: "delivered (item # items) = delivered [item] @ delivered items"
proof (cases item)
  case (Stream_item r)
  then show ?thesis by (cases r) simp_all
qed simp_all

text \<open>
  What the streams of the client have in common: every poll keeps them in good order and
  changes what is observed of them by what the item returned says. \<open>allowed\<close> is what the
  environment keeps to.
\<close>

locale observed_stream =
  fixes poll :: "'env \<Rightarrow> 's \<Rightarrow> 'i \<times> 's"
    and good :: "'s \<Rightarrow> bool"
    and allowed :: "'env \<Rightarrow> bool"
    and observe :: "'s \<Rightarrow> 'o"
    and effect :: "'i \<Rightarrow> 'o \<Rightarrow> 'o"
  assumes poll_good: "\<lbrakk>good s; allowed env; poll env s = (item, s')\<rbrakk> \<Longrightarrow> good s'"
    and poll_observe:
      "\<lbrakk>good s; allowed env; poll env s = (item, s')\<rbrakk> \<Longrightarrow> observe s' = effect item (observe s)"
begin

lemma polls_observe:
  "\<lbrakk>good s; list_all allowed envs; polls poll envs s = (items, s')\<rbrakk>
     \<Longrightarrow> good s' \<and> observe s' = fold effect items (observe s)"
proof (induction envs arbitrary: s items s')
  case (Cons env envs)
  obtain item s1 where p: "poll env s = (item, s1)" by (cases "poll env s")
  obtain its s2 where q: "polls poll envs s1 = (its, s2)" by (cases "polls poll envs s1")
  from Cons.prems p q have eq: "items = item # its" "s' = s2" by auto
  from Cons.prems have "allowed env" "list_all allowed envs" by simp_all
  with Cons.IH [OF _ _ q] poll_good [OF Cons.prems(1) _ p] poll_observe [OF Cons.prems(1) _ p]
  show ?case by (simp add: eq)
qed simp

end

text \<open>Two observations: the count of messages received, and what was sent to the engine.\<close>

definition count_item :: "('e, 'm) result poll_next \<Rightarrow> u64 \<Rightarrow> u64" where
  "count_item item n = n + of_nat (length (delivered [item]))"

definition ack_item :: "('e, consumer_message) result poll_next \<Rightarrow> engine_message list \<Rightarrow>
    engine_message list" where
  "ack_item item acks = acks @ map (\<lambda>m. Ack_message (cm_id m) False) (delivered [item])"

lemma fold_count_item: "fold count_item items n = n + of_nat (length (delivered items))"
proof (induction items arbitrary: n)
  case (Cons item items)
  then show ?case by (simp add: count_item_def delivered_Cons [of item items])
qed simp

lemma fold_ack_item:
  "fold ack_item items acks = acks @ map (\<lambda>m. Ack_message (cm_id m) False) (delivered items)"
proof (induction items arbitrary: acks)
  case (Cons item items)
  then show ?case by (simp add: ack_item_def delivered_Cons [of item items])
qed simp

definition reader_idle :: "reader \<Rightarrow> bool" where
  "reader_idle rd \<longleftrightarrow> rd_state rd = Polling_consumer \<and> tc_engine_open (rd_consumer rd)"

lemmas reader_poll_defs = reader_idle_def reader_poll_next_def reader_poll_ack_def tc_poll_next_def
  send_engine_def arriving_def

interpretation single: observed_stream "\<lambda>(items, now) c. tc_poll_next now (arriving items c)"
    "\<lambda>c. True" "\<lambda>env. True" tc_received count_item
  by unfold_locales
     (auto simp: tc_poll_next_def arriving_def count_item_def split: list.splits sum.splits prod.splits)

interpretation reader_acks: observed_stream reader_turn reader_idle "\<lambda>env. True"
    "\<lambda>rd. tc_engine_tx (rd_consumer rd)" ack_item
  by unfold_locales
     (auto simp: reader_poll_defs ack_item_def split: list.splits sum.splits prod.splits if_splits)

interpretation reader_count: observed_stream reader_turn reader_idle "\<lambda>env. True"
    "\<lambda>rd. tc_received (rd_consumer rd)" count_item
  by unfold_locales
     (auto simp: reader_poll_defs count_item_def split: list.splits sum.splits prod.splits if_splits)


definition example_id :: "u64 \<Rightarrow> u64 \<Rightarrow> message_id_data" where
  "example_id ledger entry = MessageIdData ledger entry None None [] None None"

definition example_payload :: payload where
  "example_payload = \<lparr>pl_metadata = metadata_default, pl_data = []\<rparr>"

definition example_consumer :: topic_consumer where
  "example_consumer =
     \<lparr>tc_id = 7, tc_config = \<lparr>cc_subscription = ''s'', cc_sub_type = Exclusive, cc_batch_size = None,
        cc_consumer_name = None, cc_consumer_id = None, cc_unacked_message_redelivery_delay = None,
        cc_options = consumer_options_default, cc_dead_letter_policy = None\<rparr>,
      tc_topic = ''t'', tc_messages = [], tc_messages_open = True, tc_engine_open = True,
      tc_engine_tx = [], tc_last_received = None, tc_received = 0, tc_last_dequeued = None\<rparr>"


subsection \<open>Reading to the end of a topic\<close>

text \<open>
  The messages of a topic, by identifier: each either is the next of the batch of the one
  before it, at the same position, or, when that one is the last of its entry, stands at a later
  position.
\<close>

definition batch_continues :: "message_id_data \<Rightarrow> bool" where
  "batch_continues i =
     (case (id_batch_index i, id_batch_size i) of
        (Some index, Some size1) \<Rightarrow> index + 1 < size1 | _ \<Rightarrow> False)"

fun topic_log :: "message_id_data list \<Rightarrow> bool" where
  "topic_log (a # b # is) =
     ((if batch_continues a then ledger_id b = ledger_id a \<and> entry_id b = entry_id a
       else position_less a b) \<and> topic_log (b # is))"
| "topic_log [a] = (\<not> batch_continues a)"
| "topic_log [] = True"

lemma position_less_trans: "position_less a b \<Longrightarrow> position_less b c \<Longrightarrow> position_less a c"
  by (auto simp: position_less_def)

lemma position_less_asym: "position_less a b \<Longrightarrow> \<not> position_less b a"
  by (auto simp: position_less_def)

lemma position_less_irrefl [simp]: "\<not> position_less a a"
  by (simp add: position_less_def)

lemma position_less_cong:
  "\<lbrakk>ledger_id a = ledger_id b; entry_id a = entry_id b\<rbrakk> \<Longrightarrow> position_less a c = position_less b c"
  "\<lbrakk>ledger_id a = ledger_id b; entry_id a = entry_id b\<rbrakk> \<Longrightarrow> position_less c a = position_less c b"
  by (auto simp: position_less_def)

text \<open>The end of a log lies after every message that ends its entry.\<close>

lemma topic_log_last:
  assumes "topic_log (a # is)" and "is \<noteq> []"
  shows "position_less a (last is) \<or>
    batch_continues a \<and> ledger_id (last is) = ledger_id a \<and> entry_id (last is) = entry_id a"
  using assms
proof (induction "is" arbitrary: a)
  case (Cons b "is")
  show ?case
  proof (cases "is = []")
    case True
    with Cons.prems show ?thesis by (simp split: if_splits)
  next
    case False
    from Cons.prems have "topic_log (b # is)" by simp
    from Cons.IH [OF this False] Cons.prems False show ?thesis
      by (auto split: if_splits dest: position_less_trans position_less_cong simp: position_less_def)
  qed
qed simp

lemma topic_log_suffix: "topic_log (xs @ ys) \<Longrightarrow> topic_log ys"
proof (induction xs)
  case (Cons x xs)
  then show ?case by (cases "xs @ ys") auto
qed simp

lemma tc_request_keeps:
  assumes "tc_request response call c net = (r, c1, net1)"
  shows "tc_last_dequeued c1 = tc_last_dequeued c" and "tc_config c1 = tc_config c"
    and "tc_topic c1 = tc_topic c" and "tc_messages c1 = tc_messages c"
    and "tc_received c1 = tc_received c" and "tc_engine_open c1 = tc_engine_open c"
  using assms
  by (auto simp: tc_request_def tc_connection_def send_engine_def Let_def
      split: if_splits option.splits sum.splits prod.splits)

lemma tc_last_message_id_keeps:
  assumes "tc_get_last_message_id response resolver ans c net = (r, c1, net1)"
  shows "tc_last_dequeued c1 = tc_last_dequeued c" and "tc_config c1 = tc_config c"
  using assms
  by (auto simp: tc_get_last_message_id_def dest: tc_request_keeps split: prod.splits)


text \<open>Asking for the last message, when the broker answers.\<close>

lemma tc_last_message_id_answered:
  "tc_engine_open c \<Longrightarrow> \<exists>c1 net1. tc_get_last_message_id (Some 0) resolver
     (Answered \<lparr>command = base_command_default\<lparr>get_last_message_id_response :=
        Some \<lparr>glr_last_message_id = i, glr_request_id = 0,
        glr_consumer_mark_delete_position = None\<rparr>\<rparr>, msg_payload = None\<rparr>) c
     (\<lambda>n. conn_new 1 (broker_features_from None)) = (Inr i, c1, net1)"
  by (simp add: tc_get_last_message_id_def tc_request_def tc_connection_def send_engine_def
      conn_get_last_message_id_def serial_get_def send_message_def send_message_non_blocking_def
      register_with_def conn_new_def conn_is_valid_def await_answer_def extract_message_def
      base_command_default_def Let_def)


text \<open>
  Where it falls short. A seek leaves the position of the last message returned, so after a
  seek back from the end of a topic \<open>has_message_available\<close> answers that there is nothing to read.
\<close>

theorem seek_keeps_the_read_position:
  "tc_last_dequeued (fst (snd (tc_seek message_id timestamp response resolver ans c net)))
     = tc_last_dequeued c"
  by (auto simp: tc_seek_def dest: tc_request_keeps
      split: prod.splits) (metis tc_request_keeps(1) fst_conv snd_conv prod.exhaust)

theorem nothing_available_at_the_last_position:
  assumes "tc_last_dequeued c = Some i" and "\<not> inside_batch c"
    and "tc_get_last_message_id response resolver ans c net = (Inr i, c1, net1)"
  shows "fst (tc_has_message_available response resolver ans c net) = Inr False"
  using assms tc_last_message_id_keeps [OF assms(3)]
  by (simp add: tc_has_message_available_def available_after_def)

text \<open>
  And a start in the middle of the topic's last entry counts as the end of the topic, while
  the engine hands out the messages of that batch from the start position on.
\<close>

theorem start_inside_last_batch_is_not_available:
  "let start = MessageIdData 4 2 None (Some 0) [] (Some 3) None;
       opts = starting_on_message start consumer_options_default;
       c = example_consumer\<lparr>tc_config := (tc_config example_consumer)\<lparr>cc_options := opts\<rparr>\<rparr>
   in \<not> available_after (example_id 4 2) c
      \<and> \<not> is_before_start_message (example_engine\<lparr>eg_options := opts\<rparr>)
           (MessageIdData 4 2 None (Some 1) [] (Some 3) None)"
  by (simp add: Let_def available_after_def example_consumer_def example_id_def starting_on_message_def
      consumer_options_default_def is_before_start_message_def position_less_def)

end
