(* ===== verification/Multi_Consumer.thy ===== *)
theory Multi_Consumer
  imports Consumer "HOL-Library.List_Lexorder" "HOL-Library.Char_ord"
begin

text \<open>
  \<open>MultiTopicConsumer\<close> (\<open>consumer/multi.rs\<close>), which polls the consumers of its topics in turn and
  follows a changing set of topics; \<open>ConsumerBuilder\<close> (\<open>consumer/builder.rs\<close>) and the facade
  \<open>Consumer\<close> (\<open>consumer/mod.rs\<close>). Maps ordered by topic are lists in the order of their keys.
\<close>

section \<open>Ordered maps\<close>

fun btree_insert :: "'k::linorder \<Rightarrow> 'v \<Rightarrow> ('k \<times> 'v) list \<Rightarrow> ('k \<times> 'v) list" where
  "btree_insert k v [] = [(k, v)]"
| "btree_insert k v ((k', v') # kvs) =
     (if k < k' then (k, v) # (k', v') # kvs
      else if k = k' then (k, v) # kvs
      else (k', v') # btree_insert k v kvs)"

definition by_topic :: "topic_consumer list \<Rightarrow> (string \<times> topic_consumer) list" where
  "by_topic tcs = fold (\<lambda>c. btree_insert (tc_topic c) c) tcs []"

section \<open>The consumer of several topics\<close>

text \<open>
  \<open>mc_consumers\<close> lists the consumers by topic, \<open>mc_existing\<close> the order in which they are polled.
  \<open>mc_new\<close> is the refresh under way: the topics that existed when it started.
\<close>

record multi_consumer =
  mc_topic_regex :: "(string \<Rightarrow> bool) option"
  mc_consumers :: "(string \<times> topic_consumer) list"
  mc_topics :: "string list"
  mc_requested :: "string list"
  mc_existing :: "string list"
  mc_new :: "string list option"
  mc_config :: consumer_config
  mc_disc_received :: u64
  mc_disc_last :: "nat option"

fun max_instant :: "nat option list \<Rightarrow> nat option" where
  "max_instant [] = None"
| "max_instant (None # ts) = max_instant ts"
| "max_instant (Some t # ts) =
     (case max_instant ts of None \<Rightarrow> Some t | Some t' \<Rightarrow> Some (max t t'))"

definition mc_messages_received :: "multi_consumer \<Rightarrow> u64" where
  "mc_messages_received mc =
     sum_list (map (\<lambda>(t, c). tc_received c) (mc_consumers mc)) + mc_disc_received mc"

definition mc_last_message_received :: "multi_consumer \<Rightarrow> nat option" where
  "mc_last_message_received mc =
     max_instant (map (\<lambda>(t, c). tc_last_received c) (mc_consumers mc) @ [mc_disc_last mc])"

definition add_consumers :: "topic_consumer list \<Rightarrow> multi_consumer \<Rightarrow> multi_consumer" where
  "add_consumers cs mc =
     fold (\<lambda>c mc. mc\<lparr>mc_consumers := btree_insert (tc_topic c) c (mc_consumers mc),
                      mc_existing := mc_existing mc @ [tc_topic c]\<rparr>) cs mc"

definition remove_consumer :: "string \<Rightarrow> multi_consumer \<Rightarrow> multi_consumer" where
  "remove_consumer topic mc =
     (case map_of (mc_consumers mc) topic of
        None \<Rightarrow> mc
      | Some c \<Rightarrow> mc\<lparr>mc_consumers := AList.delete topic (mc_consumers mc),
                       mc_disc_received := mc_disc_received mc + tc_received c,
                       mc_disc_last := max_instant [mc_disc_last mc, tc_last_received c]\<rparr>)"

definition remove_consumers :: "string list \<Rightarrow> multi_consumer \<Rightarrow> multi_consumer" where
  "remove_consumers topics mc =
     fold remove_consumer topics
       (mc\<lparr>mc_existing := filter (\<lambda>t. t \<notin> set topics) (mc_existing mc)\<rparr>)"

definition update_topics :: "multi_consumer \<Rightarrow> multi_consumer" where
  "update_topics mc = mc\<lparr>mc_new := Some (mc_existing mc)\<rparr>"

text \<open>
  What the refresh comes to: the topics of the namespace, the partitions and brokers of each
  topic, and subscribing to a partition.
\<close>

record topics_env =
  te_namespace :: "(error, string list) result"
  te_lookup :: "string \<Rightarrow> (error, (string \<times> broker_address) list) result"
  te_subscribe :: "string \<times> broker_address \<Rightarrow> (error, topic_consumer) result"

definition new_consumers :: "topics_env \<Rightarrow> string list \<Rightarrow> string list \<Rightarrow> (string \<Rightarrow> bool) option \<Rightarrow>
    (error, topic_consumer list) result" where
  "new_consumers env existing requested topic_regex =
     rbind (case topic_regex of
              None \<Rightarrow> Inr requested
            | Some matches \<Rightarrow> rmap (\<lambda>all. requested @ filter matches all) (te_namespace env)) (\<lambda>topics.
     rbind (try_join_all (map (te_lookup env) topics)) (\<lambda>found.
       try_join_all (map (te_subscribe env)
         (filter (\<lambda>(t, addr). t \<notin> set existing) (concat found)))))"

text \<open>
  Before the topics are polled: the refresh under way is polled, and while the refresh interval
  has elapsed a new one is started and the poll starts over. The list says for each round
  whether the refresh is ready, and with what, and whether the interval has elapsed.
\<close>

fun follow_topics :: "(topics_env option \<times> bool) list \<Rightarrow> multi_consumer \<Rightarrow> multi_consumer" where
  "follow_topics [] mc = mc"
| "follow_topics ((ready, elapsed) # rounds) mc =
     (let mc1 = (case (mc_new mc, ready) of
                   (Some existing, Some env) \<Rightarrow>
                     (case new_consumers env existing (mc_requested mc) (mc_topic_regex mc) of
                        Inr cs \<Rightarrow> add_consumers cs (mc\<lparr>mc_new := None\<rparr>)
                      | Inl e \<Rightarrow> mc\<lparr>mc_new := None\<rparr>)
                 | _ \<Rightarrow> mc)
      in if elapsed then follow_topics rounds (update_topics mc1) else mc1)"

text \<open>
  Polling the topics in turn: at most \<open>n\<close> of them, until one has a message; the topics whose
  stream ended or failed are to be removed. Every topic polled goes to the end of the line.
\<close>

fun poll_topics :: "nat \<Rightarrow> nat \<Rightarrow> multi_consumer \<Rightarrow>
    consumer_message option \<times> string list \<times> multi_consumer" where
  "poll_topics now 0 mc = (None, [], mc)"
| "poll_topics now (Suc n) mc =
     (case mc_existing mc of
        [] \<Rightarrow> (None, [], mc)
      | topic # rest \<Rightarrow>
          (let mc1 = mc\<lparr>mc_existing := rest @ [topic]\<rparr>
           in case map_of (mc_consumers mc) topic of
                None \<Rightarrow> poll_topics now n mc1
              | Some c \<Rightarrow>
                  (case tc_poll_next now c of
                     (item, c1) \<Rightarrow>
                       (let mc2 = mc1\<lparr>mc_consumers := AList.update topic c1 (mc_consumers mc)\<rparr>
                        in case item of
                             Stream_item (Inr m) \<Rightarrow> (Some m, [], mc2)
                           | Stream_pending \<Rightarrow> poll_topics now n mc2
                           | _ \<Rightarrow> (case poll_topics now n mc2 of
                                     (r, removed, mc3) \<Rightarrow> (r, topic # removed, mc3))))))"

definition mc_poll_next :: "(topics_env option \<times> bool) list \<Rightarrow> nat \<Rightarrow> multi_consumer \<Rightarrow>
    (error, consumer_message) result poll_next \<times> multi_consumer" where
  "mc_poll_next rounds now mc =
     (let mc1 = follow_topics rounds mc
      in case poll_topics now (length (mc_existing mc1)) mc1 of
           (r, removed, mc2) \<Rightarrow>
             (case r of Some m \<Rightarrow> Stream_item (Inr m) | None \<Rightarrow> Stream_pending,
              remove_consumers removed mc2))"

text \<open>An operation on the consumer of a topic, when there is one.\<close>

definition no_consumer_for :: "string \<Rightarrow> consumer_error" where
  "no_consumer_for topic = Connection_consumer (Unexpected (''no consumer for topic '' @ topic))"

definition on_topic :: "string \<Rightarrow> (topic_consumer \<Rightarrow> (consumer_error, unit) result \<times> topic_consumer) \<Rightarrow>
    multi_consumer \<Rightarrow> (consumer_error, unit) result \<times> multi_consumer" where
  "on_topic topic call mc =
     (case map_of (mc_consumers mc) topic of
        Some c \<Rightarrow> (case call c of
          (r, c1) \<Rightarrow> (r, mc\<lparr>mc_consumers := AList.update topic c1 (mc_consumers mc)\<rparr>))
      | None \<Rightarrow> (Inl (no_consumer_for topic), mc))"

definition mc_ack :: "consumer_message \<Rightarrow> multi_consumer \<Rightarrow>
    (consumer_error, unit) result \<times> multi_consumer" where
  "mc_ack m mc = on_topic (cm_topic m) (tc_ack m) mc"

definition mc_ack_with_id :: "string \<Rightarrow> message_id_data \<Rightarrow> multi_consumer \<Rightarrow>
    (consumer_error, unit) result \<times> multi_consumer" where
  "mc_ack_with_id topic i mc = on_topic topic (tc_ack_with_id i) mc"

definition mc_cumulative_ack :: "consumer_message \<Rightarrow> multi_consumer \<Rightarrow>
    (consumer_error, unit) result \<times> multi_consumer" where
  "mc_cumulative_ack m mc = on_topic (cm_topic m) (tc_cumulative_ack m) mc"

definition mc_cumulative_ack_with_id :: "string \<Rightarrow> message_id_data \<Rightarrow> multi_consumer \<Rightarrow>
    (consumer_error, unit) result \<times> multi_consumer" where
  "mc_cumulative_ack_with_id topic i mc = on_topic topic (tc_cumulative_ack_with_id i) mc"

definition mc_nack :: "consumer_message \<Rightarrow> multi_consumer \<Rightarrow>
    (consumer_error, unit) result \<times> multi_consumer" where
  "mc_nack m mc = on_topic (cm_topic m) (tc_nack m) mc"

definition mc_nack_with_id :: "string \<Rightarrow> message_id_data \<Rightarrow> multi_consumer \<Rightarrow>
    (consumer_error, unit) result \<times> multi_consumer" where
  "mc_nack_with_id topic i mc = on_topic topic (tc_nack_with_id i) mc"

text \<open>
  A request of every consumer, one after the other, which stops at the first failure; the source
  takes them in the order of their topics.
\<close>

fun each_consumer :: "(topic_consumer \<Rightarrow> net \<Rightarrow> (error, unit) result \<times> topic_consumer \<times> net) \<Rightarrow>
    (string \<times> topic_consumer) list \<Rightarrow> net \<Rightarrow>
    (error, unit) result \<times> (string \<times> topic_consumer) list \<times> net" where
  "each_consumer call [] net = (Inr (), [], net)"
| "each_consumer call ((t, c) # cs) net =
     (case call c net of
        (Inl e, c1, net1) \<Rightarrow> (Inl e, (t, c1) # cs, net1)
      | (Inr _, c1, net1) \<Rightarrow>
          (case each_consumer call cs net1 of (r, cs1, net2) \<Rightarrow> (r, (t, c1) # cs1, net2)))"

definition mc_unsubscribe where
  "mc_unsubscribe response resolver ans mc net =
     (case each_consumer (\<lambda>c. tc_unsubscribe (response (tc_topic c)) (resolver (tc_topic c))
             (ans (tc_topic c)) c) (mc_consumers mc) net of
        (r, cs, net1) \<Rightarrow> (r, mc\<lparr>mc_consumers := cs\<rparr>, net1))"

definition mc_close where
  "mc_close response resolver ans mc net =
     (case each_consumer (\<lambda>c. tc_close (response (tc_topic c)) (resolver (tc_topic c))
             (ans (tc_topic c)) c) (mc_consumers mc) net of
        (r, cs, net1) \<Rightarrow> (r, mc\<lparr>mc_consumers := cs\<rparr>, net1))"

text \<open>
  A request of the consumers of some topics, joined: every one is made, whatever becomes of the
  others.
\<close>

fun join_consumers :: "(string \<Rightarrow> bool) \<Rightarrow>
    (topic_consumer \<Rightarrow> net \<Rightarrow> (error, 'a) result \<times> topic_consumer \<times> net) \<Rightarrow>
    (string \<times> topic_consumer) list \<Rightarrow> net \<Rightarrow>
    (error, 'a) result list \<times> (string \<times> topic_consumer) list \<times> net" where
  "join_consumers only call [] net = ([], [], net)"
| "join_consumers only call ((t, c) # cs) net =
     (if only t then
        (case call c net of (r, c1, net1) \<Rightarrow>
           (case join_consumers only call cs net1 of
              (rs, cs1, net2) \<Rightarrow> (r # rs, (t, c1) # cs1, net2)))
      else
        (case join_consumers only call cs net of
           (rs, cs1, net1) \<Rightarrow> (rs, (t, c) # cs1, net1)))"

definition mc_get_stats where
  "mc_get_stats response resolver ans mc net =
     (case join_consumers (\<lambda>t. True)
             (\<lambda>c. tc_get_stats (response (tc_topic c)) (resolver (tc_topic c)) (ans (tc_topic c)) c)
             (mc_consumers mc) net of
        (rs, cs, net1) \<Rightarrow> (try_join_all rs, mc\<lparr>mc_consumers := cs\<rparr>, net1))"

definition mc_get_last_message_id where
  "mc_get_last_message_id response resolver ans mc net =
     (case join_consumers (\<lambda>t. True)
             (\<lambda>c. tc_get_last_message_id (response (tc_topic c)) (resolver (tc_topic c))
               (ans (tc_topic c)) c)
             (mc_consumers mc) net of
        (rs, cs, net1) \<Rightarrow> (try_join_all rs, mc\<lparr>mc_consumers := cs\<rparr>, net1))"

text \<open>The seek is of the topics named in \<open>consumer_ids\<close>.\<close>

definition mc_seek where
  "mc_seek consumer_ids message_id timestamp response resolver ans mc net =
     (case consumer_ids of
        None \<Rightarrow>
          (Inl (Connection (Unexpected ''no consumer for consumer ids None'')), mc, net)
      | Some ids \<Rightarrow>
          (case join_consumers (\<lambda>t. t \<in> set ids)
                  (\<lambda>c. tc_seek message_id timestamp (response (tc_topic c)) (resolver (tc_topic c))
                    (ans (tc_topic c)) c)
                  (mc_consumers mc) net of
             (rs, cs, net1) \<Rightarrow> (rmap (\<lambda>_. ()) (try_join_all rs), mc\<lparr>mc_consumers := cs\<rparr>, net1)))"

text \<open>The base connection, \<open>base\<close>, is pinged first, then those of the consumers.\<close>

definition mc_check_connections where
  "mc_check_connections base base_resolver base_ans response resolver ans mc net =
     (case base of
        Inl e \<Rightarrow> (Inl (Connection e), mc, net)
      | Inr n \<Rightarrow>
          (case conn_send_ping base_resolver base_ans (net n) of
             (Inl e, conn1) \<Rightarrow> (Inl (Connection e), mc, net(n := conn1))
           | (Inr _, conn1) \<Rightarrow>
               (case each_consumer (\<lambda>c. tc_check_connection (response (tc_topic c))
                       (resolver (tc_topic c)) (ans (tc_topic c)) c)
                       (mc_consumers mc) (net(n := conn1)) of
                  (r, cs, net1) \<Rightarrow> (r, mc\<lparr>mc_consumers := cs\<rparr>, net1))))"

definition mc_get_schema where
  "mc_get_schema topic version response resolver ans mc net =
     (case map_of (mc_consumers mc) topic of
        Some c \<Rightarrow>
          (case tc_get_schema version response resolver ans c net of
             (r, c1, net1) \<Rightarrow> (r, mc\<lparr>mc_consumers := AList.update topic c1 (mc_consumers mc)\<rparr>, net1))
      | None \<Rightarrow> (Inl (Consumer (no_consumer_for topic)), mc, net))"

section \<open>Building a consumer\<close>

record consumer_builder =
  cb_topics :: "string list option"
  cb_topic_regex :: "(string \<Rightarrow> bool) option"
  cb_subscription :: "string option"
  cb_subscription_type :: "sub_type option"
  cb_consumer_id :: "u64 option"
  cb_consumer_name :: "string option"
  cb_batch_size :: "u32 option"
  cb_unacked_message_resend_delay :: "duration option"
  cb_dead_letter_policy :: "dead_letter_policy option"
  cb_consumer_options :: "consumer_options option"

definition consumer_builder_new :: consumer_builder where
  "consumer_builder_new =
     \<lparr>cb_topics = None, cb_topic_regex = None, cb_subscription = None, cb_subscription_type = None,
      cb_consumer_id = None, cb_consumer_name = None, cb_batch_size = None,
      cb_unacked_message_resend_delay = None, cb_dead_letter_policy = None,
      cb_consumer_options = None\<rparr>"

definition with_topic :: "string \<Rightarrow> consumer_builder \<Rightarrow> consumer_builder" where
  "with_topic topic b =
     b\<lparr>cb_topics := Some (case cb_topics b of Some ts \<Rightarrow> ts @ [topic] | None \<Rightarrow> [topic])\<rparr>"

definition with_topics :: "string list \<Rightarrow> consumer_builder \<Rightarrow> consumer_builder" where
  "with_topics topics b =
     b\<lparr>cb_topics := Some (case cb_topics b of Some ts \<Rightarrow> ts @ topics | None \<Rightarrow> topics)\<rparr>"

definition with_topic_regex :: "(string \<Rightarrow> bool) \<Rightarrow> consumer_builder \<Rightarrow> consumer_builder" where
  "with_topic_regex regex b = b\<lparr>cb_topic_regex := Some regex\<rparr>"

definition with_subscription :: "string \<Rightarrow> consumer_builder \<Rightarrow> consumer_builder" where
  "with_subscription s b = b\<lparr>cb_subscription := Some s\<rparr>"

definition with_subscription_type :: "sub_type \<Rightarrow> consumer_builder \<Rightarrow> consumer_builder" where
  "with_subscription_type ty b = b\<lparr>cb_subscription_type := Some ty\<rparr>"

definition with_consumer_id :: "u64 \<Rightarrow> consumer_builder \<Rightarrow> consumer_builder" where
  "with_consumer_id i b = b\<lparr>cb_consumer_id := Some i\<rparr>"

definition with_consumer_name :: "string \<Rightarrow> consumer_builder \<Rightarrow> consumer_builder" where
  "with_consumer_name s b = b\<lparr>cb_consumer_name := Some s\<rparr>"

definition with_consumer_batch_size :: "u32 \<Rightarrow> consumer_builder \<Rightarrow> consumer_builder" where
  "with_consumer_batch_size n b = b\<lparr>cb_batch_size := Some n\<rparr>"

definition with_consumer_options :: "consumer_options \<Rightarrow> consumer_builder \<Rightarrow> consumer_builder" where
  "with_consumer_options options b = b\<lparr>cb_consumer_options := Some options\<rparr>"

definition with_dead_letter_policy :: "dead_letter_policy \<Rightarrow> consumer_builder \<Rightarrow> consumer_builder" where
  "with_dead_letter_policy dlp b = b\<lparr>cb_dead_letter_policy := Some dlp\<rparr>"

definition with_unacked_message_resend_delay :: "duration option \<Rightarrow> consumer_builder \<Rightarrow>
    consumer_builder" where
  "with_unacked_message_resend_delay d b = b\<lparr>cb_unacked_message_resend_delay := d\<rparr>"

text \<open>\<open>random\<close> is a random name of eight alphanumeric characters, drawn twice at most.\<close>

definition validate :: "(string \<Rightarrow> (error, (string \<times> broker_address) list) result) \<Rightarrow> (nat \<Rightarrow> string) \<Rightarrow>
    consumer_builder \<Rightarrow> (error, consumer_config \<times> (string \<times> broker_address) list) result" where
  "validate lookup random b =
     (if cb_topics b = None \<and> cb_topic_regex b = None
      then Inl (Custom ''Cannot create consumer with no topics and no topic regex'')
      else rbind (try_join_all (map lookup (unwrap_or [] (cb_topics b)))) (\<lambda>found.
        let topics = concat found in
        if topics = [] \<and> cb_topic_regex b = None
        then Inl (Custom ''Unable to create consumer - topic not found'')
        else Inr
          (\<lparr>cc_subscription = unwrap_or (''sub_'' @ random 1) (cb_subscription b),
            cc_sub_type = unwrap_or Shared (cb_subscription_type b),
            cc_batch_size = cb_batch_size b,
            cc_consumer_name = Some (unwrap_or (''consumer_'' @ random 0) (cb_consumer_name b)),
            cc_consumer_id = (if length topics = 1 then cb_consumer_id b else None),
            cc_unacked_message_redelivery_delay = cb_unacked_message_resend_delay b,
            cc_options = unwrap_or consumer_options_default (cb_consumer_options b),
            cc_dead_letter_policy = cb_dead_letter_policy b\<rparr>, topics)))"

datatype inner_consumer = Single_consumer topic_consumer | Multi_consumer multi_consumer

text \<open>\<open>open_topic\<close> is what \<open>TopicConsumer::new\<close> comes to, \<open>env\<close> what the first refresh meets.\<close>

definition consumer_build :: "(string \<Rightarrow> (error, (string \<times> broker_address) list) result) \<Rightarrow> (nat \<Rightarrow> string) \<Rightarrow>
    (consumer_config \<Rightarrow> string \<times> broker_address \<Rightarrow> (error, topic_consumer) result) \<Rightarrow>
    (consumer_config \<Rightarrow> topics_env) \<Rightarrow> consumer_builder \<Rightarrow> (error, inner_consumer) result" where
  "consumer_build lookup random open_topic env b =
     rbind (validate lookup random b) (\<lambda>(config, joined_topics).
     rbind (try_join_all (map (open_topic config) joined_topics)) (\<lambda>tcs.
       let requested = unwrap_or [] (cb_topics b);
           can_gain_partitions = (cb_topic_regex b \<noteq> None \<or>
             \<not> (case (requested, tcs) of
                  ([only], [resolved]) \<Rightarrow> tc_topic resolved = only
                | _ \<Rightarrow> False))
       in case (tcs, can_gain_partitions) of
            ([c], False) \<Rightarrow> Inr (Single_consumer c)
          | _ \<Rightarrow>
            (let cs = by_topic tcs;
                 topics = map fst cs;
                 mc = \<lparr>mc_topic_regex = cb_topic_regex b, mc_consumers = cs, mc_topics = topics,
                       mc_requested = requested, mc_existing = topics, mc_new = None,
                       mc_config = config, mc_disc_received = 0, mc_disc_last = None\<rparr>
             in if cb_topic_regex b \<noteq> None
                then rmap (\<lambda>initial. Multi_consumer (add_consumers initial mc))
                       (new_consumers (env config) topics requested (cb_topic_regex b))
                else Inr (Multi_consumer mc))))"

text \<open>
  A reader: an exclusive subscription that is not durable, on one topic partition; the outer
  \<open>None\<close> is the panic on an empty list of topics.
\<close>

definition into_reader :: "(string \<Rightarrow> (error, (string \<times> broker_address) list) result) \<Rightarrow> (nat \<Rightarrow> string) \<Rightarrow>
    (consumer_config \<Rightarrow> string \<times> broker_address \<Rightarrow> (error, topic_consumer) result) \<Rightarrow>
    consumer_builder \<Rightarrow> (error, reader) result option" where
  "into_reader lookup random open_topic b =
     (case validate lookup random b of
        Inl e \<Rightarrow> Some (Inl e)
      | Inr (config, joined_topics) \<Rightarrow>
          (let config1 = config\<lparr>cc_options := (cc_options config)\<lparr>co_durable := Some False\<rparr>,
                                cc_sub_type := Exclusive\<rparr>
           in if 1 < length joined_topics
              then Some (Inl (Custom ''Unable to create a reader - one topic partition max''))
              else case joined_topics of
                [] \<Rightarrow> None
              | topic # _ \<Rightarrow>
                  Some (rmap (\<lambda>c. \<lparr>rd_consumer = c, rd_state = Polling_consumer\<rparr>)
                    (open_topic config1 topic))))"

section \<open>The facade\<close>

definition on_inner :: "(topic_consumer \<Rightarrow> 'r \<times> topic_consumer) \<Rightarrow> (multi_consumer \<Rightarrow> 'r \<times> multi_consumer) \<Rightarrow>
    inner_consumer \<Rightarrow> 'r \<times> inner_consumer" where
  "on_inner single multi c =
     (case c of
        Single_consumer tc \<Rightarrow> (case single tc of (r, tc1) \<Rightarrow> (r, Single_consumer tc1))
      | Multi_consumer mc \<Rightarrow> (case multi mc of (r, mc1) \<Rightarrow> (r, Multi_consumer mc1)))"

definition consumer_ack :: "consumer_message \<Rightarrow> inner_consumer \<Rightarrow>
    (consumer_error, unit) result \<times> inner_consumer" where
  "consumer_ack m = on_inner (tc_ack m) (mc_ack m)"

definition consumer_ack_with_id :: "string \<Rightarrow> message_id_data \<Rightarrow> inner_consumer \<Rightarrow>
    (consumer_error, unit) result \<times> inner_consumer" where
  "consumer_ack_with_id topic i = on_inner (tc_ack_with_id i) (mc_ack_with_id topic i)"

definition consumer_cumulative_ack :: "consumer_message \<Rightarrow> inner_consumer \<Rightarrow>
    (consumer_error, unit) result \<times> inner_consumer" where
  "consumer_cumulative_ack m = on_inner (tc_cumulative_ack m) (mc_cumulative_ack m)"

definition consumer_cumulative_ack_with_id :: "string \<Rightarrow> message_id_data \<Rightarrow> inner_consumer \<Rightarrow>
    (consumer_error, unit) result \<times> inner_consumer" where
  "consumer_cumulative_ack_with_id topic i =
     on_inner (tc_cumulative_ack_with_id i) (mc_cumulative_ack_with_id topic i)"

definition consumer_nack :: "consumer_message \<Rightarrow> inner_consumer \<Rightarrow>
    (consumer_error, unit) result \<times> inner_consumer" where
  "consumer_nack m = on_inner (tc_nack m) (mc_nack m)"

definition consumer_nack_with_id :: "string \<Rightarrow> message_id_data \<Rightarrow> inner_consumer \<Rightarrow>
    (consumer_error, unit) result \<times> inner_consumer" where
  "consumer_nack_with_id topic i = on_inner (tc_nack_with_id i) (mc_nack_with_id topic i)"

definition consumer_poll_next :: "(topics_env option \<times> bool) list \<Rightarrow> nat \<Rightarrow> inner_consumer \<Rightarrow>
    (error, consumer_message) result poll_next \<times> inner_consumer" where
  "consumer_poll_next rounds now = on_inner (tc_poll_next now) (mc_poll_next rounds now)"

definition consumer_topics :: "inner_consumer \<Rightarrow> string list" where
  "consumer_topics c =
     (case c of Single_consumer tc \<Rightarrow> [tc_topic tc] | Multi_consumer mc \<Rightarrow> mc_existing mc)"

definition consumer_ids :: "inner_consumer \<Rightarrow> u64 list" where
  "consumer_ids c =
     (case c of
        Single_consumer tc \<Rightarrow> [tc_id tc]
      | Multi_consumer mc \<Rightarrow> map (\<lambda>(t, tc). tc_id tc) (mc_consumers mc))"

definition inner_config :: "inner_consumer \<Rightarrow> consumer_config" where
  "inner_config c =
     (case c of Single_consumer tc \<Rightarrow> tc_config tc | Multi_consumer mc \<Rightarrow> mc_config mc)"

definition consumer_messages_received :: "inner_consumer \<Rightarrow> u64" where
  "consumer_messages_received c =
     (case c of Single_consumer tc \<Rightarrow> tc_received tc | Multi_consumer mc \<Rightarrow> mc_messages_received mc)"

definition consumer_last_message_received :: "inner_consumer \<Rightarrow> nat option" where
  "consumer_last_message_received c =
     (case c of
        Single_consumer tc \<Rightarrow> tc_last_received tc
      | Multi_consumer mc \<Rightarrow> mc_last_message_received mc)"

definition on_inner_net :: "(topic_consumer \<Rightarrow> net \<Rightarrow> 'r \<times> topic_consumer \<times> net) \<Rightarrow>
    (multi_consumer \<Rightarrow> net \<Rightarrow> 'r \<times> multi_consumer \<times> net) \<Rightarrow> inner_consumer \<Rightarrow> net \<Rightarrow>
    'r \<times> inner_consumer \<times> net" where
  "on_inner_net single multi c net =
     (case c of
        Single_consumer tc \<Rightarrow> (case single tc net of (r, tc1, net1) \<Rightarrow> (r, Single_consumer tc1, net1))
      | Multi_consumer mc \<Rightarrow> (case multi mc net of (r, mc1, net1) \<Rightarrow> (r, Multi_consumer mc1, net1)))"

text \<open>One answer as a list of one.\<close>

definition as_list :: "('e, 'a) result \<times> 'c \<times> net \<Rightarrow> ('e, 'a list) result \<times> 'c \<times> net" where
  "as_list x = (case x of (r, c, net) \<Rightarrow> (rmap (\<lambda>a. [a]) r, c, net))"

definition consumer_check_connection where
  "consumer_check_connection base base_resolver base_ans response resolver ans c =
     on_inner_net
       (\<lambda>tc. tc_check_connection (response (tc_topic tc)) (resolver (tc_topic tc)) (ans (tc_topic tc)) tc)
       (mc_check_connections base base_resolver base_ans response resolver ans) c"

definition consumer_get_stats where
  "consumer_get_stats response resolver ans c =
     on_inner_net
       (\<lambda>tc net. as_list (tc_get_stats (response (tc_topic tc)) (resolver (tc_topic tc))
          (ans (tc_topic tc)) tc net))
       (mc_get_stats response resolver ans) c"

definition consumer_get_last_message_id where
  "consumer_get_last_message_id response resolver ans c =
     on_inner_net
       (\<lambda>tc net. as_list (tc_get_last_message_id (response (tc_topic tc)) (resolver (tc_topic tc))
          (ans (tc_topic tc)) tc net))
       (mc_get_last_message_id response resolver ans) c"

definition consumer_unsubscribe where
  "consumer_unsubscribe response resolver ans c =
     on_inner_net
       (\<lambda>tc. tc_unsubscribe (response (tc_topic tc)) (resolver (tc_topic tc)) (ans (tc_topic tc)) tc)
       (mc_unsubscribe response resolver ans) c"

definition consumer_close where
  "consumer_close response resolver ans c =
     on_inner_net
       (\<lambda>tc. tc_close (response (tc_topic tc)) (resolver (tc_topic tc)) (ans (tc_topic tc)) tc)
       (mc_close response resolver ans) c"

definition consumer_get_schema where
  "consumer_get_schema topic version response resolver ans c =
     on_inner_net (tc_get_schema version response resolver ans)
       (mc_get_schema topic version response resolver ans) c"

text \<open>
  Seeking rebuilds the consumer on a new subscription, after the broker took the seek: of a
  consumer of several topics, on the topics it was built with. A failure on the way leaves
  the consumer that seeked. \<open>lookup\<close> finds a topic's broker and \<open>open_topic\<close> subscribes.
\<close>

definition rebuild_multi :: "(string \<Rightarrow> (error, broker_address) result) \<Rightarrow>
    (consumer_config \<Rightarrow> string \<times> broker_address \<Rightarrow> (error, topic_consumer) result) \<Rightarrow>
    multi_consumer \<Rightarrow> (error, multi_consumer) result" where
  "rebuild_multi lookup open_topic mc =
     rbind (try_join_all (map lookup (mc_topics mc))) (\<lambda>addrs.
     rmap (\<lambda>tcs.
       let cs = by_topic tcs; topics = map fst cs
       in \<lparr>mc_topic_regex = mc_topic_regex mc, mc_consumers = cs, mc_topics = topics,
           mc_requested = mc_requested mc, mc_existing = topics, mc_new = None,
           mc_config = mc_config mc, mc_disc_received = 0, mc_disc_last = None\<rparr>)
       (try_join_all (map (open_topic (mc_config mc)) (zip (mc_topics mc) addrs))))"

definition consumer_seek where
  "consumer_seek ids message_id timestamp response resolver ans lookup open_topic c net =
     (case c of
        Single_consumer tc \<Rightarrow>
          (case tc_seek message_id timestamp (response (tc_topic tc)) (resolver (tc_topic tc))
                  (ans (tc_topic tc)) tc net of
             (r, tc1, net1) \<Rightarrow>
               (case rbind r (\<lambda>_. rbind (lookup (tc_topic tc)) (\<lambda>addr.
                       open_topic (tc_config tc) (tc_topic tc, addr))) of
                  Inl e \<Rightarrow> (Inl e, Single_consumer tc1, net1)
                | Inr tc2 \<Rightarrow> (Inr (), Single_consumer tc2, net1)))
      | Multi_consumer mc \<Rightarrow>
          (case mc_seek ids message_id timestamp response resolver ans mc net of
             (r, mc1, net1) \<Rightarrow>
               (case rbind r (\<lambda>_. rebuild_multi lookup open_topic mc1) of
                  Inl e \<Rightarrow> (Inl e, Multi_consumer mc1, net1)
                | Inr mc2 \<Rightarrow> (Inr (), Multi_consumer mc2, net1))))"

section \<open>Properties\<close>

subsection \<open>Ordered maps\<close>

lemma map_of_btree_insert: "map_of (btree_insert k v kvs) = (map_of kvs)(k \<mapsto> v)"
  by (induction kvs) (auto simp: fun_eq_iff)

lemma keys_btree_insert: "set (map fst (btree_insert k v kvs)) = insert k (set (map fst kvs))"
proof (induction kvs)
  case (Cons kv kvs)
  obtain k' v' where kv [simp]: "kv = (k', v')" by (cases kv)
  from Cons.IH show ?case by (simp add: insert_commute del: set_map)
qed simp

lemma sorted_btree_insert:
  "sorted_wrt (<) (map fst kvs) \<Longrightarrow> sorted_wrt (<) (map fst (btree_insert k v kvs))"
proof (induction kvs)
  case (Cons kv kvs)
  obtain k' v' where kv [simp]: "kv = (k', v')" by (cases kv)
  have "set (map fst (btree_insert k v kvs)) = insert k (set (map fst kvs))" by (rule keys_btree_insert)
  with Cons show ?case by (auto dest: less_trans)
qed simp

lemma keys_update_present:
  "map_of kvs k \<noteq> None \<Longrightarrow> map fst (AList.update k v kvs) = map fst kvs"
  by (induction kvs) (auto split: if_splits)

text \<open>The sum over a map's values after an insertion, an update and a deletion.\<close>

definition total_of :: "('v \<Rightarrow> u64) \<Rightarrow> ('k \<times> 'v) list \<Rightarrow> u64" where
  "total_of f kvs = sum_list (map (f \<circ> snd) kvs)"

lemma total_of_insert:
  "sorted_wrt (<) (map fst kvs) \<Longrightarrow> total_of f (btree_insert k v kvs)
     = total_of f kvs - (case map_of kvs k of None \<Rightarrow> 0 | Some v' \<Rightarrow> f v') + f v"
proof (induction kvs)
  case (Cons kv kvs)
  obtain k' v' where kv [simp]: "kv = (k', v')" by (cases kv)
  have "k < k' \<Longrightarrow> map_of kvs k = None"
    using Cons.prems by (auto simp: map_of_eq_None_iff)
  with Cons show ?case by (auto simp: total_of_def)
qed (simp add: total_of_def)

lemma total_of_update:
  "map_of kvs k = Some v' \<Longrightarrow> total_of f (AList.update k v kvs) = total_of f kvs - f v' + f v"
  by (induction kvs) (auto simp: total_of_def split: if_splits)

lemma total_of_delete:
  "\<lbrakk>distinct (map fst kvs); map_of kvs k = Some v\<rbrakk> \<Longrightarrow>
     total_of f (AList.delete k kvs) = total_of f kvs - f v"
proof (induction kvs)
  case (Cons kv kvs)
  obtain k' v' where kv [simp]: "kv = (k', v')" by (cases kv)
  have "k \<notin> fst ` set kvs \<Longrightarrow> AList.delete k kvs = kvs"
    by (simp add: AList.delete_eq filter_id_conv) force
  with Cons show ?case by (auto simp: total_of_def AList.delete_eq split: if_splits)
qed simp

lemma sorted_keys_delete:
  "sorted_wrt (<) (map fst kvs) \<Longrightarrow> sorted_wrt (<) (map fst (AList.delete k kvs))"
  by (simp add: AList.delete_eq sorted_wrt_map sorted_wrt_filter)

lemma sorted_keys_distinct: "sorted_wrt (<) (ks :: 'k::linorder list) \<Longrightarrow> distinct ks"
  using strict_sorted_iff by blast

subsection \<open>Every message is counted\<close>

text \<open>
  The consumers are kept under their topics, and exactly the topics that have one are polled;
  the refresh under way knows all of them.
\<close>

definition multi_base :: "multi_consumer \<Rightarrow> bool" where
  "multi_base mc \<longleftrightarrow> sorted_wrt (<) (map fst (mc_consumers mc))
     \<and> list_all (\<lambda>(t, c). tc_topic c = t) (mc_consumers mc)
     \<and> set (mc_existing mc) = set (map fst (mc_consumers mc))"

definition multi_ok :: "multi_consumer \<Rightarrow> bool" where
  "multi_ok mc \<longleftrightarrow> multi_base mc
     \<and> (case mc_new mc of None \<Rightarrow> True | Some ex \<Rightarrow> set (mc_existing mc) \<subseteq> set ex)"

text \<open>Subscribing to a topic gives a new consumer of that topic.\<close>

definition opens_topics :: "(string \<times> broker_address \<Rightarrow> (error, topic_consumer) result) \<Rightarrow> bool" where
  "opens_topics open_topic \<longleftrightarrow>
     (\<forall>t addr c. open_topic (t, addr) = Inr c \<longrightarrow> tc_topic c = t \<and> tc_received c = 0)"

lemma topic_consumer_new_opens:
  assumes "topic_consumer_new o1 env net gen topic config = (Some (Inr (c, e)), gen')"
  shows "tc_topic c = topic" and "tc_received c = 0"
  using assms
  by (auto simp: topic_consumer_new_def Let_def split: sum.splits option.splits if_splits)

lemma received_total: "mc_messages_received mc = total_of tc_received (mc_consumers mc) + mc_disc_received mc"
  by (simp add: mc_messages_received_def total_of_def case_prod_unfold comp_def)

lemma topic_entry: "map_of kvs t = Some c \<Longrightarrow> list_all (\<lambda>(t, c). tc_topic c = t) kvs \<Longrightarrow> tc_topic c = t"
  by (auto simp: list_all_iff dest: map_of_SomeD)

lemma list_all_btree_insert:
  "list_all P kvs \<Longrightarrow> P (k, v) \<Longrightarrow> list_all P (btree_insert k v kvs)"
  by (induction kvs) auto

lemma list_all_alist_update: "list_all P kvs \<Longrightarrow> P (k, v) \<Longrightarrow> list_all P (AList.update k v kvs)"
  by (induction kvs) auto

lemma list_all_delete: "list_all P kvs \<Longrightarrow> list_all P (AList.delete k kvs)"
  by (auto simp: AList.delete_eq list_all_iff)

definition fresh_for :: "multi_consumer \<Rightarrow> topic_consumer \<Rightarrow> bool" where
  "fresh_for mc c \<longleftrightarrow> tc_received c = 0
     \<and> (case map_of (mc_consumers mc) (tc_topic c) of None \<Rightarrow> True | Some old \<Rightarrow> tc_received old = 0)"

lemma add_consumers_Cons:
  "add_consumers (c # cs) mc =
     add_consumers cs (mc\<lparr>mc_consumers := btree_insert (tc_topic c) c (mc_consumers mc),
                          mc_existing := mc_existing mc @ [tc_topic c]\<rparr>)"
  by (simp add: add_consumers_def)

lemma add_consumers_base:
  assumes "multi_base mc" and "list_all (fresh_for mc) cs"
  shows "multi_base (add_consumers cs mc)
    \<and> mc_messages_received (add_consumers cs mc) = mc_messages_received mc
    \<and> mc_new (add_consumers cs mc) = mc_new mc"
  using assms
proof (induction cs arbitrary: mc)
  case (Cons c cs)
  let ?mc1 = "mc\<lparr>mc_consumers := btree_insert (tc_topic c) c (mc_consumers mc),
                  mc_existing := mc_existing mc @ [tc_topic c]\<rparr>"
  have fresh: "fresh_for mc c" using Cons.prems(2) by simp
  have base: "multi_base ?mc1"
    using Cons.prems(1) keys_btree_insert [of "tc_topic c" c "mc_consumers mc"]
    by (auto simp: multi_base_def sorted_btree_insert list_all_btree_insert simp del: set_map)
  have rest: "list_all (fresh_for ?mc1) cs"
    using Cons.prems(2) fresh
    by (auto simp: list_all_iff fresh_for_def map_of_btree_insert split: option.splits)
  have "mc_messages_received ?mc1 = mc_messages_received mc"
    using fresh Cons.prems(1)
    by (auto simp: received_total multi_base_def total_of_insert fresh_for_def split: option.splits)
  with Cons.IH [OF base rest] show ?case by (simp add: add_consumers_Cons)
qed (simp add: add_consumers_def)

lemma remove_consumer_counts:
  assumes "sorted_wrt (<) (map fst (mc_consumers mc))"
  shows "mc_messages_received (remove_consumer t mc) = mc_messages_received mc"
    and "sorted_wrt (<) (map fst (mc_consumers (remove_consumer t mc)))"
    and "mc_existing (remove_consumer t mc) = mc_existing mc"
    and "mc_new (remove_consumer t mc) = mc_new mc"
    and "mc_consumers (remove_consumer t mc) = AList.delete t (mc_consumers mc)"
proof -
  have absent: "map_of (mc_consumers mc) t = None \<Longrightarrow> AList.delete t (mc_consumers mc) = mc_consumers mc"
    by (simp add: AList.delete_eq filter_id_conv map_of_eq_None_iff) force
  show "mc_messages_received (remove_consumer t mc) = mc_messages_received mc"
    using total_of_delete [OF sorted_keys_distinct [OF assms], of t]
    by (auto simp: remove_consumer_def received_total split: option.splits)
  show "sorted_wrt (<) (map fst (mc_consumers (remove_consumer t mc)))"
    using sorted_keys_delete [OF assms] assms
    by (auto simp: remove_consumer_def split: option.splits)
  show "mc_consumers (remove_consumer t mc) = AList.delete t (mc_consumers mc)"
    using absent by (auto simp: remove_consumer_def split: option.splits)
qed (simp_all add: remove_consumer_def split: option.splits)

lemma fold_remove_consumer:
  assumes "sorted_wrt (<) (map fst (mc_consumers mc))"
  shows "mc_messages_received (fold remove_consumer ts mc) = mc_messages_received mc
    \<and> sorted_wrt (<) (map fst (mc_consumers (fold remove_consumer ts mc)))
    \<and> mc_existing (fold remove_consumer ts mc) = mc_existing mc
    \<and> mc_new (fold remove_consumer ts mc) = mc_new mc
    \<and> mc_consumers (fold remove_consumer ts mc) = fold AList.delete ts (mc_consumers mc)"
  using assms
proof (induction ts arbitrary: mc)
  case (Cons t ts)
  show ?case
    using Cons.IH [OF remove_consumer_counts(2) [OF Cons.prems, of t]]
    by (auto simp: remove_consumer_counts [OF Cons.prems])
qed simp

lemma keys_fold_delete:
  "fst ` set (fold AList.delete ts kvs) = fst ` set kvs - set ts"
proof (induction ts arbitrary: kvs)
  case (Cons t ts)
  have "fst ` set (AList.delete t kvs) = fst ` set kvs - {t}" by (auto simp: AList.delete_eq)
  with Cons show ?case by auto
qed simp

lemma list_all_fold_delete: "list_all P kvs \<Longrightarrow> list_all P (fold AList.delete ts kvs)"
  by (induction ts arbitrary: kvs) (simp_all add: list_all_delete)

lemma received_same:
  "\<lbrakk>mc_consumers mc' = mc_consumers mc; mc_disc_received mc' = mc_disc_received mc\<rbrakk> \<Longrightarrow>
     mc_messages_received mc' = mc_messages_received mc"
  by (simp add: received_total)

lemma remove_consumers_counts:
  assumes "multi_base mc"
  shows "multi_base (remove_consumers ts mc)"
    and "mc_messages_received (remove_consumers ts mc) = mc_messages_received mc"
    and "mc_new (remove_consumers ts mc) = mc_new mc"
    and "set (mc_existing (remove_consumers ts mc)) \<subseteq> set (mc_existing mc)"
proof -
  let ?mc1 = "mc\<lparr>mc_existing := filter (\<lambda>t. t \<notin> set ts) (mc_existing mc)\<rparr>"
  have "sorted_wrt (<) (map fst (mc_consumers ?mc1))" using assms by (simp add: multi_base_def)
  note kept = fold_remove_consumer [OF this, of ts]
  show "multi_base (remove_consumers ts mc)"
    using kept assms
    by (auto simp: remove_consumers_def multi_base_def list_all_fold_delete keys_fold_delete)
  show "mc_messages_received (remove_consumers ts mc) = mc_messages_received mc"
  proof -
    have "mc_messages_received ?mc1 = mc_messages_received mc" by (rule received_same) simp_all
    then show ?thesis using kept by (simp add: remove_consumers_def)
  qed
  show "mc_new (remove_consumers ts mc) = mc_new mc"
    using kept by (simp add: remove_consumers_def)
  show "set (mc_existing (remove_consumers ts mc)) \<subseteq> set (mc_existing mc)"
    using kept by (auto simp: remove_consumers_def)
qed

lemma multi_base_existing:
  "\<lbrakk>multi_base mc; set ts = set (mc_existing mc)\<rbrakk> \<Longrightarrow> multi_base (mc\<lparr>mc_existing := ts\<rparr>)"
  by (simp add: multi_base_def)

text \<open>Updating the consumer of a topic in place.\<close>

lemma update_consumer_ok:
  assumes "multi_base mc" and "map_of (mc_consumers mc) t = Some c" and "tc_topic c1 = t"
  shows "multi_base (mc\<lparr>mc_consumers := AList.update t c1 (mc_consumers mc)\<rparr>)"
    and "mc_messages_received (mc\<lparr>mc_consumers := AList.update t c1 (mc_consumers mc)\<rparr>)
       = mc_messages_received mc - tc_received c + tc_received c1"
  using assms keys_update_present [of "mc_consumers mc" t c1]
  by (simp_all add: multi_base_def list_all_alist_update received_total total_of_update del: set_map)

lemma tc_poll_next_item:
  assumes "tc_poll_next now c = (item, c1)"
  shows "tc_topic c1 = tc_topic c" and "tc_received c1 = count_item item (tc_received c)"
    and "tc_engine_tx c1 = tc_engine_tx c" and "tc_engine_open c1 = tc_engine_open c"
  using assms by (auto simp: tc_poll_next_def count_item_def split: list.splits sum.splits)

lemma poll_topics_counts:
  assumes "poll_topics now n mc = (r, removed, mc')" and "multi_base mc"
  shows "multi_base mc' \<and> set (mc_existing mc') = set (mc_existing mc) \<and> mc_new mc' = mc_new mc
    \<and> mc_messages_received mc' = mc_messages_received mc + (case r of None \<Rightarrow> 0 | Some m \<Rightarrow> 1)"
  using assms
proof (induction n arbitrary: mc r removed mc')
  case (Suc n)
  show ?case
  proof (cases "mc_existing mc")
    case Nil
    with Suc.prems show ?thesis by auto
  next
    case (Cons t rest)
    let ?mc1 = "mc\<lparr>mc_existing := rest @ [t]\<rparr>"
    have base1: "multi_base ?mc1" using Suc.prems(2) Cons by (intro multi_base_existing) auto
    have "t \<in> set (map fst (mc_consumers mc))" using Suc.prems(2) Cons by (auto simp: multi_base_def)
    then obtain c where c: "map_of (mc_consumers mc) t = Some c"
      using map_of_eq_None_iff [of "mc_consumers mc" t] by auto
    obtain item c1 where p: "tc_poll_next now c = (item, c1)" by (cases "tc_poll_next now c")
    let ?mc2 = "?mc1\<lparr>mc_consumers := AList.update t c1 (mc_consumers mc)\<rparr>"
    have "tc_topic c1 = t"
      using topic_entry [OF c] Suc.prems(2) tc_poll_next_item(1) [OF p] by (simp add: multi_base_def)
    note upd = update_consumer_ok [OF base1 _ this, of c]
    have base2: "multi_base ?mc2" and
      got: "mc_messages_received ?mc2 = count_item item (mc_messages_received mc)"
      using upd c tc_poll_next_item(2) [OF p] received_same [of ?mc1 mc]
      by (simp_all add: count_item_def)
    have ex: "set (mc_existing ?mc2) = set (mc_existing mc)" using Cons by auto
    obtain r' removed' mc'' where q: "poll_topics now n ?mc2 = (r', removed', mc'')"
      using prod_cases3 by blast
    note IH = Suc.IH [OF q base2]
    have run: "(r, removed, mc') = (case item of Stream_item (Inr m) \<Rightarrow> (Some m, [], ?mc2)
        | Stream_pending \<Rightarrow> (r', removed', mc'') | _ \<Rightarrow> (r', t # removed', mc''))"
      using Suc.prems(1) by (simp add: Cons c p q Let_def split: poll_next.splits sum.splits)
    have kept: "mc_new ?mc2 = mc_new mc" by simp
    show ?thesis
    proof (cases "\<exists>m. item = Stream_item (Inr m)")
      case True
      then have "r = Some (THE m. item = Stream_item (Inr m)) \<and> mc' = ?mc2" using run by auto
      with True got ex base2 kept show ?thesis by (auto simp: count_item_def)
    next
      case False
      then have "r = r' \<and> mc' = mc''" and "delivered [item] = []"
        using run by (auto split: poll_next.splits sum.splits)
      with IH got ex kept show ?thesis by (simp add: count_item_def)
    qed
  qed
qed auto

lemma new_consumers_fresh:
  assumes "new_consumers env existing requested rx = Inr cs" and "opens_topics (te_subscribe env)"
    and "c \<in> set cs"
  shows "tc_received c = 0 \<and> tc_topic c \<notin> set existing"
proof -
  from assms(1) obtain found where "map (te_subscribe env)
      (filter (\<lambda>(t, addr). t \<notin> set existing) (concat found)) = map Inr cs"
    by (auto simp: new_consumers_def rbind_Inr_iff try_join_all_Inr_iff)
  then have "Inr c \<in> set (map (te_subscribe env)
      (filter (\<lambda>(t, addr). t \<notin> set existing) (concat found)))"
    using assms(3) by simp
  then have "Inr c \<in> te_subscribe env ` {x. fst x \<notin> set existing}"
    by auto
  then show ?thesis using assms(2) by (fastforce simp: opens_topics_def)
qed

text \<open>What the environment keeps to: refreshes subscribe to the topics they name.\<close>

definition rounds_ok :: "(topics_env option \<times> bool) list \<Rightarrow> bool" where
  "rounds_ok rounds \<longleftrightarrow>
     list_all (\<lambda>(ready, elapsed). case ready of None \<Rightarrow> True | Some env \<Rightarrow> opens_topics (te_subscribe env)) rounds"

lemma multi_ok_add:
  assumes "multi_base mc" and "new_consumers env ex requested rx = Inr cs"
    and "opens_topics (te_subscribe env)" and "set (mc_existing mc) \<subseteq> set ex" and "mc_new mc = None"
  shows "multi_ok (add_consumers cs mc)
    \<and> mc_messages_received (add_consumers cs mc) = mc_messages_received mc"
proof -
  have "fresh_for mc c" if "c \<in> set cs" for c
  proof -
    have "tc_received c = 0" and "tc_topic c \<notin> set (mc_existing mc)"
      using new_consumers_fresh [OF assms(2,3) that] assms(4) by auto
    then show ?thesis
      using assms(1) map_of_eq_None_iff [of "mc_consumers mc" "tc_topic c"]
      by (simp add: fresh_for_def multi_base_def)
  qed
  then have "list_all (fresh_for mc) cs" by (simp add: list_all_iff)
  with add_consumers_base [OF assms(1)] assms(5) show ?thesis by (simp add: multi_ok_def)
qed

lemma multi_base_fields:
  "\<lbrakk>mc_consumers mc' = mc_consumers mc; mc_existing mc' = mc_existing mc\<rbrakk> \<Longrightarrow> multi_base mc' = multi_base mc"
  by (simp add: multi_base_def)

lemma follow_topics_counts:
  assumes "multi_ok mc" and "rounds_ok rounds"
  shows "multi_ok (follow_topics rounds mc)
    \<and> mc_messages_received (follow_topics rounds mc) = mc_messages_received mc"
  using assms
proof (induction rounds arbitrary: mc)
  case (Cons round rounds)
  obtain ready elapsed where round [simp]: "round = (ready, elapsed)" by (cases round)
  let ?mc1 = "case (mc_new mc, ready) of
      (Some existing, Some env) \<Rightarrow>
        (case new_consumers env existing (mc_requested mc) (mc_topic_regex mc) of
           Inr cs \<Rightarrow> add_consumers cs (mc\<lparr>mc_new := None\<rparr>) | Inl e \<Rightarrow> mc\<lparr>mc_new := None\<rparr>)
    | _ \<Rightarrow> mc"
  let ?idle = "mc\<lparr>mc_new := None\<rparr>"
  have idle: "multi_ok ?idle" "mc_messages_received ?idle = mc_messages_received mc"
    using Cons.prems(1) multi_base_fields [of ?idle mc] received_same [of ?idle mc]
    by (simp_all add: multi_ok_def)
  have step: "multi_ok ?mc1 \<and> mc_messages_received ?mc1 = mc_messages_received mc"
  proof (cases "mc_new mc")
    case (Some ex)
    show ?thesis
    proof (cases ready)
      case (Some env)
      have "opens_topics (te_subscribe env)" using Cons.prems(2) Some by (simp add: rounds_ok_def)
      moreover have "multi_base ?idle" "set (mc_existing ?idle) \<subseteq> set ex"
        using idle(1) Cons.prems(1) \<open>mc_new mc = Some ex\<close> by (simp_all add: multi_ok_def)
      ultimately show ?thesis
        using multi_ok_add [of ?idle env ex "mc_requested mc" "mc_topic_regex mc"] Some
          \<open>mc_new mc = Some ex\<close> idle
        by (auto split: sum.split)
    qed (use Cons.prems(1) \<open>mc_new mc = Some ex\<close> in simp)
  qed (use Cons.prems(1) in simp)
  have "multi_ok (update_topics ?mc1)" "mc_messages_received (update_topics ?mc1) = mc_messages_received mc"
    using step multi_base_fields [of "update_topics ?mc1" ?mc1] received_same [of "update_topics ?mc1" ?mc1]
    by (simp_all add: multi_ok_def update_topics_def)
  with Cons.IH [OF this(1)] Cons.prems(2) step show ?case
    by (simp add: Let_def rounds_ok_def)
qed simp

lemma mc_poll_next_counts:
  assumes "multi_ok mc" and "rounds_ok rounds" and "mc_poll_next rounds now mc = (item, mc')"
  shows "multi_ok mc'"
    and "mc_messages_received mc' = count_item item (mc_messages_received mc)"
proof -
  let ?mc1 = "follow_topics rounds mc"
  note f = follow_topics_counts [OF assms(1,2)]
  obtain r removed mc2 where p: "poll_topics now (length (mc_existing ?mc1)) ?mc1 = (r, removed, mc2)"
    using prod_cases3 by blast
  have "multi_base ?mc1" using f by (simp add: multi_ok_def)
  note q = poll_topics_counts [OF p this]
  note rm = remove_consumers_counts [of mc2 removed]
  have eq: "mc' = remove_consumers removed mc2"
    "item = (case r of Some m \<Rightarrow> Stream_item (Inr m) | None \<Rightarrow> Stream_pending)"
    using assms(3) p by (auto simp: mc_poll_next_def Let_def)
  show "multi_ok mc'"
    using q rm f by (auto simp: eq multi_ok_def split: option.splits)
  show "mc_messages_received mc' = count_item item (mc_messages_received mc)"
    using q rm f by (auto simp: eq count_item_def split: option.splits)
qed

text \<open>A consumer just built.\<close>

lemma by_topic_ok:
  assumes "\<And>c. c \<in> set tcs \<Longrightarrow> tc_received c = 0"
  shows "sorted_wrt (<) (map fst (by_topic tcs)) \<and> list_all (\<lambda>(t, c). tc_topic c = t) (by_topic tcs)
    \<and> total_of tc_received (by_topic tcs) = 0"
proof -
  have "sorted_wrt (<) (map fst (fold (\<lambda>c. btree_insert (tc_topic c) c) tcs kvs))
      \<and> list_all (\<lambda>(t, c). tc_topic c = t) (fold (\<lambda>c. btree_insert (tc_topic c) c) tcs kvs)
      \<and> list_all (\<lambda>(t, c). tc_received c = 0) (fold (\<lambda>c. btree_insert (tc_topic c) c) tcs kvs)"
    if "sorted_wrt (<) (map fst kvs)" "list_all (\<lambda>(t, c). tc_topic c = t) kvs"
      "list_all (\<lambda>(t, c). tc_received c = 0) kvs" for kvs
    using that assms
  proof (induction tcs arbitrary: kvs)
    case (Cons c tcs)
    then have "tc_received c = 0" by simp
    with Cons show ?case by (simp add: sorted_btree_insert list_all_btree_insert)
  qed simp
  from this [of "[]"] have "list_all (\<lambda>(t, c). tc_received c = 0) (by_topic tcs)"
    and "sorted_wrt (<) (map fst (by_topic tcs))" "list_all (\<lambda>(t, c). tc_topic c = t) (by_topic tcs)"
    by (simp_all add: by_topic_def)
  moreover have "list_all (\<lambda>(t, c). tc_received c = 0) kvs \<Longrightarrow> total_of tc_received kvs = 0" for kvs :: "(string \<times> topic_consumer) list"
    by (induction kvs) (auto simp: total_of_def)
  ultimately show ?thesis by simp
qed

definition inner_ok :: "inner_consumer \<Rightarrow> bool" where
  "inner_ok c = (case c of Single_consumer tc \<Rightarrow> True | Multi_consumer mc \<Rightarrow> multi_ok mc)"

lemma consumer_build_ok:
  assumes "consumer_build lookup random open_topic env b = Inr c"
    and "\<And>config. opens_topics (open_topic config)"
    and "\<And>config. opens_topics (te_subscribe (env config))"
  shows "inner_ok c \<and> consumer_messages_received c = 0"
proof -
  obtain config joined tcs where
    opened: "map (open_topic config) joined = map Inr tcs" and
    rest: "(let requested = unwrap_or [] (cb_topics b);
           can_gain_partitions = (cb_topic_regex b \<noteq> None \<or>
             \<not> (case (requested, tcs) of
                  ([only], [resolved]) \<Rightarrow> tc_topic resolved = only
                | _ \<Rightarrow> False))
       in case (tcs, can_gain_partitions) of
            ([c], False) \<Rightarrow> Inr (Single_consumer c)
          | _ \<Rightarrow>
            (let cs = by_topic tcs;
                 topics = map fst cs;
                 mc = \<lparr>mc_topic_regex = cb_topic_regex b, mc_consumers = cs, mc_topics = topics,
                       mc_requested = requested, mc_existing = topics, mc_new = None,
                       mc_config = config, mc_disc_received = 0, mc_disc_last = None\<rparr>
             in if cb_topic_regex b \<noteq> None
                then rmap (\<lambda>initial. Multi_consumer (add_consumers initial mc))
                       (new_consumers (env config) topics requested (cb_topic_regex b))
                else Inr (Multi_consumer mc))) = Inr c"
    using assms(1) by (auto simp: consumer_build_def rbind_Inr_iff try_join_all_Inr_iff)
  have fresh: "tc_received c = 0" if "c \<in> set tcs" for c
  proof -
    have "Inr c \<in> open_topic config ` set joined" using opened that by (metis image_eqI list.set_map)
    then show ?thesis using assms(2) [of config] by (fastforce simp: opens_topics_def)
  qed
  let ?mc = "\<lparr>mc_topic_regex = cb_topic_regex b, mc_consumers = by_topic tcs,
      mc_topics = map fst (by_topic tcs), mc_requested = unwrap_or [] (cb_topics b),
      mc_existing = map fst (by_topic tcs), mc_new = None, mc_config = config,
      mc_disc_received = 0, mc_disc_last = None\<rparr>"
  have base: "multi_base ?mc" "mc_messages_received ?mc = 0"
    using by_topic_ok [of tcs] fresh by (auto simp: multi_base_def received_total)
  consider (single) tc where "c = Single_consumer tc" "tcs = [tc]"
    | (multi) "c = Multi_consumer ?mc"
    | (regex) initial where "c = Multi_consumer (add_consumers initial ?mc)"
        "new_consumers (env config) (mc_existing ?mc) (unwrap_or [] (cb_topics b)) (cb_topic_regex b) = Inr initial"
    using rest
    by (auto simp: Let_def rmap_Inr_iff split: list.splits if_splits bool.splits)
  then show ?thesis
  proof cases
    case single
    then show ?thesis using fresh [of tc] by (simp add: inner_ok_def consumer_messages_received_def)
  next
    case multi
    then show ?thesis using base by (simp add: inner_ok_def multi_ok_def consumer_messages_received_def)
  next
    case regex
    from multi_ok_add [OF base(1) regex(2) assms(3)] base(2) show ?thesis
      by (simp add: regex(1) inner_ok_def consumer_messages_received_def)
  qed
qed

text \<open>
  A turn of a consumer's life: what the engines of its topics put on their channels, and a poll.
\<close>

definition deliver :: "(string \<Rightarrow> arrivals) \<Rightarrow> multi_consumer \<Rightarrow> multi_consumer" where
  "deliver arrived mc =
     mc\<lparr>mc_consumers := map (\<lambda>(t, c). (t, arriving (arrived t) c)) (mc_consumers mc)\<rparr>"

type_synonym turn = "(string \<Rightarrow> arrivals) \<times> (topics_env option \<times> bool) list \<times> nat"

fun multi_turn :: "turn \<Rightarrow> multi_consumer \<Rightarrow>
    (error, consumer_message) result poll_next \<times> multi_consumer" where
  "multi_turn (arrived, rounds, now) mc = mc_poll_next rounds now (deliver arrived mc)"

fun consumer_turn :: "turn \<Rightarrow> inner_consumer \<Rightarrow>
    (error, consumer_message) result poll_next \<times> inner_consumer" where
  "consumer_turn (arrived, rounds, now) c =
     consumer_poll_next rounds now
       (case c of
          Single_consumer tc \<Rightarrow> Single_consumer (arriving (arrived (tc_topic tc)) tc)
        | Multi_consumer mc \<Rightarrow> Multi_consumer (deliver arrived mc))"

definition turn_ok :: "turn \<Rightarrow> bool" where
  "turn_ok env = (case env of (arrived, rounds, now) \<Rightarrow> rounds_ok rounds)"

lemma deliver_ok:
  "multi_ok (deliver arrived mc) = multi_ok mc"
  "mc_messages_received (deliver arrived mc) = mc_messages_received mc"
proof -
  have keys: "map fst (mc_consumers (deliver arrived mc)) = map fst (mc_consumers mc)"
    by (simp add: deliver_def comp_def case_prod_unfold)
  have topics: "list_all (\<lambda>(t, c). tc_topic c = t) (mc_consumers (deliver arrived mc))
      = list_all (\<lambda>(t, c). tc_topic c = t) (mc_consumers mc)"
    by (auto simp: deliver_def list_all_iff arriving_def)
  show "multi_ok (deliver arrived mc) = multi_ok mc"
    unfolding multi_ok_def multi_base_def keys topics by (simp add: deliver_def split: option.split)
  show "mc_messages_received (deliver arrived mc) = mc_messages_received mc"
    by (simp add: received_total total_of_def deliver_def comp_def case_prod_unfold arriving_def)
qed

interpretation multi: observed_stream multi_turn multi_ok turn_ok mc_messages_received count_item
proof unfold_locales
  fix s env item s'
  assume a: "multi_ok s" "turn_ok env" "multi_turn env s = (item, s')"
  obtain arrived rounds now where env: "env = (arrived, rounds, now)" using prod_cases3 by blast
  have b: "multi_ok (deliver arrived s)" "rounds_ok rounds"
      "mc_poll_next rounds now (deliver arrived s) = (item, s')"
    using a by (simp_all add: env deliver_ok turn_ok_def)
  show "multi_ok s'" and "mc_messages_received s' = count_item item (mc_messages_received s)"
    using mc_poll_next_counts [OF b] by (simp_all add: deliver_ok)
qed

interpretation facade: observed_stream consumer_turn inner_ok turn_ok consumer_messages_received count_item
proof unfold_locales
  fix s env item s'
  assume a: "inner_ok s" "turn_ok env" "consumer_turn env s = (item, s')"
  obtain arrived rounds now where env: "env = (arrived, rounds, now)" using prod_cases3 by blast
  show "inner_ok s'" and
    "consumer_messages_received s' = count_item item (consumer_messages_received s)"
  proof -
    have "inner_ok s' \<and> consumer_messages_received s' = count_item item (consumer_messages_received s)"
    proof (cases s)
      case (Single_consumer tc)
      with a(3) obtain tc1 where
        p: "tc_poll_next now (arriving (arrived (tc_topic tc)) tc) = (item, tc1)" "s' = Single_consumer tc1"
        by (auto simp: env consumer_poll_next_def on_inner_def split: prod.splits)
      with single.poll_observe [of "(arrived (tc_topic tc), now)" tc item tc1] Single_consumer
      show ?thesis by (simp add: inner_ok_def consumer_messages_received_def)
    next
      case (Multi_consumer mc)
      with a(3) obtain mc1 where
        p: "multi_turn env mc = (item, mc1)" "s' = Multi_consumer mc1"
        by (auto simp: env consumer_poll_next_def on_inner_def split: prod.splits)
      with multi.poll_good [OF _ a(2) p(1)] multi.poll_observe [OF _ a(2) p(1)] a(1) Multi_consumer
      show ?thesis by (simp add: inner_ok_def consumer_messages_received_def)
    qed
    then show "inner_ok s'" and
      "consumer_messages_received s' = count_item item (consumer_messages_received s)" by simp_all
  qed
qed

text \<open>
  C19. A consumer counts every message once. From the moment it is built, whatever arrives on its
  topics, however often the topics are refreshed, consumers added, and consumers of topics that
  failed or ended removed (and subscribed again later), the number of messages received is the
  number of messages the consumer has returned.
\<close>

theorem messages_received_counts_messages_returned:
  assumes "consumer_build lookup random open_topic env b = Inr c"
    and "\<And>config. opens_topics (open_topic config)"
    and "\<And>config. opens_topics (te_subscribe (env config))"
    and "list_all turn_ok turns" and "polls consumer_turn turns c = (items, c')"
  shows "consumer_messages_received c' = of_nat (length (delivered items))"
  using consumer_build_ok [OF assms(1-3)] facade.polls_observe [OF _ assms(4,5)]
  by (simp add: fold_count_item)

definition example_topics :: "string list" where
  "example_topics = [''a'', ''b'', ''c'']"

definition example_open :: "consumer_config \<Rightarrow> string \<times> broker_address \<Rightarrow> (error, topic_consumer) result" where
  "example_open config x = Inr (example_consumer\<lparr>tc_config := config, tc_topic := fst x\<rparr>)"

definition example_lookup :: "string \<Rightarrow> (error, (string \<times> broker_address) list) result" where
  "example_lookup t = Inr [(t, example_address)]"

definition example_topics_env :: "consumer_config \<Rightarrow> topics_env" where
  "example_topics_env config =
     \<lparr>te_namespace = Inr [], te_lookup = example_lookup, te_subscribe = example_open config\<rparr>"

definition example_consumer_builder :: consumer_builder where
  "example_consumer_builder = with_topics [''b'', ''a''] consumer_builder_new"

definition example_turns :: "turn list" where
  "example_turns =
     [(\<lambda>t. [Inr (example_id 4 0, example_payload), Inl (Custom ''lost'')], [], 1),
      (\<lambda>t. [], [], 2), (\<lambda>t. [], [(None, True), (None, False)], 3),
      (\<lambda>t. [], [(Some (example_topics_env (tc_config example_consumer)), True),
         (Some (example_topics_env (tc_config example_consumer)), False)], 4),
      (\<lambda>t. if t = ''b'' then [Inr (example_id 4 1, example_payload)] else [], [], 5)]"

lemma example_opens: "opens_topics (example_open config)"
  by (simp add: opens_topics_def example_open_def example_consumer_def)

lemmas example_build_defs = consumer_build_def validate_def example_consumer_builder_def with_topics_def
  consumer_builder_new_def example_lookup_def example_open_def unwrap_or_def by_topic_def less_char_def

lemmas poll_defs = consumer_poll_next_def on_inner_def mc_poll_next_def tc_poll_next_def deliver_def
  arriving_def remove_consumers_def remove_consumer_def update_topics_def new_consumers_def
  add_consumers_def example_topics_env_def example_lookup_def example_open_def less_char_def

definition example_multi_config :: consumer_config where
  "example_multi_config =
     (tc_config example_consumer)\<lparr>cc_subscription := ''sub_x'', cc_sub_type := Shared,
       cc_consumer_name := Some ''consumer_x''\<rparr>"

definition example_multi :: multi_consumer where
  "example_multi =
     \<lparr>mc_topic_regex = None,
      mc_consumers = map (\<lambda>t. (t, example_consumer\<lparr>tc_config := example_multi_config, tc_topic := t\<rparr>))
        [''a'', ''b''],
      mc_topics = [''a'', ''b''], mc_requested = [''b'', ''a''], mc_existing = [''a'', ''b''],
      mc_new = None, mc_config = example_multi_config, mc_disc_received = 0, mc_disc_last = None\<rparr>"

lemma example_built:
  "consumer_build example_lookup (\<lambda>n. ''x'') example_open example_topics_env example_consumer_builder
     = Inr (Multi_consumer example_multi)"
  by (simp add: example_build_defs example_multi_def example_multi_config_def example_consumer_def Let_def)

lemma example_turns_run:
  "length (delivered (fst (polls consumer_turn example_turns (Multi_consumer example_multi)))) = 3"
  by (simp add: example_turns_def poll_defs example_multi_def example_consumer_def)

theorem messages_received_counts_messages_returned_witness:
  "consumer_messages_received (snd (polls consumer_turn example_turns (Multi_consumer example_multi))) = 3"
proof -
  obtain items c' where run: "polls consumer_turn example_turns (Multi_consumer example_multi) = (items, c')"
    by (cases "polls consumer_turn example_turns (Multi_consumer example_multi)")
  have "list_all turn_ok example_turns"
    by (simp add: example_turns_def turn_ok_def rounds_ok_def example_topics_env_def example_opens)
  then have "consumer_messages_received c' = of_nat (length (delivered items))"
    using messages_received_counts_messages_returned [OF example_built _ _ _ run]
    by (simp add: example_opens example_topics_env_def)
  with example_turns_run show ?thesis by (simp add: run)
qed

subsection \<open>Acknowledging where the message came from\<close>

lemma poll_topics_message:
  assumes "poll_topics now n mc = (r, removed, mc')" and "r = Some m" and "multi_base mc"
    and "n \<le> length (mc_existing mc)" and "distinct (mc_existing mc)"
  shows "set removed \<subseteq> set (take n (mc_existing mc)) - {cm_topic m}
    \<and> cm_topic m \<in> set (take n (mc_existing mc))
    \<and> (\<exists>c. map_of (mc_consumers mc') (cm_topic m) = Some c \<and> tc_last_dequeued c = Some (cm_id m))"
  using assms
proof (induction n arbitrary: mc r removed mc')
  case (Suc n)
  then obtain t rest where ex: "mc_existing mc = t # rest" by (cases "mc_existing mc") auto
  have "t \<in> set (map fst (mc_consumers mc))" using Suc.prems(3) ex by (auto simp: multi_base_def)
  then obtain c where c: "map_of (mc_consumers mc) t = Some c"
    using map_of_eq_None_iff [of "mc_consumers mc" t] by auto
  have topic: "tc_topic c = t" using topic_entry [OF c] Suc.prems(3) by (simp add: multi_base_def)
  obtain item c1 where p: "tc_poll_next now c = (item, c1)" by (cases "tc_poll_next now c")
  let ?mc2 = "mc\<lparr>mc_existing := rest @ [t], mc_consumers := AList.update t c1 (mc_consumers mc)\<rparr>"
  obtain r' removed' mc'' where q: "poll_topics now n ?mc2 = (r', removed', mc'')"
    using prod_cases3 by blast
  have run: "(r, removed, mc') = (case item of Stream_item (Inr m) \<Rightarrow> (Some m, [], ?mc2)
      | Stream_pending \<Rightarrow> (r', removed', mc'') | _ \<Rightarrow> (r', t # removed', mc''))"
    using Suc.prems(1) by (simp add: ex c p q Let_def split: poll_next.splits sum.splits)
  show ?case
  proof (cases "\<exists>m. item = Stream_item (Inr m)")
    case True
    then have eq: "item = Stream_item (Inr m)" "removed = []" "mc' = ?mc2"
      using run Suc.prems(2) by auto
    then have "cm_topic m = t" "tc_last_dequeued c1 = Some (cm_id m)"
      using p topic by (auto simp: tc_poll_next_def create_message_def split: list.splits sum.splits if_splits)
    then show ?thesis by (simp add: eq ex update_conv')
  next
    case False
    then have eq: "r' = Some m" "mc' = mc''" "set removed \<subseteq> insert t (set removed')"
      using run Suc.prems(2) by (auto split: poll_next.splits sum.splits)
    have "multi_base (mc\<lparr>mc_existing := rest @ [t]\<rparr>)"
      using Suc.prems(3) ex by (intro multi_base_existing) auto
    from update_consumer_ok(1) [OF this, of t c c1] have base: "multi_base ?mc2"
      using c topic tc_poll_next_item(1) [OF p] by simp
    have len: "n \<le> length (mc_existing ?mc2)" and dist: "distinct (mc_existing ?mc2)"
      and n: "n \<le> length rest" using Suc.prems(4,5) ex by auto
    from Suc.IH [OF q eq(1) base len dist] n have
      IH: "set removed' \<subseteq> set (take n rest) - {cm_topic m}" "cm_topic m \<in> set (take n rest)"
        "\<exists>c. map_of (mc_consumers mc'') (cm_topic m) = Some c \<and> tc_last_dequeued c = Some (cm_id m)"
      by auto
    have "t \<notin> set (take n rest)" using Suc.prems(5) ex by (auto dest: in_set_takeD)
    with IH eq show ?thesis by (auto simp: ex)
  qed
qed simp

lemma map_of_fold_delete:
  "t \<notin> set ts \<Longrightarrow> map_of (fold AList.delete ts kvs) t = map_of kvs t"
  by (induction ts arbitrary: kvs) (simp_all add: delete_conv')

lemma removed_consumers_other:
  assumes "multi_base mc" and "t \<notin> set ts"
  shows "map_of (mc_consumers (remove_consumers ts mc)) t = map_of (mc_consumers mc) t"
proof -
  let ?mc1 = "mc\<lparr>mc_existing := filter (\<lambda>t. t \<notin> set ts) (mc_existing mc)\<rparr>"
  have "sorted_wrt (<) (map fst (mc_consumers ?mc1))" using assms(1) by (simp add: multi_base_def)
  from fold_remove_consumer [OF this, of ts] show ?thesis
    by (simp add: remove_consumers_def map_of_fold_delete [OF assms(2)])
qed

lemma polled_consumer:
  assumes "multi_ok mc" and "rounds_ok rounds" and "distinct (mc_existing (follow_topics rounds mc))"
    and "mc_poll_next rounds now mc = (Stream_item (Inr m), mc')"
  shows "\<exists>c. map_of (mc_consumers mc') (cm_topic m) = Some c \<and> tc_last_dequeued c = Some (cm_id m)"
proof -
  let ?mc1 = "follow_topics rounds mc"
  have base: "multi_base ?mc1"
    using follow_topics_counts [OF assms(1,2)] by (simp add: multi_ok_def)
  obtain r removed mc2 where p: "poll_topics now (length (mc_existing ?mc1)) ?mc1 = (r, removed, mc2)"
    using prod_cases3 by blast
  have eq: "mc' = remove_consumers removed mc2" "r = Some m"
    using assms(4) p by (auto simp: mc_poll_next_def Let_def split: option.splits)
  note q = poll_topics_message [OF p eq(2) base le_refl assms(3)]
  then have "cm_topic m \<notin> set removed" by auto
  with q removed_consumers_other [of mc2 "cm_topic m" removed] poll_topics_counts [OF p base]
  show ?thesis by (simp add: eq)
qed



subsection \<open>Every topic gets its turn\<close>

lemma poll_topics_serves:
  assumes "poll_topics now n mc = (r, removed, mc')" and "mc_existing mc = xs @ t # ys"
    and "t \<notin> set xs" and "length xs < n"
    and "map_of (mc_consumers mc) t = Some c" and "tc_messages c = Inr (i, pl) # rest"
  shows "r = Some (create_message c i pl)
    \<or> (\<exists>us vs m. xs = us @ vs \<and> us \<noteq> [] \<and> r = Some m \<and> mc_existing mc' = vs @ t # ys @ us
         \<and> t \<notin> set removed \<and> map_of (mc_consumers mc') t = Some c)"
  using assms
proof (induction xs arbitrary: mc n r removed mc' ys)
  case Nil
  then obtain n' where n: "n = Suc n'" by (cases n) auto
  from Nil show ?case by (auto simp: n tc_poll_next_def Let_def)
next
  case (Cons x xs)
  then obtain n' where n: "n = Suc n'" "length xs < n'" by (cases n) auto
  have ex: "mc_existing mc = x # (xs @ t # ys)" and ne: "x \<noteq> t" using Cons.prems(2,3) by auto
  let ?mc1 = "mc\<lparr>mc_existing := xs @ t # ys @ [x]\<rparr>"
  have later: ?case
    if "poll_topics now n' mc2 = (r, removed2, mc')" "mc_existing mc2 = xs @ t # ys @ [x]"
      "map_of (mc_consumers mc2) t = Some c" "set removed \<subseteq> insert x (set removed2)" for mc2 removed2
  proof -
    have "mc_existing mc2 = xs @ t # (ys @ [x])" using that(2) by simp
    from Cons.IH [OF that(1) this _ n(2) that(3) Cons.prems(6)] Cons.prems(3)
    consider "r = Some (create_message c i pl)"
      | us vs m where "xs = us @ vs" "us \<noteq> []" "r = Some m" "mc_existing mc' = vs @ t # (ys @ [x]) @ us"
          "t \<notin> set removed2" "map_of (mc_consumers mc') t = Some c" by auto
    then show ?case
    proof cases
      case 2
      then show ?thesis
        using that(4) ne
        by (intro disjI2 exI [of _ "x # us"] exI [of _ vs] exI [of _ m]) auto
    qed simp
  qed
  show ?case
  proof (cases "map_of (mc_consumers mc) x")
    case None
    then show ?thesis
      using Cons.prems(1,5) ex by (intro later [of ?mc1 removed]) (auto simp: n)
  next
    case (Some cx)
    obtain item c1 where p: "tc_poll_next now cx = (item, c1)" by (cases "tc_poll_next now cx")
    let ?mc2 = "?mc1\<lparr>mc_consumers := AList.update x c1 (mc_consumers mc)\<rparr>"
    have kept: "map_of (mc_consumers ?mc2) t = Some c" using Cons.prems(5) ne by (simp add: update_conv')
    obtain r' removed' mc'' where q: "poll_topics now n' ?mc2 = (r', removed', mc'')"
      using prod_cases3 by blast
    have run: "(r, removed, mc') = (case item of Stream_item (Inr m) \<Rightarrow> (Some m, [], ?mc2)
        | Stream_pending \<Rightarrow> (r', removed', mc'') | _ \<Rightarrow> (r', x # removed', mc''))"
      using Cons.prems(1) by (simp add: n ex Some p q Let_def split: poll_next.splits sum.splits)
    show ?thesis
    proof (cases "\<exists>m. item = Stream_item (Inr m)")
      case True
      then obtain m where "r = Some m" "removed = []" "mc' = ?mc2" using run by auto
      with kept show ?thesis
        by (intro disjI2 exI [of _ "[x]"] exI [of _ xs] exI [of _ m]) simp
    next
      case False
      then have "r = r'" "mc' = mc''" "set removed \<subseteq> insert x (set removed')"
        using run by (auto split: poll_next.splits sum.splits)
      with q kept show ?thesis by (intro later [of ?mc2 removed']) simp_all
    qed
  qed
qed

lemma create_message_cong: "tc_topic c = tc_topic c' \<Longrightarrow> create_message c i pl = create_message c' i pl"
  by (simp add: create_message_def)

lemma map_of_deliver:
  "map_of (mc_consumers (deliver arrived mc)) t = map_option (arriving (arrived t)) (map_of (mc_consumers mc) t)"
proof -
  have "map_of (map (\<lambda>(t, c). (t, arriving (arrived t) c)) kvs) t
      = map_option (arriving (arrived t)) (map_of kvs t)" for kvs
    by (induction kvs) auto
  then show ?thesis by (simp add: deliver_def)
qed

lemma multi_turn_serves:
  assumes "multi_turn (arrived, [], now) mc = (item, mc')" and "multi_ok mc"
    and "mc_existing mc = xs @ t # ys" and "t \<notin> set xs"
    and "map_of (mc_consumers mc) t = Some c" and "tc_messages c = Inr (i, pl) # rest"
  shows "item = Stream_item (Inr (create_message c i pl))
    \<or> (\<exists>vs zs c' rest'. length vs < length xs \<and> t \<notin> set vs \<and> mc_existing mc' = vs @ t # zs
         \<and> map_of (mc_consumers mc') t = Some c' \<and> tc_topic c' = tc_topic c
         \<and> tc_messages c' = Inr (i, pl) # rest')"
proof -
  let ?mc1 = "deliver arrived mc" and ?c1 = "arriving (arrived t) c"
  have "multi_ok ?mc1" using assms(2) by (simp only: deliver_ok)
  then have base: "multi_base ?mc1" by (simp add: multi_ok_def)
  have ex: "mc_existing ?mc1 = xs @ t # ys" using assms(3) by (simp add: deliver_def)
  have c1: "map_of (mc_consumers ?mc1) t = Some ?c1" using assms(5) by (simp add: map_of_deliver)
  have ready: "tc_messages ?c1 = Inr (i, pl) # (rest @ arrived t)" using assms(6) by (simp add: arriving_def)
  obtain r removed mc2 where p: "poll_topics now (length (mc_existing ?mc1)) ?mc1 = (r, removed, mc2)"
    using prod_cases3 by blast
  have eq: "mc' = remove_consumers removed mc2"
    "item = (case r of Some m \<Rightarrow> Stream_item (Inr m) | None \<Rightarrow> Stream_pending)"
    using assms(1) p by (auto simp: mc_poll_next_def Let_def)
  have topic: "create_message ?c1 i pl = create_message c i pl"
    by (rule create_message_cong) (simp add: arriving_def)
  have "length xs < length (mc_existing ?mc1)" by (simp add: ex)
  from poll_topics_serves [OF p ex assms(4) this c1 ready] consider "r = Some (create_message c i pl)"
    | us vs where "xs = us @ vs" "us \<noteq> []" "mc_existing mc2 = vs @ t # ys @ us" "t \<notin> set removed"
        "map_of (mc_consumers mc2) t = Some ?c1" unfolding topic by blast
  then show ?thesis
  proof cases
    case 2
    have base2: "multi_base mc2" using poll_topics_counts [OF p base] by simp
    then have "sorted_wrt (<) (map fst (mc_consumers
        (mc2\<lparr>mc_existing := filter (\<lambda>t. t \<notin> set removed) (mc_existing mc2)\<rparr>)))"
      by (simp add: multi_base_def)
    from fold_remove_consumer [OF this, of removed]
    have "mc_existing mc' = filter (\<lambda>t. t \<notin> set removed) vs @ t # filter (\<lambda>t. t \<notin> set removed) (ys @ us)"
      using 2(3,4) by (simp add: eq remove_consumers_def)
    moreover have "length (filter (\<lambda>t. t \<notin> set removed) vs) < length xs"
      using 2(1,2) length_filter_le [of "\<lambda>t. t \<notin> set removed" vs]
      by (cases us) (auto simp: less_Suc_eq_le intro: trans_le_add2)
    moreover have "map_of (mc_consumers mc') t = Some ?c1"
      using removed_consumers_other [OF base2 2(4)] 2(5) by (simp add: eq)
    moreover have "t \<notin> set (filter (\<lambda>t. t \<notin> set removed) vs)" using assms(4) 2(1) by simp
    moreover have "tc_topic ?c1 = tc_topic c" by (simp add: arriving_def)
    ultimately show ?thesis using ready by blast
  qed (simp add: eq)
qed



subsection \<open>Where it falls short\<close>

text \<open>
  The consumer of several topics never reports an error or the end of a topic: what its topics
  fail with is dropped, with the topic's consumer, until a later refresh.
\<close>

theorem topic_failures_are_not_reported:
  "fst (mc_poll_next rounds now mc) \<noteq> Stream_item (Inl e)"
  "fst (mc_poll_next rounds now mc) \<noteq> Stream_ended"
  by (auto simp: mc_poll_next_def Let_def split: prod.splits option.splits)

text \<open>
  A consumer number is refused only for several topics found at first: with a topic and a regular
  expression every consumer added later subscribes under the same number.
\<close>

theorem regex_consumers_share_a_number:
  "\<exists>config. validate example_lookup (\<lambda>n. ''x'')
       ((with_topic ''a'' consumer_builder_new)\<lparr>cb_topic_regex := Some (\<lambda>t. True), cb_consumer_id := Some 7\<rparr>)
     = Inr (config, [(''a'', example_address)]) \<and> cc_consumer_id config = Some 7"
  by (simp add: validate_def with_topic_def consumer_builder_new_def unwrap_or_def example_lookup_def Let_def)

text \<open>A reader by regular expression alone passes validation and then panics.\<close>

theorem reader_of_a_regex_panics:
  "into_reader lookup random open_topic (consumer_builder_new\<lparr>cb_topic_regex := Some matches\<rparr>) = None"
  by (simp add: into_reader_def validate_def consumer_builder_new_def unwrap_or_def Let_def)

text \<open>A topic both asked for and matched is subscribed twice by one refresh.\<close>

theorem requested_and_matched_is_subscribed_twice:
  "rmap (map tc_topic) (new_consumers ((example_topics_env config)\<lparr>te_namespace := Inr [''a'']\<rparr>) [] [''a'']
     (Some (\<lambda>t. True))) = Inr [''a'', ''a'']"
  by (simp add: new_consumers_def example_topics_env_def example_lookup_def example_open_def)

text \<open>A seek rebuilds the topics of the start: those found since are dropped until a refresh.\<close>

theorem seek_forgets_topics_found_later:
  "rmap mc_existing (rebuild_multi (\<lambda>t. Inr example_address) example_open
     (add_consumers [example_consumer\<lparr>tc_topic := ''c''\<rparr>] example_multi)) = Inr [''a'', ''b'']"
  by (simp add: rebuild_multi_def add_consumers_def example_multi_def example_open_def by_topic_def
      less_char_def Let_def)

end
