(* ===== verification/Admin.thy ===== *)
theory Admin
  imports Options
begin

text \<open>
  The core of the admin client (\<open>admin/mod.rs\<close>, \<open>AdminError\<close> of \<open>error.rs\<close>): reading topic and
  namespace names, building URLs, sending requests with authentication and redirects, and
  reading answers. A string is the list of the bytes of its UTF-8 form. The HTTP client, the
  joining of URLs and the JSON reader are third-party crates: parameters, in the record of the
  environment or as arguments.
\<close>

section \<open>Strings\<close>

fun strip_prefix :: "string \<Rightarrow> string \<Rightarrow> string option" where
  "strip_prefix [] s = Some s"
| "strip_prefix (p # ps) (c # cs) = (if p = c then strip_prefix ps cs else None)"
| "strip_prefix (p # ps) [] = None"

fun split_once :: "char \<Rightarrow> string \<Rightarrow> (string \<times> string) option" where
  "split_once sep [] = None"
| "split_once sep (c # cs) =
     (if c = sep then Some ([], cs)
      else map_option (\<lambda>(a, b). (c # a, b)) (split_once sep cs))"

fun split_all :: "char \<Rightarrow> string \<Rightarrow> string list" where
  "split_all sep [] = [[]]"
| "split_all sep (c # cs) =
     (if c = sep then [] # split_all sep cs
      else case split_all sep cs of [] \<Rightarrow> [[c]] | p # ps \<Rightarrow> (c # p) # ps)"

fun splitn :: "nat \<Rightarrow> char \<Rightarrow> string \<Rightarrow> string list" where
  "splitn 0 sep s = []"
| "splitn (Suc 0) sep s = [s]"
| "splitn (Suc n) sep s =
     (case split_once sep s of None \<Rightarrow> [s] | Some (a, b) \<Rightarrow> a # splitn n sep b)"

lemma splitn_3: "splitn 3 sep s =
    (case split_once sep s of None \<Rightarrow> [s] | Some (a, b) \<Rightarrow>
       a # (case split_once sep b of None \<Rightarrow> [b] | Some (c, d) \<Rightarrow> [c, d]))"
  unfolding numeral_3_eq_3 by (simp split: option.split)

text \<open>The white space that \<open>str::trim\<close> drops, as UTF-8.\<close>

definition white_space :: "string list" where
  "white_space = map (map char_of)
     ([[9::nat], [10], [11], [12], [13], [32], [194, 133], [194, 160], [225, 154, 128],
       [226, 128, 168], [226, 128, 169], [226, 128, 175], [226, 129, 159], [227, 128, 128]]
      @ map (\<lambda>i. [226, 128, 128 + i]) [0..<11])"

fun drop_leading :: "string list \<Rightarrow> nat \<Rightarrow> string \<Rightarrow> string" where
  "drop_leading ws 0 s = s"
| "drop_leading ws (Suc n) s =
     (case find (\<lambda>w. strip_prefix w s \<noteq> None) ws of
        None \<Rightarrow> s
      | Some w \<Rightarrow> drop_leading ws n (drop (length w) s))"

definition trim :: "string \<Rightarrow> string" where
  "trim s =
     (let t = drop_leading white_space (length s) s
      in rev (drop_leading (map rev white_space) (length t) (rev t)))"

definition trim_end_slashes :: "string \<Rightarrow> string" where
  "trim_end_slashes s = rev (dropWhile (\<lambda>c. c = CHR ''/'') (rev s))"

text \<open>The first characters of a text: a continuation byte goes with the one before it.\<close>

fun take_chars :: "nat \<Rightarrow> string \<Rightarrow> string" where
  "take_chars n [] = []"
| "take_chars n (c # cs) =
     (if 128 \<le> (of_char c :: nat) \<and> (of_char c :: nat) < 192 then c # take_chars n cs
      else case n of 0 \<Rightarrow> [] | Suc m \<Rightarrow> c # take_chars m cs)"

text \<open>
  How \<open>{:?}\<close> prints a string: quoted, with control characters, quotes and backslashes escaped. Characters
  outside ASCII are left as they are; Rust escapes those that cannot be printed.
\<close>

definition debug_char :: "char \<Rightarrow> string" where
  "debug_char c =
     (let n = (of_char c :: nat); b = CHR 0x5C; hex = (\<lambda>k. ''0123456789abcdef'' ! k)
      in if c = CHR 0x22 \<or> c = b then [b, c]
         else if n = 0 then [b, CHR ''0'']
         else if n = 9 then [b, CHR ''t'']
         else if n = 10 then [b, CHR ''n'']
         else if n = 13 then [b, CHR ''r'']
         else if n < 16 then b # ''u{'' @ [hex n] @ ''}''
         else if n < 32 \<or> n = 127 then b # ''u{'' @ [hex (n div 16), hex (n mod 16)] @ ''}''
         else [c])"

definition debug_str :: "string \<Rightarrow> string" where
  "debug_str s = CHR 0x22 # concat (map debug_char s) @ [CHR 0x22]"

text \<open>Well-formed UTF-8, for \<open>String::from_utf8\<close>.\<close>

fun valid_utf8 :: "nat list \<Rightarrow> bool" where
  "valid_utf8 [] = True"
| "valid_utf8 (a # bs) =
     (if a < 128 then valid_utf8 bs
      else if 194 \<le> a \<and> a < 224 then
        (case bs of b # r \<Rightarrow> 128 \<le> b \<and> b < 192 \<and> valid_utf8 r | _ \<Rightarrow> False)
      else if 224 \<le> a \<and> a < 240 then
        (case bs of b # c # r \<Rightarrow>
           (if a = 224 then 160 else 128) \<le> b \<and> b < (if a = 237 then 160 else 192)
           \<and> 128 \<le> c \<and> c < 192 \<and> valid_utf8 r | _ \<Rightarrow> False)
      else if 240 \<le> a \<and> a < 245 then
        (case bs of b # c # d # r \<Rightarrow>
           (if a = 240 then 144 else 128) \<le> b \<and> b < (if a = 244 then 144 else 192)
           \<and> 128 \<le> c \<and> c < 192 \<and> 128 \<le> d \<and> d < 192 \<and> valid_utf8 r | _ \<Rightarrow> False)
      else False)"

definition from_utf8 :: "byte list \<Rightarrow> string option" where
  "from_utf8 bs = (if valid_utf8 (map unat bs) then Some (from_bytes bs) else None)"

section \<open>Names and paths\<close>

definition invalid_topic :: "string \<Rightarrow> error" where
  "invalid_topic topic = Admin (InvalidTopic
     (''expected tenant/namespace/topic or a fully-qualified topic URL, got: '' @ topic))"

definition parse_topic :: "string \<Rightarrow> (error, string \<times> string \<times> string \<times> string) result" where
  "parse_topic topic =
     (let (scheme, rest) =
        (case strip_prefix ''persistent://'' topic of
           Some rest \<Rightarrow> (''persistent'', rest)
         | None \<Rightarrow>
             (case strip_prefix ''non-persistent://'' topic of
                Some rest \<Rightarrow> (''non-persistent'', rest)
              | None \<Rightarrow> (''persistent'', topic)))
      in case splitn 3 (CHR ''/'') rest of
           [tenant, ns, name] \<Rightarrow>
             (if tenant \<noteq> [] \<and> ns \<noteq> [] \<and> name \<noteq> [] then Inr (scheme, tenant, ns, name)
              else Inl (invalid_topic topic))
         | _ \<Rightarrow> Inl (invalid_topic topic))"

text \<open>Percent-encoding: every byte outside the unreserved set as \<open>%\<close> and two hex digits.\<close>

definition unreserved :: "char \<Rightarrow> bool" where
  "unreserved c \<longleftrightarrow>
     (let n = (of_char c :: nat)
      in 65 \<le> n \<and> n \<le> 90 \<or> 97 \<le> n \<and> n \<le> 122 \<or> 48 \<le> n \<and> n \<le> 57
         \<or> c \<in> set ''-._~'')"

definition hex_digit :: "nat \<Rightarrow> char" where
  "hex_digit n = ''0123456789ABCDEF'' ! n"

definition encode_byte :: "char \<Rightarrow> string" where
  "encode_byte c =
     (if unreserved c then [c]
      else [CHR ''%'', hex_digit (of_char c div 16), hex_digit (of_char c mod 16)])"

definition encode_segment :: "string \<Rightarrow> string" where
  "encode_segment name = concat (map encode_byte name)"

definition parse_topic_path :: "string \<Rightarrow> (error, string list) result" where
  "parse_topic_path topic =
     rmap (\<lambda>(scheme, tenant, ns, name).
       [scheme, encode_segment tenant, encode_segment ns, encode_segment name]) (parse_topic topic)"

definition split_namespace :: "string \<Rightarrow> (error, string \<times> string) result" where
  "split_namespace namespace =
     (let invalid = Inl (Admin (InvalidTopic (''expected tenant/namespace, got: '' @ namespace)))
      in case split_once (CHR ''/'') namespace of
           None \<Rightarrow> invalid
         | Some (tenant, ns) \<Rightarrow>
             (if tenant = [] \<or> ns = [] \<or> CHR ''/'' \<in> set ns then invalid else Inr (tenant, ns)))"

section \<open>The client and its URLs\<close>

record admin_client =
  ac_url :: string
  ac_auth :: "string option"

text \<open>Setting up the HTTP client, which parses the certificates, is the crate's: \<open>built\<close>.\<close>

definition admin_with_options :: "string \<Rightarrow> (error, unit) result \<Rightarrow> string option \<Rightarrow>
    (error, admin_client) result" where
  "admin_with_options admin_url built auth =
     rmap (\<lambda>_. \<lparr>ac_url = trim_end_slashes admin_url, ac_auth = auth\<rparr>) built"

definition admin_path :: "string list \<Rightarrow> string" where
  "admin_path segments = concat (map (\<lambda>s. CHR ''/'' # s) segments)"

definition admin_url :: "admin_client \<Rightarrow> string list \<Rightarrow> string" where
  "admin_url cl segments = ac_url cl @ ''/admin/v2'' @ admin_path segments"

definition topic_policy_url :: "admin_client \<Rightarrow> string \<Rightarrow> string \<Rightarrow> (error, string) result" where
  "topic_policy_url cl topic policy =
     rmap (\<lambda>(scheme, tenant, ns, name).
       ac_url cl @ ''/admin/v2'' @ admin_path [scheme, tenant, ns, name, policy]) (parse_topic topic)"

definition schema_url :: "admin_client \<Rightarrow> string \<Rightarrow> u64 option \<Rightarrow> (error, string) result" where
  "schema_url cl topic version =
     rmap (\<lambda>(_, tenant, ns, name).
       ac_url cl @ ''/admin/v2/schemas'' @ admin_path [tenant, ns, encode_segment name, ''schema'']
         @ (case version of Some v \<Rightarrow> CHR ''/'' # show_nat (unat v) | None \<Rightarrow> [])) (parse_topic topic)"

section \<open>Requests\<close>

datatype http_method = GET | POST | PUT | DELETE | PATCH

text \<open>A JSON value. A number is an integer or the bits of a double; an object is the list of its entries.\<close>

datatype json = JNull | JBool bool | JNum int | JFlt "64 word" | JStr string | JArr "json list"
  | JObj "(string \<times> json) list"

text \<open>A form: JSON parts, text parts, and at most one file with its name and content.\<close>

datatype http_body = No_body | Json_body json | Raw_body string
  | Form_body "(string \<times> string) list" "(string \<times> string) list" "(string \<times> string \<times> byte list) option"

datatype http_auth = Bearer string | Basic_auth string "string option"

record http_request =
  rq_method :: http_method
  rq_url :: string
  rq_query :: "(string \<times> string) list"
  rq_body :: http_body
  rq_auth :: "http_auth option"

text \<open>A header has no value when it is not text; the body is read as text or as bytes.\<close>

record http_response =
  rs_status :: nat
  rs_headers :: "(string \<times> string option) list"
  rs_text :: "(request_error, string) result"
  rs_bytes :: "(request_error, byte list) result"

text \<open>
  What the environment does: the credentials the authentication gives for the n-th request, what
  sending the n-th request comes to, how a URL and a location join, what the JSON reader
  makes of an error report, of a JSON string and of an object of strings, and the text of an
  encoding error.
\<close>

record http_env =
  he_auth_data :: "nat \<Rightarrow> (authentication_error, byte list) result"
  he_send :: "nat \<Rightarrow> http_request \<Rightarrow> (error, http_response) result"
  he_join :: "string \<Rightarrow> string \<Rightarrow> (string, string) result"
  he_reason :: "string \<Rightarrow> string option"
  he_json_string :: "string \<Rightarrow> string option"
  he_json_map :: "string \<Rightarrow> (string \<rightharpoonup> string) option"
  he_utf8_error :: "byte list \<Rightarrow> string"

record hop =
  hop_url :: string
  hop_keep_body :: bool
  hop_apply_query :: bool

definition unsupported_auth :: "string \<Rightarrow> error" where
  "unsupported_auth auth_method = Admin (NotSupported_adm
     (''the admin client cannot send '' @ debug_str auth_method @
      '' authentication over HTTP; only '' @ CHR 0x22 # ''token'' @ CHR 0x22 # '' and '' @
      CHR 0x22 # ''basic'' @ CHR 0x22 # '' are mapped''))"

definition apply_auth :: "admin_client \<Rightarrow> http_env \<Rightarrow> nat \<Rightarrow> http_request \<Rightarrow> (error, http_request) result" where
  "apply_auth cl env n req =
     (case ac_auth cl of
        None \<Rightarrow> Inr req
      | Some auth_method \<Rightarrow>
          rbind (map_err Authentication (he_auth_data env n)) (\<lambda>bytes.
            case from_utf8 bytes of
              None \<Rightarrow> Inl (Custom (''auth data is not valid UTF-8: '' @ he_utf8_error env bytes))
            | Some text1 \<Rightarrow>
                (if auth_method = ''token'' then Inr (req\<lparr>rq_auth := Some (Bearer text1)\<rparr>)
                 else if auth_method = ''basic'' then
                   Inr (req\<lparr>rq_auth := Some (case split_once (CHR '':'') text1 of
                          Some (user, pass) \<Rightarrow> Basic_auth user (Some pass)
                        | None \<Rightarrow> Basic_auth text1 None)\<rparr>)
                 else Inl (unsupported_auth auth_method))))"

text \<open>Whether a status is a redirect and, if so, whether it keeps the method and the body.\<close>

definition redirect_keeps :: "nat \<Rightarrow> bool option" where
  "redirect_keeps status =
     (if status = 307 \<or> status = 308 then Some True
      else if 301 \<le> status \<and> status \<le> 303 then Some False
      else None)"

definition location_of :: "http_response \<Rightarrow> string option" where
  "location_of resp =
     (case map_of (rs_headers resp) ''location'' of Some (Some v) \<Rightarrow> Some v | _ \<Rightarrow> None)"

definition max_redirects :: nat where
  "max_redirects = 10"

text \<open>
  The loop, with the requests it may still send; the second component lists the requests sent.
  \<open>request_for\<close> builds the request of a hop.
\<close>

fun redirect_loop :: "admin_client \<Rightarrow> http_env \<Rightarrow> string \<Rightarrow> (hop \<Rightarrow> (error, http_request) result) \<Rightarrow>
    nat \<Rightarrow> nat \<Rightarrow> hop \<Rightarrow> (error, http_response) result \<times> http_request list" where
  "redirect_loop cl env url request_for 0 n hop =
     (Inl (Admin (Decode (''gave up after 10 redirects starting from '' @ url))), [])"
| "redirect_loop cl env url request_for (Suc k) n hop =
     (case rbind (request_for hop) (apply_auth cl env n) of
        Inl e \<Rightarrow> (Inl e, [])
      | Inr req \<Rightarrow>
          (case he_send env n req of
             Inl e \<Rightarrow> (Inl e, [req])
           | Inr resp \<Rightarrow>
               (case (redirect_keeps (rs_status resp), location_of resp) of
                  (Some keep, Some location) \<Rightarrow>
                    (case he_join env (hop_url hop) location of
                       Inl e \<Rightarrow>
                         (Inl (Admin (Decode (''broker redirected to an unusable location '' @ debug_str location
                            @ '': '' @ e))), [req])
                     | Inr target \<Rightarrow>
                         (case redirect_loop cl env url request_for k (Suc n)
                                 \<lparr>hop_url = target, hop_keep_body = keep, hop_apply_query = False\<rparr> of
                            (r, reqs) \<Rightarrow> (r, req # reqs)))
                | _ \<Rightarrow> (Inr resp, [req]))))"

definition send_with_redirects :: "admin_client \<Rightarrow> http_env \<Rightarrow> string \<Rightarrow>
    (hop \<Rightarrow> (error, http_request) result) \<Rightarrow> (error, http_response) result \<times> http_request list" where
  "send_with_redirects cl env url request_for =
     redirect_loop cl env url request_for (Suc max_redirects) 0
       \<lparr>hop_url = url, hop_keep_body = True, hop_apply_query = True\<rparr>"

text \<open>
  The request of a hop: as the caller described it, or a GET without a body after a redirect
  that drops it; the query goes with the first request only.
\<close>

definition hop_request :: "http_method \<Rightarrow> (string \<times> string) list \<Rightarrow> http_body \<Rightarrow> hop \<Rightarrow>
    (error, http_request) result" where
  "hop_request method query body hop =
     Inr \<lparr>rq_method = (if hop_keep_body hop then method else GET), rq_url = hop_url hop,
          rq_query = (if hop_apply_query hop then query else []),
          rq_body = (if hop_keep_body hop then body else No_body), rq_auth = None\<rparr>"

definition http_send :: "admin_client \<Rightarrow> http_env \<Rightarrow> http_method \<Rightarrow> string \<Rightarrow> (string \<times> string) list \<Rightarrow>
    http_body \<Rightarrow> (error, http_response) result \<times> http_request list" where
  "http_send cl env method url query body =
     send_with_redirects cl env url (hop_request method query body)"

section \<open>Answers\<close>

definition error_reason :: "http_env \<Rightarrow> string \<Rightarrow> string" where
  "error_reason env body =
     (case he_reason env body of
        Some r \<Rightarrow> if r \<noteq> [] then r
                  else if trim body = [] then ''<no message>'' else trim body
      | None \<Rightarrow> if trim body = [] then ''<no message>'' else trim body)"

definition error_from_status :: "http_env \<Rightarrow> nat \<Rightarrow> string \<Rightarrow> admin_error" where
  "error_from_status env status body =
     (let reason = error_reason env body
      in if status = 400 \<or> status = 422 then BadRequest reason
         else if status = 401 \<or> status = 403 then NotAuthorized reason
         else if status = 404 then NotFound_adm reason
         else if status = 405 then NotAllowed reason
         else if status = 409 then Conflict reason
         else if status = 412 then PreconditionFailed reason
         else if status = 501 then NotSupported_adm reason
         else if status = 503 then ServerUnavailable reason
         else Http status body)"

fun admin_is_retriable :: "admin_error \<Rightarrow> bool" where
  "admin_is_retriable (ServerUnavailable m) = True"
| "admin_is_retriable (Request_adm e) = (is_timeout e \<or> is_connect e)"
| "admin_is_retriable (Http status body) = (500 \<le> status)"
| "admin_is_retriable _ = False"

definition is_success :: "nat \<Rightarrow> bool" where
  "is_success status \<longleftrightarrow> 200 \<le> status \<and> status < 300"

definition require_success :: "http_env \<Rightarrow> http_response \<Rightarrow> (error, http_response) result" where
  "require_success env resp =
     (if is_success (rs_status resp) then Inr resp
      else Inl (Admin (error_from_status env (rs_status resp)
             (case rs_text resp of Inr body \<Rightarrow> body | Inl e \<Rightarrow> []))))"

definition check_response :: "http_env \<Rightarrow> http_response \<Rightarrow> (error, unit) result" where
  "check_response env resp = rmap (\<lambda>_. ()) (require_success env resp)"

definition body_text :: "http_response \<Rightarrow> (error, string) result" where
  "body_text resp = map_err (\<lambda>e. Admin (Request_adm e)) (rs_text resp)"

text \<open>Reading a value: \<open>parse\<close> is the JSON reader at the type read.\<close>

definition decode_body :: "(string \<Rightarrow> (string, 'a) result) \<Rightarrow> string \<Rightarrow> (error, 'a) result" where
  "decode_body parse body =
     map_err (\<lambda>e. Admin (Decode (e @ ''; body was: '' @ take_chars 512 body)))
       (parse (if trim body = [] then ''null'' else body))"

definition send_empty where
  "send_empty cl env method url query body =
     (case http_send cl env method url query body of
        (r, reqs) \<Rightarrow> (rbind r (check_response env), reqs))"

definition send_raw_text where
  "send_raw_text cl env method url query body =
     (case http_send cl env method url query (Raw_body body) of
        (r, reqs) \<Rightarrow> (rbind r (check_response env), reqs))"

definition send_json where
  "send_json parse cl env method url query body =
     (case http_send cl env method url query body of
        (r, reqs) \<Rightarrow>
          (rbind r (\<lambda>resp. rbind (require_success env resp) (\<lambda>resp.
             rbind (body_text resp) (decode_body parse))), reqs))"

definition send_json_absent_on_404 where
  "send_json_absent_on_404 parse cl env method url query body =
     (case http_send cl env method url query body of
        (r, reqs) \<Rightarrow>
          (rbind r (\<lambda>resp.
             if rs_status resp = 404 then Inr None
             else rbind (require_success env resp) (\<lambda>resp.
               rbind (body_text resp) (decode_body parse))), reqs))"

definition send_json_opt where
  "send_json_opt parse cl env method url query body =
     (case http_send cl env method url query body of
        (r, reqs) \<Rightarrow>
          (rbind r (\<lambda>resp. rbind (require_success env resp) (\<lambda>resp.
             rbind (body_text resp) (\<lambda>body.
               if trim body = [] then Inr None else rmap Some (decode_body parse body)))), reqs))"

definition send_text where
  "send_text cl env method url query =
     (case http_send cl env method url query No_body of
        (r, reqs) \<Rightarrow>
          (rbind r (\<lambda>resp. rbind (require_success env resp) (\<lambda>resp.
             rmap (\<lambda>body. case he_json_string env (trim body) of
                            Some decoded \<Rightarrow> decoded | None \<Rightarrow> trim body) (body_text resp))), reqs))"

definition send_bytes where
  "send_bytes cl env method url query =
     (case http_send cl env method url query No_body of
        (r, reqs) \<Rightarrow>
          (rbind r (\<lambda>resp. rbind (require_success env resp) (\<lambda>resp.
             map_err (\<lambda>e. Admin (Request_adm e)) (rs_bytes resp))), reqs))"

definition send_multipart_response where
  "send_multipart_response cl env method url query json_parts text_parts file_part =
     (case http_send cl env method url query (Form_body json_parts text_parts file_part) of
        (r, reqs) \<Rightarrow> (rbind r (require_success env), reqs))"

definition send_multipart_text where
  "send_multipart_text cl env method url query json_parts text_parts file_part =
     (case send_multipart_response cl env method url query json_parts text_parts file_part of
        (r, reqs) \<Rightarrow> (rbind r (\<lambda>resp. rmap trim (body_text resp)), reqs))"

definition send_multipart where
  "send_multipart cl env method url query json_parts text_parts file_part =
     (case send_multipart_response cl env method url query json_parts text_parts file_part of
        (r, reqs) \<Rightarrow> (rmap (\<lambda>_. ()) r, reqs))"

text \<open>A message read through the admin API: the payload is the body, the rest are headers.\<close>

record peeked_message =
  pk_message_id :: "string option"
  pk_publish_time :: "string option"
  pk_event_time :: "string option"
  pk_producer_name :: "string option"
  pk_partition_key :: "string option"
  pk_properties :: "string \<rightharpoonup> string"
  pk_num_messages_in_batch :: "i32 option"
  pk_null_value :: bool
  pk_payload :: "byte list"

definition peeked_message_default :: peeked_message where
  "peeked_message_default =
     \<lparr>pk_message_id = None, pk_publish_time = None, pk_event_time = None, pk_producer_name = None,
      pk_partition_key = None, pk_properties = Map.empty, pk_num_messages_in_batch = None,
      pk_null_value = False, pk_payload = []\<rparr>"

definition parse_i32 :: "string \<Rightarrow> i32 option" where
  "parse_i32 s =
     (let (sign, ds) = (case s of
          CHR ''-'' # r \<Rightarrow> (-1, r) | CHR ''+'' # r \<Rightarrow> (1, r) | _ \<Rightarrow> (1, s));
          n = sign * int (digits_value ds)
      in if ds \<noteq> [] \<and> list_all is_ascii_digit ds \<and> - (2 ^ 31) \<le> n \<and> n < 2 ^ 31
         then Some n else None)"

definition to_ascii_lowercase :: "string \<Rightarrow> string" where
  "to_ascii_lowercase s =
     map (\<lambda>c. let n = (of_char c :: nat) in if 65 \<le> n \<and> n \<le> 90 then char_of (n + 32) else c) s"

definition to_ascii_uppercase :: "string \<Rightarrow> string" where
  "to_ascii_uppercase s =
     map (\<lambda>c. let n = (of_char c :: nat) in if 97 \<le> n \<and> n \<le> 122 then char_of (n - 32) else c) s"

definition read_header :: "http_env \<Rightarrow> string \<times> string option \<Rightarrow> peeked_message \<Rightarrow> peeked_message" where
  "read_header env header m =
     (case header of
        (_, None) \<Rightarrow> m
      | (name, Some v) \<Rightarrow>
          (let name = to_ascii_lowercase name
           in if name = ''x-pulsar-message-id'' then m\<lparr>pk_message_id := Some v\<rparr>
              else if name = ''x-pulsar-publish-time'' then m\<lparr>pk_publish_time := Some v\<rparr>
              else if name = ''x-pulsar-event-time'' then m\<lparr>pk_event_time := Some v\<rparr>
              else if name = ''x-pulsar-producer-name'' then m\<lparr>pk_producer_name := Some v\<rparr>
              else if name = ''x-pulsar-partition-key'' then m\<lparr>pk_partition_key := Some v\<rparr>
              else if name = ''x-pulsar-property'' then
                (case he_json_map env v of
                   Some kvs \<Rightarrow> m\<lparr>pk_properties := pk_properties m ++ kvs\<rparr>
                 | None \<Rightarrow> m)
              else if name = ''x-pulsar-num-batch-message'' then
                m\<lparr>pk_num_messages_in_batch := parse_i32 v\<rparr>
              else if name = ''x-pulsar-null-value'' then m\<lparr>pk_null_value := (v = ''true'')\<rparr>
              else m))"

definition send_peek where
  "send_peek cl env method url query =
     (case http_send cl env method url query No_body of
        (r, reqs) \<Rightarrow>
          (rbind r (\<lambda>resp. rbind (require_success env resp) (\<lambda>resp.
             rmap (\<lambda>bytes. (fold (read_header env) (rs_headers resp) peeked_message_default)
                             \<lparr>pk_payload := bytes\<rparr>)
               (map_err (\<lambda>e. Admin (Request_adm e)) (rs_bytes resp)))), reqs))"

section \<open>Schemas\<close>

definition schema_type_from_admin :: "string \<Rightarrow> (error, i32) result" where
  "schema_type_from_admin schema_type =
     (case map_of
        [(''NONE'', 0), (''STRING'', 1), (''JSON'', 2), (''PROTOBUF'', 3), (''AVRO'', 4), (''BOOL'', 5),
         (''BOOLEAN'', 5), (''INT8'', 6), (''INT16'', 7), (''INT32'', 8), (''INT64'', 9),
         (''FLOAT'', 10), (''DOUBLE'', 11), (''DATE'', 12), (''TIME'', 13), (''TIMESTAMP'', 14),
         (''KEYVALUE'', 15), (''KEY_VALUE'', 15), (''INSTANT'', 16), (''LOCALDATE'', 17),
         (''LOCAL_DATE'', 17), (''LOCALTIME'', 18), (''LOCAL_TIME'', 18), (''LOCALDATETIME'', 19),
         (''LOCAL_DATE_TIME'', 19), (''PROTOBUFNATIVE'', 20), (''PROTOBUF_NATIVE'', 20)]
        (to_ascii_uppercase schema_type) of
        Some ty \<Rightarrow> Inr ty
      | None \<Rightarrow> Inl (Admin (InvalidSchemaType schema_type)))"

text \<open>The JSON writer and reader are parameters.\<close>

definition key_value_schema_part_bytes :: "(json \<Rightarrow> byte list) \<Rightarrow> json \<Rightarrow> byte list" where
  "key_value_schema_part_bytes to_vec v = (if v = JStr [] then [] else to_vec v)"

definition append_key_value_schema_part :: "byte list \<Rightarrow> byte list \<Rightarrow> (error, byte list) result" where
  "append_key_value_schema_part schema_data part =
     (if 2 ^ 32 \<le> length part
      then Inl (Admin (SchemaDecode ''KEY_VALUE schema part is too large to encode''))
      else Inr (schema_data @ be32 (u32_of_usize (length part)) @ part))"

definition key_value_schema_data_from_admin :: "(string \<Rightarrow> (string, json) result) \<Rightarrow> (json \<Rightarrow> byte list) \<Rightarrow>
    string \<Rightarrow> (error, byte list) result" where
  "key_value_schema_data_from_admin from_str to_vec data =
     rbind (map_err (\<lambda>e. Admin (SchemaDecode e)) (from_str data)) (\<lambda>v.
       case v of
         JObj kvs \<Rightarrow>
           (case map_of kvs ''key'' of
              None \<Rightarrow> Inl (Admin (SchemaDecode ''KEY_VALUE schema data missing key''))
            | Some k \<Rightarrow>
                (case map_of kvs ''value'' of
                   None \<Rightarrow> Inl (Admin (SchemaDecode ''KEY_VALUE schema data missing value''))
                 | Some w \<Rightarrow>
                     rbind (append_key_value_schema_part [] (key_value_schema_part_bytes to_vec k)) (\<lambda>d.
                       append_key_value_schema_part d (key_value_schema_part_bytes to_vec w))))
       | _ \<Rightarrow> Inl (Admin (SchemaDecode ''KEY_VALUE schema data must be a JSON object'')))"

text \<open>\<open>parse\<close> reads the fields of a schema response: type, data and properties.\<close>

definition parse_schema_response where
  "parse_schema_response parse from_str to_vec body =
     rbind (map_err (\<lambda>e. Admin (SchemaDecode e)) (parse body)) (\<lambda>(type_name, data, properties).
     rbind (schema_type_from_admin type_name) (\<lambda>ty.
     rmap (\<lambda>schema_data. \<lparr>sch_name = [], sch_schema_data = schema_data, sch_type = ty,
             sch_properties = map (\<lambda>(k, v). \<lparr>kv_key = k, kv_value = v\<rparr>) properties\<rparr>)
       (if ty = 15 then key_value_schema_data_from_admin from_str to_vec data
        else Inr (as_bytes data))))"

definition get_schema_with_version where
  "get_schema_with_version parse from_str to_vec cl env topic version =
     (case schema_url cl topic version of
        Inl e \<Rightarrow> (Inl e, [])
      | Inr url \<Rightarrow>
          (case send_with_redirects cl env url (\<lambda>hop.
                  Inr \<lparr>rq_method = GET, rq_url = hop_url hop, rq_query = [], rq_body = No_body,
                       rq_auth = None\<rparr>) of
             (r, reqs) \<Rightarrow>
               (rbind r (\<lambda>resp.
                  if rs_status resp = 404 then Inr None
                  else rbind (require_success env resp) (\<lambda>resp.
                    rbind (body_text resp) (\<lambda>body.
                      rmap Some (parse_schema_response parse from_str to_vec body)))), reqs)))"

definition set_max_unacked_messages_on_consumer where
  "set_max_unacked_messages_on_consumer cl env topic (max_unacked :: u32) =
     (case topic_policy_url cl topic ''maxUnackedMessagesOnConsumer'' of
        Inl e \<Rightarrow> (Inl e, [])
      | Inr url \<Rightarrow> send_raw_text cl env POST url [] (show_nat (unat max_unacked)))"

definition remove_max_unacked_messages_on_consumer where
  "remove_max_unacked_messages_on_consumer cl env topic =
     (case topic_policy_url cl topic ''maxUnackedMessagesOnConsumer'' of
        Inl e \<Rightarrow> (Inl e, [])
      | Inr url \<Rightarrow> send_empty cl env DELETE url [] No_body)"

section \<open>Properties\<close>

subsection \<open>One name, one path segment\<close>

text \<open>What a server does: decode each segment.\<close>

definition hex_value :: "char \<Rightarrow> nat" where
  "hex_value c = (if of_char c < (58 :: nat) then of_char c - 48 else of_char c - 55)"

fun percent_decode :: "string \<Rightarrow> string" where
  "percent_decode (c # a # b # cs) =
     (if c = CHR ''%'' then char_of (16 * hex_value a + hex_value b) # percent_decode cs
      else c # percent_decode (a # b # cs))"
| "percent_decode cs = cs"

definition url_safe :: "char \<Rightarrow> bool" where
  "url_safe c \<longleftrightarrow> unreserved c \<or> c = CHR ''%''"

lemma sixteen: "n < 16 \<Longrightarrow> n \<in> set [0..<16 :: nat]" by simp

lemma hex_value_digit: "n < 16 \<Longrightarrow> hex_value (hex_digit n) = n"
proof -
  have "list_all (\<lambda>n. hex_value (hex_digit n) = n) [0..<16]" by code_simp
  then show "n < 16 \<Longrightarrow> hex_value (hex_digit n) = n" using sixteen by (auto simp only: list_all_iff)
qed

lemma unreserved_hex_digit: "n < 16 \<Longrightarrow> unreserved (hex_digit n)"
proof -
  have "list_all (\<lambda>n. unreserved (hex_digit n)) [0..<16]" by code_simp
  then show "n < 16 \<Longrightarrow> unreserved (hex_digit n)" using sixteen by (auto simp only: list_all_iff)
qed

lemma not_unreserved: "\<not> unreserved (CHR ''/'')" "\<not> unreserved (CHR ''%'')"
  "\<not> unreserved (CHR ''?'')" "\<not> unreserved (CHR ''#'')"
  by code_simp+

lemma nibbles: "(of_char (c :: char) :: nat) div 16 < 16"
  by (simp add: less_mult_imp_div_less)

lemma percent_decode_plain: "c \<noteq> CHR ''%'' \<Longrightarrow> percent_decode (c # cs) = c # percent_decode cs"
proof (cases cs)
  case (Cons a r)
  then show "c \<noteq> CHR ''%'' \<Longrightarrow> ?thesis" by (cases r) auto
qed simp

lemma percent_decode_encode_byte: "percent_decode (encode_byte c @ cs) = c # percent_decode cs"
proof (cases "unreserved c")
  case True
  then have "c \<noteq> CHR ''%''" using not_unreserved by auto
  with True show ?thesis by (simp add: encode_byte_def percent_decode_plain)
next
  case False
  then show ?thesis
    by (simp add: encode_byte_def hex_value_digit nibbles)
qed

lemma percent_decode_encode: "percent_decode (encode_segment s) = s"
  by (induction s) (simp_all add: encode_segment_def percent_decode_encode_byte)

lemma encode_segment_safe: "list_all url_safe (encode_segment s)"
  by (induction s)
     (auto simp: encode_segment_def encode_byte_def url_safe_def unreserved_hex_digit nibbles)

lemma url_safe_no_slash: "list_all url_safe s \<Longrightarrow> CHR ''/'' \<notin> set s"
  using not_unreserved by (auto simp: list_all_iff url_safe_def)

lemma split_all_no_sep: "sep \<notin> set s \<Longrightarrow> split_all sep (s @ sep # t) = s # split_all sep t"
  by (induction s) auto

lemma split_all_single: "sep \<notin> set s \<Longrightarrow> split_all sep s = [s]"
  by (induction s) auto

lemma split_admin_path:
  "list_all (\<lambda>s. CHR ''/'' \<notin> set s) segs \<Longrightarrow> split_all (CHR ''/'') (admin_path segs) = [] # segs"
proof (induction segs)
  case (Cons s segs)
  show ?case
  proof (cases segs)
    case Nil
    with Cons show ?thesis by (simp add: admin_path_def split_all_single)
  next
    case (Cons s' segs')
    then have "admin_path segs = CHR ''/'' # s' @ admin_path segs'" by (simp add: admin_path_def)
    with Cons.IH Cons.prems Cons have "split_all (CHR ''/'') (s' @ admin_path segs') = segs" by simp
    with Cons Cons.prems show ?thesis
      by (simp add: admin_path_def split_all_no_sep)
  qed
qed (simp add: admin_path_def)

lemma encoded_path:
  "split_all (CHR ''/'') (admin_path (map encode_segment names)) = [] # map encode_segment names"
proof (rule split_admin_path)
  have "CHR ''/'' \<notin> set (encode_segment s)" for s
    by (rule url_safe_no_slash [OF encode_segment_safe])
  then show "list_all (\<lambda>s. CHR ''/'' \<notin> set s) (map encode_segment names)" by (simp add: list_all_iff)
qed

lemma scheme_encodes: "encode_segment ''persistent'' = ''persistent''"
  "encode_segment ''non-persistent'' = ''non-persistent''"
  by code_simp+

lemma parse_topic_scheme:
  "parse_topic topic = Inr (scheme, tenant, ns, name) \<Longrightarrow> scheme = ''persistent'' \<or> scheme = ''non-persistent''"
  by (auto simp: parse_topic_def Let_def split: option.splits list.splits if_splits)

text \<open>
  A name is one path segment of the admin API. Whatever bytes the tenant, namespace and topic
  hold, slashes and percent signs included, a server that splits the path at its slashes and
  decodes the segments gets exactly the domain, tenant, namespace and topic, and no character
  of the path starts a query or a fragment.
\<close>

theorem topic_paths_cannot_be_injected:
  assumes "parse_topic topic = Inr (scheme, tenant, ns, name)"
  shows "\<exists>segs. parse_topic_path topic = Inr segs
    \<and> split_all (CHR ''/'') (admin_path segs) = [] # segs
    \<and> map percent_decode segs = [scheme, tenant, ns, name]
    \<and> list_all (list_all url_safe) segs"
proof -
  let ?names = "[scheme, tenant, ns, name]"
  have "parse_topic_path topic = Inr (map encode_segment ?names)"
    using assms parse_topic_scheme [OF assms] by (auto simp: parse_topic_path_def scheme_encodes)
  then show ?thesis
    using encoded_path [of ?names]
    by (intro exI [of _ "map encode_segment ?names"])
       (simp add: percent_decode_encode encode_segment_safe)
qed

theorem topic_paths_cannot_be_injected_witness:
  "\<exists>segs. parse_topic_path ''non-persistent://a%2Fb/n s/x/y?z#'' = Inr segs
    \<and> map percent_decode segs = [''non-persistent'', ''a%2Fb'', ''n s'', ''x/y?z#'']
    \<and> list_all (list_all url_safe) segs"
proof -
  have "parse_topic ''non-persistent://a%2Fb/n s/x/y?z#'' = Inr (''non-persistent'', ''a%2Fb'', ''n s'', ''x/y?z#'')"
    by (simp add: parse_topic_def splitn_3)
  from topic_paths_cannot_be_injected [OF this] show ?thesis by (elim exE conjE) (intro exI conjI)
qed

subsection \<open>Redirects\<close>

text \<open>
  What a list of requests has to be: each carries credentials exactly when the client has an
  authentication, and each but the first goes where the answer to the one before it pointed,
  without a query, as the caller's request after a 307 or 308 and as a GET without a body
  after a 301, 302 or 303. \<open>n\<close> is the number of the first.
\<close>

fun hops_ok :: "admin_client \<Rightarrow> http_env \<Rightarrow> http_method \<Rightarrow> http_body \<Rightarrow> nat \<Rightarrow> http_request list \<Rightarrow> bool" where
  "hops_ok cl env method body n (rq # rq' # rqs) =
     ((rq_auth rq = None) = (ac_auth cl = None)
      \<and> (case he_send env n rq of
           Inl e \<Rightarrow> False
         | Inr resp \<Rightarrow>
             (case (redirect_keeps (rs_status resp), location_of resp) of
                (Some keep, Some location) \<Rightarrow>
                  he_join env (rq_url rq) location = Inr (rq_url rq') \<and> rq_query rq' = []
                  \<and> rq_method rq' = (if keep then method else GET)
                  \<and> rq_body rq' = (if keep then body else No_body)
              | _ \<Rightarrow> False))
      \<and> hops_ok cl env method body (Suc n) (rq' # rqs))"
| "hops_ok cl env method body n [rq] = ((rq_auth rq = None) = (ac_auth cl = None))"
| "hops_ok cl env method body n [] = True"

lemma apply_auth_cases:
  assumes "apply_auth cl env n rq0 = Inr rq"
  shows "(ac_auth cl = None \<and> rq = rq0) \<or> (ac_auth cl \<noteq> None \<and> (\<exists>a. rq = rq0\<lparr>rq_auth := Some a\<rparr>))"
proof (cases "ac_auth cl")
  case (Some auth_method)
  with assms obtain bytes where
    rest: "(case from_utf8 bytes of
              None \<Rightarrow> Inl (Custom (''auth data is not valid UTF-8: '' @ he_utf8_error env bytes))
            | Some text1 \<Rightarrow>
                (if auth_method = ''token'' then Inr (rq0\<lparr>rq_auth := Some (Bearer text1)\<rparr>)
                 else if auth_method = ''basic'' then
                   Inr (rq0\<lparr>rq_auth := Some (case split_once (CHR '':'') text1 of
                          Some (user, pass) \<Rightarrow> Basic_auth user (Some pass)
                        | None \<Rightarrow> Basic_auth text1 None)\<rparr>)
                 else Inl (unsupported_auth auth_method))) = Inr rq"
    by (auto simp: apply_auth_def rbind_Inr_iff)
  then obtain text1 where "from_utf8 bytes = Some text1" by (cases "from_utf8 bytes") auto
  with rest Some show ?thesis
    by (cases "auth_method = ''token''"; cases "auth_method = ''basic''") auto
qed (use assms in \<open>simp add: apply_auth_def\<close>)

lemma apply_auth_Inr:
  "apply_auth cl env n rq0 = Inr rq \<Longrightarrow> rq_auth rq0 = None \<Longrightarrow>
     ((rq_auth rq = None) = (ac_auth cl = None)) \<and> rq_url rq = rq_url rq0
     \<and> rq_method rq = rq_method rq0 \<and> rq_query rq = rq_query rq0 \<and> rq_body rq = rq_body rq0"
  by (drule apply_auth_cases) auto

lemma redirect_loop_hops:
  assumes "redirect_loop cl env url (hop_request method query body) k n hop = (r, reqs)"
  shows "length reqs \<le> k \<and> hops_ok cl env method body n reqs
    \<and> (case reqs of [] \<Rightarrow> True | rq # _ \<Rightarrow>
         rq_url rq = hop_url hop \<and> rq_query rq = (if hop_apply_query hop then query else [])
         \<and> rq_method rq = (if hop_keep_body hop then method else GET)
         \<and> rq_body rq = (if hop_keep_body hop then body else No_body))
    \<and> (case r of Inl e \<Rightarrow> True
       | Inr resp \<Rightarrow> reqs \<noteq> [] \<and> he_send env (n + length reqs - 1) (last reqs) = Inr resp)"
  using assms
proof (induction k arbitrary: n hop r reqs)
  case (Suc k)
  show ?case
  proof (cases "rbind (hop_request method query body hop) (apply_auth cl env n)")
    case (Inl e)
    with Suc.prems show ?thesis by auto
  next
    case (Inr rq)
    then have first: "rq_url rq = hop_url hop \<and> rq_query rq = (if hop_apply_query hop then query else [])
         \<and> rq_method rq = (if hop_keep_body hop then method else GET)
         \<and> rq_body rq = (if hop_keep_body hop then body else No_body)
         \<and> ((rq_auth rq = None) = (ac_auth cl = None))"
      by (auto simp: hop_request_def dest!: apply_auth_Inr)
    show ?thesis
    proof (cases "he_send env n rq")
      case (Inl e)
      then have "r = Inl e" "reqs = [rq]" using Suc.prems Inr by auto
      with first show ?thesis by simp
    next
      case sent: (Inr resp)
      show ?thesis
      proof (cases "\<exists>keep loc target. redirect_keeps (rs_status resp) = Some keep
          \<and> location_of resp = Some loc \<and> he_join env (hop_url hop) loc = Inr target")
        case True
        then obtain keep loc target where t: "redirect_keeps (rs_status resp) = Some keep"
          "location_of resp = Some loc" "he_join env (hop_url hop) loc = Inr target" by blast
        let ?hop = "\<lparr>hop_url = target, hop_keep_body = keep, hop_apply_query = False\<rparr>"
        obtain reqs' where run: "redirect_loop cl env url (hop_request method query body) k (Suc n) ?hop = (r, reqs')"
          and reqs: "reqs = rq # reqs'"
          using Suc.prems Inr sent t by (auto split: prod.splits)
        from Suc.IH [OF run] show ?thesis
          using first sent t by (cases reqs') (auto simp: reqs split: sum.splits)
      next
        case False
        then have "reqs = [rq] \<and> (case r of Inl e \<Rightarrow> True | Inr resp' \<Rightarrow> resp' = resp)"
          using Suc.prems Inr sent by (auto split: option.splits sum.splits prod.splits)
        with first sent show ?thesis by (auto split: sum.splits)
      qed
    qed
  qed
qed auto


definition answer_with :: "nat \<Rightarrow> http_response" where
  "answer_with status =
     \<lparr>rs_status = status, rs_headers = [(''location'', Some ''http://b2/x'')], rs_text = Inr [],
      rs_bytes = Inr []\<rparr>"

definition example_env :: "nat list \<Rightarrow> http_env" where
  "example_env statuses =
     \<lparr>he_auth_data = (\<lambda>n. Inr (as_bytes ''tok'')), he_send = (\<lambda>n rq. Inr (answer_with (statuses ! n))),
      he_join = (\<lambda>base loc. Inr loc), he_reason = (\<lambda>s. None), he_json_string = (\<lambda>s. None),
      he_json_map = (\<lambda>s. None), he_utf8_error = (\<lambda>bs. [])\<rparr>"

definition example_client :: admin_client where
  "example_client = \<lparr>ac_url = ''http://b1'', ac_auth = Some ''token''\<rparr>"

lemma example_apply_auth:
  "apply_auth example_client (example_env statuses) n rq = Inr (rq\<lparr>rq_auth := Some (Bearer ''tok'')\<rparr>)"
proof -
  have "from_utf8 (as_bytes ''tok'') = Some ''tok''" by code_simp
  then show ?thesis by (simp add: apply_auth_def example_client_def example_env_def)
qed

lemma redirect_loop_pos:
  "0 < k \<Longrightarrow> redirect_loop cl env url request_for k n hop =
     (case rbind (request_for hop) (apply_auth cl env n) of
        Inl e \<Rightarrow> (Inl e, [])
      | Inr req \<Rightarrow>
          (case he_send env n req of
             Inl e \<Rightarrow> (Inl e, [req])
           | Inr resp \<Rightarrow>
               (case (redirect_keeps (rs_status resp), location_of resp) of
                  (Some keep, Some location) \<Rightarrow>
                    (case he_join env (hop_url hop) location of
                       Inl e \<Rightarrow>
                         (Inl (Admin (Decode (''broker redirected to an unusable location '' @ debug_str location
                            @ '': '' @ e))), [req])
                     | Inr target \<Rightarrow>
                         (case redirect_loop cl env url request_for (k - 1) (Suc n)
                                 \<lparr>hop_url = target, hop_keep_body = keep, hop_apply_query = False\<rparr> of
                            (r, reqs) \<Rightarrow> (r, req # reqs)))
                | _ \<Rightarrow> (Inr resp, [req]))))"
  by (cases k, simp, hypsubst, simp only: redirect_loop.simps diff_Suc_1)

lemma example_env_simps:
  "he_send (example_env statuses) n rq = Inr (answer_with (statuses ! n))"
  "he_join (example_env statuses) base loc = Inr loc"
  "rs_status (answer_with status) = status" "location_of (answer_with status) = Some ''http://b2/x''"
  by (simp_all add: example_env_def answer_with_def location_of_def)

lemmas example_send_simps = http_send_def send_with_redirects_def max_redirects_def hop_request_def
  example_apply_auth redirect_loop_pos example_env_simps redirect_keeps_def

lemma example_send:
  "http_send example_client (example_env [307, 303, 200]) POST ''http://b1/x'' [(''q'', ''1'')] (Json_body JNull)
     = (Inr (answer_with 200),
        [\<lparr>rq_method = POST, rq_url = ''http://b1/x'', rq_query = [(''q'', ''1'')], rq_body = Json_body JNull,
          rq_auth = Some (Bearer ''tok'')\<rparr>,
         \<lparr>rq_method = POST, rq_url = ''http://b2/x'', rq_query = [], rq_body = Json_body JNull,
          rq_auth = Some (Bearer ''tok'')\<rparr>,
         \<lparr>rq_method = GET, rq_url = ''http://b2/x'', rq_query = [], rq_body = No_body,
          rq_auth = Some (Bearer ''tok'')\<rparr>])"
  by (simp add: example_send_simps)


text \<open>
  Where it falls short. A redirect that turned a request into a GET is forgotten: a 307 after a
  303 sends the original method and body again.
\<close>

theorem dropped_body_comes_back:
  "map (\<lambda>rq. (rq_method rq, rq_body rq)) (snd (http_send example_client (example_env [303, 307, 200]) POST
      ''http://b1/x'' [] (Json_body JNull)))
     = [(POST, Json_body JNull), (GET, No_body), (POST, Json_body JNull)]"
  by (simp add: example_send_simps)

text \<open>
  The names of the oldest policy operations and of schemas are not encoded, and dot segments
  never are: the HTTP client resolves them, so they name another resource.
\<close>

theorem some_names_are_not_encoded:
  "topic_policy_url example_client ''t/n/a?b/c'' ''p'' = Inr ''http://b1/admin/v2/persistent/t/n/a?b/c/p''"
  "schema_url example_client ''t?/n/a'' None = Inr ''http://b1/admin/v2/schemas/t?/n/a/schema''"
  "encode_segment ''..'' = ''..''"
proof -
  show "topic_policy_url example_client ''t/n/a?b/c'' ''p'' = Inr ''http://b1/admin/v2/persistent/t/n/a?b/c/p''"
    by (simp add: topic_policy_url_def parse_topic_def splitn_3 admin_path_def example_client_def)
  have "encode_segment ''a'' = ''a''" by code_simp
  then show "schema_url example_client ''t?/n/a'' None = Inr ''http://b1/admin/v2/schemas/t?/n/a/schema''"
    by (simp add: schema_url_def parse_topic_def splitn_3 admin_path_def example_client_def)
  show "encode_segment ''..'' = ''..''" by code_simp
qed

subsection \<open>Errors\<close>

text \<open>
  A failed answer says whether to try again. An answer is accepted exactly when its status is
  2xx; any other becomes an admin error, and that error counts as worth retrying exactly when
  the status reports a failure of the server, 501 (not implemented) excepted; a missing
  resource is reported as such and never as an absent value.
\<close>

theorem status_decides_success_and_retry:
  "case require_success env resp of
     Inr resp' \<Rightarrow> resp' = resp \<and> is_success (rs_status resp)
   | Inl e \<Rightarrow> \<not> is_success (rs_status resp)
       \<and> (\<exists>a. e = Admin a \<and> admin_is_retriable a = (500 \<le> rs_status resp \<and> rs_status resp \<noteq> 501)
            \<and> (\<exists>m. a = NotFound_adm m) = (rs_status resp = 404))"
  by (auto simp: require_success_def error_from_status_def Let_def)

text \<open>Reading an optional value: unset is an empty answer, a 404 is an error.\<close>

theorem unset_is_not_missing:
  assumes "http_send cl env method url query body = (Inr resp, reqs)" and "rs_text resp = Inr t"
  shows "fst (send_json_opt parse cl env method url query body) = Inr None
    \<longleftrightarrow> is_success (rs_status resp) \<and> trim t = []"
  using assms
  by (auto simp: send_json_opt_def require_success_def body_text_def rbind_Inr_iff rmap_Inr_iff)

end
