(* ===== verification/Admin_Calls.thy ===== *)
theory Admin_Calls
  imports Admin
begin

text \<open>
  An operation of the admin client is a call: a method, a URL, a query, a body, and how its answer
  is read. The endpoint groups describe their operations as calls (\<open>Admin_Namespaces\<close>,
  \<open>Admin_Topics\<close>, \<open>Admin_Cluster\<close>); \<open>perform\<close> is what they have in common: sending the call through
  the \<open>send_\<close> function of \<open>admin/mod.rs\<close> that the operation names and what it makes of the answer.
  A model of \<open>admin/models.rs\<close> is given as the JSON its derived writer makes of it.
\<close>

datatype reads = Reads_nothing | Reads_json | Reads_json_opt | Reads_json_or_default
  | Reads_json_absent_on_404 | Reads_text | Reads_text_opt | Reads_healthy | Reads_message | Reads_bytes

record admin_call =
  ca_method :: http_method
  ca_url :: string
  ca_query :: "(string \<times> string) list"
  ca_body :: http_body
  ca_reads :: reads

definition call :: "http_method \<Rightarrow> (string \<times> string) list \<Rightarrow> http_body \<Rightarrow> reads \<Rightarrow> string \<Rightarrow> admin_call" where
  "call method query body reads url =
     \<lparr>ca_method = method, ca_url = url, ca_query = query, ca_body = body, ca_reads = reads\<rparr>"

definition show_bool :: "bool \<Rightarrow> string" where
  "show_bool b = (if b then ''true'' else ''false'')"

text \<open>\<open>BacklogQuotaType\<close> of \<open>admin/models.rs\<close>.\<close>

datatype backlog_quota_type = DestinationStorage | MessageAge

fun backlog_quota_type_str :: "backlog_quota_type \<Rightarrow> string" where
  "backlog_quota_type_str DestinationStorage = ''destination_storage''"
| "backlog_quota_type_str MessageAge = ''message_age''"

text \<open>The environment of an operation that sends several requests, \<open>k\<close> of them sent.\<close>

definition env_after :: "nat \<Rightarrow> http_env \<Rightarrow> http_env" where
  "env_after k env =
     env\<lparr>he_auth_data := \<lambda>n. he_auth_data env (k + n), he_send := \<lambda>n. he_send env (k + n)\<rparr>"

text \<open>Answers that are text or nothing, and the answer of a health check.\<close>

definition text_option :: "string \<Rightarrow> string option" where
  "text_option t = (if t = [] then None else Some t)"

definition require_ok :: "string \<Rightarrow> (error, unit) result" where
  "require_ok body =
     (if to_ascii_lowercase (trim body) = ''ok'' then Inr ()
      else Inl (Admin (ServerUnavailable (''broker health check reported: '' @ trim body))))"

datatype 'a admin_answer = Read_nothing | Read_value 'a | Read_option "'a option" | Read_text string
  | Read_text_option "string option" | Read_message peeked_message | Read_bytes "byte list"

definition answered :: "('a \<Rightarrow> 'b admin_answer) \<Rightarrow> (error, 'a) result \<times> http_request list \<Rightarrow>
    (error, 'b admin_answer) result \<times> http_request list" where
  "answered f x = (case x of (r, reqs) \<Rightarrow> (rmap f r, reqs))"

text \<open>\<open>parse\<close> reads the JSON of the answer, \<open>dflt\<close> is the value of an unset one.\<close>

definition perform :: "(string \<Rightarrow> (string, 'a) result) \<Rightarrow> (string \<Rightarrow> (string, 'a option) result) \<Rightarrow> 'a \<Rightarrow>
    admin_client \<Rightarrow> http_env \<Rightarrow> admin_call \<Rightarrow> (error, 'a admin_answer) result \<times> http_request list" where
  "perform parse parse_opt dflt cl env c =
     (case ca_reads c of
        Reads_nothing \<Rightarrow> answered (\<lambda>_. Read_nothing)
          (send_empty cl env (ca_method c) (ca_url c) (ca_query c) (ca_body c))
      | Reads_json \<Rightarrow> answered Read_value
          (send_json parse cl env (ca_method c) (ca_url c) (ca_query c) (ca_body c))
      | Reads_json_opt \<Rightarrow> answered Read_option
          (send_json_opt parse cl env (ca_method c) (ca_url c) (ca_query c) (ca_body c))
      | Reads_json_or_default \<Rightarrow>
          answered (\<lambda>v. Read_value (case v of Some v \<Rightarrow> v | None \<Rightarrow> dflt))
            (send_json_opt parse cl env (ca_method c) (ca_url c) (ca_query c) (ca_body c))
      | Reads_json_absent_on_404 \<Rightarrow> answered Read_option
          (send_json_absent_on_404 parse_opt cl env (ca_method c) (ca_url c) (ca_query c) (ca_body c))
      | Reads_text \<Rightarrow> answered Read_text
          (send_text cl env (ca_method c) (ca_url c) (ca_query c))
      | Reads_text_opt \<Rightarrow> answered (\<lambda>t. Read_text_option (text_option t))
          (send_text cl env (ca_method c) (ca_url c) (ca_query c))
      | Reads_healthy \<Rightarrow>
          (case send_text cl env (ca_method c) (ca_url c) (ca_query c) of
             (r, reqs) \<Rightarrow> (rmap (\<lambda>_. Read_nothing) (rbind r require_ok), reqs))
      | Reads_message \<Rightarrow> answered Read_message
          (send_peek cl env (ca_method c) (ca_url c) (ca_query c))
      | Reads_bytes \<Rightarrow> answered Read_bytes
          (send_bytes cl env (ca_method c) (ca_url c) (ca_query c)))"

text \<open>What changes nothing on the server: a GET without a body.\<close>

definition reads_only :: "admin_call \<Rightarrow> bool" where
  "reads_only c \<longleftrightarrow> ca_method c = GET \<and> ca_body c = No_body"

lemma call_simps [simp]:
  "ca_method (call method query body reads url) = method"
  "ca_url (call method query body reads url) = url"
  "ca_query (call method query body reads url) = query"
  "ca_body (call method query body reads url) = body"
  "ca_reads (call method query body reads url) = reads"
  by (simp_all add: call_def)

section \<open>What operations have in common\<close>

text \<open>
  Reading, setting and removing a policy are about one resource: the same URL, a read, a change
  that carries the value in its body or its query, and a removal without a body; and one error if
  the name is no good.
\<close>

definition one_resource :: "(error, admin_call) result \<times> (error, admin_call) result \<times>
    (error, admin_call) result \<Rightarrow> bool" where
  "one_resource p =
     (case p of
        (Inr r, Inr s, Inr d) \<Rightarrow>
          ca_url s = ca_url r \<and> ca_url d = ca_url r \<and> reads_only r
          \<and> (ca_method s = POST \<or> ca_method s = PUT) \<and> (ca_body s \<noteq> No_body \<or> ca_query s \<noteq> [])
          \<and> ca_method d = DELETE \<and> ca_body d = No_body
      | (Inl e, Inl e', Inl e'') \<Rightarrow> e' = e \<and> e'' = e
      | _ \<Rightarrow> False)"

text \<open>A URL below a path of names, whatever bytes they hold: nothing in it starts a query.\<close>

definition segment_ok :: "string \<Rightarrow> bool" where
  "segment_ok s = list_all url_safe s"

definition path_char :: "char \<Rightarrow> bool" where
  "path_char c \<longleftrightarrow> url_safe c \<or> c = CHR ''/''"

definition below :: "string \<Rightarrow> string list \<Rightarrow> string \<Rightarrow> bool" where
  "below base names url =
     (let root = base @ admin_path (map encode_segment names)
      in prefix root url
         \<and> (case drop (length root) url of
               [] \<Rightarrow> True
             | c # cs \<Rightarrow> c = CHR ''/'' \<and> list_all path_char cs))"

lemma segment_ok_encode [simp]: "segment_ok (encode_segment s)"
  by (simp add: segment_ok_def encode_segment_safe)

lemma segment_ok_simps [simp]:
  "segment_ok []" "segment_ok (c # cs) \<longleftrightarrow> url_safe c \<and> segment_ok cs"
  by (simp_all add: segment_ok_def)

lemma url_safe_chars [simp]:
  "url_safe (CHR ''a'')" "url_safe (CHR ''b'')" "url_safe (CHR ''c'')" "url_safe (CHR ''d'')"
  "url_safe (CHR ''e'')" "url_safe (CHR ''f'')" "url_safe (CHR ''g'')" "url_safe (CHR ''h'')"
  "url_safe (CHR ''i'')" "url_safe (CHR ''j'')" "url_safe (CHR ''k'')" "url_safe (CHR ''l'')"
  "url_safe (CHR ''m'')" "url_safe (CHR ''n'')" "url_safe (CHR ''o'')" "url_safe (CHR ''p'')"
  "url_safe (CHR ''q'')" "url_safe (CHR ''r'')" "url_safe (CHR ''s'')" "url_safe (CHR ''t'')"
  "url_safe (CHR ''u'')" "url_safe (CHR ''v'')" "url_safe (CHR ''w'')" "url_safe (CHR ''x'')"
  "url_safe (CHR ''y'')" "url_safe (CHR ''z'')" "url_safe (CHR ''A'')" "url_safe (CHR ''B'')"
  "url_safe (CHR ''C'')" "url_safe (CHR ''D'')" "url_safe (CHR ''E'')" "url_safe (CHR ''F'')"
  "url_safe (CHR ''G'')" "url_safe (CHR ''H'')" "url_safe (CHR ''I'')" "url_safe (CHR ''J'')"
  "url_safe (CHR ''K'')" "url_safe (CHR ''L'')" "url_safe (CHR ''M'')" "url_safe (CHR ''N'')"
  "url_safe (CHR ''O'')" "url_safe (CHR ''P'')" "url_safe (CHR ''Q'')" "url_safe (CHR ''R'')"
  "url_safe (CHR ''S'')" "url_safe (CHR ''T'')" "url_safe (CHR ''U'')" "url_safe (CHR ''V'')"
  "url_safe (CHR ''W'')" "url_safe (CHR ''X'')" "url_safe (CHR ''Y'')" "url_safe (CHR ''Z'')"
  "url_safe (CHR ''0'')" "url_safe (CHR ''1'')" "url_safe (CHR ''2'')" "url_safe (CHR ''3'')"
  "url_safe (CHR ''4'')" "url_safe (CHR ''5'')" "url_safe (CHR ''6'')" "url_safe (CHR ''7'')"
  "url_safe (CHR ''8'')" "url_safe (CHR ''9'')" "url_safe (CHR ''-'')" "url_safe (CHR ''.'')"
  "url_safe (CHR ''_'')" "url_safe (CHR ''~'')"
  by (code_simp | (simp add: url_safe_def unreserved_def; fail))+

lemma path_char_path: "list_all segment_ok segs \<Longrightarrow> list_all path_char (admin_path segs)"
  by (induction segs) (auto simp: admin_path_def segment_ok_def path_char_def list_all_iff)

lemma below_admin_path:
  "list_all segment_ok segs \<Longrightarrow> below base names (base @ admin_path (map encode_segment names @ segs))"
  using path_char_path [of segs]
  by (cases segs) (auto simp: below_def admin_path_def Let_def)

lemma one_resource_simps:
  "one_resource (rmap f x, rmap g x, rmap h x)
     = (case x of Inl e \<Rightarrow> True | Inr y \<Rightarrow> one_resource (Inr (f y), Inr (g y), Inr (h y)))"
  "one_resource (Inr r, Inr s, Inr d) \<longleftrightarrow>
     ca_url s = ca_url r \<and> ca_url d = ca_url r \<and> reads_only r
     \<and> (ca_method s = POST \<or> ca_method s = PUT) \<and> (ca_body s \<noteq> No_body \<or> ca_query s \<noteq> [])
     \<and> ca_method d = DELETE \<and> ca_body d = No_body"
  by (cases x) (auto simp: one_resource_def)

text \<open>A namespace operation stays below the path of its namespace.\<close>

definition in_namespace :: "admin_client \<Rightarrow> string \<Rightarrow> (error, admin_call) result \<Rightarrow> bool" where
  "in_namespace cl namespace r =
     (case (r, split_namespace namespace) of
        (Inr c, Inr (tenant, ns)) \<Rightarrow>
          below (ac_url cl @ ''/admin/v2'') [''namespaces'', tenant, ns] (ca_url c)
      | (Inl e, Inl e') \<Rightarrow> e' = e
      | _ \<Rightarrow> False)"

end
