(* ===== verification/Admin_Topics.thy ===== *)
theory Admin_Topics
  imports Admin_Calls
begin

text \<open>
  The operations on topics: \<open>admin/topics.rs\<close>, \<open>admin/non_persistent_topics.rs\<close>, \<open>admin/lookup.rs\<close> and
  \<open>admin/schemas.rs\<close>, each as the call it makes; those that send several requests or look at the
  answer run them.
\<close>

section \<open>Topics\<close>

datatype message_position = Earliest_position | Latest_position

fun message_position_str :: "message_position \<Rightarrow> string" where
  "message_position_str Earliest_position = ''earliest''"
| "message_position_str Latest_position = ''latest''"

definition topics_topic_url ::
    "admin_client \<Rightarrow> string \<Rightarrow> string list \<Rightarrow> (error, string) result" where
  "topics_topic_url cl topic extra =
     rmap (\<lambda>segments. admin_url cl (segments @ extra)) (parse_topic_path topic)"

definition topics_sub_url ::
    "admin_client \<Rightarrow> string \<Rightarrow> string \<Rightarrow> string list \<Rightarrow> (error, string) result" where
  "topics_sub_url cl topic subscription extra =
     topics_topic_url cl topic ([''subscription'', encode_segment subscription] @ extra)"

definition topics_ns_url ::
    "admin_client \<Rightarrow> string \<Rightarrow> string \<Rightarrow> string list \<Rightarrow> (error, string) result" where
  "topics_ns_url cl domain namespace extra =
     rmap (\<lambda>(tenant, ns). admin_url cl ([domain, encode_segment tenant, encode_segment ns] @ extra))
       (split_namespace namespace)"

definition topics_get_list :: "admin_client \<Rightarrow> string \<Rightarrow> (error, admin_call) result" where
  "topics_get_list cl namespace =
     rmap (call GET [] No_body Reads_json)
       (topics_ns_url cl ''persistent'' namespace [])"

definition topics_get_non_persistent_list ::
    "admin_client \<Rightarrow> string \<Rightarrow> (error, admin_call) result" where
  "topics_get_non_persistent_list cl namespace =
     rmap (call GET [] No_body Reads_json)
       (topics_ns_url cl ''non-persistent'' namespace [])"

definition topics_get_partitioned_topic_list ::
    "admin_client \<Rightarrow> string \<Rightarrow> (error, admin_call) result" where
  "topics_get_partitioned_topic_list cl namespace =
     rmap (call GET [] No_body Reads_json)
       (topics_ns_url cl ''persistent'' namespace [''partitioned''])"

definition topics_get_list_in_bundle ::
    "admin_client \<Rightarrow> string \<Rightarrow> string \<Rightarrow> (error, admin_call) result" where
  "topics_get_list_in_bundle cl namespace bundle =
     rmap (call GET [] No_body Reads_json)
       (topics_ns_url cl ''non-persistent'' namespace [encode_segment bundle])"

definition topics_create_non_partitioned_topic ::
    "admin_client \<Rightarrow> string \<Rightarrow> (error, admin_call) result" where
  "topics_create_non_partitioned_topic cl topic =
     rmap (call PUT [] No_body Reads_nothing)
       (topics_topic_url cl topic [])"

definition topics_create_partitioned_topic ::
    "admin_client \<Rightarrow> string \<Rightarrow> int \<Rightarrow> (error, admin_call) result" where
  "topics_create_partitioned_topic cl topic num_partitions =
     rmap (call PUT [] (Json_body (JNum num_partitions)) Reads_nothing)
       (topics_topic_url cl topic [''partitions''])"

definition topics_update_partitioned_topic ::
    "admin_client \<Rightarrow> string \<Rightarrow> int \<Rightarrow> (error, admin_call) result" where
  "topics_update_partitioned_topic cl topic num_partitions =
     rmap (call POST [] (Json_body (JNum num_partitions)) Reads_nothing)
       (topics_topic_url cl topic [''partitions''])"

definition topics_create_missed_partitions ::
    "admin_client \<Rightarrow> string \<Rightarrow> (error, admin_call) result" where
  "topics_create_missed_partitions cl topic =
     rmap (call POST [] No_body Reads_nothing)
       (topics_topic_url cl topic [''createMissedPartitions''])"

definition topics_get_partitioned_topic_metadata ::
    "admin_client \<Rightarrow> string \<Rightarrow> (error, admin_call) result" where
  "topics_get_partitioned_topic_metadata cl topic =
     rmap (call GET [] No_body Reads_json)
       (topics_topic_url cl topic [''partitions''])"

definition topics_delete ::
    "admin_client \<Rightarrow> string \<Rightarrow> bool \<Rightarrow> (error, admin_call) result" where
  "topics_delete cl topic force =
     rmap (call DELETE [(''force'', show_bool force)] No_body Reads_nothing)
       (topics_topic_url cl topic [])"

definition topics_delete_partitioned_topic ::
    "admin_client \<Rightarrow> string \<Rightarrow> bool \<Rightarrow> (error, admin_call) result" where
  "topics_delete_partitioned_topic cl topic force =
     rmap (call DELETE [(''force'', show_bool force)] No_body Reads_nothing)
       (topics_topic_url cl topic [''partitions''])"

definition topics_unload :: "admin_client \<Rightarrow> string \<Rightarrow> (error, admin_call) result" where
  "topics_unload cl topic =
     rmap (call PUT [] No_body Reads_nothing)
       (topics_topic_url cl topic [''unload''])"

definition topics_terminate_topic ::
    "admin_client \<Rightarrow> string \<Rightarrow> (error, admin_call) result" where
  "topics_terminate_topic cl topic =
     rmap (call POST [] No_body Reads_json)
       (topics_topic_url cl topic [''terminate''])"

definition topics_terminate_partitioned_topic ::
    "admin_client \<Rightarrow> string \<Rightarrow> (error, admin_call) result" where
  "topics_terminate_partitioned_topic cl topic =
     rmap (call POST [] No_body Reads_json)
       (topics_topic_url cl topic [''terminate'', ''partitions''])"

definition topics_truncate :: "admin_client \<Rightarrow> string \<Rightarrow> (error, admin_call) result" where
  "topics_truncate cl topic =
     rmap (call DELETE [] No_body Reads_nothing)
       (topics_topic_url cl topic [''truncate''])"

definition topics_get_properties :: "admin_client \<Rightarrow> string \<Rightarrow> (error, admin_call) result" where
  "topics_get_properties cl topic =
     rmap (call GET [] No_body Reads_json)
       (topics_topic_url cl topic [''properties''])"

definition topics_update_properties ::
    "admin_client \<Rightarrow> string \<Rightarrow> json \<Rightarrow> (error, admin_call) result" where
  "topics_update_properties cl topic properties =
     rmap (call PUT [] (Json_body properties) Reads_nothing)
       (topics_topic_url cl topic [''properties''])"

definition topics_remove_properties ::
    "admin_client \<Rightarrow> string \<Rightarrow> string \<Rightarrow> (error, admin_call) result" where
  "topics_remove_properties cl topic key =
     rmap (call DELETE [(''key'', key)] No_body Reads_nothing)
       (topics_topic_url cl topic [''properties''])"

definition topics_get_permissions ::
    "admin_client \<Rightarrow> string \<Rightarrow> (error, admin_call) result" where
  "topics_get_permissions cl topic =
     rmap (call GET [] No_body Reads_json)
       (topics_topic_url cl topic [''permissions''])"

definition topics_grant_permission ::
    "admin_client \<Rightarrow> string \<Rightarrow> string \<Rightarrow> string list \<Rightarrow> (error, admin_call) result" where
  "topics_grant_permission cl topic role actions =
     rmap (call POST [] (Json_body (JArr (map JStr actions))) Reads_nothing)
       (topics_topic_url cl topic [''permissions'', encode_segment role])"

definition topics_revoke_permissions ::
    "admin_client \<Rightarrow> string \<Rightarrow> string \<Rightarrow> (error, admin_call) result" where
  "topics_revoke_permissions cl topic role =
     rmap (call DELETE [] No_body Reads_nothing)
       (topics_topic_url cl topic [''permissions'', encode_segment role])"

text \<open>\<open>GetStatsOptions\<close> of \<open>admin/models.rs\<close>.\<close>

record get_stats_options =
  gs_get_precise_backlog :: bool
  gs_subscription_backlog_size :: bool
  gs_get_earliest_time_in_backlog :: bool
  gs_exclude_publishers :: bool
  gs_exclude_consumers :: bool

definition stats_query :: "get_stats_options \<Rightarrow> (string \<times> string) list" where
  "stats_query options =
     [(''getPreciseBacklog'', show_bool (gs_get_precise_backlog options)),
      (''subscriptionBacklogSize'', show_bool (gs_subscription_backlog_size options)),
      (''getEarliestTimeInBacklog'', show_bool (gs_get_earliest_time_in_backlog options)),
      (''excludePublishers'', show_bool (gs_exclude_publishers options)),
      (''excludeConsumers'', show_bool (gs_exclude_consumers options))]"

definition topics_get_stats ::
    "admin_client \<Rightarrow> string \<Rightarrow> get_stats_options \<Rightarrow> (error, admin_call) result" where
  "topics_get_stats cl topic options =
     rmap (call GET (stats_query options) No_body Reads_json)
       (topics_topic_url cl topic [''stats''])"

definition topics_get_internal_stats ::
    "admin_client \<Rightarrow> string \<Rightarrow> (error, admin_call) result" where
  "topics_get_internal_stats cl topic =
     rmap (call GET [] No_body Reads_json)
       (topics_topic_url cl topic [''internalStats''])"

definition topics_get_partitioned_stats ::
    "admin_client \<Rightarrow> string \<Rightarrow> bool \<Rightarrow> get_stats_options \<Rightarrow> (error, admin_call) result" where
  "topics_get_partitioned_stats cl topic per_partition options =
     rmap (call GET (stats_query options @ [(''perPartition'', show_bool per_partition)]) No_body Reads_json)
       (topics_topic_url cl topic [''partitioned-stats''])"

definition topics_get_partitioned_internal_stats ::
    "admin_client \<Rightarrow> string \<Rightarrow> (error, admin_call) result" where
  "topics_get_partitioned_internal_stats cl topic =
     rmap (call GET [] No_body Reads_json)
       (topics_topic_url cl topic [''partitioned-internalStats''])"

definition topics_get_subscriptions ::
    "admin_client \<Rightarrow> string \<Rightarrow> (error, admin_call) result" where
  "topics_get_subscriptions cl topic =
     rmap (call GET [] No_body Reads_json)
       (topics_topic_url cl topic [''subscriptions''])"

definition topics_create_subscription ::
    "admin_client \<Rightarrow> string \<Rightarrow> string \<Rightarrow> json \<Rightarrow> (error, admin_call) result" where
  "topics_create_subscription cl topic subscription position =
     rmap (call PUT [] (Json_body position) Reads_nothing)
       (topics_sub_url cl topic subscription [])"

definition topics_delete_subscription ::
    "admin_client \<Rightarrow> string \<Rightarrow> string \<Rightarrow> bool \<Rightarrow> (error, admin_call) result" where
  "topics_delete_subscription cl topic subscription force =
     rmap (call DELETE [(''force'', show_bool force)] No_body Reads_nothing)
       (topics_sub_url cl topic subscription [])"

definition topics_get_subscription_properties ::
    "admin_client \<Rightarrow> string \<Rightarrow> string \<Rightarrow> (error, admin_call) result" where
  "topics_get_subscription_properties cl topic subscription =
     rmap (call GET [] No_body Reads_json)
       (topics_sub_url cl topic subscription [''properties''])"

definition topics_update_subscription_properties ::
    "admin_client \<Rightarrow> string \<Rightarrow> string \<Rightarrow> json \<Rightarrow> (error, admin_call) result" where
  "topics_update_subscription_properties cl topic subscription properties =
     rmap (call PUT [] (Json_body properties) Reads_nothing)
       (topics_sub_url cl topic subscription [''properties''])"

definition topics_skip_all_messages ::
    "admin_client \<Rightarrow> string \<Rightarrow> string \<Rightarrow> (error, admin_call) result" where
  "topics_skip_all_messages cl topic subscription =
     rmap (call POST [] No_body Reads_nothing)
       (topics_sub_url cl topic subscription [''skip_all''])"

definition topics_skip_messages ::
    "admin_client \<Rightarrow> string \<Rightarrow> string \<Rightarrow> int \<Rightarrow> (error, admin_call) result" where
  "topics_skip_messages cl topic subscription num_messages =
     rmap (call POST [] No_body Reads_nothing)
       (topics_sub_url cl topic subscription [''skip'', show_int num_messages])"

definition topics_expire_messages ::
    "admin_client \<Rightarrow> string \<Rightarrow> string \<Rightarrow> int \<Rightarrow> (error, admin_call) result" where
  "topics_expire_messages cl topic subscription expire_time_seconds =
     rmap (call POST [] No_body Reads_nothing)
       (topics_sub_url cl topic subscription [''expireMessages'', show_int expire_time_seconds])"

definition topics_expire_messages_for_all_subscriptions ::
    "admin_client \<Rightarrow> string \<Rightarrow> int \<Rightarrow> (error, admin_call) result" where
  "topics_expire_messages_for_all_subscriptions cl topic expire_time_seconds =
     rmap (call POST [] No_body Reads_nothing)
       (topics_topic_url cl topic [''all_subscription'', ''expireMessages'', show_int expire_time_seconds])"

definition topics_reset_cursor ::
    "admin_client \<Rightarrow> string \<Rightarrow> string \<Rightarrow> int \<Rightarrow> (error, admin_call) result" where
  "topics_reset_cursor cl topic subscription timestamp_ms =
     rmap (call POST [] No_body Reads_nothing)
       (topics_sub_url cl topic subscription [''resetcursor'', show_int timestamp_ms])"

definition topics_reset_cursor_to_message_id ::
    "admin_client \<Rightarrow> string \<Rightarrow> string \<Rightarrow> json \<Rightarrow> (error, admin_call) result" where
  "topics_reset_cursor_to_message_id cl topic subscription message_id =
     rmap (call POST [] (Json_body message_id) Reads_nothing)
       (topics_sub_url cl topic subscription [''resetcursor''])"

definition topics_analyze_subscription_backlog ::
    "admin_client \<Rightarrow> string \<Rightarrow> string \<Rightarrow> (error, admin_call) result" where
  "topics_analyze_subscription_backlog cl topic subscription =
     rmap (call POST [] No_body Reads_json)
       (topics_sub_url cl topic subscription [''analyzeBacklog''])"

definition topics_get_replicated_subscription_status ::
    "admin_client \<Rightarrow> string \<Rightarrow> string \<Rightarrow> (error, admin_call) result" where
  "topics_get_replicated_subscription_status cl topic subscription =
     rmap (call GET [] No_body Reads_json)
       (topics_sub_url cl topic subscription [''replicatedSubscriptionStatus''])"

definition topics_set_replicated_subscription_status ::
    "admin_client \<Rightarrow> string \<Rightarrow> string \<Rightarrow> bool \<Rightarrow> (error, admin_call) result" where
  "topics_set_replicated_subscription_status cl topic subscription enabled =
     rmap (call POST [] (Json_body (JBool enabled)) Reads_nothing)
       (topics_sub_url cl topic subscription [''replicatedSubscriptionStatus''])"

definition topics_trigger_compaction ::
    "admin_client \<Rightarrow> string \<Rightarrow> (error, admin_call) result" where
  "topics_trigger_compaction cl topic =
     rmap (call PUT [] No_body Reads_nothing)
       (topics_topic_url cl topic [''compaction''])"

definition topics_compaction_status ::
    "admin_client \<Rightarrow> string \<Rightarrow> (error, admin_call) result" where
  "topics_compaction_status cl topic =
     rmap (call GET [] No_body Reads_json)
       (topics_topic_url cl topic [''compaction''])"

definition topics_trim_topic :: "admin_client \<Rightarrow> string \<Rightarrow> (error, admin_call) result" where
  "topics_trim_topic cl topic =
     rmap (call POST [] No_body Reads_nothing)
       (topics_topic_url cl topic [''trim''])"

definition topics_trigger_offload ::
    "admin_client \<Rightarrow> string \<Rightarrow> json \<Rightarrow> (error, admin_call) result" where
  "topics_trigger_offload cl topic message_id =
     rmap (call PUT [] (Json_body message_id) Reads_nothing)
       (topics_topic_url cl topic [''offload''])"

definition topics_offload_status :: "admin_client \<Rightarrow> string \<Rightarrow> (error, admin_call) result" where
  "topics_offload_status cl topic =
     rmap (call GET [] No_body Reads_json)
       (topics_topic_url cl topic [''offload''])"

definition topics_get_last_message_id ::
    "admin_client \<Rightarrow> string \<Rightarrow> (error, admin_call) result" where
  "topics_get_last_message_id cl topic =
     rmap (call GET [] No_body Reads_json)
       (topics_topic_url cl topic [''lastMessageId''])"

definition topics_get_message_id_by_timestamp ::
    "admin_client \<Rightarrow> string \<Rightarrow> int \<Rightarrow> (error, admin_call) result" where
  "topics_get_message_id_by_timestamp cl topic timestamp_ms =
     rmap (call GET [] No_body Reads_json)
       (topics_topic_url cl topic [''messageid'', show_int timestamp_ms])"

definition topics_get_messages_by_id ::
    "admin_client \<Rightarrow> http_env \<Rightarrow> string \<Rightarrow> int \<Rightarrow> int \<Rightarrow> 
    (error, peeked_message list) result \<times> http_request list" where
  "topics_get_messages_by_id cl env topic ledger entry =
     (case topics_topic_url cl topic [''ledger'', show_int ledger, ''entry'', show_int entry] of
        Inl e \<Rightarrow> (Inl e, [])
      | Inr url \<Rightarrow>
          (case send_peek cl env GET url [] of (r, reqs) \<Rightarrow> (rmap (\<lambda>m. [m]) r, reqs)))"

definition topics_get_message_by_id ::
    "admin_client \<Rightarrow> http_env \<Rightarrow> string \<Rightarrow> int \<Rightarrow> int \<Rightarrow> 
    (error, peeked_message) result \<times> http_request list" where
  "topics_get_message_by_id cl env topic ledger entry =
     (case topics_get_messages_by_id cl env topic ledger entry of
        (r, reqs) \<Rightarrow>
          (rbind r (\<lambda>messages.
             case messages of
               m # _ \<Rightarrow> Inr m
             | [] \<Rightarrow> Inl (Admin (NotFound_adm (''no message at '' @ show_int ledger @ '':'' @
                 show_int entry @ '' on '' @ topic)))), reqs))"

definition topics_get_message_id_by_index ::
    "admin_client \<Rightarrow> string \<Rightarrow> int \<Rightarrow> (error, admin_call) result" where
  "topics_get_message_id_by_index cl topic index =
     rmap (call GET [(''index'', show_int index)] No_body Reads_json)
       (topics_topic_url cl topic [''getMessageIdByIndex''])"

definition topics_get_backlog_size_by_message_id ::
    "admin_client \<Rightarrow> string \<Rightarrow> json \<Rightarrow> (error, admin_call) result" where
  "topics_get_backlog_size_by_message_id cl topic message_id =
     rmap (call PUT [] (Json_body message_id) Reads_json)
       (topics_topic_url cl topic [''backlogSize''])"

definition topics_get_internal_info ::
    "admin_client \<Rightarrow> string \<Rightarrow> (error, admin_call) result" where
  "topics_get_internal_info cl topic =
     rmap (call GET [] No_body Reads_text)
       (topics_topic_url cl topic [''internal-info''])"

text \<open>Fewer messages in the backlog than asked for is not an error.\<close>

fun backlog_ended :: "error \<Rightarrow> bool" where
  "backlog_ended (Admin (NotFound_adm t)) = True"
| "backlog_ended e = False"

text \<open>One request per position, the first of them \<open>position\<close>, until the backlog ends.\<close>

fun peek_positions :: "admin_client \<Rightarrow> string \<Rightarrow> string \<Rightarrow> nat \<Rightarrow> int \<Rightarrow> http_env \<Rightarrow>
    (error, peeked_message list) result \<times> http_request list" where
  "peek_positions cl topic subscription 0 position env = (Inr [], [])"
| "peek_positions cl topic subscription (Suc n) position env =
     (case topics_sub_url cl topic subscription [''position'', show_int position] of
        Inl e \<Rightarrow> (Inl e, [])
      | Inr url \<Rightarrow>
          (case send_peek cl env GET url [] of
             (Inr m, reqs) \<Rightarrow>
               (case peek_positions cl topic subscription n (position + 1) (env_after (length reqs) env) of
                  (r, reqs') \<Rightarrow> (rmap (\<lambda>ms. m # ms) r, reqs @ reqs'))
           | (Inl e, reqs) \<Rightarrow> (if backlog_ended e then Inr [] else Inl e, reqs)))"

definition topics_peek_messages ::
    "admin_client \<Rightarrow> http_env \<Rightarrow> string \<Rightarrow> string \<Rightarrow> int \<Rightarrow> 
    (error, peeked_message list) result \<times> http_request list" where
  "topics_peek_messages cl env topic subscription num_messages =
     peek_positions cl topic subscription (nat num_messages) 1 env"

definition topics_examine_message ::
    "admin_client \<Rightarrow> string \<Rightarrow> message_position \<Rightarrow> int \<Rightarrow> (error, admin_call) result" where
  "topics_examine_message cl topic initial_position message_position =
     rmap (call GET [(''initialPosition'', message_position_str initial_position), (''messagePosition'', show_int message_position)]
         No_body Reads_message)
       (topics_topic_url cl topic [''examinemessage''])"

definition topics_get_shadow_topics ::
    "admin_client \<Rightarrow> string \<Rightarrow> (error, admin_call) result" where
  "topics_get_shadow_topics cl topic =
     rmap (call GET [] No_body Reads_json_opt)
       (topics_topic_url cl topic [''shadowTopics''])"

definition topics_set_shadow_topics ::
    "admin_client \<Rightarrow> string \<Rightarrow> string list \<Rightarrow> (error, admin_call) result" where
  "topics_set_shadow_topics cl topic shadows =
     rmap (call PUT [] (Json_body (JArr (map JStr shadows))) Reads_nothing)
       (topics_topic_url cl topic [''shadowTopics''])"

definition topics_remove_shadow_topics ::
    "admin_client \<Rightarrow> string \<Rightarrow> (error, admin_call) result" where
  "topics_remove_shadow_topics cl topic =
     rmap (call DELETE [] No_body Reads_nothing)
       (topics_topic_url cl topic [''shadowTopics''])"

section \<open>Non persistent topics\<close>

definition non_persistent_topics_topic_url ::
    "admin_client \<Rightarrow> string \<Rightarrow> string list \<Rightarrow> (error, string) result" where
  "non_persistent_topics_topic_url cl topic extra =
     rbind (parse_topic topic) (\<lambda>(scheme, tenant, namespace, name).
       if scheme = ''persistent'' \<and> prefix ''persistent://'' topic then
         Inl (Admin (InvalidTopic (topic @ '' is a persistent topic; use `topics()` for those'')))
       else Inr (admin_url cl ([''non-persistent'', encode_segment tenant, encode_segment namespace,
         encode_segment name] @ extra)))"

definition non_persistent_topics_get_list ::
    "admin_client \<Rightarrow> string \<Rightarrow> (error, admin_call) result" where
  "non_persistent_topics_get_list cl namespace =
     rmap (\<lambda>(tenant, ns). call GET [] No_body Reads_json
       (admin_url cl [''non-persistent'', encode_segment tenant, encode_segment ns])) (split_namespace namespace)"

definition non_persistent_topics_get_list_in_bundle ::
    "admin_client \<Rightarrow> string \<Rightarrow> string \<Rightarrow> (error, admin_call) result" where
  "non_persistent_topics_get_list_in_bundle cl namespace bundle =
     rmap (\<lambda>(tenant, ns). call GET [] No_body Reads_json
       (admin_url cl [''non-persistent'', encode_segment tenant, encode_segment ns, encode_segment bundle]))
       (split_namespace namespace)"

definition non_persistent_topics_create_partitioned_topic ::
    "admin_client \<Rightarrow> string \<Rightarrow> int \<Rightarrow> (error, admin_call) result" where
  "non_persistent_topics_create_partitioned_topic cl topic num_partitions =
     rmap (call PUT [] (Json_body (JNum num_partitions)) Reads_nothing)
       (non_persistent_topics_topic_url cl topic [''partitions''])"

definition non_persistent_topics_get_partitioned_topic_metadata ::
    "admin_client \<Rightarrow> string \<Rightarrow> (error, admin_call) result" where
  "non_persistent_topics_get_partitioned_topic_metadata cl topic =
     rmap (call GET [] No_body Reads_json)
       (non_persistent_topics_topic_url cl topic [''partitions''])"

definition non_persistent_topics_get_stats ::
    "admin_client \<Rightarrow> string \<Rightarrow> (error, admin_call) result" where
  "non_persistent_topics_get_stats cl topic =
     rmap (call GET [] No_body Reads_json)
       (non_persistent_topics_topic_url cl topic [''stats''])"

definition non_persistent_topics_get_internal_stats ::
    "admin_client \<Rightarrow> string \<Rightarrow> (error, admin_call) result" where
  "non_persistent_topics_get_internal_stats cl topic =
     rmap (call GET [] No_body Reads_json)
       (non_persistent_topics_topic_url cl topic [''internalStats''])"

definition non_persistent_topics_unload ::
    "admin_client \<Rightarrow> string \<Rightarrow> (error, admin_call) result" where
  "non_persistent_topics_unload cl topic =
     rmap (call PUT [] No_body Reads_nothing)
       (non_persistent_topics_topic_url cl topic [''unload''])"

section \<open>Lookup\<close>

definition lookup_lookup_url ::
    "admin_client \<Rightarrow> string \<Rightarrow> string list \<Rightarrow> (error, string) result" where
  "lookup_lookup_url cl topic extra =
     rmap (\<lambda>(scheme, tenant, namespace, name).
       ac_url cl @ ''/lookup/v2/topic'' @
         admin_path ([scheme, encode_segment tenant, encode_segment namespace, encode_segment name] @ extra))
       (parse_topic topic)"

definition lookup_lookup_topic :: "admin_client \<Rightarrow> string \<Rightarrow> (error, admin_call) result" where
  "lookup_lookup_topic cl topic =
     rmap (call GET [] No_body Reads_json)
       (lookup_lookup_url cl topic [])"

definition lookup_get_bundle_range ::
    "admin_client \<Rightarrow> string \<Rightarrow> (error, admin_call) result" where
  "lookup_get_bundle_range cl topic =
     rmap (call GET [] No_body Reads_text)
       (lookup_lookup_url cl topic [''bundle''])"

text \<open>
  The number of partitions, then a lookup of each; a map is the answers by name. \<open>parse_partitions\<close>
  reads the metadata, \<open>parse\<close> a lookup.
\<close>

fun lookup_partitions :: "(string \<Rightarrow> (string, 'a) result) \<Rightarrow> admin_client \<Rightarrow> string \<Rightarrow> nat \<Rightarrow> nat \<Rightarrow>
    (string \<rightharpoonup> 'a) \<Rightarrow> http_env \<Rightarrow> (error, string \<rightharpoonup> 'a) result \<times> http_request list" where
  "lookup_partitions parse cl topic 0 k out env = (Inr out, [])"
| "lookup_partitions parse cl topic (Suc n) k out env =
     (let name = topic @ ''-partition-'' @ show_nat k
      in case lookup_lookup_url cl name [] of
           Inl e \<Rightarrow> (Inl e, [])
         | Inr url \<Rightarrow>
             (case send_json parse cl env GET url [] No_body of
                (Inl e, reqs) \<Rightarrow> (Inl e, reqs)
              | (Inr v, reqs) \<Rightarrow>
                  (case lookup_partitions parse cl topic n (Suc k) (out(name \<mapsto> v)) (env_after (length reqs) env) of
                     (r, reqs') \<Rightarrow> (r, reqs @ reqs'))))"

definition lookup_lookup_partitioned_topic :: "(string \<Rightarrow> (string, i32) result) \<Rightarrow>
    (string \<Rightarrow> (string, 'a) result) \<Rightarrow> admin_client \<Rightarrow> http_env \<Rightarrow> string \<Rightarrow>
    (error, string \<rightharpoonup> 'a) result \<times> http_request list" where
  "lookup_lookup_partitioned_topic parse_partitions parse cl env topic =
     (case topics_topic_url cl topic [''partitions''] of
        Inl e \<Rightarrow> (Inl e, [])
      | Inr url \<Rightarrow>
          (case send_json parse_partitions cl env GET url [] No_body of
             (Inl e, reqs) \<Rightarrow> (Inl e, reqs)
           | (Inr partitions, reqs) \<Rightarrow>
               (if partitions \<le> 0 then
                  (Inl (Admin (BadRequest (topic @ '' is not a partitioned topic''))), reqs)
                else
                  (case lookup_partitions parse cl topic (nat (partitions)) 0 Map.empty
                      (env_after (length reqs) env) of
                     (r, reqs') \<Rightarrow> (r, reqs @ reqs')))))"

section \<open>Schemas\<close>

definition schemas_schema_url ::
    "admin_client \<Rightarrow> string \<Rightarrow> string list \<Rightarrow> (error, string) result" where
  "schemas_schema_url cl topic extra =
     rmap (\<lambda>(_, tenant, namespace, name).
       admin_url cl ([''schemas'', encode_segment tenant, encode_segment namespace, encode_segment name] @ extra))
       (parse_topic topic)"

definition schemas_get_schema_info ::
    "admin_client \<Rightarrow> string \<Rightarrow> (error, admin_call) result" where
  "schemas_get_schema_info cl topic =
     rmap (call GET [] No_body Reads_json_absent_on_404)
       (schemas_schema_url cl topic [''schema''])"

definition schemas_get_schema_info_at_version ::
    "admin_client \<Rightarrow> string \<Rightarrow> int \<Rightarrow> (error, admin_call) result" where
  "schemas_get_schema_info_at_version cl topic version =
     rmap (call GET [] No_body Reads_json_absent_on_404)
       (schemas_schema_url cl topic [''schema'', show_int version])"

definition schemas_get_all_schemas ::
    "admin_client \<Rightarrow> string \<Rightarrow> (error, admin_call) result" where
  "schemas_get_all_schemas cl topic =
     rmap (call GET [] No_body Reads_json) (schemas_schema_url cl topic [''schemas''])"

definition schemas_get_schema_metadata ::
    "admin_client \<Rightarrow> string \<Rightarrow> (error, admin_call) result" where
  "schemas_get_schema_metadata cl topic =
     rmap (call GET [] No_body Reads_json)
       (schemas_schema_url cl topic [''metadata''])"

definition schemas_create_schema ::
    "admin_client \<Rightarrow> string \<Rightarrow> json \<Rightarrow> (error, admin_call) result" where
  "schemas_create_schema cl topic payload =
     rmap (call POST [] (Json_body payload) Reads_nothing)
       (schemas_schema_url cl topic [''schema''])"

definition schemas_delete_schema ::
    "admin_client \<Rightarrow> string \<Rightarrow> bool \<Rightarrow> (error, admin_call) result" where
  "schemas_delete_schema cl topic force =
     rmap (call DELETE [(''force'', show_bool force)] No_body Reads_nothing)
       (schemas_schema_url cl topic [''schema''])"

definition schemas_test_compatibility ::
    "admin_client \<Rightarrow> string \<Rightarrow> json \<Rightarrow> (error, admin_call) result" where
  "schemas_test_compatibility cl topic payload =
     rmap (call POST [] (Json_body payload) Reads_json)
       (schemas_schema_url cl topic [''compatibility''])"

definition schemas_get_version_by_schema ::
    "admin_client \<Rightarrow> string \<Rightarrow> json \<Rightarrow> (error, admin_call) result" where
  "schemas_get_version_by_schema cl topic payload =
     rmap (call POST [] (Json_body payload) Reads_json) (schemas_schema_url cl topic [''version''])"

section \<open>What is shown\<close>

subsection \<open>Peeking\<close>

text \<open>What peeking at one position of a backlog comes to.\<close>

definition peeked_at :: "admin_client \<Rightarrow> http_env \<Rightarrow> string \<Rightarrow> string \<Rightarrow> int \<Rightarrow> (error, peeked_message) result" where
  "peeked_at cl env topic subscription position =
     rbind (topics_sub_url cl topic subscription [''position'', show_int position])
       (\<lambda>url. fst (send_peek cl env GET url []))"

lemma url_error_is_no_end: "topics_sub_url cl topic subscription extra = Inl e \<Longrightarrow> \<not> backlog_ended e"
  by (auto simp: topics_sub_url_def topics_topic_url_def parse_topic_path_def parse_topic_def
        invalid_topic_def Let_def elim!: rmap.elims split: option.splits list.splits if_splits)

lemma peek_positions_head:
  assumes stays: "\<forall>k. env_after k env = env"
    and there: "\<forall>i < length msgs. peeked_at cl env topic subscription (int i + 1) = Inr (msgs ! i)"
    and beyond: "peeked_at cl env topic subscription (int (length msgs) + 1) = Inl e"
    and p: "p \<le> length msgs"
  shows "fst (peek_positions cl topic subscription n (int p + 1) env)
    = (if p + n \<le> length msgs then Inr (take n (drop p msgs))
       else if backlog_ended e then Inr (drop p msgs) else Inl e)"
  using p
proof (induction n arbitrary: p)
  case 0
  then show ?case by simp
next
  case (Suc n)
  have step: "int (Suc p) + 1 = int p + 1 + 1" by simp
  show ?case
  proof (cases "p < length msgs")
    case True
    with there obtain url reqs where
      url: "topics_sub_url cl topic subscription [''position'', show_int (int p + 1)] = Inr url"
      and sent: "send_peek cl env GET url [] = (Inr (msgs ! p), reqs)"
      by (auto simp: peeked_at_def rbind_Inr_iff prod_eq_iff)
    obtain r reqs' where rest: "peek_positions cl topic subscription n (int p + 1 + 1) env = (r, reqs')"
      by fastforce
    have "fst (peek_positions cl topic subscription (Suc n) (int p + 1) env) = rmap (\<lambda>ms. msgs ! p # ms) r"
      unfolding peek_positions.simps by (simp only: url sent rest spec [OF stays] sum.case prod.case fst_conv)
    moreover have "r = (if Suc p + n \<le> length msgs then Inr (take n (drop (Suc p) msgs))
       else if backlog_ended e then Inr (drop (Suc p) msgs) else Inl e)"
      using Suc.IH [of "Suc p"] True unfolding step rest by simp
    moreover have "drop p msgs = msgs ! p # drop (Suc p) msgs"
      using True by (simp add: Cons_nth_drop_Suc)
    ultimately show ?thesis by simp
  next
    case False
    with Suc.prems have p: "p = length msgs" by simp
    show ?thesis
    proof (cases "topics_sub_url cl topic subscription [''position'', show_int (int p + 1)]")
      case (Inl e')
      with beyond p have "e' = e" by (simp add: peeked_at_def)
      with Inl p url_error_is_no_end [OF Inl] show ?thesis by simp
    next
      case (Inr url)
      with beyond p obtain reqs where "send_peek cl env GET url [] = (Inl e, reqs)"
        by (auto simp: peeked_at_def prod_eq_iff)
      with Inr p show ?thesis by simp
    qed
  qed
qed

text \<open>
  C36. Peeking at a subscription returns the head of its backlog. For a broker whose answers depend on
  the request alone and that has the messages \<open>msgs\<close> waiting and then answers with an error, peeking
  at \<open>n\<close> returns the first \<open>n\<close> of them in order; if there are fewer, all of them when that error
  is a missing resource, and the error otherwise.
\<close>

theorem peeking_returns_the_head_of_the_backlog:
  assumes "\<forall>k. env_after k env = env"
    and "\<forall>i < length msgs. peeked_at cl env topic subscription (int i + 1) = Inr (msgs ! i)"
    and "peeked_at cl env topic subscription (int (length msgs) + 1) = Inl e"
  shows "fst (topics_peek_messages cl env topic subscription n)
    = (if nat n \<le> length msgs then Inr (take (nat n) msgs)
       else if backlog_ended e then Inr msgs else Inl e)"
  using peek_positions_head [OF assms, of 0 "nat n"] by (simp add: topics_peek_messages_def)

text \<open>A broker with one message waiting.\<close>

definition one_waiting :: http_env where
  "one_waiting =
     (example_env [])\<lparr>he_send := \<lambda>_ rq.
        Inr (if rq_url rq = ''http://b1/admin/v2/persistent/t/n/a/subscription/s/position/1''
             then \<lparr>rs_status = 200, rs_headers = [], rs_text = Inr [], rs_bytes = Inr [7]\<rparr>
             else \<lparr>rs_status = 404, rs_headers = [], rs_text = Inr [], rs_bytes = Inr []\<rparr>)\<rparr>"

definition the_one :: peeked_message where
  "the_one = peeked_message_default\<lparr>pk_payload := [7]\<rparr>"

definition open_client :: admin_client where
  "open_client = \<lparr>ac_url = ''http://b1'', ac_auth = None\<rparr>"

lemma one_waiting_url:
  "topics_sub_url open_client ''t/n/a'' ''s'' [''position'', show_int i]
     = Inr (''http://b1/admin/v2/persistent/t/n/a/subscription/s/position/'' @ show_int i)"
proof -
  have "encode_segment ''t'' = ''t''" "encode_segment ''n'' = ''n''" "encode_segment ''a'' = ''a''"
    "encode_segment ''s'' = ''s''"
    by code_simp+
  then show ?thesis
    by (simp add: topics_sub_url_def topics_topic_url_def parse_topic_path_def parse_topic_def splitn_3
          admin_url_def admin_path_def open_client_def)
qed

lemma one_waiting_sends:
  "http_send open_client one_waiting GET url [] No_body
     = (Inr (if url = ''http://b1/admin/v2/persistent/t/n/a/subscription/s/position/1''
             then \<lparr>rs_status = 200, rs_headers = [], rs_text = Inr [], rs_bytes = Inr [7]\<rparr>
             else \<lparr>rs_status = 404, rs_headers = [], rs_text = Inr [], rs_bytes = Inr []\<rparr>),
        [\<lparr>rq_method = GET, rq_url = url, rq_query = [], rq_body = No_body, rq_auth = None\<rparr>])"
  by (simp add: http_send_def send_with_redirects_def max_redirects_def redirect_loop_pos hop_request_def
        apply_auth_def open_client_def one_waiting_def redirect_keeps_def)

lemma one_waiting_stays: "env_after k one_waiting = one_waiting"
  by (simp add: env_after_def one_waiting_def example_env_def)

lemma one_waiting_peeks:
  "peeked_at open_client one_waiting ''t/n/a'' ''s'' 1 = Inr the_one"
  "peeked_at open_client one_waiting ''t/n/a'' ''s'' 2 = Inl (Admin (NotFound_adm ''<no message>''))"
proof -
  have i: "show_int 1 = ''1''" "show_int 2 = ''2''" by code_simp+
  have t: "trim [] = []" by (simp add: trim_def)
  have r: "he_reason one_waiting = (\<lambda>b. None)" by (simp add: one_waiting_def example_env_def)
  let ?base = "''http://b1/admin/v2/persistent/t/n/a/subscription/s/position/''"
  note urls = one_waiting_url [of 1, unfolded i] one_waiting_url [of 2, unfolded i]
  have sent: "fst (http_send open_client one_waiting GET (?base @ ''1'') [] No_body)
      = Inr \<lparr>rs_status = 200, rs_headers = [], rs_text = Inr [], rs_bytes = Inr [7]\<rparr>"
    "fst (http_send open_client one_waiting GET (?base @ ''2'') [] No_body)
      = Inr \<lparr>rs_status = 404, rs_headers = [], rs_text = Inr [], rs_bytes = Inr []\<rparr>"
    unfolding one_waiting_sends by simp_all
  have peek: "fst (send_peek cl env GET url []) = rbind (fst (http_send cl env GET url [] No_body))
      (\<lambda>resp. rbind (require_success env resp) (\<lambda>resp. rmap (\<lambda>bytes.
        (fold (read_header env) (rs_headers resp) peeked_message_default)\<lparr>pk_payload := bytes\<rparr>)
          (map_err (\<lambda>e. Admin (Request_adm e)) (rs_bytes resp))))" for cl env url
    by (simp add: send_peek_def split: prod.split)
  show "peeked_at open_client one_waiting ''t/n/a'' ''s'' 1 = Inr the_one"
    unfolding peeked_at_def i urls rbind.simps peek sent
    by (simp add: require_success_def is_success_def the_one_def)
  show "peeked_at open_client one_waiting ''t/n/a'' ''s'' 2 = Inl (Admin (NotFound_adm ''<no message>''))"
    unfolding peeked_at_def i urls rbind.simps peek sent
    by (simp add: require_success_def is_success_def error_from_status_def error_reason_def r t)
qed

theorem peeking_returns_the_head_of_the_backlog_witness:
  "fst (topics_peek_messages open_client one_waiting ''t/n/a'' ''s'' 0) = Inr []
   \<and> fst (topics_peek_messages open_client one_waiting ''t/n/a'' ''s'' 1) = Inr [the_one]
   \<and> fst (topics_peek_messages open_client one_waiting ''t/n/a'' ''s'' 5) = Inr [the_one]"
proof -
  have "fst (topics_peek_messages open_client one_waiting ''t/n/a'' ''s'' n)
      = (if nat n \<le> 1 then Inr (take (nat n) [the_one])
         else if backlog_ended (Admin (NotFound_adm ''<no message>'')) then Inr [the_one]
         else Inl (Admin (NotFound_adm ''<no message>'')))" for n
    using peeking_returns_the_head_of_the_backlog [of one_waiting "[the_one]" open_client "''t/n/a''" "''s''"]
      one_waiting_peeks one_waiting_stays by simp
  then show ?thesis by simp
qed

text \<open>
  Where it falls short: an entry holds a batch, and \<open>get_messages_by_id\<close> means to return every
  message in it; it returns the entry as one message.
\<close>

theorem a_batch_is_read_as_one_message:
  "fst (topics_get_messages_by_id cl env topic ledger entry) = Inr ms \<Longrightarrow> length ms = 1"
  by (auto simp: topics_get_messages_by_id_def rmap_Inr_iff split: sum.splits prod.splits)

end
