(* ===== verification/Admin_Namespaces.thy ===== *)
theory Admin_Namespaces
  imports Admin_Calls
begin

text \<open>
  The namespace operations (\<open>admin/namespaces.rs\<close>), each as the call it makes.
\<close>

definition namespaces_ns_url ::
    "admin_client \<Rightarrow> string \<Rightarrow> string list \<Rightarrow> (error, string) result" where
  "namespaces_ns_url cl namespace segments =
     rmap (\<lambda>(tenant, ns).
       admin_url cl ([''namespaces'', encode_segment tenant, encode_segment ns] @ segments))
       (split_namespace namespace)"

definition namespaces_get_namespaces ::
    "admin_client \<Rightarrow> string \<Rightarrow> (error, admin_call) result" where
  "namespaces_get_namespaces cl tenant =
     Inr (call GET [] No_body Reads_json
       (admin_url cl [''namespaces'', encode_segment tenant]))"

definition namespaces_create_namespace ::
    "admin_client \<Rightarrow> string \<Rightarrow> (error, admin_call) result" where
  "namespaces_create_namespace cl namespace =
     rmap (call PUT [] (Json_body (JObj [])) Reads_nothing)
       (namespaces_ns_url cl namespace [])"

definition namespaces_create_namespace_with_bundles ::
    "admin_client \<Rightarrow> string \<Rightarrow> int \<Rightarrow> (error, admin_call) result" where
  "namespaces_create_namespace_with_bundles cl namespace num_bundles =
     rmap (call PUT [] (Json_body (JObj [(''bundles'', JObj [(''numBundles'', JNum num_bundles)])])) Reads_nothing)
       (namespaces_ns_url cl namespace [])"

definition namespaces_delete_namespace ::
    "admin_client \<Rightarrow> string \<Rightarrow> bool \<Rightarrow> (error, admin_call) result" where
  "namespaces_delete_namespace cl namespace force =
     rmap (call DELETE [(''force'', show_bool force)] No_body Reads_nothing)
       (namespaces_ns_url cl namespace [])"

definition namespaces_get_policies ::
    "admin_client \<Rightarrow> string \<Rightarrow> (error, admin_call) result" where
  "namespaces_get_policies cl namespace =
     rmap (call GET [] No_body Reads_json)
       (namespaces_ns_url cl namespace [])"

definition namespaces_get_namespace_topics ::
    "admin_client \<Rightarrow> string \<Rightarrow> (error, admin_call) result" where
  "namespaces_get_namespace_topics cl namespace =
     rmap (call GET [] No_body Reads_json)
       (namespaces_ns_url cl namespace [''topics''])"

definition namespaces_get_bundles ::
    "admin_client \<Rightarrow> string \<Rightarrow> (error, admin_call) result" where
  "namespaces_get_bundles cl namespace =
     rmap (call GET [] No_body Reads_json)
       (namespaces_ns_url cl namespace [''bundles''])"

definition namespaces_get_permissions ::
    "admin_client \<Rightarrow> string \<Rightarrow> (error, admin_call) result" where
  "namespaces_get_permissions cl namespace =
     rmap (call GET [] No_body Reads_json)
       (namespaces_ns_url cl namespace [''permissions''])"

definition namespaces_grant_permission_on_namespace ::
    "admin_client \<Rightarrow> string \<Rightarrow> string \<Rightarrow> string list \<Rightarrow> (error, admin_call) result" where
  "namespaces_grant_permission_on_namespace cl namespace role actions =
     rmap (call POST [] (Json_body (JArr (map JStr actions))) Reads_nothing)
       (namespaces_ns_url cl namespace [''permissions'', encode_segment role])"

definition namespaces_revoke_permissions_on_namespace ::
    "admin_client \<Rightarrow> string \<Rightarrow> string \<Rightarrow> (error, admin_call) result" where
  "namespaces_revoke_permissions_on_namespace cl namespace role =
     rmap (call DELETE [] No_body Reads_nothing)
       (namespaces_ns_url cl namespace [''permissions'', encode_segment role])"

definition namespaces_grant_permission_on_subscription ::
    "admin_client \<Rightarrow> string \<Rightarrow> string \<Rightarrow> string list \<Rightarrow> (error, admin_call) result" where
  "namespaces_grant_permission_on_subscription cl namespace subscription roles =
     rmap (call POST [] (Json_body (JArr (map JStr roles))) Reads_nothing)
       (namespaces_ns_url cl namespace [''permissions'', ''subscription'', encode_segment subscription])"

definition namespaces_revoke_permission_on_subscription ::
    "admin_client \<Rightarrow> string \<Rightarrow> string \<Rightarrow> string \<Rightarrow> (error, admin_call) result" where
  "namespaces_revoke_permission_on_subscription cl namespace subscription role =
     rmap (call DELETE [] No_body Reads_nothing)
       (namespaces_ns_url cl namespace [''permissions'', encode_segment subscription, encode_segment role])"

definition namespaces_get_namespace_replication_clusters ::
    "admin_client \<Rightarrow> string \<Rightarrow> (error, admin_call) result" where
  "namespaces_get_namespace_replication_clusters cl namespace =
     rmap (call GET [] No_body Reads_json)
       (namespaces_ns_url cl namespace [''replication''])"

definition namespaces_set_namespace_replication_clusters ::
    "admin_client \<Rightarrow> string \<Rightarrow> string list \<Rightarrow> bool \<Rightarrow> (error, admin_call) result" where
  "namespaces_set_namespace_replication_clusters cl namespace clusters compare_topic_partitions =
     rmap (call POST [(''compareTopicPartitions'', show_bool compare_topic_partitions)]
         (Json_body (JArr (map JStr clusters))) Reads_nothing)
       (namespaces_ns_url cl namespace [''replication''])"

definition namespaces_get_backlog_quota_map ::
    "admin_client \<Rightarrow> string \<Rightarrow> (error, admin_call) result" where
  "namespaces_get_backlog_quota_map cl namespace =
     rmap (call GET [] No_body Reads_json)
       (namespaces_ns_url cl namespace [''backlogQuotaMap''])"

definition namespaces_set_backlog_quota ::
    "admin_client \<Rightarrow> string \<Rightarrow> json \<Rightarrow> backlog_quota_type \<Rightarrow> (error, admin_call) result" where
  "namespaces_set_backlog_quota cl namespace quota quota_type =
     rmap (call POST [(''backlogQuotaType'', backlog_quota_type_str quota_type)] (Json_body quota) Reads_nothing)
       (namespaces_ns_url cl namespace [''backlogQuota''])"

definition namespaces_remove_backlog_quota ::
    "admin_client \<Rightarrow> string \<Rightarrow> backlog_quota_type \<Rightarrow> (error, admin_call) result" where
  "namespaces_remove_backlog_quota cl namespace quota_type =
     rmap (call DELETE [(''backlogQuotaType'', backlog_quota_type_str quota_type)] No_body Reads_nothing)
       (namespaces_ns_url cl namespace [''backlogQuota''])"

definition namespaces_unload_namespace ::
    "admin_client \<Rightarrow> string \<Rightarrow> (error, admin_call) result" where
  "namespaces_unload_namespace cl namespace =
     rmap (call PUT [] No_body Reads_nothing)
       (namespaces_ns_url cl namespace [''unload''])"

definition namespaces_unload_namespace_bundle ::
    "admin_client \<Rightarrow> string \<Rightarrow> string \<Rightarrow> (error, admin_call) result" where
  "namespaces_unload_namespace_bundle cl namespace bundle =
     rmap (call PUT [] No_body Reads_nothing)
       (namespaces_ns_url cl namespace [encode_segment bundle, ''unload''])"

definition namespaces_split_namespace_bundle ::
    "admin_client \<Rightarrow> string \<Rightarrow> string \<Rightarrow> bool \<Rightarrow> (error, admin_call) result" where
  "namespaces_split_namespace_bundle cl namespace bundle unload_split_bundles =
     rmap (call PUT [(''unload'', show_bool unload_split_bundles)] No_body Reads_nothing)
       (namespaces_ns_url cl namespace [encode_segment bundle, ''split''])"

definition namespaces_clear_namespace_backlog ::
    "admin_client \<Rightarrow> string \<Rightarrow> (error, admin_call) result" where
  "namespaces_clear_namespace_backlog cl namespace =
     rmap (call POST [] No_body Reads_nothing)
       (namespaces_ns_url cl namespace [''clearBacklog''])"

definition namespaces_clear_namespace_backlog_for_subscription ::
    "admin_client \<Rightarrow> string \<Rightarrow> string \<Rightarrow> (error, admin_call) result" where
  "namespaces_clear_namespace_backlog_for_subscription cl namespace subscription =
     rmap (call POST [] No_body Reads_nothing)
       (namespaces_ns_url cl namespace [''clearBacklog'', encode_segment subscription])"

definition namespaces_clear_namespace_bundle_backlog ::
    "admin_client \<Rightarrow> string \<Rightarrow> string \<Rightarrow> (error, admin_call) result" where
  "namespaces_clear_namespace_bundle_backlog cl namespace bundle =
     rmap (call POST [] No_body Reads_nothing)
       (namespaces_ns_url cl namespace [encode_segment bundle, ''clearBacklog''])"

definition namespaces_clear_namespace_bundle_backlog_for_subscription ::
    "admin_client \<Rightarrow> string \<Rightarrow> string \<Rightarrow> string \<Rightarrow> (error, admin_call) result" where
  "namespaces_clear_namespace_bundle_backlog_for_subscription cl namespace bundle subscription =
     rmap (call POST [] No_body Reads_nothing)
       (namespaces_ns_url cl namespace [encode_segment bundle, ''clearBacklog'', encode_segment subscription])"

definition namespaces_unsubscribe_namespace_bundle ::
    "admin_client \<Rightarrow> string \<Rightarrow> string \<Rightarrow> string \<Rightarrow> (error, admin_call) result" where
  "namespaces_unsubscribe_namespace_bundle cl namespace bundle subscription =
     rmap (call POST [] No_body Reads_nothing)
       (namespaces_ns_url cl namespace [encode_segment bundle, ''unsubscribe'', encode_segment subscription])"

definition namespaces_unsubscribe_namespace ::
    "admin_client \<Rightarrow> string \<Rightarrow> string \<Rightarrow> (error, admin_call) result" where
  "namespaces_unsubscribe_namespace cl namespace subscription =
     rmap (call POST [] No_body Reads_nothing)
       (namespaces_ns_url cl namespace [''unsubscribe'', encode_segment subscription])"

definition namespaces_get_namespace_properties ::
    "admin_client \<Rightarrow> string \<Rightarrow> (error, admin_call) result" where
  "namespaces_get_namespace_properties cl namespace =
     rmap (call GET [] No_body Reads_json)
       (namespaces_ns_url cl namespace [''properties''])"

definition namespaces_set_namespace_properties ::
    "admin_client \<Rightarrow> string \<Rightarrow> json \<Rightarrow> (error, admin_call) result" where
  "namespaces_set_namespace_properties cl namespace properties =
     rmap (call PUT [] (Json_body properties) Reads_nothing)
       (namespaces_ns_url cl namespace [''properties''])"

definition namespaces_clear_namespace_properties ::
    "admin_client \<Rightarrow> string \<Rightarrow> (error, admin_call) result" where
  "namespaces_clear_namespace_properties cl namespace =
     rmap (call DELETE [] No_body Reads_nothing)
       (namespaces_ns_url cl namespace [''properties''])"

definition namespaces_set_namespace_property ::
    "admin_client \<Rightarrow> string \<Rightarrow> string \<Rightarrow> string \<Rightarrow> (error, admin_call) result" where
  "namespaces_set_namespace_property cl namespace key v =
     rmap (call PUT [] No_body Reads_nothing)
       (namespaces_ns_url cl namespace [''property'', encode_segment key, encode_segment v])"

definition namespaces_remove_namespace_property ::
    "admin_client \<Rightarrow> string \<Rightarrow> string \<Rightarrow> (error, admin_call) result" where
  "namespaces_remove_namespace_property cl namespace key =
     rmap (call DELETE [] No_body Reads_text_opt)
       (namespaces_ns_url cl namespace [''property'', encode_segment key])"

definition namespaces_get_message_ttl ::
    "admin_client \<Rightarrow> string \<Rightarrow> (error, admin_call) result" where
  "namespaces_get_message_ttl cl namespace =
     rmap (call GET [] No_body Reads_json_opt)
       (namespaces_ns_url cl namespace [''messageTTL''])"

definition namespaces_set_message_ttl ::
    "admin_client \<Rightarrow> string \<Rightarrow> int \<Rightarrow> (error, admin_call) result" where
  "namespaces_set_message_ttl cl namespace v =
     rmap (call POST [] (Json_body (JNum v)) Reads_nothing)
       (namespaces_ns_url cl namespace [''messageTTL''])"

definition namespaces_remove_message_ttl ::
    "admin_client \<Rightarrow> string \<Rightarrow> (error, admin_call) result" where
  "namespaces_remove_message_ttl cl namespace =
     rmap (call DELETE [] No_body Reads_nothing)
       (namespaces_ns_url cl namespace [''messageTTL''])"

definition namespaces_get_subscription_expiration_time ::
    "admin_client \<Rightarrow> string \<Rightarrow> (error, admin_call) result" where
  "namespaces_get_subscription_expiration_time cl namespace =
     rmap (call GET [] No_body Reads_json_opt)
       (namespaces_ns_url cl namespace [''subscriptionExpirationTime''])"

definition namespaces_set_subscription_expiration_time ::
    "admin_client \<Rightarrow> string \<Rightarrow> int \<Rightarrow> (error, admin_call) result" where
  "namespaces_set_subscription_expiration_time cl namespace v =
     rmap (call POST [] (Json_body (JNum v)) Reads_nothing)
       (namespaces_ns_url cl namespace [''subscriptionExpirationTime''])"

definition namespaces_remove_subscription_expiration_time ::
    "admin_client \<Rightarrow> string \<Rightarrow> (error, admin_call) result" where
  "namespaces_remove_subscription_expiration_time cl namespace =
     rmap (call DELETE [] No_body Reads_nothing)
       (namespaces_ns_url cl namespace [''subscriptionExpirationTime''])"

definition namespaces_get_max_producers_per_topic ::
    "admin_client \<Rightarrow> string \<Rightarrow> (error, admin_call) result" where
  "namespaces_get_max_producers_per_topic cl namespace =
     rmap (call GET [] No_body Reads_json_opt)
       (namespaces_ns_url cl namespace [''maxProducersPerTopic''])"

definition namespaces_set_max_producers_per_topic ::
    "admin_client \<Rightarrow> string \<Rightarrow> int \<Rightarrow> (error, admin_call) result" where
  "namespaces_set_max_producers_per_topic cl namespace v =
     rmap (call POST [] (Json_body (JNum v)) Reads_nothing)
       (namespaces_ns_url cl namespace [''maxProducersPerTopic''])"

definition namespaces_remove_max_producers_per_topic ::
    "admin_client \<Rightarrow> string \<Rightarrow> (error, admin_call) result" where
  "namespaces_remove_max_producers_per_topic cl namespace =
     rmap (call DELETE [] No_body Reads_nothing)
       (namespaces_ns_url cl namespace [''maxProducersPerTopic''])"

definition namespaces_get_max_consumers_per_topic ::
    "admin_client \<Rightarrow> string \<Rightarrow> (error, admin_call) result" where
  "namespaces_get_max_consumers_per_topic cl namespace =
     rmap (call GET [] No_body Reads_json_opt)
       (namespaces_ns_url cl namespace [''maxConsumersPerTopic''])"

definition namespaces_set_max_consumers_per_topic ::
    "admin_client \<Rightarrow> string \<Rightarrow> int \<Rightarrow> (error, admin_call) result" where
  "namespaces_set_max_consumers_per_topic cl namespace v =
     rmap (call POST [] (Json_body (JNum v)) Reads_nothing)
       (namespaces_ns_url cl namespace [''maxConsumersPerTopic''])"

definition namespaces_remove_max_consumers_per_topic ::
    "admin_client \<Rightarrow> string \<Rightarrow> (error, admin_call) result" where
  "namespaces_remove_max_consumers_per_topic cl namespace =
     rmap (call DELETE [] No_body Reads_nothing)
       (namespaces_ns_url cl namespace [''maxConsumersPerTopic''])"

definition namespaces_get_max_consumers_per_subscription ::
    "admin_client \<Rightarrow> string \<Rightarrow> (error, admin_call) result" where
  "namespaces_get_max_consumers_per_subscription cl namespace =
     rmap (call GET [] No_body Reads_json_opt)
       (namespaces_ns_url cl namespace [''maxConsumersPerSubscription''])"

definition namespaces_set_max_consumers_per_subscription ::
    "admin_client \<Rightarrow> string \<Rightarrow> int \<Rightarrow> (error, admin_call) result" where
  "namespaces_set_max_consumers_per_subscription cl namespace v =
     rmap (call POST [] (Json_body (JNum v)) Reads_nothing)
       (namespaces_ns_url cl namespace [''maxConsumersPerSubscription''])"

definition namespaces_remove_max_consumers_per_subscription ::
    "admin_client \<Rightarrow> string \<Rightarrow> (error, admin_call) result" where
  "namespaces_remove_max_consumers_per_subscription cl namespace =
     rmap (call DELETE [] No_body Reads_nothing)
       (namespaces_ns_url cl namespace [''maxConsumersPerSubscription''])"

definition namespaces_get_max_unacked_messages_per_consumer ::
    "admin_client \<Rightarrow> string \<Rightarrow> (error, admin_call) result" where
  "namespaces_get_max_unacked_messages_per_consumer cl namespace =
     rmap (call GET [] No_body Reads_json_opt)
       (namespaces_ns_url cl namespace [''maxUnackedMessagesPerConsumer''])"

definition namespaces_set_max_unacked_messages_per_consumer ::
    "admin_client \<Rightarrow> string \<Rightarrow> int \<Rightarrow> (error, admin_call) result" where
  "namespaces_set_max_unacked_messages_per_consumer cl namespace v =
     rmap (call POST [] (Json_body (JNum v)) Reads_nothing)
       (namespaces_ns_url cl namespace [''maxUnackedMessagesPerConsumer''])"

definition namespaces_remove_max_unacked_messages_per_consumer ::
    "admin_client \<Rightarrow> string \<Rightarrow> (error, admin_call) result" where
  "namespaces_remove_max_unacked_messages_per_consumer cl namespace =
     rmap (call DELETE [] No_body Reads_nothing)
       (namespaces_ns_url cl namespace [''maxUnackedMessagesPerConsumer''])"

definition namespaces_get_max_unacked_messages_per_subscription ::
    "admin_client \<Rightarrow> string \<Rightarrow> (error, admin_call) result" where
  "namespaces_get_max_unacked_messages_per_subscription cl namespace =
     rmap (call GET [] No_body Reads_json_opt)
       (namespaces_ns_url cl namespace [''maxUnackedMessagesPerSubscription''])"

definition namespaces_set_max_unacked_messages_per_subscription ::
    "admin_client \<Rightarrow> string \<Rightarrow> int \<Rightarrow> (error, admin_call) result" where
  "namespaces_set_max_unacked_messages_per_subscription cl namespace v =
     rmap (call POST [] (Json_body (JNum v)) Reads_nothing)
       (namespaces_ns_url cl namespace [''maxUnackedMessagesPerSubscription''])"

definition namespaces_remove_max_unacked_messages_per_subscription ::
    "admin_client \<Rightarrow> string \<Rightarrow> (error, admin_call) result" where
  "namespaces_remove_max_unacked_messages_per_subscription cl namespace =
     rmap (call DELETE [] No_body Reads_nothing)
       (namespaces_ns_url cl namespace [''maxUnackedMessagesPerSubscription''])"

definition namespaces_get_max_subscriptions_per_topic ::
    "admin_client \<Rightarrow> string \<Rightarrow> (error, admin_call) result" where
  "namespaces_get_max_subscriptions_per_topic cl namespace =
     rmap (call GET [] No_body Reads_json_opt)
       (namespaces_ns_url cl namespace [''maxSubscriptionsPerTopic''])"

definition namespaces_set_max_subscriptions_per_topic ::
    "admin_client \<Rightarrow> string \<Rightarrow> int \<Rightarrow> (error, admin_call) result" where
  "namespaces_set_max_subscriptions_per_topic cl namespace v =
     rmap (call POST [] (Json_body (JNum v)) Reads_nothing)
       (namespaces_ns_url cl namespace [''maxSubscriptionsPerTopic''])"

definition namespaces_remove_max_subscriptions_per_topic ::
    "admin_client \<Rightarrow> string \<Rightarrow> (error, admin_call) result" where
  "namespaces_remove_max_subscriptions_per_topic cl namespace =
     rmap (call DELETE [] No_body Reads_nothing)
       (namespaces_ns_url cl namespace [''maxSubscriptionsPerTopic''])"

definition namespaces_get_max_topics_per_namespace ::
    "admin_client \<Rightarrow> string \<Rightarrow> (error, admin_call) result" where
  "namespaces_get_max_topics_per_namespace cl namespace =
     rmap (call GET [] No_body Reads_json_opt)
       (namespaces_ns_url cl namespace [''maxTopicsPerNamespace''])"

definition namespaces_set_max_topics_per_namespace ::
    "admin_client \<Rightarrow> string \<Rightarrow> int \<Rightarrow> (error, admin_call) result" where
  "namespaces_set_max_topics_per_namespace cl namespace v =
     rmap (call POST [] (Json_body (JNum v)) Reads_nothing)
       (namespaces_ns_url cl namespace [''maxTopicsPerNamespace''])"

definition namespaces_remove_max_topics_per_namespace ::
    "admin_client \<Rightarrow> string \<Rightarrow> (error, admin_call) result" where
  "namespaces_remove_max_topics_per_namespace cl namespace =
     rmap (call DELETE [] No_body Reads_nothing)
       (namespaces_ns_url cl namespace [''maxTopicsPerNamespace''])"

definition namespaces_get_deduplication_snapshot_interval ::
    "admin_client \<Rightarrow> string \<Rightarrow> (error, admin_call) result" where
  "namespaces_get_deduplication_snapshot_interval cl namespace =
     rmap (call GET [] No_body Reads_json_opt)
       (namespaces_ns_url cl namespace [''deduplicationSnapshotInterval''])"

definition namespaces_set_deduplication_snapshot_interval ::
    "admin_client \<Rightarrow> string \<Rightarrow> int \<Rightarrow> (error, admin_call) result" where
  "namespaces_set_deduplication_snapshot_interval cl namespace v =
     rmap (call POST [] (Json_body (JNum v)) Reads_nothing)
       (namespaces_ns_url cl namespace [''deduplicationSnapshotInterval''])"

definition namespaces_remove_deduplication_snapshot_interval ::
    "admin_client \<Rightarrow> string \<Rightarrow> (error, admin_call) result" where
  "namespaces_remove_deduplication_snapshot_interval cl namespace =
     rmap (call POST [] (Json_body JNull) Reads_nothing)
       (namespaces_ns_url cl namespace [''deduplicationSnapshotInterval''])"

definition namespaces_get_compaction_threshold ::
    "admin_client \<Rightarrow> string \<Rightarrow> (error, admin_call) result" where
  "namespaces_get_compaction_threshold cl namespace =
     rmap (call GET [] No_body Reads_json_opt)
       (namespaces_ns_url cl namespace [''compactionThreshold''])"

definition namespaces_set_compaction_threshold ::
    "admin_client \<Rightarrow> string \<Rightarrow> int \<Rightarrow> (error, admin_call) result" where
  "namespaces_set_compaction_threshold cl namespace v =
     rmap (call PUT [] (Json_body (JNum v)) Reads_nothing)
       (namespaces_ns_url cl namespace [''compactionThreshold''])"

definition namespaces_remove_compaction_threshold ::
    "admin_client \<Rightarrow> string \<Rightarrow> (error, admin_call) result" where
  "namespaces_remove_compaction_threshold cl namespace =
     rmap (call DELETE [] No_body Reads_nothing)
       (namespaces_ns_url cl namespace [''compactionThreshold''])"

definition namespaces_get_offload_threshold ::
    "admin_client \<Rightarrow> string \<Rightarrow> (error, admin_call) result" where
  "namespaces_get_offload_threshold cl namespace =
     rmap (call GET [] No_body Reads_json_opt)
       (namespaces_ns_url cl namespace [''offloadThreshold''])"

definition namespaces_set_offload_threshold ::
    "admin_client \<Rightarrow> string \<Rightarrow> int \<Rightarrow> (error, admin_call) result" where
  "namespaces_set_offload_threshold cl namespace v =
     rmap (call PUT [] (Json_body (JNum v)) Reads_nothing)
       (namespaces_ns_url cl namespace [''offloadThreshold''])"

definition namespaces_get_offload_threshold_in_seconds ::
    "admin_client \<Rightarrow> string \<Rightarrow> (error, admin_call) result" where
  "namespaces_get_offload_threshold_in_seconds cl namespace =
     rmap (call GET [] No_body Reads_json_opt)
       (namespaces_ns_url cl namespace [''offloadThresholdInSeconds''])"

definition namespaces_set_offload_threshold_in_seconds ::
    "admin_client \<Rightarrow> string \<Rightarrow> int \<Rightarrow> (error, admin_call) result" where
  "namespaces_set_offload_threshold_in_seconds cl namespace v =
     rmap (call PUT [] (Json_body (JNum v)) Reads_nothing)
       (namespaces_ns_url cl namespace [''offloadThresholdInSeconds''])"

definition namespaces_get_offload_deletion_lag ::
    "admin_client \<Rightarrow> string \<Rightarrow> (error, admin_call) result" where
  "namespaces_get_offload_deletion_lag cl namespace =
     rmap (call GET [] No_body Reads_json_opt)
       (namespaces_ns_url cl namespace [''offloadDeletionLagMs''])"

definition namespaces_set_offload_deletion_lag ::
    "admin_client \<Rightarrow> string \<Rightarrow> int \<Rightarrow> (error, admin_call) result" where
  "namespaces_set_offload_deletion_lag cl namespace v =
     rmap (call PUT [] (Json_body (JNum v)) Reads_nothing)
       (namespaces_ns_url cl namespace [''offloadDeletionLagMs''])"

definition namespaces_remove_offload_deletion_lag ::
    "admin_client \<Rightarrow> string \<Rightarrow> (error, admin_call) result" where
  "namespaces_remove_offload_deletion_lag cl namespace =
     rmap (call DELETE [] No_body Reads_nothing)
       (namespaces_ns_url cl namespace [''offloadDeletionLagMs''])"

definition namespaces_get_deduplication_status ::
    "admin_client \<Rightarrow> string \<Rightarrow> (error, admin_call) result" where
  "namespaces_get_deduplication_status cl namespace =
     rmap (call GET [] No_body Reads_json_opt)
       (namespaces_ns_url cl namespace [''deduplication''])"

definition namespaces_set_deduplication_status ::
    "admin_client \<Rightarrow> string \<Rightarrow> bool \<Rightarrow> (error, admin_call) result" where
  "namespaces_set_deduplication_status cl namespace v =
     rmap (call POST [] (Json_body (JBool v)) Reads_nothing)
       (namespaces_ns_url cl namespace [''deduplication''])"

definition namespaces_remove_deduplication_status ::
    "admin_client \<Rightarrow> string \<Rightarrow> (error, admin_call) result" where
  "namespaces_remove_deduplication_status cl namespace =
     rmap (call DELETE [] No_body Reads_nothing)
       (namespaces_ns_url cl namespace [''deduplication''])"

definition namespaces_get_encryption_required_status ::
    "admin_client \<Rightarrow> string \<Rightarrow> (error, admin_call) result" where
  "namespaces_get_encryption_required_status cl namespace =
     rmap (call GET [] No_body Reads_json_opt)
       (namespaces_ns_url cl namespace [''encryptionRequired''])"

definition namespaces_set_encryption_required_status ::
    "admin_client \<Rightarrow> string \<Rightarrow> bool \<Rightarrow> (error, admin_call) result" where
  "namespaces_set_encryption_required_status cl namespace v =
     rmap (call POST [] (Json_body (JBool v)) Reads_nothing)
       (namespaces_ns_url cl namespace [''encryptionRequired''])"

definition namespaces_get_schema_validation_enforced ::
    "admin_client \<Rightarrow> string \<Rightarrow> (error, admin_call) result" where
  "namespaces_get_schema_validation_enforced cl namespace =
     rmap (call GET [] No_body Reads_json_opt)
       (namespaces_ns_url cl namespace [''schemaValidationEnforced''])"

definition namespaces_set_schema_validation_enforced ::
    "admin_client \<Rightarrow> string \<Rightarrow> bool \<Rightarrow> (error, admin_call) result" where
  "namespaces_set_schema_validation_enforced cl namespace v =
     rmap (call POST [] (Json_body (JBool v)) Reads_nothing)
       (namespaces_ns_url cl namespace [''schemaValidationEnforced''])"

definition namespaces_get_is_allow_auto_update_schema ::
    "admin_client \<Rightarrow> string \<Rightarrow> (error, admin_call) result" where
  "namespaces_get_is_allow_auto_update_schema cl namespace =
     rmap (call GET [] No_body Reads_json_opt)
       (namespaces_ns_url cl namespace [''isAllowAutoUpdateSchema''])"

definition namespaces_set_is_allow_auto_update_schema ::
    "admin_client \<Rightarrow> string \<Rightarrow> bool \<Rightarrow> (error, admin_call) result" where
  "namespaces_set_is_allow_auto_update_schema cl namespace v =
     rmap (call POST [] (Json_body (JBool v)) Reads_nothing)
       (namespaces_ns_url cl namespace [''isAllowAutoUpdateSchema''])"

definition namespaces_get_dispatcher_pause_on_ack_state_persistent ::
    "admin_client \<Rightarrow> string \<Rightarrow> (error, admin_call) result" where
  "namespaces_get_dispatcher_pause_on_ack_state_persistent cl namespace =
     rmap (call GET [] No_body Reads_json_opt)
       (namespaces_ns_url cl namespace [''dispatcherPauseOnAckStatePersistent''])"

definition namespaces_set_dispatcher_pause_on_ack_state_persistent ::
    "admin_client \<Rightarrow> string \<Rightarrow> (error, admin_call) result" where
  "namespaces_set_dispatcher_pause_on_ack_state_persistent cl namespace =
     rmap (call POST [] (Json_body (JStr '''')) Reads_nothing)
       (namespaces_ns_url cl namespace [''dispatcherPauseOnAckStatePersistent''])"

definition namespaces_remove_dispatcher_pause_on_ack_state_persistent ::
    "admin_client \<Rightarrow> string \<Rightarrow> (error, admin_call) result" where
  "namespaces_remove_dispatcher_pause_on_ack_state_persistent cl namespace =
     rmap (call DELETE [] No_body Reads_nothing)
       (namespaces_ns_url cl namespace [''dispatcherPauseOnAckStatePersistent''])"

definition namespaces_get_namespace_anti_affinity_group ::
    "admin_client \<Rightarrow> string \<Rightarrow> (error, admin_call) result" where
  "namespaces_get_namespace_anti_affinity_group cl namespace =
     rmap (call GET [] No_body Reads_text_opt)
       (namespaces_ns_url cl namespace [''antiAffinity''])"

definition namespaces_set_namespace_anti_affinity_group ::
    "admin_client \<Rightarrow> string \<Rightarrow> string \<Rightarrow> (error, admin_call) result" where
  "namespaces_set_namespace_anti_affinity_group cl namespace v =
     rmap (call POST [] (Raw_body v) Reads_nothing)
       (namespaces_ns_url cl namespace [''antiAffinity''])"

definition namespaces_remove_namespace_anti_affinity_group ::
    "admin_client \<Rightarrow> string \<Rightarrow> (error, admin_call) result" where
  "namespaces_remove_namespace_anti_affinity_group cl namespace =
     rmap (call DELETE [] No_body Reads_nothing)
       (namespaces_ns_url cl namespace [''antiAffinity''])"

definition namespaces_get_namespace_resource_group ::
    "admin_client \<Rightarrow> string \<Rightarrow> (error, admin_call) result" where
  "namespaces_get_namespace_resource_group cl namespace =
     rmap (call GET [] No_body Reads_text_opt)
       (namespaces_ns_url cl namespace [''resourcegroup''])"

definition namespaces_set_namespace_resource_group ::
    "admin_client \<Rightarrow> string \<Rightarrow> string \<Rightarrow> (error, admin_call) result" where
  "namespaces_set_namespace_resource_group cl namespace v =
     rmap (call POST [] No_body Reads_nothing)
       (namespaces_ns_url cl namespace [''resourcegroup'', encode_segment v])"

definition namespaces_remove_namespace_resource_group ::
    "admin_client \<Rightarrow> string \<Rightarrow> (error, admin_call) result" where
  "namespaces_remove_namespace_resource_group cl namespace =
     rmap (call DELETE [] No_body Reads_nothing)
       (namespaces_ns_url cl namespace [''resourcegroup''])"

definition namespaces_get_subscription_auth_mode ::
    "admin_client \<Rightarrow> string \<Rightarrow> (error, admin_call) result" where
  "namespaces_get_subscription_auth_mode cl namespace =
     rmap (call GET [] No_body Reads_json_opt)
       (namespaces_ns_url cl namespace [''subscriptionAuthMode''])"

definition namespaces_set_subscription_auth_mode ::
    "admin_client \<Rightarrow> string \<Rightarrow> json \<Rightarrow> (error, admin_call) result" where
  "namespaces_set_subscription_auth_mode cl namespace v =
     rmap (call POST [] (Json_body v) Reads_nothing)
       (namespaces_ns_url cl namespace [''subscriptionAuthMode''])"

definition namespaces_get_schema_compatibility_strategy ::
    "admin_client \<Rightarrow> string \<Rightarrow> (error, admin_call) result" where
  "namespaces_get_schema_compatibility_strategy cl namespace =
     rmap (call GET [] No_body Reads_json_opt)
       (namespaces_ns_url cl namespace [''schemaCompatibilityStrategy''])"

definition namespaces_set_schema_compatibility_strategy ::
    "admin_client \<Rightarrow> string \<Rightarrow> json \<Rightarrow> (error, admin_call) result" where
  "namespaces_set_schema_compatibility_strategy cl namespace v =
     rmap (call PUT [] (Json_body v) Reads_nothing)
       (namespaces_ns_url cl namespace [''schemaCompatibilityStrategy''])"

definition namespaces_get_retention ::
    "admin_client \<Rightarrow> string \<Rightarrow> (error, admin_call) result" where
  "namespaces_get_retention cl namespace =
     rmap (call GET [] No_body Reads_json_opt)
       (namespaces_ns_url cl namespace [''retention''])"

definition namespaces_set_retention ::
    "admin_client \<Rightarrow> string \<Rightarrow> json \<Rightarrow> (error, admin_call) result" where
  "namespaces_set_retention cl namespace v =
     rmap (call POST [] (Json_body v) Reads_nothing)
       (namespaces_ns_url cl namespace [''retention''])"

definition namespaces_remove_retention ::
    "admin_client \<Rightarrow> string \<Rightarrow> (error, admin_call) result" where
  "namespaces_remove_retention cl namespace =
     rmap (call DELETE [] No_body Reads_nothing)
       (namespaces_ns_url cl namespace [''retention''])"

definition namespaces_get_persistence ::
    "admin_client \<Rightarrow> string \<Rightarrow> (error, admin_call) result" where
  "namespaces_get_persistence cl namespace =
     rmap (call GET [] No_body Reads_json_opt)
       (namespaces_ns_url cl namespace [''persistence''])"

definition namespaces_set_persistence ::
    "admin_client \<Rightarrow> string \<Rightarrow> json \<Rightarrow> (error, admin_call) result" where
  "namespaces_set_persistence cl namespace v =
     rmap (call POST [] (Json_body v) Reads_nothing)
       (namespaces_ns_url cl namespace [''persistence''])"

definition namespaces_remove_persistence ::
    "admin_client \<Rightarrow> string \<Rightarrow> (error, admin_call) result" where
  "namespaces_remove_persistence cl namespace =
     rmap (call DELETE [] No_body Reads_nothing)
       (namespaces_ns_url cl namespace [''persistence''])"

definition namespaces_get_dispatch_rate ::
    "admin_client \<Rightarrow> string \<Rightarrow> (error, admin_call) result" where
  "namespaces_get_dispatch_rate cl namespace =
     rmap (call GET [] No_body Reads_json_opt)
       (namespaces_ns_url cl namespace [''dispatchRate''])"

definition namespaces_set_dispatch_rate ::
    "admin_client \<Rightarrow> string \<Rightarrow> json \<Rightarrow> (error, admin_call) result" where
  "namespaces_set_dispatch_rate cl namespace v =
     rmap (call POST [] (Json_body v) Reads_nothing)
       (namespaces_ns_url cl namespace [''dispatchRate''])"

definition namespaces_remove_dispatch_rate ::
    "admin_client \<Rightarrow> string \<Rightarrow> (error, admin_call) result" where
  "namespaces_remove_dispatch_rate cl namespace =
     rmap (call DELETE [] No_body Reads_nothing)
       (namespaces_ns_url cl namespace [''dispatchRate''])"

definition namespaces_get_subscription_dispatch_rate ::
    "admin_client \<Rightarrow> string \<Rightarrow> (error, admin_call) result" where
  "namespaces_get_subscription_dispatch_rate cl namespace =
     rmap (call GET [] No_body Reads_json_opt)
       (namespaces_ns_url cl namespace [''subscriptionDispatchRate''])"

definition namespaces_set_subscription_dispatch_rate ::
    "admin_client \<Rightarrow> string \<Rightarrow> json \<Rightarrow> (error, admin_call) result" where
  "namespaces_set_subscription_dispatch_rate cl namespace v =
     rmap (call POST [] (Json_body v) Reads_nothing)
       (namespaces_ns_url cl namespace [''subscriptionDispatchRate''])"

definition namespaces_remove_subscription_dispatch_rate ::
    "admin_client \<Rightarrow> string \<Rightarrow> (error, admin_call) result" where
  "namespaces_remove_subscription_dispatch_rate cl namespace =
     rmap (call DELETE [] No_body Reads_nothing)
       (namespaces_ns_url cl namespace [''subscriptionDispatchRate''])"

definition namespaces_get_replicator_dispatch_rate ::
    "admin_client \<Rightarrow> string \<Rightarrow> (error, admin_call) result" where
  "namespaces_get_replicator_dispatch_rate cl namespace =
     rmap (call GET [] No_body Reads_json_opt)
       (namespaces_ns_url cl namespace [''replicatorDispatchRate''])"

definition namespaces_set_replicator_dispatch_rate ::
    "admin_client \<Rightarrow> string \<Rightarrow> json \<Rightarrow> (error, admin_call) result" where
  "namespaces_set_replicator_dispatch_rate cl namespace v =
     rmap (call POST [] (Json_body v) Reads_nothing)
       (namespaces_ns_url cl namespace [''replicatorDispatchRate''])"

definition namespaces_remove_replicator_dispatch_rate ::
    "admin_client \<Rightarrow> string \<Rightarrow> (error, admin_call) result" where
  "namespaces_remove_replicator_dispatch_rate cl namespace =
     rmap (call DELETE [] No_body Reads_nothing)
       (namespaces_ns_url cl namespace [''replicatorDispatchRate''])"

definition namespaces_get_publish_rate ::
    "admin_client \<Rightarrow> string \<Rightarrow> (error, admin_call) result" where
  "namespaces_get_publish_rate cl namespace =
     rmap (call GET [] No_body Reads_json_opt)
       (namespaces_ns_url cl namespace [''publishRate''])"

definition namespaces_set_publish_rate ::
    "admin_client \<Rightarrow> string \<Rightarrow> json \<Rightarrow> (error, admin_call) result" where
  "namespaces_set_publish_rate cl namespace v =
     rmap (call POST [] (Json_body v) Reads_nothing)
       (namespaces_ns_url cl namespace [''publishRate''])"

definition namespaces_remove_publish_rate ::
    "admin_client \<Rightarrow> string \<Rightarrow> (error, admin_call) result" where
  "namespaces_remove_publish_rate cl namespace =
     rmap (call DELETE [] No_body Reads_nothing)
       (namespaces_ns_url cl namespace [''publishRate''])"

definition namespaces_get_subscribe_rate ::
    "admin_client \<Rightarrow> string \<Rightarrow> (error, admin_call) result" where
  "namespaces_get_subscribe_rate cl namespace =
     rmap (call GET [] No_body Reads_json_opt)
       (namespaces_ns_url cl namespace [''subscribeRate''])"

definition namespaces_set_subscribe_rate ::
    "admin_client \<Rightarrow> string \<Rightarrow> json \<Rightarrow> (error, admin_call) result" where
  "namespaces_set_subscribe_rate cl namespace v =
     rmap (call POST [] (Json_body v) Reads_nothing)
       (namespaces_ns_url cl namespace [''subscribeRate''])"

definition namespaces_remove_subscribe_rate ::
    "admin_client \<Rightarrow> string \<Rightarrow> (error, admin_call) result" where
  "namespaces_remove_subscribe_rate cl namespace =
     rmap (call DELETE [] No_body Reads_nothing)
       (namespaces_ns_url cl namespace [''subscribeRate''])"

definition namespaces_get_inactive_topic_policies ::
    "admin_client \<Rightarrow> string \<Rightarrow> (error, admin_call) result" where
  "namespaces_get_inactive_topic_policies cl namespace =
     rmap (call GET [] No_body Reads_json_opt)
       (namespaces_ns_url cl namespace [''inactiveTopicPolicies''])"

definition namespaces_set_inactive_topic_policies ::
    "admin_client \<Rightarrow> string \<Rightarrow> json \<Rightarrow> (error, admin_call) result" where
  "namespaces_set_inactive_topic_policies cl namespace v =
     rmap (call POST [] (Json_body v) Reads_nothing)
       (namespaces_ns_url cl namespace [''inactiveTopicPolicies''])"

definition namespaces_remove_inactive_topic_policies ::
    "admin_client \<Rightarrow> string \<Rightarrow> (error, admin_call) result" where
  "namespaces_remove_inactive_topic_policies cl namespace =
     rmap (call DELETE [] No_body Reads_nothing)
       (namespaces_ns_url cl namespace [''inactiveTopicPolicies''])"

definition namespaces_get_delayed_delivery_messages ::
    "admin_client \<Rightarrow> string \<Rightarrow> (error, admin_call) result" where
  "namespaces_get_delayed_delivery_messages cl namespace =
     rmap (call GET [] No_body Reads_json_opt)
       (namespaces_ns_url cl namespace [''delayedDelivery''])"

definition namespaces_set_delayed_delivery_messages ::
    "admin_client \<Rightarrow> string \<Rightarrow> json \<Rightarrow> (error, admin_call) result" where
  "namespaces_set_delayed_delivery_messages cl namespace v =
     rmap (call POST [] (Json_body v) Reads_nothing)
       (namespaces_ns_url cl namespace [''delayedDelivery''])"

definition namespaces_remove_delayed_delivery_messages ::
    "admin_client \<Rightarrow> string \<Rightarrow> (error, admin_call) result" where
  "namespaces_remove_delayed_delivery_messages cl namespace =
     rmap (call DELETE [] No_body Reads_nothing)
       (namespaces_ns_url cl namespace [''delayedDelivery''])"

definition namespaces_get_auto_topic_creation ::
    "admin_client \<Rightarrow> string \<Rightarrow> (error, admin_call) result" where
  "namespaces_get_auto_topic_creation cl namespace =
     rmap (call GET [] No_body Reads_json_opt)
       (namespaces_ns_url cl namespace [''autoTopicCreation''])"

definition namespaces_set_auto_topic_creation ::
    "admin_client \<Rightarrow> string \<Rightarrow> json \<Rightarrow> (error, admin_call) result" where
  "namespaces_set_auto_topic_creation cl namespace v =
     rmap (call POST [] (Json_body v) Reads_nothing)
       (namespaces_ns_url cl namespace [''autoTopicCreation''])"

definition namespaces_remove_auto_topic_creation ::
    "admin_client \<Rightarrow> string \<Rightarrow> (error, admin_call) result" where
  "namespaces_remove_auto_topic_creation cl namespace =
     rmap (call DELETE [] No_body Reads_nothing)
       (namespaces_ns_url cl namespace [''autoTopicCreation''])"

definition namespaces_get_auto_subscription_creation ::
    "admin_client \<Rightarrow> string \<Rightarrow> (error, admin_call) result" where
  "namespaces_get_auto_subscription_creation cl namespace =
     rmap (call GET [] No_body Reads_json_opt)
       (namespaces_ns_url cl namespace [''autoSubscriptionCreation''])"

definition namespaces_set_auto_subscription_creation ::
    "admin_client \<Rightarrow> string \<Rightarrow> json \<Rightarrow> (error, admin_call) result" where
  "namespaces_set_auto_subscription_creation cl namespace v =
     rmap (call POST [] (Json_body v) Reads_nothing)
       (namespaces_ns_url cl namespace [''autoSubscriptionCreation''])"

definition namespaces_remove_auto_subscription_creation ::
    "admin_client \<Rightarrow> string \<Rightarrow> (error, admin_call) result" where
  "namespaces_remove_auto_subscription_creation cl namespace =
     rmap (call DELETE [] No_body Reads_nothing)
       (namespaces_ns_url cl namespace [''autoSubscriptionCreation''])"

definition namespaces_get_namespace_entry_filters ::
    "admin_client \<Rightarrow> string \<Rightarrow> (error, admin_call) result" where
  "namespaces_get_namespace_entry_filters cl namespace =
     rmap (call GET [] No_body Reads_json_opt)
       (namespaces_ns_url cl namespace [''entryFilters''])"

definition namespaces_set_namespace_entry_filters ::
    "admin_client \<Rightarrow> string \<Rightarrow> json \<Rightarrow> (error, admin_call) result" where
  "namespaces_set_namespace_entry_filters cl namespace v =
     rmap (call POST [] (Json_body v) Reads_nothing)
       (namespaces_ns_url cl namespace [''entryFilters''])"

definition namespaces_remove_namespace_entry_filters ::
    "admin_client \<Rightarrow> string \<Rightarrow> (error, admin_call) result" where
  "namespaces_remove_namespace_entry_filters cl namespace =
     rmap (call DELETE [] No_body Reads_nothing)
       (namespaces_ns_url cl namespace [''entryFilters''])"

definition namespaces_get_bookie_affinity_group ::
    "admin_client \<Rightarrow> string \<Rightarrow> (error, admin_call) result" where
  "namespaces_get_bookie_affinity_group cl namespace =
     rmap (call GET [] No_body Reads_json_opt)
       (namespaces_ns_url cl namespace [''persistence'', ''bookieAffinity''])"

definition namespaces_set_bookie_affinity_group ::
    "admin_client \<Rightarrow> string \<Rightarrow> json \<Rightarrow> (error, admin_call) result" where
  "namespaces_set_bookie_affinity_group cl namespace data =
     rmap (call POST [] (Json_body data) Reads_nothing)
       (namespaces_ns_url cl namespace [''persistence'', ''bookieAffinity''])"

definition namespaces_delete_bookie_affinity_group ::
    "admin_client \<Rightarrow> string \<Rightarrow> (error, admin_call) result" where
  "namespaces_delete_bookie_affinity_group cl namespace =
     rmap (call DELETE [] No_body Reads_nothing)
       (namespaces_ns_url cl namespace [''persistence'', ''bookieAffinity''])"

definition namespaces_get_subscription_types_enabled ::
    "admin_client \<Rightarrow> string \<Rightarrow> (error, admin_call) result" where
  "namespaces_get_subscription_types_enabled cl namespace =
     rmap (call GET [] No_body Reads_json_opt)
       (namespaces_ns_url cl namespace [''subscriptionTypesEnabled''])"

definition namespaces_set_subscription_types_enabled ::
    "admin_client \<Rightarrow> string \<Rightarrow> string list \<Rightarrow> (error, admin_call) result" where
  "namespaces_set_subscription_types_enabled cl namespace types =
     rmap (call POST [] (Json_body (JArr (map JStr types))) Reads_nothing)
       (namespaces_ns_url cl namespace [''subscriptionTypesEnabled''])"

definition namespaces_remove_subscription_types_enabled ::
    "admin_client \<Rightarrow> string \<Rightarrow> (error, admin_call) result" where
  "namespaces_remove_subscription_types_enabled cl namespace =
     rmap (call DELETE [] No_body Reads_nothing)
       (namespaces_ns_url cl namespace [''subscriptionTypesEnabled''])"

definition namespaces_get_offload_policies ::
    "admin_client \<Rightarrow> string \<Rightarrow> (error, admin_call) result" where
  "namespaces_get_offload_policies cl namespace =
     rmap (call GET [] No_body Reads_json_opt)
       (namespaces_ns_url cl namespace [''offloadPolicies''])"

definition namespaces_get_scalable_topic_auto_scale_policy ::
    "admin_client \<Rightarrow> string \<Rightarrow> (error, admin_call) result" where
  "namespaces_get_scalable_topic_auto_scale_policy cl namespace =
     rmap (call GET [] No_body Reads_json_opt)
       (namespaces_ns_url cl namespace [''scalableTopicAutoScalePolicy''])"

definition namespaces_set_scalable_topic_auto_scale_policy ::
    "admin_client \<Rightarrow> string \<Rightarrow> json \<Rightarrow> (error, admin_call) result" where
  "namespaces_set_scalable_topic_auto_scale_policy cl namespace policy =
     rmap (call POST [] (Json_body policy) Reads_nothing)
       (namespaces_ns_url cl namespace [''scalableTopicAutoScalePolicy''])"

definition namespaces_remove_scalable_topic_auto_scale_policy ::
    "admin_client \<Rightarrow> string \<Rightarrow> (error, admin_call) result" where
  "namespaces_remove_scalable_topic_auto_scale_policy cl namespace =
     rmap (call DELETE [] No_body Reads_nothing)
       (namespaces_ns_url cl namespace [''scalableTopicAutoScalePolicy''])"

definition namespaces_set_offload_policies ::
    "admin_client \<Rightarrow> string \<Rightarrow> json \<Rightarrow> (error, admin_call) result" where
  "namespaces_set_offload_policies cl namespace policies =
     rmap (call POST [] (Json_body policies) Reads_nothing)
       (namespaces_ns_url cl namespace [''offloadPolicies''])"

definition namespaces_remove_offload_policies ::
    "admin_client \<Rightarrow> string \<Rightarrow> (error, admin_call) result" where
  "namespaces_remove_offload_policies cl namespace =
     rmap (call DELETE [] No_body Reads_nothing)
       (namespaces_ns_url cl namespace [''removeOffloadPolicies''])"

definition namespaces_delete_namespace_bundle ::
    "admin_client \<Rightarrow> string \<Rightarrow> string \<Rightarrow> bool \<Rightarrow> (error, admin_call) result" where
  "namespaces_delete_namespace_bundle cl namespace bundle force =
     rmap (call DELETE [(''force'', show_bool force)] No_body Reads_nothing)
       (namespaces_ns_url cl namespace [encode_segment bundle])"

definition namespaces_get_topic_hash_positions ::
    "admin_client \<Rightarrow> string \<Rightarrow> string \<Rightarrow> string list \<Rightarrow> (error, admin_call) result" where
  "namespaces_get_topic_hash_positions cl namespace bundle topics =
     rmap (call GET (map (\<lambda>t. (''topics'', t)) topics) No_body Reads_json)
       (namespaces_ns_url cl namespace [encode_segment bundle, ''topicHashPositions''])"

definition namespaces_update_migration_state ::
    "admin_client \<Rightarrow> string \<Rightarrow> bool \<Rightarrow> (error, admin_call) result" where
  "namespaces_update_migration_state cl namespace migrated =
     rmap (call POST [] (Json_body (JBool migrated)) Reads_nothing)
       (namespaces_ns_url cl namespace [''migration''])"

definition namespaces_get_permission_on_subscription ::
    "admin_client \<Rightarrow> string \<Rightarrow> (error, admin_call) result" where
  "namespaces_get_permission_on_subscription cl namespace =
     rmap (call GET [] No_body Reads_json)
       (namespaces_ns_url cl namespace [''permissions'', ''subscription''])"

definition namespaces_get_namespace_property ::
    "admin_client \<Rightarrow> string \<Rightarrow> string \<Rightarrow> (error, admin_call) result" where
  "namespaces_get_namespace_property cl namespace key =
     rmap (call GET [] No_body Reads_text_opt)
       (namespaces_ns_url cl namespace [''property'', encode_segment key])"

definition namespaces_get_anti_affinity_namespaces ::
    "admin_client \<Rightarrow> string \<Rightarrow> string \<Rightarrow> string \<Rightarrow> (error, admin_call) result" where
  "namespaces_get_anti_affinity_namespaces cl tenant cluster grp =
     Inr (call GET [(''tenant'', tenant)] No_body Reads_json
       (admin_url cl [''namespaces'', encode_segment cluster, ''antiAffinity'', encode_segment grp]))"

definition namespaces_get_namespace_allowed_clusters ::
    "admin_client \<Rightarrow> string \<Rightarrow> (error, admin_call) result" where
  "namespaces_get_namespace_allowed_clusters cl namespace =
     rmap (call GET [] No_body Reads_json)
       (namespaces_ns_url cl namespace [''allowedClusters''])"

definition namespaces_set_namespace_allowed_clusters ::
    "admin_client \<Rightarrow> string \<Rightarrow> string list \<Rightarrow> (error, admin_call) result" where
  "namespaces_set_namespace_allowed_clusters cl namespace clusters =
     rmap (call POST [] (Json_body (JArr (map JStr clusters))) Reads_nothing)
       (namespaces_ns_url cl namespace [''allowedClusters''])"

definition namespaces_get_allowed_topic_property_keys_for_metrics ::
    "admin_client \<Rightarrow> string \<Rightarrow> (error, admin_call) result" where
  "namespaces_get_allowed_topic_property_keys_for_metrics cl namespace =
     rmap (call GET [] No_body Reads_json_or_default)
       (namespaces_ns_url cl namespace [''allowedTopicPropertyKeysForMetrics''])"

definition namespaces_set_allowed_topic_property_keys_for_metrics ::
    "admin_client \<Rightarrow> string \<Rightarrow> string list \<Rightarrow> (error, admin_call) result" where
  "namespaces_set_allowed_topic_property_keys_for_metrics cl namespace keys =
     rmap (call POST [] (Json_body (JArr (map JStr keys))) Reads_nothing)
       (namespaces_ns_url cl namespace [''allowedTopicPropertyKeysForMetrics''])"

definition namespaces_remove_allowed_topic_property_keys_for_metrics ::
    "admin_client \<Rightarrow> string \<Rightarrow> (error, admin_call) result" where
  "namespaces_remove_allowed_topic_property_keys_for_metrics cl namespace =
     rmap (call DELETE [] No_body Reads_nothing)
       (namespaces_ns_url cl namespace [''allowedTopicPropertyKeysForMetrics''])"

definition namespaces_grant_permission_on_topics ::
    "admin_client \<Rightarrow> json \<Rightarrow> (error, admin_call) result" where
  "namespaces_grant_permission_on_topics cl options =
     Inr (call POST [] (Json_body options) Reads_nothing
       (admin_url cl [''namespaces'', ''grantPermissionsOnTopics'']))"

definition namespaces_revoke_permission_on_topics ::
    "admin_client \<Rightarrow> json \<Rightarrow> (error, admin_call) result" where
  "namespaces_revoke_permission_on_topics cl options =
     Inr (call POST [] (Json_body options) Reads_nothing
       (admin_url cl [''namespaces'', ''revokePermissionsOnTopics'']))"

definition namespaces_get_schema_auto_update_compatibility_strategy ::
    "admin_client \<Rightarrow> string \<Rightarrow> (error, admin_call) result" where
  "namespaces_get_schema_auto_update_compatibility_strategy cl namespace =
     rmap (call GET [] No_body Reads_json_opt)
       (namespaces_ns_url cl namespace [''schemaAutoUpdateCompatibilityStrategy''])"

definition namespaces_set_schema_auto_update_compatibility_strategy ::
    "admin_client \<Rightarrow> string \<Rightarrow> string \<Rightarrow> (error, admin_call) result" where
  "namespaces_set_schema_auto_update_compatibility_strategy cl namespace strategy =
     rmap (call PUT [] (Json_body (JStr strategy)) Reads_nothing)
       (namespaces_ns_url cl namespace [''schemaAutoUpdateCompatibilityStrategy''])"

section \<open>What is shown\<close>

text \<open>
  The policies of a namespace that can be read, set and removed. Four more have a path that the
  broker made its own: the resource group and a property are set by a longer path, the offload
  policies are removed by another name, and the deduplication interval by setting it to null.
\<close>

definition namespace_policies :: "admin_client \<Rightarrow> string \<Rightarrow> string \<Rightarrow> string list \<Rightarrow> int \<Rightarrow> bool \<Rightarrow> json \<Rightarrow>
    ((error, admin_call) result \<times> (error, admin_call) result \<times> (error, admin_call) result) list" where
  "namespace_policies cl namespace s ss i b j =
     [(namespaces_get_message_ttl cl namespace,
       namespaces_set_message_ttl cl namespace i,
       namespaces_remove_message_ttl cl namespace),
      (namespaces_get_subscription_expiration_time cl namespace,
       namespaces_set_subscription_expiration_time cl namespace i,
       namespaces_remove_subscription_expiration_time cl namespace),
      (namespaces_get_max_producers_per_topic cl namespace,
       namespaces_set_max_producers_per_topic cl namespace i,
       namespaces_remove_max_producers_per_topic cl namespace),
      (namespaces_get_max_consumers_per_topic cl namespace,
       namespaces_set_max_consumers_per_topic cl namespace i,
       namespaces_remove_max_consumers_per_topic cl namespace),
      (namespaces_get_max_consumers_per_subscription cl namespace,
       namespaces_set_max_consumers_per_subscription cl namespace i,
       namespaces_remove_max_consumers_per_subscription cl namespace),
      (namespaces_get_max_unacked_messages_per_consumer cl namespace,
       namespaces_set_max_unacked_messages_per_consumer cl namespace i,
       namespaces_remove_max_unacked_messages_per_consumer cl namespace),
      (namespaces_get_max_unacked_messages_per_subscription cl namespace,
       namespaces_set_max_unacked_messages_per_subscription cl namespace i,
       namespaces_remove_max_unacked_messages_per_subscription cl namespace),
      (namespaces_get_max_subscriptions_per_topic cl namespace,
       namespaces_set_max_subscriptions_per_topic cl namespace i,
       namespaces_remove_max_subscriptions_per_topic cl namespace),
      (namespaces_get_max_topics_per_namespace cl namespace,
       namespaces_set_max_topics_per_namespace cl namespace i,
       namespaces_remove_max_topics_per_namespace cl namespace),
      (namespaces_get_compaction_threshold cl namespace,
       namespaces_set_compaction_threshold cl namespace i,
       namespaces_remove_compaction_threshold cl namespace),
      (namespaces_get_offload_deletion_lag cl namespace,
       namespaces_set_offload_deletion_lag cl namespace i,
       namespaces_remove_offload_deletion_lag cl namespace),
      (namespaces_get_deduplication_status cl namespace,
       namespaces_set_deduplication_status cl namespace b,
       namespaces_remove_deduplication_status cl namespace),
      (namespaces_get_dispatcher_pause_on_ack_state_persistent cl namespace,
       namespaces_set_dispatcher_pause_on_ack_state_persistent cl namespace,
       namespaces_remove_dispatcher_pause_on_ack_state_persistent cl namespace),
      (namespaces_get_namespace_anti_affinity_group cl namespace,
       namespaces_set_namespace_anti_affinity_group cl namespace s,
       namespaces_remove_namespace_anti_affinity_group cl namespace),
      (namespaces_get_retention cl namespace,
       namespaces_set_retention cl namespace j,
       namespaces_remove_retention cl namespace),
      (namespaces_get_persistence cl namespace,
       namespaces_set_persistence cl namespace j,
       namespaces_remove_persistence cl namespace),
      (namespaces_get_dispatch_rate cl namespace,
       namespaces_set_dispatch_rate cl namespace j,
       namespaces_remove_dispatch_rate cl namespace),
      (namespaces_get_subscription_dispatch_rate cl namespace,
       namespaces_set_subscription_dispatch_rate cl namespace j,
       namespaces_remove_subscription_dispatch_rate cl namespace),
      (namespaces_get_replicator_dispatch_rate cl namespace,
       namespaces_set_replicator_dispatch_rate cl namespace j,
       namespaces_remove_replicator_dispatch_rate cl namespace),
      (namespaces_get_publish_rate cl namespace,
       namespaces_set_publish_rate cl namespace j,
       namespaces_remove_publish_rate cl namespace),
      (namespaces_get_subscribe_rate cl namespace,
       namespaces_set_subscribe_rate cl namespace j,
       namespaces_remove_subscribe_rate cl namespace),
      (namespaces_get_inactive_topic_policies cl namespace,
       namespaces_set_inactive_topic_policies cl namespace j,
       namespaces_remove_inactive_topic_policies cl namespace),
      (namespaces_get_delayed_delivery_messages cl namespace,
       namespaces_set_delayed_delivery_messages cl namespace j,
       namespaces_remove_delayed_delivery_messages cl namespace),
      (namespaces_get_auto_topic_creation cl namespace,
       namespaces_set_auto_topic_creation cl namespace j,
       namespaces_remove_auto_topic_creation cl namespace),
      (namespaces_get_auto_subscription_creation cl namespace,
       namespaces_set_auto_subscription_creation cl namespace j,
       namespaces_remove_auto_subscription_creation cl namespace),
      (namespaces_get_namespace_entry_filters cl namespace,
       namespaces_set_namespace_entry_filters cl namespace j,
       namespaces_remove_namespace_entry_filters cl namespace),
      (namespaces_get_subscription_types_enabled cl namespace,
       namespaces_set_subscription_types_enabled cl namespace ss,
       namespaces_remove_subscription_types_enabled cl namespace),
      (namespaces_get_scalable_topic_auto_scale_policy cl namespace,
       namespaces_set_scalable_topic_auto_scale_policy cl namespace j,
       namespaces_remove_scalable_topic_auto_scale_policy cl namespace),
      (namespaces_get_allowed_topic_property_keys_for_metrics cl namespace,
       namespaces_set_allowed_topic_property_keys_for_metrics cl namespace ss,
       namespaces_remove_allowed_topic_property_keys_for_metrics cl namespace)]"

text \<open>Every operation on a namespace, one argument of a kind for all of them.\<close>

definition namespace_operations :: "admin_client \<Rightarrow> string \<Rightarrow> string \<Rightarrow> string list \<Rightarrow> int \<Rightarrow> bool \<Rightarrow> json \<Rightarrow> backlog_quota_type \<Rightarrow>
    (error, admin_call) result list" where
  "namespace_operations cl namespace s ss i b j q =
     [namespaces_create_namespace cl namespace, namespaces_create_namespace_with_bundles cl namespace i,
      namespaces_delete_namespace cl namespace b, namespaces_get_policies cl namespace,
      namespaces_get_namespace_topics cl namespace, namespaces_get_bundles cl namespace,
      namespaces_get_permissions cl namespace, namespaces_grant_permission_on_namespace cl namespace s ss,
      namespaces_revoke_permissions_on_namespace cl namespace s,
      namespaces_grant_permission_on_subscription cl namespace s ss,
      namespaces_revoke_permission_on_subscription cl namespace s s,
      namespaces_get_namespace_replication_clusters cl namespace,
      namespaces_set_namespace_replication_clusters cl namespace ss b,
      namespaces_get_backlog_quota_map cl namespace, namespaces_set_backlog_quota cl namespace j q,
      namespaces_remove_backlog_quota cl namespace q, namespaces_unload_namespace cl namespace,
      namespaces_unload_namespace_bundle cl namespace s, namespaces_split_namespace_bundle cl namespace s b,
      namespaces_clear_namespace_backlog cl namespace,
      namespaces_clear_namespace_backlog_for_subscription cl namespace s,
      namespaces_clear_namespace_bundle_backlog cl namespace s,
      namespaces_clear_namespace_bundle_backlog_for_subscription cl namespace s s,
      namespaces_unsubscribe_namespace_bundle cl namespace s s,
      namespaces_unsubscribe_namespace cl namespace s, namespaces_get_namespace_properties cl namespace,
      namespaces_set_namespace_properties cl namespace j, namespaces_clear_namespace_properties cl namespace,
      namespaces_set_namespace_property cl namespace s s, namespaces_remove_namespace_property cl namespace s,
      namespaces_get_message_ttl cl namespace, namespaces_set_message_ttl cl namespace i,
      namespaces_remove_message_ttl cl namespace, namespaces_get_subscription_expiration_time cl namespace,
      namespaces_set_subscription_expiration_time cl namespace i,
      namespaces_remove_subscription_expiration_time cl namespace,
      namespaces_get_max_producers_per_topic cl namespace,
      namespaces_set_max_producers_per_topic cl namespace i,
      namespaces_remove_max_producers_per_topic cl namespace,
      namespaces_get_max_consumers_per_topic cl namespace,
      namespaces_set_max_consumers_per_topic cl namespace i,
      namespaces_remove_max_consumers_per_topic cl namespace,
      namespaces_get_max_consumers_per_subscription cl namespace,
      namespaces_set_max_consumers_per_subscription cl namespace i,
      namespaces_remove_max_consumers_per_subscription cl namespace,
      namespaces_get_max_unacked_messages_per_consumer cl namespace,
      namespaces_set_max_unacked_messages_per_consumer cl namespace i,
      namespaces_remove_max_unacked_messages_per_consumer cl namespace,
      namespaces_get_max_unacked_messages_per_subscription cl namespace,
      namespaces_set_max_unacked_messages_per_subscription cl namespace i,
      namespaces_remove_max_unacked_messages_per_subscription cl namespace,
      namespaces_get_max_subscriptions_per_topic cl namespace,
      namespaces_set_max_subscriptions_per_topic cl namespace i,
      namespaces_remove_max_subscriptions_per_topic cl namespace,
      namespaces_get_max_topics_per_namespace cl namespace,
      namespaces_set_max_topics_per_namespace cl namespace i,
      namespaces_remove_max_topics_per_namespace cl namespace,
      namespaces_get_deduplication_snapshot_interval cl namespace,
      namespaces_set_deduplication_snapshot_interval cl namespace i,
      namespaces_remove_deduplication_snapshot_interval cl namespace,
      namespaces_get_compaction_threshold cl namespace, namespaces_set_compaction_threshold cl namespace i,
      namespaces_remove_compaction_threshold cl namespace, namespaces_get_offload_threshold cl namespace,
      namespaces_set_offload_threshold cl namespace i,
      namespaces_get_offload_threshold_in_seconds cl namespace,
      namespaces_set_offload_threshold_in_seconds cl namespace i,
      namespaces_get_offload_deletion_lag cl namespace, namespaces_set_offload_deletion_lag cl namespace i,
      namespaces_remove_offload_deletion_lag cl namespace, namespaces_get_deduplication_status cl namespace,
      namespaces_set_deduplication_status cl namespace b, namespaces_remove_deduplication_status cl namespace,
      namespaces_get_encryption_required_status cl namespace,
      namespaces_set_encryption_required_status cl namespace b,
      namespaces_get_schema_validation_enforced cl namespace,
      namespaces_set_schema_validation_enforced cl namespace b,
      namespaces_get_is_allow_auto_update_schema cl namespace,
      namespaces_set_is_allow_auto_update_schema cl namespace b,
      namespaces_get_dispatcher_pause_on_ack_state_persistent cl namespace,
      namespaces_set_dispatcher_pause_on_ack_state_persistent cl namespace,
      namespaces_remove_dispatcher_pause_on_ack_state_persistent cl namespace,
      namespaces_get_namespace_anti_affinity_group cl namespace,
      namespaces_set_namespace_anti_affinity_group cl namespace s,
      namespaces_remove_namespace_anti_affinity_group cl namespace,
      namespaces_get_namespace_resource_group cl namespace,
      namespaces_set_namespace_resource_group cl namespace s,
      namespaces_remove_namespace_resource_group cl namespace,
      namespaces_get_subscription_auth_mode cl namespace, namespaces_set_subscription_auth_mode cl namespace j,
      namespaces_get_schema_compatibility_strategy cl namespace,
      namespaces_set_schema_compatibility_strategy cl namespace j, namespaces_get_retention cl namespace,
      namespaces_set_retention cl namespace j, namespaces_remove_retention cl namespace,
      namespaces_get_persistence cl namespace, namespaces_set_persistence cl namespace j,
      namespaces_remove_persistence cl namespace, namespaces_get_dispatch_rate cl namespace,
      namespaces_set_dispatch_rate cl namespace j, namespaces_remove_dispatch_rate cl namespace,
      namespaces_get_subscription_dispatch_rate cl namespace,
      namespaces_set_subscription_dispatch_rate cl namespace j,
      namespaces_remove_subscription_dispatch_rate cl namespace,
      namespaces_get_replicator_dispatch_rate cl namespace,
      namespaces_set_replicator_dispatch_rate cl namespace j,
      namespaces_remove_replicator_dispatch_rate cl namespace, namespaces_get_publish_rate cl namespace,
      namespaces_set_publish_rate cl namespace j, namespaces_remove_publish_rate cl namespace,
      namespaces_get_subscribe_rate cl namespace, namespaces_set_subscribe_rate cl namespace j,
      namespaces_remove_subscribe_rate cl namespace, namespaces_get_inactive_topic_policies cl namespace,
      namespaces_set_inactive_topic_policies cl namespace j,
      namespaces_remove_inactive_topic_policies cl namespace,
      namespaces_get_delayed_delivery_messages cl namespace,
      namespaces_set_delayed_delivery_messages cl namespace j,
      namespaces_remove_delayed_delivery_messages cl namespace,
      namespaces_get_auto_topic_creation cl namespace, namespaces_set_auto_topic_creation cl namespace j,
      namespaces_remove_auto_topic_creation cl namespace,
      namespaces_get_auto_subscription_creation cl namespace,
      namespaces_set_auto_subscription_creation cl namespace j,
      namespaces_remove_auto_subscription_creation cl namespace,
      namespaces_get_namespace_entry_filters cl namespace,
      namespaces_set_namespace_entry_filters cl namespace j,
      namespaces_remove_namespace_entry_filters cl namespace,
      namespaces_get_bookie_affinity_group cl namespace, namespaces_set_bookie_affinity_group cl namespace j,
      namespaces_delete_bookie_affinity_group cl namespace,
      namespaces_get_subscription_types_enabled cl namespace,
      namespaces_set_subscription_types_enabled cl namespace ss,
      namespaces_remove_subscription_types_enabled cl namespace, namespaces_get_offload_policies cl namespace,
      namespaces_get_scalable_topic_auto_scale_policy cl namespace,
      namespaces_set_scalable_topic_auto_scale_policy cl namespace j,
      namespaces_remove_scalable_topic_auto_scale_policy cl namespace,
      namespaces_set_offload_policies cl namespace j, namespaces_remove_offload_policies cl namespace,
      namespaces_delete_namespace_bundle cl namespace s b,
      namespaces_get_topic_hash_positions cl namespace s ss, namespaces_update_migration_state cl namespace b,
      namespaces_get_permission_on_subscription cl namespace, namespaces_get_namespace_property cl namespace s,
      namespaces_get_namespace_allowed_clusters cl namespace,
      namespaces_set_namespace_allowed_clusters cl namespace ss,
      namespaces_get_allowed_topic_property_keys_for_metrics cl namespace,
      namespaces_set_allowed_topic_property_keys_for_metrics cl namespace ss,
      namespaces_remove_allowed_topic_property_keys_for_metrics cl namespace,
      namespaces_get_schema_auto_update_compatibility_strategy cl namespace,
      namespaces_set_schema_auto_update_compatibility_strategy cl namespace s]"

lemma namespaces_ns_url_cases:
  "namespaces_ns_url cl namespace segs =
     (case split_namespace namespace of
        Inl e \<Rightarrow> Inl e
      | Inr (tenant, ns) \<Rightarrow>
          Inr (admin_url cl ([''namespaces'', encode_segment tenant, encode_segment ns] @ segs)))"
  by (auto simp: namespaces_ns_url_def split: sum.split)

lemma in_namespace_url:
  assumes "list_all segment_ok segs"
  shows "in_namespace cl namespace (rmap (call method query body reads) (namespaces_ns_url cl namespace segs))"
proof -
  have n: "encode_segment ''namespaces'' = ''namespaces''" by code_simp
  have "below (ac_url cl @ ''/admin/v2'') [''namespaces'', tenant, ns]
      (admin_url cl ([''namespaces'', encode_segment tenant, encode_segment ns] @ segs))" for tenant ns
    using below_admin_path [OF assms, of "ac_url cl @ ''/admin/v2''" "[''namespaces'', tenant, ns]"]
    by (simp add: admin_url_def n)
  then show ?thesis
    by (auto simp: in_namespace_def namespaces_ns_url_cases split: sum.split)
qed

lemmas namespaces_defs =
namespaces_create_namespace_def namespaces_create_namespace_with_bundles_def
  namespaces_delete_namespace_def namespaces_get_policies_def namespaces_get_namespace_topics_def
  namespaces_get_bundles_def namespaces_get_permissions_def namespaces_grant_permission_on_namespace_def
  namespaces_revoke_permissions_on_namespace_def namespaces_grant_permission_on_subscription_def
  namespaces_revoke_permission_on_subscription_def namespaces_get_namespace_replication_clusters_def
  namespaces_set_namespace_replication_clusters_def namespaces_get_backlog_quota_map_def
  namespaces_set_backlog_quota_def namespaces_remove_backlog_quota_def namespaces_unload_namespace_def
  namespaces_unload_namespace_bundle_def namespaces_split_namespace_bundle_def
  namespaces_clear_namespace_backlog_def namespaces_clear_namespace_backlog_for_subscription_def
  namespaces_clear_namespace_bundle_backlog_def
  namespaces_clear_namespace_bundle_backlog_for_subscription_def
  namespaces_unsubscribe_namespace_bundle_def namespaces_unsubscribe_namespace_def
  namespaces_get_namespace_properties_def namespaces_set_namespace_properties_def
  namespaces_clear_namespace_properties_def namespaces_set_namespace_property_def
  namespaces_remove_namespace_property_def namespaces_get_message_ttl_def namespaces_set_message_ttl_def
  namespaces_remove_message_ttl_def namespaces_get_subscription_expiration_time_def
  namespaces_set_subscription_expiration_time_def namespaces_remove_subscription_expiration_time_def
  namespaces_get_max_producers_per_topic_def namespaces_set_max_producers_per_topic_def
  namespaces_remove_max_producers_per_topic_def namespaces_get_max_consumers_per_topic_def
  namespaces_set_max_consumers_per_topic_def namespaces_remove_max_consumers_per_topic_def
  namespaces_get_max_consumers_per_subscription_def namespaces_set_max_consumers_per_subscription_def
  namespaces_remove_max_consumers_per_subscription_def
  namespaces_get_max_unacked_messages_per_consumer_def
  namespaces_set_max_unacked_messages_per_consumer_def
  namespaces_remove_max_unacked_messages_per_consumer_def
  namespaces_get_max_unacked_messages_per_subscription_def
  namespaces_set_max_unacked_messages_per_subscription_def
  namespaces_remove_max_unacked_messages_per_subscription_def
  namespaces_get_max_subscriptions_per_topic_def namespaces_set_max_subscriptions_per_topic_def
  namespaces_remove_max_subscriptions_per_topic_def namespaces_get_max_topics_per_namespace_def
  namespaces_set_max_topics_per_namespace_def namespaces_remove_max_topics_per_namespace_def
  namespaces_get_deduplication_snapshot_interval_def namespaces_set_deduplication_snapshot_interval_def
  namespaces_remove_deduplication_snapshot_interval_def namespaces_get_compaction_threshold_def
  namespaces_set_compaction_threshold_def namespaces_remove_compaction_threshold_def
  namespaces_get_offload_threshold_def namespaces_set_offload_threshold_def
  namespaces_get_offload_threshold_in_seconds_def namespaces_set_offload_threshold_in_seconds_def
  namespaces_get_offload_deletion_lag_def namespaces_set_offload_deletion_lag_def
  namespaces_remove_offload_deletion_lag_def namespaces_get_deduplication_status_def
  namespaces_set_deduplication_status_def namespaces_remove_deduplication_status_def
  namespaces_get_encryption_required_status_def namespaces_set_encryption_required_status_def
  namespaces_get_schema_validation_enforced_def namespaces_set_schema_validation_enforced_def
  namespaces_get_is_allow_auto_update_schema_def namespaces_set_is_allow_auto_update_schema_def
  namespaces_get_dispatcher_pause_on_ack_state_persistent_def
  namespaces_set_dispatcher_pause_on_ack_state_persistent_def
  namespaces_remove_dispatcher_pause_on_ack_state_persistent_def
  namespaces_get_namespace_anti_affinity_group_def namespaces_set_namespace_anti_affinity_group_def
  namespaces_remove_namespace_anti_affinity_group_def namespaces_get_namespace_resource_group_def
  namespaces_set_namespace_resource_group_def namespaces_remove_namespace_resource_group_def
  namespaces_get_subscription_auth_mode_def namespaces_set_subscription_auth_mode_def
  namespaces_get_schema_compatibility_strategy_def namespaces_set_schema_compatibility_strategy_def
  namespaces_get_retention_def namespaces_set_retention_def namespaces_remove_retention_def
  namespaces_get_persistence_def namespaces_set_persistence_def namespaces_remove_persistence_def
  namespaces_get_dispatch_rate_def namespaces_set_dispatch_rate_def namespaces_remove_dispatch_rate_def
  namespaces_get_subscription_dispatch_rate_def namespaces_set_subscription_dispatch_rate_def
  namespaces_remove_subscription_dispatch_rate_def namespaces_get_replicator_dispatch_rate_def
  namespaces_set_replicator_dispatch_rate_def namespaces_remove_replicator_dispatch_rate_def
  namespaces_get_publish_rate_def namespaces_set_publish_rate_def namespaces_remove_publish_rate_def
  namespaces_get_subscribe_rate_def namespaces_set_subscribe_rate_def
  namespaces_remove_subscribe_rate_def namespaces_get_inactive_topic_policies_def
  namespaces_set_inactive_topic_policies_def namespaces_remove_inactive_topic_policies_def
  namespaces_get_delayed_delivery_messages_def namespaces_set_delayed_delivery_messages_def
  namespaces_remove_delayed_delivery_messages_def namespaces_get_auto_topic_creation_def
  namespaces_set_auto_topic_creation_def namespaces_remove_auto_topic_creation_def
  namespaces_get_auto_subscription_creation_def namespaces_set_auto_subscription_creation_def
  namespaces_remove_auto_subscription_creation_def namespaces_get_namespace_entry_filters_def
  namespaces_set_namespace_entry_filters_def namespaces_remove_namespace_entry_filters_def
  namespaces_get_bookie_affinity_group_def namespaces_set_bookie_affinity_group_def
  namespaces_delete_bookie_affinity_group_def namespaces_get_subscription_types_enabled_def
  namespaces_set_subscription_types_enabled_def namespaces_remove_subscription_types_enabled_def
  namespaces_get_offload_policies_def namespaces_get_scalable_topic_auto_scale_policy_def
  namespaces_set_scalable_topic_auto_scale_policy_def
  namespaces_remove_scalable_topic_auto_scale_policy_def namespaces_set_offload_policies_def
  namespaces_remove_offload_policies_def namespaces_delete_namespace_bundle_def
  namespaces_get_topic_hash_positions_def namespaces_update_migration_state_def
  namespaces_get_permission_on_subscription_def namespaces_get_namespace_property_def
  namespaces_get_namespace_allowed_clusters_def namespaces_set_namespace_allowed_clusters_def
  namespaces_get_allowed_topic_property_keys_for_metrics_def
  namespaces_set_allowed_topic_property_keys_for_metrics_def
  namespaces_remove_allowed_topic_property_keys_for_metrics_def
  namespaces_get_schema_auto_update_compatibility_strategy_def
  namespaces_set_schema_auto_update_compatibility_strategy_def

text \<open>The 29 policies that can be read, set and removed.\<close>

lemma namespace_policies_share_a_resource:
  "list_all one_resource (namespace_policies cl namespace s ss i b j)"
  unfolding namespace_policies_def
  by (simp add: namespaces_defs one_resource_simps namespaces_ns_url_cases reads_only_def
        split: sum.split prod.split)

text \<open>The 152 operations on a namespace.\<close>

lemma namespace_operations_stay_inside:
  "list_all (in_namespace cl namespace) (namespace_operations cl namespace s ss i b j q)"
  unfolding namespace_operations_def
  by (simp add: namespaces_defs in_namespace_url)

end
