(* ===== verification/Admin_Topic_Policies.thy ===== *)
theory Admin_Topic_Policies
  imports Admin_Calls
begin

text \<open>
  The topic policies (\<open>admin/topic_policies.rs\<close>): \<open>is_global\<close> is the handle's choice of the
  policies replicated to every cluster.
\<close>

definition topic_policies_policy_url ::
    "admin_client \<Rightarrow> bool \<Rightarrow> string \<Rightarrow> string \<Rightarrow> (error, string) result" where
  "topic_policies_policy_url cl is_global topic policy =
     rmap (\<lambda>segments.
       let url = admin_url cl (segments @ [policy])
       in if is_global then url @ ''?isGlobal=true'' else url) (parse_topic_path topic)"

definition topic_policies_delete_topic_policies ::
    "admin_client \<Rightarrow> bool \<Rightarrow> string \<Rightarrow> (error, admin_call) result" where
  "topic_policies_delete_topic_policies cl is_global topic =
     rmap (call DELETE [] No_body Reads_nothing)
       (topic_policies_policy_url cl is_global topic ''policies'')"

definition topic_policies_get_replication_clusters ::
    "admin_client \<Rightarrow> bool \<Rightarrow> string \<Rightarrow> bool \<Rightarrow> (error, admin_call) result" where
  "topic_policies_get_replication_clusters cl is_global topic applied =
     rmap (call GET [(''applied'', show_bool applied)] No_body Reads_json_opt)
       (topic_policies_policy_url cl is_global topic ''replication'')"

definition topic_policies_remove_replication_clusters ::
    "admin_client \<Rightarrow> bool \<Rightarrow> string \<Rightarrow> (error, admin_call) result" where
  "topic_policies_remove_replication_clusters cl is_global topic =
     rmap (call DELETE [] No_body Reads_nothing)
       (topic_policies_policy_url cl is_global topic ''replication'')"

definition topic_policies_get_subscription_types_enabled ::
    "admin_client \<Rightarrow> bool \<Rightarrow> string \<Rightarrow> (error, admin_call) result" where
  "topic_policies_get_subscription_types_enabled cl is_global topic =
     rmap (call GET [] No_body Reads_json_opt)
       (topic_policies_policy_url cl is_global topic ''subscriptionTypesEnabled'')"

definition topic_policies_set_subscription_types_enabled ::
    "admin_client \<Rightarrow> bool \<Rightarrow> string \<Rightarrow> string list \<Rightarrow> (error, admin_call) result" where
  "topic_policies_set_subscription_types_enabled cl is_global topic types =
     rmap (call POST [] (Json_body (JArr (map JStr types))) Reads_nothing)
       (topic_policies_policy_url cl is_global topic ''subscriptionTypesEnabled'')"

definition topic_policies_remove_subscription_types_enabled ::
    "admin_client \<Rightarrow> bool \<Rightarrow> string \<Rightarrow> (error, admin_call) result" where
  "topic_policies_remove_subscription_types_enabled cl is_global topic =
     rmap (call DELETE [] No_body Reads_nothing)
       (topic_policies_policy_url cl is_global topic ''subscriptionTypesEnabled'')"

definition topic_policies_get_retention ::
    "admin_client \<Rightarrow> bool \<Rightarrow> string \<Rightarrow> bool \<Rightarrow> (error, admin_call) result" where
  "topic_policies_get_retention cl is_global topic applied =
     rmap (call GET [(''applied'', show_bool applied)] No_body Reads_json_opt)
       (topic_policies_policy_url cl is_global topic ''retention'')"

definition topic_policies_set_retention ::
    "admin_client \<Rightarrow> bool \<Rightarrow> string \<Rightarrow> json \<Rightarrow> (error, admin_call) result" where
  "topic_policies_set_retention cl is_global topic v =
     rmap (call POST [] (Json_body v) Reads_nothing)
       (topic_policies_policy_url cl is_global topic ''retention'')"

definition topic_policies_remove_retention ::
    "admin_client \<Rightarrow> bool \<Rightarrow> string \<Rightarrow> (error, admin_call) result" where
  "topic_policies_remove_retention cl is_global topic =
     rmap (call DELETE [] No_body Reads_nothing)
       (topic_policies_policy_url cl is_global topic ''retention'')"

definition topic_policies_get_persistence ::
    "admin_client \<Rightarrow> bool \<Rightarrow> string \<Rightarrow> bool \<Rightarrow> (error, admin_call) result" where
  "topic_policies_get_persistence cl is_global topic applied =
     rmap (call GET [(''applied'', show_bool applied)] No_body Reads_json_opt)
       (topic_policies_policy_url cl is_global topic ''persistence'')"

definition topic_policies_set_persistence ::
    "admin_client \<Rightarrow> bool \<Rightarrow> string \<Rightarrow> json \<Rightarrow> (error, admin_call) result" where
  "topic_policies_set_persistence cl is_global topic v =
     rmap (call POST [] (Json_body v) Reads_nothing)
       (topic_policies_policy_url cl is_global topic ''persistence'')"

definition topic_policies_remove_persistence ::
    "admin_client \<Rightarrow> bool \<Rightarrow> string \<Rightarrow> (error, admin_call) result" where
  "topic_policies_remove_persistence cl is_global topic =
     rmap (call DELETE [] No_body Reads_nothing)
       (topic_policies_policy_url cl is_global topic ''persistence'')"

definition topic_policies_get_dispatch_rate ::
    "admin_client \<Rightarrow> bool \<Rightarrow> string \<Rightarrow> bool \<Rightarrow> (error, admin_call) result" where
  "topic_policies_get_dispatch_rate cl is_global topic applied =
     rmap (call GET [(''applied'', show_bool applied)] No_body Reads_json_opt)
       (topic_policies_policy_url cl is_global topic ''dispatchRate'')"

definition topic_policies_set_dispatch_rate ::
    "admin_client \<Rightarrow> bool \<Rightarrow> string \<Rightarrow> json \<Rightarrow> (error, admin_call) result" where
  "topic_policies_set_dispatch_rate cl is_global topic v =
     rmap (call POST [] (Json_body v) Reads_nothing)
       (topic_policies_policy_url cl is_global topic ''dispatchRate'')"

definition topic_policies_remove_dispatch_rate ::
    "admin_client \<Rightarrow> bool \<Rightarrow> string \<Rightarrow> (error, admin_call) result" where
  "topic_policies_remove_dispatch_rate cl is_global topic =
     rmap (call DELETE [] No_body Reads_nothing)
       (topic_policies_policy_url cl is_global topic ''dispatchRate'')"

definition topic_policies_get_subscription_dispatch_rate ::
    "admin_client \<Rightarrow> bool \<Rightarrow> string \<Rightarrow> bool \<Rightarrow> (error, admin_call) result" where
  "topic_policies_get_subscription_dispatch_rate cl is_global topic applied =
     rmap (call GET [(''applied'', show_bool applied)] No_body Reads_json_opt)
       (topic_policies_policy_url cl is_global topic ''subscriptionDispatchRate'')"

definition topic_policies_set_subscription_dispatch_rate ::
    "admin_client \<Rightarrow> bool \<Rightarrow> string \<Rightarrow> json \<Rightarrow> (error, admin_call) result" where
  "topic_policies_set_subscription_dispatch_rate cl is_global topic v =
     rmap (call POST [] (Json_body v) Reads_nothing)
       (topic_policies_policy_url cl is_global topic ''subscriptionDispatchRate'')"

definition topic_policies_remove_subscription_dispatch_rate ::
    "admin_client \<Rightarrow> bool \<Rightarrow> string \<Rightarrow> (error, admin_call) result" where
  "topic_policies_remove_subscription_dispatch_rate cl is_global topic =
     rmap (call DELETE [] No_body Reads_nothing)
       (topic_policies_policy_url cl is_global topic ''subscriptionDispatchRate'')"

definition topic_policies_get_replicator_dispatch_rate ::
    "admin_client \<Rightarrow> bool \<Rightarrow> string \<Rightarrow> bool \<Rightarrow> (error, admin_call) result" where
  "topic_policies_get_replicator_dispatch_rate cl is_global topic applied =
     rmap (call GET [(''applied'', show_bool applied)] No_body Reads_json_opt)
       (topic_policies_policy_url cl is_global topic ''replicatorDispatchRate'')"

definition topic_policies_set_replicator_dispatch_rate ::
    "admin_client \<Rightarrow> bool \<Rightarrow> string \<Rightarrow> json \<Rightarrow> (error, admin_call) result" where
  "topic_policies_set_replicator_dispatch_rate cl is_global topic v =
     rmap (call POST [] (Json_body v) Reads_nothing)
       (topic_policies_policy_url cl is_global topic ''replicatorDispatchRate'')"

definition topic_policies_remove_replicator_dispatch_rate ::
    "admin_client \<Rightarrow> bool \<Rightarrow> string \<Rightarrow> (error, admin_call) result" where
  "topic_policies_remove_replicator_dispatch_rate cl is_global topic =
     rmap (call DELETE [] No_body Reads_nothing)
       (topic_policies_policy_url cl is_global topic ''replicatorDispatchRate'')"

definition topic_policies_get_publish_rate ::
    "admin_client \<Rightarrow> bool \<Rightarrow> string \<Rightarrow> (error, admin_call) result" where
  "topic_policies_get_publish_rate cl is_global topic =
     rmap (call GET [] No_body Reads_json_opt)
       (topic_policies_policy_url cl is_global topic ''publishRate'')"

definition topic_policies_set_publish_rate ::
    "admin_client \<Rightarrow> bool \<Rightarrow> string \<Rightarrow> json \<Rightarrow> (error, admin_call) result" where
  "topic_policies_set_publish_rate cl is_global topic v =
     rmap (call POST [] (Json_body v) Reads_nothing)
       (topic_policies_policy_url cl is_global topic ''publishRate'')"

definition topic_policies_remove_publish_rate ::
    "admin_client \<Rightarrow> bool \<Rightarrow> string \<Rightarrow> (error, admin_call) result" where
  "topic_policies_remove_publish_rate cl is_global topic =
     rmap (call DELETE [] No_body Reads_nothing)
       (topic_policies_policy_url cl is_global topic ''publishRate'')"

definition topic_policies_get_subscribe_rate ::
    "admin_client \<Rightarrow> bool \<Rightarrow> string \<Rightarrow> bool \<Rightarrow> (error, admin_call) result" where
  "topic_policies_get_subscribe_rate cl is_global topic applied =
     rmap (call GET [(''applied'', show_bool applied)] No_body Reads_json_opt)
       (topic_policies_policy_url cl is_global topic ''subscribeRate'')"

definition topic_policies_set_subscribe_rate ::
    "admin_client \<Rightarrow> bool \<Rightarrow> string \<Rightarrow> json \<Rightarrow> (error, admin_call) result" where
  "topic_policies_set_subscribe_rate cl is_global topic v =
     rmap (call POST [] (Json_body v) Reads_nothing)
       (topic_policies_policy_url cl is_global topic ''subscribeRate'')"

definition topic_policies_remove_subscribe_rate ::
    "admin_client \<Rightarrow> bool \<Rightarrow> string \<Rightarrow> (error, admin_call) result" where
  "topic_policies_remove_subscribe_rate cl is_global topic =
     rmap (call DELETE [] No_body Reads_nothing)
       (topic_policies_policy_url cl is_global topic ''subscribeRate'')"

definition topic_policies_get_inactive_topic_policies ::
    "admin_client \<Rightarrow> bool \<Rightarrow> string \<Rightarrow> bool \<Rightarrow> (error, admin_call) result" where
  "topic_policies_get_inactive_topic_policies cl is_global topic applied =
     rmap (call GET [(''applied'', show_bool applied)] No_body Reads_json_opt)
       (topic_policies_policy_url cl is_global topic ''inactiveTopicPolicies'')"

definition topic_policies_set_inactive_topic_policies ::
    "admin_client \<Rightarrow> bool \<Rightarrow> string \<Rightarrow> json \<Rightarrow> (error, admin_call) result" where
  "topic_policies_set_inactive_topic_policies cl is_global topic v =
     rmap (call POST [] (Json_body v) Reads_nothing)
       (topic_policies_policy_url cl is_global topic ''inactiveTopicPolicies'')"

definition topic_policies_remove_inactive_topic_policies ::
    "admin_client \<Rightarrow> bool \<Rightarrow> string \<Rightarrow> (error, admin_call) result" where
  "topic_policies_remove_inactive_topic_policies cl is_global topic =
     rmap (call DELETE [] No_body Reads_nothing)
       (topic_policies_policy_url cl is_global topic ''inactiveTopicPolicies'')"

definition topic_policies_get_delayed_delivery_policy ::
    "admin_client \<Rightarrow> bool \<Rightarrow> string \<Rightarrow> bool \<Rightarrow> (error, admin_call) result" where
  "topic_policies_get_delayed_delivery_policy cl is_global topic applied =
     rmap (call GET [(''applied'', show_bool applied)] No_body Reads_json_opt)
       (topic_policies_policy_url cl is_global topic ''delayedDelivery'')"

definition topic_policies_set_delayed_delivery_policy ::
    "admin_client \<Rightarrow> bool \<Rightarrow> string \<Rightarrow> json \<Rightarrow> (error, admin_call) result" where
  "topic_policies_set_delayed_delivery_policy cl is_global topic v =
     rmap (call POST [] (Json_body v) Reads_nothing)
       (topic_policies_policy_url cl is_global topic ''delayedDelivery'')"

definition topic_policies_remove_delayed_delivery_policy ::
    "admin_client \<Rightarrow> bool \<Rightarrow> string \<Rightarrow> (error, admin_call) result" where
  "topic_policies_remove_delayed_delivery_policy cl is_global topic =
     rmap (call DELETE [] No_body Reads_nothing)
       (topic_policies_policy_url cl is_global topic ''delayedDelivery'')"

definition topic_policies_get_offload_policies ::
    "admin_client \<Rightarrow> bool \<Rightarrow> string \<Rightarrow> bool \<Rightarrow> (error, admin_call) result" where
  "topic_policies_get_offload_policies cl is_global topic applied =
     rmap (call GET [(''applied'', show_bool applied)] No_body Reads_json_opt)
       (topic_policies_policy_url cl is_global topic ''offloadPolicies'')"

definition topic_policies_set_offload_policies ::
    "admin_client \<Rightarrow> bool \<Rightarrow> string \<Rightarrow> json \<Rightarrow> (error, admin_call) result" where
  "topic_policies_set_offload_policies cl is_global topic v =
     rmap (call POST [] (Json_body v) Reads_nothing)
       (topic_policies_policy_url cl is_global topic ''offloadPolicies'')"

definition topic_policies_remove_offload_policies ::
    "admin_client \<Rightarrow> bool \<Rightarrow> string \<Rightarrow> (error, admin_call) result" where
  "topic_policies_remove_offload_policies cl is_global topic =
     rmap (call DELETE [] No_body Reads_nothing)
       (topic_policies_policy_url cl is_global topic ''offloadPolicies'')"

definition topic_policies_get_auto_subscription_creation ::
    "admin_client \<Rightarrow> bool \<Rightarrow> string \<Rightarrow> bool \<Rightarrow> (error, admin_call) result" where
  "topic_policies_get_auto_subscription_creation cl is_global topic applied =
     rmap (call GET [(''applied'', show_bool applied)] No_body Reads_json_opt)
       (topic_policies_policy_url cl is_global topic ''autoSubscriptionCreation'')"

definition topic_policies_set_auto_subscription_creation ::
    "admin_client \<Rightarrow> bool \<Rightarrow> string \<Rightarrow> json \<Rightarrow> (error, admin_call) result" where
  "topic_policies_set_auto_subscription_creation cl is_global topic v =
     rmap (call POST [] (Json_body v) Reads_nothing)
       (topic_policies_policy_url cl is_global topic ''autoSubscriptionCreation'')"

definition topic_policies_remove_auto_subscription_creation ::
    "admin_client \<Rightarrow> bool \<Rightarrow> string \<Rightarrow> (error, admin_call) result" where
  "topic_policies_remove_auto_subscription_creation cl is_global topic =
     rmap (call DELETE [] No_body Reads_nothing)
       (topic_policies_policy_url cl is_global topic ''autoSubscriptionCreation'')"

definition topic_policies_get_entry_filters ::
    "admin_client \<Rightarrow> bool \<Rightarrow> string \<Rightarrow> bool \<Rightarrow> (error, admin_call) result" where
  "topic_policies_get_entry_filters cl is_global topic applied =
     rmap (call GET [(''applied'', show_bool applied)] No_body Reads_json_opt)
       (topic_policies_policy_url cl is_global topic ''entryFilters'')"

definition topic_policies_set_entry_filters ::
    "admin_client \<Rightarrow> bool \<Rightarrow> string \<Rightarrow> json \<Rightarrow> (error, admin_call) result" where
  "topic_policies_set_entry_filters cl is_global topic v =
     rmap (call POST [] (Json_body v) Reads_nothing)
       (topic_policies_policy_url cl is_global topic ''entryFilters'')"

definition topic_policies_remove_entry_filters ::
    "admin_client \<Rightarrow> bool \<Rightarrow> string \<Rightarrow> (error, admin_call) result" where
  "topic_policies_remove_entry_filters cl is_global topic =
     rmap (call DELETE [] No_body Reads_nothing)
       (topic_policies_policy_url cl is_global topic ''entryFilters'')"

definition topic_policies_get_schema_compatibility_strategy ::
    "admin_client \<Rightarrow> bool \<Rightarrow> string \<Rightarrow> bool \<Rightarrow> (error, admin_call) result" where
  "topic_policies_get_schema_compatibility_strategy cl is_global topic applied =
     rmap (call GET [(''applied'', show_bool applied)] No_body Reads_json_opt)
       (topic_policies_policy_url cl is_global topic ''schemaCompatibilityStrategy'')"

definition topic_policies_set_schema_compatibility_strategy ::
    "admin_client \<Rightarrow> bool \<Rightarrow> string \<Rightarrow> json \<Rightarrow> (error, admin_call) result" where
  "topic_policies_set_schema_compatibility_strategy cl is_global topic v =
     rmap (call PUT [] (Json_body v) Reads_nothing)
       (topic_policies_policy_url cl is_global topic ''schemaCompatibilityStrategy'')"

definition topic_policies_remove_schema_compatibility_strategy ::
    "admin_client \<Rightarrow> bool \<Rightarrow> string \<Rightarrow> (error, admin_call) result" where
  "topic_policies_remove_schema_compatibility_strategy cl is_global topic =
     rmap (call DELETE [] No_body Reads_nothing)
       (topic_policies_policy_url cl is_global topic ''schemaCompatibilityStrategy'')"

definition topic_policies_get_max_unacked_messages_on_consumer ::
    "admin_client \<Rightarrow> bool \<Rightarrow> string \<Rightarrow> bool \<Rightarrow> (error, admin_call) result" where
  "topic_policies_get_max_unacked_messages_on_consumer cl is_global topic applied =
     rmap (call GET [(''applied'', show_bool applied)] No_body Reads_json_opt)
       (topic_policies_policy_url cl is_global topic ''maxUnackedMessagesOnConsumer'')"

definition topic_policies_set_max_unacked_messages_on_consumer ::
    "admin_client \<Rightarrow> bool \<Rightarrow> string \<Rightarrow> int \<Rightarrow> (error, admin_call) result" where
  "topic_policies_set_max_unacked_messages_on_consumer cl is_global topic v =
     rmap (call POST [] (Json_body (JNum v)) Reads_nothing)
       (topic_policies_policy_url cl is_global topic ''maxUnackedMessagesOnConsumer'')"

definition topic_policies_remove_max_unacked_messages_on_consumer ::
    "admin_client \<Rightarrow> bool \<Rightarrow> string \<Rightarrow> (error, admin_call) result" where
  "topic_policies_remove_max_unacked_messages_on_consumer cl is_global topic =
     rmap (call DELETE [] No_body Reads_nothing)
       (topic_policies_policy_url cl is_global topic ''maxUnackedMessagesOnConsumer'')"

definition topic_policies_get_max_unacked_messages_on_subscription ::
    "admin_client \<Rightarrow> bool \<Rightarrow> string \<Rightarrow> bool \<Rightarrow> (error, admin_call) result" where
  "topic_policies_get_max_unacked_messages_on_subscription cl is_global topic applied =
     rmap (call GET [(''applied'', show_bool applied)] No_body Reads_json_opt)
       (topic_policies_policy_url cl is_global topic ''maxUnackedMessagesOnSubscription'')"

definition topic_policies_set_max_unacked_messages_on_subscription ::
    "admin_client \<Rightarrow> bool \<Rightarrow> string \<Rightarrow> int \<Rightarrow> (error, admin_call) result" where
  "topic_policies_set_max_unacked_messages_on_subscription cl is_global topic v =
     rmap (call POST [] (Json_body (JNum v)) Reads_nothing)
       (topic_policies_policy_url cl is_global topic ''maxUnackedMessagesOnSubscription'')"

definition topic_policies_remove_max_unacked_messages_on_subscription ::
    "admin_client \<Rightarrow> bool \<Rightarrow> string \<Rightarrow> (error, admin_call) result" where
  "topic_policies_remove_max_unacked_messages_on_subscription cl is_global topic =
     rmap (call DELETE [] No_body Reads_nothing)
       (topic_policies_policy_url cl is_global topic ''maxUnackedMessagesOnSubscription'')"

definition topic_policies_get_max_producers ::
    "admin_client \<Rightarrow> bool \<Rightarrow> string \<Rightarrow> bool \<Rightarrow> (error, admin_call) result" where
  "topic_policies_get_max_producers cl is_global topic applied =
     rmap (call GET [(''applied'', show_bool applied)] No_body Reads_json_opt)
       (topic_policies_policy_url cl is_global topic ''maxProducers'')"

definition topic_policies_set_max_producers ::
    "admin_client \<Rightarrow> bool \<Rightarrow> string \<Rightarrow> int \<Rightarrow> (error, admin_call) result" where
  "topic_policies_set_max_producers cl is_global topic v =
     rmap (call POST [] (Json_body (JNum v)) Reads_nothing)
       (topic_policies_policy_url cl is_global topic ''maxProducers'')"

definition topic_policies_remove_max_producers ::
    "admin_client \<Rightarrow> bool \<Rightarrow> string \<Rightarrow> (error, admin_call) result" where
  "topic_policies_remove_max_producers cl is_global topic =
     rmap (call DELETE [] No_body Reads_nothing)
       (topic_policies_policy_url cl is_global topic ''maxProducers'')"

definition topic_policies_get_max_consumers ::
    "admin_client \<Rightarrow> bool \<Rightarrow> string \<Rightarrow> bool \<Rightarrow> (error, admin_call) result" where
  "topic_policies_get_max_consumers cl is_global topic applied =
     rmap (call GET [(''applied'', show_bool applied)] No_body Reads_json_opt)
       (topic_policies_policy_url cl is_global topic ''maxConsumers'')"

definition topic_policies_set_max_consumers ::
    "admin_client \<Rightarrow> bool \<Rightarrow> string \<Rightarrow> int \<Rightarrow> (error, admin_call) result" where
  "topic_policies_set_max_consumers cl is_global topic v =
     rmap (call POST [] (Json_body (JNum v)) Reads_nothing)
       (topic_policies_policy_url cl is_global topic ''maxConsumers'')"

definition topic_policies_remove_max_consumers ::
    "admin_client \<Rightarrow> bool \<Rightarrow> string \<Rightarrow> (error, admin_call) result" where
  "topic_policies_remove_max_consumers cl is_global topic =
     rmap (call DELETE [] No_body Reads_nothing)
       (topic_policies_policy_url cl is_global topic ''maxConsumers'')"

definition topic_policies_get_max_consumers_per_subscription ::
    "admin_client \<Rightarrow> bool \<Rightarrow> string \<Rightarrow> (error, admin_call) result" where
  "topic_policies_get_max_consumers_per_subscription cl is_global topic =
     rmap (call GET [] No_body Reads_json_opt)
       (topic_policies_policy_url cl is_global topic ''maxConsumersPerSubscription'')"

definition topic_policies_set_max_consumers_per_subscription ::
    "admin_client \<Rightarrow> bool \<Rightarrow> string \<Rightarrow> int \<Rightarrow> (error, admin_call) result" where
  "topic_policies_set_max_consumers_per_subscription cl is_global topic v =
     rmap (call POST [] (Json_body (JNum v)) Reads_nothing)
       (topic_policies_policy_url cl is_global topic ''maxConsumersPerSubscription'')"

definition topic_policies_remove_max_consumers_per_subscription ::
    "admin_client \<Rightarrow> bool \<Rightarrow> string \<Rightarrow> (error, admin_call) result" where
  "topic_policies_remove_max_consumers_per_subscription cl is_global topic =
     rmap (call DELETE [] No_body Reads_nothing)
       (topic_policies_policy_url cl is_global topic ''maxConsumersPerSubscription'')"

definition topic_policies_get_max_subscriptions_per_topic ::
    "admin_client \<Rightarrow> bool \<Rightarrow> string \<Rightarrow> (error, admin_call) result" where
  "topic_policies_get_max_subscriptions_per_topic cl is_global topic =
     rmap (call GET [] No_body Reads_json_opt)
       (topic_policies_policy_url cl is_global topic ''maxSubscriptionsPerTopic'')"

definition topic_policies_set_max_subscriptions_per_topic ::
    "admin_client \<Rightarrow> bool \<Rightarrow> string \<Rightarrow> int \<Rightarrow> (error, admin_call) result" where
  "topic_policies_set_max_subscriptions_per_topic cl is_global topic v =
     rmap (call POST [] (Json_body (JNum v)) Reads_nothing)
       (topic_policies_policy_url cl is_global topic ''maxSubscriptionsPerTopic'')"

definition topic_policies_remove_max_subscriptions_per_topic ::
    "admin_client \<Rightarrow> bool \<Rightarrow> string \<Rightarrow> (error, admin_call) result" where
  "topic_policies_remove_max_subscriptions_per_topic cl is_global topic =
     rmap (call DELETE [] No_body Reads_nothing)
       (topic_policies_policy_url cl is_global topic ''maxSubscriptionsPerTopic'')"

definition topic_policies_get_max_message_size ::
    "admin_client \<Rightarrow> bool \<Rightarrow> string \<Rightarrow> (error, admin_call) result" where
  "topic_policies_get_max_message_size cl is_global topic =
     rmap (call GET [] No_body Reads_json_opt)
       (topic_policies_policy_url cl is_global topic ''maxMessageSize'')"

definition topic_policies_set_max_message_size ::
    "admin_client \<Rightarrow> bool \<Rightarrow> string \<Rightarrow> int \<Rightarrow> (error, admin_call) result" where
  "topic_policies_set_max_message_size cl is_global topic v =
     rmap (call POST [] (Json_body (JNum v)) Reads_nothing)
       (topic_policies_policy_url cl is_global topic ''maxMessageSize'')"

definition topic_policies_remove_max_message_size ::
    "admin_client \<Rightarrow> bool \<Rightarrow> string \<Rightarrow> (error, admin_call) result" where
  "topic_policies_remove_max_message_size cl is_global topic =
     rmap (call DELETE [] No_body Reads_nothing)
       (topic_policies_policy_url cl is_global topic ''maxMessageSize'')"

definition topic_policies_get_compaction_threshold ::
    "admin_client \<Rightarrow> bool \<Rightarrow> string \<Rightarrow> bool \<Rightarrow> (error, admin_call) result" where
  "topic_policies_get_compaction_threshold cl is_global topic applied =
     rmap (call GET [(''applied'', show_bool applied)] No_body Reads_json_opt)
       (topic_policies_policy_url cl is_global topic ''compactionThreshold'')"

definition topic_policies_set_compaction_threshold ::
    "admin_client \<Rightarrow> bool \<Rightarrow> string \<Rightarrow> int \<Rightarrow> (error, admin_call) result" where
  "topic_policies_set_compaction_threshold cl is_global topic v =
     rmap (call POST [] (Json_body (JNum v)) Reads_nothing)
       (topic_policies_policy_url cl is_global topic ''compactionThreshold'')"

definition topic_policies_remove_compaction_threshold ::
    "admin_client \<Rightarrow> bool \<Rightarrow> string \<Rightarrow> (error, admin_call) result" where
  "topic_policies_remove_compaction_threshold cl is_global topic =
     rmap (call DELETE [] No_body Reads_nothing)
       (topic_policies_policy_url cl is_global topic ''compactionThreshold'')"

definition topic_policies_get_deduplication_snapshot_interval ::
    "admin_client \<Rightarrow> bool \<Rightarrow> string \<Rightarrow> (error, admin_call) result" where
  "topic_policies_get_deduplication_snapshot_interval cl is_global topic =
     rmap (call GET [] No_body Reads_json_opt)
       (topic_policies_policy_url cl is_global topic ''deduplicationSnapshotInterval'')"

definition topic_policies_set_deduplication_snapshot_interval ::
    "admin_client \<Rightarrow> bool \<Rightarrow> string \<Rightarrow> int \<Rightarrow> (error, admin_call) result" where
  "topic_policies_set_deduplication_snapshot_interval cl is_global topic v =
     rmap (call POST [] (Json_body (JNum v)) Reads_nothing)
       (topic_policies_policy_url cl is_global topic ''deduplicationSnapshotInterval'')"

definition topic_policies_remove_deduplication_snapshot_interval ::
    "admin_client \<Rightarrow> bool \<Rightarrow> string \<Rightarrow> (error, admin_call) result" where
  "topic_policies_remove_deduplication_snapshot_interval cl is_global topic =
     rmap (call DELETE [] No_body Reads_nothing)
       (topic_policies_policy_url cl is_global topic ''deduplicationSnapshotInterval'')"

definition topic_policies_get_subscription_expiration_time ::
    "admin_client \<Rightarrow> bool \<Rightarrow> string \<Rightarrow> bool \<Rightarrow> (error, admin_call) result" where
  "topic_policies_get_subscription_expiration_time cl is_global topic applied =
     rmap (call GET [(''applied'', show_bool applied)] No_body Reads_json_opt)
       (topic_policies_policy_url cl is_global topic ''subscriptionExpirationTime'')"

definition topic_policies_set_subscription_expiration_time ::
    "admin_client \<Rightarrow> bool \<Rightarrow> string \<Rightarrow> int \<Rightarrow> (error, admin_call) result" where
  "topic_policies_set_subscription_expiration_time cl is_global topic v =
     rmap (call POST [(''subscriptionExpirationTime'', show_int v)] No_body Reads_nothing)
       (topic_policies_policy_url cl is_global topic ''subscriptionExpirationTime'')"

definition topic_policies_remove_subscription_expiration_time ::
    "admin_client \<Rightarrow> bool \<Rightarrow> string \<Rightarrow> (error, admin_call) result" where
  "topic_policies_remove_subscription_expiration_time cl is_global topic =
     rmap (call DELETE [] No_body Reads_nothing)
       (topic_policies_policy_url cl is_global topic ''subscriptionExpirationTime'')"

definition topic_policies_get_deduplication_status ::
    "admin_client \<Rightarrow> bool \<Rightarrow> string \<Rightarrow> bool \<Rightarrow> (error, admin_call) result" where
  "topic_policies_get_deduplication_status cl is_global topic applied =
     rmap (call GET [(''applied'', show_bool applied)] No_body Reads_json_opt)
       (topic_policies_policy_url cl is_global topic ''deduplicationEnabled'')"

definition topic_policies_set_deduplication_status ::
    "admin_client \<Rightarrow> bool \<Rightarrow> string \<Rightarrow> bool \<Rightarrow> (error, admin_call) result" where
  "topic_policies_set_deduplication_status cl is_global topic v =
     rmap (call POST [] (Json_body (JBool v)) Reads_nothing)
       (topic_policies_policy_url cl is_global topic ''deduplicationEnabled'')"

definition topic_policies_remove_deduplication_status ::
    "admin_client \<Rightarrow> bool \<Rightarrow> string \<Rightarrow> (error, admin_call) result" where
  "topic_policies_remove_deduplication_status cl is_global topic =
     rmap (call DELETE [] No_body Reads_nothing)
       (topic_policies_policy_url cl is_global topic ''deduplicationEnabled'')"

definition topic_policies_get_backlog_quota_map ::
    "admin_client \<Rightarrow> bool \<Rightarrow> string \<Rightarrow> bool \<Rightarrow> (error, admin_call) result" where
  "topic_policies_get_backlog_quota_map cl is_global topic applied =
     rmap (call GET [(''applied'', show_bool applied)] No_body Reads_json_or_default)
       (topic_policies_policy_url cl is_global topic ''backlogQuotaMap'')"

definition topic_policies_set_backlog_quota ::
    "admin_client \<Rightarrow> bool \<Rightarrow> string \<Rightarrow> json \<Rightarrow> backlog_quota_type \<Rightarrow> (error, admin_call) result" where
  "topic_policies_set_backlog_quota cl is_global topic quota quota_type =
     rmap (call POST [(''backlogQuotaType'', backlog_quota_type_str quota_type)] (Json_body quota) Reads_nothing)
       (topic_policies_policy_url cl is_global topic ''backlogQuota'')"

definition topic_policies_remove_backlog_quota ::
    "admin_client \<Rightarrow> bool \<Rightarrow> string \<Rightarrow> backlog_quota_type \<Rightarrow> (error, admin_call) result" where
  "topic_policies_remove_backlog_quota cl is_global topic quota_type =
     rmap (call DELETE [(''backlogQuotaType'', backlog_quota_type_str quota_type)] No_body Reads_nothing)
       (topic_policies_policy_url cl is_global topic ''backlogQuota'')"

definition topic_policies_get_message_ttl ::
    "admin_client \<Rightarrow> bool \<Rightarrow> string \<Rightarrow> bool \<Rightarrow> (error, admin_call) result" where
  "topic_policies_get_message_ttl cl is_global topic applied =
     rmap (call GET [(''applied'', show_bool applied)] No_body Reads_json_opt)
       (topic_policies_policy_url cl is_global topic ''messageTTL'')"

definition topic_policies_set_message_ttl ::
    "admin_client \<Rightarrow> bool \<Rightarrow> string \<Rightarrow> int \<Rightarrow> (error, admin_call) result" where
  "topic_policies_set_message_ttl cl is_global topic secs =
     rmap (call POST [(''messageTTL'', show_int secs)] No_body Reads_nothing)
       (topic_policies_policy_url cl is_global topic ''messageTTL'')"

definition topic_policies_remove_message_ttl ::
    "admin_client \<Rightarrow> bool \<Rightarrow> string \<Rightarrow> (error, admin_call) result" where
  "topic_policies_remove_message_ttl cl is_global topic =
     rmap (call DELETE [] No_body Reads_nothing)
       (topic_policies_policy_url cl is_global topic ''messageTTL'')"

definition topic_policies_get_dispatcher_pause_on_ack_state_persistent ::
    "admin_client \<Rightarrow> bool \<Rightarrow> string \<Rightarrow> bool \<Rightarrow> (error, admin_call) result" where
  "topic_policies_get_dispatcher_pause_on_ack_state_persistent cl is_global topic applied =
     rmap (call GET [(''applied'', show_bool applied)] No_body Reads_json_opt)
       (topic_policies_policy_url cl is_global topic ''dispatcherPauseOnAckStatePersistent'')"

definition topic_policies_set_dispatcher_pause_on_ack_state_persistent ::
    "admin_client \<Rightarrow> bool \<Rightarrow> string \<Rightarrow> (error, admin_call) result" where
  "topic_policies_set_dispatcher_pause_on_ack_state_persistent cl is_global topic =
     rmap (call POST [] (Json_body (JStr '''')) Reads_nothing)
       (topic_policies_policy_url cl is_global topic ''dispatcherPauseOnAckStatePersistent'')"

definition topic_policies_remove_dispatcher_pause_on_ack_state_persistent ::
    "admin_client \<Rightarrow> bool \<Rightarrow> string \<Rightarrow> (error, admin_call) result" where
  "topic_policies_remove_dispatcher_pause_on_ack_state_persistent cl is_global topic =
     rmap (call DELETE [] No_body Reads_nothing)
       (topic_policies_policy_url cl is_global topic ''dispatcherPauseOnAckStatePersistent'')"

definition topic_policies_set_replication_clusters ::
    "admin_client \<Rightarrow> bool \<Rightarrow> string \<Rightarrow> string list \<Rightarrow> (error, admin_call) result" where
  "topic_policies_set_replication_clusters cl is_global topic clusters =
     rmap (call POST [] (Json_body (JArr (map JStr clusters))) Reads_nothing)
       (topic_policies_policy_url cl is_global topic ''replication'')"

section \<open>What is shown\<close>

text \<open>
  The policies of a topic that can be read, set and removed. One more, the backlog quotas, are read
  as a map and set one by one under another name.
\<close>

definition topic_policy_triples :: "admin_client \<Rightarrow> bool \<Rightarrow> string \<Rightarrow> string list \<Rightarrow> int \<Rightarrow> bool \<Rightarrow> json \<Rightarrow>
    ((error, admin_call) result \<times> (error, admin_call) result \<times> (error, admin_call) result) list" where
  "topic_policy_triples cl is_global topic ss i b j =
     [(topic_policies_get_replication_clusters cl is_global topic b,
       topic_policies_set_replication_clusters cl is_global topic ss,
       topic_policies_remove_replication_clusters cl is_global topic),
      (topic_policies_get_subscription_types_enabled cl is_global topic,
       topic_policies_set_subscription_types_enabled cl is_global topic ss,
       topic_policies_remove_subscription_types_enabled cl is_global topic),
      (topic_policies_get_retention cl is_global topic b,
       topic_policies_set_retention cl is_global topic j,
       topic_policies_remove_retention cl is_global topic),
      (topic_policies_get_persistence cl is_global topic b,
       topic_policies_set_persistence cl is_global topic j,
       topic_policies_remove_persistence cl is_global topic),
      (topic_policies_get_dispatch_rate cl is_global topic b,
       topic_policies_set_dispatch_rate cl is_global topic j,
       topic_policies_remove_dispatch_rate cl is_global topic),
      (topic_policies_get_subscription_dispatch_rate cl is_global topic b,
       topic_policies_set_subscription_dispatch_rate cl is_global topic j,
       topic_policies_remove_subscription_dispatch_rate cl is_global topic),
      (topic_policies_get_replicator_dispatch_rate cl is_global topic b,
       topic_policies_set_replicator_dispatch_rate cl is_global topic j,
       topic_policies_remove_replicator_dispatch_rate cl is_global topic),
      (topic_policies_get_publish_rate cl is_global topic,
       topic_policies_set_publish_rate cl is_global topic j,
       topic_policies_remove_publish_rate cl is_global topic),
      (topic_policies_get_subscribe_rate cl is_global topic b,
       topic_policies_set_subscribe_rate cl is_global topic j,
       topic_policies_remove_subscribe_rate cl is_global topic),
      (topic_policies_get_inactive_topic_policies cl is_global topic b,
       topic_policies_set_inactive_topic_policies cl is_global topic j,
       topic_policies_remove_inactive_topic_policies cl is_global topic),
      (topic_policies_get_delayed_delivery_policy cl is_global topic b,
       topic_policies_set_delayed_delivery_policy cl is_global topic j,
       topic_policies_remove_delayed_delivery_policy cl is_global topic),
      (topic_policies_get_offload_policies cl is_global topic b,
       topic_policies_set_offload_policies cl is_global topic j,
       topic_policies_remove_offload_policies cl is_global topic),
      (topic_policies_get_auto_subscription_creation cl is_global topic b,
       topic_policies_set_auto_subscription_creation cl is_global topic j,
       topic_policies_remove_auto_subscription_creation cl is_global topic),
      (topic_policies_get_entry_filters cl is_global topic b,
       topic_policies_set_entry_filters cl is_global topic j,
       topic_policies_remove_entry_filters cl is_global topic),
      (topic_policies_get_schema_compatibility_strategy cl is_global topic b,
       topic_policies_set_schema_compatibility_strategy cl is_global topic j,
       topic_policies_remove_schema_compatibility_strategy cl is_global topic),
      (topic_policies_get_max_unacked_messages_on_consumer cl is_global topic b,
       topic_policies_set_max_unacked_messages_on_consumer cl is_global topic i,
       topic_policies_remove_max_unacked_messages_on_consumer cl is_global topic),
      (topic_policies_get_max_unacked_messages_on_subscription cl is_global topic b,
       topic_policies_set_max_unacked_messages_on_subscription cl is_global topic i,
       topic_policies_remove_max_unacked_messages_on_subscription cl is_global topic),
      (topic_policies_get_max_producers cl is_global topic b,
       topic_policies_set_max_producers cl is_global topic i,
       topic_policies_remove_max_producers cl is_global topic),
      (topic_policies_get_max_consumers cl is_global topic b,
       topic_policies_set_max_consumers cl is_global topic i,
       topic_policies_remove_max_consumers cl is_global topic),
      (topic_policies_get_max_consumers_per_subscription cl is_global topic,
       topic_policies_set_max_consumers_per_subscription cl is_global topic i,
       topic_policies_remove_max_consumers_per_subscription cl is_global topic),
      (topic_policies_get_max_subscriptions_per_topic cl is_global topic,
       topic_policies_set_max_subscriptions_per_topic cl is_global topic i,
       topic_policies_remove_max_subscriptions_per_topic cl is_global topic),
      (topic_policies_get_max_message_size cl is_global topic,
       topic_policies_set_max_message_size cl is_global topic i,
       topic_policies_remove_max_message_size cl is_global topic),
      (topic_policies_get_compaction_threshold cl is_global topic b,
       topic_policies_set_compaction_threshold cl is_global topic i,
       topic_policies_remove_compaction_threshold cl is_global topic),
      (topic_policies_get_deduplication_snapshot_interval cl is_global topic,
       topic_policies_set_deduplication_snapshot_interval cl is_global topic i,
       topic_policies_remove_deduplication_snapshot_interval cl is_global topic),
      (topic_policies_get_subscription_expiration_time cl is_global topic b,
       topic_policies_set_subscription_expiration_time cl is_global topic i,
       topic_policies_remove_subscription_expiration_time cl is_global topic),
      (topic_policies_get_deduplication_status cl is_global topic b,
       topic_policies_set_deduplication_status cl is_global topic b,
       topic_policies_remove_deduplication_status cl is_global topic),
      (topic_policies_get_message_ttl cl is_global topic b,
       topic_policies_set_message_ttl cl is_global topic i,
       topic_policies_remove_message_ttl cl is_global topic),
      (topic_policies_get_dispatcher_pause_on_ack_state_persistent cl is_global topic b,
       topic_policies_set_dispatcher_pause_on_ack_state_persistent cl is_global topic,
       topic_policies_remove_dispatcher_pause_on_ack_state_persistent cl is_global topic)]"

text \<open>Every operation on the policies of a topic.\<close>

definition topic_policy_operations :: "admin_client \<Rightarrow> bool \<Rightarrow> string \<Rightarrow> string list \<Rightarrow> int \<Rightarrow> bool \<Rightarrow> json \<Rightarrow>
    backlog_quota_type \<Rightarrow> (error, admin_call) result list" where
  "topic_policy_operations cl is_global topic ss i b j q =
     [topic_policies_delete_topic_policies cl is_global topic,
      topic_policies_get_replication_clusters cl is_global topic b,
      topic_policies_remove_replication_clusters cl is_global topic,
      topic_policies_get_subscription_types_enabled cl is_global topic,
      topic_policies_set_subscription_types_enabled cl is_global topic ss,
      topic_policies_remove_subscription_types_enabled cl is_global topic,
      topic_policies_get_retention cl is_global topic b, topic_policies_set_retention cl is_global topic j,
      topic_policies_remove_retention cl is_global topic, topic_policies_get_persistence cl is_global topic b,
      topic_policies_set_persistence cl is_global topic j,
      topic_policies_remove_persistence cl is_global topic,
      topic_policies_get_dispatch_rate cl is_global topic b,
      topic_policies_set_dispatch_rate cl is_global topic j,
      topic_policies_remove_dispatch_rate cl is_global topic,
      topic_policies_get_subscription_dispatch_rate cl is_global topic b,
      topic_policies_set_subscription_dispatch_rate cl is_global topic j,
      topic_policies_remove_subscription_dispatch_rate cl is_global topic,
      topic_policies_get_replicator_dispatch_rate cl is_global topic b,
      topic_policies_set_replicator_dispatch_rate cl is_global topic j,
      topic_policies_remove_replicator_dispatch_rate cl is_global topic,
      topic_policies_get_publish_rate cl is_global topic, topic_policies_set_publish_rate cl is_global topic j,
      topic_policies_remove_publish_rate cl is_global topic,
      topic_policies_get_subscribe_rate cl is_global topic b,
      topic_policies_set_subscribe_rate cl is_global topic j,
      topic_policies_remove_subscribe_rate cl is_global topic,
      topic_policies_get_inactive_topic_policies cl is_global topic b,
      topic_policies_set_inactive_topic_policies cl is_global topic j,
      topic_policies_remove_inactive_topic_policies cl is_global topic,
      topic_policies_get_delayed_delivery_policy cl is_global topic b,
      topic_policies_set_delayed_delivery_policy cl is_global topic j,
      topic_policies_remove_delayed_delivery_policy cl is_global topic,
      topic_policies_get_offload_policies cl is_global topic b,
      topic_policies_set_offload_policies cl is_global topic j,
      topic_policies_remove_offload_policies cl is_global topic,
      topic_policies_get_auto_subscription_creation cl is_global topic b,
      topic_policies_set_auto_subscription_creation cl is_global topic j,
      topic_policies_remove_auto_subscription_creation cl is_global topic,
      topic_policies_get_entry_filters cl is_global topic b,
      topic_policies_set_entry_filters cl is_global topic j,
      topic_policies_remove_entry_filters cl is_global topic,
      topic_policies_get_schema_compatibility_strategy cl is_global topic b,
      topic_policies_set_schema_compatibility_strategy cl is_global topic j,
      topic_policies_remove_schema_compatibility_strategy cl is_global topic,
      topic_policies_get_max_unacked_messages_on_consumer cl is_global topic b,
      topic_policies_set_max_unacked_messages_on_consumer cl is_global topic i,
      topic_policies_remove_max_unacked_messages_on_consumer cl is_global topic,
      topic_policies_get_max_unacked_messages_on_subscription cl is_global topic b,
      topic_policies_set_max_unacked_messages_on_subscription cl is_global topic i,
      topic_policies_remove_max_unacked_messages_on_subscription cl is_global topic,
      topic_policies_get_max_producers cl is_global topic b,
      topic_policies_set_max_producers cl is_global topic i,
      topic_policies_remove_max_producers cl is_global topic,
      topic_policies_get_max_consumers cl is_global topic b,
      topic_policies_set_max_consumers cl is_global topic i,
      topic_policies_remove_max_consumers cl is_global topic,
      topic_policies_get_max_consumers_per_subscription cl is_global topic,
      topic_policies_set_max_consumers_per_subscription cl is_global topic i,
      topic_policies_remove_max_consumers_per_subscription cl is_global topic,
      topic_policies_get_max_subscriptions_per_topic cl is_global topic,
      topic_policies_set_max_subscriptions_per_topic cl is_global topic i,
      topic_policies_remove_max_subscriptions_per_topic cl is_global topic,
      topic_policies_get_max_message_size cl is_global topic,
      topic_policies_set_max_message_size cl is_global topic i,
      topic_policies_remove_max_message_size cl is_global topic,
      topic_policies_get_compaction_threshold cl is_global topic b,
      topic_policies_set_compaction_threshold cl is_global topic i,
      topic_policies_remove_compaction_threshold cl is_global topic,
      topic_policies_get_deduplication_snapshot_interval cl is_global topic,
      topic_policies_set_deduplication_snapshot_interval cl is_global topic i,
      topic_policies_remove_deduplication_snapshot_interval cl is_global topic,
      topic_policies_get_subscription_expiration_time cl is_global topic b,
      topic_policies_set_subscription_expiration_time cl is_global topic i,
      topic_policies_remove_subscription_expiration_time cl is_global topic,
      topic_policies_get_deduplication_status cl is_global topic b,
      topic_policies_set_deduplication_status cl is_global topic b,
      topic_policies_remove_deduplication_status cl is_global topic,
      topic_policies_get_backlog_quota_map cl is_global topic b,
      topic_policies_set_backlog_quota cl is_global topic j q,
      topic_policies_remove_backlog_quota cl is_global topic q,
      topic_policies_get_message_ttl cl is_global topic b, topic_policies_set_message_ttl cl is_global topic i,
      topic_policies_remove_message_ttl cl is_global topic,
      topic_policies_get_dispatcher_pause_on_ack_state_persistent cl is_global topic b,
      topic_policies_set_dispatcher_pause_on_ack_state_persistent cl is_global topic,
      topic_policies_remove_dispatcher_pause_on_ack_state_persistent cl is_global topic,
      topic_policies_set_replication_clusters cl is_global topic ss]"

text \<open>
  An operation stays below the path of its topic, and asks for the replicated policies exactly when
  the handle is the global one.
\<close>

definition about_topic :: "admin_client \<Rightarrow> bool \<Rightarrow> string \<Rightarrow> (error, admin_call) result \<Rightarrow> bool" where
  "about_topic cl is_global topic r =
     (case (r, parse_topic topic) of
        (Inr c, Inr (scheme, tenant, ns, name)) \<Rightarrow>
          (let suffix = (if is_global then ''?isGlobal=true'' else []);
               n = length (ca_url c) - length suffix
           in drop n (ca_url c) = suffix
              \<and> below (ac_url cl @ ''/admin/v2'') [scheme, tenant, ns, name] (take n (ca_url c)))
      | (Inl e, Inl e') \<Rightarrow> e' = e
      | _ \<Rightarrow> False)"

lemma policy_url_cases:
  "topic_policies_policy_url cl is_global topic policy =
     (case parse_topic topic of
        Inl e \<Rightarrow> Inl e
      | Inr (scheme, tenant, ns, name) \<Rightarrow>
          Inr (admin_url cl [scheme, encode_segment tenant, encode_segment ns, encode_segment name, policy]
            @ (if is_global then ''?isGlobal=true'' else [])))"
  by (auto simp: topic_policies_policy_url_def parse_topic_path_def Let_def split: sum.split)

lemma about_topic_url:
  assumes "segment_ok policy"
  shows "about_topic cl is_global topic
    (rmap (call method query body reads) (topic_policies_policy_url cl is_global topic policy))"
proof -
  have "below (ac_url cl @ ''/admin/v2'') [scheme, tenant, ns, name]
      (admin_url cl [scheme, encode_segment tenant, encode_segment ns, encode_segment name, policy])"
    if "parse_topic topic = Inr (scheme, tenant, ns, name)" for scheme tenant ns name
    using below_admin_path [of "[policy]" "ac_url cl @ ''/admin/v2''" "[scheme, tenant, ns, name]"] assms
      parse_topic_scheme [OF that] scheme_encodes
    by (auto simp: admin_url_def)
  then show ?thesis
    by (auto simp: about_topic_def policy_url_cases Let_def split: sum.split)
qed

lemmas topic_policies_defs =
topic_policies_delete_topic_policies_def topic_policies_get_replication_clusters_def
  topic_policies_remove_replication_clusters_def topic_policies_get_subscription_types_enabled_def
  topic_policies_set_subscription_types_enabled_def topic_policies_remove_subscription_types_enabled_def
  topic_policies_get_retention_def topic_policies_set_retention_def topic_policies_remove_retention_def
  topic_policies_get_persistence_def topic_policies_set_persistence_def
  topic_policies_remove_persistence_def topic_policies_get_dispatch_rate_def
  topic_policies_set_dispatch_rate_def topic_policies_remove_dispatch_rate_def
  topic_policies_get_subscription_dispatch_rate_def topic_policies_set_subscription_dispatch_rate_def
  topic_policies_remove_subscription_dispatch_rate_def topic_policies_get_replicator_dispatch_rate_def
  topic_policies_set_replicator_dispatch_rate_def topic_policies_remove_replicator_dispatch_rate_def
  topic_policies_get_publish_rate_def topic_policies_set_publish_rate_def
  topic_policies_remove_publish_rate_def topic_policies_get_subscribe_rate_def
  topic_policies_set_subscribe_rate_def topic_policies_remove_subscribe_rate_def
  topic_policies_get_inactive_topic_policies_def topic_policies_set_inactive_topic_policies_def
  topic_policies_remove_inactive_topic_policies_def topic_policies_get_delayed_delivery_policy_def
  topic_policies_set_delayed_delivery_policy_def topic_policies_remove_delayed_delivery_policy_def
  topic_policies_get_offload_policies_def topic_policies_set_offload_policies_def
  topic_policies_remove_offload_policies_def topic_policies_get_auto_subscription_creation_def
  topic_policies_set_auto_subscription_creation_def topic_policies_remove_auto_subscription_creation_def
  topic_policies_get_entry_filters_def topic_policies_set_entry_filters_def
  topic_policies_remove_entry_filters_def topic_policies_get_schema_compatibility_strategy_def
  topic_policies_set_schema_compatibility_strategy_def
  topic_policies_remove_schema_compatibility_strategy_def
  topic_policies_get_max_unacked_messages_on_consumer_def
  topic_policies_set_max_unacked_messages_on_consumer_def
  topic_policies_remove_max_unacked_messages_on_consumer_def
  topic_policies_get_max_unacked_messages_on_subscription_def
  topic_policies_set_max_unacked_messages_on_subscription_def
  topic_policies_remove_max_unacked_messages_on_subscription_def topic_policies_get_max_producers_def
  topic_policies_set_max_producers_def topic_policies_remove_max_producers_def
  topic_policies_get_max_consumers_def topic_policies_set_max_consumers_def
  topic_policies_remove_max_consumers_def topic_policies_get_max_consumers_per_subscription_def
  topic_policies_set_max_consumers_per_subscription_def
  topic_policies_remove_max_consumers_per_subscription_def
  topic_policies_get_max_subscriptions_per_topic_def topic_policies_set_max_subscriptions_per_topic_def
  topic_policies_remove_max_subscriptions_per_topic_def topic_policies_get_max_message_size_def
  topic_policies_set_max_message_size_def topic_policies_remove_max_message_size_def
  topic_policies_get_compaction_threshold_def topic_policies_set_compaction_threshold_def
  topic_policies_remove_compaction_threshold_def topic_policies_get_deduplication_snapshot_interval_def
  topic_policies_set_deduplication_snapshot_interval_def
  topic_policies_remove_deduplication_snapshot_interval_def
  topic_policies_get_subscription_expiration_time_def topic_policies_set_subscription_expiration_time_def
  topic_policies_remove_subscription_expiration_time_def topic_policies_get_deduplication_status_def
  topic_policies_set_deduplication_status_def topic_policies_remove_deduplication_status_def
  topic_policies_get_backlog_quota_map_def topic_policies_set_backlog_quota_def
  topic_policies_remove_backlog_quota_def topic_policies_get_message_ttl_def
  topic_policies_set_message_ttl_def topic_policies_remove_message_ttl_def
  topic_policies_get_dispatcher_pause_on_ack_state_persistent_def
  topic_policies_set_dispatcher_pause_on_ack_state_persistent_def
  topic_policies_remove_dispatcher_pause_on_ack_state_persistent_def
  topic_policies_set_replication_clusters_def

text \<open>The 28 policies that can be read, set and removed.\<close>

lemma topic_policies_share_a_resource:
  "list_all one_resource (topic_policy_triples cl is_global topic ss i b j)"
  unfolding topic_policy_triples_def
  by (simp add: topic_policies_defs one_resource_simps policy_url_cases reads_only_def
        split: sum.split prod.split)

text \<open>The 88 operations on the policies of a topic.\<close>

lemma topic_policy_operations_stay_on_topic:
  "list_all (about_topic cl is_global topic) (topic_policy_operations cl is_global topic ss i b j q)"
  unfolding topic_policy_operations_def
  by (simp add: topic_policies_defs about_topic_url)

end
