(* ===== verification/Admin_Cluster.thy ===== *)
theory Admin_Cluster
  imports Admin_Calls
begin

text \<open>
  The operations on what serves the topics: one section per file of \<open>admin/\<close>.
\<close>

section \<open>Clusters\<close>

definition clusters_clusters_url :: "admin_client \<Rightarrow> string list \<Rightarrow> string" where
  "clusters_clusters_url cl segments = admin_url cl (''clusters'' # segments)"

definition clusters_get_clusters :: "admin_client \<Rightarrow> (error, admin_call) result" where
  "clusters_get_clusters cl =
     Inr (call GET [] No_body Reads_json
       (clusters_clusters_url cl []))"

definition clusters_get_cluster :: "admin_client \<Rightarrow> string \<Rightarrow> (error, admin_call) result" where
  "clusters_get_cluster cl cluster =
     Inr (call GET [] No_body Reads_json
       (clusters_clusters_url cl [encode_segment cluster]))"

definition clusters_create_cluster ::
    "admin_client \<Rightarrow> string \<Rightarrow> json \<Rightarrow> (error, admin_call) result" where
  "clusters_create_cluster cl cluster data =
     Inr (call PUT [] (Json_body data) Reads_nothing
       (clusters_clusters_url cl [encode_segment cluster]))"

definition clusters_update_cluster ::
    "admin_client \<Rightarrow> string \<Rightarrow> json \<Rightarrow> (error, admin_call) result" where
  "clusters_update_cluster cl cluster data =
     Inr (call POST [] (Json_body data) Reads_nothing
       (clusters_clusters_url cl [encode_segment cluster]))"

definition clusters_delete_cluster ::
    "admin_client \<Rightarrow> string \<Rightarrow> (error, admin_call) result" where
  "clusters_delete_cluster cl cluster =
     Inr (call DELETE [] No_body Reads_nothing
       (clusters_clusters_url cl [encode_segment cluster]))"

definition clusters_get_peer_cluster_names ::
    "admin_client \<Rightarrow> string \<Rightarrow> (error, admin_call) result" where
  "clusters_get_peer_cluster_names cl cluster =
     Inr (call GET [] No_body Reads_json
       (clusters_clusters_url cl [encode_segment cluster, ''peers'']))"

definition clusters_update_peer_cluster_names ::
    "admin_client \<Rightarrow> string \<Rightarrow> string list \<Rightarrow> (error, admin_call) result" where
  "clusters_update_peer_cluster_names cl cluster peers =
     Inr (call POST [] (Json_body (JArr (map JStr peers))) Reads_nothing
       (clusters_clusters_url cl [encode_segment cluster, ''peers'']))"

definition clusters_get_cluster_migration ::
    "admin_client \<Rightarrow> string \<Rightarrow> (error, admin_call) result" where
  "clusters_get_cluster_migration cl cluster =
     Inr (call GET [] No_body Reads_json_absent_on_404
       (clusters_clusters_url cl [encode_segment cluster, ''migrate'']))"

definition clusters_update_cluster_migration ::
    "admin_client \<Rightarrow> string \<Rightarrow> bool \<Rightarrow> json \<Rightarrow> (error, admin_call) result" where
  "clusters_update_cluster_migration cl cluster migrated url_data =
     Inr (call POST [(''migrated'', show_bool migrated)] (Json_body url_data) Reads_nothing
       (clusters_clusters_url cl [encode_segment cluster, ''migrate'']))"

definition clusters_get_namespace_isolation_policies ::
    "admin_client \<Rightarrow> string \<Rightarrow> (error, admin_call) result" where
  "clusters_get_namespace_isolation_policies cl cluster =
     Inr (call GET [] No_body Reads_json
       (clusters_clusters_url cl [encode_segment cluster, ''namespaceIsolationPolicies'']))"

definition clusters_get_namespace_isolation_policy ::
    "admin_client \<Rightarrow> string \<Rightarrow> string \<Rightarrow> (error, admin_call) result" where
  "clusters_get_namespace_isolation_policy cl cluster policy =
     Inr (call GET [] No_body Reads_json
       (clusters_clusters_url cl [encode_segment cluster, ''namespaceIsolationPolicies'', encode_segment policy]))"

definition clusters_set_namespace_isolation_policy ::
    "admin_client \<Rightarrow> string \<Rightarrow> string \<Rightarrow> json \<Rightarrow> (error, admin_call) result" where
  "clusters_set_namespace_isolation_policy cl cluster policy data =
     Inr (call POST [] (Json_body data) Reads_nothing
       (clusters_clusters_url cl [encode_segment cluster, ''namespaceIsolationPolicies'', encode_segment policy]))"

definition clusters_delete_namespace_isolation_policy ::
    "admin_client \<Rightarrow> string \<Rightarrow> string \<Rightarrow> (error, admin_call) result" where
  "clusters_delete_namespace_isolation_policy cl cluster policy =
     Inr (call DELETE [] No_body Reads_nothing
       (clusters_clusters_url cl [encode_segment cluster, ''namespaceIsolationPolicies'', encode_segment policy]))"

definition clusters_get_brokers_with_namespace_isolation_policy ::
    "admin_client \<Rightarrow> string \<Rightarrow> (error, admin_call) result" where
  "clusters_get_brokers_with_namespace_isolation_policy cl cluster =
     Inr (call GET [] No_body Reads_json
       (clusters_clusters_url cl [encode_segment cluster, ''namespaceIsolationPolicies'', ''brokers'']))"

definition clusters_get_broker_with_namespace_isolation_policy ::
    "admin_client \<Rightarrow> string \<Rightarrow> string \<Rightarrow> (error, admin_call) result" where
  "clusters_get_broker_with_namespace_isolation_policy cl cluster broker =
     Inr (call GET [] No_body Reads_json
       (clusters_clusters_url cl [encode_segment cluster, ''namespaceIsolationPolicies'', ''brokers'', encode_segment broker]))"

definition clusters_get_failure_domains ::
    "admin_client \<Rightarrow> string \<Rightarrow> (error, admin_call) result" where
  "clusters_get_failure_domains cl cluster =
     Inr (call GET [] No_body Reads_json
       (clusters_clusters_url cl [encode_segment cluster, ''failureDomains'']))"

definition clusters_get_failure_domain ::
    "admin_client \<Rightarrow> string \<Rightarrow> string \<Rightarrow> (error, admin_call) result" where
  "clusters_get_failure_domain cl cluster domain =
     Inr (call GET [] No_body Reads_json
       (clusters_clusters_url cl [encode_segment cluster, ''failureDomains'', encode_segment domain]))"

definition clusters_set_failure_domain ::
    "admin_client \<Rightarrow> string \<Rightarrow> string \<Rightarrow> json \<Rightarrow> (error, admin_call) result" where
  "clusters_set_failure_domain cl cluster domain data =
     Inr (call POST [] (Json_body data) Reads_nothing
       (clusters_clusters_url cl [encode_segment cluster, ''failureDomains'', encode_segment domain]))"

definition clusters_delete_failure_domain ::
    "admin_client \<Rightarrow> string \<Rightarrow> string \<Rightarrow> (error, admin_call) result" where
  "clusters_delete_failure_domain cl cluster domain =
     Inr (call DELETE [] No_body Reads_nothing
       (clusters_clusters_url cl [encode_segment cluster, ''failureDomains'', encode_segment domain]))"

section \<open>Tenants\<close>

definition tenants_tenants_url :: "admin_client \<Rightarrow> string list \<Rightarrow> string" where
  "tenants_tenants_url cl segments = admin_url cl (''tenants'' # segments)"

definition tenants_get_tenants :: "admin_client \<Rightarrow> (error, admin_call) result" where
  "tenants_get_tenants cl =
     Inr (call GET [] No_body Reads_json
       (tenants_tenants_url cl []))"

definition tenants_get_tenant_info ::
    "admin_client \<Rightarrow> string \<Rightarrow> (error, admin_call) result" where
  "tenants_get_tenant_info cl tenant =
     Inr (call GET [] No_body Reads_json
       (tenants_tenants_url cl [encode_segment tenant]))"

definition tenants_create_tenant ::
    "admin_client \<Rightarrow> string \<Rightarrow> json \<Rightarrow> (error, admin_call) result" where
  "tenants_create_tenant cl tenant info =
     Inr (call PUT [] (Json_body info) Reads_nothing
       (tenants_tenants_url cl [encode_segment tenant]))"

definition tenants_update_tenant ::
    "admin_client \<Rightarrow> string \<Rightarrow> json \<Rightarrow> (error, admin_call) result" where
  "tenants_update_tenant cl tenant info =
     Inr (call POST [] (Json_body info) Reads_nothing
       (tenants_tenants_url cl [encode_segment tenant]))"

definition tenants_delete_tenant ::
    "admin_client \<Rightarrow> string \<Rightarrow> bool \<Rightarrow> (error, admin_call) result" where
  "tenants_delete_tenant cl tenant force =
     Inr (call DELETE [(''force'', show_bool force)] No_body Reads_nothing
       (tenants_tenants_url cl [encode_segment tenant]))"

section \<open>Brokers\<close>

definition brokers_brokers_url :: "admin_client \<Rightarrow> string list \<Rightarrow> string" where
  "brokers_brokers_url cl segments = admin_url cl (''brokers'' # segments)"

definition brokers_get_active_brokers :: "admin_client \<Rightarrow> (error, admin_call) result" where
  "brokers_get_active_brokers cl =
     Inr (call GET [] No_body Reads_json
       (brokers_brokers_url cl []))"

definition brokers_get_active_brokers_in_cluster ::
    "admin_client \<Rightarrow> string \<Rightarrow> (error, admin_call) result" where
  "brokers_get_active_brokers_in_cluster cl cluster =
     Inr (call GET [] No_body Reads_json
       (brokers_brokers_url cl [encode_segment cluster]))"

definition brokers_get_leader_broker :: "admin_client \<Rightarrow> (error, admin_call) result" where
  "brokers_get_leader_broker cl =
     Inr (call GET [] No_body Reads_json
       (brokers_brokers_url cl [''leaderBroker'']))"

definition brokers_get_owned_namespaces ::
    "admin_client \<Rightarrow> string \<Rightarrow> string \<Rightarrow> (error, admin_call) result" where
  "brokers_get_owned_namespaces cl cluster broker_id =
     Inr (call GET [] No_body Reads_json
       (brokers_brokers_url cl [encode_segment cluster, encode_segment broker_id, ''ownedNamespaces'']))"

definition brokers_get_dynamic_configuration_names :: "admin_client \<Rightarrow> (error, admin_call) result" where
  "brokers_get_dynamic_configuration_names cl =
     Inr (call GET [] No_body Reads_json
       (brokers_brokers_url cl [''configuration'']))"

definition brokers_get_all_dynamic_configurations :: "admin_client \<Rightarrow> (error, admin_call) result" where
  "brokers_get_all_dynamic_configurations cl =
     Inr (call GET [] No_body Reads_json
       (brokers_brokers_url cl [''configuration'', ''values'']))"

definition brokers_get_runtime_configurations :: "admin_client \<Rightarrow> (error, admin_call) result" where
  "brokers_get_runtime_configurations cl =
     Inr (call GET [] No_body Reads_json
       (brokers_brokers_url cl [''configuration'', ''runtime'']))"

definition brokers_update_dynamic_configuration ::
    "admin_client \<Rightarrow> string \<Rightarrow> string \<Rightarrow> (error, admin_call) result" where
  "brokers_update_dynamic_configuration cl name v =
     Inr (call POST [] No_body Reads_nothing
       (brokers_brokers_url cl [''configuration'', encode_segment name, encode_segment v]))"

definition brokers_delete_dynamic_configuration ::
    "admin_client \<Rightarrow> string \<Rightarrow> (error, admin_call) result" where
  "brokers_delete_dynamic_configuration cl name =
     Inr (call DELETE [] No_body Reads_nothing
       (brokers_brokers_url cl [''configuration'', encode_segment name]))"

definition brokers_get_internal_configuration_data :: "admin_client \<Rightarrow> (error, admin_call) result" where
  "brokers_get_internal_configuration_data cl =
     Inr (call GET [] No_body Reads_json
       (brokers_brokers_url cl [''internal-configuration'']))"

definition brokers_get_broker_version :: "admin_client \<Rightarrow> (error, admin_call) result" where
  "brokers_get_broker_version cl =
     Inr (call GET [] No_body Reads_text
       (brokers_brokers_url cl [''version'']))"

definition brokers_healthcheck :: "admin_client \<Rightarrow> (error, admin_call) result" where
  "brokers_healthcheck cl =
     Inr (call GET [] No_body Reads_healthy (brokers_brokers_url cl [''health'']))"

definition brokers_healthcheck_broker ::
    "admin_client \<Rightarrow> string \<Rightarrow> (error, admin_call) result" where
  "brokers_healthcheck_broker cl broker_id =
     Inr (call GET [(''brokerId'', broker_id)] No_body Reads_healthy (brokers_brokers_url cl [''health'']))"

definition brokers_shutdown_broker_gracefully ::
    "admin_client \<Rightarrow> int \<Rightarrow> bool \<Rightarrow> (error, admin_call) result" where
  "brokers_shutdown_broker_gracefully cl max_concurrent_unload_per_sec forced_terminate_topic =
     Inr (call POST [(''maxConcurrentUnloadPerSec'', show_int max_concurrent_unload_per_sec), (''forcedTerminateTopic'', show_bool forced_terminate_topic)]
         (Json_body (JStr '''')) Reads_nothing
       (brokers_brokers_url cl [''shutdown'']))"

definition brokers_backlog_quota_check :: "admin_client \<Rightarrow> (error, admin_call) result" where
  "brokers_backlog_quota_check cl =
     Inr (call GET [] No_body Reads_nothing
       (brokers_brokers_url cl [''backlog-quota-check'']))"

section \<open>Broker stats\<close>

definition broker_stats_stats_url :: "admin_client \<Rightarrow> string list \<Rightarrow> string" where
  "broker_stats_stats_url cl segments = admin_url cl (''broker-stats'' # segments)"

definition broker_stats_get_metrics :: "admin_client \<Rightarrow> (error, admin_call) result" where
  "broker_stats_get_metrics cl =
     Inr (call GET [] No_body Reads_text
       (broker_stats_stats_url cl [''metrics'']))"

definition broker_stats_get_topics :: "admin_client \<Rightarrow> (error, admin_call) result" where
  "broker_stats_get_topics cl =
     Inr (call GET [] No_body Reads_text
       (broker_stats_stats_url cl [''topics'']))"

definition broker_stats_get_mbeans :: "admin_client \<Rightarrow> (error, admin_call) result" where
  "broker_stats_get_mbeans cl =
     Inr (call GET [] No_body Reads_text
       (broker_stats_stats_url cl [''mbeans'']))"

definition broker_stats_get_pending_bookie_ops_stats :: "admin_client \<Rightarrow> (error, admin_call) result" where
  "broker_stats_get_pending_bookie_ops_stats cl =
     Inr (call GET [] No_body Reads_text
       (broker_stats_stats_url cl [''bookieops'']))"

definition broker_stats_get_allocator_stats ::
    "admin_client \<Rightarrow> string \<Rightarrow> (error, admin_call) result" where
  "broker_stats_get_allocator_stats cl allocator_name =
     Inr (call GET [] No_body Reads_text
       (broker_stats_stats_url cl [''allocator-stats'', encode_segment allocator_name]))"

definition broker_stats_get_load_report :: "admin_client \<Rightarrow> (error, admin_call) result" where
  "broker_stats_get_load_report cl =
     Inr (call GET [] No_body Reads_json
       (broker_stats_stats_url cl [''load-report'']))"

section \<open>Bookies\<close>

definition bookies_bookies_url :: "admin_client \<Rightarrow> string list \<Rightarrow> string" where
  "bookies_bookies_url cl segments = admin_url cl (''bookies'' # segments)"

definition bookies_get_bookies :: "admin_client \<Rightarrow> (error, admin_call) result" where
  "bookies_get_bookies cl =
     Inr (call GET [] No_body Reads_json
       (bookies_bookies_url cl [''all'']))"

definition bookies_get_bookies_rack_info :: "admin_client \<Rightarrow> (error, admin_call) result" where
  "bookies_get_bookies_rack_info cl =
     Inr (call GET [] No_body Reads_json
       (bookies_bookies_url cl [''racks-info'']))"

definition bookies_get_bookie_rack_info ::
    "admin_client \<Rightarrow> string \<Rightarrow> (error, admin_call) result" where
  "bookies_get_bookie_rack_info cl bookie_address =
     Inr (call GET [] No_body Reads_json_absent_on_404
       (bookies_bookies_url cl [''racks-info'', encode_segment bookie_address]))"

definition bookies_update_bookie_rack_info ::
    "admin_client \<Rightarrow> string \<Rightarrow> string \<Rightarrow> json \<Rightarrow> (error, admin_call) result" where
  "bookies_update_bookie_rack_info cl bookie_address grp info =
     Inr (call POST [(''group'', grp)] (Json_body info) Reads_nothing
       (bookies_bookies_url cl [''racks-info'', encode_segment bookie_address]))"

definition bookies_delete_bookie_rack_info ::
    "admin_client \<Rightarrow> string \<Rightarrow> (error, admin_call) result" where
  "bookies_delete_bookie_rack_info cl bookie_address =
     Inr (call DELETE [] No_body Reads_nothing
       (bookies_bookies_url cl [''racks-info'', encode_segment bookie_address]))"

section \<open>Resource groups\<close>

definition resource_groups_resource_groups_url :: "admin_client \<Rightarrow> string list \<Rightarrow> string" where
  "resource_groups_resource_groups_url cl segments = admin_url cl (''resourcegroups'' # segments)"

definition resource_groups_get_resource_groups :: "admin_client \<Rightarrow> (error, admin_call) result" where
  "resource_groups_get_resource_groups cl =
     Inr (call GET [] No_body Reads_json
       (resource_groups_resource_groups_url cl []))"

definition resource_groups_get_resource_group ::
    "admin_client \<Rightarrow> string \<Rightarrow> (error, admin_call) result" where
  "resource_groups_get_resource_group cl name =
     Inr (call GET [] No_body Reads_json
       (resource_groups_resource_groups_url cl [encode_segment name]))"

definition resource_groups_create_resource_group ::
    "admin_client \<Rightarrow> string \<Rightarrow> json \<Rightarrow> (error, admin_call) result" where
  "resource_groups_create_resource_group cl name grp =
     Inr (call PUT [] (Json_body grp) Reads_nothing
       (resource_groups_resource_groups_url cl [encode_segment name]))"

definition resource_groups_update_resource_group ::
    "admin_client \<Rightarrow> string \<Rightarrow> json \<Rightarrow> (error, admin_call) result" where
  "resource_groups_update_resource_group cl name grp =
     Inr (call PUT [] (Json_body grp) Reads_nothing
       (resource_groups_resource_groups_url cl [encode_segment name]))"

definition resource_groups_delete_resource_group ::
    "admin_client \<Rightarrow> string \<Rightarrow> (error, admin_call) result" where
  "resource_groups_delete_resource_group cl name =
     Inr (call DELETE [] No_body Reads_nothing
       (resource_groups_resource_groups_url cl [encode_segment name]))"

section \<open>Resource quotas\<close>

definition resource_quotas_quotas_url :: "admin_client \<Rightarrow> string list \<Rightarrow> string" where
  "resource_quotas_quotas_url cl segments = admin_url cl (''resource-quotas'' # segments)"

definition resource_quotas_get_default_resource_quota :: "admin_client \<Rightarrow> (error, admin_call) result" where
  "resource_quotas_get_default_resource_quota cl =
     Inr (call GET [] No_body Reads_json
       (resource_quotas_quotas_url cl []))"

definition resource_quotas_bundle_url ::
    "admin_client \<Rightarrow> string \<Rightarrow> string \<Rightarrow> (error, string) result" where
  "resource_quotas_bundle_url cl namespace bundle =
     rmap (\<lambda>(tenant, ns).
       resource_quotas_quotas_url cl [encode_segment tenant, encode_segment ns, encode_segment bundle])
       (split_namespace namespace)"

definition resource_quotas_set_default_resource_quota ::
    "admin_client \<Rightarrow> json \<Rightarrow> (error, admin_call) result" where
  "resource_quotas_set_default_resource_quota cl quota =
     Inr (call POST [] (Json_body quota) Reads_nothing
       (resource_quotas_quotas_url cl []))"

definition resource_quotas_get_namespace_bundle_resource_quota ::
    "admin_client \<Rightarrow> string \<Rightarrow> string \<Rightarrow> (error, admin_call) result" where
  "resource_quotas_get_namespace_bundle_resource_quota cl namespace bundle =
     rmap (call GET [] No_body Reads_json)
       (resource_quotas_bundle_url cl namespace bundle)"

definition resource_quotas_set_namespace_bundle_resource_quota ::
    "admin_client \<Rightarrow> string \<Rightarrow> string \<Rightarrow> json \<Rightarrow> (error, admin_call) result" where
  "resource_quotas_set_namespace_bundle_resource_quota cl namespace bundle quota =
     rmap (call POST [] (Json_body quota) Reads_nothing)
       (resource_quotas_bundle_url cl namespace bundle)"

definition resource_quotas_reset_namespace_bundle_resource_quota ::
    "admin_client \<Rightarrow> string \<Rightarrow> string \<Rightarrow> (error, admin_call) result" where
  "resource_quotas_reset_namespace_bundle_resource_quota cl namespace bundle =
     rmap (call DELETE [] No_body Reads_nothing)
       (resource_quotas_bundle_url cl namespace bundle)"

section \<open>Proxy stats\<close>

definition proxy_stats_proxy_url :: "admin_client \<Rightarrow> string \<Rightarrow> string" where
  "proxy_stats_proxy_url cl segment = ac_url cl @ ''/proxy-stats/'' @ segment"

definition proxy_stats_get_connections :: "admin_client \<Rightarrow> (error, admin_call) result" where
  "proxy_stats_get_connections cl =
     Inr (call GET [] No_body Reads_json
       (proxy_stats_proxy_url cl ''connections''))"

definition proxy_stats_get_topics :: "admin_client \<Rightarrow> (error, admin_call) result" where
  "proxy_stats_get_topics cl =
     Inr (call GET [] No_body Reads_json
       (proxy_stats_proxy_url cl ''topics''))"

definition proxy_stats_get_log_level :: "admin_client \<Rightarrow> (error, admin_call) result" where
  "proxy_stats_get_log_level cl =
     Inr (call GET [] No_body Reads_json
       (proxy_stats_proxy_url cl ''logging''))"

definition proxy_stats_set_log_level ::
    "admin_client \<Rightarrow> int \<Rightarrow> (error, admin_call) result" where
  "proxy_stats_set_log_level cl level =
     Inr (call POST [] No_body Reads_nothing (proxy_stats_proxy_url cl (''logging/'' @ show_int level)))"

section \<open>Worker\<close>

definition worker_get_cluster :: "admin_client \<Rightarrow> (error, admin_call) result" where
  "worker_get_cluster cl =
     Inr (call GET [] No_body Reads_json
       (admin_url cl [''worker'', ''cluster'']))"

definition worker_get_cluster_leader :: "admin_client \<Rightarrow> (error, admin_call) result" where
  "worker_get_cluster_leader cl =
     Inr (call GET [] No_body Reads_json
       (admin_url cl [''worker'', ''cluster'', ''leader'']))"

definition worker_get_assignments :: "admin_client \<Rightarrow> (error, admin_call) result" where
  "worker_get_assignments cl =
     Inr (call GET [] No_body Reads_json
       (admin_url cl [''worker'', ''assignments'']))"

definition worker_rebalance :: "admin_client \<Rightarrow> (error, admin_call) result" where
  "worker_rebalance cl =
     Inr (call PUT [] No_body Reads_nothing
       (admin_url cl [''worker'', ''rebalance'']))"

definition worker_get_functions_stats :: "admin_client \<Rightarrow> (error, admin_call) result" where
  "worker_get_functions_stats cl =
     Inr (call GET [] No_body Reads_json
       (admin_url cl [''worker-stats'', ''functionsmetrics'']))"

definition worker_get_metrics :: "admin_client \<Rightarrow> (error, admin_call) result" where
  "worker_get_metrics cl =
     Inr (call GET [] No_body Reads_json
       (admin_url cl [''worker-stats'', ''metrics'']))"

section \<open>Metadata migration\<close>

definition metadata_migration_status :: "admin_client \<Rightarrow> (error, admin_call) result" where
  "metadata_migration_status cl =
     Inr (call GET [] No_body Reads_json
       (admin_url cl [''metadata'', ''migration'', ''status'']))"

definition metadata_migration_start ::
    "admin_client \<Rightarrow> string \<Rightarrow> (error, admin_call) result" where
  "metadata_migration_start cl target_url =
     Inr (call POST [(''target'', target_url)] No_body Reads_nothing
       (admin_url cl [''metadata'', ''migration'', ''start'']))"

end
