(* ===== verification/Admin_Functions.thy ===== *)
theory Admin_Functions
  imports Admin_Calls
begin

text \<open>
  Functions, connectors, packages, transactions and scalable topics: one section per file of
  \<open>admin/\<close>. A configuration is what the URLs need of it and what the JSON writer made of it.
\<close>

section \<open>Data\<close>

fun split_once_str :: "string \<Rightarrow> string \<Rightarrow> (string \<times> string) option" where
  "split_once_str sep [] = (if sep = [] then Some ([], []) else None)"
| "split_once_str sep (c # cs) =
     (if prefix sep (c # cs) then Some ([], drop (length sep) (c # cs))
      else map_option (\<lambda>(a, b). (c # a, b)) (split_once_str sep cs))"

text \<open>
  A \<open>FunctionConfig\<close>, \<open>SinkConfig\<close> or \<open>SourceConfig\<close>: the names the URL is made of, and what the JSON
  writer comes to.
\<close>

record named_config =
  nc_tenant :: "string option"
  nc_namespace :: "string option"
  nc_name :: "string option"
  nc_json :: "(string, string) result"

definition config_names :: "string \<Rightarrow> named_config \<Rightarrow> (error, string \<times> string \<times> string) result" where
  "config_names what config =
     (let missing = (\<lambda>field. Inl (Custom (what @ '' is missing its '' @ field)))
      in case nc_tenant config of
           None \<Rightarrow> missing ''tenant''
         | Some tenant \<Rightarrow>
             (case nc_namespace config of
                None \<Rightarrow> missing ''namespace''
              | Some namespace \<Rightarrow>
                  (case nc_name config of
                     None \<Rightarrow> missing ''name''
                   | Some name \<Rightarrow> Inr (tenant, namespace, name))))"

definition serialized :: "string \<Rightarrow> (string, string) result \<Rightarrow> (error, string) result" where
  "serialized what r = map_err (\<lambda>e. Custom (''could not serialize '' @ what @ '': '' @ e)) r"

definition with_update_options :: "(string \<times> string) list \<Rightarrow> (string, string) result option \<Rightarrow>
    (error, (string \<times> string) list) result" where
  "with_update_options parts options =
     (case options of
        None \<Rightarrow> Inr parts
      | Some r \<Rightarrow> rmap (\<lambda>json. parts @ [(''updateOptions'', json)]) (serialized ''UpdateOptions'' r))"

datatype package_type = Function_package | Sink_package | Source_package

fun package_type_str :: "package_type \<Rightarrow> string" where
  "package_type_str Function_package = ''function''"
| "package_type_str Sink_package = ''sink''"
| "package_type_str Source_package = ''source''"

definition package_type_of :: "string \<Rightarrow> package_type option" where
  "package_type_of scheme =
     (if scheme = ''function'' then Some Function_package
      else if scheme = ''sink'' then Some Sink_package
      else if scheme = ''source'' then Some Source_package
      else None)"

record package_name =
  pn_type :: package_type
  pn_tenant :: string
  pn_namespace :: string
  pn_name :: string
  pn_version :: string

record txn_id =
  tx_most_sig_bits :: i64
  tx_least_sig_bits :: i64

definition txn_segments :: "txn_id \<Rightarrow> string list" where
  "txn_segments txn = [show_int (tx_most_sig_bits txn), show_int (tx_least_sig_bits txn)]"

datatype scalable_subscription_type = Stream_subscription | Checkpoint_subscription

fun scalable_subscription_type_str :: "scalable_subscription_type \<Rightarrow> string" where
  "scalable_subscription_type_str Stream_subscription = ''STREAM''"
| "scalable_subscription_type_str Checkpoint_subscription = ''CHECKPOINT''"

section \<open>Functions\<close>

definition functions_fn_url :: "admin_client \<Rightarrow> string list \<Rightarrow> string" where
  "functions_fn_url cl segments = ac_url cl @ ''/admin/v3/functions'' @ admin_path segments"

definition functions_named ::
    "admin_client \<Rightarrow> string \<Rightarrow> string \<Rightarrow> string \<Rightarrow> string list \<Rightarrow> string" where
  "functions_named cl tenant namespace name extra =
     functions_fn_url cl ([encode_segment tenant, encode_segment namespace, encode_segment name] @ extra)"

definition functions_config_url ::
    "admin_client \<Rightarrow> named_config \<Rightarrow> (error, string) result" where
  "functions_config_url cl config =
     rmap (\<lambda>(tenant, namespace, name). functions_named cl tenant namespace name []) (config_names ''FunctionConfig'' config)"

definition functions_get_functions ::
    "admin_client \<Rightarrow> string \<Rightarrow> string \<Rightarrow> (error, admin_call) result" where
  "functions_get_functions cl tenant namespace =
     Inr (call GET [] No_body Reads_json
       (functions_fn_url cl [encode_segment tenant, encode_segment namespace]))"

definition functions_get_function ::
    "admin_client \<Rightarrow> string \<Rightarrow> string \<Rightarrow> string \<Rightarrow> (error, admin_call) result" where
  "functions_get_function cl tenant namespace name =
     Inr (call GET [] No_body Reads_json
       (functions_named cl tenant namespace name []))"

definition functions_create_function ::
    "admin_client \<Rightarrow> named_config \<Rightarrow> string \<Rightarrow> byte list \<Rightarrow> (error, admin_call) result" where
  "functions_create_function cl config filename package =
     rbind (functions_config_url cl config) (\<lambda>url. rmap (\<lambda>json.
       call POST [] (Form_body [(''functionConfig'', json)] [] (Some (''data'', filename, package))) Reads_nothing url)
       (serialized ''FunctionConfig'' (nc_json config)))"

definition functions_create_function_with_url ::
    "admin_client \<Rightarrow> named_config \<Rightarrow> string \<Rightarrow> (error, admin_call) result" where
  "functions_create_function_with_url cl config package_url =
     rbind (functions_config_url cl config) (\<lambda>url. rmap (\<lambda>json.
       call POST [] (Form_body [(''functionConfig'', json)] [(''url'', package_url)] None) Reads_nothing url)
       (serialized ''FunctionConfig'' (nc_json config)))"

definition functions_update_function ::
    "admin_client \<Rightarrow> named_config \<Rightarrow> string \<Rightarrow> byte list \<Rightarrow> (string, string) result option \<Rightarrow> (error, admin_call) result" where
  "functions_update_function cl config filename package options =
     rbind (functions_config_url cl config) (\<lambda>url.
     rbind (serialized ''FunctionConfig'' (nc_json config)) (\<lambda>json. rmap (\<lambda>json_parts.
       call PUT [] (Form_body json_parts [] (Some (''data'', filename, package))) Reads_nothing url)
       (with_update_options [(''functionConfig'', json)] options)))"

definition functions_update_function_with_url ::
    "admin_client \<Rightarrow> named_config \<Rightarrow> string \<Rightarrow> (string, string) result option \<Rightarrow> (error, admin_call) result" where
  "functions_update_function_with_url cl config package_url options =
     rbind (functions_config_url cl config) (\<lambda>url.
     rbind (serialized ''FunctionConfig'' (nc_json config)) (\<lambda>json. rmap (\<lambda>json_parts.
       call PUT [] (Form_body json_parts [(''url'', package_url)] None) Reads_nothing url)
       (with_update_options [(''functionConfig'', json)] options)))"

definition functions_delete_function ::
    "admin_client \<Rightarrow> string \<Rightarrow> string \<Rightarrow> string \<Rightarrow> (error, admin_call) result" where
  "functions_delete_function cl tenant namespace name =
     Inr (call DELETE [] No_body Reads_nothing
       (functions_named cl tenant namespace name []))"

definition functions_get_function_status ::
    "admin_client \<Rightarrow> string \<Rightarrow> string \<Rightarrow> string \<Rightarrow> (error, admin_call) result" where
  "functions_get_function_status cl tenant namespace name =
     Inr (call GET [] No_body Reads_json
       (functions_named cl tenant namespace name [''status'']))"

definition functions_get_function_instance_status ::
    "admin_client \<Rightarrow> string \<Rightarrow> string \<Rightarrow> string \<Rightarrow> int \<Rightarrow> (error, admin_call) result" where
  "functions_get_function_instance_status cl tenant namespace name instance_id =
     Inr (call GET [] No_body Reads_json
       (functions_named cl tenant namespace name [show_int instance_id, ''status'']))"

definition functions_get_function_stats ::
    "admin_client \<Rightarrow> string \<Rightarrow> string \<Rightarrow> string \<Rightarrow> (error, admin_call) result" where
  "functions_get_function_stats cl tenant namespace name =
     Inr (call GET [] No_body Reads_json
       (functions_named cl tenant namespace name [''stats'']))"

definition functions_get_function_instance_stats ::
    "admin_client \<Rightarrow> string \<Rightarrow> string \<Rightarrow> string \<Rightarrow> int \<Rightarrow> (error, admin_call) result" where
  "functions_get_function_instance_stats cl tenant namespace name instance_id =
     Inr (call GET [] No_body Reads_json
       (functions_named cl tenant namespace name [show_int instance_id, ''stats'']))"

definition functions_restart_function ::
    "admin_client \<Rightarrow> string \<Rightarrow> string \<Rightarrow> string \<Rightarrow> (error, admin_call) result" where
  "functions_restart_function cl tenant namespace name =
     Inr (call POST [] No_body Reads_nothing
       (functions_named cl tenant namespace name [''restart'']))"

definition functions_restart_function_instance ::
    "admin_client \<Rightarrow> string \<Rightarrow> string \<Rightarrow> string \<Rightarrow> int \<Rightarrow> (error, admin_call) result" where
  "functions_restart_function_instance cl tenant namespace name instance_id =
     Inr (call POST [] No_body Reads_nothing
       (functions_named cl tenant namespace name [show_int instance_id, ''restart'']))"

definition functions_stop_function ::
    "admin_client \<Rightarrow> string \<Rightarrow> string \<Rightarrow> string \<Rightarrow> (error, admin_call) result" where
  "functions_stop_function cl tenant namespace name =
     Inr (call POST [] No_body Reads_nothing
       (functions_named cl tenant namespace name [''stop'']))"

definition functions_stop_function_instance ::
    "admin_client \<Rightarrow> string \<Rightarrow> string \<Rightarrow> string \<Rightarrow> int \<Rightarrow> (error, admin_call) result" where
  "functions_stop_function_instance cl tenant namespace name instance_id =
     Inr (call POST [] No_body Reads_nothing
       (functions_named cl tenant namespace name [show_int instance_id, ''stop'']))"

definition functions_start_function ::
    "admin_client \<Rightarrow> string \<Rightarrow> string \<Rightarrow> string \<Rightarrow> (error, admin_call) result" where
  "functions_start_function cl tenant namespace name =
     Inr (call POST [] No_body Reads_nothing
       (functions_named cl tenant namespace name [''start'']))"

definition functions_start_function_instance ::
    "admin_client \<Rightarrow> string \<Rightarrow> string \<Rightarrow> string \<Rightarrow> int \<Rightarrow> (error, admin_call) result" where
  "functions_start_function_instance cl tenant namespace name instance_id =
     Inr (call POST [] No_body Reads_nothing
       (functions_named cl tenant namespace name [show_int instance_id, ''start'']))"

definition functions_get_function_state ::
    "admin_client \<Rightarrow> string \<Rightarrow> string \<Rightarrow> string \<Rightarrow> string \<Rightarrow> (error, admin_call) result" where
  "functions_get_function_state cl tenant namespace name key =
     Inr (call GET [] No_body Reads_json
       (functions_named cl tenant namespace name [''state'', encode_segment key]))"

definition functions_put_function_state ::
    "admin_client \<Rightarrow> string \<Rightarrow> string \<Rightarrow> string \<Rightarrow> string option \<Rightarrow> (string, string) result \<Rightarrow> (error, admin_call) result" where
  "functions_put_function_state cl tenant namespace name key state =
     rmap (\<lambda>json. call POST [] (Form_body [(''state'', json)] [] None) Reads_nothing
         (functions_named cl tenant namespace name
           [''state'', encode_segment (case key of Some k \<Rightarrow> k | None \<Rightarrow> [])]))
       (serialized ''FunctionState'' state)"

definition functions_trigger_function ::
    "admin_client \<Rightarrow> http_env \<Rightarrow> string \<Rightarrow> string \<Rightarrow> string \<Rightarrow> string option \<Rightarrow> string option \<Rightarrow> 
    (string \<times> byte list) option \<Rightarrow> (error, string) result \<times> http_request list" where
  "functions_trigger_function cl env tenant namespace name v topic file =
     send_multipart_text cl env POST (functions_named cl tenant namespace name [''trigger'']) [] []
       ((case v of Some v \<Rightarrow> [(''data'', v)] | None \<Rightarrow> [])
         @ (case topic of Some t \<Rightarrow> [(''topic'', t)] | None \<Rightarrow> []))
       (map_option (\<lambda>(filename, bytes). (''dataStream'', filename, bytes)) file)"

definition functions_upload_function ::
    "admin_client \<Rightarrow> string \<Rightarrow> string \<Rightarrow> byte list \<Rightarrow> (error, admin_call) result" where
  "functions_upload_function cl path filename package =
     Inr (call POST [] (Form_body [] [(''path'', path)] (Some (''data'', filename, package))) Reads_nothing
       (functions_fn_url cl [''upload'']))"

definition functions_download_function ::
    "admin_client \<Rightarrow> string \<Rightarrow> string \<Rightarrow> string \<Rightarrow> bool \<Rightarrow> (error, admin_call) result" where
  "functions_download_function cl tenant namespace name transform_function =
     Inr (call GET [(''transform-function'', show_bool transform_function)] No_body Reads_bytes
       (functions_named cl tenant namespace name [''download'']))"

definition functions_download_function_by_path ::
    "admin_client \<Rightarrow> string \<Rightarrow> (error, admin_call) result" where
  "functions_download_function_by_path cl path =
     Inr (call GET [(''path'', path)] No_body Reads_bytes
       (functions_fn_url cl [''download'']))"

definition functions_get_connectors_list :: "admin_client \<Rightarrow> (error, admin_call) result" where
  "functions_get_connectors_list cl =
     Inr (call GET [] No_body Reads_json
       (functions_fn_url cl [''connectors'']))"

definition functions_get_built_in_functions :: "admin_client \<Rightarrow> (error, admin_call) result" where
  "functions_get_built_in_functions cl =
     Inr (call GET [] No_body Reads_json
       (functions_fn_url cl [''builtins'']))"

definition functions_reload_built_in_functions :: "admin_client \<Rightarrow> (error, admin_call) result" where
  "functions_reload_built_in_functions cl =
     Inr (call POST [] No_body Reads_nothing
       (functions_fn_url cl [''builtins'', ''reload'']))"

section \<open>Sinks\<close>

definition sinks_base_url :: "admin_client \<Rightarrow> string list \<Rightarrow> string" where
  "sinks_base_url cl segments = ac_url cl @ ''/admin/v3/sink'' @ admin_path segments"

definition sinks_named ::
    "admin_client \<Rightarrow> string \<Rightarrow> string \<Rightarrow> string \<Rightarrow> string list \<Rightarrow> string" where
  "sinks_named cl tenant namespace name extra =
     sinks_base_url cl ([encode_segment tenant, encode_segment namespace, encode_segment name] @ extra)"

definition sinks_config_url :: "admin_client \<Rightarrow> named_config \<Rightarrow> (error, string) result" where
  "sinks_config_url cl config =
     rmap (\<lambda>(tenant, namespace, name). sinks_named cl tenant namespace name []) (config_names ''SinkConfig'' config)"

definition sinks_json :: "named_config \<Rightarrow> (error, string) result" where
  "sinks_json config = serialized ''SinkConfig'' (nc_json config)"

definition sinks_list_sinks ::
    "admin_client \<Rightarrow> string \<Rightarrow> string \<Rightarrow> (error, admin_call) result" where
  "sinks_list_sinks cl tenant namespace =
     Inr (call GET [] No_body Reads_json
       (sinks_base_url cl [encode_segment tenant, encode_segment namespace]))"

definition sinks_config_parts ::
    "string \<Rightarrow> named_config \<Rightarrow> (string, string) result option \<Rightarrow> 
    (error, (string \<times> string) list) result" where
  "sinks_config_parts name config options =
     rbind (sinks_json config) (\<lambda>json. with_update_options [(name, json)] options)"

definition sinks_get_sink ::
    "admin_client \<Rightarrow> string \<Rightarrow> string \<Rightarrow> string \<Rightarrow> (error, admin_call) result" where
  "sinks_get_sink cl tenant namespace name =
     Inr (call GET [] No_body Reads_json
       (sinks_named cl tenant namespace name []))"

definition sinks_create_sink ::
    "admin_client \<Rightarrow> named_config \<Rightarrow> string \<Rightarrow> byte list \<Rightarrow> (error, admin_call) result" where
  "sinks_create_sink cl config filename archive =
     rbind (sinks_config_url cl config) (\<lambda>url. rmap (\<lambda>json.
       call POST [] (Form_body [(''sinkConfig'', json)] [] (Some (''data'', filename, archive))) Reads_nothing url)
       (sinks_json config))"

definition sinks_create_sink_with_url ::
    "admin_client \<Rightarrow> named_config \<Rightarrow> string \<Rightarrow> (error, admin_call) result" where
  "sinks_create_sink_with_url cl config archive_url =
     rbind (sinks_config_url cl config) (\<lambda>url. rmap (\<lambda>json.
       call POST [] (Form_body [(''sinkConfig'', json)] (if archive_url = [] then [] else [(''url'', archive_url)]) None)
         Reads_nothing url) (sinks_json config))"

definition sinks_update_sink ::
    "admin_client \<Rightarrow> named_config \<Rightarrow> string \<Rightarrow> byte list \<Rightarrow> (string, string) result option \<Rightarrow> (error, admin_call) result" where
  "sinks_update_sink cl config filename archive options =
     rbind (sinks_config_url cl config) (\<lambda>url. rmap (\<lambda>parts.
       call PUT [] (Form_body parts [] (Some (''data'', filename, archive))) Reads_nothing url)
       (sinks_config_parts ''sinkConfig'' config options))"

definition sinks_update_sink_with_url ::
    "admin_client \<Rightarrow> named_config \<Rightarrow> string \<Rightarrow> (string, string) result option \<Rightarrow> (error, admin_call) result" where
  "sinks_update_sink_with_url cl config archive_url options =
     rbind (sinks_config_url cl config) (\<lambda>url. rmap (\<lambda>parts.
       call PUT [] (Form_body parts (if archive_url = [] then [] else [(''url'', archive_url)]) None)
         Reads_nothing url) (sinks_config_parts ''sinkConfig'' config options))"

definition sinks_delete_sink ::
    "admin_client \<Rightarrow> string \<Rightarrow> string \<Rightarrow> string \<Rightarrow> (error, admin_call) result" where
  "sinks_delete_sink cl tenant namespace name =
     Inr (call DELETE [] No_body Reads_nothing
       (sinks_named cl tenant namespace name []))"

definition sinks_get_sink_status ::
    "admin_client \<Rightarrow> string \<Rightarrow> string \<Rightarrow> string \<Rightarrow> (error, admin_call) result" where
  "sinks_get_sink_status cl tenant namespace name =
     Inr (call GET [] No_body Reads_json
       (sinks_named cl tenant namespace name [''status'']))"

definition sinks_get_sink_instance_status ::
    "admin_client \<Rightarrow> string \<Rightarrow> string \<Rightarrow> string \<Rightarrow> int \<Rightarrow> (error, admin_call) result" where
  "sinks_get_sink_instance_status cl tenant namespace name instance_id =
     Inr (call GET [] No_body Reads_json
       (sinks_named cl tenant namespace name [show_int instance_id, ''status'']))"

definition sinks_restart_sink ::
    "admin_client \<Rightarrow> string \<Rightarrow> string \<Rightarrow> string \<Rightarrow> (error, admin_call) result" where
  "sinks_restart_sink cl tenant namespace name =
     Inr (call POST [] No_body Reads_nothing
       (sinks_named cl tenant namespace name [''restart'']))"

definition sinks_restart_sink_instance ::
    "admin_client \<Rightarrow> string \<Rightarrow> string \<Rightarrow> string \<Rightarrow> int \<Rightarrow> (error, admin_call) result" where
  "sinks_restart_sink_instance cl tenant namespace name instance_id =
     Inr (call POST [] No_body Reads_nothing
       (sinks_named cl tenant namespace name [show_int instance_id, ''restart'']))"

definition sinks_stop_sink ::
    "admin_client \<Rightarrow> string \<Rightarrow> string \<Rightarrow> string \<Rightarrow> (error, admin_call) result" where
  "sinks_stop_sink cl tenant namespace name =
     Inr (call POST [] No_body Reads_nothing
       (sinks_named cl tenant namespace name [''stop'']))"

definition sinks_stop_sink_instance ::
    "admin_client \<Rightarrow> string \<Rightarrow> string \<Rightarrow> string \<Rightarrow> int \<Rightarrow> (error, admin_call) result" where
  "sinks_stop_sink_instance cl tenant namespace name instance_id =
     Inr (call POST [] No_body Reads_nothing
       (sinks_named cl tenant namespace name [show_int instance_id, ''stop'']))"

definition sinks_start_sink ::
    "admin_client \<Rightarrow> string \<Rightarrow> string \<Rightarrow> string \<Rightarrow> (error, admin_call) result" where
  "sinks_start_sink cl tenant namespace name =
     Inr (call POST [] No_body Reads_nothing
       (sinks_named cl tenant namespace name [''start'']))"

definition sinks_start_sink_instance ::
    "admin_client \<Rightarrow> string \<Rightarrow> string \<Rightarrow> string \<Rightarrow> int \<Rightarrow> (error, admin_call) result" where
  "sinks_start_sink_instance cl tenant namespace name instance_id =
     Inr (call POST [] No_body Reads_nothing
       (sinks_named cl tenant namespace name [show_int instance_id, ''start'']))"

definition sinks_get_built_in_sinks :: "admin_client \<Rightarrow> (error, admin_call) result" where
  "sinks_get_built_in_sinks cl =
     Inr (call GET [] No_body Reads_json
       (sinks_base_url cl [''builtinsinks'']))"

definition sinks_reload_built_in_sinks :: "admin_client \<Rightarrow> (error, admin_call) result" where
  "sinks_reload_built_in_sinks cl =
     Inr (call POST [] No_body Reads_nothing
       (sinks_base_url cl [''reloadBuiltInSinks'']))"

section \<open>Sources\<close>

definition sources_base_url :: "admin_client \<Rightarrow> string list \<Rightarrow> string" where
  "sources_base_url cl segments = ac_url cl @ ''/admin/v3/source'' @ admin_path segments"

definition sources_named ::
    "admin_client \<Rightarrow> string \<Rightarrow> string \<Rightarrow> string \<Rightarrow> string list \<Rightarrow> string" where
  "sources_named cl tenant namespace name extra =
     sources_base_url cl ([encode_segment tenant, encode_segment namespace, encode_segment name] @ extra)"

definition sources_config_url :: "admin_client \<Rightarrow> named_config \<Rightarrow> (error, string) result" where
  "sources_config_url cl config =
     rmap (\<lambda>(tenant, namespace, name). sources_named cl tenant namespace name []) (config_names ''SourceConfig'' config)"

definition sources_json :: "named_config \<Rightarrow> (error, string) result" where
  "sources_json config = serialized ''SourceConfig'' (nc_json config)"

definition sources_list_sources ::
    "admin_client \<Rightarrow> string \<Rightarrow> string \<Rightarrow> (error, admin_call) result" where
  "sources_list_sources cl tenant namespace =
     Inr (call GET [] No_body Reads_json
       (sources_base_url cl [encode_segment tenant, encode_segment namespace]))"

definition sources_config_parts ::
    "string \<Rightarrow> named_config \<Rightarrow> (string, string) result option \<Rightarrow> 
    (error, (string \<times> string) list) result" where
  "sources_config_parts name config options =
     rbind (sources_json config) (\<lambda>json. with_update_options [(name, json)] options)"

definition sources_get_source ::
    "admin_client \<Rightarrow> string \<Rightarrow> string \<Rightarrow> string \<Rightarrow> (error, admin_call) result" where
  "sources_get_source cl tenant namespace name =
     Inr (call GET [] No_body Reads_json
       (sources_named cl tenant namespace name []))"

definition sources_create_source ::
    "admin_client \<Rightarrow> named_config \<Rightarrow> string \<Rightarrow> byte list \<Rightarrow> (error, admin_call) result" where
  "sources_create_source cl config filename archive =
     rbind (sources_config_url cl config) (\<lambda>url. rmap (\<lambda>json.
       call POST [] (Form_body [(''sourceConfig'', json)] [] (Some (''data'', filename, archive))) Reads_nothing url)
       (sources_json config))"

definition sources_create_source_with_url ::
    "admin_client \<Rightarrow> named_config \<Rightarrow> string \<Rightarrow> (error, admin_call) result" where
  "sources_create_source_with_url cl config archive_url =
     rbind (sources_config_url cl config) (\<lambda>url. rmap (\<lambda>json.
       call POST [] (Form_body [(''sourceConfig'', json)] (if archive_url = [] then [] else [(''url'', archive_url)]) None)
         Reads_nothing url) (sources_json config))"

definition sources_update_source ::
    "admin_client \<Rightarrow> named_config \<Rightarrow> string \<Rightarrow> byte list \<Rightarrow> (string, string) result option \<Rightarrow> (error, admin_call) result" where
  "sources_update_source cl config filename archive options =
     rbind (sources_config_url cl config) (\<lambda>url. rmap (\<lambda>parts.
       call PUT [] (Form_body parts [] (Some (''data'', filename, archive))) Reads_nothing url)
       (sources_config_parts ''sourceConfig'' config options))"

definition sources_update_source_with_url ::
    "admin_client \<Rightarrow> named_config \<Rightarrow> string \<Rightarrow> (string, string) result option \<Rightarrow> (error, admin_call) result" where
  "sources_update_source_with_url cl config archive_url options =
     rbind (sources_config_url cl config) (\<lambda>url. rmap (\<lambda>parts.
       call PUT [] (Form_body parts (if archive_url = [] then [] else [(''url'', archive_url)]) None)
         Reads_nothing url) (sources_config_parts ''sourceConfig'' config options))"

definition sources_delete_source ::
    "admin_client \<Rightarrow> string \<Rightarrow> string \<Rightarrow> string \<Rightarrow> (error, admin_call) result" where
  "sources_delete_source cl tenant namespace name =
     Inr (call DELETE [] No_body Reads_nothing
       (sources_named cl tenant namespace name []))"

definition sources_get_source_status ::
    "admin_client \<Rightarrow> string \<Rightarrow> string \<Rightarrow> string \<Rightarrow> (error, admin_call) result" where
  "sources_get_source_status cl tenant namespace name =
     Inr (call GET [] No_body Reads_json
       (sources_named cl tenant namespace name [''status'']))"

definition sources_get_source_instance_status ::
    "admin_client \<Rightarrow> string \<Rightarrow> string \<Rightarrow> string \<Rightarrow> int \<Rightarrow> (error, admin_call) result" where
  "sources_get_source_instance_status cl tenant namespace name instance_id =
     Inr (call GET [] No_body Reads_json
       (sources_named cl tenant namespace name [show_int instance_id, ''status'']))"

definition sources_restart_source ::
    "admin_client \<Rightarrow> string \<Rightarrow> string \<Rightarrow> string \<Rightarrow> (error, admin_call) result" where
  "sources_restart_source cl tenant namespace name =
     Inr (call POST [] No_body Reads_nothing
       (sources_named cl tenant namespace name [''restart'']))"

definition sources_restart_source_instance ::
    "admin_client \<Rightarrow> string \<Rightarrow> string \<Rightarrow> string \<Rightarrow> int \<Rightarrow> (error, admin_call) result" where
  "sources_restart_source_instance cl tenant namespace name instance_id =
     Inr (call POST [] No_body Reads_nothing
       (sources_named cl tenant namespace name [show_int instance_id, ''restart'']))"

definition sources_stop_source ::
    "admin_client \<Rightarrow> string \<Rightarrow> string \<Rightarrow> string \<Rightarrow> (error, admin_call) result" where
  "sources_stop_source cl tenant namespace name =
     Inr (call POST [] No_body Reads_nothing
       (sources_named cl tenant namespace name [''stop'']))"

definition sources_stop_source_instance ::
    "admin_client \<Rightarrow> string \<Rightarrow> string \<Rightarrow> string \<Rightarrow> int \<Rightarrow> (error, admin_call) result" where
  "sources_stop_source_instance cl tenant namespace name instance_id =
     Inr (call POST [] No_body Reads_nothing
       (sources_named cl tenant namespace name [show_int instance_id, ''stop'']))"

definition sources_start_source ::
    "admin_client \<Rightarrow> string \<Rightarrow> string \<Rightarrow> string \<Rightarrow> (error, admin_call) result" where
  "sources_start_source cl tenant namespace name =
     Inr (call POST [] No_body Reads_nothing
       (sources_named cl tenant namespace name [''start'']))"

definition sources_start_source_instance ::
    "admin_client \<Rightarrow> string \<Rightarrow> string \<Rightarrow> string \<Rightarrow> int \<Rightarrow> (error, admin_call) result" where
  "sources_start_source_instance cl tenant namespace name instance_id =
     Inr (call POST [] No_body Reads_nothing
       (sources_named cl tenant namespace name [show_int instance_id, ''start'']))"

definition sources_get_built_in_sources :: "admin_client \<Rightarrow> (error, admin_call) result" where
  "sources_get_built_in_sources cl =
     Inr (call GET [] No_body Reads_json
       (sources_base_url cl [''builtinsources'']))"

definition sources_reload_built_in_sources :: "admin_client \<Rightarrow> (error, admin_call) result" where
  "sources_reload_built_in_sources cl =
     Inr (call POST [] No_body Reads_nothing
       (sources_base_url cl [''reloadBuiltInSources'']))"

section \<open>Packages\<close>

definition parse_package_name :: "string \<Rightarrow> (error, package_name) result" where
  "parse_package_name package_name =
     (let invalid = (\<lambda>why. Inl (Admin (InvalidTopic
            (''invalid package name '' @ debug_str package_name @ '': '' @ why))))
      in case split_once_str ''://'' package_name of
           None \<Rightarrow> invalid ''expected {type}://{tenant}/{namespace}/{name}''
         | Some (scheme, rest) \<Rightarrow>
             (case package_type_of (to_ascii_lowercase scheme) of
                None \<Rightarrow> invalid (''unknown package type '' @ debug_str (to_ascii_lowercase scheme))
              | Some ty \<Rightarrow>
                  (case split_all (CHR ''@'') rest of
                     [] \<Rightarrow> invalid ''expected exactly tenant/namespace/name''
                   | path # _ # _ # _ \<Rightarrow> invalid (''expected at most one '' @ [CHR 0x27, CHR ''@'', CHR 0x27] @ '' before the version'')
                   | path # version \<Rightarrow>
                       (case split_all (CHR ''/'') path of
                          [tenant, namespace, name] \<Rightarrow>
                            (if tenant \<noteq> [] \<and> namespace \<noteq> [] \<and> name \<noteq> [] then
                               Inr \<lparr>pn_type = ty, pn_tenant = tenant, pn_namespace = namespace, pn_name = name,
                                    pn_version = (case version of [v] \<Rightarrow> if v \<noteq> [] then v else ''latest''
                                                  | _ \<Rightarrow> ''latest'')\<rparr>
                             else invalid ''expected exactly tenant/namespace/name'')
                        | _ \<Rightarrow> invalid ''expected exactly tenant/namespace/name''))))"

definition package_segments :: "package_name \<Rightarrow> string list" where
  "package_segments p =
     [package_type_str (pn_type p), encode_segment (pn_tenant p), encode_segment (pn_namespace p),
      encode_segment (pn_name p)]"

definition packages_packages_url :: "admin_client \<Rightarrow> string list \<Rightarrow> string" where
  "packages_packages_url cl segments = ac_url cl @ ''/admin/v3/packages'' @ admin_path segments"

definition packages_versioned ::
    "admin_client \<Rightarrow> package_name \<Rightarrow> string list \<Rightarrow> string" where
  "packages_versioned cl p extra =
     packages_packages_url cl (package_segments p @ [encode_segment (pn_version p)] @ extra)"

definition packages_list_packages ::
    "admin_client \<Rightarrow> package_type \<Rightarrow> string \<Rightarrow> (error, admin_call) result" where
  "packages_list_packages cl package_type namespace =
     rmap (\<lambda>(tenant, ns). call GET [] No_body Reads_json (packages_packages_url cl
         [package_type_str package_type, encode_segment tenant, encode_segment ns])) (split_namespace namespace)"

definition packages_list_package_versions ::
    "admin_client \<Rightarrow> string \<Rightarrow> (error, admin_call) result" where
  "packages_list_package_versions cl package_name =
     rmap (\<lambda>p. call GET [] No_body Reads_json (packages_packages_url cl (package_segments p)))
       (parse_package_name package_name)"

definition packages_get_metadata :: "admin_client \<Rightarrow> string \<Rightarrow> (error, admin_call) result" where
  "packages_get_metadata cl package_name =
     rmap (\<lambda>p. call GET [] No_body Reads_json (packages_versioned cl p [''metadata'']))
       (parse_package_name package_name)"

definition packages_update_metadata ::
    "admin_client \<Rightarrow> string \<Rightarrow> json \<Rightarrow> (error, admin_call) result" where
  "packages_update_metadata cl package_name metadata =
     rmap (\<lambda>p. call PUT [] (Json_body metadata) Reads_nothing (packages_versioned cl p [''metadata'']))
       (parse_package_name package_name)"

definition packages_upload ::
    "admin_client \<Rightarrow> string \<Rightarrow> (string, string) result \<Rightarrow> string \<Rightarrow> byte list \<Rightarrow> (error, admin_call) result" where
  "packages_upload cl package_name metadata filename contents =
     rbind (parse_package_name package_name) (\<lambda>p. rmap (\<lambda>json.
       call POST [] (Form_body [(''metadata'', json)] [] (Some (''file'', filename, contents))) Reads_nothing
         (packages_versioned cl p [])) (serialized ''PackageMetadata'' metadata))"

definition packages_download :: "admin_client \<Rightarrow> string \<Rightarrow> (error, admin_call) result" where
  "packages_download cl package_name =
     rmap (\<lambda>p. call GET [] No_body Reads_bytes (packages_versioned cl p [])) (parse_package_name package_name)"

definition packages_delete :: "admin_client \<Rightarrow> string \<Rightarrow> (error, admin_call) result" where
  "packages_delete cl package_name =
     rmap (\<lambda>p. call DELETE [] No_body Reads_nothing (packages_versioned cl p [])) (parse_package_name package_name)"

section \<open>Transactions\<close>

definition transactions_txn_url :: "admin_client \<Rightarrow> string list \<Rightarrow> string" where
  "transactions_txn_url cl segments = ac_url cl @ ''/admin/v3/transactions'' @ admin_path segments"

definition topic_segments :: "string \<Rightarrow> (error, string list) result" where
  "topic_segments topic =
     rmap (\<lambda>(_, tenant, namespace, name). [encode_segment tenant, encode_segment namespace, encode_segment name])
       (parse_topic topic)"

definition transactions_list_transaction_coordinators :: "admin_client \<Rightarrow> (error, admin_call) result" where
  "transactions_list_transaction_coordinators cl =
     Inr (call GET [] No_body Reads_json
       (transactions_txn_url cl [''coordinators'']))"

definition transactions_get_coordinator_stats :: "admin_client \<Rightarrow> (error, admin_call) result" where
  "transactions_get_coordinator_stats cl =
     Inr (call GET [] No_body Reads_json
       (transactions_txn_url cl [''coordinatorStats'']))"

definition transactions_get_coordinator_stats_by_id ::
    "admin_client \<Rightarrow> int \<Rightarrow> (error, admin_call) result" where
  "transactions_get_coordinator_stats_by_id cl coordinator_id =
     Inr (call GET [(''coordinatorId'', show_int coordinator_id)] No_body Reads_json
       (transactions_txn_url cl [''coordinatorStats'']))"

definition transactions_get_coordinator_internal_stats ::
    "admin_client \<Rightarrow> int \<Rightarrow> bool \<Rightarrow> (error, admin_call) result" where
  "transactions_get_coordinator_internal_stats cl coordinator_id metadata =
     Inr (call GET [(''metadata'', show_bool metadata)] No_body Reads_json
       (transactions_txn_url cl [''coordinatorInternalStats'', show_int coordinator_id]))"

definition transactions_get_transaction_metadata ::
    "admin_client \<Rightarrow> txn_id \<Rightarrow> (error, admin_call) result" where
  "transactions_get_transaction_metadata cl txn =
     Inr (call GET [] No_body Reads_json (transactions_txn_url cl ([''transactionMetadata''] @ txn_segments txn)))"

definition transactions_get_transaction_in_buffer_stats ::
    "admin_client \<Rightarrow> txn_id \<Rightarrow> string \<Rightarrow> (error, admin_call) result" where
  "transactions_get_transaction_in_buffer_stats cl txn topic =
     rmap (\<lambda>segments. call GET [] No_body Reads_json
         (transactions_txn_url cl ([''transactionInBufferStats''] @ segments @ txn_segments txn))) (topic_segments topic)"

definition transactions_get_transaction_in_pending_ack_stats ::
    "admin_client \<Rightarrow> txn_id \<Rightarrow> string \<Rightarrow> string \<Rightarrow> (error, admin_call) result" where
  "transactions_get_transaction_in_pending_ack_stats cl txn topic subscription =
     rmap (\<lambda>segments. call GET [] No_body Reads_json
         (transactions_txn_url cl ([''transactionInPendingAckStats''] @ segments @ [encode_segment subscription] @ txn_segments txn))) (topic_segments topic)"

definition transactions_get_transaction_buffer_stats ::
    "admin_client \<Rightarrow> string \<Rightarrow> bool \<Rightarrow> bool \<Rightarrow> (error, admin_call) result" where
  "transactions_get_transaction_buffer_stats cl topic low_water_marks segment_stats =
     rmap (\<lambda>segments. call GET [(''lowWaterMarks'', show_bool low_water_marks), (''segmentStats'', show_bool segment_stats)] No_body Reads_json
         (transactions_txn_url cl ([''transactionBufferStats''] @ segments))) (topic_segments topic)"

definition transactions_get_transaction_buffer_internal_stats ::
    "admin_client \<Rightarrow> string \<Rightarrow> bool \<Rightarrow> (error, admin_call) result" where
  "transactions_get_transaction_buffer_internal_stats cl topic metadata =
     rmap (\<lambda>segments. call GET [(''metadata'', show_bool metadata)] No_body Reads_json
         (transactions_txn_url cl ([''transactionBufferInternalStats''] @ segments))) (topic_segments topic)"

definition transactions_get_pending_ack_stats ::
    "admin_client \<Rightarrow> string \<Rightarrow> string \<Rightarrow> bool \<Rightarrow> (error, admin_call) result" where
  "transactions_get_pending_ack_stats cl topic subscription low_water_marks =
     rmap (\<lambda>segments. call GET [(''lowWaterMarks'', show_bool low_water_marks)] No_body Reads_json
         (transactions_txn_url cl ([''pendingAckStats''] @ segments @ [encode_segment subscription]))) (topic_segments topic)"

definition transactions_get_pending_ack_internal_stats ::
    "admin_client \<Rightarrow> string \<Rightarrow> string \<Rightarrow> bool \<Rightarrow> (error, admin_call) result" where
  "transactions_get_pending_ack_internal_stats cl topic subscription metadata =
     rmap (\<lambda>segments. call GET [(''metadata'', show_bool metadata)] No_body Reads_json
         (transactions_txn_url cl ([''pendingAckInternalStats''] @ segments @ [encode_segment subscription]))) (topic_segments topic)"

definition transactions_get_slow_transactions ::
    "admin_client \<Rightarrow> int \<Rightarrow> (error, admin_call) result" where
  "transactions_get_slow_transactions cl timeout_ms =
     Inr (call GET [] No_body Reads_json (transactions_txn_url cl [''slowTransactions'', show_int timeout_ms]))"

definition transactions_get_slow_transactions_by_coordinator_id ::
    "admin_client \<Rightarrow> int \<Rightarrow> int \<Rightarrow> (error, admin_call) result" where
  "transactions_get_slow_transactions_by_coordinator_id cl coordinator_id timeout_ms =
     Inr (call GET [(''coordinatorId'', show_int coordinator_id)] No_body Reads_json
       (transactions_txn_url cl [''slowTransactions'', show_int timeout_ms]))"

definition transactions_scale_transaction_coordinators ::
    "admin_client \<Rightarrow> int \<Rightarrow> (error, admin_call) result" where
  "transactions_scale_transaction_coordinators cl replicas =
     Inr (call POST [] (Json_body (JNum replicas)) Reads_nothing
       (transactions_txn_url cl [''transactionCoordinator'', ''replicas'']))"

definition transactions_abort_transaction ::
    "admin_client \<Rightarrow> txn_id \<Rightarrow> (error, admin_call) result" where
  "transactions_abort_transaction cl txn =
     Inr (call POST [] No_body Reads_nothing (transactions_txn_url cl ([''abortTransaction''] @ txn_segments txn)))"

definition transactions_get_position_stats_in_pending_ack ::
    "admin_client \<Rightarrow> string \<Rightarrow> string \<Rightarrow> int \<Rightarrow> int \<Rightarrow> int option \<Rightarrow> (error, admin_call) result" where
  "transactions_get_position_stats_in_pending_ack cl topic subscription ledger entry batch_index =
     rmap (\<lambda>segments. call GET (case batch_index of Some index \<Rightarrow> [(''batchIndex'', show_int index)] | None \<Rightarrow> []) No_body Reads_json
         (transactions_txn_url cl ([''positionStatsInPendingAck''] @ segments @ [encode_segment subscription, show_int ledger, show_int entry]))) (topic_segments topic)"

section \<open>Scalable topics\<close>

definition scalable_topics_scalable_url ::
    "admin_client \<Rightarrow> string \<Rightarrow> string list \<Rightarrow> (error, string) result" where
  "scalable_topics_scalable_url cl topic extra =
     rmap (\<lambda>(_, tenant, namespace, name).
       admin_url cl ([''scalable'', encode_segment tenant, encode_segment namespace, encode_segment name] @ extra))
       (parse_topic (case strip_prefix ''topic://'' topic of Some rest \<Rightarrow> rest | None \<Rightarrow> topic))"

definition scalable_topics_segment_url ::
    "admin_client \<Rightarrow> string \<Rightarrow> string list \<Rightarrow> (error, string) result" where
  "scalable_topics_segment_url cl segment_topic extra =
     rbind (parse_topic (case strip_prefix ''segment://'' segment_topic of Some rest \<Rightarrow> rest | None \<Rightarrow> segment_topic))
       (\<lambda>(_, tenant, namespace, name).
         case rsplit_once ''/'' name of
           None \<Rightarrow> Inl (Admin (InvalidTopic (''expected a segment topic like segment://tenant/ns/topic/0000-ffff-0, got: ''
             @ segment_topic)))
         | Some (parent, descriptor) \<Rightarrow>
             Inr (admin_url cl ([''segments'', encode_segment tenant, encode_segment namespace, encode_segment parent,
               encode_segment descriptor] @ extra)))"

definition scalable_topics_list_scalable_topics ::
    "admin_client \<Rightarrow> string \<Rightarrow> (error, admin_call) result" where
  "scalable_topics_list_scalable_topics cl namespace =
     rmap (\<lambda>(tenant, ns). call GET [] No_body Reads_json
       (admin_url cl [''scalable'', encode_segment tenant, encode_segment ns])) (split_namespace namespace)"

definition scalable_topics_list_scalable_topics_by_properties ::
    "admin_client \<Rightarrow> string \<Rightarrow> (string \<times> string) list \<Rightarrow> (error, admin_call) result" where
  "scalable_topics_list_scalable_topics_by_properties cl namespace filters =
     rmap (\<lambda>(tenant, ns). call GET (map (\<lambda>(k, v). (''property'', k @ ''='' @ v)) filters) No_body Reads_json
       (admin_url cl [''scalable'', encode_segment tenant, encode_segment ns])) (split_namespace namespace)"

definition scalable_topics_create_scalable_topic ::
    "admin_client \<Rightarrow> string \<Rightarrow> int \<Rightarrow> (error, admin_call) result" where
  "scalable_topics_create_scalable_topic cl topic num_initial_segments =
     rmap (call PUT [(''numInitialSegments'', show_int num_initial_segments)] No_body Reads_nothing)
       (scalable_topics_scalable_url cl topic [])"

definition scalable_topics_create_scalable_topic_with_properties ::
    "admin_client \<Rightarrow> string \<Rightarrow> int \<Rightarrow> json \<Rightarrow> (error, admin_call) result" where
  "scalable_topics_create_scalable_topic_with_properties cl topic num_initial_segments properties =
     rmap (call PUT [(''numInitialSegments'', show_int num_initial_segments)] (Json_body properties) Reads_nothing)
       (scalable_topics_scalable_url cl topic [])"

definition scalable_topics_migrate_to_scalable ::
    "admin_client \<Rightarrow> string \<Rightarrow> bool \<Rightarrow> (error, admin_call) result" where
  "scalable_topics_migrate_to_scalable cl topic force =
     rmap (call POST [(''force'', show_bool force)] No_body Reads_nothing)
       (scalable_topics_scalable_url cl topic [''migrate''])"

definition scalable_topics_delete_scalable_topic ::
    "admin_client \<Rightarrow> string \<Rightarrow> bool \<Rightarrow> (error, admin_call) result" where
  "scalable_topics_delete_scalable_topic cl topic force =
     rmap (call DELETE [(''force'', show_bool force)] No_body Reads_nothing)
       (scalable_topics_scalable_url cl topic [])"

definition scalable_topics_get_metadata ::
    "admin_client \<Rightarrow> string \<Rightarrow> (error, admin_call) result" where
  "scalable_topics_get_metadata cl topic =
     rmap (call GET [] No_body Reads_json)
       (scalable_topics_scalable_url cl topic [])"

definition scalable_topics_get_stats ::
    "admin_client \<Rightarrow> string \<Rightarrow> (error, admin_call) result" where
  "scalable_topics_get_stats cl topic =
     rmap (call GET [] No_body Reads_json)
       (scalable_topics_scalable_url cl topic [''stats''])"

definition scalable_topics_get_auto_scale_policy ::
    "admin_client \<Rightarrow> string \<Rightarrow> (error, admin_call) result" where
  "scalable_topics_get_auto_scale_policy cl topic =
     rmap (call GET [] No_body Reads_json_opt)
       (scalable_topics_scalable_url cl topic [''autoScalePolicy''])"

definition scalable_topics_set_auto_scale_policy ::
    "admin_client \<Rightarrow> string \<Rightarrow> json \<Rightarrow> (error, admin_call) result" where
  "scalable_topics_set_auto_scale_policy cl topic policy =
     rmap (call POST [] (Json_body policy) Reads_nothing)
       (scalable_topics_scalable_url cl topic [''autoScalePolicy''])"

definition scalable_topics_remove_auto_scale_policy ::
    "admin_client \<Rightarrow> string \<Rightarrow> (error, admin_call) result" where
  "scalable_topics_remove_auto_scale_policy cl topic =
     rmap (call DELETE [] No_body Reads_nothing)
       (scalable_topics_scalable_url cl topic [''autoScalePolicy''])"

definition scalable_topics_create_subscription ::
    "admin_client \<Rightarrow> string \<Rightarrow> string \<Rightarrow> scalable_subscription_type \<Rightarrow> (error, admin_call) result" where
  "scalable_topics_create_subscription cl topic subscription subscription_type =
     rmap (call PUT [(''type'', scalable_subscription_type_str subscription_type)] No_body Reads_nothing)
       (scalable_topics_scalable_url cl topic [''subscriptions'', encode_segment subscription])"

definition scalable_topics_delete_subscription ::
    "admin_client \<Rightarrow> string \<Rightarrow> string \<Rightarrow> (error, admin_call) result" where
  "scalable_topics_delete_subscription cl topic subscription =
     rmap (call DELETE [] No_body Reads_nothing)
       (scalable_topics_scalable_url cl topic [''subscriptions'', encode_segment subscription])"

definition scalable_topics_seek_subscription ::
    "admin_client \<Rightarrow> string \<Rightarrow> string \<Rightarrow> int \<Rightarrow> (error, admin_call) result" where
  "scalable_topics_seek_subscription cl topic subscription timestamp_ms =
     rmap (call POST [(''timestamp'', show_int timestamp_ms)] No_body Reads_nothing)
       (scalable_topics_scalable_url cl topic [''subscriptions'', encode_segment subscription, ''seek''])"

definition scalable_topics_clear_backlog ::
    "admin_client \<Rightarrow> string \<Rightarrow> string \<Rightarrow> (error, admin_call) result" where
  "scalable_topics_clear_backlog cl topic subscription =
     rmap (call POST [] No_body Reads_nothing)
       (scalable_topics_scalable_url cl topic [''subscriptions'', encode_segment subscription, ''skip-all''])"

definition scalable_topics_split_segment ::
    "admin_client \<Rightarrow> string \<Rightarrow> int \<Rightarrow> (error, admin_call) result" where
  "scalable_topics_split_segment cl topic segment_id =
     rmap (call POST [] No_body Reads_nothing)
       (scalable_topics_scalable_url cl topic [''split'', show_int segment_id])"

definition scalable_topics_merge_segments ::
    "admin_client \<Rightarrow> string \<Rightarrow> int \<Rightarrow> int \<Rightarrow> (error, admin_call) result" where
  "scalable_topics_merge_segments cl topic segment_id_1 segment_id_2 =
     rmap (call POST [] No_body Reads_nothing)
       (scalable_topics_scalable_url cl topic [''merge'', show_int segment_id_1, show_int segment_id_2])"

definition scalable_topics_terminate_segment ::
    "admin_client \<Rightarrow> string \<Rightarrow> (error, admin_call) result" where
  "scalable_topics_terminate_segment cl segment_topic =
     rmap (call POST [] No_body Reads_nothing)
       (scalable_topics_segment_url cl segment_topic [''terminate''])"

definition scalable_topics_delete_segment ::
    "admin_client \<Rightarrow> string \<Rightarrow> bool \<Rightarrow> (error, admin_call) result" where
  "scalable_topics_delete_segment cl segment_topic force =
     rmap (call DELETE [(''force'', show_bool force)] No_body Reads_nothing)
       (scalable_topics_segment_url cl segment_topic [])"

definition scalable_topics_create_segment ::
    "admin_client \<Rightarrow> string \<Rightarrow> string list \<Rightarrow> (error, admin_call) result" where
  "scalable_topics_create_segment cl segment_topic subscriptions =
     rmap (call PUT [] (Json_body (JArr (map JStr subscriptions))) Reads_nothing)
       (scalable_topics_segment_url cl segment_topic [])"

definition scalable_topics_create_segment_subscription ::
    "admin_client \<Rightarrow> string \<Rightarrow> string \<Rightarrow> (error, admin_call) result" where
  "scalable_topics_create_segment_subscription cl segment_topic subscription =
     rmap (call PUT [] No_body Reads_nothing)
       (scalable_topics_segment_url cl segment_topic [''subscription'', encode_segment subscription])"

definition scalable_topics_delete_segment_subscription ::
    "admin_client \<Rightarrow> string \<Rightarrow> string \<Rightarrow> (error, admin_call) result" where
  "scalable_topics_delete_segment_subscription cl segment_topic subscription =
     rmap (call DELETE [] No_body Reads_nothing)
       (scalable_topics_segment_url cl segment_topic [''subscription'', encode_segment subscription])"

definition scalable_topics_seek_segment_subscription ::
    "admin_client \<Rightarrow> string \<Rightarrow> string \<Rightarrow> int \<Rightarrow> (error, admin_call) result" where
  "scalable_topics_seek_segment_subscription cl segment_topic subscription timestamp_ms =
     rmap (call POST [(''timestamp'', show_int timestamp_ms)] No_body Reads_nothing)
       (scalable_topics_segment_url cl segment_topic [''subscription'', encode_segment subscription, ''seek''])"

definition scalable_topics_get_segment_subscription_backlog ::
    "admin_client \<Rightarrow> string \<Rightarrow> string \<Rightarrow> (error, admin_call) result" where
  "scalable_topics_get_segment_subscription_backlog cl segment_topic subscription =
     rmap (call GET [] No_body Reads_json)
       (scalable_topics_segment_url cl segment_topic [''subscription'', encode_segment subscription, ''backlog''])"

definition scalable_topics_clear_segment_subscription_backlog ::
    "admin_client \<Rightarrow> string \<Rightarrow> string \<Rightarrow> (error, admin_call) result" where
  "scalable_topics_clear_segment_subscription_backlog cl segment_topic subscription =
     rmap (call POST [] No_body Reads_nothing)
       (scalable_topics_segment_url cl segment_topic [''subscription'', encode_segment subscription, ''skip-all''])"

section \<open>What is shown\<close>

subsection \<open>Package names\<close>

definition package_path :: "package_name \<Rightarrow> string" where
  "package_path p =
     package_type_str (pn_type p) @ ''://'' @ pn_tenant p @ CHR ''/'' # pn_namespace p @ CHR ''/'' # pn_name p"

definition package_name_str :: "package_name \<Rightarrow> string" where
  "package_name_str p = package_path p @ CHR ''@'' # pn_version p"

text \<open>The names that can be written: no part is empty, none has a separator in it.\<close>

definition package_ok :: "package_name \<Rightarrow> bool" where
  "package_ok p \<longleftrightarrow>
     list_all (\<lambda>s. s \<noteq> [] \<and> CHR ''/'' \<notin> set s \<and> CHR ''@'' \<notin> set s) [pn_tenant p, pn_namespace p, pn_name p]
     \<and> pn_version p \<noteq> [] \<and> CHR ''@'' \<notin> set (pn_version p)"

lemma split_all_not_Nil: "split_all sep s \<noteq> []"
  by (induction s) (auto split: list.split)

lemma split_all_parts: "x \<in> set (split_all sep s) \<Longrightarrow> sep \<notin> set x \<and> set x \<subseteq> set s"
proof (induction s arbitrary: x)
  case (Cons c cs)
  obtain p ps where "split_all sep cs = p # ps"
    using split_all_not_Nil [of sep cs] by (cases "split_all sep cs") auto
  with Cons.IH [of p] Cons.IH [of x] Cons.prems show ?case by (auto split: if_splits)
qed simp

lemma split_package_type: "split_once_str ''://'' (package_type_str ty @ CHR '':'' # CHR ''/'' # CHR ''/'' # rest)
    = Some (package_type_str ty, rest)"
  by (cases ty) simp_all

lemma package_type_lower: "to_ascii_lowercase (package_type_str ty) = package_type_str ty"
proof -
  have "to_ascii_lowercase ''function'' = ''function''" "to_ascii_lowercase ''sink'' = ''sink''"
    "to_ascii_lowercase ''source'' = ''source''"
    by code_simp+
  then show ?thesis by (cases ty) simp_all
qed

lemma parse_written:
  assumes "package_ok p" and "v = [] \<or> v = CHR ''@'' # pn_version p"
  shows "parse_package_name (package_path p @ v)
    = Inr (p\<lparr>pn_version := (if v = [] then ''latest'' else pn_version p)\<rparr>)"
proof -
  obtain ty tenant ns name version where p: "p = \<lparr>pn_type = ty, pn_tenant = tenant, pn_namespace = ns,
      pn_name = name, pn_version = version\<rparr>" by (cases p)
  let ?path = "tenant @ CHR ''/'' # ns @ CHR ''/'' # name"
  have "package_type_of (package_type_str ty) = Some ty"
    by (cases ty) (simp_all add: package_type_of_def)
  moreover have "split_all (CHR ''/'') ?path = [tenant, ns, name]"
    using assms(1) by (simp add: p package_ok_def split_all_no_sep split_all_single)
  moreover have "CHR ''@'' \<notin> set ?path" "CHR ''@'' \<notin> set version"
    using assms(1) by (auto simp: p package_ok_def)
  then have "split_all (CHR ''@'') (?path @ v) = (if v = [] then [?path] else [?path, version])"
    using assms(2) split_all_no_sep [of "CHR ''@''" ?path version]
    by (auto simp: p split_all_single)
  ultimately show ?thesis
    using assms split_package_type [of ty "?path @ v"]
    by (auto simp: p package_ok_def parse_package_name_def Let_def package_path_def package_type_lower)
qed

lemma parsed_is_ok: "parse_package_name s = Inr p \<Longrightarrow> package_ok p"
proof -
  assume "parse_package_name s = Inr p"
  then obtain scheme rest ty path version where
    "split_all (CHR ''@'') rest = path # version" "length version \<le> 1"
    and parts: "split_all (CHR ''/'') path = [pn_tenant p, pn_namespace p, pn_name p]"
      "pn_tenant p \<noteq> []" "pn_namespace p \<noteq> []" "pn_name p \<noteq> []"
    and v: "pn_version p = (case version of [v] \<Rightarrow> if v \<noteq> [] then v else ''latest'' | _ \<Rightarrow> ''latest'')"
    by (auto simp: parse_package_name_def Let_def split: option.splits prod.splits list.splits if_splits)
  then have path: "CHR ''@'' \<notin> set path" and version: "list_all (\<lambda>v. CHR ''@'' \<notin> set v) version"
    using split_all_parts [of _ "CHR ''@''" rest] by (auto simp: list_all_iff)
  have "CHR ''/'' \<notin> set x \<and> CHR ''@'' \<notin> set x" if "x \<in> {pn_tenant p, pn_namespace p, pn_name p}" for x
    using split_all_parts [of x "CHR ''/''" path] parts(1) path that by auto
  with parts(2-4) v version show ?thesis
    by (auto simp: package_ok_def split: list.splits)
qed

text \<open>
  A package name is read as it is written. Written as \<open>type://tenant/namespace/name@version\<close>, a package
  name is read back as itself exactly when no part is empty and none has a separator in it;
  without the version it is read as the version \<open>latest\<close>; and nothing that is read is anything else.
\<close>

theorem package_names_are_read_back:
  "(parse_package_name (package_name_str p) = Inr p \<longleftrightarrow> package_ok p)
   \<and> (parse_package_name (package_path p) = Inr (p\<lparr>pn_version := ''latest''\<rparr>)
      \<longleftrightarrow> package_ok (p\<lparr>pn_version := ''latest''\<rparr>))"
proof (intro conjI iffI)
  show "package_ok p \<Longrightarrow> parse_package_name (package_name_str p) = Inr p"
    using parse_written [of p "CHR ''@'' # pn_version p"] by (simp add: package_name_str_def)
  have "package_path (p\<lparr>pn_version := v\<rparr>) = package_path p" for v by (simp add: package_path_def)
  then show "package_ok (p\<lparr>pn_version := ''latest''\<rparr>) \<Longrightarrow>
      parse_package_name (package_path p) = Inr (p\<lparr>pn_version := ''latest''\<rparr>)"
    using parse_written [of "p\<lparr>pn_version := ''latest''\<rparr>" "[]"] by simp
qed (rule parsed_is_ok, assumption)+

end
