(* ===== verification/Serde.thy ===== *)
theory Serde
  imports Admin "HOL-Library.Monad_Syntax" "HOL-Library.List_Lexorder" "HOL-Library.Char_ord"
begin

text \<open>
  Reading and writing JSON the way the derived implementations of \<open>admin/models.rs\<close> do. The
  attributes on a field say how it is written and read; each has a combinator here, and the
  theories of the models apply them field by field:

  \<^item> no attribute: \<open>needed\<close>, the entry has to be there;
  \<^item> an optional type: \<open>optional\<close>, absent or null is \<open>None\<close>; written as \<open>or_null\<close>, or as \<open>if_some\<close>
    under \<open>skip_serializing_if = "Option::is_none"\<close>;
  \<^item> \<open>default\<close>: \<open>defaulted\<close>, absent is the default; written always, or as \<open>if_any\<close> under
    \<open>skip_serializing_if = "BTreeMap::is_empty"\<close>.

  The text of a document is left to the library: a value of \<open>json\<close> is what the text stands for. An
  \<open>f64\<close> is the 64 bits of a double. A \<open>BTreeMap\<close> is the list of its entries by ascending key and a
  \<open>BTreeSet\<close> the ascending list of its elements. A struct is read from an object; that it can be
  read from an array of its fields in order is left out, since the broker sends objects.
\<close>

section \<open>Doubles\<close>

datatype f64 = F64 (bits: "64 word")

definition is_finite :: "f64 \<Rightarrow> bool" where
  "is_finite x \<longleftrightarrow> take_bit 11 (drop_bit 52 (bits x)) \<noteq> 0x7ff"

function bit_length :: "int \<Rightarrow> nat" where
  "bit_length n = (if n \<le> 0 then 0 else Suc (bit_length (n div 2)))"
  by auto

termination by (relation "measure nat") auto

declare bit_length.simps [simp del]

text \<open>The double next to an integer, ties to the even one; a carry moves on to the exponent.\<close>

definition f64_bits_of :: "int \<Rightarrow> int" where
  "f64_bits_of n =
     (if n = 0 then 0
      else let e = bit_length n - 1 in
        if e \<le> 52 then (int e + 1023) * 2 ^ 52 + (n * 2 ^ (52 - e) - 2 ^ 52)
        else let q = n div 2 ^ (e - 52); r = n mod 2 ^ (e - 52); half = 2 ^ (e - 53);
                 q = (if half < r \<or> r = half \<and> odd q then q + 1 else q)
             in (int e + 1023) * 2 ^ 52 + (q - 2 ^ 52))"

definition f64_of_int :: "int \<Rightarrow> f64" where
  "f64_of_int n = F64 (word_of_int (f64_bits_of \<bar>n\<bar> + (if n < 0 then 2 ^ 63 else 0)))"

section \<open>Values\<close>

definition str_json :: "string \<Rightarrow> json" where
  "str_json = JStr"

fun str_of_json :: "json \<Rightarrow> string option" where
  "str_of_json (JStr s) = Some s"
| "str_of_json _ = None"

fun bool_of_json :: "json \<Rightarrow> bool option" where
  "bool_of_json (JBool b) = Some b"
| "bool_of_json _ = None"

definition sword_json :: "'w::len word \<Rightarrow> json" where
  "sword_json w = JNum (sint w)"

fun sword_of_json :: "json \<Rightarrow> 'w::len word option" where
  "sword_of_json (JNum n) =
     (if - (2 ^ (LENGTH('w) - 1)) \<le> n \<and> n < 2 ^ (LENGTH('w) - 1) then Some (word_of_int n) else None)"
| "sword_of_json _ = None"

definition uword_json :: "'w::len word \<Rightarrow> json" where
  "uword_json w = JNum (uint w)"

fun uword_of_json :: "json \<Rightarrow> 'w::len word option" where
  "uword_of_json (JNum n) = (if 0 \<le> n \<and> n < 2 ^ LENGTH('w) then Some (word_of_int n) else None)"
| "uword_of_json _ = None"

text \<open>An infinity or a NaN has no JSON form and is written as null.\<close>

definition f64_json :: "f64 \<Rightarrow> json" where
  "f64_json x = (if is_finite x then JFlt (bits x) else JNull)"

fun f64_of_json :: "json \<Rightarrow> f64 option" where
  "f64_of_json (JFlt b) = Some (F64 b)"
| "f64_of_json (JNum n) = Some (f64_of_int n)"
| "f64_of_json _ = None"

text \<open>A variant without data is its name; the reader also takes an object of the name and null.\<close>

fun unit_variant :: "(string \<rightharpoonup> 'a) \<Rightarrow> json \<Rightarrow> 'a option" where
  "unit_variant names (JStr s) = names s"
| "unit_variant names (JObj [(s, JNull)]) = names s"
| "unit_variant _ _ = None"

text \<open>A field of any JSON value.\<close>

definition any_json :: "json \<Rightarrow> json" where
  "any_json j = j"

definition any_of_json :: "json \<Rightarrow> json option" where
  "any_of_json j = Some j"

section \<open>Containers\<close>

definition list_json :: "('a \<Rightarrow> json) \<Rightarrow> 'a list \<Rightarrow> json" where
  "list_json w xs = JArr (map w xs)"

fun list_of_json :: "(json \<Rightarrow> 'a option) \<Rightarrow> json \<Rightarrow> 'a list option" where
  "list_of_json r (JArr js) = those (map r js)"
| "list_of_json r _ = None"

fun btree_put :: "'k::linorder \<Rightarrow> 'v \<Rightarrow> ('k \<times> 'v) list \<Rightarrow> ('k \<times> 'v) list" where
  "btree_put k v [] = [(k, v)]"
| "btree_put k v ((l, w) # m) =
     (if k < l then (k, v) # (l, w) # m
      else if k = l then (k, v) # m
      else (l, w) # btree_put k v m)"

definition btree_of_list :: "('k::linorder \<times> 'v) list \<Rightarrow> ('k \<times> 'v) list" where
  "btree_of_list kvs = foldl (\<lambda>m (k, v). btree_put k v m) [] kvs"

definition btree_set :: "'a::linorder list \<Rightarrow> 'a list" where
  "btree_set xs = map fst (btree_of_list (map (\<lambda>x. (x, ())) xs))"

text \<open>The entries of a map are read in the order of the document: the last one of a key stays.\<close>

definition map_json :: "('v \<Rightarrow> json) \<Rightarrow> (string \<times> 'v) list \<Rightarrow> json" where
  "map_json w m = JObj (map (\<lambda>(k, v). (k, w v)) m)"

fun map_of_json :: "(json \<Rightarrow> 'v option) \<Rightarrow> json \<Rightarrow> (string \<times> 'v) list option" where
  "map_of_json r (JObj kvs) =
     map_option btree_of_list (those (map (\<lambda>(k, j). map_option (Pair k) (r j)) kvs))"
| "map_of_json r _ = None"

definition set_json :: "('a \<Rightarrow> json) \<Rightarrow> 'a list \<Rightarrow> json" where
  "set_json w xs = JArr (map w xs)"

fun set_of_json :: "(json \<Rightarrow> 'a::linorder option) \<Rightarrow> json \<Rightarrow> 'a list option" where
  "set_of_json r (JArr js) = map_option btree_set (those (map r js))"
| "set_of_json r _ = None"

section \<open>Structs\<close>

text \<open>A struct is written field by field; a field that is skipped has no value.\<close>

definition obj :: "(string \<times> json option) list \<Rightarrow> json" where
  "obj fs = JObj (List.map_filter (\<lambda>(n, v). map_option (Pair n) v) fs)"

definition occurrences :: "string \<Rightarrow> (string \<times> json) list \<Rightarrow> json list" where
  "occurrences n kvs = map snd (filter (\<lambda>(k, j). k = n) kvs)"

fun at_most_one :: "'a list \<Rightarrow> 'a option option" where
  "at_most_one [] = Some None"
| "at_most_one [x] = Some (Some x)"
| "at_most_one _ = None"

text \<open>The values of the fields named. A field that occurs twice is an error; names that are not
  asked for are ignored.\<close>

fun entries_named :: "string list \<Rightarrow> json \<Rightarrow> json option list option" where
  "entries_named names (JObj kvs) = those (map (\<lambda>n. at_most_one (occurrences n kvs)) names)"
| "entries_named names _ = None"

fun needed :: "(json \<Rightarrow> 'a option) \<Rightarrow> json option \<Rightarrow> 'a option" where
  "needed r None = None"
| "needed r (Some j) = r j"

fun defaulted :: "'a \<Rightarrow> (json \<Rightarrow> 'a option) \<Rightarrow> json option \<Rightarrow> 'a option" where
  "defaulted d r None = Some d"
| "defaulted d r (Some j) = r j"

fun optional :: "(json \<Rightarrow> 'a option) \<Rightarrow> json option \<Rightarrow> 'a option option" where
  "optional r None = Some None"
| "optional r (Some j) = (if j = JNull then Some None else map_option Some (r j))"

definition if_some :: "('a \<Rightarrow> json) \<Rightarrow> 'a option \<Rightarrow> json option" where
  "if_some w x = map_option w x"

definition or_null :: "('a \<Rightarrow> json) \<Rightarrow> 'a option \<Rightarrow> json option" where
  "or_null w x = Some (case x of None \<Rightarrow> JNull | Some v \<Rightarrow> w v)"

definition if_any :: "('a list \<Rightarrow> json) \<Rightarrow> 'a list \<Rightarrow> json option" where
  "if_any w xs = (if xs = [] then None else Some (w xs))"

text \<open>Whether a null occurs anywhere in a document.\<close>

fun has_null :: "json \<Rightarrow> bool" where
  "has_null JNull = True"
| "has_null (JArr js) = list_ex has_null js"
| "has_null (JObj kvs) = list_ex (\<lambda>(k, j). has_null j) kvs"
| "has_null _ = False"

text \<open>The entries that a flattened struct is read from: those that no other field takes.\<close>

fun without :: "string list \<Rightarrow> json \<Rightarrow> json" where
  "without names (JObj kvs) = JObj (filter (\<lambda>(k, j). k \<notin> set names) kvs)"
| "without names j = j"

text \<open>The adapter for a Java \<open>byte[]\<close>: Base64 text, or null.\<close>

definition base64_json :: "(byte list \<Rightarrow> string) \<Rightarrow> byte list option \<Rightarrow> json option" where
  "base64_json b64e x = Some (case x of Some bs \<Rightarrow> JStr (b64e bs) | None \<Rightarrow> JNull)"

fun base64_of_json :: "(byte list \<Rightarrow> byte list option) \<Rightarrow> json option \<Rightarrow> byte list option option" where
  "base64_of_json b64d None = Some None"
| "base64_of_json b64d (Some JNull) = Some None"
| "base64_of_json b64d (Some (JStr text)) = map_option Some (b64d (as_bytes text))"
| "base64_of_json b64d (Some _) = None"

lemma base64_back: "b64_inverse b64e b64d \<Longrightarrow> base64_of_json b64d (base64_json b64e x) = Some x"
  by (cases x) (simp_all add: base64_json_def b64_inverse_def)

section \<open>Writing and reading back\<close>

lemma those_map_Some: "(\<And>x. x \<in> set xs \<Longrightarrow> f (g x) = Some x) \<Longrightarrow> those (map (\<lambda>x. f (g x)) xs) = Some xs"
  by (induction xs) auto

lemma sword_back [simp]: "sword_of_json (sword_json w) = Some w"
  using sint_range_size [of w] by (simp add: sword_json_def word_size)

lemma uword_back [simp]: "uword_of_json (uword_json w) = Some w"
  by (simp add: uword_json_def)

lemma f64_back [simp]: "is_finite x \<Longrightarrow> f64_of_json (f64_json x) = Some x"
  by (simp add: f64_json_def)

lemma str_back [simp]: "str_of_json (str_json s) = Some s"
  by (simp add: str_json_def)

text \<open>A map whose keys ascend is what inserting its entries one by one builds.\<close>

lemma btree_put_end:
  "\<forall>l\<in>fst ` set m. l < k \<Longrightarrow> btree_put k v m = m @ [(k, v)]"
  by (induction m) auto

lemma btree_of_ascending:
  assumes "sorted_wrt (<) (map fst m)"
  shows "btree_of_list m = m"
proof -
  have "sorted_wrt (<) (map fst (m0 @ m)) \<Longrightarrow> foldl (\<lambda>m (k, v). btree_put k v m) m0 m = m0 @ m" for m0
    by (induction m arbitrary: m0) (auto simp: btree_put_end sorted_wrt_append)
  from this [of "[]"] assms show ?thesis by (simp add: btree_of_list_def)
qed

lemma btree_put_keys: "fst ` set (btree_put k v m) = insert k (fst ` set m)"
proof (induction m)
  case Nil
  then show ?case by simp
next
  case (Cons e m)
  then show ?case by (cases e) (simp add: insert_commute image_iff)
qed

lemma btree_put_ascends:
  "sorted_wrt (<) (map fst m) \<Longrightarrow> sorted_wrt (<) (map fst (btree_put k v m))"
proof (induction m)
  case Nil
  then show ?case by simp
next
  case (Cons e m)
  then have "\<forall>l\<in>fst ` set (btree_put k v m). fst e < l" if "fst e < k"
    using that by (simp add: btree_put_keys)
  with Cons show ?case by (cases e) (auto dest: less_trans)
qed

text \<open>What is read as a map has ascending keys, whatever the document.\<close>

lemma btree_of_list_ascends: "sorted_wrt (<) (map fst (btree_of_list kvs))"
proof -
  have "sorted_wrt (<) (map fst m) \<Longrightarrow> sorted_wrt (<) (map fst (foldl (\<lambda>m (k, v). btree_put k v m) m kvs))" for m
    by (induction kvs arbitrary: m) (auto simp: btree_put_ascends)
  then show ?thesis by (simp add: btree_of_list_def)
qed

text \<open>The fields of an object are found again when their names differ.\<close>

lemma occurrences_obj:
  "distinct (map fst fs) \<Longrightarrow> (n, v) \<in> set fs \<Longrightarrow>
    occurrences n (List.map_filter (\<lambda>(n, v). map_option (Pair n) v) fs) = (case v of None \<Rightarrow> [] | Some j \<Rightarrow> [j])"
proof (induction fs)
  case Nil
  then show ?case by simp
next
  case (Cons f fs)
  have "occurrences n (List.map_filter (\<lambda>(n, v). map_option (Pair n) v) fs) = []" if "n \<notin> fst ` set fs"
    using that by (force simp: occurrences_def filter_empty_conv map_filter_def)
  with Cons show ?case
    by (cases f) (force simp: map_filter_simps occurrences_def split: option.splits)
qed

lemma entries_of_obj:
  assumes "distinct names" and "names = map fst fs"
  shows "entries_named names (obj fs) = Some (map snd fs)"
proof -
  have "at_most_one (occurrences n (List.map_filter (\<lambda>(n, v). map_option (Pair n) v) fs)) = Some v"
    if "(n, v) \<in> set fs" for n v
    using occurrences_obj [OF assms(1) [unfolded assms(2)] that] by (cases v) auto
  then have "map (\<lambda>n. at_most_one (occurrences n (List.map_filter (\<lambda>(n, v). map_option (Pair n) v) fs))) names
    = map Some (map snd fs)"
    unfolding assms(2) by (auto simp: comp_def)
  moreover have "those (map Some vs) = Some vs" for vs :: "json option list"
    by (induction vs) auto
  ultimately show ?thesis by (simp only: obj_def entries_named.simps)
qed

text \<open>So are those of the struct around a flattened one, and the flattened one is read from the rest.\<close>

lemma entries_of_outer:
  assumes "distinct (names @ map fst gs)" and "names = map fst fs"
  shows "entries_named names (obj (fs @ gs)) = Some (map snd fs)"
proof -
  have "at_most_one (occurrences n (List.map_filter (\<lambda>(n, v). map_option (Pair n) v) (fs @ gs))) = Some v"
    if "(n, v) \<in> set fs" for n v
    using occurrences_obj [of "fs @ gs" n v] assms that by (cases v) auto
  then have "map (\<lambda>n. at_most_one (occurrences n (List.map_filter (\<lambda>(n, v). map_option (Pair n) v) (fs @ gs)))) names
    = map Some (map snd fs)"
    unfolding assms(2) by (auto simp: comp_def)
  moreover have "those (map Some vs) = Some vs" for vs :: "json option list"
    by (induction vs) auto
  ultimately show ?thesis by (simp only: obj_def entries_named.simps)
qed

lemma without_outer:
  assumes "distinct (names @ map fst gs)" and "names = map fst fs"
  shows "without names (obj (fs @ gs)) = obj gs"
proof -
  have "filter (\<lambda>(k, j). k \<notin> set names) (List.map_filter (\<lambda>(n, v). map_option (Pair n) v) fs) = []"
    unfolding assms(2) by (force simp: filter_empty_conv map_filter_def)
  moreover have "filter (\<lambda>(k, j). k \<notin> set names) (List.map_filter (\<lambda>(n, v). map_option (Pair n) v) gs) =
    List.map_filter (\<lambda>(n, v). map_option (Pair n) v) gs"
    using assms(1) by (force simp: filter_id_conv map_filter_def)
  ultimately show ?thesis by (simp add: obj_def map_filter_def)
qed

text \<open>An entry that no field asks for changes nothing.\<close>

lemma unknown_entries_are_ignored:
  "k \<notin> set names \<Longrightarrow> entries_named names (JObj (kvs @ (k, j) # kvs')) = entries_named names (JObj (kvs @ kvs'))"
  by (auto simp: occurrences_def intro!: arg_cong [where f = those] map_cong)

lemma obj_not_null [simp]: "obj fs \<noteq> JNull"
  by (simp add: obj_def)

lemma has_null_obj [simp]: "has_null (obj fs) = list_ex (\<lambda>(n, v). case v of None \<Rightarrow> False | Some j \<Rightarrow> has_null j) fs"
  by (induction fs) (simp_all add: obj_def map_filter_simps case_prod_beta split: option.split)

section \<open>The contract of a written type\<close>

definition entries_good :: "('v \<Rightarrow> bool) \<Rightarrow> (string \<times> 'v) list \<Rightarrow> bool" where
  "entries_good g m \<longleftrightarrow> sorted_wrt (<) (map fst m) \<and> list_all (\<lambda>e. g (snd e)) m"

definition elements_good :: "('a::linorder \<Rightarrow> bool) \<Rightarrow> 'a list \<Rightarrow> bool" where
  "elements_good g xs \<longleftrightarrow> sorted_wrt (<) xs \<and> list_all g xs"

text \<open>Values that are good are read back as they were written.\<close>

locale json_codec =
  fixes wr :: "'a \<Rightarrow> json" and rd :: "json \<Rightarrow> 'a option" and good :: "'a \<Rightarrow> bool"
  assumes read_back [simp]: "good x \<Longrightarrow> rd (wr x) = Some x"
begin

lemma list_back: "list_all good xs \<Longrightarrow> list_of_json rd (list_json wr xs) = Some xs"
  using those_map_Some [of xs rd wr] by (simp add: list_json_def list_all_iff comp_def)

lemma map_back:
  assumes "entries_good good m"
  shows "map_of_json rd (map_json wr m) = Some m"
proof -
  have "those (map (\<lambda>e. map_option (Pair (fst e)) (rd (wr (snd e)))) m) = Some m"
    if "list_all (\<lambda>e. good (snd e)) m"
    using that by (induction m) auto
  then show ?thesis
    using btree_of_ascending [of m] assms
    by (simp add: entries_good_def map_json_def case_prod_beta comp_def)
qed

end

lemma set_back:
  assumes "json_codec w r g" and "elements_good g xs"
  shows "set_of_json r (set_json w xs) = Some xs"
proof -
  have "btree_of_list (map (\<lambda>x. (x, ())) xs) = map (\<lambda>x. (x, ())) xs"
    using assms(2) by (intro btree_of_ascending) (simp add: elements_good_def comp_def)
  then show ?thesis
    using json_codec.list_back [OF assms(1), of xs] assms(2) by (simp add: elements_good_def btree_set_def set_json_def list_json_def comp_def)
qed

text \<open>Values under an option must not be written as null, which stands for the option being empty.\<close>

locale json_value = json_codec +
  assumes not_null: "good x \<Longrightarrow> wr x \<noteq> JNull"
begin

lemma if_some_back [simp]: "pred_option good x \<Longrightarrow> optional rd (if_some wr x) = Some x"
  by (cases x) (simp_all add: if_some_def not_null)

lemma or_null_back [simp]: "pred_option good x \<Longrightarrow> optional rd (or_null wr x) = Some x"
  by (cases x) (simp_all add: or_null_def not_null)

end

text \<open>The values of request bodies hold no null at all.\<close>

locale json_body = json_value +
  assumes null_free [simp]: "good x \<Longrightarrow> \<not> has_null (wr x)"
begin

lemma if_some_null_free [simp]:
  "pred_option good x \<Longrightarrow> \<not> (case if_some wr x of None \<Rightarrow> False | Some j \<Rightarrow> has_null j)"
  by (cases x) (simp_all add: if_some_def)

end

lemma json_valueI:
  "(\<And>x. good x \<Longrightarrow> rd (wr x) = Some x) \<Longrightarrow> (\<And>x. wr x \<noteq> JNull) \<Longrightarrow> json_value wr rd good"
  by unfold_locales

lemma json_bodyI:
  "(\<And>x. good x \<Longrightarrow> rd (wr x) = Some x) \<Longrightarrow> (\<And>x. good x \<Longrightarrow> \<not> has_null (wr x)) \<Longrightarrow> json_body wr rd good"
  by unfold_locales force+

lemma trivially_good [simp]: "pred_option (\<lambda>_. True) = (\<lambda>_. True)" "list_all (\<lambda>_. True) = (\<lambda>_. True)"
  by (auto simp: fun_eq_iff list_all_iff option.pred_True)

text \<open>Containers of readable values are readable, and free of nulls when their values are.\<close>

lemma list_value: "json_codec w r g \<Longrightarrow> json_value (list_json w) (list_of_json r) (list_all g)"
  by (rule json_valueI, erule (1) json_codec.list_back) (simp add: list_json_def)

lemma map_value: "json_codec w r g \<Longrightarrow> json_value (map_json w) (map_of_json r) (entries_good g)"
  by (rule json_valueI, erule (1) json_codec.map_back) (simp add: map_json_def)

lemma list_value_True: "json_codec w r (\<lambda>_. True) \<Longrightarrow> json_value (list_json w) (list_of_json r) (\<lambda>_. True)"
  using list_value [of w r "\<lambda>_. True"] by simp

lemma set_value: "json_codec w r g \<Longrightarrow> json_value (set_json w) (set_of_json r) (elements_good g)"
  by (rule json_valueI, erule (1) set_back) (simp add: set_json_def)

lemma list_body:
  assumes "json_body w r g"
  shows "json_body (list_json w) (list_of_json r) (list_all g)"
proof (rule json_bodyI)
  have c: "json_codec w r g" using assms by (simp add: json_body_def json_value_def)
  show "list_of_json r (list_json w xs) = Some xs" if "list_all g xs" for xs
    using that by (rule json_codec.list_back [OF c])
  show "\<not> has_null (list_json w xs)" if "list_all g xs" for xs
    using that json_body.null_free [OF assms] by (auto simp: list_json_def list_ex_iff list_all_iff)
qed

lemma list_body_True: "json_body w r (\<lambda>_. True) \<Longrightarrow> json_body (list_json w) (list_of_json r) (\<lambda>_. True)"
  using list_body [of w r "\<lambda>_. True"] by simp

lemma set_body:
  assumes "json_body w r g"
  shows "json_body (set_json w) (set_of_json r) (elements_good g)"
proof (rule json_bodyI)
  have c: "json_codec w r g" using assms by (simp add: json_body_def json_value_def)
  show "set_of_json r (set_json w xs) = Some xs" if "elements_good g xs" for xs
    using that by (rule set_back [OF c])
  show "\<not> has_null (set_json w xs)" if "elements_good g xs" for xs
    using that json_body.null_free [OF assms]
    by (auto simp: set_json_def elements_good_def list_ex_iff list_all_iff)
qed

lemma map_body:
  assumes "json_body w r g"
  shows "json_body (map_json w) (map_of_json r) (entries_good g)"
proof (rule json_bodyI)
  have c: "json_codec w r g" using assms by (simp add: json_body_def json_value_def)
  show "map_of_json r (map_json w m) = Some m" if "entries_good g m" for m
    using that by (rule json_codec.map_back [OF c])
  show "\<not> has_null (map_json w m)" if "entries_good g m" for m
    using that json_body.null_free [OF assms]
    by (auto simp: map_json_def entries_good_def list_ex_iff list_all_iff)
qed

lemma if_any_back [simp]: "r (w xs) = Some xs \<Longrightarrow> defaulted [] r (if_any w xs) = Some xs"
  by (simp add: if_any_def)

lemma if_any_null_free [simp]:
  "\<not> has_null (w xs) \<Longrightarrow> \<not> (case if_any w xs of None \<Rightarrow> False | Some j \<Rightarrow> has_null j)"
  by (simp add: if_any_def)

section \<open>The types every document is made of\<close>

interpretation str_codec: json_body str_json str_of_json "\<lambda>_. True"
  by unfold_locales (simp_all add: str_json_def)

interpretation bool_codec: json_body JBool bool_of_json "\<lambda>_. True"
  by unfold_locales simp_all

interpretation i32_codec: json_body "sword_json :: 32 word \<Rightarrow> json" sword_of_json "\<lambda>_. True"
  by unfold_locales (simp_all, simp_all add: sword_json_def)

interpretation i64_codec: json_body "sword_json :: 64 word \<Rightarrow> json" sword_of_json "\<lambda>_. True"
  by unfold_locales (simp_all, simp_all add: sword_json_def)

interpretation u32_codec: json_body "uword_json :: 32 word \<Rightarrow> json" uword_of_json "\<lambda>_. True"
  by unfold_locales (simp_all, simp_all add: uword_json_def)

interpretation f64_codec: json_body f64_json f64_of_json is_finite
  by unfold_locales (simp_all, simp_all add: f64_json_def)

interpretation any_codec: json_codec any_json any_of_json "\<lambda>_. True"
  by unfold_locales (simp add: any_json_def any_of_json_def)

interpretation known_codec: json_value any_json any_of_json "\<lambda>j. j \<noteq> JNull"
  by unfold_locales (simp_all add: any_json_def any_of_json_def)

subsection \<open>Lists, sets and maps of them\<close>

interpretation str_list_codec: json_body "list_json str_json" "list_of_json str_of_json" "\<lambda>_. True"
  by (rule list_body_True [OF str_codec.json_body_axioms])

interpretation str_set_codec: json_body "set_json str_json" "set_of_json str_of_json" "elements_good (\<lambda>_. True)"
  by (rule set_body [OF str_codec.json_body_axioms])

interpretation str_map_codec: json_body "map_json str_json" "map_of_json str_of_json" "entries_good (\<lambda>_. True)"
  by (rule map_body [OF str_codec.json_body_axioms])

interpretation i32_map_codec: json_body "map_json sword_json :: (string \<times> 32 word) list \<Rightarrow> json" "map_of_json sword_of_json" "entries_good (\<lambda>_. True)"
  by (rule map_body [OF i32_codec.json_body_axioms])

interpretation i64_map_codec: json_body "map_json sword_json :: (string \<times> 64 word) list \<Rightarrow> json" "map_of_json sword_of_json" "entries_good (\<lambda>_. True)"
  by (rule map_body [OF i64_codec.json_body_axioms])

interpretation i64_list_codec: json_body "list_json sword_json :: (64 word) list \<Rightarrow> json" "list_of_json sword_of_json" "\<lambda>_. True"
  by (rule list_body_True [OF i64_codec.json_body_axioms])

interpretation any_map_codec: json_value "map_json any_json" "map_of_json any_of_json" "entries_good (\<lambda>_. True)"
  by (rule map_value [OF any_codec.json_codec_axioms])

interpretation f64_map_codec: json_body "map_json f64_json" "map_of_json f64_of_json" "entries_good is_finite"
  by (rule map_body [OF f64_codec.json_body_axioms])

interpretation any_list_codec: json_value "list_json any_json" "list_of_json any_of_json" "\<lambda>_. True"
  by (rule list_value_True [OF any_codec.json_codec_axioms])

end
