(* ===== verification/Models_Policies.thy ===== *)
theory Models_Policies
  imports Serde
begin

text \<open>
  The documents of clusters, tenants, brokers, namespaces and their policies (\<open>admin/models.rs\<close>,
  lines 14 to 1236). Each struct is a record; beside it stand the names of its
  fields in a document, how it is written and how it is read, field by field as the attributes
  say, and its interpretation as a type that is read back as written. \<open>good\<close> collects what that
  needs: finite doubles, and maps and sets in the order of their keys.
\<close>

datatype proxy_protocol = SNI

fun proxy_protocol_name :: "proxy_protocol \<Rightarrow> string" where
  "proxy_protocol_name SNI = ''SNI''"

definition proxy_protocol_json :: "proxy_protocol \<Rightarrow> json" where
  "proxy_protocol_json v = JStr (proxy_protocol_name v)"

definition proxy_protocol_of_json :: "json \<Rightarrow> proxy_protocol option" where
  "proxy_protocol_of_json =
     unit_variant (map_of [
       (''SNI'', SNI)])"

interpretation proxy_protocol_codec: json_body proxy_protocol_json proxy_protocol_of_json "\<lambda>_. True"
proof
  show "proxy_protocol_of_json (proxy_protocol_json x) = Some x" for x
    by (cases x) (simp_all add: proxy_protocol_of_json_def proxy_protocol_json_def)
qed (simp_all add: proxy_protocol_json_def)

record cluster_data =
  cluster_data_service_url :: "string option"
  cluster_data_service_url_tls :: "string option"
  cluster_data_broker_service_url :: "string option"
  cluster_data_broker_service_url_tls :: "string option"
  cluster_data_proxy_service_url :: "string option"
  cluster_data_authentication_plugin :: "string option"
  cluster_data_authentication_parameters :: "string option"
  cluster_data_proxy_protocol :: "proxy_protocol option"
  cluster_data_peer_cluster_names :: "(string list) option"
  cluster_data_broker_client_tls_enabled :: "bool option"
  cluster_data_tls_allow_insecure_connection :: "bool option"
  cluster_data_broker_client_trust_certs_file_path :: "string option"
  cluster_data_broker_client_key_file_path :: "string option"
  cluster_data_broker_client_certificate_file_path :: "string option"
  cluster_data_listener_name :: "string option"

definition cluster_data_names :: "string list" where
  "cluster_data_names = [''serviceUrl'', ''serviceUrlTls'', ''brokerServiceUrl'', ''brokerServiceUrlTls'',
     ''proxyServiceUrl'', ''authenticationPlugin'', ''authenticationParameters'',
     ''proxyProtocol'', ''peerClusterNames'', ''brokerClientTlsEnabled'',
     ''tlsAllowInsecureConnection'', ''brokerClientTrustCertsFilePath'',
     ''brokerClientKeyFilePath'', ''brokerClientCertificateFilePath'', ''listenerName'']"

definition cluster_data_json :: "cluster_data \<Rightarrow> json" where
  "cluster_data_json x = obj [
     (''serviceUrl'', if_some str_json (cluster_data_service_url x)),
     (''serviceUrlTls'', if_some str_json (cluster_data_service_url_tls x)),
     (''brokerServiceUrl'', if_some str_json (cluster_data_broker_service_url x)),
     (''brokerServiceUrlTls'', if_some str_json (cluster_data_broker_service_url_tls x)),
     (''proxyServiceUrl'', if_some str_json (cluster_data_proxy_service_url x)),
     (''authenticationPlugin'', if_some str_json (cluster_data_authentication_plugin x)),
     (''authenticationParameters'', if_some str_json (cluster_data_authentication_parameters x)),
     (''proxyProtocol'', if_some proxy_protocol_json (cluster_data_proxy_protocol x)),
     (''peerClusterNames'', if_some (list_json str_json) (cluster_data_peer_cluster_names x)),
     (''brokerClientTlsEnabled'', if_some JBool (cluster_data_broker_client_tls_enabled x)),
     (''tlsAllowInsecureConnection'', if_some JBool (cluster_data_tls_allow_insecure_connection x)),
     (''brokerClientTrustCertsFilePath'', if_some str_json (cluster_data_broker_client_trust_certs_file_path x)),
     (''brokerClientKeyFilePath'', if_some str_json (cluster_data_broker_client_key_file_path x)),
     (''brokerClientCertificateFilePath'', if_some str_json (cluster_data_broker_client_certificate_file_path x)),
     (''listenerName'', if_some str_json (cluster_data_listener_name x))]"

definition cluster_data_of_json :: "json \<Rightarrow> cluster_data option" where
  "cluster_data_of_json j =
     (case entries_named cluster_data_names j of
        Some [v1, v2, v3, v4, v5, v6, v7, v8, v9, v10, v11, v12, v13, v14, v15] \<Rightarrow> do {
          x1 \<leftarrow> optional str_of_json v1;
          x2 \<leftarrow> optional str_of_json v2;
          x3 \<leftarrow> optional str_of_json v3;
          x4 \<leftarrow> optional str_of_json v4;
          x5 \<leftarrow> optional str_of_json v5;
          x6 \<leftarrow> optional str_of_json v6;
          x7 \<leftarrow> optional str_of_json v7;
          x8 \<leftarrow> optional proxy_protocol_of_json v8;
          x9 \<leftarrow> optional (list_of_json str_of_json) v9;
          x10 \<leftarrow> optional bool_of_json v10;
          x11 \<leftarrow> optional bool_of_json v11;
          x12 \<leftarrow> optional str_of_json v12;
          x13 \<leftarrow> optional str_of_json v13;
          x14 \<leftarrow> optional str_of_json v14;
          x15 \<leftarrow> optional str_of_json v15;
          Some \<lparr>cluster_data_service_url = x1, cluster_data_service_url_tls = x2,
            cluster_data_broker_service_url = x3, cluster_data_broker_service_url_tls = x4,
            cluster_data_proxy_service_url = x5, cluster_data_authentication_plugin = x6,
            cluster_data_authentication_parameters = x7, cluster_data_proxy_protocol = x8,
            cluster_data_peer_cluster_names = x9, cluster_data_broker_client_tls_enabled = x10,
            cluster_data_tls_allow_insecure_connection = x11,
            cluster_data_broker_client_trust_certs_file_path = x12,
            cluster_data_broker_client_key_file_path = x13,
            cluster_data_broker_client_certificate_file_path = x14, cluster_data_listener_name = x15\<rparr>}
      | _ \<Rightarrow> None)"

definition cluster_data_default :: cluster_data where
  "cluster_data_default = \<lparr>cluster_data_service_url = None, cluster_data_service_url_tls = None,
            cluster_data_broker_service_url = None, cluster_data_broker_service_url_tls = None,
            cluster_data_proxy_service_url = None, cluster_data_authentication_plugin = None,
            cluster_data_authentication_parameters = None, cluster_data_proxy_protocol = None,
            cluster_data_peer_cluster_names = None, cluster_data_broker_client_tls_enabled = None,
            cluster_data_tls_allow_insecure_connection = None,
            cluster_data_broker_client_trust_certs_file_path = None,
            cluster_data_broker_client_key_file_path = None,
            cluster_data_broker_client_certificate_file_path = None, cluster_data_listener_name = None\<rparr>"

lemma cluster_data_names_distinct: "distinct cluster_data_names"
  by code_simp

interpretation cluster_data_codec: json_body cluster_data_json cluster_data_of_json "\<lambda>_. True"
proof (rule json_bodyI)
  show "cluster_data_of_json (cluster_data_json x) = Some x" for x :: cluster_data
    unfolding cluster_data_of_json_def cluster_data_json_def
    by (subst entries_of_obj [OF cluster_data_names_distinct]) (simp_all add: cluster_data_names_def)
  show "\<not> has_null (cluster_data_json x)" for x :: cluster_data
    unfolding cluster_data_json_def by simp
qed

record cluster_url =
  cluster_url_service_url :: "string option"
  cluster_url_service_url_tls :: "string option"
  cluster_url_broker_service_url :: "string option"
  cluster_url_broker_service_url_tls :: "string option"

definition cluster_url_names :: "string list" where
  "cluster_url_names = [''serviceUrl'', ''serviceUrlTls'', ''brokerServiceUrl'', ''brokerServiceUrlTls'']"

definition cluster_url_json :: "cluster_url \<Rightarrow> json" where
  "cluster_url_json x = obj [
     (''serviceUrl'', if_some str_json (cluster_url_service_url x)),
     (''serviceUrlTls'', if_some str_json (cluster_url_service_url_tls x)),
     (''brokerServiceUrl'', if_some str_json (cluster_url_broker_service_url x)),
     (''brokerServiceUrlTls'', if_some str_json (cluster_url_broker_service_url_tls x))]"

definition cluster_url_of_json :: "json \<Rightarrow> cluster_url option" where
  "cluster_url_of_json j =
     (case entries_named cluster_url_names j of
        Some [v1, v2, v3, v4] \<Rightarrow> do {
          x1 \<leftarrow> optional str_of_json v1;
          x2 \<leftarrow> optional str_of_json v2;
          x3 \<leftarrow> optional str_of_json v3;
          x4 \<leftarrow> optional str_of_json v4;
          Some \<lparr>cluster_url_service_url = x1, cluster_url_service_url_tls = x2,
            cluster_url_broker_service_url = x3, cluster_url_broker_service_url_tls = x4\<rparr>}
      | _ \<Rightarrow> None)"

lemma cluster_url_names_distinct: "distinct cluster_url_names"
  by code_simp

interpretation cluster_url_codec: json_body cluster_url_json cluster_url_of_json "\<lambda>_. True"
proof (rule json_bodyI)
  show "cluster_url_of_json (cluster_url_json x) = Some x" for x :: cluster_url
    unfolding cluster_url_of_json_def cluster_url_json_def
    by (subst entries_of_obj [OF cluster_url_names_distinct]) (simp_all add: cluster_url_names_def)
  show "\<not> has_null (cluster_url_json x)" for x :: cluster_url
    unfolding cluster_url_json_def by simp
qed

record cluster_policies =
  cluster_policies_migrated :: "bool"
  cluster_policies_migrated_cluster_url :: "cluster_url option"

definition cluster_policies_names :: "string list" where
  "cluster_policies_names = [''migrated'', ''migratedClusterUrl'']"

definition cluster_policies_json :: "cluster_policies \<Rightarrow> json" where
  "cluster_policies_json x = obj [
     (''migrated'', Some (JBool (cluster_policies_migrated x))),
     (''migratedClusterUrl'', if_some cluster_url_json (cluster_policies_migrated_cluster_url x))]"

definition cluster_policies_of_json :: "json \<Rightarrow> cluster_policies option" where
  "cluster_policies_of_json j =
     (case entries_named cluster_policies_names j of
        Some [v1, v2] \<Rightarrow> do {
          x1 \<leftarrow> defaulted False bool_of_json v1;
          x2 \<leftarrow> optional cluster_url_of_json v2;
          Some \<lparr>cluster_policies_migrated = x1, cluster_policies_migrated_cluster_url = x2\<rparr>}
      | _ \<Rightarrow> None)"

lemma cluster_policies_names_distinct: "distinct cluster_policies_names"
  by code_simp

interpretation cluster_policies_codec: json_body cluster_policies_json cluster_policies_of_json "\<lambda>_. True"
proof (rule json_bodyI)
  show "cluster_policies_of_json (cluster_policies_json x) = Some x" for x :: cluster_policies
    unfolding cluster_policies_of_json_def cluster_policies_json_def
    by (subst entries_of_obj [OF cluster_policies_names_distinct]) (simp_all add: cluster_policies_names_def)
  show "\<not> has_null (cluster_policies_json x)" for x :: cluster_policies
    unfolding cluster_policies_json_def by simp
qed

record tenant_info =
  tenant_info_admin_roles :: "string list"
  tenant_info_allowed_clusters :: "string list"

definition tenant_info_names :: "string list" where
  "tenant_info_names = [''adminRoles'', ''allowedClusters'']"

definition tenant_info_json :: "tenant_info \<Rightarrow> json" where
  "tenant_info_json x = obj [
     (''adminRoles'', Some (set_json str_json (tenant_info_admin_roles x))),
     (''allowedClusters'', Some (set_json str_json (tenant_info_allowed_clusters x)))]"

definition tenant_info_of_json :: "json \<Rightarrow> tenant_info option" where
  "tenant_info_of_json j =
     (case entries_named tenant_info_names j of
        Some [v1, v2] \<Rightarrow> do {
          x1 \<leftarrow> defaulted [] (set_of_json str_of_json) v1;
          x2 \<leftarrow> defaulted [] (set_of_json str_of_json) v2;
          Some \<lparr>tenant_info_admin_roles = x1, tenant_info_allowed_clusters = x2\<rparr>}
      | _ \<Rightarrow> None)"

definition tenant_info_good :: "tenant_info \<Rightarrow> bool" where
  "tenant_info_good x \<longleftrightarrow> elements_good (\<lambda>_. True) (tenant_info_admin_roles x)
     \<and> elements_good (\<lambda>_. True) (tenant_info_allowed_clusters x)"

lemma tenant_info_names_distinct: "distinct tenant_info_names"
  by code_simp

interpretation tenant_info_codec: json_body tenant_info_json tenant_info_of_json tenant_info_good
proof (rule json_bodyI)
  show "tenant_info_of_json (tenant_info_json x) = Some x" if "tenant_info_good x" for x :: tenant_info
    using that unfolding tenant_info_of_json_def tenant_info_json_def tenant_info_good_def
    by (subst entries_of_obj [OF tenant_info_names_distinct]) (simp_all add: tenant_info_names_def)
  show "\<not> has_null (tenant_info_json x)" if "tenant_info_good x" for x :: tenant_info
    using that unfolding tenant_info_json_def tenant_info_good_def by simp
qed

record failure_domain =
  failure_domain_brokers :: "string list"

definition failure_domain_names :: "string list" where
  "failure_domain_names = [''brokers'']"

definition failure_domain_json :: "failure_domain \<Rightarrow> json" where
  "failure_domain_json x = obj [
     (''brokers'', Some (set_json str_json (failure_domain_brokers x)))]"

definition failure_domain_of_json :: "json \<Rightarrow> failure_domain option" where
  "failure_domain_of_json j =
     (case entries_named failure_domain_names j of
        Some [v1] \<Rightarrow> do {
          x1 \<leftarrow> defaulted [] (set_of_json str_of_json) v1;
          Some \<lparr>failure_domain_brokers = x1\<rparr>}
      | _ \<Rightarrow> None)"

definition failure_domain_default :: failure_domain where
  "failure_domain_default = \<lparr>failure_domain_brokers = []\<rparr>"

definition failure_domain_good :: "failure_domain \<Rightarrow> bool" where
  "failure_domain_good x \<longleftrightarrow> elements_good (\<lambda>_. True) (failure_domain_brokers x)"

lemma failure_domain_names_distinct: "distinct failure_domain_names"
  by code_simp

interpretation failure_domain_codec: json_body failure_domain_json failure_domain_of_json failure_domain_good
proof (rule json_bodyI)
  show "failure_domain_of_json (failure_domain_json x) = Some x" if "failure_domain_good x" for x :: failure_domain
    using that unfolding failure_domain_of_json_def failure_domain_json_def failure_domain_good_def
    by (subst entries_of_obj [OF failure_domain_names_distinct]) (simp_all add: failure_domain_names_def)
  show "\<not> has_null (failure_domain_json x)" if "failure_domain_good x" for x :: failure_domain
    using that unfolding failure_domain_json_def failure_domain_good_def by simp
qed

record broker_info =
  broker_info_broker_id :: "string option"
  broker_info_service_url :: "string option"

definition broker_info_names :: "string list" where
  "broker_info_names = [''brokerId'', ''serviceUrl'']"

definition broker_info_json :: "broker_info \<Rightarrow> json" where
  "broker_info_json x = obj [
     (''brokerId'', if_some str_json (broker_info_broker_id x)),
     (''serviceUrl'', if_some str_json (broker_info_service_url x))]"

definition broker_info_of_json :: "json \<Rightarrow> broker_info option" where
  "broker_info_of_json j =
     (case entries_named broker_info_names j of
        Some [v1, v2] \<Rightarrow> do {
          x1 \<leftarrow> optional str_of_json v1;
          x2 \<leftarrow> optional str_of_json v2;
          Some \<lparr>broker_info_broker_id = x1, broker_info_service_url = x2\<rparr>}
      | _ \<Rightarrow> None)"

lemma broker_info_names_distinct: "distinct broker_info_names"
  by code_simp

interpretation broker_info_codec: json_body broker_info_json broker_info_of_json "\<lambda>_. True"
proof (rule json_bodyI)
  show "broker_info_of_json (broker_info_json x) = Some x" for x :: broker_info
    unfolding broker_info_of_json_def broker_info_json_def
    by (subst entries_of_obj [OF broker_info_names_distinct]) (simp_all add: broker_info_names_def)
  show "\<not> has_null (broker_info_json x)" for x :: broker_info
    unfolding broker_info_json_def by simp
qed

record bookie_info =
  bookie_info_rack :: "string option"
  bookie_info_hostname :: "string option"

definition bookie_info_names :: "string list" where
  "bookie_info_names = [''rack'', ''hostname'']"

definition bookie_info_json :: "bookie_info \<Rightarrow> json" where
  "bookie_info_json x = obj [
     (''rack'', if_some str_json (bookie_info_rack x)),
     (''hostname'', if_some str_json (bookie_info_hostname x))]"

definition bookie_info_of_json :: "json \<Rightarrow> bookie_info option" where
  "bookie_info_of_json j =
     (case entries_named bookie_info_names j of
        Some [v1, v2] \<Rightarrow> do {
          x1 \<leftarrow> optional str_of_json v1;
          x2 \<leftarrow> optional str_of_json v2;
          Some \<lparr>bookie_info_rack = x1, bookie_info_hostname = x2\<rparr>}
      | _ \<Rightarrow> None)"

lemma bookie_info_names_distinct: "distinct bookie_info_names"
  by code_simp

interpretation bookie_info_codec: json_body bookie_info_json bookie_info_of_json "\<lambda>_. True"
proof (rule json_bodyI)
  show "bookie_info_of_json (bookie_info_json x) = Some x" for x :: bookie_info
    unfolding bookie_info_of_json_def bookie_info_json_def
    by (subst entries_of_obj [OF bookie_info_names_distinct]) (simp_all add: bookie_info_names_def)
  show "\<not> has_null (bookie_info_json x)" for x :: bookie_info
    unfolding bookie_info_json_def by simp
qed

record raw_bookie_info =
  raw_bookie_info_address :: "string option"
  raw_bookie_info_rack :: "string option"
  raw_bookie_info_hostname :: "string option"

definition raw_bookie_info_names :: "string list" where
  "raw_bookie_info_names = [''address'', ''rack'', ''hostname'']"

definition raw_bookie_info_json :: "raw_bookie_info \<Rightarrow> json" where
  "raw_bookie_info_json x = obj [
     (''address'', if_some str_json (raw_bookie_info_address x)),
     (''rack'', if_some str_json (raw_bookie_info_rack x)),
     (''hostname'', if_some str_json (raw_bookie_info_hostname x))]"

definition raw_bookie_info_of_json :: "json \<Rightarrow> raw_bookie_info option" where
  "raw_bookie_info_of_json j =
     (case entries_named raw_bookie_info_names j of
        Some [v1, v2, v3] \<Rightarrow> do {
          x1 \<leftarrow> optional str_of_json v1;
          x2 \<leftarrow> optional str_of_json v2;
          x3 \<leftarrow> optional str_of_json v3;
          Some \<lparr>raw_bookie_info_address = x1, raw_bookie_info_rack = x2, raw_bookie_info_hostname = x3\<rparr>}
      | _ \<Rightarrow> None)"

lemma raw_bookie_info_names_distinct: "distinct raw_bookie_info_names"
  by code_simp

interpretation raw_bookie_info_codec: json_body raw_bookie_info_json raw_bookie_info_of_json "\<lambda>_. True"
proof (rule json_bodyI)
  show "raw_bookie_info_of_json (raw_bookie_info_json x) = Some x" for x :: raw_bookie_info
    unfolding raw_bookie_info_of_json_def raw_bookie_info_json_def
    by (subst entries_of_obj [OF raw_bookie_info_names_distinct]) (simp_all add: raw_bookie_info_names_def)
  show "\<not> has_null (raw_bookie_info_json x)" for x :: raw_bookie_info
    unfolding raw_bookie_info_json_def by simp
qed

interpretation raw_bookie_info_list_codec: json_body "list_json raw_bookie_info_json" "list_of_json raw_bookie_info_of_json" "\<lambda>_. True"
  by (rule list_body_True [OF raw_bookie_info_codec.json_body_axioms])

record bookies_cluster_info =
  bookies_cluster_info_bookies :: "raw_bookie_info list"

definition bookies_cluster_info_names :: "string list" where
  "bookies_cluster_info_names = [''bookies'']"

definition bookies_cluster_info_json :: "bookies_cluster_info \<Rightarrow> json" where
  "bookies_cluster_info_json x = obj [
     (''bookies'', Some (list_json raw_bookie_info_json (bookies_cluster_info_bookies x)))]"

definition bookies_cluster_info_of_json :: "json \<Rightarrow> bookies_cluster_info option" where
  "bookies_cluster_info_of_json j =
     (case entries_named bookies_cluster_info_names j of
        Some [v1] \<Rightarrow> do {
          x1 \<leftarrow> defaulted [] (list_of_json raw_bookie_info_of_json) v1;
          Some \<lparr>bookies_cluster_info_bookies = x1\<rparr>}
      | _ \<Rightarrow> None)"

lemma bookies_cluster_info_names_distinct: "distinct bookies_cluster_info_names"
  by code_simp

interpretation bookies_cluster_info_codec: json_body bookies_cluster_info_json bookies_cluster_info_of_json "\<lambda>_. True"
proof (rule json_bodyI)
  show "bookies_cluster_info_of_json (bookies_cluster_info_json x) = Some x" for x :: bookies_cluster_info
    unfolding bookies_cluster_info_of_json_def bookies_cluster_info_json_def
    by (subst entries_of_obj [OF bookies_cluster_info_names_distinct]) (simp_all add: bookies_cluster_info_names_def)
  show "\<not> has_null (bookies_cluster_info_json x)" for x :: bookies_cluster_info
    unfolding bookies_cluster_info_json_def by simp
qed

record resource_group =
  resource_group_publish_rate_in_msgs :: "32 word option"
  resource_group_publish_rate_in_bytes :: "64 word option"
  resource_group_dispatch_rate_in_msgs :: "32 word option"
  resource_group_dispatch_rate_in_bytes :: "64 word option"

definition resource_group_names :: "string list" where
  "resource_group_names = [''publishRateInMsgs'', ''publishRateInBytes'', ''dispatchRateInMsgs'',
     ''dispatchRateInBytes'']"

definition resource_group_json :: "resource_group \<Rightarrow> json" where
  "resource_group_json x = obj [
     (''publishRateInMsgs'', if_some sword_json (resource_group_publish_rate_in_msgs x)),
     (''publishRateInBytes'', if_some sword_json (resource_group_publish_rate_in_bytes x)),
     (''dispatchRateInMsgs'', if_some sword_json (resource_group_dispatch_rate_in_msgs x)),
     (''dispatchRateInBytes'', if_some sword_json (resource_group_dispatch_rate_in_bytes x))]"

definition resource_group_of_json :: "json \<Rightarrow> resource_group option" where
  "resource_group_of_json j =
     (case entries_named resource_group_names j of
        Some [v1, v2, v3, v4] \<Rightarrow> do {
          x1 \<leftarrow> optional sword_of_json v1;
          x2 \<leftarrow> optional sword_of_json v2;
          x3 \<leftarrow> optional sword_of_json v3;
          x4 \<leftarrow> optional sword_of_json v4;
          Some \<lparr>resource_group_publish_rate_in_msgs = x1, resource_group_publish_rate_in_bytes = x2,
            resource_group_dispatch_rate_in_msgs = x3, resource_group_dispatch_rate_in_bytes = x4\<rparr>}
      | _ \<Rightarrow> None)"

lemma resource_group_names_distinct: "distinct resource_group_names"
  by code_simp

interpretation resource_group_codec: json_body resource_group_json resource_group_of_json "\<lambda>_. True"
proof (rule json_bodyI)
  show "resource_group_of_json (resource_group_json x) = Some x" for x :: resource_group
    unfolding resource_group_of_json_def resource_group_json_def
    by (subst entries_of_obj [OF resource_group_names_distinct]) (simp_all add: resource_group_names_def)
  show "\<not> has_null (resource_group_json x)" for x :: resource_group
    unfolding resource_group_json_def by simp
qed

record resource_quota =
  resource_quota_msg_rate_in :: "f64"
  resource_quota_msg_rate_out :: "f64"
  resource_quota_bandwidth_in :: "f64"
  resource_quota_bandwidth_out :: "f64"
  resource_quota_memory :: "f64"
  resource_quota_dynamic :: "bool"

definition resource_quota_names :: "string list" where
  "resource_quota_names = [''msgRateIn'', ''msgRateOut'', ''bandwidthIn'', ''bandwidthOut'', ''memory'', ''dynamic'']"

definition resource_quota_json :: "resource_quota \<Rightarrow> json" where
  "resource_quota_json x = obj [
     (''msgRateIn'', Some (f64_json (resource_quota_msg_rate_in x))),
     (''msgRateOut'', Some (f64_json (resource_quota_msg_rate_out x))),
     (''bandwidthIn'', Some (f64_json (resource_quota_bandwidth_in x))),
     (''bandwidthOut'', Some (f64_json (resource_quota_bandwidth_out x))),
     (''memory'', Some (f64_json (resource_quota_memory x))),
     (''dynamic'', Some (JBool (resource_quota_dynamic x)))]"

definition resource_quota_of_json :: "json \<Rightarrow> resource_quota option" where
  "resource_quota_of_json j =
     (case entries_named resource_quota_names j of
        Some [v1, v2, v3, v4, v5, v6] \<Rightarrow> do {
          x1 \<leftarrow> defaulted (F64 0) f64_of_json v1;
          x2 \<leftarrow> defaulted (F64 0) f64_of_json v2;
          x3 \<leftarrow> defaulted (F64 0) f64_of_json v3;
          x4 \<leftarrow> defaulted (F64 0) f64_of_json v4;
          x5 \<leftarrow> defaulted (F64 0) f64_of_json v5;
          x6 \<leftarrow> defaulted False bool_of_json v6;
          Some \<lparr>resource_quota_msg_rate_in = x1, resource_quota_msg_rate_out = x2,
            resource_quota_bandwidth_in = x3, resource_quota_bandwidth_out = x4,
            resource_quota_memory = x5, resource_quota_dynamic = x6\<rparr>}
      | _ \<Rightarrow> None)"

definition resource_quota_default :: resource_quota where
  "resource_quota_default = \<lparr>resource_quota_msg_rate_in = F64 0, resource_quota_msg_rate_out = F64 0,
            resource_quota_bandwidth_in = F64 0, resource_quota_bandwidth_out = F64 0,
            resource_quota_memory = F64 0, resource_quota_dynamic = False\<rparr>"

definition resource_quota_good :: "resource_quota \<Rightarrow> bool" where
  "resource_quota_good x \<longleftrightarrow> is_finite (resource_quota_msg_rate_in x)
     \<and> is_finite (resource_quota_msg_rate_out x)
     \<and> is_finite (resource_quota_bandwidth_in x)
     \<and> is_finite (resource_quota_bandwidth_out x)
     \<and> is_finite (resource_quota_memory x)"

lemma resource_quota_names_distinct: "distinct resource_quota_names"
  by code_simp

interpretation resource_quota_codec: json_body resource_quota_json resource_quota_of_json resource_quota_good
proof (rule json_bodyI)
  show "resource_quota_of_json (resource_quota_json x) = Some x" if "resource_quota_good x" for x :: resource_quota
    using that unfolding resource_quota_of_json_def resource_quota_json_def resource_quota_good_def
    by (subst entries_of_obj [OF resource_quota_names_distinct]) (simp_all add: resource_quota_names_def)
  show "\<not> has_null (resource_quota_json x)" if "resource_quota_good x" for x :: resource_quota
    using that unfolding resource_quota_json_def resource_quota_good_def by simp
qed

record auto_failover_policy_data =
  auto_failover_policy_data_policy_type :: "string option"
  auto_failover_policy_data_parameters :: "(string \<times> string) list"

definition auto_failover_policy_data_names :: "string list" where
  "auto_failover_policy_data_names = [''policy_type'', ''parameters'']"

definition auto_failover_policy_data_json :: "auto_failover_policy_data \<Rightarrow> json" where
  "auto_failover_policy_data_json x = obj [
     (''policy_type'', if_some str_json (auto_failover_policy_data_policy_type x)),
     (''parameters'', Some (map_json str_json (auto_failover_policy_data_parameters x)))]"

definition auto_failover_policy_data_of_json :: "json \<Rightarrow> auto_failover_policy_data option" where
  "auto_failover_policy_data_of_json j =
     (case entries_named auto_failover_policy_data_names j of
        Some [v1, v2] \<Rightarrow> do {
          x1 \<leftarrow> optional str_of_json v1;
          x2 \<leftarrow> defaulted [] (map_of_json str_of_json) v2;
          Some \<lparr>auto_failover_policy_data_policy_type = x1, auto_failover_policy_data_parameters = x2\<rparr>}
      | _ \<Rightarrow> None)"

definition auto_failover_policy_data_good :: "auto_failover_policy_data \<Rightarrow> bool" where
  "auto_failover_policy_data_good x \<longleftrightarrow> entries_good (\<lambda>_. True) (auto_failover_policy_data_parameters x)"

lemma auto_failover_policy_data_names_distinct: "distinct auto_failover_policy_data_names"
  by code_simp

interpretation auto_failover_policy_data_codec: json_body auto_failover_policy_data_json auto_failover_policy_data_of_json auto_failover_policy_data_good
proof (rule json_bodyI)
  show "auto_failover_policy_data_of_json (auto_failover_policy_data_json x) = Some x" if "auto_failover_policy_data_good x" for x :: auto_failover_policy_data
    using that unfolding auto_failover_policy_data_of_json_def auto_failover_policy_data_json_def auto_failover_policy_data_good_def
    by (subst entries_of_obj [OF auto_failover_policy_data_names_distinct]) (simp_all add: auto_failover_policy_data_names_def)
  show "\<not> has_null (auto_failover_policy_data_json x)" if "auto_failover_policy_data_good x" for x :: auto_failover_policy_data
    using that unfolding auto_failover_policy_data_json_def auto_failover_policy_data_good_def by simp
qed

record namespace_isolation_data =
  namespace_isolation_data_namespaces :: "string list"
  namespace_isolation_data_primary :: "string list"
  namespace_isolation_data_secondary :: "string list"
  namespace_isolation_data_auto_failover_policy :: "auto_failover_policy_data option"
  namespace_isolation_data_unload_scope :: "string option"

definition namespace_isolation_data_names :: "string list" where
  "namespace_isolation_data_names = [''namespaces'', ''primary'', ''secondary'', ''auto_failover_policy'', ''unload_scope'']"

definition namespace_isolation_data_json :: "namespace_isolation_data \<Rightarrow> json" where
  "namespace_isolation_data_json x = obj [
     (''namespaces'', Some (list_json str_json (namespace_isolation_data_namespaces x))),
     (''primary'', Some (list_json str_json (namespace_isolation_data_primary x))),
     (''secondary'', Some (list_json str_json (namespace_isolation_data_secondary x))),
     (''auto_failover_policy'', if_some auto_failover_policy_data_json (namespace_isolation_data_auto_failover_policy x)),
     (''unload_scope'', if_some str_json (namespace_isolation_data_unload_scope x))]"

definition namespace_isolation_data_of_json :: "json \<Rightarrow> namespace_isolation_data option" where
  "namespace_isolation_data_of_json j =
     (case entries_named namespace_isolation_data_names j of
        Some [v1, v2, v3, v4, v5] \<Rightarrow> do {
          x1 \<leftarrow> defaulted [] (list_of_json str_of_json) v1;
          x2 \<leftarrow> defaulted [] (list_of_json str_of_json) v2;
          x3 \<leftarrow> defaulted [] (list_of_json str_of_json) v3;
          x4 \<leftarrow> optional auto_failover_policy_data_of_json v4;
          x5 \<leftarrow> optional str_of_json v5;
          Some \<lparr>namespace_isolation_data_namespaces = x1, namespace_isolation_data_primary = x2,
            namespace_isolation_data_secondary = x3,
            namespace_isolation_data_auto_failover_policy = x4,
            namespace_isolation_data_unload_scope = x5\<rparr>}
      | _ \<Rightarrow> None)"

definition namespace_isolation_data_default :: namespace_isolation_data where
  "namespace_isolation_data_default = \<lparr>namespace_isolation_data_namespaces = [], namespace_isolation_data_primary = [],
            namespace_isolation_data_secondary = [],
            namespace_isolation_data_auto_failover_policy = None,
            namespace_isolation_data_unload_scope = None\<rparr>"

definition namespace_isolation_data_good :: "namespace_isolation_data \<Rightarrow> bool" where
  "namespace_isolation_data_good x \<longleftrightarrow> pred_option auto_failover_policy_data_good (namespace_isolation_data_auto_failover_policy x)"

lemma namespace_isolation_data_names_distinct: "distinct namespace_isolation_data_names"
  by code_simp

interpretation namespace_isolation_data_codec: json_body namespace_isolation_data_json namespace_isolation_data_of_json namespace_isolation_data_good
proof (rule json_bodyI)
  show "namespace_isolation_data_of_json (namespace_isolation_data_json x) = Some x" if "namespace_isolation_data_good x" for x :: namespace_isolation_data
    using that unfolding namespace_isolation_data_of_json_def namespace_isolation_data_json_def namespace_isolation_data_good_def
    by (subst entries_of_obj [OF namespace_isolation_data_names_distinct]) (simp_all add: namespace_isolation_data_names_def)
  show "\<not> has_null (namespace_isolation_data_json x)" if "namespace_isolation_data_good x" for x :: namespace_isolation_data
    using that unfolding namespace_isolation_data_json_def namespace_isolation_data_good_def by simp
qed

record broker_namespace_isolation_data =
  broker_namespace_isolation_data_broker_name :: "string option"
  broker_namespace_isolation_data_policy_name :: "string option"
  broker_namespace_isolation_data_is_primary :: "bool"
  broker_namespace_isolation_data_namespace_regex :: "string list"

definition broker_namespace_isolation_data_names :: "string list" where
  "broker_namespace_isolation_data_names = [''brokerName'', ''policyName'', ''isPrimary'', ''namespaceRegex'']"

definition broker_namespace_isolation_data_json :: "broker_namespace_isolation_data \<Rightarrow> json" where
  "broker_namespace_isolation_data_json x = obj [
     (''brokerName'', if_some str_json (broker_namespace_isolation_data_broker_name x)),
     (''policyName'', or_null str_json (broker_namespace_isolation_data_policy_name x)),
     (''isPrimary'', Some (JBool (broker_namespace_isolation_data_is_primary x))),
     (''namespaceRegex'', Some (list_json str_json (broker_namespace_isolation_data_namespace_regex x)))]"

definition broker_namespace_isolation_data_of_json :: "json \<Rightarrow> broker_namespace_isolation_data option" where
  "broker_namespace_isolation_data_of_json j =
     (case entries_named broker_namespace_isolation_data_names j of
        Some [v1, v2, v3, v4] \<Rightarrow> do {
          x1 \<leftarrow> optional str_of_json v1;
          x2 \<leftarrow> optional str_of_json v2;
          x3 \<leftarrow> defaulted False bool_of_json v3;
          x4 \<leftarrow> defaulted [] (list_of_json str_of_json) v4;
          Some \<lparr>broker_namespace_isolation_data_broker_name = x1,
            broker_namespace_isolation_data_policy_name = x2,
            broker_namespace_isolation_data_is_primary = x3,
            broker_namespace_isolation_data_namespace_regex = x4\<rparr>}
      | _ \<Rightarrow> None)"

lemma broker_namespace_isolation_data_names_distinct: "distinct broker_namespace_isolation_data_names"
  by code_simp

interpretation broker_namespace_isolation_data_codec: json_value broker_namespace_isolation_data_json broker_namespace_isolation_data_of_json "\<lambda>_. True"
proof (rule json_valueI)
  show "broker_namespace_isolation_data_of_json (broker_namespace_isolation_data_json x) = Some x" for x :: broker_namespace_isolation_data
    unfolding broker_namespace_isolation_data_of_json_def broker_namespace_isolation_data_json_def
    by (subst entries_of_obj [OF broker_namespace_isolation_data_names_distinct]) (simp_all add: broker_namespace_isolation_data_names_def)
  show "broker_namespace_isolation_data_json x \<noteq> JNull" for x
    by (simp add: broker_namespace_isolation_data_json_def)
qed

record retention_policies =
  retention_policies_retention_time_in_minutes :: "32 word"
  retention_policies_retention_size_in_mb :: "64 word"

definition retention_policies_names :: "string list" where
  "retention_policies_names = [''retentionTimeInMinutes'', ''retentionSizeInMB'']"

definition retention_policies_json :: "retention_policies \<Rightarrow> json" where
  "retention_policies_json x = obj [
     (''retentionTimeInMinutes'', Some (sword_json (retention_policies_retention_time_in_minutes x))),
     (''retentionSizeInMB'', Some (sword_json (retention_policies_retention_size_in_mb x)))]"

definition retention_policies_of_json :: "json \<Rightarrow> retention_policies option" where
  "retention_policies_of_json j =
     (case entries_named retention_policies_names j of
        Some [v1, v2] \<Rightarrow> do {
          x1 \<leftarrow> needed sword_of_json v1;
          x2 \<leftarrow> needed sword_of_json v2;
          Some \<lparr>retention_policies_retention_time_in_minutes = x1,
            retention_policies_retention_size_in_mb = x2\<rparr>}
      | _ \<Rightarrow> None)"

lemma retention_policies_names_distinct: "distinct retention_policies_names"
  by code_simp

interpretation retention_policies_codec: json_body retention_policies_json retention_policies_of_json "\<lambda>_. True"
proof (rule json_bodyI)
  show "retention_policies_of_json (retention_policies_json x) = Some x" for x :: retention_policies
    unfolding retention_policies_of_json_def retention_policies_json_def
    by (subst entries_of_obj [OF retention_policies_names_distinct]) (simp_all add: retention_policies_names_def)
  show "\<not> has_null (retention_policies_json x)" for x :: retention_policies
    unfolding retention_policies_json_def by simp
qed

record persistence_policies =
  persistence_policies_bookkeeper_ensemble :: "32 word"
  persistence_policies_bookkeeper_write_quorum :: "32 word"
  persistence_policies_bookkeeper_ack_quorum :: "32 word"
  persistence_policies_managed_ledger_max_mark_delete_rate :: "f64"

definition persistence_policies_names :: "string list" where
  "persistence_policies_names = [''bookkeeperEnsemble'', ''bookkeeperWriteQuorum'', ''bookkeeperAckQuorum'',
     ''managedLedgerMaxMarkDeleteRate'']"

definition persistence_policies_json :: "persistence_policies \<Rightarrow> json" where
  "persistence_policies_json x = obj [
     (''bookkeeperEnsemble'', Some (sword_json (persistence_policies_bookkeeper_ensemble x))),
     (''bookkeeperWriteQuorum'', Some (sword_json (persistence_policies_bookkeeper_write_quorum x))),
     (''bookkeeperAckQuorum'', Some (sword_json (persistence_policies_bookkeeper_ack_quorum x))),
     (''managedLedgerMaxMarkDeleteRate'', Some (f64_json (persistence_policies_managed_ledger_max_mark_delete_rate x)))]"

definition persistence_policies_of_json :: "json \<Rightarrow> persistence_policies option" where
  "persistence_policies_of_json j =
     (case entries_named persistence_policies_names j of
        Some [v1, v2, v3, v4] \<Rightarrow> do {
          x1 \<leftarrow> needed sword_of_json v1;
          x2 \<leftarrow> needed sword_of_json v2;
          x3 \<leftarrow> needed sword_of_json v3;
          x4 \<leftarrow> needed f64_of_json v4;
          Some \<lparr>persistence_policies_bookkeeper_ensemble = x1,
            persistence_policies_bookkeeper_write_quorum = x2,
            persistence_policies_bookkeeper_ack_quorum = x3,
            persistence_policies_managed_ledger_max_mark_delete_rate = x4\<rparr>}
      | _ \<Rightarrow> None)"

definition persistence_policies_default :: persistence_policies where
  "persistence_policies_default = \<lparr>persistence_policies_bookkeeper_ensemble = 0,
            persistence_policies_bookkeeper_write_quorum = 0,
            persistence_policies_bookkeeper_ack_quorum = 0,
            persistence_policies_managed_ledger_max_mark_delete_rate = F64 0\<rparr>"

definition persistence_policies_good :: "persistence_policies \<Rightarrow> bool" where
  "persistence_policies_good x \<longleftrightarrow> is_finite (persistence_policies_managed_ledger_max_mark_delete_rate x)"

lemma persistence_policies_names_distinct: "distinct persistence_policies_names"
  by code_simp

interpretation persistence_policies_codec: json_body persistence_policies_json persistence_policies_of_json persistence_policies_good
proof (rule json_bodyI)
  show "persistence_policies_of_json (persistence_policies_json x) = Some x" if "persistence_policies_good x" for x :: persistence_policies
    using that unfolding persistence_policies_of_json_def persistence_policies_json_def persistence_policies_good_def
    by (subst entries_of_obj [OF persistence_policies_names_distinct]) (simp_all add: persistence_policies_names_def)
  show "\<not> has_null (persistence_policies_json x)" if "persistence_policies_good x" for x :: persistence_policies
    using that unfolding persistence_policies_json_def persistence_policies_good_def by simp
qed

record dispatch_rate =
  dispatch_rate_dispatch_throttling_rate_in_msg :: "32 word"
  dispatch_rate_dispatch_throttling_rate_in_byte :: "64 word"
  dispatch_rate_relative_to_publish_rate :: "bool"
  dispatch_rate_rate_period_in_second :: "32 word"

definition dispatch_rate_names :: "string list" where
  "dispatch_rate_names = [''dispatchThrottlingRateInMsg'', ''dispatchThrottlingRateInByte'',
     ''relativeToPublishRate'', ''ratePeriodInSecond'']"

definition dispatch_rate_json :: "dispatch_rate \<Rightarrow> json" where
  "dispatch_rate_json x = obj [
     (''dispatchThrottlingRateInMsg'', Some (sword_json (dispatch_rate_dispatch_throttling_rate_in_msg x))),
     (''dispatchThrottlingRateInByte'', Some (sword_json (dispatch_rate_dispatch_throttling_rate_in_byte x))),
     (''relativeToPublishRate'', Some (JBool (dispatch_rate_relative_to_publish_rate x))),
     (''ratePeriodInSecond'', Some (sword_json (dispatch_rate_rate_period_in_second x)))]"

definition dispatch_rate_of_json :: "json \<Rightarrow> dispatch_rate option" where
  "dispatch_rate_of_json j =
     (case entries_named dispatch_rate_names j of
        Some [v1, v2, v3, v4] \<Rightarrow> do {
          x1 \<leftarrow> needed sword_of_json v1;
          x2 \<leftarrow> needed sword_of_json v2;
          x3 \<leftarrow> defaulted False bool_of_json v3;
          x4 \<leftarrow> needed sword_of_json v4;
          Some \<lparr>dispatch_rate_dispatch_throttling_rate_in_msg = x1,
            dispatch_rate_dispatch_throttling_rate_in_byte = x2,
            dispatch_rate_relative_to_publish_rate = x3, dispatch_rate_rate_period_in_second = x4\<rparr>}
      | _ \<Rightarrow> None)"

lemma dispatch_rate_names_distinct: "distinct dispatch_rate_names"
  by code_simp

interpretation dispatch_rate_codec: json_body dispatch_rate_json dispatch_rate_of_json "\<lambda>_. True"
proof (rule json_bodyI)
  show "dispatch_rate_of_json (dispatch_rate_json x) = Some x" for x :: dispatch_rate
    unfolding dispatch_rate_of_json_def dispatch_rate_json_def
    by (subst entries_of_obj [OF dispatch_rate_names_distinct]) (simp_all add: dispatch_rate_names_def)
  show "\<not> has_null (dispatch_rate_json x)" for x :: dispatch_rate
    unfolding dispatch_rate_json_def by simp
qed

record publish_rate =
  publish_rate_publish_throttling_rate_in_msg :: "32 word"
  publish_rate_publish_throttling_rate_in_byte :: "64 word"

definition publish_rate_names :: "string list" where
  "publish_rate_names = [''publishThrottlingRateInMsg'', ''publishThrottlingRateInByte'']"

definition publish_rate_json :: "publish_rate \<Rightarrow> json" where
  "publish_rate_json x = obj [
     (''publishThrottlingRateInMsg'', Some (sword_json (publish_rate_publish_throttling_rate_in_msg x))),
     (''publishThrottlingRateInByte'', Some (sword_json (publish_rate_publish_throttling_rate_in_byte x)))]"

definition publish_rate_of_json :: "json \<Rightarrow> publish_rate option" where
  "publish_rate_of_json j =
     (case entries_named publish_rate_names j of
        Some [v1, v2] \<Rightarrow> do {
          x1 \<leftarrow> needed sword_of_json v1;
          x2 \<leftarrow> needed sword_of_json v2;
          Some \<lparr>publish_rate_publish_throttling_rate_in_msg = x1,
            publish_rate_publish_throttling_rate_in_byte = x2\<rparr>}
      | _ \<Rightarrow> None)"

lemma publish_rate_names_distinct: "distinct publish_rate_names"
  by code_simp

interpretation publish_rate_codec: json_body publish_rate_json publish_rate_of_json "\<lambda>_. True"
proof (rule json_bodyI)
  show "publish_rate_of_json (publish_rate_json x) = Some x" for x :: publish_rate
    unfolding publish_rate_of_json_def publish_rate_json_def
    by (subst entries_of_obj [OF publish_rate_names_distinct]) (simp_all add: publish_rate_names_def)
  show "\<not> has_null (publish_rate_json x)" for x :: publish_rate
    unfolding publish_rate_json_def by simp
qed

record subscribe_rate =
  subscribe_rate_subscribe_throttling_rate_per_consumer :: "32 word"
  subscribe_rate_rate_period_in_second :: "32 word"

definition subscribe_rate_names :: "string list" where
  "subscribe_rate_names = [''subscribeThrottlingRatePerConsumer'', ''ratePeriodInSecond'']"

definition subscribe_rate_json :: "subscribe_rate \<Rightarrow> json" where
  "subscribe_rate_json x = obj [
     (''subscribeThrottlingRatePerConsumer'', Some (sword_json (subscribe_rate_subscribe_throttling_rate_per_consumer x))),
     (''ratePeriodInSecond'', Some (sword_json (subscribe_rate_rate_period_in_second x)))]"

definition subscribe_rate_of_json :: "json \<Rightarrow> subscribe_rate option" where
  "subscribe_rate_of_json j =
     (case entries_named subscribe_rate_names j of
        Some [v1, v2] \<Rightarrow> do {
          x1 \<leftarrow> needed sword_of_json v1;
          x2 \<leftarrow> needed sword_of_json v2;
          Some \<lparr>subscribe_rate_subscribe_throttling_rate_per_consumer = x1,
            subscribe_rate_rate_period_in_second = x2\<rparr>}
      | _ \<Rightarrow> None)"

lemma subscribe_rate_names_distinct: "distinct subscribe_rate_names"
  by code_simp

interpretation subscribe_rate_codec: json_body subscribe_rate_json subscribe_rate_of_json "\<lambda>_. True"
proof (rule json_bodyI)
  show "subscribe_rate_of_json (subscribe_rate_json x) = Some x" for x :: subscribe_rate
    unfolding subscribe_rate_of_json_def subscribe_rate_json_def
    by (subst entries_of_obj [OF subscribe_rate_names_distinct]) (simp_all add: subscribe_rate_names_def)
  show "\<not> has_null (subscribe_rate_json x)" for x :: subscribe_rate
    unfolding subscribe_rate_json_def by simp
qed

record inactive_topic_policies =
  inactive_topic_policies_inactive_topic_delete_mode :: "string option"
  inactive_topic_policies_max_inactive_duration_seconds :: "32 word"
  inactive_topic_policies_delete_while_inactive :: "bool"

definition inactive_topic_policies_names :: "string list" where
  "inactive_topic_policies_names = [''inactiveTopicDeleteMode'', ''maxInactiveDurationSeconds'', ''deleteWhileInactive'']"

definition inactive_topic_policies_json :: "inactive_topic_policies \<Rightarrow> json" where
  "inactive_topic_policies_json x = obj [
     (''inactiveTopicDeleteMode'', if_some str_json (inactive_topic_policies_inactive_topic_delete_mode x)),
     (''maxInactiveDurationSeconds'', Some (sword_json (inactive_topic_policies_max_inactive_duration_seconds x))),
     (''deleteWhileInactive'', Some (JBool (inactive_topic_policies_delete_while_inactive x)))]"

definition inactive_topic_policies_of_json :: "json \<Rightarrow> inactive_topic_policies option" where
  "inactive_topic_policies_of_json j =
     (case entries_named inactive_topic_policies_names j of
        Some [v1, v2, v3] \<Rightarrow> do {
          x1 \<leftarrow> optional str_of_json v1;
          x2 \<leftarrow> needed sword_of_json v2;
          x3 \<leftarrow> needed bool_of_json v3;
          Some \<lparr>inactive_topic_policies_inactive_topic_delete_mode = x1,
            inactive_topic_policies_max_inactive_duration_seconds = x2,
            inactive_topic_policies_delete_while_inactive = x3\<rparr>}
      | _ \<Rightarrow> None)"

lemma inactive_topic_policies_names_distinct: "distinct inactive_topic_policies_names"
  by code_simp

interpretation inactive_topic_policies_codec: json_body inactive_topic_policies_json inactive_topic_policies_of_json "\<lambda>_. True"
proof (rule json_bodyI)
  show "inactive_topic_policies_of_json (inactive_topic_policies_json x) = Some x" for x :: inactive_topic_policies
    unfolding inactive_topic_policies_of_json_def inactive_topic_policies_json_def
    by (subst entries_of_obj [OF inactive_topic_policies_names_distinct]) (simp_all add: inactive_topic_policies_names_def)
  show "\<not> has_null (inactive_topic_policies_json x)" for x :: inactive_topic_policies
    unfolding inactive_topic_policies_json_def by simp
qed

record delayed_delivery_policies =
  delayed_delivery_policies_active :: "bool"
  delayed_delivery_policies_tick_time :: "f64"
  delayed_delivery_policies_max_delivery_delay_in_millis :: "64 word option"

definition delayed_delivery_policies_names :: "string list" where
  "delayed_delivery_policies_names = [''active'', ''tickTime'', ''maxDeliveryDelayInMillis'']"

definition delayed_delivery_policies_json :: "delayed_delivery_policies \<Rightarrow> json" where
  "delayed_delivery_policies_json x = obj [
     (''active'', Some (JBool (delayed_delivery_policies_active x))),
     (''tickTime'', Some (f64_json (delayed_delivery_policies_tick_time x))),
     (''maxDeliveryDelayInMillis'', if_some sword_json (delayed_delivery_policies_max_delivery_delay_in_millis x))]"

definition delayed_delivery_policies_of_json :: "json \<Rightarrow> delayed_delivery_policies option" where
  "delayed_delivery_policies_of_json j =
     (case entries_named delayed_delivery_policies_names j of
        Some [v1, v2, v3] \<Rightarrow> do {
          x1 \<leftarrow> needed bool_of_json v1;
          x2 \<leftarrow> needed f64_of_json v2;
          x3 \<leftarrow> optional sword_of_json v3;
          Some \<lparr>delayed_delivery_policies_active = x1, delayed_delivery_policies_tick_time = x2,
            delayed_delivery_policies_max_delivery_delay_in_millis = x3\<rparr>}
      | _ \<Rightarrow> None)"

definition delayed_delivery_policies_default :: delayed_delivery_policies where
  "delayed_delivery_policies_default = \<lparr>delayed_delivery_policies_active = False, delayed_delivery_policies_tick_time = F64 0,
            delayed_delivery_policies_max_delivery_delay_in_millis = None\<rparr>"

definition delayed_delivery_policies_good :: "delayed_delivery_policies \<Rightarrow> bool" where
  "delayed_delivery_policies_good x \<longleftrightarrow> is_finite (delayed_delivery_policies_tick_time x)"

lemma delayed_delivery_policies_names_distinct: "distinct delayed_delivery_policies_names"
  by code_simp

interpretation delayed_delivery_policies_codec: json_body delayed_delivery_policies_json delayed_delivery_policies_of_json delayed_delivery_policies_good
proof (rule json_bodyI)
  show "delayed_delivery_policies_of_json (delayed_delivery_policies_json x) = Some x" if "delayed_delivery_policies_good x" for x :: delayed_delivery_policies
    using that unfolding delayed_delivery_policies_of_json_def delayed_delivery_policies_json_def delayed_delivery_policies_good_def
    by (subst entries_of_obj [OF delayed_delivery_policies_names_distinct]) (simp_all add: delayed_delivery_policies_names_def)
  show "\<not> has_null (delayed_delivery_policies_json x)" if "delayed_delivery_policies_good x" for x :: delayed_delivery_policies
    using that unfolding delayed_delivery_policies_json_def delayed_delivery_policies_good_def by simp
qed

record auto_topic_creation_override =
  auto_topic_creation_override_allow_auto_topic_creation :: "bool"
  auto_topic_creation_override_topic_type :: "string option"
  auto_topic_creation_override_default_num_partitions :: "32 word option"

definition auto_topic_creation_override_names :: "string list" where
  "auto_topic_creation_override_names = [''allowAutoTopicCreation'', ''topicType'', ''defaultNumPartitions'']"

definition auto_topic_creation_override_json :: "auto_topic_creation_override \<Rightarrow> json" where
  "auto_topic_creation_override_json x = obj [
     (''allowAutoTopicCreation'', Some (JBool (auto_topic_creation_override_allow_auto_topic_creation x))),
     (''topicType'', if_some str_json (auto_topic_creation_override_topic_type x)),
     (''defaultNumPartitions'', if_some sword_json (auto_topic_creation_override_default_num_partitions x))]"

definition auto_topic_creation_override_of_json :: "json \<Rightarrow> auto_topic_creation_override option" where
  "auto_topic_creation_override_of_json j =
     (case entries_named auto_topic_creation_override_names j of
        Some [v1, v2, v3] \<Rightarrow> do {
          x1 \<leftarrow> needed bool_of_json v1;
          x2 \<leftarrow> optional str_of_json v2;
          x3 \<leftarrow> optional sword_of_json v3;
          Some \<lparr>auto_topic_creation_override_allow_auto_topic_creation = x1,
            auto_topic_creation_override_topic_type = x2,
            auto_topic_creation_override_default_num_partitions = x3\<rparr>}
      | _ \<Rightarrow> None)"

lemma auto_topic_creation_override_names_distinct: "distinct auto_topic_creation_override_names"
  by code_simp

interpretation auto_topic_creation_override_codec: json_body auto_topic_creation_override_json auto_topic_creation_override_of_json "\<lambda>_. True"
proof (rule json_bodyI)
  show "auto_topic_creation_override_of_json (auto_topic_creation_override_json x) = Some x" for x :: auto_topic_creation_override
    unfolding auto_topic_creation_override_of_json_def auto_topic_creation_override_json_def
    by (subst entries_of_obj [OF auto_topic_creation_override_names_distinct]) (simp_all add: auto_topic_creation_override_names_def)
  show "\<not> has_null (auto_topic_creation_override_json x)" for x :: auto_topic_creation_override
    unfolding auto_topic_creation_override_json_def by simp
qed

record auto_subscription_creation_override =
  auto_subscription_creation_override_allow_auto_subscription_creation :: "bool"

definition auto_subscription_creation_override_names :: "string list" where
  "auto_subscription_creation_override_names = [''allowAutoSubscriptionCreation'']"

definition auto_subscription_creation_override_json :: "auto_subscription_creation_override \<Rightarrow> json" where
  "auto_subscription_creation_override_json x = obj [
     (''allowAutoSubscriptionCreation'', Some (JBool (auto_subscription_creation_override_allow_auto_subscription_creation x)))]"

definition auto_subscription_creation_override_of_json :: "json \<Rightarrow> auto_subscription_creation_override option" where
  "auto_subscription_creation_override_of_json j =
     (case entries_named auto_subscription_creation_override_names j of
        Some [v1] \<Rightarrow> do {
          x1 \<leftarrow> needed bool_of_json v1;
          Some \<lparr>auto_subscription_creation_override_allow_auto_subscription_creation = x1\<rparr>}
      | _ \<Rightarrow> None)"

lemma auto_subscription_creation_override_names_distinct: "distinct auto_subscription_creation_override_names"
  by code_simp

interpretation auto_subscription_creation_override_codec: json_body auto_subscription_creation_override_json auto_subscription_creation_override_of_json "\<lambda>_. True"
proof (rule json_bodyI)
  show "auto_subscription_creation_override_of_json (auto_subscription_creation_override_json x) = Some x" for x :: auto_subscription_creation_override
    unfolding auto_subscription_creation_override_of_json_def auto_subscription_creation_override_json_def
    by (subst entries_of_obj [OF auto_subscription_creation_override_names_distinct]) (simp_all add: auto_subscription_creation_override_names_def)
  show "\<not> has_null (auto_subscription_creation_override_json x)" for x :: auto_subscription_creation_override
    unfolding auto_subscription_creation_override_json_def by simp
qed

record backlog_quota =
  backlog_quota_limit_size :: "64 word option"
  backlog_quota_limit_time :: "32 word option"
  backlog_quota_policy :: "string option"

definition backlog_quota_names :: "string list" where
  "backlog_quota_names = [''limitSize'', ''limitTime'', ''policy'']"

definition backlog_quota_json :: "backlog_quota \<Rightarrow> json" where
  "backlog_quota_json x = obj [
     (''limitSize'', if_some sword_json (backlog_quota_limit_size x)),
     (''limitTime'', if_some sword_json (backlog_quota_limit_time x)),
     (''policy'', if_some str_json (backlog_quota_policy x))]"

definition backlog_quota_of_json :: "json \<Rightarrow> backlog_quota option" where
  "backlog_quota_of_json j =
     (case entries_named backlog_quota_names j of
        Some [v1, v2, v3] \<Rightarrow> do {
          x1 \<leftarrow> optional sword_of_json v1;
          x2 \<leftarrow> optional sword_of_json v2;
          x3 \<leftarrow> optional str_of_json v3;
          Some \<lparr>backlog_quota_limit_size = x1, backlog_quota_limit_time = x2, backlog_quota_policy = x3\<rparr>}
      | _ \<Rightarrow> None)"

lemma backlog_quota_names_distinct: "distinct backlog_quota_names"
  by code_simp

interpretation backlog_quota_codec: json_body backlog_quota_json backlog_quota_of_json "\<lambda>_. True"
proof (rule json_bodyI)
  show "backlog_quota_of_json (backlog_quota_json x) = Some x" for x :: backlog_quota
    unfolding backlog_quota_of_json_def backlog_quota_json_def
    by (subst entries_of_obj [OF backlog_quota_names_distinct]) (simp_all add: backlog_quota_names_def)
  show "\<not> has_null (backlog_quota_json x)" for x :: backlog_quota
    unfolding backlog_quota_json_def by simp
qed

record bookie_affinity_group_data =
  bookie_affinity_group_data_bookkeeper_affinity_group_primary :: "string option"
  bookie_affinity_group_data_bookkeeper_affinity_group_secondary :: "string option"

definition bookie_affinity_group_data_names :: "string list" where
  "bookie_affinity_group_data_names = [''bookkeeperAffinityGroupPrimary'', ''bookkeeperAffinityGroupSecondary'']"

definition bookie_affinity_group_data_json :: "bookie_affinity_group_data \<Rightarrow> json" where
  "bookie_affinity_group_data_json x = obj [
     (''bookkeeperAffinityGroupPrimary'', if_some str_json (bookie_affinity_group_data_bookkeeper_affinity_group_primary x)),
     (''bookkeeperAffinityGroupSecondary'', if_some str_json (bookie_affinity_group_data_bookkeeper_affinity_group_secondary x))]"

definition bookie_affinity_group_data_of_json :: "json \<Rightarrow> bookie_affinity_group_data option" where
  "bookie_affinity_group_data_of_json j =
     (case entries_named bookie_affinity_group_data_names j of
        Some [v1, v2] \<Rightarrow> do {
          x1 \<leftarrow> optional str_of_json v1;
          x2 \<leftarrow> optional str_of_json v2;
          Some \<lparr>bookie_affinity_group_data_bookkeeper_affinity_group_primary = x1,
            bookie_affinity_group_data_bookkeeper_affinity_group_secondary = x2\<rparr>}
      | _ \<Rightarrow> None)"

lemma bookie_affinity_group_data_names_distinct: "distinct bookie_affinity_group_data_names"
  by code_simp

interpretation bookie_affinity_group_data_codec: json_body bookie_affinity_group_data_json bookie_affinity_group_data_of_json "\<lambda>_. True"
proof (rule json_bodyI)
  show "bookie_affinity_group_data_of_json (bookie_affinity_group_data_json x) = Some x" for x :: bookie_affinity_group_data
    unfolding bookie_affinity_group_data_of_json_def bookie_affinity_group_data_json_def
    by (subst entries_of_obj [OF bookie_affinity_group_data_names_distinct]) (simp_all add: bookie_affinity_group_data_names_def)
  show "\<not> has_null (bookie_affinity_group_data_json x)" for x :: bookie_affinity_group_data
    unfolding bookie_affinity_group_data_json_def by simp
qed

record entry_filters =
  entry_filters_entry_filter_names :: "string"

definition entry_filters_names :: "string list" where
  "entry_filters_names = [''entryFilterNames'']"

definition entry_filters_json :: "entry_filters \<Rightarrow> json" where
  "entry_filters_json x = obj [
     (''entryFilterNames'', Some (str_json (entry_filters_entry_filter_names x)))]"

definition entry_filters_of_json :: "json \<Rightarrow> entry_filters option" where
  "entry_filters_of_json j =
     (case entries_named entry_filters_names j of
        Some [v1] \<Rightarrow> do {
          x1 \<leftarrow> needed str_of_json v1;
          Some \<lparr>entry_filters_entry_filter_names = x1\<rparr>}
      | _ \<Rightarrow> None)"

lemma entry_filters_names_distinct: "distinct entry_filters_names"
  by code_simp

interpretation entry_filters_codec: json_body entry_filters_json entry_filters_of_json "\<lambda>_. True"
proof (rule json_bodyI)
  show "entry_filters_of_json (entry_filters_json x) = Some x" for x :: entry_filters
    unfolding entry_filters_of_json_def entry_filters_json_def
    by (subst entries_of_obj [OF entry_filters_names_distinct]) (simp_all add: entry_filters_names_def)
  show "\<not> has_null (entry_filters_json x)" for x :: entry_filters
    unfolding entry_filters_json_def by simp
qed

record bundles_data =
  bundles_data_boundaries :: "string list"
  bundles_data_num_bundles :: "32 word"

definition bundles_data_names :: "string list" where
  "bundles_data_names = [''boundaries'', ''numBundles'']"

definition bundles_data_json :: "bundles_data \<Rightarrow> json" where
  "bundles_data_json x = obj [
     (''boundaries'', Some (list_json str_json (bundles_data_boundaries x))),
     (''numBundles'', Some (sword_json (bundles_data_num_bundles x)))]"

definition bundles_data_of_json :: "json \<Rightarrow> bundles_data option" where
  "bundles_data_of_json j =
     (case entries_named bundles_data_names j of
        Some [v1, v2] \<Rightarrow> do {
          x1 \<leftarrow> defaulted [] (list_of_json str_of_json) v1;
          x2 \<leftarrow> defaulted 0 sword_of_json v2;
          Some \<lparr>bundles_data_boundaries = x1, bundles_data_num_bundles = x2\<rparr>}
      | _ \<Rightarrow> None)"

lemma bundles_data_names_distinct: "distinct bundles_data_names"
  by code_simp

interpretation bundles_data_codec: json_body bundles_data_json bundles_data_of_json "\<lambda>_. True"
proof (rule json_bodyI)
  show "bundles_data_of_json (bundles_data_json x) = Some x" for x :: bundles_data
    unfolding bundles_data_of_json_def bundles_data_json_def
    by (subst entries_of_obj [OF bundles_data_names_distinct]) (simp_all add: bundles_data_names_def)
  show "\<not> has_null (bundles_data_json x)" for x :: bundles_data
    unfolding bundles_data_json_def by simp
qed

datatype subscription_auth_mode = None_mode | Prefix_mode

fun subscription_auth_mode_name :: "subscription_auth_mode \<Rightarrow> string" where
  "subscription_auth_mode_name None_mode = ''None''"
| "subscription_auth_mode_name Prefix_mode = ''Prefix''"

definition subscription_auth_mode_json :: "subscription_auth_mode \<Rightarrow> json" where
  "subscription_auth_mode_json v = JStr (subscription_auth_mode_name v)"

definition subscription_auth_mode_of_json :: "json \<Rightarrow> subscription_auth_mode option" where
  "subscription_auth_mode_of_json =
     unit_variant (map_of [
       (''None'', None_mode),
       (''Prefix'', Prefix_mode)])"

definition subscription_auth_mode_default :: subscription_auth_mode where
  "subscription_auth_mode_default = None_mode"

interpretation subscription_auth_mode_codec: json_body subscription_auth_mode_json subscription_auth_mode_of_json "\<lambda>_. True"
proof
  show "subscription_auth_mode_of_json (subscription_auth_mode_json x) = Some x" for x
    by (cases x) (simp_all add: subscription_auth_mode_of_json_def subscription_auth_mode_json_def)
qed (simp_all add: subscription_auth_mode_json_def)

datatype schema_compatibility_strategy = Undefined | AlwaysIncompatible | AlwaysCompatible | Backward | Forward | Full_compatibility | BackwardTransitive | ForwardTransitive | FullTransitive

fun schema_compatibility_strategy_name :: "schema_compatibility_strategy \<Rightarrow> string" where
  "schema_compatibility_strategy_name Undefined = ''UNDEFINED''"
| "schema_compatibility_strategy_name AlwaysIncompatible = ''ALWAYS_INCOMPATIBLE''"
| "schema_compatibility_strategy_name AlwaysCompatible = ''ALWAYS_COMPATIBLE''"
| "schema_compatibility_strategy_name Backward = ''BACKWARD''"
| "schema_compatibility_strategy_name Forward = ''FORWARD''"
| "schema_compatibility_strategy_name Full_compatibility = ''FULL''"
| "schema_compatibility_strategy_name BackwardTransitive = ''BACKWARD_TRANSITIVE''"
| "schema_compatibility_strategy_name ForwardTransitive = ''FORWARD_TRANSITIVE''"
| "schema_compatibility_strategy_name FullTransitive = ''FULL_TRANSITIVE''"

definition schema_compatibility_strategy_json :: "schema_compatibility_strategy \<Rightarrow> json" where
  "schema_compatibility_strategy_json v = JStr (schema_compatibility_strategy_name v)"

definition schema_compatibility_strategy_of_json :: "json \<Rightarrow> schema_compatibility_strategy option" where
  "schema_compatibility_strategy_of_json =
     unit_variant (map_of [
       (''UNDEFINED'', Undefined),
       (''ALWAYS_INCOMPATIBLE'', AlwaysIncompatible),
       (''ALWAYS_COMPATIBLE'', AlwaysCompatible),
       (''BACKWARD'', Backward),
       (''FORWARD'', Forward),
       (''FULL'', Full_compatibility),
       (''BACKWARD_TRANSITIVE'', BackwardTransitive),
       (''FORWARD_TRANSITIVE'', ForwardTransitive),
       (''FULL_TRANSITIVE'', FullTransitive)])"

definition schema_compatibility_strategy_default :: schema_compatibility_strategy where
  "schema_compatibility_strategy_default = Undefined"

interpretation schema_compatibility_strategy_codec: json_body schema_compatibility_strategy_json schema_compatibility_strategy_of_json "\<lambda>_. True"
proof
  show "schema_compatibility_strategy_of_json (schema_compatibility_strategy_json x) = Some x" for x
    by (cases x) (simp_all add: schema_compatibility_strategy_of_json_def schema_compatibility_strategy_json_def)
qed (simp_all add: schema_compatibility_strategy_json_def)

datatype offloaded_read_priority = BookkeeperFirst | TieredStorageFirst

fun offloaded_read_priority_name :: "offloaded_read_priority \<Rightarrow> string" where
  "offloaded_read_priority_name BookkeeperFirst = ''bookkeeper-first''"
| "offloaded_read_priority_name TieredStorageFirst = ''tiered-storage-first''"

definition offloaded_read_priority_json :: "offloaded_read_priority \<Rightarrow> json" where
  "offloaded_read_priority_json v = JStr (offloaded_read_priority_name v)"

definition offloaded_read_priority_of_json :: "json \<Rightarrow> offloaded_read_priority option" where
  "offloaded_read_priority_of_json =
     unit_variant (map_of [
       (''bookkeeper-first'', BookkeeperFirst),
       (''tiered-storage-first'', TieredStorageFirst)])"

definition offloaded_read_priority_default :: offloaded_read_priority where
  "offloaded_read_priority_default = BookkeeperFirst"

interpretation offloaded_read_priority_codec: json_body offloaded_read_priority_json offloaded_read_priority_of_json "\<lambda>_. True"
proof
  show "offloaded_read_priority_of_json (offloaded_read_priority_json x) = Some x" for x
    by (cases x) (simp_all add: offloaded_read_priority_of_json_def offloaded_read_priority_json_def)
qed (simp_all add: offloaded_read_priority_json_def)

datatype auth_action = Produce | Consume | Functions | Sources | Sinks | Packages

fun auth_action_name :: "auth_action \<Rightarrow> string" where
  "auth_action_name Produce = ''produce''"
| "auth_action_name Consume = ''consume''"
| "auth_action_name Functions = ''functions''"
| "auth_action_name Sources = ''sources''"
| "auth_action_name Sinks = ''sinks''"
| "auth_action_name Packages = ''packages''"

definition auth_action_json :: "auth_action \<Rightarrow> json" where
  "auth_action_json v = JStr (auth_action_name v)"

definition auth_action_of_json :: "json \<Rightarrow> auth_action option" where
  "auth_action_of_json =
     unit_variant (map_of [
       (''produce'', Produce),
       (''consume'', Consume),
       (''functions'', Functions),
       (''sources'', Sources),
       (''sinks'', Sinks),
       (''packages'', Packages)])"

interpretation auth_action_codec: json_body auth_action_json auth_action_of_json "\<lambda>_. True"
proof
  show "auth_action_of_json (auth_action_json x) = Some x" for x
    by (cases x) (simp_all add: auth_action_of_json_def auth_action_json_def)
qed (simp_all add: auth_action_json_def)

text \<open>The variants are ordered as they are declared.\<close>

fun auth_action_rank :: "auth_action \<Rightarrow> nat" where
  "auth_action_rank Produce = 0"
| "auth_action_rank Consume = 1"
| "auth_action_rank Functions = 2"
| "auth_action_rank Sources = 3"
| "auth_action_rank Sinks = 4"
| "auth_action_rank Packages = 5"

lemma auth_action_rank_inject [simp]: "auth_action_rank a = auth_action_rank b \<longleftrightarrow> a = b"
  by (cases a; cases b) simp_all

instantiation auth_action :: linorder
begin

definition less_eq_auth_action :: "auth_action \<Rightarrow> auth_action \<Rightarrow> bool" where
  "less_eq_auth_action a b \<longleftrightarrow> auth_action_rank a \<le> auth_action_rank b"

definition less_auth_action :: "auth_action \<Rightarrow> auth_action \<Rightarrow> bool" where
  "less_auth_action a b \<longleftrightarrow> auth_action_rank a < auth_action_rank b"

instance
  by standard (auto simp: less_eq_auth_action_def less_auth_action_def)

end

record offload_policies =
  offload_policies_offloaders_directory :: "string option"
  offload_policies_managed_ledger_offload_driver :: "string option"
  offload_policies_managed_ledger_offload_max_threads :: "32 word option"
  offload_policies_managed_ledger_offload_read_threads :: "32 word option"
  offload_policies_managed_ledger_offload_prefetch_rounds :: "32 word option"
  offload_policies_managed_ledger_offload_threshold_in_seconds :: "64 word option"
  offload_policies_managed_ledger_offload_threshold_in_bytes :: "64 word option"
  offload_policies_managed_ledger_offload_deletion_lag_in_millis :: "64 word option"
  offload_policies_managed_ledger_offloaded_read_priority :: "offloaded_read_priority option"
  offload_policies_managed_ledger_extra_configurations :: "(string \<times> string) list"
  offload_policies_managed_ledger_offload_bucket :: "string option"
  offload_policies_managed_ledger_offload_region :: "string option"
  offload_policies_managed_ledger_offload_service_endpoint :: "string option"
  offload_policies_managed_ledger_offload_max_block_size_in_bytes :: "32 word option"
  offload_policies_managed_ledger_offload_read_buffer_size_in_bytes :: "32 word option"
  offload_policies_s3_managed_ledger_offload_region :: "string option"
  offload_policies_s3_managed_ledger_offload_bucket :: "string option"
  offload_policies_s3_managed_ledger_offload_service_endpoint :: "string option"
  offload_policies_s3_managed_ledger_offload_max_block_size_in_bytes :: "32 word option"
  offload_policies_s3_managed_ledger_offload_read_buffer_size_in_bytes :: "32 word option"
  offload_policies_s3_managed_ledger_offload_credential_id :: "string option"
  offload_policies_s3_managed_ledger_offload_credential_secret :: "string option"
  offload_policies_s3_managed_ledger_offload_role :: "string option"
  offload_policies_s3_managed_ledger_offload_role_session_name :: "string option"
  offload_policies_gcs_managed_ledger_offload_region :: "string option"
  offload_policies_gcs_managed_ledger_offload_bucket :: "string option"
  offload_policies_gcs_managed_ledger_offload_max_block_size_in_bytes :: "32 word option"
  offload_policies_gcs_managed_ledger_offload_read_buffer_size_in_bytes :: "32 word option"
  offload_policies_gcs_managed_ledger_offload_service_account_key_file :: "string option"
  offload_policies_file_system_profile_path :: "string option"
  offload_policies_file_system_uri :: "string option"

definition offload_policies_names :: "string list" where
  "offload_policies_names = [''offloadersDirectory'', ''managedLedgerOffloadDriver'',
     ''managedLedgerOffloadMaxThreads'', ''managedLedgerOffloadReadThreads'',
     ''managedLedgerOffloadPrefetchRounds'', ''managedLedgerOffloadThresholdInSeconds'',
     ''managedLedgerOffloadThresholdInBytes'', ''managedLedgerOffloadDeletionLagInMillis'',
     ''managedLedgerOffloadedReadPriority'', ''managedLedgerExtraConfigurations'',
     ''managedLedgerOffloadBucket'', ''managedLedgerOffloadRegion'',
     ''managedLedgerOffloadServiceEndpoint'', ''managedLedgerOffloadMaxBlockSizeInBytes'',
     ''managedLedgerOffloadReadBufferSizeInBytes'', ''s3ManagedLedgerOffloadRegion'',
     ''s3ManagedLedgerOffloadBucket'', ''s3ManagedLedgerOffloadServiceEndpoint'',
     ''s3ManagedLedgerOffloadMaxBlockSizeInBytes'',
     ''s3ManagedLedgerOffloadReadBufferSizeInBytes'', ''s3ManagedLedgerOffloadCredentialId'',
     ''s3ManagedLedgerOffloadCredentialSecret'', ''s3ManagedLedgerOffloadRole'',
     ''s3ManagedLedgerOffloadRoleSessionName'', ''gcsManagedLedgerOffloadRegion'',
     ''gcsManagedLedgerOffloadBucket'', ''gcsManagedLedgerOffloadMaxBlockSizeInBytes'',
     ''gcsManagedLedgerOffloadReadBufferSizeInBytes'',
     ''gcsManagedLedgerOffloadServiceAccountKeyFile'', ''fileSystemProfilePath'',
     ''fileSystemURI'']"

definition offload_policies_json :: "offload_policies \<Rightarrow> json" where
  "offload_policies_json x = obj [
     (''offloadersDirectory'', if_some str_json (offload_policies_offloaders_directory x)),
     (''managedLedgerOffloadDriver'', if_some str_json (offload_policies_managed_ledger_offload_driver x)),
     (''managedLedgerOffloadMaxThreads'', if_some sword_json (offload_policies_managed_ledger_offload_max_threads x)),
     (''managedLedgerOffloadReadThreads'', if_some sword_json (offload_policies_managed_ledger_offload_read_threads x)),
     (''managedLedgerOffloadPrefetchRounds'', if_some sword_json (offload_policies_managed_ledger_offload_prefetch_rounds x)),
     (''managedLedgerOffloadThresholdInSeconds'', if_some sword_json (offload_policies_managed_ledger_offload_threshold_in_seconds x)),
     (''managedLedgerOffloadThresholdInBytes'', if_some sword_json (offload_policies_managed_ledger_offload_threshold_in_bytes x)),
     (''managedLedgerOffloadDeletionLagInMillis'', if_some sword_json (offload_policies_managed_ledger_offload_deletion_lag_in_millis x)),
     (''managedLedgerOffloadedReadPriority'', if_some offloaded_read_priority_json (offload_policies_managed_ledger_offloaded_read_priority x)),
     (''managedLedgerExtraConfigurations'', if_any (map_json str_json) (offload_policies_managed_ledger_extra_configurations x)),
     (''managedLedgerOffloadBucket'', if_some str_json (offload_policies_managed_ledger_offload_bucket x)),
     (''managedLedgerOffloadRegion'', if_some str_json (offload_policies_managed_ledger_offload_region x)),
     (''managedLedgerOffloadServiceEndpoint'', if_some str_json (offload_policies_managed_ledger_offload_service_endpoint x)),
     (''managedLedgerOffloadMaxBlockSizeInBytes'', if_some sword_json (offload_policies_managed_ledger_offload_max_block_size_in_bytes x)),
     (''managedLedgerOffloadReadBufferSizeInBytes'', if_some sword_json (offload_policies_managed_ledger_offload_read_buffer_size_in_bytes x)),
     (''s3ManagedLedgerOffloadRegion'', if_some str_json (offload_policies_s3_managed_ledger_offload_region x)),
     (''s3ManagedLedgerOffloadBucket'', if_some str_json (offload_policies_s3_managed_ledger_offload_bucket x)),
     (''s3ManagedLedgerOffloadServiceEndpoint'', if_some str_json (offload_policies_s3_managed_ledger_offload_service_endpoint x)),
     (''s3ManagedLedgerOffloadMaxBlockSizeInBytes'', if_some sword_json (offload_policies_s3_managed_ledger_offload_max_block_size_in_bytes x)),
     (''s3ManagedLedgerOffloadReadBufferSizeInBytes'', if_some sword_json (offload_policies_s3_managed_ledger_offload_read_buffer_size_in_bytes x)),
     (''s3ManagedLedgerOffloadCredentialId'', if_some str_json (offload_policies_s3_managed_ledger_offload_credential_id x)),
     (''s3ManagedLedgerOffloadCredentialSecret'', if_some str_json (offload_policies_s3_managed_ledger_offload_credential_secret x)),
     (''s3ManagedLedgerOffloadRole'', if_some str_json (offload_policies_s3_managed_ledger_offload_role x)),
     (''s3ManagedLedgerOffloadRoleSessionName'', if_some str_json (offload_policies_s3_managed_ledger_offload_role_session_name x)),
     (''gcsManagedLedgerOffloadRegion'', if_some str_json (offload_policies_gcs_managed_ledger_offload_region x)),
     (''gcsManagedLedgerOffloadBucket'', if_some str_json (offload_policies_gcs_managed_ledger_offload_bucket x)),
     (''gcsManagedLedgerOffloadMaxBlockSizeInBytes'', if_some sword_json (offload_policies_gcs_managed_ledger_offload_max_block_size_in_bytes x)),
     (''gcsManagedLedgerOffloadReadBufferSizeInBytes'', if_some sword_json (offload_policies_gcs_managed_ledger_offload_read_buffer_size_in_bytes x)),
     (''gcsManagedLedgerOffloadServiceAccountKeyFile'', if_some str_json (offload_policies_gcs_managed_ledger_offload_service_account_key_file x)),
     (''fileSystemProfilePath'', if_some str_json (offload_policies_file_system_profile_path x)),
     (''fileSystemURI'', if_some str_json (offload_policies_file_system_uri x))]"

definition offload_policies_of_json :: "json \<Rightarrow> offload_policies option" where
  "offload_policies_of_json j =
     (case entries_named offload_policies_names j of
        Some [v1, v2, v3, v4, v5, v6, v7, v8, v9, v10, v11, v12, v13, v14, v15, v16, v17, v18, v19, v20,
              v21, v22, v23, v24, v25, v26, v27, v28, v29, v30, v31] \<Rightarrow> do {
          x1 \<leftarrow> optional str_of_json v1;
          x2 \<leftarrow> optional str_of_json v2;
          x3 \<leftarrow> optional sword_of_json v3;
          x4 \<leftarrow> optional sword_of_json v4;
          x5 \<leftarrow> optional sword_of_json v5;
          x6 \<leftarrow> optional sword_of_json v6;
          x7 \<leftarrow> optional sword_of_json v7;
          x8 \<leftarrow> optional sword_of_json v8;
          x9 \<leftarrow> optional offloaded_read_priority_of_json v9;
          x10 \<leftarrow> defaulted [] (map_of_json str_of_json) v10;
          x11 \<leftarrow> optional str_of_json v11;
          x12 \<leftarrow> optional str_of_json v12;
          x13 \<leftarrow> optional str_of_json v13;
          x14 \<leftarrow> optional sword_of_json v14;
          x15 \<leftarrow> optional sword_of_json v15;
          x16 \<leftarrow> optional str_of_json v16;
          x17 \<leftarrow> optional str_of_json v17;
          x18 \<leftarrow> optional str_of_json v18;
          x19 \<leftarrow> optional sword_of_json v19;
          x20 \<leftarrow> optional sword_of_json v20;
          x21 \<leftarrow> optional str_of_json v21;
          x22 \<leftarrow> optional str_of_json v22;
          x23 \<leftarrow> optional str_of_json v23;
          x24 \<leftarrow> optional str_of_json v24;
          x25 \<leftarrow> optional str_of_json v25;
          x26 \<leftarrow> optional str_of_json v26;
          x27 \<leftarrow> optional sword_of_json v27;
          x28 \<leftarrow> optional sword_of_json v28;
          x29 \<leftarrow> optional str_of_json v29;
          x30 \<leftarrow> optional str_of_json v30;
          x31 \<leftarrow> optional str_of_json v31;
          Some \<lparr>offload_policies_offloaders_directory = x1,
            offload_policies_managed_ledger_offload_driver = x2,
            offload_policies_managed_ledger_offload_max_threads = x3,
            offload_policies_managed_ledger_offload_read_threads = x4,
            offload_policies_managed_ledger_offload_prefetch_rounds = x5,
            offload_policies_managed_ledger_offload_threshold_in_seconds = x6,
            offload_policies_managed_ledger_offload_threshold_in_bytes = x7,
            offload_policies_managed_ledger_offload_deletion_lag_in_millis = x8,
            offload_policies_managed_ledger_offloaded_read_priority = x9,
            offload_policies_managed_ledger_extra_configurations = x10,
            offload_policies_managed_ledger_offload_bucket = x11,
            offload_policies_managed_ledger_offload_region = x12,
            offload_policies_managed_ledger_offload_service_endpoint = x13,
            offload_policies_managed_ledger_offload_max_block_size_in_bytes = x14,
            offload_policies_managed_ledger_offload_read_buffer_size_in_bytes = x15,
            offload_policies_s3_managed_ledger_offload_region = x16,
            offload_policies_s3_managed_ledger_offload_bucket = x17,
            offload_policies_s3_managed_ledger_offload_service_endpoint = x18,
            offload_policies_s3_managed_ledger_offload_max_block_size_in_bytes = x19,
            offload_policies_s3_managed_ledger_offload_read_buffer_size_in_bytes = x20,
            offload_policies_s3_managed_ledger_offload_credential_id = x21,
            offload_policies_s3_managed_ledger_offload_credential_secret = x22,
            offload_policies_s3_managed_ledger_offload_role = x23,
            offload_policies_s3_managed_ledger_offload_role_session_name = x24,
            offload_policies_gcs_managed_ledger_offload_region = x25,
            offload_policies_gcs_managed_ledger_offload_bucket = x26,
            offload_policies_gcs_managed_ledger_offload_max_block_size_in_bytes = x27,
            offload_policies_gcs_managed_ledger_offload_read_buffer_size_in_bytes = x28,
            offload_policies_gcs_managed_ledger_offload_service_account_key_file = x29,
            offload_policies_file_system_profile_path = x30, offload_policies_file_system_uri = x31\<rparr>}
      | _ \<Rightarrow> None)"

definition offload_policies_default :: offload_policies where
  "offload_policies_default = \<lparr>offload_policies_offloaders_directory = None,
            offload_policies_managed_ledger_offload_driver = None,
            offload_policies_managed_ledger_offload_max_threads = None,
            offload_policies_managed_ledger_offload_read_threads = None,
            offload_policies_managed_ledger_offload_prefetch_rounds = None,
            offload_policies_managed_ledger_offload_threshold_in_seconds = None,
            offload_policies_managed_ledger_offload_threshold_in_bytes = None,
            offload_policies_managed_ledger_offload_deletion_lag_in_millis = None,
            offload_policies_managed_ledger_offloaded_read_priority = None,
            offload_policies_managed_ledger_extra_configurations = [],
            offload_policies_managed_ledger_offload_bucket = None,
            offload_policies_managed_ledger_offload_region = None,
            offload_policies_managed_ledger_offload_service_endpoint = None,
            offload_policies_managed_ledger_offload_max_block_size_in_bytes = None,
            offload_policies_managed_ledger_offload_read_buffer_size_in_bytes = None,
            offload_policies_s3_managed_ledger_offload_region = None,
            offload_policies_s3_managed_ledger_offload_bucket = None,
            offload_policies_s3_managed_ledger_offload_service_endpoint = None,
            offload_policies_s3_managed_ledger_offload_max_block_size_in_bytes = None,
            offload_policies_s3_managed_ledger_offload_read_buffer_size_in_bytes = None,
            offload_policies_s3_managed_ledger_offload_credential_id = None,
            offload_policies_s3_managed_ledger_offload_credential_secret = None,
            offload_policies_s3_managed_ledger_offload_role = None,
            offload_policies_s3_managed_ledger_offload_role_session_name = None,
            offload_policies_gcs_managed_ledger_offload_region = None,
            offload_policies_gcs_managed_ledger_offload_bucket = None,
            offload_policies_gcs_managed_ledger_offload_max_block_size_in_bytes = None,
            offload_policies_gcs_managed_ledger_offload_read_buffer_size_in_bytes = None,
            offload_policies_gcs_managed_ledger_offload_service_account_key_file = None,
            offload_policies_file_system_profile_path = None, offload_policies_file_system_uri = None\<rparr>"

definition offload_policies_good :: "offload_policies \<Rightarrow> bool" where
  "offload_policies_good x \<longleftrightarrow> entries_good (\<lambda>_. True) (offload_policies_managed_ledger_extra_configurations x)"

lemma offload_policies_names_distinct: "distinct offload_policies_names"
  by code_simp

interpretation offload_policies_codec: json_body offload_policies_json offload_policies_of_json offload_policies_good
proof (rule json_bodyI)
  show "offload_policies_of_json (offload_policies_json x) = Some x" if "offload_policies_good x" for x :: offload_policies
    using that unfolding offload_policies_of_json_def offload_policies_json_def offload_policies_good_def
    by (subst entries_of_obj [OF offload_policies_names_distinct]) (simp_all add: offload_policies_names_def)
  show "\<not> has_null (offload_policies_json x)" if "offload_policies_good x" for x :: offload_policies
    using that unfolding offload_policies_json_def offload_policies_good_def by simp
qed

record auto_scale_policy_override =
  auto_scale_policy_override_enabled :: "bool option"
  auto_scale_policy_override_max_segments :: "32 word option"
  auto_scale_policy_override_min_segments :: "32 word option"
  auto_scale_policy_override_max_dag_depth :: "32 word option"
  auto_scale_policy_override_split_cooldown_seconds :: "64 word option"
  auto_scale_policy_override_merge_cooldown_seconds :: "64 word option"
  auto_scale_policy_override_merge_window_seconds :: "64 word option"
  auto_scale_policy_override_split_msg_rate_in_threshold :: "f64 option"
  auto_scale_policy_override_split_bytes_rate_in_threshold :: "64 word option"
  auto_scale_policy_override_split_msg_rate_out_threshold :: "f64 option"
  auto_scale_policy_override_split_bytes_rate_out_threshold :: "64 word option"
  auto_scale_policy_override_merge_msg_rate_in_threshold :: "f64 option"
  auto_scale_policy_override_merge_bytes_rate_in_threshold :: "64 word option"
  auto_scale_policy_override_merge_msg_rate_out_threshold :: "f64 option"
  auto_scale_policy_override_merge_bytes_rate_out_threshold :: "64 word option"

definition auto_scale_policy_override_names :: "string list" where
  "auto_scale_policy_override_names = [''enabled'', ''maxSegments'', ''minSegments'', ''maxDagDepth'', ''splitCooldownSeconds'',
     ''mergeCooldownSeconds'', ''mergeWindowSeconds'', ''splitMsgRateInThreshold'',
     ''splitBytesRateInThreshold'', ''splitMsgRateOutThreshold'',
     ''splitBytesRateOutThreshold'', ''mergeMsgRateInThreshold'', ''mergeBytesRateInThreshold'',
     ''mergeMsgRateOutThreshold'', ''mergeBytesRateOutThreshold'']"

definition auto_scale_policy_override_json :: "auto_scale_policy_override \<Rightarrow> json" where
  "auto_scale_policy_override_json x = obj [
     (''enabled'', if_some JBool (auto_scale_policy_override_enabled x)),
     (''maxSegments'', if_some sword_json (auto_scale_policy_override_max_segments x)),
     (''minSegments'', if_some sword_json (auto_scale_policy_override_min_segments x)),
     (''maxDagDepth'', if_some sword_json (auto_scale_policy_override_max_dag_depth x)),
     (''splitCooldownSeconds'', if_some sword_json (auto_scale_policy_override_split_cooldown_seconds x)),
     (''mergeCooldownSeconds'', if_some sword_json (auto_scale_policy_override_merge_cooldown_seconds x)),
     (''mergeWindowSeconds'', if_some sword_json (auto_scale_policy_override_merge_window_seconds x)),
     (''splitMsgRateInThreshold'', if_some f64_json (auto_scale_policy_override_split_msg_rate_in_threshold x)),
     (''splitBytesRateInThreshold'', if_some sword_json (auto_scale_policy_override_split_bytes_rate_in_threshold x)),
     (''splitMsgRateOutThreshold'', if_some f64_json (auto_scale_policy_override_split_msg_rate_out_threshold x)),
     (''splitBytesRateOutThreshold'', if_some sword_json (auto_scale_policy_override_split_bytes_rate_out_threshold x)),
     (''mergeMsgRateInThreshold'', if_some f64_json (auto_scale_policy_override_merge_msg_rate_in_threshold x)),
     (''mergeBytesRateInThreshold'', if_some sword_json (auto_scale_policy_override_merge_bytes_rate_in_threshold x)),
     (''mergeMsgRateOutThreshold'', if_some f64_json (auto_scale_policy_override_merge_msg_rate_out_threshold x)),
     (''mergeBytesRateOutThreshold'', if_some sword_json (auto_scale_policy_override_merge_bytes_rate_out_threshold x))]"

definition auto_scale_policy_override_of_json :: "json \<Rightarrow> auto_scale_policy_override option" where
  "auto_scale_policy_override_of_json j =
     (case entries_named auto_scale_policy_override_names j of
        Some [v1, v2, v3, v4, v5, v6, v7, v8, v9, v10, v11, v12, v13, v14, v15] \<Rightarrow> do {
          x1 \<leftarrow> optional bool_of_json v1;
          x2 \<leftarrow> optional sword_of_json v2;
          x3 \<leftarrow> optional sword_of_json v3;
          x4 \<leftarrow> optional sword_of_json v4;
          x5 \<leftarrow> optional sword_of_json v5;
          x6 \<leftarrow> optional sword_of_json v6;
          x7 \<leftarrow> optional sword_of_json v7;
          x8 \<leftarrow> optional f64_of_json v8;
          x9 \<leftarrow> optional sword_of_json v9;
          x10 \<leftarrow> optional f64_of_json v10;
          x11 \<leftarrow> optional sword_of_json v11;
          x12 \<leftarrow> optional f64_of_json v12;
          x13 \<leftarrow> optional sword_of_json v13;
          x14 \<leftarrow> optional f64_of_json v14;
          x15 \<leftarrow> optional sword_of_json v15;
          Some \<lparr>auto_scale_policy_override_enabled = x1, auto_scale_policy_override_max_segments = x2,
            auto_scale_policy_override_min_segments = x3,
            auto_scale_policy_override_max_dag_depth = x4,
            auto_scale_policy_override_split_cooldown_seconds = x5,
            auto_scale_policy_override_merge_cooldown_seconds = x6,
            auto_scale_policy_override_merge_window_seconds = x7,
            auto_scale_policy_override_split_msg_rate_in_threshold = x8,
            auto_scale_policy_override_split_bytes_rate_in_threshold = x9,
            auto_scale_policy_override_split_msg_rate_out_threshold = x10,
            auto_scale_policy_override_split_bytes_rate_out_threshold = x11,
            auto_scale_policy_override_merge_msg_rate_in_threshold = x12,
            auto_scale_policy_override_merge_bytes_rate_in_threshold = x13,
            auto_scale_policy_override_merge_msg_rate_out_threshold = x14,
            auto_scale_policy_override_merge_bytes_rate_out_threshold = x15\<rparr>}
      | _ \<Rightarrow> None)"

definition auto_scale_policy_override_default :: auto_scale_policy_override where
  "auto_scale_policy_override_default = \<lparr>auto_scale_policy_override_enabled = None, auto_scale_policy_override_max_segments = None,
            auto_scale_policy_override_min_segments = None,
            auto_scale_policy_override_max_dag_depth = None,
            auto_scale_policy_override_split_cooldown_seconds = None,
            auto_scale_policy_override_merge_cooldown_seconds = None,
            auto_scale_policy_override_merge_window_seconds = None,
            auto_scale_policy_override_split_msg_rate_in_threshold = None,
            auto_scale_policy_override_split_bytes_rate_in_threshold = None,
            auto_scale_policy_override_split_msg_rate_out_threshold = None,
            auto_scale_policy_override_split_bytes_rate_out_threshold = None,
            auto_scale_policy_override_merge_msg_rate_in_threshold = None,
            auto_scale_policy_override_merge_bytes_rate_in_threshold = None,
            auto_scale_policy_override_merge_msg_rate_out_threshold = None,
            auto_scale_policy_override_merge_bytes_rate_out_threshold = None\<rparr>"

definition auto_scale_policy_override_good :: "auto_scale_policy_override \<Rightarrow> bool" where
  "auto_scale_policy_override_good x \<longleftrightarrow> pred_option is_finite (auto_scale_policy_override_split_msg_rate_in_threshold x)
     \<and> pred_option is_finite (auto_scale_policy_override_split_msg_rate_out_threshold x)
     \<and> pred_option is_finite (auto_scale_policy_override_merge_msg_rate_in_threshold x)
     \<and> pred_option is_finite (auto_scale_policy_override_merge_msg_rate_out_threshold x)"

lemma auto_scale_policy_override_names_distinct: "distinct auto_scale_policy_override_names"
  by code_simp

interpretation auto_scale_policy_override_codec: json_body auto_scale_policy_override_json auto_scale_policy_override_of_json auto_scale_policy_override_good
proof (rule json_bodyI)
  show "auto_scale_policy_override_of_json (auto_scale_policy_override_json x) = Some x" if "auto_scale_policy_override_good x" for x :: auto_scale_policy_override
    using that unfolding auto_scale_policy_override_of_json_def auto_scale_policy_override_json_def auto_scale_policy_override_good_def
    by (subst entries_of_obj [OF auto_scale_policy_override_names_distinct]) (simp_all add: auto_scale_policy_override_names_def)
  show "\<not> has_null (auto_scale_policy_override_json x)" if "auto_scale_policy_override_good x" for x :: auto_scale_policy_override
    using that unfolding auto_scale_policy_override_json_def auto_scale_policy_override_good_def by simp
qed

interpretation auth_action_set_codec: json_body "set_json auth_action_json" "set_of_json auth_action_of_json" "elements_good (\<lambda>_. True)"
  by (rule set_body [OF auth_action_codec.json_body_axioms])

interpretation auth_action_set_map_codec: json_body "map_json (set_json auth_action_json)" "map_of_json (set_of_json auth_action_of_json)" "entries_good (elements_good (\<lambda>_. True))"
  by (rule map_body [OF auth_action_set_codec.json_body_axioms])

interpretation auth_action_set_map_map_codec: json_body "map_json (map_json (set_json auth_action_json))" "map_of_json (map_of_json (set_of_json auth_action_of_json))" "entries_good (entries_good (elements_good (\<lambda>_. True)))"
  by (rule map_body [OF auth_action_set_map_codec.json_body_axioms])

interpretation str_set_map_codec: json_body "map_json (set_json str_json)" "map_of_json (set_of_json str_of_json)" "entries_good (elements_good (\<lambda>_. True))"
  by (rule map_body [OF str_set_codec.json_body_axioms])

record auth_policies =
  auth_policies_namespace_auth :: "(string \<times> auth_action list) list"
  auth_policies_destination_auth :: "(string \<times> (string \<times> auth_action list) list) list"
  auth_policies_subscription_auth_roles :: "(string \<times> string list) list"

definition auth_policies_names :: "string list" where
  "auth_policies_names = [''namespace_auth'', ''destination_auth'', ''subscription_auth_roles'']"

definition auth_policies_json :: "auth_policies \<Rightarrow> json" where
  "auth_policies_json x = obj [
     (''namespace_auth'', Some (map_json (set_json auth_action_json) (auth_policies_namespace_auth x))),
     (''destination_auth'', Some (map_json (map_json (set_json auth_action_json)) (auth_policies_destination_auth x))),
     (''subscription_auth_roles'', Some (map_json (set_json str_json) (auth_policies_subscription_auth_roles x)))]"

definition auth_policies_of_json :: "json \<Rightarrow> auth_policies option" where
  "auth_policies_of_json j =
     (case entries_named auth_policies_names j of
        Some [v1, v2, v3] \<Rightarrow> do {
          x1 \<leftarrow> defaulted [] (map_of_json (set_of_json auth_action_of_json)) v1;
          x2 \<leftarrow> defaulted [] (map_of_json (map_of_json (set_of_json auth_action_of_json))) v2;
          x3 \<leftarrow> defaulted [] (map_of_json (set_of_json str_of_json)) v3;
          Some \<lparr>auth_policies_namespace_auth = x1, auth_policies_destination_auth = x2,
            auth_policies_subscription_auth_roles = x3\<rparr>}
      | _ \<Rightarrow> None)"

definition auth_policies_default :: auth_policies where
  "auth_policies_default = \<lparr>auth_policies_namespace_auth = [], auth_policies_destination_auth = [],
            auth_policies_subscription_auth_roles = []\<rparr>"

definition auth_policies_good :: "auth_policies \<Rightarrow> bool" where
  "auth_policies_good x \<longleftrightarrow> entries_good (elements_good (\<lambda>_. True)) (auth_policies_namespace_auth x)
     \<and> entries_good (entries_good (elements_good (\<lambda>_. True))) (auth_policies_destination_auth x)
     \<and> entries_good (elements_good (\<lambda>_. True)) (auth_policies_subscription_auth_roles x)"

lemma auth_policies_names_distinct: "distinct auth_policies_names"
  by code_simp

interpretation auth_policies_codec: json_body auth_policies_json auth_policies_of_json auth_policies_good
proof (rule json_bodyI)
  show "auth_policies_of_json (auth_policies_json x) = Some x" if "auth_policies_good x" for x :: auth_policies
    using that unfolding auth_policies_of_json_def auth_policies_json_def auth_policies_good_def
    by (subst entries_of_obj [OF auth_policies_names_distinct]) (simp_all add: auth_policies_names_def)
  show "\<not> has_null (auth_policies_json x)" if "auth_policies_good x" for x :: auth_policies
    using that unfolding auth_policies_json_def auth_policies_good_def by simp
qed

interpretation backlog_quota_map_codec: json_body "map_json backlog_quota_json" "map_of_json backlog_quota_of_json" "entries_good (\<lambda>_. True)"
  by (rule map_body [OF backlog_quota_codec.json_body_axioms])

interpretation dispatch_rate_map_codec: json_body "map_json dispatch_rate_json" "map_of_json dispatch_rate_of_json" "entries_good (\<lambda>_. True)"
  by (rule map_body [OF dispatch_rate_codec.json_body_axioms])

interpretation subscribe_rate_map_codec: json_body "map_json subscribe_rate_json" "map_of_json subscribe_rate_of_json" "entries_good (\<lambda>_. True)"
  by (rule map_body [OF subscribe_rate_codec.json_body_axioms])

interpretation publish_rate_map_codec: json_body "map_json publish_rate_json" "map_of_json publish_rate_of_json" "entries_good (\<lambda>_. True)"
  by (rule map_body [OF publish_rate_codec.json_body_axioms])

record policies =
  policies_auth_policies :: "auth_policies"
  policies_replication_clusters :: "string list"
  policies_allowed_clusters :: "string list"
  policies_bundles :: "bundles_data option"
  policies_backlog_quota_map :: "(string \<times> backlog_quota) list"
  policies_cluster_dispatch_rate :: "(string \<times> dispatch_rate) list"
  policies_topic_dispatch_rate :: "(string \<times> dispatch_rate) list"
  policies_subscription_dispatch_rate :: "(string \<times> dispatch_rate) list"
  policies_replicator_dispatch_rate :: "(string \<times> dispatch_rate) list"
  policies_cluster_subscribe_rate :: "(string \<times> subscribe_rate) list"
  policies_publish_max_message_rate :: "(string \<times> publish_rate) list"
  policies_persistence :: "persistence_policies option"
  policies_deduplication_enabled :: "bool option"
  policies_auto_topic_creation_override :: "auto_topic_creation_override option"
  policies_auto_subscription_creation_override :: "auto_subscription_creation_override option"
  policies_scalable_topic_auto_scale_policy :: "auto_scale_policy_override option"
  policies_latency_stats_sample_rate :: "(string \<times> 32 word) list"
  policies_message_ttl_in_seconds :: "32 word option"
  policies_subscription_expiration_time_minutes :: "32 word option"
  policies_retention_policies :: "retention_policies option"
  policies_deleted :: "bool"
  policies_encryption_required :: "bool"
  policies_delayed_delivery_policies :: "delayed_delivery_policies option"
  policies_inactive_topic_policies :: "inactive_topic_policies option"
  policies_subscription_auth_mode :: "subscription_auth_mode"
  policies_max_producers_per_topic :: "32 word option"
  policies_max_consumers_per_topic :: "32 word option"
  policies_max_consumers_per_subscription :: "32 word option"
  policies_max_unacked_messages_per_consumer :: "32 word option"
  policies_max_unacked_messages_per_subscription :: "32 word option"
  policies_max_subscriptions_per_topic :: "32 word option"
  policies_compaction_threshold :: "64 word option"
  policies_offload_threshold :: "64 word"
  policies_offload_threshold_in_seconds :: "64 word"
  policies_offload_deletion_lag_ms :: "64 word option"
  policies_max_topics_per_namespace :: "32 word option"
  policies_schema_auto_update_compatibility_strategy :: "string option"
  policies_schema_compatibility_strategy :: "schema_compatibility_strategy"
  policies_is_allow_auto_update_schema :: "bool option"
  policies_is_allow_auto_update_schema_with_replicator :: "bool option"
  policies_schema_validation_enforced :: "bool"
  policies_offload_policies :: "offload_policies option"
  policies_deduplication_snapshot_interval_seconds :: "32 word option"
  policies_subscription_types_enabled :: "string list"
  policies_allowed_topic_property_keys_for_metrics :: "string list"
  policies_properties :: "(string \<times> string) list"
  policies_resource_group_name :: "string option"
  policies_migrated :: "bool"
  policies_dispatcher_pause_on_ack_state_persistent_enabled :: "bool option"
  policies_entry_filters :: "entry_filters option"

definition policies_names :: "string list" where
  "policies_names = [''auth_policies'', ''replication_clusters'', ''allowed_clusters'', ''bundles'',
     ''backlog_quota_map'', ''clusterDispatchRate'', ''topicDispatchRate'',
     ''subscriptionDispatchRate'', ''replicatorDispatchRate'', ''clusterSubscribeRate'',
     ''publishMaxMessageRate'', ''persistence'', ''deduplicationEnabled'',
     ''autoTopicCreationOverride'', ''autoSubscriptionCreationOverride'',
     ''scalableTopicAutoScalePolicy'', ''latency_stats_sample_rate'',
     ''message_ttl_in_seconds'', ''subscription_expiration_time_minutes'',
     ''retention_policies'', ''deleted'', ''encryption_required'',
     ''delayed_delivery_policies'', ''inactive_topic_policies'', ''subscription_auth_mode'',
     ''max_producers_per_topic'', ''max_consumers_per_topic'',
     ''max_consumers_per_subscription'', ''max_unacked_messages_per_consumer'',
     ''max_unacked_messages_per_subscription'', ''max_subscriptions_per_topic'',
     ''compaction_threshold'', ''offload_threshold'', ''offload_threshold_in_seconds'',
     ''offload_deletion_lag_ms'', ''max_topics_per_namespace'',
     ''schema_auto_update_compatibility_strategy'', ''schema_compatibility_strategy'',
     ''is_allow_auto_update_schema'', ''is_allow_auto_update_schema_with_replicator'',
     ''schema_validation_enforced'', ''offload_policies'',
     ''deduplicationSnapshotIntervalSeconds'', ''subscription_types_enabled'',
     ''allowed_topic_property_keys_for_metrics'', ''properties'', ''resource_group_name'',
     ''migrated'', ''dispatcherPauseOnAckStatePersistentEnabled'', ''entryFilters'']"

definition policies_json :: "policies \<Rightarrow> json" where
  "policies_json x = obj [
     (''auth_policies'', Some (auth_policies_json (policies_auth_policies x))),
     (''replication_clusters'', Some (set_json str_json (policies_replication_clusters x))),
     (''allowed_clusters'', Some (set_json str_json (policies_allowed_clusters x))),
     (''bundles'', if_some bundles_data_json (policies_bundles x)),
     (''backlog_quota_map'', Some (map_json backlog_quota_json (policies_backlog_quota_map x))),
     (''clusterDispatchRate'', Some (map_json dispatch_rate_json (policies_cluster_dispatch_rate x))),
     (''topicDispatchRate'', Some (map_json dispatch_rate_json (policies_topic_dispatch_rate x))),
     (''subscriptionDispatchRate'', Some (map_json dispatch_rate_json (policies_subscription_dispatch_rate x))),
     (''replicatorDispatchRate'', Some (map_json dispatch_rate_json (policies_replicator_dispatch_rate x))),
     (''clusterSubscribeRate'', Some (map_json subscribe_rate_json (policies_cluster_subscribe_rate x))),
     (''publishMaxMessageRate'', Some (map_json publish_rate_json (policies_publish_max_message_rate x))),
     (''persistence'', if_some persistence_policies_json (policies_persistence x)),
     (''deduplicationEnabled'', if_some JBool (policies_deduplication_enabled x)),
     (''autoTopicCreationOverride'', if_some auto_topic_creation_override_json (policies_auto_topic_creation_override x)),
     (''autoSubscriptionCreationOverride'', if_some auto_subscription_creation_override_json (policies_auto_subscription_creation_override x)),
     (''scalableTopicAutoScalePolicy'', if_some auto_scale_policy_override_json (policies_scalable_topic_auto_scale_policy x)),
     (''latency_stats_sample_rate'', Some (map_json sword_json (policies_latency_stats_sample_rate x))),
     (''message_ttl_in_seconds'', if_some sword_json (policies_message_ttl_in_seconds x)),
     (''subscription_expiration_time_minutes'', if_some sword_json (policies_subscription_expiration_time_minutes x)),
     (''retention_policies'', if_some retention_policies_json (policies_retention_policies x)),
     (''deleted'', Some (JBool (policies_deleted x))),
     (''encryption_required'', Some (JBool (policies_encryption_required x))),
     (''delayed_delivery_policies'', if_some delayed_delivery_policies_json (policies_delayed_delivery_policies x)),
     (''inactive_topic_policies'', if_some inactive_topic_policies_json (policies_inactive_topic_policies x)),
     (''subscription_auth_mode'', Some (subscription_auth_mode_json (policies_subscription_auth_mode x))),
     (''max_producers_per_topic'', if_some sword_json (policies_max_producers_per_topic x)),
     (''max_consumers_per_topic'', if_some sword_json (policies_max_consumers_per_topic x)),
     (''max_consumers_per_subscription'', if_some sword_json (policies_max_consumers_per_subscription x)),
     (''max_unacked_messages_per_consumer'', if_some sword_json (policies_max_unacked_messages_per_consumer x)),
     (''max_unacked_messages_per_subscription'', if_some sword_json (policies_max_unacked_messages_per_subscription x)),
     (''max_subscriptions_per_topic'', if_some sword_json (policies_max_subscriptions_per_topic x)),
     (''compaction_threshold'', if_some sword_json (policies_compaction_threshold x)),
     (''offload_threshold'', Some (sword_json (policies_offload_threshold x))),
     (''offload_threshold_in_seconds'', Some (sword_json (policies_offload_threshold_in_seconds x))),
     (''offload_deletion_lag_ms'', if_some sword_json (policies_offload_deletion_lag_ms x)),
     (''max_topics_per_namespace'', if_some sword_json (policies_max_topics_per_namespace x)),
     (''schema_auto_update_compatibility_strategy'', if_some str_json (policies_schema_auto_update_compatibility_strategy x)),
     (''schema_compatibility_strategy'', Some (schema_compatibility_strategy_json (policies_schema_compatibility_strategy x))),
     (''is_allow_auto_update_schema'', if_some JBool (policies_is_allow_auto_update_schema x)),
     (''is_allow_auto_update_schema_with_replicator'', if_some JBool (policies_is_allow_auto_update_schema_with_replicator x)),
     (''schema_validation_enforced'', Some (JBool (policies_schema_validation_enforced x))),
     (''offload_policies'', if_some offload_policies_json (policies_offload_policies x)),
     (''deduplicationSnapshotIntervalSeconds'', if_some sword_json (policies_deduplication_snapshot_interval_seconds x)),
     (''subscription_types_enabled'', Some (set_json str_json (policies_subscription_types_enabled x))),
     (''allowed_topic_property_keys_for_metrics'', Some (set_json str_json (policies_allowed_topic_property_keys_for_metrics x))),
     (''properties'', Some (map_json str_json (policies_properties x))),
     (''resource_group_name'', if_some str_json (policies_resource_group_name x)),
     (''migrated'', Some (JBool (policies_migrated x))),
     (''dispatcherPauseOnAckStatePersistentEnabled'', if_some JBool (policies_dispatcher_pause_on_ack_state_persistent_enabled x)),
     (''entryFilters'', if_some entry_filters_json (policies_entry_filters x))]"

definition policies_of_json :: "json \<Rightarrow> policies option" where
  "policies_of_json j =
     (case entries_named policies_names j of
        Some [v1, v2, v3, v4, v5, v6, v7, v8, v9, v10, v11, v12, v13, v14, v15, v16, v17, v18, v19, v20,
              v21, v22, v23, v24, v25, v26, v27, v28, v29, v30, v31, v32, v33, v34, v35, v36, v37, v38,
              v39, v40, v41, v42, v43, v44, v45, v46, v47, v48, v49, v50] \<Rightarrow> do {
          x1 \<leftarrow> defaulted auth_policies_default auth_policies_of_json v1;
          x2 \<leftarrow> defaulted [] (set_of_json str_of_json) v2;
          x3 \<leftarrow> defaulted [] (set_of_json str_of_json) v3;
          x4 \<leftarrow> optional bundles_data_of_json v4;
          x5 \<leftarrow> defaulted [] (map_of_json backlog_quota_of_json) v5;
          x6 \<leftarrow> defaulted [] (map_of_json dispatch_rate_of_json) v6;
          x7 \<leftarrow> defaulted [] (map_of_json dispatch_rate_of_json) v7;
          x8 \<leftarrow> defaulted [] (map_of_json dispatch_rate_of_json) v8;
          x9 \<leftarrow> defaulted [] (map_of_json dispatch_rate_of_json) v9;
          x10 \<leftarrow> defaulted [] (map_of_json subscribe_rate_of_json) v10;
          x11 \<leftarrow> defaulted [] (map_of_json publish_rate_of_json) v11;
          x12 \<leftarrow> optional persistence_policies_of_json v12;
          x13 \<leftarrow> optional bool_of_json v13;
          x14 \<leftarrow> optional auto_topic_creation_override_of_json v14;
          x15 \<leftarrow> optional auto_subscription_creation_override_of_json v15;
          x16 \<leftarrow> optional auto_scale_policy_override_of_json v16;
          x17 \<leftarrow> defaulted [] (map_of_json sword_of_json) v17;
          x18 \<leftarrow> optional sword_of_json v18;
          x19 \<leftarrow> optional sword_of_json v19;
          x20 \<leftarrow> optional retention_policies_of_json v20;
          x21 \<leftarrow> defaulted False bool_of_json v21;
          x22 \<leftarrow> defaulted False bool_of_json v22;
          x23 \<leftarrow> optional delayed_delivery_policies_of_json v23;
          x24 \<leftarrow> optional inactive_topic_policies_of_json v24;
          x25 \<leftarrow> defaulted subscription_auth_mode_default subscription_auth_mode_of_json v25;
          x26 \<leftarrow> optional sword_of_json v26;
          x27 \<leftarrow> optional sword_of_json v27;
          x28 \<leftarrow> optional sword_of_json v28;
          x29 \<leftarrow> optional sword_of_json v29;
          x30 \<leftarrow> optional sword_of_json v30;
          x31 \<leftarrow> optional sword_of_json v31;
          x32 \<leftarrow> optional sword_of_json v32;
          x33 \<leftarrow> defaulted 0 sword_of_json v33;
          x34 \<leftarrow> defaulted 0 sword_of_json v34;
          x35 \<leftarrow> optional sword_of_json v35;
          x36 \<leftarrow> optional sword_of_json v36;
          x37 \<leftarrow> optional str_of_json v37;
          x38 \<leftarrow> defaulted schema_compatibility_strategy_default schema_compatibility_strategy_of_json v38;
          x39 \<leftarrow> optional bool_of_json v39;
          x40 \<leftarrow> optional bool_of_json v40;
          x41 \<leftarrow> defaulted False bool_of_json v41;
          x42 \<leftarrow> optional offload_policies_of_json v42;
          x43 \<leftarrow> optional sword_of_json v43;
          x44 \<leftarrow> defaulted [] (set_of_json str_of_json) v44;
          x45 \<leftarrow> defaulted [] (set_of_json str_of_json) v45;
          x46 \<leftarrow> defaulted [] (map_of_json str_of_json) v46;
          x47 \<leftarrow> optional str_of_json v47;
          x48 \<leftarrow> defaulted False bool_of_json v48;
          x49 \<leftarrow> optional bool_of_json v49;
          x50 \<leftarrow> optional entry_filters_of_json v50;
          Some \<lparr>policies_auth_policies = x1, policies_replication_clusters = x2,
            policies_allowed_clusters = x3, policies_bundles = x4, policies_backlog_quota_map = x5,
            policies_cluster_dispatch_rate = x6, policies_topic_dispatch_rate = x7,
            policies_subscription_dispatch_rate = x8, policies_replicator_dispatch_rate = x9,
            policies_cluster_subscribe_rate = x10, policies_publish_max_message_rate = x11,
            policies_persistence = x12, policies_deduplication_enabled = x13,
            policies_auto_topic_creation_override = x14,
            policies_auto_subscription_creation_override = x15,
            policies_scalable_topic_auto_scale_policy = x16, policies_latency_stats_sample_rate = x17,
            policies_message_ttl_in_seconds = x18, policies_subscription_expiration_time_minutes = x19,
            policies_retention_policies = x20, policies_deleted = x21,
            policies_encryption_required = x22, policies_delayed_delivery_policies = x23,
            policies_inactive_topic_policies = x24, policies_subscription_auth_mode = x25,
            policies_max_producers_per_topic = x26, policies_max_consumers_per_topic = x27,
            policies_max_consumers_per_subscription = x28,
            policies_max_unacked_messages_per_consumer = x29,
            policies_max_unacked_messages_per_subscription = x30,
            policies_max_subscriptions_per_topic = x31, policies_compaction_threshold = x32,
            policies_offload_threshold = x33, policies_offload_threshold_in_seconds = x34,
            policies_offload_deletion_lag_ms = x35, policies_max_topics_per_namespace = x36,
            policies_schema_auto_update_compatibility_strategy = x37,
            policies_schema_compatibility_strategy = x38, policies_is_allow_auto_update_schema = x39,
            policies_is_allow_auto_update_schema_with_replicator = x40,
            policies_schema_validation_enforced = x41, policies_offload_policies = x42,
            policies_deduplication_snapshot_interval_seconds = x43,
            policies_subscription_types_enabled = x44,
            policies_allowed_topic_property_keys_for_metrics = x45, policies_properties = x46,
            policies_resource_group_name = x47, policies_migrated = x48,
            policies_dispatcher_pause_on_ack_state_persistent_enabled = x49,
            policies_entry_filters = x50\<rparr>}
      | _ \<Rightarrow> None)"

definition policies_default :: policies where
  "policies_default = \<lparr>policies_auth_policies = auth_policies_default, policies_replication_clusters = [],
            policies_allowed_clusters = [], policies_bundles = None, policies_backlog_quota_map = [],
            policies_cluster_dispatch_rate = [], policies_topic_dispatch_rate = [],
            policies_subscription_dispatch_rate = [], policies_replicator_dispatch_rate = [],
            policies_cluster_subscribe_rate = [], policies_publish_max_message_rate = [],
            policies_persistence = None, policies_deduplication_enabled = None,
            policies_auto_topic_creation_override = None,
            policies_auto_subscription_creation_override = None,
            policies_scalable_topic_auto_scale_policy = None, policies_latency_stats_sample_rate = [],
            policies_message_ttl_in_seconds = None,
            policies_subscription_expiration_time_minutes = None, policies_retention_policies = None,
            policies_deleted = False, policies_encryption_required = False,
            policies_delayed_delivery_policies = None, policies_inactive_topic_policies = None,
            policies_subscription_auth_mode = subscription_auth_mode_default,
            policies_max_producers_per_topic = None, policies_max_consumers_per_topic = None,
            policies_max_consumers_per_subscription = None,
            policies_max_unacked_messages_per_consumer = None,
            policies_max_unacked_messages_per_subscription = None,
            policies_max_subscriptions_per_topic = None, policies_compaction_threshold = None,
            policies_offload_threshold = 0, policies_offload_threshold_in_seconds = 0,
            policies_offload_deletion_lag_ms = None, policies_max_topics_per_namespace = None,
            policies_schema_auto_update_compatibility_strategy = None,
            policies_schema_compatibility_strategy = schema_compatibility_strategy_default,
            policies_is_allow_auto_update_schema = None,
            policies_is_allow_auto_update_schema_with_replicator = None,
            policies_schema_validation_enforced = False, policies_offload_policies = None,
            policies_deduplication_snapshot_interval_seconds = None,
            policies_subscription_types_enabled = [],
            policies_allowed_topic_property_keys_for_metrics = [], policies_properties = [],
            policies_resource_group_name = None, policies_migrated = False,
            policies_dispatcher_pause_on_ack_state_persistent_enabled = None,
            policies_entry_filters = None\<rparr>"

definition policies_good :: "policies \<Rightarrow> bool" where
  "policies_good x \<longleftrightarrow> auth_policies_good (policies_auth_policies x)
     \<and> elements_good (\<lambda>_. True) (policies_replication_clusters x)
     \<and> elements_good (\<lambda>_. True) (policies_allowed_clusters x)
     \<and> entries_good (\<lambda>_. True) (policies_backlog_quota_map x)
     \<and> entries_good (\<lambda>_. True) (policies_cluster_dispatch_rate x)
     \<and> entries_good (\<lambda>_. True) (policies_topic_dispatch_rate x)
     \<and> entries_good (\<lambda>_. True) (policies_subscription_dispatch_rate x)
     \<and> entries_good (\<lambda>_. True) (policies_replicator_dispatch_rate x)
     \<and> entries_good (\<lambda>_. True) (policies_cluster_subscribe_rate x)
     \<and> entries_good (\<lambda>_. True) (policies_publish_max_message_rate x)
     \<and> pred_option persistence_policies_good (policies_persistence x)
     \<and> pred_option auto_scale_policy_override_good (policies_scalable_topic_auto_scale_policy x)
     \<and> entries_good (\<lambda>_. True) (policies_latency_stats_sample_rate x)
     \<and> pred_option delayed_delivery_policies_good (policies_delayed_delivery_policies x)
     \<and> pred_option offload_policies_good (policies_offload_policies x)
     \<and> elements_good (\<lambda>_. True) (policies_subscription_types_enabled x)
     \<and> elements_good (\<lambda>_. True) (policies_allowed_topic_property_keys_for_metrics x)
     \<and> entries_good (\<lambda>_. True) (policies_properties x)"

lemma policies_names_distinct: "distinct policies_names"
  by code_simp

interpretation policies_codec: json_body policies_json policies_of_json policies_good
proof (rule json_bodyI)
  show "policies_of_json (policies_json x) = Some x" if "policies_good x" for x :: policies
    using that unfolding policies_of_json_def policies_json_def policies_good_def
    by (subst entries_of_obj [OF policies_names_distinct]) (simp_all add: policies_names_def)
  show "\<not> has_null (policies_json x)" if "policies_good x" for x :: policies
    using that unfolding policies_json_def policies_good_def by simp
qed

section \<open>Constructors\<close>

definition cluster_data_with_service_url :: "string \<Rightarrow> cluster_data" where
  "cluster_data_with_service_url url = cluster_data_default\<lparr>cluster_data_service_url := Some url\<rparr>"

definition tenant_info_with_clusters :: "string list \<Rightarrow> tenant_info" where
  "tenant_info_with_clusters clusters =
     \<lparr>tenant_info_admin_roles = [], tenant_info_allowed_clusters = btree_set clusters\<rparr>"

text \<open>A cluster that is only given a service URL is written as just that.\<close>

lemma cluster_data_omits_unset_fields:
  "cluster_data_json (cluster_data_with_service_url url) = JObj [(''serviceUrl'', JStr url)]"
  by (simp add: cluster_data_json_def cluster_data_with_service_url_def cluster_data_default_def
      if_some_def obj_def map_filter_simps str_json_def)

lemma tenant_info_with_clusters_good: "tenant_info_good (tenant_info_with_clusters clusters)"
  using btree_of_list_ascends [of "map (\<lambda>x. (x, ())) clusters"]
  by (simp add: tenant_info_good_def tenant_info_with_clusters_def elements_good_def btree_set_def
      list_all_iff)

text \<open>A rate that is not a number is written as null, and the document cannot be read again.\<close>

lemma nan_rate_is_written_as_null:
  "\<not> is_finite (persistence_policies_managed_ledger_max_mark_delete_rate p) \<Longrightarrow>
    has_null (persistence_policies_json p) \<and> persistence_policies_of_json (persistence_policies_json p) = None"
  unfolding persistence_policies_of_json_def persistence_policies_json_def
  by (subst entries_of_obj [OF persistence_policies_names_distinct])
    (simp_all add: persistence_policies_names_def f64_json_def)

section \<open>The policies of a namespace\<close>

text \<open>
  C17. The policies of a namespace are read back as they were written: with finite rates, and maps
  and sets in the order of their keys, none of its 50 entries is lost or changed on the way, which
  rests on every policy being written under a name of its own and read under that name. An entry
  the reader does not know changes nothing.
\<close>

theorem policies_are_read_back:
  assumes "policies_good p"
  shows "policies_of_json (policies_json p) = Some p
    \<and> (k \<notin> set policies_names \<longrightarrow>
         policies_of_json (JObj (kvs @ (k, j) # kvs')) = policies_of_json (JObj (kvs @ kvs')))"
  using policies_codec.read_back [OF assms]
  by (simp add: policies_of_json_def unknown_entries_are_ignored del: entries_named.simps)

definition example_policies :: policies where
  "example_policies = policies_default\<lparr>
     policies_replication_clusters := [''east'', ''west''],
     policies_retention_policies := Some \<lparr>retention_policies_retention_time_in_minutes = - 1,
       retention_policies_retention_size_in_mb = 512\<rparr>,
     policies_offload_policies := Some (offload_policies_default\<lparr>
       offload_policies_managed_ledger_offloaded_read_priority := Some TieredStorageFirst\<rparr>)\<rparr>"

lemma example_policies_good: "policies_good example_policies"
  by (simp add: policies_good_def example_policies_def policies_default_def auth_policies_good_def
      auth_policies_default_def offload_policies_good_def offload_policies_default_def
      elements_good_def entries_good_def)

theorem policies_are_read_back_witness:
  "policies_of_json (policies_json example_policies) = Some example_policies
    \<and> policies_of_json (JObj ([] @ (''zone'', JNull) # [(''deleted'', JBool True)]))
      = policies_of_json (JObj ([] @ [(''deleted'', JBool True)]))"
proof -
  have "''zone'' \<notin> set policies_names" by code_simp
  then show ?thesis
    using policies_are_read_back [OF example_policies_good, of "''zone''" "[]" JNull "[(''deleted'', JBool True)]"]
    by blast
qed

end
