(* ===== verification/Models_Stats.thy ===== *)
theory Models_Stats
  imports Serde
begin

text \<open>
  The documents of topics: metadata, statistics, schemas and lookups (\<open>admin/models.rs\<close>,
  lines 1241 to 1918). Each struct is a record; beside it stand the names of its
  fields in a document, how it is written and how it is read, field by field as the attributes
  say, and its interpretation as a type that is read back as written. \<open>good\<close> collects what that
  needs: finite doubles, and maps and sets in the order of their keys.
\<close>

record partitioned_topic_metadata =
  partitioned_topic_metadata_partitions :: "32 word"
  partitioned_topic_metadata_deleted :: "bool"
  partitioned_topic_metadata_properties :: "(string \<times> string) list"

definition partitioned_topic_metadata_names :: "string list" where
  "partitioned_topic_metadata_names = [''partitions'', ''deleted'', ''properties'']"

definition partitioned_topic_metadata_json :: "partitioned_topic_metadata \<Rightarrow> json" where
  "partitioned_topic_metadata_json x = obj [
     (''partitions'', Some (sword_json (partitioned_topic_metadata_partitions x))),
     (''deleted'', Some (JBool (partitioned_topic_metadata_deleted x))),
     (''properties'', if_any (map_json str_json) (partitioned_topic_metadata_properties x))]"

definition partitioned_topic_metadata_of_json :: "json \<Rightarrow> partitioned_topic_metadata option" where
  "partitioned_topic_metadata_of_json j =
     (case entries_named partitioned_topic_metadata_names j of
        Some [v1, v2, v3] \<Rightarrow> do {
          x1 \<leftarrow> defaulted 0 sword_of_json v1;
          x2 \<leftarrow> defaulted False bool_of_json v2;
          x3 \<leftarrow> defaulted [] (map_of_json str_of_json) v3;
          Some \<lparr>partitioned_topic_metadata_partitions = x1, partitioned_topic_metadata_deleted = x2,
            partitioned_topic_metadata_properties = x3\<rparr>}
      | _ \<Rightarrow> None)"

definition partitioned_topic_metadata_good :: "partitioned_topic_metadata \<Rightarrow> bool" where
  "partitioned_topic_metadata_good x \<longleftrightarrow> entries_good (\<lambda>_. True) (partitioned_topic_metadata_properties x)"

lemma partitioned_topic_metadata_names_distinct: "distinct partitioned_topic_metadata_names"
  by code_simp

interpretation partitioned_topic_metadata_codec: json_body partitioned_topic_metadata_json partitioned_topic_metadata_of_json partitioned_topic_metadata_good
proof (rule json_bodyI)
  show "partitioned_topic_metadata_of_json (partitioned_topic_metadata_json x) = Some x" if "partitioned_topic_metadata_good x" for x :: partitioned_topic_metadata
    using that unfolding partitioned_topic_metadata_of_json_def partitioned_topic_metadata_json_def partitioned_topic_metadata_good_def
    by (subst entries_of_obj [OF partitioned_topic_metadata_names_distinct]) (simp_all add: partitioned_topic_metadata_names_def)
  show "\<not> has_null (partitioned_topic_metadata_json x)" if "partitioned_topic_metadata_good x" for x :: partitioned_topic_metadata
    using that unfolding partitioned_topic_metadata_json_def partitioned_topic_metadata_good_def by simp
qed

record admin_message_id =
  admin_message_id_ledger_id :: "64 word"
  admin_message_id_entry_id :: "64 word"
  admin_message_id_partition_index :: "32 word"
  admin_message_id_batch_index :: "32 word"
  admin_message_id_batch_size :: "32 word"

definition admin_message_id_names :: "string list" where
  "admin_message_id_names = [''ledgerId'', ''entryId'', ''partitionIndex'', ''batchIndex'', ''batchSize'']"

definition admin_message_id_json :: "admin_message_id \<Rightarrow> json" where
  "admin_message_id_json x = obj [
     (''ledgerId'', Some (sword_json (admin_message_id_ledger_id x))),
     (''entryId'', Some (sword_json (admin_message_id_entry_id x))),
     (''partitionIndex'', Some (sword_json (admin_message_id_partition_index x))),
     (''batchIndex'', Some (sword_json (admin_message_id_batch_index x))),
     (''batchSize'', Some (sword_json (admin_message_id_batch_size x)))]"

definition admin_message_id_of_json :: "json \<Rightarrow> admin_message_id option" where
  "admin_message_id_of_json j =
     (case entries_named admin_message_id_names j of
        Some [v1, v2, v3, v4, v5] \<Rightarrow> do {
          x1 \<leftarrow> needed sword_of_json v1;
          x2 \<leftarrow> needed sword_of_json v2;
          x3 \<leftarrow> defaulted 0 sword_of_json v3;
          x4 \<leftarrow> defaulted 0 sword_of_json v4;
          x5 \<leftarrow> defaulted 0 sword_of_json v5;
          Some \<lparr>admin_message_id_ledger_id = x1, admin_message_id_entry_id = x2,
            admin_message_id_partition_index = x3, admin_message_id_batch_index = x4,
            admin_message_id_batch_size = x5\<rparr>}
      | _ \<Rightarrow> None)"

definition admin_message_id_default :: admin_message_id where
  "admin_message_id_default = \<lparr>admin_message_id_ledger_id = 0, admin_message_id_entry_id = 0,
            admin_message_id_partition_index = 0, admin_message_id_batch_index = 0,
            admin_message_id_batch_size = 0\<rparr>"

lemma admin_message_id_names_distinct: "distinct admin_message_id_names"
  by code_simp

interpretation admin_message_id_codec: json_body admin_message_id_json admin_message_id_of_json "\<lambda>_. True"
proof (rule json_bodyI)
  show "admin_message_id_of_json (admin_message_id_json x) = Some x" for x :: admin_message_id
    unfolding admin_message_id_of_json_def admin_message_id_json_def
    by (subst entries_of_obj [OF admin_message_id_names_distinct]) (simp_all add: admin_message_id_names_def)
  show "\<not> has_null (admin_message_id_json x)" for x :: admin_message_id
    unfolding admin_message_id_json_def by simp
qed

record long_running_process_status =
  long_running_process_status_status :: "string"
  long_running_process_status_last_error :: "string"

definition long_running_process_status_names :: "string list" where
  "long_running_process_status_names = [''status'', ''lastError'']"

definition long_running_process_status_json :: "long_running_process_status \<Rightarrow> json" where
  "long_running_process_status_json x = obj [
     (''status'', Some (str_json (long_running_process_status_status x))),
     (''lastError'', Some (str_json (long_running_process_status_last_error x)))]"

definition long_running_process_status_of_json :: "json \<Rightarrow> long_running_process_status option" where
  "long_running_process_status_of_json j =
     (case entries_named long_running_process_status_names j of
        Some [v1, v2] \<Rightarrow> do {
          x1 \<leftarrow> defaulted '''' str_of_json v1;
          x2 \<leftarrow> defaulted '''' str_of_json v2;
          Some \<lparr>long_running_process_status_status = x1, long_running_process_status_last_error = x2\<rparr>}
      | _ \<Rightarrow> None)"

lemma long_running_process_status_names_distinct: "distinct long_running_process_status_names"
  by code_simp

interpretation long_running_process_status_codec: json_body long_running_process_status_json long_running_process_status_of_json "\<lambda>_. True"
proof (rule json_bodyI)
  show "long_running_process_status_of_json (long_running_process_status_json x) = Some x" for x :: long_running_process_status
    unfolding long_running_process_status_of_json_def long_running_process_status_json_def
    by (subst entries_of_obj [OF long_running_process_status_names_distinct]) (simp_all add: long_running_process_status_names_def)
  show "\<not> has_null (long_running_process_status_json x)" for x :: long_running_process_status
    unfolding long_running_process_status_json_def by simp
qed

record offload_process_status =
  offload_process_status_status :: "string"
  offload_process_status_last_error :: "string"
  offload_process_status_first_unoffloaded_message :: "admin_message_id option"

definition offload_process_status_names :: "string list" where
  "offload_process_status_names = [''status'', ''lastError'', ''firstUnoffloadedMessage'']"

definition offload_process_status_json :: "offload_process_status \<Rightarrow> json" where
  "offload_process_status_json x = obj [
     (''status'', Some (str_json (offload_process_status_status x))),
     (''lastError'', Some (str_json (offload_process_status_last_error x))),
     (''firstUnoffloadedMessage'', if_some admin_message_id_json (offload_process_status_first_unoffloaded_message x))]"

definition offload_process_status_of_json :: "json \<Rightarrow> offload_process_status option" where
  "offload_process_status_of_json j =
     (case entries_named offload_process_status_names j of
        Some [v1, v2, v3] \<Rightarrow> do {
          x1 \<leftarrow> defaulted '''' str_of_json v1;
          x2 \<leftarrow> defaulted '''' str_of_json v2;
          x3 \<leftarrow> optional admin_message_id_of_json v3;
          Some \<lparr>offload_process_status_status = x1, offload_process_status_last_error = x2,
            offload_process_status_first_unoffloaded_message = x3\<rparr>}
      | _ \<Rightarrow> None)"

lemma offload_process_status_names_distinct: "distinct offload_process_status_names"
  by code_simp

interpretation offload_process_status_codec: json_body offload_process_status_json offload_process_status_of_json "\<lambda>_. True"
proof (rule json_bodyI)
  show "offload_process_status_of_json (offload_process_status_json x) = Some x" for x :: offload_process_status
    unfolding offload_process_status_of_json_def offload_process_status_json_def
    by (subst entries_of_obj [OF offload_process_status_names_distinct]) (simp_all add: offload_process_status_names_def)
  show "\<not> has_null (offload_process_status_json x)" for x :: offload_process_status
    unfolding offload_process_status_json_def by simp
qed

record publisher_stats =
  publisher_stats_producer_id :: "64 word option"
  publisher_stats_producer_name :: "string option"
  publisher_stats_msg_rate_in :: "f64"
  publisher_stats_msg_throughput_in :: "f64"
  publisher_stats_average_msg_size :: "f64"
  publisher_stats_chunked_message_rate :: "f64"
  publisher_stats_address :: "string option"
  publisher_stats_connected_since :: "string option"
  publisher_stats_client_version :: "string option"
  publisher_stats_access_mode :: "string option"
  publisher_stats_metadata :: "(string \<times> string) list"

definition publisher_stats_names :: "string list" where
  "publisher_stats_names = [''producerId'', ''producerName'', ''msgRateIn'', ''msgThroughputIn'', ''averageMsgSize'',
     ''chunkedMessageRate'', ''address'', ''connectedSince'', ''clientVersion'', ''accessMode'',
     ''metadata'']"

definition publisher_stats_json :: "publisher_stats \<Rightarrow> json" where
  "publisher_stats_json x = obj [
     (''producerId'', or_null sword_json (publisher_stats_producer_id x)),
     (''producerName'', or_null str_json (publisher_stats_producer_name x)),
     (''msgRateIn'', Some (f64_json (publisher_stats_msg_rate_in x))),
     (''msgThroughputIn'', Some (f64_json (publisher_stats_msg_throughput_in x))),
     (''averageMsgSize'', Some (f64_json (publisher_stats_average_msg_size x))),
     (''chunkedMessageRate'', Some (f64_json (publisher_stats_chunked_message_rate x))),
     (''address'', or_null str_json (publisher_stats_address x)),
     (''connectedSince'', or_null str_json (publisher_stats_connected_since x)),
     (''clientVersion'', or_null str_json (publisher_stats_client_version x)),
     (''accessMode'', or_null str_json (publisher_stats_access_mode x)),
     (''metadata'', Some (map_json str_json (publisher_stats_metadata x)))]"

definition publisher_stats_of_json :: "json \<Rightarrow> publisher_stats option" where
  "publisher_stats_of_json j =
     (case entries_named publisher_stats_names j of
        Some [v1, v2, v3, v4, v5, v6, v7, v8, v9, v10, v11] \<Rightarrow> do {
          x1 \<leftarrow> optional sword_of_json v1;
          x2 \<leftarrow> optional str_of_json v2;
          x3 \<leftarrow> defaulted (F64 0) f64_of_json v3;
          x4 \<leftarrow> defaulted (F64 0) f64_of_json v4;
          x5 \<leftarrow> defaulted (F64 0) f64_of_json v5;
          x6 \<leftarrow> defaulted (F64 0) f64_of_json v6;
          x7 \<leftarrow> optional str_of_json v7;
          x8 \<leftarrow> optional str_of_json v8;
          x9 \<leftarrow> optional str_of_json v9;
          x10 \<leftarrow> optional str_of_json v10;
          x11 \<leftarrow> defaulted [] (map_of_json str_of_json) v11;
          Some \<lparr>publisher_stats_producer_id = x1, publisher_stats_producer_name = x2,
            publisher_stats_msg_rate_in = x3, publisher_stats_msg_throughput_in = x4,
            publisher_stats_average_msg_size = x5, publisher_stats_chunked_message_rate = x6,
            publisher_stats_address = x7, publisher_stats_connected_since = x8,
            publisher_stats_client_version = x9, publisher_stats_access_mode = x10,
            publisher_stats_metadata = x11\<rparr>}
      | _ \<Rightarrow> None)"

definition publisher_stats_good :: "publisher_stats \<Rightarrow> bool" where
  "publisher_stats_good x \<longleftrightarrow> is_finite (publisher_stats_msg_rate_in x)
     \<and> is_finite (publisher_stats_msg_throughput_in x)
     \<and> is_finite (publisher_stats_average_msg_size x)
     \<and> is_finite (publisher_stats_chunked_message_rate x)
     \<and> entries_good (\<lambda>_. True) (publisher_stats_metadata x)"

lemma publisher_stats_names_distinct: "distinct publisher_stats_names"
  by code_simp

interpretation publisher_stats_codec: json_value publisher_stats_json publisher_stats_of_json publisher_stats_good
proof (rule json_valueI)
  show "publisher_stats_of_json (publisher_stats_json x) = Some x" if "publisher_stats_good x" for x :: publisher_stats
    using that unfolding publisher_stats_of_json_def publisher_stats_json_def publisher_stats_good_def
    by (subst entries_of_obj [OF publisher_stats_names_distinct]) (simp_all add: publisher_stats_names_def)
  show "publisher_stats_json x \<noteq> JNull" for x
    by (simp add: publisher_stats_json_def)
qed

record topic_consumer_stats =
  topic_consumer_stats_consumer_name :: "string option"
  topic_consumer_stats_msg_rate_out :: "f64"
  topic_consumer_stats_msg_throughput_out :: "f64"
  topic_consumer_stats_bytes_out_counter :: "64 word"
  topic_consumer_stats_msg_out_counter :: "64 word"
  topic_consumer_stats_msg_rate_redeliver :: "f64"
  topic_consumer_stats_message_ack_rate :: "f64"
  topic_consumer_stats_chunked_message_rate :: "f64"
  topic_consumer_stats_available_permits :: "32 word"
  topic_consumer_stats_unacked_messages :: "32 word"
  topic_consumer_stats_avg_messages_per_entry :: "32 word"
  topic_consumer_stats_blocked_consumer_on_unacked_msgs :: "bool"
  topic_consumer_stats_read_position_when_joining :: "string option"
  topic_consumer_stats_address :: "string option"
  topic_consumer_stats_connected_since :: "string option"
  topic_consumer_stats_client_version :: "string option"
  topic_consumer_stats_last_acked_timestamp :: "64 word"
  topic_consumer_stats_last_consumed_timestamp :: "64 word"
  topic_consumer_stats_metadata :: "(string \<times> string) list"

definition topic_consumer_stats_names :: "string list" where
  "topic_consumer_stats_names = [''consumerName'', ''msgRateOut'', ''msgThroughputOut'', ''bytesOutCounter'',
     ''msgOutCounter'', ''msgRateRedeliver'', ''messageAckRate'', ''chunkedMessageRate'',
     ''availablePermits'', ''unackedMessages'', ''avgMessagesPerEntry'',
     ''blockedConsumerOnUnackedMsgs'', ''readPositionWhenJoining'', ''address'',
     ''connectedSince'', ''clientVersion'', ''lastAckedTimestamp'', ''lastConsumedTimestamp'',
     ''metadata'']"

definition topic_consumer_stats_json :: "topic_consumer_stats \<Rightarrow> json" where
  "topic_consumer_stats_json x = obj [
     (''consumerName'', or_null str_json (topic_consumer_stats_consumer_name x)),
     (''msgRateOut'', Some (f64_json (topic_consumer_stats_msg_rate_out x))),
     (''msgThroughputOut'', Some (f64_json (topic_consumer_stats_msg_throughput_out x))),
     (''bytesOutCounter'', Some (sword_json (topic_consumer_stats_bytes_out_counter x))),
     (''msgOutCounter'', Some (sword_json (topic_consumer_stats_msg_out_counter x))),
     (''msgRateRedeliver'', Some (f64_json (topic_consumer_stats_msg_rate_redeliver x))),
     (''messageAckRate'', Some (f64_json (topic_consumer_stats_message_ack_rate x))),
     (''chunkedMessageRate'', Some (f64_json (topic_consumer_stats_chunked_message_rate x))),
     (''availablePermits'', Some (sword_json (topic_consumer_stats_available_permits x))),
     (''unackedMessages'', Some (sword_json (topic_consumer_stats_unacked_messages x))),
     (''avgMessagesPerEntry'', Some (sword_json (topic_consumer_stats_avg_messages_per_entry x))),
     (''blockedConsumerOnUnackedMsgs'', Some (JBool (topic_consumer_stats_blocked_consumer_on_unacked_msgs x))),
     (''readPositionWhenJoining'', or_null str_json (topic_consumer_stats_read_position_when_joining x)),
     (''address'', or_null str_json (topic_consumer_stats_address x)),
     (''connectedSince'', or_null str_json (topic_consumer_stats_connected_since x)),
     (''clientVersion'', or_null str_json (topic_consumer_stats_client_version x)),
     (''lastAckedTimestamp'', Some (sword_json (topic_consumer_stats_last_acked_timestamp x))),
     (''lastConsumedTimestamp'', Some (sword_json (topic_consumer_stats_last_consumed_timestamp x))),
     (''metadata'', Some (map_json str_json (topic_consumer_stats_metadata x)))]"

definition topic_consumer_stats_of_json :: "json \<Rightarrow> topic_consumer_stats option" where
  "topic_consumer_stats_of_json j =
     (case entries_named topic_consumer_stats_names j of
        Some [v1, v2, v3, v4, v5, v6, v7, v8, v9, v10, v11, v12, v13, v14, v15, v16, v17, v18, v19] \<Rightarrow> do {
          x1 \<leftarrow> optional str_of_json v1;
          x2 \<leftarrow> defaulted (F64 0) f64_of_json v2;
          x3 \<leftarrow> defaulted (F64 0) f64_of_json v3;
          x4 \<leftarrow> defaulted 0 sword_of_json v4;
          x5 \<leftarrow> defaulted 0 sword_of_json v5;
          x6 \<leftarrow> defaulted (F64 0) f64_of_json v6;
          x7 \<leftarrow> defaulted (F64 0) f64_of_json v7;
          x8 \<leftarrow> defaulted (F64 0) f64_of_json v8;
          x9 \<leftarrow> defaulted 0 sword_of_json v9;
          x10 \<leftarrow> defaulted 0 sword_of_json v10;
          x11 \<leftarrow> defaulted 0 sword_of_json v11;
          x12 \<leftarrow> defaulted False bool_of_json v12;
          x13 \<leftarrow> optional str_of_json v13;
          x14 \<leftarrow> optional str_of_json v14;
          x15 \<leftarrow> optional str_of_json v15;
          x16 \<leftarrow> optional str_of_json v16;
          x17 \<leftarrow> defaulted 0 sword_of_json v17;
          x18 \<leftarrow> defaulted 0 sword_of_json v18;
          x19 \<leftarrow> defaulted [] (map_of_json str_of_json) v19;
          Some \<lparr>topic_consumer_stats_consumer_name = x1, topic_consumer_stats_msg_rate_out = x2,
            topic_consumer_stats_msg_throughput_out = x3, topic_consumer_stats_bytes_out_counter = x4,
            topic_consumer_stats_msg_out_counter = x5, topic_consumer_stats_msg_rate_redeliver = x6,
            topic_consumer_stats_message_ack_rate = x7, topic_consumer_stats_chunked_message_rate = x8,
            topic_consumer_stats_available_permits = x9, topic_consumer_stats_unacked_messages = x10,
            topic_consumer_stats_avg_messages_per_entry = x11,
            topic_consumer_stats_blocked_consumer_on_unacked_msgs = x12,
            topic_consumer_stats_read_position_when_joining = x13, topic_consumer_stats_address = x14,
            topic_consumer_stats_connected_since = x15, topic_consumer_stats_client_version = x16,
            topic_consumer_stats_last_acked_timestamp = x17,
            topic_consumer_stats_last_consumed_timestamp = x18, topic_consumer_stats_metadata = x19\<rparr>}
      | _ \<Rightarrow> None)"

definition topic_consumer_stats_good :: "topic_consumer_stats \<Rightarrow> bool" where
  "topic_consumer_stats_good x \<longleftrightarrow> is_finite (topic_consumer_stats_msg_rate_out x)
     \<and> is_finite (topic_consumer_stats_msg_throughput_out x)
     \<and> is_finite (topic_consumer_stats_msg_rate_redeliver x)
     \<and> is_finite (topic_consumer_stats_message_ack_rate x)
     \<and> is_finite (topic_consumer_stats_chunked_message_rate x)
     \<and> entries_good (\<lambda>_. True) (topic_consumer_stats_metadata x)"

lemma topic_consumer_stats_names_distinct: "distinct topic_consumer_stats_names"
  by code_simp

interpretation topic_consumer_stats_codec: json_value topic_consumer_stats_json topic_consumer_stats_of_json topic_consumer_stats_good
proof (rule json_valueI)
  show "topic_consumer_stats_of_json (topic_consumer_stats_json x) = Some x" if "topic_consumer_stats_good x" for x :: topic_consumer_stats
    using that unfolding topic_consumer_stats_of_json_def topic_consumer_stats_json_def topic_consumer_stats_good_def
    by (subst entries_of_obj [OF topic_consumer_stats_names_distinct]) (simp_all add: topic_consumer_stats_names_def)
  show "topic_consumer_stats_json x \<noteq> JNull" for x
    by (simp add: topic_consumer_stats_json_def)
qed

interpretation topic_consumer_stats_list_codec: json_value "list_json topic_consumer_stats_json" "list_of_json topic_consumer_stats_of_json" "list_all topic_consumer_stats_good"
  by (rule list_value [OF topic_consumer_stats_codec.json_codec_axioms])

record subscription_stats =
  subscription_stats_msg_rate_out :: "f64"
  subscription_stats_msg_throughput_out :: "f64"
  subscription_stats_bytes_out_counter :: "64 word"
  subscription_stats_msg_out_counter :: "64 word"
  subscription_stats_msg_rate_redeliver :: "f64"
  subscription_stats_message_ack_rate :: "f64"
  subscription_stats_chunked_message_rate :: "f64"
  subscription_stats_msg_backlog :: "64 word"
  subscription_stats_backlog_size :: "64 word"
  subscription_stats_earliest_msg_publish_time_in_backlog :: "64 word"
  subscription_stats_msg_backlog_no_delayed :: "64 word"
  subscription_stats_blocked_subscription_on_unacked_msgs :: "bool"
  subscription_stats_msg_delayed :: "64 word"
  subscription_stats_msg_in_replay :: "64 word"
  subscription_stats_unacked_messages :: "64 word"
  subscription_stats_subscription_type :: "string option"
  subscription_stats_msg_rate_expired :: "f64"
  subscription_stats_msg_expired :: "64 word"
  subscription_stats_total_msg_expired :: "64 word"
  subscription_stats_last_expire_timestamp :: "64 word"
  subscription_stats_last_consumed_flow_timestamp :: "64 word"
  subscription_stats_last_consumed_timestamp :: "64 word"
  subscription_stats_last_acked_timestamp :: "64 word"
  subscription_stats_last_mark_delete_advanced_timestamp :: "64 word"
  subscription_stats_consumers :: "topic_consumer_stats list"
  subscription_stats_is_durable :: "bool"
  subscription_stats_is_replicated :: "bool"
  subscription_stats_allow_out_of_order_delivery :: "bool"
  subscription_stats_draining_hashes_count :: "32 word"
  subscription_stats_draining_hashes_cleared_total :: "64 word"
  subscription_stats_draining_hashes_unacked_messages :: "32 word"
  subscription_stats_non_contiguous_deleted_messages_ranges :: "32 word"
  subscription_stats_delayed_message_index_size_in_bytes :: "64 word"
  subscription_stats_subscription_properties :: "(string \<times> string) list"
  subscription_stats_filter_processed_msg_count :: "64 word"
  subscription_stats_filter_accepted_msg_count :: "64 word"
  subscription_stats_filter_rejected_msg_count :: "64 word"
  subscription_stats_filter_rescheduled_msg_count :: "64 word"

definition subscription_stats_names :: "string list" where
  "subscription_stats_names = [''msgRateOut'', ''msgThroughputOut'', ''bytesOutCounter'', ''msgOutCounter'',
     ''msgRateRedeliver'', ''messageAckRate'', ''chunkedMessageRate'', ''msgBacklog'',
     ''backlogSize'', ''earliestMsgPublishTimeInBacklog'', ''msgBacklogNoDelayed'',
     ''blockedSubscriptionOnUnackedMsgs'', ''msgDelayed'', ''msgInReplay'', ''unackedMessages'',
     ''type'', ''msgRateExpired'', ''msgExpired'', ''totalMsgExpired'', ''lastExpireTimestamp'',
     ''lastConsumedFlowTimestamp'', ''lastConsumedTimestamp'', ''lastAckedTimestamp'',
     ''lastMarkDeleteAdvancedTimestamp'', ''consumers'', ''isDurable'', ''isReplicated'',
     ''allowOutOfOrderDelivery'', ''drainingHashesCount'', ''drainingHashesClearedTotal'',
     ''drainingHashesUnackedMessages'', ''nonContiguousDeletedMessagesRanges'',
     ''delayedMessageIndexSizeInBytes'', ''subscriptionProperties'',
     ''filterProcessedMsgCount'', ''filterAcceptedMsgCount'', ''filterRejectedMsgCount'',
     ''filterRescheduledMsgCount'']"

definition subscription_stats_json :: "subscription_stats \<Rightarrow> json" where
  "subscription_stats_json x = obj [
     (''msgRateOut'', Some (f64_json (subscription_stats_msg_rate_out x))),
     (''msgThroughputOut'', Some (f64_json (subscription_stats_msg_throughput_out x))),
     (''bytesOutCounter'', Some (sword_json (subscription_stats_bytes_out_counter x))),
     (''msgOutCounter'', Some (sword_json (subscription_stats_msg_out_counter x))),
     (''msgRateRedeliver'', Some (f64_json (subscription_stats_msg_rate_redeliver x))),
     (''messageAckRate'', Some (f64_json (subscription_stats_message_ack_rate x))),
     (''chunkedMessageRate'', Some (f64_json (subscription_stats_chunked_message_rate x))),
     (''msgBacklog'', Some (sword_json (subscription_stats_msg_backlog x))),
     (''backlogSize'', Some (sword_json (subscription_stats_backlog_size x))),
     (''earliestMsgPublishTimeInBacklog'', Some (sword_json (subscription_stats_earliest_msg_publish_time_in_backlog x))),
     (''msgBacklogNoDelayed'', Some (sword_json (subscription_stats_msg_backlog_no_delayed x))),
     (''blockedSubscriptionOnUnackedMsgs'', Some (JBool (subscription_stats_blocked_subscription_on_unacked_msgs x))),
     (''msgDelayed'', Some (sword_json (subscription_stats_msg_delayed x))),
     (''msgInReplay'', Some (sword_json (subscription_stats_msg_in_replay x))),
     (''unackedMessages'', Some (sword_json (subscription_stats_unacked_messages x))),
     (''type'', or_null str_json (subscription_stats_subscription_type x)),
     (''msgRateExpired'', Some (f64_json (subscription_stats_msg_rate_expired x))),
     (''msgExpired'', Some (sword_json (subscription_stats_msg_expired x))),
     (''totalMsgExpired'', Some (sword_json (subscription_stats_total_msg_expired x))),
     (''lastExpireTimestamp'', Some (sword_json (subscription_stats_last_expire_timestamp x))),
     (''lastConsumedFlowTimestamp'', Some (sword_json (subscription_stats_last_consumed_flow_timestamp x))),
     (''lastConsumedTimestamp'', Some (sword_json (subscription_stats_last_consumed_timestamp x))),
     (''lastAckedTimestamp'', Some (sword_json (subscription_stats_last_acked_timestamp x))),
     (''lastMarkDeleteAdvancedTimestamp'', Some (sword_json (subscription_stats_last_mark_delete_advanced_timestamp x))),
     (''consumers'', Some (list_json topic_consumer_stats_json (subscription_stats_consumers x))),
     (''isDurable'', Some (JBool (subscription_stats_is_durable x))),
     (''isReplicated'', Some (JBool (subscription_stats_is_replicated x))),
     (''allowOutOfOrderDelivery'', Some (JBool (subscription_stats_allow_out_of_order_delivery x))),
     (''drainingHashesCount'', Some (sword_json (subscription_stats_draining_hashes_count x))),
     (''drainingHashesClearedTotal'', Some (sword_json (subscription_stats_draining_hashes_cleared_total x))),
     (''drainingHashesUnackedMessages'', Some (sword_json (subscription_stats_draining_hashes_unacked_messages x))),
     (''nonContiguousDeletedMessagesRanges'', Some (sword_json (subscription_stats_non_contiguous_deleted_messages_ranges x))),
     (''delayedMessageIndexSizeInBytes'', Some (sword_json (subscription_stats_delayed_message_index_size_in_bytes x))),
     (''subscriptionProperties'', Some (map_json str_json (subscription_stats_subscription_properties x))),
     (''filterProcessedMsgCount'', Some (sword_json (subscription_stats_filter_processed_msg_count x))),
     (''filterAcceptedMsgCount'', Some (sword_json (subscription_stats_filter_accepted_msg_count x))),
     (''filterRejectedMsgCount'', Some (sword_json (subscription_stats_filter_rejected_msg_count x))),
     (''filterRescheduledMsgCount'', Some (sword_json (subscription_stats_filter_rescheduled_msg_count x)))]"

definition subscription_stats_of_json :: "json \<Rightarrow> subscription_stats option" where
  "subscription_stats_of_json j =
     (case entries_named subscription_stats_names j of
        Some [v1, v2, v3, v4, v5, v6, v7, v8, v9, v10, v11, v12, v13, v14, v15, v16, v17, v18, v19, v20,
              v21, v22, v23, v24, v25, v26, v27, v28, v29, v30, v31, v32, v33, v34, v35, v36, v37, v38] \<Rightarrow> do {
          x1 \<leftarrow> defaulted (F64 0) f64_of_json v1;
          x2 \<leftarrow> defaulted (F64 0) f64_of_json v2;
          x3 \<leftarrow> defaulted 0 sword_of_json v3;
          x4 \<leftarrow> defaulted 0 sword_of_json v4;
          x5 \<leftarrow> defaulted (F64 0) f64_of_json v5;
          x6 \<leftarrow> defaulted (F64 0) f64_of_json v6;
          x7 \<leftarrow> defaulted (F64 0) f64_of_json v7;
          x8 \<leftarrow> defaulted 0 sword_of_json v8;
          x9 \<leftarrow> defaulted 0 sword_of_json v9;
          x10 \<leftarrow> defaulted 0 sword_of_json v10;
          x11 \<leftarrow> defaulted 0 sword_of_json v11;
          x12 \<leftarrow> defaulted False bool_of_json v12;
          x13 \<leftarrow> defaulted 0 sword_of_json v13;
          x14 \<leftarrow> defaulted 0 sword_of_json v14;
          x15 \<leftarrow> defaulted 0 sword_of_json v15;
          x16 \<leftarrow> optional str_of_json v16;
          x17 \<leftarrow> defaulted (F64 0) f64_of_json v17;
          x18 \<leftarrow> defaulted 0 sword_of_json v18;
          x19 \<leftarrow> defaulted 0 sword_of_json v19;
          x20 \<leftarrow> defaulted 0 sword_of_json v20;
          x21 \<leftarrow> defaulted 0 sword_of_json v21;
          x22 \<leftarrow> defaulted 0 sword_of_json v22;
          x23 \<leftarrow> defaulted 0 sword_of_json v23;
          x24 \<leftarrow> defaulted 0 sword_of_json v24;
          x25 \<leftarrow> defaulted [] (list_of_json topic_consumer_stats_of_json) v25;
          x26 \<leftarrow> defaulted False bool_of_json v26;
          x27 \<leftarrow> defaulted False bool_of_json v27;
          x28 \<leftarrow> defaulted False bool_of_json v28;
          x29 \<leftarrow> defaulted 0 sword_of_json v29;
          x30 \<leftarrow> defaulted 0 sword_of_json v30;
          x31 \<leftarrow> defaulted 0 sword_of_json v31;
          x32 \<leftarrow> defaulted 0 sword_of_json v32;
          x33 \<leftarrow> defaulted 0 sword_of_json v33;
          x34 \<leftarrow> defaulted [] (map_of_json str_of_json) v34;
          x35 \<leftarrow> defaulted 0 sword_of_json v35;
          x36 \<leftarrow> defaulted 0 sword_of_json v36;
          x37 \<leftarrow> defaulted 0 sword_of_json v37;
          x38 \<leftarrow> defaulted 0 sword_of_json v38;
          Some \<lparr>subscription_stats_msg_rate_out = x1, subscription_stats_msg_throughput_out = x2,
            subscription_stats_bytes_out_counter = x3, subscription_stats_msg_out_counter = x4,
            subscription_stats_msg_rate_redeliver = x5, subscription_stats_message_ack_rate = x6,
            subscription_stats_chunked_message_rate = x7, subscription_stats_msg_backlog = x8,
            subscription_stats_backlog_size = x9,
            subscription_stats_earliest_msg_publish_time_in_backlog = x10,
            subscription_stats_msg_backlog_no_delayed = x11,
            subscription_stats_blocked_subscription_on_unacked_msgs = x12,
            subscription_stats_msg_delayed = x13, subscription_stats_msg_in_replay = x14,
            subscription_stats_unacked_messages = x15, subscription_stats_subscription_type = x16,
            subscription_stats_msg_rate_expired = x17, subscription_stats_msg_expired = x18,
            subscription_stats_total_msg_expired = x19, subscription_stats_last_expire_timestamp = x20,
            subscription_stats_last_consumed_flow_timestamp = x21,
            subscription_stats_last_consumed_timestamp = x22,
            subscription_stats_last_acked_timestamp = x23,
            subscription_stats_last_mark_delete_advanced_timestamp = x24,
            subscription_stats_consumers = x25, subscription_stats_is_durable = x26,
            subscription_stats_is_replicated = x27,
            subscription_stats_allow_out_of_order_delivery = x28,
            subscription_stats_draining_hashes_count = x29,
            subscription_stats_draining_hashes_cleared_total = x30,
            subscription_stats_draining_hashes_unacked_messages = x31,
            subscription_stats_non_contiguous_deleted_messages_ranges = x32,
            subscription_stats_delayed_message_index_size_in_bytes = x33,
            subscription_stats_subscription_properties = x34,
            subscription_stats_filter_processed_msg_count = x35,
            subscription_stats_filter_accepted_msg_count = x36,
            subscription_stats_filter_rejected_msg_count = x37,
            subscription_stats_filter_rescheduled_msg_count = x38\<rparr>}
      | _ \<Rightarrow> None)"

definition subscription_stats_good :: "subscription_stats \<Rightarrow> bool" where
  "subscription_stats_good x \<longleftrightarrow> is_finite (subscription_stats_msg_rate_out x)
     \<and> is_finite (subscription_stats_msg_throughput_out x)
     \<and> is_finite (subscription_stats_msg_rate_redeliver x)
     \<and> is_finite (subscription_stats_message_ack_rate x)
     \<and> is_finite (subscription_stats_chunked_message_rate x)
     \<and> is_finite (subscription_stats_msg_rate_expired x)
     \<and> list_all topic_consumer_stats_good (subscription_stats_consumers x)
     \<and> entries_good (\<lambda>_. True) (subscription_stats_subscription_properties x)"

lemma subscription_stats_names_distinct: "distinct subscription_stats_names"
  by code_simp

interpretation subscription_stats_codec: json_value subscription_stats_json subscription_stats_of_json subscription_stats_good
proof (rule json_valueI)
  show "subscription_stats_of_json (subscription_stats_json x) = Some x" if "subscription_stats_good x" for x :: subscription_stats
    using that unfolding subscription_stats_of_json_def subscription_stats_json_def subscription_stats_good_def
    by (subst entries_of_obj [OF subscription_stats_names_distinct]) (simp_all add: subscription_stats_names_def)
  show "subscription_stats_json x \<noteq> JNull" for x
    by (simp add: subscription_stats_json_def)
qed

record replicator_stats =
  replicator_stats_msg_rate_in :: "f64"
  replicator_stats_msg_throughput_in :: "f64"
  replicator_stats_msg_rate_out :: "f64"
  replicator_stats_msg_throughput_out :: "f64"
  replicator_stats_msg_rate_expired :: "f64"
  replicator_stats_replication_backlog :: "64 word"
  replicator_stats_connected :: "bool"
  replicator_stats_replication_delay_in_seconds :: "64 word"
  replicator_stats_inbound_connection :: "string option"
  replicator_stats_outbound_connection :: "string option"

definition replicator_stats_names :: "string list" where
  "replicator_stats_names = [''msgRateIn'', ''msgThroughputIn'', ''msgRateOut'', ''msgThroughputOut'',
     ''msgRateExpired'', ''replicationBacklog'', ''connected'', ''replicationDelayInSeconds'',
     ''inboundConnection'', ''outboundConnection'']"

definition replicator_stats_json :: "replicator_stats \<Rightarrow> json" where
  "replicator_stats_json x = obj [
     (''msgRateIn'', Some (f64_json (replicator_stats_msg_rate_in x))),
     (''msgThroughputIn'', Some (f64_json (replicator_stats_msg_throughput_in x))),
     (''msgRateOut'', Some (f64_json (replicator_stats_msg_rate_out x))),
     (''msgThroughputOut'', Some (f64_json (replicator_stats_msg_throughput_out x))),
     (''msgRateExpired'', Some (f64_json (replicator_stats_msg_rate_expired x))),
     (''replicationBacklog'', Some (sword_json (replicator_stats_replication_backlog x))),
     (''connected'', Some (JBool (replicator_stats_connected x))),
     (''replicationDelayInSeconds'', Some (sword_json (replicator_stats_replication_delay_in_seconds x))),
     (''inboundConnection'', or_null str_json (replicator_stats_inbound_connection x)),
     (''outboundConnection'', or_null str_json (replicator_stats_outbound_connection x))]"

definition replicator_stats_of_json :: "json \<Rightarrow> replicator_stats option" where
  "replicator_stats_of_json j =
     (case entries_named replicator_stats_names j of
        Some [v1, v2, v3, v4, v5, v6, v7, v8, v9, v10] \<Rightarrow> do {
          x1 \<leftarrow> defaulted (F64 0) f64_of_json v1;
          x2 \<leftarrow> defaulted (F64 0) f64_of_json v2;
          x3 \<leftarrow> defaulted (F64 0) f64_of_json v3;
          x4 \<leftarrow> defaulted (F64 0) f64_of_json v4;
          x5 \<leftarrow> defaulted (F64 0) f64_of_json v5;
          x6 \<leftarrow> defaulted 0 sword_of_json v6;
          x7 \<leftarrow> defaulted False bool_of_json v7;
          x8 \<leftarrow> defaulted 0 sword_of_json v8;
          x9 \<leftarrow> optional str_of_json v9;
          x10 \<leftarrow> optional str_of_json v10;
          Some \<lparr>replicator_stats_msg_rate_in = x1, replicator_stats_msg_throughput_in = x2,
            replicator_stats_msg_rate_out = x3, replicator_stats_msg_throughput_out = x4,
            replicator_stats_msg_rate_expired = x5, replicator_stats_replication_backlog = x6,
            replicator_stats_connected = x7, replicator_stats_replication_delay_in_seconds = x8,
            replicator_stats_inbound_connection = x9, replicator_stats_outbound_connection = x10\<rparr>}
      | _ \<Rightarrow> None)"

definition replicator_stats_good :: "replicator_stats \<Rightarrow> bool" where
  "replicator_stats_good x \<longleftrightarrow> is_finite (replicator_stats_msg_rate_in x)
     \<and> is_finite (replicator_stats_msg_throughput_in x)
     \<and> is_finite (replicator_stats_msg_rate_out x)
     \<and> is_finite (replicator_stats_msg_throughput_out x)
     \<and> is_finite (replicator_stats_msg_rate_expired x)"

lemma replicator_stats_names_distinct: "distinct replicator_stats_names"
  by code_simp

interpretation replicator_stats_codec: json_value replicator_stats_json replicator_stats_of_json replicator_stats_good
proof (rule json_valueI)
  show "replicator_stats_of_json (replicator_stats_json x) = Some x" if "replicator_stats_good x" for x :: replicator_stats
    using that unfolding replicator_stats_of_json_def replicator_stats_json_def replicator_stats_good_def
    by (subst entries_of_obj [OF replicator_stats_names_distinct]) (simp_all add: replicator_stats_names_def)
  show "replicator_stats_json x \<noteq> JNull" for x
    by (simp add: replicator_stats_json_def)
qed

record compaction_stats =
  compaction_stats_last_compaction_removed_event_count :: "64 word"
  compaction_stats_last_compaction_succeed_timestamp :: "64 word"
  compaction_stats_last_compaction_failed_timestamp :: "64 word"
  compaction_stats_last_compaction_duration_time_in_mills :: "64 word"

definition compaction_stats_names :: "string list" where
  "compaction_stats_names = [''lastCompactionRemovedEventCount'', ''lastCompactionSucceedTimestamp'',
     ''lastCompactionFailedTimestamp'', ''lastCompactionDurationTimeInMills'']"

definition compaction_stats_json :: "compaction_stats \<Rightarrow> json" where
  "compaction_stats_json x = obj [
     (''lastCompactionRemovedEventCount'', Some (sword_json (compaction_stats_last_compaction_removed_event_count x))),
     (''lastCompactionSucceedTimestamp'', Some (sword_json (compaction_stats_last_compaction_succeed_timestamp x))),
     (''lastCompactionFailedTimestamp'', Some (sword_json (compaction_stats_last_compaction_failed_timestamp x))),
     (''lastCompactionDurationTimeInMills'', Some (sword_json (compaction_stats_last_compaction_duration_time_in_mills x)))]"

definition compaction_stats_of_json :: "json \<Rightarrow> compaction_stats option" where
  "compaction_stats_of_json j =
     (case entries_named compaction_stats_names j of
        Some [v1, v2, v3, v4] \<Rightarrow> do {
          x1 \<leftarrow> defaulted 0 sword_of_json v1;
          x2 \<leftarrow> defaulted 0 sword_of_json v2;
          x3 \<leftarrow> defaulted 0 sword_of_json v3;
          x4 \<leftarrow> defaulted 0 sword_of_json v4;
          Some \<lparr>compaction_stats_last_compaction_removed_event_count = x1,
            compaction_stats_last_compaction_succeed_timestamp = x2,
            compaction_stats_last_compaction_failed_timestamp = x3,
            compaction_stats_last_compaction_duration_time_in_mills = x4\<rparr>}
      | _ \<Rightarrow> None)"

lemma compaction_stats_names_distinct: "distinct compaction_stats_names"
  by code_simp

interpretation compaction_stats_codec: json_body compaction_stats_json compaction_stats_of_json "\<lambda>_. True"
proof (rule json_bodyI)
  show "compaction_stats_of_json (compaction_stats_json x) = Some x" for x :: compaction_stats
    unfolding compaction_stats_of_json_def compaction_stats_json_def
    by (subst entries_of_obj [OF compaction_stats_names_distinct]) (simp_all add: compaction_stats_names_def)
  show "\<not> has_null (compaction_stats_json x)" for x :: compaction_stats
    unfolding compaction_stats_json_def by simp
qed

interpretation publisher_stats_list_codec: json_value "list_json publisher_stats_json" "list_of_json publisher_stats_of_json" "list_all publisher_stats_good"
  by (rule list_value [OF publisher_stats_codec.json_codec_axioms])

interpretation subscription_stats_map_codec: json_value "map_json subscription_stats_json" "map_of_json subscription_stats_of_json" "entries_good subscription_stats_good"
  by (rule map_value [OF subscription_stats_codec.json_codec_axioms])

interpretation replicator_stats_map_codec: json_value "map_json replicator_stats_json" "map_of_json replicator_stats_of_json" "entries_good replicator_stats_good"
  by (rule map_value [OF replicator_stats_codec.json_codec_axioms])

record topic_stats =
  topic_stats_msg_rate_in :: "f64"
  topic_stats_msg_throughput_in :: "f64"
  topic_stats_msg_rate_out :: "f64"
  topic_stats_msg_throughput_out :: "f64"
  topic_stats_bytes_in_counter :: "64 word"
  topic_stats_msg_in_counter :: "64 word"
  topic_stats_bytes_out_counter :: "64 word"
  topic_stats_msg_out_counter :: "64 word"
  topic_stats_bytes_out_internal_counter :: "64 word"
  topic_stats_average_msg_size :: "f64"
  topic_stats_msg_chunk_published :: "bool"
  topic_stats_storage_size :: "64 word"
  topic_stats_backlog_size :: "64 word"
  topic_stats_backlog_quota_limit_size :: "64 word"
  topic_stats_backlog_quota_limit_time :: "64 word"
  topic_stats_oldest_backlog_message_age_seconds :: "64 word"
  topic_stats_publish_rate_limited_times :: "64 word"
  topic_stats_earliest_msg_publish_time_in_backlogs :: "64 word"
  topic_stats_offloaded_storage_size :: "64 word"
  topic_stats_last_offload_ledger_id :: "64 word"
  topic_stats_last_offload_success_time_stamp :: "64 word"
  topic_stats_last_offload_failure_time_stamp :: "64 word"
  topic_stats_ongoing_txn_count :: "64 word"
  topic_stats_aborted_txn_count :: "64 word"
  topic_stats_committed_txn_count :: "64 word"
  topic_stats_publishers :: "publisher_stats list"
  topic_stats_waiting_publishers :: "32 word"
  topic_stats_subscriptions :: "(string \<times> subscription_stats) list"
  topic_stats_replication :: "(string \<times> replicator_stats) list"
  topic_stats_deduplication_status :: "string option"
  topic_stats_non_contiguous_deleted_messages_ranges :: "32 word"
  topic_stats_delayed_message_index_size_in_bytes :: "64 word"
  topic_stats_compaction :: "compaction_stats option"
  topic_stats_owner_broker :: "string option"
  topic_stats_topic_creation_time_stamp :: "64 word"
  topic_stats_last_publish_time_stamp :: "64 word"

definition topic_stats_names :: "string list" where
  "topic_stats_names = [''msgRateIn'', ''msgThroughputIn'', ''msgRateOut'', ''msgThroughputOut'',
     ''bytesInCounter'', ''msgInCounter'', ''bytesOutCounter'', ''msgOutCounter'',
     ''bytesOutInternalCounter'', ''averageMsgSize'', ''msgChunkPublished'', ''storageSize'',
     ''backlogSize'', ''backlogQuotaLimitSize'', ''backlogQuotaLimitTime'',
     ''oldestBacklogMessageAgeSeconds'', ''publishRateLimitedTimes'',
     ''earliestMsgPublishTimeInBacklogs'', ''offloadedStorageSize'', ''lastOffloadLedgerId'',
     ''lastOffloadSuccessTimeStamp'', ''lastOffloadFailureTimeStamp'', ''ongoingTxnCount'',
     ''abortedTxnCount'', ''committedTxnCount'', ''publishers'', ''waitingPublishers'',
     ''subscriptions'', ''replication'', ''deduplicationStatus'',
     ''nonContiguousDeletedMessagesRanges'', ''delayedMessageIndexSizeInBytes'', ''compaction'',
     ''ownerBroker'', ''topicCreationTimeStamp'', ''lastPublishTimeStamp'']"

definition topic_stats_entries :: "topic_stats \<Rightarrow> (string \<times> json option) list" where
  "topic_stats_entries x = [
     (''msgRateIn'', Some (f64_json (topic_stats_msg_rate_in x))),
     (''msgThroughputIn'', Some (f64_json (topic_stats_msg_throughput_in x))),
     (''msgRateOut'', Some (f64_json (topic_stats_msg_rate_out x))),
     (''msgThroughputOut'', Some (f64_json (topic_stats_msg_throughput_out x))),
     (''bytesInCounter'', Some (sword_json (topic_stats_bytes_in_counter x))),
     (''msgInCounter'', Some (sword_json (topic_stats_msg_in_counter x))),
     (''bytesOutCounter'', Some (sword_json (topic_stats_bytes_out_counter x))),
     (''msgOutCounter'', Some (sword_json (topic_stats_msg_out_counter x))),
     (''bytesOutInternalCounter'', Some (sword_json (topic_stats_bytes_out_internal_counter x))),
     (''averageMsgSize'', Some (f64_json (topic_stats_average_msg_size x))),
     (''msgChunkPublished'', Some (JBool (topic_stats_msg_chunk_published x))),
     (''storageSize'', Some (sword_json (topic_stats_storage_size x))),
     (''backlogSize'', Some (sword_json (topic_stats_backlog_size x))),
     (''backlogQuotaLimitSize'', Some (sword_json (topic_stats_backlog_quota_limit_size x))),
     (''backlogQuotaLimitTime'', Some (sword_json (topic_stats_backlog_quota_limit_time x))),
     (''oldestBacklogMessageAgeSeconds'', Some (sword_json (topic_stats_oldest_backlog_message_age_seconds x))),
     (''publishRateLimitedTimes'', Some (sword_json (topic_stats_publish_rate_limited_times x))),
     (''earliestMsgPublishTimeInBacklogs'', Some (sword_json (topic_stats_earliest_msg_publish_time_in_backlogs x))),
     (''offloadedStorageSize'', Some (sword_json (topic_stats_offloaded_storage_size x))),
     (''lastOffloadLedgerId'', Some (sword_json (topic_stats_last_offload_ledger_id x))),
     (''lastOffloadSuccessTimeStamp'', Some (sword_json (topic_stats_last_offload_success_time_stamp x))),
     (''lastOffloadFailureTimeStamp'', Some (sword_json (topic_stats_last_offload_failure_time_stamp x))),
     (''ongoingTxnCount'', Some (sword_json (topic_stats_ongoing_txn_count x))),
     (''abortedTxnCount'', Some (sword_json (topic_stats_aborted_txn_count x))),
     (''committedTxnCount'', Some (sword_json (topic_stats_committed_txn_count x))),
     (''publishers'', Some (list_json publisher_stats_json (topic_stats_publishers x))),
     (''waitingPublishers'', Some (sword_json (topic_stats_waiting_publishers x))),
     (''subscriptions'', Some (map_json subscription_stats_json (topic_stats_subscriptions x))),
     (''replication'', Some (map_json replicator_stats_json (topic_stats_replication x))),
     (''deduplicationStatus'', or_null str_json (topic_stats_deduplication_status x)),
     (''nonContiguousDeletedMessagesRanges'', Some (sword_json (topic_stats_non_contiguous_deleted_messages_ranges x))),
     (''delayedMessageIndexSizeInBytes'', Some (sword_json (topic_stats_delayed_message_index_size_in_bytes x))),
     (''compaction'', if_some compaction_stats_json (topic_stats_compaction x)),
     (''ownerBroker'', or_null str_json (topic_stats_owner_broker x)),
     (''topicCreationTimeStamp'', Some (sword_json (topic_stats_topic_creation_time_stamp x))),
     (''lastPublishTimeStamp'', Some (sword_json (topic_stats_last_publish_time_stamp x)))]"

definition topic_stats_json :: "topic_stats \<Rightarrow> json" where
  "topic_stats_json x = obj (topic_stats_entries x)"

definition topic_stats_of_json :: "json \<Rightarrow> topic_stats option" where
  "topic_stats_of_json j =
     (case entries_named topic_stats_names j of
        Some [v1, v2, v3, v4, v5, v6, v7, v8, v9, v10, v11, v12, v13, v14, v15, v16, v17, v18, v19, v20,
              v21, v22, v23, v24, v25, v26, v27, v28, v29, v30, v31, v32, v33, v34, v35, v36] \<Rightarrow> do {
          x1 \<leftarrow> defaulted (F64 0) f64_of_json v1;
          x2 \<leftarrow> defaulted (F64 0) f64_of_json v2;
          x3 \<leftarrow> defaulted (F64 0) f64_of_json v3;
          x4 \<leftarrow> defaulted (F64 0) f64_of_json v4;
          x5 \<leftarrow> defaulted 0 sword_of_json v5;
          x6 \<leftarrow> defaulted 0 sword_of_json v6;
          x7 \<leftarrow> defaulted 0 sword_of_json v7;
          x8 \<leftarrow> defaulted 0 sword_of_json v8;
          x9 \<leftarrow> defaulted 0 sword_of_json v9;
          x10 \<leftarrow> defaulted (F64 0) f64_of_json v10;
          x11 \<leftarrow> defaulted False bool_of_json v11;
          x12 \<leftarrow> defaulted 0 sword_of_json v12;
          x13 \<leftarrow> defaulted 0 sword_of_json v13;
          x14 \<leftarrow> defaulted 0 sword_of_json v14;
          x15 \<leftarrow> defaulted 0 sword_of_json v15;
          x16 \<leftarrow> defaulted 0 sword_of_json v16;
          x17 \<leftarrow> defaulted 0 sword_of_json v17;
          x18 \<leftarrow> defaulted 0 sword_of_json v18;
          x19 \<leftarrow> defaulted 0 sword_of_json v19;
          x20 \<leftarrow> defaulted 0 sword_of_json v20;
          x21 \<leftarrow> defaulted 0 sword_of_json v21;
          x22 \<leftarrow> defaulted 0 sword_of_json v22;
          x23 \<leftarrow> defaulted 0 sword_of_json v23;
          x24 \<leftarrow> defaulted 0 sword_of_json v24;
          x25 \<leftarrow> defaulted 0 sword_of_json v25;
          x26 \<leftarrow> defaulted [] (list_of_json publisher_stats_of_json) v26;
          x27 \<leftarrow> defaulted 0 sword_of_json v27;
          x28 \<leftarrow> defaulted [] (map_of_json subscription_stats_of_json) v28;
          x29 \<leftarrow> defaulted [] (map_of_json replicator_stats_of_json) v29;
          x30 \<leftarrow> optional str_of_json v30;
          x31 \<leftarrow> defaulted 0 sword_of_json v31;
          x32 \<leftarrow> defaulted 0 sword_of_json v32;
          x33 \<leftarrow> optional compaction_stats_of_json v33;
          x34 \<leftarrow> optional str_of_json v34;
          x35 \<leftarrow> defaulted 0 sword_of_json v35;
          x36 \<leftarrow> defaulted 0 sword_of_json v36;
          Some \<lparr>topic_stats_msg_rate_in = x1, topic_stats_msg_throughput_in = x2,
            topic_stats_msg_rate_out = x3, topic_stats_msg_throughput_out = x4,
            topic_stats_bytes_in_counter = x5, topic_stats_msg_in_counter = x6,
            topic_stats_bytes_out_counter = x7, topic_stats_msg_out_counter = x8,
            topic_stats_bytes_out_internal_counter = x9, topic_stats_average_msg_size = x10,
            topic_stats_msg_chunk_published = x11, topic_stats_storage_size = x12,
            topic_stats_backlog_size = x13, topic_stats_backlog_quota_limit_size = x14,
            topic_stats_backlog_quota_limit_time = x15,
            topic_stats_oldest_backlog_message_age_seconds = x16,
            topic_stats_publish_rate_limited_times = x17,
            topic_stats_earliest_msg_publish_time_in_backlogs = x18,
            topic_stats_offloaded_storage_size = x19, topic_stats_last_offload_ledger_id = x20,
            topic_stats_last_offload_success_time_stamp = x21,
            topic_stats_last_offload_failure_time_stamp = x22, topic_stats_ongoing_txn_count = x23,
            topic_stats_aborted_txn_count = x24, topic_stats_committed_txn_count = x25,
            topic_stats_publishers = x26, topic_stats_waiting_publishers = x27,
            topic_stats_subscriptions = x28, topic_stats_replication = x29,
            topic_stats_deduplication_status = x30,
            topic_stats_non_contiguous_deleted_messages_ranges = x31,
            topic_stats_delayed_message_index_size_in_bytes = x32, topic_stats_compaction = x33,
            topic_stats_owner_broker = x34, topic_stats_topic_creation_time_stamp = x35,
            topic_stats_last_publish_time_stamp = x36\<rparr>}
      | _ \<Rightarrow> None)"

definition topic_stats_default :: topic_stats where
  "topic_stats_default = \<lparr>topic_stats_msg_rate_in = F64 0, topic_stats_msg_throughput_in = F64 0,
            topic_stats_msg_rate_out = F64 0, topic_stats_msg_throughput_out = F64 0,
            topic_stats_bytes_in_counter = 0, topic_stats_msg_in_counter = 0,
            topic_stats_bytes_out_counter = 0, topic_stats_msg_out_counter = 0,
            topic_stats_bytes_out_internal_counter = 0, topic_stats_average_msg_size = F64 0,
            topic_stats_msg_chunk_published = False, topic_stats_storage_size = 0,
            topic_stats_backlog_size = 0, topic_stats_backlog_quota_limit_size = 0,
            topic_stats_backlog_quota_limit_time = 0,
            topic_stats_oldest_backlog_message_age_seconds = 0,
            topic_stats_publish_rate_limited_times = 0,
            topic_stats_earliest_msg_publish_time_in_backlogs = 0,
            topic_stats_offloaded_storage_size = 0, topic_stats_last_offload_ledger_id = 0,
            topic_stats_last_offload_success_time_stamp = 0,
            topic_stats_last_offload_failure_time_stamp = 0, topic_stats_ongoing_txn_count = 0,
            topic_stats_aborted_txn_count = 0, topic_stats_committed_txn_count = 0,
            topic_stats_publishers = [], topic_stats_waiting_publishers = 0,
            topic_stats_subscriptions = [], topic_stats_replication = [],
            topic_stats_deduplication_status = None,
            topic_stats_non_contiguous_deleted_messages_ranges = 0,
            topic_stats_delayed_message_index_size_in_bytes = 0, topic_stats_compaction = None,
            topic_stats_owner_broker = None, topic_stats_topic_creation_time_stamp = 0,
            topic_stats_last_publish_time_stamp = 0\<rparr>"

definition topic_stats_good :: "topic_stats \<Rightarrow> bool" where
  "topic_stats_good x \<longleftrightarrow> is_finite (topic_stats_msg_rate_in x)
     \<and> is_finite (topic_stats_msg_throughput_in x)
     \<and> is_finite (topic_stats_msg_rate_out x)
     \<and> is_finite (topic_stats_msg_throughput_out x)
     \<and> is_finite (topic_stats_average_msg_size x)
     \<and> list_all publisher_stats_good (topic_stats_publishers x)
     \<and> entries_good subscription_stats_good (topic_stats_subscriptions x)
     \<and> entries_good replicator_stats_good (topic_stats_replication x)"

lemma topic_stats_names_distinct: "distinct topic_stats_names"
  by code_simp

interpretation topic_stats_codec: json_value topic_stats_json topic_stats_of_json topic_stats_good
proof (rule json_valueI)
  show "topic_stats_of_json (topic_stats_json x) = Some x" if "topic_stats_good x" for x :: topic_stats
    using that unfolding topic_stats_of_json_def topic_stats_json_def topic_stats_entries_def topic_stats_good_def
    by (subst entries_of_obj [OF topic_stats_names_distinct]) (simp_all add: topic_stats_names_def)
  show "topic_stats_json x \<noteq> JNull" for x
    by (simp add: topic_stats_json_def)
qed

interpretation topic_stats_map_codec: json_value "map_json topic_stats_json" "map_of_json topic_stats_of_json" "entries_good topic_stats_good"
  by (rule map_value [OF topic_stats_codec.json_codec_axioms])

record partitioned_topic_stats =
  partitioned_topic_stats_metadata :: "partitioned_topic_metadata option"
  partitioned_topic_stats_partitions :: "(string \<times> topic_stats) list"
  partitioned_topic_stats_aggregate :: "topic_stats"

definition partitioned_topic_stats_names :: "string list" where
  "partitioned_topic_stats_names = [''metadata'', ''partitions'']"

text \<open>The flattened struct adds its own entries.\<close>

definition partitioned_topic_stats_json :: "partitioned_topic_stats \<Rightarrow> json" where
  "partitioned_topic_stats_json x = obj ([
     (''metadata'', if_some partitioned_topic_metadata_json (partitioned_topic_stats_metadata x)),
     (''partitions'', Some (map_json topic_stats_json (partitioned_topic_stats_partitions x)))]
     @ topic_stats_entries (partitioned_topic_stats_aggregate x))"

definition partitioned_topic_stats_of_json :: "json \<Rightarrow> partitioned_topic_stats option" where
  "partitioned_topic_stats_of_json j =
     (case entries_named partitioned_topic_stats_names j of
        Some [v1, v2] \<Rightarrow> do {
          x1 \<leftarrow> optional partitioned_topic_metadata_of_json v1;
          x2 \<leftarrow> defaulted [] (map_of_json topic_stats_of_json) v2;
          x3 \<leftarrow> topic_stats_of_json (without partitioned_topic_stats_names j);
          Some \<lparr>partitioned_topic_stats_metadata = x1, partitioned_topic_stats_partitions = x2,
            partitioned_topic_stats_aggregate = x3\<rparr>}
      | _ \<Rightarrow> None)"

definition partitioned_topic_stats_default :: partitioned_topic_stats where
  "partitioned_topic_stats_default = \<lparr>partitioned_topic_stats_metadata = None, partitioned_topic_stats_partitions = [],
            partitioned_topic_stats_aggregate = topic_stats_default\<rparr>"

definition partitioned_topic_stats_good :: "partitioned_topic_stats \<Rightarrow> bool" where
  "partitioned_topic_stats_good x \<longleftrightarrow> pred_option partitioned_topic_metadata_good (partitioned_topic_stats_metadata x)
     \<and> entries_good topic_stats_good (partitioned_topic_stats_partitions x)
     \<and> topic_stats_good (partitioned_topic_stats_aggregate x)"


record ledger_info =
  ledger_info_ledger_id :: "64 word"
  ledger_info_entries :: "64 word"
  ledger_info_size :: "64 word"
  ledger_info_offloaded :: "bool"
  ledger_info_under_replicated :: "bool"

definition ledger_info_names :: "string list" where
  "ledger_info_names = [''ledgerId'', ''entries'', ''size'', ''offloaded'', ''underReplicated'']"

definition ledger_info_json :: "ledger_info \<Rightarrow> json" where
  "ledger_info_json x = obj [
     (''ledgerId'', Some (sword_json (ledger_info_ledger_id x))),
     (''entries'', Some (sword_json (ledger_info_entries x))),
     (''size'', Some (sword_json (ledger_info_size x))),
     (''offloaded'', Some (JBool (ledger_info_offloaded x))),
     (''underReplicated'', Some (JBool (ledger_info_under_replicated x)))]"

definition ledger_info_of_json :: "json \<Rightarrow> ledger_info option" where
  "ledger_info_of_json j =
     (case entries_named ledger_info_names j of
        Some [v1, v2, v3, v4, v5] \<Rightarrow> do {
          x1 \<leftarrow> defaulted 0 sword_of_json v1;
          x2 \<leftarrow> defaulted 0 sword_of_json v2;
          x3 \<leftarrow> defaulted 0 sword_of_json v3;
          x4 \<leftarrow> defaulted False bool_of_json v4;
          x5 \<leftarrow> defaulted False bool_of_json v5;
          Some \<lparr>ledger_info_ledger_id = x1, ledger_info_entries = x2, ledger_info_size = x3,
            ledger_info_offloaded = x4, ledger_info_under_replicated = x5\<rparr>}
      | _ \<Rightarrow> None)"

lemma ledger_info_names_distinct: "distinct ledger_info_names"
  by code_simp

interpretation ledger_info_codec: json_body ledger_info_json ledger_info_of_json "\<lambda>_. True"
proof (rule json_bodyI)
  show "ledger_info_of_json (ledger_info_json x) = Some x" for x :: ledger_info
    unfolding ledger_info_of_json_def ledger_info_json_def
    by (subst entries_of_obj [OF ledger_info_names_distinct]) (simp_all add: ledger_info_names_def)
  show "\<not> has_null (ledger_info_json x)" for x :: ledger_info
    unfolding ledger_info_json_def by simp
qed

record cursor_info =
  cursor_info_mark_delete_position :: "string option"
  cursor_info_read_position :: "string option"
  cursor_info_waiting_read_op :: "bool"
  cursor_info_pending_read_ops :: "32 word"
  cursor_info_messages_consumed_counter :: "64 word"
  cursor_info_cursor_ledger :: "64 word"
  cursor_info_cursor_ledger_last_entry :: "64 word"
  cursor_info_individually_deleted_messages :: "string option"
  cursor_info_last_ledger_switch_timestamp :: "string option"
  cursor_info_state :: "string option"
  cursor_info_active :: "bool"
  cursor_info_number_of_entries_since_first_not_acked_message :: "64 word"
  cursor_info_total_non_contiguous_deleted_messages_range :: "32 word"
  cursor_info_subscription_have_pending_read :: "bool"
  cursor_info_subscription_have_pending_replay_read :: "bool"
  cursor_info_properties :: "(string \<times> 64 word) list"

definition cursor_info_names :: "string list" where
  "cursor_info_names = [''markDeletePosition'', ''readPosition'', ''waitingReadOp'', ''pendingReadOps'',
     ''messagesConsumedCounter'', ''cursorLedger'', ''cursorLedgerLastEntry'',
     ''individuallyDeletedMessages'', ''lastLedgerSwitchTimestamp'', ''state'', ''active'',
     ''numberOfEntriesSinceFirstNotAckedMessage'', ''totalNonContiguousDeletedMessagesRange'',
     ''subscriptionHavePendingRead'', ''subscriptionHavePendingReplayRead'', ''properties'']"

definition cursor_info_json :: "cursor_info \<Rightarrow> json" where
  "cursor_info_json x = obj [
     (''markDeletePosition'', or_null str_json (cursor_info_mark_delete_position x)),
     (''readPosition'', or_null str_json (cursor_info_read_position x)),
     (''waitingReadOp'', Some (JBool (cursor_info_waiting_read_op x))),
     (''pendingReadOps'', Some (sword_json (cursor_info_pending_read_ops x))),
     (''messagesConsumedCounter'', Some (sword_json (cursor_info_messages_consumed_counter x))),
     (''cursorLedger'', Some (sword_json (cursor_info_cursor_ledger x))),
     (''cursorLedgerLastEntry'', Some (sword_json (cursor_info_cursor_ledger_last_entry x))),
     (''individuallyDeletedMessages'', or_null str_json (cursor_info_individually_deleted_messages x)),
     (''lastLedgerSwitchTimestamp'', or_null str_json (cursor_info_last_ledger_switch_timestamp x)),
     (''state'', or_null str_json (cursor_info_state x)),
     (''active'', Some (JBool (cursor_info_active x))),
     (''numberOfEntriesSinceFirstNotAckedMessage'', Some (sword_json (cursor_info_number_of_entries_since_first_not_acked_message x))),
     (''totalNonContiguousDeletedMessagesRange'', Some (sword_json (cursor_info_total_non_contiguous_deleted_messages_range x))),
     (''subscriptionHavePendingRead'', Some (JBool (cursor_info_subscription_have_pending_read x))),
     (''subscriptionHavePendingReplayRead'', Some (JBool (cursor_info_subscription_have_pending_replay_read x))),
     (''properties'', Some (map_json sword_json (cursor_info_properties x)))]"

definition cursor_info_of_json :: "json \<Rightarrow> cursor_info option" where
  "cursor_info_of_json j =
     (case entries_named cursor_info_names j of
        Some [v1, v2, v3, v4, v5, v6, v7, v8, v9, v10, v11, v12, v13, v14, v15, v16] \<Rightarrow> do {
          x1 \<leftarrow> optional str_of_json v1;
          x2 \<leftarrow> optional str_of_json v2;
          x3 \<leftarrow> defaulted False bool_of_json v3;
          x4 \<leftarrow> defaulted 0 sword_of_json v4;
          x5 \<leftarrow> defaulted 0 sword_of_json v5;
          x6 \<leftarrow> defaulted 0 sword_of_json v6;
          x7 \<leftarrow> defaulted 0 sword_of_json v7;
          x8 \<leftarrow> optional str_of_json v8;
          x9 \<leftarrow> optional str_of_json v9;
          x10 \<leftarrow> optional str_of_json v10;
          x11 \<leftarrow> defaulted False bool_of_json v11;
          x12 \<leftarrow> defaulted 0 sword_of_json v12;
          x13 \<leftarrow> defaulted 0 sword_of_json v13;
          x14 \<leftarrow> defaulted False bool_of_json v14;
          x15 \<leftarrow> defaulted False bool_of_json v15;
          x16 \<leftarrow> defaulted [] (map_of_json sword_of_json) v16;
          Some \<lparr>cursor_info_mark_delete_position = x1, cursor_info_read_position = x2,
            cursor_info_waiting_read_op = x3, cursor_info_pending_read_ops = x4,
            cursor_info_messages_consumed_counter = x5, cursor_info_cursor_ledger = x6,
            cursor_info_cursor_ledger_last_entry = x7, cursor_info_individually_deleted_messages = x8,
            cursor_info_last_ledger_switch_timestamp = x9, cursor_info_state = x10,
            cursor_info_active = x11,
            cursor_info_number_of_entries_since_first_not_acked_message = x12,
            cursor_info_total_non_contiguous_deleted_messages_range = x13,
            cursor_info_subscription_have_pending_read = x14,
            cursor_info_subscription_have_pending_replay_read = x15, cursor_info_properties = x16\<rparr>}
      | _ \<Rightarrow> None)"

definition cursor_info_good :: "cursor_info \<Rightarrow> bool" where
  "cursor_info_good x \<longleftrightarrow> entries_good (\<lambda>_. True) (cursor_info_properties x)"

lemma cursor_info_names_distinct: "distinct cursor_info_names"
  by code_simp

interpretation cursor_info_codec: json_value cursor_info_json cursor_info_of_json cursor_info_good
proof (rule json_valueI)
  show "cursor_info_of_json (cursor_info_json x) = Some x" if "cursor_info_good x" for x :: cursor_info
    using that unfolding cursor_info_of_json_def cursor_info_json_def cursor_info_good_def
    by (subst entries_of_obj [OF cursor_info_names_distinct]) (simp_all add: cursor_info_names_def)
  show "cursor_info_json x \<noteq> JNull" for x
    by (simp add: cursor_info_json_def)
qed

interpretation ledger_info_list_codec: json_body "list_json ledger_info_json" "list_of_json ledger_info_of_json" "\<lambda>_. True"
  by (rule list_body_True [OF ledger_info_codec.json_body_axioms])

interpretation cursor_info_map_codec: json_value "map_json cursor_info_json" "map_of_json cursor_info_of_json" "entries_good cursor_info_good"
  by (rule map_value [OF cursor_info_codec.json_codec_axioms])

record persistent_topic_internal_stats =
  persistent_topic_internal_stats_entries_added_counter :: "64 word"
  persistent_topic_internal_stats_number_of_entries :: "64 word"
  persistent_topic_internal_stats_total_size :: "64 word"
  persistent_topic_internal_stats_current_ledger_entries :: "64 word"
  persistent_topic_internal_stats_current_ledger_size :: "64 word"
  persistent_topic_internal_stats_last_ledger_created_timestamp :: "string option"
  persistent_topic_internal_stats_waiting_cursors_count :: "32 word"
  persistent_topic_internal_stats_pending_add_entries_count :: "32 word"
  persistent_topic_internal_stats_last_confirmed_entry :: "string option"
  persistent_topic_internal_stats_state :: "string option"
  persistent_topic_internal_stats_ledgers :: "ledger_info list"
  persistent_topic_internal_stats_cursors :: "(string \<times> cursor_info) list"
  persistent_topic_internal_stats_schema_ledgers :: "ledger_info list"
  persistent_topic_internal_stats_compacted_ledger :: "ledger_info option"

definition persistent_topic_internal_stats_names :: "string list" where
  "persistent_topic_internal_stats_names = [''entriesAddedCounter'', ''numberOfEntries'', ''totalSize'', ''currentLedgerEntries'',
     ''currentLedgerSize'', ''lastLedgerCreatedTimestamp'', ''waitingCursorsCount'',
     ''pendingAddEntriesCount'', ''lastConfirmedEntry'', ''state'', ''ledgers'', ''cursors'',
     ''schemaLedgers'', ''compactedLedger'']"

definition persistent_topic_internal_stats_json :: "persistent_topic_internal_stats \<Rightarrow> json" where
  "persistent_topic_internal_stats_json x = obj [
     (''entriesAddedCounter'', Some (sword_json (persistent_topic_internal_stats_entries_added_counter x))),
     (''numberOfEntries'', Some (sword_json (persistent_topic_internal_stats_number_of_entries x))),
     (''totalSize'', Some (sword_json (persistent_topic_internal_stats_total_size x))),
     (''currentLedgerEntries'', Some (sword_json (persistent_topic_internal_stats_current_ledger_entries x))),
     (''currentLedgerSize'', Some (sword_json (persistent_topic_internal_stats_current_ledger_size x))),
     (''lastLedgerCreatedTimestamp'', or_null str_json (persistent_topic_internal_stats_last_ledger_created_timestamp x)),
     (''waitingCursorsCount'', Some (sword_json (persistent_topic_internal_stats_waiting_cursors_count x))),
     (''pendingAddEntriesCount'', Some (sword_json (persistent_topic_internal_stats_pending_add_entries_count x))),
     (''lastConfirmedEntry'', or_null str_json (persistent_topic_internal_stats_last_confirmed_entry x)),
     (''state'', or_null str_json (persistent_topic_internal_stats_state x)),
     (''ledgers'', Some (list_json ledger_info_json (persistent_topic_internal_stats_ledgers x))),
     (''cursors'', Some (map_json cursor_info_json (persistent_topic_internal_stats_cursors x))),
     (''schemaLedgers'', Some (list_json ledger_info_json (persistent_topic_internal_stats_schema_ledgers x))),
     (''compactedLedger'', if_some ledger_info_json (persistent_topic_internal_stats_compacted_ledger x))]"

definition persistent_topic_internal_stats_of_json :: "json \<Rightarrow> persistent_topic_internal_stats option" where
  "persistent_topic_internal_stats_of_json j =
     (case entries_named persistent_topic_internal_stats_names j of
        Some [v1, v2, v3, v4, v5, v6, v7, v8, v9, v10, v11, v12, v13, v14] \<Rightarrow> do {
          x1 \<leftarrow> defaulted 0 sword_of_json v1;
          x2 \<leftarrow> defaulted 0 sword_of_json v2;
          x3 \<leftarrow> defaulted 0 sword_of_json v3;
          x4 \<leftarrow> defaulted 0 sword_of_json v4;
          x5 \<leftarrow> defaulted 0 sword_of_json v5;
          x6 \<leftarrow> optional str_of_json v6;
          x7 \<leftarrow> defaulted 0 sword_of_json v7;
          x8 \<leftarrow> defaulted 0 sword_of_json v8;
          x9 \<leftarrow> optional str_of_json v9;
          x10 \<leftarrow> optional str_of_json v10;
          x11 \<leftarrow> defaulted [] (list_of_json ledger_info_of_json) v11;
          x12 \<leftarrow> defaulted [] (map_of_json cursor_info_of_json) v12;
          x13 \<leftarrow> defaulted [] (list_of_json ledger_info_of_json) v13;
          x14 \<leftarrow> optional ledger_info_of_json v14;
          Some \<lparr>persistent_topic_internal_stats_entries_added_counter = x1,
            persistent_topic_internal_stats_number_of_entries = x2,
            persistent_topic_internal_stats_total_size = x3,
            persistent_topic_internal_stats_current_ledger_entries = x4,
            persistent_topic_internal_stats_current_ledger_size = x5,
            persistent_topic_internal_stats_last_ledger_created_timestamp = x6,
            persistent_topic_internal_stats_waiting_cursors_count = x7,
            persistent_topic_internal_stats_pending_add_entries_count = x8,
            persistent_topic_internal_stats_last_confirmed_entry = x9,
            persistent_topic_internal_stats_state = x10, persistent_topic_internal_stats_ledgers = x11,
            persistent_topic_internal_stats_cursors = x12,
            persistent_topic_internal_stats_schema_ledgers = x13,
            persistent_topic_internal_stats_compacted_ledger = x14\<rparr>}
      | _ \<Rightarrow> None)"

definition persistent_topic_internal_stats_good :: "persistent_topic_internal_stats \<Rightarrow> bool" where
  "persistent_topic_internal_stats_good x \<longleftrightarrow> entries_good cursor_info_good (persistent_topic_internal_stats_cursors x)"

lemma persistent_topic_internal_stats_names_distinct: "distinct persistent_topic_internal_stats_names"
  by code_simp

interpretation persistent_topic_internal_stats_codec: json_value persistent_topic_internal_stats_json persistent_topic_internal_stats_of_json persistent_topic_internal_stats_good
proof (rule json_valueI)
  show "persistent_topic_internal_stats_of_json (persistent_topic_internal_stats_json x) = Some x" if "persistent_topic_internal_stats_good x" for x :: persistent_topic_internal_stats
    using that unfolding persistent_topic_internal_stats_of_json_def persistent_topic_internal_stats_json_def persistent_topic_internal_stats_good_def
    by (subst entries_of_obj [OF persistent_topic_internal_stats_names_distinct]) (simp_all add: persistent_topic_internal_stats_names_def)
  show "persistent_topic_internal_stats_json x \<noteq> JNull" for x
    by (simp add: persistent_topic_internal_stats_json_def)
qed

interpretation persistent_topic_internal_stats_map_codec: json_value "map_json persistent_topic_internal_stats_json" "map_of_json persistent_topic_internal_stats_of_json" "entries_good persistent_topic_internal_stats_good"
  by (rule map_value [OF persistent_topic_internal_stats_codec.json_codec_axioms])

record partitioned_topic_internal_stats =
  partitioned_topic_internal_stats_metadata :: "partitioned_topic_metadata option"
  partitioned_topic_internal_stats_partitions :: "(string \<times> persistent_topic_internal_stats) list"

definition partitioned_topic_internal_stats_names :: "string list" where
  "partitioned_topic_internal_stats_names = [''metadata'', ''partitions'']"

definition partitioned_topic_internal_stats_json :: "partitioned_topic_internal_stats \<Rightarrow> json" where
  "partitioned_topic_internal_stats_json x = obj [
     (''metadata'', if_some partitioned_topic_metadata_json (partitioned_topic_internal_stats_metadata x)),
     (''partitions'', Some (map_json persistent_topic_internal_stats_json (partitioned_topic_internal_stats_partitions x)))]"

definition partitioned_topic_internal_stats_of_json :: "json \<Rightarrow> partitioned_topic_internal_stats option" where
  "partitioned_topic_internal_stats_of_json j =
     (case entries_named partitioned_topic_internal_stats_names j of
        Some [v1, v2] \<Rightarrow> do {
          x1 \<leftarrow> optional partitioned_topic_metadata_of_json v1;
          x2 \<leftarrow> defaulted [] (map_of_json persistent_topic_internal_stats_of_json) v2;
          Some \<lparr>partitioned_topic_internal_stats_metadata = x1,
            partitioned_topic_internal_stats_partitions = x2\<rparr>}
      | _ \<Rightarrow> None)"

definition partitioned_topic_internal_stats_good :: "partitioned_topic_internal_stats \<Rightarrow> bool" where
  "partitioned_topic_internal_stats_good x \<longleftrightarrow> pred_option partitioned_topic_metadata_good (partitioned_topic_internal_stats_metadata x)
     \<and> entries_good persistent_topic_internal_stats_good (partitioned_topic_internal_stats_partitions x)"

lemma partitioned_topic_internal_stats_names_distinct: "distinct partitioned_topic_internal_stats_names"
  by code_simp

interpretation partitioned_topic_internal_stats_codec: json_value partitioned_topic_internal_stats_json partitioned_topic_internal_stats_of_json partitioned_topic_internal_stats_good
proof (rule json_valueI)
  show "partitioned_topic_internal_stats_of_json (partitioned_topic_internal_stats_json x) = Some x" if "partitioned_topic_internal_stats_good x" for x :: partitioned_topic_internal_stats
    using that unfolding partitioned_topic_internal_stats_of_json_def partitioned_topic_internal_stats_json_def partitioned_topic_internal_stats_good_def
    by (subst entries_of_obj [OF partitioned_topic_internal_stats_names_distinct]) (simp_all add: partitioned_topic_internal_stats_names_def)
  show "partitioned_topic_internal_stats_json x \<noteq> JNull" for x
    by (simp add: partitioned_topic_internal_stats_json_def)
qed

record analyze_subscription_backlog_result =
  analyze_subscription_backlog_result_entries :: "64 word"
  analyze_subscription_backlog_result_messages :: "64 word"
  analyze_subscription_backlog_result_filter_rejected_entries :: "64 word"
  analyze_subscription_backlog_result_filter_accepted_entries :: "64 word"
  analyze_subscription_backlog_result_filter_rescheduled_entries :: "64 word"
  analyze_subscription_backlog_result_filter_rejected_messages :: "64 word"
  analyze_subscription_backlog_result_filter_accepted_messages :: "64 word"
  analyze_subscription_backlog_result_filter_rescheduled_messages :: "64 word"
  analyze_subscription_backlog_result_aborted :: "bool"

definition analyze_subscription_backlog_result_names :: "string list" where
  "analyze_subscription_backlog_result_names = [''entries'', ''messages'', ''filterRejectedEntries'', ''filterAcceptedEntries'',
     ''filterRescheduledEntries'', ''filterRejectedMessages'', ''filterAcceptedMessages'',
     ''filterRescheduledMessages'', ''aborted'']"

definition analyze_subscription_backlog_result_json :: "analyze_subscription_backlog_result \<Rightarrow> json" where
  "analyze_subscription_backlog_result_json x = obj [
     (''entries'', Some (sword_json (analyze_subscription_backlog_result_entries x))),
     (''messages'', Some (sword_json (analyze_subscription_backlog_result_messages x))),
     (''filterRejectedEntries'', Some (sword_json (analyze_subscription_backlog_result_filter_rejected_entries x))),
     (''filterAcceptedEntries'', Some (sword_json (analyze_subscription_backlog_result_filter_accepted_entries x))),
     (''filterRescheduledEntries'', Some (sword_json (analyze_subscription_backlog_result_filter_rescheduled_entries x))),
     (''filterRejectedMessages'', Some (sword_json (analyze_subscription_backlog_result_filter_rejected_messages x))),
     (''filterAcceptedMessages'', Some (sword_json (analyze_subscription_backlog_result_filter_accepted_messages x))),
     (''filterRescheduledMessages'', Some (sword_json (analyze_subscription_backlog_result_filter_rescheduled_messages x))),
     (''aborted'', Some (JBool (analyze_subscription_backlog_result_aborted x)))]"

definition analyze_subscription_backlog_result_of_json :: "json \<Rightarrow> analyze_subscription_backlog_result option" where
  "analyze_subscription_backlog_result_of_json j =
     (case entries_named analyze_subscription_backlog_result_names j of
        Some [v1, v2, v3, v4, v5, v6, v7, v8, v9] \<Rightarrow> do {
          x1 \<leftarrow> defaulted 0 sword_of_json v1;
          x2 \<leftarrow> defaulted 0 sword_of_json v2;
          x3 \<leftarrow> defaulted 0 sword_of_json v3;
          x4 \<leftarrow> defaulted 0 sword_of_json v4;
          x5 \<leftarrow> defaulted 0 sword_of_json v5;
          x6 \<leftarrow> defaulted 0 sword_of_json v6;
          x7 \<leftarrow> defaulted 0 sword_of_json v7;
          x8 \<leftarrow> defaulted 0 sword_of_json v8;
          x9 \<leftarrow> defaulted False bool_of_json v9;
          Some \<lparr>analyze_subscription_backlog_result_entries = x1,
            analyze_subscription_backlog_result_messages = x2,
            analyze_subscription_backlog_result_filter_rejected_entries = x3,
            analyze_subscription_backlog_result_filter_accepted_entries = x4,
            analyze_subscription_backlog_result_filter_rescheduled_entries = x5,
            analyze_subscription_backlog_result_filter_rejected_messages = x6,
            analyze_subscription_backlog_result_filter_accepted_messages = x7,
            analyze_subscription_backlog_result_filter_rescheduled_messages = x8,
            analyze_subscription_backlog_result_aborted = x9\<rparr>}
      | _ \<Rightarrow> None)"

lemma analyze_subscription_backlog_result_names_distinct: "distinct analyze_subscription_backlog_result_names"
  by code_simp

interpretation analyze_subscription_backlog_result_codec: json_body analyze_subscription_backlog_result_json analyze_subscription_backlog_result_of_json "\<lambda>_. True"
proof (rule json_bodyI)
  show "analyze_subscription_backlog_result_of_json (analyze_subscription_backlog_result_json x) = Some x" for x :: analyze_subscription_backlog_result
    unfolding analyze_subscription_backlog_result_of_json_def analyze_subscription_backlog_result_json_def
    by (subst entries_of_obj [OF analyze_subscription_backlog_result_names_distinct]) (simp_all add: analyze_subscription_backlog_result_names_def)
  show "\<not> has_null (analyze_subscription_backlog_result_json x)" for x :: analyze_subscription_backlog_result
    unfolding analyze_subscription_backlog_result_json_def by simp
qed

record is_compatibility_response =
  is_compatibility_response_is_compatible :: "bool"
  is_compatibility_response_schema_compatibility_strategy :: "string option"

definition is_compatibility_response_names :: "string list" where
  "is_compatibility_response_names = [''compatibility'', ''schemaCompatibilityStrategy'']"

definition is_compatibility_response_json :: "is_compatibility_response \<Rightarrow> json" where
  "is_compatibility_response_json x = obj [
     (''compatibility'', Some (JBool (is_compatibility_response_is_compatible x))),
     (''schemaCompatibilityStrategy'', or_null str_json (is_compatibility_response_schema_compatibility_strategy x))]"

definition is_compatibility_response_of_json :: "json \<Rightarrow> is_compatibility_response option" where
  "is_compatibility_response_of_json j =
     (case entries_named is_compatibility_response_names j of
        Some [v1, v2] \<Rightarrow> do {
          x1 \<leftarrow> defaulted False bool_of_json v1;
          x2 \<leftarrow> optional str_of_json v2;
          Some \<lparr>is_compatibility_response_is_compatible = x1,
            is_compatibility_response_schema_compatibility_strategy = x2\<rparr>}
      | _ \<Rightarrow> None)"

lemma is_compatibility_response_names_distinct: "distinct is_compatibility_response_names"
  by code_simp

interpretation is_compatibility_response_codec: json_value is_compatibility_response_json is_compatibility_response_of_json "\<lambda>_. True"
proof (rule json_valueI)
  show "is_compatibility_response_of_json (is_compatibility_response_json x) = Some x" for x :: is_compatibility_response
    unfolding is_compatibility_response_of_json_def is_compatibility_response_json_def
    by (subst entries_of_obj [OF is_compatibility_response_names_distinct]) (simp_all add: is_compatibility_response_names_def)
  show "is_compatibility_response_json x \<noteq> JNull" for x
    by (simp add: is_compatibility_response_json_def)
qed

record schema_info =
  schema_info_version :: "64 word"
  schema_info_schema_type :: "string"
  schema_info_timestamp :: "64 word"
  schema_info_data :: "string"
  schema_info_properties :: "(string \<times> string) list"

definition schema_info_names :: "string list" where
  "schema_info_names = [''version'', ''type'', ''timestamp'', ''data'', ''properties'']"

definition schema_info_json :: "schema_info \<Rightarrow> json" where
  "schema_info_json x = obj [
     (''version'', Some (sword_json (schema_info_version x))),
     (''type'', Some (str_json (schema_info_schema_type x))),
     (''timestamp'', Some (sword_json (schema_info_timestamp x))),
     (''data'', Some (str_json (schema_info_data x))),
     (''properties'', Some (map_json str_json (schema_info_properties x)))]"

definition schema_info_of_json :: "json \<Rightarrow> schema_info option" where
  "schema_info_of_json j =
     (case entries_named schema_info_names j of
        Some [v1, v2, v3, v4, v5] \<Rightarrow> do {
          x1 \<leftarrow> defaulted 0 sword_of_json v1;
          x2 \<leftarrow> needed str_of_json v2;
          x3 \<leftarrow> defaulted 0 sword_of_json v3;
          x4 \<leftarrow> defaulted '''' str_of_json v4;
          x5 \<leftarrow> defaulted [] (map_of_json str_of_json) v5;
          Some \<lparr>schema_info_version = x1, schema_info_schema_type = x2, schema_info_timestamp = x3,
            schema_info_data = x4, schema_info_properties = x5\<rparr>}
      | _ \<Rightarrow> None)"

definition schema_info_good :: "schema_info \<Rightarrow> bool" where
  "schema_info_good x \<longleftrightarrow> entries_good (\<lambda>_. True) (schema_info_properties x)"

lemma schema_info_names_distinct: "distinct schema_info_names"
  by code_simp

interpretation schema_info_codec: json_body schema_info_json schema_info_of_json schema_info_good
proof (rule json_bodyI)
  show "schema_info_of_json (schema_info_json x) = Some x" if "schema_info_good x" for x :: schema_info
    using that unfolding schema_info_of_json_def schema_info_json_def schema_info_good_def
    by (subst entries_of_obj [OF schema_info_names_distinct]) (simp_all add: schema_info_names_def)
  show "\<not> has_null (schema_info_json x)" if "schema_info_good x" for x :: schema_info
    using that unfolding schema_info_json_def schema_info_good_def by simp
qed

record post_schema_payload =
  post_schema_payload_schema_type :: "string"
  post_schema_payload_schema :: "string"
  post_schema_payload_properties :: "(string \<times> string) list"

definition post_schema_payload_names :: "string list" where
  "post_schema_payload_names = [''type'', ''schema'', ''properties'']"

definition post_schema_payload_json :: "post_schema_payload \<Rightarrow> json" where
  "post_schema_payload_json x = obj [
     (''type'', Some (str_json (post_schema_payload_schema_type x))),
     (''schema'', Some (str_json (post_schema_payload_schema x))),
     (''properties'', Some (map_json str_json (post_schema_payload_properties x)))]"

definition post_schema_payload_of_json :: "json \<Rightarrow> post_schema_payload option" where
  "post_schema_payload_of_json j =
     (case entries_named post_schema_payload_names j of
        Some [v1, v2, v3] \<Rightarrow> do {
          x1 \<leftarrow> needed str_of_json v1;
          x2 \<leftarrow> defaulted '''' str_of_json v2;
          x3 \<leftarrow> defaulted [] (map_of_json str_of_json) v3;
          Some \<lparr>post_schema_payload_schema_type = x1, post_schema_payload_schema = x2,
            post_schema_payload_properties = x3\<rparr>}
      | _ \<Rightarrow> None)"

definition post_schema_payload_default :: post_schema_payload where
  "post_schema_payload_default = \<lparr>post_schema_payload_schema_type = '''', post_schema_payload_schema = '''',
            post_schema_payload_properties = []\<rparr>"

definition post_schema_payload_good :: "post_schema_payload \<Rightarrow> bool" where
  "post_schema_payload_good x \<longleftrightarrow> entries_good (\<lambda>_. True) (post_schema_payload_properties x)"

lemma post_schema_payload_names_distinct: "distinct post_schema_payload_names"
  by code_simp

interpretation post_schema_payload_codec: json_body post_schema_payload_json post_schema_payload_of_json post_schema_payload_good
proof (rule json_bodyI)
  show "post_schema_payload_of_json (post_schema_payload_json x) = Some x" if "post_schema_payload_good x" for x :: post_schema_payload
    using that unfolding post_schema_payload_of_json_def post_schema_payload_json_def post_schema_payload_good_def
    by (subst entries_of_obj [OF post_schema_payload_names_distinct]) (simp_all add: post_schema_payload_names_def)
  show "\<not> has_null (post_schema_payload_json x)" if "post_schema_payload_good x" for x :: post_schema_payload
    using that unfolding post_schema_payload_json_def post_schema_payload_good_def by simp
qed

record schema_ledger_entry =
  schema_ledger_entry_ledger_id :: "64 word"
  schema_ledger_entry_entry_id :: "64 word"
  schema_ledger_entry_version :: "64 word"

definition schema_ledger_entry_names :: "string list" where
  "schema_ledger_entry_names = [''ledgerId'', ''entryId'', ''version'']"

definition schema_ledger_entry_json :: "schema_ledger_entry \<Rightarrow> json" where
  "schema_ledger_entry_json x = obj [
     (''ledgerId'', Some (sword_json (schema_ledger_entry_ledger_id x))),
     (''entryId'', Some (sword_json (schema_ledger_entry_entry_id x))),
     (''version'', Some (sword_json (schema_ledger_entry_version x)))]"

definition schema_ledger_entry_of_json :: "json \<Rightarrow> schema_ledger_entry option" where
  "schema_ledger_entry_of_json j =
     (case entries_named schema_ledger_entry_names j of
        Some [v1, v2, v3] \<Rightarrow> do {
          x1 \<leftarrow> defaulted 0 sword_of_json v1;
          x2 \<leftarrow> defaulted 0 sword_of_json v2;
          x3 \<leftarrow> defaulted 0 sword_of_json v3;
          Some \<lparr>schema_ledger_entry_ledger_id = x1, schema_ledger_entry_entry_id = x2,
            schema_ledger_entry_version = x3\<rparr>}
      | _ \<Rightarrow> None)"

lemma schema_ledger_entry_names_distinct: "distinct schema_ledger_entry_names"
  by code_simp

interpretation schema_ledger_entry_codec: json_body schema_ledger_entry_json schema_ledger_entry_of_json "\<lambda>_. True"
proof (rule json_bodyI)
  show "schema_ledger_entry_of_json (schema_ledger_entry_json x) = Some x" for x :: schema_ledger_entry
    unfolding schema_ledger_entry_of_json_def schema_ledger_entry_json_def
    by (subst entries_of_obj [OF schema_ledger_entry_names_distinct]) (simp_all add: schema_ledger_entry_names_def)
  show "\<not> has_null (schema_ledger_entry_json x)" for x :: schema_ledger_entry
    unfolding schema_ledger_entry_json_def by simp
qed

interpretation schema_ledger_entry_list_codec: json_body "list_json schema_ledger_entry_json" "list_of_json schema_ledger_entry_of_json" "\<lambda>_. True"
  by (rule list_body_True [OF schema_ledger_entry_codec.json_body_axioms])

record schema_metadata =
  schema_metadata_info :: "schema_ledger_entry option"
  schema_metadata_index :: "schema_ledger_entry list"

definition schema_metadata_names :: "string list" where
  "schema_metadata_names = [''info'', ''index'']"

definition schema_metadata_json :: "schema_metadata \<Rightarrow> json" where
  "schema_metadata_json x = obj [
     (''info'', if_some schema_ledger_entry_json (schema_metadata_info x)),
     (''index'', Some (list_json schema_ledger_entry_json (schema_metadata_index x)))]"

definition schema_metadata_of_json :: "json \<Rightarrow> schema_metadata option" where
  "schema_metadata_of_json j =
     (case entries_named schema_metadata_names j of
        Some [v1, v2] \<Rightarrow> do {
          x1 \<leftarrow> optional schema_ledger_entry_of_json v1;
          x2 \<leftarrow> defaulted [] (list_of_json schema_ledger_entry_of_json) v2;
          Some \<lparr>schema_metadata_info = x1, schema_metadata_index = x2\<rparr>}
      | _ \<Rightarrow> None)"

lemma schema_metadata_names_distinct: "distinct schema_metadata_names"
  by code_simp

interpretation schema_metadata_codec: json_body schema_metadata_json schema_metadata_of_json "\<lambda>_. True"
proof (rule json_bodyI)
  show "schema_metadata_of_json (schema_metadata_json x) = Some x" for x :: schema_metadata
    unfolding schema_metadata_of_json_def schema_metadata_json_def
    by (subst entries_of_obj [OF schema_metadata_names_distinct]) (simp_all add: schema_metadata_names_def)
  show "\<not> has_null (schema_metadata_json x)" for x :: schema_metadata
    unfolding schema_metadata_json_def by simp
qed

record topic_lookup_result =
  topic_lookup_result_broker_id :: "string option"
  topic_lookup_result_broker_url :: "string option"
  topic_lookup_result_broker_url_tls :: "string option"
  topic_lookup_result_http_url :: "string option"
  topic_lookup_result_http_url_tls :: "string option"
  topic_lookup_result_native_url :: "string option"
  topic_lookup_result_broker_url_ssl :: "string option"

definition topic_lookup_result_names :: "string list" where
  "topic_lookup_result_names = [''brokerId'', ''brokerUrl'', ''brokerUrlTls'', ''httpUrl'', ''httpUrlTls'', ''nativeUrl'',
     ''brokerUrlSsl'']"

definition topic_lookup_result_json :: "topic_lookup_result \<Rightarrow> json" where
  "topic_lookup_result_json x = obj [
     (''brokerId'', or_null str_json (topic_lookup_result_broker_id x)),
     (''brokerUrl'', or_null str_json (topic_lookup_result_broker_url x)),
     (''brokerUrlTls'', or_null str_json (topic_lookup_result_broker_url_tls x)),
     (''httpUrl'', or_null str_json (topic_lookup_result_http_url x)),
     (''httpUrlTls'', or_null str_json (topic_lookup_result_http_url_tls x)),
     (''nativeUrl'', or_null str_json (topic_lookup_result_native_url x)),
     (''brokerUrlSsl'', or_null str_json (topic_lookup_result_broker_url_ssl x))]"

definition topic_lookup_result_of_json :: "json \<Rightarrow> topic_lookup_result option" where
  "topic_lookup_result_of_json j =
     (case entries_named topic_lookup_result_names j of
        Some [v1, v2, v3, v4, v5, v6, v7] \<Rightarrow> do {
          x1 \<leftarrow> optional str_of_json v1;
          x2 \<leftarrow> optional str_of_json v2;
          x3 \<leftarrow> optional str_of_json v3;
          x4 \<leftarrow> optional str_of_json v4;
          x5 \<leftarrow> optional str_of_json v5;
          x6 \<leftarrow> optional str_of_json v6;
          x7 \<leftarrow> optional str_of_json v7;
          Some \<lparr>topic_lookup_result_broker_id = x1, topic_lookup_result_broker_url = x2,
            topic_lookup_result_broker_url_tls = x3, topic_lookup_result_http_url = x4,
            topic_lookup_result_http_url_tls = x5, topic_lookup_result_native_url = x6,
            topic_lookup_result_broker_url_ssl = x7\<rparr>}
      | _ \<Rightarrow> None)"

lemma topic_lookup_result_names_distinct: "distinct topic_lookup_result_names"
  by code_simp

interpretation topic_lookup_result_codec: json_value topic_lookup_result_json topic_lookup_result_of_json "\<lambda>_. True"
proof (rule json_valueI)
  show "topic_lookup_result_of_json (topic_lookup_result_json x) = Some x" for x :: topic_lookup_result
    unfolding topic_lookup_result_of_json_def topic_lookup_result_json_def
    by (subst entries_of_obj [OF topic_lookup_result_names_distinct]) (simp_all add: topic_lookup_result_names_def)
  show "topic_lookup_result_json x \<noteq> JNull" for x
    by (simp add: topic_lookup_result_json_def)
qed

record non_persistent_topic_stats =
  non_persistent_topic_stats_msg_rate_in :: "f64"
  non_persistent_topic_stats_msg_throughput_in :: "f64"
  non_persistent_topic_stats_msg_rate_out :: "f64"
  non_persistent_topic_stats_msg_throughput_out :: "f64"
  non_persistent_topic_stats_msg_in_counter :: "64 word"
  non_persistent_topic_stats_msg_out_counter :: "64 word"
  non_persistent_topic_stats_average_msg_size :: "f64"
  non_persistent_topic_stats_msg_drop_rate :: "f64"
  non_persistent_topic_stats_publishers :: "publisher_stats list"
  non_persistent_topic_stats_subscriptions :: "(string \<times> subscription_stats) list"
  non_persistent_topic_stats_replication :: "(string \<times> replicator_stats) list"
  non_persistent_topic_stats_owner_broker :: "string option"

definition non_persistent_topic_stats_names :: "string list" where
  "non_persistent_topic_stats_names = [''msgRateIn'', ''msgThroughputIn'', ''msgRateOut'', ''msgThroughputOut'', ''msgInCounter'',
     ''msgOutCounter'', ''averageMsgSize'', ''msgDropRate'', ''publishers'', ''subscriptions'',
     ''replication'', ''ownerBroker'']"

definition non_persistent_topic_stats_json :: "non_persistent_topic_stats \<Rightarrow> json" where
  "non_persistent_topic_stats_json x = obj [
     (''msgRateIn'', Some (f64_json (non_persistent_topic_stats_msg_rate_in x))),
     (''msgThroughputIn'', Some (f64_json (non_persistent_topic_stats_msg_throughput_in x))),
     (''msgRateOut'', Some (f64_json (non_persistent_topic_stats_msg_rate_out x))),
     (''msgThroughputOut'', Some (f64_json (non_persistent_topic_stats_msg_throughput_out x))),
     (''msgInCounter'', Some (sword_json (non_persistent_topic_stats_msg_in_counter x))),
     (''msgOutCounter'', Some (sword_json (non_persistent_topic_stats_msg_out_counter x))),
     (''averageMsgSize'', Some (f64_json (non_persistent_topic_stats_average_msg_size x))),
     (''msgDropRate'', Some (f64_json (non_persistent_topic_stats_msg_drop_rate x))),
     (''publishers'', Some (list_json publisher_stats_json (non_persistent_topic_stats_publishers x))),
     (''subscriptions'', Some (map_json subscription_stats_json (non_persistent_topic_stats_subscriptions x))),
     (''replication'', Some (map_json replicator_stats_json (non_persistent_topic_stats_replication x))),
     (''ownerBroker'', or_null str_json (non_persistent_topic_stats_owner_broker x))]"

definition non_persistent_topic_stats_of_json :: "json \<Rightarrow> non_persistent_topic_stats option" where
  "non_persistent_topic_stats_of_json j =
     (case entries_named non_persistent_topic_stats_names j of
        Some [v1, v2, v3, v4, v5, v6, v7, v8, v9, v10, v11, v12] \<Rightarrow> do {
          x1 \<leftarrow> defaulted (F64 0) f64_of_json v1;
          x2 \<leftarrow> defaulted (F64 0) f64_of_json v2;
          x3 \<leftarrow> defaulted (F64 0) f64_of_json v3;
          x4 \<leftarrow> defaulted (F64 0) f64_of_json v4;
          x5 \<leftarrow> defaulted 0 sword_of_json v5;
          x6 \<leftarrow> defaulted 0 sword_of_json v6;
          x7 \<leftarrow> defaulted (F64 0) f64_of_json v7;
          x8 \<leftarrow> defaulted (F64 0) f64_of_json v8;
          x9 \<leftarrow> defaulted [] (list_of_json publisher_stats_of_json) v9;
          x10 \<leftarrow> defaulted [] (map_of_json subscription_stats_of_json) v10;
          x11 \<leftarrow> defaulted [] (map_of_json replicator_stats_of_json) v11;
          x12 \<leftarrow> optional str_of_json v12;
          Some \<lparr>non_persistent_topic_stats_msg_rate_in = x1,
            non_persistent_topic_stats_msg_throughput_in = x2,
            non_persistent_topic_stats_msg_rate_out = x3,
            non_persistent_topic_stats_msg_throughput_out = x4,
            non_persistent_topic_stats_msg_in_counter = x5,
            non_persistent_topic_stats_msg_out_counter = x6,
            non_persistent_topic_stats_average_msg_size = x7,
            non_persistent_topic_stats_msg_drop_rate = x8, non_persistent_topic_stats_publishers = x9,
            non_persistent_topic_stats_subscriptions = x10,
            non_persistent_topic_stats_replication = x11, non_persistent_topic_stats_owner_broker = x12\<rparr>}
      | _ \<Rightarrow> None)"

definition non_persistent_topic_stats_good :: "non_persistent_topic_stats \<Rightarrow> bool" where
  "non_persistent_topic_stats_good x \<longleftrightarrow> is_finite (non_persistent_topic_stats_msg_rate_in x)
     \<and> is_finite (non_persistent_topic_stats_msg_throughput_in x)
     \<and> is_finite (non_persistent_topic_stats_msg_rate_out x)
     \<and> is_finite (non_persistent_topic_stats_msg_throughput_out x)
     \<and> is_finite (non_persistent_topic_stats_average_msg_size x)
     \<and> is_finite (non_persistent_topic_stats_msg_drop_rate x)
     \<and> list_all publisher_stats_good (non_persistent_topic_stats_publishers x)
     \<and> entries_good subscription_stats_good (non_persistent_topic_stats_subscriptions x)
     \<and> entries_good replicator_stats_good (non_persistent_topic_stats_replication x)"

lemma non_persistent_topic_stats_names_distinct: "distinct non_persistent_topic_stats_names"
  by code_simp

interpretation non_persistent_topic_stats_codec: json_value non_persistent_topic_stats_json non_persistent_topic_stats_of_json non_persistent_topic_stats_good
proof (rule json_valueI)
  show "non_persistent_topic_stats_of_json (non_persistent_topic_stats_json x) = Some x" if "non_persistent_topic_stats_good x" for x :: non_persistent_topic_stats
    using that unfolding non_persistent_topic_stats_of_json_def non_persistent_topic_stats_json_def non_persistent_topic_stats_good_def
    by (subst entries_of_obj [OF non_persistent_topic_stats_names_distinct]) (simp_all add: non_persistent_topic_stats_names_def)
  show "non_persistent_topic_stats_json x \<noteq> JNull" for x
    by (simp add: non_persistent_topic_stats_json_def)
qed

section \<open>Positions\<close>

definition admin_message_id_earliest :: admin_message_id where
  "admin_message_id_earliest = admin_message_id_default\<lparr>
     admin_message_id_ledger_id := - 1, admin_message_id_entry_id := - 1, admin_message_id_partition_index := - 1\<rparr>"

definition admin_message_id_latest :: admin_message_id where
  "admin_message_id_latest = admin_message_id_default\<lparr>
     admin_message_id_ledger_id := 2 ^ 63 - 1, admin_message_id_entry_id := 2 ^ 63 - 1,
     admin_message_id_partition_index := - 1\<rparr>"

text \<open>The two ends of a topic are written with the numbers Java uses for them.\<close>

lemma earliest_and_latest_documents:
  "admin_message_id_json admin_message_id_earliest = JObj [(''ledgerId'', JNum (- 1)), (''entryId'', JNum (- 1)),
     (''partitionIndex'', JNum (- 1)), (''batchIndex'', JNum 0), (''batchSize'', JNum 0)]"
  "admin_message_id_json admin_message_id_latest = JObj [(''ledgerId'', JNum 9223372036854775807),
     (''entryId'', JNum 9223372036854775807),
     (''partitionIndex'', JNum (- 1)), (''batchIndex'', JNum 0), (''batchSize'', JNum 0)]"
  by (simp_all add: admin_message_id_json_def admin_message_id_earliest_def admin_message_id_latest_def
      admin_message_id_default_def obj_def map_filter_simps sword_json_def)

section \<open>The statistics of a partitioned topic\<close>

text \<open>The entries of the aggregate share no name with those around them.\<close>

lemma partitioned_and_aggregate_names:
  "distinct (partitioned_topic_stats_names @ map fst (topic_stats_entries x))"
proof -
  have "distinct (partitioned_topic_stats_names @ topic_stats_names)" by code_simp
  moreover have "map fst (topic_stats_entries x) = topic_stats_names"
    by (simp add: topic_stats_entries_def topic_stats_names_def)
  ultimately show ?thesis by simp
qed

text \<open>The aggregate of a partitioned topic lies flat among its entries, and is found there again.\<close>

theorem partitioned_stats_are_read_back:
  assumes "partitioned_topic_stats_good x"
  shows "partitioned_topic_stats_of_json (partitioned_topic_stats_json x) = Some x"
proof -
  have "topic_stats_of_json (obj (topic_stats_entries (partitioned_topic_stats_aggregate x)))
      = Some (partitioned_topic_stats_aggregate x)"
    using topic_stats_codec.read_back assms
    by (simp add: topic_stats_json_def partitioned_topic_stats_good_def)
  with assms show ?thesis
    unfolding partitioned_topic_stats_json_def partitioned_topic_stats_of_json_def
    apply (subst entries_of_outer [OF partitioned_and_aggregate_names])
     apply (simp add: partitioned_topic_stats_names_def)
    apply (subst without_outer [OF partitioned_and_aggregate_names])
     apply (simp add: partitioned_topic_stats_names_def)
    by (simp add: partitioned_topic_stats_good_def)
qed

text \<open>Statistics that a broker leaves out are zero, empty or absent.\<close>

lemma missing_statistics_are_defaults:
  "topic_stats_of_json (JObj []) = Some topic_stats_default"
  "partitioned_topic_stats_of_json (JObj []) = Some partitioned_topic_stats_default"
  by (simp_all add: topic_stats_of_json_def topic_stats_names_def topic_stats_default_def occurrences_def
      partitioned_topic_stats_of_json_def partitioned_topic_stats_names_def partitioned_topic_stats_default_def)

end
