(* ===== verification/Models_Services.thy ===== *)
theory Models_Services
  imports Models_Stats
begin

text \<open>
  The documents of transactions, scalable topics, functions, connectors, packages and load (\<open>admin/models.rs\<close>,
  lines 1943 to 3004). Each struct is a record; beside it stand the names of its
  fields in a document, how it is written and how it is read, field by field as the attributes
  say, and its interpretation as a type that is read back as written. \<open>good\<close> collects what that
  needs: finite doubles, and maps and sets in the order of their keys.
\<close>

record transaction_coordinator_info =
  transaction_coordinator_info_id :: "64 word"
  transaction_coordinator_info_broker_service_url :: "string option"

definition transaction_coordinator_info_names :: "string list" where
  "transaction_coordinator_info_names = [''id'', ''brokerServiceUrl'']"

definition transaction_coordinator_info_json :: "transaction_coordinator_info \<Rightarrow> json" where
  "transaction_coordinator_info_json x = obj [
     (''id'', Some (sword_json (transaction_coordinator_info_id x))),
     (''brokerServiceUrl'', or_null str_json (transaction_coordinator_info_broker_service_url x))]"

definition transaction_coordinator_info_of_json :: "json \<Rightarrow> transaction_coordinator_info option" where
  "transaction_coordinator_info_of_json j =
     (case entries_named transaction_coordinator_info_names j of
        Some [v1, v2] \<Rightarrow> do {
          x1 \<leftarrow> defaulted 0 sword_of_json v1;
          x2 \<leftarrow> optional str_of_json v2;
          Some \<lparr>transaction_coordinator_info_id = x1, transaction_coordinator_info_broker_service_url = x2\<rparr>}
      | _ \<Rightarrow> None)"

lemma transaction_coordinator_info_names_distinct: "distinct transaction_coordinator_info_names"
  by code_simp

interpretation transaction_coordinator_info_codec: json_value transaction_coordinator_info_json transaction_coordinator_info_of_json "\<lambda>_. True"
proof (rule json_valueI)
  show "transaction_coordinator_info_of_json (transaction_coordinator_info_json x) = Some x" for x :: transaction_coordinator_info
    unfolding transaction_coordinator_info_of_json_def transaction_coordinator_info_json_def
    by (subst entries_of_obj [OF transaction_coordinator_info_names_distinct]) (simp_all add: transaction_coordinator_info_names_def)
  show "transaction_coordinator_info_json x \<noteq> JNull" for x
    by (simp add: transaction_coordinator_info_json_def)
qed

record transaction_coordinator_stats =
  transaction_coordinator_stats_state :: "string option"
  transaction_coordinator_stats_least_sig_bits :: "64 word"
  transaction_coordinator_stats_low_water_mark :: "64 word"
  transaction_coordinator_stats_ongoing_txn_size :: "64 word"
  transaction_coordinator_stats_recover_start_time :: "64 word"
  transaction_coordinator_stats_recover_end_time :: "64 word"

definition transaction_coordinator_stats_names :: "string list" where
  "transaction_coordinator_stats_names = [''state'', ''leastSigBits'', ''lowWaterMark'', ''ongoingTxnSize'', ''recoverStartTime'',
     ''recoverEndTime'']"

definition transaction_coordinator_stats_json :: "transaction_coordinator_stats \<Rightarrow> json" where
  "transaction_coordinator_stats_json x = obj [
     (''state'', or_null str_json (transaction_coordinator_stats_state x)),
     (''leastSigBits'', Some (sword_json (transaction_coordinator_stats_least_sig_bits x))),
     (''lowWaterMark'', Some (sword_json (transaction_coordinator_stats_low_water_mark x))),
     (''ongoingTxnSize'', Some (sword_json (transaction_coordinator_stats_ongoing_txn_size x))),
     (''recoverStartTime'', Some (sword_json (transaction_coordinator_stats_recover_start_time x))),
     (''recoverEndTime'', Some (sword_json (transaction_coordinator_stats_recover_end_time x)))]"

definition transaction_coordinator_stats_of_json :: "json \<Rightarrow> transaction_coordinator_stats option" where
  "transaction_coordinator_stats_of_json j =
     (case entries_named transaction_coordinator_stats_names j of
        Some [v1, v2, v3, v4, v5, v6] \<Rightarrow> do {
          x1 \<leftarrow> optional str_of_json v1;
          x2 \<leftarrow> defaulted 0 sword_of_json v2;
          x3 \<leftarrow> defaulted 0 sword_of_json v3;
          x4 \<leftarrow> defaulted 0 sword_of_json v4;
          x5 \<leftarrow> defaulted 0 sword_of_json v5;
          x6 \<leftarrow> defaulted 0 sword_of_json v6;
          Some \<lparr>transaction_coordinator_stats_state = x1,
            transaction_coordinator_stats_least_sig_bits = x2,
            transaction_coordinator_stats_low_water_mark = x3,
            transaction_coordinator_stats_ongoing_txn_size = x4,
            transaction_coordinator_stats_recover_start_time = x5,
            transaction_coordinator_stats_recover_end_time = x6\<rparr>}
      | _ \<Rightarrow> None)"

lemma transaction_coordinator_stats_names_distinct: "distinct transaction_coordinator_stats_names"
  by code_simp

interpretation transaction_coordinator_stats_codec: json_value transaction_coordinator_stats_json transaction_coordinator_stats_of_json "\<lambda>_. True"
proof (rule json_valueI)
  show "transaction_coordinator_stats_of_json (transaction_coordinator_stats_json x) = Some x" for x :: transaction_coordinator_stats
    unfolding transaction_coordinator_stats_of_json_def transaction_coordinator_stats_json_def
    by (subst entries_of_obj [OF transaction_coordinator_stats_names_distinct]) (simp_all add: transaction_coordinator_stats_names_def)
  show "transaction_coordinator_stats_json x \<noteq> JNull" for x
    by (simp add: transaction_coordinator_stats_json_def)
qed

record transaction_in_buffer_stats =
  transaction_in_buffer_stats_start_position :: "string option"
  transaction_in_buffer_stats_aborted :: "bool"

definition transaction_in_buffer_stats_names :: "string list" where
  "transaction_in_buffer_stats_names = [''startPosition'', ''aborted'']"

definition transaction_in_buffer_stats_json :: "transaction_in_buffer_stats \<Rightarrow> json" where
  "transaction_in_buffer_stats_json x = obj [
     (''startPosition'', or_null str_json (transaction_in_buffer_stats_start_position x)),
     (''aborted'', Some (JBool (transaction_in_buffer_stats_aborted x)))]"

definition transaction_in_buffer_stats_of_json :: "json \<Rightarrow> transaction_in_buffer_stats option" where
  "transaction_in_buffer_stats_of_json j =
     (case entries_named transaction_in_buffer_stats_names j of
        Some [v1, v2] \<Rightarrow> do {
          x1 \<leftarrow> optional str_of_json v1;
          x2 \<leftarrow> defaulted False bool_of_json v2;
          Some \<lparr>transaction_in_buffer_stats_start_position = x1, transaction_in_buffer_stats_aborted = x2\<rparr>}
      | _ \<Rightarrow> None)"

lemma transaction_in_buffer_stats_names_distinct: "distinct transaction_in_buffer_stats_names"
  by code_simp

interpretation transaction_in_buffer_stats_codec: json_value transaction_in_buffer_stats_json transaction_in_buffer_stats_of_json "\<lambda>_. True"
proof (rule json_valueI)
  show "transaction_in_buffer_stats_of_json (transaction_in_buffer_stats_json x) = Some x" for x :: transaction_in_buffer_stats
    unfolding transaction_in_buffer_stats_of_json_def transaction_in_buffer_stats_json_def
    by (subst entries_of_obj [OF transaction_in_buffer_stats_names_distinct]) (simp_all add: transaction_in_buffer_stats_names_def)
  show "transaction_in_buffer_stats_json x \<noteq> JNull" for x
    by (simp add: transaction_in_buffer_stats_json_def)
qed

record transaction_in_pending_ack_stats =
  transaction_in_pending_ack_stats_cumulative_ack_position :: "string option"

definition transaction_in_pending_ack_stats_names :: "string list" where
  "transaction_in_pending_ack_stats_names = [''cumulativeAckPosition'']"

definition transaction_in_pending_ack_stats_json :: "transaction_in_pending_ack_stats \<Rightarrow> json" where
  "transaction_in_pending_ack_stats_json x = obj [
     (''cumulativeAckPosition'', or_null str_json (transaction_in_pending_ack_stats_cumulative_ack_position x))]"

definition transaction_in_pending_ack_stats_of_json :: "json \<Rightarrow> transaction_in_pending_ack_stats option" where
  "transaction_in_pending_ack_stats_of_json j =
     (case entries_named transaction_in_pending_ack_stats_names j of
        Some [v1] \<Rightarrow> do {
          x1 \<leftarrow> optional str_of_json v1;
          Some \<lparr>transaction_in_pending_ack_stats_cumulative_ack_position = x1\<rparr>}
      | _ \<Rightarrow> None)"

lemma transaction_in_pending_ack_stats_names_distinct: "distinct transaction_in_pending_ack_stats_names"
  by code_simp

interpretation transaction_in_pending_ack_stats_codec: json_value transaction_in_pending_ack_stats_json transaction_in_pending_ack_stats_of_json "\<lambda>_. True"
proof (rule json_valueI)
  show "transaction_in_pending_ack_stats_of_json (transaction_in_pending_ack_stats_json x) = Some x" for x :: transaction_in_pending_ack_stats
    unfolding transaction_in_pending_ack_stats_of_json_def transaction_in_pending_ack_stats_json_def
    by (subst entries_of_obj [OF transaction_in_pending_ack_stats_names_distinct]) (simp_all add: transaction_in_pending_ack_stats_names_def)
  show "transaction_in_pending_ack_stats_json x \<noteq> JNull" for x
    by (simp add: transaction_in_pending_ack_stats_json_def)
qed

interpretation transaction_in_buffer_stats_map_codec: json_value "map_json transaction_in_buffer_stats_json" "map_of_json transaction_in_buffer_stats_of_json" "entries_good (\<lambda>_. True)"
  by (rule map_value [OF transaction_in_buffer_stats_codec.json_codec_axioms])

interpretation transaction_in_pending_ack_stats_map_codec: json_value "map_json transaction_in_pending_ack_stats_json" "map_of_json transaction_in_pending_ack_stats_of_json" "entries_good (\<lambda>_. True)"
  by (rule map_value [OF transaction_in_pending_ack_stats_codec.json_codec_axioms])

interpretation transaction_in_pending_ack_stats_map_map_codec: json_value "map_json (map_json transaction_in_pending_ack_stats_json)" "map_of_json (map_of_json transaction_in_pending_ack_stats_of_json)" "entries_good (entries_good (\<lambda>_. True))"
  by (rule map_value [OF transaction_in_pending_ack_stats_map_codec.json_codec_axioms])

record transaction_metadata =
  transaction_metadata_txn_id :: "string option"
  transaction_metadata_status :: "string option"
  transaction_metadata_open_timestamp :: "64 word"
  transaction_metadata_timeout_at :: "64 word"
  transaction_metadata_owner :: "string option"
  transaction_metadata_produced_partitions :: "(string \<times> transaction_in_buffer_stats) list"
  transaction_metadata_acked_partitions :: "(string \<times> (string \<times> transaction_in_pending_ack_stats) list) list"

definition transaction_metadata_names :: "string list" where
  "transaction_metadata_names = [''txnId'', ''status'', ''openTimestamp'', ''timeoutAt'', ''owner'', ''producedPartitions'',
     ''ackedPartitions'']"

definition transaction_metadata_json :: "transaction_metadata \<Rightarrow> json" where
  "transaction_metadata_json x = obj [
     (''txnId'', or_null str_json (transaction_metadata_txn_id x)),
     (''status'', or_null str_json (transaction_metadata_status x)),
     (''openTimestamp'', Some (sword_json (transaction_metadata_open_timestamp x))),
     (''timeoutAt'', Some (sword_json (transaction_metadata_timeout_at x))),
     (''owner'', or_null str_json (transaction_metadata_owner x)),
     (''producedPartitions'', Some (map_json transaction_in_buffer_stats_json (transaction_metadata_produced_partitions x))),
     (''ackedPartitions'', Some (map_json (map_json transaction_in_pending_ack_stats_json) (transaction_metadata_acked_partitions x)))]"

definition transaction_metadata_of_json :: "json \<Rightarrow> transaction_metadata option" where
  "transaction_metadata_of_json j =
     (case entries_named transaction_metadata_names j of
        Some [v1, v2, v3, v4, v5, v6, v7] \<Rightarrow> do {
          x1 \<leftarrow> optional str_of_json v1;
          x2 \<leftarrow> optional str_of_json v2;
          x3 \<leftarrow> defaulted 0 sword_of_json v3;
          x4 \<leftarrow> defaulted 0 sword_of_json v4;
          x5 \<leftarrow> optional str_of_json v5;
          x6 \<leftarrow> defaulted [] (map_of_json transaction_in_buffer_stats_of_json) v6;
          x7 \<leftarrow> defaulted [] (map_of_json (map_of_json transaction_in_pending_ack_stats_of_json)) v7;
          Some \<lparr>transaction_metadata_txn_id = x1, transaction_metadata_status = x2,
            transaction_metadata_open_timestamp = x3, transaction_metadata_timeout_at = x4,
            transaction_metadata_owner = x5, transaction_metadata_produced_partitions = x6,
            transaction_metadata_acked_partitions = x7\<rparr>}
      | _ \<Rightarrow> None)"

definition transaction_metadata_good :: "transaction_metadata \<Rightarrow> bool" where
  "transaction_metadata_good x \<longleftrightarrow> entries_good (\<lambda>_. True) (transaction_metadata_produced_partitions x)
     \<and> entries_good (entries_good (\<lambda>_. True)) (transaction_metadata_acked_partitions x)"

lemma transaction_metadata_names_distinct: "distinct transaction_metadata_names"
  by code_simp

interpretation transaction_metadata_codec: json_value transaction_metadata_json transaction_metadata_of_json transaction_metadata_good
proof (rule json_valueI)
  show "transaction_metadata_of_json (transaction_metadata_json x) = Some x" if "transaction_metadata_good x" for x :: transaction_metadata
    using that unfolding transaction_metadata_of_json_def transaction_metadata_json_def transaction_metadata_good_def
    by (subst entries_of_obj [OF transaction_metadata_names_distinct]) (simp_all add: transaction_metadata_names_def)
  show "transaction_metadata_json x \<noteq> JNull" for x
    by (simp add: transaction_metadata_json_def)
qed

record segment_stats =
  segment_stats_last_txn_id :: "string option"
  segment_stats_persistent_position :: "string option"

definition segment_stats_names :: "string list" where
  "segment_stats_names = [''lastTxnID'', ''persistentPosition'']"

definition segment_stats_json :: "segment_stats \<Rightarrow> json" where
  "segment_stats_json x = obj [
     (''lastTxnID'', or_null str_json (segment_stats_last_txn_id x)),
     (''persistentPosition'', or_null str_json (segment_stats_persistent_position x))]"

definition segment_stats_of_json :: "json \<Rightarrow> segment_stats option" where
  "segment_stats_of_json j =
     (case entries_named segment_stats_names j of
        Some [v1, v2] \<Rightarrow> do {
          x1 \<leftarrow> optional str_of_json v1;
          x2 \<leftarrow> optional str_of_json v2;
          Some \<lparr>segment_stats_last_txn_id = x1, segment_stats_persistent_position = x2\<rparr>}
      | _ \<Rightarrow> None)"

lemma segment_stats_names_distinct: "distinct segment_stats_names"
  by code_simp

interpretation segment_stats_codec: json_value segment_stats_json segment_stats_of_json "\<lambda>_. True"
proof (rule json_valueI)
  show "segment_stats_of_json (segment_stats_json x) = Some x" for x :: segment_stats
    unfolding segment_stats_of_json_def segment_stats_json_def
    by (subst entries_of_obj [OF segment_stats_names_distinct]) (simp_all add: segment_stats_names_def)
  show "segment_stats_json x \<noteq> JNull" for x
    by (simp add: segment_stats_json_def)
qed

interpretation segment_stats_list_codec: json_value "list_json segment_stats_json" "list_of_json segment_stats_of_json" "\<lambda>_. True"
  by (rule list_value_True [OF segment_stats_codec.json_codec_axioms])

record segments_stats =
  segments_stats_segments_size :: "64 word"
  segments_stats_current_segment_capacity :: "64 word"
  segments_stats_unsealed_abort_txn_id_size :: "64 word"
  segments_stats_segment_stats :: "segment_stats list"
  segments_stats_last_took_snapshot_segment_timestamp :: "64 word"

definition segments_stats_names :: "string list" where
  "segments_stats_names = [''segmentsSize'', ''currentSegmentCapacity'', ''unsealedAbortTxnIDSize'', ''segmentStats'',
     ''lastTookSnapshotSegmentTimestamp'']"

definition segments_stats_json :: "segments_stats \<Rightarrow> json" where
  "segments_stats_json x = obj [
     (''segmentsSize'', Some (sword_json (segments_stats_segments_size x))),
     (''currentSegmentCapacity'', Some (sword_json (segments_stats_current_segment_capacity x))),
     (''unsealedAbortTxnIDSize'', Some (sword_json (segments_stats_unsealed_abort_txn_id_size x))),
     (''segmentStats'', Some (list_json segment_stats_json (segments_stats_segment_stats x))),
     (''lastTookSnapshotSegmentTimestamp'', Some (sword_json (segments_stats_last_took_snapshot_segment_timestamp x)))]"

definition segments_stats_of_json :: "json \<Rightarrow> segments_stats option" where
  "segments_stats_of_json j =
     (case entries_named segments_stats_names j of
        Some [v1, v2, v3, v4, v5] \<Rightarrow> do {
          x1 \<leftarrow> defaulted 0 sword_of_json v1;
          x2 \<leftarrow> defaulted 0 sword_of_json v2;
          x3 \<leftarrow> defaulted 0 sword_of_json v3;
          x4 \<leftarrow> defaulted [] (list_of_json segment_stats_of_json) v4;
          x5 \<leftarrow> defaulted 0 sword_of_json v5;
          Some \<lparr>segments_stats_segments_size = x1, segments_stats_current_segment_capacity = x2,
            segments_stats_unsealed_abort_txn_id_size = x3, segments_stats_segment_stats = x4,
            segments_stats_last_took_snapshot_segment_timestamp = x5\<rparr>}
      | _ \<Rightarrow> None)"

lemma segments_stats_names_distinct: "distinct segments_stats_names"
  by code_simp

interpretation segments_stats_codec: json_value segments_stats_json segments_stats_of_json "\<lambda>_. True"
proof (rule json_valueI)
  show "segments_stats_of_json (segments_stats_json x) = Some x" for x :: segments_stats
    unfolding segments_stats_of_json_def segments_stats_json_def
    by (subst entries_of_obj [OF segments_stats_names_distinct]) (simp_all add: segments_stats_names_def)
  show "segments_stats_json x \<noteq> JNull" for x
    by (simp add: segments_stats_json_def)
qed

record transaction_buffer_stats =
  transaction_buffer_stats_state :: "string option"
  transaction_buffer_stats_max_read_position :: "string option"
  transaction_buffer_stats_last_snapshot_timestamps :: "64 word"
  transaction_buffer_stats_low_water_marks :: "(string \<times> 64 word) list"
  transaction_buffer_stats_ongoing_txn_size :: "64 word"
  transaction_buffer_stats_recover_start_time :: "64 word"
  transaction_buffer_stats_recover_end_time :: "64 word"
  transaction_buffer_stats_total_aborted_transactions :: "64 word"
  transaction_buffer_stats_snapshot_type :: "string option"
  transaction_buffer_stats_segments_stats :: "segments_stats option"

definition transaction_buffer_stats_names :: "string list" where
  "transaction_buffer_stats_names = [''state'', ''maxReadPosition'', ''lastSnapshotTimestamps'', ''lowWaterMarks'',
     ''ongoingTxnSize'', ''recoverStartTime'', ''recoverEndTime'', ''totalAbortedTransactions'',
     ''snapshotType'', ''segmentsStats'']"

definition transaction_buffer_stats_json :: "transaction_buffer_stats \<Rightarrow> json" where
  "transaction_buffer_stats_json x = obj [
     (''state'', or_null str_json (transaction_buffer_stats_state x)),
     (''maxReadPosition'', or_null str_json (transaction_buffer_stats_max_read_position x)),
     (''lastSnapshotTimestamps'', Some (sword_json (transaction_buffer_stats_last_snapshot_timestamps x))),
     (''lowWaterMarks'', Some (map_json sword_json (transaction_buffer_stats_low_water_marks x))),
     (''ongoingTxnSize'', Some (sword_json (transaction_buffer_stats_ongoing_txn_size x))),
     (''recoverStartTime'', Some (sword_json (transaction_buffer_stats_recover_start_time x))),
     (''recoverEndTime'', Some (sword_json (transaction_buffer_stats_recover_end_time x))),
     (''totalAbortedTransactions'', Some (sword_json (transaction_buffer_stats_total_aborted_transactions x))),
     (''snapshotType'', or_null str_json (transaction_buffer_stats_snapshot_type x)),
     (''segmentsStats'', if_some segments_stats_json (transaction_buffer_stats_segments_stats x))]"

definition transaction_buffer_stats_of_json :: "json \<Rightarrow> transaction_buffer_stats option" where
  "transaction_buffer_stats_of_json j =
     (case entries_named transaction_buffer_stats_names j of
        Some [v1, v2, v3, v4, v5, v6, v7, v8, v9, v10] \<Rightarrow> do {
          x1 \<leftarrow> optional str_of_json v1;
          x2 \<leftarrow> optional str_of_json v2;
          x3 \<leftarrow> defaulted 0 sword_of_json v3;
          x4 \<leftarrow> defaulted [] (map_of_json sword_of_json) v4;
          x5 \<leftarrow> defaulted 0 sword_of_json v5;
          x6 \<leftarrow> defaulted 0 sword_of_json v6;
          x7 \<leftarrow> defaulted 0 sword_of_json v7;
          x8 \<leftarrow> defaulted 0 sword_of_json v8;
          x9 \<leftarrow> optional str_of_json v9;
          x10 \<leftarrow> optional segments_stats_of_json v10;
          Some \<lparr>transaction_buffer_stats_state = x1, transaction_buffer_stats_max_read_position = x2,
            transaction_buffer_stats_last_snapshot_timestamps = x3,
            transaction_buffer_stats_low_water_marks = x4,
            transaction_buffer_stats_ongoing_txn_size = x5,
            transaction_buffer_stats_recover_start_time = x6,
            transaction_buffer_stats_recover_end_time = x7,
            transaction_buffer_stats_total_aborted_transactions = x8,
            transaction_buffer_stats_snapshot_type = x9, transaction_buffer_stats_segments_stats = x10\<rparr>}
      | _ \<Rightarrow> None)"

definition transaction_buffer_stats_good :: "transaction_buffer_stats \<Rightarrow> bool" where
  "transaction_buffer_stats_good x \<longleftrightarrow> entries_good (\<lambda>_. True) (transaction_buffer_stats_low_water_marks x)"

lemma transaction_buffer_stats_names_distinct: "distinct transaction_buffer_stats_names"
  by code_simp

interpretation transaction_buffer_stats_codec: json_value transaction_buffer_stats_json transaction_buffer_stats_of_json transaction_buffer_stats_good
proof (rule json_valueI)
  show "transaction_buffer_stats_of_json (transaction_buffer_stats_json x) = Some x" if "transaction_buffer_stats_good x" for x :: transaction_buffer_stats
    using that unfolding transaction_buffer_stats_of_json_def transaction_buffer_stats_json_def transaction_buffer_stats_good_def
    by (subst entries_of_obj [OF transaction_buffer_stats_names_distinct]) (simp_all add: transaction_buffer_stats_names_def)
  show "transaction_buffer_stats_json x \<noteq> JNull" for x
    by (simp add: transaction_buffer_stats_json_def)
qed

record transaction_pending_ack_stats =
  transaction_pending_ack_stats_state :: "string option"
  transaction_pending_ack_stats_low_water_marks :: "(string \<times> 64 word) list"
  transaction_pending_ack_stats_ongoing_txn_size :: "64 word"
  transaction_pending_ack_stats_recover_start_time :: "64 word"
  transaction_pending_ack_stats_recover_end_time :: "64 word"

definition transaction_pending_ack_stats_names :: "string list" where
  "transaction_pending_ack_stats_names = [''state'', ''lowWaterMarks'', ''ongoingTxnSize'', ''recoverStartTime'', ''recoverEndTime'']"

definition transaction_pending_ack_stats_json :: "transaction_pending_ack_stats \<Rightarrow> json" where
  "transaction_pending_ack_stats_json x = obj [
     (''state'', or_null str_json (transaction_pending_ack_stats_state x)),
     (''lowWaterMarks'', Some (map_json sword_json (transaction_pending_ack_stats_low_water_marks x))),
     (''ongoingTxnSize'', Some (sword_json (transaction_pending_ack_stats_ongoing_txn_size x))),
     (''recoverStartTime'', Some (sword_json (transaction_pending_ack_stats_recover_start_time x))),
     (''recoverEndTime'', Some (sword_json (transaction_pending_ack_stats_recover_end_time x)))]"

definition transaction_pending_ack_stats_of_json :: "json \<Rightarrow> transaction_pending_ack_stats option" where
  "transaction_pending_ack_stats_of_json j =
     (case entries_named transaction_pending_ack_stats_names j of
        Some [v1, v2, v3, v4, v5] \<Rightarrow> do {
          x1 \<leftarrow> optional str_of_json v1;
          x2 \<leftarrow> defaulted [] (map_of_json sword_of_json) v2;
          x3 \<leftarrow> defaulted 0 sword_of_json v3;
          x4 \<leftarrow> defaulted 0 sword_of_json v4;
          x5 \<leftarrow> defaulted 0 sword_of_json v5;
          Some \<lparr>transaction_pending_ack_stats_state = x1,
            transaction_pending_ack_stats_low_water_marks = x2,
            transaction_pending_ack_stats_ongoing_txn_size = x3,
            transaction_pending_ack_stats_recover_start_time = x4,
            transaction_pending_ack_stats_recover_end_time = x5\<rparr>}
      | _ \<Rightarrow> None)"

definition transaction_pending_ack_stats_good :: "transaction_pending_ack_stats \<Rightarrow> bool" where
  "transaction_pending_ack_stats_good x \<longleftrightarrow> entries_good (\<lambda>_. True) (transaction_pending_ack_stats_low_water_marks x)"

lemma transaction_pending_ack_stats_names_distinct: "distinct transaction_pending_ack_stats_names"
  by code_simp

interpretation transaction_pending_ack_stats_codec: json_value transaction_pending_ack_stats_json transaction_pending_ack_stats_of_json transaction_pending_ack_stats_good
proof (rule json_valueI)
  show "transaction_pending_ack_stats_of_json (transaction_pending_ack_stats_json x) = Some x" if "transaction_pending_ack_stats_good x" for x :: transaction_pending_ack_stats
    using that unfolding transaction_pending_ack_stats_of_json_def transaction_pending_ack_stats_json_def transaction_pending_ack_stats_good_def
    by (subst entries_of_obj [OF transaction_pending_ack_stats_names_distinct]) (simp_all add: transaction_pending_ack_stats_names_def)
  show "transaction_pending_ack_stats_json x \<noteq> JNull" for x
    by (simp add: transaction_pending_ack_stats_json_def)
qed

record transaction_log_stats =
  transaction_log_stats_managed_ledger_name :: "string option"
  transaction_log_stats_managed_ledger_internal_stats :: "persistent_topic_internal_stats option"

definition transaction_log_stats_names :: "string list" where
  "transaction_log_stats_names = [''managedLedgerName'', ''managedLedgerInternalStats'']"

definition transaction_log_stats_json :: "transaction_log_stats \<Rightarrow> json" where
  "transaction_log_stats_json x = obj [
     (''managedLedgerName'', or_null str_json (transaction_log_stats_managed_ledger_name x)),
     (''managedLedgerInternalStats'', if_some persistent_topic_internal_stats_json (transaction_log_stats_managed_ledger_internal_stats x))]"

definition transaction_log_stats_of_json :: "json \<Rightarrow> transaction_log_stats option" where
  "transaction_log_stats_of_json j =
     (case entries_named transaction_log_stats_names j of
        Some [v1, v2] \<Rightarrow> do {
          x1 \<leftarrow> optional str_of_json v1;
          x2 \<leftarrow> optional persistent_topic_internal_stats_of_json v2;
          Some \<lparr>transaction_log_stats_managed_ledger_name = x1,
            transaction_log_stats_managed_ledger_internal_stats = x2\<rparr>}
      | _ \<Rightarrow> None)"

definition transaction_log_stats_good :: "transaction_log_stats \<Rightarrow> bool" where
  "transaction_log_stats_good x \<longleftrightarrow> pred_option persistent_topic_internal_stats_good (transaction_log_stats_managed_ledger_internal_stats x)"

lemma transaction_log_stats_names_distinct: "distinct transaction_log_stats_names"
  by code_simp

interpretation transaction_log_stats_codec: json_value transaction_log_stats_json transaction_log_stats_of_json transaction_log_stats_good
proof (rule json_valueI)
  show "transaction_log_stats_of_json (transaction_log_stats_json x) = Some x" if "transaction_log_stats_good x" for x :: transaction_log_stats
    using that unfolding transaction_log_stats_of_json_def transaction_log_stats_json_def transaction_log_stats_good_def
    by (subst entries_of_obj [OF transaction_log_stats_names_distinct]) (simp_all add: transaction_log_stats_names_def)
  show "transaction_log_stats_json x \<noteq> JNull" for x
    by (simp add: transaction_log_stats_json_def)
qed

record snapshot_system_topic_internal_stats =
  snapshot_system_topic_internal_stats_managed_ledger_name :: "string option"
  snapshot_system_topic_internal_stats_managed_ledger_internal_stats :: "persistent_topic_internal_stats option"

definition snapshot_system_topic_internal_stats_names :: "string list" where
  "snapshot_system_topic_internal_stats_names = [''managedLedgerName'', ''managedLedgerInternalStats'']"

definition snapshot_system_topic_internal_stats_json :: "snapshot_system_topic_internal_stats \<Rightarrow> json" where
  "snapshot_system_topic_internal_stats_json x = obj [
     (''managedLedgerName'', or_null str_json (snapshot_system_topic_internal_stats_managed_ledger_name x)),
     (''managedLedgerInternalStats'', if_some persistent_topic_internal_stats_json (snapshot_system_topic_internal_stats_managed_ledger_internal_stats x))]"

definition snapshot_system_topic_internal_stats_of_json :: "json \<Rightarrow> snapshot_system_topic_internal_stats option" where
  "snapshot_system_topic_internal_stats_of_json j =
     (case entries_named snapshot_system_topic_internal_stats_names j of
        Some [v1, v2] \<Rightarrow> do {
          x1 \<leftarrow> optional str_of_json v1;
          x2 \<leftarrow> optional persistent_topic_internal_stats_of_json v2;
          Some \<lparr>snapshot_system_topic_internal_stats_managed_ledger_name = x1,
            snapshot_system_topic_internal_stats_managed_ledger_internal_stats = x2\<rparr>}
      | _ \<Rightarrow> None)"

definition snapshot_system_topic_internal_stats_good :: "snapshot_system_topic_internal_stats \<Rightarrow> bool" where
  "snapshot_system_topic_internal_stats_good x \<longleftrightarrow> pred_option persistent_topic_internal_stats_good (snapshot_system_topic_internal_stats_managed_ledger_internal_stats x)"

lemma snapshot_system_topic_internal_stats_names_distinct: "distinct snapshot_system_topic_internal_stats_names"
  by code_simp

interpretation snapshot_system_topic_internal_stats_codec: json_value snapshot_system_topic_internal_stats_json snapshot_system_topic_internal_stats_of_json snapshot_system_topic_internal_stats_good
proof (rule json_valueI)
  show "snapshot_system_topic_internal_stats_of_json (snapshot_system_topic_internal_stats_json x) = Some x" if "snapshot_system_topic_internal_stats_good x" for x :: snapshot_system_topic_internal_stats
    using that unfolding snapshot_system_topic_internal_stats_of_json_def snapshot_system_topic_internal_stats_json_def snapshot_system_topic_internal_stats_good_def
    by (subst entries_of_obj [OF snapshot_system_topic_internal_stats_names_distinct]) (simp_all add: snapshot_system_topic_internal_stats_names_def)
  show "snapshot_system_topic_internal_stats_json x \<noteq> JNull" for x
    by (simp add: snapshot_system_topic_internal_stats_json_def)
qed

record transaction_coordinator_internal_stats =
  transaction_coordinator_internal_stats_transaction_log_stats :: "transaction_log_stats option"

definition transaction_coordinator_internal_stats_names :: "string list" where
  "transaction_coordinator_internal_stats_names = [''transactionLogStats'']"

definition transaction_coordinator_internal_stats_json :: "transaction_coordinator_internal_stats \<Rightarrow> json" where
  "transaction_coordinator_internal_stats_json x = obj [
     (''transactionLogStats'', if_some transaction_log_stats_json (transaction_coordinator_internal_stats_transaction_log_stats x))]"

definition transaction_coordinator_internal_stats_of_json :: "json \<Rightarrow> transaction_coordinator_internal_stats option" where
  "transaction_coordinator_internal_stats_of_json j =
     (case entries_named transaction_coordinator_internal_stats_names j of
        Some [v1] \<Rightarrow> do {
          x1 \<leftarrow> optional transaction_log_stats_of_json v1;
          Some \<lparr>transaction_coordinator_internal_stats_transaction_log_stats = x1\<rparr>}
      | _ \<Rightarrow> None)"

definition transaction_coordinator_internal_stats_good :: "transaction_coordinator_internal_stats \<Rightarrow> bool" where
  "transaction_coordinator_internal_stats_good x \<longleftrightarrow> pred_option transaction_log_stats_good (transaction_coordinator_internal_stats_transaction_log_stats x)"

lemma transaction_coordinator_internal_stats_names_distinct: "distinct transaction_coordinator_internal_stats_names"
  by code_simp

interpretation transaction_coordinator_internal_stats_codec: json_value transaction_coordinator_internal_stats_json transaction_coordinator_internal_stats_of_json transaction_coordinator_internal_stats_good
proof (rule json_valueI)
  show "transaction_coordinator_internal_stats_of_json (transaction_coordinator_internal_stats_json x) = Some x" if "transaction_coordinator_internal_stats_good x" for x :: transaction_coordinator_internal_stats
    using that unfolding transaction_coordinator_internal_stats_of_json_def transaction_coordinator_internal_stats_json_def transaction_coordinator_internal_stats_good_def
    by (subst entries_of_obj [OF transaction_coordinator_internal_stats_names_distinct]) (simp_all add: transaction_coordinator_internal_stats_names_def)
  show "transaction_coordinator_internal_stats_json x \<noteq> JNull" for x
    by (simp add: transaction_coordinator_internal_stats_json_def)
qed

record transaction_pending_ack_internal_stats =
  transaction_pending_ack_internal_stats_pending_ack_log_stats :: "transaction_log_stats option"

definition transaction_pending_ack_internal_stats_names :: "string list" where
  "transaction_pending_ack_internal_stats_names = [''pendingAckLogStats'']"

definition transaction_pending_ack_internal_stats_json :: "transaction_pending_ack_internal_stats \<Rightarrow> json" where
  "transaction_pending_ack_internal_stats_json x = obj [
     (''pendingAckLogStats'', if_some transaction_log_stats_json (transaction_pending_ack_internal_stats_pending_ack_log_stats x))]"

definition transaction_pending_ack_internal_stats_of_json :: "json \<Rightarrow> transaction_pending_ack_internal_stats option" where
  "transaction_pending_ack_internal_stats_of_json j =
     (case entries_named transaction_pending_ack_internal_stats_names j of
        Some [v1] \<Rightarrow> do {
          x1 \<leftarrow> optional transaction_log_stats_of_json v1;
          Some \<lparr>transaction_pending_ack_internal_stats_pending_ack_log_stats = x1\<rparr>}
      | _ \<Rightarrow> None)"

definition transaction_pending_ack_internal_stats_good :: "transaction_pending_ack_internal_stats \<Rightarrow> bool" where
  "transaction_pending_ack_internal_stats_good x \<longleftrightarrow> pred_option transaction_log_stats_good (transaction_pending_ack_internal_stats_pending_ack_log_stats x)"

lemma transaction_pending_ack_internal_stats_names_distinct: "distinct transaction_pending_ack_internal_stats_names"
  by code_simp

interpretation transaction_pending_ack_internal_stats_codec: json_value transaction_pending_ack_internal_stats_json transaction_pending_ack_internal_stats_of_json transaction_pending_ack_internal_stats_good
proof (rule json_valueI)
  show "transaction_pending_ack_internal_stats_of_json (transaction_pending_ack_internal_stats_json x) = Some x" if "transaction_pending_ack_internal_stats_good x" for x :: transaction_pending_ack_internal_stats
    using that unfolding transaction_pending_ack_internal_stats_of_json_def transaction_pending_ack_internal_stats_json_def transaction_pending_ack_internal_stats_good_def
    by (subst entries_of_obj [OF transaction_pending_ack_internal_stats_names_distinct]) (simp_all add: transaction_pending_ack_internal_stats_names_def)
  show "transaction_pending_ack_internal_stats_json x \<noteq> JNull" for x
    by (simp add: transaction_pending_ack_internal_stats_json_def)
qed

record transaction_buffer_internal_stats =
  transaction_buffer_internal_stats_snapshot_type :: "string option"
  transaction_buffer_internal_stats_single_snapshot_system_topic_internal_stats :: "snapshot_system_topic_internal_stats option"
  transaction_buffer_internal_stats_segment_internal_stats :: "snapshot_system_topic_internal_stats option"
  transaction_buffer_internal_stats_segment_index_internal_stats :: "snapshot_system_topic_internal_stats option"

definition transaction_buffer_internal_stats_names :: "string list" where
  "transaction_buffer_internal_stats_names = [''snapshotType'', ''singleSnapshotSystemTopicInternalStats'', ''segmentInternalStats'',
     ''segmentIndexInternalStats'']"

definition transaction_buffer_internal_stats_json :: "transaction_buffer_internal_stats \<Rightarrow> json" where
  "transaction_buffer_internal_stats_json x = obj [
     (''snapshotType'', or_null str_json (transaction_buffer_internal_stats_snapshot_type x)),
     (''singleSnapshotSystemTopicInternalStats'', if_some snapshot_system_topic_internal_stats_json (transaction_buffer_internal_stats_single_snapshot_system_topic_internal_stats x)),
     (''segmentInternalStats'', if_some snapshot_system_topic_internal_stats_json (transaction_buffer_internal_stats_segment_internal_stats x)),
     (''segmentIndexInternalStats'', if_some snapshot_system_topic_internal_stats_json (transaction_buffer_internal_stats_segment_index_internal_stats x))]"

definition transaction_buffer_internal_stats_of_json :: "json \<Rightarrow> transaction_buffer_internal_stats option" where
  "transaction_buffer_internal_stats_of_json j =
     (case entries_named transaction_buffer_internal_stats_names j of
        Some [v1, v2, v3, v4] \<Rightarrow> do {
          x1 \<leftarrow> optional str_of_json v1;
          x2 \<leftarrow> optional snapshot_system_topic_internal_stats_of_json v2;
          x3 \<leftarrow> optional snapshot_system_topic_internal_stats_of_json v3;
          x4 \<leftarrow> optional snapshot_system_topic_internal_stats_of_json v4;
          Some \<lparr>transaction_buffer_internal_stats_snapshot_type = x1,
            transaction_buffer_internal_stats_single_snapshot_system_topic_internal_stats = x2,
            transaction_buffer_internal_stats_segment_internal_stats = x3,
            transaction_buffer_internal_stats_segment_index_internal_stats = x4\<rparr>}
      | _ \<Rightarrow> None)"

definition transaction_buffer_internal_stats_good :: "transaction_buffer_internal_stats \<Rightarrow> bool" where
  "transaction_buffer_internal_stats_good x \<longleftrightarrow> pred_option snapshot_system_topic_internal_stats_good (transaction_buffer_internal_stats_single_snapshot_system_topic_internal_stats x)
     \<and> pred_option snapshot_system_topic_internal_stats_good (transaction_buffer_internal_stats_segment_internal_stats x)
     \<and> pred_option snapshot_system_topic_internal_stats_good (transaction_buffer_internal_stats_segment_index_internal_stats x)"

lemma transaction_buffer_internal_stats_names_distinct: "distinct transaction_buffer_internal_stats_names"
  by code_simp

interpretation transaction_buffer_internal_stats_codec: json_value transaction_buffer_internal_stats_json transaction_buffer_internal_stats_of_json transaction_buffer_internal_stats_good
proof (rule json_valueI)
  show "transaction_buffer_internal_stats_of_json (transaction_buffer_internal_stats_json x) = Some x" if "transaction_buffer_internal_stats_good x" for x :: transaction_buffer_internal_stats
    using that unfolding transaction_buffer_internal_stats_of_json_def transaction_buffer_internal_stats_json_def transaction_buffer_internal_stats_good_def
    by (subst entries_of_obj [OF transaction_buffer_internal_stats_names_distinct]) (simp_all add: transaction_buffer_internal_stats_names_def)
  show "transaction_buffer_internal_stats_json x \<noteq> JNull" for x
    by (simp add: transaction_buffer_internal_stats_json_def)
qed

record hash_range =
  hash_range_start :: "32 word"
  hash_range_end :: "32 word"

definition hash_range_names :: "string list" where
  "hash_range_names = [''start'', ''end'']"

definition hash_range_json :: "hash_range \<Rightarrow> json" where
  "hash_range_json x = obj [
     (''start'', Some (uword_json (hash_range_start x))),
     (''end'', Some (uword_json (hash_range_end x)))]"

definition hash_range_of_json :: "json \<Rightarrow> hash_range option" where
  "hash_range_of_json j =
     (case entries_named hash_range_names j of
        Some [v1, v2] \<Rightarrow> do {
          x1 \<leftarrow> defaulted 0 uword_of_json v1;
          x2 \<leftarrow> defaulted 0 uword_of_json v2;
          Some \<lparr>hash_range_start = x1, hash_range_end = x2\<rparr>}
      | _ \<Rightarrow> None)"

definition hash_range_default :: hash_range where
  "hash_range_default = \<lparr>hash_range_start = 0, hash_range_end = 0\<rparr>"

lemma hash_range_names_distinct: "distinct hash_range_names"
  by code_simp

interpretation hash_range_codec: json_body hash_range_json hash_range_of_json "\<lambda>_. True"
proof (rule json_bodyI)
  show "hash_range_of_json (hash_range_json x) = Some x" for x :: hash_range
    unfolding hash_range_of_json_def hash_range_json_def
    by (subst entries_of_obj [OF hash_range_names_distinct]) (simp_all add: hash_range_names_def)
  show "\<not> has_null (hash_range_json x)" for x :: hash_range
    unfolding hash_range_json_def by simp
qed

record scalable_segment_info =
  scalable_segment_info_segment_id :: "64 word"
  scalable_segment_info_hash_range :: "hash_range"
  scalable_segment_info_state :: "string option"
  scalable_segment_info_parent_ids :: "64 word list"
  scalable_segment_info_child_ids :: "64 word list"
  scalable_segment_info_created_at_epoch :: "64 word"
  scalable_segment_info_sealed_at_epoch :: "64 word"
  scalable_segment_info_created_at_ms :: "64 word"
  scalable_segment_info_sealed_at_ms :: "64 word"
  scalable_segment_info_legacy :: "bool"
  scalable_segment_info_leaf :: "bool"
  scalable_segment_info_root :: "bool"
  scalable_segment_info_active :: "bool"
  scalable_segment_info_sealed :: "bool"

definition scalable_segment_info_names :: "string list" where
  "scalable_segment_info_names = [''segmentId'', ''hashRange'', ''state'', ''parentIds'', ''childIds'', ''createdAtEpoch'',
     ''sealedAtEpoch'', ''createdAtMs'', ''sealedAtMs'', ''legacy'', ''leaf'', ''root'',
     ''active'', ''sealed'']"

definition scalable_segment_info_json :: "scalable_segment_info \<Rightarrow> json" where
  "scalable_segment_info_json x = obj [
     (''segmentId'', Some (sword_json (scalable_segment_info_segment_id x))),
     (''hashRange'', Some (hash_range_json (scalable_segment_info_hash_range x))),
     (''state'', or_null str_json (scalable_segment_info_state x)),
     (''parentIds'', Some (list_json sword_json (scalable_segment_info_parent_ids x))),
     (''childIds'', Some (list_json sword_json (scalable_segment_info_child_ids x))),
     (''createdAtEpoch'', Some (sword_json (scalable_segment_info_created_at_epoch x))),
     (''sealedAtEpoch'', Some (sword_json (scalable_segment_info_sealed_at_epoch x))),
     (''createdAtMs'', Some (sword_json (scalable_segment_info_created_at_ms x))),
     (''sealedAtMs'', Some (sword_json (scalable_segment_info_sealed_at_ms x))),
     (''legacy'', Some (JBool (scalable_segment_info_legacy x))),
     (''leaf'', Some (JBool (scalable_segment_info_leaf x))),
     (''root'', Some (JBool (scalable_segment_info_root x))),
     (''active'', Some (JBool (scalable_segment_info_active x))),
     (''sealed'', Some (JBool (scalable_segment_info_sealed x)))]"

definition scalable_segment_info_of_json :: "json \<Rightarrow> scalable_segment_info option" where
  "scalable_segment_info_of_json j =
     (case entries_named scalable_segment_info_names j of
        Some [v1, v2, v3, v4, v5, v6, v7, v8, v9, v10, v11, v12, v13, v14] \<Rightarrow> do {
          x1 \<leftarrow> defaulted 0 sword_of_json v1;
          x2 \<leftarrow> defaulted hash_range_default hash_range_of_json v2;
          x3 \<leftarrow> optional str_of_json v3;
          x4 \<leftarrow> defaulted [] (list_of_json sword_of_json) v4;
          x5 \<leftarrow> defaulted [] (list_of_json sword_of_json) v5;
          x6 \<leftarrow> defaulted 0 sword_of_json v6;
          x7 \<leftarrow> defaulted 0 sword_of_json v7;
          x8 \<leftarrow> defaulted 0 sword_of_json v8;
          x9 \<leftarrow> defaulted 0 sword_of_json v9;
          x10 \<leftarrow> defaulted False bool_of_json v10;
          x11 \<leftarrow> defaulted False bool_of_json v11;
          x12 \<leftarrow> defaulted False bool_of_json v12;
          x13 \<leftarrow> defaulted False bool_of_json v13;
          x14 \<leftarrow> defaulted False bool_of_json v14;
          Some \<lparr>scalable_segment_info_segment_id = x1, scalable_segment_info_hash_range = x2,
            scalable_segment_info_state = x3, scalable_segment_info_parent_ids = x4,
            scalable_segment_info_child_ids = x5, scalable_segment_info_created_at_epoch = x6,
            scalable_segment_info_sealed_at_epoch = x7, scalable_segment_info_created_at_ms = x8,
            scalable_segment_info_sealed_at_ms = x9, scalable_segment_info_legacy = x10,
            scalable_segment_info_leaf = x11, scalable_segment_info_root = x12,
            scalable_segment_info_active = x13, scalable_segment_info_sealed = x14\<rparr>}
      | _ \<Rightarrow> None)"

lemma scalable_segment_info_names_distinct: "distinct scalable_segment_info_names"
  by code_simp

interpretation scalable_segment_info_codec: json_value scalable_segment_info_json scalable_segment_info_of_json "\<lambda>_. True"
proof (rule json_valueI)
  show "scalable_segment_info_of_json (scalable_segment_info_json x) = Some x" for x :: scalable_segment_info
    unfolding scalable_segment_info_of_json_def scalable_segment_info_json_def
    by (subst entries_of_obj [OF scalable_segment_info_names_distinct]) (simp_all add: scalable_segment_info_names_def)
  show "scalable_segment_info_json x \<noteq> JNull" for x
    by (simp add: scalable_segment_info_json_def)
qed

interpretation scalable_segment_info_map_codec: json_value "map_json scalable_segment_info_json" "map_of_json scalable_segment_info_of_json" "entries_good (\<lambda>_. True)"
  by (rule map_value [OF scalable_segment_info_codec.json_codec_axioms])

record scalable_topic_metadata =
  scalable_topic_metadata_epoch :: "64 word"
  scalable_topic_metadata_next_segment_id :: "64 word"
  scalable_topic_metadata_segments :: "(string \<times> scalable_segment_info) list"

definition scalable_topic_metadata_names :: "string list" where
  "scalable_topic_metadata_names = [''epoch'', ''nextSegmentId'', ''segments'']"

definition scalable_topic_metadata_json :: "scalable_topic_metadata \<Rightarrow> json" where
  "scalable_topic_metadata_json x = obj [
     (''epoch'', Some (sword_json (scalable_topic_metadata_epoch x))),
     (''nextSegmentId'', Some (sword_json (scalable_topic_metadata_next_segment_id x))),
     (''segments'', Some (map_json scalable_segment_info_json (scalable_topic_metadata_segments x)))]"

definition scalable_topic_metadata_of_json :: "json \<Rightarrow> scalable_topic_metadata option" where
  "scalable_topic_metadata_of_json j =
     (case entries_named scalable_topic_metadata_names j of
        Some [v1, v2, v3] \<Rightarrow> do {
          x1 \<leftarrow> defaulted 0 sword_of_json v1;
          x2 \<leftarrow> defaulted 0 sword_of_json v2;
          x3 \<leftarrow> defaulted [] (map_of_json scalable_segment_info_of_json) v3;
          Some \<lparr>scalable_topic_metadata_epoch = x1, scalable_topic_metadata_next_segment_id = x2,
            scalable_topic_metadata_segments = x3\<rparr>}
      | _ \<Rightarrow> None)"

definition scalable_topic_metadata_good :: "scalable_topic_metadata \<Rightarrow> bool" where
  "scalable_topic_metadata_good x \<longleftrightarrow> entries_good (\<lambda>_. True) (scalable_topic_metadata_segments x)"

lemma scalable_topic_metadata_names_distinct: "distinct scalable_topic_metadata_names"
  by code_simp

interpretation scalable_topic_metadata_codec: json_value scalable_topic_metadata_json scalable_topic_metadata_of_json scalable_topic_metadata_good
proof (rule json_valueI)
  show "scalable_topic_metadata_of_json (scalable_topic_metadata_json x) = Some x" if "scalable_topic_metadata_good x" for x :: scalable_topic_metadata
    using that unfolding scalable_topic_metadata_of_json_def scalable_topic_metadata_json_def scalable_topic_metadata_good_def
    by (subst entries_of_obj [OF scalable_topic_metadata_names_distinct]) (simp_all add: scalable_topic_metadata_names_def)
  show "scalable_topic_metadata_json x \<noteq> JNull" for x
    by (simp add: scalable_topic_metadata_json_def)
qed

record scalable_segment_stats =
  scalable_segment_stats_name :: "string option"
  scalable_segment_stats_state :: "string option"

definition scalable_segment_stats_names :: "string list" where
  "scalable_segment_stats_names = [''name'', ''state'']"

definition scalable_segment_stats_json :: "scalable_segment_stats \<Rightarrow> json" where
  "scalable_segment_stats_json x = obj [
     (''name'', or_null str_json (scalable_segment_stats_name x)),
     (''state'', or_null str_json (scalable_segment_stats_state x))]"

definition scalable_segment_stats_of_json :: "json \<Rightarrow> scalable_segment_stats option" where
  "scalable_segment_stats_of_json j =
     (case entries_named scalable_segment_stats_names j of
        Some [v1, v2] \<Rightarrow> do {
          x1 \<leftarrow> optional str_of_json v1;
          x2 \<leftarrow> optional str_of_json v2;
          Some \<lparr>scalable_segment_stats_name = x1, scalable_segment_stats_state = x2\<rparr>}
      | _ \<Rightarrow> None)"

lemma scalable_segment_stats_names_distinct: "distinct scalable_segment_stats_names"
  by code_simp

interpretation scalable_segment_stats_codec: json_value scalable_segment_stats_json scalable_segment_stats_of_json "\<lambda>_. True"
proof (rule json_valueI)
  show "scalable_segment_stats_of_json (scalable_segment_stats_json x) = Some x" for x :: scalable_segment_stats
    unfolding scalable_segment_stats_of_json_def scalable_segment_stats_json_def
    by (subst entries_of_obj [OF scalable_segment_stats_names_distinct]) (simp_all add: scalable_segment_stats_names_def)
  show "scalable_segment_stats_json x \<noteq> JNull" for x
    by (simp add: scalable_segment_stats_json_def)
qed

record scalable_subscription_stats =
  scalable_subscription_stats_consumer_count :: "32 word"

definition scalable_subscription_stats_names :: "string list" where
  "scalable_subscription_stats_names = [''consumerCount'']"

definition scalable_subscription_stats_json :: "scalable_subscription_stats \<Rightarrow> json" where
  "scalable_subscription_stats_json x = obj [
     (''consumerCount'', Some (sword_json (scalable_subscription_stats_consumer_count x)))]"

definition scalable_subscription_stats_of_json :: "json \<Rightarrow> scalable_subscription_stats option" where
  "scalable_subscription_stats_of_json j =
     (case entries_named scalable_subscription_stats_names j of
        Some [v1] \<Rightarrow> do {
          x1 \<leftarrow> defaulted 0 sword_of_json v1;
          Some \<lparr>scalable_subscription_stats_consumer_count = x1\<rparr>}
      | _ \<Rightarrow> None)"

lemma scalable_subscription_stats_names_distinct: "distinct scalable_subscription_stats_names"
  by code_simp

interpretation scalable_subscription_stats_codec: json_body scalable_subscription_stats_json scalable_subscription_stats_of_json "\<lambda>_. True"
proof (rule json_bodyI)
  show "scalable_subscription_stats_of_json (scalable_subscription_stats_json x) = Some x" for x :: scalable_subscription_stats
    unfolding scalable_subscription_stats_of_json_def scalable_subscription_stats_json_def
    by (subst entries_of_obj [OF scalable_subscription_stats_names_distinct]) (simp_all add: scalable_subscription_stats_names_def)
  show "\<not> has_null (scalable_subscription_stats_json x)" for x :: scalable_subscription_stats
    unfolding scalable_subscription_stats_json_def by simp
qed

interpretation scalable_segment_stats_map_codec: json_value "map_json scalable_segment_stats_json" "map_of_json scalable_segment_stats_of_json" "entries_good (\<lambda>_. True)"
  by (rule map_value [OF scalable_segment_stats_codec.json_codec_axioms])

interpretation scalable_subscription_stats_map_codec: json_body "map_json scalable_subscription_stats_json" "map_of_json scalable_subscription_stats_of_json" "entries_good (\<lambda>_. True)"
  by (rule map_body [OF scalable_subscription_stats_codec.json_body_axioms])

record scalable_topic_stats =
  scalable_topic_stats_epoch :: "64 word"
  scalable_topic_stats_total_segments :: "32 word"
  scalable_topic_stats_active_segments :: "32 word"
  scalable_topic_stats_sealed_segments :: "32 word"
  scalable_topic_stats_segments :: "(string \<times> scalable_segment_stats) list"
  scalable_topic_stats_subscriptions :: "(string \<times> scalable_subscription_stats) list"

definition scalable_topic_stats_names :: "string list" where
  "scalable_topic_stats_names = [''epoch'', ''totalSegments'', ''activeSegments'', ''sealedSegments'', ''segments'',
     ''subscriptions'']"

definition scalable_topic_stats_json :: "scalable_topic_stats \<Rightarrow> json" where
  "scalable_topic_stats_json x = obj [
     (''epoch'', Some (sword_json (scalable_topic_stats_epoch x))),
     (''totalSegments'', Some (sword_json (scalable_topic_stats_total_segments x))),
     (''activeSegments'', Some (sword_json (scalable_topic_stats_active_segments x))),
     (''sealedSegments'', Some (sword_json (scalable_topic_stats_sealed_segments x))),
     (''segments'', Some (map_json scalable_segment_stats_json (scalable_topic_stats_segments x))),
     (''subscriptions'', Some (map_json scalable_subscription_stats_json (scalable_topic_stats_subscriptions x)))]"

definition scalable_topic_stats_of_json :: "json \<Rightarrow> scalable_topic_stats option" where
  "scalable_topic_stats_of_json j =
     (case entries_named scalable_topic_stats_names j of
        Some [v1, v2, v3, v4, v5, v6] \<Rightarrow> do {
          x1 \<leftarrow> defaulted 0 sword_of_json v1;
          x2 \<leftarrow> defaulted 0 sword_of_json v2;
          x3 \<leftarrow> defaulted 0 sword_of_json v3;
          x4 \<leftarrow> defaulted 0 sword_of_json v4;
          x5 \<leftarrow> defaulted [] (map_of_json scalable_segment_stats_of_json) v5;
          x6 \<leftarrow> defaulted [] (map_of_json scalable_subscription_stats_of_json) v6;
          Some \<lparr>scalable_topic_stats_epoch = x1, scalable_topic_stats_total_segments = x2,
            scalable_topic_stats_active_segments = x3, scalable_topic_stats_sealed_segments = x4,
            scalable_topic_stats_segments = x5, scalable_topic_stats_subscriptions = x6\<rparr>}
      | _ \<Rightarrow> None)"

definition scalable_topic_stats_good :: "scalable_topic_stats \<Rightarrow> bool" where
  "scalable_topic_stats_good x \<longleftrightarrow> entries_good (\<lambda>_. True) (scalable_topic_stats_segments x)
     \<and> entries_good (\<lambda>_. True) (scalable_topic_stats_subscriptions x)"

lemma scalable_topic_stats_names_distinct: "distinct scalable_topic_stats_names"
  by code_simp

interpretation scalable_topic_stats_codec: json_value scalable_topic_stats_json scalable_topic_stats_of_json scalable_topic_stats_good
proof (rule json_valueI)
  show "scalable_topic_stats_of_json (scalable_topic_stats_json x) = Some x" if "scalable_topic_stats_good x" for x :: scalable_topic_stats
    using that unfolding scalable_topic_stats_of_json_def scalable_topic_stats_json_def scalable_topic_stats_good_def
    by (subst entries_of_obj [OF scalable_topic_stats_names_distinct]) (simp_all add: scalable_topic_stats_names_def)
  show "scalable_topic_stats_json x \<noteq> JNull" for x
    by (simp add: scalable_topic_stats_json_def)
qed

record producer_config =
  producer_config_max_pending_messages :: "32 word option"
  producer_config_max_pending_messages_across_partitions :: "32 word option"
  producer_config_use_thread_local_producers :: "bool option"
  producer_config_batch_builder :: "string option"
  producer_config_compression_type :: "string option"

definition producer_config_names :: "string list" where
  "producer_config_names = [''maxPendingMessages'', ''maxPendingMessagesAcrossPartitions'',
     ''useThreadLocalProducers'', ''batchBuilder'', ''compressionType'']"

definition producer_config_json :: "producer_config \<Rightarrow> json" where
  "producer_config_json x = obj [
     (''maxPendingMessages'', if_some sword_json (producer_config_max_pending_messages x)),
     (''maxPendingMessagesAcrossPartitions'', if_some sword_json (producer_config_max_pending_messages_across_partitions x)),
     (''useThreadLocalProducers'', if_some JBool (producer_config_use_thread_local_producers x)),
     (''batchBuilder'', if_some str_json (producer_config_batch_builder x)),
     (''compressionType'', if_some str_json (producer_config_compression_type x))]"

definition producer_config_of_json :: "json \<Rightarrow> producer_config option" where
  "producer_config_of_json j =
     (case entries_named producer_config_names j of
        Some [v1, v2, v3, v4, v5] \<Rightarrow> do {
          x1 \<leftarrow> optional sword_of_json v1;
          x2 \<leftarrow> optional sword_of_json v2;
          x3 \<leftarrow> optional bool_of_json v3;
          x4 \<leftarrow> optional str_of_json v4;
          x5 \<leftarrow> optional str_of_json v5;
          Some \<lparr>producer_config_max_pending_messages = x1,
            producer_config_max_pending_messages_across_partitions = x2,
            producer_config_use_thread_local_producers = x3, producer_config_batch_builder = x4,
            producer_config_compression_type = x5\<rparr>}
      | _ \<Rightarrow> None)"

lemma producer_config_names_distinct: "distinct producer_config_names"
  by code_simp

interpretation producer_config_codec: json_body producer_config_json producer_config_of_json "\<lambda>_. True"
proof (rule json_bodyI)
  show "producer_config_of_json (producer_config_json x) = Some x" for x :: producer_config
    unfolding producer_config_of_json_def producer_config_json_def
    by (subst entries_of_obj [OF producer_config_names_distinct]) (simp_all add: producer_config_names_def)
  show "\<not> has_null (producer_config_json x)" for x :: producer_config
    unfolding producer_config_json_def by simp
qed

record function_consumer_config =
  function_consumer_config_schema_type :: "string option"
  function_consumer_config_serde_class_name :: "string option"
  function_consumer_config_is_regex_pattern :: "bool option"
  function_consumer_config_schema_properties :: "(string \<times> string) list"
  function_consumer_config_consumer_properties :: "(string \<times> string) list"
  function_consumer_config_receiver_queue_size :: "32 word option"

definition function_consumer_config_names :: "string list" where
  "function_consumer_config_names = [''schemaType'', ''serdeClassName'', ''isRegexPattern'', ''schemaProperties'',
     ''consumerProperties'', ''receiverQueueSize'']"

definition function_consumer_config_json :: "function_consumer_config \<Rightarrow> json" where
  "function_consumer_config_json x = obj [
     (''schemaType'', if_some str_json (function_consumer_config_schema_type x)),
     (''serdeClassName'', if_some str_json (function_consumer_config_serde_class_name x)),
     (''isRegexPattern'', if_some JBool (function_consumer_config_is_regex_pattern x)),
     (''schemaProperties'', if_any (map_json str_json) (function_consumer_config_schema_properties x)),
     (''consumerProperties'', if_any (map_json str_json) (function_consumer_config_consumer_properties x)),
     (''receiverQueueSize'', if_some sword_json (function_consumer_config_receiver_queue_size x))]"

definition function_consumer_config_of_json :: "json \<Rightarrow> function_consumer_config option" where
  "function_consumer_config_of_json j =
     (case entries_named function_consumer_config_names j of
        Some [v1, v2, v3, v4, v5, v6] \<Rightarrow> do {
          x1 \<leftarrow> optional str_of_json v1;
          x2 \<leftarrow> optional str_of_json v2;
          x3 \<leftarrow> optional bool_of_json v3;
          x4 \<leftarrow> defaulted [] (map_of_json str_of_json) v4;
          x5 \<leftarrow> defaulted [] (map_of_json str_of_json) v5;
          x6 \<leftarrow> optional sword_of_json v6;
          Some \<lparr>function_consumer_config_schema_type = x1, function_consumer_config_serde_class_name = x2,
            function_consumer_config_is_regex_pattern = x3,
            function_consumer_config_schema_properties = x4,
            function_consumer_config_consumer_properties = x5,
            function_consumer_config_receiver_queue_size = x6\<rparr>}
      | _ \<Rightarrow> None)"

definition function_consumer_config_good :: "function_consumer_config \<Rightarrow> bool" where
  "function_consumer_config_good x \<longleftrightarrow> entries_good (\<lambda>_. True) (function_consumer_config_schema_properties x)
     \<and> entries_good (\<lambda>_. True) (function_consumer_config_consumer_properties x)"

lemma function_consumer_config_names_distinct: "distinct function_consumer_config_names"
  by code_simp

interpretation function_consumer_config_codec: json_body function_consumer_config_json function_consumer_config_of_json function_consumer_config_good
proof (rule json_bodyI)
  show "function_consumer_config_of_json (function_consumer_config_json x) = Some x" if "function_consumer_config_good x" for x :: function_consumer_config
    using that unfolding function_consumer_config_of_json_def function_consumer_config_json_def function_consumer_config_good_def
    by (subst entries_of_obj [OF function_consumer_config_names_distinct]) (simp_all add: function_consumer_config_names_def)
  show "\<not> has_null (function_consumer_config_json x)" if "function_consumer_config_good x" for x :: function_consumer_config
    using that unfolding function_consumer_config_json_def function_consumer_config_good_def by simp
qed

record resources =
  resources_cpu :: "f64 option"
  resources_ram :: "64 word option"
  resources_disk :: "64 word option"

definition resources_names :: "string list" where
  "resources_names = [''cpu'', ''ram'', ''disk'']"

definition resources_json :: "resources \<Rightarrow> json" where
  "resources_json x = obj [
     (''cpu'', if_some f64_json (resources_cpu x)),
     (''ram'', if_some sword_json (resources_ram x)),
     (''disk'', if_some sword_json (resources_disk x))]"

definition resources_of_json :: "json \<Rightarrow> resources option" where
  "resources_of_json j =
     (case entries_named resources_names j of
        Some [v1, v2, v3] \<Rightarrow> do {
          x1 \<leftarrow> optional f64_of_json v1;
          x2 \<leftarrow> optional sword_of_json v2;
          x3 \<leftarrow> optional sword_of_json v3;
          Some \<lparr>resources_cpu = x1, resources_ram = x2, resources_disk = x3\<rparr>}
      | _ \<Rightarrow> None)"

definition resources_good :: "resources \<Rightarrow> bool" where
  "resources_good x \<longleftrightarrow> pred_option is_finite (resources_cpu x)"

lemma resources_names_distinct: "distinct resources_names"
  by code_simp

interpretation resources_codec: json_body resources_json resources_of_json resources_good
proof (rule json_bodyI)
  show "resources_of_json (resources_json x) = Some x" if "resources_good x" for x :: resources
    using that unfolding resources_of_json_def resources_json_def resources_good_def
    by (subst entries_of_obj [OF resources_names_distinct]) (simp_all add: resources_names_def)
  show "\<not> has_null (resources_json x)" if "resources_good x" for x :: resources
    using that unfolding resources_json_def resources_good_def by simp
qed

interpretation function_consumer_config_map_codec: json_body "map_json function_consumer_config_json" "map_of_json function_consumer_config_of_json" "entries_good function_consumer_config_good"
  by (rule map_body [OF function_consumer_config_codec.json_body_axioms])

record function_config =
  function_config_tenant :: "string option"
  function_config_namespace :: "string option"
  function_config_name :: "string option"
  function_config_class_name :: "string option"
  function_config_runtime :: "string option"
  function_config_inputs :: "string list"
  function_config_topics_pattern :: "string option"
  function_config_input_specs :: "(string \<times> function_consumer_config) list"
  function_config_output :: "string option"
  function_config_output_schema_type :: "string option"
  function_config_log_topic :: "string option"
  function_config_dead_letter_topic :: "string option"
  function_config_subscription_name :: "string option"
  function_config_processing_guarantees :: "string option"
  function_config_parallelism :: "32 word option"
  function_config_retain_ordering :: "bool option"
  function_config_retain_key_ordering :: "bool option"
  function_config_auto_ack :: "bool option"
  function_config_max_message_retries :: "32 word option"
  function_config_timeout_ms :: "64 word option"
  function_config_jar :: "string option"
  function_config_py :: "string option"
  function_config_go :: "string option"
  function_config_user_config :: "(string \<times> json) list"
  function_config_secrets :: "(string \<times> json) list"
  function_config_resources :: "resources option"
  function_config_producer_config :: "producer_config option"
  function_config_runtime_flags :: "string option"
  function_config_custom_runtime_options :: "string option"

definition function_config_names :: "string list" where
  "function_config_names = [''tenant'', ''namespace'', ''name'', ''className'', ''runtime'', ''inputs'',
     ''topicsPattern'', ''inputSpecs'', ''output'', ''outputSchemaType'', ''logTopic'',
     ''deadLetterTopic'', ''subName'', ''processingGuarantees'', ''parallelism'',
     ''retainOrdering'', ''retainKeyOrdering'', ''autoAck'', ''maxMessageRetries'',
     ''timeoutMs'', ''jar'', ''py'', ''go'', ''userConfig'', ''secrets'', ''resources'',
     ''producerConfig'', ''runtimeFlags'', ''customRuntimeOptions'']"

definition function_config_json :: "function_config \<Rightarrow> json" where
  "function_config_json x = obj [
     (''tenant'', if_some str_json (function_config_tenant x)),
     (''namespace'', if_some str_json (function_config_namespace x)),
     (''name'', if_some str_json (function_config_name x)),
     (''className'', if_some str_json (function_config_class_name x)),
     (''runtime'', if_some str_json (function_config_runtime x)),
     (''inputs'', if_any (list_json str_json) (function_config_inputs x)),
     (''topicsPattern'', if_some str_json (function_config_topics_pattern x)),
     (''inputSpecs'', if_any (map_json function_consumer_config_json) (function_config_input_specs x)),
     (''output'', if_some str_json (function_config_output x)),
     (''outputSchemaType'', if_some str_json (function_config_output_schema_type x)),
     (''logTopic'', if_some str_json (function_config_log_topic x)),
     (''deadLetterTopic'', if_some str_json (function_config_dead_letter_topic x)),
     (''subName'', if_some str_json (function_config_subscription_name x)),
     (''processingGuarantees'', if_some str_json (function_config_processing_guarantees x)),
     (''parallelism'', if_some sword_json (function_config_parallelism x)),
     (''retainOrdering'', if_some JBool (function_config_retain_ordering x)),
     (''retainKeyOrdering'', if_some JBool (function_config_retain_key_ordering x)),
     (''autoAck'', if_some JBool (function_config_auto_ack x)),
     (''maxMessageRetries'', if_some sword_json (function_config_max_message_retries x)),
     (''timeoutMs'', if_some sword_json (function_config_timeout_ms x)),
     (''jar'', if_some str_json (function_config_jar x)),
     (''py'', if_some str_json (function_config_py x)),
     (''go'', if_some str_json (function_config_go x)),
     (''userConfig'', if_any (map_json any_json) (function_config_user_config x)),
     (''secrets'', if_any (map_json any_json) (function_config_secrets x)),
     (''resources'', if_some resources_json (function_config_resources x)),
     (''producerConfig'', if_some producer_config_json (function_config_producer_config x)),
     (''runtimeFlags'', if_some str_json (function_config_runtime_flags x)),
     (''customRuntimeOptions'', if_some str_json (function_config_custom_runtime_options x))]"

definition function_config_of_json :: "json \<Rightarrow> function_config option" where
  "function_config_of_json j =
     (case entries_named function_config_names j of
        Some [v1, v2, v3, v4, v5, v6, v7, v8, v9, v10, v11, v12, v13, v14, v15, v16, v17, v18, v19, v20,
              v21, v22, v23, v24, v25, v26, v27, v28, v29] \<Rightarrow> do {
          x1 \<leftarrow> optional str_of_json v1;
          x2 \<leftarrow> optional str_of_json v2;
          x3 \<leftarrow> optional str_of_json v3;
          x4 \<leftarrow> optional str_of_json v4;
          x5 \<leftarrow> optional str_of_json v5;
          x6 \<leftarrow> defaulted [] (list_of_json str_of_json) v6;
          x7 \<leftarrow> optional str_of_json v7;
          x8 \<leftarrow> defaulted [] (map_of_json function_consumer_config_of_json) v8;
          x9 \<leftarrow> optional str_of_json v9;
          x10 \<leftarrow> optional str_of_json v10;
          x11 \<leftarrow> optional str_of_json v11;
          x12 \<leftarrow> optional str_of_json v12;
          x13 \<leftarrow> optional str_of_json v13;
          x14 \<leftarrow> optional str_of_json v14;
          x15 \<leftarrow> optional sword_of_json v15;
          x16 \<leftarrow> optional bool_of_json v16;
          x17 \<leftarrow> optional bool_of_json v17;
          x18 \<leftarrow> optional bool_of_json v18;
          x19 \<leftarrow> optional sword_of_json v19;
          x20 \<leftarrow> optional sword_of_json v20;
          x21 \<leftarrow> optional str_of_json v21;
          x22 \<leftarrow> optional str_of_json v22;
          x23 \<leftarrow> optional str_of_json v23;
          x24 \<leftarrow> defaulted [] (map_of_json any_of_json) v24;
          x25 \<leftarrow> defaulted [] (map_of_json any_of_json) v25;
          x26 \<leftarrow> optional resources_of_json v26;
          x27 \<leftarrow> optional producer_config_of_json v27;
          x28 \<leftarrow> optional str_of_json v28;
          x29 \<leftarrow> optional str_of_json v29;
          Some \<lparr>function_config_tenant = x1, function_config_namespace = x2, function_config_name = x3,
            function_config_class_name = x4, function_config_runtime = x5, function_config_inputs = x6,
            function_config_topics_pattern = x7, function_config_input_specs = x8,
            function_config_output = x9, function_config_output_schema_type = x10,
            function_config_log_topic = x11, function_config_dead_letter_topic = x12,
            function_config_subscription_name = x13, function_config_processing_guarantees = x14,
            function_config_parallelism = x15, function_config_retain_ordering = x16,
            function_config_retain_key_ordering = x17, function_config_auto_ack = x18,
            function_config_max_message_retries = x19, function_config_timeout_ms = x20,
            function_config_jar = x21, function_config_py = x22, function_config_go = x23,
            function_config_user_config = x24, function_config_secrets = x25,
            function_config_resources = x26, function_config_producer_config = x27,
            function_config_runtime_flags = x28, function_config_custom_runtime_options = x29\<rparr>}
      | _ \<Rightarrow> None)"

definition function_config_good :: "function_config \<Rightarrow> bool" where
  "function_config_good x \<longleftrightarrow> entries_good function_consumer_config_good (function_config_input_specs x)
     \<and> entries_good (\<lambda>_. True) (function_config_user_config x)
     \<and> entries_good (\<lambda>_. True) (function_config_secrets x)
     \<and> pred_option resources_good (function_config_resources x)"

lemma function_config_names_distinct: "distinct function_config_names"
  by code_simp

interpretation function_config_codec: json_value function_config_json function_config_of_json function_config_good
proof (rule json_valueI)
  show "function_config_of_json (function_config_json x) = Some x" if "function_config_good x" for x :: function_config
    using that unfolding function_config_of_json_def function_config_json_def function_config_good_def
    by (subst entries_of_obj [OF function_config_names_distinct]) (simp_all add: function_config_names_def)
  show "function_config_json x \<noteq> JNull" for x
    by (simp add: function_config_json_def)
qed

record sink_config =
  sink_config_tenant :: "string option"
  sink_config_namespace :: "string option"
  sink_config_name :: "string option"
  sink_config_class_name :: "string option"
  sink_config_sink_type :: "string option"
  sink_config_archive :: "string option"
  sink_config_inputs :: "string list"
  sink_config_topics_pattern :: "string option"
  sink_config_input_specs :: "(string \<times> function_consumer_config) list"
  sink_config_topic_to_serde_class_name :: "(string \<times> string) list"
  sink_config_topic_to_schema_type :: "(string \<times> string) list"
  sink_config_subscription_name :: "string option"
  sink_config_processing_guarantees :: "string option"
  sink_config_parallelism :: "32 word option"
  sink_config_retain_ordering :: "bool option"
  sink_config_auto_ack :: "bool option"
  sink_config_timeout_ms :: "64 word option"
  sink_config_max_message_retries :: "32 word option"
  sink_config_dead_letter_topic :: "string option"
  sink_config_configs :: "(string \<times> json) list"
  sink_config_secrets :: "(string \<times> json) list"
  sink_config_resources :: "resources option"

definition sink_config_names :: "string list" where
  "sink_config_names = [''tenant'', ''namespace'', ''name'', ''className'', ''sinkType'', ''archive'', ''inputs'',
     ''topicsPattern'', ''inputSpecs'', ''topicToSerdeClassName'', ''topicToSchemaType'',
     ''sourceSubscriptionName'', ''processingGuarantees'', ''parallelism'', ''retainOrdering'',
     ''autoAck'', ''timeoutMs'', ''maxMessageRetries'', ''deadLetterTopic'', ''configs'',
     ''secrets'', ''resources'']"

definition sink_config_json :: "sink_config \<Rightarrow> json" where
  "sink_config_json x = obj [
     (''tenant'', if_some str_json (sink_config_tenant x)),
     (''namespace'', if_some str_json (sink_config_namespace x)),
     (''name'', if_some str_json (sink_config_name x)),
     (''className'', if_some str_json (sink_config_class_name x)),
     (''sinkType'', if_some str_json (sink_config_sink_type x)),
     (''archive'', if_some str_json (sink_config_archive x)),
     (''inputs'', if_any (list_json str_json) (sink_config_inputs x)),
     (''topicsPattern'', if_some str_json (sink_config_topics_pattern x)),
     (''inputSpecs'', if_any (map_json function_consumer_config_json) (sink_config_input_specs x)),
     (''topicToSerdeClassName'', if_any (map_json str_json) (sink_config_topic_to_serde_class_name x)),
     (''topicToSchemaType'', if_any (map_json str_json) (sink_config_topic_to_schema_type x)),
     (''sourceSubscriptionName'', if_some str_json (sink_config_subscription_name x)),
     (''processingGuarantees'', if_some str_json (sink_config_processing_guarantees x)),
     (''parallelism'', if_some sword_json (sink_config_parallelism x)),
     (''retainOrdering'', if_some JBool (sink_config_retain_ordering x)),
     (''autoAck'', if_some JBool (sink_config_auto_ack x)),
     (''timeoutMs'', if_some sword_json (sink_config_timeout_ms x)),
     (''maxMessageRetries'', if_some sword_json (sink_config_max_message_retries x)),
     (''deadLetterTopic'', if_some str_json (sink_config_dead_letter_topic x)),
     (''configs'', if_any (map_json any_json) (sink_config_configs x)),
     (''secrets'', if_any (map_json any_json) (sink_config_secrets x)),
     (''resources'', if_some resources_json (sink_config_resources x))]"

definition sink_config_of_json :: "json \<Rightarrow> sink_config option" where
  "sink_config_of_json j =
     (case entries_named sink_config_names j of
        Some [v1, v2, v3, v4, v5, v6, v7, v8, v9, v10, v11, v12, v13, v14, v15, v16, v17, v18, v19, v20,
              v21, v22] \<Rightarrow> do {
          x1 \<leftarrow> optional str_of_json v1;
          x2 \<leftarrow> optional str_of_json v2;
          x3 \<leftarrow> optional str_of_json v3;
          x4 \<leftarrow> optional str_of_json v4;
          x5 \<leftarrow> optional str_of_json v5;
          x6 \<leftarrow> optional str_of_json v6;
          x7 \<leftarrow> defaulted [] (list_of_json str_of_json) v7;
          x8 \<leftarrow> optional str_of_json v8;
          x9 \<leftarrow> defaulted [] (map_of_json function_consumer_config_of_json) v9;
          x10 \<leftarrow> defaulted [] (map_of_json str_of_json) v10;
          x11 \<leftarrow> defaulted [] (map_of_json str_of_json) v11;
          x12 \<leftarrow> optional str_of_json v12;
          x13 \<leftarrow> optional str_of_json v13;
          x14 \<leftarrow> optional sword_of_json v14;
          x15 \<leftarrow> optional bool_of_json v15;
          x16 \<leftarrow> optional bool_of_json v16;
          x17 \<leftarrow> optional sword_of_json v17;
          x18 \<leftarrow> optional sword_of_json v18;
          x19 \<leftarrow> optional str_of_json v19;
          x20 \<leftarrow> defaulted [] (map_of_json any_of_json) v20;
          x21 \<leftarrow> defaulted [] (map_of_json any_of_json) v21;
          x22 \<leftarrow> optional resources_of_json v22;
          Some \<lparr>sink_config_tenant = x1, sink_config_namespace = x2, sink_config_name = x3,
            sink_config_class_name = x4, sink_config_sink_type = x5, sink_config_archive = x6,
            sink_config_inputs = x7, sink_config_topics_pattern = x8, sink_config_input_specs = x9,
            sink_config_topic_to_serde_class_name = x10, sink_config_topic_to_schema_type = x11,
            sink_config_subscription_name = x12, sink_config_processing_guarantees = x13,
            sink_config_parallelism = x14, sink_config_retain_ordering = x15,
            sink_config_auto_ack = x16, sink_config_timeout_ms = x17,
            sink_config_max_message_retries = x18, sink_config_dead_letter_topic = x19,
            sink_config_configs = x20, sink_config_secrets = x21, sink_config_resources = x22\<rparr>}
      | _ \<Rightarrow> None)"

definition sink_config_good :: "sink_config \<Rightarrow> bool" where
  "sink_config_good x \<longleftrightarrow> entries_good function_consumer_config_good (sink_config_input_specs x)
     \<and> entries_good (\<lambda>_. True) (sink_config_topic_to_serde_class_name x)
     \<and> entries_good (\<lambda>_. True) (sink_config_topic_to_schema_type x)
     \<and> entries_good (\<lambda>_. True) (sink_config_configs x)
     \<and> entries_good (\<lambda>_. True) (sink_config_secrets x)
     \<and> pred_option resources_good (sink_config_resources x)"

lemma sink_config_names_distinct: "distinct sink_config_names"
  by code_simp

interpretation sink_config_codec: json_value sink_config_json sink_config_of_json sink_config_good
proof (rule json_valueI)
  show "sink_config_of_json (sink_config_json x) = Some x" if "sink_config_good x" for x :: sink_config
    using that unfolding sink_config_of_json_def sink_config_json_def sink_config_good_def
    by (subst entries_of_obj [OF sink_config_names_distinct]) (simp_all add: sink_config_names_def)
  show "sink_config_json x \<noteq> JNull" for x
    by (simp add: sink_config_json_def)
qed

record source_config =
  source_config_tenant :: "string option"
  source_config_namespace :: "string option"
  source_config_name :: "string option"
  source_config_class_name :: "string option"
  source_config_source_type :: "string option"
  source_config_archive :: "string option"
  source_config_topic_name :: "string option"
  source_config_serde_class_name :: "string option"
  source_config_schema_type :: "string option"
  source_config_parallelism :: "32 word option"
  source_config_processing_guarantees :: "string option"
  source_config_configs :: "(string \<times> json) list"
  source_config_secrets :: "(string \<times> json) list"
  source_config_resources :: "resources option"
  source_config_producer_config :: "producer_config option"
  source_config_batch_source_config :: "json option"

definition source_config_names :: "string list" where
  "source_config_names = [''tenant'', ''namespace'', ''name'', ''className'', ''sourceType'', ''archive'',
     ''topicName'', ''serdeClassName'', ''schemaType'', ''parallelism'',
     ''processingGuarantees'', ''configs'', ''secrets'', ''resources'', ''producerConfig'',
     ''batchSourceConfig'']"

definition source_config_json :: "source_config \<Rightarrow> json" where
  "source_config_json x = obj [
     (''tenant'', if_some str_json (source_config_tenant x)),
     (''namespace'', if_some str_json (source_config_namespace x)),
     (''name'', if_some str_json (source_config_name x)),
     (''className'', if_some str_json (source_config_class_name x)),
     (''sourceType'', if_some str_json (source_config_source_type x)),
     (''archive'', if_some str_json (source_config_archive x)),
     (''topicName'', if_some str_json (source_config_topic_name x)),
     (''serdeClassName'', if_some str_json (source_config_serde_class_name x)),
     (''schemaType'', if_some str_json (source_config_schema_type x)),
     (''parallelism'', if_some sword_json (source_config_parallelism x)),
     (''processingGuarantees'', if_some str_json (source_config_processing_guarantees x)),
     (''configs'', if_any (map_json any_json) (source_config_configs x)),
     (''secrets'', if_any (map_json any_json) (source_config_secrets x)),
     (''resources'', if_some resources_json (source_config_resources x)),
     (''producerConfig'', if_some producer_config_json (source_config_producer_config x)),
     (''batchSourceConfig'', if_some any_json (source_config_batch_source_config x))]"

definition source_config_of_json :: "json \<Rightarrow> source_config option" where
  "source_config_of_json j =
     (case entries_named source_config_names j of
        Some [v1, v2, v3, v4, v5, v6, v7, v8, v9, v10, v11, v12, v13, v14, v15, v16] \<Rightarrow> do {
          x1 \<leftarrow> optional str_of_json v1;
          x2 \<leftarrow> optional str_of_json v2;
          x3 \<leftarrow> optional str_of_json v3;
          x4 \<leftarrow> optional str_of_json v4;
          x5 \<leftarrow> optional str_of_json v5;
          x6 \<leftarrow> optional str_of_json v6;
          x7 \<leftarrow> optional str_of_json v7;
          x8 \<leftarrow> optional str_of_json v8;
          x9 \<leftarrow> optional str_of_json v9;
          x10 \<leftarrow> optional sword_of_json v10;
          x11 \<leftarrow> optional str_of_json v11;
          x12 \<leftarrow> defaulted [] (map_of_json any_of_json) v12;
          x13 \<leftarrow> defaulted [] (map_of_json any_of_json) v13;
          x14 \<leftarrow> optional resources_of_json v14;
          x15 \<leftarrow> optional producer_config_of_json v15;
          x16 \<leftarrow> optional any_of_json v16;
          Some \<lparr>source_config_tenant = x1, source_config_namespace = x2, source_config_name = x3,
            source_config_class_name = x4, source_config_source_type = x5, source_config_archive = x6,
            source_config_topic_name = x7, source_config_serde_class_name = x8,
            source_config_schema_type = x9, source_config_parallelism = x10,
            source_config_processing_guarantees = x11, source_config_configs = x12,
            source_config_secrets = x13, source_config_resources = x14,
            source_config_producer_config = x15, source_config_batch_source_config = x16\<rparr>}
      | _ \<Rightarrow> None)"

definition source_config_good :: "source_config \<Rightarrow> bool" where
  "source_config_good x \<longleftrightarrow> entries_good (\<lambda>_. True) (source_config_configs x)
     \<and> entries_good (\<lambda>_. True) (source_config_secrets x)
     \<and> pred_option resources_good (source_config_resources x)
     \<and> pred_option (\<lambda>j. j \<noteq> JNull) (source_config_batch_source_config x)"

lemma source_config_names_distinct: "distinct source_config_names"
  by code_simp

interpretation source_config_codec: json_value source_config_json source_config_of_json source_config_good
proof (rule json_valueI)
  show "source_config_of_json (source_config_json x) = Some x" if "source_config_good x" for x :: source_config
    using that unfolding source_config_of_json_def source_config_json_def source_config_good_def
    by (subst entries_of_obj [OF source_config_names_distinct]) (simp_all add: source_config_names_def)
  show "source_config_json x \<noteq> JNull" for x
    by (simp add: source_config_json_def)
qed

record exception_information =
  exception_information_exception_string :: "string option"
  exception_information_timestamp_ms :: "64 word"

definition exception_information_names :: "string list" where
  "exception_information_names = [''exceptionString'', ''timestampMs'']"

definition exception_information_json :: "exception_information \<Rightarrow> json" where
  "exception_information_json x = obj [
     (''exceptionString'', or_null str_json (exception_information_exception_string x)),
     (''timestampMs'', Some (sword_json (exception_information_timestamp_ms x)))]"

definition exception_information_of_json :: "json \<Rightarrow> exception_information option" where
  "exception_information_of_json j =
     (case entries_named exception_information_names j of
        Some [v1, v2] \<Rightarrow> do {
          x1 \<leftarrow> optional str_of_json v1;
          x2 \<leftarrow> defaulted 0 sword_of_json v2;
          Some \<lparr>exception_information_exception_string = x1, exception_information_timestamp_ms = x2\<rparr>}
      | _ \<Rightarrow> None)"

lemma exception_information_names_distinct: "distinct exception_information_names"
  by code_simp

interpretation exception_information_codec: json_value exception_information_json exception_information_of_json "\<lambda>_. True"
proof (rule json_valueI)
  show "exception_information_of_json (exception_information_json x) = Some x" for x :: exception_information
    unfolding exception_information_of_json_def exception_information_json_def
    by (subst entries_of_obj [OF exception_information_names_distinct]) (simp_all add: exception_information_names_def)
  show "exception_information_json x \<noteq> JNull" for x
    by (simp add: exception_information_json_def)
qed

interpretation exception_information_list_codec: json_value "list_json exception_information_json" "list_of_json exception_information_of_json" "\<lambda>_. True"
  by (rule list_value_True [OF exception_information_codec.json_codec_axioms])

record function_instance_status =
  function_instance_status_running :: "bool"
  function_instance_status_latest_user_exceptions :: "exception_information list"
  function_instance_status_latest_system_exceptions :: "exception_information list"
  function_instance_status_error :: "string option"
  function_instance_status_num_restarts :: "64 word"
  function_instance_status_num_received :: "64 word"
  function_instance_status_num_successfully_processed :: "64 word"
  function_instance_status_num_user_exceptions :: "64 word"
  function_instance_status_num_system_exceptions :: "64 word"
  function_instance_status_average_latency :: "f64"
  function_instance_status_last_invocation_time :: "64 word"
  function_instance_status_worker_id :: "string option"

definition function_instance_status_names :: "string list" where
  "function_instance_status_names = [''running'', ''latestUserExceptions'', ''latestSystemExceptions'', ''error'',
     ''numRestarts'', ''numReceived'', ''numSuccessfullyProcessed'', ''numUserExceptions'',
     ''numSystemExceptions'', ''averageLatency'', ''lastInvocationTime'', ''workerId'']"

definition function_instance_status_json :: "function_instance_status \<Rightarrow> json" where
  "function_instance_status_json x = obj [
     (''running'', Some (JBool (function_instance_status_running x))),
     (''latestUserExceptions'', Some (list_json exception_information_json (function_instance_status_latest_user_exceptions x))),
     (''latestSystemExceptions'', Some (list_json exception_information_json (function_instance_status_latest_system_exceptions x))),
     (''error'', or_null str_json (function_instance_status_error x)),
     (''numRestarts'', Some (sword_json (function_instance_status_num_restarts x))),
     (''numReceived'', Some (sword_json (function_instance_status_num_received x))),
     (''numSuccessfullyProcessed'', Some (sword_json (function_instance_status_num_successfully_processed x))),
     (''numUserExceptions'', Some (sword_json (function_instance_status_num_user_exceptions x))),
     (''numSystemExceptions'', Some (sword_json (function_instance_status_num_system_exceptions x))),
     (''averageLatency'', Some (f64_json (function_instance_status_average_latency x))),
     (''lastInvocationTime'', Some (sword_json (function_instance_status_last_invocation_time x))),
     (''workerId'', or_null str_json (function_instance_status_worker_id x))]"

definition function_instance_status_of_json :: "json \<Rightarrow> function_instance_status option" where
  "function_instance_status_of_json j =
     (case entries_named function_instance_status_names j of
        Some [v1, v2, v3, v4, v5, v6, v7, v8, v9, v10, v11, v12] \<Rightarrow> do {
          x1 \<leftarrow> defaulted False bool_of_json v1;
          x2 \<leftarrow> defaulted [] (list_of_json exception_information_of_json) v2;
          x3 \<leftarrow> defaulted [] (list_of_json exception_information_of_json) v3;
          x4 \<leftarrow> optional str_of_json v4;
          x5 \<leftarrow> defaulted 0 sword_of_json v5;
          x6 \<leftarrow> defaulted 0 sword_of_json v6;
          x7 \<leftarrow> defaulted 0 sword_of_json v7;
          x8 \<leftarrow> defaulted 0 sword_of_json v8;
          x9 \<leftarrow> defaulted 0 sword_of_json v9;
          x10 \<leftarrow> defaulted (F64 0) f64_of_json v10;
          x11 \<leftarrow> defaulted 0 sword_of_json v11;
          x12 \<leftarrow> optional str_of_json v12;
          Some \<lparr>function_instance_status_running = x1,
            function_instance_status_latest_user_exceptions = x2,
            function_instance_status_latest_system_exceptions = x3,
            function_instance_status_error = x4, function_instance_status_num_restarts = x5,
            function_instance_status_num_received = x6,
            function_instance_status_num_successfully_processed = x7,
            function_instance_status_num_user_exceptions = x8,
            function_instance_status_num_system_exceptions = x9,
            function_instance_status_average_latency = x10,
            function_instance_status_last_invocation_time = x11,
            function_instance_status_worker_id = x12\<rparr>}
      | _ \<Rightarrow> None)"

definition function_instance_status_good :: "function_instance_status \<Rightarrow> bool" where
  "function_instance_status_good x \<longleftrightarrow> is_finite (function_instance_status_average_latency x)"

lemma function_instance_status_names_distinct: "distinct function_instance_status_names"
  by code_simp

interpretation function_instance_status_codec: json_value function_instance_status_json function_instance_status_of_json function_instance_status_good
proof (rule json_valueI)
  show "function_instance_status_of_json (function_instance_status_json x) = Some x" if "function_instance_status_good x" for x :: function_instance_status
    using that unfolding function_instance_status_of_json_def function_instance_status_json_def function_instance_status_good_def
    by (subst entries_of_obj [OF function_instance_status_names_distinct]) (simp_all add: function_instance_status_names_def)
  show "function_instance_status_json x \<noteq> JNull" for x
    by (simp add: function_instance_status_json_def)
qed

record function_instance_status_entry =
  function_instance_status_entry_instance_id :: "32 word"
  function_instance_status_entry_status :: "function_instance_status option"

definition function_instance_status_entry_names :: "string list" where
  "function_instance_status_entry_names = [''instanceId'', ''status'']"

definition function_instance_status_entry_json :: "function_instance_status_entry \<Rightarrow> json" where
  "function_instance_status_entry_json x = obj [
     (''instanceId'', Some (sword_json (function_instance_status_entry_instance_id x))),
     (''status'', if_some function_instance_status_json (function_instance_status_entry_status x))]"

definition function_instance_status_entry_of_json :: "json \<Rightarrow> function_instance_status_entry option" where
  "function_instance_status_entry_of_json j =
     (case entries_named function_instance_status_entry_names j of
        Some [v1, v2] \<Rightarrow> do {
          x1 \<leftarrow> defaulted 0 sword_of_json v1;
          x2 \<leftarrow> optional function_instance_status_of_json v2;
          Some \<lparr>function_instance_status_entry_instance_id = x1, function_instance_status_entry_status = x2\<rparr>}
      | _ \<Rightarrow> None)"

definition function_instance_status_entry_good :: "function_instance_status_entry \<Rightarrow> bool" where
  "function_instance_status_entry_good x \<longleftrightarrow> pred_option function_instance_status_good (function_instance_status_entry_status x)"

lemma function_instance_status_entry_names_distinct: "distinct function_instance_status_entry_names"
  by code_simp

interpretation function_instance_status_entry_codec: json_value function_instance_status_entry_json function_instance_status_entry_of_json function_instance_status_entry_good
proof (rule json_valueI)
  show "function_instance_status_entry_of_json (function_instance_status_entry_json x) = Some x" if "function_instance_status_entry_good x" for x :: function_instance_status_entry
    using that unfolding function_instance_status_entry_of_json_def function_instance_status_entry_json_def function_instance_status_entry_good_def
    by (subst entries_of_obj [OF function_instance_status_entry_names_distinct]) (simp_all add: function_instance_status_entry_names_def)
  show "function_instance_status_entry_json x \<noteq> JNull" for x
    by (simp add: function_instance_status_entry_json_def)
qed

interpretation function_instance_status_entry_list_codec: json_value "list_json function_instance_status_entry_json" "list_of_json function_instance_status_entry_of_json" "list_all function_instance_status_entry_good"
  by (rule list_value [OF function_instance_status_entry_codec.json_codec_axioms])

record function_status =
  function_status_num_instances :: "32 word"
  function_status_num_running :: "32 word"
  function_status_instances :: "function_instance_status_entry list"

definition function_status_names :: "string list" where
  "function_status_names = [''numInstances'', ''numRunning'', ''instances'']"

definition function_status_json :: "function_status \<Rightarrow> json" where
  "function_status_json x = obj [
     (''numInstances'', Some (sword_json (function_status_num_instances x))),
     (''numRunning'', Some (sword_json (function_status_num_running x))),
     (''instances'', Some (list_json function_instance_status_entry_json (function_status_instances x)))]"

definition function_status_of_json :: "json \<Rightarrow> function_status option" where
  "function_status_of_json j =
     (case entries_named function_status_names j of
        Some [v1, v2, v3] \<Rightarrow> do {
          x1 \<leftarrow> defaulted 0 sword_of_json v1;
          x2 \<leftarrow> defaulted 0 sword_of_json v2;
          x3 \<leftarrow> defaulted [] (list_of_json function_instance_status_entry_of_json) v3;
          Some \<lparr>function_status_num_instances = x1, function_status_num_running = x2,
            function_status_instances = x3\<rparr>}
      | _ \<Rightarrow> None)"

definition function_status_good :: "function_status \<Rightarrow> bool" where
  "function_status_good x \<longleftrightarrow> list_all function_instance_status_entry_good (function_status_instances x)"

lemma function_status_names_distinct: "distinct function_status_names"
  by code_simp

interpretation function_status_codec: json_value function_status_json function_status_of_json function_status_good
proof (rule json_valueI)
  show "function_status_of_json (function_status_json x) = Some x" if "function_status_good x" for x :: function_status
    using that unfolding function_status_of_json_def function_status_json_def function_status_good_def
    by (subst entries_of_obj [OF function_status_names_distinct]) (simp_all add: function_status_names_def)
  show "function_status_json x \<noteq> JNull" for x
    by (simp add: function_status_json_def)
qed

record function_instance_stats_data_base =
  function_instance_stats_data_base_received_total :: "64 word"
  function_instance_stats_data_base_processed_successfully_total :: "64 word"
  function_instance_stats_data_base_system_exceptions_total :: "64 word"
  function_instance_stats_data_base_user_exceptions_total :: "64 word"
  function_instance_stats_data_base_avg_process_latency :: "f64 option"

definition function_instance_stats_data_base_names :: "string list" where
  "function_instance_stats_data_base_names = [''receivedTotal'', ''processedSuccessfullyTotal'', ''systemExceptionsTotal'',
     ''userExceptionsTotal'', ''avgProcessLatency'']"

definition function_instance_stats_data_base_json :: "function_instance_stats_data_base \<Rightarrow> json" where
  "function_instance_stats_data_base_json x = obj [
     (''receivedTotal'', Some (sword_json (function_instance_stats_data_base_received_total x))),
     (''processedSuccessfullyTotal'', Some (sword_json (function_instance_stats_data_base_processed_successfully_total x))),
     (''systemExceptionsTotal'', Some (sword_json (function_instance_stats_data_base_system_exceptions_total x))),
     (''userExceptionsTotal'', Some (sword_json (function_instance_stats_data_base_user_exceptions_total x))),
     (''avgProcessLatency'', or_null f64_json (function_instance_stats_data_base_avg_process_latency x))]"

definition function_instance_stats_data_base_of_json :: "json \<Rightarrow> function_instance_stats_data_base option" where
  "function_instance_stats_data_base_of_json j =
     (case entries_named function_instance_stats_data_base_names j of
        Some [v1, v2, v3, v4, v5] \<Rightarrow> do {
          x1 \<leftarrow> defaulted 0 sword_of_json v1;
          x2 \<leftarrow> defaulted 0 sword_of_json v2;
          x3 \<leftarrow> defaulted 0 sword_of_json v3;
          x4 \<leftarrow> defaulted 0 sword_of_json v4;
          x5 \<leftarrow> optional f64_of_json v5;
          Some \<lparr>function_instance_stats_data_base_received_total = x1,
            function_instance_stats_data_base_processed_successfully_total = x2,
            function_instance_stats_data_base_system_exceptions_total = x3,
            function_instance_stats_data_base_user_exceptions_total = x4,
            function_instance_stats_data_base_avg_process_latency = x5\<rparr>}
      | _ \<Rightarrow> None)"

definition function_instance_stats_data_base_default :: function_instance_stats_data_base where
  "function_instance_stats_data_base_default = \<lparr>function_instance_stats_data_base_received_total = 0,
            function_instance_stats_data_base_processed_successfully_total = 0,
            function_instance_stats_data_base_system_exceptions_total = 0,
            function_instance_stats_data_base_user_exceptions_total = 0,
            function_instance_stats_data_base_avg_process_latency = None\<rparr>"

definition function_instance_stats_data_base_good :: "function_instance_stats_data_base \<Rightarrow> bool" where
  "function_instance_stats_data_base_good x \<longleftrightarrow> pred_option is_finite (function_instance_stats_data_base_avg_process_latency x)"

lemma function_instance_stats_data_base_names_distinct: "distinct function_instance_stats_data_base_names"
  by code_simp

interpretation function_instance_stats_data_base_codec: json_value function_instance_stats_data_base_json function_instance_stats_data_base_of_json function_instance_stats_data_base_good
proof (rule json_valueI)
  show "function_instance_stats_data_base_of_json (function_instance_stats_data_base_json x) = Some x" if "function_instance_stats_data_base_good x" for x :: function_instance_stats_data_base
    using that unfolding function_instance_stats_data_base_of_json_def function_instance_stats_data_base_json_def function_instance_stats_data_base_good_def
    by (subst entries_of_obj [OF function_instance_stats_data_base_names_distinct]) (simp_all add: function_instance_stats_data_base_names_def)
  show "function_instance_stats_data_base_json x \<noteq> JNull" for x
    by (simp add: function_instance_stats_data_base_json_def)
qed

record function_instance_stats_data =
  function_instance_stats_data_received_total :: "64 word"
  function_instance_stats_data_processed_successfully_total :: "64 word"
  function_instance_stats_data_system_exceptions_total :: "64 word"
  function_instance_stats_data_user_exceptions_total :: "64 word"
  function_instance_stats_data_avg_process_latency :: "f64 option"
  function_instance_stats_data_one_min :: "function_instance_stats_data_base"
  function_instance_stats_data_last_invocation :: "64 word option"
  function_instance_stats_data_user_metrics :: "(string \<times> f64) list"

definition function_instance_stats_data_names :: "string list" where
  "function_instance_stats_data_names = [''receivedTotal'', ''processedSuccessfullyTotal'', ''systemExceptionsTotal'',
     ''userExceptionsTotal'', ''avgProcessLatency'', ''1min'', ''lastInvocation'',
     ''userMetrics'']"

definition function_instance_stats_data_json :: "function_instance_stats_data \<Rightarrow> json" where
  "function_instance_stats_data_json x = obj [
     (''receivedTotal'', Some (sword_json (function_instance_stats_data_received_total x))),
     (''processedSuccessfullyTotal'', Some (sword_json (function_instance_stats_data_processed_successfully_total x))),
     (''systemExceptionsTotal'', Some (sword_json (function_instance_stats_data_system_exceptions_total x))),
     (''userExceptionsTotal'', Some (sword_json (function_instance_stats_data_user_exceptions_total x))),
     (''avgProcessLatency'', or_null f64_json (function_instance_stats_data_avg_process_latency x)),
     (''1min'', Some (function_instance_stats_data_base_json (function_instance_stats_data_one_min x))),
     (''lastInvocation'', or_null sword_json (function_instance_stats_data_last_invocation x)),
     (''userMetrics'', Some (map_json f64_json (function_instance_stats_data_user_metrics x)))]"

definition function_instance_stats_data_of_json :: "json \<Rightarrow> function_instance_stats_data option" where
  "function_instance_stats_data_of_json j =
     (case entries_named function_instance_stats_data_names j of
        Some [v1, v2, v3, v4, v5, v6, v7, v8] \<Rightarrow> do {
          x1 \<leftarrow> defaulted 0 sword_of_json v1;
          x2 \<leftarrow> defaulted 0 sword_of_json v2;
          x3 \<leftarrow> defaulted 0 sword_of_json v3;
          x4 \<leftarrow> defaulted 0 sword_of_json v4;
          x5 \<leftarrow> optional f64_of_json v5;
          x6 \<leftarrow> defaulted function_instance_stats_data_base_default function_instance_stats_data_base_of_json v6;
          x7 \<leftarrow> optional sword_of_json v7;
          x8 \<leftarrow> defaulted [] (map_of_json f64_of_json) v8;
          Some \<lparr>function_instance_stats_data_received_total = x1,
            function_instance_stats_data_processed_successfully_total = x2,
            function_instance_stats_data_system_exceptions_total = x3,
            function_instance_stats_data_user_exceptions_total = x4,
            function_instance_stats_data_avg_process_latency = x5,
            function_instance_stats_data_one_min = x6,
            function_instance_stats_data_last_invocation = x7,
            function_instance_stats_data_user_metrics = x8\<rparr>}
      | _ \<Rightarrow> None)"

definition function_instance_stats_data_default :: function_instance_stats_data where
  "function_instance_stats_data_default = \<lparr>function_instance_stats_data_received_total = 0,
            function_instance_stats_data_processed_successfully_total = 0,
            function_instance_stats_data_system_exceptions_total = 0,
            function_instance_stats_data_user_exceptions_total = 0,
            function_instance_stats_data_avg_process_latency = None,
            function_instance_stats_data_one_min = function_instance_stats_data_base_default,
            function_instance_stats_data_last_invocation = None,
            function_instance_stats_data_user_metrics = []\<rparr>"

definition function_instance_stats_data_good :: "function_instance_stats_data \<Rightarrow> bool" where
  "function_instance_stats_data_good x \<longleftrightarrow> pred_option is_finite (function_instance_stats_data_avg_process_latency x)
     \<and> function_instance_stats_data_base_good (function_instance_stats_data_one_min x)
     \<and> entries_good is_finite (function_instance_stats_data_user_metrics x)"

lemma function_instance_stats_data_names_distinct: "distinct function_instance_stats_data_names"
  by code_simp

interpretation function_instance_stats_data_codec: json_value function_instance_stats_data_json function_instance_stats_data_of_json function_instance_stats_data_good
proof (rule json_valueI)
  show "function_instance_stats_data_of_json (function_instance_stats_data_json x) = Some x" if "function_instance_stats_data_good x" for x :: function_instance_stats_data
    using that unfolding function_instance_stats_data_of_json_def function_instance_stats_data_json_def function_instance_stats_data_good_def
    by (subst entries_of_obj [OF function_instance_stats_data_names_distinct]) (simp_all add: function_instance_stats_data_names_def)
  show "function_instance_stats_data_json x \<noteq> JNull" for x
    by (simp add: function_instance_stats_data_json_def)
qed

record function_instance_stats =
  function_instance_stats_instance_id :: "32 word"
  function_instance_stats_metrics :: "function_instance_stats_data"

definition function_instance_stats_names :: "string list" where
  "function_instance_stats_names = [''instanceId'', ''metrics'']"

definition function_instance_stats_json :: "function_instance_stats \<Rightarrow> json" where
  "function_instance_stats_json x = obj [
     (''instanceId'', Some (sword_json (function_instance_stats_instance_id x))),
     (''metrics'', Some (function_instance_stats_data_json (function_instance_stats_metrics x)))]"

definition function_instance_stats_of_json :: "json \<Rightarrow> function_instance_stats option" where
  "function_instance_stats_of_json j =
     (case entries_named function_instance_stats_names j of
        Some [v1, v2] \<Rightarrow> do {
          x1 \<leftarrow> defaulted 0 sword_of_json v1;
          x2 \<leftarrow> defaulted function_instance_stats_data_default function_instance_stats_data_of_json v2;
          Some \<lparr>function_instance_stats_instance_id = x1, function_instance_stats_metrics = x2\<rparr>}
      | _ \<Rightarrow> None)"

definition function_instance_stats_good :: "function_instance_stats \<Rightarrow> bool" where
  "function_instance_stats_good x \<longleftrightarrow> function_instance_stats_data_good (function_instance_stats_metrics x)"

lemma function_instance_stats_names_distinct: "distinct function_instance_stats_names"
  by code_simp

interpretation function_instance_stats_codec: json_value function_instance_stats_json function_instance_stats_of_json function_instance_stats_good
proof (rule json_valueI)
  show "function_instance_stats_of_json (function_instance_stats_json x) = Some x" if "function_instance_stats_good x" for x :: function_instance_stats
    using that unfolding function_instance_stats_of_json_def function_instance_stats_json_def function_instance_stats_good_def
    by (subst entries_of_obj [OF function_instance_stats_names_distinct]) (simp_all add: function_instance_stats_names_def)
  show "function_instance_stats_json x \<noteq> JNull" for x
    by (simp add: function_instance_stats_json_def)
qed

interpretation function_instance_stats_list_codec: json_value "list_json function_instance_stats_json" "list_of_json function_instance_stats_of_json" "list_all function_instance_stats_good"
  by (rule list_value [OF function_instance_stats_codec.json_codec_axioms])

record function_stats =
  function_stats_received_total :: "64 word"
  function_stats_processed_successfully_total :: "64 word"
  function_stats_system_exceptions_total :: "64 word"
  function_stats_user_exceptions_total :: "64 word"
  function_stats_avg_process_latency :: "f64 option"
  function_stats_one_min :: "function_instance_stats_data_base"
  function_stats_last_invocation :: "64 word option"
  function_stats_instances :: "function_instance_stats list"

definition function_stats_names :: "string list" where
  "function_stats_names = [''receivedTotal'', ''processedSuccessfullyTotal'', ''systemExceptionsTotal'',
     ''userExceptionsTotal'', ''avgProcessLatency'', ''1min'', ''lastInvocation'', ''instances'']"

definition function_stats_json :: "function_stats \<Rightarrow> json" where
  "function_stats_json x = obj [
     (''receivedTotal'', Some (sword_json (function_stats_received_total x))),
     (''processedSuccessfullyTotal'', Some (sword_json (function_stats_processed_successfully_total x))),
     (''systemExceptionsTotal'', Some (sword_json (function_stats_system_exceptions_total x))),
     (''userExceptionsTotal'', Some (sword_json (function_stats_user_exceptions_total x))),
     (''avgProcessLatency'', or_null f64_json (function_stats_avg_process_latency x)),
     (''1min'', Some (function_instance_stats_data_base_json (function_stats_one_min x))),
     (''lastInvocation'', or_null sword_json (function_stats_last_invocation x)),
     (''instances'', Some (list_json function_instance_stats_json (function_stats_instances x)))]"

definition function_stats_of_json :: "json \<Rightarrow> function_stats option" where
  "function_stats_of_json j =
     (case entries_named function_stats_names j of
        Some [v1, v2, v3, v4, v5, v6, v7, v8] \<Rightarrow> do {
          x1 \<leftarrow> defaulted 0 sword_of_json v1;
          x2 \<leftarrow> defaulted 0 sword_of_json v2;
          x3 \<leftarrow> defaulted 0 sword_of_json v3;
          x4 \<leftarrow> defaulted 0 sword_of_json v4;
          x5 \<leftarrow> optional f64_of_json v5;
          x6 \<leftarrow> defaulted function_instance_stats_data_base_default function_instance_stats_data_base_of_json v6;
          x7 \<leftarrow> optional sword_of_json v7;
          x8 \<leftarrow> defaulted [] (list_of_json function_instance_stats_of_json) v8;
          Some \<lparr>function_stats_received_total = x1, function_stats_processed_successfully_total = x2,
            function_stats_system_exceptions_total = x3, function_stats_user_exceptions_total = x4,
            function_stats_avg_process_latency = x5, function_stats_one_min = x6,
            function_stats_last_invocation = x7, function_stats_instances = x8\<rparr>}
      | _ \<Rightarrow> None)"

definition function_stats_good :: "function_stats \<Rightarrow> bool" where
  "function_stats_good x \<longleftrightarrow> pred_option is_finite (function_stats_avg_process_latency x)
     \<and> function_instance_stats_data_base_good (function_stats_one_min x)
     \<and> list_all function_instance_stats_good (function_stats_instances x)"

lemma function_stats_names_distinct: "distinct function_stats_names"
  by code_simp

interpretation function_stats_codec: json_value function_stats_json function_stats_of_json function_stats_good
proof (rule json_valueI)
  show "function_stats_of_json (function_stats_json x) = Some x" if "function_stats_good x" for x :: function_stats
    using that unfolding function_stats_of_json_def function_stats_json_def function_stats_good_def
    by (subst entries_of_obj [OF function_stats_names_distinct]) (simp_all add: function_stats_names_def)
  show "function_stats_json x \<noteq> JNull" for x
    by (simp add: function_stats_json_def)
qed

record function_state =
  function_state_key :: "string option"
  function_state_string_value :: "string option"
  function_state_byte_value :: "byte list option"
  function_state_number_value :: "64 word option"
  function_state_version :: "64 word option"

definition function_state_names :: "string list" where
  "function_state_names = [''key'', ''stringValue'', ''byteValue'', ''numberValue'', ''version'']"

definition function_state_json :: "(byte list \<Rightarrow> string) \<Rightarrow> function_state \<Rightarrow> json" where
  "function_state_json b64e x = obj [
     (''key'', or_null str_json (function_state_key x)),
     (''stringValue'', or_null str_json (function_state_string_value x)),
     (''byteValue'', base64_json b64e (function_state_byte_value x)),
     (''numberValue'', or_null sword_json (function_state_number_value x)),
     (''version'', or_null sword_json (function_state_version x))]"

definition function_state_of_json :: "(byte list \<Rightarrow> byte list option) \<Rightarrow> json \<Rightarrow> function_state option" where
  "function_state_of_json b64d j =
     (case entries_named function_state_names j of
        Some [v1, v2, v3, v4, v5] \<Rightarrow> do {
          x1 \<leftarrow> optional str_of_json v1;
          x2 \<leftarrow> optional str_of_json v2;
          x3 \<leftarrow> base64_of_json b64d v3;
          x4 \<leftarrow> optional sword_of_json v4;
          x5 \<leftarrow> optional sword_of_json v5;
          Some \<lparr>function_state_key = x1, function_state_string_value = x2, function_state_byte_value = x3,
            function_state_number_value = x4, function_state_version = x5\<rparr>}
      | _ \<Rightarrow> None)"

definition function_state_default :: function_state where
  "function_state_default = \<lparr>function_state_key = None, function_state_string_value = None,
            function_state_byte_value = None, function_state_number_value = None,
            function_state_version = None\<rparr>"


record update_options =
  update_options_update_auth_data :: "bool"

definition update_options_names :: "string list" where
  "update_options_names = [''updateAuthData'']"

definition update_options_json :: "update_options \<Rightarrow> json" where
  "update_options_json x = obj [
     (''updateAuthData'', Some (JBool (update_options_update_auth_data x)))]"

definition update_options_of_json :: "json \<Rightarrow> update_options option" where
  "update_options_of_json j =
     (case entries_named update_options_names j of
        Some [v1] \<Rightarrow> do {
          x1 \<leftarrow> defaulted False bool_of_json v1;
          Some \<lparr>update_options_update_auth_data = x1\<rparr>}
      | _ \<Rightarrow> None)"

lemma update_options_names_distinct: "distinct update_options_names"
  by code_simp

interpretation update_options_codec: json_body update_options_json update_options_of_json "\<lambda>_. True"
proof (rule json_bodyI)
  show "update_options_of_json (update_options_json x) = Some x" for x :: update_options
    unfolding update_options_of_json_def update_options_json_def
    by (subst entries_of_obj [OF update_options_names_distinct]) (simp_all add: update_options_names_def)
  show "\<not> has_null (update_options_json x)" for x :: update_options
    unfolding update_options_json_def by simp
qed

record connector_definition =
  connector_definition_name :: "string option"
  connector_definition_description :: "string option"
  connector_definition_source_class :: "string option"
  connector_definition_sink_class :: "string option"
  connector_definition_source_config_class :: "string option"
  connector_definition_sink_config_class :: "string option"

definition connector_definition_names :: "string list" where
  "connector_definition_names = [''name'', ''description'', ''sourceClass'', ''sinkClass'', ''sourceConfigClass'',
     ''sinkConfigClass'']"

definition connector_definition_json :: "connector_definition \<Rightarrow> json" where
  "connector_definition_json x = obj [
     (''name'', or_null str_json (connector_definition_name x)),
     (''description'', or_null str_json (connector_definition_description x)),
     (''sourceClass'', or_null str_json (connector_definition_source_class x)),
     (''sinkClass'', or_null str_json (connector_definition_sink_class x)),
     (''sourceConfigClass'', or_null str_json (connector_definition_source_config_class x)),
     (''sinkConfigClass'', or_null str_json (connector_definition_sink_config_class x))]"

definition connector_definition_of_json :: "json \<Rightarrow> connector_definition option" where
  "connector_definition_of_json j =
     (case entries_named connector_definition_names j of
        Some [v1, v2, v3, v4, v5, v6] \<Rightarrow> do {
          x1 \<leftarrow> optional str_of_json v1;
          x2 \<leftarrow> optional str_of_json v2;
          x3 \<leftarrow> optional str_of_json v3;
          x4 \<leftarrow> optional str_of_json v4;
          x5 \<leftarrow> optional str_of_json v5;
          x6 \<leftarrow> optional str_of_json v6;
          Some \<lparr>connector_definition_name = x1, connector_definition_description = x2,
            connector_definition_source_class = x3, connector_definition_sink_class = x4,
            connector_definition_source_config_class = x5, connector_definition_sink_config_class = x6\<rparr>}
      | _ \<Rightarrow> None)"

lemma connector_definition_names_distinct: "distinct connector_definition_names"
  by code_simp

interpretation connector_definition_codec: json_value connector_definition_json connector_definition_of_json "\<lambda>_. True"
proof (rule json_valueI)
  show "connector_definition_of_json (connector_definition_json x) = Some x" for x :: connector_definition
    unfolding connector_definition_of_json_def connector_definition_json_def
    by (subst entries_of_obj [OF connector_definition_names_distinct]) (simp_all add: connector_definition_names_def)
  show "connector_definition_json x \<noteq> JNull" for x
    by (simp add: connector_definition_json_def)
qed

record function_definition =
  function_definition_name :: "string option"
  function_definition_description :: "string option"
  function_definition_function_class :: "string option"

definition function_definition_names :: "string list" where
  "function_definition_names = [''name'', ''description'', ''functionClass'']"

definition function_definition_json :: "function_definition \<Rightarrow> json" where
  "function_definition_json x = obj [
     (''name'', or_null str_json (function_definition_name x)),
     (''description'', or_null str_json (function_definition_description x)),
     (''functionClass'', or_null str_json (function_definition_function_class x))]"

definition function_definition_of_json :: "json \<Rightarrow> function_definition option" where
  "function_definition_of_json j =
     (case entries_named function_definition_names j of
        Some [v1, v2, v3] \<Rightarrow> do {
          x1 \<leftarrow> optional str_of_json v1;
          x2 \<leftarrow> optional str_of_json v2;
          x3 \<leftarrow> optional str_of_json v3;
          Some \<lparr>function_definition_name = x1, function_definition_description = x2,
            function_definition_function_class = x3\<rparr>}
      | _ \<Rightarrow> None)"

lemma function_definition_names_distinct: "distinct function_definition_names"
  by code_simp

interpretation function_definition_codec: json_value function_definition_json function_definition_of_json "\<lambda>_. True"
proof (rule json_valueI)
  show "function_definition_of_json (function_definition_json x) = Some x" for x :: function_definition
    unfolding function_definition_of_json_def function_definition_json_def
    by (subst entries_of_obj [OF function_definition_names_distinct]) (simp_all add: function_definition_names_def)
  show "function_definition_json x \<noteq> JNull" for x
    by (simp add: function_definition_json_def)
qed

record connector_status =
  connector_status_num_instances :: "32 word"
  connector_status_num_running :: "32 word"
  connector_status_instances :: "json list"

definition connector_status_names :: "string list" where
  "connector_status_names = [''numInstances'', ''numRunning'', ''instances'']"

definition connector_status_json :: "connector_status \<Rightarrow> json" where
  "connector_status_json x = obj [
     (''numInstances'', Some (sword_json (connector_status_num_instances x))),
     (''numRunning'', Some (sword_json (connector_status_num_running x))),
     (''instances'', Some (list_json any_json (connector_status_instances x)))]"

definition connector_status_of_json :: "json \<Rightarrow> connector_status option" where
  "connector_status_of_json j =
     (case entries_named connector_status_names j of
        Some [v1, v2, v3] \<Rightarrow> do {
          x1 \<leftarrow> defaulted 0 sword_of_json v1;
          x2 \<leftarrow> defaulted 0 sword_of_json v2;
          x3 \<leftarrow> defaulted [] (list_of_json any_of_json) v3;
          Some \<lparr>connector_status_num_instances = x1, connector_status_num_running = x2,
            connector_status_instances = x3\<rparr>}
      | _ \<Rightarrow> None)"

lemma connector_status_names_distinct: "distinct connector_status_names"
  by code_simp

interpretation connector_status_codec: json_value connector_status_json connector_status_of_json "\<lambda>_. True"
proof (rule json_valueI)
  show "connector_status_of_json (connector_status_json x) = Some x" for x :: connector_status
    unfolding connector_status_of_json_def connector_status_json_def
    by (subst entries_of_obj [OF connector_status_names_distinct]) (simp_all add: connector_status_names_def)
  show "connector_status_json x \<noteq> JNull" for x
    by (simp add: connector_status_json_def)
qed

record package_metadata =
  package_metadata_description :: "string option"
  package_metadata_contact :: "string option"
  package_metadata_create_time :: "64 word option"
  package_metadata_modification_time :: "64 word option"
  package_metadata_properties :: "(string \<times> string) list"

definition package_metadata_names :: "string list" where
  "package_metadata_names = [''description'', ''contact'', ''createTime'', ''modificationTime'', ''properties'']"

definition package_metadata_json :: "package_metadata \<Rightarrow> json" where
  "package_metadata_json x = obj [
     (''description'', if_some str_json (package_metadata_description x)),
     (''contact'', if_some str_json (package_metadata_contact x)),
     (''createTime'', if_some sword_json (package_metadata_create_time x)),
     (''modificationTime'', if_some sword_json (package_metadata_modification_time x)),
     (''properties'', if_any (map_json str_json) (package_metadata_properties x))]"

definition package_metadata_of_json :: "json \<Rightarrow> package_metadata option" where
  "package_metadata_of_json j =
     (case entries_named package_metadata_names j of
        Some [v1, v2, v3, v4, v5] \<Rightarrow> do {
          x1 \<leftarrow> optional str_of_json v1;
          x2 \<leftarrow> optional str_of_json v2;
          x3 \<leftarrow> optional sword_of_json v3;
          x4 \<leftarrow> optional sword_of_json v4;
          x5 \<leftarrow> defaulted [] (map_of_json str_of_json) v5;
          Some \<lparr>package_metadata_description = x1, package_metadata_contact = x2,
            package_metadata_create_time = x3, package_metadata_modification_time = x4,
            package_metadata_properties = x5\<rparr>}
      | _ \<Rightarrow> None)"

definition package_metadata_default :: package_metadata where
  "package_metadata_default = \<lparr>package_metadata_description = None, package_metadata_contact = None,
            package_metadata_create_time = None, package_metadata_modification_time = None,
            package_metadata_properties = []\<rparr>"

definition package_metadata_good :: "package_metadata \<Rightarrow> bool" where
  "package_metadata_good x \<longleftrightarrow> entries_good (\<lambda>_. True) (package_metadata_properties x)"

lemma package_metadata_names_distinct: "distinct package_metadata_names"
  by code_simp

interpretation package_metadata_codec: json_body package_metadata_json package_metadata_of_json package_metadata_good
proof (rule json_bodyI)
  show "package_metadata_of_json (package_metadata_json x) = Some x" if "package_metadata_good x" for x :: package_metadata
    using that unfolding package_metadata_of_json_def package_metadata_json_def package_metadata_good_def
    by (subst entries_of_obj [OF package_metadata_names_distinct]) (simp_all add: package_metadata_names_def)
  show "\<not> has_null (package_metadata_json x)" if "package_metadata_good x" for x :: package_metadata
    using that unfolding package_metadata_json_def package_metadata_good_def by simp
qed

record worker_info =
  worker_info_worker_id :: "string option"
  worker_info_worker_hostname :: "string option"
  worker_info_port :: "32 word"

definition worker_info_names :: "string list" where
  "worker_info_names = [''workerId'', ''workerHostname'', ''port'']"

definition worker_info_json :: "worker_info \<Rightarrow> json" where
  "worker_info_json x = obj [
     (''workerId'', or_null str_json (worker_info_worker_id x)),
     (''workerHostname'', or_null str_json (worker_info_worker_hostname x)),
     (''port'', Some (sword_json (worker_info_port x)))]"

definition worker_info_of_json :: "json \<Rightarrow> worker_info option" where
  "worker_info_of_json j =
     (case entries_named worker_info_names j of
        Some [v1, v2, v3] \<Rightarrow> do {
          x1 \<leftarrow> optional str_of_json v1;
          x2 \<leftarrow> optional str_of_json v2;
          x3 \<leftarrow> defaulted 0 sword_of_json v3;
          Some \<lparr>worker_info_worker_id = x1, worker_info_worker_hostname = x2, worker_info_port = x3\<rparr>}
      | _ \<Rightarrow> None)"

lemma worker_info_names_distinct: "distinct worker_info_names"
  by code_simp

interpretation worker_info_codec: json_value worker_info_json worker_info_of_json "\<lambda>_. True"
proof (rule json_valueI)
  show "worker_info_of_json (worker_info_json x) = Some x" for x :: worker_info
    unfolding worker_info_of_json_def worker_info_json_def
    by (subst entries_of_obj [OF worker_info_names_distinct]) (simp_all add: worker_info_names_def)
  show "worker_info_json x \<noteq> JNull" for x
    by (simp add: worker_info_json_def)
qed

record worker_function_instance_stats =
  worker_function_instance_stats_name :: "string option"
  worker_function_instance_stats_metrics :: "json option"

definition worker_function_instance_stats_names :: "string list" where
  "worker_function_instance_stats_names = [''name'', ''metrics'']"

definition worker_function_instance_stats_json :: "worker_function_instance_stats \<Rightarrow> json" where
  "worker_function_instance_stats_json x = obj [
     (''name'', or_null str_json (worker_function_instance_stats_name x)),
     (''metrics'', if_some any_json (worker_function_instance_stats_metrics x))]"

definition worker_function_instance_stats_of_json :: "json \<Rightarrow> worker_function_instance_stats option" where
  "worker_function_instance_stats_of_json j =
     (case entries_named worker_function_instance_stats_names j of
        Some [v1, v2] \<Rightarrow> do {
          x1 \<leftarrow> optional str_of_json v1;
          x2 \<leftarrow> optional any_of_json v2;
          Some \<lparr>worker_function_instance_stats_name = x1, worker_function_instance_stats_metrics = x2\<rparr>}
      | _ \<Rightarrow> None)"

definition worker_function_instance_stats_good :: "worker_function_instance_stats \<Rightarrow> bool" where
  "worker_function_instance_stats_good x \<longleftrightarrow> pred_option (\<lambda>j. j \<noteq> JNull) (worker_function_instance_stats_metrics x)"

lemma worker_function_instance_stats_names_distinct: "distinct worker_function_instance_stats_names"
  by code_simp

interpretation worker_function_instance_stats_codec: json_value worker_function_instance_stats_json worker_function_instance_stats_of_json worker_function_instance_stats_good
proof (rule json_valueI)
  show "worker_function_instance_stats_of_json (worker_function_instance_stats_json x) = Some x" if "worker_function_instance_stats_good x" for x :: worker_function_instance_stats
    using that unfolding worker_function_instance_stats_of_json_def worker_function_instance_stats_json_def worker_function_instance_stats_good_def
    by (subst entries_of_obj [OF worker_function_instance_stats_names_distinct]) (simp_all add: worker_function_instance_stats_names_def)
  show "worker_function_instance_stats_json x \<noteq> JNull" for x
    by (simp add: worker_function_instance_stats_json_def)
qed

record resource_usage =
  resource_usage_usage :: "f64"
  resource_usage_limit :: "f64"

definition resource_usage_names :: "string list" where
  "resource_usage_names = [''usage'', ''limit'']"

definition resource_usage_json :: "resource_usage \<Rightarrow> json" where
  "resource_usage_json x = obj [
     (''usage'', Some (f64_json (resource_usage_usage x))),
     (''limit'', Some (f64_json (resource_usage_limit x)))]"

definition resource_usage_of_json :: "json \<Rightarrow> resource_usage option" where
  "resource_usage_of_json j =
     (case entries_named resource_usage_names j of
        Some [v1, v2] \<Rightarrow> do {
          x1 \<leftarrow> defaulted (F64 0) f64_of_json v1;
          x2 \<leftarrow> defaulted (F64 0) f64_of_json v2;
          Some \<lparr>resource_usage_usage = x1, resource_usage_limit = x2\<rparr>}
      | _ \<Rightarrow> None)"

definition resource_usage_default :: resource_usage where
  "resource_usage_default = \<lparr>resource_usage_usage = F64 0, resource_usage_limit = F64 0\<rparr>"

definition resource_usage_good :: "resource_usage \<Rightarrow> bool" where
  "resource_usage_good x \<longleftrightarrow> is_finite (resource_usage_usage x)
     \<and> is_finite (resource_usage_limit x)"

lemma resource_usage_names_distinct: "distinct resource_usage_names"
  by code_simp

interpretation resource_usage_codec: json_body resource_usage_json resource_usage_of_json resource_usage_good
proof (rule json_bodyI)
  show "resource_usage_of_json (resource_usage_json x) = Some x" if "resource_usage_good x" for x :: resource_usage
    using that unfolding resource_usage_of_json_def resource_usage_json_def resource_usage_good_def
    by (subst entries_of_obj [OF resource_usage_names_distinct]) (simp_all add: resource_usage_names_def)
  show "\<not> has_null (resource_usage_json x)" if "resource_usage_good x" for x :: resource_usage
    using that unfolding resource_usage_json_def resource_usage_good_def by simp
qed

record namespace_bundle_stats =
  namespace_bundle_stats_msg_rate_in :: "f64"
  namespace_bundle_stats_msg_throughput_in :: "f64"
  namespace_bundle_stats_msg_rate_out :: "f64"
  namespace_bundle_stats_msg_throughput_out :: "f64"
  namespace_bundle_stats_consumer_count :: "32 word"
  namespace_bundle_stats_producer_count :: "32 word"
  namespace_bundle_stats_topics :: "64 word"
  namespace_bundle_stats_cache_size :: "64 word"

definition namespace_bundle_stats_names :: "string list" where
  "namespace_bundle_stats_names = [''msgRateIn'', ''msgThroughputIn'', ''msgRateOut'', ''msgThroughputOut'',
     ''consumerCount'', ''producerCount'', ''topics'', ''cacheSize'']"

definition namespace_bundle_stats_json :: "namespace_bundle_stats \<Rightarrow> json" where
  "namespace_bundle_stats_json x = obj [
     (''msgRateIn'', Some (f64_json (namespace_bundle_stats_msg_rate_in x))),
     (''msgThroughputIn'', Some (f64_json (namespace_bundle_stats_msg_throughput_in x))),
     (''msgRateOut'', Some (f64_json (namespace_bundle_stats_msg_rate_out x))),
     (''msgThroughputOut'', Some (f64_json (namespace_bundle_stats_msg_throughput_out x))),
     (''consumerCount'', Some (sword_json (namespace_bundle_stats_consumer_count x))),
     (''producerCount'', Some (sword_json (namespace_bundle_stats_producer_count x))),
     (''topics'', Some (sword_json (namespace_bundle_stats_topics x))),
     (''cacheSize'', Some (sword_json (namespace_bundle_stats_cache_size x)))]"

definition namespace_bundle_stats_of_json :: "json \<Rightarrow> namespace_bundle_stats option" where
  "namespace_bundle_stats_of_json j =
     (case entries_named namespace_bundle_stats_names j of
        Some [v1, v2, v3, v4, v5, v6, v7, v8] \<Rightarrow> do {
          x1 \<leftarrow> defaulted (F64 0) f64_of_json v1;
          x2 \<leftarrow> defaulted (F64 0) f64_of_json v2;
          x3 \<leftarrow> defaulted (F64 0) f64_of_json v3;
          x4 \<leftarrow> defaulted (F64 0) f64_of_json v4;
          x5 \<leftarrow> defaulted 0 sword_of_json v5;
          x6 \<leftarrow> defaulted 0 sword_of_json v6;
          x7 \<leftarrow> defaulted 0 sword_of_json v7;
          x8 \<leftarrow> defaulted 0 sword_of_json v8;
          Some \<lparr>namespace_bundle_stats_msg_rate_in = x1, namespace_bundle_stats_msg_throughput_in = x2,
            namespace_bundle_stats_msg_rate_out = x3, namespace_bundle_stats_msg_throughput_out = x4,
            namespace_bundle_stats_consumer_count = x5, namespace_bundle_stats_producer_count = x6,
            namespace_bundle_stats_topics = x7, namespace_bundle_stats_cache_size = x8\<rparr>}
      | _ \<Rightarrow> None)"

definition namespace_bundle_stats_good :: "namespace_bundle_stats \<Rightarrow> bool" where
  "namespace_bundle_stats_good x \<longleftrightarrow> is_finite (namespace_bundle_stats_msg_rate_in x)
     \<and> is_finite (namespace_bundle_stats_msg_throughput_in x)
     \<and> is_finite (namespace_bundle_stats_msg_rate_out x)
     \<and> is_finite (namespace_bundle_stats_msg_throughput_out x)"

lemma namespace_bundle_stats_names_distinct: "distinct namespace_bundle_stats_names"
  by code_simp

interpretation namespace_bundle_stats_codec: json_body namespace_bundle_stats_json namespace_bundle_stats_of_json namespace_bundle_stats_good
proof (rule json_bodyI)
  show "namespace_bundle_stats_of_json (namespace_bundle_stats_json x) = Some x" if "namespace_bundle_stats_good x" for x :: namespace_bundle_stats
    using that unfolding namespace_bundle_stats_of_json_def namespace_bundle_stats_json_def namespace_bundle_stats_good_def
    by (subst entries_of_obj [OF namespace_bundle_stats_names_distinct]) (simp_all add: namespace_bundle_stats_names_def)
  show "\<not> has_null (namespace_bundle_stats_json x)" if "namespace_bundle_stats_good x" for x :: namespace_bundle_stats
    using that unfolding namespace_bundle_stats_json_def namespace_bundle_stats_good_def by simp
qed

interpretation namespace_bundle_stats_map_codec: json_body "map_json namespace_bundle_stats_json" "map_of_json namespace_bundle_stats_of_json" "entries_good namespace_bundle_stats_good"
  by (rule map_body [OF namespace_bundle_stats_codec.json_body_axioms])

record load_manager_report =
  load_manager_report_broker_id :: "string option"
  load_manager_report_web_service_url :: "string option"
  load_manager_report_web_service_url_tls :: "string option"
  load_manager_report_pulsar_service_url :: "string option"
  load_manager_report_pulsar_service_url_tls :: "string option"
  load_manager_report_broker_version_string :: "string option"
  load_manager_report_cpu :: "resource_usage"
  load_manager_report_memory :: "resource_usage"
  load_manager_report_direct_memory :: "resource_usage"
  load_manager_report_bandwidth_in :: "resource_usage"
  load_manager_report_bandwidth_out :: "resource_usage"
  load_manager_report_msg_throughput_in :: "f64"
  load_manager_report_msg_throughput_out :: "f64"
  load_manager_report_msg_rate_in :: "f64"
  load_manager_report_msg_rate_out :: "f64"
  load_manager_report_last_update :: "64 word"
  load_manager_report_num_topics :: "64 word"
  load_manager_report_num_bundles :: "32 word"
  load_manager_report_num_consumers :: "32 word"
  load_manager_report_num_producers :: "32 word"
  load_manager_report_bundle_stats :: "(string \<times> namespace_bundle_stats) list"
  load_manager_report_bundles :: "string list"

definition load_manager_report_names :: "string list" where
  "load_manager_report_names = [''brokerId'', ''webServiceUrl'', ''webServiceUrlTls'', ''pulsarServiceUrl'',
     ''pulsarServiceUrlTls'', ''brokerVersionString'', ''cpu'', ''memory'', ''directMemory'',
     ''bandwidthIn'', ''bandwidthOut'', ''msgThroughputIn'', ''msgThroughputOut'',
     ''msgRateIn'', ''msgRateOut'', ''lastUpdate'', ''numTopics'', ''numBundles'',
     ''numConsumers'', ''numProducers'', ''lastStats'', ''bundles'']"

definition load_manager_report_json :: "load_manager_report \<Rightarrow> json" where
  "load_manager_report_json x = obj [
     (''brokerId'', if_some str_json (load_manager_report_broker_id x)),
     (''webServiceUrl'', if_some str_json (load_manager_report_web_service_url x)),
     (''webServiceUrlTls'', if_some str_json (load_manager_report_web_service_url_tls x)),
     (''pulsarServiceUrl'', if_some str_json (load_manager_report_pulsar_service_url x)),
     (''pulsarServiceUrlTls'', if_some str_json (load_manager_report_pulsar_service_url_tls x)),
     (''brokerVersionString'', if_some str_json (load_manager_report_broker_version_string x)),
     (''cpu'', Some (resource_usage_json (load_manager_report_cpu x))),
     (''memory'', Some (resource_usage_json (load_manager_report_memory x))),
     (''directMemory'', Some (resource_usage_json (load_manager_report_direct_memory x))),
     (''bandwidthIn'', Some (resource_usage_json (load_manager_report_bandwidth_in x))),
     (''bandwidthOut'', Some (resource_usage_json (load_manager_report_bandwidth_out x))),
     (''msgThroughputIn'', Some (f64_json (load_manager_report_msg_throughput_in x))),
     (''msgThroughputOut'', Some (f64_json (load_manager_report_msg_throughput_out x))),
     (''msgRateIn'', Some (f64_json (load_manager_report_msg_rate_in x))),
     (''msgRateOut'', Some (f64_json (load_manager_report_msg_rate_out x))),
     (''lastUpdate'', Some (sword_json (load_manager_report_last_update x))),
     (''numTopics'', Some (sword_json (load_manager_report_num_topics x))),
     (''numBundles'', Some (sword_json (load_manager_report_num_bundles x))),
     (''numConsumers'', Some (sword_json (load_manager_report_num_consumers x))),
     (''numProducers'', Some (sword_json (load_manager_report_num_producers x))),
     (''lastStats'', Some (map_json namespace_bundle_stats_json (load_manager_report_bundle_stats x))),
     (''bundles'', Some (set_json str_json (load_manager_report_bundles x)))]"

definition load_manager_report_of_json :: "json \<Rightarrow> load_manager_report option" where
  "load_manager_report_of_json j =
     (case entries_named load_manager_report_names j of
        Some [v1, v2, v3, v4, v5, v6, v7, v8, v9, v10, v11, v12, v13, v14, v15, v16, v17, v18, v19, v20,
              v21, v22] \<Rightarrow> do {
          x1 \<leftarrow> optional str_of_json v1;
          x2 \<leftarrow> optional str_of_json v2;
          x3 \<leftarrow> optional str_of_json v3;
          x4 \<leftarrow> optional str_of_json v4;
          x5 \<leftarrow> optional str_of_json v5;
          x6 \<leftarrow> optional str_of_json v6;
          x7 \<leftarrow> defaulted resource_usage_default resource_usage_of_json v7;
          x8 \<leftarrow> defaulted resource_usage_default resource_usage_of_json v8;
          x9 \<leftarrow> defaulted resource_usage_default resource_usage_of_json v9;
          x10 \<leftarrow> defaulted resource_usage_default resource_usage_of_json v10;
          x11 \<leftarrow> defaulted resource_usage_default resource_usage_of_json v11;
          x12 \<leftarrow> defaulted (F64 0) f64_of_json v12;
          x13 \<leftarrow> defaulted (F64 0) f64_of_json v13;
          x14 \<leftarrow> defaulted (F64 0) f64_of_json v14;
          x15 \<leftarrow> defaulted (F64 0) f64_of_json v15;
          x16 \<leftarrow> defaulted 0 sword_of_json v16;
          x17 \<leftarrow> defaulted 0 sword_of_json v17;
          x18 \<leftarrow> defaulted 0 sword_of_json v18;
          x19 \<leftarrow> defaulted 0 sword_of_json v19;
          x20 \<leftarrow> defaulted 0 sword_of_json v20;
          x21 \<leftarrow> defaulted [] (map_of_json namespace_bundle_stats_of_json) v21;
          x22 \<leftarrow> defaulted [] (set_of_json str_of_json) v22;
          Some \<lparr>load_manager_report_broker_id = x1, load_manager_report_web_service_url = x2,
            load_manager_report_web_service_url_tls = x3, load_manager_report_pulsar_service_url = x4,
            load_manager_report_pulsar_service_url_tls = x5,
            load_manager_report_broker_version_string = x6, load_manager_report_cpu = x7,
            load_manager_report_memory = x8, load_manager_report_direct_memory = x9,
            load_manager_report_bandwidth_in = x10, load_manager_report_bandwidth_out = x11,
            load_manager_report_msg_throughput_in = x12, load_manager_report_msg_throughput_out = x13,
            load_manager_report_msg_rate_in = x14, load_manager_report_msg_rate_out = x15,
            load_manager_report_last_update = x16, load_manager_report_num_topics = x17,
            load_manager_report_num_bundles = x18, load_manager_report_num_consumers = x19,
            load_manager_report_num_producers = x20, load_manager_report_bundle_stats = x21,
            load_manager_report_bundles = x22\<rparr>}
      | _ \<Rightarrow> None)"

definition load_manager_report_good :: "load_manager_report \<Rightarrow> bool" where
  "load_manager_report_good x \<longleftrightarrow> resource_usage_good (load_manager_report_cpu x)
     \<and> resource_usage_good (load_manager_report_memory x)
     \<and> resource_usage_good (load_manager_report_direct_memory x)
     \<and> resource_usage_good (load_manager_report_bandwidth_in x)
     \<and> resource_usage_good (load_manager_report_bandwidth_out x)
     \<and> is_finite (load_manager_report_msg_throughput_in x)
     \<and> is_finite (load_manager_report_msg_throughput_out x)
     \<and> is_finite (load_manager_report_msg_rate_in x)
     \<and> is_finite (load_manager_report_msg_rate_out x)
     \<and> entries_good namespace_bundle_stats_good (load_manager_report_bundle_stats x)
     \<and> elements_good (\<lambda>_. True) (load_manager_report_bundles x)"

lemma load_manager_report_names_distinct: "distinct load_manager_report_names"
  by code_simp

interpretation load_manager_report_codec: json_body load_manager_report_json load_manager_report_of_json load_manager_report_good
proof (rule json_bodyI)
  show "load_manager_report_of_json (load_manager_report_json x) = Some x" if "load_manager_report_good x" for x :: load_manager_report
    using that unfolding load_manager_report_of_json_def load_manager_report_json_def load_manager_report_good_def
    by (subst entries_of_obj [OF load_manager_report_names_distinct]) (simp_all add: load_manager_report_names_def)
  show "\<not> has_null (load_manager_report_json x)" if "load_manager_report_good x" for x :: load_manager_report
    using that unfolding load_manager_report_json_def load_manager_report_good_def by simp
qed

record metrics =
  metrics_dimensions :: "(string \<times> string) list"
  metrics_metrics :: "(string \<times> json) list"

definition metrics_names :: "string list" where
  "metrics_names = [''dimensions'', ''metrics'']"

definition metrics_json :: "metrics \<Rightarrow> json" where
  "metrics_json x = obj [
     (''dimensions'', Some (map_json str_json (metrics_dimensions x))),
     (''metrics'', Some (map_json any_json (metrics_metrics x)))]"

definition metrics_of_json :: "json \<Rightarrow> metrics option" where
  "metrics_of_json j =
     (case entries_named metrics_names j of
        Some [v1, v2] \<Rightarrow> do {
          x1 \<leftarrow> defaulted [] (map_of_json str_of_json) v1;
          x2 \<leftarrow> defaulted [] (map_of_json any_of_json) v2;
          Some \<lparr>metrics_dimensions = x1, metrics_metrics = x2\<rparr>}
      | _ \<Rightarrow> None)"

definition metrics_good :: "metrics \<Rightarrow> bool" where
  "metrics_good x \<longleftrightarrow> entries_good (\<lambda>_. True) (metrics_dimensions x)
     \<and> entries_good (\<lambda>_. True) (metrics_metrics x)"

lemma metrics_names_distinct: "distinct metrics_names"
  by code_simp

interpretation metrics_codec: json_value metrics_json metrics_of_json metrics_good
proof (rule json_valueI)
  show "metrics_of_json (metrics_json x) = Some x" if "metrics_good x" for x :: metrics
    using that unfolding metrics_of_json_def metrics_json_def metrics_good_def
    by (subst entries_of_obj [OF metrics_names_distinct]) (simp_all add: metrics_names_def)
  show "metrics_json x \<noteq> JNull" for x
    by (simp add: metrics_json_def)
qed

datatype position_in_pending_ack_state = PendingAck | MarkDelete | NotInPendingAck | PendingAckNotReady | InvalidPosition

fun position_in_pending_ack_state_name :: "position_in_pending_ack_state \<Rightarrow> string" where
  "position_in_pending_ack_state_name PendingAck = ''PendingAck''"
| "position_in_pending_ack_state_name MarkDelete = ''MarkDelete''"
| "position_in_pending_ack_state_name NotInPendingAck = ''NotInPendingAck''"
| "position_in_pending_ack_state_name PendingAckNotReady = ''PendingAckNotReady''"
| "position_in_pending_ack_state_name InvalidPosition = ''InvalidPosition''"

definition position_in_pending_ack_state_json :: "position_in_pending_ack_state \<Rightarrow> json" where
  "position_in_pending_ack_state_json v = JStr (position_in_pending_ack_state_name v)"

definition position_in_pending_ack_state_of_json :: "json \<Rightarrow> position_in_pending_ack_state option" where
  "position_in_pending_ack_state_of_json =
     unit_variant (map_of [
       (''PendingAck'', PendingAck),
       (''MarkDelete'', MarkDelete),
       (''NotInPendingAck'', NotInPendingAck),
       (''PendingAckNotReady'', PendingAckNotReady),
       (''InvalidPosition'', InvalidPosition)])"

definition position_in_pending_ack_state_default :: position_in_pending_ack_state where
  "position_in_pending_ack_state_default = PendingAckNotReady"

interpretation position_in_pending_ack_state_codec: json_body position_in_pending_ack_state_json position_in_pending_ack_state_of_json "\<lambda>_. True"
proof
  show "position_in_pending_ack_state_of_json (position_in_pending_ack_state_json x) = Some x" for x
    by (cases x) (simp_all add: position_in_pending_ack_state_of_json_def position_in_pending_ack_state_json_def)
qed (simp_all add: position_in_pending_ack_state_json_def)

record position_in_pending_ack_stats =
  position_in_pending_ack_stats_state :: "position_in_pending_ack_state"
  position_in_pending_ack_stats_batch_index :: "32 word option"

definition position_in_pending_ack_stats_names :: "string list" where
  "position_in_pending_ack_stats_names = [''state'', ''batchIndex'']"

definition position_in_pending_ack_stats_json :: "position_in_pending_ack_stats \<Rightarrow> json" where
  "position_in_pending_ack_stats_json x = obj [
     (''state'', Some (position_in_pending_ack_state_json (position_in_pending_ack_stats_state x))),
     (''batchIndex'', if_some sword_json (position_in_pending_ack_stats_batch_index x))]"

definition position_in_pending_ack_stats_of_json :: "json \<Rightarrow> position_in_pending_ack_stats option" where
  "position_in_pending_ack_stats_of_json j =
     (case entries_named position_in_pending_ack_stats_names j of
        Some [v1, v2] \<Rightarrow> do {
          x1 \<leftarrow> defaulted position_in_pending_ack_state_default position_in_pending_ack_state_of_json v1;
          x2 \<leftarrow> optional sword_of_json v2;
          Some \<lparr>position_in_pending_ack_stats_state = x1, position_in_pending_ack_stats_batch_index = x2\<rparr>}
      | _ \<Rightarrow> None)"

lemma position_in_pending_ack_stats_names_distinct: "distinct position_in_pending_ack_stats_names"
  by code_simp

interpretation position_in_pending_ack_stats_codec: json_body position_in_pending_ack_stats_json position_in_pending_ack_stats_of_json "\<lambda>_. True"
proof (rule json_bodyI)
  show "position_in_pending_ack_stats_of_json (position_in_pending_ack_stats_json x) = Some x" for x :: position_in_pending_ack_stats
    unfolding position_in_pending_ack_stats_of_json_def position_in_pending_ack_stats_json_def
    by (subst entries_of_obj [OF position_in_pending_ack_stats_names_distinct]) (simp_all add: position_in_pending_ack_stats_names_def)
  show "\<not> has_null (position_in_pending_ack_stats_json x)" for x :: position_in_pending_ack_stats
    unfolding position_in_pending_ack_stats_json_def by simp
qed

datatype migration_phase = NotStarted | Preparation | Copying | Completed_phase | Failed_phase

fun migration_phase_name :: "migration_phase \<Rightarrow> string" where
  "migration_phase_name NotStarted = ''NOT_STARTED''"
| "migration_phase_name Preparation = ''PREPARATION''"
| "migration_phase_name Copying = ''COPYING''"
| "migration_phase_name Completed_phase = ''COMPLETED''"
| "migration_phase_name Failed_phase = ''FAILED''"

definition migration_phase_json :: "migration_phase \<Rightarrow> json" where
  "migration_phase_json v = JStr (migration_phase_name v)"

definition migration_phase_of_json :: "json \<Rightarrow> migration_phase option" where
  "migration_phase_of_json =
     unit_variant (map_of [
       (''NOT_STARTED'', NotStarted),
       (''PREPARATION'', Preparation),
       (''COPYING'', Copying),
       (''COMPLETED'', Completed_phase),
       (''FAILED'', Failed_phase)])"

definition migration_phase_default :: migration_phase where
  "migration_phase_default = NotStarted"

interpretation migration_phase_codec: json_body migration_phase_json migration_phase_of_json "\<lambda>_. True"
proof
  show "migration_phase_of_json (migration_phase_json x) = Some x" for x
    by (cases x) (simp_all add: migration_phase_of_json_def migration_phase_json_def)
qed (simp_all add: migration_phase_json_def)

record migration_state =
  migration_state_phase :: "migration_phase"
  migration_state_target_url :: "string option"

definition migration_state_names :: "string list" where
  "migration_state_names = [''phase'', ''targetUrl'']"

definition migration_state_json :: "migration_state \<Rightarrow> json" where
  "migration_state_json x = obj [
     (''phase'', Some (migration_phase_json (migration_state_phase x))),
     (''targetUrl'', if_some str_json (migration_state_target_url x))]"

definition migration_state_of_json :: "json \<Rightarrow> migration_state option" where
  "migration_state_of_json j =
     (case entries_named migration_state_names j of
        Some [v1, v2] \<Rightarrow> do {
          x1 \<leftarrow> defaulted migration_phase_default migration_phase_of_json v1;
          x2 \<leftarrow> optional str_of_json v2;
          Some \<lparr>migration_state_phase = x1, migration_state_target_url = x2\<rparr>}
      | _ \<Rightarrow> None)"

lemma migration_state_names_distinct: "distinct migration_state_names"
  by code_simp

interpretation migration_state_codec: json_body migration_state_json migration_state_of_json "\<lambda>_. True"
proof (rule json_bodyI)
  show "migration_state_of_json (migration_state_json x) = Some x" for x :: migration_state
    unfolding migration_state_of_json_def migration_state_json_def
    by (subst entries_of_obj [OF migration_state_names_distinct]) (simp_all add: migration_state_names_def)
  show "\<not> has_null (migration_state_json x)" for x :: migration_state
    unfolding migration_state_json_def by simp
qed

record proxy_connection_stats =
  proxy_connection_stats_request_rate :: "f64"
  proxy_connection_stats_byte_rate :: "f64"
  proxy_connection_stats_client_address :: "string option"
  proxy_connection_stats_broker_address :: "string option"

definition proxy_connection_stats_names :: "string list" where
  "proxy_connection_stats_names = [''requestRate'', ''byteRate'', ''clientAddress'', ''brokerAddress'']"

definition proxy_connection_stats_json :: "proxy_connection_stats \<Rightarrow> json" where
  "proxy_connection_stats_json x = obj [
     (''requestRate'', Some (f64_json (proxy_connection_stats_request_rate x))),
     (''byteRate'', Some (f64_json (proxy_connection_stats_byte_rate x))),
     (''clientAddress'', if_some str_json (proxy_connection_stats_client_address x)),
     (''brokerAddress'', if_some str_json (proxy_connection_stats_broker_address x))]"

definition proxy_connection_stats_of_json :: "json \<Rightarrow> proxy_connection_stats option" where
  "proxy_connection_stats_of_json j =
     (case entries_named proxy_connection_stats_names j of
        Some [v1, v2, v3, v4] \<Rightarrow> do {
          x1 \<leftarrow> defaulted (F64 0) f64_of_json v1;
          x2 \<leftarrow> defaulted (F64 0) f64_of_json v2;
          x3 \<leftarrow> optional str_of_json v3;
          x4 \<leftarrow> optional str_of_json v4;
          Some \<lparr>proxy_connection_stats_request_rate = x1, proxy_connection_stats_byte_rate = x2,
            proxy_connection_stats_client_address = x3, proxy_connection_stats_broker_address = x4\<rparr>}
      | _ \<Rightarrow> None)"

definition proxy_connection_stats_good :: "proxy_connection_stats \<Rightarrow> bool" where
  "proxy_connection_stats_good x \<longleftrightarrow> is_finite (proxy_connection_stats_request_rate x)
     \<and> is_finite (proxy_connection_stats_byte_rate x)"

lemma proxy_connection_stats_names_distinct: "distinct proxy_connection_stats_names"
  by code_simp

interpretation proxy_connection_stats_codec: json_body proxy_connection_stats_json proxy_connection_stats_of_json proxy_connection_stats_good
proof (rule json_bodyI)
  show "proxy_connection_stats_of_json (proxy_connection_stats_json x) = Some x" if "proxy_connection_stats_good x" for x :: proxy_connection_stats
    using that unfolding proxy_connection_stats_of_json_def proxy_connection_stats_json_def proxy_connection_stats_good_def
    by (subst entries_of_obj [OF proxy_connection_stats_names_distinct]) (simp_all add: proxy_connection_stats_names_def)
  show "\<not> has_null (proxy_connection_stats_json x)" if "proxy_connection_stats_good x" for x :: proxy_connection_stats
    using that unfolding proxy_connection_stats_json_def proxy_connection_stats_good_def by simp
qed

record proxy_topic_stats =
  proxy_topic_stats_msg_rate_in :: "f64"
  proxy_topic_stats_msg_byte_in :: "f64"
  proxy_topic_stats_msg_rate_out :: "f64"
  proxy_topic_stats_msg_byte_out :: "f64"

definition proxy_topic_stats_names :: "string list" where
  "proxy_topic_stats_names = [''msgRateIn'', ''msgByteIn'', ''msgRateOut'', ''msgByteOut'']"

definition proxy_topic_stats_json :: "proxy_topic_stats \<Rightarrow> json" where
  "proxy_topic_stats_json x = obj [
     (''msgRateIn'', Some (f64_json (proxy_topic_stats_msg_rate_in x))),
     (''msgByteIn'', Some (f64_json (proxy_topic_stats_msg_byte_in x))),
     (''msgRateOut'', Some (f64_json (proxy_topic_stats_msg_rate_out x))),
     (''msgByteOut'', Some (f64_json (proxy_topic_stats_msg_byte_out x)))]"

definition proxy_topic_stats_of_json :: "json \<Rightarrow> proxy_topic_stats option" where
  "proxy_topic_stats_of_json j =
     (case entries_named proxy_topic_stats_names j of
        Some [v1, v2, v3, v4] \<Rightarrow> do {
          x1 \<leftarrow> defaulted (F64 0) f64_of_json v1;
          x2 \<leftarrow> defaulted (F64 0) f64_of_json v2;
          x3 \<leftarrow> defaulted (F64 0) f64_of_json v3;
          x4 \<leftarrow> defaulted (F64 0) f64_of_json v4;
          Some \<lparr>proxy_topic_stats_msg_rate_in = x1, proxy_topic_stats_msg_byte_in = x2,
            proxy_topic_stats_msg_rate_out = x3, proxy_topic_stats_msg_byte_out = x4\<rparr>}
      | _ \<Rightarrow> None)"

definition proxy_topic_stats_good :: "proxy_topic_stats \<Rightarrow> bool" where
  "proxy_topic_stats_good x \<longleftrightarrow> is_finite (proxy_topic_stats_msg_rate_in x)
     \<and> is_finite (proxy_topic_stats_msg_byte_in x)
     \<and> is_finite (proxy_topic_stats_msg_rate_out x)
     \<and> is_finite (proxy_topic_stats_msg_byte_out x)"

lemma proxy_topic_stats_names_distinct: "distinct proxy_topic_stats_names"
  by code_simp

interpretation proxy_topic_stats_codec: json_body proxy_topic_stats_json proxy_topic_stats_of_json proxy_topic_stats_good
proof (rule json_bodyI)
  show "proxy_topic_stats_of_json (proxy_topic_stats_json x) = Some x" if "proxy_topic_stats_good x" for x :: proxy_topic_stats
    using that unfolding proxy_topic_stats_of_json_def proxy_topic_stats_json_def proxy_topic_stats_good_def
    by (subst entries_of_obj [OF proxy_topic_stats_names_distinct]) (simp_all add: proxy_topic_stats_names_def)
  show "\<not> has_null (proxy_topic_stats_json x)" if "proxy_topic_stats_good x" for x :: proxy_topic_stats
    using that unfolding proxy_topic_stats_json_def proxy_topic_stats_good_def by simp
qed

record topic_hash_positions =
  topic_hash_positions_namespace :: "string option"
  topic_hash_positions_bundle :: "string option"
  topic_hash_positions_topic_hash_positions :: "(string \<times> 64 word) list"

definition topic_hash_positions_names :: "string list" where
  "topic_hash_positions_names = [''namespace'', ''bundle'', ''topicHashPositions'']"

definition topic_hash_positions_json :: "topic_hash_positions \<Rightarrow> json" where
  "topic_hash_positions_json x = obj [
     (''namespace'', if_some str_json (topic_hash_positions_namespace x)),
     (''bundle'', if_some str_json (topic_hash_positions_bundle x)),
     (''topicHashPositions'', Some (map_json sword_json (topic_hash_positions_topic_hash_positions x)))]"

definition topic_hash_positions_of_json :: "json \<Rightarrow> topic_hash_positions option" where
  "topic_hash_positions_of_json j =
     (case entries_named topic_hash_positions_names j of
        Some [v1, v2, v3] \<Rightarrow> do {
          x1 \<leftarrow> optional str_of_json v1;
          x2 \<leftarrow> optional str_of_json v2;
          x3 \<leftarrow> defaulted [] (map_of_json sword_of_json) v3;
          Some \<lparr>topic_hash_positions_namespace = x1, topic_hash_positions_bundle = x2,
            topic_hash_positions_topic_hash_positions = x3\<rparr>}
      | _ \<Rightarrow> None)"

definition topic_hash_positions_good :: "topic_hash_positions \<Rightarrow> bool" where
  "topic_hash_positions_good x \<longleftrightarrow> entries_good (\<lambda>_. True) (topic_hash_positions_topic_hash_positions x)"

lemma topic_hash_positions_names_distinct: "distinct topic_hash_positions_names"
  by code_simp

interpretation topic_hash_positions_codec: json_body topic_hash_positions_json topic_hash_positions_of_json topic_hash_positions_good
proof (rule json_bodyI)
  show "topic_hash_positions_of_json (topic_hash_positions_json x) = Some x" if "topic_hash_positions_good x" for x :: topic_hash_positions
    using that unfolding topic_hash_positions_of_json_def topic_hash_positions_json_def topic_hash_positions_good_def
    by (subst entries_of_obj [OF topic_hash_positions_names_distinct]) (simp_all add: topic_hash_positions_names_def)
  show "\<not> has_null (topic_hash_positions_json x)" if "topic_hash_positions_good x" for x :: topic_hash_positions
    using that unfolding topic_hash_positions_json_def topic_hash_positions_good_def by simp
qed

record grant_topic_permission_options =
  grant_topic_permission_options_topic :: "string"
  grant_topic_permission_options_role :: "string"
  grant_topic_permission_options_actions :: "string list"

definition grant_topic_permission_options_names :: "string list" where
  "grant_topic_permission_options_names = [''topic'', ''role'', ''actions'']"

definition grant_topic_permission_options_json :: "grant_topic_permission_options \<Rightarrow> json" where
  "grant_topic_permission_options_json x = obj [
     (''topic'', Some (str_json (grant_topic_permission_options_topic x))),
     (''role'', Some (str_json (grant_topic_permission_options_role x))),
     (''actions'', Some (set_json str_json (grant_topic_permission_options_actions x)))]"

definition grant_topic_permission_options_of_json :: "json \<Rightarrow> grant_topic_permission_options option" where
  "grant_topic_permission_options_of_json j =
     (case entries_named grant_topic_permission_options_names j of
        Some [v1, v2, v3] \<Rightarrow> do {
          x1 \<leftarrow> needed str_of_json v1;
          x2 \<leftarrow> needed str_of_json v2;
          x3 \<leftarrow> defaulted [] (set_of_json str_of_json) v3;
          Some \<lparr>grant_topic_permission_options_topic = x1, grant_topic_permission_options_role = x2,
            grant_topic_permission_options_actions = x3\<rparr>}
      | _ \<Rightarrow> None)"

definition grant_topic_permission_options_default :: grant_topic_permission_options where
  "grant_topic_permission_options_default = \<lparr>grant_topic_permission_options_topic = '''', grant_topic_permission_options_role = '''',
            grant_topic_permission_options_actions = []\<rparr>"

definition grant_topic_permission_options_good :: "grant_topic_permission_options \<Rightarrow> bool" where
  "grant_topic_permission_options_good x \<longleftrightarrow> elements_good (\<lambda>_. True) (grant_topic_permission_options_actions x)"

lemma grant_topic_permission_options_names_distinct: "distinct grant_topic_permission_options_names"
  by code_simp

interpretation grant_topic_permission_options_codec: json_body grant_topic_permission_options_json grant_topic_permission_options_of_json grant_topic_permission_options_good
proof (rule json_bodyI)
  show "grant_topic_permission_options_of_json (grant_topic_permission_options_json x) = Some x" if "grant_topic_permission_options_good x" for x :: grant_topic_permission_options
    using that unfolding grant_topic_permission_options_of_json_def grant_topic_permission_options_json_def grant_topic_permission_options_good_def
    by (subst entries_of_obj [OF grant_topic_permission_options_names_distinct]) (simp_all add: grant_topic_permission_options_names_def)
  show "\<not> has_null (grant_topic_permission_options_json x)" if "grant_topic_permission_options_good x" for x :: grant_topic_permission_options
    using that unfolding grant_topic_permission_options_json_def grant_topic_permission_options_good_def by simp
qed

record revoke_topic_permission_options =
  revoke_topic_permission_options_topic :: "string"
  revoke_topic_permission_options_role :: "string"

definition revoke_topic_permission_options_names :: "string list" where
  "revoke_topic_permission_options_names = [''topic'', ''role'']"

definition revoke_topic_permission_options_json :: "revoke_topic_permission_options \<Rightarrow> json" where
  "revoke_topic_permission_options_json x = obj [
     (''topic'', Some (str_json (revoke_topic_permission_options_topic x))),
     (''role'', Some (str_json (revoke_topic_permission_options_role x)))]"

definition revoke_topic_permission_options_of_json :: "json \<Rightarrow> revoke_topic_permission_options option" where
  "revoke_topic_permission_options_of_json j =
     (case entries_named revoke_topic_permission_options_names j of
        Some [v1, v2] \<Rightarrow> do {
          x1 \<leftarrow> needed str_of_json v1;
          x2 \<leftarrow> needed str_of_json v2;
          Some \<lparr>revoke_topic_permission_options_topic = x1, revoke_topic_permission_options_role = x2\<rparr>}
      | _ \<Rightarrow> None)"

lemma revoke_topic_permission_options_names_distinct: "distinct revoke_topic_permission_options_names"
  by code_simp

interpretation revoke_topic_permission_options_codec: json_body revoke_topic_permission_options_json revoke_topic_permission_options_of_json "\<lambda>_. True"
proof (rule json_bodyI)
  show "revoke_topic_permission_options_of_json (revoke_topic_permission_options_json x) = Some x" for x :: revoke_topic_permission_options
    unfolding revoke_topic_permission_options_of_json_def revoke_topic_permission_options_json_def
    by (subst entries_of_obj [OF revoke_topic_permission_options_names_distinct]) (simp_all add: revoke_topic_permission_options_names_def)
  show "\<not> has_null (revoke_topic_permission_options_json x)" for x :: revoke_topic_permission_options
    unfolding revoke_topic_permission_options_json_def by simp
qed

section \<open>The state of a function\<close>

lemma function_state_names_distinct: "distinct function_state_names"
  by code_simp

text \<open>Bytes kept by a function travel as Base64 text and come back as they were.\<close>

theorem function_state_is_read_back:
  assumes "b64_inverse b64e b64d"
  shows "function_state_of_json b64d (function_state_json b64e x) = Some x"
  unfolding function_state_of_json_def function_state_json_def
  by (subst entries_of_obj [OF function_state_names_distinct])
    (simp_all add: function_state_names_def base64_back [OF assms])

text \<open>What such a function leaves unset is written as null, unlike in the other request bodies.\<close>

lemma unset_function_state_is_null:
  "function_state_json b64e function_state_default = JObj [(''key'', JNull), (''stringValue'', JNull),
     (''byteValue'', JNull), (''numberValue'', JNull), (''version'', JNull)]"
  by (simp add: function_state_json_def function_state_default_def or_null_def base64_json_def obj_def
      map_filter_simps)

end
