(* ===== verification/Auth.thy ===== *)
theory Auth
  imports Admin Connection
begin

text \<open>
  The authentication providers: the plain ones (\<open>authentication/token.rs\<close>, \<open>authentication/basic.rs\<close>,
  \<open>Authentication\<close> in \<open>connection.rs\<close>) and the client credentials flow of OAuth2 with its cached token
  (\<open>authentication/oauth2.rs\<close>). A call of a provider takes what the call found outside (the clock,
  the answers of the identity provider) and returns its result and the new state; \<open>None\<close> is a
  panic. The interface \<open>auth_provider\<close> says what a connection may rely on.
\<close>

section \<open>Plain providers\<close>

definition token_new :: "string \<Rightarrow> byte list" where
  "token_new token = as_bytes token"

definition basic_new :: "string \<Rightarrow> string \<Rightarrow> byte list" where
  "basic_new username password = as_bytes (username @ CHR '':'' # password)"

definition static_auth_data :: "'e \<Rightarrow> byte list \<Rightarrow>
    ((authentication_error, byte list) result \<times> byte list) option" where
  "static_auth_data e data = Some (Inr data, data)"

section \<open>OAuth2\<close>

record oauth_params =
  op_issuer_url :: string
  op_credentials_url :: string
  op_audience :: "string option"
  op_scope :: "string option"

record private_params =
  pp_client_id :: string
  pp_client_secret :: string
  pp_issuer_url :: "string option"

record token_response =
  tr_secret :: "byte list"
  tr_expires_in :: "duration option"

text \<open>An instant is a natural number: nanoseconds of the monotonic clock.\<close>

record cached_token =
  ct_secret :: "byte list"
  ct_expiring_at :: "nat option"
  ct_expired_at :: "nat option"

record oauth =
  oa_params :: oauth_params
  oa_private :: "private_params option"
  oa_token_url :: "string option"
  oa_token :: "cached_token option"

text \<open>The exchange: what is asked of the token endpoint, and how the request may fail.\<close>

record token_request =
  tq_token_url :: string
  tq_auth_url :: string
  tq_client_id :: string
  tq_client_secret :: string
  tq_audience :: "string option"
  tq_scope :: "string option"

datatype token_error = Server_response string | Transport string

text \<open>
  What a call finds outside: the URL parser (scheme and path), the contents of a file, the body of a
  data URL, the JSON reader, the metadata of the issuer, the token endpoint, the clock as it is read
  for the two tests and after the exchange, the last instant the clock can represent, and nine
  tenths of a duration in single precision.
\<close>

record oauth_env =
  oe_parse_url :: "string \<Rightarrow> (string, string \<times> string) result"
  oe_read_file :: "string \<Rightarrow> (string, byte list) result"
  oe_data_url :: "string \<Rightarrow> (string, byte list) result"
  oe_parse_private :: "byte list \<Rightarrow> (string, private_params) result"
  oe_discover :: "string \<Rightarrow> (string, string option) result"
  oe_request :: "token_request \<Rightarrow> (token_error, token_response) result"
  oe_now :: nat
  oe_now_expiring :: nat
  oe_now_granted :: nat
  oe_last_instant :: nat
  oe_nine_tenths :: "duration \<Rightarrow> duration"

definition client_credentials :: "oauth_params \<Rightarrow> oauth" where
  "client_credentials params =
     \<lparr>oa_params = params, oa_private = None, oa_token_url = None, oa_token = None\<rparr>"

definition instant_add :: "oauth_env \<Rightarrow> nat \<Rightarrow> duration \<Rightarrow> nat option" where
  "instant_add env t d = (if t + d \<le> oe_last_instant env then Some (t + d) else None)"

definition cached_token_from :: "oauth_env \<Rightarrow> token_response \<Rightarrow> cached_token option" where
  "cached_token_from env resp =
     (let now = oe_now_granted env
      in case tr_expires_in resp of
           None \<Rightarrow> Some \<lparr>ct_secret = tr_secret resp, ct_expiring_at = None, ct_expired_at = None\<rparr>
         | Some d \<Rightarrow>
             (case (instant_add env now (oe_nine_tenths env d), instant_add env now d) of
                (Some a, Some b) \<Rightarrow>
                  Some \<lparr>ct_secret = tr_secret resp, ct_expiring_at = Some a, ct_expired_at = Some b\<rparr>
              | _ \<Rightarrow> None))"

definition is_expiring :: "nat \<Rightarrow> cached_token \<Rightarrow> bool" where
  "is_expiring now tok = (case ct_expiring_at tok of Some t \<Rightarrow> t \<le> now | None \<Rightarrow> False)"

definition is_expired :: "nat \<Rightarrow> cached_token \<Rightarrow> bool" where
  "is_expired now tok = (case ct_expired_at tok of Some t \<Rightarrow> t \<le> now | None \<Rightarrow> False)"

definition credentials_hint :: "oauth_env \<Rightarrow> oauth_params \<Rightarrow> string" where
  "credentials_hint env params =
     (case oe_parse_url env (op_credentials_url params) of
        Inr (scheme, path) \<Rightarrow>
          (if scheme = ''file'' then ''file:'' @ path else scheme @ '':<redacted>'')
      | Inl _ \<Rightarrow> ''<invalid credentials_url>'')"

definition read_private_params :: "oauth_env \<Rightarrow> oauth_params \<Rightarrow> (string, private_params) result" where
  "read_private_params env params =
     rbind (oe_parse_url env (op_credentials_url params)) (\<lambda>(scheme, path).
       if scheme = ''file'' then rbind (oe_read_file env path) (oe_parse_private env)
       else if scheme = ''data'' then
         rbind (map_err (\<lambda>e. ''invalid data url ['' @ op_credentials_url params @ '']: '' @ e)
                  (oe_data_url env (op_credentials_url params)))
           (oe_parse_private env)
       else Inl (''invalid credential url ['' @ op_credentials_url params @ '']''))"

text \<open>The token endpoint of the issuer, looked up once.\<close>

definition find_token_url :: "oauth_env \<Rightarrow> oauth \<Rightarrow> (string, string) result \<times> oauth" where
  "find_token_url env s =
     (case oa_token_url s of
        Some url \<Rightarrow> (Inr url, s)
      | None \<Rightarrow>
          (case rbind (oe_parse_url env (op_issuer_url (oa_params s)))
                  (\<lambda>_. oe_discover env (op_issuer_url (oa_params s))) of
             Inl e \<Rightarrow> (Inl e, s)
           | Inr (Some endpoint) \<Rightarrow> (Inr endpoint, s\<lparr>oa_token_url := Some endpoint\<rparr>)
           | Inr None \<Rightarrow> (Inl ''token url not exists'', s)))"

definition oauth_initialize :: "oauth_env \<Rightarrow> oauth \<Rightarrow> (authentication_error, unit) result \<times> oauth" where
  "oauth_initialize env s =
     (case read_private_params env (oa_params s) of
        Inl e \<Rightarrow>
          (Inl (Custom_auth (''failed to read OAuth2 credentials from '' @ credentials_hint env (oa_params s)
             @ '': '' @ e)), s)
      | Inr p \<Rightarrow>
          (case find_token_url env (s\<lparr>oa_private := Some p\<rparr>) of
             (Inl e, s') \<Rightarrow>
               (Inl (Custom_auth (''failed to discover OAuth2 token endpoint for issuer [''
                  @ op_issuer_url (oa_params s) @ '']: '' @ e)), s')
           | (Inr _, s') \<Rightarrow> (Inr (), s')))"

text \<open>How an optional string is printed by \<open>{:?}\<close>.\<close>

definition debug_option :: "string option \<Rightarrow> string" where
  "debug_option x = (case x of None \<Rightarrow> ''None'' | Some s \<Rightarrow> ''Some('' @ debug_str s @ '')'')"

definition for_issuer :: "oauth_params \<Rightarrow> string" where
  "for_issuer params =
     ''for issuer ['' @ op_issuer_url params @ ''] (audience='' @ debug_option (op_audience params)
       @ '', scope='' @ debug_option (op_scope params) @ ''): ''"

text \<open>A failure of the exchange is an authentication error or any other error, as its text.\<close>

datatype fetch_error = Auth_failure authentication_error | Other_failure string

text \<open>The token fetched, the state, and the request that was sent.\<close>

definition fetch_token :: "oauth_env \<Rightarrow> private_params \<Rightarrow> oauth \<Rightarrow>
    (fetch_error, token_response) result \<times> oauth \<times> token_request option" where
  "fetch_token env p s =
     (let params = oa_params s
      in case find_token_url env s of
           (Inl e, s') \<Rightarrow>
             (Inl (Auth_failure (Retriable (''failed to discover OAuth2 token endpoint for issuer [''
                @ op_issuer_url params @ '']: '' @ e))), s', None)
         | (Inr token_url, s') \<Rightarrow>
             (let issuer = (case pp_issuer_url p of Some url \<Rightarrow> url | None \<Rightarrow> op_issuer_url params)
              in case oe_parse_url env issuer of
                   Inl e \<Rightarrow> (Inl (Other_failure e), s', None)
                 | Inr _ \<Rightarrow>
                     (let req = \<lparr>tq_token_url = token_url, tq_auth_url = issuer,
                                 tq_client_id = pp_client_id p, tq_client_secret = pp_client_secret p,
                                 tq_audience = op_audience params, tq_scope = op_scope params\<rparr>;
                          text1 = (\<lambda>e. ''token endpoint request failed '' @ for_issuer params @ e)
                      in (map_err (\<lambda>e. Auth_failure (case e of
                              Server_response t \<Rightarrow> Custom_auth (text1 t)
                            | Transport t \<Rightarrow> Retriable (text1 t))) (oe_request env req), s', Some req))))"

definition fetch_failed :: "oauth_params \<Rightarrow> fetch_error \<Rightarrow> authentication_error" where
  "fetch_failed params e =
     (case e of
        Auth_failure a \<Rightarrow> a
      | Other_failure t \<Rightarrow>
          Custom_auth (''failed to fetch OAuth2 access token '' @ for_issuer params @ t))"

text \<open>The secret handed out is read off the cached token; without one the code panics.\<close>

definition cached_secret :: "oauth \<Rightarrow> (authentication_error, byte list) result option" where
  "cached_secret s = map_option (\<lambda>tok. Inr (ct_secret tok)) (oa_token s)"

definition oauth_auth_data :: "oauth_env \<Rightarrow> oauth \<Rightarrow>
    (((authentication_error, byte list) result \<times> token_request option) \<times> oauth) option" where
  "oauth_auth_data env s =
     (case oa_private s of
        None \<Rightarrow> Some ((Inl (Custom_auth ''not initialized''), None), s)
      | Some p \<Rightarrow>
          (let none_or_expired = (case oa_token s of Some tok \<Rightarrow> is_expired (oe_now env) tok | None \<Rightarrow> True);
               need_token = (case oa_token s of
                   Some tok \<Rightarrow> none_or_expired \<or> is_expiring (oe_now_expiring env) tok
                 | None \<Rightarrow> True)
           in if need_token then
                (case fetch_token env p s of
                   (Inr resp, s1, req) \<Rightarrow>
                     (case cached_token_from env resp of
                        None \<Rightarrow> None
                      | Some tok \<Rightarrow>
                          (let s2 = s1\<lparr>oa_token := Some tok\<rparr>
                           in map_option (\<lambda>r. ((r, req), s2)) (cached_secret s2)))
                 | (Inl e, s1, req) \<Rightarrow>
                     (if none_or_expired then
                        Some ((Inl (fetch_failed (oa_params s) e), req), s1\<lparr>oa_token := None\<rparr>)
                      else map_option (\<lambda>r. ((r, req), s1)) (cached_secret s1)))
              else map_option (\<lambda>r. ((r, None), s)) (cached_secret s)))"

section \<open>What a connection may rely on\<close>

text \<open>The results of a series of calls, up to a panic.\<close>

fun provider_run :: "('e \<Rightarrow> 's \<Rightarrow> ('r \<times> 's) option) \<Rightarrow> 's \<Rightarrow> 'e list \<Rightarrow> 'r list" where
  "provider_run give s [] = []"
| "provider_run give s (e # es) =
     (case give e s of None \<Rightarrow> [] | Some (r, s') \<Rightarrow> r # provider_run give s' es)"

text \<open>
  A provider keeps an invariant that relates its state to what was observed of its calls, and under the
  invariant its results are good. \<open>may\<close> is what calls must respect, such as a clock that does not
  run backwards.
\<close>

locale auth_provider =
  fixes give :: "'e \<Rightarrow> 's \<Rightarrow> ('r \<times> 's) option"
    and may :: "'h \<Rightarrow> 'e \<Rightarrow> bool"
    and observe :: "'e \<times> 'r \<Rightarrow> 'h \<Rightarrow> 'h"
    and ok :: "'h \<Rightarrow> 's \<Rightarrow> bool"
    and good :: "'h \<Rightarrow> 'e \<Rightarrow> 'r \<Rightarrow> bool"
  assumes step_good: "ok h s \<Longrightarrow> may h e \<Longrightarrow> give e s = Some (r, s') \<Longrightarrow> good h e r"
    and step_ok: "ok h s \<Longrightarrow> may h e \<Longrightarrow> give e s = Some (r, s') \<Longrightarrow> ok (observe (e, r) h) s'"
begin

lemma run_good:
  assumes "ok h s" and "k < length (provider_run give s es)"
    and "\<And>j. j \<le> k \<Longrightarrow> may (fold observe (take j (zip es (provider_run give s es))) h) (es ! j)"
  shows "good (fold observe (take k (zip es (provider_run give s es))) h) (es ! k) (provider_run give s es ! k)"
  using assms
proof (induction es arbitrary: h s k)
  case (Cons e es)
  from Cons.prems(2) obtain r s' where give: "give e s = Some (r, s')"
    by (cases "give e s") auto
  have may: "may h e" using Cons.prems(3) [of 0] by simp
  show ?case
  proof (cases k)
    case 0
    with give step_good [OF Cons.prems(1) may give] show ?thesis by simp
  next
    case (Suc m)
    have "good (fold observe (take m (zip es (provider_run give s' es))) (observe (e, r) h)) (es ! m)
        (provider_run give s' es ! m)"
    proof (rule Cons.IH)
      show "ok (observe (e, r) h) s'" by (rule step_ok [OF Cons.prems(1) may give])
      show "m < length (provider_run give s' es)" using Cons.prems(2) give Suc by simp
      show "may (fold observe (take j (zip es (provider_run give s' es))) (observe (e, r) h)) (es ! j)"
        if "j \<le> m" for j
        using Cons.prems(3) [of "Suc j"] that give Suc by simp
    qed
    with give Suc show ?thesis by simp
  qed
qed simp

end

text \<open>The plain providers hand out their data for ever.\<close>

interpretation static_provider: auth_provider static_auth_data "\<lambda>_ _. True" "\<lambda>_ h. h"
  "\<lambda>h s. s = h" "\<lambda>h e r. r = Inr h"
  by unfold_locales (auto simp: static_auth_data_def)

text \<open>A token that was granted: the call that asked for it and the answer.\<close>

definition granted :: "oauth_env \<Rightarrow> token_request option \<Rightarrow> (oauth_env \<times> token_response) option" where
  "granted env req =
     (case req of
        None \<Rightarrow> None
      | Some q \<Rightarrow> (case oe_request env q of Inl e \<Rightarrow> None | Inr resp \<Rightarrow> Some (env, resp)))"

fun valid_at :: "nat \<Rightarrow> oauth_env \<times> token_response \<Rightarrow> bool" where
  "valid_at now (env, resp) =
     (case tr_expires_in resp of None \<Rightarrow> True | Some d \<Rightarrow> now < oe_now_granted env + d)"

text \<open>Nine tenths of its life are over.\<close>

fun due_at :: "nat \<Rightarrow> oauth_env \<times> token_response \<Rightarrow> bool" where
  "due_at now (env, resp) =
     (case tr_expires_in resp of
        None \<Rightarrow> False | Some d \<Rightarrow> oe_now_granted env + oe_nine_tenths env d \<le> now)"

type_synonym auth_answer = "(authentication_error, byte list) result \<times> token_request option"

definition newer_grant :: "oauth_env \<times> auth_answer \<Rightarrow> (oauth_env \<times> token_response) option \<Rightarrow>
    (oauth_env \<times> token_response) option" where
  "newer_grant x g = (case granted (fst x) (snd (snd x)) of None \<Rightarrow> g | Some g' \<Rightarrow> Some g')"

definition last_grant :: "(oauth_env \<times> auth_answer) list \<Rightarrow> (oauth_env \<times> token_response) option" where
  "last_grant calls = fold newer_grant calls None"

text \<open>What is observed: the last token granted and the time of the last call.\<close>

definition oauth_observe :: "oauth_env \<times> auth_answer \<Rightarrow> (oauth_env \<times> token_response) option \<times> nat \<Rightarrow>
    (oauth_env \<times> token_response) option \<times> nat" where
  "oauth_observe x h = (newer_grant x (fst h), oe_now (fst x))"

definition oauth_ok :: "(oauth_env \<times> token_response) option \<times> nat \<Rightarrow> oauth \<Rightarrow> bool" where
  "oauth_ok h s \<longleftrightarrow> oa_private s \<noteq> None
     \<and> (case oa_token s of
          Some tok \<Rightarrow> (\<exists>env resp. fst h = Some (env, resp) \<and> cached_token_from env resp = Some tok)
        | None \<Rightarrow> (case fst h of None \<Rightarrow> True | Some g \<Rightarrow> \<not> valid_at (snd h) g))"

text \<open>
  A token handed out was granted in this call, or is the last one granted and still valid; an error means
  that there is no valid token; the identity provider is asked only when there is none or nine
  tenths of its life are over.
\<close>

definition answer_good :: "(oauth_env \<times> token_response) option \<Rightarrow> oauth_env \<Rightarrow> auth_answer \<Rightarrow> bool" where
  "answer_good lg env a \<longleftrightarrow>
     (case fst a of
        Inr secret \<Rightarrow>
          (case (granted env (snd a), lg) of
             (Some g, _) \<Rightarrow> secret = tr_secret (snd g)
           | (None, Some g) \<Rightarrow> secret = tr_secret (snd g) \<and> valid_at (oe_now env) g
           | (None, None) \<Rightarrow> False)
      | Inl e \<Rightarrow>
          granted env (snd a) = None
          \<and> (case lg of None \<Rightarrow> True | Some g \<Rightarrow> \<not> valid_at (oe_now env) g))
     \<and> (case (snd a, lg) of
          (Some q, Some g) \<Rightarrow> \<not> valid_at (oe_now env) g \<or> due_at (oe_now_expiring env) g
        | _ \<Rightarrow> True)"

lemma cached_token_tests:
  assumes "cached_token_from env resp = Some tok"
  shows "ct_secret tok = tr_secret resp" "is_expired now tok \<longleftrightarrow> \<not> valid_at now (env, resp)"
    "is_expiring now tok \<longleftrightarrow> due_at now (env, resp)"
  using assms
  by (auto simp: cached_token_from_def Let_def instant_add_def is_expired_def is_expiring_def
        split: option.splits if_splits)

lemma find_token_url_keeps:
  "find_token_url env s = (r, s') \<Longrightarrow> oa_private s' = oa_private s \<and> oa_token s' = oa_token s"
  by (auto simp: find_token_url_def split: option.splits sum.splits)

lemma fetch_token_keeps:
  assumes "fetch_token env p s = (r, s', req)"
  shows "oa_private s' = oa_private s \<and> oa_token s' = oa_token s
    \<and> granted env req = (case r of Inl e \<Rightarrow> None | Inr resp \<Rightarrow> Some (env, resp))"
proof -
  obtain u s1 where u: "find_token_url env s = (u, s1)" by fastforce
  with assms find_token_url_keeps [OF u] show ?thesis
    by (auto simp: fetch_token_def Let_def granted_def split: sum.splits option.splits elim!: map_err.elims)
qed

text \<open>A call that needs a token.\<close>

lemma oauth_renews:
  assumes "oa_private s = Some p" and "fetch_token env p s = (f, s1, q)"
    and "case oa_token s of None \<Rightarrow> True
      | Some tok \<Rightarrow> is_expired (oe_now env) tok \<or> is_expiring (oe_now_expiring env) tok"
  shows "oauth_auth_data env s =
    (case f of
       Inr resp \<Rightarrow>
         (case cached_token_from env resp of
            None \<Rightarrow> None
          | Some tok \<Rightarrow> Some ((Inr (ct_secret tok), q), s1\<lparr>oa_token := Some tok\<rparr>))
     | Inl e \<Rightarrow>
         (if (case oa_token s of None \<Rightarrow> True | Some tok \<Rightarrow> is_expired (oe_now env) tok)
          then Some ((Inl (fetch_failed (oa_params s) e), q), s1\<lparr>oa_token := None\<rparr>)
          else map_option (\<lambda>tok. ((Inr (ct_secret tok), q), s1)) (oa_token s1)))"
  using assms
  by (cases f; cases "oa_token s1"; cases "oa_token s")
     (simp_all add: oauth_auth_data_def Let_def cached_secret_def split: option.split)

text \<open>One call, in any state that the invariant describes.\<close>

lemma oauth_call:
  assumes ok: "oauth_ok h s" and may: "snd h \<le> oe_now env"
    and call: "oauth_auth_data env s = Some ((r, req), s')"
  shows "answer_good (fst h) env (r, req) \<and> oauth_ok (oauth_observe (env, (r, req)) h) s'"
proof -
  from ok obtain p where p: "oa_private s = Some p" by (auto simp: oauth_ok_def)
  obtain f s1 q where f: "fetch_token env p s = (f, s1, q)" by (cases "fetch_token env p s")
  note keeps = fetch_token_keeps [OF f]
  note defs = oauth_ok_def oauth_observe_def newer_grant_def answer_good_def
  let ?gone = "case oa_token s of None \<Rightarrow> True | Some tok \<Rightarrow> is_expired (oe_now env) tok"
  have gone: "case fst h of None \<Rightarrow> True | Some g \<Rightarrow> \<not> valid_at (oe_now env) g" if ?gone
    using ok may that
    by (auto simp: oauth_ok_def cached_token_tests(2) split: option.splits)
  have here: "\<exists>env0 resp0 tok. fst h = Some (env0, resp0) \<and> oa_token s = Some tok
      \<and> cached_token_from env0 resp0 = Some tok \<and> valid_at (oe_now env) (env0, resp0)" if "\<not> ?gone"
    using ok that
    by (auto simp: oauth_ok_def cached_token_tests(2) simp del: valid_at.simps split: option.splits)
  show ?thesis
  proof (cases "case oa_token s of None \<Rightarrow> True
      | Some tok \<Rightarrow> is_expired (oe_now env) tok \<or> is_expiring (oe_now_expiring env) tok")
    case True
    have due: "case fst h of None \<Rightarrow> True
        | Some g \<Rightarrow> \<not> valid_at (oe_now env) g \<or> due_at (oe_now_expiring env) g"
      using ok may True
      by (auto simp: oauth_ok_def cached_token_tests(2,3) split: option.splits)
    note renews = call [unfolded oauth_renews [OF p f True]]
    show ?thesis
    proof (cases f)
      case (Inr resp)
      with renews obtain tok where "cached_token_from env resp = Some tok"
        and "r = Inr (ct_secret tok)" "req = q" "s' = s1\<lparr>oa_token := Some tok\<rparr>"
        by (auto split: option.splits)
      then show ?thesis
        using keeps Inr p due by (auto simp: defs cached_token_tests(1) split: option.splits)
    next
      case (Inl e)
      show ?thesis
      proof (cases ?gone)
        case True
        with renews Inl have "r = Inl (fetch_failed (oa_params s) e)" "req = q" "s' = s1\<lparr>oa_token := None\<rparr>"
          by simp_all
        then show ?thesis
          using keeps Inl p gone [OF True] due by (auto simp: defs split: option.splits)
      next
        case False
        from here [OF this] obtain env0 resp0 tok where lg: "fst h = Some (env0, resp0)"
          "oa_token s = Some tok" "cached_token_from env0 resp0 = Some tok" "valid_at (oe_now env) (env0, resp0)"
          by blast
        with renews Inl False keeps have "r = Inr (ct_secret tok)" "req = q" "s' = s1" by auto
        then show ?thesis
          using keeps Inl p lg due by (auto simp: defs cached_token_tests(1) split: option.splits)
      qed
    qed
  next
    case False
    then have "\<not> ?gone" by (auto split: option.splits)
    from here [OF this] obtain env0 resp0 tok where lg: "fst h = Some (env0, resp0)"
      "oa_token s = Some tok" "cached_token_from env0 resp0 = Some tok" "valid_at (oe_now env) (env0, resp0)"
      by blast
    with call p False have "r = Inr (ct_secret tok)" "req = None" "s' = s"
      by (auto simp: oauth_auth_data_def cached_secret_def)
    then show ?thesis
      using p lg by (auto simp: defs granted_def cached_token_tests(1))
  qed
qed

interpretation oauth_provider: auth_provider oauth_auth_data "\<lambda>h env. snd h \<le> oe_now env" oauth_observe
  oauth_ok "\<lambda>h. answer_good (fst h)"
proof
  fix h s e r s'
  assume "oauth_ok h s" "snd h \<le> oe_now e" "oauth_auth_data e s = Some (r, s')"
  then show "answer_good (fst h) e r" "oauth_ok (oauth_observe (e, r) h) s'"
    using oauth_call [of h s e "fst r" "snd r" s'] by simp_all
qed

lemma initialized_ok:
  assumes "oauth_initialize env (client_credentials params) = (Inr (), s)"
  shows "oauth_ok (None, 0) s"
proof -
  from assms obtain p u where "find_token_url env ((client_credentials params)\<lparr>oa_private := Some p\<rparr>) = (u, s)"
    by (auto simp: oauth_initialize_def split: sum.splits prod.splits)
  from find_token_url_keeps [OF this] show ?thesis
    by (simp add: oauth_ok_def client_credentials_def)
qed

lemma observed:
  "fst (fold oauth_observe calls h) = fold newer_grant calls (fst h)"
  "snd (fold oauth_observe calls h) = (if calls = [] then snd h else oe_now (fst (last calls)))"
  by (induction calls arbitrary: h) (auto simp: oauth_observe_def)

lemma calls_in_order:
  assumes "sorted (map oe_now es)" and "j < length outs" and "length outs \<le> length es"
  shows "snd (fold oauth_observe (take j (zip es outs)) (g, 0)) \<le> oe_now (es ! j)"
proof (cases j)
  case (Suc i)
  then have "take j (zip es outs) \<noteq> []" "last (take j (zip es outs)) = (es ! i, outs ! i)"
    using assms(2,3) by (auto simp: take_Suc_conv_app_nth)
  then show ?thesis
    using sorted_nth_mono [OF assms(1), of i j] assms(2,3) Suc by (simp add: observed)
qed (simp add: observed)

lemma provider_run_length: "length (provider_run give s es) \<le> length es"
  by (induction es arbitrary: s) (auto split: option.splits)

text \<open>
  C25. The tokens handed out are granted and valid. In any series of calls of an OAuth2 provider that was
  initialized, on a clock that does not run backwards, every secret handed out is that of a token granted in
  the same call, or of the last token granted if that is still valid; an error is returned only when
  there is no valid token, so a provider that cannot renew a token goes on with it to its end; and
  the identity provider is asked only when there is no valid token or nine tenths of its life are over.
\<close>

theorem tokens_handed_out_are_granted_and_valid:
  assumes "oauth_initialize env (client_credentials params) = (Inr (), s)" and "sorted (map oe_now es)"
    and "k < length (provider_run oauth_auth_data s es)"
  shows "answer_good (last_grant (take k (zip es (provider_run oauth_auth_data s es)))) (es ! k)
    (provider_run oauth_auth_data s es ! k)"
proof -
  let ?outs = "provider_run oauth_auth_data s es"
  have "oauth_ok (None, 0) s" by (rule initialized_ok [OF assms(1)])
  from oauth_provider.run_good [OF this assms(3)]
  show ?thesis
    using calls_in_order [OF assms(2), of _ ?outs None] assms(3) provider_run_length [of oauth_auth_data s es]
    by (simp add: observed last_grant_def)
qed

text \<open>An identity provider that answers a call at the given time with a token of 100 nanoseconds, or not.\<close>

definition example_call :: "nat \<Rightarrow> bool \<Rightarrow> oauth_env" where
  "example_call now up =
     \<lparr>oe_parse_url = \<lambda>u. Inr (''file'', u), oe_read_file = \<lambda>path. Inr [], oe_data_url = \<lambda>u. Inr [],
      oe_parse_private = \<lambda>bs. Inr \<lparr>pp_client_id = ''id'', pp_client_secret = ''key'', pp_issuer_url = None\<rparr>,
      oe_discover = \<lambda>u. Inr (Some ''http://i/token''),
      oe_request = \<lambda>q. if up then Inr \<lparr>tr_secret = [7], tr_expires_in = Some 100\<rparr> else Inl (Transport ''down''),
      oe_now = now, oe_now_expiring = now, oe_now_granted = now, oe_last_instant = 1000,
      oe_nine_tenths = \<lambda>d. 9 * d div 10\<rparr>"

definition example_oauth_params :: oauth_params where
  "example_oauth_params =
     \<lparr>op_issuer_url = ''http://i'', op_credentials_url = ''/key'', op_audience = None, op_scope = None\<rparr>"

lemma example_call_simps:
  "oe_parse_url (example_call now up) u = Inr (''file'', u)" "oe_read_file (example_call now up) path = Inr []"
  "oe_parse_private (example_call now up) bs
     = Inr \<lparr>pp_client_id = ''id'', pp_client_secret = ''key'', pp_issuer_url = None\<rparr>"
  "oe_discover (example_call now up) u = Inr (Some ''http://i/token'')"
  "oe_request (example_call now up) q
     = (if up then Inr \<lparr>tr_secret = [7], tr_expires_in = Some 100\<rparr> else Inl (Transport ''down''))"
  "oe_now (example_call now up) = now" "oe_now_expiring (example_call now up) = now"
  "oe_now_granted (example_call now up) = now" "oe_last_instant (example_call now up) = 1000"
  "oe_nine_tenths (example_call now up) d = 9 * d div 10"
  by (simp_all add: example_call_def)

definition example_oauth :: "cached_token option \<Rightarrow> oauth" where
  "example_oauth tok =
     \<lparr>oa_params = example_oauth_params,
      oa_private = Some \<lparr>pp_client_id = ''id'', pp_client_secret = ''key'', pp_issuer_url = None\<rparr>,
      oa_token_url = Some ''http://i/token'', oa_token = tok\<rparr>"

definition example_token :: cached_token where
  "example_token = \<lparr>ct_secret = [7], ct_expiring_at = Some 90, ct_expired_at = Some 100\<rparr>"

definition example_calls :: "oauth_env list" where
  "example_calls = [example_call 0 True, example_call 50 False, example_call 95 False, example_call 120 False]"

lemma example_oauth_initialized:
  "oauth_initialize (example_call 0 True) (client_credentials example_oauth_params) = (Inr (), example_oauth None)"
  by (simp add: example_oauth_def client_credentials_def oauth_initialize_def read_private_params_def
        find_token_url_def example_call_simps example_oauth_params_def)

lemma example_fetch:
  "\<exists>q e. fetch_token (example_call now up) p (example_oauth tok)
    = (if up then Inr \<lparr>tr_secret = [7], tr_expires_in = Some 100\<rparr> else Inl e, example_oauth tok, Some q)"
  by (cases up) (simp_all add: fetch_token_def find_token_url_def example_call_simps Let_def example_oauth_def)

lemma example_answer:
  "\<exists>q. oauth_auth_data (example_call 0 True) (example_oauth None)
     = Some ((Inr [7], Some q), example_oauth (Some example_token))"
  "oauth_auth_data (example_call 50 False) (example_oauth (Some example_token))
     = Some ((Inr [7], None), example_oauth (Some example_token))"
  "\<exists>q. oauth_auth_data (example_call 95 False) (example_oauth (Some example_token))
     = Some ((Inr [7], Some q), example_oauth (Some example_token))"
  "\<exists>e q. oauth_auth_data (example_call 120 False) (example_oauth (Some example_token))
     = Some ((Inl e, Some q), example_oauth None)"
proof -
  let ?p = "\<lparr>pp_client_id = ''id'', pp_client_secret = ''key'', pp_issuer_url = None\<rparr>"
  have sel: "oa_private (example_oauth tok) = Some ?p" "oa_token (example_oauth tok) = tok"
    "(example_oauth tok)\<lparr>oa_token := tok'\<rparr> = example_oauth tok'" for tok tok'
    by (simp_all add: example_oauth_def)
  note simps = sel oauth_auth_data_def example_call_simps cached_secret_def is_expired_def is_expiring_def
    cached_token_from_def instant_add_def Let_def example_token_def
  obtain q where "fetch_token (example_call 0 True) ?p (example_oauth None)
      = (Inr \<lparr>tr_secret = [7], tr_expires_in = Some 100\<rparr>, example_oauth None, Some q)"
    using example_fetch [of 0 True ?p None] by auto
  then show "\<exists>q. oauth_auth_data (example_call 0 True) (example_oauth None)
     = Some ((Inr [7], Some q), example_oauth (Some example_token))" by (simp add: simps)
  show "oauth_auth_data (example_call 50 False) (example_oauth (Some example_token))
     = Some ((Inr [7], None), example_oauth (Some example_token))" by (simp add: simps)
  obtain q e where "fetch_token (example_call 95 False) ?p (example_oauth (Some example_token))
      = (Inl e, example_oauth (Some example_token), Some q)"
    using example_fetch [of 95 False ?p "Some example_token"] by auto
  then show "\<exists>q. oauth_auth_data (example_call 95 False) (example_oauth (Some example_token))
     = Some ((Inr [7], Some q), example_oauth (Some example_token))" by (simp add: simps)
  obtain q e where "fetch_token (example_call 120 False) ?p (example_oauth (Some example_token))
      = (Inl e, example_oauth (Some example_token), Some q)"
    using example_fetch [of 120 False ?p "Some example_token"] by auto
  then show "\<exists>e q. oauth_auth_data (example_call 120 False) (example_oauth (Some example_token))
     = Some ((Inl e, Some q), example_oauth None)" by (simp add: simps)
qed

text \<open>Granted, used, kept when it cannot be renewed, refused once it has expired.\<close>

lemma example_answers:
  "\<exists>e q q' q''. provider_run oauth_auth_data (example_oauth None) example_calls
     = [(Inr [7], Some q), (Inr [7], None), (Inr [7], Some q'), (Inl e, Some q'')]"
  using example_answer by (auto simp: example_calls_def)

theorem tokens_handed_out_are_granted_and_valid_witness:
  "answer_good (last_grant (take 2 (zip example_calls (provider_run oauth_auth_data (example_oauth None) example_calls))))
     (example_calls ! 2) (provider_run oauth_auth_data (example_oauth None) example_calls ! 2)
   \<and> fst (provider_run oauth_auth_data (example_oauth None) example_calls ! 2) = Inr [7]"
proof -
  obtain e q q' q'' where run: "provider_run oauth_auth_data (example_oauth None) example_calls
     = [(Inr [7], Some q), (Inr [7], None), (Inr [7], Some q'), (Inl e, Some q'')]"
    using example_answers by blast
  have "sorted (map oe_now example_calls)"
    by (simp add: example_calls_def example_call_simps)
  from tokens_handed_out_are_granted_and_valid [OF example_oauth_initialized this, of 2] run
  show ?thesis by simp
qed

text \<open>
  Where it falls short. The hint is made to keep the credentials out of the error, but the error it goes with
  quotes the URL that holds them.
\<close>

theorem redacted_credentials_are_quoted:
  assumes "oe_parse_url env (op_credentials_url (oa_params s)) = Inr (''data'', path)"
    and "oe_data_url env (op_credentials_url (oa_params s)) = Inl e"
  shows "credentials_hint env (oa_params s) = ''data:<redacted>''"
    and "\<exists>m. fst (oauth_initialize env s) = Inl (Custom_auth m) \<and> sublist (op_credentials_url (oa_params s)) m"
proof -
  show "credentials_hint env (oa_params s) = ''data:<redacted>''"
    using assms by (simp add: credentials_hint_def)
  have "sublist u (a @ u @ b)" for u a b :: string by (auto simp: sublist_def)
  from this [of "op_credentials_url (oa_params s)" "''failed to read OAuth2 credentials from data:<redacted>: invalid data url [''"]
  show "\<exists>m. fst (oauth_initialize env s) = Inl (Custom_auth m) \<and> sublist (op_credentials_url (oa_params s)) m"
    using assms by (simp add: oauth_initialize_def read_private_params_def credentials_hint_def)
qed

text \<open>A lifetime that runs past the last instant of the clock is a panic.\<close>

theorem an_endless_token_panics:
  assumes "oa_private s = Some p" and "oa_token s = None"
    and "fetch_token env p s = (Inr resp, s', req)" and "tr_expires_in resp = Some d"
    and "oe_last_instant env < oe_now_granted env + d"
  shows "oauth_auth_data env s = None"
proof -
  have "cached_token_from env resp = None"
    using assms(4,5) by (simp add: cached_token_from_def instant_add_def Let_def split: option.split)
  with assms(1-3) show ?thesis by (simp add: oauth_auth_data_def)
qed

end
