(* ===== verification/Executor.thy ===== *)
theory Executor
  imports Prelude
begin

text \<open>
  The executors (\<open>executor.rs\<close>): one interface over the tokio and the async-std runtime, the
  futures it hands out, and the race of a future against a timer. What a runtime itself reports
  when it is polled (a finished task, a tick, a timer that fired) is an argument; the code here
  only translates it. Every cargo feature of a runtime is taken to be enabled; without any, the
  placeholder variants panic.
\<close>

section \<open>Executors\<close>

datatype executor_kind = Tokio | AsyncStd

text \<open>An executor may be shared behind any number of \<open>Arc\<close>s, which hand every call on.\<close>

datatype executor = TokioExecutor | AsyncStdExecutor | Arc_of executor

fun exec_kind :: "executor \<Rightarrow> executor_kind" where
  "exec_kind TokioExecutor = Tokio"
| "exec_kind AsyncStdExecutor = AsyncStd"
| "exec_kind (Arc_of e) = exec_kind e"

text \<open>Spawning hands the task to the runtime and never fails: the tasks of a runtime grow by one.\<close>

fun exec_spawn :: "executor \<Rightarrow> 'task \<Rightarrow> (executor_kind \<Rightarrow> 'task list) \<Rightarrow>
    (unit, unit) result \<times> (executor_kind \<Rightarrow> 'task list)" where
  "exec_spawn TokioExecutor f rt = (Inr (), rt(Tokio := rt Tokio @ [f]))"
| "exec_spawn AsyncStdExecutor f rt = (Inr (), rt(AsyncStd := rt AsyncStd @ [f]))"
| "exec_spawn (Arc_of e) f rt = exec_spawn e f rt"

section \<open>Polling\<close>

datatype 'a task_poll = Pending | Ready 'a

text \<open>
  A blocking task: tokio reports a task that panicked or was aborted as an error, async-std has
  no such report. Without a runtime the handle is a placeholder.
\<close>

datatype 'a join_handle = Tokio_join "(string, 'a) result task_poll" | AsyncStd_join "'a task_poll" | PlaceHolder_join 'a

fun join_handle_poll :: "'a join_handle \<Rightarrow> 'a option task_poll option" where
  "join_handle_poll (Tokio_join p) =
     Some (case p of Pending \<Rightarrow> Pending
           | Ready v \<Rightarrow> Ready (case v of Inl e \<Rightarrow> None | Inr x \<Rightarrow> Some x))"
| "join_handle_poll (AsyncStd_join p) = Some (case p of Pending \<Rightarrow> Pending | Ready v \<Rightarrow> Ready (Some v))"
| "join_handle_poll (PlaceHolder_join t) = None"

text \<open>
  A timer that ticks: the interval of tokio reports the instant of the tick, that of async-std an
  item of a stream.
\<close>

datatype interval_stream = Tokio_interval "nat task_poll" | AsyncStd_interval "unit option task_poll" | PlaceHolder_interval

fun interval_poll_next :: "interval_stream \<Rightarrow> unit option task_poll option" where
  "interval_poll_next (Tokio_interval p) = Some (case p of Pending \<Rightarrow> Pending | Ready t \<Rightarrow> Ready (Some ()))"
| "interval_poll_next (AsyncStd_interval p) = Some (case p of Pending \<Rightarrow> Pending | Ready v \<Rightarrow> Ready v)"
| "interval_poll_next PlaceHolder_interval = None"

datatype delay_future = Tokio_delay "unit task_poll" | AsyncStd_delay "unit task_poll"

fun delay_poll :: "delay_future \<Rightarrow> unit task_poll" where
  "delay_poll (Tokio_delay d) = (case d of Pending \<Rightarrow> Pending | Ready u \<Rightarrow> Ready ())"
| "delay_poll (AsyncStd_delay j) = (case j of Pending \<Rightarrow> Pending | Ready u \<Rightarrow> Ready ())"

section \<open>The race against a timer\<close>

datatype elapsed = Elapsed

definition elapsed_display :: "elapsed \<Rightarrow> string" where
  "elapsed_display e = ''operation timed out''"

text \<open>
  \<open>select\<close> polls its first future first. Each entry of the list is one wake-up of the task: what
  polling the future would report, and what polling the timer would. \<open>None\<close> means that the race
  is not over after these wake-ups.
\<close>

fun exec_timeout :: "('a task_poll \<times> delay_future) list \<Rightarrow> (elapsed, 'a) result option" where
  "exec_timeout [] = None"
| "exec_timeout ((p, d) # wakes) =
     (case p of
        Ready output \<Rightarrow> Some (Inr output)
      | Pending \<Rightarrow> (case delay_poll d of Ready u \<Rightarrow> Some (Inl Elapsed) | Pending \<Rightarrow> exec_timeout wakes))"

lemma delay_poll_Pending_iff: "delay_poll d = Pending \<longleftrightarrow> d = Tokio_delay Pending \<or> d = AsyncStd_delay Pending"
  by (cases d) (auto split: task_poll.splits)

text \<open>Spawning never fails, and the task is the only change, whatever the executor is wrapped in.\<close>

lemma spawn_never_fails:
  "exec_spawn e f rt = (Inr (), rt(exec_kind e := rt (exec_kind e) @ [f]))"
  by (induction e) (simp_all add: fun_upd_def)

lemma exec_timeout_skip:
  "\<forall>(q, e)\<in>set before. q = Pending \<and> delay_poll e = Pending \<Longrightarrow>
    exec_timeout (before @ wakes) = exec_timeout wakes"
  by (induction before) auto

lemma exec_timeout_split:
  "exec_timeout wakes = Some r \<Longrightarrow>
    \<exists>before p d after. wakes = before @ (p, d) # after
      \<and> (\<forall>(q, e)\<in>set before. q = Pending \<and> delay_poll e = Pending)
      \<and> \<not> (p = Pending \<and> delay_poll d = Pending)"
proof (induction wakes rule: exec_timeout.induct)
  case 1
  then show ?case by simp
next
  case (2 p d wakes)
  show ?case
  proof (cases "p = Pending \<and> delay_poll d = Pending")
    case True
    with 2 obtain before p' d' after where "wakes = before @ (p', d') # after"
      "\<forall>(q, e)\<in>set before. q = Pending \<and> delay_poll e = Pending"
      "\<not> (p' = Pending \<and> delay_poll d' = Pending)"
      by fastforce
    with True show ?thesis
      by (intro exI [of _ "(p, d) # before"] exI [of _ p'] exI [of _ d'] exI [of _ after]) auto
  next
    case False
    then show ?thesis
      by (intro exI [of _ "[]"] exI [of _ p] exI [of _ d] exI [of _ wakes]) auto
  qed
qed

text \<open>
  The race ends as soon as one side is ready, and the timer wins only when the future is not
  ready at that very moment: a result that is there in time is never dropped for the deadline.
\<close>

theorem timeout_prefers_the_result:
  "exec_timeout wakes = Some r \<longleftrightarrow>
    (\<exists>before p d after. wakes = before @ (p, d) # after
      \<and> (\<forall>(q, e)\<in>set before. q = Pending \<and> delay_poll e = Pending)
      \<and> ((\<exists>output. p = Ready output \<and> r = Inr output)
         \<or> p = Pending \<and> delay_poll d = Ready () \<and> r = Inl Elapsed))"
proof
  assume r: "exec_timeout wakes = Some r"
  from exec_timeout_split [OF r] obtain before p d after where split: "wakes = before @ (p, d) # after"
    "\<forall>(q, e)\<in>set before. q = Pending \<and> delay_poll e = Pending"
    "\<not> (p = Pending \<and> delay_poll d = Pending)"
    by blast
  from r have "exec_timeout ((p, d) # after) = Some r"
    using exec_timeout_skip [OF split(2)] by (simp only: split(1))
  with split(3) have "(\<exists>output. p = Ready output \<and> r = Inr output)
      \<or> p = Pending \<and> delay_poll d = Ready () \<and> r = Inl Elapsed"
    by (auto split: task_poll.splits)
  with split(1,2) show "\<exists>before p d after. wakes = before @ (p, d) # after
      \<and> (\<forall>(q, e)\<in>set before. q = Pending \<and> delay_poll e = Pending)
      \<and> ((\<exists>output. p = Ready output \<and> r = Inr output)
         \<or> p = Pending \<and> delay_poll d = Ready () \<and> r = Inl Elapsed)"
    by blast
qed (auto simp: exec_timeout_skip)

text \<open>A timer that fires ends the race.\<close>

lemma timeout_returns:
  "(p, d) \<in> set wakes \<Longrightarrow> delay_poll d \<noteq> Pending \<Longrightarrow> exec_timeout wakes \<noteq> None"
  by (induction wakes rule: exec_timeout.induct) (auto split: task_poll.splits)

text \<open>Both runtimes report a task that ran to its end alike; only tokio can report one that did not.\<close>

lemma join_handles_agree:
  "join_handle_poll (Tokio_join (Ready (Inr x))) = join_handle_poll (AsyncStd_join (Ready x))"
  "join_handle_poll (Tokio_join (Ready (Inl e))) = Some (Ready None)"
  "join_handle_poll (AsyncStd_join p) \<noteq> Some (Ready None)"
  by (auto split: task_poll.splits)

end
