(* ===== verification/Transport.thy ===== *)
theory Transport
  imports Connection Admin Executor
begin

text \<open>
  Opening the stream of a connection (\<open>prepare_stream\<close>, \<open>native_tls_identity\<close> and
  \<open>rustls_identity\<close> in \<open>connection.rs\<close>) and the task that keeps a connection alive (the body
  spawned by \<open>connect\<close> in \<open>connection_manager.rs\<close>). Sockets, the TLS libraries and the reader of
  PEM files are third-party code, the fields of \<open>net_env\<close>; what the code decides is which library
  is used, how it is configured, in which order the steps are taken and what each failure becomes.
\<close>

section \<open>Client certificates\<close>

record client_identity =
  ci_certificate_chain :: "byte list"
  ci_private_key :: "byte list"

text \<open>
  The libraries: opening a socket, building an identity from PEM text, the handshake of
  native-tls with its settings, reading PEM, accepting a root certificate, accepting a client
  certificate, reading a server name, and the handshake of rustls.
\<close>

datatype private_key_der = Pkcs8 "byte list" | Pkcs1 "byte list" | Sec1 "byte list"

record 'i native_config =
  nc_root_certificates :: "byte list list"
  nc_accept_invalid_hostnames :: bool
  nc_accept_invalid_certs :: bool
  nc_identity :: "'i option"

record rustls_config =
  rl_roots :: "byte list list"
  rl_client_auth :: "(byte list list \<times> private_key_der) option"

record ('s, 'i) net_env =
  ne_connect :: "string \<Rightarrow> (io_kind \<times> string, 's) result"
  ne_from_pkcs8 :: "byte list \<Rightarrow> byte list \<Rightarrow> (string, 'i) result"
  ne_native_build :: "'i native_config \<Rightarrow> (string, unit) result"
  ne_native_handshake :: "'i native_config \<Rightarrow> string \<Rightarrow> 's \<Rightarrow> (string, 's) result"
  ne_pem_parse_many :: "byte list \<Rightarrow> (string, byte list list) result"
  ne_pem_parse :: "byte list \<Rightarrow> (string, string \<times> byte list) result"
  ne_webpki_roots :: "byte list list"
  ne_root_add :: "byte list \<Rightarrow> (string, unit) result"
  ne_client_auth_cert :: "byte list list \<Rightarrow> private_key_der \<Rightarrow> (string, unit) result"
  ne_server_name :: "string \<Rightarrow> (string, unit) result"
  ne_rustls_handshake :: "rustls_config \<Rightarrow> string \<Rightarrow> 's \<Rightarrow> (io_kind \<times> string, 's) result"

text \<open>The conversions of the question mark operator, and \<open>std::io::Error::other\<close>.\<close>

definition from_io :: "io_kind \<times> string \<Rightarrow> connection_error" where
  "from_io e = Io (fst e) (snd e)"

definition io_other :: "string \<Rightarrow> connection_error" where
  "io_other e = Io OtherIo e"

definition native_tls_identity :: "('s, 'i) net_env \<Rightarrow> client_identity \<Rightarrow> (connection_error, 'i) result" where
  "native_tls_identity env identity =
     map_err io_other (ne_from_pkcs8 env (ci_certificate_chain identity) (ci_private_key identity))"

definition rustls_identity :: "('s, 'i) net_env \<Rightarrow> client_identity \<Rightarrow>
    (connection_error, byte list list \<times> private_key_der) result" where
  "rustls_identity env identity =
     rbind (map_err io_other (ne_pem_parse_many env (ci_certificate_chain identity))) (\<lambda>chain.
       if chain = [] then Inl (io_other ''the client certificate chain contains no certificates'')
       else
         rbind (map_err io_other (ne_pem_parse env (ci_private_key identity))) (\<lambda>(tag, der).
           if tag = ''PRIVATE KEY'' then Inr (chain, Pkcs8 der)
           else if tag = ''RSA PRIVATE KEY'' then Inr (chain, Pkcs1 der)
           else if tag = ''EC PRIVATE KEY'' then Inr (chain, Sec1 der)
           else Inl (io_other (''unsupported private key PEM tag '' @ debug_str tag
                  @ '', expected one of PRIVATE KEY, RSA PRIVATE KEY or EC PRIVATE KEY''))))"

section \<open>Opening a stream\<close>

text \<open>The cargo features that decide which code is compiled for an executor.\<close>

record features =
  ft_tokio :: bool
  ft_tokio_rustls :: bool
  ft_async_std :: bool
  ft_async_std_rustls :: bool

datatype tls_library = Native_tls | Rustls

text \<open>
  With both kinds of feature active for a runtime native-tls is used; with none the arm panics.
  Native-tls for one runtime and rustls for the other is no build: \<open>rustls_identity\<close> is compiled
  only without native-tls.
\<close>

fun tls_library_of :: "features \<Rightarrow> executor_kind \<Rightarrow> tls_library option" where
  "tls_library_of ft Tokio =
     (if ft_tokio ft then Some Native_tls else if ft_tokio_rustls ft then Some Rustls else None)"
| "tls_library_of ft AsyncStd =
     (if ft_async_std ft then Some Native_tls else if ft_async_std_rustls ft then Some Rustls else None)"

text \<open>A framed stream: the codec of its runtime around a plain or an encrypted socket.\<close>

datatype ('s, 'i) transport =
    Plain 's
  | Native_stream "'i native_config" string 's
  | Rustls_stream rustls_config string 's

datatype ('s, 'i) framed = Framed executor_kind "('s, 'i) transport"

definition open_plain :: "('s, 'i) net_env \<Rightarrow> string \<Rightarrow> (connection_error, ('s, 'i) transport) result" where
  "open_plain env address = rmap Plain (map_err from_io (ne_connect env address))"

definition open_native_tls :: "('s, 'i) net_env \<Rightarrow> string \<Rightarrow> string \<Rightarrow> byte list list \<Rightarrow> bool \<Rightarrow> bool \<Rightarrow>
    client_identity option \<Rightarrow> (connection_error, ('s, 'i) transport) result" where
  "open_native_tls env address hostname certificate_chain allow_insecure_connection
       tls_hostname_verification_enabled identity =
     rbind (map_err from_io (ne_connect env address)) (\<lambda>stream.
     rbind (case identity of
              Some i \<Rightarrow> rmap Some (native_tls_identity env i)
            | None \<Rightarrow> Inr None) (\<lambda>ident.
     let config = \<lparr>nc_root_certificates = certificate_chain,
                   nc_accept_invalid_hostnames = (allow_insecure_connection \<or> \<not> tls_hostname_verification_enabled),
                   nc_accept_invalid_certs = allow_insecure_connection,
                   nc_identity = ident\<rparr>
     in rbind (map_err Tls (ne_native_build env config)) (\<lambda>u.
          rmap (Native_stream config hostname)
            (map_err Tls (ne_native_handshake env config hostname stream)))))"

fun add_roots :: "('s, 'i) net_env \<Rightarrow> byte list list \<Rightarrow> byte list list \<Rightarrow>
    (connection_error, byte list list) result" where
  "add_roots env [] roots = Inr roots"
| "add_roots env (c # cs) roots =
     rbind (map_err Tls (ne_root_add env c)) (\<lambda>u. add_roots env cs (roots @ [c]))"

definition open_rustls :: "('s, 'i) net_env \<Rightarrow> string \<Rightarrow> string \<Rightarrow> byte list list \<Rightarrow>
    client_identity option \<Rightarrow> (connection_error, ('s, 'i) transport) result" where
  "open_rustls env address hostname certificate_chain identity =
     rbind (map_err from_io (ne_connect env address)) (\<lambda>stream.
     rbind (add_roots env certificate_chain (ne_webpki_roots env)) (\<lambda>roots.
     rbind (case identity of
              Some i \<Rightarrow>
                rbind (rustls_identity env i) (\<lambda>(chain, key).
                  rmap (\<lambda>u. Some (chain, key)) (map_err io_other (ne_client_auth_cert env chain key)))
            | None \<Rightarrow> Inr None) (\<lambda>auth.
     let config = \<lparr>rl_roots = roots, rl_client_auth = auth\<rparr>
     in rbind (map_err DnsName (ne_server_name env hostname)) (\<lambda>u.
          rmap (Rustls_stream config hostname)
            (map_err from_io (ne_rustls_handshake env config hostname stream))))))"

text \<open>
  \<open>handshake\<close> stands for the handshake of the protocol on the open stream (\<open>conn_connect\<close>). The
  outer option is \<open>None\<close> when no feature provides the runtime of the executor: the arm panics.
\<close>

definition prepare_stream :: "features \<Rightarrow> executor_kind \<Rightarrow> ('s, 'i) net_env \<Rightarrow> string \<Rightarrow> string \<Rightarrow> bool \<Rightarrow>
    byte list list \<Rightarrow> bool \<Rightarrow> bool \<Rightarrow> client_identity option \<Rightarrow>
    (('s, 'i) framed \<Rightarrow> (connection_error, 'c) result) \<Rightarrow> (connection_error, 'c) result option" where
  "prepare_stream ft kind env address hostname tls certificate_chain allow_insecure_connection
       tls_hostname_verification_enabled identity handshake =
     (case tls_library_of ft kind of
        None \<Rightarrow> None
      | Some library \<Rightarrow>
          Some (rbind
            (if tls then
               (case library of
                  Native_tls \<Rightarrow> open_native_tls env address hostname certificate_chain allow_insecure_connection
                                  tls_hostname_verification_enabled identity
                | Rustls \<Rightarrow> open_rustls env address hostname certificate_chain identity)
             else open_plain env address)
            (\<lambda>stream. handshake (Framed kind stream))))"

text \<open>
  One address of a connection: \<open>host\<close> is the host of the URL, or the address itself when the URL
  has none; \<open>late\<close> tells for which addresses the connection timeout comes first. The arm that panics
  is not met here: an executor exists only in a build with a feature of its runtime.
\<close>

definition dial :: "features \<Rightarrow> executor_kind \<Rightarrow> ('s, 'i) net_env \<Rightarrow> (string \<Rightarrow> string) \<Rightarrow> byte list list \<Rightarrow> bool \<Rightarrow>
    bool \<Rightarrow> client_identity option \<Rightarrow> (('s, 'i) framed \<Rightarrow> (connection_error, 'c) result) \<Rightarrow> (string \<Rightarrow> bool) \<Rightarrow>
    bool \<Rightarrow> string \<Rightarrow> (connection_error, 'c) result option" where
  "dial ft kind env host chain insecure verify identity handshake late tls address =
     (if late address then None
      else prepare_stream ft kind env address (host address) tls chain insecure verify identity handshake)"

section \<open>Keeping a connection alive\<close>

text \<open>
  One tick of the interval: whether somebody still holds the connection, the channel of the ping
  and what awaiting it comes to. The task answers whether it goes on.
\<close>

definition keepalive_tick :: "bool \<times> nat \<times> unit answer \<Rightarrow> conn \<Rightarrow> bool \<times> conn" where
  "keepalive_tick tick c =
     (case tick of (held, resolver, ans) \<Rightarrow>
        if \<not> held then (False, c)
        else if \<not> conn_is_valid c then (False, c)
        else (True, snd (conn_send_ping resolver ans c)))"

fun keepalive :: "(bool \<times> nat \<times> unit answer) list \<Rightarrow> conn \<Rightarrow> bool \<times> conn" where
  "keepalive [] c = (True, c)"
| "keepalive (tick # ticks) c =
     (case keepalive_tick tick c of
        (True, c1) \<Rightarrow> keepalive ticks c1
      | (False, c1) \<Rightarrow> (False, c1))"

section \<open>What a stream is verified against\<close>

text \<open>A connected socket was encrypted with these settings and the handshake succeeded.\<close>

definition verified :: "('s, 'i) net_env \<Rightarrow> string \<Rightarrow> string \<Rightarrow> byte list list \<Rightarrow> bool \<Rightarrow> bool \<Rightarrow>
    client_identity option \<Rightarrow> ('s, 'i) transport \<Rightarrow> bool" where
  "verified env address hostname chain insecure verify identity t =
     (case t of
        Plain s \<Rightarrow> False
      | Native_stream config h s \<Rightarrow>
          h = hostname \<and> nc_root_certificates config = chain
          \<and> nc_accept_invalid_certs config = insecure
          \<and> nc_accept_invalid_hostnames config = (insecure \<or> \<not> verify)
          \<and> (case identity of
                None \<Rightarrow> nc_identity config = None
              | Some ci \<Rightarrow> \<exists>i. native_tls_identity env ci = Inr i \<and> nc_identity config = Some i)
          \<and> (\<exists>s0. ne_connect env address = Inr s0 \<and> ne_native_handshake env config hostname s0 = Inr s)
      | Rustls_stream config h s \<Rightarrow>
          h = hostname \<and> rl_roots config = ne_webpki_roots env @ chain
          \<and> (case identity of
                None \<Rightarrow> rl_client_auth config = None
              | Some ci \<Rightarrow> \<exists>a. rustls_identity env ci = Inr a \<and> rl_client_auth config = Some a)
          \<and> ne_server_name env hostname = Inr ()
          \<and> (\<exists>s0. ne_connect env address = Inr s0 \<and> ne_rustls_handshake env config hostname s0 = Inr s))"

lemma map_err_Inr [simp]: "map_err f r = Inr x \<longleftrightarrow> r = Inr x"
  by (cases r) simp_all

lemma add_roots_Inr: "add_roots env cs roots = Inr roots' \<Longrightarrow> roots' = roots @ cs"
  by (induction cs arbitrary: roots) (fastforce simp: rbind_Inr_iff)+

lemma open_native_tls_verified:
  "open_native_tls env address hostname chain insecure verify identity = Inr t \<Longrightarrow>
    verified env address hostname chain insecure verify identity t"
  by (auto simp: open_native_tls_def verified_def rbind_Inr_iff rmap_Inr_iff Let_def split: option.splits)

lemma open_rustls_verified:
  "open_rustls env address hostname chain identity = Inr t \<Longrightarrow>
    verified env address hostname chain insecure verify identity t"
  by (auto simp: open_rustls_def verified_def rbind_Inr_iff rmap_Inr_iff Let_def
      dest!: add_roots_Inr split: option.splits)

lemma prepare_stream_Inr:
  "prepare_stream ft kind env address hostname tls chain insecure verify identity handshake = Some (Inr c) \<longleftrightarrow>
    (\<exists>library t. tls_library_of ft kind = Some library
      \<and> (if tls then (case library of
            Native_tls \<Rightarrow> open_native_tls env address hostname chain insecure verify identity
          | Rustls \<Rightarrow> open_rustls env address hostname chain identity)
         else open_plain env address) = Inr t
      \<and> handshake (Framed kind t) = Inr c)"
  by (auto simp: prepare_stream_def rbind_Inr_iff split: option.splits)

lemma prepare_stream_verified:
  assumes "prepare_stream ft kind env address hostname True chain insecure verify identity handshake = Some (Inr c)"
  shows "\<exists>t. verified env address hostname chain insecure verify identity t \<and> handshake (Framed kind t) = Inr c"
proof -
  from assms obtain library t where "handshake (Framed kind t) = Inr c"
    and "(case library of
            Native_tls \<Rightarrow> open_native_tls env address hostname chain insecure verify identity
          | Rustls \<Rightarrow> open_rustls env address hostname chain identity) = Inr t"
    unfolding prepare_stream_Inr by auto
  then show ?thesis
    by (cases library) (auto dest: open_native_tls_verified open_rustls_verified)
qed

lemma try_addresses_Inr: "try_addresses rs errors = Inr c \<Longrightarrow> Some (Inr c) \<in> set rs"
  by (induction rs errors rule: try_addresses.induct) auto

lemma connection_new_verified:
  assumes "connection_new ''pulsar+ssl'' addresses
      (dial ft kind env host chain insecure verify identity handshake late) = Inr c"
  shows "\<exists>addrs address t. addresses = Some addrs \<and> address \<in> set addrs \<and> \<not> late address
    \<and> verified env address (host address) chain insecure verify identity t
    \<and> handshake (Framed kind t) = Inr c"
proof -
  from assms obtain addrs where addrs: "addresses = Some addrs"
    and "try_addresses (map (dial ft kind env host chain insecure verify identity handshake late True) addrs) [] = Inr c"
    by (auto simp: connection_new_def Let_def split: option.splits if_splits sum.splits list.splits)
  from try_addresses_Inr [OF this(2)] obtain address where "address \<in> set addrs" "\<not> late address"
    "prepare_stream ft kind env address (host address) True chain insecure verify identity handshake = Some (Inr c)"
    by (auto simp: dial_def split: if_splits)
  with addrs prepare_stream_verified [OF this(3)] show ?thesis by blast
qed

text \<open>
  C26. A URL that asks for TLS is never served in the clear. When a connection to a
  \<open>pulsar+ssl\<close> URL comes about, the protocol ran on a stream that was encrypted to one of the
  addresses of the host, for the host of the URL, with the certificates that were configured and
  the client certificate if there is one; the checks of certificates are relaxed only if insecure
  connections were allowed, those of host names only then or if their verification was turned
  off, and with rustls neither is ever relaxed.
\<close>

theorem tls_urls_are_never_served_in_the_clear:
  assumes "connection_new ''pulsar+ssl'' addresses
      (dial ft kind env host chain insecure verify identity handshake late) = Inr c"
  shows "\<exists>addrs address t. addresses = Some addrs \<and> address \<in> set addrs \<and> \<not> late address
    \<and> verified env address (host address) chain insecure verify identity t
    \<and> handshake (Framed kind t) = Inr c"
  using assms by (rule connection_new_verified)

text \<open>An environment where every address answers and every handshake succeeds; PEM text is its own content.\<close>

definition example_tls_net :: "(string, byte list) net_env" where
  "example_tls_net = \<lparr>ne_connect = Inr, ne_from_pkcs8 = (\<lambda>chain key. Inr key), ne_native_build = (\<lambda>config. Inr ()),
     ne_native_handshake = (\<lambda>config host s. Inr s), ne_pem_parse_many = (\<lambda>b. Inr [b]),
     ne_pem_parse = (\<lambda>b. Inr (''PRIVATE KEY'', b)), ne_webpki_roots = [[1]], ne_root_add = (\<lambda>c. Inr ()),
     ne_client_auth_cert = (\<lambda>chain key. Inr ()), ne_server_name = (\<lambda>n. Inr ()),
     ne_rustls_handshake = (\<lambda>config host s. Inr s)\<rparr>"

definition example_features :: features where
  "example_features = \<lparr>ft_tokio = False, ft_tokio_rustls = True, ft_async_std = False, ft_async_std_rustls = True\<rparr>"

theorem tls_urls_are_never_served_in_the_clear_witness:
  "\<exists>t. verified example_tls_net ''10.0.0.1:6651'' ''broker'' [[7]] False True 
    (Some \<lparr>ci_certificate_chain = [8], ci_private_key = [9]\<rparr>) t"
proof -
  let ?handshake = "\<lambda>f. case f of Framed k t \<Rightarrow> (Inr t :: (connection_error, (string, byte list) transport) result)"
  let ?identity = "Some \<lparr>ci_certificate_chain = [8], ci_private_key = [9]\<rparr>"
  have "connection_new ''pulsar+ssl'' (Some [''10.0.0.1:6651''])
      (dial example_features AsyncStd example_tls_net (\<lambda>a. ''broker'') [[7]] False True ?identity ?handshake (\<lambda>a. False))
    = Inr (Rustls_stream \<lparr>rl_roots = [[1], [7]], rl_client_auth = Some ([[8]], Pkcs8 [9])\<rparr> ''broker'' ''10.0.0.1:6651'')"
    by code_simp
  from tls_urls_are_never_served_in_the_clear [OF this] show ?thesis by auto
qed

text \<open>The same with native-tls; without TLS the stream is plain; without a runtime the arm panics.\<close>

lemma streams_by_feature:
  "prepare_stream (example_features\<lparr>ft_tokio := True\<rparr>) Tokio example_tls_net ''a'' ''h'' True [[7]] False True None (\<lambda>f. Inr f)
    = Some (Inr (Framed Tokio (Native_stream \<lparr>nc_root_certificates = [[7]], nc_accept_invalid_hostnames = False,
        nc_accept_invalid_certs = False, nc_identity = None\<rparr> ''h'' ''a'')))"
  "prepare_stream (example_features\<lparr>ft_tokio := True\<rparr>) Tokio example_tls_net ''a'' ''h'' False [[7]] False True None (\<lambda>f. Inr f)
    = Some (Inr (Framed Tokio (Plain ''a'')))"
  "prepare_stream (example_features\<lparr>ft_async_std_rustls := False\<rparr>) AsyncStd example_tls_net ''a'' ''h'' True [[7]] False True
    None (\<lambda>f. Inr f) = None"
  by code_simp+

text \<open>
  With rustls the options that relax the checks have no effect: a stream to a host whose
  certificate is not accepted is refused, insecure connections allowed or not.
\<close>

lemma rustls_ignores_the_relaxations:
  "tls_library_of ft kind = Some Rustls \<Longrightarrow>
    prepare_stream ft kind env a h tls chain insecure verify identity handshake
      = prepare_stream ft kind env a h tls chain False True identity handshake"
  by (simp add: prepare_stream_def)

text \<open>
  A ping that is not answered ends the heartbeat: it leaves an error on the connection, and the
  next tick finds the connection invalid and stops without another ping.
\<close>

theorem unanswered_ping_ends_the_heartbeat:
  assumes "conn_is_valid c" and "sn_receiver_open c" and "sn_sink_open c" and "ans \<noteq> Answered ()"
  shows "fst (keepalive ((True, r, ans) # tick # ticks) c) = False
    \<and> \<not> conn_is_valid (snd (keepalive ((True, r, ans) # tick # ticks) c))
    \<and> sn_control (snd (keepalive ((True, r, ans) # tick # ticks) c)) = sn_control c @ [msg_ping]"
proof -
  obtain c1 where ping: "snd (conn_send_ping r ans c) = c1" by simp
  have "\<not> conn_is_valid c1" "sn_control c1 = sn_control c @ [msg_ping]"
    using assms ping
    by (auto simp: conn_send_ping_def register_with_def send_control_def Let_def set_error_def
        conn_is_valid_def split: answer.splits)
  moreover have "keepalive_tick tick c1 = (False, c1)"
    using calculation(1) by (cases tick) (auto simp: keepalive_tick_def)
  ultimately show ?thesis
    using assms(1) ping by (simp add: keepalive_tick_def)
qed

text \<open>Nothing is sent for a connection that nobody holds or that failed.\<close>

lemma no_ping_after_the_end:
  "\<not> held \<or> \<not> conn_is_valid c \<Longrightarrow> keepalive ((held, r, ans) # ticks) c = (False, c)"
  by (auto simp: keepalive_tick_def)

end
