(* ===== verification/Client.thy ===== *)
theory Client
  imports Producer Multi_Consumer Auth Transport
begin

text \<open>
  The client (\<open>client.rs\<close>): how values become messages and back, the builder with its TLS options, what
  setting up a connection manager checks (\<open>ConnectionManager::new\<close> in \<open>connection_manager.rs\<close>), and the
  task that sends the messages given to \<open>Pulsar::send\<close> and answers every one of them.
\<close>

section \<open>Values and messages\<close>

definition serialize_unit :: message_in where
  "serialize_unit = message_default\<lparr>m_payload := None\<rparr>"

definition serialize_bytes :: "byte list \<Rightarrow> message_in" where
  "serialize_bytes bs = message_default\<lparr>m_payload := Some bs\<rparr>"

definition serialize_string :: "string \<Rightarrow> message_in" where
  "serialize_string s = message_default\<lparr>m_payload := Some (as_bytes s)\<rparr>"

text \<open>A message is its own serialization.\<close>

definition serialize_message :: "message_in \<Rightarrow> message_in" where
  "serialize_message m = m"

definition deserialize_bytes :: "payload \<Rightarrow> byte list" where
  "deserialize_bytes p = pl_data p"

definition deserialize_string :: "payload \<Rightarrow> string option" where
  "deserialize_string p = from_utf8 (pl_data p)"

section \<open>The builder\<close>

record tls_options =
  to_certificate_chain :: "(byte list) option"
  to_allow_insecure_connection :: bool
  to_hostname_verification_enabled :: bool
  to_client_identity :: "client_identity option"

definition tls_options_default :: tls_options where
  "tls_options_default =
     \<lparr>to_certificate_chain = None, to_allow_insecure_connection = False,
      to_hostname_verification_enabled = True, to_client_identity = None\<rparr>"

text \<open>\<open>'s\<close> is the state of the authentication provider.\<close>

record 's pulsar_builder =
  pb_url :: string
  pb_auth_provider :: "'s option"
  pb_connection_retry :: "connection_retry_options option"
  pb_operation_retry :: "operation_retry_options option"
  pb_tls_options :: "tls_options option"
  pb_outbound_channel_size :: "nat option"
  pb_listener_name :: "string option"

definition pulsar_builder_of :: "string \<Rightarrow> 's pulsar_builder" where
  "pulsar_builder_of u =
     \<lparr>pb_url = u, pb_auth_provider = None, pb_connection_retry = None, pb_operation_retry = None,
      pb_tls_options = None, pb_outbound_channel_size = None, pb_listener_name = None\<rparr>"

definition with_auth_provider :: "'s \<Rightarrow> 's pulsar_builder \<Rightarrow> 's pulsar_builder" where
  "with_auth_provider auth b = b\<lparr>pb_auth_provider := Some auth\<rparr>"

definition with_connection_retry_options :: "connection_retry_options \<Rightarrow> 's pulsar_builder \<Rightarrow> 's pulsar_builder" where
  "with_connection_retry_options options b = b\<lparr>pb_connection_retry := Some options\<rparr>"

definition with_operation_retry_options :: "operation_retry_options \<Rightarrow> 's pulsar_builder \<Rightarrow> 's pulsar_builder" where
  "with_operation_retry_options options b = b\<lparr>pb_operation_retry := Some options\<rparr>"

definition with_certificate_chain :: "byte list \<Rightarrow> 's pulsar_builder \<Rightarrow> 's pulsar_builder" where
  "with_certificate_chain chain b =
     b\<lparr>pb_tls_options := Some (case pb_tls_options b of
         Some tls \<Rightarrow> tls\<lparr>to_certificate_chain := Some chain\<rparr>
       | None \<Rightarrow> tls_options_default\<lparr>to_certificate_chain := Some chain\<rparr>)\<rparr>"

definition with_allow_insecure_connection :: "bool \<Rightarrow> 's pulsar_builder \<Rightarrow> 's pulsar_builder" where
  "with_allow_insecure_connection allow b =
     b\<lparr>pb_tls_options := Some (case pb_tls_options b of
         Some tls \<Rightarrow> tls\<lparr>to_allow_insecure_connection := allow\<rparr>
       | None \<Rightarrow> tls_options_default\<lparr>to_allow_insecure_connection := allow\<rparr>)\<rparr>"

definition with_tls_hostname_verification_enabled :: "bool \<Rightarrow> 's pulsar_builder \<Rightarrow> 's pulsar_builder" where
  "with_tls_hostname_verification_enabled enabled b =
     b\<lparr>pb_tls_options := Some (case pb_tls_options b of
         Some tls \<Rightarrow> tls\<lparr>to_hostname_verification_enabled := enabled\<rparr>
       | None \<Rightarrow> tls_options_default\<lparr>to_hostname_verification_enabled := enabled\<rparr>)\<rparr>"

definition with_client_identity :: "byte list \<Rightarrow> byte list \<Rightarrow> 's pulsar_builder \<Rightarrow> 's pulsar_builder" where
  "with_client_identity chain key b =
     (let identity = \<lparr>ci_certificate_chain = chain, ci_private_key = key\<rparr>
      in b\<lparr>pb_tls_options := Some (case pb_tls_options b of
             Some tls \<Rightarrow> tls\<lparr>to_client_identity := Some identity\<rparr>
           | None \<Rightarrow> tls_options_default\<lparr>to_client_identity := Some identity\<rparr>)\<rparr>)"

text \<open>The two setters that read files: the files' contents, or the first error.\<close>

definition with_certificate_chain_file :: "('e, byte list) result \<Rightarrow> 's pulsar_builder \<Rightarrow>
    ('e, 's pulsar_builder) result" where
  "with_certificate_chain_file contents b = rmap (\<lambda>v. with_certificate_chain v b) contents"

definition with_client_identity_files :: "('e, byte list) result \<Rightarrow> ('e, byte list) result \<Rightarrow>
    's pulsar_builder \<Rightarrow> ('e, 's pulsar_builder) result" where
  "with_client_identity_files chain key b =
     rbind chain (\<lambda>chain. rmap (\<lambda>key. with_client_identity chain key b) key)"

definition with_outbound_channel_size :: "nat \<Rightarrow> 's pulsar_builder \<Rightarrow> 's pulsar_builder" where
  "with_outbound_channel_size n b = b\<lparr>pb_outbound_channel_size := Some n\<rparr>"

definition with_listener_name :: "string \<Rightarrow> 's pulsar_builder \<Rightarrow> 's pulsar_builder" where
  "with_listener_name name b = b\<lparr>pb_listener_name := Some name\<rparr>"

section \<open>Setting up\<close>

record 's manager_config =
  mg_url :: url
  mg_auth :: "'s option"
  mg_connection_retry :: connection_retry_options
  mg_operation_retry :: operation_retry_options
  mg_tls :: tls_options
  mg_certificates :: "byte list list"
  mg_outbound_channel_size :: nat
  mg_listener_name :: "string option"

text \<open>
  What the set-up meets: the URL parser, the certificate parsers, the initialization of the
  authentication provider and the first connection, with its retries.
\<close>

record 's manager_env =
  me_parse_url :: "string \<Rightarrow> url option"
  me_parse_pem :: "byte list \<Rightarrow> (string, byte list list) result"
  me_from_der :: "byte list \<Rightarrow> (string, byte list) result"
  me_initialize :: "'s \<Rightarrow> (authentication_error, unit) result \<times> 's"
  me_connect :: "broker_address \<Rightarrow> (connection_error, unit) result"

definition certificates_of :: "'s manager_env \<Rightarrow> tls_options \<Rightarrow> (connection_error, byte list list) result" where
  "certificates_of env tls =
     (case to_certificate_chain tls of
        None \<Rightarrow> Inr []
      | Some chain \<Rightarrow>
          map_err (Io OtherIo) (rbind (me_parse_pem env chain) (\<lambda>certs. try_join_all (map (me_from_der env) (rev certs)))))"

definition initialized_auth :: "'s manager_env \<Rightarrow> 's option \<Rightarrow> (connection_error, 's option) result" where
  "initialized_auth env auth =
     (case auth of
        None \<Rightarrow> Inr None
      | Some p \<Rightarrow>
          (case me_initialize env p of
             (Inl e, p') \<Rightarrow> Inl (Authentication_conn e)
           | (Inr _, p') \<Rightarrow> Inr (Some p')))"

text \<open>The options not given take their defaults; the URL must have a host; the broker of the URL is connected.\<close>

definition manager_new :: "'s manager_env \<Rightarrow> 's pulsar_builder \<Rightarrow> (connection_error, 's manager_config) result" where
  "manager_new env b =
     (let tls = (case pb_tls_options b of Some tls \<Rightarrow> tls | None \<Rightarrow> tls_options_default)
      in case me_parse_url env (pb_url b) of
           None \<Rightarrow> Inl NotFound_conn
         | Some u \<Rightarrow>
             (case get_base_address u of
                None \<Rightarrow> Inl NotFound_conn
              | Some base \<Rightarrow>
                  rbind (certificates_of env tls) (\<lambda>certs.
                  rbind (initialized_auth env (pb_auth_provider b)) (\<lambda>auth.
                  rmap (\<lambda>_.
                    \<lparr>mg_url = u, mg_auth = auth,
                     mg_connection_retry = (case pb_connection_retry b of
                        Some options \<Rightarrow> options | None \<Rightarrow> connection_retry_options_default),
                     mg_operation_retry = (case pb_operation_retry b of
                        Some options \<Rightarrow> options | None \<Rightarrow> operation_retry_options_default),
                     mg_tls = tls, mg_certificates = certs,
                     mg_outbound_channel_size = (case pb_outbound_channel_size b of Some n \<Rightarrow> n | None \<Rightarrow> 100),
                     mg_listener_name = pb_listener_name b\<rparr>) (me_connect env base)))))"

text \<open>
  A client: its manager, and whether the task that sends messages runs. The runtime must take the task
  that checks connections; that it refused the sending task is only seen by the next send.
\<close>

record 's pulsar =
  pu_manager :: "'s manager_config"
  pu_sending :: bool

definition pulsar_build :: "'s manager_env \<Rightarrow> bool \<Rightarrow> bool \<Rightarrow> 's pulsar_builder \<Rightarrow> (error, 's pulsar) result" where
  "pulsar_build env spawn_check spawn_sending b =
     rbind (map_err Connection (manager_new env b)) (\<lambda>mg.
       if spawn_check then Inr \<lparr>pu_manager = mg, pu_sending = spawn_sending\<rparr>
       else Inl (Connection Shutdown_conn))"

definition pulsar_reader :: consumer_builder where
  "pulsar_reader =
     with_consumer_options (consumer_options_default\<lparr>co_durable := Some False, co_initial_position := Latest\<rparr>)
       consumer_builder_new"

section \<open>Asking\<close>

text \<open>What the client asks over the connection to its own URL, \<open>base\<close>, and of service discovery.\<close>

definition pulsar_get_topics_of_namespace :: "(connection_error, nat) result \<Rightarrow> string \<Rightarrow> topics_mode \<Rightarrow> nat \<Rightarrow>
    raw_message answer \<Rightarrow> net \<Rightarrow> (error, string list) result \<times> net" where
  "pulsar_get_topics_of_namespace base namespace mode resolver ans net =
     (case base of
        Inl e \<Rightarrow> (Inl (Connection e), net)
      | Inr n \<Rightarrow>
          (case conn_get_topics_of_namespace namespace mode resolver ans (net n) of
             (r, c1) \<Rightarrow> (map_err Connection (rmap gtr_topics r), net(n := c1))))"

definition pulsar_broker_features :: "(connection_error, nat) result \<Rightarrow> net \<Rightarrow> (error, broker_features) result" where
  "pulsar_broker_features base net = map_err Connection (rmap (\<lambda>n. sn_features (net n)) base)"

definition pulsar_lookup_partitioned_topic :: "(service_discovery_error, u32) result \<Rightarrow>
    (string \<Rightarrow> (service_discovery_error, broker_address) result) \<Rightarrow> string \<Rightarrow>
    (error, (string \<times> broker_address) list) result" where
  "pulsar_lookup_partitioned_topic number lookup topic =
     map_err ServiceDiscovery (lookup_partitioned_topic number lookup topic)"

definition pulsar_consumer :: consumer_builder where
  "pulsar_consumer = consumer_builder_new"

definition pulsar_producer :: producer_builder where
  "pulsar_producer = producer_builder_new"

section \<open>Sending\<close>

text \<open>
  Sending a value: the queue of the task takes the message and the caller gets a future, named by its
  number; or the task is gone.
\<close>

definition pulsar_send :: "bool \<Rightarrow> (error, message_in) result \<Rightarrow> string \<Rightarrow> nat \<Rightarrow>
    (error, string \<times> message_in \<times> nat) result" where
  "pulsar_send task_alive serialized topic resolver =
     rbind serialized (\<lambda>m.
       if task_alive then Inr (topic, m, resolver)
       else Inl (Custom ''producer unexpectedly disconnected''))"

text \<open>
  The task: its producers, the numbers it may use and the network; the messages whose receipt is awaited,
  each the caller's future with that of the producer; the answers given; whether it has panicked.
\<close>

record run_producer =
  rp_multi :: multi_topic_producer
  rp_gen :: u64
  rp_net :: net
  rp_waiting :: "(nat \<times> nat) list"
  rp_answers :: "(nat \<times> (error, command_send_receipt) result answer) list"
  rp_alive :: bool

definition run_producer_init :: "producer_builder \<Rightarrow> u64 \<Rightarrow> net \<Rightarrow> run_producer" where
  "run_producer_init bd gen net =
     \<lparr>rp_multi = build_multi_topic bd, rp_gen = gen, rp_net = net, rp_waiting = [], rp_answers = [],
      rp_alive = True\<rparr>"

text \<open>What sending one message meets, and whether the runtime took the task that awaits its receipt.\<close>

record submit_env =
  sb_route :: route_env
  sb_refresh :: refresh_env
  sb_build :: build_env
  sb_raw :: raw_env
  sb_spawned :: bool

text \<open>
  The events: the task takes a message from its queue; a receipt, or the loss of it, reaches those who await
  it; the operation timeout of a message is over.
\<close>

datatype client_event = Submit nat string message_in submit_env
  | Settled nat "(error, command_send_receipt) result answer"
  | Delay_over nat

definition client_timeout :: error where
  "client_timeout =
     Connection (Io TimedOut ''client sink timed out when sending message to the Pulsar server'')"

definition submit_message :: "nat \<Rightarrow> string \<Rightarrow> message_in \<Rightarrow> submit_env \<Rightarrow> run_producer \<Rightarrow> run_producer" where
  "submit_message r topic m env t =
     (if \<not> rp_alive t then t\<lparr>rp_answers := rp_answers t @ [(r, Canceled)]\<rparr>
      else case multi_send_non_blocking (sb_route env) (sb_refresh env) (sb_build env) (sb_raw env) topic (Inr m)
                  (rp_multi t) (rp_gen t) (rp_net t) of
        (res, mp, gen, net) \<Rightarrow>
          (let t1 = t\<lparr>rp_multi := mp, rp_gen := gen, rp_net := net\<rparr>
           in case res of
                None \<Rightarrow> t1\<lparr>rp_alive := False, rp_answers := rp_answers t @ [(r, Canceled)]\<rparr>
              | Some (Inl e) \<Rightarrow> t1\<lparr>rp_answers := rp_answers t @ [(r, Answered (Inl e))]\<rparr>
              | Some (Inr fut) \<Rightarrow>
                  (if sb_spawned env then t1\<lparr>rp_waiting := rp_waiting t @ [(r, fut)]\<rparr>
                   else t1\<lparr>rp_answers := rp_answers t @ [(r, Canceled)]\<rparr>)))"

definition give_answers :: "((nat \<times> nat) \<Rightarrow> bool) \<Rightarrow> (error, command_send_receipt) result \<Rightarrow>
    run_producer \<Rightarrow> run_producer" where
  "give_answers which res t =
     t\<lparr>rp_waiting := filter (\<lambda>w. \<not> which w) (rp_waiting t),
       rp_answers := rp_answers t @ map (\<lambda>w. (fst w, Answered res)) (filter which (rp_waiting t))\<rparr>"

fun client_step :: "client_event \<Rightarrow> run_producer \<Rightarrow> run_producer" where
  "client_step (Submit r topic m env) t = submit_message r topic m env t"
| "client_step (Settled fut a) t =
     (case send_future_poll (Some a) of
        None \<Rightarrow> t
      | Some res \<Rightarrow> give_answers (\<lambda>w. snd w = fut) res t)"
| "client_step (Delay_over r) t = give_answers (\<lambda>w. fst w = r) (Inl client_timeout) t"

definition client_run :: "client_event list \<Rightarrow> run_producer \<Rightarrow> run_producer" where
  "client_run evs t = fold client_step evs t"

section \<open>What is shown\<close>

text \<open>The messages given to the task, in order.\<close>

fun submitted :: "client_event list \<Rightarrow> nat list" where
  "submitted [] = []"
| "submitted (Submit r topic m env # evs) = r # submitted evs"
| "submitted (ev # evs) = submitted evs"

text \<open>Every message's timeout is over by the end.\<close>

fun delays_over :: "client_event list \<Rightarrow> bool" where
  "delays_over [] = True"
| "delays_over (Submit r topic m env # evs) = (Delay_over r \<in> set evs \<and> delays_over evs)"
| "delays_over (ev # evs) = delays_over evs"

definition accounted :: "run_producer \<Rightarrow> nat multiset" where
  "accounted t = mset (map fst (rp_answers t)) + mset (map fst (rp_waiting t))"

lemma give_answers_accounted: "accounted (give_answers which res t) = accounted t"
proof -
  have "mset (map fst (filter which ws)) + mset (map fst (filter (\<lambda>w. \<not> which w) ws)) = mset (map fst ws)"
    for ws :: "(nat \<times> nat) list"
    by (induction ws) auto
  from this [of "rp_waiting t"] show ?thesis
    by (simp add: accounted_def give_answers_def comp_def)
qed

lemma submit_accounted: "accounted (submit_message r topic m env t) = add_mset r (accounted t)"
  by (auto simp: accounted_def submit_message_def Let_def split: prod.split option.split sum.split)

lemma run_accounted: "accounted (client_run evs t) = mset (submitted evs) + accounted t"
proof (induction evs arbitrary: t)
  case (Cons ev evs)
  then show ?case
    by (cases ev)
       (simp_all add: client_run_def give_answers_accounted submit_accounted split: option.split)
qed (simp add: client_run_def)

definition awaited :: "run_producer \<Rightarrow> nat set" where
  "awaited t = fst ` set (rp_waiting t)"

lemma waiting_step:
  "awaited (client_step ev t)
    \<subseteq> (case ev of Submit r topic m env \<Rightarrow> insert r (awaited t)
       | Settled fut a \<Rightarrow> awaited t
       | Delay_over r \<Rightarrow> awaited t - {r})"
  by (cases ev)
     (auto simp: awaited_def give_answers_def submit_message_def Let_def
           split: prod.splits option.splits sum.splits if_splits)

lemma run_waiting:
  assumes "delays_over evs" and "\<forall>r \<in> awaited t. Delay_over r \<in> set evs"
  shows "rp_waiting (client_run evs t) = []"
  using assms
proof (induction evs arbitrary: t)
  case Nil
  then show ?case by (simp add: client_run_def awaited_def)
next
  case (Cons ev evs)
  have "rp_waiting (client_run evs (client_step ev t)) = []"
  proof (rule Cons.IH)
    show "delays_over evs" using Cons.prems(1) by (cases ev) auto
    show "\<forall>r \<in> awaited (client_step ev t). Delay_over r \<in> set evs"
      using Cons.prems waiting_step [of ev t] by (cases ev) (auto simp del: client_step.simps)
  qed
  then show ?case by (simp add: client_run_def)
qed

text \<open>Where an answer with a receipt comes from.\<close>

lemma run_receipts:
  assumes "(r, Answered (Inr receipt)) \<in> set (rp_answers (client_run evs t))"
  shows "(r, Answered (Inr receipt)) \<in> set (rp_answers t)
    \<or> (\<exists>fut. Settled fut (Answered (Inr receipt)) \<in> set evs)"
  using assms
proof (induction evs arbitrary: t)
  case (Cons ev evs)
  then have "(r, Answered (Inr receipt)) \<in> set (rp_answers (client_step ev t))
      \<or> (\<exists>fut. Settled fut (Answered (Inr receipt)) \<in> set evs)"
    by (simp add: client_run_def)
  moreover have "(r, Answered (Inr receipt)) \<in> set (rp_answers t)
      \<or> (\<exists>fut. ev = Settled fut (Answered (Inr receipt)))"
    if "(r, Answered (Inr receipt)) \<in> set (rp_answers (client_step ev t))"
  proof (cases ev)
    case (Submit r' topic m env)
    with that show ?thesis
      by (auto simp: submit_message_def Let_def split: prod.splits option.splits sum.splits if_splits)
  next
    case (Settled fut a)
    with that show ?thesis
      by (cases a) (auto simp: give_answers_def split: option.splits)
  next
    case (Delay_over r')
    with that show ?thesis by (auto simp: give_answers_def)
  qed
  ultimately show ?case by auto
qed (simp add: client_run_def)


definition example_submit_env :: submit_env where
  "example_submit_env =
     \<lparr>sb_route = example_route_env, sb_refresh = example_refresh_env, sb_build = example_build_env,
      sb_raw = example_raw_env, sb_spawned = True\<rparr>"

definition example_client_events :: "client_event list" where
  "example_client_events =
     [Submit 3 ''t'' message_default example_submit_env, Submit 4 ''u'' message_default example_submit_env,
      Settled 6 Canceled, Delay_over 3, Delay_over 4]"


text \<open>A string is read as it was sent.\<close>

theorem strings_are_read_back:
  "from_utf8 (as_bytes s) = Some s \<Longrightarrow> m_payload (serialize_string s) = Some bs \<Longrightarrow>
    deserialize_string \<lparr>pl_metadata = md, pl_data = bs\<rparr> = Some s"
  by (auto simp: serialize_string_def deserialize_string_def)

text \<open>The TLS setters do not disturb each other, and none but its own weakens what is checked.\<close>

definition effective_tls :: "'s pulsar_builder \<Rightarrow> tls_options" where
  "effective_tls b = (case pb_tls_options b of Some tls \<Rightarrow> tls | None \<Rightarrow> tls_options_default)"

theorem tls_setters_are_independent:
  "effective_tls (with_certificate_chain chain b) = (effective_tls b)\<lparr>to_certificate_chain := Some chain\<rparr>"
  "effective_tls (with_allow_insecure_connection allow b) = (effective_tls b)\<lparr>to_allow_insecure_connection := allow\<rparr>"
  "effective_tls (with_tls_hostname_verification_enabled enabled b)
     = (effective_tls b)\<lparr>to_hostname_verification_enabled := enabled\<rparr>"
  "effective_tls (with_client_identity chain key b)
     = (effective_tls b)\<lparr>to_client_identity := Some \<lparr>ci_certificate_chain = chain, ci_private_key = key\<rparr>\<rparr>"
  by (auto simp: effective_tls_def with_certificate_chain_def with_allow_insecure_connection_def
        with_tls_hostname_verification_enabled_def with_client_identity_def Let_def split: option.split)

text \<open>
  A client that was given no TLS option checks everything: whatever connection to a \<open>pulsar+ssl\<close> URL
  comes about is encrypted, and neither an invalid certificate nor a wrong host name was accepted.
\<close>

theorem clients_check_everything_by_default:
  fixes u :: string
  defines "tls \<equiv> effective_tls (pulsar_builder_of u :: unit pulsar_builder)"
  assumes "connection_new ''pulsar+ssl'' addresses
      (dial ft kind env host chain (to_allow_insecure_connection tls) (to_hostname_verification_enabled tls)
        (to_client_identity tls) handshake late) = Inr c"
  shows "\<exists>t. handshake (Framed kind t) = Inr c \<and> (\<forall>s. t \<noteq> Plain s)
    \<and> (\<forall>config h s. t = Native_stream config h s \<longrightarrow>
         \<not> nc_accept_invalid_certs config \<and> \<not> nc_accept_invalid_hostnames config \<and> nc_identity config = None)"
proof -
  have "\<not> to_allow_insecure_connection tls" "to_hostname_verification_enabled tls" "to_client_identity tls = None"
    by (simp_all add: tls_def effective_tls_def pulsar_builder_of_def tls_options_default_def)
  with connection_new_verified [OF assms(2)] show ?thesis
    by (fastforce simp: verified_def split: transport.splits)
qed

end
