(* ===== verification/Handles.thy ===== *)
theory Handles
  imports Producer Multi_Consumer
begin

text \<open>
  What an application does with whole handles: operations of a partitioned producer that reach
  every partition, a list of messages on one topic of a \<open>MultiTopicProducer\<close>, the sends that
  await their receipt (\<open>producer.rs\<close>), the connections of a consumer (\<open>consumer/mod.rs\<close>,
  \<open>reader.rs\<close>), and the setters of the builders and options. A result \<open>None\<close> is a call that does
  not return.
\<close>

section \<open>Setters\<close>

definition partition_key_of_string :: "string \<Rightarrow> partition_key" where
  "partition_key_of_string key = Text key"

definition partition_key_of_bytes :: "byte list \<Rightarrow> partition_key" where
  "partition_key_of_bytes key = Bytes key"

definition producer_with_topic :: "string \<Rightarrow> producer_builder \<Rightarrow> producer_builder" where
  "producer_with_topic topic bd = bd\<lparr>bd_topic := Some topic\<rparr>"

definition with_partition_refresh :: "duration \<Rightarrow> producer_builder \<Rightarrow> producer_builder" where
  "with_partition_refresh interval bd = bd\<lparr>bd_partition_refresh := Some interval\<rparr>"

definition without_partition_refresh :: "producer_builder \<Rightarrow> producer_builder" where
  "without_partition_refresh bd = bd\<lparr>bd_partition_refresh := None\<rparr>"

definition producer_with_options :: "producer_options \<Rightarrow> producer_builder \<Rightarrow> producer_builder" where
  "producer_with_options options bd = bd\<lparr>bd_producer_options := Some options\<rparr>"

definition with_partition_key :: "partition_key \<Rightarrow> message_builder \<Rightarrow> message_builder" where
  "with_partition_key key mb = mb\<lparr>mb_partition_key := Some key\<rparr>"

definition with_key :: "partition_key \<Rightarrow> message_builder \<Rightarrow> message_builder" where
  "with_key key mb = mb\<lparr>mb_partition_key := Some key\<rparr>"

definition with_ordering_key :: "byte list \<Rightarrow> message_builder \<Rightarrow> message_builder" where
  "with_ordering_key key mb = mb\<lparr>mb_ordering_key := Some key\<rparr>"

definition with_event_time :: "u64 \<Rightarrow> message_builder \<Rightarrow> message_builder" where
  "with_event_time t mb = mb\<lparr>mb_event_time := Some t\<rparr>"

definition with_priority_level :: "i32 \<Rightarrow> consumer_options \<Rightarrow> consumer_options" where
  "with_priority_level level c = c\<lparr>co_priority_level := Some level\<rparr>"

definition options_durable :: "bool \<Rightarrow> consumer_options \<Rightarrow> consumer_options" where
  "options_durable b c = c\<lparr>co_durable := Some b\<rparr>"

definition with_metadata :: "(string \<times> string) list \<Rightarrow> consumer_options \<Rightarrow> consumer_options" where
  "with_metadata md c = c\<lparr>co_metadata := md\<rparr>"

definition options_read_compacted :: "bool \<Rightarrow> consumer_options \<Rightarrow> consumer_options" where
  "options_read_compacted b c = c\<lparr>co_read_compacted := Some b\<rparr>"

definition with_schema :: "schema \<Rightarrow> consumer_options \<Rightarrow> consumer_options" where
  "with_schema s c = c\<lparr>co_schema := Some s\<rparr>"

definition with_initial_position :: "initial_position \<Rightarrow> consumer_options \<Rightarrow> consumer_options" where
  "with_initial_position p c = c\<lparr>co_initial_position := p\<rparr>"

section \<open>Operations that reach every partition\<close>

definition sender_options :: "topic_sender \<Rightarrow> producer_options" where
  "sender_options p =
     (case p of Single_producer tp \<Rightarrow> tp_options tp | Partitioned_producer pp \<Rightarrow> pp_options pp)"

text \<open>
  \<open>try_join_all\<close> over the partitions: each call runs in order up to where it waits. One that
  \<open>fails\<close> before it waits ends the join there, and the partitions after it are not reached. A
  result \<open>None\<close> is a call that had not finished when the join ended.
\<close>

fun join_each :: "(topic_producer \<Rightarrow> net \<Rightarrow> bool) \<Rightarrow>
    (topic_producer \<Rightarrow> net \<Rightarrow> (error, unit) result option \<times> topic_producer \<times> net) \<Rightarrow>
    topic_producer list \<Rightarrow> net \<Rightarrow> (error, unit) result option list \<times> topic_producer list \<times> net" where
  "join_each fails call [] net = ([], [], net)"
| "join_each fails call (p # ps) net =
     (case call p net of
        (r, p1, net1) \<Rightarrow>
          if fails p net then ([r], p1 # ps, net1)
          else (case join_each fails call ps net1 of (rs, ps1, net2) \<Rightarrow> (r # rs, p1 # ps1, net2)))"

definition on_partitions :: "(topic_producer \<Rightarrow> net \<Rightarrow> bool) \<Rightarrow>
    (topic_producer \<Rightarrow> net \<Rightarrow> (error, unit) result option \<times> topic_producer \<times> net) \<Rightarrow>
    topic_sender \<Rightarrow> net \<Rightarrow> (error, unit) result option \<times> topic_sender \<times> net" where
  "on_partitions fails call p net =
     (case p of
        Single_producer tp \<Rightarrow> (case call tp net of (r, tp1, net1) \<Rightarrow> (r, Single_producer tp1, net1))
      | Partitioned_producer pp \<Rightarrow>
          (case join_each fails call (pp_producers pp) net of
             (rs, ps, net1) \<Rightarrow>
               (map_option (rmap (\<lambda>_. ())) (try_join_opt rs), Partitioned_producer (pp\<lparr>pp_producers := ps\<rparr>), net1)))"

text \<open>Whether a command on the connection of a producer is refused at once.\<close>

definition refused_at_once :: "topic_producer \<Rightarrow> net \<Rightarrow> bool" where
  "refused_at_once p net \<longleftrightarrow>
     \<not> sn_receiver_open (net (ss_conn (tp_state p))) \<or> \<not> sn_sink_open (net (ss_conn (tp_state p)))"

text \<open>
  Per topic: the number of the request and what becomes of it. A request without an answer is one
  that was sent, and then dropped or never answered; what a good answer would say plays no part
  in what its sending does.
\<close>

definition sender_check_connection :: "(string \<Rightarrow> nat \<times> unit answer option) \<Rightarrow> topic_sender \<Rightarrow> net \<Rightarrow>
    (error, unit) result option \<times> topic_sender \<times> net" where
  "sender_check_connection env =
     on_partitions refused_at_once
       (\<lambda>p net. case env (tp_topic p) of
          (ch, Some ans) \<Rightarrow> (case topic_check_connection ch ans p net of (r, net1) \<Rightarrow> (Some r, p, net1))
        | (ch, None) \<Rightarrow>
            (case topic_check_connection ch (Answered ()) p net of
               (r, net1) \<Rightarrow> (if refused_at_once p net then Some r else None, p, net1)))"

definition sender_send_batch :: "(string \<Rightarrow> nat \<times> bool) \<Rightarrow> topic_sender \<Rightarrow> net \<Rightarrow>
    (error, unit) result option \<times> topic_sender \<times> net" where
  "sender_send_batch env =
     on_partitions (\<lambda>p net. tp_batch p = None)
       (\<lambda>p net. case env (tp_topic p) of
          (tx, answered) \<Rightarrow> (case topic_send_batch tx answered p of (r, p1) \<Rightarrow> (r, p1, net)))"

record close_env =
  ce_resolver :: nat
  ce_answer :: "raw_message answer option"
  ce_closed :: "(connection_error, command_success) result option option"

definition sender_close :: "(string \<Rightarrow> close_env) \<Rightarrow> topic_sender \<Rightarrow> net \<Rightarrow>
    (error, unit) result option \<times> topic_sender \<times> net" where
  "sender_close env =
     on_partitions (\<lambda>p net. tp_batch p = None \<and> refused_at_once p net)
       (\<lambda>p net. let ce = env (tp_topic p)
          in case ce_answer ce of
               Some ans \<Rightarrow> topic_close (ce_resolver ce) ans (ce_closed ce) p net
             | None \<Rightarrow>
                 (case topic_close (ce_resolver ce) (Answered msg_pong) (ce_closed ce) p net of
                    (r, p1, net1) \<Rightarrow> (if tp_batch p = None \<and> \<not> refused_at_once p net then None else r, p1, net1)))"

section \<open>Sends that await their receipt\<close>

text \<open>
  What such a send returns: its own future again, resolved. \<open>outcome\<close> gives for each channel what
  became of it in the end.
\<close>

type_synonym receipt = "(error, command_send_receipt) result answer"

definition resolved_future :: "(nat \<Rightarrow> receipt option) \<Rightarrow> (error, nat) result option \<Rightarrow>
    (error, receipt) result option" where
  "resolved_future outcome r =
     (case r of
        None \<Rightarrow> None
      | Some (Inl e) \<Rightarrow> Some (Inl e)
      | Some (Inr ch) \<Rightarrow> map_option (\<lambda>x. Inr (Answered x)) (send_future_poll (outcome ch)))"

definition blocking_send :: "(nat \<Rightarrow> receipt option) \<Rightarrow> route_env \<Rightarrow> refresh_env \<Rightarrow> raw_env \<Rightarrow>
    (error, message_in) result \<Rightarrow> topic_sender \<Rightarrow> net \<Rightarrow> (error, receipt) result option \<times> topic_sender \<times> net" where
  "blocking_send outcome re rf env serialized p net =
     (case send_non_blocking re rf env serialized p net of
        (r, p1, net1) \<Rightarrow> (resolved_future outcome r, p1, net1))"

definition message_builder_blocking_send :: "(nat \<Rightarrow> receipt option) \<Rightarrow> route_env \<Rightarrow> refresh_env \<Rightarrow> raw_env \<Rightarrow>
    (error, message_in) result \<Rightarrow> message_builder \<Rightarrow> topic_sender \<Rightarrow> net \<Rightarrow>
    (error, receipt) result option \<times> topic_sender \<times> net" where
  "message_builder_blocking_send outcome re rf env serialized mb p net =
     (case message_builder_send re rf env serialized mb p net of
        (r, p1, net1) \<Rightarrow> (resolved_future outcome r, p1, net1))"

section \<open>Many topics, many messages\<close>

text \<open>The keys of a \<open>BTreeMap\<close>, in order.\<close>

definition multi_producer_topics :: "multi_topic_producer \<Rightarrow> string list" where
  "multi_producer_topics mp = sort (map fst (mp_producers mp))"

text \<open>Each message with what its serialization gives and what its send meets.\<close>

record topic_job =
  tj_refresh :: refresh_env
  tj_build :: build_env
  tj_raw :: raw_env
  tj_serialized :: "(error, message_in) result"

type_synonym multi_state = "multi_topic_producer \<times> u64 \<times> net"

definition multi_job :: "route_env \<Rightarrow> string \<Rightarrow> topic_job \<Rightarrow> multi_state \<Rightarrow>
    (error, nat) result option \<times> multi_state" where
  "multi_job re topic j s =
     (case s of (mp, gen, net) \<Rightarrow>
        multi_send_non_blocking re (tj_refresh j) (tj_build j) (tj_raw j) topic (tj_serialized j) mp gen net)"

fun multi_jobs :: "route_env \<Rightarrow> string \<Rightarrow> topic_job list \<Rightarrow> multi_state \<Rightarrow>
    (error + nat) list option \<times> multi_state" where
  "multi_jobs re topic [] s = (Some [], s)"
| "multi_jobs re topic (j # js) s =
     (case multi_job re topic j s of
        (None, s1) \<Rightarrow> (None, s1)
      | (Some r, s1) \<Rightarrow> (case multi_jobs re topic js s1 of (rs, s2) \<Rightarrow> (map_option ((#) r) rs, s2)))"

definition multi_send_all_non_blocking :: "route_env \<Rightarrow> string \<Rightarrow> topic_job list \<Rightarrow> multi_state \<Rightarrow>
    (error, nat list) result option \<times> multi_state" where
  "multi_send_all_non_blocking re topic js s =
     (case multi_jobs re topic js s of (sends, s1) \<Rightarrow> (map_option collect_sends sends, s1))"

definition multi_send :: "(nat \<Rightarrow> receipt option) \<Rightarrow> route_env \<Rightarrow> string \<Rightarrow> topic_job \<Rightarrow> multi_state \<Rightarrow>
    (error, receipt) result option \<times> multi_state" where
  "multi_send outcome re topic j s =
     (case multi_job re topic j s of (r, s1) \<Rightarrow> (resolved_future outcome r, s1))"

fun multi_send_all :: "(nat \<Rightarrow> receipt option) \<Rightarrow> route_env \<Rightarrow> string \<Rightarrow> topic_job list \<Rightarrow> multi_state \<Rightarrow>
    (error, receipt list) result option \<times> multi_state" where
  "multi_send_all outcome re topic [] s = (Some (Inr []), s)"
| "multi_send_all outcome re topic (j # js) s =
     (case multi_send outcome re topic j s of
        (None, s1) \<Rightarrow> (None, s1)
      | (Some (Inl e), s1) \<Rightarrow> (Some (Inl e), s1)
      | (Some (Inr f), s1) \<Rightarrow>
          (case multi_send_all outcome re topic js s1 of (rs, s2) \<Rightarrow> (map_option (rmap ((#) f)) rs, s2)))"

section \<open>The connections of a consumer\<close>

text \<open>
  \<open>response\<close> is the connection the engine of a topic answers with, \<open>url\<close> that of a connection.
  The engine that is gone ends the join before the topics after it are asked.
\<close>

fun connect_each :: "(string \<Rightarrow> nat option) \<Rightarrow> (string \<times> topic_consumer) list \<Rightarrow>
    (error, nat) result list \<times> (string \<times> topic_consumer) list" where
  "connect_each response [] = ([], [])"
| "connect_each response ((t, c) # cs) =
     (case tc_connection (response t) c of
        (r, c1) \<Rightarrow>
          if \<not> tc_engine_open c then ([r], (t, c1) # cs)
          else (case connect_each response cs of (rs, cs1) \<Rightarrow> (r # rs, (t, c1) # cs1)))"

definition consumer_connections :: "(nat \<Rightarrow> string) \<Rightarrow> (string \<Rightarrow> nat option) \<Rightarrow> inner_consumer \<Rightarrow>
    (error, string list) result \<times> inner_consumer" where
  "consumer_connections url response =
     on_inner
       (\<lambda>tc. case tc_connection (response (tc_topic tc)) tc of (r, tc1) \<Rightarrow> (rmap (\<lambda>n. [url n]) r, tc1))
       (\<lambda>mc. case connect_each response (mc_consumers mc) of
          (rs, cs) \<Rightarrow> (rmap (\<lambda>ns. remdups (sort (map url ns))) (try_join_all rs), mc\<lparr>mc_consumers := cs\<rparr>))"

definition reader_connections :: "(nat \<Rightarrow> string) \<Rightarrow> nat option \<Rightarrow> reader \<Rightarrow>
    (error, string) result \<times> reader" where
  "reader_connections url response rd =
     (case tc_connection response (rd_consumer rd) of
        (r, tc1) \<Rightarrow> (rmap url r, rd\<lparr>rd_consumer := tc1\<rparr>))"

definition consumer_dead_letter_policy :: "inner_consumer \<Rightarrow> dead_letter_policy option" where
  "consumer_dead_letter_policy c = cc_dead_letter_policy (inner_config c)"

definition consumer_subscription :: "inner_consumer \<Rightarrow> string" where
  "consumer_subscription c = cc_subscription (inner_config c)"

definition consumer_consumer_name :: "inner_consumer \<Rightarrow> string option" where
  "consumer_consumer_name c = cc_consumer_name (inner_config c)"

section \<open>What they do\<close>

lemma multi_jobs_states:
  "multi_jobs re topic js s = (Some sends, s') \<Longrightarrow>
    \<exists>states. length sends = length js \<and> length states = Suc (length js) \<and> hd states = s \<and> last states = s'
      \<and> (\<forall>i<length js. multi_job re topic (js ! i) (states ! i) = (Some (sends ! i), states ! Suc i))"
proof (induction js arbitrary: s sends)
  case Nil
  then show ?case by (intro exI [of _ "[s]"]) auto
next
  case (Cons j js)
  obtain o1 s1 where one: "multi_job re topic j s = (o1, s1)" by (meson surj_pair)
  obtain o2 s2 where rest: "multi_jobs re topic js s1 = (o2, s2)" by (meson surj_pair)
  from Cons.prems one rest obtain r rs where r: "o1 = Some r" "o2 = Some rs" "sends = r # rs" "s2 = s'"
    by (auto split: option.splits)
  from Cons.IH [OF rest [unfolded r(2,4)]] obtain states where st: "length rs = length js"
    "length states = Suc (length js)" "hd states = s1" "last states = s'"
    "\<forall>i<length js. multi_job re topic (js ! i) (states ! i) = (Some (rs ! i), states ! Suc i)"
    by blast
  then have "states ! 0 = s1" by (cases states) auto
  with st one r show ?case
    by (intro exI [of _ "s # states"]) (auto simp: less_Suc_eq_0_disj)
qed

lemma multi_job_serialized:
  "tj_serialized j = Inl e \<Longrightarrow> multi_job re topic j s = (Some (Inl e), s)"
  by (cases s) (simp add: multi_job_def multi_send_non_blocking_def)

text \<open>
  Sending a list of messages on a topic tells what became of every message: each is sent in turn,
  on what the ones before it left, and a message that cannot be serialized, whose producer cannot
  be built or whose send is refused does not keep those after it from being sent. The call
  answers with the futures of all of them, or with one error that holds the outcome of each in
  order.
\<close>

theorem multi_send_all_reports_every_message:
  assumes "multi_send_all_non_blocking re topic js s = (Some r, s')"
  shows "\<exists>sends states. length sends = length js \<and> length states = Suc (length js)
    \<and> hd states = s \<and> last states = s'
    \<and> (\<forall>i<length js. multi_job re topic (js ! i) (states ! i) = (Some (sends ! i), states ! Suc i))
    \<and> (\<forall>i<length js. \<forall>e. tj_serialized (js ! i) = Inl e \<longrightarrow> sends ! i = Inl e)
    \<and> r = (if \<forall>x\<in>set sends. is_ok x then Inr (map projr sends) else Inl (Producer (PartialSend sends)))"
proof -
  from assms obtain sends where sends: "multi_jobs re topic js s = (Some sends, s')" "r = collect_sends sends"
    by (auto simp: multi_send_all_non_blocking_def split: prod.splits)
  from multi_jobs_states [OF sends(1)] obtain states where "length sends = length js"
    "length states = Suc (length js)" "hd states = s" "last states = s'"
    and steps: "\<forall>i<length js. multi_job re topic (js ! i) (states ! i) = (Some (sends ! i), states ! Suc i)"
    by blast
  moreover have "sends ! i = Inl e" if "i < length js" "tj_serialized (js ! i) = Inl e" for i e
    using steps that by (auto simp: multi_job_serialized)
  ultimately show ?thesis
    using sends(2) by (intro exI [of _ sends] exI [of _ states]) (auto simp: collect_sends_def list_all_iff)
qed

text \<open>
  What sending does to the producers: they keep their topics, only the producer of this topic
  changes, a message that was accepted left its producer there, and no number is used up while
  there is one.
\<close>

definition one_per_topic :: "string \<Rightarrow> multi_state \<Rightarrow> multi_state \<Rightarrow> bool" where
  "one_per_topic topic s s' \<longleftrightarrow>
     (case (s, s') of ((mp, gen, net), (mp', gen', net')) \<Rightarrow>
        mp_options mp' = mp_options mp
        \<and> (distinct (map fst (mp_producers mp)) \<longrightarrow> distinct (map fst (mp_producers mp')))
        \<and> dom (map_of (mp_producers mp)) \<subseteq> dom (map_of (mp_producers mp'))
        \<and> dom (map_of (mp_producers mp')) \<subseteq> insert topic (dom (map_of (mp_producers mp)))
        \<and> (\<forall>t. t \<noteq> topic \<longrightarrow> map_of (mp_producers mp') t = map_of (mp_producers mp) t)
        \<and> (map_of (mp_producers mp) topic \<noteq> None \<longrightarrow> gen' = gen))"

lemma one_per_topic_refl: "one_per_topic topic s s"
  by (auto simp: one_per_topic_def split: prod.splits)

lemma one_per_topic_trans:
  "one_per_topic topic s1 s2 \<Longrightarrow> one_per_topic topic s2 s3 \<Longrightarrow> one_per_topic topic s1 s3"
proof -
  assume steps: "one_per_topic topic s1 s2" "one_per_topic topic s2 s3"
  obtain mp1 g1 n1 mp2 g2 n2 mp3 g3 n3 where s: "s1 = (mp1, g1, n1)" "s2 = (mp2, g2, n2)" "s3 = (mp3, g3, n3)"
    by (metis surj_pair)
  note step1 = steps(1) [unfolded one_per_topic_def s prod.case] and step2 = steps(2) [unfolded one_per_topic_def s prod.case]
  have "dom (map_of (mp_producers mp1)) \<subseteq> dom (map_of (mp_producers mp3))"
    by (rule order_trans [of _ "dom (map_of (mp_producers mp2))"]) (use step1 step2 in simp_all)
  moreover have "dom (map_of (mp_producers mp3)) \<subseteq> insert topic (dom (map_of (mp_producers mp1)))"
  proof -
    have "dom (map_of (mp_producers mp3)) \<subseteq> insert topic (dom (map_of (mp_producers mp2)))" using step2 by simp
    also have "\<dots> \<subseteq> insert topic (insert topic (dom (map_of (mp_producers mp1))))"
      by (rule insert_mono) (use step1 in simp)
    finally show ?thesis by simp
  qed
  moreover have "g3 = g1" if "map_of (mp_producers mp1) topic \<noteq> None"
  proof -
    from that step1 have "map_of (mp_producers mp2) topic \<noteq> None" "g2 = g1" by auto
    with step2 show ?thesis by simp
  qed
  ultimately show ?thesis
    using step1 step2 unfolding one_per_topic_def s prod.case by simp
qed

lemma one_per_topic_update:
  "one_per_topic topic (mp, gen, net) (mp\<lparr>mp_producers := AList.update topic p (mp_producers mp)\<rparr>, gen', net')"
  if "map_of (mp_producers mp) topic \<noteq> None \<longrightarrow> gen' = gen"
  using that by (auto simp: one_per_topic_def update_conv' distinct_update split: if_splits)

lemma multi_job_one_per_topic:
  assumes "multi_job re topic j s = (r, s')"
  shows "one_per_topic topic s s' \<and> (\<forall>ch. r = Some (Inr ch) \<longrightarrow> map_of (mp_producers (fst s')) topic \<noteq> None)"
proof -
  obtain mp gen net where s: "s = (mp, gen, net)" by (cases s)
  have sent: "\<exists>p1 net1. s' = (mp\<lparr>mp_producers := AList.update topic p1 (mp_producers mp)\<rparr>, gen1, net1)"
    if "(case multi_send_with re rf env topic m p mp net of (r, mp1, net1) \<Rightarrow> (r, mp1, gen1, net1)) = (r, s')"
    for rf env m p gen1
    using that by (auto simp: multi_send_with_def Let_def split: prod.splits)
  have failed: ?thesis if "s' = (mp, gen1, net)" "\<forall>ch. r \<noteq> Some (Inr ch)"
    "map_of (mp_producers mp) topic \<noteq> None \<longrightarrow> gen1 = gen" for gen1
    using that by (auto simp: s one_per_topic_def)
  have updated: ?thesis if "s' = (mp\<lparr>mp_producers := AList.update topic p1 (mp_producers mp)\<rparr>, gen1, net1)"
    "map_of (mp_producers mp) topic \<noteq> None \<longrightarrow> gen1 = gen" for p1 gen1 net1
    unfolding s that(1) using one_per_topic_update [OF that(2)] by (simp add: update_conv')
  note job = assms [unfolded s multi_job_def multi_send_non_blocking_def Let_def prod.case]
  show ?thesis
  proof (cases "tj_serialized j")
    case (Inl e)
    with job show ?thesis by (intro failed [of gen]) auto
  next
    case (Inr m)
    note message = Inr
    show ?thesis
    proof (cases "map_of (mp_producers mp) topic")
      case (Some p)
      with job message have "(case multi_send_with re (tj_refresh j) (tj_raw j) topic m p mp net of
          (r, mp1, net1) \<Rightarrow> (r, mp1, gen, net1)) = (r, s')" by simp
      from sent [OF this] show ?thesis using updated by blast
    next
      case None
      obtain b gen1 where built: "producer_build (tj_build j) gen (producer_builder_new
          \<lparr>bd_topic := Some topic, bd_producer_options := Some (mp_options mp)\<rparr>) = (b, gen1)"
        by (meson surj_pair)
      show ?thesis
      proof (cases "\<exists>p. b = Some (Inr p)")
        case True
        then obtain p where "b = Some (Inr p)" by blast
        with job message None built have "(case multi_send_with re (tj_refresh j) (tj_raw j) topic m p mp net of
            (r, mp1, net1) \<Rightarrow> (r, mp1, gen1, net1)) = (r, s')" by simp
        from sent [OF this] show ?thesis using updated None by blast
      next
        case False
        with job message None built show ?thesis
          by (intro failed [of gen1]) (auto split: option.splits sum.splits)
      qed
    qed
  qed
qed

lemma multi_jobs_one_per_topic:
  "multi_jobs re topic js s = (r, s') \<Longrightarrow> one_per_topic topic s s'"
proof (induction js arbitrary: s r)
  case (Cons j js)
  obtain o1 s1 where one: "multi_job re topic j s = (o1, s1)" by (meson surj_pair)
  obtain o2 s2 where rest: "multi_jobs re topic js s1 = (o2, s2)" by (meson surj_pair)
  have first: "one_per_topic topic s s1" using multi_job_one_per_topic [OF one] by simp
  show ?case
  proof (cases o1)
    case None
    with Cons.prems one first show ?thesis by simp
  next
    case (Some x)
    with Cons.prems one rest have "s2 = s'" by simp
    with one_per_topic_trans [OF first Cons.IH] rest show ?thesis by simp
  qed
qed (simp add: one_per_topic_refl)

text \<open>
  Sending a list of messages on a topic: the topics listed are those from before and this one, in
  order and without duplicates, and the topics of others are untouched.
\<close>

theorem topics_get_one_producer_each:
  assumes "multi_send_all_non_blocking re topic js (mp, gen, net) = (r, (mp', gen', net'))"
    and "distinct (map fst (mp_producers mp))"
  shows "sorted_wrt (<) (multi_producer_topics mp')
    \<and> set (multi_producer_topics mp) \<subseteq> set (multi_producer_topics mp')
    \<and> set (multi_producer_topics mp') \<subseteq> insert topic (set (multi_producer_topics mp))
    \<and> (\<forall>t. t \<noteq> topic \<longrightarrow> map_of (mp_producers mp') t = map_of (mp_producers mp) t)
    \<and> (topic \<in> set (multi_producer_topics mp) \<longrightarrow> gen' = gen)"
proof -
  from assms(1) obtain sends where "multi_jobs re topic js (mp, gen, net) = (sends, (mp', gen', net'))"
    by (auto simp: multi_send_all_non_blocking_def split: prod.splits)
  from multi_jobs_one_per_topic [OF this] assms(2) show ?thesis
    by (simp add: one_per_topic_def multi_producer_topics_def strict_sorted_iff dom_map_of_conv_image_fst
        map_of_eq_None_iff)
qed

lemma join_each_all:
  "(\<And>p. p \<in> set ps \<Longrightarrow> \<not> fails p net \<and> call p net = (f p, g p, net)) \<Longrightarrow>
    join_each fails call ps net = (map f ps, map g ps, net)"
  by (induction ps) auto

lemma try_join_opt_units:
  "map_option (rmap (\<lambda>_. ())) (try_join_opt rs) = Some (Inr ()) \<longleftrightarrow> (\<forall>r\<in>set rs. r = Some (Inr ()))"
  for rs :: "(error + unit) option list"
proof -
  have "map_option (rmap (\<lambda>_. ())) x = Some (Inr ()) \<longleftrightarrow> (\<exists>xs. x = Some (Inr xs))" for x :: "(error + unit list) option"
    by (auto simp: rmap_Inr_iff)
  then show ?thesis
    by (auto simp: try_join_opt_Inr_iff intro!: exI [of _ "map (\<lambda>_. ()) rs"] map_idI [symmetric])
qed

lemma in_use_options:
  "in_use (Partitioned_producer pp) \<Longrightarrow> tp \<in> set (pp_producers pp) \<Longrightarrow> tp_options tp = pp_options pp"
  by (drule in_use_ok) (auto simp: sender_ok_def list_all_iff)


text \<open>
  Flushing reaches every partition that still has its batching task: each gets the request, in its
  place behind the messages it holds, and the call returns when all were answered.
\<close>

theorem flush_reaches_every_partition:
  assumes "\<forall>tp\<in>set (pp_producers pp). tp_batch tp \<noteq> None"
  shows "sender_send_batch env (Partitioned_producer pp) net =
    (if \<forall>tp\<in>set (pp_producers pp). snd (env (tp_topic tp)) then Some (Inr ()) else None,
     Partitioned_producer (pp\<lparr>pp_producers := map (\<lambda>tp. tp\<lparr>tp_batch := map_option (\<lambda>b.
       if tb_receiver b then b\<lparr>tb_items := tb_items b @ [Flush (fst (env (tp_topic tp)))]\<rparr> else b) (tp_batch tp)\<rparr>)
       (pp_producers pp)\<rparr>), net)"
proof -
  let ?ps = "pp_producers pp"
  let ?r = "\<lambda>tp. if snd (env (tp_topic tp)) then Some (Inr () :: (error, unit) result) else None"
  have each: "join_each (\<lambda>p net. tp_batch p = None)
      (\<lambda>p net. case env (tp_topic p) of
          (tx, answered) \<Rightarrow> (case topic_send_batch tx answered p of (r, p1) \<Rightarrow> (r, p1, net)))
      ?ps net
    = (map ?r ?ps, map (\<lambda>tp. tp\<lparr>tp_batch := map_option (\<lambda>b.
       if tb_receiver b then b\<lparr>tb_items := tb_items b @ [Flush (fst (env (tp_topic tp)))]\<rparr> else b) (tp_batch tp)\<rparr>) ?ps, net)"
    using assms by (intro join_each_all) (auto simp: topic_send_batch_def split: prod.splits option.splits)
  have "try_join_opt (map ?r ps) = (if \<forall>tp\<in>set ps. snd (env (tp_topic tp))
      then Some (Inr (map (\<lambda>_. ()) ps)) else None)" for ps
    by (induction ps) auto
  then show ?thesis
    unfolding sender_send_batch_def on_partitions_def each prod.case topic_sender.case by simp
qed

text \<open>
  A partition whose connection refuses at once ends \<open>close\<close> there: the partitions after it are not
  asked to close.
\<close>

lemma close_stops_at_a_refused_partition:
  assumes "tp_batch tp = None" and "refused_at_once tp net"
  shows "\<exists>e tp1 net1. sender_close env (Partitioned_producer (pp\<lparr>pp_producers := tp # tps\<rparr>)) net
    = (Some (Inl e), Partitioned_producer (pp\<lparr>pp_producers := tp1 # tps\<rparr>), net1)"
proof -
  have "\<exists>e tp1 net1. topic_close ch ans cl tp net = (Some (Inl e), tp1, net1)" for ch ans cl
    using assms
    by (auto simp: topic_close_def refused_at_once_def conn_close_producer_def serial_get_def send_message_def
        send_message_non_blocking_def register_with_def Let_def split: prod.splits)
  then obtain e tp1 net1 where "(let ce = env (tp_topic tp)
      in case ce_answer ce of
           Some ans \<Rightarrow> topic_close (ce_resolver ce) ans (ce_closed ce) tp net
         | None \<Rightarrow>
             (case topic_close (ce_resolver ce) (Answered msg_pong) (ce_closed ce) tp net of
                (r, p1, net1) \<Rightarrow> (if tp_batch tp = None \<and> \<not> refused_at_once tp net then None else r, p1, net1)))
      = (Some (Inl e), tp1, net1)"
    using assms unfolding Let_def by (cases "ce_answer (env (tp_topic tp))") fastforce+
  then show ?thesis
    using assms unfolding sender_close_def on_partitions_def
    by (intro exI [of _ e] exI [of _ tp1] exI [of _ net1]) simp
qed

section \<open>Examples\<close>

definition batching_options :: producer_options where
  "batching_options = producer_options_default\<lparr>po_batch_size := Some 5\<rparr>"

definition batching_producer :: topic_producer where
  "batching_producer =
     \<lparr>tp_publisher = \<lparr>pb_id = 0, pb_name = ''p'', pb_topic = partition_name ''t'' 0,
        pb_options = batching_options, pb_retry = operation_retry_options_default\<rparr>,
      tp_state = send_state_new 0 (Some [7]), tp_batch = Some \<lparr>tb_items = [], tb_receiver = True\<rparr>\<rparr>"

definition batching_partitioned :: "topic_producer partitioned_producer" where
  "batching_partitioned =
     \<lparr>pp_producers = [batching_producer], pp_last_used = 0, pp_topic = ''t'',
      pp_options = batching_options, pp_refresh = Some default_partition_refresh, pp_last_check = 0\<rparr>"

lemma batching_new: "topic_producer_new operation_retry_options_default 0 example_new_env
    (partition_name ''t'' 0) batching_options = Some (Inr batching_producer)"
  by (simp add: topic_producer_new_def example_new_env_def example_send_turn_def retry_create_producer_def
      create_decide_def producer_outcome_def batching_producer_def enabled_batching_def batching_options_def)

lemma batching_in_use: "in_use (Partitioned_producer batching_partitioned)"
proof -
  let ?be = "example_build_env\<lparr>be_number := Inr 1\<rparr>"
  let ?bd = "producer_with_options batching_options (producer_with_topic ''t'' producer_builder_new)"
  have "lookup_partitioned_topic (Inr 1) (\<lambda>t. Inr example_address) ''t''
      = Inr [(partition_name ''t'' 0, example_address)]"
    by (simp add: lookup_partitioned_topic_def partition_topics_def)
  then have "producer_build ?be 0 ?bd = (Some (Inr (Partitioned_producer batching_partitioned)), 1)"
    using batching_new first_partition_name [of "''t''" 0]
    by (simp add: producer_build_def example_build_env_def producer_with_options_def producer_with_topic_def
        producer_builder_new_def batching_partitioned_def default_partition_refresh_def)
  then show ?thesis
    by (rule in_use.built [where topic = "''t''" and n = 1])
      (simp_all add: producer_with_options_def producer_with_topic_def producer_builder_new_def example_build_env_def)
qed


definition example_topic_job :: "(error, message_in) result \<Rightarrow> topic_job" where
  "example_topic_job serialized = \<lparr>tj_refresh = example_refresh_env, tj_build = example_build_env,
     tj_raw = example_raw_env, tj_serialized = serialized\<rparr>"

theorem multi_send_all_reports_every_message_witness:
  "\<exists>s'. multi_send_all_non_blocking example_route_env ''t''
      [example_topic_job (Inl (Custom ''x'')), example_topic_job (Inr message_default)]
      (\<lparr>mp_producers = [(''t'', Single_producer batching_producer)], mp_options = batching_options\<rparr>, 1, example_net)
    = (Some (Inl (Producer (PartialSend [Inl (Custom ''x''), Inr 6]))), s')
    \<and> multi_producer_topics (fst s') = [''t'']"
proof -
  let ?js = "[example_topic_job (Inl (Custom ''x'')), example_topic_job (Inr message_default)]"
  let ?s = "(\<lparr>mp_producers = [(''t'', Single_producer batching_producer)], mp_options = batching_options\<rparr>, 1, example_net)"
  have "topic_send (re_b64e example_route_env) (re_codecs example_route_env) example_raw_env message_default
      batching_producer example_net = (Some (Inr 6), batching_producer\<lparr>tp_batch := Some
        \<lparr>tb_items = [SingleMessage 6 (batched_of (producer_message_from (re_b64e example_route_env) message_default))],
         tb_receiver = True\<rparr>\<rparr>, example_net)"
    by (simp add: topic_send_def send_raw_def batching_producer_def example_raw_env_def)
  then obtain mp1 where good: "multi_job example_route_env ''t'' (example_topic_job (Inr message_default)) ?s
      = (Some (Inr 6), (mp1, 1, example_net))" "map fst (mp_producers mp1) = [''t'']"
    by (simp add: multi_job_def example_topic_job_def multi_send_non_blocking_def multi_send_with_def
        send_non_blocking_def sender_send_def refreshed_def)
  have bad: "multi_job example_route_env ''t'' (example_topic_job (Inl (Custom ''x''))) ?s = (Some (Inl (Custom ''x'')), ?s)"
    by (rule multi_job_serialized) (simp add: example_topic_job_def)
  have all: "multi_send_all_non_blocking example_route_env ''t'' ?js ?s
      = (Some (Inl (Producer (PartialSend [Inl (Custom ''x''), Inr 6]))), (mp1, 1, example_net))"
    by (simp add: multi_send_all_non_blocking_def bad good(1) collect_sends_def)
  from multi_send_all_reports_every_message [OF this] all good(2) show ?thesis
    by (auto simp: multi_producer_topics_def)
qed

text \<open>A send that awaits its receipt returns a future that holds it.\<close>

lemma blocking_send_holds_its_receipt:
  assumes "blocking_send outcome re rf env serialized p net = (Some (Inr f), p1, net1)"
  shows "\<exists>ch. send_non_blocking re rf env serialized p net = (Some (Inr ch), p1, net1)
    \<and> send_future_poll (Some f) = send_future_poll (outcome ch) \<and> send_future_poll (Some f) \<noteq> None"
  using assms by (auto simp: blocking_send_def resolved_future_def split: prod.splits option.splits sum.splits)

text \<open>The URLs of the connections of a consumer are listed once each, in order.\<close>

lemma connect_each_results: "fst (connect_each response cs) = rs \<Longrightarrow> try_join_all rs = Inr ns \<Longrightarrow>
    map Some ns = map (\<lambda>(t, c). response t) cs"
proof (induction cs arbitrary: rs ns)
  case (Cons tc cs)
  obtain t c where tc: "tc = (t, c)" by (cases tc)
  obtain r c1 where one: "tc_connection (response t) c = (r, c1)" by fastforce
  obtain rs1 cs1 where rest: "connect_each response cs = (rs1, cs1)" by fastforce
  from one have gone: "\<not> tc_engine_open c \<Longrightarrow> \<exists>e. r = Inl e" and open_engine: "r = Inr n \<Longrightarrow> response t = Some n" for n
    by (auto simp: tc_connection_def send_engine_def Let_def split: if_splits option.splits sum.splits prod.splits)
  show ?case
    using Cons.IH [of rs1] Cons.prems gone open_engine
    by (auto simp: tc one rest rbind_Inr_iff split: if_splits sum.splits)
qed simp

theorem consumer_connections_lists_each_once:
  assumes "consumer_connections url response (Multi_consumer mc) = (Inr urls, c1)"
  shows "sorted_wrt (<) urls \<and> set urls = {url n |n t. t \<in> set (map fst (mc_consumers mc)) \<and> response t = Some n}"
proof -
  from assms obtain ns where ns: "try_join_all (fst (connect_each response (mc_consumers mc))) = Inr ns"
    "urls = remdups (sort (map url ns))"
    by (auto simp: consumer_connections_def on_inner_def rmap_Inr_iff split: prod.splits)
  from connect_each_results [OF refl ns(1)] have eq: "map Some ns = map (\<lambda>(t, c). response t) (mc_consumers mc)" .
  have "n \<in> set ns \<longleftrightarrow> (\<exists>t. t \<in> set (map fst (mc_consumers mc)) \<and> response t = Some n)" for n
  proof -
    have "n \<in> set ns \<longleftrightarrow> Some n \<in> set (map Some ns)" by auto
    also have "\<dots> \<longleftrightarrow> (\<exists>t. t \<in> set (map fst (mc_consumers mc)) \<and> response t = Some n)"
      unfolding eq by (auto split: prod.splits) force+
    finally show ?thesis .
  qed
  then show ?thesis
    by (auto simp: ns(2) strict_sorted_iff sorted_remdups)
qed

end
