(* ===== verification/Error_Text.thy ===== *)
theory Error_Text
  imports Errors Admin
begin

text \<open>
  What the errors of the client say (\<open>error.rs\<close>): the \<open>Display\<close> text of every error, the
  hand-written \<open>Debug\<close> text of a producer's error, and the cause each error names. The texts of
  the errors of libraries are part of their values; the \<open>Debug\<close> texts that are derived or belong to
  a library are arguments.
\<close>

section \<open>Names of broker errors\<close>

fun server_err_name :: "server_err \<Rightarrow> string" where
  "server_err_name UnknownError = ''UnknownError''"
| "server_err_name MetadataError = ''MetadataError''"
| "server_err_name PersistenceError = ''PersistenceError''"
| "server_err_name AuthenticationError = ''AuthenticationError''"
| "server_err_name AuthorizationError = ''AuthorizationError''"
| "server_err_name ConsumerBusy = ''ConsumerBusy''"
| "server_err_name ServiceNotReady = ''ServiceNotReady''"
| "server_err_name ProducerBlockedQuotaExceededError = ''ProducerBlockedQuotaExceededError''"
| "server_err_name ProducerBlockedQuotaExceededException = ''ProducerBlockedQuotaExceededException''"
| "server_err_name ChecksumError = ''ChecksumError''"
| "server_err_name UnsupportedVersionError = ''UnsupportedVersionError''"
| "server_err_name TopicNotFound = ''TopicNotFound''"
| "server_err_name SubscriptionNotFound = ''SubscriptionNotFound''"
| "server_err_name ConsumerNotFound = ''ConsumerNotFound''"
| "server_err_name TooManyRequests = ''TooManyRequests''"
| "server_err_name TopicTerminatedError = ''TopicTerminatedError''"
| "server_err_name ProducerBusy = ''ProducerBusy''"
| "server_err_name InvalidTopicName = ''InvalidTopicName''"
| "server_err_name IncompatibleSchema = ''IncompatibleSchema''"
| "server_err_name ConsumerAssignError = ''ConsumerAssignError''"
| "server_err_name TransactionCoordinatorNotFound = ''TransactionCoordinatorNotFound''"
| "server_err_name InvalidTxnStatus = ''InvalidTxnStatus''"
| "server_err_name NotAllowedError = ''NotAllowedError''"
| "server_err_name TransactionConflict = ''TransactionConflict''"
| "server_err_name TransactionNotFound = ''TransactionNotFound''"
| "server_err_name ProducerFenced = ''ProducerFenced''"

definition server_err_debug :: "server_err option \<Rightarrow> string" where
  "server_err_debug e = (case e of None \<Rightarrow> ''None'' | Some e \<Rightarrow> ''Some('' @ server_err_name e @ '')'')"

section \<open>Display\<close>

fun authentication_error_display :: "authentication_error \<Rightarrow> string" where
  "authentication_error_display (Custom_auth m) = m"
| "authentication_error_display (Retriable m) = m @ '' (retriable)''"

fun connection_error_display :: "connection_error \<Rightarrow> string" where
  "connection_error_display (Io k e) = e"
| "connection_error_display SlowDown = ''SlowDown''"
| "connection_error_display Disconnected = ''Disconnected''"
| "connection_error_display (PulsarError e s) =
     ''Server error ('' @ server_err_debug e @ ''): '' @ (case s of None \<Rightarrow> [] | Some s \<Rightarrow> s)"
| "connection_error_display (Unexpected e) = e"
| "connection_error_display (NotSupported e) = ''not supported by the broker: '' @ e"
| "connection_error_display (Decoding e) = ''Error decoding message: '' @ e"
| "connection_error_display (Encoding e) = ''Error encoding message: '' @ e"
| "connection_error_display (SocketAddr e) = ''Error obtaining socket address: '' @ e"
| "connection_error_display (Tls e) = ''Error connecting TLS stream: '' @ e"
| "connection_error_display (DnsName e) = ''Error resolving hostname: '' @ e"
| "connection_error_display (Authentication_conn e) = ''Authentication error: '' @ authentication_error_display e"
| "connection_error_display (UnexpectedResponse e) = ''Unexpected response from pulsar: '' @ e"
| "connection_error_display NotFound_conn = ''error looking up URL''"
| "connection_error_display Canceled_conn = ''canceled request''"
| "connection_error_display Shutdown_conn = ''The connection was shut down''"

fun consumer_error_display :: "consumer_error \<Rightarrow> string" where
  "consumer_error_display (Connection_consumer e) = ''Connection error: '' @ connection_error_display e"
| "consumer_error_display (MissingPayload s) = ''Missing payload: '' @ s"
| "consumer_error_display (Io_consumer k s) = ''Decompression error: '' @ s"
| "consumer_error_display ChannelFull = ''cannot send message to the consumer engine: the channel is full''"
| "consumer_error_display Closed_consumer = ''cannot send message to the consumer engine: the channel is closed''"
| "consumer_error_display BuildError = ''Error while building the consumer.''"
| "consumer_error_display (UnsupportedChunkedMessage uuid num_chunks) =
     ''received chunk of a '' @ show_int num_chunks @ ''-chunk message (uuid = ''
     @ (case uuid of None \<Rightarrow> ''<none>'' | Some u \<Rightarrow> u)
     @ ''), but chunked message reassembly is not supported by this client''"

fun service_discovery_error_display :: "service_discovery_error \<Rightarrow> string" where
  "service_discovery_error_display (Connection_sd e) = ''Connection error: '' @ connection_error_display e"
| "service_discovery_error_display (Query e s) =
     ''Query error ('' @ server_err_debug e @ ''): '' @ (case s of None \<Rightarrow> [] | Some s \<Rightarrow> s)"
| "service_discovery_error_display NotFound_sd = ''cannot find topic''"
| "service_discovery_error_display DnsLookupError = ''cannot lookup broker address''"
| "service_discovery_error_display Canceled_sd = ''canceled request''"
| "service_discovery_error_display Shutdown_sd = ''service discovery engine not responding''"
| "service_discovery_error_display Dummy = ''placeholder error''"

fun admin_error_display :: "admin_error \<Rightarrow> string" where
  "admin_error_display (Request_adm e) = ''HTTP request failed: '' @ request_text e"
| "admin_error_display (NotFound_adm m) = ''not found: '' @ m"
| "admin_error_display (Conflict m) = ''conflict: '' @ m"
| "admin_error_display (BadRequest m) = ''bad request: '' @ m"
| "admin_error_display (NotAuthorized m) = ''not authorized: '' @ m"
| "admin_error_display (PreconditionFailed m) = ''precondition failed: '' @ m"
| "admin_error_display (NotAllowed m) = ''not allowed: '' @ m"
| "admin_error_display (NotSupported_adm m) = ''not supported by the broker: '' @ m"
| "admin_error_display (ServerUnavailable m) = ''broker unavailable: '' @ m"
| "admin_error_display (Decode m) = ''could not decode admin response: '' @ m"
| "admin_error_display (Http status body) = ''admin API returned HTTP '' @ show_nat status @ '': '' @ body"
| "admin_error_display (SchemaDecode msg) = ''failed to decode schema response: '' @ msg"
| "admin_error_display (InvalidSchemaType t) = ''invalid schema type returned by admin API: '' @ t"
| "admin_error_display (InvalidTopic t) = ''invalid topic URL: '' @ t"
| "admin_error_display (TlsConfig msg) = ''TLS configuration error: '' @ msg"

text \<open>
  The report of a partial send counts both outcomes and quotes the first error. \<open>d\<close> is the text
  of a client error, which such a report and a batch error contain.
\<close>

fun count_outcomes :: "nat \<times> nat \<Rightarrow> ('e, 'a) result \<Rightarrow> nat \<times> nat" where
  "count_outcomes (s, f) (Inr x) = (s + 1, f)"
| "count_outcomes (s, f) (Inl e) = (s, f + 1)"

fun first_error :: "('e, 'a) result list \<Rightarrow> 'e option" where
  "first_error [] = None"
| "first_error (Inl e # rs) = Some e"
| "first_error (Inr x # rs) = first_error rs"

fun producer_error_display :: "('e \<Rightarrow> string) \<Rightarrow> 'e producer_error \<Rightarrow> string" where
  "producer_error_display d (Connection_producer e) = ''Connection error: '' @ connection_error_display e"
| "producer_error_display d (Io_producer k e) = ''Compression error: '' @ e"
| "producer_error_display d (Custom_producer s) = ''Custom error: '' @ s"
| "producer_error_display d (Batch e) = ''Batch error: '' @ d e"
| "producer_error_display d (PartialSend e) =
     (case foldl count_outcomes (0, 0) e of (successes, failures) \<Rightarrow>
        ''Partial send error - '' @ show_nat successes @ '' successful, '' @ show_nat failures @ '' failed''
        @ (if 0 < failures then ''first error: '' @ (case first_error e of Some x \<Rightarrow> d x | None \<Rightarrow> []) else []))"
| "producer_error_display d Fenced = ''Producer is fenced''"
| "producer_error_display d Closed_producer = ''Producer is closed or dropped''"

lemma first_error_mem: "first_error rs = Some e \<Longrightarrow> Inl e \<in> set rs"
  by (induction rs rule: first_error.induct) auto

lemma producer_error_display_cong [fundef_cong]:
  assumes "p = q" and "\<And>e. e \<in> set_producer_error q \<Longrightarrow> d e = d' e"
  shows "producer_error_display d p = producer_error_display d' q"
proof -
  have "d x = d' x" if "q = PartialSend rs" "first_error rs = Some x" for rs x
    using assms(2) [of x] that first_error_mem [of rs x] by force
  with assms show ?thesis by (cases q) (auto split: option.splits prod.splits)
qed

lemma producer_error_size [termination_simp]:
  assumes "e \<in> set_producer_error p"
  shows "size e < Suc (size_producer_error size p)"
proof (cases p)
  case (PartialSend rs)
  with assms obtain r where r: "r \<in> set rs" "e \<in> Basic_BNFs.setl r" by auto
  from r(2) have "size e \<le> size_sum size (\<lambda>_. 0) r" by (cases r) (auto simp: sum_set_simps)
  also have "\<dots> \<le> size_list (size_sum size (\<lambda>_. 0)) rs"
    using r(1) by (rule size_list_estimation') simp
  finally show ?thesis using PartialSend by simp
qed (use assms in auto)

fun error_display :: "error \<Rightarrow> string" where
  "error_display (Connection e) = ''Connection error: '' @ connection_error_display e"
| "error_display (Consumer e) = ''consumer error: '' @ consumer_error_display e"
| "error_display (Producer e) = ''producer error: '' @ producer_error_display error_display e"
| "error_display (ServiceDiscovery e) = ''service discovery error: '' @ service_discovery_error_display e"
| "error_display (Authentication e) = ''authentication error: '' @ authentication_error_display e"
| "error_display (Custom e) = ''error: '' @ e"
| "error_display Executor = ''could not spawn task''"
| "error_display (Admin e) = ''admin error: '' @ admin_error_display e"

section \<open>Debug\<close>

text \<open>
  Written by hand for a producer's error, since a send future has no \<open>Debug\<close> text. The arguments
  are the \<open>Debug\<close> texts of a connection error, an I/O error and a client error.
\<close>

fun debug_parts :: "('e \<Rightarrow> string) \<Rightarrow> ('e, 'a) result list \<Rightarrow> string" where
  "debug_parts de [] = []"
| "debug_parts de (r # rs) =
     (case r of Inr x \<Rightarrow> ''Ok(SendFuture)'' | Inl e \<Rightarrow> ''Err('' @ de e @ '')'')
     @ (if rs = [] then [] else '', '' @ debug_parts de rs)"

fun producer_error_debug :: "(connection_error \<Rightarrow> string) \<Rightarrow> (io_kind \<Rightarrow> string \<Rightarrow> string) \<Rightarrow> ('e \<Rightarrow> string) \<Rightarrow>
    'e producer_error \<Rightarrow> string" where
  "producer_error_debug dc di de (Connection_producer e) = ''Connection('' @ dc e @ '')''"
| "producer_error_debug dc di de (Custom_producer msg) = ''Custom('' @ debug_str msg @ '')''"
| "producer_error_debug dc di de (Io_producer k e) = ''Connection('' @ di k e @ '')''"
| "producer_error_debug dc di de (Batch e) = ''Connection('' @ de e @ '')''"
| "producer_error_debug dc di de (PartialSend parts) = ''PartialSend('' @ debug_parts de parts @ '')''"
| "producer_error_debug dc di de Fenced = ''Producer is fenced''"
| "producer_error_debug dc di de Closed_producer = ''Producer is closed or dropped''"

section \<open>Causes\<close>

datatype 'e cause =
    Io_cause io_kind string
  | Connection_cause connection_error
  | Client_cause 'e
  | Admin_cause admin_error
  | Request_cause request_error

fun connection_error_source :: "connection_error \<Rightarrow> 'e cause option" where
  "connection_error_source (Io k e) = Some (Io_cause k e)"
| "connection_error_source _ = None"

fun consumer_error_source :: "consumer_error \<Rightarrow> 'e cause option" where
  "consumer_error_source (Connection_consumer e) = Some (Connection_cause e)"
| "consumer_error_source _ = None"

fun producer_error_source :: "'e producer_error \<Rightarrow> 'e cause option" where
  "producer_error_source (Connection_producer e) = Some (Connection_cause e)"
| "producer_error_source (Io_producer k e) = Some (Io_cause k e)"
| "producer_error_source (Batch e) = Some (Client_cause e)"
| "producer_error_source (PartialSend parts) = map_option Client_cause (first_error parts)"
| "producer_error_source (Custom_producer m) = None"
| "producer_error_source Fenced = None"
| "producer_error_source Closed_producer = None"

fun service_discovery_error_source :: "service_discovery_error \<Rightarrow> 'e cause option" where
  "service_discovery_error_source (Connection_sd e) = Some (Connection_cause e)"
| "service_discovery_error_source _ = None"

fun admin_error_source :: "admin_error \<Rightarrow> 'e cause option" where
  "admin_error_source (Request_adm e) = Some (Request_cause e)"
| "admin_error_source _ = None"

text \<open>The default of the trait: no cause.\<close>

definition authentication_error_source :: "authentication_error \<Rightarrow> 'e cause option" where
  "authentication_error_source e = None"

fun error_source :: "error \<Rightarrow> error cause option" where
  "error_source (Connection e) = connection_error_source e"
| "error_source (Consumer e) = consumer_error_source e"
| "error_source (Producer e) = producer_error_source e"
| "error_source (ServiceDiscovery e) = service_discovery_error_source e"
| "error_source (Authentication e) = authentication_error_source e"
| "error_source (Custom e) = None"
| "error_source Executor = None"
| "error_source (Admin e) = Some (Admin_cause e)"

fun cause_source :: "error cause \<Rightarrow> error cause option" where
  "cause_source (Io_cause k e) = None"
| "cause_source (Connection_cause e) = connection_error_source e"
| "cause_source (Client_cause e) = error_source e"
| "cause_source (Admin_cause e) = admin_error_source e"
| "cause_source (Request_cause e) = None"

section \<open>What the texts and causes come to\<close>

lemma count_outcomes_foldl:
  "foldl count_outcomes (s, f) rs = (s + length (filter is_ok rs), f + length (filter (\<lambda>r. \<not> is_ok r) rs))"
proof (induction rs arbitrary: s f)
  case (Cons r rs)
  then show ?case by (cases r) simp_all
qed simp

lemma first_error_None_iff: "first_error rs = None \<longleftrightarrow> (\<forall>r\<in>set rs. is_ok r)"
  by (induction rs rule: first_error.induct) auto

text \<open>
  The numbers of a partial send are those of its results, they add up to the batch, and an error is
  quoted exactly when one failed, which is when the error has a cause.
\<close>

theorem partial_send_text:
  "producer_error_display d (PartialSend rs) =
     ''Partial send error - '' @ show_nat (length (filter is_ok rs)) @ '' successful, ''
     @ show_nat (length rs - length (filter is_ok rs)) @ '' failed''
     @ (case producer_error_source (PartialSend rs) of
          Some (Client_cause e) \<Rightarrow> ''first error: '' @ d e | _ \<Rightarrow> [])"
proof -
  have "length (filter (\<lambda>r. \<not> is_ok r) rs) = length rs - length (filter is_ok rs)"
    using sum_length_filter_compl [of is_ok rs] by simp
  moreover have "0 < length (filter (\<lambda>r. \<not> is_ok r) rs) \<longleftrightarrow> first_error rs \<noteq> None"
    by (auto simp: first_error_None_iff filter_empty_conv)
  ultimately show ?thesis
    by (auto simp: count_outcomes_foldl split: option.splits)
qed

text \<open>Nothing separates the two sentences of the report.\<close>

lemma partial_send_text_runs_together:
  "error_display (Producer (PartialSend [Inr 0, Inl (Custom ''x'')]))
     = ''producer error: Partial send error - 1 successful, 1 failedfirst error: error: x''"
  by code_simp

text \<open>A compression error and a failed batch are printed as if they were connection errors.\<close>

lemma io_and_batch_print_as_connection:
  "producer_error_debug dc di de (Io_producer k e) = ''Connection('' @ di k e @ '')''"
  "producer_error_debug dc di de (Batch x) = ''Connection('' @ de x @ '')''"
  by simp_all

text \<open>The cause of a failed decompression is lost, that of a failed compression is not.\<close>

lemma decompression_has_no_cause:
  "error_source (Consumer (Io_consumer k e)) = None"
  "error_source (Producer (Io_producer k e)) = Some (Io_cause k e)"
  by simp_all

text \<open>Following causes always ends: each is smaller than the error that names it.\<close>

fun cause_size :: "error cause \<Rightarrow> nat" where
  "cause_size (Io_cause k e) = 0"
| "cause_size (Connection_cause e) = 1"
| "cause_size (Client_cause e) = 2 + 2 * size e"
| "cause_size (Admin_cause e) = 1"
| "cause_size (Request_cause e) = 0"

lemma error_source_smaller: "error_source e = Some c \<Longrightarrow> cause_size c < 2 + 2 * size e"
proof (cases e)
  case (Producer p)
  assume "error_source e = Some c"
  with Producer have src: "producer_error_source p = Some c" by simp
  have "size x < Suc (size_producer_error size p)" if "c = Client_cause x" for x
  proof (rule producer_error_size)
    show "x \<in> set_producer_error p"
      using src that by (cases p) (auto dest!: first_error_mem intro!: bexI [of _ "Inl x"])
  qed
  with src Producer show ?thesis by (cases c) auto
qed (auto elim: connection_error_source.elims consumer_error_source.elims service_discovery_error_source.elims
    simp: authentication_error_source_def)

lemma cause_source_smaller: "cause_source c = Some c' \<Longrightarrow> cause_size c' < cause_size c"
  by (cases c) (auto dest: error_source_smaller elim: connection_error_source.elims admin_error_source.elims)

function causes :: "error cause \<Rightarrow> error cause list" where
  "causes c = c # (case cause_source c of None \<Rightarrow> [] | Some c' \<Rightarrow> causes c')"
  by auto

termination by (relation "measure cause_size") (auto simp: cause_source_smaller)

declare causes.simps [simp del]

definition error_chain :: "error \<Rightarrow> error cause list" where
  "error_chain e = (case error_source e of None \<Rightarrow> [] | Some c \<Rightarrow> causes c)"

text \<open>An error wrapped by a failed batch is found by following the causes.\<close>

lemma batch_keeps_its_cause:
  "error_chain (Producer (Batch e)) = Client_cause e # error_chain e"
  by (simp add: error_chain_def causes.simps [of "Client_cause e"])

end
