(* ===== verification/Java_Vectors.thy ===== *)
theory Java_Vectors
  imports Routing
begin

text \<open>
  The golden vectors generated with the Java client (\<open>routing_policy_java_vectors.rs\<close>): keys, both of
  their hashes, and the partition each goes to for nine numbers of partitions. They are data of
  the repository, written out; a key is its UTF-8 text. The hash and the modulo of \<open>Routing\<close>
  are evaluated on all of them.
\<close>

section \<open>The vectors\<close>

record hash_vector =
  hv_key :: string
  hv_java_string_hash :: u32
  hv_murmur3_32_hash :: u32
  hv_jsh_partitions :: "int list"
  hv_m3_partitions :: "int list"

definition partition_counts :: "int list" where
  "partition_counts = [1, 2, 3, 4, 7, 8, 16, 64, 100]"

definition hash_vectors_1 :: "hash_vector list" where
  "hash_vectors_1 = [
    \<lparr>hv_key = '''',
     hv_java_string_hash = 0, hv_murmur3_32_hash = 0,
     hv_jsh_partitions = [0, 0, 0, 0, 0, 0, 0, 0, 0],
     hv_m3_partitions = [0, 0, 0, 0, 0, 0, 0, 0, 0]\<rparr>,
    \<lparr>hv_key = ''a'',
     hv_java_string_hash = 97, hv_murmur3_32_hash = 1009084850,
     hv_jsh_partitions = [0, 1, 1, 1, 6, 1, 1, 33, 97],
     hv_m3_partitions = [0, 0, 2, 2, 4, 2, 2, 50, 50]\<rparr>,
    \<lparr>hv_key = ''ab'',
     hv_java_string_hash = 3105, hv_murmur3_32_hash = 465557343,
     hv_jsh_partitions = [0, 1, 0, 1, 4, 1, 1, 33, 5],
     hv_m3_partitions = [0, 1, 0, 3, 6, 7, 15, 31, 43]\<rparr>,
    \<lparr>hv_key = ''abc'',
     hv_java_string_hash = 96354, hv_murmur3_32_hash = 870159354,
     hv_jsh_partitions = [0, 0, 0, 2, 6, 2, 2, 34, 54],
     hv_m3_partitions = [0, 0, 0, 2, 1, 2, 10, 58, 54]\<rparr>,
    \<lparr>hv_key = ''abcd'',
     hv_java_string_hash = 2987074, hv_murmur3_32_hash = 1139631978,
     hv_jsh_partitions = [0, 0, 1, 2, 6, 2, 2, 2, 74],
     hv_m3_partitions = [0, 0, 0, 2, 2, 2, 10, 42, 78]\<rparr>,
    \<lparr>hv_key = ''abcde'',
     hv_java_string_hash = 92599395, hv_murmur3_32_hash = 1755028214,
     hv_jsh_partitions = [0, 1, 0, 3, 0, 3, 3, 35, 95],
     hv_m3_partitions = [0, 0, 2, 2, 2, 6, 6, 54, 14]\<rparr>,
    \<lparr>hv_key = ''abcdef'',
     hv_java_string_hash = 723097699, hv_murmur3_32_hash = 1635893381,
     hv_jsh_partitions = [0, 1, 1, 3, 2, 3, 3, 35, 99],
     hv_m3_partitions = [0, 1, 2, 1, 3, 5, 5, 5, 81]\<rparr>,
    \<lparr>hv_key = ''abcdefg'',
     hv_java_string_hash = 941192292, hv_murmur3_32_hash = 138189574,
     hv_jsh_partitions = [0, 0, 0, 0, 5, 4, 4, 36, 92],
     hv_m3_partitions = [0, 0, 1, 2, 5, 6, 6, 6, 74]\<rparr>,
    \<lparr>hv_key = ''abcdefgh'',
     hv_java_string_hash = 1259673732, hv_murmur3_32_hash = 1239272644,
     hv_jsh_partitions = [0, 0, 0, 0, 2, 4, 4, 4, 32],
     hv_m3_partitions = [0, 0, 1, 0, 1, 4, 4, 4, 44]\<rparr>,
    \<lparr>hv_key = ''key-0'',
     hv_java_string_hash = 101943362, hv_murmur3_32_hash = 1664612543,
     hv_jsh_partitions = [0, 0, 2, 2, 3, 2, 2, 2, 62],
     hv_m3_partitions = [0, 1, 2, 3, 6, 7, 15, 63, 43]\<rparr>,
    \<lparr>hv_key = ''key-1'',
     hv_java_string_hash = 101943363, hv_murmur3_32_hash = 414258592,
     hv_jsh_partitions = [0, 1, 0, 3, 4, 3, 3, 3, 63],
     hv_m3_partitions = [0, 0, 1, 0, 6, 0, 0, 32, 92]\<rparr>,
    \<lparr>hv_key = ''key-2'',
     hv_java_string_hash = 101943364, hv_murmur3_32_hash = 1945654540,
     hv_jsh_partitions = [0, 0, 1, 0, 5, 4, 4, 4, 64],
     hv_m3_partitions = [0, 0, 1, 0, 4, 4, 12, 12, 40]\<rparr>,
    \<lparr>hv_key = ''key-3'',
     hv_java_string_hash = 101943365, hv_murmur3_32_hash = 2034982562,
     hv_jsh_partitions = [0, 1, 2, 1, 6, 5, 5, 5, 65],
     hv_m3_partitions = [0, 0, 2, 2, 4, 2, 2, 34, 62]\<rparr>,
    \<lparr>hv_key = ''key-4'',
     hv_java_string_hash = 101943366, hv_murmur3_32_hash = 1641740710,
     hv_jsh_partitions = [0, 0, 0, 2, 0, 6, 6, 6, 66],
     hv_m3_partitions = [0, 0, 1, 2, 1, 6, 6, 38, 10]\<rparr>,
    \<lparr>hv_key = ''key-5'',
     hv_java_string_hash = 101943367, hv_murmur3_32_hash = 512346046,
     hv_jsh_partitions = [0, 1, 1, 3, 1, 7, 7, 7, 67],
     hv_m3_partitions = [0, 0, 1, 2, 2, 6, 14, 62, 46]\<rparr>,
    \<lparr>hv_key = ''key-6'',
     hv_java_string_hash = 101943368, hv_murmur3_32_hash = 136335094,
     hv_jsh_partitions = [0, 0, 2, 0, 2, 0, 8, 8, 68],
     hv_m3_partitions = [0, 0, 1, 2, 0, 6, 6, 54, 94]\<rparr>,
    \<lparr>hv_key = ''key-7'',
     hv_java_string_hash = 101943369, hv_murmur3_32_hash = 2054334308,
     hv_jsh_partitions = [0, 1, 0, 1, 3, 1, 9, 9, 69],
     hv_m3_partitions = [0, 0, 2, 0, 5, 4, 4, 36, 8]\<rparr>,
    \<lparr>hv_key = ''key-8'',
     hv_java_string_hash = 101943370, hv_murmur3_32_hash = 339503824,
     hv_jsh_partitions = [0, 0, 1, 2, 4, 2, 10, 10, 70],
     hv_m3_partitions = [0, 0, 1, 0, 2, 0, 0, 16, 24]\<rparr>,
    \<lparr>hv_key = ''key-9'',
     hv_java_string_hash = 101943371, hv_murmur3_32_hash = 955406708,
     hv_jsh_partitions = [0, 1, 2, 3, 5, 3, 11, 11, 71],
     hv_m3_partitions = [0, 0, 2, 0, 4, 4, 4, 52, 8]\<rparr>,
    \<lparr>hv_key = ''key-10'',
     hv_java_string_hash = 1012760653, hv_murmur3_32_hash = 568422892,
     hv_jsh_partitions = [0, 1, 1, 1, 2, 5, 13, 13, 53],
     hv_m3_partitions = [0, 0, 1, 0, 2, 4, 12, 44, 92]\<rparr>]"

definition hash_vectors_2 :: "hash_vector list" where
  "hash_vectors_2 = [
    \<lparr>hv_key = ''key-11'',
     hv_java_string_hash = 1012760654, hv_murmur3_32_hash = 2041436440,
     hv_jsh_partitions = [0, 0, 2, 2, 3, 6, 14, 14, 54],
     hv_m3_partitions = [0, 0, 1, 0, 1, 0, 8, 24, 40]\<rparr>,
    \<lparr>hv_key = ''key-12'',
     hv_java_string_hash = 1012760655, hv_murmur3_32_hash = 1202461888,
     hv_jsh_partitions = [0, 1, 0, 3, 4, 7, 15, 15, 55],
     hv_m3_partitions = [0, 0, 1, 0, 5, 0, 0, 0, 88]\<rparr>,
    \<lparr>hv_key = ''key-13'',
     hv_java_string_hash = 1012760656, hv_murmur3_32_hash = 1281609033,
     hv_jsh_partitions = [0, 0, 1, 0, 5, 0, 0, 16, 56],
     hv_m3_partitions = [0, 1, 0, 1, 5, 1, 9, 9, 33]\<rparr>,
    \<lparr>hv_key = ''key-14'',
     hv_java_string_hash = 1012760657, hv_murmur3_32_hash = 1259448991,
     hv_jsh_partitions = [0, 1, 2, 1, 6, 1, 1, 17, 57],
     hv_m3_partitions = [0, 1, 1, 3, 3, 7, 15, 31, 91]\<rparr>,
    \<lparr>hv_key = ''key-15'',
     hv_java_string_hash = 1012760658, hv_murmur3_32_hash = 747651370,
     hv_jsh_partitions = [0, 0, 0, 2, 0, 2, 2, 18, 58],
     hv_m3_partitions = [0, 0, 1, 2, 4, 2, 10, 42, 70]\<rparr>,
    \<lparr>hv_key = ''key-16'',
     hv_java_string_hash = 1012760659, hv_murmur3_32_hash = 1556390581,
     hv_jsh_partitions = [0, 1, 1, 3, 1, 3, 3, 19, 59],
     hv_m3_partitions = [0, 1, 1, 1, 4, 5, 5, 53, 81]\<rparr>,
    \<lparr>hv_key = ''key-17'',
     hv_java_string_hash = 1012760660, hv_murmur3_32_hash = 889600087,
     hv_jsh_partitions = [0, 0, 2, 0, 2, 4, 4, 20, 60],
     hv_m3_partitions = [0, 1, 1, 3, 5, 7, 7, 23, 87]\<rparr>,
    \<lparr>hv_key = ''key-18'',
     hv_java_string_hash = 1012760661, hv_murmur3_32_hash = 1557465016,
     hv_jsh_partitions = [0, 1, 0, 1, 3, 5, 5, 21, 61],
     hv_m3_partitions = [0, 0, 1, 0, 2, 0, 8, 56, 16]\<rparr>,
    \<lparr>hv_key = ''key-19'',
     hv_java_string_hash = 1012760662, hv_murmur3_32_hash = 2061163855,
     hv_jsh_partitions = [0, 0, 1, 2, 4, 6, 6, 22, 62],
     hv_m3_partitions = [0, 1, 1, 3, 2, 7, 15, 15, 55]\<rparr>,
    \<lparr>hv_key = ''key-20'',
     hv_java_string_hash = 1012760684, hv_murmur3_32_hash = 737228380,
     hv_jsh_partitions = [0, 0, 2, 0, 5, 4, 12, 44, 84],
     hv_m3_partitions = [0, 0, 1, 0, 0, 4, 12, 28, 80]\<rparr>,
    \<lparr>hv_key = ''key-21'',
     hv_java_string_hash = 1012760685, hv_murmur3_32_hash = 1179845468,
     hv_jsh_partitions = [0, 1, 0, 1, 6, 5, 13, 45, 85],
     hv_m3_partitions = [0, 0, 2, 0, 4, 4, 12, 28, 68]\<rparr>,
    \<lparr>hv_key = ''key-22'',
     hv_java_string_hash = 1012760686, hv_murmur3_32_hash = 841851753,
     hv_jsh_partitions = [0, 0, 1, 2, 0, 6, 14, 46, 86],
     hv_m3_partitions = [0, 1, 0, 1, 1, 1, 9, 41, 53]\<rparr>,
    \<lparr>hv_key = ''key-23'',
     hv_java_string_hash = 1012760687, hv_murmur3_32_hash = 1631853626,
     hv_jsh_partitions = [0, 1, 2, 3, 1, 7, 15, 47, 87],
     hv_m3_partitions = [0, 0, 2, 2, 4, 2, 10, 58, 26]\<rparr>,
    \<lparr>hv_key = ''key-24'',
     hv_java_string_hash = 1012760688, hv_murmur3_32_hash = 333077499,
     hv_jsh_partitions = [0, 0, 0, 0, 2, 0, 0, 48, 88],
     hv_m3_partitions = [0, 1, 0, 3, 6, 3, 11, 59, 99]\<rparr>,
    \<lparr>hv_key = ''key-25'',
     hv_java_string_hash = 1012760689, hv_murmur3_32_hash = 328186102,
     hv_jsh_partitions = [0, 1, 1, 1, 3, 1, 1, 49, 89],
     hv_m3_partitions = [0, 0, 1, 2, 6, 6, 6, 54, 2]\<rparr>,
    \<lparr>hv_key = ''key-26'',
     hv_java_string_hash = 1012760690, hv_murmur3_32_hash = 1958794676,
     hv_jsh_partitions = [0, 0, 2, 2, 4, 2, 2, 50, 90],
     hv_m3_partitions = [0, 0, 2, 0, 6, 4, 4, 52, 76]\<rparr>,
    \<lparr>hv_key = ''key-27'',
     hv_java_string_hash = 1012760691, hv_murmur3_32_hash = 1905474720,
     hv_jsh_partitions = [0, 1, 0, 3, 5, 3, 3, 51, 91],
     hv_m3_partitions = [0, 0, 0, 0, 2, 0, 0, 32, 20]\<rparr>,
    \<lparr>hv_key = ''key-28'',
     hv_java_string_hash = 1012760692, hv_murmur3_32_hash = 240840898,
     hv_jsh_partitions = [0, 0, 1, 0, 6, 4, 4, 52, 92],
     hv_m3_partitions = [0, 0, 1, 2, 4, 2, 2, 2, 98]\<rparr>,
    \<lparr>hv_key = ''key-29'',
     hv_java_string_hash = 1012760693, hv_murmur3_32_hash = 1003909858,
     hv_jsh_partitions = [0, 1, 2, 1, 0, 5, 5, 53, 93],
     hv_m3_partitions = [0, 0, 1, 2, 0, 2, 2, 34, 58]\<rparr>,
    \<lparr>hv_key = ''key-30'',
     hv_java_string_hash = 1012760715, hv_murmur3_32_hash = 12072298,
     hv_jsh_partitions = [0, 1, 0, 3, 1, 3, 11, 11, 15],
     hv_m3_partitions = [0, 0, 1, 2, 0, 2, 10, 42, 98]\<rparr>]"

definition hash_vectors_3 :: "hash_vector list" where
  "hash_vectors_3 = [
    \<lparr>hv_key = ''key-31'',
     hv_java_string_hash = 1012760716, hv_murmur3_32_hash = 1118082532,
     hv_jsh_partitions = [0, 0, 1, 0, 2, 4, 12, 12, 16],
     hv_m3_partitions = [0, 0, 1, 0, 0, 4, 4, 36, 32]\<rparr>,
    \<lparr>hv_key = ''key-32'',
     hv_java_string_hash = 1012760717, hv_murmur3_32_hash = 1632226045,
     hv_jsh_partitions = [0, 1, 2, 1, 3, 5, 13, 13, 17],
     hv_m3_partitions = [0, 1, 1, 1, 2, 5, 13, 61, 45]\<rparr>,
    \<lparr>hv_key = ''key-33'',
     hv_java_string_hash = 1012760718, hv_murmur3_32_hash = 2143243793,
     hv_jsh_partitions = [0, 0, 0, 2, 4, 6, 14, 14, 18],
     hv_m3_partitions = [0, 1, 2, 1, 5, 1, 1, 17, 93]\<rparr>,
    \<lparr>hv_key = ''key-34'',
     hv_java_string_hash = 1012760719, hv_murmur3_32_hash = 2037349143,
     hv_jsh_partitions = [0, 1, 1, 3, 5, 7, 15, 15, 19],
     hv_m3_partitions = [0, 1, 0, 3, 4, 7, 7, 23, 43]\<rparr>,
    \<lparr>hv_key = ''key-35'',
     hv_java_string_hash = 1012760720, hv_murmur3_32_hash = 1634733624,
     hv_jsh_partitions = [0, 0, 2, 0, 6, 0, 0, 16, 20],
     hv_m3_partitions = [0, 0, 0, 0, 6, 0, 8, 56, 24]\<rparr>,
    \<lparr>hv_key = ''key-36'',
     hv_java_string_hash = 1012760721, hv_murmur3_32_hash = 1469870383,
     hv_jsh_partitions = [0, 1, 0, 1, 0, 1, 1, 17, 21],
     hv_m3_partitions = [0, 1, 1, 3, 2, 7, 15, 47, 83]\<rparr>,
    \<lparr>hv_key = ''key-37'',
     hv_java_string_hash = 1012760722, hv_murmur3_32_hash = 1298689018,
     hv_jsh_partitions = [0, 0, 1, 2, 1, 2, 2, 18, 22],
     hv_m3_partitions = [0, 0, 1, 2, 4, 2, 10, 58, 18]\<rparr>,
    \<lparr>hv_key = ''key-38'',
     hv_java_string_hash = 1012760723, hv_murmur3_32_hash = 473421521,
     hv_jsh_partitions = [0, 1, 2, 3, 2, 3, 3, 19, 23],
     hv_m3_partitions = [0, 1, 2, 1, 6, 1, 1, 17, 21]\<rparr>,
    \<lparr>hv_key = ''key-39'',
     hv_java_string_hash = 1012760724, hv_murmur3_32_hash = 8679160,
     hv_jsh_partitions = [0, 0, 0, 0, 3, 4, 4, 20, 24],
     hv_m3_partitions = [0, 0, 1, 0, 0, 0, 8, 56, 60]\<rparr>,
    \<lparr>hv_key = ''key-40'',
     hv_java_string_hash = 1012760746, hv_murmur3_32_hash = 822764583,
     hv_jsh_partitions = [0, 0, 1, 2, 4, 2, 10, 42, 46],
     hv_m3_partitions = [0, 1, 0, 3, 4, 7, 7, 39, 83]\<rparr>,
    \<lparr>hv_key = ''key-41'',
     hv_java_string_hash = 1012760747, hv_murmur3_32_hash = 87581685,
     hv_jsh_partitions = [0, 1, 2, 3, 5, 3, 11, 43, 47],
     hv_m3_partitions = [0, 1, 0, 1, 2, 5, 5, 53, 85]\<rparr>,
    \<lparr>hv_key = ''key-42'',
     hv_java_string_hash = 1012760748, hv_murmur3_32_hash = 81749783,
     hv_jsh_partitions = [0, 0, 0, 0, 6, 4, 12, 44, 48],
     hv_m3_partitions = [0, 1, 2, 3, 3, 7, 7, 23, 83]\<rparr>,
    \<lparr>hv_key = ''key-43'',
     hv_java_string_hash = 1012760749, hv_murmur3_32_hash = 1996170932,
     hv_jsh_partitions = [0, 1, 1, 1, 0, 5, 13, 45, 49],
     hv_m3_partitions = [0, 0, 2, 0, 0, 4, 4, 52, 32]\<rparr>,
    \<lparr>hv_key = ''key-44'',
     hv_java_string_hash = 1012760750, hv_murmur3_32_hash = 1311681730,
     hv_jsh_partitions = [0, 0, 2, 2, 1, 6, 14, 46, 50],
     hv_m3_partitions = [0, 0, 1, 2, 2, 2, 2, 2, 30]\<rparr>,
    \<lparr>hv_key = ''key-45'',
     hv_java_string_hash = 1012760751, hv_murmur3_32_hash = 1396503879,
     hv_jsh_partitions = [0, 1, 0, 3, 2, 7, 15, 47, 51],
     hv_m3_partitions = [0, 1, 0, 3, 1, 7, 7, 7, 79]\<rparr>,
    \<lparr>hv_key = ''key-46'',
     hv_java_string_hash = 1012760752, hv_murmur3_32_hash = 576609497,
     hv_jsh_partitions = [0, 0, 1, 0, 3, 0, 0, 48, 52],
     hv_m3_partitions = [0, 1, 2, 1, 2, 1, 9, 25, 97]\<rparr>,
    \<lparr>hv_key = ''key-47'',
     hv_java_string_hash = 1012760753, hv_murmur3_32_hash = 1145354355,
     hv_jsh_partitions = [0, 1, 2, 1, 4, 1, 1, 49, 53],
     hv_m3_partitions = [0, 1, 0, 3, 5, 3, 3, 51, 55]\<rparr>,
    \<lparr>hv_key = ''key-48'',
     hv_java_string_hash = 1012760754, hv_murmur3_32_hash = 844148049,
     hv_jsh_partitions = [0, 0, 0, 2, 5, 2, 2, 50, 54],
     hv_m3_partitions = [0, 1, 0, 1, 3, 1, 1, 17, 49]\<rparr>,
    \<lparr>hv_key = ''key-49'',
     hv_java_string_hash = 1012760755, hv_murmur3_32_hash = 900423898,
     hv_jsh_partitions = [0, 1, 1, 3, 6, 3, 3, 51, 55],
     hv_m3_partitions = [0, 0, 1, 2, 3, 2, 10, 26, 98]\<rparr>,
    \<lparr>hv_key = ''key-50'',
     hv_java_string_hash = 1012760777, hv_murmur3_32_hash = 1945395055,
     hv_jsh_partitions = [0, 1, 2, 1, 0, 1, 9, 9, 77],
     hv_m3_partitions = [0, 1, 1, 3, 2, 7, 15, 47, 55]\<rparr>]"

definition hash_vectors_4 :: "hash_vector list" where
  "hash_vectors_4 = [
    \<lparr>hv_key = ''key-51'',
     hv_java_string_hash = 1012760778, hv_murmur3_32_hash = 1510336391,
     hv_jsh_partitions = [0, 0, 0, 2, 1, 2, 10, 10, 78],
     hv_m3_partitions = [0, 1, 2, 3, 4, 7, 7, 7, 91]\<rparr>,
    \<lparr>hv_key = ''key-52'',
     hv_java_string_hash = 1012760779, hv_murmur3_32_hash = 1149375150,
     hv_jsh_partitions = [0, 1, 1, 3, 2, 3, 11, 11, 79],
     hv_m3_partitions = [0, 0, 0, 2, 0, 6, 14, 46, 50]\<rparr>,
    \<lparr>hv_key = ''key-53'',
     hv_java_string_hash = 1012760780, hv_murmur3_32_hash = 1484513115,
     hv_jsh_partitions = [0, 0, 2, 0, 3, 4, 12, 12, 80],
     hv_m3_partitions = [0, 1, 0, 3, 1, 3, 11, 27, 15]\<rparr>,
    \<lparr>hv_key = ''key-54'',
     hv_java_string_hash = 1012760781, hv_murmur3_32_hash = 1554765913,
     hv_jsh_partitions = [0, 1, 0, 1, 4, 5, 13, 13, 81],
     hv_m3_partitions = [0, 1, 1, 1, 1, 1, 9, 25, 13]\<rparr>,
    \<lparr>hv_key = ''key-55'',
     hv_java_string_hash = 1012760782, hv_murmur3_32_hash = 1005988664,
     hv_jsh_partitions = [0, 0, 1, 2, 5, 6, 14, 14, 82],
     hv_m3_partitions = [0, 0, 2, 0, 2, 0, 8, 56, 64]\<rparr>,
    \<lparr>hv_key = ''key-56'',
     hv_java_string_hash = 1012760783, hv_murmur3_32_hash = 312599123,
     hv_jsh_partitions = [0, 1, 2, 3, 6, 7, 15, 15, 83],
     hv_m3_partitions = [0, 1, 2, 3, 4, 3, 3, 19, 23]\<rparr>,
    \<lparr>hv_key = ''key-57'',
     hv_java_string_hash = 1012760784, hv_murmur3_32_hash = 411619544,
     hv_jsh_partitions = [0, 0, 0, 0, 0, 0, 0, 16, 84],
     hv_m3_partitions = [0, 0, 2, 0, 0, 0, 8, 24, 44]\<rparr>,
    \<lparr>hv_key = ''key-58'',
     hv_java_string_hash = 1012760785, hv_murmur3_32_hash = 151620581,
     hv_jsh_partitions = [0, 1, 1, 1, 1, 1, 1, 17, 85],
     hv_m3_partitions = [0, 1, 2, 1, 0, 5, 5, 37, 81]\<rparr>,
    \<lparr>hv_key = ''key-59'',
     hv_java_string_hash = 1012760786, hv_murmur3_32_hash = 1195725959,
     hv_jsh_partitions = [0, 0, 2, 2, 2, 2, 2, 18, 86],
     hv_m3_partitions = [0, 1, 2, 3, 1, 7, 7, 7, 59]\<rparr>,
    \<lparr>hv_key = ''key-60'',
     hv_java_string_hash = 1012760808, hv_murmur3_32_hash = 1851635896,
     hv_jsh_partitions = [0, 0, 0, 0, 3, 0, 8, 40, 8],
     hv_m3_partitions = [0, 0, 1, 0, 5, 0, 8, 56, 96]\<rparr>,
    \<lparr>hv_key = ''key-61'',
     hv_java_string_hash = 1012760809, hv_murmur3_32_hash = 1916788695,
     hv_jsh_partitions = [0, 1, 1, 1, 4, 1, 9, 41, 9],
     hv_m3_partitions = [0, 1, 0, 3, 3, 7, 7, 23, 95]\<rparr>,
    \<lparr>hv_key = ''key-62'',
     hv_java_string_hash = 1012760810, hv_murmur3_32_hash = 1721117003,
     hv_jsh_partitions = [0, 0, 2, 2, 5, 2, 10, 42, 10],
     hv_m3_partitions = [0, 1, 2, 3, 4, 3, 11, 11, 3]\<rparr>,
    \<lparr>hv_key = ''key-63'',
     hv_java_string_hash = 1012760811, hv_murmur3_32_hash = 1273520271,
     hv_jsh_partitions = [0, 1, 0, 3, 6, 3, 11, 43, 11],
     hv_m3_partitions = [0, 1, 0, 3, 2, 7, 15, 15, 71]\<rparr>,
    \<lparr>hv_key = ''user_0_session'',
     hv_java_string_hash = 756866579, hv_murmur3_32_hash = 878907730,
     hv_jsh_partitions = [0, 1, 2, 3, 0, 3, 3, 19, 79],
     hv_m3_partitions = [0, 0, 1, 2, 1, 2, 2, 18, 30]\<rparr>,
    \<lparr>hv_key = ''user_7919_session'',
     hv_java_string_hash = 1398741973, hv_murmur3_32_hash = 850764055,
     hv_jsh_partitions = [0, 1, 1, 1, 6, 5, 5, 21, 73],
     hv_m3_partitions = [0, 1, 1, 3, 1, 7, 7, 23, 55]\<rparr>,
    \<lparr>hv_key = ''user_15838_session'',
     hv_java_string_hash = 1407667932, hv_murmur3_32_hash = 1050271245,
     hv_jsh_partitions = [0, 0, 0, 0, 6, 4, 12, 28, 32],
     hv_m3_partitions = [0, 1, 0, 1, 2, 5, 13, 13, 45]\<rparr>,
    \<lparr>hv_key = ''user_23757_session'',
     hv_java_string_hash = 1919994651, hv_murmur3_32_hash = 255467492,
     hv_jsh_partitions = [0, 1, 0, 3, 1, 3, 11, 27, 51],
     hv_m3_partitions = [0, 0, 2, 0, 0, 4, 4, 36, 92]\<rparr>,
    \<lparr>hv_key = ''user_31676_session'',
     hv_java_string_hash = 284837722, hv_murmur3_32_hash = 226092861,
     hv_jsh_partitions = [0, 0, 1, 2, 1, 2, 10, 26, 22],
     hv_m3_partitions = [0, 1, 0, 1, 1, 5, 13, 61, 61]\<rparr>,
    \<lparr>hv_key = ''user_39595_session'',
     hv_java_string_hash = 233910990, hv_murmur3_32_hash = 1794176804,
     hv_jsh_partitions = [0, 0, 0, 2, 5, 6, 14, 14, 90],
     hv_m3_partitions = [0, 0, 2, 0, 0, 4, 4, 36, 4]\<rparr>,
    \<lparr>hv_key = ''user_47514_session'',
     hv_java_string_hash = 914421400, hv_murmur3_32_hash = 198557742,
     hv_jsh_partitions = [0, 0, 1, 0, 4, 0, 8, 24, 0],
     hv_m3_partitions = [0, 0, 0, 2, 5, 6, 14, 46, 42]\<rparr>]"

definition hash_vectors_5 :: "hash_vector list" where
  "hash_vectors_5 = [
    \<lparr>hv_key = ''user_55433_session'',
     hv_java_string_hash = 1426748119, hv_murmur3_32_hash = 1180266786,
     hv_jsh_partitions = [0, 1, 1, 3, 6, 7, 7, 23, 19],
     hv_m3_partitions = [0, 0, 0, 2, 6, 2, 2, 34, 86]\<rparr>,
    \<lparr>hv_key = ''user_63352_session'',
     hv_java_string_hash = 1939074838, hv_murmur3_32_hash = 1363228801,
     hv_jsh_partitions = [0, 0, 1, 2, 1, 6, 6, 22, 38],
     hv_m3_partitions = [0, 1, 1, 1, 4, 1, 1, 1, 1]\<rparr>,
    \<lparr>hv_key = ''user_71271_session'',
     hv_java_string_hash = 303917909, hv_murmur3_32_hash = 1722790656,
     hv_jsh_partitions = [0, 1, 2, 1, 1, 5, 5, 21, 9],
     hv_m3_partitions = [0, 0, 0, 0, 6, 0, 0, 0, 56]\<rparr>,
    \<lparr>hv_key = ''user_79190_session'',
     hv_java_string_hash = 252991177, hv_murmur3_32_hash = 210815591,
     hv_jsh_partitions = [0, 1, 1, 1, 5, 1, 9, 9, 77],
     hv_m3_partitions = [0, 1, 2, 3, 0, 7, 7, 39, 91]\<rparr>,
    \<lparr>hv_key = ''user_87109_session'',
     hv_java_string_hash = 235339646, hv_murmur3_32_hash = 1731391401,
     hv_jsh_partitions = [0, 0, 2, 2, 3, 6, 14, 62, 46],
     hv_m3_partitions = [0, 1, 0, 1, 5, 1, 9, 41, 1]\<rparr>,
    \<lparr>hv_key = ''user_95028_session'',
     hv_java_string_hash = 747666365, hv_murmur3_32_hash = 640432155,
     hv_jsh_partitions = [0, 1, 2, 1, 5, 5, 13, 61, 65],
     hv_m3_partitions = [0, 1, 0, 3, 6, 3, 11, 27, 55]\<rparr>,
    \<lparr>hv_key = ''user_102947_session'',
     hv_java_string_hash = 49215732, hv_murmur3_32_hash = 24394160,
     hv_jsh_partitions = [0, 0, 0, 0, 6, 4, 4, 52, 32],
     hv_m3_partitions = [0, 0, 2, 0, 0, 0, 0, 48, 60]\<rparr>,
    \<lparr>hv_key = ''user_110866_session'',
     hv_java_string_hash = 561542451, hv_murmur3_32_hash = 6542026,
     hv_jsh_partitions = [0, 1, 0, 3, 1, 3, 3, 51, 51],
     hv_m3_partitions = [0, 0, 1, 2, 1, 2, 10, 10, 26]\<rparr>,
    \<lparr>hv_key = ''user_118785_session'',
     hv_java_string_hash = 510615719, hv_murmur3_32_hash = 1892815508,
     hv_jsh_partitions = [0, 1, 2, 3, 5, 7, 7, 39, 19],
     hv_m3_partitions = [0, 0, 2, 0, 3, 4, 4, 20, 8]\<rparr>,
    \<lparr>hv_key = ''order-2026-07-25T12:00:00Z'',
     hv_java_string_hash = 549218914, hv_murmur3_32_hash = 579019652,
     hv_jsh_partitions = [0, 0, 1, 2, 6, 2, 2, 34, 14],
     hv_m3_partitions = [0, 0, 2, 0, 1, 4, 4, 4, 52]\<rparr>,
    \<lparr>hv_key = ''tenant/namespace/entity#42'',
     hv_java_string_hash = 291088005, hv_murmur3_32_hash = 229809682,
     hv_jsh_partitions = [0, 1, 0, 1, 5, 5, 5, 5, 5],
     hv_m3_partitions = [0, 0, 1, 2, 4, 2, 2, 18, 82]\<rparr>,
    \<lparr>hv_key = ''00000000-0000-0000-0000-000000000000'',
     hv_java_string_hash = 1428967488, hv_murmur3_32_hash = 380169684,
     hv_jsh_partitions = [0, 0, 0, 0, 4, 0, 0, 0, 88],
     hv_m3_partitions = [0, 0, 0, 0, 6, 4, 4, 20, 84]\<rparr>,
    \<lparr>hv_key = ''f47ac10b-58cc-4372-a567-0e02b2c3d479'',
     hv_java_string_hash = 262464643, hv_murmur3_32_hash = 1281004297,
     hv_jsh_partitions = [0, 1, 1, 3, 0, 3, 3, 3, 43],
     hv_m3_partitions = [0, 1, 1, 1, 6, 1, 9, 9, 97]\<rparr>,
    \<lparr>hv_key = [CHR 0xD0, CHR 0xBA, CHR 0xD0, CHR 0xBB, CHR 0xD1, CHR 0x8E, CHR 0xD1, CHR 0x87],
     hv_java_string_hash = 33309882, hv_murmur3_32_hash = 442048578,
     hv_jsh_partitions = [0, 0, 0, 2, 4, 2, 10, 58, 82],
     hv_m3_partitions = [0, 0, 0, 2, 6, 2, 2, 2, 78]\<rparr>,
    \<lparr>hv_key = [CHR 0xE6, CHR 0x97, CHR 0xA5, CHR 0xE6, CHR 0x9C, CHR 0xAC, CHR 0xE8, CHR 0xAA, CHR 0x9E, CHR 0xE3, CHR 0x81, CHR 0xAE, CHR 0xE3, CHR 0x82, CHR 0xAD, CHR 0xE3, CHR 0x83, CHR 0xBC],
     hv_java_string_hash = 1306287590, hv_murmur3_32_hash = 909276598,
     hv_jsh_partitions = [0, 0, 2, 2, 6, 6, 6, 38, 90],
     hv_m3_partitions = [0, 0, 1, 2, 6, 6, 6, 54, 98]\<rparr>,
    \<lparr>hv_key = (''cl'' @ [CHR 0xC3, CHR 0xA9] @ ''-caf'' @ [CHR 0xC3, CHR 0xA9]),
     hv_java_string_hash = 225910318, hv_murmur3_32_hash = 980773995,
     hv_jsh_partitions = [0, 0, 1, 2, 4, 6, 14, 46, 18],
     hv_m3_partitions = [0, 1, 0, 3, 5, 3, 11, 43, 95]\<rparr>,
    \<lparr>hv_key = [CHR 0xF0, CHR 0x9F, CHR 0x98, CHR 0x80],
     hv_java_string_hash = 1772899, hv_murmur3_32_hash = 1051995898,
     hv_jsh_partitions = [0, 1, 1, 3, 2, 3, 3, 35, 99],
     hv_m3_partitions = [0, 0, 1, 2, 2, 2, 10, 58, 98]\<rparr>,
    \<lparr>hv_key = (''key-'' @ [CHR 0xF0, CHR 0x9F, CHR 0x9A, CHR 0x80] @ ''-suffix''),
     hv_java_string_hash = 1772672141, hv_murmur3_32_hash = 1817758228,
     hv_jsh_partitions = [0, 1, 2, 1, 2, 5, 13, 13, 41],
     hv_m3_partitions = [0, 0, 1, 0, 6, 4, 4, 20, 28]\<rparr>,
    \<lparr>hv_key = [CHR 0xF0, CHR 0x90, CHR 0x80, CHR 0x80, CHR 0xF0, CHR 0x90, CHR 0x80, CHR 0x80],
     hv_java_string_hash = 1703217152, hv_murmur3_32_hash = 202324994,
     hv_jsh_partitions = [0, 0, 2, 0, 0, 0, 0, 0, 52],
     hv_m3_partitions = [0, 0, 2, 2, 4, 2, 2, 2, 94]\<rparr>]"

definition long_key_vector :: hash_vector where
  "long_key_vector =
    \<lparr>hv_key = (''segment0-segment1-segment2-segment3-segment4-segment5-segment6-segment7-segment8-segment9-''
       @ ''segment10-segment11-segment12-segment13-segment14-segment15-segment16-segment17-segment18-''
       @ ''segment19-segment20-segment21-segment22-segment23-segment24-segment25-segment26-segment27-''
       @ ''segment28-segment29-segment30-segment31-segment32-segment33-segment34-segment35-segment36-''
       @ ''segment37-segment38-segment39-segment40-segment41-segment42-segment43-segment44-segment45-''
       @ ''segment46-segment47-segment48-segment49-segment50-segment51-segment52-segment53-segment54-''
       @ ''segment55-segment56-segment57-segment58-segment59-segment60-segment61-segment62-segment63-''
       @ ''segment64-segment65-segment66-segment67-segment68-segment69-segment70-segment71-segment72-''
       @ ''segment73-segment74-segment75-segment76-segment77-segment78-segment79-segment80-segment81-''
       @ ''segment82-segment83-segment84-segment85-segment86-segment87-segment88-segment89-segment90-''
       @ ''segment91-segment92-segment93-segment94-segment95-segment96-segment97-segment98-segment99-''),
     hv_java_string_hash = 1025076940, hv_murmur3_32_hash = 1331949527,
     hv_jsh_partitions = [0, 0, 1, 0, 6, 4, 12, 12, 40],
     hv_m3_partitions = [0, 1, 2, 3, 6, 7, 7, 23, 27]\<rparr>"

definition hash_vectors :: "hash_vector list" where
  "hash_vectors = hash_vectors_1 @ hash_vectors_2 @ hash_vectors_3 @ hash_vectors_4 @ hash_vectors_5 @ [long_key_vector]"

section \<open>They hold of the model\<close>

definition agrees :: "hash_vector \<Rightarrow> bool" where
  "agrees v \<longleftrightarrow> java_string_hash (hv_key v) = hv_java_string_hash v
     \<and> map (\<lambda>n. uint (hv_java_string_hash v) mod n) partition_counts = hv_jsh_partitions v
     \<and> map (\<lambda>n. uint (hv_murmur3_32_hash v) mod n) partition_counts = hv_m3_partitions v"

lemmas agrees_eval = agrees_def partition_counts_def java_string_hash_def encode_utf16_def chars_def i32_max_def

lemma vectors_agree_1: "list_all agrees hash_vectors_1"
  by (simp add: hash_vectors_1_def agrees_eval)

lemma vectors_agree_2: "list_all agrees hash_vectors_2"
  by (simp add: hash_vectors_2_def agrees_eval)

lemma vectors_agree_3: "list_all agrees hash_vectors_3"
  by (simp add: hash_vectors_3_def agrees_eval)

lemma vectors_agree_4: "list_all agrees hash_vectors_4"
  by (simp add: hash_vectors_4_def agrees_eval)

lemma vectors_agree_5: "list_all agrees hash_vectors_5"
  by (simp add: hash_vectors_5_def agrees_eval)

text \<open>The last key is long; its hash is computed part by part. An ASCII key is its own UTF-16 text.\<close>

definition ascii :: "char \<Rightarrow> bool" where
  "ascii c \<longleftrightarrow> (of_char c :: nat) < 128"

definition java_ascii :: "u32 \<Rightarrow> string \<Rightarrow> u32" where
  "java_ascii h s = foldl (\<lambda>h c. h * 31 + of_char c) h s"

lemma java_ascii_append: "java_ascii h (s @ t) = java_ascii (java_ascii h s) t"
  by (simp add: java_ascii_def)

lemma utf8_scalars_ascii: "list_all (\<lambda>a. a < 128) as \<Longrightarrow> utf8_scalars as = as"
  by (induction as) auto

lemma java_string_hash_ascii:
  assumes "list_all ascii key"
  shows "java_string_hash key = java_ascii 0 key AND i32_max"
proof -
  from assms have "chars key = map of_char key"
    by (simp add: chars_def utf8_scalars_ascii list_all_iff ascii_def)
  moreover have "concat (map (\<lambda>c. if c < 65536 then [of_nat c]
      else [of_nat (55296 + (c - 65536) div 1024), of_nat (56320 + (c - 65536) mod 1024)]) (map of_char key))
    = map (\<lambda>c. of_nat (of_char c) :: u16) key"
    using assms by (induction key) (auto simp: ascii_def)
  ultimately have "encode_utf16 key = map (\<lambda>c. of_nat (of_char c)) key"
    by (simp only: encode_utf16_def)
  moreover have "ucast (of_nat (of_char c) :: u16) = (of_char c :: u32)" if "ascii c" for c
  proof -
    have "ucast (of_nat (of_char c) :: u16) = (of_nat (of_char c) :: u32)"
      using that
      by (simp add: word_unat_eq_iff unsigned_ucast_eq ascii_def unat_of_nat take_bit_nat_eq_self)
    then show ?thesis by (simp only: of_nat_of_char)
  qed
  then have "foldl (\<lambda>h unit. h * 31 + ucast unit) h (map (\<lambda>c. of_nat (of_char c) :: u16) key)
      = foldl (\<lambda>h c. h * 31 + of_char c) h key" for h :: u32
    using assms by (induction key arbitrary: h) auto
  ultimately show ?thesis by (simp add: java_string_hash_def java_ascii_def)
qed

lemma long_part_1: "java_ascii (0) ''segment0-segment1-segment2-segment3-segment4-segment5-segment6-segment7-segment8-segment9-'' = 71913115"
  by (simp add: java_ascii_def)

lemma long_ascii_1: "list_all ascii ''segment0-segment1-segment2-segment3-segment4-segment5-segment6-segment7-segment8-segment9-''"
  by (simp add: ascii_def)

lemma long_part_2: "java_ascii (71913115) ''segment10-segment11-segment12-segment13-segment14-segment15-segment16-segment17-segment18-'' = 2474378730"
  by (simp add: java_ascii_def)

lemma long_ascii_2: "list_all ascii ''segment10-segment11-segment12-segment13-segment14-segment15-segment16-segment17-segment18-''"
  by (simp add: ascii_def)

lemma long_part_3: "java_ascii (2474378730) ''segment19-segment20-segment21-segment22-segment23-segment24-segment25-segment26-segment27-'' = 3435283104"
  by (simp add: java_ascii_def)

lemma long_ascii_3: "list_all ascii ''segment19-segment20-segment21-segment22-segment23-segment24-segment25-segment26-segment27-''"
  by (simp add: ascii_def)

lemma long_part_4: "java_ascii (3435283104) ''segment28-segment29-segment30-segment31-segment32-segment33-segment34-segment35-segment36-'' = 1324460093"
  by (simp add: java_ascii_def)

lemma long_ascii_4: "list_all ascii ''segment28-segment29-segment30-segment31-segment32-segment33-segment34-segment35-segment36-''"
  by (simp add: ascii_def)

lemma long_part_5: "java_ascii (1324460093) ''segment37-segment38-segment39-segment40-segment41-segment42-segment43-segment44-segment45-'' = 2374715969"
  by (simp add: java_ascii_def)

lemma long_ascii_5: "list_all ascii ''segment37-segment38-segment39-segment40-segment41-segment42-segment43-segment44-segment45-''"
  by (simp add: ascii_def)

lemma long_part_6: "java_ascii (2374715969) ''segment46-segment47-segment48-segment49-segment50-segment51-segment52-segment53-segment54-'' = 1100196908"
  by (simp add: java_ascii_def)

lemma long_ascii_6: "list_all ascii ''segment46-segment47-segment48-segment49-segment50-segment51-segment52-segment53-segment54-''"
  by (simp add: ascii_def)

lemma long_part_7: "java_ascii (1100196908) ''segment55-segment56-segment57-segment58-segment59-segment60-segment61-segment62-segment63-'' = 2708128126"
  by (simp add: java_ascii_def)

lemma long_ascii_7: "list_all ascii ''segment55-segment56-segment57-segment58-segment59-segment60-segment61-segment62-segment63-''"
  by (simp add: ascii_def)

lemma long_part_8: "java_ascii (2708128126) ''segment64-segment65-segment66-segment67-segment68-segment69-segment70-segment71-segment72-'' = 3752062391"
  by (simp add: java_ascii_def)

lemma long_ascii_8: "list_all ascii ''segment64-segment65-segment66-segment67-segment68-segment69-segment70-segment71-segment72-''"
  by (simp add: ascii_def)

lemma long_part_9: "java_ascii (3752062391) ''segment73-segment74-segment75-segment76-segment77-segment78-segment79-segment80-segment81-'' = 1893598295"
  by (simp add: java_ascii_def)

lemma long_ascii_9: "list_all ascii ''segment73-segment74-segment75-segment76-segment77-segment78-segment79-segment80-segment81-''"
  by (simp add: ascii_def)

lemma long_part_10: "java_ascii (1893598295) ''segment82-segment83-segment84-segment85-segment86-segment87-segment88-segment89-segment90-'' = 2560313566"
  by (simp add: java_ascii_def)

lemma long_ascii_10: "list_all ascii ''segment82-segment83-segment84-segment85-segment86-segment87-segment88-segment89-segment90-''"
  by (simp add: ascii_def)

lemma long_part_11: "java_ascii (2560313566) ''segment91-segment92-segment93-segment94-segment95-segment96-segment97-segment98-segment99-'' = 3172560588"
  by (simp add: java_ascii_def)

lemma long_ascii_11: "list_all ascii ''segment91-segment92-segment93-segment94-segment95-segment96-segment97-segment98-segment99-''"
  by (simp add: ascii_def)

lemma vectors_agree_long: "agrees long_key_vector"
proof -
  have "list_all ascii (hv_key long_key_vector)"
    unfolding long_key_vector_def hash_vector.simps list_all_append
    by (intro conjI long_ascii_1 long_ascii_2 long_ascii_3 long_ascii_4 long_ascii_5 long_ascii_6 long_ascii_7 long_ascii_8 long_ascii_9 long_ascii_10 long_ascii_11)
  moreover have "java_ascii 0 (hv_key long_key_vector) AND i32_max = hv_java_string_hash long_key_vector"
    unfolding long_key_vector_def hash_vector.simps java_ascii_append long_part_1 long_part_2 long_part_3 long_part_4 long_part_5 long_part_6 long_part_7 long_part_8 long_part_9 long_part_10 long_part_11
    by (simp add: i32_max_def)
  ultimately have "java_string_hash (hv_key long_key_vector) = hv_java_string_hash long_key_vector"
    by (simp only: java_string_hash_ascii)
  moreover have "map (\<lambda>n. uint (hv_java_string_hash long_key_vector) mod n) partition_counts
      = hv_jsh_partitions long_key_vector"
    "map (\<lambda>n. uint (hv_murmur3_32_hash long_key_vector) mod n) partition_counts
      = hv_m3_partitions long_key_vector"
    by (simp_all add: long_key_vector_def partition_counts_def)
  ultimately show ?thesis by (simp only: agrees_def simp_thms)
qed

text \<open>
  The model of \<open>java_string_hash\<close> gives the hash of the Java client for every golden key, the
  keys outside the basic plane included, and the modulo gives its partition for both hashes and
  every number of partitions.
\<close>

theorem golden_vectors_agree: "list_all agrees hash_vectors"
  by (simp add: hash_vectors_def vectors_agree_1 vectors_agree_2 vectors_agree_3 vectors_agree_4 vectors_agree_5
      vectors_agree_long)

text \<open>
  So the partition of each key is the one Java picks: under the Java hash outright, and under
  murmur3 if the crate computes the hashes of the vectors.
\<close>

theorem golden_keys_go_where_java_sends_them:
  assumes "v \<in> set hash_vectors" and "i < length partition_counts"
  shows "int (compute_partition_index_for_key m3 (hv_key v) (nat (partition_counts ! i)) JavaStringHash)
      = hv_jsh_partitions v ! i"
    and "murmur3_32_hash m3 (as_bytes (hv_key v)) = hv_murmur3_32_hash v \<Longrightarrow>
      int (compute_partition_index_for_key m3 (hv_key v) (nat (partition_counts ! i)) Murmur3_32Hash)
        = hv_m3_partitions v ! i"
proof -
  have "agrees v" using golden_vectors_agree assms(1) by (simp add: list_all_iff)
  then have hash: "java_string_hash (hv_key v) = hv_java_string_hash v"
    and jsh: "hv_jsh_partitions v = map (\<lambda>n. uint (hv_java_string_hash v) mod n) partition_counts"
    and m3: "hv_m3_partitions v = map (\<lambda>n. uint (hv_murmur3_32_hash v) mod n) partition_counts"
    by (simp_all only: agrees_def)
  have "0 < partition_counts ! i"
    using assms(2) nth_mem [OF assms(2)] by (auto simp: partition_counts_def)
  then have mod: "int (sign_safe_mod h (nat (partition_counts ! i))) = uint h mod (partition_counts ! i)" for h
    by (simp add: sign_safe_mod_def zmod_int)
  show "int (compute_partition_index_for_key m3 (hv_key v) (nat (partition_counts ! i)) JavaStringHash)
      = hv_jsh_partitions v ! i"
    unfolding jsh using assms(2) by (simp add: compute_partition_index_for_key_def mod hash)
  show "int (compute_partition_index_for_key m3 (hv_key v) (nat (partition_counts ! i)) Murmur3_32Hash)
        = hv_m3_partitions v ! i" if "murmur3_32_hash m3 (as_bytes (hv_key v)) = hv_murmur3_32_hash v"
    unfolding m3 using assms(2) that by (simp add: compute_partition_index_for_key_def mod)
qed

end
