(* ===== verification/Spec2Isabelle.thy ===== *)
theory Spec2Isabelle
  imports Prelude Errors Names Proto Options Routing Commands Frame Batch Receiver Connection
    Conn_Manager Retry Discovery Compress Engine Engine_Loop Sender Producer Request_Spec Consumer Multi_Consumer
    Admin Admin_Calls Admin_Topics Admin_Namespaces Admin_Topic_Policies Admin_Cluster
    Admin_Functions Serde Models_Policies Models_Stats Models_Services Auth Executor Transport
    Client Handles Error_Text Java_Vectors
begin

text \<open>
  A verification library for \<open>pulsar-rdg-rs\<close>, an asynchronous client of the Apache Pulsar
  message broker. Paths below are those of the repository, under \<open>src/src/\<close>.

  \<^bold>\<open>The program.\<close> A client (\<open>client.rs\<close>) owns a connection manager (\<open>connection_manager.rs\<close>),
  which keeps one connection per broker. A connection (\<open>connection.rs\<close>) is opened over TCP or
  TLS and is a group of tasks around one socket: the operations that number requests and queue
  commands (\<open>ConnectionSender\<close>), a writer that empties a control queue before a data queue, and
  the \<open>Receiver\<close>, which matches answers with waiting requests and passes messages to consumers.
  The codec of \<open>message.rs\<close> turns commands and payloads into frames. Service discovery
  (\<open>service_discovery.rs\<close>) finds the broker of a topic by asking over a connection, following
  redirects. A producer (\<open>producer.rs\<close>) routes a message to a partition, batches, compresses and
  sends it; creating it and subscribing are retried (\<open>retry_op.rs\<close>). A consumer's engine
  (\<open>consumer/engine.rs\<close>) owns a subscription: it grants the broker permits, unpacks batches,
  delivers messages, sends acknowledgements and redelivery requests and re-publishes exhausted
  messages to a dead letter topic; applications read from handles over one or many topics
  (\<open>consumer/\<close>, \<open>reader.rs\<close>). The admin client (\<open>admin/\<close>) calls the HTTP interface of the
  cluster with JSON documents (\<open>admin/models.rs\<close>). Both authenticate through providers
  (\<open>authentication/\<close>) and run on one of two runtimes (\<open>executor.rs\<close>).

  \<^bold>\<open>The theories.\<close> Each models the source files named in its own opening text.

  \<^item> \<open>Prelude\<close>: fixed-width integers, results and the question mark operator, big-endian layout.
  \<^item> \<open>Errors\<close>, \<open>Error_Text\<close>: the error enumerations, the slot a connection shares; the text and the
    cause of every error (\<open>error.rs\<close>).
  \<^item> \<open>Names\<close>: bytes of strings, decimal numbers, partition names.
  \<^item> \<open>Proto\<close>: the structs generated from \<open>PulsarApi.proto\<close>, as records with the defaults of the
    generator; enumerations are their numbers, with decoders.
  \<^item> \<open>Options\<close>: messages, keys, producer and consumer options.
  \<^item> \<open>Routing\<close>, \<open>Java_Vectors\<close>: the key hashes, the routing policies and the refresh of partitions;
    the golden vectors of the Java client, evaluated on the model.
  \<^item> \<open>Commands\<close>: request keys and every command builder of the module \<open>messages\<close>.
  \<^item> \<open>Frame\<close>: frames, their parsers, both codecs, messages inside a batch (\<open>message.rs\<close>).
  \<^item> \<open>Batch\<close>: the batching and sending tasks of a producer and the consumer's batch iterator.
  \<^item> \<open>Receiver\<close>, \<open>Request_Spec\<close>: the receiving task of a connection, and what it promises each
    request, an abstract cell per request key.
  \<^item> \<open>Executor\<close>, \<open>Connection\<close>, \<open>Transport\<close>: the adapters over the runtimes; every operation of
    \<open>ConnectionSender\<close>, the writer, the handshake, the choice among the addresses of a host;
    opening the plain or encrypted stream, and the task that keeps a connection alive.
  \<^item> \<open>Conn_Manager\<close>: back-off, and the connection table as a step relation over its critical
    sections.
  \<^item> \<open>Retry\<close>, \<open>Discovery\<close>: retried operations and lookups.
  \<^item> \<open>Compress\<close>: compression and decompression.
  \<^item> \<open>Sender\<close>, \<open>Producer\<close>: publishing one message with its reconnections; producers of one topic,
    of partitions and of many topics, their life cycle, builders and messages.
  \<^item> \<open>Engine\<close>, \<open>Engine_Loop\<close>: the consumer engine, first what it does with one payload, then its
    turns and runs.
  \<^item> \<open>Consumer\<close>, \<open>Multi_Consumer\<close>: the handles over one topic and over many, the reader, the builder.
  \<^item> \<open>Handles\<close>: operations of a whole handle, such as closing all partitions, sending a list of
    messages and listing connections, and the setters.
  \<^item> \<open>Client\<close>: the facade, its builder with the TLS options, and the task that sends for it.
  \<^item> \<open>Auth\<close>: the plain providers and the token cache of OAuth2.
  \<^item> \<open>Admin\<close>, \<open>Admin_Calls\<close>: names, percent-encoding, URLs, redirects, status codes; an operation as
    the call it makes. \<open>Admin_Topics\<close>, \<open>Admin_Namespaces\<close>, \<open>Admin_Topic_Policies\<close>,
    \<open>Admin_Cluster\<close>, \<open>Admin_Functions\<close>: the operations, a section per source file.
  \<^item> \<open>Serde\<close>, \<open>Models_Policies\<close>, \<open>Models_Stats\<close>, \<open>Models_Services\<close>: JSON values and what the serde
    attributes do with them; every document of \<open>admin/models.rs\<close> with its reader and writer.

  \<^bold>\<open>How code is represented.\<close> A struct is a record, an enumeration a datatype with the source's
  constructors, \<open>Result\<close> a sum with the error on the left, \<open>Option\<close> an option. Unsigned integers
  are words of their width; an \<open>i32\<close> or \<open>i64\<close> is an integer with its conversions written out, or
  a word read as signed in the JSON documents; a \<open>usize\<close> is a natural number where its bound
  plays no part. A \<open>String\<close> is the list of its UTF-8 bytes as characters. A \<open>HashMap\<close> is a map,
  or the list of its entries where the code iterates it. A channel is the list of what was put
  on it, or a number that names it. A panic is the value \<open>None\<close> of an outer option.

  An asynchronous function is modelled with the answers it awaits as arguments: what a remote
  call answered, whether the runtime spawned a task, which time the clock showed. A task that
  loops on \<open>select\<close> is a step function over its events (\<open>batch_step\<close>, \<open>receiver_step\<close>,
  \<open>engine_turn\<close>, \<open>client_step\<close>), a run folds it over the events that happened, and theorems
  quantify over every list of events. Loops that retry take the list of the answers of their
  attempts and return \<open>None\<close> when the list ends before the loop does; the termination theorems
  show how long a list always suffices (one more than the configured number of retries). The
  tasks that share the connection table are interleaved at the granularity of its lock: one step
  of \<open>mgr_step\<close> is one critical section of one task.

  Third-party code is a parameter: protobuf encoding and CRC32C (the record \<open>wire\<close>), Base64,
  Murmur3, the compression libraries (the record \<open>codecs\<close>), sockets, TLS and PEM (the record
  \<open>net_env\<close>), the HTTP client (\<open>http_env\<close>), URL parsing, the token endpoint and the clock
  (\<open>oauth_env\<close>), the text of JSON. What is assumed of them is named: \<open>wire_ok\<close>, \<open>single_ok\<close>,
  \<open>b64_inverse\<close>, \<open>codecs_invert\<close> state that decoding inverts encoding on the message at hand.
  What a serde attribute does is modelled after its documentation.

  \<^bold>\<open>Interfaces.\<close> \<open>framed_stream\<close> states what a decoder of one frame must satisfy for a stream cut
  into arbitrary chunks to be read back, and is interpreted for the tokio and the async-std
  codec. \<open>bounded_retry\<close> states a retry loop over attempts with a limit, and is interpreted for
  connecting, subscribing, creating a producer and the partition count. \<open>key_hash\<close> is what the
  router asks of a hash. \<open>observed_stream\<close> is a stream whose items are counted as they are
  returned, interpreted for the consumer of one topic, of many, the facade and the reader.
  \<open>auth_provider\<close> is what a connection asks of a provider. \<open>json_codec\<close>, \<open>json_value\<close> and
  \<open>json_body\<close> state what a document's reader and writer owe each other, that nothing set is
  written as null, and that nothing inside is; each document is an interpretation of the
  strongest of them it satisfies.

  \<^bold>\<open>What is shown.\<close> A theorem whose text starts with a label is a property of the program. Along the
  path of a message they are: a keyed message goes to the partition Java clients choose; batches
  respect their limits and their timer; sequence numbers increase; every message handed to a
  producer or to the client is answered once; frames are read back however the stream is cut, and
  a payload whose checksum is wrong is refused; an answer reaches the request it belongs to and
  no other, under pipelining, and the receiving task refines independent request cells; messages
  reach their consumer in order; a published batch is delivered in order, from the position asked
  for, and within the permits granted; exhausted messages go to the dead letter topic, redelivery
  asks for what is overdue and nothing else, and the engine stops only for a cause. About
  connections: a \<open>pulsar+ssl\<close> URL is served encrypted and verified as configured, or not at all;
  a connection from the table is to the address asked for; under every interleaving of callers
  nobody waits for a connection that nobody is making; lookups follow redirects to the broker
  named and give up at their limits. About handles: what is built covers every partition, stays
  well formed and is closed everywhere; an acknowledgement reaches the topic of its message; no
  topic with a message is starved; counters count; the last message is where \<open>has_message_available\<close>
  stops. About administration: tokens handed out were granted and are valid; redirects keep or
  drop method, body, query and credentials as they should; names cannot leave their place in a
  URL; the operations on a policy share its resource; peeking returns the head of a backlog;
  documents are read back as they were written and hold no null.

  Where the code falls short of its intent a theorem without a label shows it.
  In connections: \<open>unsolicited_close_producer_is_parked\<close>, \<open>slow_down_leaves_registration\<close>,
  \<open>concurrent_callers_both_connect\<close>, \<open>spawn_failure_strands_waiters\<close>,
  \<open>partition_count_has_no_deadline\<close>.
  In publishing: \<open>multi_close_misses_partitioned_topics\<close>, \<open>closed_unbatched_producer_still_sends\<close>,
  \<open>close_stops_at_a_refused_partition\<close>, \<open>message_builder_drops_the_key_of_its_content\<close>,
  \<open>send_all_forgets_what_it_sent\<close> (its counterpart over many topics does not:
  \<open>multi_send_all_reports_every_message\<close>), \<open>batching_producer_checks_its_first_connection\<close>.
  In consuming: \<open>cumulative_ack_leaves_earlier_ids\<close>, \<open>dead_letter_failure_skips_rest_of_batch\<close>,
  \<open>failed_resubscription_leaves_idle_engine\<close>, \<open>taken_error_makes_engine_spin\<close>,
  \<open>seek_keeps_the_read_position\<close>, \<open>nothing_available_at_the_last_position\<close>,
  \<open>start_inside_last_batch_is_not_available\<close>, \<open>topic_failures_are_not_reported\<close>,
  \<open>regex_consumers_share_a_number\<close>, \<open>reader_of_a_regex_panics\<close>,
  \<open>requested_and_matched_is_subscribed_twice\<close>, \<open>seek_forgets_topics_found_later\<close>.
  In administration: \<open>dropped_body_comes_back\<close>, \<open>some_names_are_not_encoded\<close>,
  \<open>a_batch_is_read_as_one_message\<close>, \<open>redacted_credentials_are_quoted\<close>, \<open>an_endless_token_panics\<close>,
  \<open>nan_rate_is_written_as_null\<close>, \<open>unset_function_state_is_null\<close>.
  In what errors say: \<open>partial_send_text_runs_together\<close>, \<open>io_and_batch_print_as_connection\<close>,
  \<open>decompression_has_no_cause\<close>.

  \<^bold>\<open>What is not modelled.\<close> Tests, test helpers and examples; logging and telemetry, which do not
  change what the code does (but for one trace whose argument can overflow); the text of JSON and
  the derive macros of serde; the messages of the protocol that the client neither builds nor
  reads, such as those of transactions; conversions between types that only wrap a value, and
  accessors that only return a field, which are the constructor and the field. The consumer's
  regular expression and the application's serialization are arguments. The step relation of the
  connection table assumes that the runtime spawns the keepalive task;
  \<open>spawn_failed_section\<close> is the branch where it does not.
\<close>

section \<open>The policies of namespaces and topics\<close>



section \<open>Request bodies\<close>


definition example_isolation :: namespace_isolation_data where
  "example_isolation = namespace_isolation_data_default\<lparr>
     namespace_isolation_data_auto_failover_policy := Some \<lparr>auto_failover_policy_data_policy_type = Some ''min_available'',
       auto_failover_policy_data_parameters = [(''min_limit'', ''1''), (''usage_threshold'', ''80'')]\<rparr>\<rparr>"

definition example_persistence :: persistence_policies where
  "example_persistence = persistence_policies_default\<lparr>
     persistence_policies_managed_ledger_max_mark_delete_rate := f64_of_int 2\<rparr>"

lemma example_rates_finite: "is_finite (f64_of_int 2)" "is_finite (F64 0)"
  by code_simp+

lemma example_bodies_good:
  "tenant_info_good (tenant_info_with_clusters [''east''])"
  "failure_domain_good (failure_domain_default\<lparr>failure_domain_brokers := [''b1'', ''b2'']\<rparr>)"
  "namespace_isolation_data_good example_isolation"
  "resource_quota_good resource_quota_default"
  "persistence_policies_good example_persistence"
  "delayed_delivery_policies_good delayed_delivery_policies_default"
  "auto_scale_policy_override_good auto_scale_policy_override_default"
  "offload_policies_good offload_policies_default"
  "post_schema_payload_good post_schema_payload_default"
  "package_metadata_good package_metadata_default"
  "grant_topic_permission_options_good grant_topic_permission_options_default"
proof -
  show "tenant_info_good (tenant_info_with_clusters [''east''])" by (rule tenant_info_with_clusters_good)
  show "failure_domain_good (failure_domain_default\<lparr>failure_domain_brokers := [''b1'', ''b2'']\<rparr>)"
    by code_simp
  show "namespace_isolation_data_good example_isolation"
    by (simp add: namespace_isolation_data_good_def example_isolation_def auto_failover_policy_data_good_def
        entries_good_def less_char_def)
qed (simp_all add: example_rates_finite resource_quota_good_def resource_quota_default_def persistence_policies_good_def
    example_persistence_def delayed_delivery_policies_good_def delayed_delivery_policies_default_def
    auto_scale_policy_override_good_def auto_scale_policy_override_default_def offload_policies_good_def
    offload_policies_default_def post_schema_payload_good_def post_schema_payload_default_def
    package_metadata_good_def package_metadata_default_def grant_topic_permission_options_good_def
    grant_topic_permission_options_default_def entries_good_def elements_good_def)


end
